(* ===== verification/Prelude.thy ===== *)
theory Prelude
  imports Complex_Main "HOL-Library.AList"
begin

text \<open>
  Shared material of the development.

  JavaScript values: a parsed JSON document is a \<open>json\<close>; reading a property gives an
  \<open>option\<close> whose \<open>None\<close> is \<open>undefined\<close>.  A \<open>Map\<close> that the code iterates is an
  association list in insertion order (\<open>AList.update\<close> keeps the position of an existing key
  and appends a new one, as \<open>Map.set\<close> does); a \<open>Set\<close> is a list without duplicates in
  insertion order.  Both are used where iteration order or \<open>size\<close> is observable.

  The generic lemmas on such maps, sets and on left folds are used by every component that
  keeps a registry of objects.
\<close>

section \<open>Named collections of facts\<close>

named_theorems frame_simps \<open>fields an operation leaves alone\<close>
named_theorems inv_intros \<open>operations that keep a component invariant\<close>
named_theorems tx_simps \<open>unfolding of transaction combinators\<close>

section \<open>JSON values\<close>

text \<open>Object members are listed once per key, as \<open>JSON.parse\<close> leaves them.\<close>

datatype json =
    JNull
  | JBool bool
  | JNum int
  | JStr string
  | JArr "json list"
  | JObj "(string \<times> json) list"

text \<open>\<open>v.k\<close>: \<open>None\<close> is \<open>undefined\<close>.\<close>

fun jget :: "json \<Rightarrow> string \<Rightarrow> json option" where
  "jget (JObj kvs) k = map_of kvs k"
| "jget _ k = None"

text \<open>\<open>typeof v === 'object'\<close> together with \<open>v\<close> being truthy, i.e. not \<open>null\<close>.\<close>

fun is_object :: "json \<Rightarrow> bool" where
  "is_object (JObj _) = True"
| "is_object (JArr _) = True"
| "is_object _ = False"

text \<open>\<open>typeof v === 'string' && v.length > 0\<close>, with the string.\<close>

fun nonempty_str :: "json option \<Rightarrow> string option" where
  "nonempty_str (Some (JStr s)) = (if s = [] then None else Some s)"
| "nonempty_str _ = None"

lemma nonempty_str_Some: "nonempty_str v = Some s \<longleftrightarrow> v = Some (JStr s) \<and> s \<noteq> []"
  by (cases v rule: nonempty_str.cases) auto

text \<open>Truthiness of any value.\<close>

fun truthy :: "json option \<Rightarrow> bool" where
  "truthy None = False"
| "truthy (Some JNull) = False"
| "truthy (Some (JBool b)) = b"
| "truthy (Some (JNum n)) = (n \<noteq> 0)"
| "truthy (Some (JStr s)) = (s \<noteq> [])"
| "truthy (Some _) = True"

text \<open>Truthiness of an optional string: \<open>null\<close>, \<open>undefined\<close> and the empty string are falsy.\<close>

fun truthy_str :: "string option \<Rightarrow> bool" where
  "truthy_str None = False"
| "truthy_str (Some s) = (s \<noteq> [])"

lemma truthy_str_iff: "truthy_str v \<longleftrightarrow> (\<exists>s. v = Some s \<and> s \<noteq> [])"
  by (cases v) auto

section \<open>Strings\<close>

text \<open>\<open>s.startsWith(p)\<close>.\<close>

definition starts_with :: "string \<Rightarrow> string \<Rightarrow> bool" where
  "starts_with p s \<longleftrightarrow> take (length p) s = p"

lemma starts_with_iff: "starts_with p s \<longleftrightarrow> (\<exists>t. s = p @ t)"
proof
  assume "starts_with p s"
  then have "s = p @ drop (length p) s"
    unfolding starts_with_def by (metis append_take_drop_id)
  then show "\<exists>t. s = p @ t" ..
next
  assume "\<exists>t. s = p @ t"
  then show "starts_with p s" by (auto simp: starts_with_def)
qed

section \<open>Numbers\<close>

text \<open>
  \<open>Math.round\<close> rounds half up.  Arithmetic on doubles is exact arithmetic followed by a rounding
  \<open>rnd\<close>; what is needed of it is that it is monotone and leaves the small multiples of a
  quarter alone, which IEEE 754 guarantees.
\<close>

definition js_round :: "rat \<Rightarrow> int" where
  "js_round x = \<lfloor>x + 1 / 2\<rfloor>"

definition double_ok :: "(rat \<Rightarrow> rat) \<Rightarrow> bool" where
  "double_ok rnd \<longleftrightarrow> mono rnd \<and> (\<forall>n. \<bar>n\<bar> < 2 ^ 53 \<longrightarrow> rnd (of_int n / 4) = of_int n / 4)"

lemma js_round_mono: "x \<le> y \<Longrightarrow> js_round x \<le> js_round y"
  by (simp add: js_round_def floor_mono)

lemma js_round_of_int [simp]: "js_round (of_int n) = n"
proof -
  have "\<lfloor>of_int n + 1 / 2 :: rat\<rfloor> = n" by (rule floor_unique) simp_all
  then show ?thesis by (simp add: js_round_def)
qed

lemma double_ok_id [simp]: "double_ok (\<lambda>x. x)"
  by (simp add: double_ok_def mono_def)

text \<open>\<open>Number(v)\<close> ; \<open>None\<close> is \<open>NaN\<close>.  A string counts when it is written in digits.\<close>

definition digits_value :: "string \<Rightarrow> nat" where
  "digits_value s = fold (\<lambda>c n. 10 * n + (of_char c - 48)) s 0"

fun to_number :: "json \<Rightarrow> int option" where
  "to_number (JNum n) = Some n"
| "to_number (JBool b) = Some (if b then 1 else 0)"
| "to_number (JStr s) =
     (if \<forall>c \<in> set s. 48 \<le> (of_char c :: nat) \<and> (of_char c :: nat) \<le> 57 then Some (int (digits_value s)) else None)"
| "to_number JNull = Some 0"
| "to_number _ = None"

section \<open>Sets in insertion order\<close>

definition set_add :: "'a \<Rightarrow> 'a list \<Rightarrow> 'a list" where
  "set_add x xs = (if x \<in> set xs then xs else xs @ [x])"

definition set_del :: "'a \<Rightarrow> 'a list \<Rightarrow> 'a list" where
  "set_del x xs = removeAll x xs"

lemma set_set_add [simp]: "set (set_add x xs) = insert x (set xs)"
  by (auto simp: set_add_def)

lemma distinct_set_add [simp]: "distinct (set_add x xs) = distinct xs"
  by (auto simp: set_add_def)

lemma set_set_del [simp]: "set (set_del x xs) = set xs - {x}"
  by (simp add: set_del_def)

lemma distinct_set_del [simp]: "distinct xs \<Longrightarrow> distinct (set_del x xs)"
  by (simp add: set_del_def distinct_removeAll)

lemma length_set_del_le: "length (set_del x xs) \<le> length xs"
  by (simp add: set_del_def)

lemma set_del_id [simp]: "x \<notin> set xs \<Longrightarrow> set_del x xs = xs"
  by (simp add: set_del_def removeAll_id)

lemma set_del_Nil [simp]: "set_del x [] = []"
  by (simp add: set_del_def)

section \<open>Maps in insertion order\<close>

text \<open>Lookups stay lookups: the library's rewriting to membership is used on demand only.\<close>

declare map_of_eq_Some_iff [simp del]
declare Some_eq_map_of_iff [simp del]

text \<open>Membership in an association list with distinct keys is lookup.\<close>

lemma map_of_distinct_iff:
  "distinct (map fst al) \<Longrightarrow> map_of al k = Some v \<longleftrightarrow> (k, v) \<in> set al"
  by (rule map_of_eq_Some_iff)

lemma map_of_delete [simp]: "map_of (AList.delete k al) k' = (if k' = k then None else map_of al k')"
  by (auto simp: delete_conv')

lemma map_of_update [simp]:
  "map_of (AList.update k v al) k' = (if k' = k then Some v else map_of al k')"
  by (auto simp: update_conv')

lemma distinct_update_keys [simp]:
  "distinct (map fst al) \<Longrightarrow> distinct (map fst (AList.update k v al))"
  by (rule distinct_update)

lemma distinct_delete_keys [simp]:
  "distinct (map fst al) \<Longrightarrow> distinct (map fst (AList.delete k al))"
  by (rule distinct_delete)

text \<open>All values of a map of lists, in iteration order.\<close>

definition all_vals :: "('k \<times> 'a list) list \<Rightarrow> 'a list" where
  "all_vals al = concat (map snd al)"

lemma in_all_vals:
  "distinct (map fst al) \<Longrightarrow> x \<in> set (all_vals al) \<longleftrightarrow> (\<exists>k xs. map_of al k = Some xs \<and> x \<in> set xs)"
  by (force simp: all_vals_def map_of_distinct_iff)

lemma all_vals_Nil [simp]: "all_vals [] = []"
  by (simp add: all_vals_def)

section \<open>Folds\<close>

text \<open>An invariant of every step is an invariant of the fold.\<close>

lemma fold_invariant_pred:
  assumes "P s" and "\<And>x s. x \<in> set xs \<Longrightarrow> P s \<Longrightarrow> P (f x s)"
  shows "P (fold f xs s)"
  using assms by (induction xs arbitrary: s) auto

lemma fold_frame:
  assumes "\<And>x s. x \<in> set xs \<Longrightarrow> h (f x s) = h s"
  shows "h (fold f xs s) = h s"
  using assms by (induction xs arbitrary: s) auto

end
