(* ===== verification/Realtime_Types.thy ===== *)
theory Realtime_Types
  imports Prelude
begin

text \<open>
  \<open>src/realtime/realtime.types.ts\<close>: the wire protocol of the realtime gateway (frames, close
  codes, events, options) and the parts of the \<open>ws\<close> socket object the gateway touches.
\<close>

section \<open>Constants\<close>

definition REALTIME_PATH :: string where
  "REALTIME_PATH = ''/v1/realtime''"

definition CALL_EVENTS_CHANNEL :: string where
  "CALL_EVENTS_CHANNEL = ''call_events''"

datatype closeCode = GOING_AWAY | UNAVAILABLE | PROTOCOL | UNAUTHORIZED | AUTH_TIMEOUT | EVICTED

fun CloseCode :: "closeCode \<Rightarrow> nat" where
  "CloseCode GOING_AWAY = 1001"
| "CloseCode UNAVAILABLE = 1013"
| "CloseCode PROTOCOL = 4400"
| "CloseCode UNAUTHORIZED = 4401"
| "CloseCode AUTH_TIMEOUT = 4408"
| "CloseCode EVICTED = 4429"

section \<open>Messages and events\<close>

datatype endedByRole = FAN | PARTNER | ADMIN

record callChangedMessage =
  msg_callId :: string
  msg_bookingId :: string
  msg_status :: string
  msg_endedByRole :: "endedByRole option"

datatype serverMessage =
    Ready nat int
  | Ping
  | Resync
  | CallChanged callChangedMessage

text \<open>\<open>CallChangedEvent extends CallChangedMessage\<close> by the two routing fields.\<close>

record callChangedEvent = callChangedMessage +
  ev_fanId :: string
  ev_partnerId :: string

section \<open>Options\<close>

record realtimeOptions =
  authTimeoutMs :: int
  pingIntervalMs :: int
  maxPerUser :: nat
  maxPending :: nat
  maxPayloadBytes :: nat
  maxBufferedBytes :: nat

definition DEFAULT_REALTIME_OPTIONS :: realtimeOptions where
  "DEFAULT_REALTIME_OPTIONS = \<lparr>
     authTimeoutMs = 5000,
     pingIntervalMs = 25000,
     maxPerUser = 5,
     maxPending = 200,
     maxPayloadBytes = 8 * 1024,
     maxBufferedBytes = 256 * 1024\<rparr>"

section \<open>The verified token and the verifier seam\<close>

text \<open>\<open>VerifiedToken\<close> of \<open>auth/jwt.guard.ts\<close>: the subject and its expiry in epoch seconds.\<close>

record verifiedToken =
  vt_id :: string
  vt_email :: "string option"
  vt_exp :: "int option"

text \<open>
  \<open>TokenVerifier.verify\<close> resolves with a verified token or rejects with an error whose message
  is the \<open>string\<close>.  The gateway tests \<open>conn.userId\<close> for truthiness, so it relies on the
  verifier never resolving with an empty subject: that is the law of the interface.
\<close>

type_synonym verifier = "string \<Rightarrow> string + verifiedToken"

locale token_verifier =
  fixes verify :: verifier
  assumes verified_id_nonempty: "verify t = Inr v \<Longrightarrow> vt_id v \<noteq> []"

section \<open>The socket objects of the \<open>ws\<close> package\<close>

datatype readyState = WsConnecting | WsOpen | WsClosing | WsClosed

text \<open>
  What \<open>ws.close(code, reason)\<close> and \<open>ws.terminate()\<close> do to \<open>readyState\<close> is the
  package's business: it is a parameter.  \<open>close\<close> may throw (\<open>None\<close>).  The documented
  behaviour the gateway relies on is that a socket is no longer open after either call.
\<close>

record ws_lib =
  lib_close :: "readyState \<Rightarrow> nat \<Rightarrow> string \<Rightarrow> readyState option"
  lib_terminate :: "readyState \<Rightarrow> readyState"

definition ws_ok :: "ws_lib \<Rightarrow> bool" where
  "ws_ok L \<longleftrightarrow>
     (\<forall>rs code reason rs'. lib_close L rs code reason = Some rs' \<longrightarrow> rs' \<noteq> WsOpen) \<and>
     (\<forall>rs. lib_terminate L rs \<noteq> WsOpen)"

lemma ws_ok_close: "ws_ok L \<Longrightarrow> lib_close L rs code reason = Some rs' \<Longrightarrow> rs' \<noteq> WsOpen"
  by (auto simp: ws_ok_def)

lemma ws_ok_terminate: "ws_ok L \<Longrightarrow> lib_terminate L rs \<noteq> WsOpen"
  by (auto simp: ws_ok_def)

text \<open>The behaviour RFC 6455 prescribes, as a concrete instance for the witnesses.\<close>

definition ws_std :: ws_lib where
  "ws_std = \<lparr>
     lib_close = (\<lambda>rs code reason. Some (if rs = WsClosed then WsClosed else WsClosing)),
     lib_terminate = (\<lambda>rs. if rs = WsClosed then WsClosed else WsClosing)\<rparr>"

lemma ws_std_ok [simp]: "ws_ok ws_std"
  by (auto simp: ws_ok_def ws_std_def split: if_splits)

end
