(* ===== verification/Jwt_Guard.thy ===== *)
theory Jwt_Guard
  imports Realtime_Types
begin

text \<open>
  \<open>src/auth/jwt.guard.ts\<close>: the one place a token is trusted.  \<open>jwtVerify\<close> of the \<open>jose\<close>
  package is a parameter \<open>jose\<close>: it maps a token (checked against the configured key set,
  issuer and audience) to a payload or to an error with an optional \<open>code\<close>.

  The configuration is a function from variable names to optional strings, as
  \<open>ConfigService.get\<close> is.
\<close>

record jwtPayload =
  pl_sub :: "string option"
  pl_email :: "string option"
  pl_exp :: "int option"

text \<open>The exceptions of the guard: \<open>UnauthorizedException\<close> with its message.\<close>

type_synonym jose = "string \<Rightarrow> string option + jwtPayload"

section \<open>Construction\<close>

record jwtGuard =
  jwks :: string
  issuer :: string
  audience :: string

definition new_JwtGuard :: "(string \<Rightarrow> string option) \<Rightarrow> string + jwtGuard" where
  "new_JwtGuard config =
     (let jwksUrl = config ''AUTH_JWKS_URL'';
          iss = config ''AUTH_ISSUER'';
          aud = config ''AUTH_AUDIENCE''
      in if \<not> truthy_str jwksUrl \<or> \<not> truthy_str iss \<or> \<not> truthy_str aud
         then Inl ''AUTH_JWKS_URL, AUTH_ISSUER, and AUTH_AUDIENCE must be configured''
         else Inr \<lparr>jwks = the jwksUrl, issuer = the iss, audience = the aud\<rparr>)"

section \<open>Verification\<close>

text \<open>\<open>describe\<close>: the message for a caught error, chosen by its \<open>code\<close>.\<close>

definition describe :: "string option \<Rightarrow> string" where
  "describe code =
     (if code = Some ''ERR_JWT_EXPIRED'' then ''Token expired''
      else if code = Some ''ERR_JWS_SIGNATURE_VERIFICATION_FAILED'' then ''Token signature invalid''
      else if code = Some ''ERR_JWT_CLAIM_VALIDATION_FAILED''
        then ''Token claims invalid (wrong issuer/audience)''
      else if code \<in> {Some ''ERR_JWKS_TIMEOUT'', Some ''ERR_JWKS_NO_MATCHING_KEY'',
                      Some ''ERR_JWKS_MULTIPLE_MATCHING_KEYS''}
        then ''Unable to verify token (key service unreachable)''
      else ''Invalid token'')"

text \<open>
  \<open>toUser\<close> throws \<open>UnauthorizedException('Token has no subject')\<close> when \<open>sub\<close> is falsy.
  The exception carries no \<open>code\<close>; the \<open>Inl\<close> holds its message.
\<close>

definition toUser :: "jwtPayload \<Rightarrow> string + (string \<times> string option)" where
  "toUser p =
     (if truthy_str (pl_sub p) then Inr (the (pl_sub p), pl_email p)
      else Inl ''Token has no subject'')"

text \<open>
  The whole body of \<open>verify\<close>, the call of \<open>toUser\<close> included, is inside one \<open>try\<close>: an
  exception of \<open>toUser\<close> is caught by the same \<open>catch\<close> and described again, by its missing
  code.
\<close>

definition verify :: "jose \<Rightarrow> string \<Rightarrow> string + verifiedToken" where
  "verify jose token =
     (case jose token of
        Inl code \<Rightarrow> Inl (describe code)
      | Inr payload \<Rightarrow>
          (case toUser payload of
             Inl msg \<Rightarrow> Inl (describe None)
           | Inr (uid, email) \<Rightarrow> Inr \<lparr>vt_id = uid, vt_email = email, vt_exp = pl_exp payload\<rparr>))"

text \<open>
  \<open>canActivate\<close>: \<open>auth\<close> is the \<open>authorization\<close> header.  On success the request's
  \<open>user\<close> is the pair of id and email.
\<close>

definition canActivate :: "jose \<Rightarrow> string option \<Rightarrow> string + (string \<times> string option)" where
  "canActivate jose auth =
     (case auth of
        None \<Rightarrow> Inl ''Missing bearer token''
      | Some a \<Rightarrow>
          if \<not> starts_with ''Bearer '' a then Inl ''Missing bearer token''
          else (case verify jose (drop 7 a) of
                  Inl msg \<Rightarrow> Inl msg
                | Inr v \<Rightarrow> Inr (vt_id v, vt_email v)))"

section \<open>What the guard guarantees\<close>

lemma toUser_Inr: "toUser p = Inr (u, e) \<Longrightarrow> pl_sub p = Some u \<and> u \<noteq> [] \<and> e = pl_email p"
  by (cases "pl_sub p") (auto simp: toUser_def split: if_splits)

lemma toUser_Inl: "toUser p = Inl m \<longleftrightarrow> \<not> truthy_str (pl_sub p) \<and> m = ''Token has no subject''"
  by (auto simp: toUser_def)

lemma verify_Inr_iff:
  "verify jose t = Inr v \<longleftrightarrow>
     (\<exists>p. jose t = Inr p \<and> pl_sub p = Some (vt_id v) \<and> vt_id v \<noteq> [] \<and>
          vt_email v = pl_email p \<and> vt_exp v = pl_exp p)"
  by (cases "jose t"; cases v)
    (auto simp: verify_def toUser_def truthy_str_iff split: sum.splits if_splits)

interpretation jwt: token_verifier "verify jose" for jose
  by unfold_locales (auto simp: verify_Inr_iff)


end
