(* ===== verification/Realtime_Gateway.thy ===== *)
theory Realtime_Gateway
  imports Realtime_Types Jwt_Guard
begin

text \<open>
  \<open>src/realtime/realtime.gateway.ts\<close>: the socket server.

  A \<open>Conn\<close> object is shared between the registry and pending callbacks, so connections live
  in a store: an identity (the order of creation) maps to the object.  \<open>byUser\<close> is the
  \<open>Map\<close> of \<open>Set\<close>s in insertion order, \<open>pending\<close> the \<open>Set\<close> of connections that
  have not authenticated, \<open>inflight\<close> the calls of \<open>authenticate\<close> suspended at
  \<open>await this.verifier.verify(token)\<close>.  Every effect on the outside is appended to \<open>trail\<close>.
  Frames are kept as values; their JSON text is not.

  Times are in milliseconds.  A handler runs to completion before another event is handled; the
  events and the moves of the peers are the rules of the step relation.
\<close>

section \<open>State\<close>

record conn =
  readyState :: readyState
  bufferedAmount :: nat
  userId :: "string option"
  expiresAtMs :: int
  lastSeenMs :: int
  authTimer :: bool
  verifying :: bool
  conn_closed :: bool

datatype gw_effect =
    Sent nat serverMessage
  | WsClose nat nat string
  | WsTerminate nat
  | Http503
  | SocketDestroyed
  | HandshakeStarted
  | SourceStart
  | UnhandledRejection

record gateway =
  opts :: realtimeOptions
  enabled :: bool
  conns :: "nat \<Rightarrow> conn"
  nconns :: nat
  byUser :: "(string \<times> nat list) list"
  pending :: "nat list"
  inflight :: "(nat \<times> string) list"
  attached :: bool
  heartbeat :: bool
  gw_healthy :: bool
  accepted :: nat
  refused :: nat
  eventsIn :: nat
  eventsDelivered :: nat
  trail :: "gw_effect list"

definition NO_EXPIRY_CAP_MS :: int where
  "NO_EXPIRY_CAP_MS = 60 * 60 * 1000"

text \<open>The constructor: options are given, everything else is empty.\<close>

definition no_conn :: conn where
  "no_conn = \<lparr>readyState = WsClosed, bufferedAmount = 0, userId = None, expiresAtMs = 0,
     lastSeenMs = 0, authTimer = False, verifying = False, conn_closed = True\<rparr>"

definition new_gateway :: "realtimeOptions \<Rightarrow> bool \<Rightarrow> gateway" where
  "new_gateway os en = \<lparr>opts = os, enabled = en, conns = (\<lambda>_. no_conn), nconns = 0,
     byUser = [], pending = [], inflight = [], attached = False, heartbeat = False,
     gw_healthy = False, accepted = 0, refused = 0, eventsIn = 0, eventsDelivered = 0, trail = []\<rparr>"

definition effect :: "gw_effect \<Rightarrow> gateway \<Rightarrow> gateway" where
  "effect x g = g\<lparr>trail := trail g @ [x]\<rparr>"

definition upd_conn :: "nat \<Rightarrow> (conn \<Rightarrow> conn) \<Rightarrow> gateway \<Rightarrow> gateway" where
  "upd_conn c f g = g\<lparr>conns := (conns g)(c := f (conns g c))\<rparr>"

section \<open>Closing, terminating, sending\<close>

definition terminate :: "ws_lib \<Rightarrow> nat \<Rightarrow> gateway \<Rightarrow> gateway" where
  "terminate L c g =
     effect (WsTerminate c) (upd_conn c (\<lambda>k. k\<lparr>readyState := lib_terminate L (readyState k)\<rparr>) g)"

text \<open>\<open>close\<close>: a no-op once the \<open>'close'\<close> event has been seen; the reason is cut to 100.\<close>

definition close :: "ws_lib \<Rightarrow> nat \<Rightarrow> closeCode \<Rightarrow> string \<Rightarrow> gateway \<Rightarrow> gateway" where
  "close L c code reason g =
     (if conn_closed (conns g c) then g
      else case lib_close L (readyState (conns g c)) (CloseCode code) (take 100 reason) of
             Some rs \<Rightarrow>
               effect (WsClose c (CloseCode code) (take 100 reason))
                 (upd_conn c (\<lambda>k. k\<lparr>readyState := rs\<rparr>) g)
           | None \<Rightarrow> terminate L c g)"

definition send :: "ws_lib \<Rightarrow> nat \<Rightarrow> serverMessage \<Rightarrow> gateway \<Rightarrow> bool \<times> gateway" where
  "send L c frame g =
     (if readyState (conns g c) \<noteq> WsOpen then (False, g)
      else if bufferedAmount (conns g c) > maxBufferedBytes (opts g) then (False, terminate L c g)
      else (True, effect (Sent c frame) g))"

definition allConns :: "gateway \<Rightarrow> nat list" where
  "allConns g = pending g @ all_vals (byUser g)"

definition closeAll :: "ws_lib \<Rightarrow> closeCode \<Rightarrow> string \<Rightarrow> gateway \<Rightarrow> gateway" where
  "closeAll L code reason g = fold (\<lambda>c. close L c code reason) (allConns g) g"

section \<open>Handshake\<close>

definition onConnection :: "int \<Rightarrow> gateway \<Rightarrow> gateway" where
  "onConnection now g =
     (let c = nconns g;
          k = \<lparr>readyState = WsOpen, bufferedAmount = 0, userId = None, expiresAtMs = 0,
               lastSeenMs = now, authTimer = True, verifying = False, conn_closed = False\<rparr>
      in g\<lparr>conns := (conns g)(c := k), nconns := Suc c, pending := set_add c (pending g),
           accepted := Suc (accepted g)\<rparr>)"

text \<open>
  \<open>onUpgrade\<close>: \<open>url\<close> is \<open>req.url\<close>, \<open>listeners\<close> is \<open>listenerCount('upgrade')\<close>,
  \<open>handshake\<close> tells whether \<open>wss.handleUpgrade\<close> of the \<open>ws\<close> package completes the
  handshake and calls back.
\<close>

definition onUpgrade :: "string option \<Rightarrow> nat \<Rightarrow> bool \<Rightarrow> int \<Rightarrow> gateway \<Rightarrow> gateway" where
  "onUpgrade url listeners handshake now g =
     (let path = takeWhile (\<lambda>ch. ch \<noteq> CHR ''?'') (case url of None \<Rightarrow> '''' | Some u \<Rightarrow> u)
      in if path \<noteq> REALTIME_PATH then
           (if attached g \<and> listeners = 1 then effect SocketDestroyed g else g)
         else if \<not> enabled g \<or> \<not> gw_healthy g \<or> length (pending g) \<ge> maxPending (opts g) then
           effect Http503 (g\<lparr>refused := Suc (refused g)\<rparr>)
         else if handshake then onConnection now (effect HandshakeStarted g)
         else effect HandshakeStarted g)"

section \<open>Authentication\<close>

text \<open>The part of \<open>authenticate\<close> before its \<open>await\<close>; \<open>token\<close> is \<open>msg.token\<close>.\<close>

definition authenticate :: "ws_lib \<Rightarrow> nat \<Rightarrow> json option \<Rightarrow> gateway \<Rightarrow> gateway" where
  "authenticate L c token g =
     (case nonempty_str token of
        None \<Rightarrow> close L c UNAUTHORIZED ''missing_token'' g
      | Some t \<Rightarrow> (upd_conn c (\<lambda>k. k\<lparr>verifying := True\<rparr>) g)\<lparr>inflight := inflight g @ [(c, t)]\<rparr>)"

text \<open>
  \<open>while (set.size >= maxPerUser)\<close>: the oldest connection is taken out of the set and closed.
  \<open>Inl\<close> is the \<open>TypeError\<close> of \<open>this.close(undefined)\<close> when the set is empty and the
  limit is 0.
\<close>

fun evict :: "ws_lib \<Rightarrow> nat \<Rightarrow> nat list \<Rightarrow> gateway \<Rightarrow> gateway + (nat list \<times> gateway)" where
  "evict L m [] g = (if m = 0 then Inl g else Inr ([], g))"
| "evict L m (oldest # s) g =
     (if length (oldest # s) \<ge> m
      then evict L m s (close L oldest EVICTED ''too_many_connections'' g)
      else Inr (oldest # s, g))"

text \<open>The rest of \<open>authenticate\<close>, run when the verifier has settled with \<open>r\<close>.\<close>

definition authenticated :: "ws_lib \<Rightarrow> nat \<Rightarrow> string + verifiedToken \<Rightarrow> int \<Rightarrow> gateway \<Rightarrow> gateway" where
  "authenticated L c r now g =
     (case r of
        Inl msg \<Rightarrow>
          close L c UNAUTHORIZED (if msg = [] then ''unauthorized'' else msg)
            (upd_conn c (\<lambda>k. k\<lparr>verifying := False\<rparr>) g)
      | Inr v \<Rightarrow>
          (let g1 = upd_conn c (\<lambda>k. k\<lparr>verifying := False\<rparr>) g in
           if conn_closed (conns g1 c) then g1
           else if \<not> gw_healthy g1 then close L c UNAVAILABLE ''realtime_unavailable'' g1
           else
             (let ex = (case vt_exp v of
                          None \<Rightarrow> now + NO_EXPIRY_CAP_MS
                        | Some e \<Rightarrow> if e = 0 then now + NO_EXPIRY_CAP_MS else e * 1000);
                  g2 = (upd_conn c (\<lambda>k. k\<lparr>authTimer := False, userId := Some (vt_id v),
                                         expiresAtMs := ex\<rparr>) g1)\<lparr>pending := set_del c (pending g1)\<rparr>;
                  s = (case map_of (byUser g2) (vt_id v) of None \<Rightarrow> [] | Some s \<Rightarrow> s)
              in case evict L (maxPerUser (opts g2)) s g2 of
                   Inl g3 \<Rightarrow>
                     effect UnhandledRejection (g3\<lparr>byUser := AList.update (vt_id v) [] (byUser g3)\<rparr>)
                 | Inr (s', g3) \<Rightarrow>
                     snd (send L c (Ready 1 (pingIntervalMs (opts g3)))
                       (g3\<lparr>byUser := AList.update (vt_id v) (set_add c s') (byUser g3)\<rparr>)))))"

text \<open>A suspended call resumes: it leaves \<open>inflight\<close> and continues with the verifier's answer.\<close>

definition resume :: "ws_lib \<Rightarrow> verifier \<Rightarrow> nat \<Rightarrow> string \<Rightarrow> int \<Rightarrow> gateway \<Rightarrow> gateway" where
  "resume L V c t now g =
     authenticated L c (V t) now (g\<lparr>inflight := removeAll (c, t) (inflight g)\<rparr>)"

section \<open>Incoming frames\<close>

text \<open>\<open>parse\<close> is \<open>JSON.parse\<close> on the decoded text; \<open>None\<close> is a \<open>SyntaxError\<close>.\<close>

definition onMessage ::
  "ws_lib \<Rightarrow> (string \<Rightarrow> json option) \<Rightarrow> nat \<Rightarrow> string \<Rightarrow> bool \<Rightarrow> int \<Rightarrow> gateway \<Rightarrow> gateway" where
  "onMessage L parse c data isBinary now g0 =
     (let g = upd_conn c (\<lambda>k. k\<lparr>lastSeenMs := now\<rparr>) g0;
          authed = truthy_str (userId (conns g c))
      in if isBinary then close L c PROTOCOL ''binary_not_supported'' g
         else case parse data of
                None \<Rightarrow> close L c PROTOCOL ''bad_json'' g
              | Some msg \<Rightarrow>
                  if \<not> is_object msg then close L c PROTOCOL ''bad_frame'' g
                  else if jget msg ''type'' = Some (JStr ''auth'') then
                    (if authed \<or> verifying (conns g c) then g
                     else authenticate L c (jget msg ''token'') g)
                  else if jget msg ''type'' = Some (JStr ''pong'') then g
                  else if \<not> authed then close L c PROTOCOL ''auth_required'' g
                  else g)"

section \<open>Delivery\<close>

text \<open>The inner loop of \<open>route\<close>: send to each connection of the set, counting the sends.\<close>

definition deliver :: "ws_lib \<Rightarrow> serverMessage \<Rightarrow> nat \<Rightarrow> gateway \<Rightarrow> gateway" where
  "deliver L frame c g =
     (case send L c frame g of
        (True, g') \<Rightarrow> g'\<lparr>eventsDelivered := Suc (eventsDelivered g')\<rparr>
      | (False, g') \<Rightarrow> g')"

definition callChangedOf :: "callChangedEvent \<Rightarrow> callChangedMessage" where
  "callChangedOf e = \<lparr>msg_callId = msg_callId e, msg_bookingId = msg_bookingId e,
     msg_status = msg_status e, msg_endedByRole = msg_endedByRole e\<rparr>"

text \<open>\<open>new Set([event.fanId, event.partnerId])\<close>.\<close>

definition parties :: "callChangedEvent \<Rightarrow> string list" where
  "parties e = set_add (ev_partnerId e) [ev_fanId e]"

definition route :: "ws_lib \<Rightarrow> callChangedEvent \<Rightarrow> gateway \<Rightarrow> gateway" where
  "route L e g0 =
     fold (\<lambda>u g. case map_of (byUser g) u of
                    None \<Rightarrow> g
                  | Some s \<Rightarrow> fold (deliver L (CallChanged (callChangedOf e))) s g)
       (parties e) (g0\<lparr>eventsIn := Suc (eventsIn g0)\<rparr>)"

definition broadcast :: "ws_lib \<Rightarrow> serverMessage \<Rightarrow> gateway \<Rightarrow> gateway" where
  "broadcast L frame g = fold (\<lambda>c g. snd (send L c frame g)) (all_vals (byUser g)) g"

section \<open>Liveness\<close>

text \<open>\<open>now - lastSeenMs > pingIntervalMs * 2.5\<close>, doubled to stay in the integers.\<close>

definition tick_conn :: "ws_lib \<Rightarrow> int \<Rightarrow> nat \<Rightarrow> gateway \<Rightarrow> gateway" where
  "tick_conn L now c g =
     (if expiresAtMs (conns g c) \<le> now then close L c UNAUTHORIZED ''token_expired'' g
      else if 2 * (now - lastSeenMs (conns g c)) > 5 * pingIntervalMs (opts g) then terminate L c g
      else snd (send L c Ping g))"

definition tick :: "ws_lib \<Rightarrow> int \<Rightarrow> gateway \<Rightarrow> gateway" where
  "tick L now g = fold (tick_conn L now) (all_vals (byUser g)) g"

definition onHealth :: "ws_lib \<Rightarrow> bool \<Rightarrow> gateway \<Rightarrow> gateway" where
  "onHealth L h g =
     (if h = gw_healthy g then g
      else let g1 = g\<lparr>gw_healthy := h\<rparr>
           in if h then g1 else closeAll L UNAVAILABLE ''realtime_unavailable'' g1)"

section \<open>Teardown and lifecycle\<close>

definition onClose :: "nat \<Rightarrow> gateway \<Rightarrow> gateway" where
  "onClose c g0 =
     (let g = (upd_conn c (\<lambda>k. k\<lparr>conn_closed := True, authTimer := False\<rparr>) g0)
                 \<lparr>pending := set_del c (pending g0)\<rparr>
      in if truthy_str (userId (conns g c)) then
           (let u = the (userId (conns g c))
            in case map_of (byUser g) u of
                 None \<Rightarrow> g
               | Some s \<Rightarrow>
                   (if set_del c s = [] then g\<lparr>byUser := AList.delete u (byUser g)\<rparr>
                    else g\<lparr>byUser := AList.update u (set_del c s) (byUser g)\<rparr>))
         else g)"

definition authTimeout :: "ws_lib \<Rightarrow> nat \<Rightarrow> gateway \<Rightarrow> gateway" where
  "authTimeout L c g =
     close L c AUTH_TIMEOUT ''auth_timeout'' (upd_conn c (\<lambda>k. k\<lparr>authTimer := False\<rparr>) g)"

definition attach :: "gateway \<Rightarrow> gateway" where
  "attach g =
     (let g1 = g\<lparr>attached := True\<rparr>
      in if \<not> enabled g1 then g1 else effect SourceStart (g1\<lparr>heartbeat := True\<rparr>))"

text \<open>The part of \<open>destroy\<close> before \<open>await this.drain(2_000)\<close>.\<close>

definition destroy :: "ws_lib \<Rightarrow> gateway \<Rightarrow> gateway" where
  "destroy L g = closeAll L GOING_AWAY ''server_shutdown'' (g\<lparr>attached := False, heartbeat := False\<rparr>)"

text \<open>
  \<open>drain\<close>: a promise that resolves when every socket it found has closed, or after the timeout.
  \<open>dr_waiting\<close> are the sockets with a pending \<open>once('close')\<close>, \<open>dr_left\<close> the
  captured counter.
\<close>

record drain =
  dr_sockets :: "nat list"
  dr_left :: nat
  dr_waiting :: "nat list"
  dr_timer :: bool
  dr_resolved :: bool

definition drain_finish :: "drain \<Rightarrow> drain" where
  "drain_finish d = d\<lparr>dr_timer := False, dr_resolved := True\<rparr>"

definition drain_less :: "drain \<Rightarrow> drain" where
  "drain_less d =
     (let d1 = d\<lparr>dr_left := dr_left d - 1\<rparr> in if dr_left d1 = 0 then drain_finish d1 else d1)"

definition drain_start :: "gateway \<Rightarrow> drain" where
  "drain_start g =
     (let sockets = allConns g;
          d = \<lparr>dr_sockets = sockets, dr_left = length sockets, dr_waiting = [], dr_timer = True,
               dr_resolved = False\<rparr>
      in if sockets = [] then d\<lparr>dr_timer := False, dr_resolved := True\<rparr>
         else fold (\<lambda>s d. if readyState (conns g s) = WsClosed then drain_less d
                          else d\<lparr>dr_waiting := dr_waiting d @ [s]\<rparr>) sockets d)"

definition drain_closed :: "nat \<Rightarrow> drain \<Rightarrow> drain" where
  "drain_closed s d =
     (if s \<in> set (dr_waiting d) then drain_less (d\<lparr>dr_waiting := removeAll s (dr_waiting d)\<rparr>) else d)"

definition drain_timeout :: "ws_lib \<Rightarrow> drain \<Rightarrow> gateway \<Rightarrow> drain \<times> gateway" where
  "drain_timeout L d g =
     (if dr_timer d then (drain_finish d, fold (terminate L) (dr_sockets d) g) else (d, g))"

text \<open>\<open>stats\<close>: connections, users, pending.\<close>

definition stats :: "gateway \<Rightarrow> nat \<times> nat \<times> nat" where
  "stats g = (sum_list (map (\<lambda>e. length (snd e)) (byUser g)), length (byUser g), length (pending g))"

end
