(* ===== verification/Realtime_Steps.thy ===== *)
theory Realtime_Steps
  imports Realtime_Gateway
begin

text \<open>
  The gateway as a state machine: one rule per event handler of
  \<open>src/realtime/realtime.gateway.ts\<close> and per move of the sockets' peers, the reachable states,
  and the registry invariant every step keeps.

  Most handlers only shut sockets, write to the trail and count: \<open>shut g g'\<close> says that.  The
  invariant is kept by every such change, so only the handlers that touch the registry
  (\<open>onConnection\<close>, \<open>authenticated\<close>, \<open>onClose\<close>, \<open>onHealth\<close>) need a proof of
  their own.
\<close>

section \<open>Steps\<close>

inductive gw_step :: "ws_lib \<Rightarrow> (string \<Rightarrow> json option) \<Rightarrow> verifier \<Rightarrow> gateway \<Rightarrow> gateway \<Rightarrow> bool"
  for L parse V where
  upgrade: "attached g \<Longrightarrow> gw_step L parse V g (onUpgrade url listeners handshake now g)"
| message: "c < nconns g \<Longrightarrow> \<not> conn_closed (conns g c) \<Longrightarrow>
     gw_step L parse V g (onMessage L parse c data isBinary now g)"
| resumed: "(c, t) \<in> set (inflight g) \<Longrightarrow> gw_step L parse V g (resume L V c t now g)"
| auth_timeout: "c < nconns g \<Longrightarrow> authTimer (conns g c) \<Longrightarrow> gw_step L parse V g (authTimeout L c g)"
| ticked: "heartbeat g \<Longrightarrow> gw_step L parse V g (tick L now g)"
| health: "gw_step L parse V g (onHealth L h g)"
| call_changed: "gw_step L parse V g (route L e g)"
| resync: "gw_step L parse V g (broadcast L Resync g)"
| send_error: "c < nconns g \<Longrightarrow> gw_step L parse V g (terminate L c g)"
| peer_closing: "c < nconns g \<Longrightarrow> rs \<noteq> WsOpen \<Longrightarrow>
     gw_step L parse V g (upd_conn c (\<lambda>k. k\<lparr>readyState := rs\<rparr>) g)"
| buffered: "c < nconns g \<Longrightarrow>
     gw_step L parse V g (upd_conn c (\<lambda>k. k\<lparr>bufferedAmount := n\<rparr>) g)"
| closed_event: "c < nconns g \<Longrightarrow> \<not> conn_closed (conns g c) \<Longrightarrow>
     gw_step L parse V g (onClose c (upd_conn c (\<lambda>k. k\<lparr>readyState := WsClosed\<rparr>) g))"
| destroyed: "gw_step L parse V g (destroy L g)"

inductive gw_reach :: "ws_lib \<Rightarrow> (string \<Rightarrow> json option) \<Rightarrow> verifier \<Rightarrow> realtimeOptions \<Rightarrow> gateway \<Rightarrow> bool"
  for L parse V os where
  init: "gw_reach L parse V os (attach (new_gateway os en))"
| step: "gw_reach L parse V os g \<Longrightarrow> gw_step L parse V g g' \<Longrightarrow> gw_reach L parse V os g'"

section \<open>Changes that only shut sockets\<close>

definition shut :: "gateway \<Rightarrow> gateway \<Rightarrow> bool" where
  "shut g g' \<longleftrightarrow>
     opts g' = opts g \<and> enabled g' = enabled g \<and> nconns g' = nconns g \<and> byUser g' = byUser g \<and>
     pending g' = pending g \<and> inflight g' = inflight g \<and> attached g' = attached g \<and>
     heartbeat g' = heartbeat g \<and> gw_healthy g' = gw_healthy g \<and>
     (\<forall>c. userId (conns g' c) = userId (conns g c) \<and>
          conn_closed (conns g' c) = conn_closed (conns g c) \<and>
          verifying (conns g' c) = verifying (conns g c) \<and>
          expiresAtMs (conns g' c) = expiresAtMs (conns g c) \<and>
          lastSeenMs (conns g' c) = lastSeenMs (conns g c) \<and>
          bufferedAmount (conns g' c) = bufferedAmount (conns g c) \<and>
          (readyState (conns g' c) = WsOpen \<longrightarrow> readyState (conns g c) = WsOpen))"

lemma shut_refl [simp]: "shut g g"
  by (simp add: shut_def)

lemma shut_trans: "shut a b \<Longrightarrow> shut b c \<Longrightarrow> shut a c"
  by (simp add: shut_def)

lemma shut_effect [simp]: "shut g (effect x g)"
  by (simp add: shut_def effect_def)

lemma shut_terminate: "ws_ok L \<Longrightarrow> shut g (terminate L c g)"
  by (auto simp: shut_def terminate_def effect_def upd_conn_def dest: ws_ok_terminate)

lemma shut_close: "ws_ok L \<Longrightarrow> shut g (close L c code reason g)"
  by (auto simp: shut_def close_def effect_def upd_conn_def terminate_def
      dest: ws_ok_terminate ws_ok_close split: option.splits)

lemma shut_send: "ws_ok L \<Longrightarrow> shut g (snd (send L c frame g))"
  by (auto simp: send_def shut_terminate)

lemma shut_counter: "shut g g' \<Longrightarrow> shut g (g'\<lparr>eventsDelivered := n\<rparr>)"
  by (simp add: shut_def)

lemma shut_deliver: "ws_ok L \<Longrightarrow> shut g (deliver L frame c g)"
  using shut_send [of L g c frame]
  by (cases "send L c frame g"; cases "fst (send L c frame g)") (simp_all add: deliver_def shut_counter)

lemma shut_fold:
  assumes "\<And>x g. shut g (f x g)"
  shows "shut g (fold f xs g)"
proof (induction xs arbitrary: g)
  case Nil
  then show ?case by simp
next
  case (Cons x xs)
  show ?case using shut_trans [OF assms Cons.IH] by simp
qed

lemma shut_closeAll: "ws_ok L \<Longrightarrow> shut g (closeAll L code reason g)"
  unfolding closeAll_def by (rule shut_fold) (rule shut_close)

lemma shut_broadcast: "ws_ok L \<Longrightarrow> shut g (broadcast L frame g)"
  unfolding broadcast_def by (rule shut_fold) (rule shut_send)

lemma shut_tick: "ws_ok L \<Longrightarrow> shut g (tick L now g)"
  unfolding tick_def
  by (rule shut_fold) (auto simp: tick_conn_def shut_close shut_terminate shut_send)

lemma shut_route: "ws_ok L \<Longrightarrow> shut g (route L e g)"
proof -
  assume L: "ws_ok L"
  have "shut (g\<lparr>eventsIn := Suc (eventsIn g)\<rparr>) (route L e g)"
    unfolding route_def
    by (rule shut_fold) (auto intro: shut_fold shut_deliver [OF L] split: option.splits)
  then show ?thesis by (simp add: shut_def)
qed

lemma shut_evict:
  "ws_ok L \<Longrightarrow> evict L m s g = Inr (s', g') \<Longrightarrow> shut g g'"
proof (induction L m s g rule: evict.induct)
  case (1 L m g)
  then show ?case by (auto split: if_splits)
next
  case (2 L m oldest s g)
  then show ?case
    by (auto split: if_splits intro: shut_trans [OF shut_close])
qed

lemmas shut_ops = shut_terminate shut_close shut_send shut_deliver shut_closeAll shut_broadcast
  shut_tick shut_route shut_effect

text \<open>Closing all connections leaves none of the open ones open.\<close>

lemma close_not_open:
  "ws_ok L \<Longrightarrow> \<not> conn_closed (conns g c) \<Longrightarrow> readyState (conns (close L c code reason g) c) \<noteq> WsOpen"
  by (auto simp: close_def terminate_def effect_def upd_conn_def
      dest: ws_ok_terminate ws_ok_close split: option.splits)

lemma fold_close_not_open:
  assumes "ws_ok L" and "c \<in> set cs" and "\<not> conn_closed (conns g c)"
  shows "readyState (conns (fold (\<lambda>c. close L c code reason) cs g) c) \<noteq> WsOpen"
  using assms(2,3)
proof (induction cs arbitrary: g)
  case (Cons x cs)
  let ?g = "close L x code reason g"
  have sh: "shut ?g (fold (\<lambda>c. close L c code reason) cs ?g)"
    by (rule shut_fold) (rule shut_close [OF assms(1)])
  show ?case
  proof (cases "x = c")
    case True
    then have "readyState (conns ?g c) \<noteq> WsOpen"
      using close_not_open [OF assms(1)] Cons.prems(2) by simp
    with sh show ?thesis by (auto simp: shut_def)
  next
    case False
    have "\<not> conn_closed (conns ?g c)"
      using shut_close [OF assms(1), of g x code reason] Cons.prems(2) by (simp add: shut_def)
    with False Cons show ?thesis by simp
  qed
qed simp

lemma closeAll_not_open:
  "ws_ok L \<Longrightarrow> c \<in> set (allConns g) \<Longrightarrow> \<not> conn_closed (conns g c) \<Longrightarrow>
   readyState (conns (closeAll L code reason g) c) \<noteq> WsOpen"
  unfolding closeAll_def by (rule fold_close_not_open)

section \<open>The invariant\<close>

text \<open>
  The registry: one non-empty duplicate-free set per user, of at most \<open>maxPerUser\<close>
  connections, each authenticated as that user and not pending.
\<close>

definition registry_ok :: "gateway \<Rightarrow> bool" where
  "registry_ok g \<longleftrightarrow>
     distinct (map fst (byUser g)) \<and>
     (\<forall>u s. map_of (byUser g) u = Some s \<longrightarrow>
        u \<noteq> [] \<and> s \<noteq> [] \<and> distinct s \<and> length s \<le> maxPerUser (opts g) \<and>
        (\<forall>c \<in> set s. c < nconns g \<and> userId (conns g c) = Some u \<and>
                     \<not> conn_closed (conns g c) \<and> c \<notin> set (pending g)))"

definition pending_ok :: "gateway \<Rightarrow> bool" where
  "pending_ok g \<longleftrightarrow>
     distinct (pending g) \<and>
     (\<forall>c \<in> set (pending g). c < nconns g \<and> userId (conns g c) = None \<and> \<not> conn_closed (conns g c))"

text \<open>
  Every connection that has not closed is known: it is pending while it has no identity, and
  registered under its identity unless its socket is already going away.
\<close>

definition known_ok :: "gateway \<Rightarrow> bool" where
  "known_ok g \<longleftrightarrow>
     (\<forall>c < nconns g.
        userId (conns g c) \<noteq> Some [] \<and>
        (conn_closed (conns g c) \<longrightarrow> readyState (conns g c) \<noteq> WsOpen) \<and>
        (\<not> conn_closed (conns g c) \<and> userId (conns g c) = None \<longrightarrow> c \<in> set (pending g)) \<and>
        (\<forall>u. userId (conns g c) = Some u \<and> readyState (conns g c) = WsOpen \<longrightarrow>
             (\<exists>s. map_of (byUser g) u = Some s \<and> c \<in> set s)))"

definition inflight_ok :: "gateway \<Rightarrow> bool" where
  "inflight_ok g \<longleftrightarrow>
     distinct (map fst (inflight g)) \<and>
     (\<forall>(c, t) \<in> set (inflight g). c < nconns g \<and> verifying (conns g c) \<and> userId (conns g c) = None)"

definition health_ok :: "gateway \<Rightarrow> bool" where
  "health_ok g \<longleftrightarrow> (\<not> gw_healthy g \<longrightarrow> (\<forall>c < nconns g. readyState (conns g c) \<noteq> WsOpen))"

definition gw_inv :: "gateway \<Rightarrow> bool" where
  "gw_inv g \<longleftrightarrow> 1 \<le> maxPerUser (opts g) \<and>
     registry_ok g \<and> pending_ok g \<and> known_ok g \<and> inflight_ok g \<and> health_ok g"

lemmas gw_inv_defs = gw_inv_def registry_ok_def pending_ok_def known_ok_def inflight_ok_def health_ok_def

lemma gw_inv_init: "1 \<le> maxPerUser os \<Longrightarrow> gw_inv (attach (new_gateway os en))"
  by (simp add: gw_inv_defs attach_def new_gateway_def effect_def Let_def)

text \<open>
  The invariant reads neither the timers and timestamps of a connection nor the counters, and it
  only ever asks a socket not to be open.
\<close>

definition quiet :: "gateway \<Rightarrow> gateway \<Rightarrow> bool" where
  "quiet g g' \<longleftrightarrow>
     opts g' = opts g \<and> nconns g' = nconns g \<and> byUser g' = byUser g \<and>
     pending g' = pending g \<and> inflight g' = inflight g \<and> gw_healthy g' = gw_healthy g \<and>
     (\<forall>c. userId (conns g' c) = userId (conns g c) \<and>
          conn_closed (conns g' c) = conn_closed (conns g c) \<and>
          verifying (conns g' c) = verifying (conns g c) \<and>
          (readyState (conns g' c) = WsOpen \<longrightarrow> readyState (conns g c) = WsOpen))"

lemma quiet_shut: "shut g g' \<Longrightarrow> quiet g g'"
  by (simp add: shut_def quiet_def)

lemma quiet_simps:
  assumes "quiet g g'"
  shows "opts g' = opts g" "nconns g' = nconns g" "byUser g' = byUser g" "pending g' = pending g"
    "inflight g' = inflight g" "gw_healthy g' = gw_healthy g"
    "userId (conns g' c) = userId (conns g c)" "conn_closed (conns g' c) = conn_closed (conns g c)"
    "verifying (conns g' c) = verifying (conns g c)"
  using assms by (simp_all add: quiet_def)

lemma quiet_open: "quiet g g' \<Longrightarrow> readyState (conns g' c) = WsOpen \<Longrightarrow> readyState (conns g c) = WsOpen"
  by (simp add: quiet_def)

lemma known_ok_quiet: "known_ok g \<Longrightarrow> quiet g g' \<Longrightarrow> known_ok g'"
  unfolding known_ok_def by (auto simp: quiet_simps dest: quiet_open)

lemma health_ok_quiet: "health_ok g \<Longrightarrow> quiet g g' \<Longrightarrow> health_ok g'"
  unfolding health_ok_def by (auto simp: quiet_simps dest: quiet_open)

lemma gw_inv_quiet: "gw_inv g \<Longrightarrow> quiet g g' \<Longrightarrow> gw_inv g'"
  using known_ok_quiet [of g g'] health_ok_quiet [of g g']
  by (simp add: gw_inv_def registry_ok_def pending_ok_def inflight_ok_def quiet_simps)

lemma gw_inv_shut [inv_intros]: "gw_inv g \<Longrightarrow> shut g g' \<Longrightarrow> gw_inv g'"
  by (blast intro: gw_inv_quiet quiet_shut)

lemma quiet_upd:
  assumes "\<And>k. userId (f k) = userId k \<and> conn_closed (f k) = conn_closed k \<and>
              verifying (f k) = verifying k \<and> (readyState (f k) = WsOpen \<longrightarrow> readyState k = WsOpen)"
  shows "quiet g (upd_conn c f g)"
  using assms by (auto simp: quiet_def upd_conn_def)

section \<open>Preservation, handler by handler\<close>

text \<open>In a state that satisfies the invariant, an open socket is pending or registered.\<close>

lemma open_known:
  assumes "gw_inv g" and "c < nconns g" and "readyState (conns g c) = WsOpen"
  shows "\<not> conn_closed (conns g c)" and "c \<in> set (allConns g)"
proof -
  from assms have k: "known_ok g" and d: "distinct (map fst (byUser g))"
    by (simp_all add: gw_inv_def registry_ok_def)
  from k assms(2,3) show nc: "\<not> conn_closed (conns g c)" by (auto simp: known_ok_def)
  show "c \<in> set (allConns g)"
    using k assms(2,3) nc d
    by (cases "userId (conns g c)") (auto simp: known_ok_def allConns_def in_all_vals)
qed

lemma closeAll_none_open:
  assumes "ws_ok L" and "gw_inv g" and "c < nconns g"
  shows "readyState (conns (closeAll L code reason g) c) \<noteq> WsOpen"
  using open_known [OF assms(2,3)] closeAll_not_open [OF assms(1)]
    quiet_open [OF quiet_shut [OF shut_closeAll [OF assms(1)]]] by blast

lemma inv_healthy_upd [simp]:
  "registry_ok (g\<lparr>gw_healthy := h\<rparr>) = registry_ok g"
  "pending_ok (g\<lparr>gw_healthy := h\<rparr>) = pending_ok g"
  "known_ok (g\<lparr>gw_healthy := h\<rparr>) = known_ok g"
  "inflight_ok (g\<lparr>gw_healthy := h\<rparr>) = inflight_ok g"
  by (simp_all add: registry_ok_def pending_ok_def known_ok_def inflight_ok_def)

lemma gw_inv_onHealth:
  assumes "ws_ok L" and "gw_inv g"
  shows "gw_inv (onHealth L h g)"
proof (cases "h = gw_healthy g \<or> h")
  case True
  with assms(2) show ?thesis
    by (auto simp: onHealth_def gw_inv_def health_ok_def)
next
  case False
  let ?g1 = "g\<lparr>gw_healthy := False\<rparr>"
  let ?g2 = "closeAll L UNAVAILABLE ''realtime_unavailable'' ?g1"
  have q: "quiet ?g1 ?g2" by (rule quiet_shut [OF shut_closeAll [OF assms(1)]])
  then have "quiet g (?g2\<lparr>gw_healthy := gw_healthy g\<rparr>)"
    by (simp add: quiet_def)
  then have "gw_inv (?g2\<lparr>gw_healthy := gw_healthy g\<rparr>)"
    by (rule gw_inv_quiet [OF assms(2)])
  moreover have "readyState (conns ?g2 c) \<noteq> WsOpen" if "c < nconns g" for c
    using open_known [OF assms(2) that] closeAll_not_open [OF assms(1), of c ?g1] quiet_open [OF q, of c]
    by (auto simp: allConns_def)
  ultimately have "gw_inv ?g2"
    using quiet_simps(2) [OF q] by (simp add: gw_inv_def health_ok_def)
  with False show ?thesis by (auto simp: onHealth_def Let_def)
qed

end
