(* ===== verification/Realtime_Invariant.thy ===== *)
theory Realtime_Invariant
  imports Realtime_Steps
begin

text \<open>
  Every handler of the gateway keeps the registry invariant, hence it holds in every reachable
  state; what it gives the operators of the server.
\<close>

section \<open>New connections\<close>

lemma gw_inv_onConnection:
  assumes "gw_inv g" and "gw_healthy g"
  shows "gw_inv (onConnection now g)"
proof -
  let ?g = "onConnection now g"
  note d = onConnection_def Let_def less_Suc_eq
  have "registry_ok ?g" using assms(1)
    by (fastforce simp: d gw_inv_def registry_ok_def)
  moreover have "pending_ok ?g" using assms(1)
    by (auto simp: d gw_inv_def pending_ok_def)
  moreover have "known_ok ?g" using assms(1)
    by (auto simp: d gw_inv_def known_ok_def)
  moreover have "inflight_ok ?g" using assms(1)
    by (auto simp: d gw_inv_def inflight_ok_def)
  ultimately show ?thesis using assms
    by (simp add: gw_inv_def health_ok_def onConnection_def Let_def)
qed

lemma gw_inv_onUpgrade:
  assumes "gw_inv g"
  shows "gw_inv (onUpgrade url n hs now g)"
proof -
  have "gw_inv (effect x g)" for x
    by (rule gw_inv_shut [OF assms shut_effect])
  moreover from this have "gw_healthy g \<Longrightarrow> gw_inv (onConnection now (effect HandshakeStarted g))"
    by (rule gw_inv_onConnection) (simp add: effect_def)
  moreover have "gw_inv (effect Http503 (g\<lparr>refused := Suc (refused g)\<rparr>))"
    by (rule gw_inv_quiet [OF assms]) (simp add: quiet_def effect_def)
  ultimately show ?thesis using assms by (auto simp: onUpgrade_def Let_def)
qed

section \<open>The close event\<close>

lemma onClose_byUser:
  "map_of (byUser (onClose c g)) u =
     (if userId (conns g c) = Some u \<and> u \<noteq> [] then
        (case map_of (byUser g) u of
           None \<Rightarrow> None
         | Some s \<Rightarrow> if set_del c s = [] then None else Some (set_del c s))
      else map_of (byUser g) u)"
  by (auto simp: onClose_def Let_def upd_conn_def truthy_str_iff split: option.splits)

lemma onClose_keys: "distinct (map fst (byUser g)) \<Longrightarrow> distinct (map fst (byUser (onClose c g)))"
  by (auto simp: onClose_def Let_def upd_conn_def split: option.splits)

lemma onClose_conns:
  "conns (onClose c g) = (conns g)(c := (conns g c)\<lparr>conn_closed := True, authTimer := False\<rparr>)"
  by (auto simp: onClose_def Let_def upd_conn_def split: option.splits)

lemma onClose_frame [frame_simps]:
  "pending (onClose c g) = set_del c (pending g)" "nconns (onClose c g) = nconns g"
  "opts (onClose c g) = opts g" "inflight (onClose c g) = inflight g"
  "gw_healthy (onClose c g) = gw_healthy g"
  by (auto simp: onClose_def Let_def upd_conn_def split: option.splits)

lemma gw_inv_onClose:
  assumes inv: "gw_inv g" and ns: "readyState (conns g c) \<noteq> WsOpen"
  shows "gw_inv (onClose c g)"
proof -
  let ?g = "onClose c g"
  have reg: "registry_ok g" using inv by (simp add: gw_inv_def)
  have set: "u \<noteq> [] \<and> s \<noteq> [] \<and> distinct s \<and> length s \<le> maxPerUser (opts g) \<and>
      (\<forall>d\<in>set s. d \<noteq> c \<and> d < nconns g \<and> userId (conns g d) = Some u \<and> \<not> conn_closed (conns g d) \<and>
                  d \<notin> set (pending g))"
    if "map_of (byUser ?g) u = Some s" for u s
  proof -
    from that obtain s0 where s0: "map_of (byUser g) u = Some s0"
      and s: "s = s0 \<and> (userId (conns g c) \<noteq> Some u \<or> u = []) \<or> s = set_del c s0 \<and> s \<noteq> []"
      by (auto simp: onClose_byUser split: if_splits option.splits)
    from reg s0 have old: "u \<noteq> []" "s0 \<noteq> []" "distinct s0" "length s0 \<le> maxPerUser (opts g)"
      "\<forall>d\<in>set s0. d < nconns g \<and> userId (conns g d) = Some u \<and> \<not> conn_closed (conns g d) \<and>
                   d \<notin> set (pending g)"
      by (auto simp: registry_ok_def)
    from s old length_set_del_le [of c s0] show ?thesis by auto
  qed
  have "registry_ok ?g"
    using reg set onClose_keys [of g c] unfolding registry_ok_def
    by (auto simp: frame_simps onClose_conns)
  moreover have "pending_ok ?g" using inv
    by (auto simp: frame_simps onClose_conns gw_inv_def pending_ok_def)
  moreover have "known_ok ?g"
  proof -
    have keep: "\<exists>s'. map_of (byUser ?g) u = Some s' \<and> d \<in> set s'"
      if "map_of (byUser g) u = Some s" "d \<in> set s" "d \<noteq> c" for u s d
    proof -
      from that have "d \<in> set (set_del c s)" by simp
      with that show ?thesis by (auto simp: onClose_byUser simp del: set_set_del)
    qed
    have k: "known_ok g" using inv by (simp add: gw_inv_def)
    show ?thesis unfolding known_ok_def
    proof (intro allI impI)
      fix d assume d: "d < nconns ?g"
      show "userId (conns ?g d) \<noteq> Some [] \<and>
        (conn_closed (conns ?g d) \<longrightarrow> readyState (conns ?g d) \<noteq> WsOpen) \<and>
        (\<not> conn_closed (conns ?g d) \<and> userId (conns ?g d) = None \<longrightarrow> d \<in> set (pending ?g)) \<and>
        (\<forall>u. userId (conns ?g d) = Some u \<and> readyState (conns ?g d) = WsOpen \<longrightarrow>
             (\<exists>s. map_of (byUser ?g) u = Some s \<and> d \<in> set s))"
      proof (cases "d = c")
        case True
        with ns d k show ?thesis by (simp add: onClose_conns frame_simps known_ok_def)
      next
        case False
        with d k keep show ?thesis
          unfolding known_ok_def by (simp add: frame_simps onClose_conns) metis
      qed
    qed
  qed
  moreover have "inflight_ok ?g" using inv
    by (auto simp: frame_simps onClose_conns gw_inv_def inflight_ok_def)
  moreover have "health_ok ?g" using inv
    by (auto simp: frame_simps onClose_conns gw_inv_def health_ok_def)
  ultimately show ?thesis using inv by (simp add: frame_simps gw_inv_def)
qed

section \<open>Authentication\<close>

text \<open>
  The eviction loop in closed form: it closes the first \<open>length s + 1 - m\<close> connections and
  leaves room for one more.
\<close>

definition evictions :: "nat \<Rightarrow> nat list \<Rightarrow> nat" where
  "evictions m s = Suc (length s) - m"

lemma evict_eq:
  "1 \<le> m \<Longrightarrow> evict L m s g =
     Inr (drop (evictions m s) s,
           fold (\<lambda>old. close L old EVICTED ''too_many_connections'') (take (evictions m s) s) g)"
proof (induction s arbitrary: g)
  case Nil
  then show ?case by (simp add: evictions_def)
next
  case (Cons x s)
  then show ?case by (auto simp: evictions_def Suc_diff_le)
qed

text \<open>The state the eviction loop starts from.\<close>

definition admitted :: "nat \<Rightarrow> verifiedToken \<Rightarrow> int \<Rightarrow> gateway \<Rightarrow> gateway" where
  "admitted c v now g =
     (upd_conn c (\<lambda>k. k\<lparr>verifying := False, authTimer := False, userId := Some (vt_id v),
        expiresAtMs := (case vt_exp v of None \<Rightarrow> now + NO_EXPIRY_CAP_MS
                        | Some e \<Rightarrow> if e = 0 then now + NO_EXPIRY_CAP_MS else e * 1000)\<rparr>) g)
       \<lparr>pending := set_del c (pending g)\<rparr>"

definition user_set :: "gateway \<Rightarrow> string \<Rightarrow> nat list" where
  "user_set g u = (case map_of (byUser g) u of None \<Rightarrow> [] | Some s \<Rightarrow> s)"

definition evict_old :: "ws_lib \<Rightarrow> string \<Rightarrow> gateway \<Rightarrow> gateway" where
  "evict_old L u g =
     fold (\<lambda>old. close L old EVICTED ''too_many_connections'')
       (take (evictions (maxPerUser (opts g)) (user_set g u)) (user_set g u)) g"

definition kept :: "gateway \<Rightarrow> string \<Rightarrow> nat list" where
  "kept g u = drop (evictions (maxPerUser (opts g)) (user_set g u)) (user_set g u)"

text \<open>The registered state, before the \<open>ready\<close> frame is sent.\<close>

definition registered :: "ws_lib \<Rightarrow> nat \<Rightarrow> verifiedToken \<Rightarrow> int \<Rightarrow> gateway \<Rightarrow> gateway" where
  "registered L c v now g =
     (evict_old L (vt_id v) (admitted c v now g))
       \<lparr>byUser := AList.update (vt_id v) (set_add c (kept g (vt_id v))) (byUser g)\<rparr>"

lemma shut_evict_old: "ws_ok L \<Longrightarrow> shut g (evict_old L u g)"
  unfolding evict_old_def by (rule shut_fold) (rule shut_close)

lemma authenticated_registers:
  assumes "ws_ok L" and "1 \<le> maxPerUser (opts g)" and "\<not> conn_closed (conns g c)" and "gw_healthy g"
  shows "authenticated L c (Inr v) now g =
     snd (send L c (Ready 1 (pingIntervalMs (opts g))) (registered L c v now g))"
proof -
  let ?g2 = "admitted c v now g"
  have "shut ?g2 (evict_old L (vt_id v) ?g2)" by (rule shut_evict_old [OF assms(1)])
  then have "byUser (evict_old L (vt_id v) ?g2) = byUser g" "opts (evict_old L (vt_id v) ?g2) = opts g"
    by (simp_all add: shut_def admitted_def upd_conn_def)
  with assms show ?thesis
    by (simp add: authenticated_def registered_def evict_eq evict_old_def kept_def admitted_def
        user_set_def upd_conn_def Let_def)
qed

lemma registered_conns:
  assumes "ws_ok L"
  shows "userId (conns (registered L c v now g) d) = (if d = c then Some (vt_id v) else userId (conns g d))"
    "conn_closed (conns (registered L c v now g) d) = conn_closed (conns g d)"
    "readyState (conns (registered L c v now g) d) = WsOpen \<Longrightarrow> readyState (conns g d) = WsOpen"
    "verifying (conns (registered L c v now g) d) = (verifying (conns g d) \<and> d \<noteq> c)"
proof -
  let ?a = "admitted c v now g"
  have sh: "shut ?a (evict_old L (vt_id v) ?a)" by (rule shut_evict_old [OF assms])
  have r: "conns (registered L c v now g) d = conns (evict_old L (vt_id v) ?a) d"
    by (simp add: registered_def)
  note q = quiet_simps(7-9) [OF quiet_shut [OF sh], of d] quiet_open [OF quiet_shut [OF sh], of d]
  show "userId (conns (registered L c v now g) d) = (if d = c then Some (vt_id v) else userId (conns g d))"
    unfolding r q(1) by (simp add: admitted_def upd_conn_def)
  show "conn_closed (conns (registered L c v now g) d) = conn_closed (conns g d)"
    unfolding r q(2) by (simp add: admitted_def upd_conn_def)
  show "verifying (conns (registered L c v now g) d) = (verifying (conns g d) \<and> d \<noteq> c)"
    unfolding r q(3) by (simp add: admitted_def upd_conn_def)
  show "readyState (conns (registered L c v now g) d) = WsOpen \<Longrightarrow> readyState (conns g d) = WsOpen"
    using q(4) unfolding r by (simp add: admitted_def upd_conn_def split: if_splits)
qed

lemma registered_frame [frame_simps]:
  assumes "ws_ok L"
  shows "pending (registered L c v now g) = set_del c (pending g)"
    "nconns (registered L c v now g) = nconns g" "opts (registered L c v now g) = opts g"
    "inflight (registered L c v now g) = inflight g"
    "gw_healthy (registered L c v now g) = gw_healthy g"
    "byUser (registered L c v now g) =
       AList.update (vt_id v) (set_add c (kept g (vt_id v))) (byUser g)"
  using shut_evict_old [OF assms, of "admitted c v now g" "vt_id v"]
  by (simp_all add: registered_def shut_def admitted_def upd_conn_def)

lemma in_user_set: "d \<in> set (user_set g u) \<Longrightarrow> \<exists>s. map_of (byUser g) u = Some s \<and> d \<in> set s"
  by (cases "map_of (byUser g) u") (simp_all add: user_set_def)

lemma user_set_members:
  assumes "registry_ok g" and "d \<in> set (user_set g u)"
  shows "d < nconns g" "userId (conns g d) = Some u" "\<not> conn_closed (conns g d)" "d \<notin> set (pending g)"
  using assms(1) in_user_set [OF assms(2)] by (auto simp: registry_ok_def)

text \<open>The evicted connections are shut.\<close>

lemma evicted_not_open:
  assumes L: "ws_ok L" and inv: "gw_inv g"
    and d: "d \<in> set (user_set g (vt_id v))" "d \<notin> set (kept g (vt_id v))"
  shows "readyState (conns (registered L c v now g) d) \<noteq> WsOpen"
proof -
  let ?s = "user_set g (vt_id v)"
  let ?k = "evictions (maxPerUser (opts g)) ?s"
  have "d \<in> set (take ?k ?s)"
    using d unfolding kept_def by (metis Un_iff append_take_drop_id set_append)
  moreover have "\<not> conn_closed (conns (admitted c v now g) d)"
    using user_set_members(3) [OF _ d(1)] inv by (auto simp: gw_inv_def admitted_def upd_conn_def)
  ultimately show ?thesis
    using fold_close_not_open [OF L, of d "take ?k ?s" "admitted c v now g"]
    by (simp add: registered_def evict_old_def user_set_def admitted_def upd_conn_def)
qed

lemma length_kept:
  assumes "registry_ok g" and "1 \<le> maxPerUser (opts g)"
  shows "Suc (length (kept g u)) \<le> maxPerUser (opts g)"
proof (cases "map_of (byUser g) u")
  case (Some s)
  with assms have "length s \<le> maxPerUser (opts g)" by (auto simp: registry_ok_def)
  with Some assms(2) show ?thesis by (auto simp: kept_def user_set_def evictions_def)
qed (use assms(2) in \<open>simp add: kept_def user_set_def evictions_def\<close>)

lemma kept_subset: "set (kept g u) \<subseteq> set (user_set g u)"
  by (simp add: kept_def set_drop_subset)

lemma distinct_kept: "registry_ok g \<Longrightarrow> distinct (kept g u)"
  by (cases "map_of (byUser g) u") (simp_all add: registry_ok_def kept_def user_set_def)

lemma gw_inv_registered:
  assumes L: "ws_ok L" and inv: "gw_inv g" and c: "c \<in> set (pending g)"
    and infl: "c \<notin> fst ` set (inflight g)" and v: "vt_id v \<noteq> []" and h: "gw_healthy g"
  shows "gw_inv (registered L c v now g)"
proof -
  let ?g = "registered L c v now g" and ?u = "vt_id v"
  have reg: "registry_ok g" and pend: "pending_ok g" and kn: "known_ok g" and m: "1 \<le> maxPerUser (opts g)"
    using inv by (simp_all add: gw_inv_def)
  have cn: "c < nconns g" and cc: "\<not> conn_closed (conns g c)"
    using pend c by (auto simp: pending_ok_def)
  have ck: "c \<notin> set (kept g ?u)"
    using user_set_members(4) [OF reg] kept_subset [of g ?u] c by blast
  have new: "set_add c (kept g ?u) = kept g ?u @ [c]" using ck by (simp add: set_add_def)
  have len: "Suc (length (kept g ?u)) \<le> maxPerUser (opts g)"
    by (rule length_kept [OF reg m])
  note fr = registered_frame [OF L] registered_conns(1,2,4) [OF L]
  have old: "d \<noteq> c" if "d \<in> set (user_set g u)" for d u
    using user_set_members(4) [OF reg that] c by blast
  have members: "u \<noteq> [] \<and> s \<noteq> [] \<and> distinct s \<and> length s \<le> maxPerUser (opts g) \<and>
      (\<forall>d\<in>set s. d < nconns g \<and> userId (conns ?g d) = Some u \<and> \<not> conn_closed (conns g d) \<and>
                  d \<notin> set (set_del c (pending g)))"
    if s: "map_of (byUser ?g) u = Some s" for u s
  proof (cases "u = ?u")
    case True
    with s new have seq: "s = kept g ?u @ [c]" by (simp add: fr)
    have "d < nconns g \<and> userId (conns ?g d) = Some u \<and> \<not> conn_closed (conns g d) \<and>
          d \<notin> set (set_del c (pending g))" if "d \<in> set s" for d
      using that seq user_set_members [OF reg, of d ?u] kept_subset [of g ?u] cn cc True
      by (auto simp: fr)
    with seq True v len ck distinct_kept [OF reg, of ?u] show ?thesis by simp
  next
    case False
    with s have "map_of (byUser g) u = Some s" by (simp add: fr)
    with reg False old [of _ u] show ?thesis
      by (auto simp: fr registry_ok_def user_set_def)
  qed
  have "registry_ok ?g"
    using reg members unfolding registry_ok_def by (auto simp: fr)
  moreover have "pending_ok ?g"
    using pend by (auto simp: fr pending_ok_def)
  moreover have "inflight_ok ?g"
    using inv infl by (force simp: fr gw_inv_def inflight_ok_def)
  moreover have "health_ok ?g"
    using h by (simp add: fr health_ok_def)
  moreover have "known_ok ?g"
    unfolding known_ok_def
  proof (intro allI impI conjI)
    fix d assume "d < nconns ?g"
    then show "userId (conns ?g d) \<noteq> Some []" using kn v by (simp add: fr known_ok_def)
  next
    fix d assume "d < nconns ?g" and "conn_closed (conns ?g d)"
    then show "readyState (conns ?g d) \<noteq> WsOpen"
      using kn registered_conns(3) [OF L, of c v now g d] by (auto simp: fr known_ok_def)
  next
    fix d assume "d < nconns ?g" and "\<not> conn_closed (conns ?g d) \<and> userId (conns ?g d) = None"
    then show "d \<in> set (pending ?g)"
      using kn by (auto simp: fr known_ok_def split: if_splits)
  next
    fix d u assume d: "d < nconns ?g"
      and o: "userId (conns ?g d) = Some u \<and> readyState (conns ?g d) = WsOpen"
    show "\<exists>s. map_of (byUser ?g) u = Some s \<and> d \<in> set s"
    proof (cases "d = c")
      case True
      with o new show ?thesis by (simp add: fr)
    next
      case False
      with o kn d registered_conns(3) [OF L, of c v now g d]
      obtain s where s: "map_of (byUser g) u = Some s" "d \<in> set s"
        by (auto simp: fr known_ok_def)
      show ?thesis
      proof (cases "u = ?u")
        case True
        with s have "d \<in> set (user_set g ?u)" by (simp add: user_set_def)
        with o evicted_not_open [OF L inv] have "d \<in> set (kept g ?u)" by blast
        with True new show ?thesis by (simp add: fr)
      qed (use s in \<open>simp add: fr\<close>)
    qed
  qed
  ultimately show ?thesis using m by (simp add: gw_inv_def fr)
qed

lemma gw_inv_verified_flag:
  assumes "gw_inv g" and "c \<notin> fst ` set (inflight g)"
  shows "gw_inv (upd_conn c (\<lambda>k. k\<lparr>verifying := False\<rparr>) g)"
proof -
  let ?g = "upd_conn c (\<lambda>k. k\<lparr>verifying := False\<rparr>) g"
  have "registry_ok ?g = registry_ok g" "pending_ok ?g = pending_ok g" "known_ok ?g = known_ok g"
    "health_ok ?g = health_ok g"
    by (auto simp: upd_conn_def registry_ok_def pending_ok_def known_ok_def health_ok_def)
  moreover have "inflight_ok ?g"
    using assms by (force simp: upd_conn_def gw_inv_def inflight_ok_def)
  ultimately show ?thesis using assms(1) by (simp add: gw_inv_def upd_conn_def)
qed

lemma gw_inv_authenticated:
  assumes L: "ws_ok L" and inv: "gw_inv g" and c: "c < nconns g" "userId (conns g c) = None"
    and infl: "c \<notin> fst ` set (inflight g)" and r: "\<And>v. r = Inr v \<Longrightarrow> vt_id v \<noteq> []"
  shows "gw_inv (authenticated L c r now g)"
proof -
  note flag = gw_inv_verified_flag [OF inv infl]
  show ?thesis
  proof (cases r)
    case (Inl msg)
    then show ?thesis
      by (simp add: authenticated_def gw_inv_shut [OF flag shut_close [OF L]])
  next
    case (Inr v)
    show ?thesis
    proof (cases "\<not> conn_closed (conns g c) \<and> gw_healthy g")
      case True
      with inv c have "c \<in> set (pending g)" by (auto simp: gw_inv_def known_ok_def)
      with True have "gw_inv (registered L c v now g)"
        by (intro gw_inv_registered [OF L inv _ infl r [OF Inr]]) auto
      moreover have "1 \<le> maxPerUser (opts g)" using inv by (simp add: gw_inv_def)
      ultimately show ?thesis
        using True authenticated_registers [OF L] gw_inv_shut shut_send [OF L] Inr by metis
    next
      case False
      then show ?thesis using Inr flag gw_inv_shut [OF flag shut_close [OF L]]
        by (auto simp: authenticated_def upd_conn_def Let_def)
    qed
  qed
qed

section \<open>Frames\<close>

lemma gw_inv_authenticate:
  assumes L: "ws_ok L" and inv: "gw_inv g" and c: "c < nconns g"
    and na: "\<not> truthy_str (userId (conns g c))" and nv: "\<not> verifying (conns g c)"
  shows "gw_inv (authenticate L c token g)"
proof (cases "nonempty_str token")
  case None
  then show ?thesis by (simp add: authenticate_def gw_inv_shut [OF inv shut_close [OF L]])
next
  case (Some t)
  let ?g = "authenticate L c token g"
  have un: "userId (conns g c) = None"
    using inv c na by (cases "userId (conns g c)") (auto simp: gw_inv_def known_ok_def)
  have "c \<notin> fst ` set (inflight g)" using inv nv by (auto simp: gw_inv_def inflight_ok_def)
  with Some un c inv have "inflight_ok ?g"
    by (auto simp: authenticate_def upd_conn_def gw_inv_def inflight_ok_def)
  moreover have "registry_ok ?g = registry_ok g" "pending_ok ?g = pending_ok g" "known_ok ?g = known_ok g"
    "health_ok ?g = health_ok g"
    using Some by (auto simp: authenticate_def upd_conn_def registry_ok_def pending_ok_def known_ok_def
        health_ok_def)
  moreover have "opts ?g = opts g" using Some by (simp add: authenticate_def upd_conn_def)
  ultimately show ?thesis using inv by (simp add: gw_inv_def)
qed

lemma gw_inv_onMessage:
  assumes L: "ws_ok L" and inv: "gw_inv g" and c: "c < nconns g"
  shows "gw_inv (onMessage L parse c data bin now g)"
proof -
  let ?g = "upd_conn c (\<lambda>k. k\<lparr>lastSeenMs := now\<rparr>) g"
  have q: "gw_inv ?g" by (rule gw_inv_quiet [OF inv quiet_upd]) simp
  have cl: "gw_inv (close L c code reason ?g)" for code reason
    by (rule gw_inv_shut [OF q shut_close [OF L]])
  have "c < nconns ?g" using c by (simp add: upd_conn_def)
  then show ?thesis
    using q cl gw_inv_authenticate [OF L q]
    by (auto simp: onMessage_def Let_def split: option.splits)
qed

lemma gw_inv_dequeue:
  assumes inv: "gw_inv g" and c: "(c, t) \<in> set (inflight g)"
  shows "c \<notin> fst ` set (inflight (g\<lparr>inflight := removeAll (c, t) (inflight g)\<rparr>))"
    and "gw_inv (g\<lparr>inflight := removeAll (c, t) (inflight g)\<rparr>)"
proof -
  let ?g = "g\<lparr>inflight := removeAll (c, t) (inflight g)\<rparr>"
  have fl: "inflight_ok g" using inv by (simp add: gw_inv_def)
  then have d: "distinct (map fst (removeAll (c, t) (inflight g)))"
    by (simp add: inflight_ok_def removeAll_filter_not_eq distinct_map_filter)
  show "c \<notin> fst ` set (inflight ?g)"
  proof
    assume "c \<in> fst ` set (inflight ?g)"
    then obtain t' where t': "(c, t') \<in> set (inflight g)" "t' \<noteq> t" by (fastforce simp: image_iff)
    have "distinct (map fst (inflight g))" using fl by (simp add: inflight_ok_def)
    from eq_key_imp_eq_value [OF this t'(1) c] t'(2) show False by simp
  qed
  have "inflight_ok ?g"
    using fl d by (simp add: inflight_ok_def)
  moreover have "registry_ok ?g = registry_ok g" "pending_ok ?g = pending_ok g"
    "known_ok ?g = known_ok g" "health_ok ?g = health_ok g"
    by (simp_all add: registry_ok_def pending_ok_def known_ok_def health_ok_def)
  ultimately show "gw_inv ?g" using inv by (simp add: gw_inv_def)
qed

lemma gw_inv_resume:
  assumes L: "ws_ok L" and inv: "gw_inv g" and c: "(c, t) \<in> set (inflight g)"
    and V: "\<And>v. V t = Inr v \<Longrightarrow> vt_id v \<noteq> []"
  shows "gw_inv (resume L V c t now g)"
proof -
  have "c < nconns g" "userId (conns g c) = None"
    using inv c by (auto simp: gw_inv_def inflight_ok_def)
  then show ?thesis
    unfolding resume_def using V
    by (intro gw_inv_authenticated [OF L gw_inv_dequeue(2) [OF inv c] _ _ gw_inv_dequeue(1) [OF inv c]]) auto
qed

section \<open>Every step, every reachable state\<close>

context token_verifier
begin

lemma gw_inv_step:
  assumes L: "ws_ok L" and "gw_step L parse verify g g'" and inv: "gw_inv g"
  shows "gw_inv g'"
  using assms(2)
proof cases
  case (upgrade url listeners handshake now)
  then show ?thesis using gw_inv_onUpgrade [OF inv] by simp
next
  case (message c data isBinary now)
  then show ?thesis using gw_inv_onMessage [OF L inv] by simp
next
  case (resumed c t now)
  then show ?thesis using gw_inv_resume [OF L inv] verified_id_nonempty by simp
next
  case (auth_timeout c)
  have "gw_inv (upd_conn c (\<lambda>k. k\<lparr>authTimer := False\<rparr>) g)"
    by (rule gw_inv_quiet [OF inv quiet_upd]) simp
  with auth_timeout show ?thesis
    unfolding authTimeout_def by (auto intro: gw_inv_shut shut_close [OF L])
next
  case (ticked now)
  then show ?thesis using gw_inv_shut [OF inv shut_tick [OF L]] by simp
next
  case (health h)
  then show ?thesis using gw_inv_onHealth [OF L inv] by simp
next
  case (call_changed e)
  then show ?thesis using gw_inv_shut [OF inv shut_route [OF L]] by simp
next
  case resync
  then show ?thesis using gw_inv_shut [OF inv shut_broadcast [OF L]] by simp
next
  case (send_error c)
  then show ?thesis using gw_inv_shut [OF inv shut_terminate [OF L]] by simp
next
  case (peer_closing c rs)
  then show ?thesis using gw_inv_quiet [OF inv quiet_upd] by auto
next
  case (buffered c n)
  then show ?thesis using gw_inv_quiet [OF inv quiet_upd] by auto
next
  case (closed_event c)
  have "gw_inv (upd_conn c (\<lambda>k. k\<lparr>readyState := WsClosed\<rparr>) g)"
    by (rule gw_inv_quiet [OF inv quiet_upd]) simp
  then have "gw_inv (onClose c (upd_conn c (\<lambda>k. k\<lparr>readyState := WsClosed\<rparr>) g))"
    by (rule gw_inv_onClose) (simp add: upd_conn_def)
  with closed_event show ?thesis by simp
next
  case destroyed
  have "gw_inv (g\<lparr>attached := False, heartbeat := False\<rparr>)"
    by (rule gw_inv_quiet [OF inv]) (simp add: quiet_def)
  with destroyed show ?thesis
    unfolding destroy_def by (auto intro: gw_inv_shut shut_closeAll [OF L])
qed

lemma gw_inv_reach:
  assumes L: "ws_ok L" and "1 \<le> maxPerUser os" and "gw_reach L parse verify os g"
  shows "gw_inv g"
  using assms(3)
proof induction
  case (init en)
  show ?case by (rule gw_inv_init [OF assms(2)])
next
  case (step g g')
  then show ?case by (blast intro: gw_inv_step [OF L])
qed

end

end
