(* ===== verification/Realtime_Delivery.thy ===== *)
theory Realtime_Delivery
  imports Realtime_Invariant
begin

text \<open>
  Who receives which frame.  \<open>framesTo c\<close> reads the frames handed to the socket of connection
  \<open>c\<close> off the trail of effects; the loops of \<open>route\<close>, \<open>broadcast\<close> and \<open>tick\<close> are
  all folds over the duplicate-free list of registered connections, so one lemma about such folds
  gives the exact deliveries of each.
\<close>

section \<open>Frames on the trail\<close>

fun frameTo :: "nat \<Rightarrow> gw_effect \<Rightarrow> serverMessage list" where
  "frameTo c (Sent d f) = (if d = c then [f] else [])"
| "frameTo c _ = []"

definition framesTo :: "nat \<Rightarrow> gw_effect list \<Rightarrow> serverMessage list" where
  "framesTo c es = concat (map (frameTo c) es)"

lemma framesTo_append [simp]: "framesTo c (xs @ ys) = framesTo c xs @ framesTo c ys"
  by (simp add: framesTo_def)

lemma framesTo_simps [simp]:
  "framesTo c [] = []"
  "framesTo c (x # xs) = frameTo c x @ framesTo c xs"
  by (simp_all add: framesTo_def)

text \<open>A socket takes a frame when it is open and not backed up.\<close>

definition can_receive :: "gateway \<Rightarrow> nat \<Rightarrow> bool" where
  "can_receive g c \<longleftrightarrow>
     readyState (conns g c) = WsOpen \<and> bufferedAmount (conns g c) \<le> maxBufferedBytes (opts g)"

lemma framesTo_effect: "framesTo c (trail (effect x g)) = framesTo c (trail g) @ frameTo c x"
  by (simp add: effect_def)

lemma framesTo_upd [simp]: "trail (upd_conn d f g) = trail g"
  by (simp add: upd_conn_def)

lemma framesTo_terminate [simp]: "framesTo c (trail (terminate L d g)) = framesTo c (trail g)"
  by (simp add: terminate_def framesTo_effect)

lemma framesTo_close [simp]: "framesTo c (trail (close L d code reason g)) = framesTo c (trail g)"
  by (simp add: close_def framesTo_effect split: option.splits)

lemma framesTo_send:
  "framesTo c (trail (snd (send L d f g))) =
     framesTo c (trail g) @ (if d = c \<and> can_receive g c then [f] else [])"
  by (auto simp: send_def can_receive_def framesTo_effect)

lemma fst_send: "fst (send L d f g) = can_receive g d"
  by (auto simp: send_def can_receive_def)

text \<open>Work on one connection does not touch another.\<close>

definition other_same :: "nat \<Rightarrow> gateway \<Rightarrow> gateway \<Rightarrow> bool" where
  "other_same c g g' \<longleftrightarrow> opts g' = opts g \<and> (\<forall>d. d \<noteq> c \<longrightarrow> conns g' d = conns g d)"

lemma other_same_effect: "other_same c g (effect x g)"
  by (simp add: other_same_def effect_def)

lemma other_same_terminate: "other_same c g (terminate L c g)"
  by (simp add: other_same_def terminate_def effect_def upd_conn_def)

lemma other_same_close: "other_same c g (close L c code reason g)"
  by (simp add: other_same_def close_def terminate_def effect_def upd_conn_def split: option.splits)

lemma other_same_send: "other_same c g (snd (send L c f g))"
  using other_same_terminate [of c g L] other_same_effect [of c g "Sent c f"]
  by (auto simp: send_def other_same_def)

lemma deliver_eq:
  "deliver L f c g =
     (snd (send L c f g))\<lparr>eventsDelivered := eventsDelivered g + (if can_receive g c then 1 else 0)\<rparr>"
proof -
  have "eventsDelivered (snd (send L c f g)) = eventsDelivered g"
    by (simp add: send_def terminate_def effect_def upd_conn_def)
  moreover have "(snd (send L c f g))\<lparr>eventsDelivered := eventsDelivered (snd (send L c f g))\<rparr>
      = snd (send L c f g)" by simp
  ultimately show ?thesis
    using fst_send [of L c f g] by (cases "send L c f g") (auto simp: deliver_def)
qed

lemma other_same_deliver: "other_same c g (deliver L f c g)"
  using other_same_send [of c g L f] by (simp add: deliver_eq other_same_def)

text \<open>
  One pass over a duplicate-free list of connections: each connection of the list is treated
  once, in the state it had at the start.
\<close>

lemma fold_frames:
  assumes op: "\<And>d g. other_same d g (f d g)"
    and fr: "\<And>d g. framesTo c (trail (f d g)) = framesTo c (trail g) @ (if d = c then new (opts g) (conns g c) else [])"
    and "distinct cs"
  shows "framesTo c (trail (fold f cs g)) =
     framesTo c (trail g) @ (if c \<in> set cs then new (opts g) (conns g c) else [])"
  using assms(3)
proof (induction cs arbitrary: g)
  case (Cons d cs)
  have "opts (f d g) = opts g" and "d \<noteq> c \<Longrightarrow> conns (f d g) c = conns g c"
    using op [of d g] by (auto simp: other_same_def)
  with Cons show ?case by (auto simp: fr)
qed simp

lemma fold_conn:
  assumes op: "\<And>d g. other_same d g (f d g)"
    and st: "\<And>g. conns (f c g) c = h (opts g) (conns g c)"
    and "distinct cs" and "c \<in> set cs"
  shows "conns (fold f cs g) c = h (opts g) (conns g c)"
  using assms(3,4)
proof (induction cs arbitrary: g)
  case (Cons d cs)
  have o': "opts (f d g) = opts g" and "d \<noteq> c \<Longrightarrow> conns (f d g) c = conns g c" for g d
    using op [of d g] by (auto simp: other_same_def)
  have keep: "c \<notin> set xs \<Longrightarrow> conns (fold f xs g) c = conns g c" for xs g
  proof (induction xs arbitrary: g)
    case (Cons x xs)
    then show ?case using op [of x g] by (simp add: other_same_def)
  qed simp
  show ?case
  proof (cases "d = c")
    case True
    with Cons.prems keep [of cs "f d g"] show ?thesis by (simp add: st)
  next
    case False
    with Cons o' \<open>d \<noteq> c \<Longrightarrow> conns (f d g) c = conns g c\<close> show ?thesis by simp
  qed
qed simp

lemma fold_delivered:
  "distinct cs \<Longrightarrow> eventsDelivered (fold (deliver L f) cs g) =
     eventsDelivered g + length (filter (can_receive g) cs)"
proof (induction cs arbitrary: g)
  case (Cons d cs)
  let ?g = "deliver L f d g"
  have "can_receive ?g c = can_receive g c" if "c \<in> set cs" for c
    using other_same_deliver [of d g L f] that Cons.prems
    by (auto simp: other_same_def can_receive_def)
  then have "filter (can_receive ?g) cs = filter (can_receive g) cs" by (intro filter_cong) auto
  with Cons show ?case by (simp add: deliver_eq)
qed simp

section \<open>The registered connections, once each\<close>

lemma distinct_all_vals:
  assumes "registry_ok g"
  shows "distinct (all_vals (byUser g))"
  unfolding all_vals_def
proof (rule distinct_concat)
  have d: "distinct (map fst (byUser g))" using assms by (simp add: registry_ok_def)
  have reg: "s \<noteq> [] \<and> distinct s \<and> (\<forall>c\<in>set s. userId (conns g c) = Some u)"
    if "(u, s) \<in> set (byUser g)" for u s
  proof -
    from that have "map_of (byUser g) u = Some s" by (simp add: map_of_distinct_iff [OF d])
    with assms show ?thesis unfolding registry_ok_def by blast
  qed
  have same: "u = u'" if "(u, s) \<in> set (byUser g)" "(u', s') \<in> set (byUser g)" "c \<in> set s" "c \<in> set s'"
    for u s u' s' c
    using reg [OF that(1)] reg [OF that(2)] that(3,4) by auto
  show "distinct ys" if "ys \<in> set (map snd (byUser g))" for ys
    using that reg by auto
  show "set ys \<inter> set zs = {}"
    if ys: "ys \<in> set (map snd (byUser g))" and zs: "zs \<in> set (map snd (byUser g))" and ne: "ys \<noteq> zs" for ys zs
  proof -
    from ys zs obtain u v where uv: "(u, ys) \<in> set (byUser g)" "(v, zs) \<in> set (byUser g)" by auto
    show ?thesis
    proof (rule ccontr)
      assume "set ys \<inter> set zs \<noteq> {}"
      then obtain c where "c \<in> set ys" "c \<in> set zs" by auto
      with same [OF uv] have "u = v" by simp
      with eq_key_imp_eq_value [OF d] uv ne show False by blast
    qed
  qed
  have "inj_on snd (set (byUser g))"
  proof (rule inj_onI)
    fix p q assume p: "p \<in> set (byUser g)" and q: "q \<in> set (byUser g)" and e: "snd p = snd q"
    from e obtain u v s where [simp]: "p = (u, s)" "q = (v, s)" by (metis prod.collapse)
    from reg [of u s] p obtain c where "c \<in> set s" by (cases s) auto
    with same [of u s v s c] p q show "p = q" by simp
  qed
  then show "distinct (map snd (byUser g))"
    using d by (simp add: distinct_map)
qed

lemma user_set_mem_iff:
  assumes "gw_inv g" and "c < nconns g" and "readyState (conns g c) = WsOpen"
  shows "c \<in> set (user_set g u) \<longleftrightarrow> userId (conns g c) = Some u"
proof
  assume "c \<in> set (user_set g u)"
  then show "userId (conns g c) = Some u"
    using user_set_members(2) [of g c u] assms(1) by (simp add: gw_inv_def)
next
  assume "userId (conns g c) = Some u"
  then obtain s where "map_of (byUser g) u = Some s" "c \<in> set s"
    using assms unfolding gw_inv_def known_ok_def by blast
  then show "c \<in> set (user_set g u)" by (simp add: user_set_def)
qed

lemma all_vals_mem_iff:
  assumes "gw_inv g" and "c < nconns g" and "readyState (conns g c) = WsOpen"
  shows "c \<in> set (all_vals (byUser g)) \<longleftrightarrow> userId (conns g c) \<noteq> None"
proof -
  have "distinct (map fst (byUser g))" using assms(1) by (simp add: gw_inv_def registry_ok_def)
  from in_all_vals [OF this] show ?thesis
    using assms by (fastforce simp: gw_inv_def known_ok_def registry_ok_def)
qed

lemma user_sets_disjoint:
  assumes "registry_ok g" and "u \<noteq> v"
  shows "set (user_set g u) \<inter> set (user_set g v) = {}"
  using user_set_members(2) [OF assms(1), of _ u] user_set_members(2) [OF assms(1), of _ v] assms(2)
  by fastforce

lemma distinct_user_set: "registry_ok g \<Longrightarrow> distinct (user_set g u)"
  by (cases "map_of (byUser g) u") (auto simp: registry_ok_def user_set_def)

definition recipients :: "callChangedEvent \<Rightarrow> gateway \<Rightarrow> nat list" where
  "recipients e g = concat (map (user_set g) (parties e))"

lemma distinct_recipients:
  assumes "registry_ok g"
  shows "distinct (recipients e g)"
  using distinct_user_set [OF assms] user_sets_disjoint [OF assms]
  by (auto simp: recipients_def parties_def set_add_def)

lemma deliver_byUser [simp]: "byUser (deliver L f c g) = byUser g"
  by (simp add: deliver_eq send_def terminate_def effect_def upd_conn_def)

lemma fold_deliver_byUser [simp]: "byUser (fold (deliver L f) cs g) = byUser g"
  by (rule fold_frame) simp

text \<open>\<open>route\<close> is one pass over the recipients.\<close>

lemma route_eq:
  "route L e g = fold (deliver L (CallChanged (callChangedOf e))) (recipients e g) (g\<lparr>eventsIn := Suc (eventsIn g)\<rparr>)"
proof -
  let ?d = "deliver L (CallChanged (callChangedOf e))"
  let ?step = "\<lambda>u g. case map_of (byUser g) u of None \<Rightarrow> g | Some s \<Rightarrow> fold ?d s g"
  have "fold ?step us g' = fold ?d (concat (map (user_set g) us)) g'" if "byUser g' = byUser g" for us g'
    using that
  proof (induction us arbitrary: g')
    case (Cons u us)
    have "?step u g' = fold ?d (user_set g u) g'"
      using Cons.prems by (simp add: user_set_def split: option.split)
    with Cons.IH [of "fold ?d (user_set g u) g'"] Cons.prems show ?case by simp
  qed simp
  from this [of "g\<lparr>eventsIn := Suc (eventsIn g)\<rparr>" "parties e"] show ?thesis
    by (simp add: route_def recipients_def)
qed

lemma route_frames:
  assumes "gw_inv g" and "c < nconns g"
  shows "framesTo c (trail (route L e g)) = framesTo c (trail g) @
    (if can_receive g c \<and> userId (conns g c) \<in> {Some (ev_fanId e), Some (ev_partnerId e)}
     then [CallChanged (callChangedOf e)] else [])"
proof -
  let ?g = "g\<lparr>eventsIn := Suc (eventsIn g)\<rparr>" and ?f = "CallChanged (callChangedOf e)"
  let ?new = "\<lambda>os k. if readyState k = WsOpen \<and> bufferedAmount k \<le> maxBufferedBytes os then [?f] else []"
  have reg: "registry_ok g" using assms(1) by (simp add: gw_inv_def)
  have fr: "framesTo c (trail (deliver L ?f d g')) =
      framesTo c (trail g') @ (if d = c then ?new (opts g') (conns g' c) else [])" for d g'
    by (auto simp: deliver_eq framesTo_send can_receive_def)
  have mem: "c \<in> set (recipients e g) \<longleftrightarrow>
      userId (conns g c) \<in> {Some (ev_fanId e), Some (ev_partnerId e)}" if "can_receive g c"
    using that user_set_mem_iff [OF assms, of "ev_fanId e"] user_set_mem_iff [OF assms, of "ev_partnerId e"]
    by (auto simp: recipients_def parties_def can_receive_def)
  have "framesTo c (trail (route L e g)) =
      framesTo c (trail ?g) @ (if c \<in> set (recipients e g) then ?new (opts ?g) (conns ?g c) else [])"
    unfolding route_eq
    by (rule fold_frames [where new = ?new, OF other_same_deliver fr distinct_recipients [OF reg]])
  with mem show ?thesis by (auto simp: can_receive_def)
qed

lemma broadcast_frames:
  assumes "gw_inv g" and "c < nconns g"
  shows "framesTo c (trail (broadcast L f g)) = framesTo c (trail g) @
    (if can_receive g c \<and> userId (conns g c) \<noteq> None then [f] else [])"
proof -
  let ?new = "\<lambda>os k. if readyState k = WsOpen \<and> bufferedAmount k \<le> maxBufferedBytes os then [f] else []"
  have reg: "registry_ok g" using assms(1) by (simp add: gw_inv_def)
  have fr: "framesTo c (trail (snd (send L d f g'))) =
      framesTo c (trail g') @ (if d = c then ?new (opts g') (conns g' c) else [])" for d g'
    by (auto simp: framesTo_send can_receive_def)
  have "framesTo c (trail (broadcast L f g)) =
      framesTo c (trail g) @ (if c \<in> set (all_vals (byUser g)) then ?new (opts g) (conns g c) else [])"
    unfolding broadcast_def
    by (rule fold_frames [where new = ?new, OF other_same_send fr distinct_all_vals [OF reg]])
  with all_vals_mem_iff [OF assms] show ?thesis by (auto simp: can_receive_def)
qed

section \<open>The heartbeat\<close>

lemma other_same_tick_conn: "other_same c g (tick_conn L now c g)"
  by (simp add: tick_conn_def other_same_close other_same_terminate other_same_send)

definition lapsed :: "int \<Rightarrow> conn \<Rightarrow> bool" where
  "lapsed now k \<longleftrightarrow> expiresAtMs k \<le> now"

definition silent :: "int \<Rightarrow> realtimeOptions \<Rightarrow> conn \<Rightarrow> bool" where
  "silent now os k \<longleftrightarrow> 2 * (now - lastSeenMs k) > 5 * pingIntervalMs os"

lemma tick_frames:
  assumes "gw_inv g" and "c < nconns g"
  shows "framesTo c (trail (tick L now g)) = framesTo c (trail g) @
    (if can_receive g c \<and> userId (conns g c) \<noteq> None \<and>
        \<not> lapsed now (conns g c) \<and> \<not> silent now (opts g) (conns g c) then [Ping] else [])"
proof -
  let ?new = "\<lambda>os k. if readyState k = WsOpen \<and> bufferedAmount k \<le> maxBufferedBytes os \<and>
      \<not> lapsed now k \<and> \<not> silent now os k then [Ping] else []"
  have reg: "registry_ok g" using assms(1) by (simp add: gw_inv_def)
  have fr: "framesTo c (trail (tick_conn L now d g')) =
      framesTo c (trail g') @ (if d = c then ?new (opts g') (conns g' c) else [])" for d g'
    by (auto simp: tick_conn_def framesTo_send can_receive_def lapsed_def silent_def)
  have "framesTo c (trail (tick L now g)) =
      framesTo c (trail g) @ (if c \<in> set (all_vals (byUser g)) then ?new (opts g) (conns g c) else [])"
    unfolding tick_def
    by (rule fold_frames [where new = ?new, OF other_same_tick_conn fr distinct_all_vals [OF reg]])
  with all_vals_mem_iff [OF assms] show ?thesis by (auto simp: can_receive_def)
qed

lemma tick_shuts:
  assumes L: "ws_ok L" and inv: "gw_inv g" and c: "c < nconns g" and u: "userId (conns g c) \<noteq> None"
    and l: "lapsed now (conns g c) \<or> silent now (opts g) (conns g c)"
  shows "readyState (conns (tick L now g) c) \<noteq> WsOpen"
proof (cases "readyState (conns g c) = WsOpen")
  case False
  then show ?thesis using quiet_open [OF quiet_shut [OF shut_tick [OF L]]] by blast
next
  case True
  have reg: "registry_ok g" using inv by (simp add: gw_inv_def)
  have mem: "c \<in> set (all_vals (byUser g))" using all_vals_mem_iff [OF inv c True] u by simp
  have nc: "\<not> conn_closed (conns g c)" by (rule open_known(1) [OF inv c True])
  let ?h = "\<lambda>os k. conns (tick_conn L now c (g\<lparr>opts := os, conns := (\<lambda>_. k)\<rparr>)) c"
  have st: "conns (tick_conn L now c g') c = ?h (opts g') (conns g' c)" for g'
    by (simp add: tick_conn_def close_def terminate_def send_def effect_def upd_conn_def split: option.split)
  have "conns (tick L now g) c = ?h (opts g) (conns g c)"
    unfolding tick_def
    by (rule fold_conn [where h = ?h, OF other_same_tick_conn st distinct_all_vals [OF reg] mem])
  then have "conns (tick L now g) c = conns (tick_conn L now c g) c" unfolding st [symmetric] .
  moreover have "readyState (conns (tick_conn L now c g) c) \<noteq> WsOpen"
    using l nc close_not_open [OF L, of g c] ws_ok_terminate [OF L]
    by (auto simp: tick_conn_def lapsed_def silent_def terminate_def effect_def upd_conn_def)
  ultimately show ?thesis by simp
qed

end
