(* ===== verification/Realtime_History.thy ===== *)
theory Realtime_History
  imports Realtime_Delivery
begin

text \<open>
  Facts about whole histories of the gateway: an identity is never changed once it is given, it is
  the subject of a token the verifier accepted, and nothing is sent to a connection without one.
\<close>

section \<open>What an operation may do to identities and to anonymous connections\<close>

text \<open>
  \<open>modest g g'\<close>: identities are kept, and a connection without one is sent nothing.
\<close>

definition modest :: "gateway \<Rightarrow> gateway \<Rightarrow> bool" where
  "modest g g' \<longleftrightarrow>
     (\<forall>c. userId (conns g' c) = userId (conns g c) \<and>
          (userId (conns g c) = None \<longrightarrow> framesTo c (trail g') = framesTo c (trail g)))"

lemma modest_refl [simp]: "modest g g"
  by (simp add: modest_def)

lemma modest_trans: "modest a b \<Longrightarrow> modest b c \<Longrightarrow> modest a c"
  by (simp add: modest_def)

lemma modest_upd:
  "(\<And>k. userId (f k) = userId k) \<Longrightarrow> modest g (upd_conn c f g)"
  by (simp add: modest_def upd_conn_def)

lemma modest_terminate: "modest g (terminate L c g)"
  by (simp add: modest_def) (simp add: terminate_def effect_def upd_conn_def)

lemma modest_close: "modest g (close L c code reason g)"
  by (simp add: modest_def) (simp add: close_def terminate_def effect_def upd_conn_def split: option.split)

lemma modest_closeAll: "modest g (closeAll L code reason g)"
  unfolding closeAll_def by (rule fold_invariant_pred) (auto intro: modest_trans modest_close)

lemma framesTo_fold_other:
  assumes "\<And>d g. d \<noteq> c \<Longrightarrow> framesTo c (trail (f d g)) = framesTo c (trail g)" and "c \<notin> set cs"
  shows "framesTo c (trail (fold f cs g)) = framesTo c (trail g)"
  using assms(2) by (induction cs arbitrary: g) (auto simp: assms(1))

text \<open>A pass over connections that all have an identity is modest.\<close>

lemma modest_fold:
  assumes sh: "shut g (fold f cs g)"
    and fr: "\<And>c d g. d \<noteq> c \<Longrightarrow> framesTo c (trail (f d g)) = framesTo c (trail g)"
    and "\<And>c. c \<in> set cs \<Longrightarrow> userId (conns g c) \<noteq> None"
  shows "modest g (fold f cs g)"
  unfolding modest_def
proof (intro allI conjI impI)
  fix c
  show "userId (conns (fold f cs g) c) = userId (conns g c)" using sh by (simp add: shut_def)
  assume "userId (conns g c) = None"
  then have "c \<notin> set cs" using assms(3) by blast
  then show "framesTo c (trail (fold f cs g)) = framesTo c (trail g)"
    by (intro framesTo_fold_other) (auto intro: fr)
qed

lemma registered_has_id:
  "registry_ok g \<Longrightarrow> c \<in> set (all_vals (byUser g)) \<Longrightarrow> userId (conns g c) \<noteq> None"
  using in_all_vals [of "byUser g" c] by (fastforce simp: registry_ok_def)

lemma modest_broadcast:
  assumes L: "ws_ok L" and "registry_ok g"
  shows "modest g (broadcast L f g)"
  unfolding broadcast_def
  by (rule modest_fold [OF shut_broadcast [OF L, unfolded broadcast_def]])
    (auto simp: framesTo_send registered_has_id [OF assms(2)])

lemma modest_tick:
  assumes L: "ws_ok L" and "registry_ok g"
  shows "modest g (tick L now g)"
  unfolding tick_def
  by (rule modest_fold [OF shut_tick [OF L, unfolded tick_def]])
    (auto simp: tick_conn_def framesTo_send registered_has_id [OF assms(2)])

lemma modest_route:
  assumes L: "ws_ok L" and "registry_ok g"
  shows "modest g (route L e g)"
proof -
  let ?g = "g\<lparr>eventsIn := Suc (eventsIn g)\<rparr>" and ?d = "deliver L (CallChanged (callChangedOf e))"
  have "modest ?g (fold ?d (recipients e g) ?g)"
  proof (rule modest_fold)
    show "shut ?g (fold ?d (recipients e g) ?g)" by (rule shut_fold) (rule shut_deliver [OF L])
    show "framesTo c (trail (?d d g')) = framesTo c (trail g')" if "d \<noteq> c" for c d g'
      using that by (simp add: deliver_eq framesTo_send)
    show "userId (conns ?g c) \<noteq> None" if "c \<in> set (recipients e g)" for c
      using that user_set_members(2) [OF assms(2)] by (fastforce simp: recipients_def)
  qed
  then show ?thesis by (simp add: route_eq modest_def)
qed

section \<open>Identities along a step\<close>

text \<open>What the resumed part of \<open>authenticate\<close> does to identities and frames.\<close>

lemma authenticated_ids:
  assumes L: "ws_ok L" and m: "1 \<le> maxPerUser (opts g)"
  shows "userId (conns (authenticated L c r now g) d) = userId (conns g d) \<or>
         d = c \<and> (\<exists>v. r = Inr v \<and> userId (conns (authenticated L c r now g) d) = Some (vt_id v))"
    and "userId (conns (authenticated L c r now g) d) = None \<Longrightarrow>
         framesTo d (trail (authenticated L c r now g)) = framesTo d (trail g)"
proof -
  let ?g1 = "upd_conn c (\<lambda>k. k\<lparr>verifying := False\<rparr>) g"
  have m1: "modest g ?g1" by (rule modest_upd) simp
  have plain: "modest g (close L c code reason ?g1)" for code reason
    by (rule modest_trans [OF m1 modest_close])
  have "(userId (conns (authenticated L c r now g) d) = userId (conns g d) \<or>
         d = c \<and> (\<exists>v. r = Inr v \<and> userId (conns (authenticated L c r now g) d) = Some (vt_id v))) \<and>
     (userId (conns (authenticated L c r now g) d) = None \<longrightarrow>
         framesTo d (trail (authenticated L c r now g)) = framesTo d (trail g))"
  proof (cases r)
    case (Inl msg)
    then have "modest g (authenticated L c r now g)" using plain by (simp add: authenticated_def)
    then show ?thesis by (simp add: modest_def)
  next
    case (Inr v)
    show ?thesis
    proof (cases "\<not> conn_closed (conns g c) \<and> gw_healthy g")
      case False
      then have "modest g (authenticated L c r now g)"
        using plain m1 Inr by (auto simp: authenticated_def upd_conn_def Let_def)
      then show ?thesis by (simp add: modest_def)
    next
      case True
      let ?r = "registered L c v now g"
      have eq: "authenticated L c (Inr v) now g = snd (send L c (Ready 1 (pingIntervalMs (opts g))) ?r)"
        using authenticated_registers [OF L m] True by simp
      have id: "userId (conns (authenticated L c (Inr v) now g) d) = userId (conns ?r d)"
        unfolding eq using shut_send [OF L] by (simp add: shut_def)
      have fr: "framesTo d (trail ?r) = framesTo d (trail g)"
      proof -
        have "framesTo d (trail (evict_old L u g')) = framesTo d (trail g')" for u g'
          unfolding evict_old_def by (rule fold_frame) simp
        then show ?thesis by (simp add: registered_def admitted_def)
      qed
      show ?thesis
        unfolding Inr id using registered_conns(1) [OF L, of c v now g d] fr
        by (auto simp: eq framesTo_send split: if_splits)
    qed
  qed
  then show "userId (conns (authenticated L c r now g) d) = userId (conns g d) \<or>
         d = c \<and> (\<exists>v. r = Inr v \<and> userId (conns (authenticated L c r now g) d) = Some (vt_id v))"
    and "userId (conns (authenticated L c r now g) d) = None \<Longrightarrow>
         framesTo d (trail (authenticated L c r now g)) = framesTo d (trail g)" by blast+
qed

lemma onClose_trail [simp]: "trail (onClose c g) = trail g"
  by (auto simp: onClose_def upd_conn_def Let_def split: option.splits)

lemma onClose_ids [simp]: "userId (conns (onClose c g) d) = userId (conns g d)"
  by (simp add: onClose_def upd_conn_def Let_def split: option.splits)

text \<open>
  Every step but a resumed authentication and an accepted upgrade is modest.
\<close>

lemma modest_step:
  assumes L: "ws_ok L" and "gw_step L parse V g g'" and inv: "gw_inv g"
  shows "modest g g' \<or> (\<exists>now g1. modest g g1 \<and> nconns g1 = nconns g \<and> g' = onConnection now g1) \<or>
         (\<exists>c t now. (c, t) \<in> set (inflight g) \<and> g' = resume L V c t now g)"
  using assms(2)
proof cases
  case (upgrade url listeners handshake now)
  have "modest g (effect x g)" if "\<And>c. frameTo c x = []" for x
    using that by (simp add: modest_def framesTo_effect) (simp add: effect_def)
  moreover have "nconns (effect x g) = nconns g" for x by (simp add: effect_def)
  moreover have "modest g (effect Http503 (g\<lparr>refused := n\<rparr>))" for n
    by (simp add: modest_def framesTo_effect) (simp add: effect_def)
  moreover have "g' = onConnection now (effect HandshakeStarted g) \<or> g' = g \<or>
      g' = effect Http503 (g\<lparr>refused := Suc (refused g)\<rparr>) \<or> g' = effect SocketDestroyed g \<or>
      g' = effect HandshakeStarted g"
    unfolding upgrade by (auto simp: onUpgrade_def Let_def)
  ultimately show ?thesis by (metis frameTo.simps(4,5,6) modest_refl)
next
  case (message c data isBinary now)
  let ?g = "upd_conn c (\<lambda>k. k\<lparr>lastSeenMs := now\<rparr>) g"
  have q: "modest g ?g" by (rule modest_upd) simp
  have cl: "modest g (close L c code reason ?g)" for code reason
    by (rule modest_trans [OF q modest_close])
  have "modest g (authenticate L c token ?g)" for token
    using cl q by (auto simp: authenticate_def modest_def upd_conn_def split: option.split)
  then show ?thesis
    using q cl unfolding message by (auto simp: onMessage_def Let_def split: option.split)
next
  case (resumed c t now)
  then show ?thesis by blast
next
  case (auth_timeout c)
  have "modest g (upd_conn c (\<lambda>k. k\<lparr>authTimer := False\<rparr>) g)" by (rule modest_upd) simp
  then show ?thesis unfolding auth_timeout authTimeout_def using modest_trans modest_close by blast
next
  case (health h)
  let ?h = "g\<lparr>gw_healthy := h\<rparr>"
  have "modest g ?h" by (simp add: modest_def)
  then show ?thesis
    unfolding health onHealth_def Let_def using modest_trans [OF _ modest_closeAll] by auto
next
  case (peer_closing c rs)
  then show ?thesis using modest_upd [of "\<lambda>k. k\<lparr>readyState := rs\<rparr>" g c] by simp
next
  case (buffered c n)
  then show ?thesis using modest_upd [of "\<lambda>k. k\<lparr>bufferedAmount := n\<rparr>" g c] by simp
next
  case (closed_event c)
  then show ?thesis by (simp add: modest_def) (simp add: upd_conn_def)
next
  case destroyed
  let ?h = "g\<lparr>attached := False, heartbeat := False\<rparr>"
  have "modest g ?h" by (simp add: modest_def)
  then show ?thesis unfolding destroyed destroy_def using modest_trans [OF _ modest_closeAll] by auto
qed (use inv modest_tick [OF L] modest_route [OF L] modest_broadcast [OF L] modest_terminate
      in \<open>auto simp: gw_inv_def\<close>)

lemma step_keeps_ids:
  assumes L: "ws_ok L" and st: "gw_step L parse V g g'" and inv: "gw_inv g"
    and c: "c < nconns g" "userId (conns g c) = Some u"
  shows "userId (conns g' c) = Some u"
  using modest_step [OF L st inv]
proof (elim disjE exE conjE)
  fix now g1 assume "modest g g1" "nconns g1 = nconns g" "g' = onConnection now g1"
  with c show ?thesis by (simp add: modest_def onConnection_def Let_def)
next
  fix d t now assume d: "(d, t) \<in> set (inflight g)" and g': "g' = resume L V d t now g"
  have "d \<noteq> c" using inv d c by (auto simp: gw_inv_def inflight_ok_def)
  then show ?thesis
    using authenticated_ids(1) [OF L, of "g\<lparr>inflight := removeAll (d, t) (inflight g)\<rparr>" d "V t" now c] inv c
    by (simp add: g' resume_def gw_inv_def)
qed (use c in \<open>simp add: modest_def\<close>)

section \<open>The history invariant\<close>

definition hist_ok :: "verifier \<Rightarrow> gateway \<Rightarrow> bool" where
  "hist_ok V g \<longleftrightarrow>
     (\<forall>c u. userId (conns g c) = Some u \<longrightarrow> (\<exists>t v. V t = Inr v \<and> vt_id v = u)) \<and>
     (\<forall>c. userId (conns g c) = None \<longrightarrow> framesTo c (trail g) = [])"

lemma hist_ok_modest: "hist_ok V g \<Longrightarrow> modest g g' \<Longrightarrow> hist_ok V g'"
  by (simp add: hist_ok_def modest_def)

definition unborn_ok :: "gateway \<Rightarrow> bool" where
  "unborn_ok g \<longleftrightarrow> (\<forall>c \<ge> nconns g. userId (conns g c) = None)"

lemma shut_nconns: "shut g g' \<Longrightarrow> nconns g' = nconns g"
  by (simp add: shut_def)

lemma step_nconns:
  assumes L: "ws_ok L" and st: "gw_step L parse V g g'" and inv: "gw_inv g"
  shows "nconns g' = nconns g \<or> (\<exists>now g1. nconns g1 = nconns g \<and> g' = onConnection now g1)"
  using st
proof cases
  case (upgrade url listeners handshake now)
  have "nconns (effect x g) = nconns g" for x by (simp add: effect_def)
  then show ?thesis unfolding upgrade
    by (auto simp: onUpgrade_def Let_def) (auto simp: effect_def)
next
  case (message c data isBinary now)
  have cl: "nconns (close L c code reason g') = nconns g'" for code reason g'
    using shut_close [OF L] by (simp add: shut_def)
  then show ?thesis unfolding message
    by (auto simp: onMessage_def authenticate_def Let_def upd_conn_def split: option.split)
next
  case (resumed c t now)
  let ?g = "g\<lparr>inflight := removeAll (c, t) (inflight g)\<rparr>"
  have cl: "nconns (close L c code reason g') = nconns g'" for code reason g'
    using shut_close [OF L] by (simp add: shut_def)
  have se: "nconns (snd (send L c f g')) = nconns g'" for f g'
    using shut_send [OF L] by (simp add: shut_def)
  have "nconns (authenticated L c (V t) now ?g) = nconns g"
  proof (cases "\<exists>v. V t = Inr v \<and> \<not> conn_closed (conns g c) \<and> gw_healthy g")
    case True
    then show ?thesis
      using authenticated_registers [OF L, of ?g c _ now] inv
      by (auto simp: se registered_frame [OF L] gw_inv_def)
  next
    case False
    then show ?thesis
      by (auto simp: authenticated_def cl Let_def upd_conn_def split: sum.split)
  qed
  then show ?thesis unfolding resumed resume_def by simp
next
  case (auth_timeout c)
  have "nconns (close L c code reason g') = nconns g'" for code reason g'
    using shut_close [OF L] by (simp add: shut_def)
  then show ?thesis unfolding auth_timeout authTimeout_def by (simp add: upd_conn_def)
next
  case (health h)
  have "nconns (closeAll L code reason g') = nconns g'" for code reason g'
    using shut_closeAll [OF L] by (simp add: shut_def)
  then show ?thesis unfolding health onHealth_def by (simp add: Let_def)
next
  case destroyed
  have "nconns (closeAll L code reason g') = nconns g'" for code reason g'
    using shut_closeAll [OF L] by (simp add: shut_def)
  then show ?thesis unfolding destroyed destroy_def by simp
next
  case (closed_event c)
  then show ?thesis by (simp add: onClose_def upd_conn_def Let_def split: option.split)
qed (simp_all add: shut_nconns [OF shut_tick [OF L]] shut_nconns [OF shut_route [OF L]]
      shut_nconns [OF shut_broadcast [OF L]] shut_nconns [OF shut_terminate [OF L]] upd_conn_def)

lemma hist_step:
  assumes L: "ws_ok L" and st: "gw_step L parse V g g'" and inv: "gw_inv g"
    and h: "hist_ok V g" and un: "unborn_ok g"
  shows "hist_ok V g'" and "unborn_ok g'"
proof -
  have "hist_ok V g' \<and> unborn_ok g'"
    using modest_step [OF L st inv]
  proof (elim disjE exE conjE)
    assume m: "modest g g'"
    have "nconns g' \<ge> nconns g"
      using step_nconns [OF L st inv] by (auto simp: onConnection_def Let_def)
    with m un hist_ok_modest [OF h m] show ?thesis by (auto simp: unborn_ok_def modest_def)
  next
    fix now g1 assume m: "modest g g1" "nconns g1 = nconns g" "g' = onConnection now g1"
    have "userId (conns g1 (nconns g)) = None" using m un by (simp add: unborn_ok_def modest_def)
    with hist_ok_modest [OF h m(1)] m un show ?thesis
      by (auto simp: hist_ok_def unborn_ok_def modest_def onConnection_def Let_def)
  next
    fix d t now assume d: "(d, t) \<in> set (inflight g)" and g': "g' = resume L V d t now g"
    let ?g = "g\<lparr>inflight := removeAll (d, t) (inflight g)\<rparr>"
    have m: "1 \<le> maxPerUser (opts ?g)" using inv by (simp add: gw_inv_def)
    note ids = authenticated_ids [OF L m, of d "V t" now, folded resume_def]
    have "hist_ok V g'"
      unfolding hist_ok_def
    proof (intro conjI allI impI)
      fix c u assume "userId (conns g' c) = Some u"
      then show "\<exists>t v. V t = Inr v \<and> vt_id v = u"
        using ids(1) [of c] h by (auto simp: g' hist_ok_def)
    next
      fix c assume n: "userId (conns g' c) = None"
      then have "userId (conns g c) = None" using ids(1) [of c] by (auto simp: g')
      with n show "framesTo c (trail g') = []"
        using ids(2) [of c] h by (simp add: g' hist_ok_def)
    qed
    moreover have "nconns g' \<ge> nconns g"
      using step_nconns [OF L st inv] by (auto simp: onConnection_def Let_def)
    moreover have "d < nconns g" using inv d by (auto simp: gw_inv_def inflight_ok_def)
    moreover have "userId (conns g' c) = None" if "nconns g' \<le> c" "nconns g \<le> nconns g'" "d < nconns g" for c
      using ids(1) [of c] un that by (auto simp: unborn_ok_def g')
    ultimately show ?thesis by (simp add: unborn_ok_def)
  qed
  then show "hist_ok V g'" and "unborn_ok g'" by simp_all
qed

context token_verifier
begin

lemma hist_reach:
  assumes L: "ws_ok L" and m: "1 \<le> maxPerUser os" and "gw_reach L parse verify os g"
  shows "hist_ok verify g \<and> unborn_ok g"
  using assms(3)
proof induction
  case (init en)
  show ?case
    by (simp add: hist_ok_def unborn_ok_def attach_def new_gateway_def effect_def no_conn_def Let_def)
next
  case (step g g')
  then show ?case using hist_step [OF L] gw_inv_reach [OF L m] by blast
qed

end

end
