(* ===== verification/Realtime_Props.thy ===== *)
theory Realtime_Props
  imports Realtime_History
begin

text \<open>
  The properties of the gateway, over every state that some sequence of upgrades, frames, token
  verdicts, timers, source events and socket closes can reach, with the tokens judged by
  \<open>verify\<close> of \<open>jwt.guard.ts\<close>.
\<close>

section \<open>A concrete run\<close>

text \<open>
  Two upgrades, then both sockets authenticate, as \<open>fan\<close> and as \<open>ptn\<close>.
\<close>

definition demo_parse :: "string \<Rightarrow> json option" where
  "demo_parse s = Some (JObj [(''type'', JStr ''auth''), (''token'', JStr s)])"

definition demo_jose :: jose where
  "demo_jose t = Inr \<lparr>pl_sub = Some t, pl_email = None, pl_exp = Some 100\<rparr>"

definition demo_pair :: "nat \<Rightarrow> string \<Rightarrow> string \<Rightarrow> gateway" where
  "demo_pair m t t' =
     resume ws_std (verify demo_jose) 0 t 30
       (onMessage ws_std demo_parse 1 t' False 20
         (onMessage ws_std demo_parse 0 t False 20
           (onUpgrade (Some REALTIME_PATH) 1 True 10
             (onUpgrade (Some REALTIME_PATH) 1 True 10
               (onHealth ws_std True
                 (attach (new_gateway (DEFAULT_REALTIME_OPTIONS\<lparr>maxPerUser := m\<rparr>) True)))))))"

definition demo_run :: gateway where
  "demo_run = resume ws_std (verify demo_jose) 1 ''ptn'' 40 (demo_pair 5 ''fan'' ''ptn'')"

lemmas gw_eval = demo_run_def demo_pair_def demo_parse_def demo_jose_def resume_def authenticated_def verify_def
  toUser_def onMessage_def authenticate_def onUpgrade_def onConnection_def onHealth_def attach_def
  new_gateway_def effect_def upd_conn_def send_def no_conn_def DEFAULT_REALTIME_OPTIONS_def
  REALTIME_PATH_def set_add_def set_del_def NO_EXPIRY_CAP_MS_def

lemma demo_eval:
  "nconns demo_run = 2" "byUser demo_run = [(''fan'', [0]), (''ptn'', [1])]" "pending demo_run = []"
  "gw_healthy demo_run" "enabled demo_run" "inflight demo_run = []" "attached demo_run" "heartbeat demo_run"
  "opts demo_run = DEFAULT_REALTIME_OPTIONS"
  "conns demo_run 0 = \<lparr>readyState = WsOpen, bufferedAmount = 0, userId = Some ''fan'',
     expiresAtMs = 100000, lastSeenMs = 20, authTimer = False, verifying = False, conn_closed = False\<rparr>"
  "conns demo_run (Suc 0) = \<lparr>readyState = WsOpen, bufferedAmount = 0, userId = Some ''ptn'',
     expiresAtMs = 100000, lastSeenMs = 20, authTimer = False, verifying = False, conn_closed = False\<rparr>"
  "trail demo_run = [SourceStart, HandshakeStarted, HandshakeStarted, Sent 0 (Ready 1 25000), Sent 1 (Ready 1 25000)]"
  by (simp_all add: gw_eval)

lemma demo_options: "DEFAULT_REALTIME_OPTIONS\<lparr>maxPerUser := 5\<rparr> = DEFAULT_REALTIME_OPTIONS"
  by (simp add: DEFAULT_REALTIME_OPTIONS_def)

lemma demo_pair_reach:
  assumes "t \<noteq> []" and "t' \<noteq> []"
  shows "gw_reach ws_std demo_parse (verify demo_jose) (DEFAULT_REALTIME_OPTIONS\<lparr>maxPerUser := m\<rparr>) (demo_pair m t t')"
proof -
  let ?os = "DEFAULT_REALTIME_OPTIONS\<lparr>maxPerUser := m\<rparr>"
  let ?R = "gw_reach ws_std demo_parse (verify demo_jose) ?os"
  let ?h = "onHealth ws_std True (attach (new_gateway ?os True))"
  let ?u1 = "onUpgrade (Some REALTIME_PATH) 1 True 10 ?h"
  let ?u2 = "onUpgrade (Some REALTIME_PATH) 1 True 10 ?u1"
  let ?m1 = "onMessage ws_std demo_parse 0 t False 20 ?u2"
  let ?m2 = "onMessage ws_std demo_parse 1 t' False 20 ?m1"
  have "?R ?h" by (rule gw_reach.step [OF gw_reach.init gw_step.health])
  then have "?R ?u1" by (rule gw_reach.step) (rule gw_step.upgrade, simp add: gw_eval)
  then have "?R ?u2" by (rule gw_reach.step) (rule gw_step.upgrade, simp add: gw_eval)
  then have "?R ?m1" by (rule gw_reach.step) (rule gw_step.message; simp add: gw_eval)
  then have "?R ?m2" by (rule gw_reach.step) (rule gw_step.message; use assms in \<open>simp add: gw_eval\<close>)
  then show ?thesis unfolding demo_pair_def
    by (rule gw_reach.step) (rule gw_step.resumed, use assms in \<open>simp add: gw_eval\<close>)
qed

lemma demo_reach: "gw_reach ws_std demo_parse (verify demo_jose) DEFAULT_REALTIME_OPTIONS demo_run"
  unfolding demo_run_def
  by (rule gw_reach.step [OF demo_pair_reach [where m = 5, unfolded demo_options] gw_step.resumed])
    (simp_all add: gw_eval)

section \<open>Options never change\<close>

lemma shut_opts: "shut g g' \<Longrightarrow> opts g' = opts g"
  by (simp add: shut_def)

lemma step_opts:
  assumes L: "ws_ok L" and st: "gw_step L parse V g g'" and inv: "gw_inv g"
  shows "opts g' = opts g"
proof -
  note simps = shut_opts [OF shut_close [OF L]] shut_opts [OF shut_send [OF L]]
    shut_opts [OF shut_closeAll [OF L]] shut_opts [OF shut_terminate [OF L]]
  from st show ?thesis
  proof cases
    case (upgrade url listeners handshake now)
    then show ?thesis by (simp add: onUpgrade_def onConnection_def effect_def Let_def)
  next
    case (message c data isBinary now)
    then show ?thesis
      by (simp add: simps onMessage_def authenticate_def upd_conn_def Let_def split: option.split)
  next
    case (resumed c t now)
    let ?g = "g\<lparr>inflight := removeAll (c, t) (inflight g)\<rparr>"
    have "opts (authenticated L c (V t) now ?g) = opts g"
    proof (cases "\<exists>v. V t = Inr v \<and> \<not> conn_closed (conns g c) \<and> gw_healthy g")
      case True
      then show ?thesis
        using authenticated_registers [OF L, of ?g c _ now] inv
        by (auto simp: simps registered_frame [OF L] gw_inv_def)
    next
      case False
      then show ?thesis
        by (auto simp: authenticated_def simps Let_def upd_conn_def split: sum.split)
    qed
    then show ?thesis unfolding resumed resume_def by simp
  next
    case (closed_event c)
    then show ?thesis by (simp add: onClose_def upd_conn_def Let_def split: option.split)
  qed (simp_all add: simps shut_opts [OF shut_tick [OF L]] shut_opts [OF shut_route [OF L]]
      shut_opts [OF shut_broadcast [OF L]] authTimeout_def onHealth_def destroy_def upd_conn_def Let_def)
qed

context token_verifier
begin

lemma reach_opts:
  assumes L: "ws_ok L" and m: "1 \<le> maxPerUser os" and "gw_reach L parse verify os g"
  shows "opts g = os"
  using assms(3)
proof induction
  case (init en)
  show ?case by (simp add: attach_def new_gateway_def effect_def Let_def)
next
  case (step g g')
  then show ?case using step_opts [OF L] gw_inv_reach [OF L m] by metis
qed

end

section \<open>Eviction spares the newcomer\<close>

lemma evict_old_spares:
  assumes "c \<notin> set (user_set g u)"
  shows "conns (evict_old L u g) c = conns g c"
proof -
  have "conns (close L d code reason h) c = conns h c" if "d \<noteq> c" for d code reason h
    using other_same_close [of d h L code reason] that by (simp add: other_same_def)
  moreover have "c \<notin> set (take n (user_set g u))" for n
    using assms by (meson in_set_takeD)
  ultimately show ?thesis
    unfolding evict_old_def by (intro fold_frame [where h = "\<lambda>g. conns g c"]) metis
qed

lemma registered_spares:
  assumes "c \<notin> set (user_set g (vt_id v))"
  shows "readyState (conns (registered L c v now g) c) = readyState (conns g c)"
    "bufferedAmount (conns (registered L c v now g) c) = bufferedAmount (conns g c)"
  using evict_old_spares [of c "admitted c v now g" "vt_id v" L] assms
  by (simp_all add: registered_def admitted_def upd_conn_def user_set_def)

section \<open>Properties\<close>

text \<open>
  C2. In every reachable state of the gateway each user has at most one registry entry, a
  non-empty set of at most \<open>maxPerUser\<close> distinct connections that are authenticated as that
  user and have not closed; a connection is never both registered and pending, and the pending
  ones carry no identity.
\<close>

theorem gateway_registry_bounded:
  assumes "ws_ok L" and "1 \<le> maxPerUser os" and "gw_reach L parse (verify jose) os g"
  shows "distinct (map fst (byUser g)) \<and>
    (\<forall>u s. map_of (byUser g) u = Some s \<longrightarrow>
       s \<noteq> [] \<and> distinct s \<and> length s \<le> maxPerUser os \<and>
       (\<forall>c \<in> set s. userId (conns g c) = Some u \<and> \<not> conn_closed (conns g c) \<and> c \<notin> set (pending g))) \<and>
    distinct (pending g) \<and>
    (\<forall>c \<in> set (pending g). userId (conns g c) = None \<and> \<not> conn_closed (conns g c))"
  using jwt.gw_inv_reach [OF assms] jwt.reach_opts [OF assms]
  by (auto simp: gw_inv_def registry_ok_def pending_ok_def)

theorem gateway_registry_bounded_witness:
  "map_of (byUser demo_run) ''fan'' = Some [0] \<and> distinct (map fst (byUser demo_run)) \<and>
   length [0::nat] \<le> maxPerUser DEFAULT_REALTIME_OPTIONS"
  using gateway_registry_bounded [OF ws_std_ok _ demo_reach]
  by (simp add: demo_eval DEFAULT_REALTIME_OPTIONS_def)

text \<open>
  No socket is forgotten: in every reachable state an open socket belongs to a connection
  that is pending, or is registered under its identity so that events, pings and shutdown reach
  it; and while the event source is unhealthy no socket is open at all.
\<close>

theorem gateway_open_sockets_known:
  assumes "ws_ok L" and "1 \<le> maxPerUser os" and "gw_reach L parse (verify jose) os g"
    and "c < nconns g" and "readyState (conns g c) = WsOpen"
  shows "gw_healthy g \<and> \<not> conn_closed (conns g c) \<and>
    (userId (conns g c) = None \<and> c \<in> set (pending g) \<or>
     (\<exists>u s. userId (conns g c) = Some u \<and> map_of (byUser g) u = Some s \<and> c \<in> set s))"
proof -
  have inv: "gw_inv g" by (rule jwt.gw_inv_reach [OF assms(1-3)])
  then have "known_ok g" and "health_ok g" by (simp_all add: gw_inv_def)
  with assms(4,5) open_known(1) [OF inv assms(4,5)] show ?thesis
    by (cases "userId (conns g c)") (auto simp: known_ok_def health_ok_def)
qed

theorem gateway_open_sockets_known_witness:
  "gw_healthy demo_run \<and> \<not> conn_closed (conns demo_run 1)"
  using gateway_open_sockets_known [OF ws_std_ok _ demo_reach, of 1]
  by (simp add: demo_eval DEFAULT_REALTIME_OPTIONS_def)

text \<open>
  Delivery of a call event is exact: in every reachable state \<open>route\<close> adds to the frames of
  a connection one \<open>call.changed\<close> frame, without the routing fields, if its socket is open
  and not backed up and it is authenticated as the fan or the partner of the event (once, also
  when the two are the same user), and nothing otherwise.
\<close>

theorem route_delivers_exactly:
  assumes "ws_ok L" and "1 \<le> maxPerUser os" and "gw_reach L parse (verify jose) os g"
    and "c < nconns g"
  shows "framesTo c (trail (route L e g)) = framesTo c (trail g) @
    (if readyState (conns g c) = WsOpen \<and> bufferedAmount (conns g c) \<le> maxBufferedBytes os \<and>
        userId (conns g c) \<in> {Some (ev_fanId e), Some (ev_partnerId e)}
     then [CallChanged \<lparr>msg_callId = msg_callId e, msg_bookingId = msg_bookingId e,
             msg_status = msg_status e, msg_endedByRole = msg_endedByRole e\<rparr>] else [])"
  using route_frames [OF jwt.gw_inv_reach [OF assms(1-3)] assms(4)] jwt.reach_opts [OF assms(1-3)]
  by (simp add: can_receive_def callChangedOf_def)

definition demo_event :: callChangedEvent where
  "demo_event = \<lparr>msg_callId = ''c'', msg_bookingId = ''b'', msg_status = ''ENDED'',
     msg_endedByRole = Some FAN, ev_fanId = ''ptn'', ev_partnerId = ''ptn''\<rparr>"

theorem route_delivers_exactly_witness:
  "framesTo 1 (trail (route ws_std demo_event demo_run)) =
     [Ready 1 25000, CallChanged \<lparr>msg_callId = ''c'', msg_bookingId = ''b'', msg_status = ''ENDED'',
       msg_endedByRole = Some FAN\<rparr>] \<and>
   framesTo 0 (trail (route ws_std demo_event demo_run)) = [Ready 1 25000]"
  using route_delivers_exactly [OF ws_std_ok _ demo_reach, of 1 demo_event]
    route_delivers_exactly [OF ws_std_ok _ demo_reach, of 0 demo_event]
  by (simp add: demo_eval DEFAULT_REALTIME_OPTIONS_def demo_event_def)

text \<open>
  One heartbeat: a registered connection whose token has lapsed, or that has been silent for
  more than two and a half ping intervals, is no longer open afterwards; every other registered
  connection whose socket takes frames gets exactly one \<open>ping\<close>, and connections still waiting
  for their token get nothing.
\<close>

theorem tick_expires_culls_pings:
  assumes "ws_ok L" and "1 \<le> maxPerUser os" and "gw_reach L parse (verify jose) os g"
    and "c < nconns g"
  shows "(userId (conns g c) \<noteq> None \<and>
        (expiresAtMs (conns g c) \<le> now \<or> 2 * (now - lastSeenMs (conns g c)) > 5 * pingIntervalMs os) \<longrightarrow>
        readyState (conns (tick L now g) c) \<noteq> WsOpen) \<and>
    framesTo c (trail (tick L now g)) = framesTo c (trail g) @
      (if readyState (conns g c) = WsOpen \<and> bufferedAmount (conns g c) \<le> maxBufferedBytes os \<and>
          userId (conns g c) \<noteq> None \<and> now < expiresAtMs (conns g c) \<and>
          2 * (now - lastSeenMs (conns g c)) \<le> 5 * pingIntervalMs os
       then [Ping] else [])"
proof -
  note inv = jwt.gw_inv_reach [OF assms(1-3)] and os = jwt.reach_opts [OF assms(1-3)]
  show ?thesis
    using tick_frames [OF inv assms(4), of L now] tick_shuts [OF assms(1) inv assms(4), of now]
    by (auto simp: os can_receive_def lapsed_def silent_def not_less)
qed

theorem tick_expires_culls_pings_witness:
  "readyState (conns (tick ws_std 62521 demo_run) 0) \<noteq> WsOpen \<and>
   framesTo 0 (trail (tick ws_std 62520 demo_run)) = [Ready 1 25000, Ping]"
  using tick_expires_culls_pings [OF ws_std_ok _ demo_reach, of 0 62521]
    tick_expires_culls_pings [OF ws_std_ok _ demo_reach, of 0 62520]
  by (simp add: demo_eval DEFAULT_REALTIME_OPTIONS_def)

text \<open>
  When the event source reports that it is unhealthy, from any reachable state, no socket is
  left open and every upgrade on the realtime path is answered with 503 and counted, until health
  is reported again.
\<close>

theorem unhealthy_closes_and_refuses:
  assumes "ws_ok L" and "1 \<le> maxPerUser os" and "gw_reach L parse (verify jose) os g"
    and "g' = onHealth L False g"
  shows "(\<forall>c < nconns g'. readyState (conns g' c) \<noteq> WsOpen) \<and>
    (\<forall>q listeners handshake now. onUpgrade (Some (REALTIME_PATH @ CHR ''?'' # q)) listeners handshake now g' =
       g'\<lparr>refused := Suc (refused g'), trail := trail g' @ [Http503]\<rparr>)"
proof -
  have "gw_reach L parse (verify jose) os g'"
    unfolding assms(4) by (rule gw_reach.step [OF assms(3) gw_step.health])
  from jwt.gw_inv_reach [OF assms(1,2) this] have "health_ok g'" by (simp add: gw_inv_def)
  moreover have h: "\<not> gw_healthy g'"
    using shut_closeAll [OF assms(1)] unfolding assms(4) onHealth_def
    by (auto simp: Let_def shut_def)
  moreover have "takeWhile (\<lambda>ch. ch \<noteq> CHR ''?'') (REALTIME_PATH @ CHR ''?'' # q) = REALTIME_PATH" for q
    by (simp add: REALTIME_PATH_def)
  ultimately show ?thesis
    by (simp add: health_ok_def onUpgrade_def effect_def Let_def)
qed

theorem unhealthy_closes_and_refuses_witness:
  "readyState (conns (onHealth ws_std False demo_run) 0) \<noteq> WsOpen"
proof -
  have "nconns (onHealth ws_std False demo_run) = 2"
    using shut_nconns [OF shut_closeAll [OF ws_std_ok]]
    by (simp add: onHealth_def demo_eval Let_def)
  then show ?thesis
    using unhealthy_closes_and_refuses [OF ws_std_ok _ demo_reach refl]
    by (simp add: DEFAULT_REALTIME_OPTIONS_def)
qed

text \<open>
  Admission and eviction: when the verdict on a pending connection's token arrives and is
  good, the user's set becomes the newest \<open>maxPerUser - 1\<close> of the connections it held, in
  order, followed by the new one; the evicted ones, the oldest, are no longer open, every other
  user's set is unchanged, and the new connection is told it is ready if its socket is open.
\<close>

theorem authenticate_evicts_oldest:
  assumes "ws_ok L" and "1 \<le> maxPerUser os" and "gw_reach L parse (verify jose) os g"
    and "(c, t) \<in> set (inflight g)" and "verify jose t = Inr v"
    and "\<not> conn_closed (conns g c)" and "gw_healthy g"
    and "old = (case map_of (byUser g) (vt_id v) of None \<Rightarrow> [] | Some s \<Rightarrow> s)"
    and "g' = resume L (verify jose) c t now g"
  shows "map_of (byUser g') (vt_id v) = Some (drop (Suc (length old) - maxPerUser os) old @ [c]) \<and>
    (\<forall>d \<in> set (take (Suc (length old) - maxPerUser os) old). readyState (conns g' d) \<noteq> WsOpen) \<and>
    (\<forall>u. u \<noteq> vt_id v \<longrightarrow> map_of (byUser g') u = map_of (byUser g) u) \<and>
    (can_receive g c \<longrightarrow> framesTo c (trail g') = [Ready 1 (pingIntervalMs os)])"
proof -
  let ?g = "g\<lparr>inflight := removeAll (c, t) (inflight g)\<rparr>" and ?u = "vt_id v"
  note L = assms(1)
  have inv: "gw_inv g" by (rule jwt.gw_inv_reach [OF assms(1-3)])
  then have invq: "gw_inv ?g" using gw_inv_dequeue(2) assms(4) by blast
  have os: "opts g = os" by (rule jwt.reach_opts [OF assms(1-3)])
  have id: "userId (conns g c) = None" and pend: "c \<in> set (pending g)" and reg: "registry_ok g"
    using inv assms(4,6) by (auto simp: gw_inv_def inflight_ok_def known_ok_def)
  have eq: "g' = snd (send L c (Ready 1 (pingIntervalMs os)) (registered L c v now ?g))"
    using authenticated_registers [OF L, of ?g c v now] assms(2,5,6,7) os
    by (simp add: assms(9) resume_def)
  have bu: "byUser g' = byUser (registered L c v now ?g)"
    unfolding eq using shut_send [OF L] by (simp add: shut_def)
  have us: "user_set ?g ?u = old" by (simp add: user_set_def assms(8))
  have kept: "kept ?g ?u = drop (Suc (length old) - maxPerUser os) old"
    by (simp add: kept_def evictions_def us os)
  have "c \<notin> set (user_set g ?u)"
    using user_set_members(4) [OF reg, of c ?u] pend by blast
  moreover have "user_set ?g ?u = user_set g ?u" by (simp add: user_set_def)
  ultimately have nc: "c \<notin> set old" using us by simp
  then have "c \<notin> set (kept ?g ?u)" using kept by (metis in_set_dropD)
  then have set': "byUser g' = AList.update ?u (kept ?g ?u @ [c]) (byUser g)"
    unfolding bu by (simp add: registered_frame [OF L] set_add_def)
  have evicted: "readyState (conns g' d) \<noteq> WsOpen"
    if d: "d \<in> set (take (Suc (length old) - maxPerUser os) old)" for d
  proof -
    have "distinct old"
      using distinct_user_set [OF reg, of ?u] us by (simp add: user_set_def)
    then have "d \<notin> set (kept ?g ?u)"
      using d kept set_take_disj_set_drop_if_distinct [of old "Suc (length old) - maxPerUser os"] by auto
    moreover have "d \<in> set (user_set ?g ?u)" using d us in_set_takeD by metis
    ultimately have "readyState (conns (registered L c v now ?g) d) \<noteq> WsOpen"
      using evicted_not_open [OF L invq] by blast
    then show ?thesis unfolding eq using quiet_open [OF quiet_shut [OF shut_send [OF L]]] by blast
  qed
  have ready: "framesTo c (trail g') = [Ready 1 (pingIntervalMs os)]" if cr: "can_receive g c"
  proof -
    have "framesTo c (trail (evict_old L u h)) = framesTo c (trail h)" for u h
      unfolding evict_old_def by (rule fold_frame) simp
    then have "framesTo c (trail (registered L c v now ?g)) = framesTo c (trail g)"
      by (simp add: registered_def admitted_def)
    moreover have "framesTo c (trail g) = []"
      using jwt.hist_reach [OF assms(1-3)] id by (simp add: hist_ok_def)
    moreover have "can_receive (registered L c v now ?g) c"
    proof -
      have "c \<notin> set (user_set ?g (vt_id v))" using nc us by simp
      from registered_spares [OF this, of L now] cr show ?thesis
        by (simp add: can_receive_def registered_frame [OF L])
    qed
    ultimately show ?thesis unfolding eq by (simp add: framesTo_send)
  qed
  show ?thesis using evicted ready by (simp add: set' kept)
qed


theorem authenticate_evicts_oldest_witness:
  "map_of (byUser (resume ws_std (verify demo_jose) 1 ''fan'' 40 (demo_pair 1 ''fan'' ''fan''))) ''fan'' = Some [1] \<and>
   readyState (conns (resume ws_std (verify demo_jose) 1 ''fan'' 40 (demo_pair 1 ''fan'' ''fan'')) 0) \<noteq> WsOpen"
proof -
  let ?g = "demo_pair 1 ''fan'' ''fan''" and ?v = "\<lparr>vt_id = ''fan'', vt_email = None, vt_exp = Some 100\<rparr>"
  have "inflight ?g = [(1, ''fan'')]" "\<not> conn_closed (conns ?g 1)" "gw_healthy ?g"
    "map_of (byUser ?g) ''fan'' = Some [0]"
    by (simp_all add: gw_eval)
  then show ?thesis
    using authenticate_evicts_oldest [where g = ?g and t = "''fan''" and c = 1 and v = ?v and now = 40,
        OF ws_std_ok _ demo_pair_reach _ _ _ _ refl refl]
    by (simp add: verify_def toUser_def demo_jose_def)
qed

text \<open>
  C3. Identity over a whole history: a connection's identity, once given, is never changed by any
  later step; it is the non-empty subject of a token that the verifier accepted; and a connection
  without one has never been sent a frame.
\<close>

theorem gateway_identity_is_verified:
  assumes "ws_ok L" and "1 \<le> maxPerUser os" and "gw_reach L parse (verify jose) os g"
  shows "(\<forall>u. userId (conns g c) = Some u \<longrightarrow>
        u \<noteq> [] \<and> (\<exists>t p. jose t = Inr p \<and> pl_sub p = Some u) \<and>
        (\<forall>g'. gw_step L parse (verify jose) g g' \<longrightarrow> userId (conns g' c) = Some u)) \<and>
    (userId (conns g c) = None \<longrightarrow> framesTo c (trail g) = [])"
proof -
  have h: "hist_ok (verify jose) g" and un: "unborn_ok g"
    using jwt.hist_reach [OF assms] by simp_all
  show ?thesis
  proof (intro conjI allI impI)
    fix u assume u: "userId (conns g c) = Some u"
    then obtain t v where "verify jose t = Inr v" "vt_id v = u" using h unfolding hist_ok_def by blast
    then show "u \<noteq> []" and "\<exists>t p. jose t = Inr p \<and> pl_sub p = Some u"
      by (auto simp: verify_Inr_iff)
    have "c < nconns g"
      using un u by (metis unborn_ok_def not_less option.distinct(1))
    then show "userId (conns g' c) = Some u" if "gw_step L parse (verify jose) g g'" for g'
      using step_keeps_ids [OF assms(1) that jwt.gw_inv_reach [OF assms] _ u] by simp
  next
    assume "userId (conns g c) = None"
    then show "framesTo c (trail g) = []" using h by (simp add: hist_ok_def)
  qed
qed

theorem gateway_identity_is_verified_witness:
  "userId (conns (tick ws_std 50 demo_run) 0) = Some ''fan'' \<and> (\<exists>t p. demo_jose t = Inr p \<and> pl_sub p = Some ''fan'')"
  using gateway_identity_is_verified [OF ws_std_ok _ demo_reach, of 0]
    gw_step.ticked [of demo_run ws_std demo_parse "verify demo_jose" 50]
  by (simp add: demo_eval DEFAULT_REALTIME_OPTIONS_def)

section \<open>Draining\<close>

lemma drain_less_fields [simp]:
  "dr_waiting (drain_less d) = dr_waiting d" "dr_left (drain_less d) = dr_left d - 1"
  "dr_sockets (drain_less d) = dr_sockets d"
  "dr_resolved (drain_less d) = (dr_resolved d \<or> dr_left d \<le> 1)"
  "dr_timer (drain_less d) = (dr_timer d \<and> 1 < dr_left d)"
  by (auto simp: drain_less_def drain_finish_def Let_def)

text \<open>
  The counter counts the sockets not yet looked at or still waited for; the promise is resolved
  exactly when it is zero, and the timer runs until then.
\<close>

lemma drain_loop:
  assumes "dr_left d = length (dr_waiting d) + length xs" and "\<not> dr_resolved d" and "dr_timer d" and "xs \<noteq> []"
  shows "let d' = fold (\<lambda>s d. if readyState (conns g s) = WsClosed then drain_less d
                        else d\<lparr>dr_waiting := dr_waiting d @ [s]\<rparr>) xs d
     in dr_waiting d' = dr_waiting d @ filter (\<lambda>s. readyState (conns g s) \<noteq> WsClosed) xs \<and>
        dr_left d' = length (dr_waiting d') \<and> dr_resolved d' = (dr_waiting d' = []) \<and>
        dr_timer d' = (dr_waiting d' \<noteq> []) \<and> dr_sockets d' = dr_sockets d"
  using assms
proof (induction xs arbitrary: d)
  case (Cons s xs)
  let ?d = "if readyState (conns g s) = WsClosed then drain_less d else d\<lparr>dr_waiting := dr_waiting d @ [s]\<rparr>"
  show ?case
  proof (cases "xs = []")
    case True
    with Cons.prems show ?thesis by (auto simp: Let_def)
  next
    case False
    then have "1 < length xs + length (dr_waiting d) + 1" by (cases xs) auto
    with Cons.prems have "dr_left ?d = length (dr_waiting ?d) + length xs" "\<not> dr_resolved ?d" "dr_timer ?d"
      by auto
    from Cons.IH [OF this False] show ?thesis by (auto simp: Let_def)
  qed
qed simp

definition drain_inv :: "drain \<Rightarrow> bool" where
  "drain_inv d \<longleftrightarrow> dr_left d = length (dr_waiting d) \<and> dr_resolved d = (dr_waiting d = []) \<and>
     dr_timer d = (dr_waiting d \<noteq> []) \<and> distinct (dr_waiting d)"

lemma distinct_allConns: "gw_inv g \<Longrightarrow> distinct (allConns g)"
  using distinct_all_vals [of g] registered_has_id [of g]
  by (fastforce simp: allConns_def gw_inv_def pending_ok_def)

lemma drain_start_inv:
  assumes "distinct (allConns g)"
  shows "drain_inv (drain_start g)"
    and "dr_waiting (drain_start g) = filter (\<lambda>s. readyState (conns g s) \<noteq> WsClosed) (allConns g)"
    and "dr_sockets (drain_start g) = allConns g"
  using assms drain_loop [of "\<lparr>dr_sockets = allConns g, dr_left = length (allConns g), dr_waiting = [],
      dr_timer = True, dr_resolved = False\<rparr>" "allConns g" g]
  by (cases "allConns g = []"; simp add: drain_start_def drain_inv_def Let_def)+

lemma drain_closed_inv:
  assumes "drain_inv d"
  shows "drain_inv (drain_closed s d)" and "dr_waiting (drain_closed s d) = removeAll s (dr_waiting d)"
proof -
  show w: "dr_waiting (drain_closed s d) = removeAll s (dr_waiting d)"
    by (simp add: drain_closed_def removeAll_id)
  show "drain_inv (drain_closed s d)"
  proof (cases "s \<in> set (dr_waiting d)")
    case True
    let ?r = "removeAll s (dr_waiting d)"
    have l: "length ?r = length (dr_waiting d) - 1"
      using True assms by (simp add: drain_inv_def distinct_remove1_removeAll [symmetric] length_remove1)
    have ne: "dr_waiting d \<noteq> []" using True by auto
    have empty: "?r = [] \<longleftrightarrow> length (dr_waiting d) \<le> 1"
      using l by (metis diff_is_0_eq length_0_conv)
    have f: "dr_left (drain_closed s d) = length (dr_waiting d) - 1"
      "dr_resolved (drain_closed s d) = (length (dr_waiting d) \<le> 1)"
      "dr_timer (drain_closed s d) = (1 < length (dr_waiting d))"
      using True assms ne by (simp_all add: drain_closed_def drain_inv_def)
    show ?thesis
      using assms unfolding drain_inv_def w f l empty by (simp add: distinct_removeAll not_le)
  next
    case False
    with assms show ?thesis by (simp add: drain_closed_def)
  qed
qed

lemma drain_run:
  "drain_inv d \<Longrightarrow> drain_inv (fold drain_closed es d) \<and>
     set (dr_waiting (fold drain_closed es d)) = set (dr_waiting d) - set es"
proof (induction es arbitrary: d)
  case (Cons s es)
  from Cons.IH [OF drain_closed_inv(1) [OF Cons.prems], of s] drain_closed_inv(2) [OF Cons.prems, of s]
  show ?case by auto
qed simp

text \<open>
  Shutdown cannot hang and does not finish early: from any reachable state, after any sequence
  of close events the drain of \<open>destroy\<close> is resolved exactly if every socket that was not yet
  closed has closed; otherwise its timer is still armed, and the timeout resolves it.
\<close>

theorem drain_resolves_iff_all_closed:
  assumes "ws_ok L" and "1 \<le> maxPerUser os" and "gw_reach L parse (verify jose) os g"
    and "d = fold drain_closed es (drain_start g)"
  shows "(dr_resolved d \<longleftrightarrow> (\<forall>c \<in> set (allConns g). readyState (conns g c) \<noteq> WsClosed \<longrightarrow> c \<in> set es)) \<and>
     (\<not> dr_resolved d \<longrightarrow> dr_timer d) \<and> dr_resolved (fst (drain_timeout L d g'))"
proof -
  have "distinct (allConns g)" by (rule distinct_allConns [OF jwt.gw_inv_reach [OF assms(1-3)]])
  note st = drain_start_inv [OF this]
  from drain_run [OF st(1), of es] st(2) assms(4)
  have "drain_inv d" and w: "set (dr_waiting d) = {c \<in> set (allConns g). readyState (conns g c) \<noteq> WsClosed} - set es"
    by auto
  moreover have "dr_waiting d = [] \<longleftrightarrow> set (dr_waiting d) = {}" by simp
  ultimately show ?thesis
    unfolding drain_timeout_def drain_finish_def by (auto simp: drain_inv_def w)
qed

theorem drain_resolves_iff_all_closed_witness:
  "dr_resolved (fold drain_closed [1, 0] (drain_start demo_run)) \<and>
   \<not> dr_resolved (fold drain_closed [1] (drain_start demo_run))"
  using drain_resolves_iff_all_closed [OF ws_std_ok _ demo_reach refl, of "[1, 0]"]
    drain_resolves_iff_all_closed [OF ws_std_ok _ demo_reach refl, of "[1]"]
  by (simp add: demo_eval DEFAULT_REALTIME_OPTIONS_def allConns_def all_vals_def del: fold_simps)

end
