(* ===== verification/Pg_Notify.thy ===== *)
theory Pg_Notify
  imports Realtime_Types
begin

text \<open>
  \<open>src/realtime/pg-notify.source.ts\<close>: the event source over Postgres LISTEN/NOTIFY.

  The \<open>postgres\<close> client is outside: a client is named by the generation it was built for, and
  what it does to us is an event (it calls \<open>onListening\<close> or \<open>onNotify\<close> with the
  generation captured by the callback, or its \<open>listen\<close> or \<open>notify\<close> promise rejects).
  An \<open>await\<close> splits a method in two operations; between them the state holds what is
  suspended: \<open>pendingProbes\<close> and \<open>settled\<close> for \<open>probe\<close>, \<open>recycling\<close> for
  \<open>recycle\<close>.

  The three handlers are a record over the state \<open>'h\<close> of whoever consumes the events, kept in
  the field \<open>sink\<close>; a handler returns the new state and the error it threw, if any.
\<close>

section \<open>Parsing a notification\<close>

datatype parsedNotification = Call callChangedEvent | Probe string

fun role_of :: "json option \<Rightarrow> endedByRole option" where
  "role_of (Some (JStr s)) =
     (if s = ''FAN'' then Some FAN else if s = ''PARTNER'' then Some PARTNER
      else if s = ''ADMIN'' then Some ADMIN else None)"
| "role_of _ = None"

definition nonEmpty :: "json option \<Rightarrow> bool" where
  "nonEmpty v \<longleftrightarrow> nonempty_str v \<noteq> None"

definition str_of :: "json option \<Rightarrow> string" where
  "str_of v = (case nonempty_str v of None \<Rightarrow> [] | Some s \<Rightarrow> s)"

text \<open>\<open>parse\<close> is \<open>JSON.parse\<close>, \<open>None\<close> its \<open>SyntaxError\<close>.\<close>

definition parseNotification :: "(string \<Rightarrow> json option) \<Rightarrow> string \<Rightarrow> parsedNotification option" where
  "parseNotification parse payload =
     (case parse payload of
        None \<Rightarrow> None
      | Some j \<Rightarrow>
          if \<not> is_object j then None
          else if jget j ''type'' = Some (JStr ''probe'') then
            (if nonEmpty (jget j ''id'') then Some (Probe (str_of (jget j ''id''))) else None)
          else if jget j ''type'' \<noteq> Some (JStr ''call.changed'') then None
          else if \<not> nonEmpty (jget j ''callId'') \<or> \<not> nonEmpty (jget j ''bookingId'') \<or>
                  \<not> nonEmpty (jget j ''fanId'') \<or> \<not> nonEmpty (jget j ''partnerId'') \<or>
                  \<not> nonEmpty (jget j ''status'') then None
          else Some (Call \<lparr>msg_callId = str_of (jget j ''callId''),
                           msg_bookingId = str_of (jget j ''bookingId''),
                           msg_status = str_of (jget j ''status''),
                           msg_endedByRole = role_of (jget j ''endedByRole''),
                           ev_fanId = str_of (jget j ''fanId''),
                           ev_partnerId = str_of (jget j ''partnerId'')\<rparr>))"

section \<open>Options, handlers, state\<close>

record pgOptions =
  probeIntervalMs :: nat
  probeTimeoutMs :: nat
  reconnectBaseMs :: nat
  reconnectMaxMs :: nat

definition PG_DEFAULTS :: pgOptions where
  "PG_DEFAULTS = \<lparr>probeIntervalMs = 30000, probeTimeoutMs = 5000, reconnectBaseMs = 1000,
     reconnectMaxMs = 30000\<rparr>"

record 'h sourceHandlers =
  onCallChanged :: "callChangedEvent \<Rightarrow> 'h \<Rightarrow> 'h \<times> string option"
  onResync :: "'h \<Rightarrow> 'h \<times> string option"
  onHealthChange :: "bool \<Rightarrow> 'h \<Rightarrow> 'h \<times> string option"

datatype src_log =
    LogPooler
  | LogListenFailed
  | LogMalformed nat
  | LogHealthy
  | LogMissed
  | LogHint
  | LogStill nat
  | LogRebuilding nat
  | LogThrew string

record 'h pgSource =
  pg_opts :: pgOptions
  sink :: 'h
  sql :: "nat option"
  listens :: "nat list"
  clients :: "nat list"
  generation :: nat
  stopped :: bool
  everListened :: bool
  pg_healthy :: bool
  probeFailures :: nat
  hintLogged :: bool
  reconnectAttempts :: nat
  probeTimer :: "(nat \<times> nat) option"
  reconnectTimer :: "nat option"
  pendingProbes :: "(string \<times> nat) list"
  settled :: "(nat \<times> bool) list"
  recycling :: nat
  malformed :: nat
  lastMalformedLogAt :: int
  pg_log :: "src_log list"

definition new_source :: "pgOptions \<Rightarrow> 'h \<Rightarrow> 'h pgSource" where
  "new_source os h = \<lparr>pg_opts = os, sink = h, sql = None, listens = [], clients = [], generation = 0,
     stopped = False, everListened = False, pg_healthy = False, probeFailures = 0, hintLogged = False,
     reconnectAttempts = 0, probeTimer = None, reconnectTimer = None, pendingProbes = [],
     settled = [], recycling = 0, malformed = 0, lastMalformedLogAt = 0, pg_log = []\<rparr>"

definition src_log :: "src_log \<Rightarrow> 'h pgSource \<Rightarrow> 'h pgSource" where
  "src_log m s = s\<lparr>pg_log := pg_log s @ [m]\<rparr>"

section \<open>Operations\<close>

text \<open>\<open>safely\<close>: run a handler; what it throws is logged and goes no further.\<close>

definition safely :: "('h \<Rightarrow> 'h \<times> string option) \<Rightarrow> 'h pgSource \<Rightarrow> 'h pgSource" where
  "safely fn s =
     (case fn (sink s) of
        (h, None) \<Rightarrow> s\<lparr>sink := h\<rparr>
      | (h, Some err) \<Rightarrow> src_log (LogThrew err) (s\<lparr>sink := h\<rparr>))"

definition setHealthy :: "'h sourceHandlers \<Rightarrow> bool \<Rightarrow> 'h pgSource \<Rightarrow> 'h pgSource" where
  "setHealthy H b s =
     (if pg_healthy s = b then s else safely (onHealthChange H b) (s\<lparr>pg_healthy := b\<rparr>))"

text \<open>\<open>connect\<close> up to the call of \<open>sql.listen\<close>.\<close>

definition connect :: "'h pgSource \<Rightarrow> 'h pgSource" where
  "connect s =
     (if stopped s then s
      else let gen = Suc (generation s)
           in s\<lparr>generation := gen, sql := Some gen, clients := clients s @ [gen],
                listens := listens s @ [gen]\<rparr>)"

text \<open>\<open>warnIfPooler\<close>: \<open>url\<close> is the port and the \<open>pgbouncer\<close> query parameter, if it parses.\<close>

definition warnIfPooler :: "(string \<times> string option) option \<Rightarrow> 'h pgSource \<Rightarrow> 'h pgSource" where
  "warnIfPooler url s =
     (case url of
        None \<Rightarrow> s
      | Some (port, pgbouncer) \<Rightarrow>
          if port = ''6543'' \<or> pgbouncer = Some ''true'' then src_log LogPooler s else s)"

definition start :: "(string \<times> string option) option \<Rightarrow> 'h pgSource \<Rightarrow> 'h pgSource" where
  "start url s = connect (warnIfPooler url s)"

definition stop :: "'h pgSource \<Rightarrow> 'h pgSource" where
  "stop s = s\<lparr>stopped := True, generation := Suc (generation s), probeTimer := None,
     reconnectTimer := None, pg_healthy := False,
     clients := (case sql s of None \<Rightarrow> clients s | Some c \<Rightarrow> removeAll c (clients s)), sql := None\<rparr>"

definition scheduleProbe :: "nat \<Rightarrow> nat \<Rightarrow> 'h pgSource \<Rightarrow> 'h pgSource" where
  "scheduleProbe gen delay s = s\<lparr>probeTimer := Some (gen, delay)\<rparr>"

definition onListening :: "'h sourceHandlers \<Rightarrow> nat \<Rightarrow> 'h pgSource \<Rightarrow> 'h pgSource" where
  "onListening H gen s =
     (if gen \<noteq> generation s \<or> stopped s then s
      else let s1 = (if everListened s then safely (onResync H) s else s)
           in scheduleProbe gen 0 (s1\<lparr>everListened := True\<rparr>))"

text \<open>\<open>recycle\<close> before and after \<open>await old?.end(...)\<close>.\<close>

definition recycle :: "'h sourceHandlers \<Rightarrow> nat \<Rightarrow> 'h pgSource \<Rightarrow> 'h pgSource" where
  "recycle H gen s =
     (if gen \<noteq> generation s \<or> stopped s then s
      else let s1 = setHealthy H False (s\<lparr>generation := Suc (generation s)\<rparr>)
           in s1\<lparr>probeTimer := None,
                 clients := (case sql s1 of None \<Rightarrow> clients s1 | Some c \<Rightarrow> removeAll c (clients s1)),
                 sql := None, recycling := Suc (recycling s1)\<rparr>)"

definition backoff :: "pgOptions \<Rightarrow> nat \<Rightarrow> nat" where
  "backoff os attempts = min (reconnectMaxMs os) (reconnectBaseMs os * 2 ^ attempts)"

text \<open>
  \<open>Math.round(backoff * (0.75 + Math.random() * 0.5))\<close>: \<open>Math.random()\<close> is \<open>k / 2^53\<close>, halving
  it is exact, and \<open>rnd\<close> is the rounding of the addition and of the product to a double.
\<close>

definition jitter :: "(rat \<Rightarrow> rat) \<Rightarrow> nat \<Rightarrow> nat \<Rightarrow> nat" where
  "jitter rnd b k = nat (js_round (rnd (of_nat b * rnd (3 / 4 + of_nat k / 2 ^ 54))))"

definition recycled :: "(rat \<Rightarrow> rat) \<Rightarrow> nat \<Rightarrow> 'h pgSource \<Rightarrow> 'h pgSource" where
  "recycled rnd k s0 =
     (let s = s0\<lparr>recycling := recycling s0 - 1\<rparr>
      in if stopped s then s
         else let delay = jitter rnd (backoff (pg_opts s) (reconnectAttempts s)) k
              in src_log (LogRebuilding delay)
                   (s\<lparr>reconnectAttempts := Suc (reconnectAttempts s), reconnectTimer := Some delay\<rparr>))"

text \<open>The \<open>catch\<close> of \<open>connect\<close>: \<open>sql.listen\<close> rejected.\<close>

definition listenFailed :: "'h sourceHandlers \<Rightarrow> nat \<Rightarrow> 'h pgSource \<Rightarrow> 'h pgSource" where
  "listenFailed H gen s =
     (if gen \<noteq> generation s \<or> stopped s then s else recycle H gen (src_log LogListenFailed s))"

text \<open>\<open>done(ok)\<close> of \<open>roundTrip\<close>: the promise settles once, then \<open>done\<close> has no effect.\<close>

definition probe_done :: "string \<Rightarrow> bool \<Rightarrow> 'h pgSource \<Rightarrow> 'h pgSource" where
  "probe_done i ok s =
     (case map_of (pendingProbes s) i of
        None \<Rightarrow> s
      | Some gen \<Rightarrow> s\<lparr>pendingProbes := AList.delete i (pendingProbes s), settled := settled s @ [(gen, ok)]\<rparr>)"

definition onNotify ::
  "'h sourceHandlers \<Rightarrow> (string \<Rightarrow> json option) \<Rightarrow> nat \<Rightarrow> string \<Rightarrow> int \<Rightarrow> 'h pgSource \<Rightarrow> 'h pgSource" where
  "onNotify H parse gen payload now s =
     (if gen \<noteq> generation s then s
      else case parseNotification parse payload of
             None \<Rightarrow>
               (let s1 = s\<lparr>malformed := Suc (malformed s)\<rparr>
                in if now - lastMalformedLogAt s1 > 60000
                   then src_log (LogMalformed (malformed s1)) (s1\<lparr>lastMalformedLogAt := now\<rparr>)
                   else s1)
           | Some (Probe i) \<Rightarrow> probe_done i True s
           | Some (Call e) \<Rightarrow> safely (onCallChanged H e) s)"

text \<open>
  The probe timer fires: \<open>probe\<close> up to its \<open>await\<close>, with \<open>roundTrip\<close> started under the
  fresh identifier \<open>i\<close>.
\<close>

definition probe :: "nat \<Rightarrow> string \<Rightarrow> 'h pgSource \<Rightarrow> 'h pgSource" where
  "probe gen i s =
     (if gen \<noteq> generation s \<or> stopped s \<or> sql s = None then s
      else s\<lparr>pendingProbes := AList.update i gen (pendingProbes s)\<rparr>)"

text \<open>The rest of \<open>probe\<close>, once the round trip has settled.\<close>

definition probed :: "'h sourceHandlers \<Rightarrow> nat \<Rightarrow> bool \<Rightarrow> 'h pgSource \<Rightarrow> 'h pgSource" where
  "probed H gen ok s0 =
     (let s = s0\<lparr>settled := remove1 (gen, ok) (settled s0)\<rparr>
      in if gen \<noteq> generation s \<or> stopped s then s
         else if ok then
           (let s1 = (if pg_healthy s then s else src_log LogHealthy s)
            in scheduleProbe gen (probeIntervalMs (pg_opts s))
                 (setHealthy H True (s1\<lparr>probeFailures := 0, hintLogged := False, reconnectAttempts := 0\<rparr>)))
         else
           (let s1 = setHealthy H False (s\<lparr>probeFailures := Suc (probeFailures s)\<rparr>)
            in if probeFailures s1 = 1 then
                 scheduleProbe gen (probeTimeoutMs (pg_opts s1)) (src_log LogMissed s1)
               else if \<not> hintLogged s1 then
                 recycle H gen (src_log LogHint (s1\<lparr>hintLogged := True\<rparr>))
               else recycle H gen (src_log (LogStill (probeFailures s1)) s1)))"

section \<open>Events\<close>

text \<open>
  What can happen to a started source.  \<open>listens\<close> holds the generations whose callbacks were
  handed to a client; a client may call them at any time, also after it was discarded.
\<close>

datatype src_event =
    Listening nat
  | ListenFailed nat
  | Notified nat string int
  | ProbeFired string
  | ProbeTimeout string
  | NotifyRejected string
  | Probed nat bool
  | Recycled nat
  | Reconnect
  | Stop

fun src_can :: "src_event \<Rightarrow> 'h pgSource \<Rightarrow> bool" where
  "src_can (Listening gen) s = (gen \<in> set (listens s))"
| "src_can (ListenFailed gen) s = (gen \<in> set (listens s))"
| "src_can (Notified gen payload now) s = (gen \<in> set (listens s))"
| "src_can (ProbeFired i) s = (probeTimer s \<noteq> None \<and> map_of (pendingProbes s) i = None)"
| "src_can (ProbeTimeout i) s = (map_of (pendingProbes s) i \<noteq> None)"
| "src_can (NotifyRejected i) s = True"
| "src_can (Probed gen ok) s = ((gen, ok) \<in> set (settled s))"
| "src_can (Recycled k) s = (0 < recycling s \<and> k < 2 ^ 53)"
| "src_can Reconnect s = (reconnectTimer s \<noteq> None)"
| "src_can Stop s = True"

fun src_do ::
  "'h sourceHandlers \<Rightarrow> (string \<Rightarrow> json option) \<Rightarrow> (rat \<Rightarrow> rat) \<Rightarrow> src_event \<Rightarrow> 'h pgSource \<Rightarrow> 'h pgSource"
where
  "src_do H parse rnd (Listening gen) s = onListening H gen s"
| "src_do H parse rnd (ListenFailed gen) s = listenFailed H gen s"
| "src_do H parse rnd (Notified gen payload now) s = onNotify H parse gen payload now s"
| "src_do H parse rnd (ProbeFired i) s = probe (fst (the (probeTimer s))) i (s\<lparr>probeTimer := None\<rparr>)"
| "src_do H parse rnd (ProbeTimeout i) s = probe_done i False s"
| "src_do H parse rnd (NotifyRejected i) s = probe_done i False s"
| "src_do H parse rnd (Probed gen ok) s = probed H gen ok s"
| "src_do H parse rnd (Recycled k) s = recycled rnd k s"
| "src_do H parse rnd Reconnect s = connect (s\<lparr>reconnectTimer := None\<rparr>)"
| "src_do H parse rnd Stop s = stop s"

text \<open>
  A run: the source is started once, then events happen, in between which the consumer may move by
  itself (\<open>own\<close>).
\<close>

inductive src_run ::
  "'h sourceHandlers \<Rightarrow> ('h \<Rightarrow> 'h \<Rightarrow> bool) \<Rightarrow> (string \<Rightarrow> json option) \<Rightarrow> (rat \<Rightarrow> rat) \<Rightarrow> pgOptions \<Rightarrow> 'h \<Rightarrow>
   src_event list \<Rightarrow> 'h pgSource \<Rightarrow> bool"
  for H own parse rnd os h where
  started: "src_run H own parse rnd os h [] (start url (new_source os h))"
| event: "src_run H own parse rnd os h es s \<Longrightarrow> src_can e s \<Longrightarrow>
     src_run H own parse rnd os h (es @ [e]) (src_do H parse rnd e s)"
| consumer: "src_run H own parse rnd os h es s \<Longrightarrow> own (sink s) h' \<Longrightarrow>
     src_run H own parse rnd os h es (s\<lparr>sink := h'\<rparr>)"

section \<open>The database side\<close>

text \<open>
  \<open>notify_call_event\<close> of migration 0102: the payload the trigger on \<open>calls\<close> sends.
\<close>

record callRow =
  cr_id :: string
  cr_booking_id :: string
  cr_fan_id :: string
  cr_partner_id :: string
  cr_attempt_status :: string
  cr_ended_by_role :: "string option"

definition notify_call_event :: "callRow \<Rightarrow> json" where
  "notify_call_event r = JObj [
     (''type'', JStr ''call.changed''),
     (''callId'', JStr (cr_id r)),
     (''bookingId'', JStr (cr_booking_id r)),
     (''fanId'', JStr (cr_fan_id r)),
     (''partnerId'', JStr (cr_partner_id r)),
     (''status'', JStr (cr_attempt_status r)),
     (''endedByRole'', (case cr_ended_by_role r of None \<Rightarrow> JNull | Some x \<Rightarrow> JStr x))]"

end
