(* ===== verification/Pg_Invariant.thy ===== *)
theory Pg_Invariant
  imports Pg_Notify
begin

text \<open>
  Invariants of the event source: one live client at most, always something pending that makes
  progress, and health only after a probe of the current client came back.  The locale
  \<open>event_sink\<close> is the contract of the handlers; under it the consumer's view of the health is the
  source's.
\<close>

section \<open>Frames\<close>

lemma safely_frame [simp]:
  "pg_opts (safely fn s) = pg_opts s" "sql (safely fn s) = sql s" "listens (safely fn s) = listens s"
  "clients (safely fn s) = clients s" "generation (safely fn s) = generation s"
  "stopped (safely fn s) = stopped s" "everListened (safely fn s) = everListened s"
  "pg_healthy (safely fn s) = pg_healthy s" "probeFailures (safely fn s) = probeFailures s"
  "hintLogged (safely fn s) = hintLogged s" "reconnectAttempts (safely fn s) = reconnectAttempts s"
  "probeTimer (safely fn s) = probeTimer s" "reconnectTimer (safely fn s) = reconnectTimer s"
  "pendingProbes (safely fn s) = pendingProbes s" "settled (safely fn s) = settled s"
  "recycling (safely fn s) = recycling s" "malformed (safely fn s) = malformed s"
  "sink (safely fn s) = fst (fn (sink s))"
  by (simp_all add: safely_def src_log_def split: prod.split option.split)

lemma src_log_frame [simp]:
  "pg_opts (src_log m s) = pg_opts s" "sql (src_log m s) = sql s" "listens (src_log m s) = listens s"
  "clients (src_log m s) = clients s" "generation (src_log m s) = generation s"
  "stopped (src_log m s) = stopped s" "everListened (src_log m s) = everListened s"
  "pg_healthy (src_log m s) = pg_healthy s" "probeFailures (src_log m s) = probeFailures s"
  "hintLogged (src_log m s) = hintLogged s" "reconnectAttempts (src_log m s) = reconnectAttempts s"
  "probeTimer (src_log m s) = probeTimer s" "reconnectTimer (src_log m s) = reconnectTimer s"
  "pendingProbes (src_log m s) = pendingProbes s" "settled (src_log m s) = settled s"
  "recycling (src_log m s) = recycling s" "malformed (src_log m s) = malformed s"
  "sink (src_log m s) = sink s"
  by (simp_all add: src_log_def)

lemma setHealthy_frame [simp]:
  "pg_opts (setHealthy H b s) = pg_opts s" "sql (setHealthy H b s) = sql s"
  "listens (setHealthy H b s) = listens s" "clients (setHealthy H b s) = clients s"
  "generation (setHealthy H b s) = generation s" "stopped (setHealthy H b s) = stopped s"
  "everListened (setHealthy H b s) = everListened s" "pg_healthy (setHealthy H b s) = b"
  "probeFailures (setHealthy H b s) = probeFailures s" "hintLogged (setHealthy H b s) = hintLogged s"
  "reconnectAttempts (setHealthy H b s) = reconnectAttempts s"
  "probeTimer (setHealthy H b s) = probeTimer s" "reconnectTimer (setHealthy H b s) = reconnectTimer s"
  "pendingProbes (setHealthy H b s) = pendingProbes s" "settled (setHealthy H b s) = settled s"
  "recycling (setHealthy H b s) = recycling s"
  "sink (setHealthy H b s) = (if pg_healthy s = b then sink s else fst (onHealthChange H b (sink s)))"
  by (simp_all add: setHealthy_def)

lemma recycle_live:
  assumes "gen = generation s" and "\<not> stopped s"
  shows "generation (recycle H gen s) = Suc gen" "sql (recycle H gen s) = None"
    "probeTimer (recycle H gen s) = None" "recycling (recycle H gen s) = Suc (recycling s)"
    "listens (recycle H gen s) = listens s" "pg_healthy (recycle H gen s) = False"
    "stopped (recycle H gen s) = stopped s" "reconnectTimer (recycle H gen s) = reconnectTimer s"
    "pendingProbes (recycle H gen s) = pendingProbes s" "settled (recycle H gen s) = settled s"
    "clients (recycle H gen s) = (case sql s of None \<Rightarrow> clients s | Some c \<Rightarrow> removeAll c (clients s))"
    "pg_opts (recycle H gen s) = pg_opts s" "probeFailures (recycle H gen s) = probeFailures s"
    "sink (recycle H gen s) = (if pg_healthy s then fst (onHealthChange H False (sink s)) else sink s)"
  using assms by (simp_all add: recycle_def Let_def split: option.split)

lemma recycle_stale: "gen \<noteq> generation s \<or> stopped s \<Longrightarrow> recycle H gen s = s"
  by (simp add: recycle_def)

section \<open>The connection invariant\<close>

text \<open>
  Not stopped, exactly one of three holds: there is a current client; the old one is being ended;
  the reconnect timer is armed.  No other client is left without \<open>end\<close>, and only the callbacks
  of the current client carry the current generation.
\<close>

definition src_ok :: "'h pgSource \<Rightarrow> bool" where
  "src_ok s \<longleftrightarrow>
     clients s = (case sql s of None \<Rightarrow> [] | Some c \<Rightarrow> [c]) \<and>
     (\<forall>c. sql s = Some c \<longrightarrow> c = generation s \<and> c \<in> set (listens s)) \<and>
     (\<forall>gen \<in> set (listens s). gen \<le> generation s \<and> (gen = generation s \<longrightarrow> sql s = Some gen)) \<and>
     (\<forall>gen d. probeTimer s = Some (gen, d) \<longrightarrow> sql s = Some gen) \<and>
     (stopped s \<longrightarrow> sql s = None \<and> reconnectTimer s = None) \<and>
     (\<not> stopped s \<and> sql s = None \<longrightarrow> recycling s = (if reconnectTimer s = None then 1 else 0)) \<and>
     (sql s \<noteq> None \<longrightarrow> recycling s = 0 \<and> reconnectTimer s = None) \<and>
     (pg_healthy s \<longrightarrow> sql s \<noteq> None)"

lemma src_ok_start: "src_ok (start url (new_source os h))"
  by (simp add: src_ok_def start_def warnIfPooler_def connect_def new_source_def src_log_def Let_def
      split: option.split)

lemma src_okD:
  assumes "src_ok s"
  shows "gen \<in> set (listens s) \<Longrightarrow> gen = generation s \<Longrightarrow> sql s = Some gen"
    and "gen \<in> set (listens s) \<Longrightarrow> gen \<le> generation s"
    and "sql s = Some c \<Longrightarrow> c = generation s"
    and "probeTimer s = Some (gen, d) \<Longrightarrow> gen = generation s"
  using assms unfolding src_ok_def by blast+

lemma src_ok_recycle:
  assumes "src_ok s" and "sql s = Some gen"
  shows "src_ok (recycle H gen s)"
proof (cases "stopped s")
  case False
  have g: "gen = generation s" using assms by (rule src_okD(3))
  have l: "\<forall>x \<in> set (listens s). x \<le> Suc gen \<and> x \<noteq> Suc gen"
    using src_okD(2) [OF assms(1)] g by fastforce
  have "clients s = [gen]" "recycling s = 0" "reconnectTimer s = None"
    using assms by (simp_all add: src_ok_def)
  with l False assms(2) show ?thesis
    unfolding src_ok_def recycle_live [OF g False] by simp
qed (simp add: recycle_stale assms)

lemma src_ok_cong:
  assumes "src_ok s"
    and "clients s' = clients s" "sql s' = sql s" "generation s' = generation s" "listens s' = listens s"
    "stopped s' = stopped s" "reconnectTimer s' = reconnectTimer s" "recycling s' = recycling s"
    and "\<And>gen d. probeTimer s' = Some (gen, d) \<Longrightarrow> sql s = Some gen"
    and "pg_healthy s' \<Longrightarrow> sql s \<noteq> None"
  shows "src_ok s'"
  using assms(1,9,10) unfolding src_ok_def assms(2-8) by blast

lemma src_ok_same:
  assumes "clients s' = clients s" "sql s' = sql s" "generation s' = generation s" "listens s' = listens s"
    "stopped s' = stopped s" "reconnectTimer s' = reconnectTimer s" "recycling s' = recycling s"
    "probeTimer s' = probeTimer s" "pg_healthy s' = pg_healthy s"
  shows "src_ok s' = src_ok s"
  unfolding src_ok_def assms ..

lemma src_ok_timer: "src_ok s \<Longrightarrow> probeTimer s = Some (gen, d) \<Longrightarrow> sql s = Some gen"
  by (simp add: src_ok_def)

lemma src_ok_healthy: "src_ok s \<Longrightarrow> pg_healthy s \<Longrightarrow> sql s \<noteq> None"
  by (simp add: src_ok_def)

lemma probe_done_frame [simp]:
  "pg_opts (probe_done i ok s) = pg_opts s" "sql (probe_done i ok s) = sql s"
  "listens (probe_done i ok s) = listens s" "clients (probe_done i ok s) = clients s"
  "generation (probe_done i ok s) = generation s" "stopped (probe_done i ok s) = stopped s"
  "pg_healthy (probe_done i ok s) = pg_healthy s" "probeTimer (probe_done i ok s) = probeTimer s"
  "reconnectTimer (probe_done i ok s) = reconnectTimer s" "recycling (probe_done i ok s) = recycling s"
  "sink (probe_done i ok s) = sink s"
  by (simp_all add: probe_done_def split: option.split)

lemma src_ok_probe_done [simp]: "src_ok (probe_done i ok s) = src_ok s"
  by (rule src_ok_same) simp_all

lemma src_ok_safely [simp]: "src_ok (safely fn s) = src_ok s"
  by (rule src_ok_same) simp_all

lemma src_ok_log [simp]: "src_ok (src_log m s) = src_ok s"
  by (rule src_ok_same) simp_all

lemma src_ok_counters [simp]:
  "src_ok (s\<lparr>malformed := n\<rparr>) = src_ok s" "src_ok (s\<lparr>lastMalformedLogAt := t\<rparr>) = src_ok s"
  "src_ok (s\<lparr>settled := xs\<rparr>) = src_ok s" "src_ok (s\<lparr>pendingProbes := ps\<rparr>) = src_ok s"
  "src_ok (s\<lparr>everListened := b\<rparr>) = src_ok s" "src_ok (s\<lparr>hintLogged := b\<rparr>) = src_ok s"
  "src_ok (s\<lparr>probeFailures := n\<rparr>) = src_ok s"
  by (rule src_ok_same; simp)+

lemma src_ok_onNotify: "src_ok s \<Longrightarrow> src_ok (onNotify H parse gen payload now s)"
  by (simp add: onNotify_def Let_def split: option.split parsedNotification.split)

lemma src_ok_schedule:
  "src_ok s \<Longrightarrow> sql s = Some gen \<Longrightarrow> src_ok (scheduleProbe gen d s)"
  by (erule src_ok_cong) (auto simp: scheduleProbe_def)

lemma src_ok_setHealthy:
  "src_ok s \<Longrightarrow> sql s \<noteq> None \<Longrightarrow> src_ok (setHealthy H b s)"
  by (rule src_ok_cong [of s]) (auto dest: src_ok_timer)

lemma src_ok_probed:
  assumes "src_ok s" and "gen \<in> set (listens s)"
  shows "src_ok (probed H gen ok s)"
proof -
  let ?s = "s\<lparr>settled := remove1 (gen, ok) (settled s)\<rparr>"
  show ?thesis
  proof (cases "gen \<noteq> generation s \<or> stopped s")
    case True
    then show ?thesis using assms by (simp add: probed_def Let_def)
  next
    case False
    then have g: "sql s = Some gen" using assms src_okD(1) by blast
    let ?up = "setHealthy H True (s'\<lparr>probeFailures := 0, hintLogged := False, reconnectAttempts := 0\<rparr>)"
    let ?m = "setHealthy H False (?s\<lparr>probeFailures := Suc (probeFailures ?s)\<rparr>)"
    have "src_ok (s'\<lparr>reconnectAttempts := n\<rparr>) = src_ok s'" for s' :: "'a pgSource" and n
      by (rule src_ok_same; simp)
    moreover have "src_ok ?m" by (rule src_ok_setHealthy) (use assms(1) g in simp_all)
    ultimately show ?thesis
      using False g assms(1)
      by (auto simp: probed_def Let_def intro!: src_ok_recycle src_ok_schedule src_ok_setHealthy)
  qed
qed

section \<open>Probes\<close>

text \<open>
  Probes belong to generations that had a client; and while a client that has listened is current
  (\<open>awake\<close>), a probe of it is scheduled, in flight or settled, so the next verdict is on its way.
\<close>

definition probes_ok :: "'h pgSource \<Rightarrow> bool" where
  "probes_ok s \<longleftrightarrow>
     (\<forall>i gen. map_of (pendingProbes s) i = Some gen \<longrightarrow> gen \<in> set (listens s)) \<and>
     (\<forall>(gen, ok) \<in> set (settled s). gen \<in> set (listens s))"

definition awake :: "'h pgSource \<Rightarrow> bool" where
  "awake s \<longleftrightarrow>
     probeTimer s \<noteq> None \<or> (\<exists>i. map_of (pendingProbes s) i = Some (generation s)) \<or>
     (\<exists>ok. (generation s, ok) \<in> set (settled s))"

lemma src_ok_probe: "src_ok s \<Longrightarrow> src_ok (probe gen i (s\<lparr>probeTimer := None\<rparr>))"
proof -
  assume s: "src_ok s"
  have "src_ok (s\<lparr>probeTimer := None\<rparr>)" by (rule src_ok_cong [OF s]) (auto dest: src_ok_healthy [OF s])
  then show ?thesis by (simp add: probe_def)
qed

lemma src_ok_recycled: "src_ok s \<Longrightarrow> 0 < recycling s \<Longrightarrow> src_ok (recycled rnd k s)"
  by (auto simp: src_ok_def recycled_def Let_def split: if_splits option.splits)

lemma src_ok_reconnect:
  assumes "src_ok s" and "reconnectTimer s \<noteq> None"
  shows "src_ok (connect (s\<lparr>reconnectTimer := None\<rparr>))"
proof -
  from assms have n: "sql s = None" "\<not> stopped s" "recycling s = 0" "clients s = []" "\<not> pg_healthy s"
    by (auto simp: src_ok_def split: option.splits if_splits)
  moreover have "probeTimer s = None" using src_ok_timer [OF assms(1)] n(1) by (cases "probeTimer s") auto
  moreover have "\<forall>gen \<in> set (listens s). gen \<le> generation s" using src_okD(2) [OF assms(1)] by blast
  ultimately show ?thesis by (auto simp: src_ok_def connect_def Let_def)
qed

lemma src_ok_stop:
  assumes "src_ok s"
  shows "src_ok (stop s)"
proof -
  have "\<forall>x \<in> set (listens s). x \<le> Suc (generation s) \<and> x \<noteq> Suc (generation s)"
    using src_okD(2) [OF assms] by fastforce
  moreover have "(case sql s of None \<Rightarrow> clients s | Some c \<Rightarrow> removeAll c (clients s)) = []"
    using assms by (cases "sql s") (simp_all add: src_ok_def)
  ultimately show ?thesis by (simp add: src_ok_def stop_def)
qed

lemma src_ok_onListening: "src_ok s \<Longrightarrow> gen \<in> set (listens s) \<Longrightarrow> src_ok (onListening H gen s)"
  using src_okD(1) [of s gen]
  by (auto simp: onListening_def Let_def intro!: src_ok_schedule)

lemma src_ok_listenFailed: "src_ok s \<Longrightarrow> gen \<in> set (listens s) \<Longrightarrow> src_ok (listenFailed H gen s)"
  using src_okD(1) [of s gen] by (auto simp: listenFailed_def intro!: src_ok_recycle)

lemma src_ok_step:
  assumes "src_ok s" and "probes_ok s" and "src_can e s"
  shows "src_ok (src_do H parse rnd e s)"
  using assms
  by (cases e) (auto simp: src_ok_onListening src_ok_listenFailed src_ok_onNotify src_ok_probe
      src_ok_recycled src_ok_reconnect src_ok_stop probes_ok_def intro!: src_ok_probed)

lemma probes_ok_cong:
  assumes "probes_ok s" and "pendingProbes s' = pendingProbes s" and "settled s' = settled s"
    and "set (listens s) \<subseteq> set (listens s')"
  shows "probes_ok s'"
  using assms unfolding probes_ok_def assms(2,3) by blast

lemma probes_ok_probe_done: "probes_ok s \<Longrightarrow> probes_ok (probe_done i ok s)"
  by (auto simp: probes_ok_def probe_done_def split: option.split)

text \<open>What an event does to the lists of probes and to the numbers of generations.\<close>

lemma probed_frame [simp]:
  "pendingProbes (probed H gen ok s) = pendingProbes s"
  "settled (probed H gen ok s) = remove1 (gen, ok) (settled s)"
  "listens (probed H gen ok s) = listens s"
  by (auto simp: probed_def Let_def scheduleProbe_def recycle_def)

lemma onListening_frame [simp]:
  "pendingProbes (onListening H gen s) = pendingProbes s" "settled (onListening H gen s) = settled s"
  "listens (onListening H gen s) = listens s" "generation (onListening H gen s) = generation s"
  "stopped (onListening H gen s) = stopped s" "pg_healthy (onListening H gen s) = pg_healthy s"
  by (auto simp: onListening_def Let_def scheduleProbe_def)

lemma listenFailed_frame [simp]:
  "pendingProbes (listenFailed H gen s) = pendingProbes s" "settled (listenFailed H gen s) = settled s"
  "listens (listenFailed H gen s) = listens s"
  by (auto simp: listenFailed_def recycle_def Let_def)

lemma recycled_frame [simp]:
  "pendingProbes (recycled rnd k s) = pendingProbes s" "settled (recycled rnd k s) = settled s"
  "listens (recycled rnd k s) = listens s" "generation (recycled rnd k s) = generation s"
  "stopped (recycled rnd k s) = stopped s" "pg_healthy (recycled rnd k s) = pg_healthy s"
  "probeTimer (recycled rnd k s) = probeTimer s" "sink (recycled rnd k s) = sink s"
  "sql (recycled rnd k s) = sql s"
  by (auto simp: recycled_def Let_def)

lemma connect_frame [simp]:
  "pendingProbes (connect s) = pendingProbes s" "settled (connect s) = settled s"
  "stopped (connect s) = stopped s" "pg_healthy (connect s) = pg_healthy s" "sink (connect s) = sink s"
  "probeTimer (connect s) = probeTimer s"
  by (auto simp: connect_def Let_def)

lemma onNotify_frame [simp]:
  "listens (onNotify H parse gen payload now s) = listens s"
  "generation (onNotify H parse gen payload now s) = generation s"
  "stopped (onNotify H parse gen payload now s) = stopped s"
  "pg_healthy (onNotify H parse gen payload now s) = pg_healthy s"
  "probeTimer (onNotify H parse gen payload now s) = probeTimer s"
  by (simp_all add: onNotify_def Let_def split: option.split parsedNotification.split)

lemma probes_ok_step:
  assumes "src_ok s" and p: "probes_ok s" and "src_can e s"
  shows "probes_ok (src_do H parse rnd e s)"
proof (cases e)
  case (Notified gen payload now)
  then show ?thesis
    using probes_ok_probe_done [OF p] probes_ok_cong [OF p]
    by (auto simp: onNotify_def Let_def split: option.split parsedNotification.split)
next
  case (ProbeFired i)
  then obtain gen d where t: "probeTimer s = Some (gen, d)" using assms(3) by auto
  have "gen \<in> set (listens s)" using src_ok_timer [OF assms(1) t] assms(1) by (auto simp: src_ok_def)
  with ProbeFired t p show ?thesis by (auto simp: probe_def probes_ok_def)
next
  case (Probed gen ok)
  with p show ?thesis by (auto simp: probes_ok_def dest: set_remove1_subset [THEN subsetD])
next
  case Reconnect
  with p show ?thesis by (auto intro!: probes_ok_cong [OF p] simp: connect_def Let_def)
next
  case Stop
  with p show ?thesis by (auto intro!: probes_ok_cong [OF p] simp: stop_def)
qed (use p in \<open>auto intro: probes_ok_cong probes_ok_probe_done\<close>)

lemma src_ok_sink [simp]: "src_ok (s\<lparr>sink := h\<rparr>) = src_ok s"
  by (rule src_ok_same; simp)

lemma probes_ok_sink [simp]: "probes_ok (s\<lparr>sink := h\<rparr>) = probes_ok s"
  by (simp add: probes_ok_def)

lemma src_run_ok: "src_run H own parse rnd os h es s \<Longrightarrow> src_ok s \<and> probes_ok s"
proof (induction rule: src_run.induct)
  case (started url)
  have "probes_ok (start url (new_source os h))"
    by (simp add: probes_ok_def start_def warnIfPooler_def connect_def new_source_def src_log_def Let_def
        split: option.split)
  then show ?case by (simp add: src_ok_start)
next
  case (event es s e)
  then show ?case by (simp add: src_ok_step probes_ok_step)
qed simp

section \<open>The contract of the handlers\<close>

text \<open>
  The consumer of the events (the gateway) keeps a condition of its own, \<open>ok\<close>, under every
  handler and every move it makes by itself, and shows the health it was last told, \<open>view\<close>.
\<close>

locale event_sink =
  fixes H :: "'h sourceHandlers"
    and own :: "'h \<Rightarrow> 'h \<Rightarrow> bool"
    and ok :: "'h \<Rightarrow> bool"
    and view :: "'h \<Rightarrow> bool"
  assumes call_ok: "ok h \<Longrightarrow> ok (fst (onCallChanged H e h))"
    and resync_ok: "ok h \<Longrightarrow> ok (fst (onResync H h))"
    and health_ok: "ok h \<Longrightarrow> ok (fst (onHealthChange H b h))"
    and own_ok: "ok h \<Longrightarrow> own h h' \<Longrightarrow> ok h'"
    and call_view: "ok h \<Longrightarrow> view (fst (onCallChanged H e h)) = view h"
    and resync_view: "ok h \<Longrightarrow> view (fst (onResync H h)) = view h"
    and health_view: "ok h \<Longrightarrow> view (fst (onHealthChange H b h)) = b"
    and own_view: "ok h \<Longrightarrow> own h h' \<Longrightarrow> view h' = view h"

context event_sink
begin

definition mirrors :: "'h pgSource \<Rightarrow> bool" where
  "mirrors s \<longleftrightarrow> ok (sink s) \<and> (\<not> stopped s \<longrightarrow> view (sink s) = pg_healthy s)"

lemma mirrors_cong:
  "mirrors s \<Longrightarrow> sink s' = sink s \<Longrightarrow> stopped s' = stopped s \<Longrightarrow> pg_healthy s' = pg_healthy s \<Longrightarrow> mirrors s'"
  by (simp add: mirrors_def)

lemma mirrors_setHealthy: "mirrors s \<Longrightarrow> mirrors (setHealthy H b s)"
  by (simp add: mirrors_def health_ok health_view)

lemma mirrors_recycle: "mirrors s \<Longrightarrow> mirrors (recycle H gen s)"
  by (cases "gen \<noteq> generation s \<or> stopped s")
    (auto simp: recycle_stale mirrors_def recycle_live health_ok health_view)

lemma mirrors_probed:
  assumes "mirrors s"
  shows "mirrors (probed H gen b s)"
proof -
  have "mirrors (s\<lparr>settled := x\<rparr>)" "mirrors (src_log m s) = mirrors s" "mirrors (scheduleProbe gen d s') = mirrors s'"
    "mirrors (src_log m s') = mirrors s'" "mirrors (s'\<lparr>hintLogged := hl\<rparr>) = mirrors s'"
    for x m d s' hl using assms by (auto simp: mirrors_def scheduleProbe_def)
  moreover have "mirrors (setHealthy H True (s'\<lparr>probeFailures := 0, hintLogged := False, reconnectAttempts := 0\<rparr>))"
    if "mirrors s'" for s' by (rule mirrors_setHealthy) (use that in \<open>simp add: mirrors_def\<close>)
  moreover have "mirrors (setHealthy H False (s'\<lparr>probeFailures := n\<rparr>))"
    if "mirrors s'" for s' n by (rule mirrors_setHealthy) (use that in \<open>simp add: mirrors_def\<close>)
  ultimately show ?thesis
    by (auto simp: probed_def Let_def intro!: mirrors_recycle)
qed

lemma mirrors_step:
  assumes "mirrors s"
  shows "mirrors (src_do H parse rnd e s)"
proof (cases e)
  case (Listening gen)
  with assms show ?thesis
    by (auto simp: onListening_def scheduleProbe_def mirrors_def resync_ok resync_view Let_def)
next
  case (ListenFailed gen)
  with assms show ?thesis
    by (auto simp: listenFailed_def mirrors_def intro!: mirrors_recycle [unfolded mirrors_def])
next
  case (Notified gen payload now)
  with assms show ?thesis
    by (auto simp: onNotify_def mirrors_def call_ok call_view Let_def
        split: option.split parsedNotification.split)
next
  case Stop
  with assms show ?thesis by (simp add: stop_def mirrors_def)
next
  case (Probed gen b)
  with assms show ?thesis by (simp add: mirrors_probed)
qed (use assms in \<open>simp_all add: mirrors_def probe_def\<close>)

lemma src_run_mirrors:
  assumes "ok h" and "\<not> view h" and "src_run H own parse rnd os h es s"
  shows "mirrors s"
  using assms(3)
proof (induction rule: src_run.induct)
  case (started url)
  show ?case using assms(1,2)
    by (simp add: mirrors_def start_def warnIfPooler_def connect_def new_source_def src_log_def Let_def
        split: option.split)
next
  case (event es s e)
  then show ?case by (simp add: mirrors_step)
next
  case (consumer es s h')
  then show ?case by (auto simp: mirrors_def own_ok own_view)
qed

end

end
