(* ===== verification/Pg_Props.thy ===== *)
theory Pg_Props
  imports Pg_Invariant
begin

text \<open>
  Properties of the event source over whole runs: the probe loop never falls asleep, health is
  always earned by a probe that came back, the backoff is bounded.
\<close>

section \<open>Facts that depend on the history\<close>

text \<open>A probe sent under some identifier was received back through the client of \<open>gen\<close>.\<close>

definition heard :: "(string \<Rightarrow> json option) \<Rightarrow> src_event list \<Rightarrow> nat \<Rightarrow> bool" where
  "heard parse es gen \<longleftrightarrow>
     (\<exists>i payload now. ProbeFired i \<in> set es \<and> Notified gen payload now \<in> set es \<and>
                      parseNotification parse payload = Some (Probe i))"

lemma heard_append: "heard parse es gen \<Longrightarrow> heard parse (es @ es') gen"
  by (auto simp: heard_def)

definition hist_inv :: "(string \<Rightarrow> json option) \<Rightarrow> src_event list \<Rightarrow> 'h pgSource \<Rightarrow> bool" where
  "hist_inv parse es s \<longleftrightarrow>
     (\<forall>gen. Listening gen \<in> set es \<longrightarrow> gen \<le> generation s) \<and>
     (\<forall>i gen. map_of (pendingProbes s) i = Some gen \<longrightarrow> ProbeFired i \<in> set es) \<and>
     (\<not> stopped s \<and> Listening (generation s) \<in> set es \<longrightarrow> awake s) \<and>
     ((generation s, True) \<in> set (settled s) \<longrightarrow> heard parse es (generation s)) \<and>
     (pg_healthy s \<longrightarrow> heard parse es (generation s))"

lemma settled_le: "src_ok s \<Longrightarrow> probes_ok s \<Longrightarrow> (gen, b) \<in> set (settled s) \<Longrightarrow> gen \<le> generation s"
  using src_okD(2) [of s gen] by (auto simp: probes_ok_def)

lemma awake_cong:
  "awake s \<Longrightarrow> probeTimer s' = probeTimer s \<Longrightarrow> pendingProbes s' = pendingProbes s \<Longrightarrow>
   settled s' = settled s \<Longrightarrow> generation s' = generation s \<Longrightarrow> awake s'"
  by (simp add: awake_def)

lemma probe_done_pending:
  "map_of (pendingProbes (probe_done i ok s)) j = Some gen \<Longrightarrow> map_of (pendingProbes s) j = Some gen"
  by (auto simp: probe_done_def split: option.splits if_splits)

lemma probe_done_settled:
  "(gen, b) \<in> set (settled (probe_done i ok s)) \<Longrightarrow>
   (gen, b) \<in> set (settled s) \<or> b = ok \<and> map_of (pendingProbes s) i = Some gen"
  by (auto simp: probe_done_def split: option.splits)

lemma awake_probe_done:
  assumes "awake s"
  shows "awake (probe_done i ok s)"
proof (cases "map_of (pendingProbes s) i")
  case None
  with assms show ?thesis by (simp add: probe_done_def)
next
  case (Some gen)
  consider "probeTimer s \<noteq> None" | b where "(generation s, b) \<in> set (settled s)"
    | j where "map_of (pendingProbes s) j = Some (generation s)"
    using assms by (auto simp: awake_def)
  then show ?thesis
  proof cases
    case 3
    with Some show ?thesis by (cases "j = i") (auto simp: awake_def probe_done_def)
  qed (use Some in \<open>auto simp: awake_def probe_done_def\<close>)
qed

text \<open>A step that starts a new generation forgets nothing: the new number was never used.\<close>

lemma hist_inv_new_generation:
  assumes inv: "hist_inv parse es s" and "src_ok s" and "probes_ok s" and "generation s < generation s'"
    and "pendingProbes s' = pendingProbes s" and "set (settled s') \<subseteq> set (settled s)" and "\<not> pg_healthy s'"
    and e: "\<And>gen. e = Listening gen \<Longrightarrow> gen \<le> generation s"
  shows "hist_inv parse (es @ [e]) s'"
proof -
  have old: "\<forall>gen. Listening gen \<in> set (es @ [e]) \<longrightarrow> gen \<le> generation s"
    using inv e by (auto simp: hist_inv_def)
  have "(generation s', b) \<notin> set (settled s')" for b
    using settled_le [OF assms(2,3), of "generation s'" b] assms(4,6) by fastforce
  moreover have "Listening (generation s') \<notin> set (es @ [e])" using old assms(4) by fastforce
  moreover have "\<forall>gen. Listening gen \<in> set (es @ [e]) \<longrightarrow> gen \<le> generation s'"
    using old assms(4) by fastforce
  ultimately show ?thesis using inv assms(5,7) by (auto simp: hist_inv_def)
qed

lemma hist_inv_same_generation:
  assumes inv: "hist_inv parse es s" and "generation s' = generation s"
    and "\<And>gen. e = Listening gen \<Longrightarrow> gen \<le> generation s"
    and "\<And>i gen. map_of (pendingProbes s') i = Some gen \<Longrightarrow> map_of (pendingProbes s) i = Some gen \<or> e = ProbeFired i"
    and "(generation s, True) \<in> set (settled s') \<Longrightarrow>
           (generation s, True) \<in> set (settled s) \<or> heard parse (es @ [e]) (generation s)"
    and "pg_healthy s' \<Longrightarrow> pg_healthy s \<or> (generation s, True) \<in> set (settled s)"
    and "\<not> stopped s' \<Longrightarrow> awake s \<or> e = Listening (generation s) \<Longrightarrow> awake s'" and "\<not> stopped s' \<Longrightarrow> \<not> stopped s"
  shows "hist_inv parse (es @ [e]) s'"
  unfolding hist_inv_def assms(2)
proof (intro conjI allI impI)
  fix gen assume "Listening gen \<in> set (es @ [e])"
  then show "gen \<le> generation s" using inv assms(3) by (auto simp: hist_inv_def)
next
  fix i gen assume "map_of (pendingProbes s') i = Some gen"
  then show "ProbeFired i \<in> set (es @ [e])" using inv assms(4) by (fastforce simp: hist_inv_def)
next
  assume "\<not> stopped s' \<and> Listening (generation s) \<in> set (es @ [e])"
  then show "awake s'" using inv assms(7,8) by (auto simp: hist_inv_def)
next
  assume "(generation s, True) \<in> set (settled s')"
  then show "heard parse (es @ [e]) (generation s)"
    using inv assms(5) by (auto simp: hist_inv_def intro: heard_append)
next
  assume "pg_healthy s'"
  then show "heard parse (es @ [e]) (generation s)"
    using inv assms(6) by (auto simp: hist_inv_def intro: heard_append)
qed

lemma hist_inv_notified:
  assumes inv: "hist_inv parse es s" and c: "gen = generation s"
  shows "hist_inv parse (es @ [Notified gen payload now]) (onNotify H parse gen payload now s)"
proof (cases "\<exists>i. parseNotification parse payload = Some (Probe i)")
  case True
  then obtain i where i: "parseNotification parse payload = Some (Probe i)" ..
  then have eq: "onNotify H parse gen payload now s = probe_done i True s" by (simp add: onNotify_def c)
  show ?thesis unfolding eq
  proof (rule hist_inv_same_generation [OF inv])
    assume "(generation s, True) \<in> set (settled (probe_done i True s))"
    then show "(generation s, True) \<in> set (settled s) \<or>
        heard parse (es @ [Notified gen payload now]) (generation s)"
      using inv i c probe_done_settled [of "generation s" True i True s]
      by (fastforce simp: heard_def hist_inv_def)
  qed (auto intro: awake_probe_done dest: probe_done_pending)
next
  case False
  let ?s = "onNotify H parse gen payload now s"
  have "pendingProbes ?s = pendingProbes s" "settled ?s = settled s"
    using False by (auto simp: onNotify_def Let_def split: option.split parsedNotification.split)
  then show ?thesis
    by (intro hist_inv_same_generation [OF inv]) (auto intro: awake_cong)
qed

lemma hist_inv_probed:
  assumes inv: "hist_inv parse es s" and ok: "src_ok s" "probes_ok s" and e: "(gen, b) \<in> set (settled s)"
  shows "hist_inv parse (es @ [Probed gen b]) (probed H gen b s)"
proof (cases "gen \<noteq> generation s \<or> stopped s")
  case True
  then have eq: "probed H gen b s = s\<lparr>settled := remove1 (gen, b) (settled s)\<rparr>"
    by (simp add: probed_def Let_def)
  have "awake (s\<lparr>settled := remove1 (gen, b) (settled s)\<rparr>)" if "awake s" "gen \<noteq> generation s"
    using that by (auto simp: awake_def in_set_remove1)
  with True show ?thesis unfolding eq
    by (intro hist_inv_same_generation [OF inv]) (auto dest: set_remove1_subset [THEN subsetD])
next
  case False
  then have g: "gen = generation s" and ns: "\<not> stopped s" by simp_all
  show ?thesis
  proof (cases "generation (probed H gen b s) = generation s")
    case True
    then have "probeTimer (probed H gen b s) \<noteq> None"
      using False by (auto simp: probed_def Let_def scheduleProbe_def recycle_live split: if_splits)
    then have "awake (probed H gen b s)" by (simp add: awake_def)
    moreover have "pg_healthy (probed H gen b s) = b"
      using False by (auto simp: probed_def Let_def scheduleProbe_def recycle_live)
    ultimately show ?thesis
      using e g ns by (intro hist_inv_same_generation [OF inv True])
        (auto dest: set_remove1_subset [THEN subsetD])
  next
    case False
    have "generation s < generation (probed H gen b s)" "\<not> pg_healthy (probed H gen b s)"
      using False g ns by (auto simp: probed_def Let_def scheduleProbe_def recycle_live split: if_splits)
    then show ?thesis
      by (intro hist_inv_new_generation [OF inv ok]) (auto dest: set_remove1_subset [THEN subsetD])
  qed
qed

lemma hist_inv_step:
  assumes inv: "hist_inv parse es s" and ok: "src_ok s" "probes_ok s" and can: "src_can e s"
  shows "hist_inv parse (es @ [e]) (src_do H parse rnd e s)"
proof (cases e)
  case (Listening gen)
  then have le: "gen \<le> generation s" using can src_okD(2) [OF ok(1)] by simp
  have "awake (onListening H gen s)" if "awake s \<or> gen = generation s" "\<not> stopped s"
    using that by (cases "gen = generation s") (auto simp: awake_def onListening_def scheduleProbe_def Let_def)
  with le show ?thesis unfolding Listening
    by (intro hist_inv_same_generation [OF inv]) auto
next
  case (ListenFailed gen)
  show ?thesis
  proof (cases "gen \<noteq> generation s \<or> stopped s")
    case True
    then have "src_do H parse rnd e s = s" by (auto simp: ListenFailed listenFailed_def)
    then show ?thesis using ListenFailed by (intro hist_inv_same_generation [OF inv]) auto
  next
    case False
    then show ?thesis unfolding ListenFailed
      by (intro hist_inv_new_generation [OF inv ok]) (simp_all add: listenFailed_def recycle_live)
  qed
next
  case (Notified gen payload now)
  show ?thesis
  proof (cases "gen = generation s")
    case True
    then show ?thesis unfolding Notified by (simp add: hist_inv_notified [OF inv])
  next
    case False
    then have "src_do H parse rnd e s = s" by (auto simp: Notified onNotify_def)
    then show ?thesis using Notified by (intro hist_inv_same_generation [OF inv]) auto
  qed
next
  case (ProbeFired i)
  then obtain gen d where t: "probeTimer s = Some (gen, d)" and n: "map_of (pendingProbes s) i = None"
    using can by auto
  have "sql s = Some gen" "gen = generation s"
    using src_ok_timer [OF ok(1) t] src_okD(4) [OF ok(1) t] by simp_all
  then show ?thesis unfolding ProbeFired
    by (intro hist_inv_same_generation [OF inv])
      (auto simp: t probe_def awake_def split: if_splits)
next
  case (ProbeTimeout i)
  then show ?thesis
    by (intro hist_inv_same_generation [OF inv])
      (auto intro: awake_probe_done dest: probe_done_pending probe_done_settled)
next
  case (NotifyRejected i)
  then show ?thesis
    by (intro hist_inv_same_generation [OF inv])
      (auto intro: awake_probe_done dest: probe_done_pending probe_done_settled)
next
  case (Probed gen b)
  then show ?thesis using hist_inv_probed [OF inv ok] can by simp
next
  case (Recycled k)
  then show ?thesis
    by (intro hist_inv_same_generation [OF inv]) (auto intro: awake_cong)
next
  case Reconnect
  then have n: "sql s = None" "\<not> stopped s" using ok(1) can by (auto simp: src_ok_def)
  then have "\<not> pg_healthy s" using src_ok_healthy [OF ok(1)] by blast
  with n show ?thesis unfolding Reconnect
    by (intro hist_inv_new_generation [OF inv ok]) (auto simp: connect_def Let_def)
next
  case Stop
  then show ?thesis
    by (intro hist_inv_new_generation [OF inv ok]) (auto simp: stop_def)
qed

lemma src_run_hist: "src_run H own parse rnd os h es s \<Longrightarrow> hist_inv parse es s"
proof (induction rule: src_run.induct)
  case (started url)
  show ?case
    by (simp add: hist_inv_def start_def warnIfPooler_def connect_def new_source_def src_log_def Let_def
        split: option.split)
next
  case (event es s e)
  with src_run_ok [OF event(1)] show ?case by (simp add: hist_inv_step)
next
  case (consumer es s h')
  then show ?case by (simp add: hist_inv_def awake_def)
qed

section \<open>The backoff\<close>

lemma jitter_bounds:
  assumes r: "double_ok rnd" and k: "k < 2 ^ 53" and b: "b < 2 ^ 50"
  shows "3 * b \<le> 4 * jitter rnd b k + 2" and "4 * jitter rnd b k \<le> 5 * b + 2"
proof -
  have m: "rnd x \<le> rnd y" if "x \<le> y" for x y
    using r that by (simp add: double_ok_def mono_def)
  have fx: "rnd (of_int n / 4) = of_int n / 4" if "\<bar>n\<bar> < 2 ^ 53" for n
    using r that by (simp add: double_ok_def)
  have "of_nat k < (2 ^ 53 :: rat)" using k by (metis of_nat_less_iff of_nat_numeral of_nat_power)
  then have "rnd (3 / 4) \<le> rnd (3 / 4 + of_nat k / 2 ^ 54)" "rnd (3 / 4 + of_nat k / 2 ^ 54) \<le> rnd (5 / 4)"
    by (auto intro!: m)
  then have f: "3 / 4 \<le> rnd (3 / 4 + of_nat k / 2 ^ 54)" "rnd (3 / 4 + of_nat k / 2 ^ 54) \<le> 5 / 4"
    using fx [of 3] fx [of 5] by simp_all
  let ?p = "of_nat b * rnd (3 / 4 + of_nat k / 2 ^ 54)"
  have "of_nat b * (3 / 4) \<le> ?p" "?p \<le> of_nat b * (5 / 4)"
    by (rule mult_left_mono [OF f(1)], simp) (rule mult_left_mono [OF f(2)], simp)
  then have "of_int (3 * int b) / 4 \<le> ?p" "?p \<le> of_int (5 * int b) / 4" by simp_all
  from m [OF this(1)] m [OF this(2)] fx [of "3 * int b"] fx [of "5 * int b"] b
  have lo: "of_int (3 * int b) / 4 \<le> rnd ?p" and hi: "rnd ?p \<le> of_int (5 * int b) / 4"
    by simp_all
  define d where "d = js_round (rnd ?p)"
  have "of_int d \<le> rnd ?p + 1 / 2" "rnd ?p + 1 / 2 < of_int d + 1"
    unfolding d_def js_round_def using floor_correct [of "rnd ?p + 1 / 2"] by simp_all
  with lo hi have "of_int (3 * int b) < (of_int (4 * d + 2) :: rat)" "of_int (4 * d) \<le> (of_int (5 * int b + 2) :: rat)"
    by simp_all
  then have "3 * int b < 4 * d + 2" "4 * d \<le> 5 * int b + 2" by (simp_all only: of_int_less_iff of_int_le_iff)
  moreover have "jitter rnd b k = nat d" by (simp add: jitter_def d_def)
  ultimately show "3 * b \<le> 4 * jitter rnd b k + 2" and "4 * jitter rnd b k \<le> 5 * b + 2" by auto
qed

section \<open>Properties\<close>

text \<open>
  C4. The parser reads what the trigger of migration 0102 writes: the payload of a row of
  \<open>calls\<close> with non-empty ids and status comes back as the event of that row, with an unknown
  role dropped; and whatever the payload, an event is only produced from a \<open>call.changed\<close> object
  whose five ids are non-empty strings.
\<close>

theorem parse_trigger_payload:
  "(parse payload = Some (notify_call_event r) \<and>
      [] \<notin> {cr_id r, cr_booking_id r, cr_fan_id r, cr_partner_id r, cr_attempt_status r} \<longrightarrow>
    parseNotification parse payload =
      Some (Call \<lparr>msg_callId = cr_id r, msg_bookingId = cr_booking_id r, msg_status = cr_attempt_status r,
                   msg_endedByRole =
                     (case cr_ended_by_role r of
                        None \<Rightarrow> None
                      | Some x \<Rightarrow> map_of [(''FAN'', FAN), (''PARTNER'', PARTNER), (''ADMIN'', ADMIN)] x),
                   ev_fanId = cr_fan_id r, ev_partnerId = cr_partner_id r\<rparr>)) \<and>
   (parseNotification parse payload = Some (Call e) \<longrightarrow>
      (\<exists>j. parse payload = Some j \<and> jget j ''type'' = Some (JStr ''call.changed'') \<and>
           jget j ''callId'' = Some (JStr (msg_callId e)) \<and> jget j ''bookingId'' = Some (JStr (msg_bookingId e)) \<and>
           jget j ''fanId'' = Some (JStr (ev_fanId e)) \<and> jget j ''partnerId'' = Some (JStr (ev_partnerId e)) \<and>
           jget j ''status'' = Some (JStr (msg_status e)) \<and>
           [] \<notin> {msg_callId e, msg_bookingId e, ev_fanId e, ev_partnerId e, msg_status e}))"
proof (intro conjI impI)
  assume a: "parse payload = Some (notify_call_event r) \<and>
      [] \<notin> {cr_id r, cr_booking_id r, cr_fan_id r, cr_partner_id r, cr_attempt_status r}"
  then show "parseNotification parse payload =
      Some (Call \<lparr>msg_callId = cr_id r, msg_bookingId = cr_booking_id r, msg_status = cr_attempt_status r,
                   msg_endedByRole =
                     (case cr_ended_by_role r of
                        None \<Rightarrow> None
                      | Some x \<Rightarrow> map_of [(''FAN'', FAN), (''PARTNER'', PARTNER), (''ADMIN'', ADMIN)] x),
                   ev_fanId = cr_fan_id r, ev_partnerId = cr_partner_id r\<rparr>)"
    by (cases "cr_ended_by_role r")
      (auto simp: parseNotification_def notify_call_event_def nonEmpty_def str_of_def)
next
  assume p: "parseNotification parse payload = Some (Call e)"
  then obtain j where j: "parse payload = Some j" by (auto simp: parseNotification_def split: option.splits)
  have "nonEmpty v \<Longrightarrow> v = Some (JStr (str_of v)) \<and> str_of v \<noteq> []" for v
    by (auto simp: nonEmpty_def str_of_def nonempty_str_Some)
  with p j show "\<exists>j. parse payload = Some j \<and> jget j ''type'' = Some (JStr ''call.changed'') \<and>
           jget j ''callId'' = Some (JStr (msg_callId e)) \<and> jget j ''bookingId'' = Some (JStr (msg_bookingId e)) \<and>
           jget j ''fanId'' = Some (JStr (ev_fanId e)) \<and> jget j ''partnerId'' = Some (JStr (ev_partnerId e)) \<and>
           jget j ''status'' = Some (JStr (msg_status e)) \<and>
           [] \<notin> {msg_callId e, msg_bookingId e, ev_fanId e, ev_partnerId e, msg_status e}"
    unfolding parseNotification_def j option.case by (fastforce split: if_splits)
qed

theorem parse_trigger_payload_witness:
  "parseNotification (\<lambda>_. Some (notify_call_event \<lparr>cr_id = ''c'', cr_booking_id = ''b'', cr_fan_id = ''f'',
       cr_partner_id = ''p'', cr_attempt_status = ''ENDED'', cr_ended_by_role = Some ''ROBOT''\<rparr>)) ''x'' =
     Some (Call \<lparr>msg_callId = ''c'', msg_bookingId = ''b'', msg_status = ''ENDED'', msg_endedByRole = None,
       ev_fanId = ''f'', ev_partnerId = ''p''\<rparr>)"
  using parse_trigger_payload [of "\<lambda>_. Some (notify_call_event \<lparr>cr_id = ''c'', cr_booking_id = ''b'',
       cr_fan_id = ''f'', cr_partner_id = ''p'', cr_attempt_status = ''ENDED'',
       cr_ended_by_role = Some ''ROBOT''\<rparr>)" "''x''" "\<lparr>cr_id = ''c'', cr_booking_id = ''b'',
       cr_fan_id = ''f'', cr_partner_id = ''p'', cr_attempt_status = ''ENDED'',
       cr_ended_by_role = Some ''ROBOT''\<rparr>"]
  by simp

text \<open>A run in which the boot probe comes back.\<close>

definition demo_handlers :: "nat sourceHandlers" where
  "demo_handlers = \<lparr>onCallChanged = (\<lambda>e n. (Suc n, None)), onResync = (\<lambda>n. (n, Some ''boom'')),
     onHealthChange = (\<lambda>b n. (n, None))\<rparr>"

definition demo_probe_json :: "string \<Rightarrow> json option" where
  "demo_probe_json s = Some (JObj [(''type'', JStr ''probe''), (''id'', JStr s)])"

definition demo_events :: "src_event list" where
  "demo_events = [Listening 1, ProbeFired ''u'', Notified 1 ''u'' 0, Probed 1 True]"

definition demo_source :: "nat pgSource" where
  "demo_source =
     probed demo_handlers 1 True
       (onNotify demo_handlers demo_probe_json 1 ''u'' 0
         (probe 1 ''u'' ((onListening demo_handlers 1 (start None (new_source PG_DEFAULTS 0)))
                           \<lparr>probeTimer := None\<rparr>)))"

lemmas src_eval = demo_source_def demo_handlers_def demo_probe_json_def probed_def onNotify_def probe_def
  onListening_def start_def warnIfPooler_def connect_def new_source_def scheduleProbe_def setHealthy_def
  safely_def src_log_def parseNotification_def probe_done_def nonEmpty_def str_of_def PG_DEFAULTS_def

lemma demo_source_run:
  "src_run demo_handlers (\<lambda>_ _. False) demo_probe_json (\<lambda>x. x) PG_DEFAULTS 0 demo_events demo_source"
proof -
  let ?R = "src_run demo_handlers (\<lambda>_ _. False) demo_probe_json (\<lambda>x. x) PG_DEFAULTS 0"
  let ?do = "src_do demo_handlers demo_probe_json (\<lambda>x. x)"
  let ?s0 = "start None (new_source PG_DEFAULTS 0)"
  let ?s1 = "?do (Listening 1) ?s0"
  let ?s2 = "?do (ProbeFired ''u'') ?s1"
  let ?s3 = "?do (Notified 1 ''u'' 0) ?s2"
  have "?R [] ?s0" by (rule src_run.started)
  then have "?R ([] @ [Listening 1]) ?s1" by (rule src_run.event) (simp add: src_eval)
  then have "?R (([] @ [Listening 1]) @ [ProbeFired ''u'']) ?s2" by (rule src_run.event) (simp add: src_eval)
  then have "?R ((([] @ [Listening 1]) @ [ProbeFired ''u'']) @ [Notified 1 ''u'' 0]) ?s3"
    by (rule src_run.event) (simp add: src_eval)
  then have "?R (((([] @ [Listening 1]) @ [ProbeFired ''u'']) @ [Notified 1 ''u'' 0]) @ [Probed 1 True])
      (?do (Probed 1 True) ?s3)"
    by (rule src_run.event) (simp add: src_eval)
  moreover have "?do (Probed 1 True) ?s3 = demo_source" by (simp add: src_eval)
  ultimately show ?thesis by (simp add: demo_events_def)
qed

lemma demo_source_eval:
  "pg_healthy demo_source" "generation demo_source = 1" "sql demo_source = Some 1" "\<not> stopped demo_source"
  "listens demo_source = [1]" "reconnectAttempts demo_source = 0" "probeTimer demo_source = Some (1, 30000)"
  "probeFailures demo_source = 0" "sink demo_source = 0" "pendingProbes demo_source = []"
  "pg_opts demo_source = PG_DEFAULTS"
  by (simp_all add: src_eval)

text \<open>
  Health is earned: in every run of the source, whenever it reports healthy, a probe it sent
  was received back through the client that is current, so LISTEN really delivers on it.
\<close>

theorem source_healthy_is_proven:
  assumes "src_run H own parse rnd os h es s" and "pg_healthy s"
  shows "sql s = Some (generation s) \<and>
    (\<exists>i payload now. ProbeFired i \<in> set es \<and> Notified (generation s) payload now \<in> set es \<and>
                     parseNotification parse payload = Some (Probe i))"
proof -
  have ok: "src_ok s" using src_run_ok [OF assms(1)] by simp
  from src_ok_healthy [OF ok assms(2)] obtain c where c: "sql s = Some c" by auto
  with src_okD(3) [OF ok c] src_run_hist [OF assms(1)] assms(2) show ?thesis
    by (auto simp: hist_inv_def heard_def)
qed

theorem source_healthy_is_proven_witness:
  "\<exists>i payload now. ProbeFired i \<in> set demo_events \<and> Notified 1 payload now \<in> set demo_events \<and>
     parseNotification demo_probe_json payload = Some (Probe i)"
  using source_healthy_is_proven [OF demo_source_run] by (simp add: demo_source_eval)

text \<open>
  C5. The source owns its reconnection: in every run, until it is stopped, it has one current
  client and no other it has not told to end, or it has none and exactly the step that brings one
  back is pending: the end of the old client or the reconnect timer.  Once the current client has
  listened there is always a probe of it scheduled, in flight or answered, so its health is
  re-examined for ever.
\<close>

theorem source_never_stuck:
  assumes "src_run H own parse rnd os h es s" and "\<not> stopped s"
  shows "(sql s = Some (generation s) \<and> clients s = [generation s] \<and>
       (Listening (generation s) \<in> set es \<longrightarrow>
          (\<exists>d. probeTimer s = Some (generation s, d)) \<or>
          (\<exists>i. map_of (pendingProbes s) i = Some (generation s)) \<or>
          (\<exists>b. (generation s, b) \<in> set (settled s)))) \<or>
     (sql s = None \<and> clients s = [] \<and>
       (recycling s = 1 \<and> reconnectTimer s = None \<or> recycling s = 0 \<and> src_can Reconnect s))"
proof -
  have ok: "src_ok s" using src_run_ok [OF assms(1)] by simp
  have aw: "Listening (generation s) \<in> set es \<Longrightarrow> awake s"
    using src_run_hist [OF assms(1)] assms(2) by (simp add: hist_inv_def)
  show ?thesis
  proof (cases "sql s")
    case None
    with ok assms(2) show ?thesis by (auto simp: src_ok_def)
  next
    case (Some c)
    then have c: "c = generation s" and cl: "clients s = [c]" using ok by (auto simp: src_ok_def)
    have "\<exists>d. probeTimer s = Some (generation s, d)" if "probeTimer s \<noteq> None"
      using that src_okD(4) [OF ok] by fastforce
    with aw Some c cl show ?thesis by (auto simp: awake_def)
  qed
qed

theorem source_never_stuck_witness:
  "\<exists>d. probeTimer demo_source = Some (1, d)"
  using source_never_stuck [OF demo_source_run] by (simp add: demo_source_eval demo_events_def)

text \<open>
  One missed probe makes the source unhealthy at once but keeps the client and tries again;
  a further miss discards the client: its generation is retired, so nothing it still delivers has
  any effect, and the rebuild is under way.
\<close>

theorem probe_misses_rebuild:
  assumes "src_run H own parse rnd os h es s" and "\<not> stopped s" and "gen = generation s"
    and "(gen, False) \<in> set (settled s)" and "s' = probed H gen False s"
  shows "\<not> pg_healthy s' \<and>
    (probeFailures s = 0 \<longrightarrow> sql s' = sql s \<and> generation s' = gen \<and>
        probeTimer s' = Some (gen, probeTimeoutMs (pg_opts s))) \<and>
    (0 < probeFailures s \<longrightarrow> sql s' = None \<and> clients s' = [] \<and> recycling s' = 1 \<and> probeTimer s' = None \<and>
        (\<forall>payload now. src_do H parse rnd (Notified gen payload now) s' = s' \<and>
                       src_do H parse rnd (Listening gen) s' = s' \<and>
                       src_do H parse rnd (ListenFailed gen) s' = s'))"
proof -
  have ok: "src_ok s" "probes_ok s" using src_run_ok [OF assms(1)] by simp_all
  have "gen \<in> set (listens s)" using ok(2) assms(4) by (auto simp: probes_ok_def)
  with src_okD(1) [OF ok(1) _ assms(3)] have g: "sql s = Some gen" by simp
  have ok': "src_ok s'" unfolding assms(5) by (rule src_ok_probed [OF ok(1)]) fact
  let ?m = "setHealthy H False (s\<lparr>settled := remove1 (gen, False) (settled s), probeFailures := Suc (probeFailures s)\<rparr>)"
  show ?thesis
  proof (cases "probeFailures s = 0")
    case True
    then show ?thesis
      by (simp add: assms(2,3,5) probed_def Let_def scheduleProbe_def)
  next
    case False
    have live: "generation (src_log l m) = gen" "\<not> stopped (src_log l m)" "sql (src_log l m) = Some gen"
      if "m = ?m \<or> m = ?m\<lparr>hintLogged := True\<rparr>" for l m
      using that assms(2,3) g by auto
    have "\<exists>l m. s' = recycle H gen (src_log l m) \<and> (m = ?m \<or> m = ?m\<lparr>hintLogged := True\<rparr>)"
      using False by (auto simp: assms(2,3,5) probed_def Let_def)
    then obtain l m where s': "s' = recycle H gen (src_log l m)" and m: "m = ?m \<or> m = ?m\<lparr>hintLogged := True\<rparr>"
      by blast
    note rl = recycle_live [OF live(1) [OF m, symmetric] live(2) [OF m], of H l, folded s']
    have "recycling s = 0" using ok(1) g by (simp add: src_ok_def)
    then have "recycling s' = 1" using rl(4) m by auto
    moreover have "clients s' = []" using ok' rl(2) by (simp add: src_ok_def)
    ultimately show ?thesis
      using False rl(1,2,3,6) by (simp add: onNotify_def onListening_def listenFailed_def)
  qed
qed


definition demo_missed :: "nat pgSource" where
  "demo_missed =
     probe_done ''v'' False (probe 1 ''v'' (demo_source\<lparr>probeTimer := None\<rparr>))"

lemma demo_missed_run:
  "src_run demo_handlers (\<lambda>_ _. False) demo_probe_json (\<lambda>x. x) PG_DEFAULTS 0
     ((demo_events @ [ProbeFired ''v'']) @ [ProbeTimeout ''v'']) demo_missed"
proof -
  let ?do = "src_do demo_handlers demo_probe_json (\<lambda>x. x)"
  have "src_run demo_handlers (\<lambda>_ _. False) demo_probe_json (\<lambda>x. x) PG_DEFAULTS 0
     ((demo_events @ [ProbeFired ''v'']) @ [ProbeTimeout ''v''])
     (?do (ProbeTimeout ''v'') (?do (ProbeFired ''v'') demo_source))"
    by (rule src_run.event [OF src_run.event [OF demo_source_run]])
      (simp_all add: demo_source_eval probe_def)
  then show ?thesis by (simp add: demo_missed_def demo_source_eval)
qed

theorem probe_misses_rebuild_witness:
  "\<not> pg_healthy (probed demo_handlers 1 False demo_missed) \<and>
   sql (probed demo_handlers 1 False demo_missed) = Some 1"
proof -
  have "\<not> stopped demo_missed" "generation demo_missed = 1" "(1, False) \<in> set (settled demo_missed)"
    "probeFailures demo_missed = 0" "sql demo_missed = Some 1"
    by (simp_all add: demo_missed_def probe_def probe_done_def demo_source_eval)
  then show ?thesis
    using probe_misses_rebuild [OF demo_missed_run, of 1] by simp
qed

text \<open>
  The reconnect delay: each rebuild waits for the doubled backoff, capped at the maximum,
  give or take a quarter and the rounding to a whole millisecond, whatever the random number, and
  the next one waits for the next power; it is armed exactly when the source was not stopped
  while its old client was ending.
\<close>

theorem reconnect_backoff_bounded:
  assumes "double_ok rnd" and "k < 2 ^ 53" and "reconnectMaxMs (pg_opts s) < 2 ^ 50" and "\<not> stopped s"
    and "b = min (reconnectMaxMs (pg_opts s)) (reconnectBaseMs (pg_opts s) * 2 ^ reconnectAttempts s)"
  shows "\<exists>d. reconnectTimer (recycled rnd k s) = Some d \<and> 3 * b \<le> 4 * d + 2 \<and> 4 * d \<le> 5 * b + 2 \<and>
    reconnectAttempts (recycled rnd k s) = Suc (reconnectAttempts s)"
proof -
  have "b < 2 ^ 50" using assms(3,5) by simp
  from jitter_bounds [OF assms(1,2) this] show ?thesis
    using assms(4) by (simp add: recycled_def Let_def backoff_def assms(5))
qed

theorem reconnect_backoff_bounded_witness:
  "\<exists>d. reconnectTimer (recycled (\<lambda>x. x) 7 demo_source) = Some d \<and> 3 * 1000 \<le> 4 * d + 2 \<and> 4 * d \<le> 5 * 1000 + 2"
proof -
  have "\<exists>d. reconnectTimer (recycled (\<lambda>x. x) 7 demo_source) = Some d \<and> 3 * 1000 \<le> 4 * d + 2 \<and>
      4 * d \<le> 5 * 1000 + 2 \<and>
      reconnectAttempts (recycled (\<lambda>x. x) 7 demo_source) = Suc (reconnectAttempts demo_source)"
    by (rule reconnect_backoff_bounded [OF double_ok_id]) (simp_all add: demo_source_eval PG_DEFAULTS_def)
  then show ?thesis by blast
qed

text \<open>
  Stopping is final: in every run, once the source is stopped no event whatever, not even one
  of a client that is still delivering, calls a handler, builds a client, or makes it healthy.
\<close>

theorem stopped_source_is_silent:
  assumes "src_run H own parse rnd os h es s" and "stopped s" and "src_can e s"
  shows "sink (src_do H parse rnd e s) = sink s \<and> stopped (src_do H parse rnd e s) \<and>
    clients (src_do H parse rnd e s) = [] \<and> \<not> pg_healthy (src_do H parse rnd e s)"
proof -
  have ok: "src_ok s" and st: "sql s = None" "reconnectTimer s = None" "clients s = []" "\<not> pg_healthy s"
    using src_run_ok [OF assms(1)] assms(2) by (auto simp: src_ok_def)
  have stale: "gen \<noteq> generation s" if "gen \<in> set (listens s)" for gen
    using src_okD(1) [OF ok that] st(1) by auto
  show ?thesis
    using assms(2,3) st stale
    by (cases e) (auto simp: onListening_def listenFailed_def onNotify_def probe_def probed_def recycled_def
        stop_def Let_def)
qed

theorem stopped_source_is_silent_witness:
  "sink (src_do demo_handlers demo_probe_json (\<lambda>x. x) (Notified 1 ''u'' 9) (stop demo_source)) = 0"
  using stopped_source_is_silent [OF src_run.event [OF demo_source_run, of Stop], of "Notified 1 ''u'' 9"]
  by (simp add: stop_def demo_source_eval)

end
