(* ===== verification/Realtime_System.thy ===== *)
theory Realtime_System
  imports Realtime_Props Pg_Props
begin

text \<open>
  The whole realtime path (\<open>realtime.module.ts\<close>): the gateway as the consumer of the event source,
  and the service that mounts it.  The gateway is an \<open>event_sink\<close>, so whatever the source does it
  shows the source's health, and what its own theory proves of reachable states holds of it.
\<close>

section \<open>The handlers \<open>attach\<close> passes to \<open>source.start\<close>\<close>

definition gateway_handlers :: "ws_lib \<Rightarrow> gateway sourceHandlers" where
  "gateway_handlers L = \<lparr>
     onCallChanged = (\<lambda>e g. (route L e g, None)),
     onResync = (\<lambda>g. (broadcast L Resync g, None)),
     onHealthChange = (\<lambda>h g. (onHealth L h g, None))\<rparr>"

text \<open>
  The moves of the gateway by itself: every step that is not one of the three handlers leaves its
  \<open>healthy\<close> flag alone.
\<close>

definition gateway_own :: "ws_lib \<Rightarrow> (string \<Rightarrow> json option) \<Rightarrow> verifier \<Rightarrow> gateway \<Rightarrow> gateway \<Rightarrow> bool" where
  "gateway_own L jparse V g g' \<longleftrightarrow> gw_step L jparse V g g' \<and> gw_healthy g' = gw_healthy g"

lemma onHealth_healthy: "ws_ok L \<Longrightarrow> gw_healthy (onHealth L b g) = b"
  using shut_closeAll [of L] by (auto simp: onHealth_def shut_def Let_def)

interpretation gateway_sink: event_sink "gateway_handlers L" "gateway_own L jparse (verify jose)"
    "\<lambda>g. ws_ok L \<and> gw_reach L jparse (verify jose) os g" gw_healthy for L jparse jose os
proof (unfold_locales, goal_cases)
  case (1 g e)
  then show ?case by (auto simp: gateway_handlers_def intro: gw_reach.step gw_step.call_changed)
next
  case (2 g)
  then show ?case by (auto simp: gateway_handlers_def intro: gw_reach.step gw_step.resync)
next
  case (3 g b)
  then show ?case by (auto simp: gateway_handlers_def intro: gw_reach.step gw_step.health)
next
  case (4 g g')
  then show ?case by (auto simp: gateway_own_def intro: gw_reach.step)
next
  case (5 g e)
  then show ?case using shut_route [of L g e] by (simp add: gateway_handlers_def shut_def)
next
  case (6 g)
  then show ?case using shut_broadcast [of L g Resync] by (simp add: gateway_handlers_def shut_def)
next
  case (7 g b)
  then show ?case using onHealth_healthy [of L b g] by (simp add: gateway_handlers_def)
next
  case (8 g g')
  then show ?case by (simp add: gateway_own_def)
qed

section \<open>The service\<close>

text \<open>
  \<open>RealtimeService\<close>: without an HTTP server the gateway is never built; \<open>REALTIME_ENABLED\<close>
  defaults to \<open>true\<close>.  \<open>ConfigService.get\<close> gives the booleans that \<open>env.ts\<close> produced.
\<close>

record realtimeService =
  svc_gateway :: "gateway option"
  statsTimer :: bool

definition onApplicationBootstrap :: "bool \<Rightarrow> (string \<Rightarrow> bool option) \<Rightarrow> realtimeService" where
  "onApplicationBootstrap server config =
     (if \<not> server then \<lparr>svc_gateway = None, statsTimer = False\<rparr>
      else let en = (case config ''REALTIME_ENABLED'' of None \<Rightarrow> True | Some b \<Rightarrow> b)
           in \<lparr>svc_gateway = Some (attach (new_gateway DEFAULT_REALTIME_OPTIONS en)), statsTimer = en\<rparr>)"

definition onModuleDestroy :: "ws_lib \<Rightarrow> realtimeService \<Rightarrow> realtimeService" where
  "onModuleDestroy L s =
     \<lparr>svc_gateway = map_option (destroy L) (svc_gateway s), statsTimer = False\<rparr>"

text \<open>\<open>health\<close>: enabled and healthy.\<close>

definition health :: "realtimeService \<Rightarrow> bool \<times> bool" where
  "health s = (case svc_gateway s of None \<Rightarrow> (False, False) | Some g \<Rightarrow> (enabled g, gw_healthy g))"

text \<open>The connection string of the source: \<open>DATABASE_URL_LISTEN\<close>, or else \<open>DATABASE_URL\<close>.\<close>

definition source_url :: "(string \<Rightarrow> string option) \<Rightarrow> string option" where
  "source_url config =
     (case config ''DATABASE_URL_LISTEN'' of None \<Rightarrow> config ''DATABASE_URL'' | Some u \<Rightarrow> Some u)"

section \<open>The composite system\<close>

text \<open>A run of the mounted realtime path, started by the service with realtime enabled.\<close>

abbreviation system_run ::
  "ws_lib \<Rightarrow> (string \<Rightarrow> json option) \<Rightarrow> jose \<Rightarrow> (rat \<Rightarrow> rat) \<Rightarrow> pgOptions \<Rightarrow> realtimeOptions \<Rightarrow>
   src_event list \<Rightarrow> gateway pgSource \<Rightarrow> bool" where
  "system_run L jparse jose rnd pos os \<equiv>
     src_run (gateway_handlers L) (gateway_own L jparse (verify jose)) jparse rnd pos
       (attach (new_gateway os True))"

lemma system_mirrors:
  assumes "ws_ok L" and "system_run L jparse jose rnd pos os es s"
  shows "gw_reach L jparse (verify jose) os (sink s)"
    and "\<not> stopped s \<Longrightarrow> gw_healthy (sink s) = pg_healthy s"
proof -
  have init: "gw_reach L jparse (verify jose) os (attach (new_gateway os True))" by (rule gw_reach.init)
  have "\<not> gw_healthy (attach (new_gateway os True))"
    by (simp add: attach_def new_gateway_def effect_def Let_def)
  from gateway_sink.src_run_mirrors [OF conjI [OF assms(1) init] this assms(2)]
  show "gw_reach L jparse (verify jose) os (sink s)"
    and "\<not> stopped s \<Longrightarrow> gw_healthy (sink s) = pg_healthy s"
    by (simp_all add: gateway_sink.mirrors_def)
qed

lemma system_parties_eq:
  "parties e = (if ev_partnerId e = ev_fanId e then [ev_fanId e] else [ev_fanId e, ev_partnerId e])"
  by (auto simp: parties_def set_add_def)

section \<open>A concrete run\<close>

definition demo_row :: callRow where
  "demo_row = \<lparr>cr_id = ''c'', cr_booking_id = ''b'', cr_fan_id = ''fan'', cr_partner_id = ''ptn'',
     cr_attempt_status = ''ENDED'', cr_ended_by_role = Some ''PARTNER''\<rparr>"

definition system_parse :: "string \<Rightarrow> json option" where
  "system_parse s =
     (if s = ''u'' then demo_probe_json s else if s = ''row'' then Some (notify_call_event demo_row)
      else demo_parse s)"

text \<open>The boot probe comes back, then a socket is opened and authenticates as \<open>fan\<close>.\<close>

definition demo_proven :: "gateway pgSource" where
  "demo_proven =
     (let H = gateway_handlers ws_std in
      probed H 1 True (onNotify H system_parse 1 ''u'' 0
        (probe 1 ''u'' ((onListening H 1 (start None (new_source PG_DEFAULTS
           (attach (new_gateway DEFAULT_REALTIME_OPTIONS True)))))\<lparr>probeTimer := None\<rparr>))))"

definition demo_system :: "gateway pgSource" where
  "demo_system = demo_proven\<lparr>sink :=
     resume ws_std (verify demo_jose) 0 ''fan'' 30
       (onMessage ws_std system_parse 0 ''fan'' False 20
         (onUpgrade (Some REALTIME_PATH) 1 True 10 (sink demo_proven)))\<rparr>"

lemmas sys_eval = gw_eval src_eval gateway_handlers_def system_parse_def demo_proven_def demo_row_def

lemma demo_proven_eval:
  "sink demo_proven = onHealth ws_std True (attach (new_gateway DEFAULT_REALTIME_OPTIONS True))"
  "generation demo_proven = 1" "pg_healthy demo_proven" "\<not> stopped demo_proven" "everListened demo_proven"
  "listens demo_proven = [1]"
  by (simp_all add: sys_eval)

lemma demo_proven_run:
  "system_run ws_std system_parse demo_jose (\<lambda>x. x) PG_DEFAULTS DEFAULT_REALTIME_OPTIONS demo_events demo_proven"
proof -
  let ?R = "system_run ws_std system_parse demo_jose (\<lambda>x. x) PG_DEFAULTS DEFAULT_REALTIME_OPTIONS"
  let ?do = "src_do (gateway_handlers ws_std) system_parse (\<lambda>x. x)"
  let ?s0 = "start None (new_source PG_DEFAULTS (attach (new_gateway DEFAULT_REALTIME_OPTIONS True)))"
  let ?s1 = "?do (Listening 1) ?s0"
  let ?s2 = "?do (ProbeFired ''u'') ?s1"
  let ?s3 = "?do (Notified 1 ''u'' 0) ?s2"
  have "?R [] ?s0" by (rule src_run.started)
  then have "?R ([] @ [Listening 1]) ?s1" by (rule src_run.event) (simp add: sys_eval)
  then have "?R (([] @ [Listening 1]) @ [ProbeFired ''u'']) ?s2" by (rule src_run.event) (simp add: sys_eval)
  then have "?R ((([] @ [Listening 1]) @ [ProbeFired ''u'']) @ [Notified 1 ''u'' 0]) ?s3"
    by (rule src_run.event) (simp add: sys_eval)
  then have "?R (((([] @ [Listening 1]) @ [ProbeFired ''u'']) @ [Notified 1 ''u'' 0]) @ [Probed 1 True])
      (?do (Probed 1 True) ?s3)"
    by (rule src_run.event) (simp add: sys_eval)
  moreover have "?do (Probed 1 True) ?s3 = demo_proven" by (simp add: sys_eval)
  ultimately show ?thesis by (simp add: demo_events_def)
qed

lemma consumer_again:
  "src_run H own jparse rnd pos h es (s\<lparr>sink := g\<rparr>) \<Longrightarrow> own g g' \<Longrightarrow>
   src_run H own jparse rnd pos h es (s\<lparr>sink := g'\<rparr>)"
  using src_run.consumer [of H own jparse rnd pos h es "s\<lparr>sink := g\<rparr>" g'] by simp

lemma demo_system_run:
  "system_run ws_std system_parse demo_jose (\<lambda>x. x) PG_DEFAULTS DEFAULT_REALTIME_OPTIONS demo_events demo_system"
proof -
  let ?R = "system_run ws_std system_parse demo_jose (\<lambda>x. x) PG_DEFAULTS DEFAULT_REALTIME_OPTIONS demo_events"
  let ?g = "onUpgrade (Some REALTIME_PATH) 1 True 10 (sink demo_proven)"
  let ?m = "onMessage ws_std system_parse 0 ''fan'' False 20 ?g"
  let ?own = "gateway_own ws_std system_parse (verify demo_jose)"
  have "?own (sink demo_proven) ?g" unfolding gateway_own_def demo_proven_eval
    by (intro conjI gw_step.upgrade) (simp_all add: gw_eval)
  then have "?R (demo_proven\<lparr>sink := ?g\<rparr>)" by (rule src_run.consumer [OF demo_proven_run])
  moreover have "?own ?g ?m" unfolding gateway_own_def demo_proven_eval
    by (intro conjI gw_step.message) (simp_all add: gw_eval system_parse_def)
  ultimately have "?R (demo_proven\<lparr>sink := ?m\<rparr>)" by (rule consumer_again)
  moreover have "?own ?m (resume ws_std (verify demo_jose) 0 ''fan'' 30 ?m)"
    unfolding gateway_own_def demo_proven_eval
    by (intro conjI gw_step.resumed) (simp_all add: gw_eval system_parse_def)
  ultimately have "?R (demo_proven\<lparr>sink := resume ws_std (verify demo_jose) 0 ''fan'' 30 ?m\<rparr>)"
    by (rule consumer_again)
  then show ?thesis by (simp add: demo_system_def)
qed

lemma demo_system_eval:
  "\<not> stopped demo_system" "generation demo_system = 1" "pg_healthy demo_system" "everListened demo_system"
  "nconns (sink demo_system) = 1"
  "conns (sink demo_system) 0 = \<lparr>readyState = WsOpen, bufferedAmount = 0, userId = Some ''fan'',
     expiresAtMs = 100000, lastSeenMs = 20, authTimer = False, verifying = False, conn_closed = False\<rparr>"
  "framesTo 0 (trail (sink demo_system)) = [Ready 1 25000]"
  by (simp_all add: demo_system_def demo_proven_eval) (simp_all add: gw_eval system_parse_def)

section \<open>Properties\<close>

text \<open>
  C6. A connected client is one that will receive events: in every run of the realtime path, until
  the source is stopped, the gateway's health is the source's, so a socket is only ever open while
  a probe of the current LISTEN connection has come back.
\<close>

theorem open_socket_implies_proven_source:
  assumes "ws_ok L" and "1 \<le> maxPerUser os" and "system_run L jparse jose rnd pos os es s"
    and "\<not> stopped s"
  shows "gw_healthy (sink s) = pg_healthy s \<and>
    (\<forall>c < nconns (sink s). readyState (conns (sink s) c) = WsOpen \<longrightarrow>
       (\<exists>i payload now. ProbeFired i \<in> set es \<and> Notified (generation s) payload now \<in> set es \<and>
                        parseNotification jparse payload = Some (Probe i)))"
proof -
  note m = system_mirrors [OF assms(1,3)]
  have "health_ok (sink s)" using jwt.gw_inv_reach [OF assms(1,2) m(1)] by (simp add: gw_inv_def)
  moreover have "pg_healthy s \<longrightarrow> heard jparse es (generation s)"
    using src_run_hist [OF assms(3)] by (simp add: hist_inv_def)
  ultimately show ?thesis
    using m(2) [OF assms(4)] by (auto simp: health_ok_def heard_def)
qed

theorem open_socket_implies_proven_source_witness:
  "gw_healthy (sink demo_system) \<and> (\<exists>payload now. Notified 1 payload now \<in> set demo_events)"
  using open_socket_implies_proven_source [OF ws_std_ok _ demo_system_run]
  by (auto simp: demo_system_eval DEFAULT_REALTIME_OPTIONS_def)

text \<open>
  C7. From the row to the socket: in every run of the realtime path, when the current listener is
  handed the payload the database trigger wrote for a row of \<open>calls\<close>, every open socket of the
  fan and of the partner of that row that is not backed up gets exactly one frame with the row's
  ids and status, and no other connection gets anything.
\<close>

theorem row_change_reaches_both_parties:
  assumes "ws_ok L" and "1 \<le> maxPerUser os" and "system_run L jparse jose rnd pos os es s"
    and "jparse payload = Some (notify_call_event r)"
    and "[] \<notin> {cr_id r, cr_booking_id r, cr_fan_id r, cr_partner_id r, cr_attempt_status r}"
    and "c < nconns (sink s)"
    and "s' = src_do (gateway_handlers L) jparse rnd (Notified (generation s) payload now) s"
  shows "framesTo c (trail (sink s')) = framesTo c (trail (sink s)) @
    (if readyState (conns (sink s) c) = WsOpen \<and>
        bufferedAmount (conns (sink s) c) \<le> maxBufferedBytes os \<and>
        userId (conns (sink s) c) \<in> {Some (cr_fan_id r), Some (cr_partner_id r)}
     then [CallChanged \<lparr>msg_callId = cr_id r, msg_bookingId = cr_booking_id r,
             msg_status = cr_attempt_status r,
             msg_endedByRole = role_of (map_option JStr (cr_ended_by_role r))\<rparr>] else [])"
proof -
  note m = system_mirrors(1) [OF assms(1,3)]
  let ?e = "\<lparr>msg_callId = cr_id r, msg_bookingId = cr_booking_id r, msg_status = cr_attempt_status r,
     msg_endedByRole = role_of (map_option JStr (cr_ended_by_role r)),
     ev_fanId = cr_fan_id r, ev_partnerId = cr_partner_id r\<rparr>"
  have "parseNotification jparse payload = Some (Call ?e)"
    using assms(4,5) by (cases "cr_ended_by_role r")
      (auto simp: parseNotification_def notify_call_event_def nonEmpty_def str_of_def)
  then have "sink s' = route L ?e (sink s)"
    by (simp add: assms(7) onNotify_def gateway_handlers_def)
  with route_frames [OF jwt.gw_inv_reach [OF assms(1,2) m] assms(6), of L ?e]
  show ?thesis
    by (simp add: jwt.reach_opts [OF assms(1,2) m] can_receive_def callChangedOf_def)
qed

theorem row_change_reaches_both_parties_witness:
  "framesTo 0 (trail (sink (src_do (gateway_handlers ws_std) system_parse (\<lambda>x. x)
       (Notified (generation demo_system) ''row'' 5) demo_system))) =
     [Ready 1 25000, CallChanged \<lparr>msg_callId = ''c'', msg_bookingId = ''b'', msg_status = ''ENDED'',
        msg_endedByRole = Some PARTNER\<rparr>]"
  using row_change_reaches_both_parties [OF ws_std_ok _ demo_system_run, of "''row''" demo_row 0 _ 5]
  by (simp add: demo_system_eval DEFAULT_REALTIME_OPTIONS_def system_parse_def demo_row_def)

text \<open>
  Nothing is lost silently: whenever a client of the source listens again after an earlier
  one had listened, every open authenticated socket that is not backed up is told to resync,
  exactly once, and a new probe is scheduled at once.
\<close>

theorem relisten_resyncs_everyone:
  assumes "ws_ok L" and "1 \<le> maxPerUser os" and "system_run L jparse jose rnd pos os es s"
    and "\<not> stopped s" and "everListened s" and "c < nconns (sink s)"
    and "s' = src_do (gateway_handlers L) jparse rnd (Listening (generation s)) s"
  shows "framesTo c (trail (sink s')) = framesTo c (trail (sink s)) @
    (if readyState (conns (sink s) c) = WsOpen \<and>
        bufferedAmount (conns (sink s) c) \<le> maxBufferedBytes os \<and> userId (conns (sink s) c) \<noteq> None
     then [Resync] else []) \<and>
    probeTimer s' = Some (generation s, 0)"
proof -
  note m = system_mirrors(1) [OF assms(1,3)]
  have "sink s' = broadcast L Resync (sink s)" "probeTimer s' = Some (generation s, 0)"
    using assms(4,5) by (simp_all add: assms(7) onListening_def scheduleProbe_def gateway_handlers_def Let_def)
  with broadcast_frames [OF jwt.gw_inv_reach [OF assms(1,2) m] assms(6), of L Resync]
  show ?thesis by (simp add: jwt.reach_opts [OF assms(1,2) m] can_receive_def)
qed

theorem relisten_resyncs_everyone_witness:
  "framesTo 0 (trail (sink (src_do (gateway_handlers ws_std) system_parse (\<lambda>x. x)
       (Listening (generation demo_system)) demo_system))) = [Ready 1 25000, Resync]"
  using relisten_resyncs_everyone [OF ws_std_ok _ demo_system_run, of 0]
  by (simp add: demo_system_eval DEFAULT_REALTIME_OPTIONS_def)

end
