(* ===== verification/Db.thy ===== *)
theory Db
  imports Prelude
begin

text \<open>
  \<open>src/db/database.service.ts\<close> and \<open>src/db/database.module.ts\<close>: every unit of work is a
  transaction that first sets its identity.

  A transaction body is a function of the session settings and of the transaction state, giving
  an exception or a value (\<open>txm\<close>).  A statement that fails leaves the transaction aborted: every
  later statement fails too and nothing can be committed, whatever the body does with the
  rejection; that is Postgres.  Whether the driver then rejects the whole transaction with the
  first error or resolves it is the driver's choice (\<open>drv_rethrow\<close>).  Effects outside the
  database (calls of other services) go to a log that no rollback undoes.
\<close>

section \<open>Exceptions\<close>

datatype exn =
    BadRequest json
  | Forbidden json
  | NotFound json
  | Unauthorized json
  | Unavailable json
  | PgError string
  | JsError string

text \<open>\<open>new BadRequestException('CODE')\<close>.\<close>

definition bad_request :: "string \<Rightarrow> exn" where
  "bad_request code = BadRequest (JStr code)"

section \<open>Sessions, transactions, the world\<close>

record session =
  app_user_id :: "string option"
  app_is_service_role :: bool
  sess_now :: int
  drv_rethrow :: bool

datatype ext = Ext string "string list"

record 'd txs =
  tx_db :: 'd
  tx_err :: "exn option"
  tx_log :: "ext list"

record 'd world =
  w_db :: 'd
  w_log :: "ext list"

type_synonym ('d, 'a) txm = "session \<Rightarrow> 'd txs \<Rightarrow> (exn + 'a) \<times> 'd txs"
type_synonym ('d, 'a) act = "'d world \<Rightarrow> (exn + 'a) \<times> 'd world"
type_synonym ('d, 'a) stmt = "session \<Rightarrow> 'd \<Rightarrow> string + ('a \<times> 'd)"

section \<open>Transaction bodies\<close>

definition tx_return :: "'a \<Rightarrow> ('d, 'a) txm" where
  "tx_return a s t = (Inr a, t)"

definition tx_throw :: "exn \<Rightarrow> ('d, 'a) txm" where
  "tx_throw e s t = (Inl e, t)"

definition tx_bind :: "('d, 'a) txm \<Rightarrow> ('a \<Rightarrow> ('d, 'b) txm) \<Rightarrow> ('d, 'b) txm" where
  "tx_bind m f s t = (case m s t of (Inl e, t') \<Rightarrow> (Inl e, t') | (Inr a, t') \<Rightarrow> f a s t')"

text \<open>\<open>try\<close>/\<open>catch\<close> and \<open>.catch(...)\<close>.\<close>

definition tx_catch :: "('d, 'a) txm \<Rightarrow> (exn \<Rightarrow> ('d, 'a) txm) \<Rightarrow> ('d, 'a) txm" where
  "tx_catch m h s t = (case m s t of (Inl e, t') \<Rightarrow> h e s t' | (Inr a, t') \<Rightarrow> (Inr a, t'))"

text \<open>\<open>await tx.execute(stmt)\<close>.\<close>

definition execute :: "('d, 'a) stmt \<Rightarrow> ('d, 'a) txm" where
  "execute st s t =
     (if tx_err t \<noteq> None
      then (Inl (PgError ''25P02 current transaction is aborted''), t)
      else case st s (tx_db t) of
             Inl msg \<Rightarrow> (Inl (PgError msg), t\<lparr>tx_err := Some (PgError msg)\<rparr>)
           | Inr (a, d) \<Rightarrow> (Inr a, t\<lparr>tx_db := d\<rparr>))"

text \<open>A call of another service from inside the transaction.\<close>

definition tx_call :: "ext \<Rightarrow> exn + 'a \<Rightarrow> ('d, 'a) txm" where
  "tx_call x r s t = (r, t\<lparr>tx_log := tx_log t @ [x]\<rparr>)"

lemmas tx_defs = tx_return_def tx_throw_def tx_bind_def tx_catch_def execute_def tx_call_def

section \<open>Running one\<close>

text \<open>\<open>db.transaction\<close>: commit if the body resolves and no statement failed, else roll back.\<close>

definition transaction :: "session \<Rightarrow> ('d, 'a) txm \<Rightarrow> ('d, 'a) act" where
  "transaction s m w =
     (case m s \<lparr>tx_db = w_db w, tx_err = None, tx_log = w_log w\<rparr> of
        (Inl e, t) \<Rightarrow> (Inl e, w\<lparr>w_log := tx_log t\<rparr>)
      | (Inr a, t) \<Rightarrow>
          (case tx_err t of
             None \<Rightarrow> (Inr a, \<lparr>w_db = tx_db t, w_log = tx_log t\<rparr>)
           | Some e \<Rightarrow> (if drv_rethrow s then Inl e else Inr a, w\<lparr>w_log := tx_log t\<rparr>)))"

text \<open>
  The three runners; \<open>set_config(..., true)\<close> is local to the transaction, so the settings are
  those of the base session with one changed.  Without one a setting is empty.
\<close>

definition runAs :: "session \<Rightarrow> string \<Rightarrow> ('d, 'a) txm \<Rightarrow> ('d, 'a) act" where
  "runAs base userId fn = transaction (base\<lparr>app_user_id := Some userId\<rparr>) fn"

definition runAnon :: "session \<Rightarrow> ('d, 'a) txm \<Rightarrow> ('d, 'a) act" where
  "runAnon base fn = transaction (base\<lparr>app_user_id := Some []\<rparr>) fn"

definition runAsService :: "session \<Rightarrow> ('d, 'a) txm \<Rightarrow> ('d, 'a) act" where
  "runAsService base fn = transaction (base\<lparr>app_is_service_role := True\<rparr>) fn"

text \<open>\<open>{ error: result.error ?? 'RPC_FAILED', ...result }\<close>.\<close>

definition rpc_error :: "json \<Rightarrow> json" where
  "rpc_error r =
     (let err = (case jget r ''error'' of None \<Rightarrow> JStr ''RPC_FAILED'' | Some JNull \<Rightarrow> JStr ''RPC_FAILED''
                 | Some v \<Rightarrow> v);
          kvs = (case r of JObj kvs \<Rightarrow> kvs | _ \<Rightarrow> [])
      in JObj (AList.merge [(''error'', err)] kvs))"

text \<open>\<open>rpc\<close>: \<open>call\<close> is the statement \<open>select public.<name>(<args>) as result\<close>.\<close>

definition rpc :: "('d, json) stmt \<Rightarrow> ('d, json) txm" where
  "rpc call = tx_bind (execute call)
     (\<lambda>r. if jget r ''success'' = Some (JBool False) then tx_throw (BadRequest (rpc_error r))
          else tx_return r)"

section \<open>Waiting for the database at boot\<close>

text \<open>
  \<open>waitForDatabase\<close>: \<open>up k\<close> is the outcome of the \<open>k\<close>-th round trip, \<open>None\<close> for success.
  The result is the exception it rethrows, if any, with the number of attempts and the delays
  slept.
\<close>

definition maxAttempts :: nat where
  "maxAttempts = 6"

function wait_loop ::
  "(nat \<Rightarrow> exn option) \<Rightarrow> nat \<Rightarrow> nat \<Rightarrow> nat list \<Rightarrow> exn option \<times> nat \<times> nat list" where
  "wait_loop up attempt delayMs slept =
     (if attempt > maxAttempts then (None, attempt - 1, slept)
      else case up attempt of
             None \<Rightarrow> (None, attempt, slept)
           | Some e \<Rightarrow>
               if attempt = maxAttempts then (Some e, attempt, slept)
               else wait_loop up (Suc attempt) (min (delayMs * 2) 30000) (slept @ [delayMs]))"
  by pat_completeness auto
termination by (relation "measure (\<lambda>(up, attempt, delayMs, slept). Suc maxAttempts - attempt)") auto

declare wait_loop.simps [simp del]

definition waitForDatabase :: "(nat \<Rightarrow> exn option) \<Rightarrow> exn option \<times> nat \<times> nat list" where
  "waitForDatabase up = wait_loop up 1 1000 []"

text \<open>The factory of \<open>DatabaseModule\<close>: \<open>Inr url\<close> is the service, connected.\<close>

definition databaseFactory :: "(string \<Rightarrow> string option) \<Rightarrow> (nat \<Rightarrow> exn option) \<Rightarrow> exn + string" where
  "databaseFactory config up =
     (let databaseUrl = config ''DATABASE_URL'' in
      if \<not> truthy_str databaseUrl then Inl (JsError ''DATABASE_URL environment variable is required'')
      else case fst (waitForDatabase up) of
             Some e \<Rightarrow> Inl e
           | None \<Rightarrow> Inr (the databaseUrl))"

section \<open>What a body may do\<close>

text \<open>\<open>keeps I m\<close>: no step of the body breaks the database invariant \<open>I\<close>.\<close>

definition keeps :: "('d \<Rightarrow> bool) \<Rightarrow> ('d, 'a) txm \<Rightarrow> bool" where
  "keeps I m \<longleftrightarrow> (\<forall>(s :: session) (t :: 'd txs). I (tx_db t) \<longrightarrow> I (tx_db (snd (m s t))))"

lemma keeps_return [intro, simp]: "keeps I (tx_return a)"
  by (simp add: keeps_def tx_return_def)

lemma keeps_throw [intro, simp]: "keeps I (tx_throw e)"
  by (simp add: keeps_def tx_throw_def)

lemma keeps_call [intro, simp]: "keeps I (tx_call x r)"
  by (simp add: keeps_def tx_call_def)

lemma keeps_bind [intro]:
  fixes m :: "('d, 'a) txm" and f :: "'a \<Rightarrow> ('d, 'b) txm"
  assumes "keeps I m" and "\<And>a. keeps I (f a)"
  shows "keeps I (tx_bind m f)"
  unfolding keeps_def tx_bind_def
proof (intro allI impI)
  fix s :: session and t :: "'d txs" assume "I (tx_db t)"
  then have i: "I (tx_db (snd (m s t)))" using assms(1) by (simp add: keeps_def)
  show "I (tx_db (snd (case m s t of (Inl e, t') \<Rightarrow> (Inl e, t') | (Inr a, t') \<Rightarrow> f a s t')))"
    using i assms(2) by (auto simp: keeps_def split: prod.split sum.split)
qed

lemma keeps_catch [intro]:
  fixes m :: "('d, 'a) txm"
  assumes "keeps I m" and "\<And>e. keeps I (h e)"
  shows "keeps I (tx_catch m h)"
  unfolding keeps_def tx_catch_def
proof (intro allI impI)
  fix s :: session and t :: "'d txs" assume "I (tx_db t)"
  then have i: "I (tx_db (snd (m s t)))" using assms(1) by (simp add: keeps_def)
  show "I (tx_db (snd (case m s t of (Inl e, t') \<Rightarrow> h e s t' | (Inr a, t') \<Rightarrow> (Inr a, t'))))"
    using i assms(2) by (auto simp: keeps_def split: prod.split sum.split)
qed

lemma keeps_execute:
  assumes "\<And>s d a d'. I d \<Longrightarrow> st s d = Inr (a, d') \<Longrightarrow> I d'"
  shows "keeps I (execute st)"
  using assms by (auto simp: keeps_def execute_def split: sum.split)

lemma keeps_if [intro]: "keeps I m \<Longrightarrow> keeps I n \<Longrightarrow> keeps I (if b then m else n)"
  by simp

lemma keeps_rpc:
  assumes "\<And>s d a d'. I d \<Longrightarrow> call s d = Inr (a, d') \<Longrightarrow> I d'"
  shows "keeps I (rpc call)"
  unfolding rpc_def by (intro keeps_bind keeps_execute keeps_if keeps_return keeps_throw) (rule assms)

section \<open>The contract of a runner\<close>

text \<open>
  What the services rely on: a rejected run changes nothing in the database, and a run that
  changes something is the whole body, resolved, with no failed statement.
\<close>

locale tx_runner =
  fixes run :: "('d, 'a) txm \<Rightarrow> ('d, 'a) act"
    and sess :: session
  assumes reject_rolls_back: "run m w = (Inl e, w') \<Longrightarrow> w_db w' = w_db w"
    and all_or_nothing: "run m w = (r, w') \<Longrightarrow> w_db w' = w_db w \<or>
      (\<exists>a t. m sess \<lparr>tx_db = w_db w, tx_err = None, tx_log = w_log w\<rparr> = (Inr a, t) \<and>
             r = Inr a \<and> w_db w' = tx_db t \<and> tx_err t = None)"

context tx_runner
begin

lemma run_keeps: "keeps I m \<Longrightarrow> I (w_db w) \<Longrightarrow> I (w_db (snd (run m w)))"
proof -
  assume k: "keeps I m" and i: "I (w_db w)"
  obtain r w' where r: "run m w = (r, w')" by (cases "run m w")
  let ?t = "\<lparr>tx_db = w_db w, tx_err = None, tx_log = w_log w\<rparr>"
  have "I (tx_db ?t)" using i by simp
  then have "I (tx_db (snd (m sess ?t)))" using k unfolding keeps_def by blast
  with all_or_nothing [OF r] i r show ?thesis by auto
qed

lemma run_change:
  "w_db (snd (run m w)) \<noteq> w_db w \<Longrightarrow>
   \<exists>a t. m sess \<lparr>tx_db = w_db w, tx_err = None, tx_log = w_log w\<rparr> = (Inr a, t) \<and>
         fst (run m w) = Inr a \<and> w_db (snd (run m w)) = tx_db t \<and> tx_err t = None"
  using all_or_nothing [of m w "fst (run m w)" "snd (run m w)"] by auto

end

lemma transaction_runner: "tx_runner (transaction s) s"
  by unfold_locales (auto simp: transaction_def split: sum.splits option.splits prod.splits if_splits)

interpretation as_user: tx_runner "runAs base u" "base\<lparr>app_user_id := Some u\<rparr>" for base u
  using transaction_runner by (simp add: runAs_def [abs_def])

interpretation as_anon: tx_runner "runAnon base" "base\<lparr>app_user_id := Some []\<rparr>" for base
  using transaction_runner by (simp add: runAnon_def [abs_def])

interpretation as_service: tx_runner "runAsService base" "base\<lparr>app_is_service_role := True\<rparr>" for base
  using transaction_runner by (simp add: runAsService_def [abs_def])

section \<open>Aborted transactions\<close>

text \<open>
  A body made of statements, calls, \<open>await\<close> and \<open>catch\<close> cannot get out of an aborted
  transaction.
\<close>

definition stuck_when_aborted :: "('d, 'a) txm \<Rightarrow> bool" where
  "stuck_when_aborted m \<longleftrightarrow>
     (\<forall>(s :: session) (t :: 'd txs). tx_err t \<noteq> None \<longrightarrow> tx_err (snd (m s t)) = tx_err t)"

lemma stuck_return [intro, simp]: "stuck_when_aborted (tx_return a)"
  by (simp add: stuck_when_aborted_def tx_return_def)

lemma stuck_throw [intro, simp]: "stuck_when_aborted (tx_throw e)"
  by (simp add: stuck_when_aborted_def tx_throw_def)

lemma stuck_call [intro, simp]: "stuck_when_aborted (tx_call x r)"
  by (simp add: stuck_when_aborted_def tx_call_def)

lemma stuck_execute [intro, simp]: "stuck_when_aborted (execute st)"
  by (simp add: stuck_when_aborted_def execute_def)

lemma stuck_bind [intro]:
  fixes m :: "('d, 'a) txm" and f :: "'a \<Rightarrow> ('d, 'b) txm"
  assumes "stuck_when_aborted m" and "\<And>a. stuck_when_aborted (f a)"
  shows "stuck_when_aborted (tx_bind m f)"
  unfolding stuck_when_aborted_def tx_bind_def
proof (intro allI impI)
  fix s :: session and t :: "'d txs" assume e: "tx_err t \<noteq> None"
  then have i: "tx_err (snd (m s t)) = tx_err t" using assms(1) by (simp add: stuck_when_aborted_def)
  show "tx_err (snd (case m s t of (Inl e, t') \<Rightarrow> (Inl e, t') | (Inr a, t') \<Rightarrow> f a s t')) = tx_err t"
    using i e assms(2) by (auto simp: stuck_when_aborted_def split: prod.split sum.split)
qed

lemma stuck_catch [intro]:
  fixes m :: "('d, 'a) txm"
  assumes "stuck_when_aborted m" and "\<And>e. stuck_when_aborted (h e)"
  shows "stuck_when_aborted (tx_catch m h)"
  unfolding stuck_when_aborted_def tx_catch_def
proof (intro allI impI)
  fix s :: session and t :: "'d txs" assume e: "tx_err t \<noteq> None"
  then have i: "tx_err (snd (m s t)) = tx_err t" using assms(1) by (simp add: stuck_when_aborted_def)
  show "tx_err (snd (case m s t of (Inl e, t') \<Rightarrow> h e s t' | (Inr a, t') \<Rightarrow> (Inr a, t'))) = tx_err t"
    using i e assms(2) by (auto simp: stuck_when_aborted_def split: prod.split sum.split)
qed

lemma stuck_rpc [intro]: "stuck_when_aborted (rpc call)"
  unfolding rpc_def by (intro stuck_bind) auto

section \<open>The waiting loop\<close>

lemma wait_loop_eq:
  assumes "attempt \<le> 6" and "1 \<le> attempt"
    and "\<forall>k. 1 \<le> k \<and> k < attempt \<longrightarrow> up k \<noteq> None"
    and "slept = take (attempt - 1) [1000, 2000, 4000, 8000, 16000]" and "delayMs = min (1000 * 2 ^ (attempt - 1)) 30000"
  shows "\<exists>n. wait_loop up attempt delayMs slept = (up n, n, take (n - 1) [1000, 2000, 4000, 8000, 16000]) \<and>
     1 \<le> n \<and> n \<le> 6 \<and> (\<forall>k. 1 \<le> k \<and> k < n \<longrightarrow> up k \<noteq> None) \<and> (up n = None \<or> n = 6)"
  using assms
proof (induction "6 - attempt" arbitrary: attempt delayMs slept)
  case 0
  then have "attempt = 6" by simp
  with 0 show ?case
    by (intro exI [of _ 6]) (simp add: wait_loop.simps [of up 6] maxAttempts_def split: option.split)
next
  case (Suc k)
  then have a: "attempt < 6" by simp
  show ?case
  proof (cases "up attempt")
    case None
    with Suc.prems a show ?thesis
      by (intro exI [of _ attempt]) (simp add: wait_loop.simps [of up attempt] maxAttempts_def)
  next
    case (Some e)
    have st: "wait_loop up attempt delayMs slept =
        wait_loop up (Suc attempt) (min (delayMs * 2) 30000) (slept @ [delayMs])"
      using Some a by (simp add: wait_loop.simps [of up attempt] maxAttempts_def)
    have range: "attempt \<in> {1, 2, 3, 4, 5}" using a Suc.prems(2) by auto
    have "k = 6 - Suc attempt" using Suc.hyps(2) by simp
    moreover have "Suc attempt \<le> 6" "1 \<le> Suc attempt" using a by simp_all
    moreover have "\<forall>j. 1 \<le> j \<and> j < Suc attempt \<longrightarrow> up j \<noteq> None"
      using Suc.prems(3) Some by (auto simp: less_Suc_eq)
    moreover have "slept @ [delayMs] = take (Suc attempt - 1) [1000, 2000, 4000, 8000, 16000]"
      using range unfolding Suc.prems(4,5) by auto
    moreover have "min (delayMs * 2) 30000 = min (1000 * 2 ^ (Suc attempt - 1)) (30000 :: nat)"
      using range unfolding Suc.prems(5) by auto
    ultimately show ?thesis unfolding st by (rule Suc.hyps(1))
  qed
qed

section \<open>Properties\<close>


definition demo_session :: session where
  "demo_session = \<lparr>app_user_id = None, app_is_service_role = False, sess_now = 0, drv_rethrow = True\<rparr>"

definition demo_add :: "nat \<Rightarrow> (nat, unit) stmt" where
  "demo_add n s d = (if n = 0 then Inl ''nothing to add'' else Inr ((), d + n))"


text \<open>
  A failed statement cannot be survived: if a statement fails inside a unit of work and the
  body catches the rejection and goes on, whatever else it does with the database is lost too.
\<close>

theorem caught_failure_commits_nothing:
  assumes "st s d = Inl msg" and "\<And>e. stuck_when_aborted (h e)" and "\<And>a. stuck_when_aborted (k a)"
    and "w_db w = d"
  shows "w_db (snd (transaction s (tx_bind (tx_catch (execute st) h) k) w)) = d"
proof -
  let ?t = "\<lparr>tx_db = d, tx_err = None, tx_log = w_log w\<rparr>"
  let ?m = "tx_bind (tx_catch (execute st) h) k"
  let ?t1 = "?t\<lparr>tx_err := Some (PgError msg)\<rparr>"
  have "?m s ?t = tx_bind (h (PgError msg)) k s ?t1"
    using assms(1) by (simp add: tx_bind_def tx_catch_def execute_def)
  moreover have "stuck_when_aborted (tx_bind (h (PgError msg)) k)" using assms(2,3) by auto
  ultimately have "tx_err (snd (?m s ?t)) \<noteq> None" by (simp add: stuck_when_aborted_def)
  then show ?thesis
    using assms(4) by (auto simp: transaction_def split: prod.split sum.split option.split)
qed

theorem caught_failure_commits_nothing_witness:
  "w_db (snd (transaction demo_session (tx_bind (tx_catch (execute (demo_add 0)) (\<lambda>_. tx_return ()))
      (\<lambda>_. execute (demo_add 7))) \<lparr>w_db = 5, w_log = []\<rparr>)) = 5"
  by (rule caught_failure_commits_nothing [where msg = "''nothing to add''"]) (auto simp: demo_add_def)

text \<open>
  A business rejection of an RPC is the client's 400 and leaves no trace: when the function
  returns \<open>success: false\<close> the call rejects with its envelope, whose \<open>error\<close> is the
  function's code or \<open>RPC_FAILED\<close> if it names none, and the transaction rolls back; any other
  result is returned.
\<close>

theorem rpc_rejection_rolls_back:
  assumes "call s (w_db w) = Inr (r, d')"
  shows "(jget r ''success'' = Some (JBool False) \<longrightarrow>
      (\<exists>body. transaction s (rpc call) w = (Inl (BadRequest body), w) \<and>
         jget body ''error'' = (case jget r ''error'' of None \<Rightarrow> Some (JStr ''RPC_FAILED'') | Some v \<Rightarrow> Some v) \<and>
         (\<forall>k. k \<noteq> ''error'' \<longrightarrow> jget body k = jget r k))) \<and>
    (jget r ''success'' \<noteq> Some (JBool False) \<longrightarrow>
      transaction s (rpc call) w = (Inr r, w\<lparr>w_db := d'\<rparr>))"
proof -
  have body: "jget (rpc_error r) k =
      (case jget r k of Some v \<Rightarrow> Some v | None \<Rightarrow> if k = ''error'' then Some (JStr ''RPC_FAILED'') else None)" for k
    by (cases r) (auto simp: rpc_error_def merge_conv' map_add_def Let_def split: option.split)
  show ?thesis
    using assms body [of "''error''"] body
    by (auto simp: transaction_def rpc_def tx_defs split: option.split)
qed

definition demo_rpc :: "(nat, json) stmt" where
  "demo_rpc s d = Inr (JObj [(''success'', JBool False), (''error'', JStr ''NO_CAPACITY'')], Suc d)"

theorem rpc_rejection_rolls_back_witness:
  "\<exists>body. transaction demo_session (rpc demo_rpc) \<lparr>w_db = 5, w_log = []\<rparr> =
     (Inl (BadRequest body), \<lparr>w_db = 5, w_log = []\<rparr>) \<and> jget body ''error'' = Some (JStr ''NO_CAPACITY'')"
  using rpc_rejection_rolls_back [of demo_rpc demo_session "\<lparr>w_db = 5, w_log = []\<rparr>"]
  by (auto simp: demo_rpc_def)

text \<open>
  C9. The boot wait ends: it makes at most six attempts, stops at the first that succeeds and
  then succeeds, gives up with the last error only if all six failed, and sleeps 1, 2, 4, 8 and 16
  seconds between them, so for at most 31 seconds.
\<close>

theorem wait_for_database_bounded:
  "\<exists>n. waitForDatabase up = (up n, n, take (n - 1) [1000, 2000, 4000, 8000, 16000]) \<and>
     1 \<le> n \<and> n \<le> 6 \<and> (\<forall>k. 1 \<le> k \<and> k < n \<longrightarrow> up k \<noteq> None) \<and> (up n = None \<or> n = 6) \<and>
     sum_list (snd (snd (waitForDatabase up))) \<le> 31000"
proof -
  obtain n where n: "waitForDatabase up = (up n, n, take (n - 1) [1000, 2000, 4000, 8000, 16000])"
    "1 \<le> n" "n \<le> 6" "\<forall>k. 1 \<le> k \<and> k < n \<longrightarrow> up k \<noteq> None" "up n = None \<or> n = 6"
    using wait_loop_eq [of 1 up "[]" 1000] unfolding waitForDatabase_def by auto
  then have "n \<in> {1, 2, 3, 4, 5, 6}" by auto
  then have "sum_list (take (n - 1) [1000, 2000, 4000, 8000, 16000 :: nat]) \<le> 31000" by auto
  with n show ?thesis by auto
qed

theorem wait_for_database_bounded_witness:
  "\<exists>n. waitForDatabase (\<lambda>k. if k < 3 then Some (JsError ''down'') else None) = (None, n, [1000, 2000]) \<and> n = 3"
proof -
  let ?up = "\<lambda>k. if k < 3 then Some (JsError ''down'') else (None :: exn option)"
  obtain n where n: "waitForDatabase ?up = (?up n, n, take (n - 1) [1000, 2000, 4000, 8000, 16000])"
    "1 \<le> n" "\<forall>k. 1 \<le> k \<and> k < n \<longrightarrow> ?up k \<noteq> None" "?up n = None \<or> n = 6"
    using wait_for_database_bounded [of ?up] by auto
  from n(3) have "\<not> 3 < n" by (metis (full_types) less_irrefl_nat one_le_numeral)
  with n(2,4) have "n = 3" by (cases "n < 3") auto
  with n(1) show ?thesis by simp
qed

end
