(* ===== verification/Ledger.thy ===== *)
theory Ledger
  imports Db
begin

text \<open>
  The money tables and the one primitive that moves money, \<open>post_transaction\<close> of migration 0058
  (tables of migration 0004).

  Row identifiers generated by the database are numbers handed out in order.  An idempotency key
  is the text \<open>prefix || id\<close>; identifiers have fixed-length text, so such keys are kept as pairs.
\<close>

section \<open>Tables\<close>

type_synonym idem_key = "string \<times> nat"

record wallet =
  wl_id :: nat
  wl_profile :: string
  wl_balance :: int
  wl_bonus :: int

record txn =
  tn_id :: nat
  tn_type :: string
  tn_amount :: int
  tn_key :: idem_key
  tn_ref :: "string option"

record ledgerEntry =
  le_txn :: nat
  le_wallet :: "nat option"
  le_account :: string
  le_delta :: int

record money =
  wallets :: "wallet list"
  txns :: "txn list"
  entries :: "ledgerEntry list"
  next_id :: nat

text \<open>One element of \<open>p_legs\<close>; an absent \<open>bonus_delta_paise\<close> is 0.\<close>

record leg =
  leg_wallet :: "nat option"
  leg_account :: string
  leg_delta :: int
  leg_bonus :: int

section \<open>Posting\<close>

text \<open>The CHECK constraints of \<open>wallets\<close>.\<close>

definition wallet_ok :: "wallet \<Rightarrow> bool" where
  "wallet_ok x \<longleftrightarrow> 0 \<le> wl_balance x \<and> 0 \<le> wl_bonus x \<and> wl_bonus x \<le> wl_balance x"

text \<open>The UPDATE of one wallet: the bonus is clamped to the new balance.\<close>

definition move_wallet :: "leg \<Rightarrow> wallet \<Rightarrow> wallet" where
  "move_wallet l x =
     (let b = wl_balance x + leg_delta l
      in x\<lparr>wl_balance := b, wl_bonus := max 0 (min (wl_bonus x + leg_bonus l) b)\<rparr>)"

definition apply_leg :: "nat \<Rightarrow> leg \<Rightarrow> 'a money_scheme \<Rightarrow> string + 'a money_scheme" where
  "apply_leg tid l d =
     (let d1 = d\<lparr>entries := entries d @ [\<lparr>le_txn = tid, le_wallet = leg_wallet l, le_account = leg_account l,
                                         le_delta = leg_delta l\<rparr>]\<rparr>
      in case leg_wallet l of
           None \<Rightarrow> Inr d1
         | Some k \<Rightarrow>
             (let ws = map (\<lambda>x. if wl_id x = k then move_wallet l x else x) (wallets d1)
              in if \<forall>x \<in> set ws. wallet_ok x then Inr (d1\<lparr>wallets := ws\<rparr>)
                 else Inl ''new row for relation wallets violates check constraint''))"

fun apply_legs :: "nat \<Rightarrow> leg list \<Rightarrow> 'a money_scheme \<Rightarrow> string + 'a money_scheme" where
  "apply_legs tid [] d = Inr d"
| "apply_legs tid (l # ls) d =
     (case apply_leg tid l d of Inl e \<Rightarrow> Inl e | Inr d' \<Rightarrow> apply_legs tid ls d')"

definition find_txn :: "idem_key \<Rightarrow> 'a money_scheme \<Rightarrow> txn option" where
  "find_txn k d = find (\<lambda>t. tn_key t = k) (txns d)"

text \<open>\<open>post_transaction\<close>: the transaction's id and whether it was a replay.\<close>

definition post_transaction ::
  "string \<Rightarrow> int \<Rightarrow> idem_key \<Rightarrow> leg list \<Rightarrow> string option \<Rightarrow> 'a money_scheme \<Rightarrow>
   string + ((nat \<times> bool) \<times> 'a money_scheme)" where
  "post_transaction ty amount key legs ref d =
     (if length legs < 2 then Inl ''post_transaction: p_legs must be an array of >= 2 legs''
      else if sum_list (map leg_delta legs) \<noteq> 0 then Inl ''post_transaction: legs must sum to 0''
      else if amount \<le> 0 then Inl ''post_transaction: amount_paise must be positive''
      else case find_txn key d of
             Some t \<Rightarrow> Inr ((tn_id t, True), d)
           | None \<Rightarrow>
               if \<exists>l \<in> set legs. \<exists>k. leg_wallet l = Some k \<and> k \<notin> wl_id ` set (wallets d)
               then Inl ''post_transaction: wallet not found''
               else
                 (let tid = next_id d;
                      d1 = d\<lparr>txns := txns d @ [\<lparr>tn_id = tid, tn_type = ty, tn_amount = amount, tn_key = key,
                                              tn_ref = ref\<rparr>], next_id := Suc tid\<rparr>
                  in case apply_legs tid legs d1 of
                       Inl e \<Rightarrow> Inl e
                     | Inr d' \<Rightarrow> Inr ((tid, False), d')))"

section \<open>The ledger invariant\<close>

text \<open>
  \<open>money_ok\<close>: identifiers are unique; every transaction's entries sum to zero, and every entry
  belongs to one; a wallet's cached balance is the sum of its entries, and keeps its bounds.
\<close>

definition txn_sum :: "nat \<Rightarrow> ledgerEntry list \<Rightarrow> int" where
  "txn_sum i es = sum_list (map le_delta (filter (\<lambda>e. le_txn e = i) es))"

definition wallet_sum :: "nat \<Rightarrow> ledgerEntry list \<Rightarrow> int" where
  "wallet_sum i es = sum_list (map le_delta (filter (\<lambda>e. le_wallet e = Some i) es))"

definition account_sum :: "string \<Rightarrow> ledgerEntry list \<Rightarrow> int" where
  "account_sum a es = sum_list (map le_delta (filter (\<lambda>e. le_account e = a) es))"

definition money_ok :: "'a money_scheme \<Rightarrow> bool" where
  "money_ok d \<longleftrightarrow>
     distinct (map wl_id (wallets d)) \<and>
     distinct (map tn_key (txns d)) \<and> distinct (map tn_id (txns d)) \<and>
     (\<forall>t \<in> set (txns d). tn_id t < next_id d \<and> txn_sum (tn_id t) (entries d) = 0) \<and>
     (\<forall>e \<in> set (entries d). le_txn e \<in> tn_id ` set (txns d)) \<and>
     (\<forall>x \<in> set (wallets d). wallet_ok x \<and> wl_balance x = wallet_sum (wl_id x) (entries d))"

lemma sums_append [simp]:
  "txn_sum i (xs @ ys) = txn_sum i xs + txn_sum i ys"
  "wallet_sum k (xs @ ys) = wallet_sum k xs + wallet_sum k ys"
  "account_sum a (xs @ ys) = account_sum a xs + account_sum a ys"
  by (simp_all add: txn_sum_def wallet_sum_def account_sum_def)

lemma sums_Nil [simp]: "txn_sum i [] = 0" "wallet_sum k [] = 0" "account_sum a [] = 0"
  by (simp_all add: txn_sum_def wallet_sum_def account_sum_def)

lemma sums_Cons:
  "txn_sum i (e # es) = (if le_txn e = i then le_delta e else 0) + txn_sum i es"
  "wallet_sum k (e # es) = (if le_wallet e = Some k then le_delta e else 0) + wallet_sum k es"
  "account_sum a (e # es) = (if le_account e = a then le_delta e else 0) + account_sum a es"
  by (simp_all add: txn_sum_def wallet_sum_def account_sum_def)

definition entry_of :: "nat \<Rightarrow> leg \<Rightarrow> ledgerEntry" where
  "entry_of tid l = \<lparr>le_txn = tid, le_wallet = leg_wallet l, le_account = leg_account l, le_delta = leg_delta l\<rparr>"

lemma find_txn_Some: "find_txn k d = Some t \<Longrightarrow> t \<in> set (txns d) \<and> tn_key t = k"
  by (auto simp: find_txn_def find_Some_iff)

lemma find_txn_None: "find_txn k d = None \<longleftrightarrow> k \<notin> tn_key ` set (txns d)"
  by (auto simp: find_txn_def find_None_iff)

text \<open>The effect of the legs, exactly.\<close>

definition moved :: "leg list \<Rightarrow> wallet \<Rightarrow> wallet" where
  "moved ls x = fold (\<lambda>l x. if leg_wallet l = Some (wl_id x) then move_wallet l x else x) ls x"

lemma moved_simps [simp]:
  "moved [] x = x"
  "moved (l # ls) x = moved ls (if leg_wallet l = Some (wl_id x) then move_wallet l x else x)"
  by (simp_all add: moved_def)

lemma move_wallet_fields [simp]:
  "wl_id (move_wallet l x) = wl_id x" "wl_profile (move_wallet l x) = wl_profile x"
  "wl_balance (move_wallet l x) = wl_balance x + leg_delta l"
  by (simp_all add: move_wallet_def Let_def)

lemma moved_fields [simp]: "wl_id (moved ls x) = wl_id x" "wl_profile (moved ls x) = wl_profile x"
  by (induction ls arbitrary: x) auto

lemma moved_balance:
  "wl_balance (moved ls x) = wl_balance x + wallet_sum (wl_id x) (map (entry_of tid) ls)"
  by (induction ls arbitrary: x) (auto simp: sums_Cons entry_of_def)

lemma apply_leg_frame:
  assumes "apply_leg tid l d = Inr d'"
  shows "txns d' = txns d" "next_id d' = next_id d" "entries d' = entries d @ [entry_of tid l]"
    "wallets d' = map (moved [l]) (wallets d)"
    "(\<forall>x \<in> set (wallets d). wallet_ok x) \<Longrightarrow> (\<forall>x \<in> set (wallets d'). wallet_ok x)"
proof -
  let ?d = "d\<lparr>entries := entries d @ [entry_of tid l]\<rparr>"
  have "d' = ?d\<lparr>wallets := map (moved [l]) (wallets d)\<rparr> \<and>
      ((\<forall>x \<in> set (wallets d). wallet_ok x) \<longrightarrow> (\<forall>x \<in> set (wallets d'). wallet_ok x))"
  proof (cases "leg_wallet l")
    case None
    have same: "map (moved [l]) (wallets d) = wallets d" using None by (simp add: map_idI)
    have d': "d' = ?d" using None assms by (simp add: apply_leg_def entry_of_def)
    have "?d\<lparr>wallets := wallets d\<rparr> = ?d" by (cases d) simp
    then show ?thesis unfolding same d' by simp
  next
    case (Some k)
    let ?ws = "map (\<lambda>x. if wl_id x = k then move_wallet l x else x) (wallets d)"
    have same: "map (moved [l]) (wallets d) = ?ws" using Some by auto
    have eq: "apply_leg tid l d = (if \<forall>x \<in> set ?ws. wallet_ok x then Inr (?d\<lparr>wallets := ?ws\<rparr>)
        else Inl ''new row for relation wallets violates check constraint'')"
      using Some by (simp add: apply_leg_def Let_def entry_of_def)
    have P: "\<forall>x \<in> set ?ws. wallet_ok x"
    proof (rule ccontr)
      assume n: "\<not> (\<forall>x \<in> set ?ws. wallet_ok x)"
      show False using eq assms unfolding if_not_P [OF n] by simp
    qed
    have "d' = ?d\<lparr>wallets := ?ws\<rparr>" using eq assms unfolding if_P [OF P] by simp
    with P have "d' = ?d\<lparr>wallets := ?ws\<rparr> \<and> (\<forall>x \<in> set (wallets d'). wallet_ok x)" by simp
    then show ?thesis unfolding same by simp
  qed
  then show "txns d' = txns d" "next_id d' = next_id d" "entries d' = entries d @ [entry_of tid l]"
    "wallets d' = map (moved [l]) (wallets d)"
    "(\<forall>x \<in> set (wallets d). wallet_ok x) \<Longrightarrow> (\<forall>x \<in> set (wallets d'). wallet_ok x)"
    by simp_all
qed

lemma apply_legs_all:
  "apply_legs tid ls d = Inr d' \<Longrightarrow>
     txns d' = txns d \<and> next_id d' = next_id d \<and> entries d' = entries d @ map (entry_of tid) ls \<and>
     wallets d' = map (moved ls) (wallets d) \<and>
     ((\<forall>x \<in> set (wallets d). wallet_ok x) \<longrightarrow> (\<forall>x \<in> set (wallets d'). wallet_ok x))"
proof (induction ls arbitrary: d)
  case Nil
  then show ?case by (simp add: map_idI)
next
  case (Cons l ls)
  then obtain d1 where d1: "apply_leg tid l d = Inr d1" "apply_legs tid ls d1 = Inr d'"
    by (cases "apply_leg tid l d") simp_all
  note ih = Cons.IH [OF d1(2)] and f = apply_leg_frame [OF d1(1)]
  have "wallets d' = map (moved ls) (map (moved [l]) (wallets d))"
    using ih unfolding f(4) by blast
  also have "\<dots> = map (moved (l # ls)) (wallets d)" by (simp add: comp_def)
  finally have w: "wallets d' = map (moved (l # ls)) (wallets d)" .
  have e: "entries d' = entries d @ map (entry_of tid) (l # ls)"
    using ih unfolding f(3) by simp
  show ?case using ih f(1,2,5) w e by metis
qed

lemmas apply_legs_frame =
  apply_legs_all [THEN conjunct1]
  apply_legs_all [THEN conjunct2, THEN conjunct1]
  apply_legs_all [THEN conjunct2, THEN conjunct2, THEN conjunct1]
  apply_legs_all [THEN conjunct2, THEN conjunct2, THEN conjunct2, THEN conjunct1]
  apply_legs_all [THEN conjunct2, THEN conjunct2, THEN conjunct2, THEN conjunct2, rule_format]

text \<open>What a posting that is not a replay does.\<close>

lemma post_new:
  assumes "post_transaction ty amount key legs ref d = Inr ((tid, rep), d')" and "find_txn key d = None"
  shows "tid = next_id d" "\<not> rep" "next_id d' = Suc (next_id d)"
    "txns d' = txns d @ [\<lparr>tn_id = tid, tn_type = ty, tn_amount = amount, tn_key = key, tn_ref = ref\<rparr>]"
    "entries d' = entries d @ map (entry_of tid) legs"
    "wallets d' = map (moved legs) (wallets d)"
    "sum_list (map leg_delta legs) = 0"
    "(\<forall>x \<in> set (wallets d). wallet_ok x) \<Longrightarrow> (\<forall>x \<in> set (wallets d'). wallet_ok x)"
proof -
  let ?t = "\<lparr>tn_id = next_id d, tn_type = ty, tn_amount = amount, tn_key = key, tn_ref = ref\<rparr>"
  let ?d1 = "d\<lparr>txns := txns d @ [?t], next_id := Suc (next_id d)\<rparr>"
  from assms show tid: "tid = next_id d" and "\<not> rep" and "sum_list (map leg_delta legs) = 0"
    by (auto simp: post_transaction_def Let_def split: if_splits sum.splits)
  from assms have "apply_legs (next_id d) legs ?d1 = Inr d'"
    by (auto simp: post_transaction_def Let_def split: if_splits sum.splits)
  from apply_legs_all [OF this] show "next_id d' = Suc (next_id d)"
    "txns d' = txns d @ [\<lparr>tn_id = tid, tn_type = ty, tn_amount = amount, tn_key = key, tn_ref = ref\<rparr>]"
    "entries d' = entries d @ map (entry_of tid) legs"
    "wallets d' = map (moved legs) (wallets d)"
    "(\<forall>x \<in> set (wallets d). wallet_ok x) \<Longrightarrow> (\<forall>x \<in> set (wallets d'). wallet_ok x)"
    by (simp_all add: tid)
qed

lemma post_replay:
  assumes "post_transaction ty amount key legs ref d = Inr ((tid, rep), d')" and "find_txn key d = Some t"
  shows "tid = tn_id t" "rep" "d' = d"
  using assms by (auto simp: post_transaction_def split: if_splits)

lemma money_ok_post:
  assumes ok: "money_ok d" and p: "post_transaction ty amount key legs ref d = Inr ((tid, rep), d')"
  shows "money_ok d'"
proof (cases "find_txn key d")
  case (Some t)
  with post_replay(3) [OF p Some] ok show ?thesis by simp
next
  case None
  note n = post_new [OF p None]
  have fresh: "next_id d \<notin> tn_id ` set (txns d)" and new_key: "key \<notin> tn_key ` set (txns d)"
    using ok None by (auto simp: money_ok_def find_txn_None)
  have no_entry: "txn_sum (next_id d) (entries d) = 0"
  proof -
    have "filter (\<lambda>e. le_txn e = next_id d) (entries d) = []"
      using ok fresh unfolding money_ok_def filter_empty_conv by metis
    then show ?thesis by (simp add: txn_sum_def)
  qed
  have legs_sum: "txn_sum i (map (entry_of j) legs) = (if i = j then sum_list (map leg_delta legs) else 0)" for i j
    by (induction legs) (auto simp: sums_Cons entry_of_def)
  have "map wl_id (wallets d') = map wl_id (wallets d)" by (simp add: n(6))
  moreover have "\<forall>t \<in> set (txns d'). tn_id t < next_id d' \<and> txn_sum (tn_id t) (entries d') = 0"
    using ok n(1,7) no_entry fresh by (auto simp: money_ok_def n(3,4,5) legs_sum)
  moreover have "\<forall>e \<in> set (entries d'). le_txn e \<in> tn_id ` set (txns d')"
    using ok by (auto simp: money_ok_def n(4,5) entry_of_def)
  moreover have "\<forall>x \<in> set (wallets d'). wallet_ok x"
    using n(8) ok by (simp add: money_ok_def)
  moreover have "\<forall>x \<in> set (wallets d'). wl_balance x = wallet_sum (wl_id x) (entries d')"
    using ok by (auto simp: money_ok_def n(5,6) moved_balance [where tid = tid])
  moreover have "distinct (map tn_key (txns d'))" "distinct (map tn_id (txns d'))"
    using ok fresh new_key by (auto simp: money_ok_def n(1,4))
  ultimately show ?thesis using ok by (simp add: money_ok_def)
qed

section \<open>Property\<close>

lemma wallet_sum_entry_of:
  "wallet_sum k (map (entry_of tid) ls) = sum_list (map leg_delta (filter (\<lambda>l. leg_wallet l = Some k) ls))"
  by (induction ls) (auto simp: sums_Cons entry_of_def)

text \<open>
  C11. A posting is exact and idempotent: it keeps the ledger sound; under a key that is already
  used it changes nothing and returns that transaction; otherwise it appends one transaction and
  one entry per leg, which sum to zero, and each wallet's balance moves by its own legs; and the
  same posting made again is a replay of it.
\<close>

theorem ledger_posting_exact:
  assumes ok: "money_ok d" and p: "post_transaction ty amount key legs ref d = Inr ((tid, rep), d')"
  shows "money_ok d' \<and> (rep \<longleftrightarrow> key \<in> tn_key ` set (txns d)) \<and> (rep \<longrightarrow> d' = d) \<and>
    (\<not> rep \<longrightarrow> txns d' = txns d @ [\<lparr>tn_id = tid, tn_type = ty, tn_amount = amount, tn_key = key, tn_ref = ref\<rparr>] \<and>
       entries d' = entries d @ map (entry_of tid) legs \<and> sum_list (map leg_delta legs) = 0 \<and>
       (\<exists>f. wallets d' = map f (wallets d) \<and>
          (\<forall>x. wl_id (f x) = wl_id x \<and> wl_profile (f x) = wl_profile x \<and> wl_balance (f x) =
             wl_balance x + sum_list (map leg_delta (filter (\<lambda>l. leg_wallet l = Some (wl_id x)) legs))))) \<and>
    post_transaction ty amount key legs ref d' = Inr ((tid, True), d')"
proof -
  have valid: "\<not> length legs < 2" "sum_list (map leg_delta legs) = 0" "\<not> amount \<le> 0"
    using p by (auto simp: post_transaction_def split: if_splits)
  have m: "money_ok d'" by (rule money_ok_post [OF ok p])
  show ?thesis
  proof (cases "find_txn key d")
    case (Some t)
    note r = post_replay [OF p Some]
    have "key \<in> tn_key ` set (txns d)" using find_txn_Some [OF Some] by blast
    moreover have "post_transaction ty amount key legs ref d = Inr ((tn_id t, True), d)"
      using valid Some by (simp add: post_transaction_def)
    ultimately show ?thesis using ok r by simp
  next
    case None
    note n = post_new [OF p None]
    have key: "key \<notin> tn_key ` set (txns d)" using None by (simp add: find_txn_None)
    have "find (\<lambda>t. tn_key t = key) (ts @ [u]) = Some u" if "tn_key u = key" "key \<notin> tn_key ` set ts" for u ts
      using that by (induction ts) auto
    note f = this [OF _ key]
    then have "post_transaction ty amount key legs ref d' = Inr ((tid, True), d')"
      using valid by (simp add: post_transaction_def find_txn_def n(4) f)
    moreover have "\<forall>x. wl_balance (moved legs x) =
        wl_balance x + sum_list (map leg_delta (filter (\<lambda>l. leg_wallet l = Some (wl_id x)) legs))"
      using moved_balance [where tid = tid] by (simp add: wallet_sum_entry_of)
    ultimately show ?thesis
      using m n(2,4,5,6,7) key by (intro conjI impI exI [of _ "moved legs"]) simp_all
  qed
qed

definition demo_money :: money where
  "demo_money = \<lparr>wallets = [\<lparr>wl_id = 1, wl_profile = ''fan'', wl_balance = 0, wl_bonus = 0\<rparr>], txns = [], entries = [],
     next_id = 2\<rparr>"

definition demo_legs :: "leg list" where
  "demo_legs = [\<lparr>leg_wallet = Some 1, leg_account = ''wallet'', leg_delta = 70, leg_bonus = 0\<rparr>,
     \<lparr>leg_wallet = None, leg_account = ''razorpay_clearing'', leg_delta = - 70, leg_bonus = 0\<rparr>]"

theorem ledger_posting_exact_witness:
  "\<exists>tid d'. post_transaction ''TOPUP'' 70 (''topup:'', 1) demo_legs None demo_money = Inr ((tid, False), d') \<and>
     money_ok d' \<and> post_transaction ''TOPUP'' 70 (''topup:'', 1) demo_legs None d' = Inr ((tid, True), d')"
proof -
  obtain tid d' where r: "post_transaction ''TOPUP'' 70 (''topup:'', 1) demo_legs None demo_money = Inr ((tid, False), d')"
    by (simp add: post_transaction_def demo_legs_def demo_money_def Let_def find_txn_def apply_leg_def move_wallet_def
        wallet_ok_def)
  have "money_ok demo_money" by (simp add: money_ok_def demo_money_def wallet_ok_def)
  from ledger_posting_exact [OF this r] r show ?thesis by blast
qed

end
