(* ===== verification/Payments.thy ===== *)
theory Payments
  imports Db
begin

text \<open>
  \<open>src/payments/\<close>: the payment gateway interface and its Razorpay implementation.  The
  \<open>razorpay\<close> client and HMAC-SHA256 (as hex text) are parameters.
\<close>

section \<open>The interface\<close>

record createdOrder =
  co_orderId :: string
  co_amountPaise :: int
  co_currency :: string
  co_providerKeyId :: string

record fetchedPayment =
  fp_paymentId :: "json option"
  fp_orderId :: "json option"
  fp_amountPaise :: "int option"
  fp_status :: "json option"

text \<open>\<open>createOrder\<close> takes the amount in paise and the receipt; the notes are not modelled.\<close>

record paymentProvider =
  createOrder :: "int \<Rightarrow> string \<Rightarrow> exn + createdOrder"
  verifyWebhookSignature :: "string \<Rightarrow> string option \<Rightarrow> bool"
  fetchPayment :: "json option \<Rightarrow> exn + fetchedPayment"

text \<open>
  What the wallet relies on: no webhook is accepted without a signature.
\<close>

locale payment_provider =
  fixes P :: paymentProvider
  assumes unsigned_refused: "\<not> truthy_str sig \<Longrightarrow> \<not> verifyWebhookSignature P raw sig"

section \<open>Razorpay\<close>

record razorpayClient =
  rz_orders_create :: "int \<Rightarrow> string \<Rightarrow> exn + (string \<times> int \<times> string)"
  rz_payments_fetch :: "json option \<Rightarrow> exn + json"

record razorpayProvider =
  rz_client :: "razorpayClient option"
  rz_keyId :: string
  rz_webhookSecret :: string

text \<open>The constructor; \<open>mk\<close> is \<open>new Razorpay\<close> for a key id and secret.\<close>

definition new_RazorpayProvider ::
  "(string \<Rightarrow> string option) \<Rightarrow> (string \<Rightarrow> string \<Rightarrow> razorpayClient) \<Rightarrow> razorpayProvider" where
  "new_RazorpayProvider config mk =
     (let get = (\<lambda>k. case config k of None \<Rightarrow> [] | Some v \<Rightarrow> v);
          keyId = get ''RAZORPAY_KEY_ID'';
          keySecret = get ''RAZORPAY_KEY_SECRET''
      in \<lparr>rz_client = (if keyId \<noteq> [] \<and> keySecret \<noteq> [] then Some (mk keyId keySecret) else None),
          rz_keyId = keyId, rz_webhookSecret = get ''RAZORPAY_WEBHOOK_SECRET''\<rparr>)"

definition rz_createOrder :: "razorpayProvider \<Rightarrow> int \<Rightarrow> string \<Rightarrow> exn + createdOrder" where
  "rz_createOrder p amount receipt =
     (case rz_client p of
        None \<Rightarrow> Inl (JsError ''Payment provider not configured'')
      | Some c \<Rightarrow>
          (case rz_orders_create c amount receipt of
             Inl e \<Rightarrow> Inl e
           | Inr (oid, amt, cur) \<Rightarrow>
               Inr \<lparr>co_orderId = oid, co_amountPaise = amt, co_currency = cur, co_providerKeyId = rz_keyId p\<rparr>))"

text \<open>\<open>timingSafeEqual\<close> on buffers of the same length is equality.\<close>

definition rz_verifyWebhookSignature ::
  "(string \<Rightarrow> string \<Rightarrow> string) \<Rightarrow> razorpayProvider \<Rightarrow> string \<Rightarrow> string option \<Rightarrow> bool" where
  "rz_verifyWebhookSignature hmac p rawBody sig =
     (if rz_webhookSecret p = [] \<or> \<not> truthy_str sig then False
      else let expected = hmac (rz_webhookSecret p) rawBody
           in length expected = length (the sig) \<and> expected = the sig)"

definition rz_fetchPayment :: "razorpayProvider \<Rightarrow> json option \<Rightarrow> exn + fetchedPayment" where
  "rz_fetchPayment p paymentId =
     (case rz_client p of
        None \<Rightarrow> Inl (JsError ''Payment provider not configured'')
      | Some c \<Rightarrow>
          (case rz_payments_fetch c paymentId of
             Inl e \<Rightarrow> Inl e
           | Inr j \<Rightarrow> Inr \<lparr>fp_paymentId = jget j ''id'', fp_orderId = jget j ''order_id'',
                           fp_amountPaise = (case jget j ''amount'' of None \<Rightarrow> None | Some v \<Rightarrow> to_number v),
                           fp_status = jget j ''status''\<rparr>))"

definition razorpay :: "(string \<Rightarrow> string \<Rightarrow> string) \<Rightarrow> razorpayProvider \<Rightarrow> paymentProvider" where
  "razorpay hmac p = \<lparr>createOrder = rz_createOrder p,
     verifyWebhookSignature = rz_verifyWebhookSignature hmac p, fetchPayment = rz_fetchPayment p\<rparr>"

interpretation razorpay: payment_provider "razorpay hmac p" for hmac p
  by unfold_locales (simp add: razorpay_def rz_verifyWebhookSignature_def)

text \<open>
  C10. A webhook signature is accepted exactly when a webhook secret is configured and the
  signature is the HMAC of the raw body under it; without credentials the two outgoing calls
  reject and nothing is sent.
\<close>

theorem webhook_signature_exact:
  assumes "p = new_RazorpayProvider config mk"
  shows "(verifyWebhookSignature (razorpay hmac p) raw sig \<longleftrightarrow>
      (\<exists>secret h. config ''RAZORPAY_WEBHOOK_SECRET'' = Some secret \<and> secret \<noteq> [] \<and> sig = Some h \<and> h \<noteq> [] \<and>
                  h = hmac secret raw)) \<and>
    (\<not> truthy_str (config ''RAZORPAY_KEY_ID'') \<or> \<not> truthy_str (config ''RAZORPAY_KEY_SECRET'') \<longrightarrow>
      createOrder (razorpay hmac p) amount receipt = Inl (JsError ''Payment provider not configured'') \<and>
      fetchPayment (razorpay hmac p) pid = Inl (JsError ''Payment provider not configured''))"
proof -
  have "config ''RAZORPAY_WEBHOOK_SECRET'' = None \<or> (\<exists>s. config ''RAZORPAY_WEBHOOK_SECRET'' = Some s)"
    by (cases "config ''RAZORPAY_WEBHOOK_SECRET''") simp_all
  then show ?thesis
    unfolding assms
    by (cases sig; cases "config ''RAZORPAY_KEY_ID''"; cases "config ''RAZORPAY_KEY_SECRET''")
      (auto simp: razorpay_def rz_verifyWebhookSignature_def new_RazorpayProvider_def rz_createOrder_def
        rz_fetchPayment_def Let_def)
qed

theorem webhook_signature_exact_witness:
  "verifyWebhookSignature (razorpay (\<lambda>k b. k @ b) (new_RazorpayProvider (\<lambda>_. Some ''s'')
     (\<lambda>_ _. \<lparr>rz_orders_create = (\<lambda>_ _. Inl (JsError ''x'')), rz_payments_fetch = (\<lambda>_. Inl (JsError ''x''))\<rparr>)))
     ''body'' (Some ''sbody'')"
  using webhook_signature_exact [OF refl, where config = "\<lambda>_. Some ''s''" and hmac = "\<lambda>k b. k @ b"
      and raw = "''body''" and sig = "Some ''sbody''"]
  by simp

end
