(* ===== verification/Wallet.thy ===== *)
theory Wallet
  imports Ledger Payments
begin

text \<open>
  \<open>src/wallet/wallet.service.ts\<close> with the SQL functions it calls (migrations 0086 and 0097) and
  the tables they use (0004, 0009).  Times are milliseconds.

  Parameters of statements: \<open>undefined\<close> leaves a hole in the SQL text, so the statement fails;
  \<open>null\<close> is NULL; strings, numbers and booleans become text.  Other JSON values do not occur as
  identifiers and are taken to fail.
\<close>

section \<open>Tables\<close>

datatype txnStatus = PENDING | SUCCESSFUL | FAILED

record topupOrder =
  to_id :: nat
  to_profile :: string
  to_credit :: int
  to_gst :: int
  to_amount :: int
  to_rzp_order :: string
  to_rzp_payment :: "string option"
  to_status :: txnStatus
  to_txn :: "nat option"
  to_created :: int

datatype webhookStatus = RECEIVED | PROCESSED | WH_FAILED

record webhookEvent =
  wh_id :: nat
  wh_provider :: string
  wh_event_id :: string
  wh_event_type :: string
  wh_status :: webhookStatus

datatype disputeStatus = DS_OPEN | UNDER_REVIEW | WON | LOST | DS_CLOSED

record dispute =
  di_id :: nat
  di_txn :: "nat option"
  di_rzp :: string
  di_amount :: int
  di_reason :: "string option"
  di_status :: disputeStatus
  di_resolved_at :: "int option"

text \<open>The unique key of \<open>notifications\<close>: recipient, event type, entity type, entity id.\<close>

type_synonym notifKey = "string \<times> string \<times> string \<times> nat"

record platformSettings =
  ps_gst_rate :: rat
  ps_min_topup :: int
  ps_max_topup :: int
  ps_max_balance :: "int option"

record bank = money +
  topups :: "topupOrder list"
  webhooks :: "webhookEvent list"
  disputes :: "dispute list"
  notifs :: "notifKey list"
  settings :: "platformSettings option"
  admins :: "string list"
  finance_admins :: "string list"

section \<open>JavaScript values\<close>

text \<open>\<open>v?.k\<close> and \<open>a ?? b\<close>.\<close>

definition jopt :: "json option \<Rightarrow> string \<Rightarrow> json option" where
  "jopt v k = (case v of None \<Rightarrow> None | Some j \<Rightarrow> jget j k)"

definition coalesce :: "json option \<Rightarrow> json option \<Rightarrow> json option" where
  "coalesce a b = (case a of None \<Rightarrow> b | Some JNull \<Rightarrow> b | Some v \<Rightarrow> Some v)"

fun nat_text :: "nat \<Rightarrow> string" where
  "nat_text n = (if n < 10 then [char_of (48 + n)] else nat_text (n div 10) @ [char_of (48 + n mod 10)])"

declare nat_text.simps [simp del]

definition int_text :: "int \<Rightarrow> string" where
  "int_text n = (if n < 0 then CHR ''-'' # nat_text (nat (- n)) else nat_text (nat n))"

fun sql_text :: "json option \<Rightarrow> string + string option" where
  "sql_text None = Inl ''syntax error in statement''"
| "sql_text (Some JNull) = Inr None"
| "sql_text (Some (JStr s)) = Inr (Some s)"
| "sql_text (Some (JNum n)) = Inr (Some (int_text n))"
| "sql_text (Some (JBool b)) = Inr (Some (if b then ''true'' else ''false''))"
| "sql_text (Some _) = Inl ''unsupported parameter''"

text \<open>\<open>a !== b\<close> on values read from JSON: two objects are never the same object.\<close>

definition js_neq :: "json option \<Rightarrow> json option \<Rightarrow> bool" where
  "js_neq a b \<longleftrightarrow> a \<noteq> b \<or> (case a of Some j \<Rightarrow> is_object j | None \<Rightarrow> False)"

section \<open>The SQL functions\<close>

definition ok_json :: "(string \<times> json) list \<Rightarrow> json" where
  "ok_json kvs = JObj ((''success'', JBool True) # kvs)"

definition err_json :: "string \<Rightarrow> json" where
  "err_json code = JObj [(''success'', JBool False), (''error'', JStr code)]"

text \<open>\<open>assert_system\<close>: \<open>is_admin()\<close> or \<open>is_service_role()\<close>.\<close>

definition is_system :: "session \<Rightarrow> 'a bank_scheme \<Rightarrow> bool" where
  "is_system s d \<longleftrightarrow> app_is_service_role s \<or> (\<exists>u. app_user_id s = Some u \<and> u \<in> set (admins d))"

definition notify :: "notifKey \<Rightarrow> 'a bank_scheme \<Rightarrow> 'a bank_scheme" where
  "notify k d = d\<lparr>notifs := set_add k (notifs d)\<rparr>"

definition wallet_of :: "string \<Rightarrow> 'a money_scheme \<Rightarrow> wallet option" where
  "wallet_of u d = find (\<lambda>x. wl_profile x = u) (wallets d)"

definition topup_key :: "topupOrder \<Rightarrow> idem_key" where
  "topup_key o1 = (''topup:'', to_id o1)"

definition topup_legs :: "nat option \<Rightarrow> topupOrder \<Rightarrow> leg list" where
  "topup_legs v o1 =
     [\<lparr>leg_wallet = v, leg_account = ''wallet'', leg_delta = to_credit o1, leg_bonus = 0\<rparr>,
      \<lparr>leg_wallet = None, leg_account = ''gst_payable'', leg_delta = to_gst o1, leg_bonus = 0\<rparr>,
      \<lparr>leg_wallet = None, leg_account = ''razorpay_clearing'', leg_delta = - to_amount o1, leg_bonus = 0\<rparr>]"

definition rpc_verify_topup :: "string option \<Rightarrow> string option \<Rightarrow> ('a bank_scheme, json) stmt" where
  "rpc_verify_topup rzp_order rzp_payment s d =
     (if \<not> is_system s d then Inl ''FORBIDDEN: system or admin only''
      else case find (\<lambda>o1. Some (to_rzp_order o1) = rzp_order) (topups d) of
             None \<Rightarrow> Inr (err_json ''ORDER_NOT_FOUND'', d)
           | Some o1 \<Rightarrow>
               if to_status o1 = SUCCESSFUL then Inr (ok_json [(''replayed'', JBool True)], d)
               else case post_transaction ''TOPUP'' (to_amount o1) (topup_key o1)
                           (topup_legs (map_option wl_id (wallet_of (to_profile o1) d)) o1)
                           (Some (to_rzp_order o1)) d of
                      Inl e \<Rightarrow> Inl e
                    | Inr ((tid, rep), d1) \<Rightarrow>
                        Inr (ok_json [(''transaction_id'', JNum (int tid))],
                          notify (to_profile o1, ''PAYMENT_SUCCESSFUL_FAN'', ''system'', to_id o1)
                            (d1\<lparr>topups := map (\<lambda>x. if to_id x = to_id o1
                               then x\<lparr>to_status := SUCCESSFUL, to_rzp_payment := rzp_payment, to_txn := Some tid\<rparr>
                               else x) (topups d1)\<rparr>)))"

definition DAY_MS :: int where
  "DAY_MS = 24 * 60 * 60 * 1000"

definition abandoned :: "int \<Rightarrow> topupOrder \<Rightarrow> bool" where
  "abandoned now x \<longleftrightarrow> to_status x = PENDING \<and> to_created x < now - DAY_MS"

definition rpc_cleanup_abandoned_topups :: "('a bank_scheme, json) stmt" where
  "rpc_cleanup_abandoned_topups s d =
     (if \<not> is_system s d then Inl ''FORBIDDEN: system or admin only''
      else let old = filter (abandoned (sess_now s)) (topups d)
           in Inr (ok_json [(''marked_failed'', JNum (int (length old)))],
                fold (\<lambda>x. notify (to_profile x, ''PAYMENT_FAILED_FAN'', ''system'', to_id x)) old
                  (d\<lparr>topups := map (\<lambda>x. if abandoned (sess_now s) x then x\<lparr>to_status := FAILED\<rparr> else x)
                      (topups d)\<rparr>)))"

definition final_dispute :: "disputeStatus \<Rightarrow> bool" where
  "final_dispute st \<longleftrightarrow> st \<in> {WON, LOST, DS_CLOSED}"

text \<open>\<open>COALESCE(a, b)\<close> of SQL.\<close>

definition sql_coalesce :: "'a option \<Rightarrow> 'a option \<Rightarrow> 'a option" where
  "sql_coalesce a b = (case a of None \<Rightarrow> b | Some v \<Rightarrow> Some v)"

definition rpc_record_dispute ::
  "string option \<Rightarrow> string option \<Rightarrow> int \<Rightarrow> string option \<Rightarrow> disputeStatus \<Rightarrow> ('a bank_scheme, json) stmt" where
  "rpc_record_dispute rzp_dispute rzp_payment amount reason st s d =
     (if \<not> is_system s d then Inl ''FORBIDDEN: system or admin only''
      else if rzp_dispute = None \<or> amount \<le> 0 then Inr (err_json ''INVALID_INPUT'', d)
      else let v_txn = (case find (\<lambda>x. to_rzp_payment x \<noteq> None \<and> to_rzp_payment x = rzp_payment) (topups d) of
                          None \<Rightarrow> None | Some x \<Rightarrow> to_txn x)
           in case find (\<lambda>x. Some (di_rzp x) = rzp_dispute) (disputes d) of
                Some old \<Rightarrow>
                  Inr (ok_json [(''dispute_id'', JNum (int (di_id old))), (''updated'', JBool True)],
                    d\<lparr>disputes := map (\<lambda>x. if di_id x = di_id old
                       then x\<lparr>di_status := st, di_reason := sql_coalesce reason (di_reason x),
                              di_txn := sql_coalesce (di_txn x) v_txn,
                              di_resolved_at := (if final_dispute st then Some (sess_now s) else di_resolved_at x)\<rparr>
                       else x) (disputes d)\<rparr>)
              | None \<Rightarrow>
                  (let i = next_id d
                   in Inr (ok_json [(''dispute_id'', JNum (int i)), (''created'', JBool True)],
                        fold (\<lambda>a. notify (a, ''PLATFORM_ANNOUNCEMENT'', ''system'', i)) (finance_admins d)
                          (d\<lparr>next_id := Suc i, disputes := disputes d @
                             [\<lparr>di_id = i, di_txn = v_txn, di_rzp = the rzp_dispute, di_amount = amount,
                               di_reason = reason, di_status = st, di_resolved_at = None\<rparr>]\<rparr>))))"

section \<open>Top-up\<close>

text \<open>Phase 1: the settings row; its \<open>gst_rate\<close> text is read as a double, hence \<open>rnd\<close>.\<close>

definition sel_settings :: "('a bank_scheme, platformSettings option) stmt" where
  "sel_settings s d = Inr (settings d, d)"

definition gst_of :: "(rat \<Rightarrow> rat) \<Rightarrow> platformSettings option \<Rightarrow> int \<Rightarrow> int" where
  "gst_of rnd st credit =
     (let rate = rnd (case st of None \<Rightarrow> 18 / 100 | Some p \<Rightarrow> ps_gst_rate p)
      in js_round (rnd (of_int credit * rate)))"

definition topup_limits :: "platformSettings option \<Rightarrow> int \<Rightarrow> exn option" where
  "topup_limits st credit =
     (case st of
        None \<Rightarrow> None
      | Some p \<Rightarrow>
          if ps_min_topup p \<noteq> 0 \<and> credit < ps_min_topup p then Some (bad_request ''BELOW_MIN_TOPUP'')
          else if ps_max_topup p \<noteq> 0 \<and> credit > ps_max_topup p then Some (bad_request ''ABOVE_MAX_TOPUP'')
          else None)"

text \<open>Phase 3.\<close>

definition HALF_HOUR_MS :: int where
  "HALF_HOUR_MS = 30 * 60 * 1000"

definition reserving :: "string \<Rightarrow> int \<Rightarrow> topupOrder \<Rightarrow> bool" where
  "reserving u now x \<longleftrightarrow> to_profile x = u \<and> to_status x = PENDING \<and> to_created x > now - HALF_HOUR_MS"

definition reserved :: "string \<Rightarrow> int \<Rightarrow> 'a bank_scheme \<Rightarrow> int" where
  "reserved u now d = sum_list (map to_credit (filter (reserving u now) (topups d)))"

definition balance_of :: "string \<Rightarrow> 'a money_scheme \<Rightarrow> int" where
  "balance_of u d = (case wallet_of u d of None \<Rightarrow> 0 | Some x \<Rightarrow> wl_balance x)"

definition sel_balance :: "string \<Rightarrow> ('a bank_scheme, int) stmt" where
  "sel_balance u s d = Inr (if app_user_id s = Some u then balance_of u d else 0, d)"

definition sel_reserved :: "string \<Rightarrow> ('a bank_scheme, int) stmt" where
  "sel_reserved u s d = Inr (reserved u (sess_now s) d, d)"

definition ins_topup :: "string \<Rightarrow> int \<Rightarrow> int \<Rightarrow> int \<Rightarrow> string \<Rightarrow> ('a bank_scheme, unit) stmt" where
  "ins_topup u credit gst amount rzp s d =
     (if app_user_id s \<noteq> Some u then Inl ''new row violates row-level security policy for table topup_orders''
      else if \<not> 0 < credit then Inl ''violates check constraint topup_credit_positive''
      else if amount \<noteq> credit + gst then Inl ''violates check constraint topup_amount_consistent''
      else if rzp \<in> to_rzp_order ` set (topups d) then Inl ''duplicate key value violates unique constraint''
      else Inr ((), d\<lparr>next_id := Suc (next_id d), topups := topups d @
             [\<lparr>to_id = next_id d, to_profile = u, to_credit = credit, to_gst = gst, to_amount = amount,
               to_rzp_order = rzp, to_rzp_payment = None, to_status = PENDING, to_txn = None,
               to_created = sess_now s\<rparr>]\<rparr>))"

record topupResult =
  tr_orderId :: string
  tr_amountPaise :: int
  tr_creditPaise :: int
  tr_gstPaise :: int
  tr_currency :: string
  tr_keyId :: string

definition topup_record ::
  "string \<Rightarrow> platformSettings option \<Rightarrow> int \<Rightarrow> int \<Rightarrow> createdOrder \<Rightarrow> ('a bank_scheme, topupResult) txm" where
  "topup_record u st credit gst order =
     (let cap = (case st of None \<Rightarrow> None | Some p \<Rightarrow> ps_max_balance p);
          amount = credit + gst;
          record_it = tx_bind (execute (ins_topup u credit gst amount (co_orderId order)))
            (\<lambda>_. tx_return \<lparr>tr_orderId = co_orderId order, tr_amountPaise = amount, tr_creditPaise = credit,
                            tr_gstPaise = gst, tr_currency = co_currency order,
                            tr_keyId = co_providerKeyId order\<rparr>)
      in case cap of
           None \<Rightarrow> record_it
         | Some m \<Rightarrow>
             if m = 0 then record_it
             else tx_bind (execute (sel_balance u)) (\<lambda>w.
                  tx_bind (execute (sel_reserved u)) (\<lambda>r.
                  if w + r + credit > m then tx_throw (bad_request ''WALLET_BALANCE_CAP_EXCEEDED'')
                  else record_it)))"

text \<open>
  \<open>createTopup\<close>: \<open>creditPaise\<close> is any JavaScript number that is finite, \<open>stamp\<close> the text of
  \<open>Date.now()\<close>.  The three phases run against whatever the database has become in between; here
  they follow each other, and what is proved of \<open>topup_record\<close> is about any state.
\<close>

definition createTopup ::
  "(rat \<Rightarrow> rat) \<Rightarrow> paymentProvider \<Rightarrow> session \<Rightarrow> string \<Rightarrow> rat \<Rightarrow> string \<Rightarrow> ('a bank_scheme, topupResult) act" where
  "createTopup rnd P base u creditPaise stamp w =
     (if of_int \<lfloor>creditPaise\<rfloor> \<noteq> creditPaise \<or> creditPaise \<le> 0
      then (Inl (bad_request ''creditPaise must be a positive integer''), w)
      else let credit = \<lfloor>creditPaise\<rfloor> in
      case runAs base u (execute sel_settings) w of
        (Inl e, w1) \<Rightarrow> (Inl e, w1)
      | (Inr st, w1) \<Rightarrow>
          (let gst = gst_of rnd st credit; amount = credit + gst in
           case topup_limits st credit of
             Some e \<Rightarrow> (Inl e, w1)
           | None \<Rightarrow>
               (let receipt = ''topup_'' @ take 8 u @ ''_'' @ stamp;
                    w2 = w1\<lparr>w_log := w_log w1 @ [Ext ''createOrder'' [int_text amount, receipt]]\<rparr>
                in case createOrder P amount receipt of
                     Inl e \<Rightarrow> (Inl e, w2)
                   | Inr order \<Rightarrow> runAs base u (topup_record u st credit gst order) w2)))"

section \<open>Webhook\<close>

definition DISPUTE_STATUS :: "string \<Rightarrow> disputeStatus option" where
  "DISPUTE_STATUS = map_of [
     (''payment.dispute.created'', DS_OPEN),
     (''payment.dispute.under_review'', UNDER_REVIEW),
     (''payment.dispute.won'', WON),
     (''payment.dispute.lost'', LOST),
     (''payment.dispute.closed'', DS_CLOSED)]"

text \<open>The idempotent insert; it returns the new id, or nothing on a conflict.\<close>

definition ins_webhook :: "json option \<Rightarrow> json option \<Rightarrow> ('a bank_scheme, nat option) stmt" where
  "ins_webhook eventId ty s d =
     (case (sql_text eventId, sql_text ty) of
        (Inl e, _) \<Rightarrow> Inl e
      | (_, Inl e) \<Rightarrow> Inl e
      | (Inr None, _) \<Rightarrow> Inl ''null value in column event_id''
      | (Inr (Some i), Inr t) \<Rightarrow>
          if \<exists>x \<in> set (webhooks d). wh_provider x = ''razorpay'' \<and> wh_event_id x = i then Inr (None, d)
          else Inr (Some (next_id d), d\<lparr>next_id := Suc (next_id d), webhooks := webhooks d @
             [\<lparr>wh_id = next_id d, wh_provider = ''razorpay'', wh_event_id = i,
               wh_event_type = (case t of None \<Rightarrow> [] | Some v \<Rightarrow> v), wh_status = RECEIVED\<rparr>]\<rparr>))"

definition upd_webhook :: "webhookStatus \<Rightarrow> nat \<Rightarrow> ('a bank_scheme, unit) stmt" where
  "upd_webhook st i s d =
     Inr ((), d\<lparr>webhooks := map (\<lambda>x. if wh_id x = i then x\<lparr>wh_status := st\<rparr> else x) (webhooks d)\<rparr>)"

text \<open>An RPC with text arguments: an argument without SQL text fails the statement.\<close>

definition with_text :: "json option \<Rightarrow> (string option \<Rightarrow> ('d, 'a) stmt) \<Rightarrow> ('d, 'a) stmt" where
  "with_text v f s d = (case sql_text v of Inl e \<Rightarrow> Inl e | Inr t \<Rightarrow> f t s d)"

definition settle_payment :: "paymentProvider \<Rightarrow> json \<Rightarrow> nat \<Rightarrow> ('a bank_scheme, json) txm" where
  "settle_payment P event wid =
     (let payload = jget event ''payload'';
          entity = coalesce (jopt (jopt payload ''payment'') ''entity'') (jopt (jopt payload ''order'') ''entity'');
          paymentId = jopt entity ''id'';
          orderId = coalesce (jopt entity ''order_id'') (jopt entity ''id'')
      in tx_bind (tx_call (Ext ''fetchPayment'' []) (fetchPayment P paymentId)) (\<lambda>fetched.
         if fp_status fetched \<noteq> Some (JStr ''captured'') \<or> js_neq (fp_orderId fetched) orderId
         then tx_bind (execute (upd_webhook WH_FAILED wid))
                (\<lambda>_. tx_throw (bad_request ''PAYMENT_CROSS_CHECK_FAILED''))
         else tx_bind (rpc (with_text orderId (\<lambda>oi. with_text paymentId (rpc_verify_topup oi)))) (\<lambda>res.
              tx_bind (execute (upd_webhook PROCESSED wid)) (\<lambda>_.
              tx_return (JObj [(''processed'', JBool True),
                (''transaction'', the (coalesce (jget res ''transaction_id'') (Some JNull)))])))))"

definition record_dispute_event ::
  "json \<Rightarrow> string \<Rightarrow> json option \<Rightarrow> nat \<Rightarrow> ('a bank_scheme, json) txm" where
  "record_dispute_event event ty eventId wid =
     (let payload = jget event ''payload'';
          dd = jopt (jopt payload ''dispute'') ''entity'';
          paymentId = coalesce (jopt dd ''payment_id'') (jopt (jopt (jopt payload ''payment'') ''entity'') ''id'');
          st = (case DISPUTE_STATUS ty of None \<Rightarrow> DS_OPEN | Some x \<Rightarrow> x);
          amount = to_number (the (coalesce (jopt dd ''amount'') (Some (JNum 0))));
          reason = coalesce (jopt dd ''reason_code'') (coalesce (jopt dd ''reason_description'') (Some JNull))
      in tx_bind (rpc (with_text (coalesce (jopt dd ''id'') eventId) (\<lambda>di.
                       with_text (coalesce paymentId (Some JNull)) (\<lambda>pay.
                       with_text reason (\<lambda>re s d.
                         case amount of None \<Rightarrow> Inl ''invalid input syntax for type bigint''
                         | Some a \<Rightarrow> rpc_record_dispute di pay a re st s d))))) (\<lambda>res.
         tx_bind (execute (upd_webhook PROCESSED wid)) (\<lambda>_.
         tx_return (JObj [(''processed'', JBool True),
           (''dispute'', the (coalesce (jget res ''dispute_id'') (Some JNull)))]))))"

definition webhook_event_id :: "json \<Rightarrow> json option" where
  "webhook_event_id event =
     coalesce (jget event ''id'') (jopt (jopt (jopt (jget event ''payload'') ''payment'') ''entity'') ''id'')"

text \<open>The body of the transaction of \<open>handleWebhook\<close>.\<close>

definition webhook_body :: "paymentProvider \<Rightarrow> json \<Rightarrow> ('a bank_scheme, json) txm" where
  "webhook_body P event =
     (let eventId = webhook_event_id event; ty = jget event ''event''
      in tx_bind (execute (ins_webhook eventId (coalesce ty (Some (JStr ''unknown''))))) (\<lambda>inserted.
         case inserted of
           None \<Rightarrow> tx_return (JObj [(''replayed'', JBool True)])
         | Some wid \<Rightarrow>
             if ty \<in> {Some (JStr ''payment.captured''), Some (JStr ''order.paid'')} then settle_payment P event wid
             else (case coalesce ty None of
                     Some (JStr t) \<Rightarrow>
                       if starts_with ''payment.dispute.'' t then record_dispute_event event t eventId wid
                       else tx_bind (execute (upd_webhook PROCESSED wid))
                              (\<lambda>_. tx_return (JObj [(''ignored'', JStr t)]))
                   | None \<Rightarrow> tx_bind (execute (upd_webhook PROCESSED wid))
                       (\<lambda>_. tx_return (JObj (case ty of None \<Rightarrow> [] | Some v \<Rightarrow> [(''ignored'', v)])))
                   | Some _ \<Rightarrow> tx_throw (JsError ''event.event?.startsWith is not a function''))))"

definition handleWebhook ::
  "paymentProvider \<Rightarrow> (string \<Rightarrow> json option) \<Rightarrow> session \<Rightarrow> string \<Rightarrow> string option \<Rightarrow> ('a bank_scheme, json) act" where
  "handleWebhook P parse base rawBody sig w =
     (if \<not> verifyWebhookSignature P rawBody sig then (Inl (bad_request ''INVALID_SIGNATURE''), w)
      else case parse rawBody of
             None \<Rightarrow> (Inl (bad_request ''MALFORMED_PAYLOAD''), w)
           | Some event \<Rightarrow>
               if event = JNull then (Inl (JsError ''Cannot read properties of null''), w)
               else runAsService base (webhook_body P event) w)"

section \<open>The daily cleanup\<close>

text \<open>\<open>cleanupTopups\<close> of \<open>src/jobs/jobs.module.ts\<close>; the count is only logged.\<close>

definition cleanupTopups :: "session \<Rightarrow> ('a bank_scheme, unit) act" where
  "cleanupTopups base w =
     (case runAsService base (rpc rpc_cleanup_abandoned_topups) w of
        (Inl e, w') \<Rightarrow> (Inl e, w')
      | (Inr res, w') \<Rightarrow> (Inr (), w'))"

section \<open>Reading\<close>

text \<open>\<open>getBalance\<close>: balance and bonus; no wallet reads as zero.\<close>

definition getBalance :: "session \<Rightarrow> string \<Rightarrow> ('a bank_scheme, int \<times> int) act" where
  "getBalance base u =
     runAs base u (execute (\<lambda>s d. Inr (case wallet_of u d of None \<Rightarrow> (0, 0) | Some x \<Rightarrow> (wl_balance x, wl_bonus x), d)))"

text \<open>\<open>getHistory\<close>: the entries of the fan's wallet with their transactions, newest first.\<close>

definition getHistory :: "session \<Rightarrow> string \<Rightarrow> nat option \<Rightarrow> ('a bank_scheme, (txn \<times> int) list) act" where
  "getHistory base u limit =
     runAs base u (execute (\<lambda>s d. Inr (
       (case wallet_of u d of
          None \<Rightarrow> []
        | Some x \<Rightarrow>
            take (case limit of None \<Rightarrow> 50 | Some n \<Rightarrow> n)
              (concat (map (\<lambda>t. map (\<lambda>e. (t, le_delta e))
                 (filter (\<lambda>e. le_txn e = tn_id t \<and> le_wallet e = Some (wl_id x)) (entries d))) (rev (txns d))))), d)))"

end
