(* ===== verification/Wallet_Invariant.thy ===== *)
theory Wallet_Invariant
  imports Wallet
begin

text \<open>
  The invariant of the money core: the ledger is sound, and each top-up order has been credited
  through the ledger exactly if it is marked successful.  Every statement of the wallet keeps it,
  so every operation and every sequence of operations does.
\<close>

section \<open>Sums by transaction key\<close>

definition key_sum :: "idem_key \<Rightarrow> string \<Rightarrow> 'a money_scheme \<Rightarrow> int" where
  "key_sum k a d = sum_list (map le_delta
     (filter (\<lambda>e. le_account e = a \<and> (\<exists>t \<in> set (txns d). tn_id t = le_txn e \<and> tn_key t = k)) (entries d)))"

definition legs_sum :: "string \<Rightarrow> leg list \<Rightarrow> int" where
  "legs_sum a ls = sum_list (map leg_delta (filter (\<lambda>l. leg_account l = a) ls))"

lemma key_sum_cong: "txns d' = txns d \<Longrightarrow> entries d' = entries d \<Longrightarrow> key_sum k a d' = key_sum k a d"
  by (simp add: key_sum_def)

lemma find_txn_cong: "txns d' = txns d \<Longrightarrow> find_txn k d' = find_txn k d"
  by (simp add: find_txn_def)

lemma key_sum_post:
  assumes ok: "money_ok d" and p: "post_transaction ty amount key legs ref d = Inr ((tid, rep), d')"
    and new: "find_txn key d = None"
  shows "key_sum k a d' = key_sum k a d + (if k = key then legs_sum a legs else 0)"
proof -
  note n = post_new [OF p new]
  let ?t = "\<lparr>tn_id = tid, tn_type = ty, tn_amount = amount, tn_key = key, tn_ref = ref\<rparr>"
  let ?P = "\<lambda>d e. le_account e = a \<and> (\<exists>t \<in> set (txns d). tn_id t = le_txn e \<and> tn_key t = k)"
  have fresh: "tn_id t \<noteq> tid" if "t \<in> set (txns d)" for t
    using ok that n(1) by (auto simp: money_ok_def)
  have "le_txn e \<noteq> tid" if "e \<in> set (entries d)" for e
    using ok that fresh by (fastforce simp: money_ok_def)
  then have old: "filter (?P d') (entries d) = filter (?P d) (entries d)"
    by (intro filter_cong) (auto simp: n(4))
  have "?P d' (entry_of tid l) \<longleftrightarrow> leg_account l = a \<and> key = k" for l
    using fresh by (auto simp: n(4) entry_of_def)
  then have "filter (?P d') (map (entry_of tid) legs) =
      (if k = key then map (entry_of tid) (filter (\<lambda>l. leg_account l = a) legs) else [])"
    by (auto simp: filter_map comp_def)
  then have "sum_list (map le_delta (filter (?P d') (map (entry_of tid) legs))) =
      (if k = key then legs_sum a legs else 0)"
    by (simp add: legs_sum_def comp_def entry_of_def)
  with old show ?thesis unfolding key_sum_def n(5) by simp
qed

lemma key_sum_unused:
  assumes "find_txn k d = None"
  shows "key_sum k a d = 0"
proof -
  have "tn_key t \<noteq> k" if "t \<in> set (txns d)" for t
    using assms that unfolding find_txn_None by (metis imageI)
  then have "filter (\<lambda>e. le_account e = a \<and> (\<exists>t \<in> set (txns d). tn_id t = le_txn e \<and> tn_key t = k)) (entries d) = []"
    by (simp add: filter_empty_conv)
  then show ?thesis by (simp add: key_sum_def)
qed

lemma find_txn_post:
  assumes p: "post_transaction ty amount key legs ref d = Inr ((tid, rep), d')" and new: "find_txn key d = None"
  shows "find_txn k d' \<noteq> None \<longleftrightarrow> k = key \<or> find_txn k d \<noteq> None"
  using find_txn_None [of k d'] find_txn_None [of k d] by (auto simp: post_new(4) [OF p new])

section \<open>The invariant\<close>

definition topup_ok :: "'a bank_scheme \<Rightarrow> topupOrder \<Rightarrow> bool" where
  "topup_ok d x \<longleftrightarrow>
     to_id x < next_id d \<and> 0 < to_credit x \<and> to_amount x = to_credit x + to_gst x \<and>
     (to_status x = SUCCESSFUL \<longleftrightarrow> find_txn (topup_key x) d \<noteq> None) \<and>
     key_sum (topup_key x) ''wallet'' d = (if to_status x = SUCCESSFUL then to_credit x else 0)"

definition bank_ok :: "'a bank_scheme \<Rightarrow> bool" where
  "bank_ok d \<longleftrightarrow> money_ok d \<and> distinct (map to_id (topups d)) \<and>
     (\<forall>x \<in> set (topups d). topup_ok d x) \<and>
     (\<forall>t \<in> set (txns d). fst (tn_key t) = ''topup:'' \<longrightarrow> snd (tn_key t) < next_id d)"

lemma money_ok_cong:
  "money_ok d \<Longrightarrow> wallets d' = wallets d \<Longrightarrow> txns d' = txns d \<Longrightarrow> entries d' = entries d \<Longrightarrow>
   next_id d \<le> next_id d' \<Longrightarrow> money_ok d'"
  by (fastforce simp: money_ok_def)

text \<open>Statements that leave money and top-up orders alone.\<close>

lemma bank_ok_cong:
  assumes "bank_ok d" and "wallets d' = wallets d" and "txns d' = txns d" and "entries d' = entries d"
    and "next_id d \<le> next_id d'" and "topups d' = topups d"
  shows "bank_ok d'"
proof -
  have "topup_ok d' x" if "topup_ok d x" for x
    using that assms(5) by (simp add: topup_ok_def key_sum_cong [OF assms(3,4)] find_txn_cong [OF assms(3)])
  moreover have "money_ok d" using assms(1) by (simp add: bank_ok_def)
  then have "money_ok d'" by (rule money_ok_cong [OF _ assms(2-5)])
  ultimately show ?thesis using assms by (fastforce simp: bank_ok_def)
qed

lemma bank_ok_upd_webhook: "bank_ok d \<Longrightarrow> upd_webhook st i s d = Inr (a, d') \<Longrightarrow> bank_ok d'"
  by (auto simp: upd_webhook_def elim: bank_ok_cong)

lemma bank_ok_ins_webhook: "bank_ok d \<Longrightarrow> ins_webhook v t s d = Inr (a, d') \<Longrightarrow> bank_ok d'"
  by (auto simp: ins_webhook_def split: sum.splits option.splits if_splits elim!: bank_ok_cong)

lemma notify_frame [simp]:
  "wallets (notify k d) = wallets d" "txns (notify k d) = txns d" "entries (notify k d) = entries d"
  "next_id (notify k d) = next_id d" "topups (notify k d) = topups d" "disputes (notify k d) = disputes d"
  "webhooks (notify k d) = webhooks d" "settings (notify k d) = settings d"
  by (simp_all add: notify_def)

lemma fold_notify_frame [simp]:
  "wallets (fold (\<lambda>x. notify (f x)) xs d) = wallets d" "txns (fold (\<lambda>x. notify (f x)) xs d) = txns d"
  "entries (fold (\<lambda>x. notify (f x)) xs d) = entries d" "next_id (fold (\<lambda>x. notify (f x)) xs d) = next_id d"
  "topups (fold (\<lambda>x. notify (f x)) xs d) = topups d" "disputes (fold (\<lambda>x. notify (f x)) xs d) = disputes d"
  by (rule fold_frame; simp)+

lemma bank_ok_notify [simp]: "bank_ok d \<Longrightarrow> bank_ok (notify k d)"
  by (erule bank_ok_cong) simp_all

lemma bank_ok_record_dispute:
  "bank_ok d \<Longrightarrow> rpc_record_dispute di pay am re st s d = Inr (a, d') \<Longrightarrow> bank_ok d'"
  by (auto simp: rpc_record_dispute_def Let_def split: if_splits option.splits elim!: bank_ok_cong)

lemma bank_ok_map:
  assumes "bank_ok d" and "topups d' = map f (topups d)" and "\<And>x. to_id (f x) = to_id x"
    and "\<And>x. x \<in> set (topups d) \<Longrightarrow> topup_ok d' (f x)" and "money_ok d'"
    and "\<forall>t \<in> set (txns d'). fst (tn_key t) = ''topup:'' \<longrightarrow> snd (tn_key t) < next_id d'"
  shows "bank_ok d'"
proof -
  have "map to_id (topups d') = map to_id (topups d)" by (simp add: assms(2,3) comp_def)
  moreover have "\<forall>x \<in> set (topups d'). topup_ok d' x" using assms(4) by (auto simp: assms(2))
  ultimately show ?thesis using assms(1,5,6) by (simp add: bank_ok_def)
qed

lemma bank_ok_cleanup:
  assumes ok: "bank_ok d" and c: "rpc_cleanup_abandoned_topups s d = Inr (a, d')"
  shows "bank_ok d'"
proof -
  let ?f = "\<lambda>x. if abandoned (sess_now s) x then x\<lparr>to_status := FAILED\<rparr> else x"
  have f: "to_id (?f x) = to_id x" "to_credit (?f x) = to_credit x" "to_gst (?f x) = to_gst x"
    "to_amount (?f x) = to_amount x" "topup_key (?f x) = topup_key x"
    "to_status (?f x) = SUCCESSFUL \<longleftrightarrow> to_status x = SUCCESSFUL" for x
    by (auto simp: topup_key_def abandoned_def)
  have d': "wallets d' = wallets d" "txns d' = txns d" "entries d' = entries d" "next_id d' = next_id d"
    "topups d' = map ?f (topups d)"
    using c by (auto simp: rpc_cleanup_abandoned_topups_def Let_def split: if_splits)
  have "money_ok d'" using ok by (intro money_ok_cong [of d d']) (simp_all add: bank_ok_def d')
  moreover have "topup_ok d' (?f x)" if "x \<in> set (topups d)" for x
  proof -
    have "topup_ok d x" using ok that by (simp add: bank_ok_def)
    then show ?thesis
      unfolding topup_ok_def f d'(4) by (simp add: key_sum_cong [OF d'(2,3)] find_txn_cong [OF d'(2)])
  qed
  ultimately show ?thesis
    using ok by (intro bank_ok_map [OF ok d'(5) f(1)]) (simp_all add: bank_ok_def d'(2,4))
qed

lemma bank_ok_ins_topup:
  assumes ok: "bank_ok d" and c: "ins_topup u credit gst amount rzp s d = Inr (a, d')"
  shows "bank_ok d'"
proof -
  let ?o = "\<lparr>to_id = next_id d, to_profile = u, to_credit = credit, to_gst = gst, to_amount = amount,
     to_rzp_order = rzp, to_rzp_payment = None, to_status = PENDING, to_txn = None, to_created = sess_now s\<rparr>"
  have p: "0 < credit" "amount = credit + gst"
    and d': "d' = d\<lparr>next_id := Suc (next_id d), topups := topups d @ [?o]\<rparr>"
    using c by (auto simp: ins_topup_def split: if_splits)
  have fresh: "find_txn (topup_key ?o) d = None"
  proof -
    have "tn_key t \<noteq> topup_key ?o" if "t \<in> set (txns d)" for t
      using ok that by (fastforce simp: bank_ok_def topup_key_def)
    then show ?thesis unfolding find_txn_None by (metis imageE)
  qed
  have zero: "key_sum (topup_key ?o) ''wallet'' d = 0" by (rule key_sum_unused [OF fresh])
  have old: "topup_ok d' x" if "topup_ok d x" for x
    using that by (simp add: topup_ok_def d' key_sum_def find_txn_def)
  have "topup_ok d' ?o"
    using p fresh zero by (simp add: topup_ok_def d' key_sum_def find_txn_def)
  moreover have "money_ok d'" using ok by (intro money_ok_cong [of d d']) (simp_all add: bank_ok_def d')
  moreover have "next_id d \<notin> to_id ` set (topups d)" using ok by (auto simp: bank_ok_def topup_ok_def)
  ultimately show ?thesis using ok old by (auto simp: bank_ok_def d' less_Suc_eq)
qed

section \<open>Settlement\<close>

lemma topup_legs_sum [simp]: "legs_sum ''wallet'' (topup_legs v x) = to_credit x"
  by (simp add: legs_sum_def topup_legs_def)

text \<open>What \<open>rpc_verify_topup\<close> does when it settles an order.\<close>

lemma verify_topup_cases:
  assumes "rpc_verify_topup oi pay s d = Inr (r, d')"
  obtains (missing) "find (\<lambda>x. Some (to_rzp_order x) = oi) (topups d) = None" "d' = d" "r = err_json ''ORDER_NOT_FOUND''"
  | (already) x where "find (\<lambda>x. Some (to_rzp_order x) = oi) (topups d) = Some x" "to_status x = SUCCESSFUL" "d' = d"
      "r = ok_json [(''replayed'', JBool True)]"
  | (settles) x tid rep d1 where "find (\<lambda>x. Some (to_rzp_order x) = oi) (topups d) = Some x"
      "to_status x \<noteq> SUCCESSFUL"
      "post_transaction ''TOPUP'' (to_amount x) (topup_key x)
         (topup_legs (map_option wl_id (wallet_of (to_profile x) d)) x) (Some (to_rzp_order x)) d = Inr ((tid, rep), d1)"
      "d' = notify (to_profile x, ''PAYMENT_SUCCESSFUL_FAN'', ''system'', to_id x)
         (d1\<lparr>topups := map (\<lambda>y. if to_id y = to_id x
            then y\<lparr>to_status := SUCCESSFUL, to_rzp_payment := pay, to_txn := Some tid\<rparr> else y) (topups d1)\<rparr>)"
      "r = ok_json [(''transaction_id'', JNum (int tid))]"
  using assms
  by (auto simp: rpc_verify_topup_def split: if_splits option.splits sum.splits prod.splits)

lemma post_topups:
  fixes d :: "'a bank_scheme"
  assumes "post_transaction ty amount key legs ref d = Inr ((tid, rep), d')"
  shows "topups d' = topups d" "webhooks d' = webhooks d" "disputes d' = disputes d"
proof -
  have leg: "topups e' = topups e \<and> webhooks e' = webhooks e \<and> disputes e' = disputes e"
    if "apply_leg i l e = Inr e'" for i l and e e' :: "'a bank_scheme"
    using that by (auto simp: apply_leg_def Let_def split: option.splits if_splits)
  have legs': "topups e' = topups e \<and> webhooks e' = webhooks e \<and> disputes e' = disputes e"
    if "apply_legs i ls e = Inr e'" for i ls and e e' :: "'a bank_scheme"
    using that
  proof (induction ls arbitrary: e)
    case (Cons l ls)
    then obtain e1 where "apply_leg i l e = Inr e1" "apply_legs i ls e1 = Inr e'"
      by (cases "apply_leg i l e") simp_all
    with Cons.IH leg show ?case by metis
  qed simp
  show "topups d' = topups d" "webhooks d' = webhooks d" "disputes d' = disputes d"
    using assms legs'
    by (fastforce simp: post_transaction_def Let_def split: if_splits option.splits sum.splits)+
qed

lemma bank_ok_verify_topup:
  assumes ok: "bank_ok d" and c: "rpc_verify_topup oi pay s d = Inr (r, d')"
  shows "bank_ok d'"
  using c
proof (cases rule: verify_topup_cases)
  case (settles x tid rep d1)
  have x: "x \<in> set (topups d)" using settles(1) by (auto simp: find_Some_iff)
  have tx: "topup_ok d x" using ok x by (simp add: bank_ok_def)
  then have new: "find_txn (topup_key x) d = None" using settles(2) by (simp add: topup_ok_def)
  let ?f = "\<lambda>y. if to_id y = to_id x then y\<lparr>to_status := SUCCESSFUL, to_rzp_payment := pay, to_txn := Some tid\<rparr> else y"
  have f: "to_id (?f y) = to_id y" "to_credit (?f y) = to_credit y" "to_gst (?f y) = to_gst y"
    "to_amount (?f y) = to_amount y" "topup_key (?f y) = topup_key y" for y
    by (simp_all add: topup_key_def)
  have d': "txns d' = txns d1" "entries d' = entries d1" "next_id d' = next_id d1" "wallets d' = wallets d1"
    "topups d' = map ?f (topups d)"
    by (simp_all add: settles(4) post_topups [OF settles(3)])
  note n = post_new [OF settles(3) new]
  have m: "money_ok d" using ok by (simp add: bank_ok_def)
  have money: "money_ok d'"
    using money_ok_post [OF m settles(3)] by (rule money_ok_cong) (simp_all add: d')
  have ks: "key_sum k a d' = key_sum k a d + (if k = topup_key x then legs_sum a
      (topup_legs (map_option wl_id (wallet_of (to_profile x) d)) x) else 0)" for k a
    using key_sum_post [OF m settles(3) new] by (simp add: key_sum_cong [OF d'(1,2)])
  have ft: "find_txn k d' \<noteq> None \<longleftrightarrow> k = topup_key x \<or> find_txn k d \<noteq> None" for k
    using find_txn_post [OF settles(3) new] by (simp add: find_txn_cong [OF d'(1)])
  have each: "topup_ok d' (?f y)" if y: "y \<in> set (topups d)" for y
  proof -
    have ty: "topup_ok d y" using ok y by (simp add: bank_ok_def)
    show ?thesis
    proof (cases "to_id y = to_id x")
      case True
      with ok x y have "y = x"
        by (metis (no_types, lifting) bank_ok_def distinct_map inj_on_def)
      with tx new settles(2) show ?thesis
        unfolding topup_ok_def f ks ft by (simp add: d'(3) n(3))
    next
      case False
      then have "topup_key y \<noteq> topup_key x" by (simp add: topup_key_def)
      with ty False show ?thesis
        unfolding topup_ok_def f ks ft by (simp add: d'(3) n(3))
    qed
  qed
  have "\<forall>t \<in> set (txns d'). fst (tn_key t) = ''topup:'' \<longrightarrow> snd (tn_key t) < next_id d'"
    using ok tx by (auto simp: d'(1,3) n(3,4) bank_ok_def topup_key_def topup_ok_def)
  then show ?thesis using bank_ok_map [OF ok d'(5) f(1) each money] by blast
qed (use ok in auto)

section \<open>Operations\<close>

lemma keeps_webhook_body: "keeps bank_ok (webhook_body P event)"
proof -
  have settle: "keeps bank_ok (settle_payment P event wid)" for wid
    unfolding settle_payment_def Let_def
    by (intro keeps_bind keeps_if keeps_call keeps_return keeps_throw keeps_rpc keeps_execute)
      (auto simp: with_text_def split: sum.splits intro: bank_ok_verify_topup bank_ok_upd_webhook)
  have disp: "keeps bank_ok (record_dispute_event event ty eid wid)" for ty eid wid
    unfolding record_dispute_event_def Let_def
    by (intro keeps_bind keeps_if keeps_call keeps_return keeps_throw keeps_rpc keeps_execute)
      (auto simp: with_text_def split: sum.splits option.splits intro: bank_ok_record_dispute bank_ok_upd_webhook)
  have upd: "keeps bank_ok (tx_bind (execute (upd_webhook st wid)) (\<lambda>_. tx_return r))" for st wid r
    by (intro keeps_bind keeps_return keeps_execute) (rule bank_ok_upd_webhook)
  show ?thesis
    unfolding webhook_body_def Let_def
  proof (intro keeps_bind keeps_execute)
    fix inserted :: "nat option"
    show "keeps bank_ok (case inserted of None \<Rightarrow> tx_return (JObj [(''replayed'', JBool True)])
         | Some wid \<Rightarrow>
             if jget event ''event'' \<in> {Some (JStr ''payment.captured''), Some (JStr ''order.paid'')}
             then settle_payment P event wid
             else (case coalesce (jget event ''event'') None of
                     Some (JStr t) \<Rightarrow>
                       if starts_with ''payment.dispute.'' t
                       then record_dispute_event event t (webhook_event_id event) wid
                       else tx_bind (execute (upd_webhook PROCESSED wid)) (\<lambda>_. tx_return (JObj [(''ignored'', JStr t)]))
                   | None \<Rightarrow> tx_bind (execute (upd_webhook PROCESSED wid))
                       (\<lambda>_. tx_return (JObj (case jget event ''event'' of None \<Rightarrow> [] | Some v \<Rightarrow> [(''ignored'', v)])))
                   | Some _ \<Rightarrow> tx_throw (JsError ''event.event?.startsWith is not a function'')))"
      by (auto split: option.split json.split simp: settle disp upd)
  qed (rule bank_ok_ins_webhook)
qed

lemma bank_ok_handleWebhook:
  assumes "bank_ok (w_db w)"
  shows "bank_ok (w_db (snd (handleWebhook P parse base raw sig w)))"
  using assms by (simp add: handleWebhook_def as_service.run_keeps [OF keeps_webhook_body] split: option.split)

lemma keeps_topup_record: "keeps bank_ok (topup_record u st credit gst order)"
proof -
  have rec: "keeps bank_ok (tx_bind (execute (ins_topup u credit gst amount rzp)) (\<lambda>_. tx_return r))" for amount rzp r
    by (intro keeps_bind keeps_return keeps_execute) (rule bank_ok_ins_topup)
  have sel: "keeps bank_ok (execute (sel_balance u))" "keeps bank_ok (execute (sel_reserved u))"
    by (intro keeps_execute; simp add: sel_balance_def sel_reserved_def)+
  show ?thesis
    unfolding topup_record_def Let_def
    by (auto split: option.split intro!: keeps_bind keeps_if sel rec)
qed

lemma bank_ok_createTopup:
  assumes "bank_ok (w_db w)"
  shows "bank_ok (w_db (snd (createTopup rnd P base u credit stamp w)))"
proof -
  have "keeps bank_ok (execute sel_settings)" by (intro keeps_execute) (simp add: sel_settings_def)
  note k = as_user.run_keeps [OF this assms] as_user.run_keeps [OF keeps_topup_record]
  show ?thesis
  proof (cases "runAs base u (execute sel_settings) w")
    case (Pair r w1)
    with k(1) [of base u] have "bank_ok (w_db w1)" by simp
    then have "bank_ok (w_db (snd (runAs base u (topup_record u st c g o1) (w1\<lparr>w_log := l\<rparr>))))" for st c g o1 l
      by (intro k(2)) simp
    with assms Pair \<open>bank_ok (w_db w1)\<close> show ?thesis
      by (auto simp: createTopup_def Let_def split: sum.split option.split)
  qed
qed

end
