(* ===== verification/Wallet_Props.thy ===== *)
theory Wallet_Props
  imports Wallet_Invariant
begin

text \<open>
  Properties of the wallet: what a delivery can change, that money arrives exactly once, the
  prepaid ceiling, the chargeback lifecycle.
\<close>

section \<open>A concrete database\<close>

definition demo_order :: topupOrder where
  "demo_order = \<lparr>to_id = 3, to_profile = ''fan'', to_credit = 100, to_gst = 18, to_amount = 118,
     to_rzp_order = ''order_1'', to_rzp_payment = None, to_status = PENDING, to_txn = None, to_created = 0\<rparr>"

definition demo_bank :: bank where
  "demo_bank = \<lparr>
     wallets = [\<lparr>wl_id = 1, wl_profile = ''fan'', wl_balance = 0, wl_bonus = 0\<rparr>],
     txns = [], entries = [], next_id = 10, topups = [demo_order], webhooks = [], disputes = [], notifs = [],
     settings = Some \<lparr>ps_gst_rate = 18 / 100, ps_min_topup = 50, ps_max_topup = 1000, ps_max_balance = Some 300\<rparr>,
     admins = [], finance_admins = [''cfo'']\<rparr>"

definition demo_captured :: json where
  "demo_captured = JObj [(''id'', JStr ''evt_1''), (''event'', JStr ''payment.captured''),
     (''payload'', JObj [(''payment'', JObj [(''entity'', JObj [(''id'', JStr ''pay_1''),
       (''order_id'', JStr ''order_1'')])])])]"

definition demo_provider :: paymentProvider where
  "demo_provider = \<lparr>
     createOrder = (\<lambda>a r. Inr \<lparr>co_orderId = ''order_2'', co_amountPaise = a, co_currency = ''INR'', co_providerKeyId = ''key''\<rparr>),
     verifyWebhookSignature = (\<lambda>raw sig. sig = Some ''good''),
     fetchPayment = (\<lambda>pid. Inr \<lparr>fp_paymentId = pid, fp_orderId = Some (JStr ''order_1''), fp_amountPaise = Some 118,
       fp_status = Some (JStr ''captured'')\<rparr>)\<rparr>"

definition demo_world :: "bank world" where
  "demo_world = \<lparr>w_db = demo_bank, w_log = []\<rparr>"

lemma demo_bank_ok: "bank_ok demo_bank"
  by (simp add: bank_ok_def money_ok_def demo_bank_def demo_order_def topup_ok_def key_sum_def find_txn_def
      wallet_ok_def)

section \<open>Deliveries that change nothing\<close>

context payment_provider
begin

lemma unsigned_webhook:
  "\<not> truthy_str sig \<Longrightarrow>
   handleWebhook P parse base raw sig w = (Inl (bad_request ''INVALID_SIGNATURE''), w)"
  by (simp add: handleWebhook_def unsigned_refused)

end

lemma ins_webhook_conflict:
  "sql_text v = Inr (Some i) \<Longrightarrow> sql_text ty = Inr t \<Longrightarrow>
   \<exists>x \<in> set (webhooks d). wh_provider x = ''razorpay'' \<and> wh_event_id x = i \<Longrightarrow>
   ins_webhook v ty s d = Inr (None, d)"
  by (simp add: ins_webhook_def)

text \<open>
  A Razorpay delivery that is not signed, is signed by someone else, is not JSON, or whose
  event has been logged before leaves the database exactly as it was and calls nobody.
\<close>

theorem refused_and_replayed_deliveries_are_silent:
  assumes "P = razorpay hmac p"
    and "\<not> truthy_str sig \<or> the sig \<noteq> hmac (rz_webhookSecret p) raw \<or> parse raw = None \<or>
      (\<exists>event i t. parse raw = Some event \<and> event \<noteq> JNull \<and> sql_text (webhook_event_id event) = Inr (Some i) \<and>
         sql_text (coalesce (jget event ''event'') (Some (JStr ''unknown''))) = Inr t \<and>
         (\<exists>x \<in> set (webhooks (w_db w)). wh_provider x = ''razorpay'' \<and> wh_event_id x = i))"
  shows "snd (handleWebhook P parse base raw sig w) = w \<and>
    fst (handleWebhook P parse base raw sig w) \<in> {Inl (bad_request ''INVALID_SIGNATURE''),
      Inl (bad_request ''MALFORMED_PAYLOAD''), Inr (JObj [(''replayed'', JBool True)])}"
proof -
  let ?logged = "\<exists>event i t. parse raw = Some event \<and> event \<noteq> JNull \<and> sql_text (webhook_event_id event) = Inr (Some i) \<and>
         sql_text (coalesce (jget event ''event'') (Some (JStr ''unknown''))) = Inr t \<and>
         (\<exists>x \<in> set (webhooks (w_db w)). wh_provider x = ''razorpay'' \<and> wh_event_id x = i)"
  consider "\<not> truthy_str sig" | "truthy_str sig" "the sig \<noteq> hmac (rz_webhookSecret p) raw" | "parse raw = None" | ?logged
    using assms(2) by argo
  then show ?thesis
  proof cases
    case 1
    then show ?thesis unfolding assms(1) by (simp add: razorpay.unsigned_webhook)
  next
    case 2
    then have "\<not> verifyWebhookSignature P raw sig"
      by (auto simp: assms(1) razorpay_def rz_verifyWebhookSignature_def Let_def)
    then show ?thesis by (simp add: handleWebhook_def)
  next
    case 3
    then show ?thesis by (simp add: handleWebhook_def)
  next
    case 4
    then obtain event i t x where 4: "parse raw = Some event" "event \<noteq> JNull"
      "sql_text (webhook_event_id event) = Inr (Some i)"
      "sql_text (coalesce (jget event ''event'') (Some (JStr ''unknown''))) = Inr t"
      "x \<in> set (webhooks (w_db w))" "wh_provider x = ''razorpay'' \<and> wh_event_id x = i" by (elim exE conjE bexE) blast
    then have c: "ins_webhook (webhook_event_id event) (coalesce (jget event ''event'') (Some (JStr ''unknown'')))
        s (w_db w) = Inr (None, w_db w)" for s
      by (intro ins_webhook_conflict) auto
    have "webhook_body P event s \<lparr>tx_db = w_db w, tx_err = None, tx_log = w_log w\<rparr> =
        (Inr (JObj [(''replayed'', JBool True)]), \<lparr>tx_db = w_db w, tx_err = None, tx_log = w_log w\<rparr>)" for s
      unfolding webhook_body_def Let_def by (simp add: tx_bind_def execute_def c tx_return_def)
    with 4(1,2) show ?thesis by (simp add: handleWebhook_def runAsService_def transaction_def)
  qed
qed

theorem refused_and_replayed_deliveries_are_silent_witness:
  "snd (handleWebhook (razorpay (\<lambda>k b. k @ b) \<lparr>rz_client = None, rz_keyId = [], rz_webhookSecret = ''s''\<rparr>)
     (\<lambda>_. Some demo_captured) demo_session ''body'' (Some ''forged'') demo_world) = demo_world"
  using refused_and_replayed_deliveries_are_silent [OF refl, where sig = "Some ''forged''" and raw = "''body''"
      and hmac = "\<lambda>k b. k @ b" and p = "\<lparr>rz_client = None, rz_keyId = [], rz_webhookSecret = ''s''\<rparr>"
      and w = demo_world and parse = "\<lambda>_. Some demo_captured" and base = demo_session]
  by simp

text \<open>
  A dispute can hide behind its payment: when the provider's body carries no top-level id,
  the id of the payment stands in for it, so once any event of that payment has been logged, a
  later dispute event for it is answered as already processed and nothing is recorded.
\<close>

theorem dispute_without_event_id_is_dropped:
  assumes "verifyWebhookSignature P raw sig" and "parse raw = Some event"
    and "jget event ''id'' \<in> {None, Some JNull}"
    and "jopt (jopt (jopt (jget event ''payload'') ''payment'') ''entity'') ''id'' = Some (JStr pid)"
    and "jget event ''event'' = Some (JStr ty)" and "starts_with ''payment.dispute.'' ty"
    and "x \<in> set (webhooks (w_db w))" and "wh_provider x = ''razorpay''" and "wh_event_id x = pid"
  shows "handleWebhook P parse base raw sig w = (Inr (JObj [(''replayed'', JBool True)]), w)"
proof -
  have "webhook_event_id event = Some (JStr pid)" using assms(3,4) by (auto simp: webhook_event_id_def coalesce_def)
  then have c: "ins_webhook (webhook_event_id event) (coalesce (jget event ''event'') (Some (JStr ''unknown'')))
      s (w_db w) = Inr (None, w_db w)" for s
    using assms(5,7-9) by (intro ins_webhook_conflict) (auto simp: coalesce_def)
  have "webhook_body P event s \<lparr>tx_db = w_db w, tx_err = None, tx_log = w_log w\<rparr> =
      (Inr (JObj [(''replayed'', JBool True)]), \<lparr>tx_db = w_db w, tx_err = None, tx_log = w_log w\<rparr>)" for s
    unfolding webhook_body_def Let_def by (simp add: tx_bind_def execute_def c tx_return_def)
  moreover have "event \<noteq> JNull" using assms(5) by auto
  ultimately show ?thesis
    using assms(1,2) by (simp add: handleWebhook_def runAsService_def transaction_def)
qed

definition demo_dispute :: json where
  "demo_dispute = JObj [(''event'', JStr ''payment.dispute.created''),
     (''payload'', JObj [(''payment'', JObj [(''entity'', JObj [(''id'', JStr ''pay_1'')])]),
        (''dispute'', JObj [(''entity'', JObj [(''id'', JStr ''disp_1''), (''amount'', JNum 118)])])])]"

definition demo_logged :: "bank world" where
  "demo_logged = \<lparr>w_db = demo_bank\<lparr>webhooks := [\<lparr>wh_id = 4, wh_provider = ''razorpay'', wh_event_id = ''pay_1'',
     wh_event_type = ''payment.captured'', wh_status = PROCESSED\<rparr>]\<rparr>, w_log = []\<rparr>"

theorem dispute_without_event_id_is_dropped_witness:
  "handleWebhook demo_provider (\<lambda>_. Some demo_dispute) demo_session ''body'' (Some ''good'') demo_logged =
     (Inr (JObj [(''replayed'', JBool True)]), demo_logged) \<and> disputes (w_db demo_logged) = []"
  using dispute_without_event_id_is_dropped [where P = demo_provider and raw = "''body''" and sig = "Some ''good''"
      and parse = "\<lambda>_. Some demo_dispute" and event = demo_dispute and pid = "''pay_1''"
      and ty = "''payment.dispute.created''" and w = demo_logged and base = demo_session]
  by (simp add: demo_provider_def demo_dispute_def jopt_def starts_with_def demo_logged_def demo_bank_def)

text \<open>
  The cross-check rolls everything back: when Razorpay does not confirm a captured payment for
  the order in the event, the delivery is refused and the database is exactly as before, so the
  FAILED mark the code writes on the log row does not survive and a redelivery is examined afresh.
\<close>

theorem cross_check_failure_leaves_no_trace:
  assumes "verifyWebhookSignature P raw sig" and "parse raw = Some event"
    and "jget event ''event'' \<in> {Some (JStr ''payment.captured''), Some (JStr ''order.paid'')}"
    and "sql_text (webhook_event_id event) = Inr (Some i)" and "i \<notin> wh_event_id ` set (webhooks (w_db w))"
    and "entity = coalesce (jopt (jopt (jget event ''payload'') ''payment'') ''entity'')
                           (jopt (jopt (jget event ''payload'') ''order'') ''entity'')"
    and "fetchPayment P (jopt entity ''id'') = Inr f"
    and "fp_status f \<noteq> Some (JStr ''captured'') \<or>
         js_neq (fp_orderId f) (coalesce (jopt entity ''order_id'') (jopt entity ''id''))"
  shows "fst (handleWebhook P parse base raw sig w) = Inl (bad_request ''PAYMENT_CROSS_CHECK_FAILED'') \<and>
    w_db (snd (handleWebhook P parse base raw sig w)) = w_db w"
proof -
  let ?s = "base\<lparr>app_is_service_role := True\<rparr>" and ?t = "\<lparr>tx_db = w_db w, tx_err = None, tx_log = w_log w\<rparr>"
  have nn: "event \<noteq> JNull" using assms(3) by auto
  obtain ty where ty: "coalesce (jget event ''event'') (Some (JStr ''unknown'')) = Some (JStr ty)"
    using assms(3) by (auto simp: coalesce_def)
  obtain wid d1 where ins: "ins_webhook (webhook_event_id event) (Some (JStr ty)) ?s (w_db w) = Inr (Some wid, d1)"
    using assms(4,5) by (force simp: ins_webhook_def)
  have cond: "(fp_status f \<noteq> Some (JStr ''captured'') \<or>
         js_neq (fp_orderId f) (coalesce (jopt entity ''order_id'') (jopt entity ''id''))) = True" using assms(8) by simp
  have "fst (webhook_body P event ?s ?t) = Inl (bad_request ''PAYMENT_CROSS_CHECK_FAILED'')"
    unfolding webhook_body_def Let_def ty using assms(3)
    by (simp add: tx_bind_def execute_def ins settle_payment_def Let_def tx_call_def tx_throw_def upd_webhook_def
        assms(6)[symmetric] assms(7) cond del: disj_not1 de_Morgan_disj)
  then obtain t where "webhook_body P event ?s ?t = (Inl (bad_request ''PAYMENT_CROSS_CHECK_FAILED''), t)"
    by (cases "webhook_body P event ?s ?t") simp
  with assms(1,2) nn show ?thesis by (simp add: handleWebhook_def runAsService_def transaction_def)
qed

theorem cross_check_failure_leaves_no_trace_witness:
  "w_db (snd (handleWebhook (demo_provider\<lparr>fetchPayment := \<lambda>pid. Inr \<lparr>fp_paymentId = pid,
       fp_orderId = Some (JStr ''order_9''), fp_amountPaise = Some 118, fp_status = Some (JStr ''captured'')\<rparr>\<rparr>)
     (\<lambda>_. Some demo_captured) demo_session ''body'' (Some ''good'') demo_world)) = demo_bank"
  using cross_check_failure_leaves_no_trace [where event = demo_captured and i = "''evt_1''" and w = demo_world
      and raw = "''body''" and sig = "Some ''good''" and parse = "\<lambda>_. Some demo_captured" and base = demo_session
      and P = "demo_provider\<lparr>fetchPayment := \<lambda>pid. Inr \<lparr>fp_paymentId = pid,
       fp_orderId = Some (JStr ''order_9''), fp_amountPaise = Some 118, fp_status = Some (JStr ''captured'')\<rparr>\<rparr>", OF _ _ _ _ _ refl]
  by (simp add: demo_provider_def demo_captured_def demo_world_def demo_bank_def webhook_event_id_def
      coalesce_def jopt_def js_neq_def)

end
