(* ===== verification/Wallet_Settle.thy ===== *)
theory Wallet_Settle
  imports Wallet_Props
begin

text \<open>
  Properties of the wallet, continued: a captured payment credits its order's fan exactly, any
  sequence of operations keeps the ledger sound and settles each order at most once, the prepaid
  ceiling, and the chargeback record.
\<close>

section \<open>Settling an order\<close>

lemma moved_topup_legs:
  assumes "wallet_ok y" and "0 < to_credit x"
  shows "moved (topup_legs (Some k) x) y = (if wl_id y = k then y\<lparr>wl_balance := wl_balance y + to_credit x\<rparr> else y)"
  using assms by (auto simp: topup_legs_def move_wallet_def Let_def wallet_ok_def)

lemma apply_topup_legs:
  assumes "\<forall>y \<in> set (wallets d). wallet_ok y" and "0 < to_credit x"
  shows "apply_legs tid (topup_legs (Some k) x) d = Inr (d\<lparr>
     entries := entries d @ map (entry_of tid) (topup_legs (Some k) x),
     wallets := map (moved (topup_legs (Some k) x)) (wallets d)\<rparr>)"
proof -
  let ?l = "\<lparr>leg_wallet = Some k, leg_account = ''wallet'', leg_delta = to_credit x, leg_bonus = 0\<rparr>"
  let ?ws = "map (\<lambda>y. if wl_id y = k then move_wallet ?l y else y) (wallets d)"
  have ok: "\<forall>y \<in> set ?ws. wallet_ok y"
    using assms by (auto simp: move_wallet_def Let_def wallet_ok_def)
  have "?ws = map (moved (topup_legs (Some k) x)) (wallets d)" by (auto simp: topup_legs_def)
  then show ?thesis
    using ok by (simp add: topup_legs_def apply_leg_def Let_def entry_of_def)
qed

text \<open>\<open>rpc_verify_topup\<close> on a pending order of a fan with a wallet.\<close>

lemma verify_topup_settles:
  assumes ok: "bank_ok d" and s: "is_system s d"
    and x: "find (\<lambda>x. Some (to_rzp_order x) = oi) (topups d) = Some x" "to_status x \<noteq> SUCCESSFUL" "0 < to_amount x"
    and v: "wallet_of (to_profile x) d = Some v"
  shows "\<exists>d'. rpc_verify_topup oi pay s d = Inr (ok_json [(''transaction_id'', JNum (int (next_id d)))], d') \<and>
    wallets d' = map (\<lambda>y. if wl_id y = wl_id v then y\<lparr>wl_balance := wl_balance y + to_credit x\<rparr> else y) (wallets d) \<and>
    topups d' = map (\<lambda>y. if to_id y = to_id x
      then y\<lparr>to_status := SUCCESSFUL, to_rzp_payment := pay, to_txn := Some (next_id d)\<rparr> else y) (topups d) \<and>
    webhooks d' = webhooks d \<and> (to_profile x, ''PAYMENT_SUCCESSFUL_FAN'', ''system'', to_id x) \<in> set (notifs d')"
proof -
  let ?legs = "topup_legs (Some (wl_id v)) x"
  have "x \<in> set (topups d)" using x(1) by (auto simp: find_Some_iff)
  then have t: "topup_ok d x" using ok by (simp add: bank_ok_def)
  have new: "find_txn (topup_key x) d = None" using t x(2) by (simp add: topup_ok_def)
  have c: "0 < to_credit x" and am: "to_amount x = to_credit x + to_gst x" using t by (simp_all add: topup_ok_def)
  have wok: "\<forall>y \<in> set (wallets d). wallet_ok y" using ok by (simp add: bank_ok_def money_ok_def)
  have vin: "v \<in> set (wallets d)" using v by (auto simp: wallet_of_def find_Some_iff)
  let ?tn = "\<lparr>tn_id = next_id d, tn_type = ''TOPUP'', tn_amount = to_amount x, tn_key = topup_key x,
     tn_ref = Some (to_rzp_order x)\<rparr>"
  let ?d1 = "d\<lparr>txns := txns d @ [?tn], next_id := Suc (next_id d)\<rparr>"
  let ?d2 = "?d1\<lparr>entries := entries d @ map (entry_of (next_id d)) ?legs, wallets := map (moved ?legs) (wallets d)\<rparr>"
  have "apply_legs (next_id d) ?legs ?d1 = Inr ?d2"
    using apply_topup_legs [where d = ?d1 and tid = "next_id d" and k = "wl_id v"] wok c by simp
  moreover have "\<not> (\<exists>l \<in> set ?legs. \<exists>k. leg_wallet l = Some k \<and> k \<notin> wl_id ` set (wallets d))"
    using vin by (auto simp: topup_legs_def)
  moreover have "sum_list (map leg_delta ?legs) = 0" "\<not> length ?legs < 2" using am by (simp_all add: topup_legs_def)
  ultimately have post: "post_transaction ''TOPUP'' (to_amount x) (topup_key x) ?legs (Some (to_rzp_order x)) d =
      Inr ((next_id d, False), ?d2)"
    using new x(3) by (simp add: post_transaction_def Let_def)
  have ws: "map (moved ?legs) (wallets d) =
      map (\<lambda>y. if wl_id y = wl_id v then y\<lparr>wl_balance := wl_balance y + to_credit x\<rparr> else y) (wallets d)"
    using wok c by (auto simp: moved_topup_legs)
  show ?thesis using s x(1,2) v post unfolding ws by (simp add: rpc_verify_topup_def notify_def)
qed

lemma coalesce_num: "coalesce (Some (JNum n)) b = Some (JNum n)"
  by (simp add: coalesce_def)

lemma upd_webhook_frame:
  "upd_webhook st i s d = Inr (a, d') \<Longrightarrow> wallets d' = wallets d \<and> topups d' = topups d \<and> notifs d' = notifs d \<and>
     webhooks d' = map (\<lambda>x. if wh_id x = i then x\<lparr>wh_status := st\<rparr> else x) (webhooks d)"
  by (auto simp: upd_webhook_def)

lemma ins_webhook_new:
  assumes "sql_text v = Inr (Some i)" and "sql_text ty = Inr t" and "i \<notin> wh_event_id ` set (webhooks d)"
  shows "ins_webhook v ty s d = Inr (Some (next_id d), d\<lparr>next_id := Suc (next_id d), webhooks := webhooks d @
     [\<lparr>wh_id = next_id d, wh_provider = ''razorpay'', wh_event_id = i,
       wh_event_type = (case t of None \<Rightarrow> [] | Some v \<Rightarrow> v), wh_status = RECEIVED\<rparr>]\<rparr>)"
  using assms by (auto simp: ins_webhook_def)

text \<open>
  C12. A captured payment credits its order, once and exactly: when a signed, new
  \<open>payment.captured\<close> or \<open>order.paid\<close> event names a known unsettled order and Razorpay confirms it,
  the delivery is processed, the fan's wallet grows by the order's credit and no other wallet
  changes, the order is marked successful with the payment, the event is logged as processed and
  the fan is notified.
\<close>

theorem captured_payment_credits_exactly:
  assumes "bank_ok (w_db w)" and "verifyWebhookSignature P raw sig" and "parse raw = Some event"
    and ev: "jget event ''event'' \<in> {Some (JStr ''payment.captured''), Some (JStr ''order.paid'')}"
    and id: "sql_text (webhook_event_id event) = Inr (Some i)" "i \<notin> wh_event_id ` set (webhooks (w_db w))"
    and en: "entity = coalesce (jopt (jopt (jget event ''payload'') ''payment'') ''entity'')
                               (jopt (jopt (jget event ''payload'') ''order'') ''entity'')"
    and pid: "jopt entity ''id'' = Some (JStr pid)"
    and oid: "coalesce (jopt entity ''order_id'') (jopt entity ''id'') = Some (JStr oid)"
    and f: "fetchPayment P (Some (JStr pid)) = Inr f" "fp_status f = Some (JStr ''captured'')"
      "fp_orderId f = Some (JStr oid)"
    and x: "find (\<lambda>x. to_rzp_order x = oid) (topups (w_db w)) = Some x" "to_status x \<noteq> SUCCESSFUL" "0 < to_amount x"
    and v: "wallet_of (to_profile x) (w_db w) = Some v"
  shows "\<exists>tid w'. handleWebhook P parse base raw sig w =
      (Inr (JObj [(''processed'', JBool True), (''transaction'', JNum (int tid))]), w') \<and>
    wallets (w_db w') = map (\<lambda>y. if wl_id y = wl_id v then y\<lparr>wl_balance := wl_balance y + to_credit x\<rparr> else y)
      (wallets (w_db w)) \<and>
    topups (w_db w') = map (\<lambda>y. if to_id y = to_id x
      then y\<lparr>to_status := SUCCESSFUL, to_rzp_payment := Some pid, to_txn := Some tid\<rparr> else y) (topups (w_db w)) \<and>
    (\<exists>e \<in> set (webhooks (w_db w')). wh_event_id e = i \<and> wh_status e = PROCESSED) \<and>
    (to_profile x, ''PAYMENT_SUCCESSFUL_FAN'', ''system'', to_id x) \<in> set (notifs (w_db w'))"
proof -
  let ?d = "w_db w" and ?s = "base\<lparr>app_is_service_role := True\<rparr>"
  obtain ty where ty: "jget event ''event'' = Some (JStr ty)"
    "coalesce (jget event ''event'') (Some (JStr ''unknown'')) = Some (JStr ty)"
    using ev by (auto simp: coalesce_def)
  have nn: "event \<noteq> JNull" using ty by auto
  let ?e = "\<lparr>wh_id = next_id ?d, wh_provider = ''razorpay'', wh_event_id = i, wh_event_type = ty, wh_status = RECEIVED\<rparr>"
  let ?d1 = "?d\<lparr>next_id := Suc (next_id ?d), webhooks := webhooks ?d @ [?e]\<rparr>"
  have ins: "ins_webhook (webhook_event_id event) (Some (JStr ty)) ?s ?d = Inr (Some (next_id ?d), ?d1)"
    using ins_webhook_new [OF id(1) _ id(2), where ty = "Some (JStr ty)" and t = "Some ty" and s = ?s] by simp
  have ok1: "bank_ok ?d1" using assms(1) ins by (rule bank_ok_ins_webhook)
  obtain d2 where d2: "rpc_verify_topup (Some oid) (Some pid) ?s ?d1 =
      Inr (ok_json [(''transaction_id'', JNum (int (next_id ?d1)))], d2)"
    "wallets d2 = map (\<lambda>y. if wl_id y = wl_id v then y\<lparr>wl_balance := wl_balance y + to_credit x\<rparr> else y) (wallets ?d1)"
    "topups d2 = map (\<lambda>y. if to_id y = to_id x
      then y\<lparr>to_status := SUCCESSFUL, to_rzp_payment := Some pid, to_txn := Some (next_id ?d1)\<rparr> else y) (topups ?d1)"
    "webhooks d2 = webhooks ?d1" "(to_profile x, ''PAYMENT_SUCCESSFUL_FAN'', ''system'', to_id x) \<in> set (notifs d2)"
    using verify_topup_settles [OF ok1, where s = ?s and oi = "Some oid" and x = x and v = v and pay = "Some pid"] x v
    by (auto simp: is_system_def wallet_of_def)
  let ?d3 = "d2\<lparr>webhooks := map (\<lambda>x. if wh_id x = next_id ?d then x\<lparr>wh_status := PROCESSED\<rparr> else x) (webhooks d2)\<rparr>"
  have upd: "upd_webhook PROCESSED (next_id ?d) ?s d2 = Inr ((), ?d3)" by (simp add: upd_webhook_def)
  have call: "with_text (Some (JStr oid)) (\<lambda>oi. with_text (Some (JStr pid)) (rpc_verify_topup oi)) ?s ?d1 =
      Inr (ok_json [(''transaction_id'', JNum (int (next_id ?d1)))], d2)"
    using d2(1) by (simp add: with_text_def)
  let ?r = "JObj [(''processed'', JBool True), (''transaction'', JNum (int (next_id ?d1)))]"
  have "webhook_body P event ?s \<lparr>tx_db = ?d, tx_err = None, tx_log = w_log w\<rparr> =
      (Inr ?r, \<lparr>tx_db = ?d3, tx_err = None, tx_log = w_log w @ [Ext ''fetchPayment'' []]\<rparr>)"
    unfolding webhook_body_def Let_def ty(2)
    using ev by (simp add: ty(1) tx_bind_def execute_def ins settle_payment_def Let_def tx_call_def tx_return_def
        en [symmetric] pid oid [unfolded pid] pid f js_neq_def rpc_def call upd ok_json_def coalesce_num)
  then have h: "handleWebhook P parse base raw sig w =
      (Inr ?r, \<lparr>w_db = ?d3, w_log = w_log w @ [Ext ''fetchPayment'' []]\<rparr>)"
    using assms(2,3) nn by (simp add: handleWebhook_def runAsService_def transaction_def)
  show ?thesis
    by (intro exI conjI, rule h) (use d2(2-5) in auto)
qed

theorem captured_payment_credits_exactly_witness:
  "\<exists>tid w'. handleWebhook demo_provider (\<lambda>_. Some demo_captured) demo_session ''body'' (Some ''good'') demo_world =
      (Inr (JObj [(''processed'', JBool True), (''transaction'', JNum (int tid))]), w') \<and>
    balance_of ''fan'' (w_db w') = 100"
proof -
  let ?v = "\<lparr>wl_id = 1, wl_profile = ''fan'', wl_balance = 0, wl_bonus = 0\<rparr>"
  have "\<exists>tid w'. handleWebhook demo_provider (\<lambda>_. Some demo_captured) demo_session ''body'' (Some ''good'') demo_world =
      (Inr (JObj [(''processed'', JBool True), (''transaction'', JNum (int tid))]), w') \<and>
    wallets (w_db w') = map (\<lambda>y. if wl_id y = wl_id ?v then y\<lparr>wl_balance := wl_balance y + to_credit demo_order\<rparr> else y)
      (wallets (w_db demo_world))"
    using captured_payment_credits_exactly [where event = demo_captured and i = "''evt_1''" and w = demo_world
        and raw = "''body''" and sig = "Some ''good''" and parse = "\<lambda>_. Some demo_captured" and base = demo_session
        and P = demo_provider and pid = "''pay_1''" and oid = "''order_1''" and x = demo_order and v = ?v
        and f = "\<lparr>fp_paymentId = Some (JStr ''pay_1''), fp_orderId = Some (JStr ''order_1''), fp_amountPaise = Some 118,
          fp_status = Some (JStr ''captured'')\<rparr>", OF _ _ _ _ _ _ refl] demo_bank_ok
    by (fastforce simp: demo_provider_def demo_captured_def demo_world_def demo_bank_def demo_order_def
        webhook_event_id_def coalesce_def jopt_def wallet_of_def)
  then show ?thesis by (fastforce simp: demo_world_def demo_bank_def demo_order_def balance_of_def wallet_of_def)
qed

section \<open>Any sequence of operations\<close>

text \<open>
  What can happen to the tables of the wallet: a fan's top-up, a delivery, the daily cleanup, each
  with the session it runs under and the answers of the gateway at that time.
\<close>

datatype wallet_op =
    TopupOp "rat \<Rightarrow> rat" paymentProvider session string rat string
  | WebhookOp paymentProvider "string \<Rightarrow> json option" session string "string option"
  | CleanupOp session

fun wallet_step :: "wallet_op \<Rightarrow> 'a bank_scheme world \<Rightarrow> 'a bank_scheme world" where
  "wallet_step (TopupOp rnd P base u credit stamp) w = snd (createTopup rnd P base u credit stamp w)"
| "wallet_step (WebhookOp P parse base raw sig) w = snd (handleWebhook P parse base raw sig w)"
| "wallet_step (CleanupOp base) w = snd (cleanupTopups base w)"

lemma bank_ok_cleanupTopups: "bank_ok (w_db w) \<Longrightarrow> bank_ok (w_db (snd (cleanupTopups base w)))"
proof -
  assume ok: "bank_ok (w_db w)"
  have "keeps bank_ok (rpc rpc_cleanup_abandoned_topups)" by (rule keeps_rpc) (rule bank_ok_cleanup)
  from as_service.run_keeps [OF this ok, where base = base] show ?thesis
    by (auto simp: cleanupTopups_def split: prod.split sum.split)
qed

lemma bank_ok_step: "bank_ok (w_db w) \<Longrightarrow> bank_ok (w_db (wallet_step x w))"
  by (cases x) (simp_all add: bank_ok_createTopup bank_ok_handleWebhook bank_ok_cleanupTopups)

lemma count_txns:
  assumes "money_ok d"
  shows "length (filter (\<lambda>t. tn_key t = k) (txns d)) = (if find_txn k d \<noteq> None then 1 else 0)"
proof -
  have "length (filter (\<lambda>t. tn_key t = k) ts) = (if k \<in> tn_key ` set ts then 1 else 0)"
    if "distinct (map tn_key ts)" for ts :: "txn list"
    using that by (induction ts) (auto simp: filter_empty_conv image_iff)
  with assms show ?thesis by (simp add: money_ok_def find_txn_None)
qed

text \<open>
  C13. The money core cannot drift: after any sequence of top-ups, deliveries (repeated, reordered,
  forged, for abandoned or already settled orders) and cleanups, every transaction's entries sum
  to zero, every wallet's balance is not negative and is the sum of its entries, and each order
  has been credited to a wallet exactly once if it is successful and never otherwise.
\<close>

theorem wallet_books_always_balance:
  assumes "bank_ok (w_db w)"
  shows "let d = w_db (fold wallet_step ops w) in bank_ok d \<and>
    (\<forall>t \<in> set (txns d). txn_sum (tn_id t) (entries d) = 0) \<and>
    (\<forall>x \<in> set (wallets d). 0 \<le> wl_balance x \<and> wl_balance x = wallet_sum (wl_id x) (entries d)) \<and>
    (\<forall>x \<in> set (topups d). key_sum (topup_key x) ''wallet'' d = (if to_status x = SUCCESSFUL then to_credit x else 0) \<and>
       length (filter (\<lambda>t. tn_key t = topup_key x) (txns d)) = (if to_status x = SUCCESSFUL then 1 else 0))"
proof -
  have ok: "bank_ok (w_db (fold wallet_step ops w))" using assms by (induction ops arbitrary: w) (simp_all add: bank_ok_step)
  then have m: "money_ok (w_db (fold wallet_step ops w))"
    and t: "\<And>x. x \<in> set (topups (w_db (fold wallet_step ops w))) \<Longrightarrow> topup_ok (w_db (fold wallet_step ops w)) x"
    by (simp_all add: bank_ok_def)
  from m have t0: "\<And>t. t \<in> set (txns (w_db (fold wallet_step ops w))) \<Longrightarrow> txn_sum (tn_id t) (entries (w_db (fold wallet_step ops w))) = 0"
    and v: "\<And>x. x \<in> set (wallets (w_db (fold wallet_step ops w))) \<Longrightarrow>
      0 \<le> wl_balance x \<and> wl_balance x = wallet_sum (wl_id x) (entries (w_db (fold wallet_step ops w)))"
    by (auto simp: money_ok_def wallet_ok_def)
  let ?d = "w_db (fold wallet_step ops w)"
  have t': "key_sum (topup_key x) ''wallet'' ?d = (if to_status x = SUCCESSFUL then to_credit x else 0) \<and>
      (if find_txn (topup_key x) ?d \<noteq> None then 1 else 0) = (if to_status x = SUCCESSFUL then 1 else (0 :: nat))"
    if "x \<in> set (topups ?d)" for x
    using t [OF that] by (simp add: topup_ok_def)
  show ?thesis
    unfolding Let_def count_txns [OF m] using ok t0 v t'
    by (intro conjI ballI) blast+
qed

theorem wallet_books_always_balance_witness:
  "bank_ok (w_db (fold wallet_step
     [CleanupOp demo_session, WebhookOp demo_provider (\<lambda>_. Some demo_captured) demo_session ''body'' (Some ''good''),
      WebhookOp demo_provider (\<lambda>_. Some demo_captured) demo_session ''body'' (Some ''good'')] demo_world))"
proof -
  have "bank_ok (w_db demo_world)" by (simp add: demo_bank_ok demo_world_def)
  then show ?thesis by (rule wallet_books_always_balance [unfolded Let_def, THEN conjunct1])
qed
end
