(* ===== verification/Wallet_Limits.thy ===== *)
theory Wallet_Limits
  imports Wallet_Settle
begin

text \<open>
  Properties of the wallet, continued: what a top-up request is answered, the prepaid ceiling, and
  the chargeback record.
\<close>

section \<open>Requesting a top-up\<close>

definition new_topup :: "string \<Rightarrow> int \<Rightarrow> int \<Rightarrow> string \<Rightarrow> session \<Rightarrow> 'a bank_scheme \<Rightarrow> topupOrder" where
  "new_topup u credit gst rzp s d = \<lparr>to_id = next_id d, to_profile = u, to_credit = credit, to_gst = gst,
     to_amount = credit + gst, to_rzp_order = rzp, to_rzp_payment = None, to_status = PENDING, to_txn = None,
     to_created = sess_now s\<rparr>"

text \<open>An accepted phase 3 is the insertion of one order, after the ceiling held.\<close>

lemma ins_topup_ok:
  assumes "ins_topup u credit gst (credit + gst) rzp s d = Inr (a, d')"
  shows "d' = d\<lparr>next_id := Suc (next_id d), topups := topups d @ [new_topup u credit gst rzp s d]\<rparr>"
    "rzp \<notin> to_rzp_order ` set (topups d)" "0 < credit" "app_user_id s = Some u"
  using assms by (auto simp: ins_topup_def new_topup_def split: if_splits)

definition under_ceiling :: "string \<Rightarrow> platformSettings option \<Rightarrow> int \<Rightarrow> session \<Rightarrow> 'a bank_scheme \<Rightarrow> bool" where
  "under_ceiling u st credit s d \<longleftrightarrow>
     (case st of None \<Rightarrow> True | Some p \<Rightarrow>
        (case ps_max_balance p of None \<Rightarrow> True
         | Some m \<Rightarrow> m = 0 \<or> balance_of u d + reserved u (sess_now s) d + credit \<le> m))"

lemma topup_record_cases:
  fixes w :: "'a bank_scheme world"
  assumes "runAs base u (topup_record u st credit gst order) w = (r, w')" and "s = base\<lparr>app_user_id := Some u\<rparr>"
  obtains (rejected) e where "r = Inl e" "w' = w"
  | (accepted) "under_ceiling u st credit s (w_db w)" "w_log w' = w_log w"
      "r = Inr \<lparr>tr_orderId = co_orderId order, tr_amountPaise = credit + gst, tr_creditPaise = credit,
         tr_gstPaise = gst, tr_currency = co_currency order, tr_keyId = co_providerKeyId order\<rparr>"
      "ins_topup u credit gst (credit + gst) (co_orderId order) s (w_db w) = Inr ((), w_db w')"
proof -
  have s: "app_user_id s = Some u" by (simp add: assms(2))
  have eq: "(r, w') = transaction s (topup_record u st credit gst order) w"
    using assms by (simp add: runAs_def)
  let ?I = "ins_topup u credit gst (credit + gst) (co_orderId order) s (w_db w)"
  have body: "topup_record u st credit gst order s \<lparr>tx_db = w_db w, tx_err = None, tx_log = w_log w\<rparr> =
      (if under_ceiling u st credit s (w_db w)
       then (case ?I of Inl msg \<Rightarrow> (Inl (PgError msg), \<lparr>tx_db = w_db w, tx_err = Some (PgError msg), tx_log = w_log w\<rparr>)
             | Inr (a, d) \<Rightarrow> (Inr \<lparr>tr_orderId = co_orderId order, tr_amountPaise = credit + gst, tr_creditPaise = credit,
                 tr_gstPaise = gst, tr_currency = co_currency order, tr_keyId = co_providerKeyId order\<rparr>,
                 \<lparr>tx_db = d, tx_err = None, tx_log = w_log w\<rparr>))
       else (Inl (bad_request ''WALLET_BALANCE_CAP_EXCEEDED''), \<lparr>tx_db = w_db w, tx_err = None, tx_log = w_log w\<rparr>))"
    using s by (cases ?I) (auto simp: topup_record_def under_ceiling_def Let_def tx_defs sel_balance_def
        sel_reserved_def split: option.split)
  show thesis
  proof (cases "under_ceiling u st credit s (w_db w)")
    case False
    with eq body show thesis by (intro rejected) (simp_all add: transaction_def)
  next
    case True
    then show thesis
      using eq body rejected accepted by (cases ?I) (auto simp: transaction_def)
  qed
qed

text \<open>
  C14. The prepaid ceiling: in whatever state the recording phase runs, it accepts only if the
  fan's balance with every order reserved in the last half hour, the new one included, stays within the
  cap; it then adds exactly that one pending order, and otherwise changes nothing.
\<close>

theorem prepaid_ceiling_holds:
  fixes w :: "'a bank_scheme world"
  assumes "runAs base u (topup_record u (Some p) credit gst order) w = (r, w')"
    and "ps_max_balance p = Some m" and "m \<noteq> 0"
  shows "(\<forall>e. r = Inl e \<longrightarrow> w' = w) \<and>
    (\<forall>x. r = Inr x \<longrightarrow> balance_of u (w_db w') + reserved u (sess_now base) (w_db w') \<le> m \<and>
       topups (w_db w') = topups (w_db w) @ [new_topup u credit gst (co_orderId order) base (w_db w)] \<and>
       wallets (w_db w') = wallets (w_db w) \<and> tr_amountPaise x = credit + gst)"
  using assms(1) refl
proof (cases rule: topup_record_cases)
  case accepted
  note i = ins_topup_ok [OF accepted(4)]
  have "new_topup u credit gst rzp (base\<lparr>app_user_id := Some u\<rparr>) d = new_topup u credit gst rzp base d"
    for rzp and d :: "'a bank_scheme" by (simp add: new_topup_def)
  moreover have "reserving u (sess_now base) (new_topup u credit gst (co_orderId order) base (w_db w))"
    by (simp add: reserving_def new_topup_def HALF_HOUR_MS_def)
  moreover have "to_credit (new_topup u credit gst rzp base d) = credit" for rzp and d :: "'a bank_scheme"
    by (simp add: new_topup_def)
  ultimately show ?thesis
    using accepted(1,3) assms(2,3) i(1)
    by (auto simp: under_ceiling_def reserved_def balance_of_def wallet_of_def)
qed simp

definition demo_created :: createdOrder where
  "demo_created = \<lparr>co_orderId = ''order_2'', co_amountPaise = 236, co_currency = ''INR'', co_providerKeyId = ''key''\<rparr>"

theorem prepaid_ceiling_holds_witness:
  "\<exists>x w'. runAs demo_session ''fan'' (topup_record ''fan'' (settings demo_bank) 200 36 demo_created) demo_world =
     (Inr x, w') \<and> balance_of ''fan'' (w_db w') + reserved ''fan'' 0 (w_db w') \<le> 300 \<and> tr_amountPaise x = 236"
proof -
  let ?p = "\<lparr>ps_gst_rate = 18 / 100, ps_min_topup = 50, ps_max_topup = 1000, ps_max_balance = Some 300\<rparr>"
  have p: "settings demo_bank = Some ?p" by (simp add: demo_bank_def)
  obtain x w' where r: "runAs demo_session ''fan'' (topup_record ''fan'' (Some ?p) 200 36 demo_created) demo_world = (Inr x, w')"
    by (simp add: runAs_def transaction_def topup_record_def Let_def tx_defs sel_balance_def sel_reserved_def
        ins_topup_def demo_session_def demo_world_def demo_bank_def demo_order_def demo_created_def balance_of_def
        wallet_of_def reserved_def reserving_def HALF_HOUR_MS_def)
  show ?thesis
    unfolding p
  proof (intro exI conjI)
    have now: "sess_now demo_session = 0" by (simp add: demo_session_def)
    note h = prepaid_ceiling_holds [OF r, where m = 300, simplified, THEN conjunct1, unfolded now]
      prepaid_ceiling_holds [OF r, where m = 300, simplified]
    show "runAs demo_session ''fan'' (topup_record ''fan'' (Some ?p) 200 36 demo_created) demo_world = (Inr x, w')" by (rule r)
    show "balance_of ''fan'' (w_db w') + reserved ''fan'' 0 (w_db w') \<le> 300" by (rule h(1))
    show "tr_amountPaise x = 236" using h(2) by simp
  qed
qed

text \<open>
  What a top-up request leads to: a credit that is not a positive integer or is outside the
  platform's limits is refused before the gateway is called; every refusal leaves the database as
  it was; an acceptance called the gateway once, with the credit plus the rounded tax, and
  recorded one pending order of exactly these amounts under the gateway's order id.
\<close>

theorem topup_request_outcome:
  fixes w :: "'a bank_scheme world"
  assumes "createTopup rnd P base u c stamp w = (r, w')"
    and "st = settings (w_db w)" and "gst = gst_of rnd st \<lfloor>c\<rfloor>"
  shows "(\<forall>e. r = Inl e \<longrightarrow> w_db w' = w_db w) \<and>
    (c \<le> 0 \<or> c \<notin> \<int> \<or> topup_limits st \<lfloor>c\<rfloor> \<noteq> None \<longrightarrow> (\<exists>e. r = Inl e) \<and> w' = w) \<and>
    (\<forall>x. r = Inr x \<longrightarrow> of_int (tr_creditPaise x) = c \<and> tr_gstPaise x = gst \<and> tr_amountPaise x = tr_creditPaise x + gst \<and>
       w_log w' = w_log w @ [Ext ''createOrder'' [int_text (tr_amountPaise x), ''topup_'' @ take 8 u @ ''_'' @ stamp]] \<and>
       (\<exists>order. createOrder P (tr_amountPaise x) (''topup_'' @ take 8 u @ ''_'' @ stamp) = Inr order \<and>
          tr_orderId x = co_orderId order) \<and>
       topups (w_db w') = topups (w_db w) @
         [new_topup u (tr_creditPaise x) gst (tr_orderId x) base (w_db w)])"
proof -
  have int: "of_int \<lfloor>c\<rfloor> \<noteq> c \<longleftrightarrow> c \<notin> \<int>" by (metis Ints_cases Ints_of_int floor_of_int)
  have sel: "runAs base u (execute sel_settings) w = (Inr st, w)"
    by (simp add: runAs_def transaction_def execute_def sel_settings_def assms(2))
  let ?am = "\<lfloor>c\<rfloor> + gst" and ?rc = "''topup_'' @ take 8 u @ ''_'' @ stamp"
  let ?w = "w\<lparr>w_log := w_log w @ [Ext ''createOrder'' [int_text ?am, ?rc]]\<rparr>"
  show ?thesis
  proof (cases "c \<le> 0 \<or> c \<notin> \<int> \<or> topup_limits st \<lfloor>c\<rfloor> \<noteq> None")
    case True
    then have "\<exists>e. r = Inl e \<and> w' = w"
      using assms(1) int by (auto simp: createTopup_def sel Let_def split: if_splits option.splits)
    then show ?thesis by auto
  next
    case False
    then have "createTopup rnd P base u c stamp w = (case createOrder P ?am ?rc of Inl e \<Rightarrow> (Inl e, ?w)
        | Inr order \<Rightarrow> runAs base u (topup_record u st \<lfloor>c\<rfloor> gst order) ?w)"
      using int by (simp add: createTopup_def sel Let_def assms(3) [symmetric] cong: sum.case_cong)
    then have r: "(case createOrder P ?am ?rc of Inl e \<Rightarrow> (Inl e, ?w)
        | Inr order \<Rightarrow> runAs base u (topup_record u st \<lfloor>c\<rfloor> gst order) ?w) = (r, w')"
      using assms(1) by argo
    show ?thesis
    proof (cases "createOrder P ?am ?rc")
      case (Inl e)
      with r False show ?thesis by auto
    next
      case (Inr order)
      with r have run: "runAs base u (topup_record u st \<lfloor>c\<rfloor> gst order) ?w = (r, w')" by simp
      from run refl show ?thesis
      proof (cases rule: topup_record_cases)
        case rejected
        with False show ?thesis by simp
      next
        case accepted
        note i = ins_topup_ok(1) [OF accepted(4)]
        have "of_int \<lfloor>c\<rfloor> = c" using False int by blast
        with False Inr accepted(2,3) i show ?thesis by (simp add: new_topup_def)
      qed
    qed
  qed
qed

theorem topup_request_outcome_witness:
  "\<exists>x. fst (createTopup (\<lambda>x. x) demo_provider demo_session ''fan'' 100 ''1'' demo_world) = Inr x \<and> tr_gstPaise x = 18 \<and>
     tr_amountPaise x = 118"
proof -
  obtain x w' where r: "createTopup (\<lambda>x. x) demo_provider demo_session ''fan'' 100 ''1'' demo_world = (Inr x, w')"
    by (simp add: createTopup_def Let_def runAs_def transaction_def topup_record_def tx_defs sel_balance_def
        sel_reserved_def sel_settings_def ins_topup_def demo_session_def demo_world_def demo_bank_def demo_order_def
        balance_of_def wallet_of_def reserved_def reserving_def HALF_HOUR_MS_def topup_limits_def demo_provider_def)
  have "gst_of (\<lambda>x. x) (settings (w_db demo_world)) \<lfloor>100 :: rat\<rfloor> = 18"
    using js_round_of_int [of 18] by (simp add: gst_of_def demo_world_def demo_bank_def Let_def)
  then show ?thesis
    using topup_request_outcome [OF r refl refl] by (simp add: r)
qed
end
