(* ===== verification/Wallet_Disputes.thy ===== *)
theory Wallet_Disputes
  imports Wallet_Props
begin

text \<open>Properties of the wallet, continued: the chargeback record.\<close>

definition disputes_ok :: "'a bank_scheme \<Rightarrow> bool" where
  "disputes_ok d \<longleftrightarrow> distinct (map di_rzp (disputes d)) \<and> distinct (map di_id (disputes d)) \<and>
     (\<forall>x \<in> set (disputes d). di_id x < next_id d)"

lemma with_text_ok: "sql_text v = Inr t \<Longrightarrow> with_text v f = f t"
  by (intro ext) (simp add: with_text_def)

text \<open>One call of \<open>rpc_record_dispute\<close>: the row of its dispute is the only one that changes.\<close>

lemma record_dispute_row:
  assumes ok: "disputes_ok d" and s: "is_system s d" and a: "0 < amount"
  shows "\<exists>i d' row tag. rpc_record_dispute (Some di) pay amount re st s d =
      Inr (ok_json [(''dispute_id'', JNum (int i)), (tag, JBool True)], d') \<and> disputes_ok d' \<and>
    filter (\<lambda>x. di_rzp x = di) (disputes d') = [row] \<and> di_id row = i \<and> di_status row = st \<and>
    filter (\<lambda>x. di_rzp x \<noteq> di) (disputes d') = filter (\<lambda>x. di_rzp x \<noteq> di) (disputes d) \<and>
    webhooks d' = webhooks d \<and> wallets d' = wallets d \<and> topups d' = topups d"
proof (cases "find (\<lambda>x. Some (di_rzp x) = Some di) (disputes d)")
  case None
  let ?v = "case find (\<lambda>x. to_rzp_payment x \<noteq> None \<and> to_rzp_payment x = pay) (topups d) of None \<Rightarrow> None | Some x \<Rightarrow> to_txn x"
  let ?row = "\<lparr>di_id = next_id d, di_txn = ?v, di_rzp = di, di_amount = amount, di_reason = re,
    di_status = st, di_resolved_at = None\<rparr>"
  let ?d = "d\<lparr>next_id := Suc (next_id d), disputes := disputes d @ [?row]\<rparr>"
  let ?d' = "fold (\<lambda>a. notify (a, ''PLATFORM_ANNOUNCEMENT'', ''system'', next_id d)) (finance_admins d) ?d"
  have absent: "\<forall>x \<in> set (disputes d). di_rzp x \<noteq> di" using None by (auto simp: find_None_iff)
  have frame: "webhooks ?d' = webhooks ?d" "next_id ?d' = next_id ?d" "disputes ?d' = disputes ?d"
    by (rule fold_frame; simp add: notify_def)+
  have call: "rpc_record_dispute (Some di) pay amount re st s d =
      Inr (ok_json [(''dispute_id'', JNum (int (next_id d))), (''created'', JBool True)], ?d')"
    using None s a by (simp add: rpc_record_dispute_def Let_def)
  have "filter (\<lambda>x. di_rzp x = di) (disputes d) = []" using absent by (simp add: filter_empty_conv)
  then have one: "filter (\<lambda>x. di_rzp x = di) (disputes ?d') = [?row]" unfolding frame(3) by simp
  have "disputes_ok ?d'"
    using ok absent unfolding disputes_ok_def frame by (auto simp: less_Suc_eq)
  with call one frame show ?thesis
    by (intro exI [of _ "next_id d"] exI [of _ ?d'] exI [of _ ?row] exI [of _ "''created''"]) simp
next
  case (Some old)
  then have old: "old \<in> set (disputes d)" "di_rzp old = di" by (auto simp: find_Some_iff)
  let ?v = "case find (\<lambda>x. to_rzp_payment x \<noteq> None \<and> to_rzp_payment x = pay) (topups d) of None \<Rightarrow> None | Some x \<Rightarrow> to_txn x"
  let ?f = "\<lambda>x. if di_id x = di_id old
     then x\<lparr>di_status := st, di_reason := sql_coalesce re (di_reason x), di_txn := sql_coalesce (di_txn x) ?v,
            di_resolved_at := (if final_dispute st then Some (sess_now s) else di_resolved_at x)\<rparr> else x"
  let ?d' = "d\<lparr>disputes := map ?f (disputes d)\<rparr>"
  have call: "rpc_record_dispute (Some di) pay amount re st s d =
      Inr (ok_json [(''dispute_id'', JNum (int (di_id old))), (''updated'', JBool True)], ?d')"
    using Some s a by (simp add: rpc_record_dispute_def Let_def)
  have f: "di_rzp (?f x) = di_rzp x" "di_id (?f x) = di_id x" for x by simp_all
  have ids: "di_id x = di_id old \<longleftrightarrow> di_rzp x = di" if "x \<in> set (disputes d)" for x
    using ok old that unfolding disputes_ok_def by (metis distinct_map inj_on_def)
  obtain ys zs where split: "disputes d = ys @ old # zs" using old(1) by (meson split_list)
  have no: "\<forall>x \<in> set ys \<union> set zs. di_rzp x \<noteq> di"
    using ok old(2) unfolding disputes_ok_def split by (auto intro: rev_image_eqI)
  have "filter (\<lambda>x. di_rzp x = di) (map ?f (disputes d)) = map ?f (filter (\<lambda>x. di_rzp x = di) (disputes d))"
    by (simp add: filter_map comp_def f)
  also have "filter (\<lambda>x. di_rzp x = di) (disputes d) = [old]"
    using no old(2) by (simp add: split filter_empty_conv)
  finally have one: "filter (\<lambda>x. di_rzp x = di) (disputes ?d') = [?f old]" by simp
  have "filter (\<lambda>x. di_rzp x \<noteq> di) (map ?f (disputes d)) = map ?f (filter (\<lambda>x. di_rzp x \<noteq> di) (disputes d))"
    by (simp add: filter_map comp_def f)
  also have "\<dots> = filter (\<lambda>x. di_rzp x \<noteq> di) (disputes d)"
    using ids by (intro map_idI) auto
  finally have rest: "filter (\<lambda>x. di_rzp x \<noteq> di) (disputes ?d') = filter (\<lambda>x. di_rzp x \<noteq> di) (disputes d)" by simp
  have m: "map di_rzp (map ?f (disputes d)) = map di_rzp (disputes d)"
    "map di_id (map ?f (disputes d)) = map di_id (disputes d)" by (simp_all add: comp_def f)
  have D: "disputes ?d' = map ?f (disputes d)" "next_id ?d' = next_id d" by simp_all
  have lt: "\<forall>x \<in> set (map ?f (disputes d)). di_id x < next_id d" using ok f(2) by (auto simp: disputes_ok_def)
  have "disputes_ok ?d'" unfolding disputes_ok_def D m using ok lt unfolding disputes_ok_def by blast
  with call one rest show ?thesis
    by (intro exI [of _ "di_id old"] exI [of _ ?d'] exI [of _ "?f old"] exI [of _ "''updated''"]) simp
qed

text \<open>
  A chargeback keeps one row: a signed, new dispute event with a positive amount leaves
  exactly one row for its dispute, whose status is the one its event type stands for (OPEN for a
  type that is not known), leaves the rows of other disputes, the wallets and the orders alone, and logs
  the event as processed; an amount that is not positive is refused and nothing is kept.
\<close>

theorem dispute_events_keep_one_row:
  fixes w :: "'a bank_scheme world"
  assumes ok: "disputes_ok (w_db w)" and "verifyWebhookSignature P raw sig" and "parse raw = Some event"
    and ty: "jget event ''event'' = Some (JStr ty)" "starts_with ''payment.dispute.'' ty"
    and id: "sql_text (webhook_event_id event) = Inr (Some i)" "i \<notin> wh_event_id ` set (webhooks (w_db w))"
    and dd: "dd = jopt (jopt (jget event ''payload'') ''dispute'') ''entity''"
      "jopt dd ''id'' = Some (JStr di)" "jopt dd ''amount'' = Some (JNum a)"
    and pay: "sql_text (coalesce (coalesce (jopt dd ''payment_id'')
         (jopt (jopt (jopt (jget event ''payload'') ''payment'') ''entity'') ''id'')) (Some JNull)) = Inr pay"
    and re: "sql_text (coalesce (jopt dd ''reason_code'') (coalesce (jopt dd ''reason_description'') (Some JNull))) = Inr re"
    and st: "st = (case DISPUTE_STATUS ty of None \<Rightarrow> DS_OPEN | Some x \<Rightarrow> x)"
  shows "(a \<le> 0 \<longrightarrow> (\<exists>body. handleWebhook P parse base raw sig w = (Inl (BadRequest body), w) \<and>
       jget body ''error'' = Some (JStr ''INVALID_INPUT''))) \<and>
    (0 < a \<longrightarrow> (\<exists>n w' row. handleWebhook P parse base raw sig w =
         (Inr (JObj [(''processed'', JBool True), (''dispute'', JNum n)]), w') \<and> disputes_ok (w_db w') \<and>
       filter (\<lambda>x. di_rzp x = di) (disputes (w_db w')) = [row] \<and> di_status row = st \<and>
       filter (\<lambda>x. di_rzp x \<noteq> di) (disputes (w_db w')) = filter (\<lambda>x. di_rzp x \<noteq> di) (disputes (w_db w)) \<and>
       wallets (w_db w') = wallets (w_db w) \<and> topups (w_db w') = topups (w_db w) \<and>
       (\<exists>e \<in> set (webhooks (w_db w')). wh_event_id e = i \<and> wh_status e = PROCESSED)))"
proof -
  let ?d = "w_db w" and ?s = "base\<lparr>app_is_service_role := True\<rparr>"
  have ty2: "coalesce (jget event ''event'') (Some (JStr ''unknown'')) = Some (JStr ty)"
    "coalesce (jget event ''event'') None = Some (JStr ty)" and nn: "event \<noteq> JNull"
    using ty by (auto simp: coalesce_def)
  have not_pay: "jget event ''event'' \<notin> {Some (JStr ''payment.captured''), Some (JStr ''order.paid'')}"
    using ty by (auto simp: starts_with_def)
  let ?e = "\<lparr>wh_id = next_id ?d, wh_provider = ''razorpay'', wh_event_id = i, wh_event_type = ty, wh_status = RECEIVED\<rparr>"
  let ?d1 = "?d\<lparr>next_id := Suc (next_id ?d), webhooks := webhooks ?d @ [?e]\<rparr>"
  have ins: "ins_webhook (webhook_event_id event) (Some (JStr ty)) ?s ?d = Inr (Some (next_id ?d), ?d1)"
    using id by (auto simp: ins_webhook_def)
  have ok1: "disputes_ok ?d1" using ok by (auto simp: disputes_ok_def)
  have sys: "is_system ?s ?d1" by (simp add: is_system_def)
  have c: "coalesce (jopt dd ''id'') x = Some (JStr di)" "coalesce (Some (JNum n)) x = Some (JNum n)" for x n
    using dd(2) by (simp_all add: coalesce_def)
  let ?t = "\<lparr>tx_db = ?d, tx_err = None, tx_log = w_log w\<rparr>"
  let ?call = "\<lambda>s d. rpc_record_dispute (Some di) pay a re st s d"
  have body: "webhook_body P event ?s ?t = tx_bind (rpc ?call) (\<lambda>res. tx_bind (execute (upd_webhook PROCESSED (next_id ?d)))
      (\<lambda>_. tx_return (JObj [(''processed'', JBool True), (''dispute'', the (coalesce (jget res ''dispute_id'') (Some JNull)))])))
      ?s \<lparr>tx_db = ?d1, tx_err = None, tx_log = w_log w\<rparr>"
    unfolding webhook_body_def Let_def ty2 using not_pay ty(2)
    by (simp add: tx_bind_def [of "execute (ins_webhook (webhook_event_id event) (Some (JStr ty)))"] execute_def [of "ins_webhook (webhook_event_id event) (Some (JStr ty))"] ins record_dispute_event_def
        dd(1) [symmetric] c dd(3) Let_def with_text_ok [OF pay] with_text_ok [OF re] with_text_ok [of "Some (JStr di)"] st [symmetric])
  have run: "handleWebhook P parse base raw sig w = transaction ?s (webhook_body P event) w"
    using assms(2,3) nn by (simp add: handleWebhook_def runAsService_def)
  have neg: "?thesis" if "a \<le> 0"
  proof -
    have "?call ?s ?d1 = Inr (err_json ''INVALID_INPUT'', ?d1)" using sys that by (simp add: rpc_record_dispute_def)
    then have "webhook_body P event ?s ?t = (Inl (BadRequest (rpc_error (err_json ''INVALID_INPUT''))),
        \<lparr>tx_db = ?d1, tx_err = None, tx_log = w_log w\<rparr>)"
      unfolding body by (simp add: tx_defs rpc_def err_json_def)
    moreover have "jget (rpc_error (err_json ''INVALID_INPUT'')) ''error'' = Some (JStr ''INVALID_INPUT'')"
      by (simp add: rpc_error_def err_json_def AList.merge_def)
    ultimately show ?thesis using that run by (auto simp: transaction_def)
  qed
  have pos: "?thesis" if a: "0 < a"
  proof -
    obtain n d2 row tag where r: "?call ?s ?d1 = Inr (ok_json [(''dispute_id'', JNum (int n)), (tag, JBool True)], d2)"
      "disputes_ok d2" "filter (\<lambda>x. di_rzp x = di) (disputes d2) = [row]" "di_status row = st"
      "filter (\<lambda>x. di_rzp x \<noteq> di) (disputes d2) = filter (\<lambda>x. di_rzp x \<noteq> di) (disputes ?d1)"
      "webhooks d2 = webhooks ?d1" "wallets d2 = wallets ?d1" "topups d2 = topups ?d1"
      using record_dispute_row [OF ok1 sys a, where di = di and pay = pay and re = re and st = st] by metis
    let ?d3 = "d2\<lparr>webhooks := map (\<lambda>x. if wh_id x = next_id ?d then x\<lparr>wh_status := PROCESSED\<rparr> else x) (webhooks d2)\<rparr>"
    have "webhook_body P event ?s ?t = (Inr (JObj [(''processed'', JBool True), (''dispute'', JNum (int n))]),
        \<lparr>tx_db = ?d3, tx_err = None, tx_log = w_log w\<rparr>)"
      unfolding body using r(1) by (simp add: tx_defs rpc_def ok_json_def upd_webhook_def c)
    then have h: "handleWebhook P parse base raw sig w =
        (Inr (JObj [(''processed'', JBool True), (''dispute'', JNum (int n))]), \<lparr>w_db = ?d3, w_log = w_log w\<rparr>)"
      by (simp add: run transaction_def)
    have "disputes_ok ?d3" using r(2) by (simp add: disputes_ok_def)
    moreover have "\<exists>e \<in> set (webhooks ?d3). wh_event_id e = i \<and> wh_status e = PROCESSED" by (simp add: r(6))
    ultimately show ?thesis using a h r(3-8) by auto
  qed
  show ?thesis using neg pos by argo
qed

definition demo_dispute_event :: json where
  "demo_dispute_event = JObj [(''id'', JStr ''evt_9''), (''event'', JStr ''payment.dispute.won''),
     (''payload'', JObj [(''dispute'', JObj [(''entity'', JObj [(''id'', JStr ''disp_1''), (''amount'', JNum 118),
        (''payment_id'', JStr ''pay_1'')])])])]"

theorem dispute_events_keep_one_row_witness:
  "\<exists>w' row. snd (handleWebhook demo_provider (\<lambda>_. Some demo_dispute_event) demo_session ''body'' (Some ''good'') demo_world) = w' \<and>
     filter (\<lambda>x. di_rzp x = ''disp_1'') (disputes (w_db w')) = [row] \<and> di_status row = WON"
  using dispute_events_keep_one_row [where event = demo_dispute_event and i = "''evt_9''" and w = demo_world
      and raw = "''body''" and sig = "Some ''good''" and parse = "\<lambda>_. Some demo_dispute_event" and base = demo_session
      and P = demo_provider and di = "''disp_1''" and a = 118 and ty = "''payment.dispute.won''"
      and pay = "Some ''pay_1''" and re = None and st = WON, OF _ _ _ _ _ _ _ refl]
  by (fastforce simp: demo_provider_def demo_dispute_event_def demo_world_def demo_bank_def disputes_ok_def
      starts_with_def webhook_event_id_def coalesce_def jopt_def DISPUTE_STATUS_def)
end
