(* ===== verification/Services.thy ===== *)
theory Services
  imports Wallet
begin

text \<open>
  The tables of the fan services that the scheduler and the call endpoints read and write
  (migrations 0002, 0005, 0009), and \<open>rpc_create_notification\<close> of migration 0081.  Columns that
  nothing modelled reads are left out.  Row ids are numbers, profile ids text, dates day numbers; a
  string is the bytes of its UTF-8 form.
\<close>

section \<open>Tables\<close>

datatype bookingStatus = PAYMENT_PENDING | BOOKED | BOOKING_COMPLETED | EXPIRED_PARTNER_NO_SHOW | EXPIRED_FAN_NO_JOIN
  | EXPIRED_FAN_DECLINED | EXPIRED_TECHNICAL_ISSUE | CANCELLED_BY_FAN | CANCELLED_BY_ADMIN | REQUIRES_ADMIN_REVIEW

record booking =
  bk_id :: nat
  bk_fan :: string
  bk_partner :: string
  bk_duration :: string
  bk_status :: bookingStatus
  bk_settle_at :: int
  bk_date :: int
  bk_price :: int
  bk_ready_at :: "int option"
  bk_meeting :: "string option"
  bk_created :: int
  bk_original :: "int option"
  bk_discount :: int

datatype callStatus = SCHEDULED | PARTNER_INITIATED | IN_PROGRESS | COMPLETED_SUCCESSFUL | MISSED_FAN_NO_JOIN
  | MISSED_FAN_DECLINED | DROPPED_TECHNICAL_ISSUE

record call =
  ca_id :: nat
  ca_booking :: nat
  ca_fan :: "string option"
  ca_partner :: "string option"
  ca_status :: callStatus
  ca_meeting :: "string option"
  ca_initiated_at :: "int option"
  ca_started_at :: "int option"
  ca_deadline_at :: "int option"
  ca_fan_heartbeat :: "int option"
  ca_partner_heartbeat :: "int option"
  ca_ended_at :: "int option"
  ca_joined_at :: "int option"
  ca_media :: "bool option"
  ca_ended_role :: "string option"

datatype windowKind = FREE | PAID
datatype windowStatus = OPEN | ANSWERED | EXPIRED | REFUNDED

record dmWindow =
  dw_id :: nat
  dw_fan :: string
  dw_conv :: nat
  dw_opened :: int
  dw_kind :: windowKind
  dw_charge :: int
  dw_status :: windowStatus
  dw_deadline :: "int option"
  dw_settle_at :: "int option"

datatype shoutoutStatus = SO_PAYMENT_PENDING | PENDING_ADMIN_REVIEW | AWAITING_PARTNER_VIDEO | VIDEO_RECEIVED_BY_ADMIN
  | VIDEO_DELIVERED_TO_FAN | ISSUE_REPORTED_BY_FAN | REFUNDED_BY_ADMIN | EXPIRED_PARTNER_NO_DELIVERY

record shoutout =
  so_id :: nat
  so_fan :: string
  so_partner :: string
  so_status :: shoutoutStatus
  so_fan_confirmed_at :: "int option"
  so_review_deadline :: "int option"
  so_settle_at :: int
  so_recipient :: string
  so_message :: string
  so_price :: int
  so_created :: int
  so_delivered :: "int option"
  so_video :: "string option"
  so_free_used :: "int option"
  so_disputed :: "int option"

datatype reportTarget = R_PROFILE | R_CALL | R_DM | R_MESSAGE | R_SHOUTOUT
datatype reportStatus = R_PENDING | R_REVIEWING | R_RESOLVED | R_DISMISSED

record report =
  rp_target_type :: reportTarget
  rp_target_id :: nat
  rp_status :: reportStatus
  rp_reporter :: string
  rp_reason :: string
  rp_details :: "string option"

datatype deletionStatus = D_REQUESTED | D_CONFIRMED | D_CANCELLED | D_COMPLETED

record deletionRequest =
  dr_id :: nat
  dr_profile :: string
  dr_status :: deletionStatus
  dr_purge_at :: "int option"

record auditRow =
  au_role :: string
  au_action :: string
  au_target_type :: string
  au_target :: nat
  au_new_value :: json

text \<open>
  \<open>earnings\<close> are the service ids of \<open>partner_earnings\<close>; \<open>profiles\<close> and \<open>partner_profiles\<close> map an
  id to its name.  A window carries the fan of its conversation.
\<close>

record services = bank +
  bookings :: "booking list"
  calls :: "call list"
  dm_windows :: "dmWindow list"
  shoutouts :: "shoutout list"
  earnings :: "nat list"
  reports :: "report list"
  deletions :: "deletionRequest list"
  audits :: "auditRow list"
  profiles :: "(string \<times> string option) list"
  partner_profiles :: "(string \<times> string option) list"

section \<open>Errors as the code sees them\<close>

text \<open>\<open>(e as Error).message\<close>; Nest derives the message of an exception from its response.\<close>

definition response_message :: "string \<Rightarrow> json \<Rightarrow> string" where
  "response_message name body =
     (case body of JStr s \<Rightarrow> s
      | _ \<Rightarrow> (case jget body ''message'' of Some (JStr s) \<Rightarrow> s | _ \<Rightarrow> name))"

fun exn_message :: "exn \<Rightarrow> string" where
  "exn_message (BadRequest b) = response_message ''Bad Request Exception'' b"
| "exn_message (Forbidden b) = response_message ''Forbidden Exception'' b"
| "exn_message (NotFound b) = response_message ''Not Found Exception'' b"
| "exn_message (Unauthorized b) = response_message ''Unauthorized Exception'' b"
| "exn_message (Unavailable b) = response_message ''Service Unavailable Exception'' b"
| "exn_message (PgError s) = s"
| "exn_message (JsError s) = s"

section \<open>Statements\<close>

text \<open>The members of \<open>user_role\<close> (migration 0001); any other text is refused by the cast.\<close>

definition USER_ROLES :: "string list" where
  "USER_ROLES = [''FAN'', ''PARTNER'', ''ADMIN'']"

definition ins_audit :: "string \<Rightarrow> string \<Rightarrow> string \<Rightarrow> nat \<Rightarrow> json \<Rightarrow> ('a services_scheme, unit) stmt" where
  "ins_audit role action target_type target new_value s d =
     (if role \<notin> set USER_ROLES then Inl ''invalid input value for enum user_role''
      else Inr ((), d\<lparr>audits := audits d @ [\<lparr>au_role = role, au_action = action, au_target_type = target_type,
                                            au_target = target, au_new_value = new_value\<rparr>]\<rparr>))"

text \<open>
  The SQL functions, by name and arguments.  \<open>db.rpc(tx, name, args)\<close> is \<open>rpc (F name args)\<close>; what is
  proved of a caller holds for every \<open>F\<close>.  A row id is passed as \<open>jid\<close>.
\<close>

type_synonym 'd sqlFns = "string \<Rightarrow> json list \<Rightarrow> ('d, json) stmt"

definition jid :: "nat \<Rightarrow> json" where
  "jid i = JNum (int i)"

definition jstr_or_null :: "string option \<Rightarrow> json" where
  "jstr_or_null v = (case v of None \<Rightarrow> JNull | Some s \<Rightarrow> JStr s)"

text \<open>\<open>rpc_create_notification\<close>: recipient and actor are foreign keys.\<close>

definition rpc_create_notification ::
  "string \<Rightarrow> string option \<Rightarrow> string \<Rightarrow> string \<Rightarrow> nat \<Rightarrow> ('a services_scheme, json) stmt" where
  "rpc_create_notification recipient actor event_type entity_type entity s d =
     (if recipient \<notin> fst ` set (profiles d) then Inl ''violates foreign key constraint notifications_recipient_id_fkey''
      else if \<exists>u. actor = Some u \<and> u \<notin> fst ` set (profiles d)
      then Inl ''violates foreign key constraint notifications_actor_id_fkey''
      else let k = (recipient, event_type, entity_type, entity)
           in Inr (ok_json [(''created'', JBool (k \<notin> set (notifs d)))], notify k d))"

text \<open>The same function as \<open>F\<close> sees it, with its arguments as values; only the key of the row is kept.\<close>

fun create_notification_fn :: "json list \<Rightarrow> ('a services_scheme, json) stmt" where
  "create_notification_fn [JStr recipient, actor, JStr event_type, title, message, JStr entity_type, JNum entity, metadata] s d =
     rpc_create_notification recipient (case actor of JStr u \<Rightarrow> Some u | _ \<Rightarrow> None) event_type entity_type (nat entity) s d"
| "create_notification_fn _ s d = Inl ''function rpc_create_notification does not exist''"

text \<open>\<open>t <= now()\<close> and \<open>t < now() - x\<close> on nullable columns; \<open>greatest\<close> ignores nulls.\<close>

definition due :: "int option \<Rightarrow> int \<Rightarrow> bool" where
  "due t now \<longleftrightarrow> (case t of None \<Rightarrow> False | Some x \<Rightarrow> x \<le> now)"

definition sql_greatest :: "int option \<Rightarrow> int option \<Rightarrow> int option" where
  "sql_greatest a b = (case (a, b) of (None, _) \<Rightarrow> b | (_, None) \<Rightarrow> a | (Some x, Some y) \<Rightarrow> Some (max x y))"

definition under_report :: "reportTarget \<Rightarrow> nat \<Rightarrow> 'a services_scheme \<Rightarrow> bool" where
  "under_report ty i d \<longleftrightarrow>
     (\<exists>r \<in> set (reports d). rp_target_type r = ty \<and> rp_target_id r = i \<and> rp_status r \<in> {R_PENDING, R_REVIEWING})"

end
