(* ===== verification/Jobs.thy ===== *)
theory Jobs
  imports Services
begin

text \<open>
  \<open>src/jobs/jobs.module.ts\<close>: the scheduler and its sweeps.  The SQL functions a sweep calls are
  arguments, so what is proved holds whatever they do.  Between two units of work other sessions
  commit; \<open>others\<close> says what they did before the unit of work of an item.
\<close>

section \<open>The scheduler\<close>

datatype jobDriver = PgCron | BullMQ

definition driver :: "(string \<Rightarrow> string option) \<Rightarrow> jobDriver" where
  "driver config = (if (case config ''JOBS_DRIVER'' of None \<Rightarrow> ''pgcron'' | Some v \<Rightarrow> v) = ''bullmq'' then BullMQ else PgCron)"

text \<open>\<open>js_connection\<close> is the status of the Redis connection once there is one.\<close>

record jobsService =
  js_connection :: "string option"
  js_repeatable :: "(string \<times> string) list"
  js_worker :: bool

definition new_JobsService :: jobsService where
  "new_JobsService = \<lparr>js_connection = None, js_repeatable = [], js_worker = False\<rparr>"

definition isJobRunning :: "(string \<Rightarrow> string option) \<Rightarrow> jobsService \<Rightarrow> bool" where
  "isJobRunning config j =
     (if driver config = PgCron then True
      else case js_connection j of None \<Rightarrow> False | Some status \<Rightarrow> status = ''ready'')"

definition getJobs :: "(string \<Rightarrow> string option) \<Rightarrow> (string \<times> string) list" where
  "getJobs config =
     (if driver config = PgCron then
        [(''zudue-sweep-calls'', ''* * * * *''), (''zudue-settle'', ''*/5 * * * *''),
         (''zudue-expire-windows'', ''*/5 * * * *''), (''zudue-cleanup-topups'', ''30 2 * * *''),
         (''zudue-purge-deletions'', ''0 3 * * *'')]
      else
        [(''settle'', ''*/15 * * * *''), (''stalled-calls'', ''* * * * *''), (''expire-windows'', ''*/15 * * * *''),
         (''purge-deletions'', ''0 3 * * *''), (''cleanup-topups'', ''30 2 * * *'')])"

text \<open>\<open>lifecycleHealth\<close>: \<open>cron\<close> is the query on the tables of pg_cron.\<close>

definition lifecycleHealth ::
  "(string \<Rightarrow> string option) \<Rightarrow> ('d, json) stmt \<Rightarrow> session \<Rightarrow> jobsService \<Rightarrow> 'd world \<Rightarrow> json \<times> 'd world" where
  "lifecycleHealth config cron base j w =
     (if driver config = BullMQ
      then (JObj [(''driver'', JStr ''bullmq''), (''worker_ready'', JBool (isJobRunning config j)),
              (''jobs'', JObj (map (\<lambda>(n, p). (n, JObj [(''pattern'', JStr p)])) (getJobs config)))], w)
      else case runAsService base (execute cron) w of
             (Inr rows, w1) \<Rightarrow> (JObj [(''driver'', JStr ''pgcron''), (''jobs'', rows)], w1)
           | (Inl e, w1) \<Rightarrow> (JObj [(''driver'', JStr ''pgcron''), (''error'', JStr (exn_message e))], w1))"

text \<open>\<open>every\<close>: a repeatable job is added once per name.\<close>

definition every :: "string \<Rightarrow> string \<Rightarrow> jobsService \<Rightarrow> jobsService" where
  "every name pattern j = j\<lparr>js_repeatable := AList.update name pattern (js_repeatable j)\<rparr>"

definition onModuleInit :: "(string \<Rightarrow> string option) \<Rightarrow> jobsService \<Rightarrow> jobsService" where
  "onModuleInit config j =
     (if driver config = PgCron then j
      else if \<not> truthy_str (config ''REDIS_URL'') then j
      else
        (let j1 = j\<lparr>js_connection := Some ''connecting''\<rparr>;
             j2 = every ''settle'' ''*/15 * * * *'' j1;
             j3 = every ''stalled-calls'' ''* * * * *'' j2;
             j4 = every ''expire-windows'' ''*/15 * * * *'' j3;
             j5 = every ''purge-deletions'' ''0 3 * * *'' j4;
             j6 = every ''cleanup-topups'' ''30 2 * * *'' j5
         in j6\<lparr>js_worker := True\<rparr>))"

definition jobs_onModuleDestroy :: "jobsService \<Rightarrow> jobsService" where
  "jobs_onModuleDestroy j =
     (if js_connection j \<noteq> None then j\<lparr>js_worker := False, js_connection := Some ''end''\<rparr> else j)"

text \<open>What the scheduler reports is what it scheduled.\<close>

lemma init_schedules_reported_jobs:
  "driver config = BullMQ \<Longrightarrow> truthy_str (config ''REDIS_URL'') \<Longrightarrow>
   js_repeatable (onModuleInit config new_JobsService) = getJobs config"
  by (simp add: onModuleInit_def getJobs_def every_def new_JobsService_def Let_def)

section \<open>One unit of work per item\<close>

text \<open>
  One round of \<open>forEachId\<close>: the RPC in its own transaction; on a failure the audit row in another
  one, whose own failure is swallowed.  The result says whether the RPC went through.
\<close>

definition settle_item ::
  "'a services_scheme sqlFns \<Rightarrow> session \<Rightarrow> string \<Rightarrow> string \<Rightarrow> json list \<Rightarrow> nat \<Rightarrow> 'a services_scheme world \<Rightarrow>
   bool \<times> 'a services_scheme world" where
  "settle_item F base label name extra i w =
     (case runAsService base (rpc (F name (jid i # extra))) w of
        (Inr r, w1) \<Rightarrow> (True, w1)
      | (Inl e, w1) \<Rightarrow>
          (False, snd (runAsService base (execute
             (ins_audit ''SYSTEM'' ''SETTLE_FAILURE'' label i (JObj [(''error'', JStr (exn_message e))]))) w1)))"

text \<open>The loop, with the two counters.\<close>

fun each_id ::
  "(nat \<Rightarrow> 'a services_scheme \<Rightarrow> 'a services_scheme) \<Rightarrow> 'a services_scheme sqlFns \<Rightarrow> session \<Rightarrow> string \<Rightarrow> string \<Rightarrow>
   json list \<Rightarrow> nat list \<Rightarrow> nat \<times> nat \<Rightarrow> 'a services_scheme world \<Rightarrow> (nat \<times> nat) \<times> 'a services_scheme world" where
  "each_id others F base label name extra [] c w = (c, w)"
| "each_id others F base label name extra (i # is) (ok, failed) w =
     (case settle_item F base label name extra i (w\<lparr>w_db := others i (w_db w)\<rparr>) of
        (True, w1) \<Rightarrow> each_id others F base label name extra is (Suc ok, failed) w1
      | (False, w1) \<Rightarrow> each_id others F base label name extra is (ok, Suc failed) w1)"

definition forEachId ::
  "(nat \<Rightarrow> 'a services_scheme \<Rightarrow> 'a services_scheme) \<Rightarrow> 'a services_scheme sqlFns \<Rightarrow> session \<Rightarrow> nat list \<Rightarrow> string \<Rightarrow>
   string \<Rightarrow> json list \<Rightarrow> 'a services_scheme world \<Rightarrow> (nat \<times> nat) \<times> 'a services_scheme world" where
  "forEachId others F base is label name extra w = each_id others F base label name extra is (0, 0) w"

text \<open>\<open>ids\<close>: a batch read in one service-role transaction.\<close>

definition ids :: "session \<Rightarrow> ('d, nat list) stmt \<Rightarrow> ('d, nat list) act" where
  "ids base query = runAsService base (execute query)"

definition select :: "nat \<Rightarrow> (session \<Rightarrow> 'd \<Rightarrow> 'r list) \<Rightarrow> ('d, 'r list) stmt" where
  "select n q s d = Inr (take n (q s d), d)"

section \<open>Sequencing units of work\<close>

definition act_return :: "'a \<Rightarrow> ('d, 'a) act" where
  "act_return a w = (Inr a, w)"

definition act_bind :: "('d, 'a) act \<Rightarrow> ('a \<Rightarrow> ('d, 'b) act) \<Rightarrow> ('d, 'b) act" where
  "act_bind m f w = (case m w of (Inl e, w1) \<Rightarrow> (Inl e, w1) | (Inr a, w1) \<Rightarrow> f a w1)"

text \<open>A loop that never rejects.\<close>

definition act_total :: "('d world \<Rightarrow> 'a \<times> 'd world) \<Rightarrow> ('d, 'a) act" where
  "act_total f w = (case f w of (a, w1) \<Rightarrow> (Inr a, w1))"

section \<open>Settlement\<close>

text \<open>The selects of \<open>settle\<close>.\<close>

definition q_bookings :: "session \<Rightarrow> 'a services_scheme \<Rightarrow> nat list" where
  "q_bookings s d = map bk_id (filter (\<lambda>b. bk_status b = BOOKING_COMPLETED \<and> bk_settle_at b \<le> sess_now s \<and>
     bk_id b \<notin> set (earnings d) \<and>
     \<not> (\<exists>c \<in> set (calls d). ca_booking c = bk_id b \<and> under_report R_CALL (ca_id c) d)) (bookings d))"

definition q_windows :: "session \<Rightarrow> 'a services_scheme \<Rightarrow> nat list" where
  "q_windows s d = map dw_id (filter (\<lambda>x. dw_kind x = PAID \<and> dw_status x = ANSWERED \<and> due (dw_settle_at x) (sess_now s) \<and>
     dw_id x \<notin> set (earnings d) \<and> \<not> under_report R_DM (dw_id x) d) (dm_windows d))"

definition q_confirms :: "session \<Rightarrow> 'a services_scheme \<Rightarrow> nat list" where
  "q_confirms s d = map so_id (filter (\<lambda>x. so_status x = VIDEO_DELIVERED_TO_FAN \<and> so_fan_confirmed_at x = None \<and>
     due (so_review_deadline x) (sess_now s)) (shoutouts d))"

definition q_overdue :: "session \<Rightarrow> 'a services_scheme \<Rightarrow> nat list" where
  "q_overdue s d = map so_id (filter (\<lambda>x. so_status x = AWAITING_PARTNER_VIDEO \<and> so_settle_at x \<le> sess_now s) (shoutouts d))"

definition q_shoutouts :: "session \<Rightarrow> 'a services_scheme \<Rightarrow> nat list" where
  "q_shoutouts s d = map so_id (filter (\<lambda>x. so_status x = VIDEO_DELIVERED_TO_FAN \<and> so_settle_at x \<le> sess_now s \<and>
     so_fan_confirmed_at x \<noteq> None \<and> so_id x \<notin> set (earnings d)) (shoutouts d))"

text \<open>One batch: read at most 200 ids, then one unit of work for each.\<close>

definition batch ::
  "(string \<Rightarrow> nat \<Rightarrow> 'a services_scheme \<Rightarrow> 'a services_scheme) \<Rightarrow> 'a services_scheme sqlFns \<Rightarrow> session \<Rightarrow>
   (session \<Rightarrow> 'a services_scheme \<Rightarrow> nat list) \<Rightarrow> string \<Rightarrow> string \<Rightarrow> json list \<Rightarrow> ('a services_scheme, nat \<times> nat) act" where
  "batch others F base q label name extra =
     act_bind (ids base (select 200 q)) (\<lambda>is. act_total (forEachId (others label) F base is label name extra))"

text \<open>The result is the four counters that are logged: bookings, windows, expired and settled shout-outs.\<close>

definition settle ::
  "(string \<Rightarrow> nat \<Rightarrow> 'a services_scheme \<Rightarrow> 'a services_scheme) \<Rightarrow> 'a services_scheme sqlFns \<Rightarrow> session \<Rightarrow>
   ('a services_scheme, (nat \<times> nat) list) act" where
  "settle others F base =
     act_bind (runAsService base (rpc (F ''process_end_of_day_expired_bookings'' []))) (\<lambda>expiry.
     act_bind (batch others F base q_bookings ''settle-booking'' ''rpc_settle_booking'' []) (\<lambda>b.
     act_bind (batch others F base q_windows ''settle-window'' ''rpc_settle_window'' []) (\<lambda>wi.
     act_bind (batch others F base q_confirms ''auto-confirm-shoutout'' ''rpc_auto_confirm_shoutout'' []) (\<lambda>confirmed.
     act_bind (batch others F base q_overdue ''expire-shoutout'' ''rpc_expire_shoutout'' []) (\<lambda>e.
     act_bind (batch others F base q_shoutouts ''settle-shoutout'' ''rpc_settle_shoutout'' []) (\<lambda>so.
     act_return [b, wi, e, so]))))))"

section \<open>Stalled calls\<close>

definition q_past :: "session \<Rightarrow> 'a services_scheme \<Rightarrow> nat list" where
  "q_past s d = map ca_id (filter (\<lambda>c. ca_status c = IN_PROGRESS \<and> due (ca_deadline_at c) (sess_now s)) (calls d))"

definition MINUTE_MS :: int where
  "MINUTE_MS = 60 * 1000"

definition q_stale :: "session \<Rightarrow> 'a services_scheme \<Rightarrow> nat list" where
  "q_stale s d = map ca_id (filter (\<lambda>c. ca_status c = IN_PROGRESS \<and>
     (case sql_greatest (sql_coalesce (ca_fan_heartbeat c) (ca_started_at c))
                        (sql_coalesce (ca_partner_heartbeat c) (ca_started_at c)) of
        None \<Rightarrow> False | Some t \<Rightarrow> t < sess_now s - MINUTE_MS)) (calls d))"

text \<open>\<open>'k' in v ? v.k : 0\<close> on the result of the sweep function, for the log.\<close>

definition count_in :: "json \<Rightarrow> string \<Rightarrow> json" where
  "count_in v k = (if is_object v then (case jget v k of None \<Rightarrow> JNum 0 | Some n \<Rightarrow> n) else JNum 0)"

definition stalledCalls ::
  "(string \<Rightarrow> nat \<Rightarrow> 'a services_scheme \<Rightarrow> 'a services_scheme) \<Rightarrow> 'a services_scheme sqlFns \<Rightarrow> session \<Rightarrow>
   ('a services_scheme, (nat \<times> nat) \<times> (nat \<times> nat) \<times> json \<times> json) act" where
  "stalledCalls others F base =
     act_bind (batch others F base q_past ''complete-call'' ''rpc_complete_call'' [JBool True]) (\<lambda>c.
     act_bind (batch others F base q_stale ''drop-call'' ''rpc_mark_call_missed'' [JStr ''DROPPED_TECHNICAL_ISSUE'']) (\<lambda>d.
     act_bind (runAsService base (rpc (F ''cleanup_stalled_calls'' []))) (\<lambda>sweep.
     act_return (c, d, count_in sweep ''missed_fan_no_join'', count_in sweep ''failed''))))"

section \<open>Unanswered questions\<close>

definition q_expired :: "session \<Rightarrow> 'a services_scheme \<Rightarrow> dmWindow list" where
  "q_expired s d = filter (\<lambda>x. dw_kind x = PAID \<and> dw_status x = OPEN \<and> due (dw_deadline x) (sess_now s)) (dm_windows d)"

definition refund_key :: "nat \<Rightarrow> idem_key" where
  "refund_key i = (''qq-expire-refund:'', i)"

definition refund_legs :: "dmWindow \<Rightarrow> 'a money_scheme \<Rightarrow> leg list" where
  "refund_legs win d =
     [\<lparr>leg_wallet = None, leg_account = ''booking_escrow'', leg_delta = - dw_charge win, leg_bonus = 0\<rparr>,
      \<lparr>leg_wallet = map_option wl_id (wallet_of (dw_fan win) d), leg_account = ''wallet'',
        leg_delta = dw_charge win, leg_bonus = 0\<rparr>]"

definition refund_window :: "dmWindow \<Rightarrow> ('a services_scheme, unit) stmt" where
  "refund_window win s d =
     (case post_transaction ''REFUND'' (dw_charge win) (refund_key (dw_id win)) (refund_legs win d) None d of
        Inl e \<Rightarrow> Inl e
      | Inr (tr, d1) \<Rightarrow> Inr ((), d1))"

definition set_expired :: "nat \<Rightarrow> ('a services_scheme, unit) stmt" where
  "set_expired i s d =
     Inr ((), d\<lparr>dm_windows := map (\<lambda>x. if dw_id x = i then x\<lparr>dw_status := EXPIRED\<rparr> else x) (dm_windows d)\<rparr>)"

definition expired_notice :: "dmWindow \<Rightarrow> json list" where
  "expired_notice win = [JStr (dw_fan win), JNull, JStr ''QUESTION_EXPIRED_NO_RESPONSE_FAN'', JStr ''Question expired'',
     JStr ''Your question went unanswered in time and you have been refunded.'', JStr ''question'', jid (dw_id win), JObj []]"

definition expire_window :: "'a services_scheme sqlFns \<Rightarrow> dmWindow \<Rightarrow> ('a services_scheme, unit) txm" where
  "expire_window F win =
     tx_bind (execute (refund_window win)) (\<lambda>_.
     tx_bind (execute (set_expired (dw_id win))) (\<lambda>_.
     tx_bind (tx_catch (tx_bind (rpc (F ''rpc_create_notification'' (expired_notice win))) (\<lambda>_. tx_return ())) (\<lambda>_. tx_return ())) (\<lambda>_.
     tx_return ())))"

fun expire_loop ::
  "(nat \<Rightarrow> 'a services_scheme \<Rightarrow> 'a services_scheme) \<Rightarrow> 'a services_scheme sqlFns \<Rightarrow> session \<Rightarrow> dmWindow list \<Rightarrow> nat \<times> nat \<Rightarrow>
   'a services_scheme world \<Rightarrow> (nat \<times> nat) \<times> 'a services_scheme world" where
  "expire_loop others F base [] c w = (c, w)"
| "expire_loop others F base (win # wins) (ok, failed) w =
     (case runAsService base (expire_window F win) (w\<lparr>w_db := others (dw_id win) (w_db w)\<rparr>) of
        (Inr _, w1) \<Rightarrow> expire_loop others F base wins (Suc ok, failed) w1
      | (Inl e, w1) \<Rightarrow> expire_loop others F base wins (ok, Suc failed) w1)"

definition expireWindows ::
  "(nat \<Rightarrow> 'a services_scheme \<Rightarrow> 'a services_scheme) \<Rightarrow> 'a services_scheme sqlFns \<Rightarrow> session \<Rightarrow>
   ('a services_scheme, nat \<times> nat) act" where
  "expireWindows others F base =
     act_bind (runAsService base (execute (select 200 q_expired))) (\<lambda>rows.
     act_total (expire_loop others F base rows (0, 0)))"

section \<open>Account deletion\<close>

text \<open>
  \<open>src/identity/supabase-admin.provider.ts\<close>; \<open>fetch\<close> is the answer of GoTrue for a user: an
  exception, or the HTTP status.
\<close>

record supabaseAdmin =
  sa_baseUrl :: string
  sa_serviceRoleKey :: string

definition new_SupabaseAdmin :: "(string \<Rightarrow> string option) \<Rightarrow> supabaseAdmin" where
  "new_SupabaseAdmin config =
     (let get = (\<lambda>k. case config k of None \<Rightarrow> [] | Some v \<Rightarrow> v)
      in \<lparr>sa_baseUrl = get ''AUTH_ISSUER'', sa_serviceRoleKey = get ''SUPABASE_SERVICE_ROLE_KEY''\<rparr>)"

definition sa_enabled :: "supabaseAdmin \<Rightarrow> bool" where
  "sa_enabled a \<longleftrightarrow> sa_baseUrl a \<noteq> [] \<and> sa_serviceRoleKey a \<noteq> []"

definition deleteUser :: "supabaseAdmin \<Rightarrow> (string \<Rightarrow> exn + nat) \<Rightarrow> string \<Rightarrow> 'd world \<Rightarrow> bool \<times> 'd world" where
  "deleteUser a fetch u w =
     (if \<not> sa_enabled a then (False, w)
      else (case fetch u of
              Inr status \<Rightarrow> (200 \<le> status \<and> status < 300) \<or> status = 404
            | Inl e \<Rightarrow> False,
            w\<lparr>w_log := w_log w @ [Ext ''DELETE'' [sa_baseUrl a @ ''/admin/users/'' @ u]]\<rparr>))"

definition q_deletions :: "session \<Rightarrow> 'a services_scheme \<Rightarrow> deletionRequest list" where
  "q_deletions s d = filter (\<lambda>x. dr_status x \<in> {D_REQUESTED, D_CONFIRMED} \<and> due (dr_purge_at x) (sess_now s)) (deletions d)"

definition set_completed :: "nat \<Rightarrow> ('a services_scheme, unit) stmt" where
  "set_completed i s d =
     Inr ((), d\<lparr>deletions := map (\<lambda>x. if dr_id x = i then x\<lparr>dr_status := D_COMPLETED\<rparr> else x) (deletions d)\<rparr>)"

definition purge_tx :: "'a services_scheme sqlFns \<Rightarrow> deletionRequest \<Rightarrow> ('a services_scheme, unit) txm" where
  "purge_tx F r =
     tx_bind (rpc (F ''rpc_purge_profile'' [JStr (dr_profile r)])) (\<lambda>_. execute (set_completed (dr_id r)))"

text \<open>One round: whether it counts as ok, and whether the credential was retained.\<close>

definition purge_one ::
  "supabaseAdmin \<Rightarrow> (string \<Rightarrow> exn + nat) \<Rightarrow> 'a services_scheme sqlFns \<Rightarrow> session \<Rightarrow> deletionRequest \<Rightarrow>
   'a services_scheme world \<Rightarrow> (bool \<times> bool) \<times> 'a services_scheme world" where
  "purge_one a fetch F base r w =
     (case (if sa_enabled a then deleteUser a fetch (dr_profile r) w else (True, w)) of
        (False, w1) \<Rightarrow> ((False, False), w1)
      | (True, w1) \<Rightarrow>
          (case runAsService base (purge_tx F r) w1 of
             (Inr _, w2) \<Rightarrow> ((True, \<not> sa_enabled a), w2)
           | (Inl e, w2) \<Rightarrow> ((False, \<not> sa_enabled a), w2)))"

fun purge_loop ::
  "supabaseAdmin \<Rightarrow> (string \<Rightarrow> exn + nat) \<Rightarrow> 'a services_scheme sqlFns \<Rightarrow> session \<Rightarrow> deletionRequest list \<Rightarrow>
   nat \<times> nat \<times> nat \<Rightarrow> 'a services_scheme world \<Rightarrow> (nat \<times> nat \<times> nat) \<times> 'a services_scheme world" where
  "purge_loop a fetch F base [] c w = (c, w)"
| "purge_loop a fetch F base (r # rs) (ok, failed, retained) w =
     (case purge_one a fetch F base r w of ((good, kept), w1) \<Rightarrow>
        purge_loop a fetch F base rs
          (if good then Suc ok else ok, if good then failed else Suc failed, if kept then Suc retained else retained) w1)"

definition purgeDeletions ::
  "supabaseAdmin \<Rightarrow> (string \<Rightarrow> exn + nat) \<Rightarrow> 'a services_scheme sqlFns \<Rightarrow> session \<Rightarrow>
   ('a services_scheme, nat \<times> nat \<times> nat) act" where
  "purgeDeletions a fetch F base =
     act_bind (runAsService base (execute (select 100 q_deletions))) (\<lambda>rows.
     act_total (purge_loop a fetch F base rows (0, 0, 0)))"

section \<open>Dispatch\<close>

definition act_unit :: "('d, 'a) act \<Rightarrow> ('d, unit) act" where
  "act_unit m = act_bind m (\<lambda>_. act_return ())"

definition run_job ::
  "(string \<Rightarrow> nat \<Rightarrow> 'a services_scheme \<Rightarrow> 'a services_scheme) \<Rightarrow> supabaseAdmin \<Rightarrow> (string \<Rightarrow> exn + nat) \<Rightarrow>
   'a services_scheme sqlFns \<Rightarrow> session \<Rightarrow> string \<Rightarrow> ('a services_scheme, unit) act" where
  "run_job others a fetch F base name =
     (if name = ''settle'' then act_unit (settle others F base)
      else if name = ''stalled-calls'' then act_unit (stalledCalls others F base)
      else if name = ''expire-windows'' then act_unit (expireWindows (others ''expire-windows'') F base)
      else if name = ''purge-deletions'' then act_unit (purgeDeletions a fetch F base)
      else if name = ''cleanup-topups'' then cleanupTopups base
      else act_return ())"

end
