(* ===== verification/Jobs_Props.thy ===== *)
theory Jobs_Props
  imports Jobs Wallet_Invariant
begin

text \<open>
  Properties of the scheduler: a sweep against a reference definition, the phases of settlement,
  the refund of unanswered questions, account deletion.
\<close>

section \<open>A sweep, item by item\<close>

text \<open>
  What one item does to the database: the RPC's effect if it goes through, nothing otherwise.
\<close>

definition item_ok :: "'d sqlFns \<Rightarrow> session \<Rightarrow> string \<Rightarrow> json list \<Rightarrow> nat \<Rightarrow> 'd \<Rightarrow> bool" where
  "item_ok F base name extra i d \<longleftrightarrow>
     (case F name (jid i # extra) (base\<lparr>app_is_service_role := True\<rparr>) d of
        Inl e \<Rightarrow> False | Inr (r, d1) \<Rightarrow> jget r ''success'' \<noteq> Some (JBool False))"

definition item_effect :: "'d sqlFns \<Rightarrow> session \<Rightarrow> string \<Rightarrow> json list \<Rightarrow> nat \<Rightarrow> 'd \<Rightarrow> 'd" where
  "item_effect F base name extra i d =
     (if item_ok F base name extra i d
      then (case F name (jid i # extra) (base\<lparr>app_is_service_role := True\<rparr>) d of Inl e \<Rightarrow> d | Inr (r, d1) \<Rightarrow> d1)
      else d)"

primrec sweep_spec ::
  "(nat \<Rightarrow> 'd \<Rightarrow> 'd) \<Rightarrow> 'd sqlFns \<Rightarrow> session \<Rightarrow> string \<Rightarrow> json list \<Rightarrow> nat list \<Rightarrow> 'd \<Rightarrow> bool list \<times> 'd" where
  "sweep_spec others F base name extra [] d = ([], d)"
| "sweep_spec others F base name extra (i # is) d =
     (let d1 = others i d; (oks, d2) = sweep_spec others F base name extra is (item_effect F base name extra i d1)
      in (item_ok F base name extra i d1 # oks, d2))"

lemma runAsService_rpc:
  "runAsService base (rpc call) w =
     (case call (base\<lparr>app_is_service_role := True\<rparr>) (w_db w) of
        Inl e \<Rightarrow> (Inl (PgError e), w)
      | Inr (r, d) \<Rightarrow> if jget r ''success'' = Some (JBool False) then (Inl (BadRequest (rpc_error r)), w)
                     else (Inr r, w\<lparr>w_db := d\<rparr>))"
  by (auto simp: runAsService_def transaction_def rpc_def tx_defs split: sum.split prod.split)

lemma runAsService_execute:
  "runAsService base (execute st) w =
     (case st (base\<lparr>app_is_service_role := True\<rparr>) (w_db w) of
        Inl e \<Rightarrow> (Inl (PgError e), w) | Inr (a, d) \<Rightarrow> (Inr a, w\<lparr>w_db := d\<rparr>))"
  by (auto simp: runAsService_def transaction_def tx_defs split: sum.split prod.split)

text \<open>The audit row names a role that is not one of the enum, so it is always refused.\<close>

lemma audit_refused: "snd (runAsService base (execute (ins_audit ''SYSTEM'' a l i v)) w) = w"
  by (simp add: runAsService_execute ins_audit_def USER_ROLES_def)

lemma settle_item_eq:
  "settle_item F base label name extra i w =
     (item_ok F base name extra i (w_db w), w\<lparr>w_db := item_effect F base name extra i (w_db w)\<rparr>)"
  by (auto simp: settle_item_def runAsService_rpc audit_refused item_ok_def item_effect_def split: sum.split prod.split)

lemma each_id_spec:
  "each_id others F base label name extra is (ok, failed) w =
     (let (oks, d) = sweep_spec others F base name extra is (w_db w)
      in ((ok + length (filter (\<lambda>b. b) oks), failed + length (filter Not oks)), w\<lparr>w_db := d\<rparr>))"
proof (induction "is" arbitrary: ok failed w)
  case (Cons i "is")
  let ?d = "others i (w_db w)"
  show ?case
    by (cases "item_ok F base name extra i ?d"; cases "sweep_spec others F base name extra is (item_effect F base name extra i ?d)")
      (simp_all add: settle_item_eq Cons.IH Let_def)
qed simp

lemma sweep_spec_length: "length (fst (sweep_spec others F base name extra is d)) = length is"
  by (induction "is" arbitrary: d) (simp_all add: Let_def split: prod.split, metis fst_conv)

text \<open>
  C15. Items of a sweep are independent: \<open>forEachId\<close> does exactly what applying each item's RPC in turn
  does, an item that raises or reports a failure being skipped, whatever other sessions commit in
  between; the two counters are the numbers of items that went through and that did not; nothing
  else is written, not even the audit row that is meant to record a failure.
\<close>

theorem for_each_id_isolates_items:
  assumes "sweep_spec others F base name extra is (w_db w) = (oks, d)"
  shows "forEachId others F base is label name extra w =
      ((length (filter (\<lambda>b. b) oks), length (filter Not oks)), w\<lparr>w_db := d\<rparr>) \<and>
    length (filter (\<lambda>b. b) oks) + length (filter Not oks) = length is"
  using sweep_spec_length [of others F base name extra "is" "w_db w"] assms
  by (simp add: forEachId_def each_id_spec sum_length_filter_compl)

text \<open>A database function for the witnesses: it works for every id but 2.\<close>

definition demo_fns :: "services sqlFns" where
  "demo_fns name args s d =
     (if name = ''rpc_create_notification'' then create_notification_fn args s d
      else if args = [jid 2] then Inr (err_json ''NOT_SETTLEABLE'', d)
      else Inr (ok_json [], d\<lparr>earnings := earnings d @ [length args]\<rparr>))"

definition demo_services :: services where
  "demo_services = \<lparr>wallets = [\<lparr>wl_id = 1, wl_profile = ''fan'', wl_balance = 0, wl_bonus = 0\<rparr>],
     txns = [], entries = [], next_id = 10, topups = [], webhooks = [], disputes = [], notifs = [],
     settings = None, admins = [], finance_admins = [],
     bookings = [\<lparr>bk_id = 1, bk_fan = ''fan'', bk_partner = ''star'', bk_duration = ''5'', bk_status = BOOKING_COMPLETED, bk_settle_at = 0,
         bk_date = 0, bk_price = 500, bk_ready_at = None, bk_meeting = None, bk_created = 0, bk_original = None, bk_discount = 0\<rparr>,
       \<lparr>bk_id = 2, bk_fan = ''fan'', bk_partner = ''star'', bk_duration = ''5'', bk_status = BOOKING_COMPLETED, bk_settle_at = 0,
         bk_date = 0, bk_price = 500, bk_ready_at = None, bk_meeting = None, bk_created = 0, bk_original = None, bk_discount = 0\<rparr>],
     calls = [], dm_windows = [\<lparr>dw_id = 7, dw_fan = ''fan'', dw_conv = 1, dw_opened = 0, dw_kind = PAID, dw_charge = 500, dw_status = OPEN,
       dw_deadline = Some 0, dw_settle_at = None\<rparr>],
     shoutouts = [], earnings = [], reports = [], deletions = [], audits = [],
     profiles = [(''fan'', Some ''Ann''), (''star'', None)], partner_profiles = [(''star'', Some ''Star'')]\<rparr>"

theorem for_each_id_isolates_items_witness:
  "fst (forEachId (\<lambda>_ d. d) demo_fns demo_session [1, 2] ''settle-booking'' ''rpc_settle_booking'' []
     \<lparr>w_db = demo_services, w_log = []\<rparr>) = (1, 1)"
proof -
  obtain d where s: "sweep_spec (\<lambda>_ d. d) demo_fns demo_session ''rpc_settle_booking'' [] [1, 2]
      (w_db \<lparr>w_db = demo_services, w_log = []\<rparr>) = ([True, False], d)"
    by (simp add: Let_def item_ok_def item_effect_def demo_fns_def ok_json_def err_json_def jid_def)
  show ?thesis using for_each_id_isolates_items [OF s] by simp
qed

section \<open>Settlement\<close>

definition counts :: "bool list \<Rightarrow> nat \<times> nat" where
  "counts oks = (length (filter (\<lambda>b. b) oks), length (filter Not oks))"

text \<open>The sweep as five passes over the database, each over what it selects at that moment.\<close>

definition settle_spec ::
  "(string \<Rightarrow> nat \<Rightarrow> 'a services_scheme \<Rightarrow> 'a services_scheme) \<Rightarrow> 'a services_scheme sqlFns \<Rightarrow> session \<Rightarrow>
   'a services_scheme \<Rightarrow> (nat \<times> nat) list \<times> 'a services_scheme" where
  "settle_spec others F base d0 =
     (let s = base\<lparr>app_is_service_role := True\<rparr>;
          pass = (\<lambda>q label name d. sweep_spec (others label) F base name [] (take 200 (q s d)) d);
          (b, d1) = pass q_bookings ''settle-booking'' ''rpc_settle_booking'' d0;
          (wi, d2) = pass q_windows ''settle-window'' ''rpc_settle_window'' d1;
          (cf, d3) = pass q_confirms ''auto-confirm-shoutout'' ''rpc_auto_confirm_shoutout'' d2;
          (e, d4) = pass q_overdue ''expire-shoutout'' ''rpc_expire_shoutout'' d3;
          (so, d5) = pass q_shoutouts ''settle-shoutout'' ''rpc_settle_shoutout'' d4
      in ([counts b, counts wi, counts e, counts so], d5))"

lemma batch_eq:
  "batch others F base q label name extra w =
     (let (oks, d) = sweep_spec (others label) F base name extra (take 200 (q (base\<lparr>app_is_service_role := True\<rparr>) (w_db w))) (w_db w)
      in (Inr (counts oks), w\<lparr>w_db := d\<rparr>))"
  by (simp add: batch_def act_bind_def act_total_def ids_def select_def runAsService_execute forEachId_def each_id_spec
      counts_def Let_def split: prod.split)

text \<open>
  Settlement runs in order: if expiring overdue bookings raises or reports a failure, the run
  rejects and nothing has changed; otherwise the run resolves, whatever the items do, and the
  database is what five passes leave (bookings, windows, automatic confirmations, overdue shout-outs,
  shout-outs), each over at most 200 items due at its own start, so a delivery confirmed in the
  third pass can be paid in the fifth.
\<close>

theorem settle_runs_in_phases:
  "settle others F base w =
     (case F ''process_end_of_day_expired_bookings'' [] (base\<lparr>app_is_service_role := True\<rparr>) (w_db w) of
        Inl e \<Rightarrow> (Inl (PgError e), w)
      | Inr (r, d0) \<Rightarrow>
          if jget r ''success'' = Some (JBool False) then (Inl (BadRequest (rpc_error r)), w)
          else (Inr (fst (settle_spec others F base d0)), w\<lparr>w_db := snd (settle_spec others F base d0)\<rparr>))"
  by (simp add: settle_def act_bind_def act_return_def runAsService_rpc batch_eq settle_spec_def Let_def
      split: sum.split prod.split)

section \<open>Unanswered questions\<close>

text \<open>The outcome of one window, in terms of its statements.\<close>

lemma expire_window_run:
  fixes w :: "'a services_scheme world"
  assumes s: "s = base\<lparr>app_is_service_role := True\<rparr>"
    and e: "\<And>d1. expired d1 = d1\<lparr>dm_windows := map (\<lambda>x. if dw_id x = dw_id win then x\<lparr>dw_status := EXPIRED\<rparr> else x) (dm_windows d1)\<rparr>"
  shows "runAsService base (expire_window F win) w =
    (case refund_window win s (w_db w) of
       Inl msg \<Rightarrow> (Inl (PgError msg), w)
     | Inr (_, d1) \<Rightarrow>
         (case F ''rpc_create_notification'' (expired_notice win) s (expired d1) of
            Inl msg \<Rightarrow> (if drv_rethrow base then Inl (PgError msg) else Inr (), w)
          | Inr (r, d3) \<Rightarrow> (Inr (), w\<lparr>w_db := d3\<rparr>)))"
  unfolding s e
  by (auto simp: expire_window_def runAsService_def transaction_def tx_defs rpc_def set_expired_def
      split: sum.split prod.split)

lemma refund_posts:
  fixes d :: "'a services_scheme"
  assumes ok: "money_ok d" and c: "0 < dw_charge win" and v: "wallet_of (dw_fan win) d = Some v"
    and new: "find_txn (refund_key (dw_id win)) d = None"
  shows "\<exists>d1. refund_window win s d = Inr ((), d1) \<and>
    wallets d1 = map (\<lambda>y. if wl_id y = wl_id v then y\<lparr>wl_balance := wl_balance y + dw_charge win\<rparr> else y) (wallets d) \<and>
    find_txn (refund_key (dw_id win)) d1 \<noteq> None \<and>
    dm_windows d1 = dm_windows d \<and> profiles d1 = profiles d"
proof -
  let ?legs = "refund_legs win d"
  let ?tn = "\<lparr>tn_id = next_id d, tn_type = ''REFUND'', tn_amount = dw_charge win, tn_key = refund_key (dw_id win), tn_ref = None\<rparr>"
  let ?d1 = "d\<lparr>txns := txns d @ [?tn], next_id := Suc (next_id d)\<rparr>"
  let ?ws = "map (\<lambda>y. if wl_id y = wl_id v then y\<lparr>wl_balance := wl_balance y + dw_charge win\<rparr> else y) (wallets d)"
  let ?d2 = "?d1\<lparr>entries := entries d @ map (entry_of (next_id d)) ?legs, wallets := ?ws\<rparr>"
  have wok: "\<forall>y \<in> set (wallets d). wallet_ok y" using ok by (simp add: money_ok_def)
  let ?l = "\<lparr>leg_wallet = Some (wl_id v), leg_account = ''wallet'', leg_delta = dw_charge win, leg_bonus = 0\<rparr>"
  have mv: "move_wallet ?l y = y\<lparr>wl_balance := wl_balance y + dw_charge win\<rparr>" if "y \<in> set (wallets d)" for y
  proof -
    have "wallet_ok y" using wok that by blast
    then show ?thesis using c by (simp add: move_wallet_def Let_def wallet_ok_def)
  qed
  have ws: "map (\<lambda>y. if wl_id y = wl_id v then move_wallet ?l y else y) (wallets d) = ?ws" using mv by auto
  have okws: "\<forall>y \<in> set ?ws. wallet_ok y" using wok c by (auto simp: wallet_ok_def)
  let ?wm = "map (\<lambda>y. if wl_id y = wl_id v then move_wallet ?l y else y) (wallets d)"
  have "\<forall>y \<in> set ?wm. wallet_ok y" unfolding ws by (rule okws)
  then have "apply_legs (next_id d) ?legs ?d1 = Inr (?d2\<lparr>wallets := ?wm\<rparr>)"
    by (simp add: refund_legs_def v apply_leg_def Let_def entry_of_def)
  then have "apply_legs (next_id d) ?legs ?d1 = Inr ?d2" unfolding ws by simp
  moreover have "v \<in> set (wallets d)" using v by (auto simp: wallet_of_def find_Some_iff)
  ultimately have r: "refund_window win s d = Inr ((), ?d2)"
    using new c by (simp add: refund_window_def post_transaction_def Let_def) (auto simp: refund_legs_def v)
  have "find_txn (refund_key (dw_id win)) ?d2 \<noteq> None"
    by (simp add: find_txn_None)
  then show ?thesis using r by (intro exI [of _ ?d2]) simp
qed

definition window_expired :: "nat \<Rightarrow> dmWindow \<Rightarrow> dmWindow" where
  "window_expired i x = (if dw_id x = i then x\<lparr>dw_status := EXPIRED\<rparr> else x)"

text \<open>
  C16. An overdue question is refunded exactly once: for a fan with a wallet, the unit of work
  returns the charge to that wallet and to no other and marks the window expired, whatever its
  status has become since the batch was read (an answer given in between is overridden); run again,
  it moves no money.
\<close>

theorem expired_question_refunded_once:
  fixes w :: "'a services_scheme world"
  assumes ok: "money_ok (w_db w)" and c: "0 < dw_charge win" and v: "wallet_of (dw_fan win) (w_db w) = Some v"
    and new: "find_txn (refund_key (dw_id win)) (w_db w) = None"
    and F: "F ''rpc_create_notification'' = create_notification_fn" and fan: "dw_fan win \<in> fst ` set (profiles (w_db w))"
  shows "\<exists>w' w''. runAsService base (expire_window F win) w = (Inr (), w') \<and>
    wallets (w_db w') = map (\<lambda>y. if wl_id y = wl_id v then y\<lparr>wl_balance := wl_balance y + dw_charge win\<rparr> else y)
      (wallets (w_db w)) \<and>
    dm_windows (w_db w') = map (window_expired (dw_id win)) (dm_windows (w_db w)) \<and>
    runAsService base (expire_window F win) w' = (Inr (), w'') \<and>
    wallets (w_db w'') = wallets (w_db w') \<and> txns (w_db w'') = txns (w_db w')"
proof -
  let ?s = "base\<lparr>app_is_service_role := True\<rparr>" and ?i = "dw_id win"
  let ?ex = "\<lambda>d :: 'a services_scheme. d\<lparr>dm_windows := map (\<lambda>x. if dw_id x = ?i then x\<lparr>dw_status := EXPIRED\<rparr> else x) (dm_windows d)\<rparr>"
  let ?k = "(dw_fan win, ''QUESTION_EXPIRED_NO_RESPONSE_FAN'', ''question'', ?i)"
  have nt: "F ''rpc_create_notification'' (expired_notice win) ?s d =
      Inr (ok_json [(''created'', JBool (?k \<notin> set (notifs d)))], notify ?k d)" if "dw_fan win \<in> fst ` set (profiles d)" for d
    using that by (simp add: F expired_notice_def jid_def rpc_create_notification_def Let_def)
  obtain d1 where d1: "refund_window win ?s (w_db w) = Inr ((), d1)"
    "wallets d1 = map (\<lambda>y. if wl_id y = wl_id v then y\<lparr>wl_balance := wl_balance y + dw_charge win\<rparr> else y) (wallets (w_db w))"
    "find_txn (refund_key ?i) d1 \<noteq> None" "dm_windows d1 = dm_windows (w_db w)" "profiles d1 = profiles (w_db w)"
    using refund_posts [OF ok c v new] by blast
  let ?w' = "w\<lparr>w_db := notify ?k (?ex d1)\<rparr>"
  have run1: "runAsService base (expire_window F win) w = (Inr (), ?w')"
    using fan by (simp add: expire_window_run [OF refl refl] d1(1,5) nt)
  have ft: "find_txn (refund_key ?i) (w_db ?w') \<noteq> None" using d1(3) by (simp add: find_txn_def)
  then obtain t where t: "find_txn (refund_key ?i) (w_db ?w') = Some t" by blast
  have r2: "refund_window win ?s (w_db ?w') = Inr ((), w_db ?w')"
    using t c by (simp add: refund_window_def post_transaction_def refund_legs_def)
  have run2: "runAsService base (expire_window F win) ?w' = (Inr (), ?w'\<lparr>w_db := notify ?k (?ex (w_db ?w'))\<rparr>)"
    using fan unfolding expire_window_run [OF refl refl] r2 by (simp add: d1(5) nt notify_def)
  show ?thesis
    by (intro exI conjI, rule run1) (use run2 d1(2,4) in \<open>auto simp: window_expired_def notify_def\<close>)
qed

lemma demo_services_ok: "money_ok demo_services"
  by (simp add: money_ok_def demo_services_def wallet_ok_def)

definition demo_window :: dmWindow where
  "demo_window = \<lparr>dw_id = 7, dw_fan = ''fan'', dw_conv = 1, dw_opened = 0, dw_kind = PAID, dw_charge = 500, dw_status = OPEN,
     dw_deadline = Some 0, dw_settle_at = None\<rparr>"

theorem expired_question_refunded_once_witness:
  "\<exists>w'. runAsService demo_session (expire_window demo_fns demo_window) \<lparr>w_db = demo_services, w_log = []\<rparr> = (Inr (), w') \<and>
     map wl_balance (wallets (w_db w')) = [500] \<and> map dw_status (dm_windows (w_db w')) = [EXPIRED]"
proof -
  let ?v = "\<lparr>wl_id = 1, wl_profile = ''fan'', wl_balance = 0, wl_bonus = 0\<rparr>"
  have F: "demo_fns ''rpc_create_notification'' = create_notification_fn"
    by (intro ext) (simp add: demo_fns_def)
  have ok: "money_ok (w_db \<lparr>w_db = demo_services, w_log = []\<rparr>)" by (simp add: demo_services_ok)
  obtain w' where w': "runAsService demo_session (expire_window demo_fns demo_window) \<lparr>w_db = demo_services, w_log = []\<rparr> = (Inr (), w')"
    "wallets (w_db w') = map (\<lambda>y. if wl_id y = wl_id ?v then y\<lparr>wl_balance := wl_balance y + dw_charge demo_window\<rparr> else y)
       (wallets demo_services)"
    "dm_windows (w_db w') = map (window_expired (dw_id demo_window)) (dm_windows demo_services)"
    using expired_question_refunded_once [where win = demo_window and v = ?v and base = demo_session and F = demo_fns
        and w = "\<lparr>w_db = demo_services, w_log = []\<rparr>", OF ok _ _ _ F]
    by (auto simp: demo_window_def demo_services_def wallet_of_def find_txn_def)
  then show ?thesis by (simp add: demo_services_def demo_window_def window_expired_def)
qed

text \<open>
  Nothing of a question's expiry survives a failed statement, the notification's included: if
  the refund or the caught notification raises, the database is as before, so the question stays
  open for the next run, and unless the driver re-raises the error the run counts it as refunded; a
  notification that only reports a failure is ignored and everything is kept.
\<close>

theorem failed_notification_keeps_question_open:
  fixes w :: "'a services_scheme world"
  assumes "s = base\<lparr>app_is_service_role := True\<rparr>" and "refund_window win s (w_db w) = Inr ((), d1)"
    and "d2 = d1\<lparr>dm_windows := map (\<lambda>x. if dw_id x = dw_id win then x\<lparr>dw_status := EXPIRED\<rparr> else x) (dm_windows d1)\<rparr>"
  shows "(\<forall>msg. F ''rpc_create_notification'' (expired_notice win) s d2 = Inl msg \<longrightarrow>
       runAsService base (expire_window F win) w = (if drv_rethrow base then Inl (PgError msg) else Inr (), w)) \<and>
    (\<forall>r d3. F ''rpc_create_notification'' (expired_notice win) s d2 = Inr (r, d3) \<longrightarrow>
       runAsService base (expire_window F win) w = (Inr (), w\<lparr>w_db := d3\<rparr>))"
  using assms(2,3) by (simp add: expire_window_run [OF assms(1) refl])

theorem failed_notification_keeps_question_open_witness:
  "\<exists>d1. refund_window demo_window (demo_session\<lparr>app_is_service_role := True\<rparr>) demo_services = Inr ((), d1) \<and>
     runAsService demo_session (expire_window (\<lambda>_ _ _ _. Inl ''too long'') demo_window) \<lparr>w_db = demo_services, w_log = []\<rparr> =
       (Inl (PgError ''too long''), \<lparr>w_db = demo_services, w_log = []\<rparr>)"
proof -
  obtain d1 where d1: "refund_window demo_window (demo_session\<lparr>app_is_service_role := True\<rparr>)
      (w_db \<lparr>w_db = demo_services, w_log = []\<rparr>) = Inr ((), d1)"
    using refund_posts [OF demo_services_ok, where win = demo_window and v = "\<lparr>wl_id = 1, wl_profile = ''fan'', wl_balance = 0, wl_bonus = 0\<rparr>"]
    by (auto simp: demo_services_def demo_window_def wallet_of_def find_txn_def)
  from failed_notification_keeps_question_open [OF refl this refl, where F = "\<lambda>_ _ _ _. Inl ''too long''"] d1
  show ?thesis by (simp add: demo_session_def)
qed

section \<open>Account deletion\<close>

lemma purge_tx_run:
  "runAsService base (purge_tx F r) w =
    (case F ''rpc_purge_profile'' [JStr (dr_profile r)] (base\<lparr>app_is_service_role := True\<rparr>) (w_db w) of
       Inl e \<Rightarrow> (Inl (PgError e), w)
     | Inr (v, d) \<Rightarrow> if jget v ''success'' = Some (JBool False) then (Inl (BadRequest (rpc_error v)), w)
         else (Inr (), w\<lparr>w_db := d\<lparr>deletions := map (\<lambda>x. if dr_id x = dr_id r then x\<lparr>dr_status := D_COMPLETED\<rparr> else x)
           (deletions d)\<rparr>\<rparr>))"
  by (auto simp: purge_tx_def runAsService_def transaction_def tx_defs rpc_def set_completed_def
      split: sum.split prod.split)

text \<open>
  One account of the deletion sweep: with GoTrue configured the login is deleted first, and only
  if that succeeds (a login that is already gone counts) is the profile purged; the request is
  completed exactly in the unit of work that purges the profile, and in every other case the
  database is unchanged and the request stays open for a retry.  The login may be gone by then:
  the order is the reverse of the one the comment promises.
\<close>

theorem purge_deletes_login_first:
  fixes w :: "'a services_scheme world"
  assumes "purge_one a fetch F base r w = ((good, kept), w')"
    and "call = F ''rpc_purge_profile'' [JStr (dr_profile r)] (base\<lparr>app_is_service_role := True\<rparr>) (w_db w)"
  shows "w_log w' = w_log w @ (if sa_enabled a then [Ext ''DELETE'' [sa_baseUrl a @ ''/admin/users/'' @ dr_profile r]] else []) \<and>
    (good \<longleftrightarrow> (sa_enabled a \<longrightarrow> (\<exists>st. fetch (dr_profile r) = Inr st \<and> (200 \<le> st \<and> st < 300 \<or> st = 404))) \<and>
       (\<exists>v d. call = Inr (v, d) \<and> jget v ''success'' \<noteq> Some (JBool False) \<and>
          w_db w' = d\<lparr>deletions := map (\<lambda>x. if dr_id x = dr_id r then x\<lparr>dr_status := D_COMPLETED\<rparr> else x) (deletions d)\<rparr>)) \<and>
    (\<not> good \<longrightarrow> w_db w' = w_db w) \<and> (kept \<longrightarrow> \<not> sa_enabled a)"
proof (cases "sa_enabled a \<longrightarrow> (\<exists>st. fetch (dr_profile r) = Inr st \<and> (200 \<le> st \<and> st < 300 \<or> st = 404))")
  case False
  then have "purge_one a fetch F base r w =
      ((False, False), w\<lparr>w_log := w_log w @ [Ext ''DELETE'' [sa_baseUrl a @ ''/admin/users/'' @ dr_profile r]]\<rparr>)"
    by (auto simp: purge_one_def deleteUser_def split: sum.split)
  with assms(1) False show ?thesis by auto
next
  case True
  let ?w1 = "w\<lparr>w_log := w_log w @ (if sa_enabled a then [Ext ''DELETE'' [sa_baseUrl a @ ''/admin/users/'' @ dr_profile r]] else [])\<rparr>"
  have "purge_one a fetch F base r w = (case runAsService base (purge_tx F r) ?w1 of
      (Inr _, w2) \<Rightarrow> ((True, \<not> sa_enabled a), w2) | (Inl e, w2) \<Rightarrow> ((False, \<not> sa_enabled a), w2))"
    using True by (auto simp: purge_one_def deleteUser_def)
  with assms(1) True show ?thesis
    unfolding purge_tx_run by (cases call) (auto simp: assms(2) split: prod.splits if_splits)
qed

theorem purge_deletes_login_first_witness:
  "\<exists>w'. purge_one \<lparr>sa_baseUrl = ''u'', sa_serviceRoleKey = ''k''\<rparr> (\<lambda>_. Inr 404) demo_fns demo_session
     \<lparr>dr_id = 3, dr_profile = ''fan'', dr_status = D_CONFIRMED, dr_purge_at = Some 0\<rparr> \<lparr>w_db = demo_services, w_log = []\<rparr> =
     ((True, False), w') \<and> w_log w' = [Ext ''DELETE'' [''u/admin/users/fan'']]"
proof -
  obtain w' where r: "purge_one \<lparr>sa_baseUrl = ''u'', sa_serviceRoleKey = ''k''\<rparr> (\<lambda>_. Inr 404) demo_fns demo_session
     \<lparr>dr_id = 3, dr_profile = ''fan'', dr_status = D_CONFIRMED, dr_purge_at = Some 0\<rparr> \<lparr>w_db = demo_services, w_log = []\<rparr> =
     ((True, False), w')"
    by (simp add: purge_one_def deleteUser_def sa_enabled_def purge_tx_run demo_fns_def ok_json_def jid_def)
  from purge_deletes_login_first [OF r refl] r show ?thesis by (simp add: sa_enabled_def)
qed

end
