(* ===== verification/Push.thy ===== *)
theory Push
  imports Services
begin

text \<open>
  \<open>src/push/\<close>: registering a device and reaching it through both push providers.  The answers of FCM,
  OneSignal and Google's token endpoint are arguments; every request is recorded in the log.
\<close>

section \<open>Device tokens\<close>

record pushToken =
  pt_profile :: string
  pt_fcm :: "string option"
  pt_onesignal :: "string option"
  pt_platform :: "string option"
  pt_device_info :: json
  pt_last_seen :: int

record pushDb = services +
  push_tokens :: "pushToken list"

record registerTokenDto =
  rt_fcmToken :: "string option"
  rt_onesignalPlayerId :: "string option"
  rt_platform :: "string option"
  rt_deviceInfo :: "json option"

text \<open>
  The upsert of \<open>registerToken\<close>.  It resolves a conflict on (profile, FCM token); the other constraints
  raise: the token is not null and unique over all users (migration 0007), and (profile, OneSignal id)
  is unique (0035).
\<close>

definition same_fcm :: "string \<Rightarrow> string option \<Rightarrow> pushToken \<Rightarrow> bool" where
  "same_fcm u f x \<longleftrightarrow> pt_profile x = u \<and> pt_fcm x = f"

definition same_onesignal :: "string \<Rightarrow> string option \<Rightarrow> pushToken \<Rightarrow> bool" where
  "same_onesignal u v x \<longleftrightarrow> v \<noteq> None \<and> pt_profile x = u \<and> pt_onesignal x = v"

definition upsert_token :: "string \<Rightarrow> registerTokenDto \<Rightarrow> ('a pushDb_scheme, unit) stmt" where
  "upsert_token u dto s d =
     (let f = rt_fcmToken dto; v = rt_onesignalPlayerId dto;
          p = Some (case rt_platform dto of None \<Rightarrow> ''android'' | Some x \<Rightarrow> x);
          info = (case rt_deviceInfo dto of None \<Rightarrow> JObj [] | Some x \<Rightarrow> x)
      in if f = None then Inl ''null value in column fcm_token violates not-null constraint''
         else if \<exists>x \<in> set (push_tokens d). same_onesignal u v x \<and> \<not> same_fcm u f x
         then Inl ''duplicate key value violates unique constraint push_tokens_profile_onesignal_uq''
         else if \<exists>x \<in> set (push_tokens d). same_fcm u f x
         then Inr ((), d\<lparr>push_tokens := map (\<lambda>x. if same_fcm u f x
                then x\<lparr>pt_onesignal := v, pt_platform := p, pt_device_info := info, pt_last_seen := sess_now s\<rparr> else x) (push_tokens d)\<rparr>)
         else if \<exists>x \<in> set (push_tokens d). pt_fcm x = f
         then Inl ''duplicate key value violates unique constraint push_token_uq''
         else Inr ((), d\<lparr>push_tokens := push_tokens d @ [\<lparr>pt_profile = u, pt_fcm = f, pt_onesignal = v,
                pt_platform = p, pt_device_info = info, pt_last_seen = sess_now s\<rparr>]\<rparr>))"

definition registerToken :: "session \<Rightarrow> string \<Rightarrow> registerTokenDto \<Rightarrow> ('a pushDb_scheme, json) act" where
  "registerToken base u dto =
     runAs base u (tx_bind (execute (upsert_token u dto)) (\<lambda>_. tx_return (ok_json [])))"

section \<open>FCM\<close>

text \<open>
  A request to FCM and its answer: the network fails, or there is a status and a body.  \<open>fm_dead\<close> is
  what makes the code drop a token.
\<close>

datatype fcmPayload =
    FcmData "(string \<times> string) list" int bool
  | FcmNotification string string "(string \<times> string) list option"

definition flat :: "(string \<times> string) list \<Rightarrow> string list" where
  "flat data = concat (map (\<lambda>(k, v). [k, v]) data)"

fun payload_text :: "fcmPayload \<Rightarrow> string list" where
  "payload_text (FcmData data ttl ios) = (if ios then ''apns'' else ''android'') # int_text ttl # flat data"
| "payload_text (FcmNotification title body data) =
     ''notification'' # title # body # (case data of None \<Rightarrow> [] | Some kvs \<Rightarrow> flat kvs)"

record fcmConfig =
  fm_jwt :: bool
  fm_projectId :: "string option"

text \<open>The constructor; \<open>decode\<close> is base64 decoding followed by \<open>JSON.parse\<close>.\<close>

definition new_FcmProvider :: "(string \<Rightarrow> string option) \<Rightarrow> (string \<Rightarrow> json option) \<Rightarrow> fcmConfig" where
  "new_FcmProvider config decode =
     (let b64 = config ''FCM_SERVICE_ACCOUNT_B64''; pid = config ''FCM_PROJECT_ID''
      in if truthy_str b64
         then (case decode (the b64) of
                 None \<Rightarrow> \<lparr>fm_jwt = False, fm_projectId = pid\<rparr>
               | Some sa \<Rightarrow> if sa = JNull then \<lparr>fm_jwt = False, fm_projectId = pid\<rparr>
                   else \<lparr>fm_jwt = True, fm_projectId = (case pid of Some p \<Rightarrow> Some p
                     | None \<Rightarrow> (case jget sa ''project_id'' of Some (JStr p) \<Rightarrow> Some p | _ \<Rightarrow> None))\<rparr>)
         else \<lparr>fm_jwt = False, fm_projectId = pid\<rparr>)"

definition fcm_enabled :: "fcmConfig \<Rightarrow> bool" where
  "fcm_enabled c \<longleftrightarrow> fm_jwt c \<and> truthy_str (fm_projectId c)"

type_synonym fcmNet = "string \<Rightarrow> fcmPayload \<Rightarrow> exn + (nat \<times> string)"

text \<open>\<open>s.includes(p)\<close>.\<close>

fun str_includes :: "string \<Rightarrow> string \<Rightarrow> bool" where
  "str_includes [] p = (p = [])"
| "str_includes (c # cs) p = (starts_with p (c # cs) \<or> str_includes cs p)"

definition res_ok :: "nat \<Rightarrow> bool" where
  "res_ok status \<longleftrightarrow> 200 \<le> status \<and> status < 300"

definition fm_dead :: "exn + (nat \<times> string) \<Rightarrow> bool" where
  "fm_dead r \<longleftrightarrow> (case r of
     Inl e \<Rightarrow> False
   | Inr (status, body) \<Rightarrow> \<not> res_ok status \<and>
       (status = 404 \<or> str_includes body ''UNREGISTERED'' \<or> str_includes body ''INVALID_ARGUMENT''))"

text \<open>One request per token, in parallel; the dead tokens come back.  \<open>access\<close> is the access token.\<close>

definition fcm_send ::
  "fcmConfig \<Rightarrow> exn + string \<Rightarrow> fcmNet \<Rightarrow> (string \<times> string option) list \<Rightarrow> (string option \<Rightarrow> fcmPayload) \<Rightarrow>
   ('d, string list) txm" where
  "fcm_send c access net tokens payload =
     (if \<not> fcm_enabled c \<or> tokens = [] then tx_return []
      else case access of
             Inl e \<Rightarrow> tx_throw e
           | Inr bearer \<Rightarrow>
               (\<lambda>s t. (Inr (map fst (filter (\<lambda>(tok, p). fm_dead (net tok (payload p))) tokens)),
                       t\<lparr>tx_log := tx_log t @ map (\<lambda>(tok, p). Ext ''fcm'' (tok # payload_text (payload p))) tokens\<rparr>)))"

definition fcm_sendData ::
  "fcmConfig \<Rightarrow> exn + string \<Rightarrow> fcmNet \<Rightarrow> (string \<times> string option) list \<Rightarrow> (string \<times> string) list \<Rightarrow> int \<Rightarrow>
   ('d, string list) txm" where
  "fcm_sendData c access net tokens data ttlSeconds =
     fcm_send c access net tokens (\<lambda>platform. FcmData data ttlSeconds (platform = Some ''ios''))"

definition fcm_sendNotification ::
  "fcmConfig \<Rightarrow> exn + string \<Rightarrow> fcmNet \<Rightarrow> (string \<times> string option) list \<Rightarrow> string \<Rightarrow> string \<Rightarrow>
   (string \<times> string) list option \<Rightarrow> ('d, string list) txm" where
  "fcm_sendNotification c access net tokens title body data =
     fcm_send c access net tokens (\<lambda>_. FcmNotification title body data)"

section \<open>OneSignal\<close>

record oneSignalConfig =
  os_appId :: "string option"
  os_restKey :: "string option"
  os_callChannel :: string

definition new_OneSignalProvider :: "(string \<Rightarrow> string option) \<Rightarrow> oneSignalConfig" where
  "new_OneSignalProvider config = \<lparr>os_appId = config ''ONESIGNAL_APP_ID'', os_restKey = config ''ONESIGNAL_REST_API_KEY'',
     os_callChannel = (case config ''PUSH_CALL_CHANNEL_ID'' of None \<Rightarrow> ''zudue_calls'' | Some x \<Rightarrow> x)\<rparr>"

definition os_enabled :: "oneSignalConfig \<Rightarrow> bool" where
  "os_enabled c \<longleftrightarrow> truthy_str (os_appId c) \<and> truthy_str (os_restKey c)"

text \<open>
  Both methods make one request for all devices and swallow its failure; a ring carries the call
  channel.
\<close>

definition os_sendCall ::
  "oneSignalConfig \<Rightarrow> string list \<Rightarrow> (string \<times> string) list \<Rightarrow> string \<Rightarrow> string \<Rightarrow> ('d, unit) txm" where
  "os_sendCall c playerIds data title body =
     (if \<not> os_enabled c \<or> playerIds = [] then tx_return ()
      else tx_call (Ext ''onesignal-call'' (os_callChannel c # title # body # flat data @ playerIds)) (Inr ()))"

definition os_sendNotification ::
  "oneSignalConfig \<Rightarrow> string list \<Rightarrow> string \<Rightarrow> string \<Rightarrow> (string \<times> string) list option \<Rightarrow> ('d, unit) txm" where
  "os_sendNotification c playerIds title body data =
     (if \<not> os_enabled c \<or> playerIds = [] then tx_return ()
      else tx_call (Ext ''onesignal'' (title # body # (case data of None \<Rightarrow> [] | Some kvs \<Rightarrow> flat kvs) @ playerIds)) (Inr ()))"

section \<open>The push service\<close>

text \<open>
  The providers and their answers.  \<open>pe_rls\<close>: the connection's role is subject to row level security,
  under which \<open>push_owner\<close> (migration 0011) shows a session its own user's rows, or all to an
  administrator; the service setting plays no part in that policy.  \<open>pe_arrays\<close>: the driver binds a
  JavaScript array as an array; the comments in \<open>catalog.module.ts\<close> and \<open>identity.module.ts\<close> say that it
  renders a record instead, which \<open>any(...)\<close> refuses.
\<close>

record pushEnv =
  pe_fcm :: fcmConfig
  pe_access :: "exn + string"
  pe_net :: fcmNet
  pe_onesignal :: oneSignalConfig
  pe_rls :: bool
  pe_arrays :: bool

definition push_visible :: "pushEnv \<Rightarrow> session \<Rightarrow> 'a pushDb_scheme \<Rightarrow> pushToken \<Rightarrow> bool" where
  "push_visible E s d x \<longleftrightarrow> \<not> pe_rls E \<or>
     (\<exists>u. app_user_id s = Some u \<and> (u = pt_profile x \<or> u \<in> set (admins d)))"

definition tokens_for :: "pushEnv \<Rightarrow> string list \<Rightarrow> session \<Rightarrow> 'a pushDb_scheme \<Rightarrow> pushToken list" where
  "tokens_for E us s d = filter (\<lambda>x. pt_profile x \<in> set us \<and> push_visible E s d x) (push_tokens d)"

definition sel_tokens :: "pushEnv \<Rightarrow> string \<Rightarrow> ('a pushDb_scheme, pushToken list) stmt" where
  "sel_tokens E u s d = Inr (tokens_for E [u] s d, d)"

text \<open>\<open>= any(${array})\<close>.\<close>

definition any_array :: "pushEnv \<Rightarrow> ('d, 'a) stmt \<Rightarrow> ('d, 'a) stmt" where
  "any_array E st s d = (if pe_arrays E then st s d else Inl ''op ANY/ALL (array) requires array on right side'')"

definition sel_tokens_any :: "pushEnv \<Rightarrow> string list \<Rightarrow> ('a pushDb_scheme, pushToken list) stmt" where
  "sel_tokens_any E us = any_array E (\<lambda>s d. Inr (tokens_for E us s d, d))"

definition del_tokens :: "pushEnv \<Rightarrow> string \<Rightarrow> string list \<Rightarrow> ('a pushDb_scheme, unit) stmt" where
  "del_tokens E u dead = any_array E (\<lambda>s d.
     Inr ((), d\<lparr>push_tokens := filter (\<lambda>x. \<not> (pt_profile x = u \<and> push_visible E s d x \<and>
        (\<exists>f \<in> set dead. pt_fcm x = Some f))) (push_tokens d)\<rparr>))"

definition fcm_tokens :: "pushToken list \<Rightarrow> (string \<times> string option) list" where
  "fcm_tokens rows = map (\<lambda>x. (the (pt_fcm x), pt_platform x)) (filter (\<lambda>x. truthy_str (pt_fcm x)) rows)"

definition player_ids :: "pushToken list \<Rightarrow> string list" where
  "player_ids rows = map the (filter truthy_str (map pt_onesignal rows))"

text \<open>\<open>Promise.all\<close>: both run; a rejection of either rejects.\<close>

definition tx_both :: "('d, 'a) txm \<Rightarrow> ('d, 'b) txm \<Rightarrow> ('d, 'a \<times> 'b) txm" where
  "tx_both m n s t =
     (case m s t of (r1, t1) \<Rightarrow> case n s t1 of (r2, t2) \<Rightarrow>
        (case r1 of Inl e \<Rightarrow> Inl e | Inr a \<Rightarrow> (case r2 of Inl e \<Rightarrow> Inl e | Inr b \<Rightarrow> Inr (a, b)), t2))"

text \<open>\<open>if (dead.length) delete\<close>.\<close>

definition prune :: "pushEnv \<Rightarrow> string \<Rightarrow> string list \<times> unit \<Rightarrow> ('a pushDb_scheme, unit) txm" where
  "prune E u r = (if fst r = [] then tx_return () else execute (del_tokens E u (fst r)))"

record incomingCall =
  ic_callId :: string
  ic_bookingId :: string
  ic_meetingId :: string
  ic_callerName :: string
  ic_callerId :: string
  ic_durationMinutes :: int

definition call_data :: "incomingCall \<Rightarrow> (string \<times> string) list" where
  "call_data c = [(''type'', ''incoming_call''), (''callId'', ic_callId c), (''bookingId'', ic_bookingId c),
     (''meetingId'', ic_meetingId c), (''callerName'', ic_callerName c), (''callerId'', ic_callerId c),
     (''durationMinutes'', int_text (ic_durationMinutes c))]"

definition sendIncomingCall :: "pushEnv \<Rightarrow> session \<Rightarrow> string \<Rightarrow> incomingCall \<Rightarrow> ('a pushDb_scheme, unit) act" where
  "sendIncomingCall E base fan c =
     runAsService base (tx_bind (execute (sel_tokens E fan)) (\<lambda>rows.
       tx_bind (tx_both (fcm_sendData (pe_fcm E) (pe_access E) (pe_net E) (fcm_tokens rows) (call_data c) 45)
                        (os_sendCall (pe_onesignal E) (player_ids rows) (call_data c) (ic_callerName c) ''Incoming video call''))
         (prune E fan)))"

definition notifyQueueNext ::
  "pushEnv \<Rightarrow> session \<Rightarrow> string \<Rightarrow> string \<Rightarrow> string \<Rightarrow> (string \<times> string) list \<Rightarrow> ('a pushDb_scheme, unit) act" where
  "notifyQueueNext E base fan title body data =
     runAsService base (tx_bind (execute (sel_tokens E fan)) (\<lambda>rows.
       tx_bind (tx_both (fcm_sendNotification (pe_fcm E) (pe_access E) (pe_net E) (fcm_tokens rows) title body (Some data))
                        (os_sendNotification (pe_onesignal E) (player_ids rows) title body (Some data)))
         (prune E fan)))"

definition cancelCall :: "pushEnv \<Rightarrow> session \<Rightarrow> string \<Rightarrow> string \<Rightarrow> ('a pushDb_scheme, unit) act" where
  "cancelCall E base fan callId =
     runAsService base (tx_bind (execute (sel_tokens E fan)) (\<lambda>rows.
       let data = [(''type'', ''call_cancelled''), (''callId'', callId)] in
       tx_bind (tx_both (fcm_sendData (pe_fcm E) (pe_access E) (pe_net E) (fcm_tokens rows) data 20)
                        (os_sendCall (pe_onesignal E) (player_ids rows) data ''Call ended'' ''Missed call''))
         (\<lambda>_. tx_return ())))"

text \<open>\<open>[...new Set(recipientIds.filter(Boolean))]\<close>.\<close>

definition recipients :: "string list \<Rightarrow> string list" where
  "recipients us = fold set_add (filter (\<lambda>u. u \<noteq> []) us) []"

definition notifyCallEnded ::
  "pushEnv \<Rightarrow> session \<Rightarrow> string list \<Rightarrow> string \<Rightarrow> string \<Rightarrow> string \<Rightarrow> string option \<Rightarrow> ('a pushDb_scheme, unit) act" where
  "notifyCallEnded E base recipientIds callId bookingId status endedByRole w =
     (let us = recipients recipientIds in
      if us = [] then (Inr (), w)
      else runAsService base (tx_bind (execute (sel_tokens_any E us)) (\<lambda>rows.
        let data = [(''type'', ''call_ended''), (''callId'', callId), (''bookingId'', bookingId), (''status'', status)]
                   @ (if truthy_str endedByRole then [(''endedByRole'', the endedByRole)] else []) in
        tx_bind (tx_both (fcm_sendData (pe_fcm E) (pe_access E) (pe_net E) (fcm_tokens rows) data 20)
                         (os_sendNotification (pe_onesignal E) (player_ids rows) ''Call ended'' ''Your call has ended.'' (Some data)))
          (\<lambda>_. tx_return ()))) w)"

end
