(* ===== verification/Push_Props.thy ===== *)
theory Push_Props
  imports Push
begin

text \<open>Properties of the push service: registering a device, and whom a ring reaches.\<close>

section \<open>Registering\<close>

text \<open>Two rows that one of the unique indexes forbids.\<close>

definition clash :: "pushToken \<Rightarrow> pushToken \<Rightarrow> bool" where
  "clash x y \<longleftrightarrow> pt_fcm x \<noteq> None \<and> pt_fcm x = pt_fcm y \<or>
     pt_profile x = pt_profile y \<and> pt_onesignal x \<noteq> None \<and> pt_onesignal x = pt_onesignal y"

definition tokens_ok :: "pushToken list \<Rightarrow> bool" where
  "tokens_ok xs \<longleftrightarrow> sorted_wrt (\<lambda>x y. \<not> clash x y) xs"

text \<open>The requests that are refused.\<close>

definition refused :: "string \<Rightarrow> registerTokenDto \<Rightarrow> pushToken list \<Rightarrow> bool" where
  "refused u dto xs \<longleftrightarrow> rt_fcmToken dto = None \<or>
     (\<exists>x \<in> set xs. same_onesignal u (rt_onesignalPlayerId dto) x \<and> pt_fcm x \<noteq> rt_fcmToken dto) \<or>
     (\<exists>x \<in> set xs. pt_fcm x = rt_fcmToken dto \<and> pt_profile x \<noteq> u)"

text \<open>What an accepted one leaves.\<close>

definition refreshed :: "string \<Rightarrow> registerTokenDto \<Rightarrow> session \<Rightarrow> pushToken \<Rightarrow> pushToken" where
  "refreshed u dto s x = (if same_fcm u (rt_fcmToken dto) x
     then x\<lparr>pt_onesignal := rt_onesignalPlayerId dto,
            pt_platform := Some (case rt_platform dto of None \<Rightarrow> ''android'' | Some x \<Rightarrow> x),
            pt_device_info := (case rt_deviceInfo dto of None \<Rightarrow> JObj [] | Some x \<Rightarrow> x), pt_last_seen := sess_now s\<rparr>
     else x)"

definition fresh_row :: "string \<Rightarrow> registerTokenDto \<Rightarrow> session \<Rightarrow> pushToken" where
  "fresh_row u dto s = \<lparr>pt_profile = u, pt_fcm = rt_fcmToken dto, pt_onesignal = rt_onesignalPlayerId dto,
     pt_platform = Some (case rt_platform dto of None \<Rightarrow> ''android'' | Some x \<Rightarrow> x),
     pt_device_info = (case rt_deviceInfo dto of None \<Rightarrow> JObj [] | Some x \<Rightarrow> x), pt_last_seen = sess_now s\<rparr>"

definition registered :: "string \<Rightarrow> registerTokenDto \<Rightarrow> session \<Rightarrow> pushToken list \<Rightarrow> pushToken list" where
  "registered u dto s xs = (if \<exists>x \<in> set xs. same_fcm u (rt_fcmToken dto) x then map (refreshed u dto s) xs
     else xs @ [fresh_row u dto s])"

lemma tokens_ok_pair: "tokens_ok xs \<Longrightarrow> x \<in> set xs \<Longrightarrow> y \<in> set xs \<Longrightarrow> x \<noteq> y \<Longrightarrow> \<not> clash x y"
proof (induction xs)
  case (Cons z zs)
  have sym: "clash a b \<longleftrightarrow> clash b a" for a b by (auto simp: clash_def eq_commute)
  from Cons show ?case by (auto simp: tokens_ok_def sym [of _ z])
qed simp

lemma tokens_ok_fcm:
  "tokens_ok xs \<Longrightarrow> x \<in> set xs \<Longrightarrow> y \<in> set xs \<Longrightarrow> pt_fcm x = pt_fcm y \<Longrightarrow> pt_fcm x \<noteq> None \<Longrightarrow> x = y"
  using tokens_ok_pair [of xs x y] by (auto simp: clash_def)

lemma upsert_token_eq:
  assumes ok: "tokens_ok (push_tokens d)"
  shows "refused u dto (push_tokens d) \<Longrightarrow> \<exists>e. upsert_token u dto s d = Inl e"
    and "\<not> refused u dto (push_tokens d) \<Longrightarrow>
      upsert_token u dto s d = Inr ((), d\<lparr>push_tokens := registered u dto s (push_tokens d)\<rparr>)"
proof -
  note one = tokens_ok_fcm [OF ok]
  let ?f = "rt_fcmToken dto"
  show "\<exists>e. upsert_token u dto s d = Inl e" if r: "refused u dto (push_tokens d)"
  proof (cases "?f = None")
    case False
    show ?thesis
    proof (cases "\<exists>x \<in> set (push_tokens d). same_onesignal u (rt_onesignalPlayerId dto) x \<and> \<not> same_fcm u ?f x")
      case no: False
      with r False obtain x where x: "x \<in> set (push_tokens d)" "pt_fcm x = ?f" "pt_profile x \<noteq> u"
        by (auto simp: refused_def same_fcm_def same_onesignal_def)
      have "\<not> (\<exists>y \<in> set (push_tokens d). same_fcm u ?f y)"
        using one x False by (metis same_fcm_def)
      with no False x show ?thesis by (auto simp: upsert_token_def Let_def)
    qed (simp add: upsert_token_def Let_def)
  qed (simp add: upsert_token_def)
  show "upsert_token u dto s d = Inr ((), d\<lparr>push_tokens := registered u dto s (push_tokens d)\<rparr>)"
    if r: "\<not> refused u dto (push_tokens d)"
  proof -
    have f: "?f \<noteq> None" and no: "\<not> (\<exists>x \<in> set (push_tokens d). same_onesignal u (rt_onesignalPlayerId dto) x \<and> \<not> same_fcm u ?f x)"
      and other: "(\<exists>x \<in> set (push_tokens d). pt_fcm x = ?f) \<longleftrightarrow> (\<exists>x \<in> set (push_tokens d). same_fcm u ?f x)"
      using r by (auto simp: refused_def same_fcm_def same_onesignal_def)
    show ?thesis
      unfolding upsert_token_def Let_def registered_def refreshed_def [abs_def] fresh_row_def
      using f by (simp only: no other if_False if_cancel split: if_split) simp
  qed
qed

lemma registered_keeps_unique:
  assumes ok: "tokens_ok xs" and r: "\<not> refused u dto xs"
  shows "tokens_ok (registered u dto s xs)"
proof (cases "\<exists>x \<in> set xs. same_fcm u (rt_fcmToken dto) x")
  case True
  have "sorted_wrt (\<lambda>x y. \<not> clash (refreshed u dto s x) (refreshed u dto s y)) xs"
    using ok unfolding tokens_ok_def
  proof (rule sorted_wrt_mono_rel [rotated])
    fix x y assume "x \<in> set xs" "y \<in> set xs" "\<not> clash x y"
    with r show "\<not> clash (refreshed u dto s x) (refreshed u dto s y)"
      by (auto simp: clash_def same_fcm_def same_onesignal_def refused_def refreshed_def)
  qed
  with True show ?thesis by (simp add: tokens_ok_def registered_def sorted_wrt_map)
next
  case False
  have "\<not> clash x (fresh_row u dto s)" if x: "x \<in> set xs" for x
  proof -
    have "pt_fcm x \<noteq> rt_fcmToken dto" using x False r by (auto simp: same_fcm_def refused_def)
    moreover have "\<not> same_onesignal u (rt_onesignalPlayerId dto) x" using x calculation r by (auto simp: refused_def)
    ultimately show ?thesis by (auto simp: clash_def fresh_row_def same_onesignal_def)
  qed
  with ok False show ?thesis by (simp add: tokens_ok_def registered_def sorted_wrt_append)
qed

lemma registered_row:
  "\<exists>row \<in> set (registered u dto s xs). pt_profile row = u \<and> pt_fcm row = rt_fcmToken dto \<and> pt_onesignal row = rt_onesignalPlayerId dto"
proof (cases "\<exists>x \<in> set xs. same_fcm u (rt_fcmToken dto) x")
  case True
  then obtain x where "x \<in> set xs" "same_fcm u (rt_fcmToken dto) x" by blast
  then show ?thesis by (intro bexI [of _ "refreshed u dto s x"]) (auto simp: registered_def refreshed_def same_fcm_def)
qed (auto simp: registered_def fresh_row_def)

lemma registered_others:
  "filter (\<lambda>x. pt_profile x \<noteq> u) (registered u dto s xs) = filter (\<lambda>x. pt_profile x \<noteq> u) xs"
proof -
  have "filter (\<lambda>x. pt_profile x \<noteq> u) (map (refreshed u dto s) xs) = filter (\<lambda>x. pt_profile x \<noteq> u) xs"
    by (induction xs) (auto simp: refreshed_def same_fcm_def)
  then show ?thesis by (simp add: registered_def fresh_row_def)
qed

text \<open>
  Registering a device: it succeeds, leaves a row with exactly these ids for the user, touches no
  other user's rows and keeps the unique indexes, unless no FCM token is sent, the user's OneSignal id is on a row
  with another FCM token, or the FCM token is another user's; then it is rejected and nothing
  changes.  So a token that FCM rotated on a device that keeps its OneSignal id is not recorded,
  and neither is a device on which another user logs in.
\<close>

theorem register_token_outcome:
  fixes w :: "'a pushDb_scheme world"
  assumes ok: "tokens_ok (push_tokens (w_db w))"
  shows "(refused u dto (push_tokens (w_db w)) \<longrightarrow> (\<exists>e. registerToken base u dto w = (Inl e, w))) \<and>
    (\<not> refused u dto (push_tokens (w_db w)) \<longrightarrow>
      (\<exists>w' row. registerToken base u dto w = (Inr (ok_json []), w') \<and> tokens_ok (push_tokens (w_db w')) \<and>
         row \<in> set (push_tokens (w_db w')) \<and> pt_profile row = u \<and> pt_fcm row = rt_fcmToken dto \<and>
         pt_onesignal row = rt_onesignalPlayerId dto \<and>
         filter (\<lambda>x. pt_profile x \<noteq> u) (push_tokens (w_db w')) = filter (\<lambda>x. pt_profile x \<noteq> u) (push_tokens (w_db w))))"
proof -
  let ?s = "base\<lparr>app_user_id := Some u\<rparr>" and ?d = "w_db w"
  have run: "registerToken base u dto w = (case upsert_token u dto ?s ?d of
      Inl e \<Rightarrow> (Inl (PgError e), w) | Inr (a, d') \<Rightarrow> (Inr (ok_json []), w\<lparr>w_db := d'\<rparr>))"
    by (auto simp: registerToken_def runAs_def transaction_def tx_defs split: sum.split prod.split)
  obtain row where row: "row \<in> set (registered u dto ?s (push_tokens ?d))" "pt_profile row = u"
    "pt_fcm row = rt_fcmToken dto" "pt_onesignal row = rt_onesignalPlayerId dto"
    using registered_row by blast
  show ?thesis
  proof (cases "refused u dto (push_tokens ?d)")
    case True
    with upsert_token_eq(1) [OF ok True, of ?s] show ?thesis by (auto simp: run)
  next
    case False
    with row upsert_token_eq(2) [OF ok False, of ?s] registered_keeps_unique [OF ok False, of ?s] show ?thesis
      by (auto simp: run registered_others)
  qed
qed

text \<open>A user with one device, for the witnesses.\<close>

definition demo_push :: pushDb where
  "demo_push = \<lparr>wallets = [], txns = [], entries = [], next_id = 1, topups = [], webhooks = [], disputes = [], notifs = [],
     settings = None, admins = [], finance_admins = [], bookings = [], calls = [], dm_windows = [], shoutouts = [],
     earnings = [], reports = [], deletions = [], audits = [], profiles = [(''fan'', None)], partner_profiles = [],
     push_tokens = [\<lparr>pt_profile = ''fan'', pt_fcm = Some ''f1'', pt_onesignal = Some ''o1'', pt_platform = Some ''ios'', pt_device_info = JObj [], pt_last_seen = 0\<rparr>]\<rparr>"

theorem register_token_outcome_witness:
  "(\<exists>e. registerToken demo_session ''fan'' \<lparr>rt_fcmToken = Some ''f2'', rt_onesignalPlayerId = Some ''o1'', rt_platform = None, rt_deviceInfo = None\<rparr>
      \<lparr>w_db = demo_push, w_log = []\<rparr> = (Inl e, \<lparr>w_db = demo_push, w_log = []\<rparr>))"
proof -
  let ?w = "\<lparr>w_db = demo_push, w_log = []\<rparr>"
    and ?dto = "\<lparr>rt_fcmToken = Some ''f2'', rt_onesignalPlayerId = Some ''o1'', rt_platform = None, rt_deviceInfo = None\<rparr>"
  have "tokens_ok (push_tokens (w_db ?w))" by (simp add: tokens_ok_def demo_push_def)
  from register_token_outcome [OF this, of "''fan''" "?dto" demo_session] show ?thesis
    by (simp add: refused_def demo_push_def same_onesignal_def)
qed

section \<open>Ringing\<close>

text \<open>The rows of a recipient that the sending session can see.\<close>

definition reachable_rows :: "pushEnv \<Rightarrow> string \<Rightarrow> 'a pushDb_scheme \<Rightarrow> pushToken list" where
  "reachable_rows E u d = filter (\<lambda>x. pt_profile x = u \<and> \<not> pe_rls E) (push_tokens d)"

definition ring_fcm :: "incomingCall \<Rightarrow> string option \<Rightarrow> fcmPayload" where
  "ring_fcm c p = FcmData (call_data c) 45 (p = Some ''ios'')"

text \<open>
  A ring reaches every device of the fan exactly once per channel: with both providers
  configured there is one FCM message per FCM token, each in the form for its platform, and one
  OneSignal message to all OneSignal ids.  If FCM calls no token dead, that is all; if it does (which
  includes finding the message itself malformed) exactly those tokens of the fan are deleted when
  the driver binds arrays; when it renders them as records the deletion raises and nothing is ever
  pruned.  On a connection that is subject to row level security the service session sees no device:
  nobody is rung and the call still resolves.
\<close>

theorem ring_reaches_every_device:
  fixes w :: "'a pushDb_scheme world"
  assumes "app_user_id base = None" and "fcm_enabled (pe_fcm E)" and "pe_access E = Inr bearer"
    and "os_enabled (pe_onesignal E)" and rows: "rows = reachable_rows E fan (w_db w)"
    and dead: "dead = filter (\<lambda>(tok, p). fm_dead (pe_net E tok (ring_fcm c p))) (fcm_tokens rows)"
  shows "\<exists>r w'. sendIncomingCall E base fan c w = (r, w') \<and>
    w_log w' = w_log w @ map (\<lambda>(tok, p). Ext ''fcm'' (tok # payload_text (ring_fcm c p))) (fcm_tokens rows) @
      (if player_ids rows = [] then []
       else [Ext ''onesignal-call'' (os_callChannel (pe_onesignal E) # ic_callerName c # ''Incoming video call'' #
              flat (call_data c) @ player_ids rows)]) \<and>
    (if dead = [] then r = Inr () \<and> w_db w' = w_db w
     else if pe_arrays E
     then r = Inr () \<and> push_tokens (w_db w') =
       filter (\<lambda>x. \<not> (x \<in> set rows \<and> (\<exists>f \<in> fst ` set dead. pt_fcm x = Some f))) (push_tokens (w_db w))
     else r = Inl (PgError ''op ANY/ALL (array) requires array on right side'') \<and> w_db w' = w_db w)"
proof -
  let ?s = "base\<lparr>app_is_service_role := True\<rparr>" and ?d = "w_db w"
  have vis: "push_visible E ?s d x \<longleftrightarrow> \<not> pe_rls E" for d :: "'a pushDb_scheme" and x
    using assms(1) by (simp add: push_visible_def)
  have sel: "sel_tokens E fan ?s ?d = Inr (rows, ?d)"
    by (simp add: sel_tokens_def tokens_for_def vis rows reachable_rows_def)
  let ?log = "map (\<lambda>(tok, p). Ext ''fcm'' (tok # payload_text (ring_fcm c p))) (fcm_tokens rows)"
  have fcm: "fcm_sendData (pe_fcm E) (pe_access E) (pe_net E) (fcm_tokens rows) (call_data c) 45 s t =
      (Inr (map fst dead), t\<lparr>tx_log := tx_log t @ ?log\<rparr>)" for s and t :: "'a pushDb_scheme txs"
    using assms(2,3) by (simp add: fcm_sendData_def fcm_send_def ring_fcm_def tx_return_def dead)
  let ?os = "if player_ids rows = [] then [] else [Ext ''onesignal-call'' (os_callChannel (pe_onesignal E) #
      ic_callerName c # ''Incoming video call'' # flat (call_data c) @ player_ids rows)]"
  have os: "os_sendCall (pe_onesignal E) (player_ids rows) (call_data c) (ic_callerName c) ''Incoming video call'' s t =
      (Inr (), t\<lparr>tx_log := tx_log t @ ?os\<rparr>)" for s and t :: "'a pushDb_scheme txs"
    using assms(4) by (simp add: os_sendCall_def tx_return_def tx_call_def)
  have vis_rows: "x \<in> set rows \<longleftrightarrow> x \<in> set (push_tokens ?d) \<and> pt_profile x = fan \<and> \<not> pe_rls E" for x
    by (auto simp: rows reachable_rows_def)
  let ?d' = "?d\<lparr>push_tokens := filter (\<lambda>x. \<not> (pt_profile x = fan \<and> \<not> pe_rls E \<and>
      (\<exists>f \<in> set (map fst dead). pt_fcm x = Some f))) (push_tokens ?d)\<rparr>"
  have pruned: "push_tokens ?d' = filter (\<lambda>x. \<not> (x \<in> set rows \<and> (\<exists>f \<in> fst ` set dead. pt_fcm x = Some f))) (push_tokens ?d)"
    by (auto simp: vis_rows intro!: filter_cong)
  have run: "sendIncomingCall E base fan c w =
      (if dead = [] then (Inr (), \<lparr>w_db = ?d, w_log = w_log w @ ?log @ ?os\<rparr>)
       else if pe_arrays E then (Inr (), \<lparr>w_db = ?d', w_log = w_log w @ ?log @ ?os\<rparr>)
       else (Inl (PgError ''op ANY/ALL (array) requires array on right side''), \<lparr>w_db = ?d, w_log = w_log w @ ?log @ ?os\<rparr>))"
    by (cases "pe_rls E") (simp_all add: sendIncomingCall_def runAsService_def transaction_def tx_bind_def execute_def sel tx_both_def fcm os
        prune_def tx_return_def del_tokens_def any_array_def vis)
  show ?thesis unfolding run using pruned by (simp del: filter_filter)
qed

section \<open>The end of a call\<close>

lemma world_log: "\<lparr>w_db = w_db w, w_log = l\<rparr> = w\<lparr>w_log := l\<rparr>"
  by simp

lemma recipients_nil: "recipients us = [] \<longleftrightarrow> (\<forall>u \<in> set us. u = [])"
  and set_recipients: "set (recipients us) = {u \<in> set us. u \<noteq> []}"
proof -
  have "set (fold set_add us vs) = set vs \<union> set us" for us vs :: "string list"
    by (induction us arbitrary: vs) auto
  then show s: "set (recipients us) = {u \<in> set us. u \<noteq> []}" by (auto simp: recipients_def)
  show "recipients us = [] \<longleftrightarrow> (\<forall>u \<in> set us. u = [])"
    by (metis (mono_tags, lifting) empty_Collect_eq s set_empty)
qed

definition ended_data :: "string \<Rightarrow> string \<Rightarrow> string \<Rightarrow> string option \<Rightarrow> (string \<times> string) list" where
  "ended_data callId bookingId status role =
     [(''type'', ''call_ended''), (''callId'', callId), (''bookingId'', bookingId), (''status'', status)]
     @ (if truthy_str role then [(''endedByRole'', the role)] else [])"

text \<open>
  The end of a call is announced to every device of its parties that the session can see, with the
  status the server resolved it to, and the database is only read; but only if the driver
  binds arrays: when it renders them as records, the query for the devices raises whoever the
  recipients are, and no provider is asked anything.  No recipients at all is not an error.
\<close>

theorem call_ended_needs_array_binding:
  fixes w :: "'a pushDb_scheme world"
  assumes "app_user_id base = None" and "fcm_enabled (pe_fcm E)" and "pe_access E = Inr bearer"
    and "os_enabled (pe_onesignal E)"
    and rows: "rows = filter (\<lambda>x. pt_profile x \<in> set us \<and> pt_profile x \<noteq> [] \<and> \<not> pe_rls E) (push_tokens (w_db w))"
  shows "notifyCallEnded E base us callId bookingId status role w =
     (if \<forall>u \<in> set us. u = [] then (Inr (), w)
      else if \<not> pe_arrays E then (Inl (PgError ''op ANY/ALL (array) requires array on right side''), w)
      else (Inr (), w\<lparr>w_log := w_log w @
        map (\<lambda>(tok, p). Ext ''fcm'' (tok # payload_text (FcmData (ended_data callId bookingId status role) 20 (p = Some ''ios'')))) (fcm_tokens rows) @
        (if player_ids rows = [] then []
         else [Ext ''onesignal'' (''Call ended'' # ''Your call has ended.'' # flat (ended_data callId bookingId status role) @ player_ids rows)])\<rparr>))"
proof -
  let ?s = "base\<lparr>app_is_service_role := True\<rparr>" and ?d = "w_db w" and ?data = "ended_data callId bookingId status role"
  have "tokens_for E (recipients us) ?s ?d = rows"
    using assms(1) by (auto simp: tokens_for_def push_visible_def rows set_recipients intro!: filter_cong)
  then have sel: "sel_tokens_any E (recipients us) ?s ?d =
      (if pe_arrays E then Inr (rows, ?d) else Inl ''op ANY/ALL (array) requires array on right side'')"
    by (simp add: sel_tokens_any_def any_array_def)
  have fcm: "\<exists>dead. fcm_sendData (pe_fcm E) (pe_access E) (pe_net E) (fcm_tokens rows) ?data 20 s t =
      (Inr dead, t\<lparr>tx_log := tx_log t @ map (\<lambda>(tok, p). Ext ''fcm'' (tok # payload_text (FcmData ?data 20 (p = Some ''ios'')))) (fcm_tokens rows)\<rparr>)"
    for s and t :: "'a pushDb_scheme txs"
    using assms(2,3) by (simp add: fcm_sendData_def fcm_send_def tx_return_def)
  have os: "os_sendNotification (pe_onesignal E) (player_ids rows) ''Call ended'' ''Your call has ended.'' (Some ?data) s t =
      (Inr (), t\<lparr>tx_log := tx_log t @ (if player_ids rows = [] then []
         else [Ext ''onesignal'' (''Call ended'' # ''Your call has ended.'' # flat ?data @ player_ids rows)])\<rparr>)"
    for s and t :: "'a pushDb_scheme txs"
    using assms(4) by (simp add: os_sendNotification_def tx_return_def tx_call_def)
  obtain dead where "fcm_sendData (pe_fcm E) (pe_access E) (pe_net E) (fcm_tokens rows) ?data 20 ?s \<lparr>tx_db = ?d, tx_err = None, tx_log = w_log w\<rparr> =
      (Inr dead, \<lparr>tx_db = ?d, tx_err = None, tx_log = w_log w @
         map (\<lambda>(tok, p). Ext ''fcm'' (tok # payload_text (FcmData ?data 20 (p = Some ''ios'')))) (fcm_tokens rows)\<rparr>)"
    using fcm [of ?s "\<lparr>tx_db = ?d, tx_err = None, tx_log = w_log w\<rparr>"] by auto
  moreover have "notifyCallEnded E base us callId bookingId status role w =
      (if recipients us = [] then (Inr (), w)
       else runAsService base (tx_bind (execute (sel_tokens_any E (recipients us))) (\<lambda>rows.
        tx_bind (tx_both (fcm_sendData (pe_fcm E) (pe_access E) (pe_net E) (fcm_tokens rows) ?data 20)
                         (os_sendNotification (pe_onesignal E) (player_ids rows) ''Call ended'' ''Your call has ended.'' (Some ?data)))
          (\<lambda>_. tx_return ()))) w)"
    unfolding notifyCallEnded_def Let_def ended_data_def ..
  ultimately show ?thesis
    by (simp add: world_log recipients_nil runAsService_def transaction_def tx_bind_def execute_def sel tx_both_def os tx_return_def)
qed

definition demo_ring :: incomingCall where
  "demo_ring = \<lparr>ic_callId = ''c'', ic_bookingId = ''b'', ic_meetingId = ''m'', ic_callerName = ''Star'', ic_callerId = ''star'',
     ic_durationMinutes = 5\<rparr>"

text \<open>Providers that are configured; FCM answers that the message is malformed.\<close>

definition demo_push_env :: pushEnv where
  "demo_push_env = \<lparr>pe_fcm = \<lparr>fm_jwt = True, fm_projectId = Some ''p''\<rparr>, pe_access = Inr ''t'',
     pe_net = (\<lambda>_ _. Inr (400, ''INVALID_ARGUMENT'')),
     pe_onesignal = \<lparr>os_appId = Some ''a'', os_restKey = Some ''k'', os_callChannel = ''zudue_calls''\<rparr>, pe_rls = False, pe_arrays = True\<rparr>"

theorem ring_reaches_every_device_witness:
  "push_tokens (w_db (snd (sendIncomingCall demo_push_env demo_session ''fan'' demo_ring \<lparr>w_db = demo_push, w_log = []\<rparr>))) = []"
proof -
  let ?w = "\<lparr>w_db = demo_push, w_log = []\<rparr>" and ?c = demo_ring
  have r: "push_tokens demo_push = reachable_rows demo_push_env ''fan'' (w_db ?w)"
    by (simp add: reachable_rows_def demo_push_def demo_push_env_def)
  have d: "[(''f1'', Some ''ios'')] = filter (\<lambda>(tok, p). fm_dead (pe_net demo_push_env tok (ring_fcm ?c p))) (fcm_tokens (push_tokens demo_push))"
    by (simp add: demo_push_def demo_push_env_def fcm_tokens_def fm_dead_def res_ok_def starts_with_def)
  have "app_user_id demo_session = None" "fcm_enabled (pe_fcm demo_push_env)" "pe_access demo_push_env = Inr ''t''"
    "os_enabled (pe_onesignal demo_push_env)" "pe_arrays demo_push_env"
    by (simp_all add: demo_session_def demo_push_env_def fcm_enabled_def os_enabled_def)
  with ring_reaches_every_device [OF this(1-4) r d] obtain w' where
    w': "sendIncomingCall demo_push_env demo_session ''fan'' ?c ?w = (Inr (), w')" and
    "push_tokens (w_db w') = filter (\<lambda>x. \<not> (x \<in> set (push_tokens demo_push) \<and>
       (\<exists>f \<in> fst ` set [(''f1'', Some ''ios'')]. pt_fcm x = Some f))) (push_tokens (w_db ?w))" by auto
  then have "push_tokens (w_db w') = []" by (simp add: demo_push_def)
  with w' show ?thesis by simp
qed

theorem call_ended_needs_array_binding_witness:
  "fst (notifyCallEnded (demo_push_env\<lparr>pe_arrays := False\<rparr>) demo_session [''fan''] ''c'' ''b'' ''DROPPED_TECHNICAL_ISSUE'' None
     \<lparr>w_db = demo_push, w_log = []\<rparr>) = Inl (PgError ''op ANY/ALL (array) requires array on right side'')"
proof -
  let ?E = "demo_push_env\<lparr>pe_arrays := False\<rparr>"
  have "app_user_id demo_session = None" "fcm_enabled (pe_fcm ?E)" "pe_access ?E = Inr ''t''" "os_enabled (pe_onesignal ?E)"
    by (simp_all add: demo_session_def demo_push_env_def fcm_enabled_def os_enabled_def)
  from call_ended_needs_array_binding [where us = "[''fan'']" and w = "\<lparr>w_db = demo_push, w_log = []\<rparr>", OF this refl]
  show ?thesis by simp
qed

end
