(* ===== verification/Calls.thy ===== *)
theory Calls
  imports Push
begin

text \<open>
  \<open>src/calls/calls.module.ts\<close> and \<open>src/calls/call-credential.provider.ts\<close>.  The state transitions are
  SQL functions (\<open>F\<close>, by name and arguments); the queries are over the tables of \<open>Services\<close>.
  A push that the code starts without waiting for it is a log entry with its arguments: it leaves
  the process whatever becomes of the transaction.  The handlers of \<open>Push\<close> run it.
\<close>

record callsDb = pushDb +
  op_hours :: "(int \<times> int) option"

section \<open>Values\<close>

text \<open>A text member (\<open>v.k as string | undefined\<close>).\<close>

definition text_member :: "json \<Rightarrow> string \<Rightarrow> string option" where
  "text_member r k = (case jget r k of Some (JStr s) \<Rightarrow> Some s | _ \<Rightarrow> None)"

definition or_null :: "json option \<Rightarrow> json" where
  "or_null v = (case v of None \<Rightarrow> JNull | Some j \<Rightarrow> j)"

text \<open>A value inside a request to a push provider.\<close>

fun json_text :: "json option \<Rightarrow> string" where
  "json_text (Some (JStr s)) = s"
| "json_text (Some (JNum n)) = int_text n"
| "json_text _ = []"

text \<open>\<open>parseInt(s, 10)\<close>: the leading digits after an optional sign; \<open>None\<close> is \<open>NaN\<close>.\<close>

definition is_digit :: "char \<Rightarrow> bool" where
  "is_digit c \<longleftrightarrow> 48 \<le> (of_char c :: nat) \<and> (of_char c :: nat) \<le> 57"

fun parse_int :: "string \<Rightarrow> int option" where
  "parse_int s =
     (let (neg, t) = (case s of c # cs \<Rightarrow> if c = CHR ''-'' then (True, cs) else if c = CHR ''+'' then (False, cs) else (False, s)
                      | [] \<Rightarrow> (False, []));
          ds = takeWhile is_digit (dropWhile (\<lambda>c. c = CHR '' '') t)
      in if ds = [] then None else Some (if neg then - int (digits_value ds) else int (digits_value ds)))"

text \<open>\<open>parseInt(s, 10) || dflt\<close>.\<close>

definition minutes_or :: "int \<Rightarrow> string \<Rightarrow> int" where
  "minutes_or dflt s = (case parse_int s of None \<Rightarrow> dflt | Some n \<Rightarrow> if n = 0 then dflt else n)"

definition name_or :: "string \<Rightarrow> string option \<Rightarrow> string" where
  "name_or dflt v = (case v of None \<Rightarrow> dflt | Some s \<Rightarrow> s)"

text \<open>The bytes of an em dash.\<close>

definition EM_DASH :: string where
  "EM_DASH = [CHR 0xE2, CHR 0x80, CHR 0x94]"

section \<open>Queries\<close>

text \<open>A \<open>select\<close> statement.\<close>

definition reads :: "(session \<Rightarrow> 'd \<Rightarrow> 'r) \<Rightarrow> ('d, 'r) stmt" where
  "reads q s d = Inr (q s d, d)"

definition LIVE :: "callStatus list" where
  "LIVE = [PARTNER_INITIATED, IN_PROGRESS]"

text \<open>\<open>order by partner_initiated_at desc nulls last\<close>.\<close>

definition latest_first :: "call list \<Rightarrow> call list" where
  "latest_first cs = sort_key (\<lambda>c. - the (ca_initiated_at c)) (filter (\<lambda>c. ca_initiated_at c \<noteq> None) cs)
     @ filter (\<lambda>c. ca_initiated_at c = None) cs"

text \<open>\<open>vw_partner_call_queue\<close> (migration 0060) for one partner.  Instants are milliseconds, a date is a day.\<close>

definition DAY_MS :: int where
  "DAY_MS = 24 * 60 * 60 * 1000"

definition current_date :: "session \<Rightarrow> int" where
  "current_date s = sess_now s div DAY_MS"

definition attempts :: "booking \<Rightarrow> 'a services_scheme \<Rightarrow> call list" where
  "attempts b d = filter (\<lambda>c. ca_booking c = bk_id b) (calls d)"

definition queue_priority :: "'a services_scheme \<Rightarrow> booking \<Rightarrow> int" where
  "queue_priority d b =
     (if bk_ready_at b \<noteq> None then 0
      else if \<exists>c \<in> set (attempts b d). ca_status c \<in> set LIVE \<and> ca_ended_at c = None then 1
      else if attempts b d = [] then 2
      else if \<exists>c \<in> set (attempts b d). ca_status c \<in> {MISSED_FAN_NO_JOIN, MISSED_FAN_DECLINED, DROPPED_TECHNICAL_ISSUE} then 3
      else 4)"

definition in_queue :: "session \<Rightarrow> 'a services_scheme \<Rightarrow> booking \<Rightarrow> bool" where
  "in_queue s d b \<longleftrightarrow> bk_fan b \<in> fst ` set (profiles d) \<and> bk_status b \<in> {BOOKED, EXPIRED_FAN_NO_JOIN} \<and>
     current_date s - 7 \<le> bk_date b \<and> bk_date b \<le> current_date s \<and>
     \<not> (\<exists>c \<in> set (attempts b d). ca_status c = COMPLETED_SUCCESSFUL)"

text \<open>Sorted by priority, then date, then the time waited, shortest first: three stable sorts, the last key first.\<close>

definition waiting_since :: "booking \<Rightarrow> int" where
  "waiting_since b = (case bk_ready_at b of Some t \<Rightarrow> t | None \<Rightarrow> bk_created b)"

definition vw_partner_call_queue :: "string \<Rightarrow> session \<Rightarrow> 'a services_scheme \<Rightarrow> booking list" where
  "vw_partner_call_queue u s d =
     sort_key (queue_priority d) (sort_key bk_date (sort_key (\<lambda>b. sess_now s - waiting_since b)
       (filter (\<lambda>b. bk_partner b = u \<and> in_queue s d b) (bookings d))))"

record fanBooking =
  fb_booking :: booking
  fb_partner_name :: "string option"
  fb_can_join_call :: bool
  fb_last_call_status :: "callStatus option"

text \<open>The first element, \<open>limit 1\<close>.\<close>

definition first :: "'a list \<Rightarrow> 'a option" where
  "first xs = (case xs of [] \<Rightarrow> None | x # _ \<Rightarrow> Some x)"

definition my_bookings :: "string \<Rightarrow> session \<Rightarrow> 'a services_scheme \<Rightarrow> fanBooking list" where
  "my_bookings u s d =
     map (\<lambda>b. \<lparr>fb_booking = b, fb_partner_name = the (map_of (partner_profiles d) (bk_partner b)),
               fb_can_join_call = (\<exists>c \<in> set (calls d). ca_booking c = bk_id b \<and> ca_status c \<in> set LIVE),
               fb_last_call_status = map_option ca_status (first (latest_first (attempts b d)))\<rparr>)
       (sort_key (\<lambda>b. - bk_created b)
         (filter (\<lambda>b. bk_fan b = u \<and> map_of (partner_profiles d) (bk_partner b) \<noteq> None) (bookings d)))"

record activeCallRow =
  ac_call_id :: nat
  ac_booking_id :: nat
  ac_attempt_status :: callStatus
  ac_as_partner :: bool
  ac_other_party_name :: string

text \<open>A left join on a nullable key, and \<open>coalesce(name, dflt)\<close>.\<close>

definition joined_name :: "(string \<times> string option) list \<Rightarrow> string option \<Rightarrow> string \<Rightarrow> string" where
  "joined_name al k dflt = (case k of None \<Rightarrow> dflt | Some u \<Rightarrow>
     (case map_of al u of Some (Some n) \<Rightarrow> n | _ \<Rightarrow> dflt))"

definition active_calls :: "string \<Rightarrow> session \<Rightarrow> 'a services_scheme \<Rightarrow> activeCallRow list" where
  "active_calls u s d =
     map (\<lambda>c. \<lparr>ac_call_id = ca_id c, ac_booking_id = ca_booking c, ac_attempt_status = ca_status c,
               ac_as_partner = (ca_partner c = Some u),
               ac_other_party_name = (if ca_partner c = Some u then joined_name (profiles d) (ca_fan c) ''Fan''
                                      else joined_name (partner_profiles d) (ca_partner c) ''Creator'')\<rparr>)
       (latest_first (filter (\<lambda>c. (ca_fan c = Some u \<or> ca_partner c = Some u) \<and> ca_status c \<in> set LIVE) (calls d)))"

definition partner_past :: "string \<Rightarrow> session \<Rightarrow> 'a services_scheme \<Rightarrow> booking list" where
  "partner_past u s d = take 200 (sort_key (\<lambda>b. - bk_date b) (sort_key (\<lambda>b. - bk_created b)
     (filter (\<lambda>b. bk_partner b = u \<and> bk_status b \<noteq> BOOKED \<and> bk_fan b \<in> fst ` set (profiles d)) (bookings d))))"

definition partner_future :: "string \<Rightarrow> session \<Rightarrow> 'a services_scheme \<Rightarrow> booking list" where
  "partner_future u s d = take 100 (sort_key bk_date (sort_key bk_created
     (filter (\<lambda>b. bk_partner b = u \<and> bk_status b = BOOKED \<and> bk_date b > current_date s \<and>
        bk_fan b \<in> fst ` set (profiles d)) (bookings d))))"

section \<open>Read models\<close>

definition previewPrice :: "'d sqlFns \<Rightarrow> session \<Rightarrow> string \<Rightarrow> string \<Rightarrow> string \<Rightarrow> string option \<Rightarrow> ('d, json) act" where
  "previewPrice F base u partnerId duration promo =
     runAs base u (rpc (F ''rpc_preview_price'' [JStr partnerId, JStr ''VIDEO_CALL'', JStr duration, jstr_or_null promo]))"

record bookCall =
  bc_partnerId :: string
  bc_date :: string
  bc_duration :: string
  bc_note :: "string option"
  bc_promo :: "string option"

definition book :: "'d sqlFns \<Rightarrow> session \<Rightarrow> string \<Rightarrow> bookCall \<Rightarrow> ('d, json) act" where
  "book F base u b =
     runAs base u (rpc (F ''rpc_book_video_call'' [JStr u, JStr (bc_partnerId b), JStr (bc_date b), JStr (bc_duration b),
       jstr_or_null (bc_note b), jstr_or_null (bc_promo b)]))"

definition myBookings :: "session \<Rightarrow> string \<Rightarrow> ('a callsDb_scheme, fanBooking list) act" where
  "myBookings base u = runAs base u (execute (reads (my_bookings u)))"

definition activeCall :: "session \<Rightarrow> string \<Rightarrow> ('a callsDb_scheme, activeCallRow option) act" where
  "activeCall base u =
     runAs base u (tx_bind (execute (reads (\<lambda>s d. take 1 (active_calls u s d)))) (\<lambda>rows. tx_return (first rows)))"

definition partnerQueue :: "session \<Rightarrow> string \<Rightarrow> ('a callsDb_scheme, booking list) act" where
  "partnerQueue base u = runAs base u (execute (reads (vw_partner_call_queue u)))"

definition operationalHours :: "session \<Rightarrow> ('a callsDb_scheme, int \<times> int) act" where
  "operationalHours base =
     runAnon base (tx_bind (execute (reads (\<lambda>s d. op_hours d))) (\<lambda>row.
       tx_return (case row of Some h \<Rightarrow> h | None \<Rightarrow> (9, 21))))"

definition partnerHistory :: "session \<Rightarrow> string \<Rightarrow> ('a callsDb_scheme, booking list) act" where
  "partnerHistory base u = runAs base u (execute (reads (partner_past u)))"

definition partnerUpcoming :: "session \<Rightarrow> string \<Rightarrow> ('a callsDb_scheme, booking list) act" where
  "partnerUpcoming base u = runAs base u (execute (reads (partner_future u)))"

section \<open>Notifications and pushes\<close>

text \<open>\<open>createCallNotification\<close>: the result of the function, or \<open>undefined\<close> after any failure.\<close>

record callNotice =
  cn_recipient :: string
  cn_actor :: string
  cn_event :: string
  cn_title :: string
  cn_message :: string
  cn_entity_type :: string
  cn_entity :: json
  cn_metadata :: json

definition notice_args :: "callNotice \<Rightarrow> json list" where
  "notice_args n = [JStr (cn_recipient n), JStr (cn_actor n), JStr (cn_event n), JStr (cn_title n), JStr (cn_message n),
     JStr (cn_entity_type n), cn_entity n, cn_metadata n]"

definition createCallNotification :: "'d sqlFns \<Rightarrow> callNotice \<Rightarrow> ('d, json option) txm" where
  "createCallNotification F n =
     tx_catch (tx_bind (rpc (F ''rpc_create_notification'' (notice_args n))) (\<lambda>r. tx_return (Some r))) (\<lambda>_. tx_return None)"

text \<open>Pushes that are not awaited.\<close>

definition push_later :: "string \<Rightarrow> string list \<Rightarrow> ('d, unit) txm" where
  "push_later name args = tx_call (Ext name args) (Inr ())"

definition ring_args :: "string \<Rightarrow> incomingCall \<Rightarrow> string list" where
  "ring_args fan c = [fan, ic_callId c, ic_bookingId c, ic_meetingId c, ic_callerName c, ic_callerId c, int_text (ic_durationMinutes c)]"

text \<open>Awaiting one thing after another.\<close>

definition tx_then :: "('d, 'a) txm \<Rightarrow> ('d, 'b) txm \<Rightarrow> ('d, 'b) txm" where
  "tx_then m n = tx_bind m (\<lambda>_. n)"

section \<open>Transitions\<close>

definition success :: "json \<Rightarrow> bool" where
  "success res \<longleftrightarrow> truthy (jget res ''success'')"

fun tx_each :: "('x \<Rightarrow> ('d, unit) txm) \<Rightarrow> 'x list \<Rightarrow> ('d, unit) txm" where
  "tx_each f [] = tx_return ()"
| "tx_each f (x # xs) = tx_then (f x) (tx_each f xs)"

definition cancelBooking :: "'a callsDb_scheme sqlFns \<Rightarrow> session \<Rightarrow> string \<Rightarrow> nat \<Rightarrow> ('a callsDb_scheme, json) act" where
  "cancelBooking F base u bookingId =
     runAs base u (tx_bind (rpc (F ''rpc_refund_booking'' [jid bookingId, JStr ''FAN_CANCEL''])) (\<lambda>res.
       if success res
       then tx_bind (execute (reads (\<lambda>s d. filter (\<lambda>c. ca_booking c = bookingId \<and> ca_status c \<in> set LIVE) (calls d)))) (\<lambda>rows.
            tx_then (tx_each (\<lambda>c. push_later ''cancelCall'' [u, nat_text (ca_id c)]) rows) (tx_return res))
       else tx_return res))"

text \<open>The booking with the name of its fan.\<close>

definition booking_fan :: "nat \<Rightarrow> session \<Rightarrow> 'a services_scheme \<Rightarrow> (booking \<times> string option) option" where
  "booking_fan i s d =
     (case find (\<lambda>b. bk_id b = i) (bookings d) of None \<Rightarrow> None
      | Some b \<Rightarrow> (case map_of (profiles d) (bk_fan b) of None \<Rightarrow> None | Some n \<Rightarrow> Some (b, n)))"

definition ready_notice :: "string \<Rightarrow> nat \<Rightarrow> string \<Rightarrow> string \<Rightarrow> callNotice" where
  "ready_notice u bookingId partner fanName =
     \<lparr>cn_recipient = partner, cn_actor = u, cn_event = ''VIDEO_CALL_FAN_READY_PARTNER'', cn_title = ''Fan is ready'',
      cn_message = fanName @ '' is ready for your call'', cn_entity_type = ''booking'', cn_entity = jid bookingId,
      cn_metadata = JObj [(''bookingId'', jid bookingId)]\<rparr>"

definition signalReady :: "'a callsDb_scheme sqlFns \<Rightarrow> session \<Rightarrow> string \<Rightarrow> nat \<Rightarrow> ('a callsDb_scheme, json) act" where
  "signalReady F base u bookingId =
     runAs base u (tx_bind (rpc (F ''rpc_fan_signal_ready'' [jid bookingId])) (\<lambda>res.
       if success res
       then tx_bind (execute (reads (booking_fan bookingId))) (\<lambda>row.
            case row of None \<Rightarrow> tx_return res
            | Some (b, full_name) \<Rightarrow>
                let fanName = name_or ''A fan'' full_name in
                tx_then (createCallNotification F (ready_notice u bookingId (bk_partner b) fanName))
                (tx_then (push_later ''notifyQueueNext'' [bk_partner b, ''Fan is ready'',
                    fanName @ '' is ready '' @ EM_DASH @ '' start the call when you are.'', ''fan_ready'', nat_text bookingId])
                (tx_return res)))
       else tx_return res))"

text \<open>\<open>initiate\<close>: the booking with its partner's display name, then the notices it writes.\<close>

definition booking_partner :: "nat \<Rightarrow> session \<Rightarrow> 'a services_scheme \<Rightarrow> (booking \<times> string option) option" where
  "booking_partner i s d =
     (case find (\<lambda>b. bk_id b = i) (bookings d) of None \<Rightarrow> None
      | Some b \<Rightarrow> (case map_of (partner_profiles d) (bk_partner b) of None \<Rightarrow> None | Some n \<Rightarrow> Some (b, n)))"

definition ring_notice :: "string \<Rightarrow> nat \<Rightarrow> json \<Rightarrow> booking \<Rightarrow> string option \<Rightarrow> callNotice" where
  "ring_notice u bookingId res b display =
     \<lparr>cn_recipient = bk_fan b, cn_actor = u, cn_event = ''VIDEO_CALL_INITIATED_FOR_FAN'', cn_title = ''Incoming Video Call'',
      cn_message = name_or ''Creator'' display @ '' is calling you now. Join the call!'', cn_entity_type = ''call'',
      cn_entity = or_null (jget res ''call_id''),
      cn_metadata = JObj [(''bookingId'', jid bookingId), (''callId'', or_null (jget res ''call_id'')),
        (''meetingId'', or_null (jget res ''meeting_id''))]\<rparr>"

definition ring_of :: "string \<Rightarrow> nat \<Rightarrow> json \<Rightarrow> booking \<Rightarrow> string option \<Rightarrow> incomingCall" where
  "ring_of u bookingId res b display =
     \<lparr>ic_callId = json_text (jget res ''call_id''), ic_bookingId = nat_text bookingId,
      ic_meetingId = json_text (jget res ''meeting_id''), ic_callerName = name_or ''Creator'' display, ic_callerId = u,
      ic_durationMinutes = minutes_or 5 (bk_duration b)\<rparr>"

definition next_fan :: "string \<Rightarrow> nat \<Rightarrow> string \<Rightarrow> session \<Rightarrow> 'a services_scheme \<Rightarrow> booking option" where
  "next_fan u bookingId fan s d =
     first (filter (\<lambda>b. bk_id b \<noteq> bookingId \<and> bk_fan b \<noteq> fan) (vw_partner_call_queue u s d))"

definition next_title :: string where
  "next_title = ''You'' @ [CHR 0x27] @ ''re next in line!''"

definition next_body :: "string option \<Rightarrow> int \<Rightarrow> string" where
  "next_body display waitMinutes = name_or ''Your partner'' display @ '' is on a call now '' @ EM_DASH @ '' you'' @ [CHR 0x27] @
     ''re up next, ~'' @ int_text waitMinutes @ '' min.''"

definition next_notice :: "string \<Rightarrow> json \<Rightarrow> booking \<Rightarrow> string \<Rightarrow> int \<Rightarrow> callNotice" where
  "next_notice u res nxt body waitMinutes =
     \<lparr>cn_recipient = bk_fan nxt, cn_actor = u, cn_event = ''VIDEO_CALL_QUEUE_NEXT_FAN'', cn_title = next_title,
      cn_message = body, cn_entity_type = ''booking'', cn_entity = jid (bk_id nxt),
      cn_metadata = JObj [(''bookingId'', jid (bk_id nxt)), (''currentCallId'', or_null (jget res ''call_id'')),
        (''estimatedWaitMinutes'', JNum waitMinutes)]\<rparr>"

definition alert_next :: "'a callsDb_scheme sqlFns \<Rightarrow> string \<Rightarrow> json \<Rightarrow> booking \<Rightarrow> string option \<Rightarrow> booking \<Rightarrow> ('a callsDb_scheme, unit) txm" where
  "alert_next F u res b display nxt =
     (let waitMinutes = minutes_or 15 (bk_duration b); body = next_body display waitMinutes in
      tx_bind (createCallNotification F (next_notice u res nxt body waitMinutes)) (\<lambda>r.
        if truthy (jopt r ''created'')
        then push_later ''notifyQueueNext'' [bk_fan nxt, next_title, body, ''queue_next'', nat_text (bk_id nxt)]
        else tx_return ()))"

definition initiate :: "'a callsDb_scheme sqlFns \<Rightarrow> session \<Rightarrow> string \<Rightarrow> nat \<Rightarrow> ('a callsDb_scheme, json) act" where
  "initiate F base u bookingId =
     runAs base u (tx_bind (rpc (F ''rpc_partner_initiate_call'' [jid bookingId])) (\<lambda>res.
       if success res
       then tx_bind (execute (reads (booking_partner bookingId))) (\<lambda>row.
            case row of None \<Rightarrow> tx_return res
            | Some (b, display) \<Rightarrow>
                tx_then (createCallNotification F (ring_notice u bookingId res b display))
                (tx_then (push_later ''sendIncomingCall'' (ring_args (bk_fan b) (ring_of u bookingId res b display)))
                (tx_bind (execute (reads (next_fan u bookingId (bk_fan b)))) (\<lambda>nxt.
                 case nxt of None \<Rightarrow> tx_return res
                 | Some nb \<Rightarrow> tx_then (alert_next F u res b display nb) (tx_return res)))))
       else tx_return res))"

text \<open>\<open>{ ...res, deadline_at }\<close>.\<close>

definition with_member :: "string \<Rightarrow> json \<Rightarrow> json \<Rightarrow> json" where
  "with_member k v res = (case res of JObj kvs \<Rightarrow> JObj (AList.update k v kvs) | _ \<Rightarrow> JObj [(k, v)])"

text \<open>\<open>where id = $1\<close> with an id from a result.\<close>

definition call_by :: "json option \<Rightarrow> session \<Rightarrow> 'a services_scheme \<Rightarrow> call option" where
  "call_by v s d = find (\<lambda>c. v = Some (jid (ca_id c))) (calls d)"

definition join :: "'a callsDb_scheme sqlFns \<Rightarrow> session \<Rightarrow> string \<Rightarrow> nat \<Rightarrow> ('a callsDb_scheme, json) act" where
  "join F base u bookingId =
     runAs base u (tx_bind (rpc (F ''rpc_fan_join_call'' [jid bookingId])) (\<lambda>res.
       if success res \<and> truthy (jget res ''call_id'')
       then tx_then (push_later ''cancelCall'' [u, json_text (jget res ''call_id'')])
            (tx_bind (execute (reads (call_by (jget res ''call_id'')))) (\<lambda>row.
             tx_return (with_member ''deadline_at''
               (case row of None \<Rightarrow> JNull | Some c \<Rightarrow> (case ca_deadline_at c of None \<Rightarrow> JNull | Some t \<Rightarrow> JNum t)) res)))
       else tx_return res))"

definition heartbeat :: "'d sqlFns \<Rightarrow> session \<Rightarrow> string \<Rightarrow> nat \<Rightarrow> string \<Rightarrow> bool option \<Rightarrow> ('d, json) act" where
  "heartbeat F base u callId actor peerPresent =
     runAs base u (rpc (F ''rpc_call_heartbeat'' [jid callId, JStr actor,
       case peerPresent of None \<Rightarrow> JNull | Some b \<Rightarrow> JBool b]))"

definition ended_args :: "call \<Rightarrow> nat \<Rightarrow> string \<Rightarrow> string option \<Rightarrow> string list" where
  "ended_args c callId status endedByRole =
     [name_or [] (ca_fan c), name_or [] (ca_partner c), nat_text callId, nat_text (ca_booking c), status, name_or [] endedByRole]"

definition complete :: "'a callsDb_scheme sqlFns \<Rightarrow> session \<Rightarrow> string \<Rightarrow> nat \<Rightarrow> ('a callsDb_scheme, json) act" where
  "complete F base u callId =
     runAs base u (tx_bind (rpc (F ''rpc_complete_call'' [jid callId, JBool False])) (\<lambda>res.
       if success res
       then tx_bind (execute (reads (call_by (Some (jid callId))))) (\<lambda>row.
            case row of None \<Rightarrow> tx_return res
            | Some c \<Rightarrow>
                let status = if jget res ''completed'' = Some (JBool False) then ''DROPPED_TECHNICAL_ISSUE'' else ''COMPLETED_SUCCESSFUL'' in
                tx_then (push_later ''notifyCallEnded'' (ended_args c callId status (text_member res ''ended_by_role'')))
                (tx_return res))
       else tx_return res))"

definition MISSED_STATUSES :: "string list" where
  "MISSED_STATUSES = [''MISSED_FAN_NO_JOIN'', ''MISSED_FAN_DECLINED'', ''DROPPED_TECHNICAL_ISSUE'']"

definition missed_notice :: "string \<Rightarrow> nat \<Rightarrow> string \<Rightarrow> call \<Rightarrow> callNotice" where
  "missed_notice u callId status c =
     \<lparr>cn_recipient = name_or [] (ca_fan c), cn_actor = u, cn_event = ''VIDEO_CALL_MISSED_ATTEMPT_FAN'', cn_title = ''Missed Video Call'',
      cn_message = ''You missed a video call. Tap to set your '' @ [CHR 0x27] @ ''I am Ready'' @ [CHR 0x27] @
        '' status so partners know you'' @ [CHR 0x27] @ ''re available.'',
      cn_entity_type = ''call'', cn_entity = jid callId,
      cn_metadata = JObj [(''bookingId'', jid (ca_booking c)), (''callId'', jid callId), (''status'', JStr status)]\<rparr>"

definition dropped_metadata :: "nat \<Rightarrow> string \<Rightarrow> call \<Rightarrow> string \<Rightarrow> json" where
  "dropped_metadata callId status c role = JObj [(''bookingId'', jid (ca_booking c)), (''callId'', jid callId),
     (''status'', JStr status), (''endedByRole'', JStr role)]"

definition dropped_fan_notice :: "string \<Rightarrow> nat \<Rightarrow> string \<Rightarrow> call \<Rightarrow> string \<Rightarrow> callNotice" where
  "dropped_fan_notice u callId status c role =
     \<lparr>cn_recipient = name_or [] (ca_fan c), cn_actor = u, cn_event = ''VIDEO_CALL_MISSED_ATTEMPT_FAN'', cn_title = ''Call ended early'',
      cn_message = (if role = ''FAN'' then ''You'' else ''The creator'') @ '' ended the call early. Your booking is still active '' @
        EM_DASH @ '' mark yourself ready to try again.'',
      cn_entity_type = ''call'', cn_entity = jid callId, cn_metadata = dropped_metadata callId status c role\<rparr>"

definition dropped_partner_notice :: "string \<Rightarrow> nat \<Rightarrow> string \<Rightarrow> call \<Rightarrow> string \<Rightarrow> callNotice" where
  "dropped_partner_notice u callId status c role =
     \<lparr>cn_recipient = name_or [] (ca_partner c), cn_actor = u, cn_event = ''VIDEO_CALL_COMPLETED_PARTNER'', cn_title = ''Call ended early'',
      cn_message = (if role = ''PARTNER'' then ''You'' else ''The fan'') @ '' ended the call early.'',
      cn_entity_type = ''call'', cn_entity = jid callId, cn_metadata = dropped_metadata callId status c role\<rparr>"

definition missed_notices :: "string \<Rightarrow> nat \<Rightarrow> string \<Rightarrow> call \<Rightarrow> string option \<Rightarrow> callNotice list" where
  "missed_notices u callId status c endedByRole =
     (if status = ''MISSED_FAN_NO_JOIN'' \<or> status = ''MISSED_FAN_DECLINED'' then [missed_notice u callId status c]
      else if status = ''DROPPED_TECHNICAL_ISSUE'' \<and> truthy_str endedByRole
      then [dropped_fan_notice u callId status c (the endedByRole), dropped_partner_notice u callId status c (the endedByRole)]
      else [])"

definition markMissed :: "'a callsDb_scheme sqlFns \<Rightarrow> session \<Rightarrow> string \<Rightarrow> nat \<Rightarrow> string \<Rightarrow> ('a callsDb_scheme, json) act" where
  "markMissed F base u callId status w =
     (if status \<notin> set MISSED_STATUSES
      then (Inl (bad_request ''status must be one of MISSED_FAN_NO_JOIN, MISSED_FAN_DECLINED, DROPPED_TECHNICAL_ISSUE''), w)
      else runAs base u (tx_bind (rpc (F ''rpc_mark_call_missed'' [jid callId, JStr status])) (\<lambda>res.
        if success res
        then tx_bind (execute (reads (call_by (Some (jid callId))))) (\<lambda>row.
             case row of None \<Rightarrow> tx_return res
             | Some c \<Rightarrow>
                 let endedByRole = text_member res ''ended_by_role'' in
                 tx_then (push_later ''cancelCall'' [name_or [] (ca_fan c), nat_text callId])
                 (tx_then (push_later ''notifyCallEnded'' (ended_args c callId status endedByRole))
                 (tx_then (tx_each (\<lambda>n. tx_then (createCallNotification F n) (tx_return ())) (missed_notices u callId status c endedByRole))
                 (tx_return res))))
        else tx_return res)) w)"

section \<open>Credentials and telemetry\<close>

record joinCredential =
  cc_provider :: string
  cc_room :: string
  cc_token :: string
  cc_appId :: string

definition getOrThrow :: "(string \<Rightarrow> string option) \<Rightarrow> string \<Rightarrow> exn + string" where
  "getOrThrow config k = (case config k of None \<Rightarrow> Inl (JsError (''Configuration key '' @ k @ '' does not exist'')) | Some v \<Rightarrow> Inr v)"

text \<open>\<open>AgoraCredentialProvider.mint\<close>; \<open>build\<close> is \<open>RtcTokenBuilder.buildTokenWithUid\<close>, \<open>now\<close> the clock in milliseconds.\<close>

definition mint ::
  "(string \<Rightarrow> string option) \<Rightarrow> (string \<Rightarrow> string \<Rightarrow> string \<Rightarrow> int \<Rightarrow> string \<Rightarrow> int \<Rightarrow> int \<Rightarrow> string) \<Rightarrow> int \<Rightarrow> string \<Rightarrow> exn + joinCredential" where
  "mint config build now room =
     (case getOrThrow config ''AGORA_APP_ID'' of Inl e \<Rightarrow> Inl e
      | Inr appId \<Rightarrow> (case getOrThrow config ''AGORA_APP_CERTIFICATE'' of Inl e \<Rightarrow> Inl e
          | Inr cert \<Rightarrow>
              let expire = now div 1000 + 3600 in
              Inr \<lparr>cc_provider = ''agora'', cc_room = room, cc_token = build appId cert room 0 ''PUBLISHER'' expire expire, cc_appId = appId\<rparr>))"

definition is_party :: "string \<Rightarrow> string \<Rightarrow> session \<Rightarrow> 'a services_scheme \<Rightarrow> bool" where
  "is_party u meetingId s d \<longleftrightarrow> (\<exists>c \<in> set (calls d). ca_meeting c = Some meetingId \<and> (ca_fan c = Some u \<or> ca_partner c = Some u))"

definition callCredential :: "(string \<Rightarrow> exn + joinCredential) \<Rightarrow> session \<Rightarrow> string \<Rightarrow> string \<Rightarrow> ('a callsDb_scheme, joinCredential) act" where
  "callCredential minter base u meetingId =
     runAs base u (tx_bind (execute (reads (is_party u meetingId))) (\<lambda>found.
       if \<not> found then tx_throw (Forbidden (JStr ''NOT_A_PARTY''))
       else (case minter meetingId of Inl e \<Rightarrow> tx_throw e | Inr c \<Rightarrow> tx_return c)))"

definition recordMetrics :: "'d sqlFns \<Rightarrow> session \<Rightarrow> string \<Rightarrow> nat \<Rightarrow> json \<Rightarrow> ('d, json) act" where
  "recordMetrics F base u callId metrics = runAs base u (rpc (F ''rpc_record_call_metrics'' [jid callId, metrics]))"

text \<open>The controller's handler: \<open>.catch(() => ({ success: false }))\<close>.\<close>

definition metrics_route :: "'d sqlFns \<Rightarrow> session \<Rightarrow> string \<Rightarrow> nat \<Rightarrow> json \<Rightarrow> ('d, json) act" where
  "metrics_route F base u callId metrics w =
     (case recordMetrics F base u callId metrics w of
        (Inl e, w1) \<Rightarrow> (Inr (JObj [(''success'', JBool False)]), w1) | (Inr r, w1) \<Rightarrow> (Inr r, w1))"

end
