(* ===== verification/Calls_Props.thy ===== *)
theory Calls_Props
  imports Calls
begin

text \<open>
  Properties of the call endpoints: what an attempt sends and when it is lost, who is told to be
  next, the missed path, and who gets a credential.
\<close>

section \<open>Running the pieces\<close>

lemma runAs_unfold:
  "runAs base u m w =
     (case m (base\<lparr>app_user_id := Some u\<rparr>) \<lparr>tx_db = w_db w, tx_err = None, tx_log = w_log w\<rparr> of
        (Inl e, t) \<Rightarrow> (Inl e, w\<lparr>w_log := tx_log t\<rparr>)
      | (Inr a, t) \<Rightarrow> (case tx_err t of None \<Rightarrow> (Inr a, \<lparr>w_db = tx_db t, w_log = tx_log t\<rparr>)
                      | Some e \<Rightarrow> (if drv_rethrow base then Inl e else Inr a, w\<lparr>w_log := tx_log t\<rparr>)))"
  by (simp add: runAs_def transaction_def split: prod.split sum.split option.split)

lemma bind_rpc:
  "tx_err t = None \<Longrightarrow> tx_bind (rpc call) f s t =
     (case call s (tx_db t) of
        Inl e \<Rightarrow> (Inl (PgError e), t\<lparr>tx_err := Some (PgError e)\<rparr>)
      | Inr (r, d) \<Rightarrow> if jget r ''success'' = Some (JBool False) then (Inl (BadRequest (rpc_error r)), t\<lparr>tx_db := d\<rparr>)
                     else f r s (t\<lparr>tx_db := d\<rparr>))"
  by (auto simp: rpc_def tx_defs split: sum.split prod.split)

lemma bind_reads:
  "tx_bind (execute (reads q)) f s t =
     (if tx_err t \<noteq> None then (Inl (PgError ''25P02 current transaction is aborted''), t) else f (q s (tx_db t)) s t)"
  by (cases t) (auto simp: reads_def tx_defs)

lemma then_push: "tx_then (push_later n a) m s t = m s (t\<lparr>tx_log := tx_log t @ [Ext n a]\<rparr>)"
  by (simp add: tx_then_def push_later_def tx_defs)

lemma notice_run:
  "createCallNotification F n s t =
     (if tx_err t \<noteq> None then (Inr None, t)
      else case F ''rpc_create_notification'' (notice_args n) s (tx_db t) of
             Inl e \<Rightarrow> (Inr None, t\<lparr>tx_err := Some (PgError e)\<rparr>)
           | Inr (r, d) \<Rightarrow> (Inr (if jget r ''success'' = Some (JBool False) then None else Some r), t\<lparr>tx_db := d\<rparr>))"
  by (auto simp: createCallNotification_def rpc_def tx_defs split: sum.split prod.split)

lemma bind_notice:
  "tx_bind (createCallNotification F n) f s t =
     (if tx_err t \<noteq> None then f None s t
      else case F ''rpc_create_notification'' (notice_args n) s (tx_db t) of
             Inl e \<Rightarrow> f None s (t\<lparr>tx_err := Some (PgError e)\<rparr>)
           | Inr (r, d) \<Rightarrow> f (if jget r ''success'' = Some (JBool False) then None else Some r) s (t\<lparr>tx_db := d\<rparr>))"
  by (auto simp: tx_bind_def notice_run split: sum.split prod.split)

lemma then_notice:
  "tx_then (createCallNotification F n) m s t =
     (if tx_err t \<noteq> None then m s t
      else case F ''rpc_create_notification'' (notice_args n) s (tx_db t) of
             Inl e \<Rightarrow> m s (t\<lparr>tx_err := Some (PgError e)\<rparr>) | Inr (r, d) \<Rightarrow> m s (t\<lparr>tx_db := d\<rparr>))"
  by (simp add: tx_then_def bind_notice)

lemma then_assoc: "tx_then (tx_bind m f) n = tx_bind m (\<lambda>a. tx_then (f a) n)"
  by (auto simp: tx_then_def tx_bind_def fun_eq_iff split: sum.split prod.split)

lemma then_then: "tx_then (tx_then a b) c = tx_then a (tx_then b c)"
  by (auto simp: tx_then_def tx_bind_def fun_eq_iff split: sum.split prod.split)

lemma then_return: "tx_then (tx_return a) m = m"
  by (simp add: tx_then_def tx_bind_def tx_return_def fun_eq_iff)

lemma success_not_refused: "success res \<Longrightarrow> jget res ''success'' \<noteq> Some (JBool False)"
  by (auto simp: success_def)

lemmas call_run = runAs_unfold bind_rpc bind_reads then_push success_not_refused then_notice then_assoc then_return then_then bind_notice

section \<open>Starting an attempt\<close>

definition ring_ext :: "string \<Rightarrow> nat \<Rightarrow> json \<Rightarrow> booking \<Rightarrow> string option \<Rightarrow> ext" where
  "ring_ext u i res b display = Ext ''sendIncomingCall'' (ring_args (bk_fan b) (ring_of u i res b display))"

definition next_ext :: "booking \<Rightarrow> string option \<Rightarrow> booking \<Rightarrow> ext" where
  "next_ext b display nb = Ext ''notifyQueueNext'' [bk_fan nb, next_title, next_body display (minutes_or 15 (bk_duration b)),
     ''queue_next'', nat_text (bk_id nb)]"

definition next_args :: "string \<Rightarrow> json \<Rightarrow> booking \<Rightarrow> string option \<Rightarrow> booking \<Rightarrow> json list" where
  "next_args u res b display nb =
     notice_args (next_notice u res nb (next_body display (minutes_or 15 (bk_duration b))) (minutes_or 15 (bk_duration b)))"

text \<open>
  Starting an attempt.  Once the state machine accepts it, the booking's fan is rung exactly once,
  with the call it created, whatever happens afterwards: if the in-app notice raises, the error
  is caught but the partner's request still fails and the attempt is rolled back, while the phone
  rings for a call that does not exist.  Otherwise the attempt is kept, and the fan that is next in the
  queue is alerted, by push only if this is the first alert; if that notice raises, the attempt is lost
  as well.
\<close>

theorem initiate_rings_before_commit:
  assumes "F ''rpc_partner_initiate_call'' [jid i] s (w_db w) = Inr (res, d1)" and "success res"
    and "booking_partner i s d1 = Some (b, display)" and "s = base\<lparr>app_user_id := Some u\<rparr>"
    and "ringing = w\<lparr>w_log := w_log w @ [ring_ext u i res b display]\<rparr>"
  shows "(\<forall>e. F ''rpc_create_notification'' (notice_args (ring_notice u i res b display)) s d1 = Inl e \<longrightarrow>
      initiate F base u i w = (Inl (PgError ''25P02 current transaction is aborted''), ringing)) \<and>
    (\<forall>r d2. F ''rpc_create_notification'' (notice_args (ring_notice u i res b display)) s d1 = Inr (r, d2) \<longrightarrow>
      (next_fan u i (bk_fan b) s d2 = None \<longrightarrow> initiate F base u i w = (Inr res, ringing\<lparr>w_db := d2\<rparr>)) \<and>
      (\<forall>nb. next_fan u i (bk_fan b) s d2 = Some nb \<longrightarrow>
        (case F ''rpc_create_notification'' (next_args u res b display nb) s d2 of
           Inl e \<Rightarrow> initiate F base u i w = (if drv_rethrow base then Inl (PgError e) else Inr res, ringing)
         | Inr (r2, d3) \<Rightarrow> initiate F base u i w = (Inr res, ringing\<lparr>w_db := d3,
             w_log := w_log ringing @ (if jget r2 ''success'' \<noteq> Some (JBool False) \<and> truthy (jget r2 ''created'')
                                       then [next_ext b display nb] else [])\<rparr>))))"
proof -
  let ?n = "ring_notice u i res b display"
  have run: "initiate F base u i w = (case
      tx_then (createCallNotification F ?n) (tx_then (push_later ''sendIncomingCall'' (ring_args (bk_fan b) (ring_of u i res b display)))
        (tx_bind (execute (reads (next_fan u i (bk_fan b)))) (\<lambda>nxt. case nxt of None \<Rightarrow> tx_return res
           | Some nb \<Rightarrow> tx_then (alert_next F u res b display nb) (tx_return res))))
        s \<lparr>tx_db = d1, tx_err = None, tx_log = w_log w\<rparr> of
        (Inl e, t) \<Rightarrow> (Inl e, w\<lparr>w_log := tx_log t\<rparr>)
      | (Inr a, t) \<Rightarrow> (case tx_err t of None \<Rightarrow> (Inr a, \<lparr>w_db = tx_db t, w_log = tx_log t\<rparr>)
                      | Some e \<Rightarrow> (if drv_rethrow base then Inl e else Inr a, w\<lparr>w_log := tx_log t\<rparr>)))"
    using assms by (simp add: initiate_def call_run)
  show ?thesis
    unfolding run assms(5) ring_ext_def
    by (simp add: then_notice then_push bind_reads tx_return_def split: sum.split prod.split option.split)
      (auto simp: alert_next_def Let_def then_assoc bind_notice next_args_def next_ext_def jopt_def then_push then_return tx_return_def
        split: sum.split prod.split)
qed

text \<open>A partner with two bookings today, and state machine functions that accept.\<close>

definition demo_booking :: "nat \<Rightarrow> string \<Rightarrow> booking" where
  "demo_booking i fan = \<lparr>bk_id = i, bk_fan = fan, bk_partner = ''star'', bk_duration = ''5'', bk_status = BOOKED, bk_settle_at = 0,
     bk_date = 0, bk_price = 500, bk_ready_at = None, bk_meeting = None, bk_created = 0, bk_original = None, bk_discount = 0\<rparr>"

definition demo_call :: call where
  "demo_call = \<lparr>ca_id = 5, ca_booking = 1, ca_fan = Some ''fan'', ca_partner = Some ''star'', ca_status = PARTNER_INITIATED,
     ca_meeting = Some ''zudue-1'', ca_initiated_at = Some 0, ca_started_at = None, ca_deadline_at = None,
     ca_fan_heartbeat = None, ca_partner_heartbeat = None, ca_ended_at = None,
     ca_joined_at = None, ca_media = None, ca_ended_role = None\<rparr>"

definition demo_calls :: "(string \<times> string option) list \<Rightarrow> callsDb" where
  "demo_calls ps = \<lparr>wallets = [], txns = [], entries = [], next_id = 1, topups = [], webhooks = [], disputes = [], notifs = [],
     settings = None, admins = [], finance_admins = [], bookings = [demo_booking 1 ''fan'', demo_booking 2 ''eve''],
     calls = [demo_call], dm_windows = [], shoutouts = [], earnings = [], reports = [], deletions = [], audits = [],
     profiles = ps, partner_profiles = [(''star'', Some ''Star'')], push_tokens = [], op_hours = None\<rparr>"

definition demo_call_fns :: "callsDb sqlFns" where
  "demo_call_fns name args s d =
     (if name = ''rpc_create_notification'' then create_notification_fn args s d
      else Inr (ok_json [(''call_id'', jid 5), (''meeting_id'', JStr ''zudue-1'')], d))"

theorem initiate_rings_before_commit_witness:
  "\<exists>x. initiate demo_call_fns demo_session ''star'' 1 \<lparr>w_db = demo_calls [], w_log = []\<rparr> =
     (Inl (PgError ''25P02 current transaction is aborted''), \<lparr>w_db = demo_calls [], w_log = [x]\<rparr>)"
proof -
  let ?w = "\<lparr>w_db = demo_calls [], w_log = []\<rparr>" and ?s = "demo_session\<lparr>app_user_id := Some ''star''\<rparr>"
  let ?res = "ok_json [(''call_id'', jid 5), (''meeting_id'', JStr ''zudue-1'')]"
  have "demo_call_fns ''rpc_partner_initiate_call'' [jid 1] ?s (w_db ?w) = Inr (?res, demo_calls [])"
    by (simp add: demo_call_fns_def)
  moreover have "success ?res" by (simp add: success_def ok_json_def)
  moreover have "booking_partner 1 ?s (demo_calls []) = Some (demo_booking 1 ''fan'', Some ''Star'')"
    by (simp add: booking_partner_def demo_calls_def demo_booking_def)
  moreover have "demo_call_fns ''rpc_create_notification'' (notice_args (ring_notice ''star'' 1 ?res (demo_booking 1 ''fan'') (Some ''Star'')))
      ?s (demo_calls []) = Inl ''violates foreign key constraint notifications_recipient_id_fkey''"
    by (simp add: demo_call_fns_def notice_args_def ring_notice_def demo_booking_def or_null_def ok_json_def jid_def
        rpc_create_notification_def demo_calls_def)
  ultimately show ?thesis
    using initiate_rings_before_commit [of demo_call_fns 1 ?s ?w ?res "demo_calls []" "demo_booking 1 ''fan''" "Some ''Star''",
        OF _ _ _ refl refl] by auto
qed

section \<open>The next fan\<close>

text \<open>A stable sort of a sorted list is sorted lexicographically.\<close>

lemma sorted_wrt_insort:
  assumes "sorted_wrt (\<lambda>x y. f x < f y \<or> f x = f y \<and> P x y) ys" and "\<And>y. y \<in> set ys \<Longrightarrow> P x y"
  shows "sorted_wrt (\<lambda>x y. f x < f y \<or> f x = f y \<and> P x y) (insort_key f (x :: 'x) ys)"
  using assms
proof (induction ys)
  case (Cons y ys)
  then show ?case by (auto simp: set_insort_key not_le)
qed simp

lemma sorted_wrt_sort_key:
  "sorted_wrt P xs \<Longrightarrow> sorted_wrt (\<lambda>x y. f x < f y \<or> f x = f y \<and> P x y) (sort_key f xs)"
  by (induction xs) (auto intro!: sorted_wrt_insort)

definition queue_before :: "session \<Rightarrow> 'a services_scheme \<Rightarrow> booking \<Rightarrow> booking \<Rightarrow> bool" where
  "queue_before s d x y \<longleftrightarrow> queue_priority d x < queue_priority d y \<or> queue_priority d x = queue_priority d y \<and>
     (bk_date x < bk_date y \<or> bk_date x = bk_date y \<and> waiting_since y \<le> waiting_since x)"

lemma queue_sorted: "sorted_wrt (queue_before s d) (vw_partner_call_queue u s d)"
proof -
  let ?xs = "filter (\<lambda>b. bk_partner b = u \<and> in_queue s d b) (bookings d)"
  have "sorted_wrt (\<lambda>x y. waiting_since y \<le> waiting_since x) (sort_key (\<lambda>b. sess_now s - waiting_since b) ?xs)"
    using sorted_sort_key [of "\<lambda>b. sess_now s - waiting_since b" ?xs] by (simp add: sorted_map)
  from sorted_wrt_sort_key [OF sorted_wrt_sort_key [OF this, of bk_date], of "queue_priority d"]
  show ?thesis by (simp add: vw_partner_call_queue_def queue_before_def [abs_def])
qed

lemma first_filter_sorted:
  assumes "sorted_wrt R xs" and "first (filter P xs) = Some x"
  shows "x \<in> set xs \<and> P x \<and> (\<forall>y \<in> set xs. P y \<longrightarrow> y = x \<or> R x y)"
  using assms by (induction xs) (auto simp: first_def split: if_splits)

text \<open>
  The fan told to be next is one whose booking is in this partner's queue today, is neither the
  booking nor the fan just called, and is first among those: no other has a smaller priority, nor
  an earlier date at the same priority, nor at the same date has been waiting for a shorter time.
\<close>

theorem next_fan_is_first_in_queue:
  assumes "next_fan u i fan s d = Some nb"
  shows "nb \<in> set (bookings d) \<and> bk_partner nb = u \<and> in_queue s d nb \<and> bk_id nb \<noteq> i \<and> bk_fan nb \<noteq> fan \<and>
    (\<forall>b \<in> set (bookings d). bk_partner b = u \<and> in_queue s d b \<and> bk_id b \<noteq> i \<and> bk_fan b \<noteq> fan \<longrightarrow>
       b = nb \<or> queue_before s d nb b)"
proof -
  have "set (vw_partner_call_queue u s d) = {b \<in> set (bookings d). bk_partner b = u \<and> in_queue s d b}"
    by (auto simp: vw_partner_call_queue_def)
  with first_filter_sorted [OF queue_sorted assms [unfolded next_fan_def]] show ?thesis by auto
qed

theorem next_fan_is_first_in_queue_witness:
  "in_queue demo_session (demo_calls [(''fan'', None), (''eve'', None)]) (demo_booking 2 ''eve'')"
proof -
  have "next_fan ''star'' 1 ''fan'' demo_session (demo_calls [(''fan'', None), (''eve'', None)]) = Some (demo_booking 2 ''eve'')"
    by (simp add: next_fan_def vw_partner_call_queue_def demo_calls_def demo_booking_def in_queue_def demo_call_def attempts_def
        current_date_def demo_session_def queue_priority_def LIVE_def first_def waiting_since_def)
  from next_fan_is_first_in_queue [OF this] show ?thesis by blast
qed

section \<open>The missed path\<close>

text \<open>The notices of one outcome, as the database sees them; \<open>None\<close>: one raised.\<close>

fun notices_db :: "'d sqlFns \<Rightarrow> session \<Rightarrow> callNotice list \<Rightarrow> 'd \<Rightarrow> 'd option" where
  "notices_db F s [] d = Some d"
| "notices_db F s (n # ns) d = (case F ''rpc_create_notification'' (notice_args n) s d of
     Inl e \<Rightarrow> None | Inr (r, d1) \<Rightarrow> notices_db F s ns d1)"

lemma notice_Cons:
  "tx_each (\<lambda>n. tx_then (createCallNotification F n) (tx_return ())) (n # ns) s t =
     (if tx_err t \<noteq> None then tx_each (\<lambda>n. tx_then (createCallNotification F n) (tx_return ())) ns s t
      else case F ''rpc_create_notification'' (notice_args n) s (tx_db t) of
             Inl e \<Rightarrow> tx_each (\<lambda>n. tx_then (createCallNotification F n) (tx_return ())) ns s (t\<lparr>tx_err := Some (PgError e)\<rparr>)
           | Inr (r, d) \<Rightarrow> tx_each (\<lambda>n. tx_then (createCallNotification F n) (tx_return ())) ns s (t\<lparr>tx_db := d\<rparr>))"
  unfolding tx_each.simps then_then then_return by (rule then_notice)

lemma notices_run:
  "tx_err t = None \<Longrightarrow>
   \<exists>t'. tx_each (\<lambda>n. tx_then (createCallNotification F n) (tx_return ())) ns s t = (Inr (), t') \<and> tx_log t' = tx_log t \<and>
     (case notices_db F s ns (tx_db t) of None \<Rightarrow> tx_err t' \<noteq> None | Some d \<Rightarrow> tx_err t' = None \<and> tx_db t' = d)"
proof (induction ns arbitrary: t)
  case Nil
  then show ?case by (simp add: tx_return_def)
next
  case (Cons n ns)
  have abort: "\<exists>t'. tx_each (\<lambda>n. tx_then (createCallNotification F n) (tx_return ())) ns s t = (Inr (), t') \<and>
      tx_log t' = tx_log t \<and> tx_err t' \<noteq> None" if "tx_err t \<noteq> None" for t
    using that by (induction ns) (simp_all add: notice_Cons tx_return_def del: tx_each.simps(2))
  show ?case
  proof (cases "F ''rpc_create_notification'' (notice_args n) s (tx_db t)")
    case (Inl e)
    with Cons.prems abort [of "t\<lparr>tx_err := Some (PgError e)\<rparr>"] show ?thesis
      by (simp add: notice_Cons del: tx_each.simps)
  next
    case (Inr rd)
    with Cons.prems Cons.IH [of "t\<lparr>tx_db := snd rd\<rparr>"] show ?thesis
      by (cases rd) (simp add: notice_Cons del: tx_each.simps)
  qed
qed

lemma then_each: "tx_each f xs s t = (Inr (), t') \<Longrightarrow> tx_then (tx_each f xs) m s t = m s t'"
  by (simp add: tx_then_def tx_bind_def)

text \<open>
  Ending a call as missed.  A status outside the three missed ones never reaches the database:
  the request is a 400 and nothing happens.  Otherwise the state machine decides: if it raises or
  refuses, the request is rejected, nothing changes and nobody is told.  If it accepts, the ring
  is stopped and both parties are told the same status, and the notices written go to the parties
  of the call only; they are kept with the transition, or the transition is lost with them if one
  of them raises, although both parties were told.
\<close>

theorem mark_missed_outcome:
  assumes "s = base\<lparr>app_user_id := Some u\<rparr>"
  shows "(status \<notin> set MISSED_STATUSES \<longrightarrow> (\<exists>body. markMissed F base u i status w = (Inl (BadRequest body), w))) \<and>
    (status \<in> set MISSED_STATUSES \<longrightarrow>
      (case F ''rpc_mark_call_missed'' [jid i, JStr status] s (w_db w) of
         Inl e \<Rightarrow> markMissed F base u i status w = (Inl (PgError e), w)
       | Inr (res, d1) \<Rightarrow>
           (jget res ''success'' = Some (JBool False) \<longrightarrow>
              markMissed F base u i status w = (Inl (BadRequest (rpc_error res)), w)) \<and>
           (\<forall>c. success res \<and> call_by (Some (jid i)) s d1 = Some c \<longrightarrow>
              (\<exists>r w'. markMissed F base u i status w = (r, w') \<and>
                 w_log w' = w_log w @ [Ext ''cancelCall'' [name_or [] (ca_fan c), nat_text i],
                   Ext ''notifyCallEnded'' (ended_args c i status (text_member res ''ended_by_role''))] \<and>
                 (case notices_db F s (missed_notices u i status c (text_member res ''ended_by_role'')) d1 of
                    None \<Rightarrow> w_db w' = w_db w
                  | Some d2 \<Rightarrow> r = Inr res \<and> w_db w' = d2) \<and>
                 (\<forall>n \<in> set (missed_notices u i status c (text_member res ''ended_by_role'')).
                    cn_recipient n \<in> {name_or [] (ca_fan c), name_or [] (ca_partner c)} \<and> cn_actor n = u)))))"
proof (intro conjI impI, goal_cases)
  case 1
  then show ?case by (simp add: markMissed_def bad_request_def)
next
  case ok: 2
  show ?case
  proof (cases "F ''rpc_mark_call_missed'' [jid i, JStr status] s (w_db w)")
    case (Inl e)
    then show ?thesis using ok assms by (simp add: markMissed_def call_run)
  next
    case (Inr rd)
    obtain res d1 where rd: "rd = (res, d1)" by (cases rd)
    have refused: "markMissed F base u i status w = (Inl (BadRequest (rpc_error res)), w)"
      if "jget res ''success'' = Some (JBool False)"
      using Inr rd that ok assms by (simp add: markMissed_def call_run)
    have accepted: "\<exists>r w'. markMissed F base u i status w = (r, w') \<and>
                 w_log w' = w_log w @ [Ext ''cancelCall'' [name_or [] (ca_fan c), nat_text i],
                   Ext ''notifyCallEnded'' (ended_args c i status (text_member res ''ended_by_role''))] \<and>
                 (case notices_db F s (missed_notices u i status c (text_member res ''ended_by_role'')) d1 of
                    None \<Rightarrow> w_db w' = w_db w
                  | Some d2 \<Rightarrow> r = Inr res \<and> w_db w' = d2)"
      if "success res" and "call_by (Some (jid i)) s d1 = Some c" for c
    proof -
      let ?ns = "missed_notices u i status c (text_member res ''ended_by_role'')"
      let ?t = "\<lparr>tx_db = d1, tx_err = None, tx_log = w_log w @ [Ext ''cancelCall'' [name_or [] (ca_fan c), nat_text i],
                   Ext ''notifyCallEnded'' (ended_args c i status (text_member res ''ended_by_role''))]\<rparr>"
      obtain t' where t': "tx_each (\<lambda>n. tx_then (createCallNotification F n) (tx_return ())) ?ns s ?t = (Inr (), t')"
        "tx_log t' = tx_log ?t"
        "case notices_db F s ?ns d1 of None \<Rightarrow> tx_err t' \<noteq> None | Some d \<Rightarrow> tx_err t' = None \<and> tx_db t' = d"
        using notices_run [of ?t F ?ns s] by auto
      have "markMissed F base u i status w =
          (case tx_err t' of None \<Rightarrow> (Inr res, \<lparr>w_db = tx_db t', w_log = tx_log t'\<rparr>)
           | Some e \<Rightarrow> (if drv_rethrow base then Inl e else Inr res, w\<lparr>w_log := tx_log t'\<rparr>))"
        using ok Inr that t'(1) unfolding assms rd
        by (simp add: markMissed_def runAs_unfold bind_rpc bind_reads then_push success_not_refused then_each Let_def tx_return_def)
      with t'(2,3) show ?thesis by (auto split: option.splits)
    qed
    have "cn_recipient n \<in> {name_or [] (ca_fan c), name_or [] (ca_partner c)} \<and> cn_actor n = u"
      if "n \<in> set (missed_notices u i status c role)" for n c role
      using that by (auto simp: missed_notices_def missed_notice_def dropped_fan_notice_def dropped_partner_notice_def split: if_splits)
    with refused accepted show ?thesis unfolding Inr rd by fastforce
  qed
qed

theorem mark_missed_outcome_witness:
  "\<exists>r w'. markMissed demo_call_fns demo_session ''star'' 5 ''MISSED_FAN_NO_JOIN'' \<lparr>w_db = demo_calls [], w_log = []\<rparr> = (r, w') \<and>
     length (w_log w') = 2 \<and> w_db w' = demo_calls []"
proof -
  let ?w = "\<lparr>w_db = demo_calls [], w_log = []\<rparr>" and ?s = "demo_session\<lparr>app_user_id := Some ''star''\<rparr>"
  let ?res = "ok_json [(''call_id'', jid 5), (''meeting_id'', JStr ''zudue-1'')]"
  have F: "demo_call_fns ''rpc_mark_call_missed'' [jid 5, JStr ''MISSED_FAN_NO_JOIN''] ?s (w_db ?w) = Inr (?res, demo_calls [])"
    by (simp add: demo_call_fns_def)
  have "success ?res \<and> call_by (Some (jid 5)) ?s (demo_calls []) = Some demo_call"
    by (simp add: success_def ok_json_def call_by_def demo_calls_def demo_call_def)
  moreover have "notices_db demo_call_fns ?s (missed_notices ''star'' 5 ''MISSED_FAN_NO_JOIN'' demo_call r) (demo_calls []) = None" for r
    by (simp add: missed_notices_def missed_notice_def notice_args_def demo_call_fns_def jid_def demo_call_def name_or_def
        rpc_create_notification_def demo_calls_def)
  moreover have "''MISSED_FAN_NO_JOIN'' \<in> set MISSED_STATUSES" by (simp add: MISSED_STATUSES_def)
  ultimately show ?thesis
    using mark_missed_outcome [OF refl, of "''MISSED_FAN_NO_JOIN''" demo_call_fns demo_session "''star''" 5 ?w] F by fastforce
qed

section \<open>Credentials\<close>

text \<open>
  C17. A media credential is minted for a party of that meeting only, for that room, as publisher, and
  with an expiry that is an absolute time within a second of one hour from now; everybody else
  gets 403, and the database is only read.
\<close>

theorem credential_for_parties_only:
  assumes "s = base\<lparr>app_user_id := Some u\<rparr>"
  shows "snd (callCredential (mint config build now) base u m w) = w \<and>
    (\<not> is_party u m s (w_db w) \<longrightarrow>
       fst (callCredential (mint config build now) base u m w) = Inl (Forbidden (JStr ''NOT_A_PARTY''))) \<and>
    (\<forall>c. fst (callCredential (mint config build now) base u m w) = Inr c \<longleftrightarrow>
       is_party u m s (w_db w) \<and>
       (\<exists>appId cert expire. config ''AGORA_APP_ID'' = Some appId \<and> config ''AGORA_APP_CERTIFICATE'' = Some cert \<and>
          c = \<lparr>cc_provider = ''agora'', cc_room = m, cc_token = build appId cert m 0 ''PUBLISHER'' expire expire, cc_appId = appId\<rparr> \<and>
          1000 * expire \<le> now + 3600000 \<and> now + 3600000 < 1000 * expire + 1000))"
proof -
  have e: "1000 * x \<le> now + 3600000 \<and> now + 3600000 < 1000 * x + 1000 \<longleftrightarrow> x = now div 1000 + 3600" for x :: int
    by linarith
  show ?thesis
    unfolding e
    by (auto simp: assms callCredential_def call_run mint_def getOrThrow_def tx_throw_def tx_return_def Let_def split: option.split)
qed

theorem credential_for_parties_only_witness:
  "fst (callCredential (mint (\<lambda>k. Some k) (\<lambda>_ _ _ _ _ _ _. ''tok'') 0) demo_session ''mallory'' ''zudue-1''
     \<lparr>w_db = demo_calls [], w_log = []\<rparr>) = Inl (Forbidden (JStr ''NOT_A_PARTY''))"
proof -
  have "\<not> is_party ''mallory'' ''zudue-1'' (demo_session\<lparr>app_user_id := Some ''mallory''\<rparr>) (w_db \<lparr>w_db = demo_calls [], w_log = []\<rparr>)"
    by (simp add: is_party_def demo_calls_def demo_call_def)
  with credential_for_parties_only [OF refl] show ?thesis by blast
qed

end
