(* ===== verification/Validation.thy ===== *)
theory Validation
  imports Services
begin

text \<open>
  The global \<open>ValidationPipe\<close> of \<open>src/main.ts\<close> (whitelist, transform) over the request classes of the
  \<open>*.dto.ts\<close> files.  A class is data: its fields in order with their decorators.  What a decorator
  accepts is class-validator's and class-transformer's business, hence a parameter;
  \<open>validators_ok\<close> states what is used of it.  JSON numbers are integers.
\<close>

section \<open>Fields and decorators\<close>

datatype rule = IsOptional | IsString | MinLength nat | MaxLength nat | IsEmail | IsUUID | IsIn "string list"
  | Matches string | IsInt | IsPositive | Min int | Max int | IsObject | IsArray | EachString | IsBoolean | IsISO8601

record field =
  fd_name :: string
  fd_number :: bool
  fd_rules :: "rule list"

type_synonym dto = "field list"

definition fld :: "string \<Rightarrow> rule list \<Rightarrow> field" where
  "fld n rs = \<lparr>fd_name = n, fd_number = False, fd_rules = rs\<rparr>"

text \<open>\<open>@Type(() => Number)\<close>.\<close>

definition num :: "string \<Rightarrow> rule list \<Rightarrow> field" where
  "num n rs = \<lparr>fd_name = n, fd_number = True, fd_rules = rs\<rparr>"

text \<open>A value of a body: absent, a failed conversion, or JSON.\<close>

datatype jsval = Undefined | NaN | Val json

text \<open>The third-party part: what a decorator accepts, and the conversion to a number.\<close>

record pipe =
  accepts :: "rule \<Rightarrow> jsval \<Rightarrow> bool"
  convert :: "jsval \<Rightarrow> jsval"

definition field_value :: "pipe \<Rightarrow> field \<Rightarrow> json \<Rightarrow> jsval" where
  "field_value P f body =
     (let raw = (case jget body (fd_name f) of None \<Rightarrow> Undefined | Some v \<Rightarrow> Val v)
      in if fd_number f then convert P raw else raw)"

definition field_ok :: "pipe \<Rightarrow> field \<Rightarrow> jsval \<Rightarrow> bool" where
  "field_ok P f v \<longleftrightarrow> IsOptional \<in> set (fd_rules f) \<and> v \<in> {Undefined, Val JNull} \<or>
     (\<forall>r \<in> set (fd_rules f). r = IsOptional \<or> accepts P r v)"

text \<open>
  The object handed to the handler has every field of the class as an own property, undefined when
  not sent, and nothing else.
\<close>

type_synonym body = "(string \<times> jsval) list"

definition validate :: "pipe \<Rightarrow> dto \<Rightarrow> json \<Rightarrow> exn + body" where
  "validate P dto body =
     (if \<forall>f \<in> set dto. field_ok P f (field_value P f body)
      then Inr (map (\<lambda>f. (fd_name f, field_value P f body)) dto)
      else Inl (BadRequest (JStr ''Bad Request Exception'')))"

definition validators_ok :: "pipe \<Rightarrow> bool" where
  "validators_ok P \<longleftrightarrow>
     (\<forall>v r. r \<in> {IsString, IsEmail, IsUUID} \<longrightarrow> accepts P r v \<longrightarrow> (\<exists>s. v = Val (JStr s))) \<and>
     (\<forall>v xs. accepts P (IsIn xs) v \<longrightarrow> (\<exists>s \<in> set xs. v = Val (JStr s))) \<and>
     (\<forall>v. accepts P IsInt v \<longrightarrow> (\<exists>n. v = Val (JNum n))) \<and>
     (\<forall>n m. accepts P (Min m) (Val (JNum n)) \<longrightarrow> m \<le> n) \<and>
     (\<forall>n m. accepts P (Max m) (Val (JNum n)) \<longrightarrow> n \<le> m) \<and>
     (\<forall>v. accepts P IsBoolean v \<longrightarrow> (\<exists>b. v = Val (JBool b))) \<and>
     (\<forall>v. accepts P IsObject v \<longrightarrow> (\<exists>kvs. v = Val (JObj kvs))) \<and>
     (\<forall>v. accepts P IsArray v \<and> accepts P EachString v \<longrightarrow> (\<exists>ss. v = Val (JArr (map JStr ss)))) \<and>
     convert P Undefined = Undefined \<and> convert P (Val JNull) = Val JNull"

section \<open>The request classes\<close>

definition GENDERS :: "string list" where
  "GENDERS = [''MALE'', ''FEMALE'', ''OTHER'', ''PREFER_NOT_TO_SAY'']"

definition CreateProfileDto :: dto where
  "CreateProfileDto = [fld ''fullName'' [IsString, MaxLength 120], fld ''email'' [IsOptional, IsEmail],
     fld ''mobileNumber'' [IsOptional, IsString, MaxLength 20]]"

definition UpdateProfileDto :: dto where
  "UpdateProfileDto = [fld ''full_name'' [IsOptional, IsString, MaxLength 120],
     fld ''mobile_number'' [IsOptional, IsString, MaxLength 20],
     num ''age'' [IsOptional, IsInt, Min 13, Max 120],
     fld ''gender'' [IsOptional, IsIn GENDERS],
     fld ''notification_prefs'' [IsOptional, IsObject]]"

definition UpdatePartnerProfileDto :: dto where
  "UpdatePartnerProfileDto = [fld ''display_name'' [IsOptional, IsString, MaxLength 80],
     fld ''bio'' [IsOptional, IsString, MaxLength 2000],
     fld ''profile_image_path'' [IsOptional, IsString, MaxLength 512],
     fld ''vacation_mode'' [IsOptional, IsBoolean],
     fld ''profile_complete'' [IsOptional, IsBoolean],
     fld ''languages'' [IsOptional, IsArray, EachString]]"

definition SubmitKycDto :: dto where
  "SubmitKycDto = [fld ''documents'' [IsArray]]"

definition SubmitApplicationDto :: dto where
  "SubmitApplicationDto = [fld ''applicantFullName'' [IsString, MaxLength 120], fld ''email'' [IsEmail],
     fld ''mobileNumber'' [IsString, MaxLength 20],
     fld ''primarySocialLink'' [IsOptional, IsString, MaxLength 512],
     fld ''expertiseDescription'' [IsOptional, IsString, MaxLength 2000]]"

definition CALL_DURATIONS :: "string list" where
  "CALL_DURATIONS = [''1'', ''2'', ''3'', ''5'', ''7'', ''9'', ''12'', ''15'']"

text \<open>The pattern of a date: four, two and two digits, then anything after a \<open>T\<close> or a space.\<close>

definition DATE_PATTERN :: string where
  "DATE_PATTERN = ''^'' @ [CHR 0x5C] @ ''d{4}-'' @ [CHR 0x5C] @ ''d{2}-'' @ [CHR 0x5C] @ ''d{2}([T ].*)?$''"

definition BookCallDto :: dto where
  "BookCallDto = [fld ''partnerId'' [IsUUID], fld ''date'' [Matches DATE_PATTERN],
     fld ''duration'' [IsIn CALL_DURATIONS],
     fld ''note'' [IsOptional, IsString, MaxLength 500], fld ''promo'' [IsOptional, IsString, MaxLength 64]]"

definition PreviewPriceDto :: dto where
  "PreviewPriceDto = [fld ''partnerId'' [IsUUID], fld ''duration'' [IsIn CALL_DURATIONS],
     fld ''promo'' [IsOptional, IsString, MaxLength 64]]"

definition HeartbeatDto :: dto where
  "HeartbeatDto = [fld ''actor'' [IsIn [''FAN'', ''PARTNER'']], fld ''peerPresent'' [IsOptional, IsBoolean]]"

definition MarkMissedDto :: dto where
  "MarkMissedDto = [fld ''status'' [IsIn [''MISSED_FAN_NO_JOIN'', ''MISSED_FAN_DECLINED'', ''DROPPED_TECHNICAL_ISSUE'']]]"

definition RecordCallMetricsDto :: dto where
  "RecordCallMetricsDto = [fld ''metrics'' [IsObject]]"

definition CreateTopupDto :: dto where
  "CreateTopupDto = [num ''creditPaise'' [IsInt, IsPositive, Max 100000000]]"

definition HistoryQueryDto :: dto where
  "HistoryQueryDto = [num ''limit'' [IsOptional, IsInt, Min 1, Max 200]]"

definition AskQuestionDto :: dto where
  "AskQuestionDto = [fld ''partnerId'' [IsUUID], fld ''text'' [IsString, MinLength 1, MaxLength 4000]]"

definition AnswerDto :: dto where
  "AnswerDto = [fld ''conversationId'' [IsUUID], fld ''text'' [IsString, MinLength 1, MaxLength 4000]]"

definition FollowupDto :: dto where
  "FollowupDto = [fld ''fanId'' [IsUUID], fld ''text'' [IsString, MinLength 1, MaxLength 4000]]"

definition FeedQueryDto :: dto where
  "FeedQueryDto = [fld ''category'' [IsOptional, IsString, MaxLength 64], fld ''q'' [IsOptional, IsString, MaxLength 200],
     num ''limit'' [IsOptional, IsInt, Min 1, Max 100], num ''offset'' [IsOptional, IsInt, Min 0]]"

definition ListNotificationsQuery :: dto where
  "ListNotificationsQuery = [fld ''before'' [IsOptional, IsISO8601], num ''limit'' [IsOptional, IsInt, Min 1, Max 100]]"

section \<open>What an accepted body holds\<close>

lemma validate_Inr:
  "validate P dto body = Inr b \<longleftrightarrow>
     (\<forall>f \<in> set dto. field_ok P f (field_value P f body)) \<and> b = map (\<lambda>f. (fd_name f, field_value P f body)) dto"
  by (auto simp: validate_def)

lemmas accepts_string = validators_ok_def [THEN iffD1, THEN conjunct1, rule_format]

lemma accepted_in: "validators_ok P \<Longrightarrow> accepts P (IsIn xs) v \<Longrightarrow> \<exists>s \<in> set xs. v = Val (JStr s)"
  and accepted_bool: "validators_ok P \<Longrightarrow> accepts P IsBoolean v \<Longrightarrow> \<exists>b. v = Val (JBool b)"
  and accepted_object: "validators_ok P \<Longrightarrow> accepts P IsObject v \<Longrightarrow> \<exists>kvs. v = Val (JObj kvs)"
  and accepted_string: "validators_ok P \<Longrightarrow> accepts P IsString v \<Longrightarrow> \<exists>s. v = Val (JStr s)"
  and accepted_strings: "validators_ok P \<Longrightarrow> accepts P IsArray v \<Longrightarrow> accepts P EachString v \<Longrightarrow> \<exists>ss. v = Val (JArr (map JStr ss))"
  and accepted_range: "validators_ok P \<Longrightarrow> accepts P IsInt v \<Longrightarrow> accepts P (Min l) v \<Longrightarrow> accepts P (Max h) v \<Longrightarrow>
      \<exists>n. v = Val (JNum n) \<and> l \<le> n \<and> n \<le> h"
  by (simp_all add: validators_ok_def) fastforce+

end
