(* ===== verification/Identity.thy ===== *)
theory Identity
  imports Validation
begin

text \<open>
  \<open>src/identity/identity.module.ts\<close>: the profile of the caller, signup, profile edits and the partner
  application, over the tables of migrations 0002, 0012 and 0082 with the constraints of 0002, 0065 and 0074
  and the wallet trigger of 0028.  \<open>src/admin/admin.guard.ts\<close> reads the same table.
\<close>

section \<open>Tables\<close>

datatype userRole = FAN | PARTNER | ADMIN
datatype userStatus = U_ACTIVE | U_SUSPENDED | U_BANNED
datatype partnerStatus = PENDING_APPROVAL | P_ACTIVE | P_INACTIVE | REJECTED_ONBOARDING | P_SUSPENDED
datatype applicationStatus = PENDING_INITIAL_REVIEW | AWAITING_KYC_AND_PROFILE_COMPLETION | PENDING_FINAL_ADMIN_APPROVAL
  | A_ACTIVE | REJECTED_INITIAL | REJECTED_KYC | REJECTED_FINAL

record person =
  pn_id :: string
  pn_role :: userRole
  pn_email :: string
  pn_full_name :: "string option"
  pn_mobile :: "string option"
  pn_age :: "int option"
  pn_gender :: "string option"
  pn_prefs :: json
  pn_status :: userStatus

record partnerRow =
  pr_id :: string
  pr_display_name :: string
  pr_bio :: "string option"
  pr_image :: "string option"
  pr_status :: partnerStatus
  pr_vacation :: bool
  pr_complete :: bool
  pr_languages :: "string list option"

record application =
  ap_id :: nat
  ap_profile :: string
  ap_name :: string
  ap_email :: string
  ap_mobile :: "string option"
  ap_link :: "string option"
  ap_expertise :: "string option"
  ap_status :: applicationStatus
  ap_notes :: "string option"
  ap_submitted :: int

record deletionRow = deletionRequest +
  dr_requested :: int

record identityDb =
  people :: "person list"
  partners :: "partnerRow list"
  applications :: "application list"
  del_requests :: "deletionRow list"
  wallet_owners :: "string list"
  next_app :: nat

section \<open>The lifecycle\<close>

text \<open>\<open>order by t desc limit 1\<close>: the first of the latest.\<close>

definition latest :: "('x \<Rightarrow> int) \<Rightarrow> 'x list \<Rightarrow> 'x option" where
  "latest t xs = (case sort_key (\<lambda>x. - t x) xs of [] \<Rightarrow> None | x # _ \<Rightarrow> Some x)"

fun application_stage :: "applicationStatus \<Rightarrow> string" where
  "application_stage PENDING_INITIAL_REVIEW = ''PENDING_INITIAL''"
| "application_stage AWAITING_KYC_AND_PROFILE_COMPLETION = ''AWAITING_COMPLETION''"
| "application_stage PENDING_FINAL_ADMIN_APPROVAL = ''PENDING_FINAL''"
| "application_stage REJECTED_INITIAL = ''REJECTED''"
| "application_stage REJECTED_KYC = ''REJECTED''"
| "application_stage REJECTED_FINAL = ''REJECTED''"
| "application_stage A_ACTIVE = ''PENDING_INITIAL''"

definition partner_of :: "string \<Rightarrow> 'a identityDb_scheme \<Rightarrow> partnerRow option" where
  "partner_of u d = find (\<lambda>r. pr_id r = u) (partners d)"

definition LIFECYCLE_SQL :: "'a identityDb_scheme \<Rightarrow> person \<Rightarrow> string" where
  "LIFECYCLE_SQL d p =
     (if pn_status p \<in> {U_SUSPENDED, U_BANNED} then ''SUSPENDED''
      else if pn_role p \<noteq> PARTNER then ''LIVE''
      else if map_option pr_status (partner_of (pn_id p) d) = Some P_ACTIVE then ''LIVE''
      else case latest ap_submitted (filter (\<lambda>a. ap_profile a = pn_id p) (applications d)) of
             None \<Rightarrow> ''NEEDS_APPLICATION'' | Some a \<Rightarrow> application_stage (ap_status a))"

record meRow =
  me_person :: person
  me_partner :: "partnerRow option"
  me_lifecycle :: string
  me_purge_at :: "int option"

definition me_row :: "string \<Rightarrow> 'a identityDb_scheme \<Rightarrow> meRow option" where
  "me_row u d = map_option (\<lambda>p. \<lparr>me_person = p, me_partner = partner_of u d, me_lifecycle = LIFECYCLE_SQL d p,
     me_purge_at = Option.bind (latest dr_requested (filter (\<lambda>r. dr_profile r = u \<and> dr_status r \<in> {D_REQUESTED, D_CONFIRMED}) (del_requests d)))
       dr_purge_at\<rparr>) (find (\<lambda>p. pn_id p = u) (people d))"

definition me :: "session \<Rightarrow> string \<Rightarrow> ('a identityDb_scheme, meRow option) act" where
  "me base u = runAs base u (execute (\<lambda>s d. Inr (me_row u d, d)))"

section \<open>Signup\<close>

record createProfileBody =
  cp_fullName :: string
  cp_email :: "string option"
  cp_mobileNumber :: "string option"

text \<open>
  The insert: \<open>email\<close> is not null and unique (0002), \<open>mobile_number\<close> unique (0065); the trigger
  of 0028 gives a fan a wallet.  Only a conflict on the id is resolved.
\<close>

definition ins_profile :: "string \<Rightarrow> createProfileBody \<Rightarrow> ('a identityDb_scheme, unit) stmt" where
  "ins_profile u b s d =
     (case cp_email b of None \<Rightarrow> Inl ''null value in column email violates not-null constraint''
      | Some email \<Rightarrow>
          if \<exists>p \<in> set (people d). pn_id p = u then Inr ((), d)
          else if \<exists>p \<in> set (people d). pn_email p = email
          then Inl ''duplicate key value violates unique constraint profiles_email_lower_uq''
          else if cp_mobileNumber b \<noteq> None \<and> (\<exists>p \<in> set (people d). pn_mobile p = cp_mobileNumber b)
          then Inl ''duplicate key value violates unique constraint profiles_mobile_number_key''
          else Inr ((), d\<lparr>people := people d @ [\<lparr>pn_id = u, pn_role = FAN, pn_email = email, pn_full_name = Some (cp_fullName b),
                 pn_mobile = cp_mobileNumber b, pn_age = None, pn_gender = None,
                 pn_prefs = JObj [(''push'', JBool True), (''email'', JBool True), (''in_app'', JBool True)], pn_status = U_ACTIVE\<rparr>],
                 wallet_owners := set_add u (wallet_owners d)\<rparr>))"

definition createProfile :: "'a identityDb_scheme sqlFns \<Rightarrow> session \<Rightarrow> string \<Rightarrow> createProfileBody \<Rightarrow> ('a identityDb_scheme, json) act" where
  "createProfile F base u b =
     runAs base u (tx_bind (execute (ins_profile u b)) (\<lambda>_.
       tx_bind (tx_catch (tx_bind (rpc (F ''rpc_send_welcome_notification'' [JStr u])) (\<lambda>_. tx_return ())) (\<lambda>_. tx_return ())) (\<lambda>_.
       tx_return (JObj [(''created'', JBool True)]))))"

section \<open>Editing the profile\<close>

text \<open>\<open>String(v)\<close> and \<open>Number(v)\<close> (\<open>None\<close> is \<open>NaN\<close>).\<close>

fun comma_join :: "string list \<Rightarrow> string" where
  "comma_join [] = []"
| "comma_join [x] = x"
| "comma_join (x # y # xs) = x @ '','' @ comma_join (y # xs)"

fun js_string :: "json \<Rightarrow> string" where
  "js_string JNull = ''null''"
| "js_string (JBool b) = (if b then ''true'' else ''false'')"
| "js_string (JNum n) = int_text n"
| "js_string (JStr s) = s"
| "js_string (JArr vs) = comma_join (map (\<lambda>v. case v of JNull \<Rightarrow> [] | _ \<Rightarrow> js_string v) vs)"
| "js_string (JObj kvs) = ''[object Object]''"

text \<open>\<open>setters\<close>: an assignment of the update, which may fail in the database; \<open>None\<close>: no such key.\<close>

definition setters :: "string \<Rightarrow> (json \<Rightarrow> person \<Rightarrow> string + person) option" where
  "setters k =
     (if k = ''full_name'' then Some (\<lambda>v p. Inr (p\<lparr>pn_full_name := Some (js_string v)\<rparr>))
      else if k = ''mobile_number'' then Some (\<lambda>v p. Inr (p\<lparr>pn_mobile := Some (js_string v)\<rparr>))
      else if k = ''age'' then Some (\<lambda>v p.
        if v = JNull \<or> v = JStr [] then Inr (p\<lparr>pn_age := None\<rparr>)
        else (case to_number v of None \<Rightarrow> Inl ''invalid input syntax for type integer: NaN''
              | Some n \<Rightarrow> if 13 \<le> n \<and> n \<le> 120 then Inr (p\<lparr>pn_age := Some n\<rparr>)
                          else Inl ''new row violates check constraint profiles_age_range''))
      else if k = ''gender'' then Some (\<lambda>v p. (case v of JNull \<Rightarrow> Inr (p\<lparr>pn_gender := None\<rparr>)
        | JStr g \<Rightarrow> if g \<in> set GENDERS then Inr (p\<lparr>pn_gender := Some g\<rparr>) else Inl ''invalid input value for enum gender_enum''
        | _ \<Rightarrow> Inl ''invalid input value for enum gender_enum''))
      else if k = ''notification_prefs'' then Some (\<lambda>v p. Inr (p\<lparr>pn_prefs := v\<rparr>))
      else None)"

text \<open>\<open>Object.entries(patch).filter(...).map(...)\<close>: the entries kept, with their values.\<close>

definition sent :: "(string \<Rightarrow> bool) \<Rightarrow> body \<Rightarrow> (string \<times> json) list" where
  "sent known patch = List.map_filter (\<lambda>(k, v). case v of Val j \<Rightarrow> if known k then Some (k, j) else None | _ \<Rightarrow> None) patch"

fun assign :: "(string \<Rightarrow> json \<Rightarrow> 'r \<Rightarrow> string + 'r) \<Rightarrow> (string \<times> json) list \<Rightarrow> 'r \<Rightarrow> string + 'r" where
  "assign f [] r = Inr r"
| "assign f ((k, v) # kvs) r = (case f k v r of Inl e \<Rightarrow> Inl e | Inr r1 \<Rightarrow> assign f kvs r1)"

text \<open>The one \<open>update ... where id = $1\<close>; the mobile number is unique.\<close>

definition upd_profile :: "string \<Rightarrow> (string \<times> json) list \<Rightarrow> ('a identityDb_scheme, unit) stmt" where
  "upd_profile u kvs s d =
     (case find (\<lambda>p. pn_id p = u) (people d) of
        None \<Rightarrow> Inr ((), d)
      | Some p \<Rightarrow>
          (case assign (\<lambda>k. the (setters k)) kvs p of
             Inl e \<Rightarrow> Inl e
           | Inr p1 \<Rightarrow>
               if pn_mobile p1 \<noteq> None \<and> (\<exists>q \<in> set (people d). pn_id q \<noteq> u \<and> pn_mobile q = pn_mobile p1)
               then Inl ''duplicate key value violates unique constraint profiles_mobile_number_key''
               else Inr ((), d\<lparr>people := map (\<lambda>q. if pn_id q = u then p1 else q) (people d)\<rparr>)))"

definition updateProfile :: "session \<Rightarrow> string \<Rightarrow> body \<Rightarrow> ('a identityDb_scheme, json) act" where
  "updateProfile base u patch =
     runAs base u (let parts = sent (\<lambda>k. setters k \<noteq> None) patch in
       if parts = [] then tx_return (JObj [(''updated'', JBool False)])
       else tx_bind (execute (upd_profile u parts)) (\<lambda>_. tx_return (JObj [(''updated'', JBool True)])))"

section \<open>Editing the partner profile\<close>

definition partner_allowed :: "string list" where
  "partner_allowed = [''display_name'', ''bio'', ''profile_image_path'', ''vacation_mode'', ''profile_complete'']"

text \<open>\<open>column = $1\<close> on the row; three of the columns are not null.\<close>

definition set_partner :: "string \<Rightarrow> json \<Rightarrow> partnerRow \<Rightarrow> string + partnerRow" where
  "set_partner k v r =
     (if k = ''display_name'' then (case v of JStr x \<Rightarrow> Inr (r\<lparr>pr_display_name := x\<rparr>) | JNull \<Rightarrow> Inl ''null value in column display_name'' | _ \<Rightarrow> Inl ''type error'')
      else if k = ''bio'' then (case v of JStr x \<Rightarrow> Inr (r\<lparr>pr_bio := Some x\<rparr>) | JNull \<Rightarrow> Inr (r\<lparr>pr_bio := None\<rparr>) | _ \<Rightarrow> Inl ''type error'')
      else if k = ''profile_image_path'' then (case v of JStr x \<Rightarrow> Inr (r\<lparr>pr_image := Some x\<rparr>) | JNull \<Rightarrow> Inr (r\<lparr>pr_image := None\<rparr>) | _ \<Rightarrow> Inl ''type error'')
      else if k = ''vacation_mode'' then (case v of JBool b \<Rightarrow> Inr (r\<lparr>pr_vacation := b\<rparr>) | JNull \<Rightarrow> Inl ''null value in column vacation_mode'' | _ \<Rightarrow> Inl ''type error'')
      else if k = ''profile_complete'' then (case v of JBool b \<Rightarrow> Inr (r\<lparr>pr_complete := b\<rparr>) | JNull \<Rightarrow> Inl ''null value in column profile_complete'' | _ \<Rightarrow> Inl ''type error'')
      else if k = ''languages'' then (case v of JArr xs \<Rightarrow> Inr (r\<lparr>pr_languages := Some (map js_string xs)\<rparr>) | _ \<Rightarrow> Inl ''type error'')
      else Inl ''column does not exist'')"

definition upd_partner :: "string \<Rightarrow> (string \<times> json) list \<Rightarrow> ('a identityDb_scheme, unit) stmt" where
  "upd_partner u kvs s d =
     (case partner_of u d of None \<Rightarrow> Inr ((), d)
      | Some r \<Rightarrow> (case assign set_partner kvs r of Inl e \<Rightarrow> Inl e
          | Inr r1 \<Rightarrow> Inr ((), d\<lparr>partners := map (\<lambda>x. if pr_id x = u then r1 else x) (partners d)\<rparr>)))"

definition body_value :: "body \<Rightarrow> string \<Rightarrow> jsval" where
  "body_value patch k = (case map_of patch k of None \<Rightarrow> Undefined | Some v \<Rightarrow> v)"

text \<open>\<open>Array.isArray(patch.languages)\<close>.\<close>

definition language_part :: "body \<Rightarrow> (string \<times> json) list" where
  "language_part patch = (case body_value patch ''languages'' of Val (JArr xs) \<Rightarrow> [(''languages'', JArr xs)] | _ \<Rightarrow> [])"

definition updatePartnerProfile :: "'a identityDb_scheme sqlFns \<Rightarrow> session \<Rightarrow> string \<Rightarrow> body \<Rightarrow> ('a identityDb_scheme, json) act" where
  "updatePartnerProfile F base u patch =
     runAs base u (let assignments = sent (\<lambda>k. k \<in> set partner_allowed) patch @ language_part patch in
       tx_bind (if assignments = [] then tx_return () else execute (upd_partner u assignments)) (\<lambda>_.
       tx_bind (if body_value patch ''vacation_mode'' = Val (JBool False)
                then tx_bind (rpc (F ''rpc_notify_waitlist'' [JStr u])) (\<lambda>res.
                     tx_return (case jget res ''notified'' of None \<Rightarrow> Some 0 | Some v \<Rightarrow> to_number v))
                else tx_return (Some 0)) (\<lambda>notified.
       tx_return (JObj [(''updated'', JBool (assignments \<noteq> [])),
                        (''waitlistNotified'', case notified of None \<Rightarrow> JNull | Some n \<Rightarrow> JNum n)]))))"

section \<open>Documents, deletion, application\<close>

definition submitKyc :: "'d sqlFns \<Rightarrow> session \<Rightarrow> string \<Rightarrow> json list \<Rightarrow> ('d, json) act" where
  "submitKyc F base u documents = runAs base u (rpc (F ''rpc_submit_kyc'' [JArr documents]))"

definition requestDeletion :: "'d sqlFns \<Rightarrow> session \<Rightarrow> string \<Rightarrow> string option \<Rightarrow> ('d, json) act" where
  "requestDeletion F base u reason = runAs base u (rpc (F ''rpc_request_account_deletion'' [jstr_or_null reason]))"

definition cancelDeletion :: "'d sqlFns \<Rightarrow> session \<Rightarrow> string \<Rightarrow> ('d, json) act" where
  "cancelDeletion F base u = runAs base u (rpc (F ''rpc_cancel_account_deletion'' []))"

record applicationBody =
  ab_applicantFullName :: string
  ab_email :: string
  ab_mobileNumber :: string
  ab_primarySocialLink :: "string option"
  ab_expertiseDescription :: "string option"

text \<open>One application per profile (0065).\<close>

definition ins_application :: "string \<Rightarrow> applicationBody \<Rightarrow> ('a identityDb_scheme, nat \<times> applicationStatus) stmt" where
  "ins_application u b s d =
     (if \<exists>a \<in> set (applications d). ap_profile a = u
      then Inl ''duplicate key value violates unique constraint partner_applications_profile_id_key''
      else Inr ((next_app d, PENDING_INITIAL_REVIEW),
        d\<lparr>applications := applications d @ [\<lparr>ap_id = next_app d, ap_profile = u, ap_name = ab_applicantFullName b, ap_email = ab_email b,
            ap_mobile = Some (ab_mobileNumber b), ap_link = ab_primarySocialLink b, ap_expertise = ab_expertiseDescription b,
            ap_status = PENDING_INITIAL_REVIEW, ap_notes = None, ap_submitted = sess_now s\<rparr>], next_app := Suc (next_app d)\<rparr>))"

definition submitApplication :: "session \<Rightarrow> string \<Rightarrow> applicationBody \<Rightarrow> ('a identityDb_scheme, nat \<times> applicationStatus) act" where
  "submitApplication base u b = runAs base u (execute (ins_application u b))"

definition myApplication :: "session \<Rightarrow> string \<Rightarrow> ('a identityDb_scheme, application option) act" where
  "myApplication base u = runAs base u (execute (\<lambda>s d.
     Inr (latest ap_submitted (filter (\<lambda>a. ap_profile a = u) (applications d)), d)))"

definition submitForReview :: "'d sqlFns \<Rightarrow> session \<Rightarrow> string \<Rightarrow> string \<Rightarrow> ('d, json) act" where
  "submitForReview F base u applicationId = runAs base u (rpc (F ''rpc_partner_submit_for_review'' [JStr applicationId]))"

section \<open>The admin gate\<close>

text \<open>\<open>AdminGuard.canActivate\<close>; the caller is what \<open>JwtGuard\<close> put on the request.\<close>

definition adminGuard :: "session \<Rightarrow> string option \<Rightarrow> ('a identityDb_scheme, bool) act" where
  "adminGuard base user w =
     (if \<not> truthy_str user then (Inl (Forbidden (JStr ''NOT_AUTHENTICATED'')), w)
      else case runAs base (the user) (execute (\<lambda>s d. Inr (map_option pn_role (find (\<lambda>p. pn_id p = the user) (people d)) = Some ADMIN, d))) w of
             (Inl e, w1) \<Rightarrow> (Inl e, w1)
           | (Inr isAdmin, w1) \<Rightarrow> (if isAdmin then Inr True else Inl (Forbidden (JStr ''ADMIN_ONLY'')), w1))"

end
