(* ===== verification/Identity_Props.thy ===== *)
theory Identity_Props
  imports Identity
begin

text \<open>
  Properties of the identity endpoints: what an accepted edit does to the tables and when it raises,
  signup, and the lifecycle that the client routes by.
\<close>

lemma runAs_execute:
  "runAs base u (execute st) w =
     (case st (base\<lparr>app_user_id := Some u\<rparr>) (w_db w) of
        Inl e \<Rightarrow> (Inl (PgError e), w) | Inr (a, d) \<Rightarrow> (Inr a, w\<lparr>w_db := d\<rparr>))"
  by (auto simp: runAs_def transaction_def tx_defs split: sum.split prod.split)

lemma runAs_execute_then:
  "runAs base u (tx_bind (execute st) (\<lambda>_. tx_return r)) w =
     (case st (base\<lparr>app_user_id := Some u\<rparr>) (w_db w) of
        Inl e \<Rightarrow> (Inl (PgError e), w) | Inr (a, d) \<Rightarrow> (Inr r, w\<lparr>w_db := d\<rparr>))"
  by (auto simp: runAs_def transaction_def tx_defs split: sum.split prod.split)

lemma return_bind: "tx_bind (tx_return a) f = f a"
  by (simp add: tx_bind_def tx_return_def fun_eq_iff)

section \<open>Edits entry by entry\<close>

text \<open>The effect of one entry of a body.\<close>

definition entry :: "(string \<Rightarrow> bool) \<Rightarrow> (string \<Rightarrow> json \<Rightarrow> 'r \<Rightarrow> string + 'r) \<Rightarrow> string \<Rightarrow> jsval \<Rightarrow> 'r \<Rightarrow> string + 'r" where
  "entry known f k v r = (case v of Val j \<Rightarrow> if known k then f k j r else Inr r | _ \<Rightarrow> Inr r)"

lemma sent_Nil [simp]: "sent known [] = []"
  by (simp add: sent_def List.map_filter_def)

lemma sent_Cons: "sent known ((k, v) # b) = (case v of Val j \<Rightarrow> if known k then [(k, j)] else [] | _ \<Rightarrow> []) @ sent known b"
  by (simp add: sent_def List.map_filter_def split: jsval.split)

lemma assign_append: "assign f (xs @ ys) r = (case assign f xs r of Inl e \<Rightarrow> Inl e | Inr r1 \<Rightarrow> assign f ys r1)"
  by (induction f xs r rule: assign.induct) (auto split: sum.split)

lemma assign_sent_Cons:
  "assign f (sent known ((k, v) # b)) r =
     (case entry known f k v r of Inl e \<Rightarrow> Inl e | Inr r1 \<Rightarrow> assign f (sent known b) r1)"
  by (auto simp: sent_Cons assign_append entry_def split: jsval.split sum.split)

section \<open>The caller's own profile\<close>

definition text_or :: "string option \<Rightarrow> jsval \<Rightarrow> string option" where
  "text_or old v = (case v of Val j \<Rightarrow> Some (js_string j) | _ \<Rightarrow> old)"

definition edited :: "body \<Rightarrow> person \<Rightarrow> person" where
  "edited patch p = p\<lparr>pn_full_name := text_or (pn_full_name p) (body_value patch ''full_name''),
     pn_mobile := text_or (pn_mobile p) (body_value patch ''mobile_number''),
     pn_age := (case body_value patch ''age'' of Val (JNum n) \<Rightarrow> Some n | Val _ \<Rightarrow> None | _ \<Rightarrow> pn_age p),
     pn_gender := (case body_value patch ''gender'' of Val (JStr g) \<Rightarrow> Some g | Val _ \<Rightarrow> None | _ \<Rightarrow> pn_gender p),
     pn_prefs := (case body_value patch ''notification_prefs'' of Val j \<Rightarrow> j | _ \<Rightarrow> pn_prefs p)\<rparr>"

definition typed_edit :: "jsval \<Rightarrow> jsval \<Rightarrow> jsval \<Rightarrow> bool" where
  "typed_edit age gender prefs \<longleftrightarrow>
     age \<in> {Undefined, Val JNull} \<union> {Val (JNum n) | n. 13 \<le> n \<and> n \<le> 120} \<and>
     gender \<in> {Undefined, Val JNull} \<union> {Val (JStr g) | g. g \<in> set GENDERS} \<and>
     prefs \<noteq> NaN"

lemma accepted_profile_body:
  assumes "validators_ok P" and "validate P UpdateProfileDto body = Inr patch"
  obtains name mobile age gender prefs where
    "patch = [(''full_name'', name), (''mobile_number'', mobile), (''age'', age), (''gender'', gender), (''notification_prefs'', prefs)]"
    and "typed_edit age gender prefs" and "name \<noteq> NaN" and "mobile \<noteq> NaN"
proof -
  have f: "field_ok P f (field_value P f body)" if "f \<in> set UpdateProfileDto" for f
    using assms(2) that by (simp add: validate_Inr)
  let ?v = "\<lambda>k. case jget body k of None \<Rightarrow> Undefined | Some v \<Rightarrow> Val v"
  have v: "field_value P (fld k rs) body = ?v k" for k rs by (simp add: field_value_def fld_def)
  let ?age = "convert P (?v ''age'')"
  have a: "field_value P (num ''age'' rs) body = ?age" for rs by (simp add: field_value_def num_def)
  have opt: "\<forall>r \<in> set rs. r = IsOptional \<or> accepts P r x" if "field_ok P (fld k rs) x \<or> field_ok P (num k rs) x" "x \<notin> {Undefined, Val JNull}"
    for k rs x using that by (auto simp: field_ok_def fld_def num_def)
  have age: "?age \<in> {Undefined, Val JNull} \<union> {Val (JNum n) | n. 13 \<le> n \<and> n \<le> 120}"
  proof (cases "?age \<in> {Undefined, Val JNull}")
    case False
    have "field_ok P (num ''age'' [IsOptional, IsInt, Min 13, Max 120]) ?age"
      using f [of "num ''age'' [IsOptional, IsInt, Min 13, Max 120]"] by (simp add: UpdateProfileDto_def a)
    from opt [OF disjI2 [OF this] False] accepted_range [OF assms(1), of ?age 13 120] show ?thesis by auto
  qed blast
  have gender: "?v ''gender'' \<in> {Undefined, Val JNull} \<union> {Val (JStr g) | g. g \<in> set GENDERS}"
  proof (cases "?v ''gender'' \<in> {Undefined, Val JNull}")
    case False
    have "field_ok P (fld ''gender'' [IsOptional, IsIn GENDERS]) (?v ''gender'')"
      using f [of "fld ''gender'' [IsOptional, IsIn GENDERS]"] by (simp add: UpdateProfileDto_def v)
    from opt [OF disjI1 [OF this] False] accepted_in [OF assms(1), of GENDERS "?v ''gender''"] show ?thesis by auto
  qed blast
  have nan: "?v k \<noteq> NaN" for k by (simp split: option.split)
  have "patch = [(''full_name'', ?v ''full_name''), (''mobile_number'', ?v ''mobile_number''), (''age'', ?age),
      (''gender'', ?v ''gender''), (''notification_prefs'', ?v ''notification_prefs'')]"
    using assms(2) by (simp add: validate_Inr UpdateProfileDto_def v a) (simp add: fld_def num_def)
  moreover have "typed_edit ?age (?v ''gender'') (?v ''notification_prefs'')"
    using age gender nan [of "''notification_prefs''"] by (simp add: typed_edit_def)
  ultimately show ?thesis using that nan by blast
qed

abbreviation "own_key \<equiv> \<lambda>k. setters k \<noteq> None"
abbreviation "own_set \<equiv> \<lambda>k. the (setters k)"

lemma own_entries:
  "entry own_key own_set ''full_name'' v p = Inr (p\<lparr>pn_full_name := text_or (pn_full_name p) v\<rparr>)"
  "entry own_key own_set ''mobile_number'' v p = Inr (p\<lparr>pn_mobile := text_or (pn_mobile p) v\<rparr>)"
  "v \<in> {Undefined, Val JNull} \<union> {Val (JNum n) | n. 13 \<le> n \<and> n \<le> 120} \<Longrightarrow>
     entry own_key own_set ''age'' v p = Inr (p\<lparr>pn_age := (case v of Val (JNum n) \<Rightarrow> Some n | Val _ \<Rightarrow> None | _ \<Rightarrow> pn_age p)\<rparr>)"
  "v \<in> {Undefined, Val JNull} \<union> {Val (JStr g) | g. g \<in> set GENDERS} \<Longrightarrow>
     entry own_key own_set ''gender'' v p = Inr (p\<lparr>pn_gender := (case v of Val (JStr g) \<Rightarrow> Some g | Val _ \<Rightarrow> None | _ \<Rightarrow> pn_gender p)\<rparr>)"
  "entry own_key own_set ''notification_prefs'' v p = Inr (p\<lparr>pn_prefs := (case v of Val j \<Rightarrow> j | _ \<Rightarrow> pn_prefs p)\<rparr>)"
  by (auto simp: entry_def setters_def text_or_def split: jsval.split)

lemma assign_edited:
  assumes "validators_ok P" and "validate P UpdateProfileDto body = Inr patch"
  shows "assign own_set (sent own_key patch) p = Inr (edited patch p)"
proof -
  obtain name mobile age gender prefs where
    b: "patch = [(''full_name'', name), (''mobile_number'', mobile), (''age'', age), (''gender'', gender), (''notification_prefs'', prefs)]"
    and t: "typed_edit age gender prefs" using accepted_profile_body [OF assms] by metis
  have "entry own_key own_set ''age'' age q = Inr (q\<lparr>pn_age := (case age of Val (JNum n) \<Rightarrow> Some n | Val _ \<Rightarrow> None | _ \<Rightarrow> pn_age q)\<rparr>)"
    and "entry own_key own_set ''gender'' gender q = Inr (q\<lparr>pn_gender := (case gender of Val (JStr g) \<Rightarrow> Some g | Val _ \<Rightarrow> None | _ \<Rightarrow> pn_gender q)\<rparr>)"
    for q using t own_entries(3,4) unfolding typed_edit_def by blast+
  then show ?thesis
    unfolding b by (simp only: assign_sent_Cons own_entries(1,2,5) sum.case sent_Nil assign.simps) (simp add: edited_def body_value_def cong: jsval.case_cong json.case_cong)
qed

text \<open>The constraints of the table.\<close>

definition person_ok :: "person \<Rightarrow> bool" where
  "person_ok p \<longleftrightarrow> (\<forall>n. pn_age p = Some n \<longrightarrow> 13 \<le> n \<and> n \<le> 120) \<and> (\<forall>g. pn_gender p = Some g \<longrightarrow> g \<in> set GENDERS)"

definition people_ok :: "person list \<Rightarrow> bool" where
  "people_ok ps \<longleftrightarrow> distinct (map pn_id ps) \<and> (\<forall>p \<in> set ps. person_ok p) \<and>
     (\<forall>p \<in> set ps. \<forall>q \<in> set ps. \<forall>n. pn_mobile p = Some n \<and> pn_mobile q = Some n \<longrightarrow> pn_id p = pn_id q)"

lemma mobiles_unique:
  "people_ok ps \<Longrightarrow> p \<in> set ps \<Longrightarrow> q \<in> set ps \<Longrightarrow> pn_mobile p = Some n \<Longrightarrow> pn_mobile q = Some n \<Longrightarrow> pn_id p = pn_id q"
  unfolding people_ok_def by blast

lemma ids_unique: "people_ok ps \<Longrightarrow> p \<in> set ps \<Longrightarrow> q \<in> set ps \<Longrightarrow> pn_id p = pn_id q \<Longrightarrow> p = q"
  by (auto simp: people_ok_def distinct_map inj_on_def)

lemma person_ok_edited:
  assumes "validators_ok P" and "validate P UpdateProfileDto body = Inr patch" and "person_ok p"
  shows "person_ok (edited patch p)"
proof -
  obtain name mobile age gender prefs where
    b: "patch = [(''full_name'', name), (''mobile_number'', mobile), (''age'', age), (''gender'', gender), (''notification_prefs'', prefs)]"
    and "typed_edit age gender prefs" using accepted_profile_body [OF assms(1,2)] by metis
  then show ?thesis using assms(3) by (auto simp: edited_def body_value_def person_ok_def typed_edit_def)
qed

definition mobile_taken :: "string \<Rightarrow> body \<Rightarrow> person list \<Rightarrow> bool" where
  "mobile_taken u patch ps \<longleftrightarrow> (\<exists>p \<in> set ps. pn_id p = u) \<and>
     (\<exists>v q. body_value patch ''mobile_number'' = Val v \<and> q \<in> set ps \<and> pn_id q \<noteq> u \<and> pn_mobile q = Some (js_string v))"

lemma people_ok_map:
  assumes "people_ok ps" and "\<And>p. p \<in> set ps \<Longrightarrow> pn_id (e p) = pn_id p" and "\<And>p. p \<in> set ps \<Longrightarrow> person_ok (e p)"
    and "\<And>p q n. p \<in> set ps \<Longrightarrow> q \<in> set ps \<Longrightarrow> pn_mobile (e p) = Some n \<Longrightarrow> pn_mobile (e q) = Some n \<Longrightarrow> pn_id p = pn_id q"
  shows "people_ok (map e ps)"
proof -
  have "map pn_id (map e ps) = map pn_id ps" using assms(2) by simp
  moreover have "\<forall>p \<in> set ps. \<forall>q \<in> set ps. \<forall>n. pn_mobile (e p) = Some n \<and> pn_mobile (e q) = Some n \<longrightarrow> pn_id (e p) = pn_id (e q)"
    by (metis assms(2,4))
  ultimately show ?thesis using assms(1,3) unfolding people_ok_def by (simp del: map_map)
qed

lemma edited_id [simp]: "pn_id (edited patch p) = pn_id p"
  by (simp add: edited_def)

lemma edited_mobile: "pn_mobile (edited patch p) = text_or (pn_mobile p) (body_value patch ''mobile_number'')"
  by (simp add: edited_def)

lemma edited_mobile_unique:
  assumes inv: "people_ok ps" and no: "\<not> mobile_taken u patch ps"
    and p: "p \<in> set ps" "pn_id p = u" and q: "q \<in> set ps" "pn_id q \<noteq> u" and m: "pn_mobile (edited patch p) = Some n"
  shows "pn_mobile q \<noteq> Some n"
proof (cases "body_value patch ''mobile_number''")
  case (Val v)
  with no p q m show ?thesis by (auto simp: mobile_taken_def edited_mobile text_or_def)
next
  case Undefined
  with m have "pn_mobile p = Some n" by (simp add: edited_mobile text_or_def)
  with mobiles_unique [OF inv p(1) q(1)] p q show ?thesis by auto
next
  case NaN
  with m have "pn_mobile p = Some n" by (simp add: edited_mobile text_or_def)
  with mobiles_unique [OF inv p(1) q(1)] p q show ?thesis by auto
qed


section \<open>The partner profile\<close>

abbreviation "partner_key \<equiv> \<lambda>k. k \<in> set partner_allowed"

definition null_sent :: "body \<Rightarrow> bool" where
  "null_sent patch \<longleftrightarrow> (\<exists>k \<in> {''display_name'', ''vacation_mode'', ''profile_complete''}. body_value patch k = Val JNull)"

definition json_text_opt :: "json \<Rightarrow> string option" where
  "json_text_opt j = (case j of JStr x \<Rightarrow> Some x | _ \<Rightarrow> None)"

definition partner_edited :: "body \<Rightarrow> partnerRow \<Rightarrow> partnerRow" where
  "partner_edited patch r = r\<lparr>
     pr_display_name := (case body_value patch ''display_name'' of Val (JStr x) \<Rightarrow> x | _ \<Rightarrow> pr_display_name r),
     pr_bio := (case body_value patch ''bio'' of Val j \<Rightarrow> json_text_opt j | _ \<Rightarrow> pr_bio r),
     pr_image := (case body_value patch ''profile_image_path'' of Val j \<Rightarrow> json_text_opt j | _ \<Rightarrow> pr_image r),
     pr_vacation := (case body_value patch ''vacation_mode'' of Val (JBool b) \<Rightarrow> b | _ \<Rightarrow> pr_vacation r),
     pr_complete := (case body_value patch ''profile_complete'' of Val (JBool b) \<Rightarrow> b | _ \<Rightarrow> pr_complete r),
     pr_languages := (case body_value patch ''languages'' of Val (JArr xs) \<Rightarrow> Some (map js_string xs) | _ \<Rightarrow> pr_languages r)\<rparr>"

definition texty :: "jsval \<Rightarrow> bool" where
  "texty v \<longleftrightarrow> v \<in> {Undefined, Val JNull} \<or> (\<exists>s. v = Val (JStr s))"

definition booly :: "jsval \<Rightarrow> bool" where
  "booly v \<longleftrightarrow> v \<in> {Undefined, Val JNull} \<or> (\<exists>b. v = Val (JBool b))"

lemma accepted_partner_body:
  assumes "validators_ok P" and "validate P UpdatePartnerProfileDto body = Inr patch"
  obtains name bio image vacation finished langs where
    "patch = [(''display_name'', name), (''bio'', bio), (''profile_image_path'', image), (''vacation_mode'', vacation),
       (''profile_complete'', finished), (''languages'', langs)]"
    and "texty name" and "texty bio" and "texty image" and "booly vacation" and "booly finished"
    and "langs \<in> {Undefined, Val JNull} \<or> (\<exists>ss. langs = Val (JArr (map JStr ss)))"
proof -
  have f: "field_ok P f (field_value P f body)" if "f \<in> set UpdatePartnerProfileDto" for f
    using assms(2) that by (simp add: validate_Inr)
  let ?v = "\<lambda>k. case jget body k of None \<Rightarrow> Undefined | Some v \<Rightarrow> Val v"
  have v: "field_value P (fld k rs) body = ?v k" for k rs by (simp add: field_value_def fld_def)
  have t: "texty (?v k)" if "fld k [IsOptional, IsString, MaxLength n] \<in> set UpdatePartnerProfileDto" for k n
    using f [OF that, unfolded v] accepted_string [OF assms(1), of "?v k"] by (auto simp: texty_def field_ok_def fld_def)
  have b: "booly (?v k)" if "fld k [IsOptional, IsBoolean] \<in> set UpdatePartnerProfileDto" for k
    using f [OF that, unfolded v] accepted_bool [OF assms(1), of "?v k"] by (auto simp: booly_def field_ok_def fld_def)
  have "?v ''languages'' \<in> {Undefined, Val JNull} \<or> (\<exists>ss. ?v ''languages'' = Val (JArr (map JStr ss)))"
    using f [of "fld ''languages'' [IsOptional, IsArray, EachString]", unfolded v] accepted_strings [OF assms(1), of "?v ''languages''"]
    by (auto simp: UpdatePartnerProfileDto_def field_ok_def fld_def)
  moreover have "texty (?v ''display_name'')" "texty (?v ''bio'')" "texty (?v ''profile_image_path'')"
    using t [of "''display_name''" 80] t [of "''bio''" 2000] t [of "''profile_image_path''" 512]
    by (simp_all add: UpdatePartnerProfileDto_def)
  moreover have "booly (?v ''vacation_mode'')" "booly (?v ''profile_complete'')"
    by (rule b, simp add: UpdatePartnerProfileDto_def)+
  moreover have "patch = [(''display_name'', ?v ''display_name''), (''bio'', ?v ''bio''), (''profile_image_path'', ?v ''profile_image_path''),
      (''vacation_mode'', ?v ''vacation_mode''), (''profile_complete'', ?v ''profile_complete''), (''languages'', ?v ''languages'')]"
    using assms(2) by (simp add: validate_Inr UpdatePartnerProfileDto_def v) (simp add: fld_def)
  ultimately show ?thesis using that by blast
qed

lemma partner_entries:
  "texty v \<Longrightarrow> entry partner_key set_partner ''display_name'' v r =
     (if v = Val JNull then Inl ''null value in column display_name''
      else Inr (r\<lparr>pr_display_name := (case v of Val (JStr x) \<Rightarrow> x | _ \<Rightarrow> pr_display_name r)\<rparr>))"
  "texty v \<Longrightarrow> entry partner_key set_partner ''bio'' v r =
     Inr (r\<lparr>pr_bio := (case v of Val j \<Rightarrow> json_text_opt j | _ \<Rightarrow> pr_bio r)\<rparr>)"
  "texty v \<Longrightarrow> entry partner_key set_partner ''profile_image_path'' v r =
     Inr (r\<lparr>pr_image := (case v of Val j \<Rightarrow> json_text_opt j | _ \<Rightarrow> pr_image r)\<rparr>)"
  "booly v \<Longrightarrow> entry partner_key set_partner ''vacation_mode'' v r =
     (if v = Val JNull then Inl ''null value in column vacation_mode''
      else Inr (r\<lparr>pr_vacation := (case v of Val (JBool b) \<Rightarrow> b | _ \<Rightarrow> pr_vacation r)\<rparr>))"
  "booly v \<Longrightarrow> entry partner_key set_partner ''profile_complete'' v r =
     (if v = Val JNull then Inl ''null value in column profile_complete''
      else Inr (r\<lparr>pr_complete := (case v of Val (JBool b) \<Rightarrow> b | _ \<Rightarrow> pr_complete r)\<rparr>))"
  "entry partner_key set_partner ''languages'' v r = Inr r"
  by (auto simp: entry_def set_partner_def partner_allowed_def texty_def booly_def json_text_opt_def split: jsval.split)

lemma assign_partner:
  assumes "validators_ok P" and "validate P UpdatePartnerProfileDto body = Inr patch"
  shows "(null_sent patch \<longrightarrow> (\<exists>e. assign set_partner (sent partner_key patch @ language_part patch) r = Inl e)) \<and>
    (\<not> null_sent patch \<longrightarrow> assign set_partner (sent partner_key patch @ language_part patch) r = Inr (partner_edited patch r))"
proof -
  obtain name bio image vacation finished langs where
    b: "patch = [(''display_name'', name), (''bio'', bio), (''profile_image_path'', image), (''vacation_mode'', vacation),
       (''profile_complete'', finished), (''languages'', langs)]"
    and t: "texty name" "texty bio" "texty image" "booly vacation" "booly finished"
    and l: "langs \<in> {Undefined, Val JNull} \<or> (\<exists>ss. langs = Val (JArr (map JStr ss)))"
    using accepted_partner_body [OF assms] by metis
  have lang: "assign set_partner (language_part patch) q =
      Inr (q\<lparr>pr_languages := (case langs of Val (JArr xs) \<Rightarrow> Some (map js_string xs) | _ \<Rightarrow> pr_languages q)\<rparr>)" for q
    using l by (auto simp: language_part_def b body_value_def set_partner_def)
  have null: "null_sent patch \<longleftrightarrow> name = Val JNull \<or> vacation = Val JNull \<or> finished = Val JNull"
    by (simp add: null_sent_def b body_value_def)
  have run: "assign set_partner (sent partner_key patch) r =
      (if name = Val JNull then Inl ''null value in column display_name''
       else if vacation = Val JNull then Inl ''null value in column vacation_mode''
       else if finished = Val JNull then Inl ''null value in column profile_complete''
       else Inr (r\<lparr>pr_display_name := (case name of Val (JStr x) \<Rightarrow> x | _ \<Rightarrow> pr_display_name r),
         pr_bio := (case bio of Val j \<Rightarrow> json_text_opt j | _ \<Rightarrow> pr_bio r),
         pr_image := (case image of Val j \<Rightarrow> json_text_opt j | _ \<Rightarrow> pr_image r),
         pr_vacation := (case vacation of Val (JBool b) \<Rightarrow> b | _ \<Rightarrow> pr_vacation r),
         pr_complete := (case finished of Val (JBool b) \<Rightarrow> b | _ \<Rightarrow> pr_complete r)\<rparr>))"
    unfolding b assign_sent_Cons partner_entries(1) [OF t(1)] partner_entries(2) [OF t(2)] partner_entries(3) [OF t(3)]
      partner_entries(4) [OF t(4)] partner_entries(5) [OF t(5)] partner_entries(6)
    by (simp cong: jsval.case_cong json.case_cong)
  show ?thesis
    unfolding null assign_append run
    by (simp add: lang) (simp add: partner_edited_def b body_value_def cong: jsval.case_cong json.case_cong)
qed

lemma partner_of_map:
  "partner_of u d = Some r \<Longrightarrow> pr_id r1 = u \<Longrightarrow>
   partner_of u (d\<lparr>partners := map (\<lambda>x. if pr_id x = u then r1 else x) (partners d)\<rparr>) = Some r1"
proof -
  have "find (\<lambda>r. pr_id r = u) xs = Some r \<Longrightarrow> pr_id r1 = u \<Longrightarrow>
      find (\<lambda>r. pr_id r = u) (map (\<lambda>x. if pr_id x = u then r1 else x) xs) = Some r1" for xs
    by (induction xs) (auto split: if_splits)
  then show "partner_of u d = Some r \<Longrightarrow> pr_id r1 = u \<Longrightarrow>
   partner_of u (d\<lparr>partners := map (\<lambda>x. if pr_id x = u then r1 else x) (partners d)\<rparr>) = Some r1"
    by (simp add: partner_of_def)
qed

lemma partner_of_id: "partner_of u d = Some r \<Longrightarrow> pr_id r = u"
  by (auto simp: partner_of_def find_Some_iff)

text \<open>
  An accepted edit of a partner's profile that does not end a vacation raises exactly if it sends
  null for the name or one of the two flags, which the pipe lets through because they are optional;
  then nothing changes.  Otherwise exactly the fields sent are assigned.
\<close>

theorem partner_edit_raises_iff_null:
  fixes w :: "'a identityDb_scheme world"
  assumes ok: "validators_ok P" "validate P UpdatePartnerProfileDto body = Inr patch"
    and r: "partner_of u (w_db w) = Some r" and still: "body_value patch ''vacation_mode'' \<noteq> Val (JBool False)"
  shows "if null_sent patch then \<exists>e. updatePartnerProfile F base u patch w = (Inl (PgError e), w)
    else \<exists>a w'. updatePartnerProfile F base u patch w = (Inr a, w') \<and> partner_of u (w_db w') = Some (partner_edited patch r)"
proof -
  let ?as = "sent partner_key patch @ language_part patch"
  have run: "updatePartnerProfile F base u patch w = runAs base u (tx_bind (if ?as = [] then tx_return () else execute (upd_partner u ?as))
      (\<lambda>_. tx_return (JObj [(''updated'', JBool (?as \<noteq> [])), (''waitlistNotified'', JNum 0)]))) w"
    using still by (simp add: updatePartnerProfile_def return_bind Let_def)
  show ?thesis
  proof (cases "?as = []")
    case True
    with assign_partner [OF ok, of r] have "\<not> null_sent patch" "partner_edited patch r = r" by auto
    moreover have "updatePartnerProfile F base u patch w =
        (Inr (JObj [(''updated'', JBool False), (''waitlistNotified'', JNum 0)]), w)"
      using True by (simp add: run runAs_def transaction_def tx_bind_def tx_return_def)
    ultimately show ?thesis using r by simp
  next
    case False
    then have "updatePartnerProfile F base u patch w = (case upd_partner u ?as (base\<lparr>app_user_id := Some u\<rparr>) (w_db w) of
        Inl e \<Rightarrow> (Inl (PgError e), w)
      | Inr (a, d) \<Rightarrow> (Inr (JObj [(''updated'', JBool True), (''waitlistNotified'', JNum 0)]), w\<lparr>w_db := d\<rparr>))"
      unfolding run by (simp only: False if_False runAs_execute_then not_False_eq_True)
    moreover have "pr_id (partner_edited patch r) = u" using partner_of_id [OF r] by (simp add: partner_edited_def)
    ultimately show ?thesis
      using assign_partner [OF ok, of r] r partner_of_map [OF r] by (auto simp: upd_partner_def)
  qed
qed

section \<open>Signup\<close>

text \<open>
  Signing up never gives a role: a new profile is a FAN with a wallet.  Without an e-mail
  address, or with an address or number of another user, it raises; a repeated signup changes no profile.
  The welcome notice is not best effort: if it raises, although caught, the profile is lost; if it
  only refuses, the profile stays.
\<close>

theorem signup_outcome:
  fixes w :: "'a identityDb_scheme world"
  assumes "s = base\<lparr>app_user_id := Some u\<rparr>"
  shows "(cp_email b = None \<longrightarrow> (\<exists>e. createProfile F base u b w = (Inl (PgError e), w))) \<and>
    (\<forall>d1. ins_profile u b s (w_db w) = Inr ((), d1) \<longrightarrow>
      (if \<exists>p \<in> set (people (w_db w)). pn_id p = u then d1 = w_db w
       else \<exists>p. people d1 = people (w_db w) @ [p] \<and> pn_id p = u \<and> pn_role p = FAN \<and> u \<in> set (wallet_owners d1)) \<and>
      (case F ''rpc_send_welcome_notification'' [JStr u] s d1 of
         Inl e \<Rightarrow> w_db (snd (createProfile F base u b w)) = w_db w
       | Inr (r, d2) \<Rightarrow> createProfile F base u b w = (Inr (JObj [(''created'', JBool True)]), w\<lparr>w_db := d2\<rparr>)))"
proof (intro conjI impI allI)
  assume "cp_email b = None"
  then show "\<exists>e. createProfile F base u b w = (Inl (PgError e), w)"
    by (simp add: createProfile_def runAs_def transaction_def tx_bind_def execute_def ins_profile_def)
next
  fix d1 assume i: "ins_profile u b s (w_db w) = Inr ((), d1)"
  then show "if \<exists>p \<in> set (people (w_db w)). pn_id p = u then d1 = w_db w
       else \<exists>p. people d1 = people (w_db w) @ [p] \<and> pn_id p = u \<and> pn_role p = FAN \<and> u \<in> set (wallet_owners d1)"
    by (auto simp: ins_profile_def split: option.splits if_splits)
  show "case F ''rpc_send_welcome_notification'' [JStr u] s d1 of
         Inl e \<Rightarrow> w_db (snd (createProfile F base u b w)) = w_db w
       | Inr (r, d2) \<Rightarrow> createProfile F base u b w = (Inr (JObj [(''created'', JBool True)]), w\<lparr>w_db := d2\<rparr>)"
    using i by (auto simp: createProfile_def runAs_def transaction_def tx_bind_def tx_catch_def rpc_def execute_def tx_return_def
        tx_throw_def assms split: sum.split prod.split)
qed

section \<open>The lifecycle\<close>

lemma latest_in: "latest t xs = Some x \<Longrightarrow> x \<in> set xs"
  by (auto simp: latest_def split: list.splits) (metis list.set_intros(1) set_sort)

text \<open>
  The lifecycle the client routes by is one of seven values.  It is LIVE exactly for an account that
  is not suspended or banned and either is no partner or is an approved one; a partner that is asked
  to apply has no application on file, and one that is shown as rejected cannot file another: the
  request raises.
\<close>

theorem lifecycle_is_exact:
  fixes d :: "'a identityDb_scheme"
  shows "LIFECYCLE_SQL d p \<in> {''SUSPENDED'', ''NEEDS_APPLICATION'', ''PENDING_INITIAL'', ''AWAITING_COMPLETION'', ''PENDING_FINAL'',
      ''REJECTED'', ''LIVE''} \<and>
    (LIFECYCLE_SQL d p = ''LIVE'' \<longleftrightarrow> pn_status p = U_ACTIVE \<and>
       (pn_role p \<noteq> PARTNER \<or> map_option pr_status (partner_of (pn_id p) d) = Some P_ACTIVE)) \<and>
    (LIFECYCLE_SQL d p = ''NEEDS_APPLICATION'' \<longrightarrow> (\<forall>a \<in> set (applications d). ap_profile a \<noteq> pn_id p)) \<and>
    (LIFECYCLE_SQL d p = ''REJECTED'' \<longrightarrow>
       (\<exists>e. submitApplication base (pn_id p) b \<lparr>w_db = d, w_log = l\<rparr> = (Inl (PgError e), \<lparr>w_db = d, w_log = l\<rparr>)))"
proof -
  let ?as = "filter (\<lambda>a. ap_profile a = pn_id p) (applications d)"
  have stage: "application_stage st \<in> {''PENDING_INITIAL'', ''AWAITING_COMPLETION'', ''PENDING_FINAL'', ''REJECTED''}" for st
    by (cases st) simp_all
  have none: "latest ap_submitted ?as = None \<longleftrightarrow> ?as = []"
    by (auto simp: latest_def split: list.split) (metis length_sort list.size(3) length_0_conv)
  have apply_again: "\<exists>e. submitApplication base (pn_id p) b \<lparr>w_db = d, w_log = l\<rparr> = (Inl (PgError e), \<lparr>w_db = d, w_log = l\<rparr>)"
    if "latest ap_submitted ?as = Some a" for a
  proof -
    have "\<exists>a \<in> set (applications d). ap_profile a = pn_id p" using latest_in [OF that] by auto
    then show ?thesis by (simp add: submitApplication_def runAs_execute ins_application_def)
  qed
  show ?thesis
  proof (cases "latest ap_submitted ?as")
    case None
    then have "?as = []" by (simp add: none)
    then have "\<forall>a \<in> set (applications d). ap_profile a \<noteq> pn_id p" by (simp add: filter_empty_conv)
    with None show ?thesis by (cases "pn_status p") (simp_all add: LIFECYCLE_SQL_def)
  next
    case (Some a)
    with stage [of "ap_status a"] apply_again [OF Some] show ?thesis
      by (cases "pn_status p") (auto simp: LIFECYCLE_SQL_def)
  qed
qed

section \<open>Examples\<close>

text \<open>A pipe that accepts what the decorators name, and two fans, one of whom has cleared the number.\<close>

fun demo_accepts :: "rule \<Rightarrow> jsval \<Rightarrow> bool" where
  "demo_accepts IsOptional v = True"
| "demo_accepts (IsIn xs) (Val (JStr s)) = (s \<in> set xs)"
| "demo_accepts (IsIn xs) _ = False"
| "demo_accepts IsInt (Val (JNum n)) = True"
| "demo_accepts (Min m) (Val (JNum n)) = (m \<le> n)"
| "demo_accepts (Max m) (Val (JNum n)) = (n \<le> m)"
| "demo_accepts IsInt _ = False"
| "demo_accepts (Min m) _ = False"
| "demo_accepts (Max m) _ = False"
| "demo_accepts IsBoolean (Val (JBool b)) = True"
| "demo_accepts IsBoolean _ = False"
| "demo_accepts IsObject (Val (JObj kvs)) = True"
| "demo_accepts IsObject _ = False"
| "demo_accepts IsArray (Val (JArr xs)) = (\<forall>x \<in> set xs. \<exists>s. x = JStr s)"
| "demo_accepts IsArray _ = False"
| "demo_accepts _ (Val (JStr s)) = True"
| "demo_accepts EachString (Val (JArr xs)) = True"
| "demo_accepts _ _ = False"

definition demo_pipe :: pipe where
  "demo_pipe = \<lparr>accepts = demo_accepts, convert = (\<lambda>v. v)\<rparr>"

lemma demo_pipe_ok: "validators_ok demo_pipe"
proof -
  have strings: "\<exists>ss. xs = map JStr ss" if "\<forall>x \<in> set xs. \<exists>s. x = JStr s" for xs
    using that by (metis ex_map_conv)
  have "demo_accepts r v \<Longrightarrow> r \<in> {IsString, IsEmail, IsUUID} \<Longrightarrow> \<exists>s. v = Val (JStr s)" for r v
    by (cases "(r, v)" rule: demo_accepts.cases) auto
  moreover have "demo_accepts (IsIn xs) v \<Longrightarrow> \<exists>s \<in> set xs. v = Val (JStr s)" for xs v
    by (cases "(IsIn xs, v)" rule: demo_accepts.cases) auto
  moreover have "demo_accepts IsInt v \<Longrightarrow> \<exists>n. v = Val (JNum n)" for v
    by (cases "(IsInt, v)" rule: demo_accepts.cases) auto
  moreover have "demo_accepts IsBoolean v \<Longrightarrow> \<exists>b. v = Val (JBool b)" for v
    by (cases "(IsBoolean, v)" rule: demo_accepts.cases) auto
  moreover have "demo_accepts IsObject v \<Longrightarrow> \<exists>kvs. v = Val (JObj kvs)" for v
    by (cases "(IsObject, v)" rule: demo_accepts.cases) auto
  moreover have "demo_accepts IsArray v \<Longrightarrow> \<exists>ss. v = Val (JArr (map JStr ss))" for v
    by (cases "(IsArray, v)" rule: demo_accepts.cases) (auto dest: strings)
  ultimately show ?thesis by (simp add: validators_ok_def demo_pipe_def)
qed

definition demo_person :: "string \<Rightarrow> string \<Rightarrow> userRole \<Rightarrow> string option \<Rightarrow> person" where
  "demo_person u email role mobile = \<lparr>pn_id = u, pn_role = role, pn_email = email, pn_full_name = None, pn_mobile = mobile,
     pn_age = None, pn_gender = None, pn_prefs = JObj [], pn_status = U_ACTIVE\<rparr>"

definition demo_identity :: identityDb where
  "demo_identity = \<lparr>people = [demo_person ''ann'' ''a@x'' FAN (Some ''null''), demo_person ''bob'' ''b@x'' PARTNER (Some ''1'')],
     partners = [\<lparr>pr_id = ''bob'', pr_display_name = ''Bob'', pr_bio = None, pr_image = None, pr_status = PENDING_APPROVAL,
        pr_vacation = True, pr_complete = False, pr_languages = None\<rparr>],
     applications = [\<lparr>ap_id = 1, ap_profile = ''bob'', ap_name = ''Bob'', ap_email = ''b@x'', ap_mobile = None, ap_link = None,
        ap_expertise = None, ap_status = REJECTED_FINAL, ap_notes = None, ap_submitted = 0\<rparr>],
     del_requests = [], wallet_owners = [''ann''], next_app = 2\<rparr>"


theorem partner_edit_raises_iff_null_witness:
  "\<exists>e. updatePartnerProfile (\<lambda>_ _ _ d. Inr (ok_json [], d)) demo_session ''bob'' [(''display_name'', Val JNull), (''bio'', Undefined),
     (''profile_image_path'', Undefined), (''vacation_mode'', Undefined), (''profile_complete'', Undefined), (''languages'', Undefined)]
     \<lparr>w_db = demo_identity, w_log = []\<rparr> = (Inl (PgError e), \<lparr>w_db = demo_identity, w_log = []\<rparr>)"
proof -
  let ?b = "JObj [(''display_name'', JNull)]"
  let ?p = "[(''display_name'', Val JNull), (''bio'', Undefined),
     (''profile_image_path'', Undefined), (''vacation_mode'', Undefined), (''profile_complete'', Undefined), (''languages'', Undefined)]"
  have v: "validate demo_pipe UpdatePartnerProfileDto ?b = Inr ?p"
    by (simp add: validate_def UpdatePartnerProfileDto_def field_ok_def field_value_def fld_def)
  have r: "\<exists>r. partner_of ''bob'' (w_db \<lparr>w_db = demo_identity, w_log = []\<rparr>) = Some r"
    by (simp add: partner_of_def demo_identity_def)
  have n: "null_sent ?p" and s: "body_value ?p ''vacation_mode'' \<noteq> Val (JBool False)"
    by (simp_all add: null_sent_def body_value_def)
  from r obtain r where "partner_of ''bob'' (w_db \<lparr>w_db = demo_identity, w_log = []\<rparr>) = Some r" ..
  from partner_edit_raises_iff_null [OF demo_pipe_ok v this s, of "\<lambda>_ _ _ d. Inr (ok_json [], d)" demo_session] n
  show ?thesis by simp
qed

theorem signup_outcome_witness:
  "\<exists>e. createProfile (\<lambda>_ _ _ d. Inr (ok_json [], d)) demo_session ''eve'' \<lparr>cp_fullName = ''Eve'', cp_email = None, cp_mobileNumber = None\<rparr>
     \<lparr>w_db = demo_identity, w_log = []\<rparr> = (Inl (PgError e), \<lparr>w_db = demo_identity, w_log = []\<rparr>)"
  using signup_outcome [OF refl, of "\<lparr>cp_fullName = ''Eve'', cp_email = None, cp_mobileNumber = None\<rparr>"
      "\<lambda>_ _ _ d. Inr (ok_json [], d)" demo_session "''eve''" "\<lparr>w_db = demo_identity, w_log = []\<rparr>"]
  by simp

theorem lifecycle_is_exact_witness:
  "\<exists>e. submitApplication demo_session ''bob'' \<lparr>ab_applicantFullName = ''B'', ab_email = ''b@x'', ab_mobileNumber = ''1'',
     ab_primarySocialLink = None, ab_expertiseDescription = None\<rparr> \<lparr>w_db = demo_identity, w_log = []\<rparr> =
     (Inl (PgError e), \<lparr>w_db = demo_identity, w_log = []\<rparr>)"
proof -
  have "LIFECYCLE_SQL demo_identity (demo_person ''bob'' ''b@x'' PARTNER (Some ''1'')) = ''REJECTED''"
    by (simp add: LIFECYCLE_SQL_def demo_identity_def demo_person_def partner_of_def latest_def)
  moreover have "pn_id (demo_person ''bob'' ''b@x'' PARTNER (Some ''1'')) = ''bob''" by (simp add: demo_person_def)
  ultimately show ?thesis
    using lifecycle_is_exact [of demo_identity "demo_person ''bob'' ''b@x'' PARTNER (Some ''1'')" demo_session] by metis
qed

end
