(* ===== verification/Admin.thy ===== *)
theory Admin
  imports Identity Jwt_Guard
begin

text \<open>
  The operations of the admin panel that change something: \<open>src/admin/admin-moderation.module.ts\<close>,
  \<open>admin-people.module.ts\<close>, \<open>admin-finance.module.ts\<close> and \<open>admin-settings.module.ts\<close>.  Each is one SQL function
  in one unit of work; the functions are arguments.  The bodies carry no decorators, so their members are any JSON.
\<close>

section \<open>Arguments\<close>

text \<open>An argument that is \<open>undefined\<close> leaves a hole in the statement; \<open>v ?? d\<close>.\<close>

definition fn :: "'d sqlFns \<Rightarrow> string \<Rightarrow> json option list \<Rightarrow> ('d, json) stmt" where
  "fn F name args s d = (if None \<in> set args then Inl ''syntax error in statement'' else F name (map the args) s d)"

definition nullish :: "json option \<Rightarrow> json \<Rightarrow> json option" where
  "nullish v dflt = (case v of None \<Rightarrow> Some dflt | Some JNull \<Rightarrow> Some dflt | Some j \<Rightarrow> Some j)"

definition jstr :: "string \<Rightarrow> json option" where
  "jstr s = Some (JStr s)"

type_synonym 'd op = "session \<Rightarrow> string \<Rightarrow> ('d, json) act"

section \<open>Moderation\<close>

definition resolveReport :: "'d sqlFns \<Rightarrow> string \<Rightarrow> json option \<Rightarrow> json option \<Rightarrow> json option \<Rightarrow> 'd op" where
  "resolveReport F reportId status resolution refundPaise base u =
     runAs base u (rpc (fn F ''rpc_admin_resolve_report'' [jstr u, jstr reportId, status, nullish resolution JNull, nullish refundPaise JNull]))"

definition resolveShoutoutReport :: "'d sqlFns \<Rightarrow> string \<Rightarrow> json option \<Rightarrow> json option \<Rightarrow> 'd op" where
  "resolveShoutoutReport F shoutoutId action notes base u =
     runAs base u (rpc (fn F ''rpc_admin_resolve_shoutout_report'' [jstr u, jstr shoutoutId, action, nullish notes JNull]))"

definition deliverShoutout :: "'d sqlFns \<Rightarrow> string \<Rightarrow> json option \<Rightarrow> json option \<Rightarrow> 'd op" where
  "deliverShoutout F shoutoutId approve remark base u =
     runAs base u (rpc (fn F ''rpc_admin_deliver_shoutout'' [jstr u, jstr shoutoutId, approve, nullish remark JNull]))"

definition cancelShoutout :: "'d sqlFns \<Rightarrow> string \<Rightarrow> json option \<Rightarrow> 'd op" where
  "cancelShoutout F shoutoutId notes base u =
     runAs base u (rpc (fn F ''rpc_admin_cancel_shoutout'' [jstr u, jstr shoutoutId, nullish notes JNull]))"

definition expireBooking :: "'d sqlFns \<Rightarrow> string \<Rightarrow> json option \<Rightarrow> 'd op" where
  "expireBooking F bookingId status base u = runAs base u (rpc (fn F ''rpc_admin_expire_booking'' [jstr u, jstr bookingId, status]))"

definition forceSettleBooking :: "'d sqlFns \<Rightarrow> string \<Rightarrow> 'd op" where
  "forceSettleBooking F bookingId base u = runAs base u (rpc (fn F ''rpc_admin_force_settle_booking'' [jstr u, jstr bookingId]))"

definition forceSettleWindow :: "'d sqlFns \<Rightarrow> string \<Rightarrow> 'd op" where
  "forceSettleWindow F windowId base u = runAs base u (rpc (fn F ''rpc_admin_force_settle_window'' [jstr u, jstr windowId]))"

definition forceSettleShoutout :: "'d sqlFns \<Rightarrow> string \<Rightarrow> 'd op" where
  "forceSettleShoutout F shoutoutId base u = runAs base u (rpc (fn F ''rpc_admin_force_settle_shoutout'' [jstr u, jstr shoutoutId]))"

definition recoverCall :: "'d sqlFns \<Rightarrow> string \<Rightarrow> json option \<Rightarrow> 'd op" where
  "recoverCall F bookingId reason base u =
     runAs base u (rpc (fn F ''rpc_admin_recover_call'' [jstr u, jstr bookingId, nullish reason (JStr ''Admin manual recovery'')]))"

definition resolvePartialCall :: "'d sqlFns \<Rightarrow> string \<Rightarrow> json option \<Rightarrow> json option \<Rightarrow> json option \<Rightarrow> 'd op" where
  "resolvePartialCall F bookingId partnerPaise fanRefundPaise notes base u =
     runAs base u (rpc (fn F ''rpc_admin_resolve_partial_call''
       [jstr u, jstr bookingId, partnerPaise, fanRefundPaise, nullish notes JNull]))"

definition setServicePlatformAvailability :: "'d sqlFns \<Rightarrow> string \<Rightarrow> json option \<Rightarrow> 'd op" where
  "setServicePlatformAvailability F serviceId available base u =
     runAs base u (rpc (fn F ''rpc_admin_set_service_platform_availability'' [jstr u, jstr serviceId, available]))"

section \<open>People\<close>

text \<open>The role is checked before the unit of work.\<close>

definition setUserRole :: "'d sqlFns \<Rightarrow> string \<Rightarrow> json option \<Rightarrow> json option \<Rightarrow> 'd op" where
  "setUserRole F target role reason base u w =
     (if role \<noteq> jstr ''FAN'' \<and> role \<noteq> jstr ''PARTNER'' then (Inl (bad_request ''role must be FAN or PARTNER''), w)
      else runAs base u (rpc (fn F ''rpc_admin_set_user_role'' [jstr u, jstr target, role, nullish reason JNull])) w)"

definition setAccountStatus :: "'d sqlFns \<Rightarrow> string \<Rightarrow> json option \<Rightarrow> json option \<Rightarrow> 'd op" where
  "setAccountStatus F target status reason base u =
     runAs base u (rpc (fn F ''rpc_admin_set_account_status'' [jstr u, jstr target, status, nullish reason JNull]))"

definition decideKyc :: "'d sqlFns \<Rightarrow> string \<Rightarrow> json option \<Rightarrow> json option \<Rightarrow> 'd op" where
  "decideKyc F target verified reason base u =
     runAs base u (rpc (fn F ''rpc_admin_manage_kyc'' [jstr u, jstr target, verified, nullish reason JNull]))"

definition reviewApplication :: "'d sqlFns \<Rightarrow> string \<Rightarrow> json option \<Rightarrow> json option \<Rightarrow> 'd op" where
  "reviewApplication F applicationId decision reason base u =
     runAs base u (rpc (fn F ''rpc_admin_review_application'' [jstr u, jstr applicationId, decision, nullish reason JNull]))"

definition finalApprove :: "'d sqlFns \<Rightarrow> string \<Rightarrow> json option \<Rightarrow> json option \<Rightarrow> 'd op" where
  "finalApprove F applicationId decision reason base u =
     runAs base u (rpc (fn F ''rpc_admin_final_approve_partner'' [jstr u, jstr applicationId, decision, nullish reason JNull]))"

definition toggleFeatured :: "'d sqlFns \<Rightarrow> string \<Rightarrow> json option \<Rightarrow> json option \<Rightarrow> 'd op" where
  "toggleFeatured F partnerId on reason base u =
     runAs base u (rpc (fn F ''rpc_admin_toggle_featured'' [jstr u, jstr partnerId, on, nullish reason JNull]))"

definition togglePremium :: "'d sqlFns \<Rightarrow> string \<Rightarrow> json option \<Rightarrow> json option \<Rightarrow> 'd op" where
  "togglePremium F partnerId on reason base u =
     runAs base u (rpc (fn F ''rpc_admin_toggle_premium'' [jstr u, jstr partnerId, on, nullish reason JNull]))"

definition setCommission :: "'d sqlFns \<Rightarrow> string \<Rightarrow> json option \<Rightarrow> 'd op" where
  "setCommission F partnerId rate base u = runAs base u (rpc (fn F ''rpc_admin_set_commission'' [jstr u, jstr partnerId, rate]))"

definition approveSocialLink :: "'d sqlFns \<Rightarrow> string \<Rightarrow> json option \<Rightarrow> 'd op" where
  "approveSocialLink F linkId approved base u = runAs base u (rpc (fn F ''rpc_admin_approve_social_link'' [jstr u, jstr linkId, approved]))"

definition resetPayoutMethods :: "'d sqlFns \<Rightarrow> string \<Rightarrow> 'd op" where
  "resetPayoutMethods F partnerId base u = runAs base u (rpc (fn F ''rpc_admin_reset_payout_methods'' [jstr u, jstr partnerId]))"

text \<open>\<open>Math.min(Math.max(Number(opts.limit) || 200, 1), 500)\<close> of the \<open>limit\<close> query parameter.\<close>

definition audit_limit :: "string option \<Rightarrow> int" where
  "audit_limit limit =
     (let n = (case limit of None \<Rightarrow> None | Some s \<Rightarrow> if s = [] then None else to_number (JStr s))
      in min (max (case n of None \<Rightarrow> 200 | Some k \<Rightarrow> if k = 0 then 200 else k) 1) 500)"

section \<open>Finance\<close>

definition grantCredit :: "'d sqlFns \<Rightarrow> json option \<Rightarrow> json option \<Rightarrow> json option \<Rightarrow> json option \<Rightarrow> 'd op" where
  "grantCredit F profileId amountPaise source reason base u =
     runAs base u (rpc (fn F ''rpc_admin_grant_credit'' [jstr u, profileId, amountPaise, source, nullish reason JNull]))"

definition verifyPayoutMethod :: "'d sqlFns \<Rightarrow> string \<Rightarrow> json option \<Rightarrow> 'd op" where
  "verifyPayoutMethod F methodId verified base u =
     runAs base u (rpc (fn F ''rpc_admin_verify_payout_method'' [jstr u, jstr methodId, verified]))"

text \<open>The route passes \<open>b.utr ?? b.reference\<close>.\<close>

definition processPayout :: "'d sqlFns \<Rightarrow> string \<Rightarrow> json option \<Rightarrow> json option \<Rightarrow> 'd op" where
  "processPayout F payoutId approve utr base u =
     runAs base u (rpc (fn F ''rpc_process_payout'' [jstr payoutId, approve, nullish utr JNull]))"

definition resolveDispute :: "'d sqlFns \<Rightarrow> string \<Rightarrow> json option \<Rightarrow> json option \<Rightarrow> 'd op" where
  "resolveDispute F disputeId status notes base u =
     runAs base u (rpc (fn F ''rpc_admin_resolve_dispute'' [jstr u, jstr disputeId, status, nullish notes JNull]))"

definition createPromo :: "'d sqlFns \<Rightarrow> json \<Rightarrow> 'd op" where
  "createPromo F b base u =
     runAs base u (rpc (fn F ''rpc_admin_create_promo'' [jstr u, jget b ''code'', jget b ''type'', jget b ''value'',
       nullish (jget b ''applies'') (JStr ''ALL''), nullish (jget b ''maxTotal'') JNull, nullish (jget b ''maxPerUser'') JNull,
       nullish (jget b ''expiry'') JNull]))"

definition setPromoActive :: "'d sqlFns \<Rightarrow> string \<Rightarrow> json option \<Rightarrow> 'd op" where
  "setPromoActive F promoId active base u = runAs base u (rpc (fn F ''rpc_admin_set_promo_active'' [jstr u, jstr promoId, active]))"

section \<open>Settings\<close>

text \<open>\<open>stringify\<close> is \<open>JSON.stringify\<close>.\<close>

definition createAdmin :: "(json \<Rightarrow> string) \<Rightarrow> 'd sqlFns \<Rightarrow> json option \<Rightarrow> json option \<Rightarrow> json option \<Rightarrow> 'd op" where
  "createAdmin stringify F target role permissions base u =
     runAs base u (rpc (fn F ''rpc_admin_create_admin'' [jstr u, target, role,
       jstr (stringify (the (nullish permissions (JObj []))))]))"

definition revokeAdmin :: "'d sqlFns \<Rightarrow> string \<Rightarrow> 'd op" where
  "revokeAdmin F target base u = runAs base u (rpc (fn F ''rpc_admin_revoke_admin'' [jstr u, jstr target]))"

definition updatePlatformSettings :: "'d sqlFns \<Rightarrow> json \<Rightarrow> 'd op" where
  "updatePlatformSettings F patch base u = runAs base u (rpc (fn F ''rpc_admin_update_settings'' [Some patch]))"

section \<open>The routes\<close>

text \<open>A POST request to one of the four controllers: the id in its path, if any, and its body.\<close>

datatype moderationPost =
    Report_resolve string json | Shoutout_resolve_report string json | Shoutout_deliver string json | Shoutout_cancel string json
  | Booking_expire string json | Booking_force_settle string | Window_force_settle string | Shoutout_force_settle string
  | Booking_recover_call string json | Booking_resolve_partial string json | Service_availability string json

fun moderation_handler :: "'d sqlFns \<Rightarrow> moderationPost \<Rightarrow> 'd op" where
  "moderation_handler F (Report_resolve i b) = resolveReport F i (jget b ''status'') (jget b ''resolution'') (jget b ''refundPaise'')"
| "moderation_handler F (Shoutout_resolve_report i b) = resolveShoutoutReport F i (jget b ''action'') (jget b ''notes'')"
| "moderation_handler F (Shoutout_deliver i b) = deliverShoutout F i (jget b ''approve'') (jget b ''note'')"
| "moderation_handler F (Shoutout_cancel i b) = cancelShoutout F i (jget b ''notes'')"
| "moderation_handler F (Booking_expire i b) = expireBooking F i (jget b ''status'')"
| "moderation_handler F (Booking_force_settle i) = forceSettleBooking F i"
| "moderation_handler F (Window_force_settle i) = forceSettleWindow F i"
| "moderation_handler F (Shoutout_force_settle i) = forceSettleShoutout F i"
| "moderation_handler F (Booking_recover_call i b) = recoverCall F i (jget b ''reason'')"
| "moderation_handler F (Booking_resolve_partial i b) = resolvePartialCall F i (jget b ''partnerPaise'') (jget b ''fanRefundPaise'') (jget b ''notes'')"
| "moderation_handler F (Service_availability i b) = setServicePlatformAvailability F i (jget b ''available'')"

datatype peoplePost =
    User_role string json | User_status string json | Kyc_decision string json | Application_review string json
  | Application_final string json | Partner_featured string json | Partner_premium string json | Partner_commission string json
  | Social_link_approve string json | Partner_reset_payout_methods string

fun people_handler :: "'d sqlFns \<Rightarrow> peoplePost \<Rightarrow> 'd op" where
  "people_handler F (User_role i b) = setUserRole F i (jget b ''role'') (jget b ''reason'')"
| "people_handler F (User_status i b) = setAccountStatus F i (jget b ''status'') (jget b ''reason'')"
| "people_handler F (Kyc_decision i b) = decideKyc F i (jget b ''verified'') (jget b ''reason'')"
| "people_handler F (Application_review i b) = reviewApplication F i (jget b ''decision'') (jget b ''reason'')"
| "people_handler F (Application_final i b) = finalApprove F i (jget b ''decision'') (jget b ''reason'')"
| "people_handler F (Partner_featured i b) = toggleFeatured F i (jget b ''on'') (jget b ''reason'')"
| "people_handler F (Partner_premium i b) = togglePremium F i (jget b ''on'') (jget b ''reason'')"
| "people_handler F (Partner_commission i b) = setCommission F i (jget b ''rate'')"
| "people_handler F (Social_link_approve i b) = approveSocialLink F i (jget b ''approved'')"
| "people_handler F (Partner_reset_payout_methods i) = resetPayoutMethods F i"

datatype financePost =
    Credit_grant json | Payout_method_verify string json | Payout_process string json | Dispute_resolve string json
  | Promo_create json | Promo_active string json

fun finance_handler :: "'d sqlFns \<Rightarrow> financePost \<Rightarrow> 'd op" where
  "finance_handler F (Credit_grant b) = grantCredit F (jget b ''profileId'') (jget b ''amountPaise'') (jget b ''source'') (jget b ''reason'')"
| "finance_handler F (Payout_method_verify i b) = verifyPayoutMethod F i (jget b ''verified'')"
| "finance_handler F (Payout_process i b) = processPayout F i (jget b ''approve'') (coalesce (jget b ''utr'') (jget b ''reference''))"
| "finance_handler F (Dispute_resolve i b) = resolveDispute F i (jget b ''status'') (jget b ''notes'')"
| "finance_handler F (Promo_create b) = createPromo F b"
| "finance_handler F (Promo_active i b) = setPromoActive F i (jget b ''active'')"

datatype settingsPost = Admin_create json | Admin_revoke string | Platform_settings json

fun settings_handler :: "(json \<Rightarrow> string) \<Rightarrow> 'd sqlFns \<Rightarrow> settingsPost \<Rightarrow> 'd op" where
  "settings_handler st F (Admin_create b) = createAdmin st F (jget b ''profileId'') (jget b ''role'') (jget b ''permissions'')"
| "settings_handler st F (Admin_revoke i) = revokeAdmin F i"
| "settings_handler st F (Platform_settings b) = updatePlatformSettings F b"

datatype adminPost = Moderation moderationPost | People peoplePost | Finance financePost | Settings settingsPost

fun admin_handler :: "(json \<Rightarrow> string) \<Rightarrow> 'd sqlFns \<Rightarrow> adminPost \<Rightarrow> 'd op" where
  "admin_handler st F (Moderation p) = moderation_handler F p"
| "admin_handler st F (People p) = people_handler F p"
| "admin_handler st F (Finance p) = finance_handler F p"
| "admin_handler st F (Settings p) = settings_handler st F p"

text \<open>\<open>@UseGuards(JwtGuard, AdminGuard)\<close>, then the handler with the verified caller's id.\<close>

definition admin_route ::
  "jose \<Rightarrow> (json \<Rightarrow> string) \<Rightarrow> 'a identityDb_scheme sqlFns \<Rightarrow> session \<Rightarrow> string option \<Rightarrow> adminPost \<Rightarrow> ('a identityDb_scheme, json) act" where
  "admin_route jose st F base auth p w =
     (case canActivate jose auth of
        Inl m \<Rightarrow> (Inl (Unauthorized (JStr m)), w)
      | Inr (u, email) \<Rightarrow>
          (case adminGuard base (Some u) w of
             (Inl e, w1) \<Rightarrow> (Inl e, w1)
           | (Inr _, w1) \<Rightarrow> admin_handler st F p base u w1))"

section \<open>What the gate guarantees\<close>

definition admin_row :: "string \<Rightarrow> 'a identityDb_scheme \<Rightarrow> bool" where
  "admin_row u d \<longleftrightarrow> map_option pn_role (find (\<lambda>p. pn_id p = u) (people d)) = Some userRole.ADMIN"

lemma adminGuard_eq:
  "adminGuard base user w =
     (if \<not> truthy_str user then (Inl (Forbidden (JStr ''NOT_AUTHENTICATED'')), w)
      else if admin_row (the user) (w_db w) then (Inr True, w) else (Inl (Forbidden (JStr ''ADMIN_ONLY'')), w))"
  by (simp add: adminGuard_def admin_row_def runAs_def transaction_def execute_def del: map_option_eq_Some)

text \<open>The two operations whose function takes no \<open>p_admin\<close>.\<close>

fun without_admin_id :: "adminPost \<Rightarrow> bool" where
  "without_admin_id (Finance (Payout_process i b)) = True"
| "without_admin_id (Settings (Platform_settings b)) = True"
| "without_admin_id _ = False"

lemmas admin_ops = resolveReport_def resolveShoutoutReport_def deliverShoutout_def cancelShoutout_def expireBooking_def
  forceSettleBooking_def forceSettleWindow_def forceSettleShoutout_def recoverCall_def resolvePartialCall_def
  setServicePlatformAvailability_def setAccountStatus_def decideKyc_def reviewApplication_def
  finalApprove_def toggleFeatured_def togglePremium_def setCommission_def approveSocialLink_def resetPayoutMethods_def
  grantCredit_def verifyPayoutMethod_def processPayout_def resolveDispute_def createPromo_def setPromoActive_def
  createAdmin_def revokeAdmin_def updatePlatformSettings_def

definition one_call :: "'d sqlFns \<Rightarrow> string \<Rightarrow> json option list \<Rightarrow> session \<Rightarrow> string \<Rightarrow> ('d, json) act" where
  "one_call F name args base u = runAs base u (rpc (fn F name args))"

definition calls_one :: "bool \<Rightarrow> string \<Rightarrow> ('d sqlFns \<Rightarrow> 'd op) \<Rightarrow> bool" where
  "calls_one free u h \<longleftrightarrow>
     (\<exists>name args. (\<forall>F base. h F base u = one_call F name args base u) \<and> (free \<or> (\<exists>rest. args = jstr u # rest)))"

lemma calls_oneI:
  "(\<And>F base. h F base u = one_call F name args base u) \<Longrightarrow> free \<or> (\<exists>rest. args = jstr u # rest) \<Longrightarrow> calls_one free u h"
  unfolding calls_one_def by blast

lemma moderation_shape: "calls_one False u (\<lambda>F. moderation_handler F p)"
  by (cases p) (simp_all add: calls_one_def admin_ops one_call_def fun_eq_iff, blast+)

lemma people_shape:
  "(\<forall>F base. people_handler F p base u = (\<lambda>w. (Inl (bad_request ''role must be FAN or PARTNER''), w))) \<or>
   calls_one False u (\<lambda>F. people_handler F p)"
proof (cases p)
  case (User_role i b)
  show ?thesis
    by (cases "jget b ''role'' \<noteq> jstr ''FAN'' \<and> jget b ''role'' \<noteq> jstr ''PARTNER''")
      (auto simp: User_role setUserRole_def [abs_def] calls_one_def one_call_def fun_eq_iff)
qed (simp_all add: calls_one_def admin_ops one_call_def fun_eq_iff, blast+)

lemma finance_shape: "calls_one (without_admin_id (Finance p)) u (\<lambda>F. finance_handler F p)"
  by (cases p) (simp_all add: calls_one_def admin_ops one_call_def fun_eq_iff, blast+)

lemma settings_shape: "calls_one (without_admin_id (Settings p)) u (\<lambda>F. settings_handler st F p)"
  by (cases p) (simp_all add: calls_one_def admin_ops one_call_def fun_eq_iff, blast+)

lemma handler_shape:
  "(\<forall>(F :: 'd sqlFns) base. admin_handler st F p base u = (\<lambda>w. (Inl (bad_request ''role must be FAN or PARTNER''), w))) \<or>
   calls_one (without_admin_id p) u (\<lambda>(F :: 'd sqlFns). admin_handler st F p)"
proof (cases p)
  case (Moderation q) then show ?thesis using moderation_shape [where 'a = 'd, of u q] by auto
next
  case (People q) then show ?thesis using people_shape [where 'a = 'd, of q u] by auto
next
  case (Finance q) then show ?thesis using finance_shape [where 'a = 'd, of q u] by auto
next
  case (Settings q) then show ?thesis using settings_shape [where 'a = 'd, of q u st] by auto
qed


text \<open>A verifier that takes the token for the subject.\<close>

definition demo_jose :: jose where
  "demo_jose t = Inr \<lparr>pl_sub = Some t, pl_email = None, pl_exp = None\<rparr>"

definition demo_panel :: identityDb where
  "demo_panel = \<lparr>people = [\<lparr>pn_id = ''ada'', pn_role = userRole.ADMIN, pn_email = ''a@x'', pn_full_name = None, pn_mobile = None, pn_age = None,
     pn_gender = None, pn_prefs = JObj [], pn_status = U_ACTIVE\<rparr>], partners = [], applications = [], del_requests = [],
     wallet_owners = [], next_app = 1\<rparr>"


end
