(* ===== verification/Sql_Text.thy ===== *)
theory Sql_Text
  imports Prelude "HOL-Library.List_Lexorder" "HOL-Library.Char_ord" "HOL-Library.Sublist"
begin

text \<open>
  Text as SQL and JavaScript treat it where the code relies on it: \<open>LIKE\<close> patterns, \<open>endsWith\<close>,
  \<open>includes\<close>, and the order of names.  Text is its UTF-8 bytes, so the order of code units is
  the order of the library on character lists for ASCII names.
\<close>

section \<open>Pattern matching\<close>

definition WILD :: char where "WILD = CHR ''%''"
definition ONE :: char where "ONE = CHR ''_''"
definition ESC :: char where "ESC = CHR 0x5C"

text \<open>The text after its first character, which may have several bytes.\<close>

definition char_rest :: "string \<Rightarrow> string" where
  "char_rest s = dropWhile (\<lambda>c. 128 \<le> (of_char c :: nat) \<and> (of_char c :: nat) < 192) (tl s)"

lemma length_char_rest: "length (char_rest (c # s)) \<le> length s"
  by (simp add: char_rest_def length_dropWhile_le)

text \<open>
  \<open>like s p\<close>: \<open>s LIKE p\<close>.  A pattern that ends in its escape character is an error in SQL; no pattern of
  the program does.
\<close>

function like :: "string \<Rightarrow> string \<Rightarrow> bool" where
  "like s [] \<longleftrightarrow> s = []"
| "like s (p # ps) \<longleftrightarrow>
     (if p = WILD then like s ps \<or> (case s of [] \<Rightarrow> False | c # t \<Rightarrow> like t (p # ps))
      else if p = ONE then (case s of [] \<Rightarrow> False | c # t \<Rightarrow> like (char_rest (c # t)) ps)
      else if p = ESC then (case ps of [] \<Rightarrow> False | q # qs \<Rightarrow> case s of [] \<Rightarrow> False | c # t \<Rightarrow> c = q \<and> like t qs)
      else (case s of [] \<Rightarrow> False | c # t \<Rightarrow> c = p \<and> like t ps))"
  by pat_completeness auto
termination by (relation "measure (\<lambda>(s, p). length s + length p)") (auto simp: less_Suc_eq_le intro: le_SucI length_char_rest)

declare like.simps [simp del]
declare like.simps(1) [simp]

text \<open>Text without the three special characters stands for itself.\<close>

definition plain :: "string \<Rightarrow> bool" where
  "plain t \<longleftrightarrow> WILD \<notin> set t \<and> ONE \<notin> set t \<and> ESC \<notin> set t"

lemma like_plain_prefix: "plain t \<Longrightarrow> like s (t @ p) \<longleftrightarrow> (\<exists>r. s = t @ r \<and> like r p)"
proof (induction t arbitrary: s)
  case (Cons c t)
  have step: "like s ((c # t) @ p) \<longleftrightarrow> (case s of [] \<Rightarrow> False | d # r \<Rightarrow> d = c \<and> like r (t @ p))"
    using Cons.prems by (auto simp: like.simps(2) plain_def)
  have "plain t" using Cons.prems by (simp add: plain_def)
  then show ?case unfolding step by (cases s) (auto simp: Cons.IH)
qed simp

lemma like_wild_end [simp]: "like s [WILD]"
proof (induction s)
  case (Cons c s) then show ?case by (subst like.simps(2)) simp
qed (simp add: like.simps(2))

lemma like_wild: "like s (WILD # p) \<longleftrightarrow> (\<exists>a b. s = a @ b \<and> like b p)"
proof (induction s)
  case Nil
  show ?case by (simp add: like.simps(2))
next
  case (Cons c s)
  have "like (c # s) (WILD # p) \<longleftrightarrow> like (c # s) p \<or> (\<exists>a b. s = a @ b \<and> like b p)"
    using Cons.IH by (subst like.simps(2)) simp
  also have "\<dots> \<longleftrightarrow> (\<exists>a b. c # s = a @ b \<and> like b p)"
    by (metis Cons_eq_append_conv append_Cons append_Nil)
  finally show ?case .
qed

text \<open>\<open>s LIKE '%t%'\<close> is a search for \<open>t\<close>, if \<open>t\<close> is plain.\<close>

lemma like_contains: "plain t \<Longrightarrow> like s (WILD # t @ [WILD]) \<longleftrightarrow> sublist t s"
  by (auto simp: like_wild like_plain_prefix sublist_def)

lemma like_prefix: "plain t \<Longrightarrow> like s (t @ [WILD]) \<longleftrightarrow> prefix t s"
  by (auto simp: like_plain_prefix prefix_def)

section \<open>JavaScript\<close>

definition ends_with :: "string \<Rightarrow> string \<Rightarrow> bool" where
  "ends_with t s \<longleftrightarrow> suffix t s"

definition js_includes :: "string \<Rightarrow> string \<Rightarrow> bool" where
  "js_includes s t \<longleftrightarrow> sublist t s"

text \<open>White space that \<open>trim\<close> removes, among the one-byte characters.\<close>

definition js_space :: "char \<Rightarrow> bool" where
  "js_space c \<longleftrightarrow> (of_char c :: nat) \<in> {9, 10, 11, 12, 13, 32}"

definition trim_by :: "(char \<Rightarrow> bool) \<Rightarrow> string \<Rightarrow> string" where
  "trim_by sp s = rev (dropWhile sp (rev (dropWhile sp s)))"

definition trim :: "string \<Rightarrow> string" where
  "trim s = trim_by js_space s"

lemma trim_Nil [simp]: "trim [] = []"
  by (simp add: trim_def trim_by_def)

lemma trim_by_ends:
  assumes "trim_by sp s \<noteq> []"
  shows "\<not> sp (hd (trim_by sp s))" and "\<not> sp (last (trim_by sp s))"
proof -
  let ?a = "dropWhile sp s" and ?b = "dropWhile sp (rev (dropWhile sp s))"
  have b: "?b \<noteq> []" using assms by (simp add: trim_by_def)
  then have a: "?a \<noteq> []" by (metis dropWhile.simps(1) rev.simps(1))
  have "\<not> sp (hd ?b)" using b by (rule hd_dropWhile)
  then show "\<not> sp (last (trim_by sp s))" using b by (simp add: trim_by_def last_rev)
  obtain c where "rev ?a = c @ ?b" using takeWhile_dropWhile_id by metis
  then have "?a = rev ?b @ rev c" by (metis rev_append rev_rev_ident)
  then have "hd (rev ?b) = hd ?a" using b by (metis hd_append2 rev_is_Nil_conv)
  then show "\<not> sp (hd (trim_by sp s))" using hd_dropWhile [OF a] by (simp add: trim_by_def)
qed

lemma trim_by_id: "\<not> sp (hd s) \<Longrightarrow> \<not> sp (last s) \<Longrightarrow> trim_by sp s = s"
proof (cases "s = []")
  case False
  assume a: "\<not> sp (hd s)" "\<not> sp (last s)"
  have "dropWhile sp xs = xs" if "\<not> sp (hd xs)" for xs using that by (cases xs) auto
  with a False show ?thesis by (simp add: trim_by_def hd_rev)
qed (simp add: trim_by_def)

lemma trim_id: "\<not> js_space (hd s) \<Longrightarrow> \<not> js_space (last s) \<Longrightarrow> trim s = s"
  by (simp add: trim_def trim_by_id)

lemma trim_trim: "trim (trim s) = trim s"
proof (cases "trim s = []")
  case False
  then have "\<not> js_space (hd (trim s)) \<and> \<not> js_space (last (trim s))" using trim_by_ends [of js_space s] by (simp add: trim_def)
  then show ?thesis by (simp add: trim_id)
qed simp

end
