(* ===== verification/Throttle.thy ===== *)
theory Throttle
  imports Db Sql_Text
begin

text \<open>
  \<open>src/throttle/throttle.guard.ts\<close>: the fixed-window rate limit.  Redis is a store of counters with an
  optional expiry instant in milliseconds; whether one of its commands fails is an argument.
\<close>

section \<open>The store\<close>

type_synonym redisStore = "string \<Rightarrow> (int \<times> int option) option"

definition redis_get :: "int \<Rightarrow> string \<Rightarrow> redisStore \<Rightarrow> (int \<times> int option) option" where
  "redis_get now k st = (case st k of None \<Rightarrow> None | Some (n, None) \<Rightarrow> Some (n, None)
     | Some (n, Some t) \<Rightarrow> if now < t then Some (n, Some t) else None)"

text \<open>\<open>INCR\<close> and \<open>EXPIRE\<close>.\<close>

definition redis_incr :: "int \<Rightarrow> string \<Rightarrow> redisStore \<Rightarrow> int \<times> redisStore" where
  "redis_incr now k st = (case redis_get now k st of None \<Rightarrow> (1, st(k \<mapsto> (1, None))) | Some (n, e) \<Rightarrow> (n + 1, st(k \<mapsto> (n + 1, e))))"

definition redis_expire :: "int \<Rightarrow> string \<Rightarrow> int \<Rightarrow> redisStore \<Rightarrow> redisStore" where
  "redis_expire now k seconds st = (case redis_get now k st of None \<Rightarrow> st | Some (n, e) \<Rightarrow> st(k \<mapsto> (n, Some (now + 1000 * seconds))))"

section \<open>The guard\<close>

record rateLimit =
  rl_limit :: int
  rl_windowSeconds :: int

definition default_limit :: rateLimit where
  "default_limit = \<lparr>rl_limit = 120, rl_windowSeconds = 60\<rparr>"

text \<open>The static connection: not yet attempted, unavailable, or a client.\<close>

datatype redisConn = Untried | Unavail | Client string

definition getRedis :: "(string \<Rightarrow> string option) \<Rightarrow> redisConn \<Rightarrow> redisConn" where
  "getRedis config c = (if c \<noteq> Untried then c
     else if \<not> truthy_str (config ''REDIS_URL'') then Unavail else Client (the (config ''REDIS_URL'')))"

record httpRequest =
  hr_method :: string
  hr_route :: "string option"
  hr_path :: string
  hr_forwarded :: "string option"
  hr_remote :: "string option"

text \<open>\<open>h.split(',')[0].trim()\<close>; a header's text is its bytes read as Latin-1.\<close>

definition header_space :: "char \<Rightarrow> bool" where
  "header_space c \<longleftrightarrow> js_space c \<or> c = CHR 0xA0"

definition first_entry :: "string \<Rightarrow> string" where
  "first_entry h = trim_by header_space (takeWhile (\<lambda>c. c \<noteq> CHR '','') h)"

definition client_ip :: "httpRequest \<Rightarrow> string" where
  "client_ip r =
     (let fwd = (case hr_forwarded r of None \<Rightarrow> [] | Some h \<Rightarrow> first_entry h)
      in if fwd \<noteq> [] then fwd else if truthy_str (hr_remote r) then the (hr_remote r) else ''unknown'')"

definition rate_key :: "httpRequest \<Rightarrow> string" where
  "rate_key r = ''ratelimit:'' @ hr_method r @ '':'' @ (case hr_route r of Some p \<Rightarrow> p | None \<Rightarrow> hr_path r) @ '':'' @ client_ip r"

definition RATE_LIMITED :: json where
  "RATE_LIMITED = JObj [(''error'', JStr ''RATE_LIMITED''), (''message'', JStr ''Too many requests'')]"

text \<open>
  The counting; \<open>incr_fails\<close> and \<open>expire_fails\<close> say which command raises.  \<open>Inl\<close> is the 429.
\<close>

definition count_request :: "rateLimit \<Rightarrow> string \<Rightarrow> int \<Rightarrow> bool \<times> bool \<Rightarrow> redisStore \<Rightarrow> (json + bool) \<times> redisStore" where
  "count_request opts key now fails st =
     (case fails of (incr_fails, expire_fails) \<Rightarrow>
        if incr_fails then (Inr True, st)
        else case redis_incr now key st of (count, st1) \<Rightarrow>
          if count = 1 \<and> expire_fails then (Inr True, st1)
          else let st2 = (if count = 1 then redis_expire now key (rl_windowSeconds opts) st1 else st1)
               in (if count > rl_limit opts then Inl RATE_LIMITED else Inr True, st2))"

definition throttle_canActivate ::
  "(string \<Rightarrow> string option) \<Rightarrow> rateLimit option \<Rightarrow> httpRequest \<Rightarrow> int \<Rightarrow> bool \<times> bool \<Rightarrow> redisConn \<times> redisStore \<Rightarrow>
   (json + bool) \<times> (redisConn \<times> redisStore)" where
  "throttle_canActivate config meta req now fails g =
     (let opts = (case meta of None \<Rightarrow> default_limit | Some x \<Rightarrow> x); c = getRedis config (fst g)
      in case c of
           Client url \<Rightarrow> (case count_request opts (rate_key req) now fails (snd g) of (r, st) \<Rightarrow> (r, (c, st)))
         | _ \<Rightarrow> (Inr True, (c, snd g)))"

text \<open>Requests one after the other; the answers, True for admitted.\<close>

fun serve ::
  "(string \<Rightarrow> string option) \<Rightarrow> rateLimit option \<Rightarrow> (httpRequest \<times> int \<times> bool \<times> bool) list \<Rightarrow> redisConn \<times> redisStore \<Rightarrow>
   bool list \<times> (redisConn \<times> redisStore)" where
  "serve config meta [] g = ([], g)"
| "serve config meta ((req, now, fails) # rs) g =
     (case throttle_canActivate config meta req now fails g of (r, g1) \<Rightarrow>
        case serve config meta rs g1 of (as, g2) \<Rightarrow> ((r = Inr True) # as, g2))"

section \<open>Counting\<close>

lemma serve_counting:
  assumes "st k = Some (int n, e)" and "1 \<le> n" and "\<forall>(req, t, fi, fe) \<in> set rs. rate_key req = k \<and> \<not> fi"
    and "\<forall>(req, t, fi, fe) \<in> set rs. \<forall>x. e = Some x \<longrightarrow> t < x"
  shows "fst (serve config (Some opts) rs (Client url, st)) = map (\<lambda>i. int (n + i) < rl_limit opts) [0..<length rs]"
  using assms
proof (induction rs arbitrary: st n)
  case (Cons r rs)
  obtain req t fi fe where r: "r = (req, t, fi, fe)" by (cases r)
  have live: "redis_get t k st = Some (int n, e)"
    using Cons.prems(1,4) by (cases e) (auto simp: redis_get_def r)
  let ?st = "st(k \<mapsto> (int (Suc n), e))"
  have step: "throttle_canActivate config (Some opts) req t (fi, fe) (Client url, st) =
      ((if int n + 1 > rl_limit opts then Inl RATE_LIMITED else Inr True), (Client url, ?st))"
    using Cons.prems(2,3) live
    by (simp add: r throttle_canActivate_def getRedis_def count_request_def redis_incr_def Let_def add.commute)
  have "fst (serve config (Some opts) rs (Client url, ?st)) = map (\<lambda>i. int (Suc n + i) < rl_limit opts) [0..<length rs]"
    by (rule Cons.IH) (use Cons.prems in auto)
  moreover have "map (\<lambda>i. int (n + i) < rl_limit opts) [0..<length (r # rs)] =
      (int n < rl_limit opts) # map (\<lambda>i. int (Suc n + i) < rl_limit opts) [0..<length rs]"
    by (simp add: upt_conv_Cons map_Suc_upt [symmetric] ac_simps del: upt_Suc)
  ultimately show ?case
    by (auto simp: r step split: prod.split)
qed simp

text \<open>
  C20. The rate limit.  From a moment at which a client has no live counter, exactly the first
  \<open>limit\<close> of its requests to a route are admitted until the window ends, provided the counter can
  be incremented; a request whose increment fails, and every request when Redis is not configured, is
  admitted.  But if setting the expiry of the first request fails, the counter never expires: from
  then on exactly the first \<open>limit\<close> requests are admitted however late the others come.  A counter is
  per method, route and the first entry of \<open>X-Forwarded-For\<close>, a header the client chooses.
\<close>

theorem rate_limit_window:
  assumes "redis_get t0 k st = None" and "1 \<le> rl_limit opts" and "rate_key req0 = k"
    and "\<forall>(req, t, fi, fe) \<in> set rs. rate_key req = k \<and> \<not> fi"
    and "expire_fails \<or> (\<forall>(req, t, fi, fe) \<in> set rs. t < t0 + 1000 * rl_windowSeconds opts)"
  shows "fst (serve config (Some opts) ((req0, t0, False, expire_fails) # rs) (Client url, st)) =
     map (\<lambda>i. int i < rl_limit opts) [0..<Suc (length rs)] \<and>
   fst (throttle_canActivate config meta req now (True, fe) g) = Inr True \<and>
   (\<not> truthy_str (config ''REDIS_URL'') \<longrightarrow> fst (throttle_canActivate config meta req now fails (Untried, st)) = Inr True)"
proof -
  let ?e = "if expire_fails then None else Some (t0 + 1000 * rl_windowSeconds opts)"
  let ?st = "st(k \<mapsto> (int 1, ?e))"
  have step: "throttle_canActivate config (Some opts) req0 t0 (False, expire_fails) (Client url, st) = (Inr True, (Client url, ?st))"
    using assms(1,2,3)
    by (auto simp: throttle_canActivate_def getRedis_def count_request_def redis_incr_def redis_expire_def redis_get_def Let_def)
  have "fst (serve config (Some opts) rs (Client url, ?st)) = map (\<lambda>i. int (1 + i) < rl_limit opts) [0..<length rs]"
    by (rule serve_counting [of _ k _ ?e]) (use assms(4,5) in auto)
  moreover have "map (\<lambda>i. int i < rl_limit opts) [0..<Suc (length rs)] =
      (0 < rl_limit opts) # map (\<lambda>i. int (1 + i) < rl_limit opts) [0..<length rs]"
    by (simp add: upt_conv_Cons map_Suc_upt [symmetric] ac_simps del: upt_Suc)
  ultimately have "fst (serve config (Some opts) ((req0, t0, False, expire_fails) # rs) (Client url, st)) =
      map (\<lambda>i. int i < rl_limit opts) [0..<Suc (length rs)]"
    using assms(2) by (auto simp: step split: prod.split)
  then show ?thesis
    by (auto simp: throttle_canActivate_def count_request_def getRedis_def Let_def split: redisConn.split)
qed

definition demo_request :: httpRequest where
  "demo_request = \<lparr>hr_method = ''POST'', hr_route = Some ''/v1/wallet/topup'', hr_path = ''/v1/wallet/topup'',
     hr_forwarded = None, hr_remote = Some ''1.2.3.4''\<rparr>"

theorem rate_limit_window_witness:
  "fst (serve Map.empty (Some \<lparr>rl_limit = 2, rl_windowSeconds = 60\<rparr>)
     [(demo_request, 0, False, True), (demo_request, 5, False, False), (demo_request, 10 ^ 12, False, False)]
     (Client ''redis'', Map.empty)) = [True, True, False]"
proof -
  have "redis_get 0 (rate_key demo_request) Map.empty = None" by (simp add: redis_get_def)
  from rate_limit_window [OF this, of "\<lparr>rl_limit = 2, rl_windowSeconds = 60\<rparr>" demo_request
      "[(demo_request, 5, False, False), (demo_request, 10 ^ 12, False, False)]" True Map.empty "''redis''"]
  show ?thesis by (simp add: upt_conv_Cons)
qed

end
