(* ===== verification/Doctor.thy ===== *)
theory Doctor
  imports Wallet_Settle Sql_Text
begin

text \<open>
  \<open>scripts/db-doctor.mjs\<close>: the checks of the database that run before a deploy and every night.  The
  catalogue of Postgres is a record of what the queries read; the money tables are those of the
  wallet, with the two tables that only the doctor reads here.  A reported row is the list of its values; the
  messages are constant texts and are left out.
\<close>

section \<open>What it reads\<close>

record pgProc =
  pc_schema :: string
  pc_name :: string
  pc_src :: string
  pc_secdef :: bool
  pc_config :: "string list"
  pc_ext :: bool

record pgTable =
  tb_schema :: string
  tb_name :: string
  tb_rls :: bool
  tb_forced :: bool
  tb_policies :: nat

record pgView =
  vw_schema :: string
  vw_name :: string
  vw_options :: "(string \<times> string) list"

record catalog =
  pg_procs :: "pgProc list"
  pg_tables :: "pgTable list"
  pg_views :: "pgView list"
  ledger_names :: "string list"

record payout =
  po_id :: nat
  po_status :: string
  po_utr :: "string option"

record bookingPrice =
  bp_id :: nat
  bp_price :: int
  bp_original :: "int option"
  bp_discount :: "int option"

record doctorDb = bank +
  payouts :: "payout list"
  prices :: "bookingPrice list"

definition public :: string where "public = ''public''"
definition MIGRATIONS :: string where "MIGRATIONS = ''_migrations''"

section \<open>The report\<close>

record finding =
  fg_code :: string
  fg_rows :: "string list list"

text \<open>\<open>if (rows.length) fail(code, msg, rows)\<close>.\<close>

definition report_rows :: "string \<Rightarrow> string list list \<Rightarrow> finding list" where
  "report_rows code rows = (if rows = [] then [] else [\<lparr>fg_code = code, fg_rows = rows\<rparr>])"

section \<open>The catalogue checks\<close>

definition app_fns :: "catalog \<Rightarrow> pgProc list" where
  "app_fns c = filter (\<lambda>a. pc_schema a = public \<and> \<not> pc_ext a) (pg_procs c)"

definition ext_fns :: "catalog \<Rightarrow> string list" where
  "ext_fns c = remdups (map pc_name (filter pc_ext (pg_procs c)))"

text \<open>\<open>prosrc like '%public.' || e.proname || '(%'\<close>.\<close>

definition ext_pattern :: "string \<Rightarrow> string" where
  "ext_pattern e = ''%public.'' @ e @ ''(%''"

definition extRefs :: "catalog \<Rightarrow> string list list" where
  "extRefs c = sort (concat (map (\<lambda>a. map (\<lambda>e. [pc_name a, e]) (filter (\<lambda>e. like (pc_src a) (ext_pattern e)) (ext_fns c))) (app_fns c)))"

definition noRls :: "catalog \<Rightarrow> string list list" where
  "noRls c = sort (map (\<lambda>t. [tb_name t]) (filter (\<lambda>t. tb_schema t = public \<and> \<not> tb_rls t) (pg_tables c)))"

definition rlsNoPolicy :: "catalog \<Rightarrow> string list list" where
  "rlsNoPolicy c = sort (map (\<lambda>t. [tb_name t])
     (filter (\<lambda>t. tb_schema t = public \<and> tb_rls t \<and> tb_policies t = 0 \<and> tb_name t \<noteq> MIGRATIONS) (pg_tables c)))"

definition looseSecdef :: "catalog \<Rightarrow> string list list" where
  "looseSecdef c = sort (map (\<lambda>p. [pc_name p])
     (filter (\<lambda>p. pc_schema p = public \<and> pc_secdef p \<and> \<not> (\<exists>x \<in> set (pc_config p). like x ''search_path=%'')) (pg_procs c)))"

definition definerViews :: "catalog \<Rightarrow> string list list" where
  "definerViews c = sort (map (\<lambda>v. [vw_name v])
     (filter (\<lambda>v. vw_schema v = public \<and> map_of (vw_options v) ''security_invoker'' \<noteq> Some ''true'') (pg_views c)))"

text \<open>\<open>proname like 'rpc\_%'\<close>, grouped by name.\<close>

definition rpc_names :: "catalog \<Rightarrow> string list" where
  "rpc_names c = map pc_name (filter (\<lambda>p. pc_schema p = public \<and> like (pc_name p) (''rpc'' @ [ESC] @ ''_%'')) (pg_procs c))"

definition overloads :: "catalog \<Rightarrow> string list list" where
  "overloads c = sort (map (\<lambda>n. [n, nat_text (count_list (rpc_names c) n)])
     (filter (\<lambda>n. 1 < count_list (rpc_names c) n) (remdups (rpc_names c))))"

section \<open>The migration ledger\<close>

definition onDisk :: "string list \<Rightarrow> string list" where
  "onDisk files = sort (filter (\<lambda>f. ends_with ''.sql'' f) files)"

definition ledger_checks :: "string list \<Rightarrow> catalog \<Rightarrow> finding list \<times> finding list" where
  "ledger_checks files c =
     (if \<forall>t \<in> set (pg_tables c). \<not> (tb_schema t = public \<and> tb_name t = MIGRATIONS)
      then (report_rows ''LEDGER_MISSING'' [[MIGRATIONS]], [])
      else let forced = (case find (\<lambda>t. tb_name t = MIGRATIONS) (pg_tables c) of None \<Rightarrow> False | Some t \<Rightarrow> tb_forced t);
               applied = remdups (ledger_names c); disk = onDisk files
           in ((if forced then report_rows ''LEDGER_FORCED'' [[MIGRATIONS]] else [])
                 @ report_rows ''LEDGER_BEHIND'' (map (\<lambda>f. [f]) (filter (\<lambda>f. f \<notin> set applied) disk)),
               report_rows ''LEDGER_PHANTOM'' (map (\<lambda>f. [f]) (sort (filter (\<lambda>f. f \<notin> set disk) applied)))))"

section \<open>The money checks\<close>

text \<open>\<open>group by transaction_id having sum(delta_paise) <> 0\<close>.\<close>

definition unbalanced :: "'a money_scheme \<Rightarrow> nat list" where
  "unbalanced d = filter (\<lambda>i. txn_sum i (entries d) \<noteq> 0) (remdups (map le_txn (entries d)))"

definition walletDrift :: "'a money_scheme \<Rightarrow> nat list" where
  "walletDrift d = map wl_id (filter (\<lambda>x. wl_balance x \<noteq> wallet_sum (wl_id x) (entries d)) (wallets d))"

definition paidNoUtr :: "'a doctorDb_scheme \<Rightarrow> nat list" where
  "paidNoUtr d = take 20 (map po_id (filter (\<lambda>p. po_status p = ''PAID'' \<and> \<not> truthy_str (po_utr p)) (payouts d)))"

definition badIdentity :: "'a doctorDb_scheme \<Rightarrow> nat list" where
  "badIdentity d = take 20 (map bp_id (filter (\<lambda>b. case bp_original b of None \<Rightarrow> False
     | Some x \<Rightarrow> x \<noteq> bp_price b + (case bp_discount b of None \<Rightarrow> 0 | Some y \<Rightarrow> y)) (prices d)))"

definition id_rows :: "nat list \<Rightarrow> string list list" where
  "id_rows = map (\<lambda>i. [nat_text i])"

section \<open>The run\<close>

definition failures :: "string list \<Rightarrow> catalog \<Rightarrow> 'a doctorDb_scheme \<Rightarrow> finding list" where
  "failures files c d =
     report_rows ''EXT_SCHEMA'' (extRefs c) @ report_rows ''RLS_ALL'' (noRls c) @ report_rows ''RLS_NO_POLICY'' (rlsNoPolicy c) @
     report_rows ''SECDEF_PATH'' (looseSecdef c) @ report_rows ''VIEW_INVOKER'' (definerViews c) @ report_rows ''RPC_OVERLOAD'' (overloads c) @
     fst (ledger_checks files c) @
     report_rows ''MONEY_LEDGER_UNBALANCED'' (id_rows (unbalanced d)) @ report_rows ''MONEY_WALLET_DRIFT'' (id_rows (walletDrift d)) @
     report_rows ''MONEY_PAYOUT_NO_UTR'' (id_rows (paidNoUtr d)) @ report_rows ''MONEY_PRICE_IDENTITY'' (id_rows (badIdentity d))"

text \<open>\<open>brief(rows)\<close>: at most eight rows, their values joined by dots.\<close>

fun join_with :: "string \<Rightarrow> string list \<Rightarrow> string" where
  "join_with sep [] = []"
| "join_with sep [x] = x"
| "join_with sep (x # y # xs) = x @ sep @ join_with sep (y # xs)"

definition ELLIPSIS :: string where "ELLIPSIS = [CHR 0xE2, CHR 0x80, CHR 0xA6]"

definition brief :: "string list list \<Rightarrow> string" where
  "brief rows =
     (let vals = map (join_with ''.'') rows in
      if length vals > 8 then join_with '', '' (take 8 vals) @ '' '' @ ELLIPSIS @ '' (+'' @ nat_text (length vals - 8) @ '' more)''
      else join_with '', '' vals)"

text \<open>
  The exit code with what is printed, a code and a summary per line.  \<open>arg\<close> is the argument, \<open>env\<close> the
  environment; \<open>broken\<close> says that a query raises.
\<close>

definition doctor_url :: "string option \<Rightarrow> (string \<Rightarrow> string option) \<Rightarrow> string option" where
  "doctor_url arg env =
     (if truthy_str arg then arg else if truthy_str (env ''DATABASE_URL_MIGRATE'') then env ''DATABASE_URL_MIGRATE''
      else env ''DATABASE_URL'')"

definition doctor ::
  "string option \<Rightarrow> (string \<Rightarrow> string option) \<Rightarrow> bool \<Rightarrow> string list \<Rightarrow> catalog \<Rightarrow> 'a doctorDb_scheme \<Rightarrow> nat \<times> (string \<times> string) list" where
  "doctor arg env broken files c d =
     (if \<not> truthy_str (doctor_url arg env) \<or> broken then (2, [])
      else let fs = failures files c d; ws = snd (ledger_checks files c)
           in (if fs = [] then 0 else 1, map (\<lambda>f. (fg_code f, brief (fg_rows f))) (ws @ fs)))"

section \<open>What a clean bill means\<close>

lemma report_rows_Nil [simp]: "report_rows code rows = [] \<longleftrightarrow> rows = []"
  by (simp add: report_rows_def)

lemma sort_Nil [simp]: "sort xs = [] \<longleftrightarrow> xs = []"
  by (metis length_0_conv length_sort)

lemma extRefs_Nil:
  "extRefs c = [] \<longleftrightarrow>
     (\<forall>a \<in> set (pg_procs c). \<forall>e \<in> set (pg_procs c). pc_schema a = public \<longrightarrow> \<not> pc_ext a \<longrightarrow> pc_ext e \<longrightarrow> \<not> like (pc_src a) (ext_pattern (pc_name e)))"
  by (auto simp: extRefs_def app_fns_def ext_fns_def filter_empty_conv)

lemma distinct_count: "(\<forall>n \<in> set xs. count_list xs n \<le> 1) \<longleftrightarrow> distinct xs"
proof (induction xs)
  case (Cons x xs)
  have "(\<forall>n \<in> set (x # xs). count_list (x # xs) n \<le> 1) \<longleftrightarrow> x \<notin> set xs \<and> (\<forall>n \<in> set xs. count_list xs n \<le> 1)"
    by (auto simp: count_list_0_iff)
  with Cons.IH show ?case by simp
qed simp

lemma overloads_Nil: "overloads c = [] \<longleftrightarrow> distinct (rpc_names c)"
  unfolding distinct_count [symmetric] by (auto simp: overloads_def filter_empty_conv not_less)

lemma in_unbalanced: "i \<in> set (unbalanced d) \<longleftrightarrow> txn_sum i (entries d) \<noteq> 0"
proof -
  have "txn_sum i (entries d) = 0" if "i \<notin> le_txn ` set (entries d)"
  proof -
    have "filter (\<lambda>e. le_txn e = i) (entries d) = []" using that by (auto simp: filter_empty_conv)
    then show ?thesis by (simp add: txn_sum_def)
  qed
  then show ?thesis by (auto simp: unbalanced_def)
qed

lemma unbalanced_Nil: "unbalanced d = [] \<longleftrightarrow> (\<forall>i. txn_sum i (entries d) = 0)"
  using in_unbalanced [of _ d] by (metis list.set_intros(1) list.exhaust empty_iff empty_set)

lemma in_walletDrift:
  "x \<in> set (wallets d) \<Longrightarrow> wl_balance x \<noteq> wallet_sum (wl_id x) (entries d) \<Longrightarrow> wl_id x \<in> set (walletDrift d)"
  by (auto simp: walletDrift_def)

lemma alarm:
  assumes "rows \<noteq> []" and "(code, rows) \<in> {(''MONEY_LEDGER_UNBALANCED'', unbalanced d), (''MONEY_WALLET_DRIFT'', walletDrift d)}"
    and "truthy_str (doctor_url arg env)"
  shows "\<lparr>fg_code = code, fg_rows = id_rows rows\<rparr> \<in> set (failures files c d)" and "fst (doctor arg env False files c d) = 1"
proof -
  have "id_rows rows \<noteq> []" using assms(1) by (simp add: id_rows_def)
  then have "\<lparr>fg_code = code, fg_rows = id_rows rows\<rparr> \<in> set (report_rows code (id_rows rows))" by (simp add: report_rows_def)
  then show f: "\<lparr>fg_code = code, fg_rows = id_rows rows\<rparr> \<in> set (failures files c d)"
    using assms(2) unfolding failures_def by (elim insertE) auto
  then have "failures files c d \<noteq> []" by auto
  then show "fst (doctor arg env False files c d) = 1" using assms(3) by (simp add: doctor_def Let_def)
qed

lemma money_ok_silent: "money_ok d \<Longrightarrow> unbalanced d = [] \<and> walletDrift d = []"
proof
  assume ok: "money_ok d"
  have "txn_sum i (entries d) = 0" if "i \<in> le_txn ` set (entries d)" for i using ok that by (force simp: money_ok_def)
  then show "unbalanced d = []" by (auto simp: unbalanced_def filter_empty_conv)
  show "walletDrift d = []" using ok by (auto simp: walletDrift_def filter_empty_conv money_ok_def)
qed

lemma take_Nil_iff: "take (Suc n) xs = [] \<longleftrightarrow> xs = []"
  by (cases xs) simp_all

lemma ledger_Nil:
  "fst (ledger_checks files c) = [] \<longleftrightarrow>
     (\<exists>t \<in> set (pg_tables c). tb_schema t = public \<and> tb_name t = MIGRATIONS) \<and>
     \<not> (\<exists>t. find (\<lambda>t. tb_name t = MIGRATIONS) (pg_tables c) = Some t \<and> tb_forced t) \<and>
     (\<forall>f \<in> set files. ends_with ''.sql'' f \<longrightarrow> f \<in> set (ledger_names c))"
  by (auto simp: ledger_checks_def Let_def onDisk_def filter_empty_conv split: option.split)

lemma looseSecdef_Nil:
  "looseSecdef c = [] \<longleftrightarrow> (\<forall>p \<in> set (pg_procs c). pc_schema p = public \<longrightarrow> pc_secdef p \<longrightarrow> (\<exists>x \<in> set (pc_config p). like x ''search_path=%''))"
  by (auto simp: looseSecdef_def filter_empty_conv)

text \<open>
  C0. The verdict.  \<open>db-doctor\<close> exits with 0 exactly if it has a connection string, every query runs,
  and all invariants hold: no function of the application matches a reference to an extension function
  in \<open>public\<close>, every table has row level security and, the ledger apart, a policy, every
  definer function pins its search path, every view runs as its invoker, no RPC name is
  overloaded, the migration ledger exists, is not forced and records every migration on disk, every
  transaction sums to zero, every wallet's balance is the sum of its entries, every paid payout has a UTR and
  every booking keeps its price identity.  Otherwise it exits with 1 if it could
  check and with 2 if it could not.
\<close>

theorem doctor_clean_bill:
  fixes d :: "'a doctorDb_scheme"
  shows "(fst (doctor arg env broken files c d) = 0 \<longleftrightarrow>
     truthy_str (doctor_url arg env) \<and> \<not> broken \<and>
     (\<forall>a \<in> set (pg_procs c). \<forall>e \<in> set (pg_procs c). pc_schema a = public \<longrightarrow> \<not> pc_ext a \<longrightarrow> pc_ext e \<longrightarrow>
        \<not> like (pc_src a) (ext_pattern (pc_name e))) \<and>
     (\<forall>t \<in> set (pg_tables c). tb_schema t = public \<longrightarrow> tb_rls t \<and> (0 < tb_policies t \<or> tb_name t = MIGRATIONS)) \<and>
     (\<forall>p \<in> set (pg_procs c). pc_schema p = public \<longrightarrow> pc_secdef p \<longrightarrow> (\<exists>x \<in> set (pc_config p). like x ''search_path=%'')) \<and>
     (\<forall>v \<in> set (pg_views c). vw_schema v = public \<longrightarrow> map_of (vw_options v) ''security_invoker'' = Some ''true'') \<and>
     distinct (rpc_names c) \<and>
     (\<exists>t \<in> set (pg_tables c). tb_schema t = public \<and> tb_name t = MIGRATIONS) \<and>
     \<not> (\<exists>t. find (\<lambda>t. tb_name t = MIGRATIONS) (pg_tables c) = Some t \<and> tb_forced t) \<and>
     (\<forall>f \<in> set files. ends_with ''.sql'' f \<longrightarrow> f \<in> set (ledger_names c)) \<and>
     (\<forall>i. txn_sum i (entries d) = 0) \<and>
     (\<forall>x \<in> set (wallets d). wl_balance x = wallet_sum (wl_id x) (entries d)) \<and>
     (\<forall>p \<in> set (payouts d). po_status p = ''PAID'' \<longrightarrow> truthy_str (po_utr p)) \<and>
     (\<forall>b \<in> set (prices d). \<forall>x. bp_original b = Some x \<longrightarrow> x = bp_price b + (case bp_discount b of None \<Rightarrow> 0 | Some y \<Rightarrow> y))) \<and>
   (fst (doctor arg env broken files c d) = 2 \<longleftrightarrow> \<not> truthy_str (doctor_url arg env) \<or> broken) \<and>
   fst (doctor arg env broken files c d) \<le> 2"
proof -
  have drift: "walletDrift d = [] \<longleftrightarrow> (\<forall>x \<in> set (wallets d). wl_balance x = wallet_sum (wl_id x) (entries d))"
    by (auto simp: walletDrift_def filter_empty_conv)
  have paid: "paidNoUtr d = [] \<longleftrightarrow> (\<forall>p \<in> set (payouts d). po_status p = ''PAID'' \<longrightarrow> truthy_str (po_utr p))"
    by (auto simp: paidNoUtr_def filter_empty_conv)
  have price: "badIdentity d = [] \<longleftrightarrow> (\<forall>b \<in> set (prices d). \<forall>x. bp_original b = Some x \<longrightarrow>
      x = bp_price b + (case bp_discount b of None \<Rightarrow> 0 | Some y \<Rightarrow> y))"
    by (fastforce simp: badIdentity_def filter_empty_conv split: option.split)
  have rls: "noRls c = [] \<and> rlsNoPolicy c = [] \<longleftrightarrow>
      (\<forall>t \<in> set (pg_tables c). tb_schema t = public \<longrightarrow> tb_rls t \<and> (0 < tb_policies t \<or> tb_name t = MIGRATIONS))"
    by (auto simp: noRls_def rlsNoPolicy_def filter_empty_conv)
  have views: "definerViews c = [] \<longleftrightarrow>
      (\<forall>v \<in> set (pg_views c). vw_schema v = public \<longrightarrow> map_of (vw_options v) ''security_invoker'' = Some ''true'')"
    by (auto simp: definerViews_def filter_empty_conv)
  have rows: "id_rows is = [] \<longleftrightarrow> is = []" for "is" by (simp add: id_rows_def)
  show ?thesis
    by (auto simp: doctor_def failures_def Let_def rows extRefs_Nil looseSecdef_Nil overloads_Nil ledger_Nil unbalanced_Nil
        drift paid price views rls [symmetric])
qed


definition demo_books :: "int \<Rightarrow> doctorDb" where
  "demo_books b = \<lparr>wallets = [\<lparr>wl_id = 1, wl_profile = ''fan'', wl_balance = b, wl_bonus = 0\<rparr>], txns = [], entries = [], next_id = 2,
     topups = [], webhooks = [], disputes = [], notifs = [], settings = None, admins = [], finance_admins = [], payouts = [], prices = []\<rparr>"

definition demo_catalog :: catalog where
  "demo_catalog = \<lparr>pg_procs = [\<lparr>pc_schema = public, pc_name = ''rpc_pay'', pc_src = ''select 1'', pc_secdef = True,
       pc_config = [''search_path=''], pc_ext = False\<rparr>],
     pg_tables = [\<lparr>tb_schema = public, tb_name = MIGRATIONS, tb_rls = True, tb_forced = False, tb_policies = 0\<rparr>],
     pg_views = [], ledger_names = [''1.sql'']\<rparr>"

theorem doctor_clean_bill_witness:
  "fst (doctor None (\<lambda>_. Some ''postgres'') False [''1.sql'', ''README''] demo_catalog (demo_books 0)) = 0"
proof -
  have l: "like ''search_path='' ''search_path=%''" by code_simp
  have n: "distinct (rpc_names demo_catalog)" by (simp add: rpc_names_def demo_catalog_def)
  have e: "ends_with ''.sql'' f \<longrightarrow> f \<in> set (ledger_names demo_catalog)" if "f \<in> set [''1.sql'', ''README'']" for f
    using that by (auto simp: demo_catalog_def ends_with_def suffix_def)
  show ?thesis
    unfolding doctor_clean_bill [THEN conjunct1]
    using l n e by (simp add: doctor_url_def demo_catalog_def demo_books_def wallet_sum_def txn_sum_def)
qed


end
