(* ===== verification/Scripts.thy ===== *)
theory Scripts
  imports Admin Sql_Text
begin

text \<open>
  The operator scripts: \<open>scripts/migrate.mjs\<close>, which applies the migrations, and \<open>scripts/make-admin.mjs\<close>
  with \<open>bootstrap_admin\<close> of migration 0056, which mints the first administrator.
\<close>

section \<open>Applying the migrations\<close>

text \<open>
  The database as the script sees it: the ledger, the number of application tables, whether the
  ledger is forced under row level security, and the rest.  Running the text of a file is a
  parameter \<open>sql_run\<close>: it fails and changes nothing, or changes all of it (a file may also write the ledger).
\<close>

record 's mdb =
  mg_ledger :: "string list"
  mg_tables :: nat
  mg_forced :: bool
  mg_rest :: 's

text \<open>What the script prints about a file.\<close>

datatype migrateLine = Skip string | Apply string | Ok string

datatype migrateEnd = Done | Failed exn | Refused | NoUrl

text \<open>\<open>insert ... on conflict (name) do nothing\<close>.\<close>

definition record_name :: "string \<Rightarrow> 's mdb \<Rightarrow> 's mdb" where
  "record_name f d = d\<lparr>mg_ledger := set_add f (mg_ledger d)\<rparr>"

text \<open>The text sent for a file: 0025 takes the password of the application role from a setting.\<close>

definition ddl_of :: "string option \<Rightarrow> (string \<Rightarrow> string) \<Rightarrow> string \<Rightarrow> string" where
  "ddl_of pw read_file f =
     (if js_includes f ''production_hardening'' \<and> truthy_str pw
      then ''set zudue.app_role_password = '' @ [CHR 0x27] @ the pw @ [CHR 0x27] @ '';'' @ [CHR 0x0A] @ read_file f else read_file f)"

fun apply_files ::
  "(string \<Rightarrow> 's mdb \<Rightarrow> exn + 's mdb) \<Rightarrow> (string \<Rightarrow> string) \<Rightarrow> string set \<Rightarrow> string list \<Rightarrow> 's mdb \<Rightarrow>
   migrateEnd \<times> 's mdb \<times> migrateLine list" where
  "apply_files sql_run ddl applied [] d = (Done, d, [])"
| "apply_files sql_run ddl applied (f # fs) d =
     (if f \<in> applied
      then (case apply_files sql_run ddl applied fs d of (x, d1, out) \<Rightarrow> (x, d1, Skip f # out))
      else case sql_run (ddl f) d of
             Inl e \<Rightarrow> (Failed e, d, [Apply f])
           | Inr d1 \<Rightarrow>
               (case apply_files sql_run ddl applied fs (record_name f d1) of (x, d2, out) \<Rightarrow> (x, d2, Apply f # Ok f # out)))"

definition sql_files :: "string list \<Rightarrow> string list" where
  "sql_files dir = sort (filter (\<lambda>f. ends_with ''.sql'' f) dir)"

definition migrate ::
  "(string \<Rightarrow> string option) \<Rightarrow> (string \<Rightarrow> 's mdb \<Rightarrow> exn + 's mdb) \<Rightarrow> (string \<Rightarrow> string) \<Rightarrow> string list \<Rightarrow> 's mdb \<Rightarrow>
   migrateEnd \<times> 's mdb \<times> migrateLine list" where
  "migrate env sql_run read_file dir d =
     (if \<not> truthy_str (env ''DATABASE_URL_MIGRATE'') \<and> \<not> truthy_str (env ''DATABASE_URL'') then (NoUrl, d, [])
      else if mg_ledger d = [] \<and> 0 < mg_tables d then (Refused, d, [])
      else if mg_forced d then (Refused, d, [])
      else apply_files sql_run (ddl_of (env ''ZUDUE_APP_ROLE_PASSWORD'') read_file) (set (mg_ledger d)) (sql_files dir) d)"

definition exit_code :: "migrateEnd \<Rightarrow> nat" where
  "exit_code x = (if x = Done then 0 else 1)"

definition applied_files :: "migrateLine list \<Rightarrow> string list" where
  "applied_files out = List.map_filter (\<lambda>l. case l of Ok f \<Rightarrow> Some f | _ \<Rightarrow> None) out"

section \<open>What a run does\<close>

text \<open>One pending file after the other, each recorded before the next.\<close>

fun run_all :: "(string \<Rightarrow> 's mdb \<Rightarrow> exn + 's mdb) \<Rightarrow> (string \<Rightarrow> string) \<Rightarrow> string list \<Rightarrow> 's mdb \<Rightarrow> exn + 's mdb" where
  "run_all sql_run ddl [] d = Inr d"
| "run_all sql_run ddl (f # fs) d =
     (case sql_run (ddl f) d of Inl e \<Rightarrow> Inl e | Inr d1 \<Rightarrow> run_all sql_run ddl fs (record_name f d1))"

definition grows :: "(string \<Rightarrow> 's mdb \<Rightarrow> exn + 's mdb) \<Rightarrow> bool" where
  "grows sql_run \<longleftrightarrow> (\<forall>t d d'. sql_run t d = Inr d' \<longrightarrow> set (mg_ledger d) \<subseteq> set (mg_ledger d'))"

lemma set_record_name [simp]: "set (mg_ledger (record_name f d)) = insert f (set (mg_ledger d))"
  by (simp add: record_name_def)

lemma applied_files_simps [simp]:
  "applied_files [] = []" "applied_files (Skip f # out) = applied_files out"
  "applied_files (Apply f # out) = applied_files out" "applied_files (Ok f # out) = f # applied_files out"
  by (simp_all add: applied_files_def List.map_filter_simps)

lemma run_all_ledger:
  "grows sql_run \<Longrightarrow> run_all sql_run ddl fs d = Inr d' \<Longrightarrow> set (mg_ledger d) \<union> set fs \<subseteq> set (mg_ledger d')"
proof (induction fs arbitrary: d)
  case (Cons f fs)
  then obtain d1 where r: "sql_run (ddl f) d = Inr d1" "run_all sql_run ddl fs (record_name f d1) = Inr d'"
    by (auto split: sum.splits)
  from Cons.IH [OF Cons.prems(1) r(2)] r(1) Cons.prems(1) show ?case by (fastforce simp: grows_def)
qed simp

text \<open>
  \<open>stops_at\<close>: the pending files \<open>ok\<close> are run and recorded, and then either none is left or the next one fails.
\<close>

lemma apply_files_spec:
  assumes "apply_files sql_run ddl applied fs d = (x, d', out)"
  shows "\<exists>ok rest. filter (\<lambda>f. f \<notin> applied) fs = ok @ rest \<and> applied_files out = ok \<and> run_all sql_run ddl ok d = Inr d' \<and>
    (case rest of [] \<Rightarrow> x = Done | f # _ \<Rightarrow> \<exists>e. sql_run (ddl f) d' = Inl e \<and> x = Failed e)"
  using assms
proof (induction fs arbitrary: d out)
  case (Cons f fs)
  show ?case
  proof (cases "f \<in> applied")
    case True
    obtain y d1 o1 where r: "apply_files sql_run ddl applied fs d = (y, d1, o1)" by (cases "apply_files sql_run ddl applied fs d")
    then have "y = x" "d1 = d'" "out = Skip f # o1" using Cons.prems True by simp_all
    with Cons.IH [of d o1] r True show ?thesis by simp
  next
    case False
    show ?thesis
    proof (cases "sql_run (ddl f) d")
      case (Inl e)
      with Cons.prems False show ?thesis by (intro exI [of _ "[]"] exI [of _ "filter (\<lambda>f. f \<notin> applied) (f # fs)"]) auto
    next
      case (Inr d1)
      obtain y d2 o1 where r: "apply_files sql_run ddl applied fs (record_name f d1) = (y, d2, o1)"
        by (cases "apply_files sql_run ddl applied fs (record_name f d1)")
      then have e: "y = x" "d2 = d'" "out = Apply f # Ok f # o1" using Cons.prems False Inr by simp_all
      from Cons.IH [of "record_name f d1" o1] r e obtain ok rest where
        "filter (\<lambda>f. f \<notin> applied) fs = ok @ rest" "applied_files o1 = ok" "run_all sql_run ddl ok (record_name f d1) = Inr d'"
        "case rest of [] \<Rightarrow> x = Done | f # _ \<Rightarrow> \<exists>e. sql_run (ddl f) d' = Inl e \<and> x = Failed e" by auto
      then show ?thesis using False Inr e(3) by (intro exI [of _ "f # ok"] exI [of _ rest]) simp
    qed
  qed
qed simp

definition refuses :: "'s mdb \<Rightarrow> bool" where
  "refuses d \<longleftrightarrow> mg_ledger d = [] \<and> 0 < mg_tables d \<or> mg_forced d"

definition has_url :: "(string \<Rightarrow> string option) \<Rightarrow> bool" where
  "has_url env \<longleftrightarrow> truthy_str (env ''DATABASE_URL_MIGRATE'') \<or> truthy_str (env ''DATABASE_URL'')"

definition pending :: "string list \<Rightarrow> 's mdb \<Rightarrow> string list" where
  "pending dir d = filter (\<lambda>f. f \<notin> set (mg_ledger d)) (sql_files dir)"

lemma migrate_eq:
  "has_url env \<Longrightarrow> migrate env sql_run rf dir d =
     (if refuses d then (Refused, d, [])
      else apply_files sql_run (ddl_of (env ''ZUDUE_APP_ROLE_PASSWORD'') rf) (set (mg_ledger d)) (sql_files dir) d)"
  by (auto simp: migrate_def refuses_def has_url_def)

lemma nothing_pending: "set fs \<subseteq> applied \<Longrightarrow> apply_files sql_run ddl applied fs d = (Done, d, map Skip fs)"
  by (induction fs) auto

lemma first_pending_fails:
  assumes "filter (\<lambda>f. f \<notin> applied) fs = f # rest" and "sql_run (ddl f) d = Inl e"
  shows "\<exists>out. apply_files sql_run ddl applied fs d = (Failed e, d, out) \<and> applied_files out = []"
  using assms by (induction fs) (auto split: if_splits)

text \<open>
  Migrating.  A run refuses, changing nothing, if the ledger is empty but there are tables, or if the
  ledger is forced under row level security.  Otherwise it runs the unrecorded files in the order of
  their names, each once and recorded before the next, up to the first that fails; it ends well exactly
  if none fails, and then a further run skips every file.  But a file and its record are two statements:
  a process killed between them leaves a database on which the next run refuses, if it was
  the first file, and otherwise runs the file again, and fails without applying anything
  if the file cannot be run twice.
\<close>

theorem migrate_runs_pending_in_order:
  assumes "grows sql_run" and "has_url env" and "migrate env sql_run rf dir d = (x, d', out)"
  defines "ddl \<equiv> ddl_of (env ''ZUDUE_APP_ROLE_PASSWORD'') rf"
  shows "(refuses d \<longrightarrow> x = Refused \<and> d' = d \<and> out = []) \<and>
    (\<not> refuses d \<longrightarrow>
      sorted (pending dir d) \<and>
      (\<exists>ok rest. pending dir d = ok @ rest \<and> applied_files out = ok \<and> run_all sql_run ddl ok d = Inr d' \<and>
        set (mg_ledger d) \<union> set ok \<subseteq> set (mg_ledger d') \<and>
        (case rest of [] \<Rightarrow> x = Done | f # _ \<Rightarrow> \<exists>e. sql_run (ddl f) d' = Inl e \<and> x = Failed e)) \<and>
      (x = Done \<and> \<not> mg_forced d' \<longrightarrow> migrate env sql_run rf dir d' = (Done, d', map Skip (sql_files dir)))) \<and>
    (\<forall>f rest d1 e. pending dir d = f # rest \<and> sql_run (ddl f) d = Inr d1 \<and> mg_ledger d1 = mg_ledger d \<longrightarrow>
      (mg_ledger d1 = [] \<and> 0 < mg_tables d1 \<longrightarrow> migrate env sql_run rf dir d1 = (Refused, d1, [])) \<and>
      (\<not> refuses d1 \<and> sql_run (ddl f) d1 = Inl e \<longrightarrow>
         (\<exists>o1. migrate env sql_run rf dir d1 = (Failed e, d1, o1) \<and> applied_files o1 = [])))"
proof (intro conjI impI allI)
  assume r: "refuses d"
  then show "x = Refused" "d' = d" "out = []" using assms(3) by (simp_all add: migrate_eq [OF assms(2)])
next
  show "sorted (pending dir d)" by (simp add: pending_def sql_files_def sorted_wrt_filter)
next
  assume n: "\<not> refuses d"
  then have run: "apply_files sql_run ddl (set (mg_ledger d)) (sql_files dir) d = (x, d', out)"
    using assms(3) by (simp add: migrate_eq [OF assms(2)] ddl_def)
  from apply_files_spec [OF this] obtain ok rest where
    p: "pending dir d = ok @ rest" and o: "applied_files out = ok" and a: "run_all sql_run ddl ok d = Inr d'"
    and r: "case rest of [] \<Rightarrow> x = Done | f # _ \<Rightarrow> \<exists>e. sql_run (ddl f) d' = Inl e \<and> x = Failed e"
    by (auto simp: pending_def)
  have l: "set (mg_ledger d) \<union> set ok \<subseteq> set (mg_ledger d')" using run_all_ledger [OF assms(1) a] .
  from p o a l r show "\<exists>ok rest. pending dir d = ok @ rest \<and> applied_files out = ok \<and> run_all sql_run ddl ok d = Inr d' \<and>
      set (mg_ledger d) \<union> set ok \<subseteq> set (mg_ledger d') \<and>
      (case rest of [] \<Rightarrow> x = Done | f # _ \<Rightarrow> \<exists>e. sql_run (ddl f) d' = Inl e \<and> x = Failed e)" by blast
  assume fin: "x = Done \<and> \<not> mg_forced d'"
  with r have "rest = []" by (auto split: list.splits)
  with p have "set (filter (\<lambda>f. f \<notin> set (mg_ledger d)) (sql_files dir)) = set ok" by (simp add: pending_def)
  with l have all: "set (sql_files dir) \<subseteq> set (mg_ledger d')" by auto
  have "\<not> refuses d'"
  proof (cases "ok = [] \<and> mg_ledger d = []")
    case True
    then have "d' = d" using a by simp
    with n show ?thesis by simp
  next
    case False
    with l have "mg_ledger d' \<noteq> []" by auto
    with fin show ?thesis by (simp add: refuses_def)
  qed
  then show "migrate env sql_run rf dir d' = (Done, d', map Skip (sql_files dir))"
    using nothing_pending [OF all] by (simp add: migrate_eq [OF assms(2)])
next
  fix f rest d1 e assume k: "pending dir d = f # rest \<and> sql_run (ddl f) d = Inr d1 \<and> mg_ledger d1 = mg_ledger d"
  show "migrate env sql_run rf dir d1 = (Refused, d1, [])" if "mg_ledger d1 = [] \<and> 0 < mg_tables d1"
    using that by (simp add: migrate_eq [OF assms(2)] refuses_def)
  show "\<exists>o1. migrate env sql_run rf dir d1 = (Failed e, d1, o1) \<and> applied_files o1 = []"
    if "\<not> refuses d1 \<and> sql_run (ddl f) d1 = Inl e"
    using that k first_pending_fails [of "set (mg_ledger d1)" "sql_files dir" f rest sql_run ddl d1 e]
    by (simp add: migrate_eq [OF assms(2)] pending_def ddl_def)
qed

text \<open>A database in which a second run of a file fails.\<close>

definition demo_sql :: "string \<Rightarrow> string list mdb \<Rightarrow> exn + string list mdb" where
  "demo_sql t d = (if t \<in> set (mg_rest d) then Inl (PgError ''already exists'')
     else Inr (d\<lparr>mg_rest := t # mg_rest d, mg_tables := Suc (mg_tables d)\<rparr>))"

theorem migrate_runs_pending_in_order_witness:
  "\<exists>o1. migrate (\<lambda>_. Some ''postgres'') demo_sql (\<lambda>f. f) [''b.sql'', ''a.sql'', ''README'']
     \<lparr>mg_ledger = [''a.sql''], mg_tables = 2, mg_forced = False, mg_rest = [''b.sql'', ''a.sql'']\<rparr> =
     (Failed (PgError ''already exists''),
      \<lparr>mg_ledger = [''a.sql''], mg_tables = 2, mg_forced = False, mg_rest = [''b.sql'', ''a.sql'']\<rparr>, o1) \<and> applied_files o1 = []"
proof -
  let ?d = "\<lparr>mg_ledger = [''a.sql''], mg_tables = 1, mg_forced = False, mg_rest = [''a.sql'']\<rparr>"
  let ?dir = "[''b.sql'', ''a.sql'', ''README'']" and ?env = "\<lambda>_. Some ''postgres''"
  have g: "grows demo_sql" by (auto simp: grows_def demo_sql_def split: if_splits)
  have p: "pending ?dir ?d = [''b.sql'']"
  proof -
    have "filter (\<lambda>f. ends_with ''.sql'' f) ?dir = [''b.sql'', ''a.sql'']" by code_simp
    moreover have "sort [''b.sql'', ''a.sql''] = [''a.sql'', ''b.sql'']" by code_simp
    ultimately show ?thesis by (simp add: pending_def sql_files_def)
  qed
  have t: "ddl_of pw (\<lambda>f. f) ''b.sql'' = ''b.sql''" for pw
  proof -
    have "\<not> sublist ''production_hardening'' ''b.sql''" by (auto dest: sublist_length_le)
    then show ?thesis by (simp add: ddl_of_def js_includes_def)
  qed
  obtain x d' out where r: "migrate ?env demo_sql (\<lambda>f. f) ?dir ?d = (x, d', out)" by (cases "migrate ?env demo_sql (\<lambda>f. f) ?dir ?d")
  show ?thesis
    using migrate_runs_pending_in_order [OF g _ r, THEN conjunct2, THEN conjunct2, THEN spec, THEN spec, THEN spec, THEN spec,
        of "''b.sql''" "[]" "\<lparr>mg_ledger = [''a.sql''], mg_tables = 2, mg_forced = False, mg_rest = [''b.sql'', ''a.sql'']\<rparr>"
        "PgError ''already exists''"] p t
    by (simp add: has_url_def demo_sql_def refuses_def)
qed

section \<open>The first administrator\<close>

text \<open>
  \<open>lc\<close> is the database's \<open>lower\<close>, \<open>uc\<close> is \<open>toUpperCase\<close>.  An administrator is two rows, the role and the
  tier; \<open>bootstrap_admin\<close> writes both.
\<close>

record bootstrapAudit =
  ba_actor :: string
  ba_action :: string
  ba_old :: userRole
  ba_new :: userRole

record adminDb = identityDb +
  tiers :: "(string \<times> string) list"
  admin_audit :: "bootstrapAudit list"

definition TIERS :: "string list" where
  "TIERS = [''SUPER_ADMIN'', ''FINANCE'', ''SUPPORT'', ''MODERATOR'']"

definition by_email :: "(string \<Rightarrow> string) \<Rightarrow> string \<Rightarrow> 'a identityDb_scheme \<Rightarrow> person option" where
  "by_email lc email d = find (\<lambda>p. lc (pn_email p) = lc email) (people d)"

text \<open>\<open>btrim\<close> removes spaces.\<close>

definition btrim :: "string \<Rightarrow> string" where
  "btrim s = trim_by (\<lambda>c. c = CHR '' '') s"

definition bootstrap_admin :: "(string \<Rightarrow> string) \<Rightarrow> string \<Rightarrow> string \<Rightarrow> bool \<Rightarrow> 'a adminDb_scheme \<Rightarrow> json \<times> 'a adminDb_scheme" where
  "bootstrap_admin lc email tier revoke d =
     (case by_email lc (btrim email) d of
        None \<Rightarrow> (err_json ''NO_SUCH_PROFILE'', d)
      | Some p \<Rightarrow>
          (let u = pn_id p; role = (if revoke then userRole.FAN else userRole.ADMIN) in
           (ok_json [(''email'', JStr email)],
            d\<lparr>people := map (\<lambda>q. if pn_id q = u then q\<lparr>pn_role := role\<rparr> else q) (people d),
              tiers := (if revoke then AList.delete u (tiers d) else AList.update u tier (tiers d)),
              admin_audit := admin_audit d @ [\<lparr>ba_actor = u,
                ba_action = (if revoke then ''REVOKE_ADMIN_BOOTSTRAP'' else ''GRANT_ADMIN_BOOTSTRAP''), ba_old = pn_role p, ba_new = role\<rparr>]\<rparr>)))"

record makeAdminArgs =
  ma_list :: bool
  ma_revoke :: bool
  ma_email :: "string option"
  ma_tier :: string

definition parse_args :: "(string \<Rightarrow> string) \<Rightarrow> string list \<Rightarrow> makeAdminArgs" where
  "parse_args uc args =
     (let positional = filter (\<lambda>a. \<not> starts_with ''--'' a) args; nth = (\<lambda>i. if i < length positional then Some (positional ! i) else None) in
      \<lparr>ma_list = ''--list'' \<in> set args, ma_revoke = ''--revoke'' \<in> set args, ma_email = nth 0,
       ma_tier = uc (if truthy_str (nth 1) then the (nth 1) else ''SUPER_ADMIN'')\<rparr>)"

text \<open>A line of \<open>--list\<close>: the e-mail, the role, the tier and whether it is marked incomplete.\<close>

definition list_admins :: "'a adminDb_scheme \<Rightarrow> (string \<times> userRole \<times> string option \<times> bool) list" where
  "list_admins d = List.map_filter (\<lambda>p. let t = map_of (tiers d) (pn_id p) in
     if pn_role p = userRole.ADMIN \<or> t \<noteq> None
     then Some (pn_email p, pn_role p, t, pn_role p \<noteq> userRole.ADMIN \<or> t = None) else None) (people d)"

text \<open>The exit code and the database afterwards.\<close>

definition make_admin ::
  "(string \<Rightarrow> string) \<Rightarrow> (string \<Rightarrow> string) \<Rightarrow> (string \<Rightarrow> string option) \<Rightarrow> string list \<Rightarrow> 'a adminDb_scheme \<Rightarrow> nat \<times> 'a adminDb_scheme" where
  "make_admin lc uc env args d =
     (let a = parse_args uc args in
      if \<not> truthy_str (env ''DATABASE_URL_MIGRATE'') \<and> \<not> truthy_str (env ''DATABASE_URL'') then (2, d)
      else if \<not> ma_list a \<and> \<not> truthy_str (ma_email a) then (2, d)
      else if \<not> ma_list a \<and> \<not> ma_revoke a \<and> ma_tier a \<notin> set TIERS then (2, d)
      else if ma_list a then (0, d)
      else let email = the (ma_email a) in
        (case by_email lc email d of None \<Rightarrow> (1, d)
         | Some user \<Rightarrow>
             (case (if ma_revoke a then bootstrap_admin lc email ''SUPER_ADMIN'' True d
                    else bootstrap_admin lc email (ma_tier a) False d) of
                (r, d1) \<Rightarrow> (if jget r ''success'' = Some (JBool True) then 0 else 1, d1))))"

text \<open>Both halves or none.\<close>

definition whole_admin :: "'a adminDb_scheme \<Rightarrow> person \<Rightarrow> bool" where
  "whole_admin d p \<longleftrightarrow> (pn_role p = userRole.ADMIN \<longleftrightarrow> map_of (tiers d) (pn_id p) \<noteq> None)"

lemma list_admins_marks:
  "(\<exists>x \<in> set (list_admins d). snd (snd (snd x))) \<longleftrightarrow> (\<exists>p \<in> set (people d). \<not> whole_admin d p)"
  by (force simp: list_admins_def whole_admin_def Let_def map_filter_def)

lemma bootstrap_admin_Some:
  assumes "by_email lc (btrim email) d = Some p"
  shows "bootstrap_admin lc email tier revoke d =
    (let u = pn_id p; role = (if revoke then userRole.FAN else userRole.ADMIN) in
           (ok_json [(''email'', JStr email)],
            d\<lparr>people := map (\<lambda>q. if pn_id q = u then q\<lparr>pn_role := role\<rparr> else q) (people d),
              tiers := (if revoke then AList.delete u (tiers d) else AList.update u tier (tiers d)),
              admin_audit := admin_audit d @ [\<lparr>ba_actor = u,
                ba_action = (if revoke then ''REVOKE_ADMIN_BOOTSTRAP'' else ''GRANT_ADMIN_BOOTSTRAP''), ba_old = pn_role p, ba_new = role\<rparr>]\<rparr>))"
  using assms by (simp add: bootstrap_admin_def)

text \<open>
  \<open>make-admin\<close> makes and unmakes whole administrators.  For a known account, an e-mail without
  surrounding spaces and an allowed tier, it succeeds: a grant gives the account role and tier together, so that
  the panel's guard lets it in, and a revocation takes both, so that the guard refuses it; every
  other account keeps its role and its tier, no account becomes half an administrator that was not, and one
  audit row is written.  Without a connection string, without an e-mail or with another tier
  it exits with 2 and touches nothing.
\<close>

theorem make_admin_is_whole:
  fixes d :: "'a adminDb_scheme" and uc :: "string \<Rightarrow> string" and args :: "string list"
  defines "a \<equiv> parse_args uc args"
  assumes ids: "distinct (map pn_id (people d))" and url: "has_url env" and nl: "\<not> ma_list a"
    and run: "make_admin lc uc env args d = (code, d')"
  shows "(\<not> truthy_str (ma_email a) \<or> (\<not> ma_revoke a \<and> ma_tier a \<notin> set TIERS) \<longrightarrow> code = 2 \<and> d' = d) \<and>
    (\<forall>email p. ma_email a = Some email \<and> email \<noteq> [] \<and> btrim email = email \<and> by_email lc email d = Some p \<and>
       (ma_revoke a \<or> ma_tier a \<in> set TIERS) \<longrightarrow>
      code = 0 \<and> admin_row (pn_id p) d' = (\<not> ma_revoke a) \<and>
      map_of (tiers d') (pn_id p) = (if ma_revoke a then None else Some (ma_tier a)) \<and>
      (\<forall>u. u \<noteq> pn_id p \<longrightarrow> find (\<lambda>q. pn_id q = u) (people d') = find (\<lambda>q. pn_id q = u) (people d) \<and>
         map_of (tiers d') u = map_of (tiers d) u) \<and>
      ((\<forall>q \<in> set (people d). q \<noteq> p \<longrightarrow> whole_admin d q) \<longrightarrow> (\<forall>q \<in> set (people d'). whole_admin d' q)) \<and>
      length (admin_audit d') = Suc (length (admin_audit d)) \<and>
      (pn_id p \<noteq> [] \<longrightarrow> fst (adminGuard base (Some (pn_id p)) \<lparr>w_db = d', w_log = []\<rparr>) =
         (if ma_revoke a then Inl (Forbidden (JStr ''ADMIN_ONLY'')) else Inr True)))"
proof (intro conjI impI allI)
  assume "\<not> truthy_str (ma_email a) \<or> (\<not> ma_revoke a \<and> ma_tier a \<notin> set TIERS)"
  then show "code = 2" "d' = d" using run nl url by (auto simp: make_admin_def has_url_def a_def Let_def split: if_splits)
next
  fix email p
  assume k: "ma_email a = Some email \<and> email \<noteq> [] \<and> btrim email = email \<and> by_email lc email d = Some p \<and>
    (ma_revoke a \<or> ma_tier a \<in> set TIERS)"
  let ?u = "pn_id p" and ?role = "if ma_revoke a then userRole.FAN else userRole.ADMIN"
  let ?f = "\<lambda>q. if pn_id q = ?u then q\<lparr>pn_role := ?role\<rparr> else q"
  have b: "by_email lc (btrim email) d = Some p" using k by simp
  have p: "p \<in> set (people d)" using k by (auto simp: by_email_def find_Some_iff)
  have c: "code = 0" and people: "people d' = map ?f (people d)"
    and tiers: "tiers d' = (if ma_revoke a then AList.delete ?u (tiers d) else AList.update ?u (ma_tier a) (tiers d))"
    and audit: "length (admin_audit d') = Suc (length (admin_audit d))"
    using run k nl url bootstrap_admin_Some [OF b]
    by (auto simp: make_admin_def has_url_def a_def [symmetric] Let_def ok_json_def split: if_splits)
  show "code = 0" by (rule c)
  show "length (admin_audit d') = Suc (length (admin_audit d))" by (rule audit)
  show t: "map_of (tiers d') ?u = (if ma_revoke a then None else Some (ma_tier a))" by (simp add: tiers)
  have fu: "find (\<lambda>q. pn_id q = u) (map ?f xs) = map_option ?f (find (\<lambda>q. pn_id q = u) xs)" for u xs
    by (induction xs) auto
  have pu: "find (\<lambda>q. pn_id q = ?u) (people d) = Some p"
    using p ids by (auto simp: find_Some_iff distinct_conv_nth in_set_conv_nth)
  show r: "admin_row ?u d' = (\<not> ma_revoke a)"
    unfolding admin_row_def people fu pu by simp
  show "fst (adminGuard base (Some ?u) \<lparr>w_db = d', w_log = []\<rparr>) =
      (if ma_revoke a then Inl (Forbidden (JStr ''ADMIN_ONLY'')) else Inr True)" if "?u \<noteq> []"
    using that r by (simp add: adminGuard_eq)
  show "find (\<lambda>q. pn_id q = u) (people d') = find (\<lambda>q. pn_id q = u) (people d)" if "u \<noteq> ?u" for u
  proof (cases "find (\<lambda>q. pn_id q = u) (people d)")
    case (Some q)
    then have "pn_id q = u" by (auto simp: find_Some_iff)
    with Some that show ?thesis unfolding people fu by simp
  qed (simp add: people fu)
  show "map_of (tiers d') u = map_of (tiers d) u" if "u \<noteq> ?u" for u using that by (simp add: tiers)
  show "\<forall>q \<in> set (people d'). whole_admin d' q" if "\<forall>q \<in> set (people d). q \<noteq> p \<longrightarrow> whole_admin d q"
  proof
    fix q assume "q \<in> set (people d')"
    then obtain q0 where q0: "q0 \<in> set (people d)" "q = ?f q0" by (auto simp: people)
    show "whole_admin d' q"
    proof (cases "pn_id q0 = ?u")
      case True
      then show ?thesis using q0(2) by (simp add: whole_admin_def tiers)
    next
      case False
      then have "q0 \<noteq> p" by auto
      with that q0(1) have "whole_admin d q0" by blast
      with False show ?thesis using q0(2) by (simp add: whole_admin_def tiers)
    qed
  qed
qed

definition demo_admins :: adminDb where
  "demo_admins = \<lparr>people = [\<lparr>pn_id = ''ada'', pn_role = userRole.FAN, pn_email = ''a@x'', pn_full_name = None, pn_mobile = None, pn_age = None,
     pn_gender = None, pn_prefs = JObj [], pn_status = U_ACTIVE\<rparr>], partners = [], applications = [], del_requests = [],
     wallet_owners = [], next_app = 1, tiers = [], admin_audit = []\<rparr>"

theorem make_admin_is_whole_witness:
  "fst (adminGuard demo_session (Some ''ada'') \<lparr>w_db = snd (make_admin (\<lambda>s. s) (\<lambda>s. s) (\<lambda>_. Some ''postgres'') [''a@x'', ''FINANCE''] demo_admins),
     w_log = []\<rparr>) = Inr True"
proof -
  let ?args = "[''a@x'', ''FINANCE'']" and ?env = "\<lambda>_. Some ''postgres''"
  have a: "parse_args (\<lambda>s. s) ?args = \<lparr>ma_list = False, ma_revoke = False, ma_email = Some ''a@x'', ma_tier = ''FINANCE''\<rparr>"
    by (simp add: parse_args_def starts_with_def Let_def)
  have b: "btrim ''a@x'' = ''a@x''" by code_simp
  have p: "by_email (\<lambda>s. s) ''a@x'' demo_admins = Some (hd (people demo_admins))" "pn_id (hd (people demo_admins)) = ''ada''"
    by (simp_all add: by_email_def demo_admins_def)
  obtain code d' where r: "make_admin (\<lambda>s. s) (\<lambda>s. s) ?env ?args demo_admins = (code, d')"
    by (cases "make_admin (\<lambda>s. s) (\<lambda>s. s) ?env ?args demo_admins")
  have "distinct (map pn_id (people demo_admins))" "has_url ?env" by (simp_all add: demo_admins_def has_url_def)
  from make_admin_is_whole [OF this _ r, of demo_session] a b p show ?thesis by (simp add: r TIERS_def)
qed

end
