(* ===== verification/Env.thy ===== *)
theory Env
  imports Realtime_System Jobs Push Throttle
begin

text \<open>
  \<open>src/config/env.ts\<close>: the schema of the environment, and what a server that booted with it can rely on.
  \<open>is_url\<close> is the URL check of \<open>zod\<close>, \<open>js_number\<close> is \<open>Number\<close> on text (\<open>None\<close> for \<open>NaN\<close>).
\<close>

section \<open>The schema\<close>

datatype zval = VStr string | VNum rat | VBool bool

datatype zkind = ZEnum "string list" | ZNumber | ZUrl | ZString

datatype zabsent = Required | Optional | Default zval

record zfield =
  zf_name :: string
  zf_kind :: zkind
  zf_absent :: zabsent
  zf_transform :: "zval \<Rightarrow> zval"

definition field :: "string \<Rightarrow> zkind \<Rightarrow> zabsent \<Rightarrow> zfield" where
  "field n k a = \<lparr>zf_name = n, zf_kind = k, zf_absent = a, zf_transform = (\<lambda>v. v)\<rparr>"

text \<open>\<open>.transform((v) => v === 'true')\<close>.\<close>

definition is_true :: "zval \<Rightarrow> zval" where
  "is_true v = VBool (v = VStr ''true'')"

definition schema :: "zfield list" where
  "schema = [
     field ''NODE_ENV'' (ZEnum [''development'', ''test'', ''production'']) (Default (VStr ''development'')),
     field ''PORT'' ZNumber (Default (VNum 3000)),
     field ''DATABASE_URL'' ZUrl Required,
     field ''REDIS_URL'' ZUrl Optional,
     field ''JOBS_DRIVER'' (ZEnum [''pgcron'', ''bullmq'']) (Default (VStr ''pgcron'')),
     field ''DATABASE_URL_LISTEN'' ZUrl Optional,
     (field ''REALTIME_ENABLED'' (ZEnum [''true'', ''false'']) (Default (VStr ''true'')))\<lparr>zf_transform := is_true\<rparr>,
     field ''AUTH_JWKS_URL'' ZUrl Required,
     field ''AUTH_ISSUER'' ZString Required,
     field ''AUTH_AUDIENCE'' ZString (Default (VStr ''authenticated'')),
     field ''SUPABASE_SERVICE_ROLE_KEY'' ZString Optional,
     field ''RAZORPAY_KEY_ID'' ZString Optional,
     field ''RAZORPAY_KEY_SECRET'' ZString Optional,
     field ''RAZORPAY_WEBHOOK_SECRET'' ZString Optional,
     field ''AGORA_APP_ID'' ZString Optional,
     field ''AGORA_APP_CERTIFICATE'' ZString Optional,
     field ''FCM_PROJECT_ID'' ZString Optional,
     field ''FCM_SERVICE_ACCOUNT_B64'' ZString Optional,
     field ''ONESIGNAL_APP_ID'' ZString Optional,
     field ''ONESIGNAL_REST_API_KEY'' ZString Optional,
     field ''PUSH_CALL_CHANNEL_ID'' ZString (Default (VStr ''zudue_calls'')),
     field ''CORS_ORIGINS'' ZString Optional,
     field ''R2_ACCOUNT_ID'' ZString Optional,
     field ''R2_ACCESS_KEY_ID'' ZString Optional,
     field ''R2_SECRET_ACCESS_KEY'' ZString Optional,
     field ''R2_BUCKET_KYC'' ZString (Default (VStr ''zudue-kyc'')),
     field ''R2_BUCKET_MEDIA'' ZString (Default (VStr ''zudue-media'')),
     field ''R2_PUBLIC_MEDIA_URL'' ZString Optional,
     field ''SENTRY_DSN'' ZString Optional]"

section \<open>Parsing\<close>

text \<open>A present value: \<open>None\<close> is an issue.\<close>

definition parse_kind :: "(string \<Rightarrow> bool) \<Rightarrow> (string \<Rightarrow> rat option) \<Rightarrow> zkind \<Rightarrow> string \<Rightarrow> zval option" where
  "parse_kind is_url js_number k s =
     (case k of
        ZEnum xs \<Rightarrow> if s \<in> set xs then Some (VStr s) else None
      | ZNumber \<Rightarrow> map_option VNum (js_number s)
      | ZUrl \<Rightarrow> if is_url s then Some (VStr s) else None
      | ZString \<Rightarrow> Some (VStr s))"

text \<open>A field: \<open>Inl\<close> is an issue, \<open>Inr None\<close> is \<open>undefined\<close>.\<close>

definition parse_field :: "(string \<Rightarrow> bool) \<Rightarrow> (string \<Rightarrow> rat option) \<Rightarrow> (string \<Rightarrow> string option) \<Rightarrow> zfield \<Rightarrow> string + zval option" where
  "parse_field is_url js_number raw f =
     (case raw (zf_name f) of
        None \<Rightarrow> (case zf_absent f of Required \<Rightarrow> Inl (zf_name f) | Optional \<Rightarrow> Inr None | Default v \<Rightarrow> Inr (Some (zf_transform f v)))
      | Some s \<Rightarrow> (case parse_kind is_url js_number (zf_kind f) s of None \<Rightarrow> Inl (zf_name f) | Some v \<Rightarrow> Inr (Some (zf_transform f v))))"

text \<open>\<open>Inl\<close>: the fields with an issue, and the boot stops; \<open>Inr\<close>: the configuration.\<close>

type_synonym config = "string \<Rightarrow> zval option"

definition loadEnv :: "(string \<Rightarrow> bool) \<Rightarrow> (string \<Rightarrow> rat option) \<Rightarrow> (string \<Rightarrow> string option) \<Rightarrow> string list + config" where
  "loadEnv is_url js_number raw =
     (let issues = List.map_filter (\<lambda>f. case parse_field is_url js_number raw f of Inl n \<Rightarrow> Some n | Inr _ \<Rightarrow> None) schema
      in if issues \<noteq> [] then Inl issues
         else Inr (\<lambda>k. case find (\<lambda>f. zf_name f = k) schema of
                         None \<Rightarrow> map_option VStr (raw k)
                       | Some f \<Rightarrow> (case parse_field is_url js_number raw f of Inl _ \<Rightarrow> None | Inr v \<Rightarrow> v)))"

text \<open>\<open>config.get<string>(k)\<close> and \<open>config.get<boolean>(k)\<close>.\<close>

definition get_text :: "config \<Rightarrow> string \<Rightarrow> string option" where
  "get_text c k = (case c k of Some (VStr s) \<Rightarrow> Some s | _ \<Rightarrow> None)"

definition get_bool :: "config \<Rightarrow> string \<Rightarrow> bool option" where
  "get_bool c k = (case c k of Some (VBool b) \<Rightarrow> Some b | _ \<Rightarrow> None)"

section \<open>What a booted server relies on\<close>

lemma map_filter_Nil: "List.map_filter g xs = [] \<longleftrightarrow> (\<forall>x \<in> set xs. g x = None)"
  by (induction xs) (auto simp: List.map_filter_simps split: option.splits)

lemma loadEnv_field:
  assumes "loadEnv is_url js_number raw = Inr c" and "find (\<lambda>f. zf_name f = k) schema = Some f"
  shows "case parse_field is_url js_number raw f of Inl n \<Rightarrow> False | Inr v \<Rightarrow> c k = v"
proof -
  have "f \<in> set schema" using assms(2) by (auto simp: find_Some_iff)
  moreover have "List.map_filter (\<lambda>f. case parse_field is_url js_number raw f of Inl n \<Rightarrow> Some n | Inr _ \<Rightarrow> None) schema = []"
    using assms(1) by (auto simp: loadEnv_def Let_def split: if_splits)
  ultimately have "\<exists>v. parse_field is_url js_number raw f = Inr v"
    unfolding map_filter_Nil by (cases "parse_field is_url js_number raw f") fastforce+
  with assms show ?thesis by (auto simp: loadEnv_def Let_def split: if_splits)
qed

lemmas field_at = schema_def field_def

lemma find_url: "find (\<lambda>f. zf_name f = k) schema = Some (field k ZUrl Required)" if "k \<in> {''DATABASE_URL'', ''AUTH_JWKS_URL''}"
  using that by (auto simp: field_at)

lemma get_required_url:
  assumes "loadEnv is_url js_number raw = Inr c" and "k \<in> {''DATABASE_URL'', ''AUTH_JWKS_URL''}"
  shows "\<exists>u. raw k = Some u \<and> is_url u \<and> get_text c k = Some u"
  using loadEnv_field [OF assms(1) find_url [OF assms(2)]]
  by (auto simp: parse_field_def parse_kind_def field_def get_text_def split: option.splits if_splits)

lemma get_optional_url:
  assumes "loadEnv is_url js_number raw = Inr c" and "k \<in> {''REDIS_URL'', ''DATABASE_URL_LISTEN''}"
  shows "get_text c k = raw k \<and> (\<forall>u. raw k = Some u \<longrightarrow> is_url u)"
proof -
  have "find (\<lambda>f. zf_name f = k) schema = Some (field k ZUrl Optional)" using assms(2) by (auto simp: field_at)
  from loadEnv_field [OF assms(1) this] show ?thesis
    by (auto simp: parse_field_def parse_kind_def field_def get_text_def split: option.splits if_splits)
qed

lemma get_driver:
  assumes "loadEnv is_url js_number raw = Inr c"
  shows "raw ''JOBS_DRIVER'' \<in> {None, Some ''pgcron'', Some ''bullmq''}"
    and "get_text c ''JOBS_DRIVER'' = Some (case raw ''JOBS_DRIVER'' of None \<Rightarrow> ''pgcron'' | Some s \<Rightarrow> s)"
proof -
  have "find (\<lambda>f. zf_name f = ''JOBS_DRIVER'') schema = Some (field ''JOBS_DRIVER'' (ZEnum [''pgcron'', ''bullmq'']) (Default (VStr ''pgcron'')))"
    by (simp add: field_at)
  from loadEnv_field [OF assms this]
  show "raw ''JOBS_DRIVER'' \<in> {None, Some ''pgcron'', Some ''bullmq''}"
    "get_text c ''JOBS_DRIVER'' = Some (case raw ''JOBS_DRIVER'' of None \<Rightarrow> ''pgcron'' | Some s \<Rightarrow> s)"
    by (auto simp: parse_field_def parse_kind_def field_def get_text_def split: option.splits if_splits)
qed

lemma get_realtime:
  assumes "loadEnv is_url js_number raw = Inr c"
  shows "raw ''REALTIME_ENABLED'' \<in> {None, Some ''true'', Some ''false''}"
    and "get_bool c ''REALTIME_ENABLED'' = Some (raw ''REALTIME_ENABLED'' \<noteq> Some ''false'')"
proof -
  have "find (\<lambda>f. zf_name f = ''REALTIME_ENABLED'') schema =
      Some ((field ''REALTIME_ENABLED'' (ZEnum [''true'', ''false'']) (Default (VStr ''true'')))\<lparr>zf_transform := is_true\<rparr>)"
    by (simp add: field_at)
  from loadEnv_field [OF assms this]
  show "raw ''REALTIME_ENABLED'' \<in> {None, Some ''true'', Some ''false''}"
    "get_bool c ''REALTIME_ENABLED'' = Some (raw ''REALTIME_ENABLED'' \<noteq> Some ''false'')"
    by (auto simp: parse_field_def parse_kind_def field_def get_bool_def is_true_def split: option.splits if_splits)
qed

lemma get_port:
  assumes "loadEnv is_url js_number raw = Inr c"
  shows "\<exists>n. c ''PORT'' = Some (VNum n)"
proof -
  have "find (\<lambda>f. zf_name f = ''PORT'') schema = Some (field ''PORT'' ZNumber (Default (VNum 3000)))" by (simp add: field_at)
  from loadEnv_field [OF assms this] show ?thesis
    by (auto simp: parse_field_def parse_kind_def field_def split: option.splits if_splits)
qed

lemma get_plain:
  assumes "loadEnv is_url js_number raw = Inr c"
  shows "get_text c ''AUTH_ISSUER'' = raw ''AUTH_ISSUER''" "raw ''AUTH_ISSUER'' \<noteq> None"
    and "get_text c ''AUTH_AUDIENCE'' = Some (case raw ''AUTH_AUDIENCE'' of None \<Rightarrow> ''authenticated'' | Some s \<Rightarrow> s)"
proof -
  have f: "find (\<lambda>f. zf_name f = ''AUTH_ISSUER'') schema = Some (field ''AUTH_ISSUER'' ZString Required)"
    "find (\<lambda>f. zf_name f = ''AUTH_AUDIENCE'') schema = Some (field ''AUTH_AUDIENCE'' ZString (Default (VStr ''authenticated'')))"
    by (simp_all add: field_at)
  from loadEnv_field [OF assms f(1)] show "get_text c ''AUTH_ISSUER'' = raw ''AUTH_ISSUER''" "raw ''AUTH_ISSUER'' \<noteq> None"
    by (auto simp: parse_field_def parse_kind_def field_def get_text_def split: option.splits)
  from loadEnv_field [OF assms f(2)]
  show "get_text c ''AUTH_AUDIENCE'' = Some (case raw ''AUTH_AUDIENCE'' of None \<Rightarrow> ''authenticated'' | Some s \<Rightarrow> s)"
    by (auto simp: parse_field_def parse_kind_def field_def get_text_def split: option.splits)
qed

text \<open>
  What a server that passed the environment check can rely on.  The database is never refused for
  want of a URL and the port is a number; the token guard is built unless the issuer or the audience is the
  empty text; the realtime gateway is mounted and enabled exactly unless \<open>REALTIME_ENABLED\<close> is \<open>false\<close>, and then
  every upgrade is refused; the sweeps are scheduled in the process exactly if the driver is
  \<open>bullmq\<close> and a Redis URL is set, so with \<open>bullmq\<close> and no Redis the server boots and schedules nothing;
  and without Redis the rate limit is off.  A malformed value of any of them stops the boot.
\<close>

theorem boot_config_sound:
  assumes "loadEnv is_url js_number raw = Inr c" and "\<not> is_url []"
  shows "databaseFactory (get_text c) up = (case fst (waitForDatabase up) of Some e \<Rightarrow> Inl e | None \<Rightarrow> Inr (the (raw ''DATABASE_URL''))) \<and>
    (\<exists>n. c ''PORT'' = Some (VNum n)) \<and>
    ((\<exists>g. new_JwtGuard (get_text c) = Inr g) \<longleftrightarrow> raw ''AUTH_ISSUER'' \<noteq> Some [] \<and> raw ''AUTH_AUDIENCE'' \<noteq> Some []) \<and>
    (\<exists>g. svc_gateway (onApplicationBootstrap True (get_bool c)) = Some g \<and> enabled g = (raw ''REALTIME_ENABLED'' \<noteq> Some ''false'') \<and>
       (\<not> enabled g \<longrightarrow> (\<forall>listeners handshake now.
          onUpgrade (Some REALTIME_PATH) listeners handshake now g = effect Http503 (g\<lparr>refused := Suc (refused g)\<rparr>)))) \<and>
    js_worker (onModuleInit (get_text c) new_JobsService) = (raw ''JOBS_DRIVER'' = Some ''bullmq'' \<and> raw ''REDIS_URL'' \<noteq> None) \<and>
    getRedis (get_text c) Untried = (case raw ''REDIS_URL'' of None \<Rightarrow> Unavail | Some u \<Rightarrow> Client u)"
proof -
  have db: "\<exists>u. raw ''DATABASE_URL'' = Some u \<and> u \<noteq> [] \<and> get_text c ''DATABASE_URL'' = Some u"
    and jwks: "\<exists>u. u \<noteq> [] \<and> get_text c ''AUTH_JWKS_URL'' = Some u"
    using get_required_url [OF assms(1), of "''DATABASE_URL''"] get_required_url [OF assms(1), of "''AUTH_JWKS_URL''"] assms(2) by auto
  have redis: "get_text c ''REDIS_URL'' = raw ''REDIS_URL''" "raw ''REDIS_URL'' \<noteq> Some []"
    using get_optional_url [OF assms(1), of "''REDIS_URL''"] assms(2) by auto
  let ?g = "attach (new_gateway DEFAULT_REALTIME_OPTIONS (raw ''REALTIME_ENABLED'' \<noteq> Some ''false''))"
  have en: "enabled ?g = (raw ''REALTIME_ENABLED'' \<noteq> Some ''false'')"
    by (simp add: attach_def new_gateway_def effect_def Let_def)
  have up: "onUpgrade (Some REALTIME_PATH) listeners handshake now ?g = effect Http503 (?g\<lparr>refused := Suc (refused ?g)\<rparr>)"
    if "\<not> enabled ?g" for listeners handshake now
    using that by (simp add: onUpgrade_def REALTIME_PATH_def Let_def)
  have "js_worker (onModuleInit (get_text c) new_JobsService) = (raw ''JOBS_DRIVER'' = Some ''bullmq'' \<and> raw ''REDIS_URL'' \<noteq> None)"
    using get_driver [OF assms(1)] redis
    by (cases "raw ''REDIS_URL''") (auto simp: onModuleInit_def driver_def new_JobsService_def every_def Let_def split: option.split)
  moreover have "(\<exists>g. new_JwtGuard (get_text c) = Inr g) \<longleftrightarrow> raw ''AUTH_ISSUER'' \<noteq> Some [] \<and> raw ''AUTH_AUDIENCE'' \<noteq> Some []"
    using get_plain [OF assms(1)] jwks by (auto simp: new_JwtGuard_def Let_def split: option.split)
  moreover have "getRedis (get_text c) Untried = (case raw ''REDIS_URL'' of None \<Rightarrow> Unavail | Some u \<Rightarrow> Client u)"
    using redis by (auto simp: getRedis_def split: option.split)
  moreover have "svc_gateway (onApplicationBootstrap True (get_bool c)) = Some ?g"
    by (simp add: onApplicationBootstrap_def get_realtime(2) [OF assms(1)] Let_def)
  moreover have "databaseFactory (get_text c) up = (case fst (waitForDatabase up) of Some e \<Rightarrow> Inl e | None \<Rightarrow> Inr (the (raw ''DATABASE_URL'')))"
    using db by (auto simp: databaseFactory_def Let_def split: option.split)
  ultimately show ?thesis using get_port [OF assms(1)] en up by blast
qed

definition demo_env :: "string \<Rightarrow> string option" where
  "demo_env = map_of [(''DATABASE_URL'', ''postgres://db''), (''AUTH_JWKS_URL'', ''https://k''), (''AUTH_ISSUER'', ''me''),
     (''JOBS_DRIVER'', ''bullmq''), (''REALTIME_ENABLED'', ''false'')]"

theorem boot_config_sound_witness:
  "\<exists>c. loadEnv (\<lambda>s. s \<noteq> []) (\<lambda>_. None) demo_env = Inr c \<and> \<not> js_worker (onModuleInit (get_text c) new_JobsService)"
proof -
  have "\<forall>f \<in> set schema. \<exists>v. parse_field (\<lambda>s. s \<noteq> []) (\<lambda>_. None) demo_env f = Inr v"
    by (simp add: schema_def field_def parse_field_def parse_kind_def demo_env_def)
  then obtain c where c: "loadEnv (\<lambda>s. s \<noteq> []) (\<lambda>_. None) demo_env = Inr c"
    by (force simp: loadEnv_def Let_def map_filter_Nil split: sum.splits)
  from boot_config_sound [OF c] have "js_worker (onModuleInit (get_text c) new_JobsService) = (demo_env ''REDIS_URL'' \<noteq> None \<and> demo_env ''JOBS_DRIVER'' = Some ''bullmq'')"
    by auto
  with c show ?thesis by (simp add: demo_env_def)
qed

end
