(* ===== verification/Media.thy ===== *)
theory Media
  imports Identity Sql_Text
begin

text \<open>
  \<open>src/storage/\<close>: signed upload URLs and the public address of a profile photo.  The signing of the AWS
  client is a parameter; \<open>uuid\<close> is the value of \<open>randomUUID()\<close>.  The storage interface is a locale.
\<close>

section \<open>The interface\<close>

datatype storageBucket = Kyc | Media

text \<open>
  What the lookup of a purpose in an object literal gives: one of its two entries, a member of \<open>Object.prototype\<close>
  (which is no bucket name), or \<open>undefined\<close>.
\<close>

datatype bucketRef = Bucket storageBucket | Inherited string

record presignedUpload =
  pu_uploadUrl :: string
  pu_key :: string
  pu_expiresInSeconds :: nat

type_synonym upload_fn = "bucketRef \<Rightarrow> string \<Rightarrow> json option \<Rightarrow> exn + presignedUpload"

text \<open>What a client of the interface relies on: the key it gave comes back, with an URL that expires.\<close>

locale storage_provider =
  fixes getUploadUrl :: upload_fn
  assumes key_kept: "getUploadUrl b key ty = Inr r \<Longrightarrow> pu_key r = key"
    and short_lived: "getUploadUrl b key ty = Inr r \<Longrightarrow> 0 < pu_expiresInSeconds r \<and> pu_expiresInSeconds r \<le> 900"

section \<open>Public photos\<close>

definition toPublicMediaUrl :: "string option \<Rightarrow> string option \<Rightarrow> string option" where
  "toPublicMediaUrl key publicBaseUrl =
     (case key of None \<Rightarrow> None
      | Some k \<Rightarrow>
          if k = [] then None
          else if starts_with ''http://'' k \<or> starts_with ''https://'' k then Some k
          else if \<not> truthy_str publicBaseUrl then Some k
          else let base = the publicBaseUrl
               in Some ((if last base = CHR ''/'' then butlast base else base) @ ''/'' @ k))"

section \<open>The R2 provider\<close>

record s3Client =
  s3_endpoint :: string
  s3_accessKeyId :: string
  s3_secretAccessKey :: string

record r2Provider =
  r2_client :: "s3Client option"
  r2_kyc :: string
  r2_media :: string

definition new_R2Provider :: "(string \<Rightarrow> string option) \<Rightarrow> r2Provider" where
  "new_R2Provider config =
     (let acc = config ''R2_ACCOUNT_ID''; k = config ''R2_ACCESS_KEY_ID''; s = config ''R2_SECRET_ACCESS_KEY'';
          bk = config ''R2_BUCKET_KYC''; bm = config ''R2_BUCKET_MEDIA''
      in if truthy_str acc \<and> truthy_str k \<and> truthy_str s \<and> truthy_str bk \<and> truthy_str bm
         then \<lparr>r2_client = Some \<lparr>s3_endpoint = ''https://'' @ the acc @ ''.r2.cloudflarestorage.com'', s3_accessKeyId = the k,
                 s3_secretAccessKey = the s\<rparr>, r2_kyc = the bk, r2_media = the bm\<rparr>
         else \<lparr>r2_client = None, r2_kyc = [], r2_media = []\<rparr>)"

datatype s3Command = PutObject "string option" string "json option" | GetObject "string option" string

text \<open>\<open>this.buckets[bucket]\<close>; \<open>None\<close> is \<open>undefined\<close>.\<close>

definition bucket_name :: "r2Provider \<Rightarrow> bucketRef \<Rightarrow> string option" where
  "bucket_name p b = (case b of Bucket Kyc \<Rightarrow> Some (r2_kyc p) | Bucket Media \<Rightarrow> Some (r2_media p) | Inherited _ \<Rightarrow> None)"

type_synonym signer = "s3Client \<Rightarrow> s3Command \<Rightarrow> nat \<Rightarrow> exn + string"

definition getUploadUrl :: "signer \<Rightarrow> r2Provider \<Rightarrow> upload_fn" where
  "getUploadUrl sign p bucket key contentType =
     (case r2_client p of None \<Rightarrow> Inl (JsError ''Storage provider not configured'')
      | Some c \<Rightarrow> (case sign c (PutObject (bucket_name p bucket) key contentType) 300 of
            Inl e \<Rightarrow> Inl e | Inr url \<Rightarrow> Inr \<lparr>pu_uploadUrl = url, pu_key = key, pu_expiresInSeconds = 300\<rparr>))"

definition getDownloadUrl :: "signer \<Rightarrow> r2Provider \<Rightarrow> bucketRef \<Rightarrow> string \<Rightarrow> exn + string" where
  "getDownloadUrl sign p bucket key =
     (case r2_client p of None \<Rightarrow> Inl (JsError ''Storage provider not configured'')
      | Some c \<Rightarrow> sign c (GetObject (bucket_name p bucket) key) 900)"

text \<open>The AWS client refuses a command without a bucket.\<close>

definition signer_ok :: "signer \<Rightarrow> bool" where
  "signer_ok sign \<longleftrightarrow> (\<forall>c key ty n. \<exists>e. sign c (PutObject None key ty) n = Inl e)"

lemma signed_bucket: "signer_ok sign \<Longrightarrow> sign c (PutObject b key ty) n = Inr u \<Longrightarrow> \<exists>x. b = Some x"
  unfolding signer_ok_def by (cases b) (metis Inl_Inr_False, simp)

interpretation r2: storage_provider "getUploadUrl sign p" for sign p
  by unfold_locales (auto simp: getUploadUrl_def split: option.splits sum.splits)

section \<open>The upload endpoint\<close>

definition OBJECT_PROTOTYPE :: "string list" where
  "OBJECT_PROTOTYPE = [''constructor'', ''__proto__'', ''__defineGetter__'', ''__defineSetter__'', ''__lookupGetter__'', ''__lookupSetter__'',
     ''hasOwnProperty'', ''isPrototypeOf'', ''propertyIsEnumerable'', ''toLocaleString'', ''toString'', ''valueOf'']"

definition PURPOSE_TO_BUCKET :: "string \<Rightarrow> bucketRef option" where
  "PURPOSE_TO_BUCKET k =
     (if k = ''kyc'' then Some (Bucket Kyc) else if k = ''profile_photo'' then Some (Bucket Media)
      else if k \<in> set OBJECT_PROTOTYPE then Some (Inherited k) else None)"

definition alnum :: "char \<Rightarrow> bool" where
  "alnum c \<longleftrightarrow> (let n = of_char c :: nat in (97 \<le> n \<and> n \<le> 122) \<or> (65 \<le> n \<and> n \<le> 90) \<or> (48 \<le> n \<and> n \<le> 57))"

text \<open>A value as a property key and in a template: \<open>String(v)\<close>.\<close>

definition text_of :: "json option \<Rightarrow> string" where
  "text_of v = (case v of None \<Rightarrow> ''undefined'' | Some j \<Rightarrow> js_string j)"

definition safe_ext :: "string \<Rightarrow> string" where
  "safe_ext e = (let s = take 10 (filter alnum e) in if s = [] then ''bin'' else s)"

definition upload_key :: "string \<Rightarrow> string \<Rightarrow> string \<Rightarrow> string \<Rightarrow> string" where
  "upload_key purpose userId uuid ext = purpose @ ''/'' @ userId @ ''/'' @ uuid @ ''.'' @ ext"

definition uploadUrl :: "upload_fn \<Rightarrow> string \<Rightarrow> string \<Rightarrow> json option \<Rightarrow> json option \<Rightarrow> json option \<Rightarrow> exn + presignedUpload" where
  "uploadUrl up uuid userId purpose contentType extension =
     (case PURPOSE_TO_BUCKET (text_of purpose) of
        None \<Rightarrow> Inl (JsError ''INVALID_PURPOSE'')
      | Some bucket \<Rightarrow>
          (case extension of
             Some (JStr e) \<Rightarrow> up bucket (upload_key (text_of purpose) userId uuid (safe_ext e)) contentType
           | _ \<Rightarrow> Inl (JsError ''extension.replace is not a function'')))"

section \<open>Namespaces\<close>

lemma safe_ext_alnum: "safe_ext e \<noteq> [] \<and> length (safe_ext e) \<le> 10 \<and> (\<forall>c \<in> set (safe_ext e). alnum c)"
proof (cases "take 10 (filter alnum e) = []")
  case True
  then have "safe_ext e = ''bin''" by (simp add: safe_ext_def Let_def)
  moreover have "\<forall>c \<in> set ''bin''. alnum c" by code_simp
  ultimately show ?thesis by simp
next
  case False
  then have "safe_ext e = take 10 (filter alnum e)" by (simp add: safe_ext_def Let_def)
  moreover have "\<forall>c \<in> set (take 10 (filter alnum e)). alnum c"
    using set_take_subset [of 10 "filter alnum e"] unfolding set_filter by blast
  ultimately show ?thesis using False by (simp only: length_take min.cobounded2 simp_thms not_False_eq_True)
qed

lemma slash_split:
  assumes "CHR ''/'' \<notin> set a" and "CHR ''/'' \<notin> set a'" and "a @ ''/'' @ b = a' @ ''/'' @ b'"
  shows "a = a' \<and> b = b'"
proof -
  have t: "takeWhile (\<lambda>c. c \<noteq> CHR ''/'') (x @ ''/'' @ y) = x" if "CHR ''/'' \<notin> set x" for x y
    using that by (subst takeWhile_append2) auto
  from t [OF assms(1), of b] t [OF assms(2), of b'] assms(3) have "a = a'" by simp
  with assms(3) show ?thesis by simp
qed

lemma dot_split:
  assumes "CHR ''.'' \<notin> set a" and "CHR ''.'' \<notin> set a'" and "a @ ''.'' @ b = a' @ ''.'' @ b'"
  shows "a = a'"
proof -
  have t: "takeWhile (\<lambda>c. c \<noteq> CHR ''.'') (x @ ''.'' @ y) = x" if "CHR ''.'' \<notin> set x" for x y
    using that by (subst takeWhile_append2) auto
  from t [OF assms(1), of b] t [OF assms(2), of b'] assms(3) show "a = a'" by simp
qed

context storage_provider
begin

text \<open>An upload that is granted: its bucket is what the purpose looks up, its key is in the caller's own name space.\<close>

lemma granted:
  assumes "uploadUrl getUploadUrl uuid userId purpose ty extension = Inr r"
  shows "\<exists>b e. PURPOSE_TO_BUCKET (text_of purpose) = Some b \<and> extension = Some (JStr e) \<and>
    getUploadUrl b (upload_key (text_of purpose) userId uuid (safe_ext e)) ty = Inr r \<and>
    pu_key r = upload_key (text_of purpose) userId uuid (safe_ext e) \<and> 0 < pu_expiresInSeconds r \<and> pu_expiresInSeconds r \<le> 900"
  using assms by (auto simp: uploadUrl_def key_kept short_lived split: option.splits json.splits)

end

lemma r2_granted:
  assumes "signer_ok sign" and "uploadUrl (getUploadUrl sign p) uuid u purpose ty extension = Inr r"
  shows "\<exists>e c. text_of purpose \<in> {''kyc'', ''profile_photo''} \<and> pu_key r = upload_key (text_of purpose) u uuid (safe_ext e) \<and>
    r2_client p = Some c \<and> pu_expiresInSeconds r = 300 \<and>
    sign c (PutObject (Some (if text_of purpose = ''kyc'' then r2_kyc p else r2_media p)) (pu_key r) ty) 300 = Inr (pu_uploadUrl r)"
proof -
  from r2.granted [OF assms(2)] obtain b e where b: "PURPOSE_TO_BUCKET (text_of purpose) = Some b"
    and up: "getUploadUrl sign p b (upload_key (text_of purpose) u uuid (safe_ext e)) ty = Inr r"
    and key: "pu_key r = upload_key (text_of purpose) u uuid (safe_ext e)" by blast
  from up obtain c where c: "r2_client p = Some c"
    "sign c (PutObject (bucket_name p b) (pu_key r) ty) 300 = Inr (pu_uploadUrl r)" "pu_expiresInSeconds r = 300"
    by (auto simp: getUploadUrl_def split: option.splits sum.splits)
  from signed_bucket [OF assms(1) c(2)] have "\<exists>x. b = Bucket x" by (cases b) (auto simp: bucket_name_def)
  with b have "text_of purpose \<in> {''kyc'', ''profile_photo''} \<and>
      bucket_name p b = Some (if text_of purpose = ''kyc'' then r2_kyc p else r2_media p)"
    by (auto simp: PURPOSE_TO_BUCKET_def bucket_name_def split: if_splits)
  with c key show ?thesis by auto
qed

lemma purposes_no_slash: "p \<in> {''kyc'', ''profile_photo''} \<Longrightarrow> CHR ''/'' \<notin> set p"
  by auto

lemma upload_key_inj:
  assumes "p \<in> {''kyc'', ''profile_photo''}" and "p' \<in> {''kyc'', ''profile_photo''}"
    and "CHR ''/'' \<notin> set u" and "CHR ''/'' \<notin> set u'" and "CHR ''.'' \<notin> set i" and "CHR ''.'' \<notin> set i'"
    and "upload_key p u i e = upload_key p' u' i' e'"
  shows "u = u' \<and> i = i'"
proof -
  have "u @ ''/'' @ i @ ''.'' @ e = u' @ ''/'' @ i' @ ''.'' @ e'"
    using slash_split [OF purposes_no_slash [OF assms(1)] purposes_no_slash [OF assms(2)]] assms(7)
    unfolding upload_key_def by blast
  from slash_split [OF assms(3,4) this] dot_split [OF assms(5,6)] show ?thesis by blast
qed

text \<open>
  Uploads stay in the caller's name space.  A URL is signed only for \<open>kyc\<close> and \<open>profile_photo\<close>, each into its own
  bucket; the key is the purpose, the caller's id and a fresh id, with an extension of at most ten letters and digits,
  whatever the caller sends; it lives five minutes; and two callers, or two requests, never get the same key.  Without
  configuration nothing is signed.  A photo's key is public under the configured address.
\<close>

theorem upload_stays_in_own_namespace:
  assumes "signer_ok sign" and "uploadUrl (getUploadUrl sign p) uuid u purpose ty extension = Inr r"
    and "CHR ''/'' \<notin> set u" and "CHR ''.'' \<notin> set uuid"
  shows "(\<exists>e. pu_key r = upload_key (text_of purpose) u uuid (safe_ext e) \<and> safe_ext e \<noteq> [] \<and> length (safe_ext e) \<le> 10 \<and>
       (\<forall>c \<in> set (safe_ext e). alnum c)) \<and>
    (\<exists>c. r2_client p = Some c \<and> sign c (PutObject (Some (if text_of purpose = ''kyc'' then r2_kyc p else r2_media p)) (pu_key r) ty) 300 = Inr (pu_uploadUrl r)) \<and>
    text_of purpose \<in> {''kyc'', ''profile_photo''} \<and> pu_expiresInSeconds r = 300 \<and>
    (\<forall>uuid' v purpose' ty' ext' r'. uploadUrl (getUploadUrl sign p) uuid' v purpose' ty' ext' = Inr r' \<and>
       CHR ''/'' \<notin> set v \<and> CHR ''.'' \<notin> set uuid' \<and> (v \<noteq> u \<or> uuid' \<noteq> uuid) \<longrightarrow> pu_key r' \<noteq> pu_key r) \<and>
    (\<forall>base. base \<noteq> [] \<and> last base \<noteq> CHR ''/'' \<longrightarrow> toPublicMediaUrl (Some (pu_key r)) (Some base) = Some (base @ ''/'' @ pu_key r))"
proof -
  from r2_granted [OF assms(1,2)] obtain e c where p: "text_of purpose \<in> {''kyc'', ''profile_photo''}"
    and k: "pu_key r = upload_key (text_of purpose) u uuid (safe_ext e)" and c: "r2_client p = Some c" "pu_expiresInSeconds r = 300"
    "sign c (PutObject (Some (if text_of purpose = ''kyc'' then r2_kyc p else r2_media p)) (pu_key r) ty) 300 = Inr (pu_uploadUrl r)" by blast
  have "pu_key r' \<noteq> pu_key r" if o: "uploadUrl (getUploadUrl sign p) uuid' v purpose' ty' ext' = Inr r'"
    "CHR ''/'' \<notin> set v" "CHR ''.'' \<notin> set uuid'" "v \<noteq> u \<or> uuid' \<noteq> uuid" for uuid' v purpose' ty' ext' r'
  proof
    assume same: "pu_key r' = pu_key r"
    from r2_granted [OF assms(1) o(1)] obtain e' where "text_of purpose' \<in> {''kyc'', ''profile_photo''}"
      "pu_key r' = upload_key (text_of purpose') v uuid' (safe_ext e')" by blast
    with upload_key_inj [OF p _ assms(3) o(2) assms(4) o(3)] k same o(4) show False by metis
  qed
  moreover have "toPublicMediaUrl (Some (pu_key r)) (Some base) = Some (base @ ''/'' @ pu_key r)"
    if "base \<noteq> []" "last base \<noteq> CHR ''/''" for base
    using that p unfolding k by (auto simp: toPublicMediaUrl_def upload_key_def starts_with_def)
  ultimately show ?thesis using p k c safe_ext_alnum by blast
qed

definition demo_signer :: signer where
  "demo_signer c cmd n = (case cmd of PutObject (Some b) k ty \<Rightarrow> Inr (s3_endpoint c @ ''/'' @ b @ ''/'' @ k) | _ \<Rightarrow> Inl (JsError ''Bucket''))"

theorem upload_stays_in_own_namespace_witness:
  "\<exists>r. uploadUrl (getUploadUrl demo_signer (new_R2Provider (\<lambda>_. Some ''x''))) ''id'' ''fan'' (Some (JStr ''profile_photo'')) None
       (Some (JStr ''../j/p.g'')) = Inr r \<and> pu_expiresInSeconds r = 300 \<and> pu_key r = ''profile_photo/fan/id.jpg''"
proof -
  let ?up = "uploadUrl (getUploadUrl demo_signer (new_R2Provider (\<lambda>_. Some ''x''))) ''id'' ''fan'' (Some (JStr ''profile_photo'')) None (Some (JStr ''../j/p.g''))"
  have "signer_ok demo_signer" by (simp add: signer_ok_def demo_signer_def)
  moreover have "safe_ext ''../j/p.g'' = ''jpg''" by code_simp
  moreover obtain r where r: "?up = Inr r"
    by (simp add: uploadUrl_def text_of_def PURPOSE_TO_BUCKET_def getUploadUrl_def new_R2Provider_def bucket_name_def demo_signer_def)
  ultimately show ?thesis
    using upload_stays_in_own_namespace [OF _ r] r2.granted [OF r] by (auto simp: upload_key_def text_of_def)
qed

end
