(* ===== verification/Catalog.thy ===== *)
theory Catalog
  imports Admin Media
begin

text \<open>
  \<open>src/catalog/catalog.module.ts\<close>: what a partner offers, over the tables of migration 0003, the policies of 0011 and the
  column guard of 0024 and 0034.  The two columns of \<open>partner_profiles\<close> that only discovery reads and its flags
  are a row of their own.  The connection is the application role, which row level security binds.
\<close>

section \<open>Tables\<close>

record creatorRow =
  cr_id :: string
  cr_active :: bool
  cr_premium :: bool
  cr_featured :: bool
  cr_handle :: "string option"

record serviceRow =
  sv_partner :: string
  sv_type :: string
  sv_duration :: "string option"
  sv_price :: int
  sv_active :: bool

record socialLink =
  sl_id :: nat
  sl_partner :: string
  sl_platform :: string
  sl_url :: string
  sl_approved :: bool
  sl_approved_by :: "string option"
  sl_updated :: int

record category =
  ct_slug :: string
  ct_name :: string
  ct_order :: int

record catalogDb = identityDb +
  creators :: "creatorRow list"
  services_of :: "serviceRow list"
  social_links :: "socialLink list"
  categories_tbl :: "category list"
  partner_cats :: "(string \<times> string) list"
  favourites_tbl :: "(string \<times> string \<times> int) list"
  waitlist_tbl :: "(string \<times> string \<times> string) list"
  next_link :: nat

text \<open>\<open>current_user_id()\<close> and \<open>is_admin()\<close> (migration 0010).\<close>

definition current_user_id :: "session \<Rightarrow> string option" where
  "current_user_id s = (if truthy_str (app_user_id s) then app_user_id s else None)"

definition is_admin :: "session \<Rightarrow> 'a identityDb_scheme \<Rightarrow> bool" where
  "is_admin s d \<longleftrightarrow> (\<exists>u. current_user_id s = Some u \<and> admin_row u d)"

section \<open>Services and categories\<close>

definition myServices :: "session \<Rightarrow> string \<Rightarrow> ('a catalogDb_scheme, serviceRow list) act" where
  "myServices base u = runAs base u (execute (\<lambda>s d. Inr (filter (\<lambda>r. sv_partner r = u) (services_of d), d)))"

definition setService :: "'d sqlFns \<Rightarrow> session \<Rightarrow> string \<Rightarrow> json \<Rightarrow> ('d, json) act" where
  "setService F base u b =
     runAs base u (rpc (fn F ''rpc_partner_set_service''
       [jstr u, jget b ''type'', if truthy (jget b ''duration'') then jget b ''duration'' else Some JNull,
        jget b ''pricePaise'', nullish (jget b ''active'') (JBool True)]))"

definition myCategories :: "session \<Rightarrow> string \<Rightarrow> ('a catalogDb_scheme, category list) act" where
  "myCategories base u = runAs base u (execute (\<lambda>s d. Inr (sort_key ct_order
     (filter (\<lambda>c. (u, ct_slug c) \<in> set (partner_cats d)) (categories_tbl d)), d)))"

text \<open>
  \<open>slugs ?? []\<close>; each element becomes a text parameter of an \<open>ARRAY[...]\<close>, and an element without SQL text fails the statement.
\<close>

definition slug_array :: "json list \<Rightarrow> string + json" where
  "slug_array xs =
     (if \<forall>x \<in> set xs. \<exists>t. sql_text (Some x) = Inr t
      then Inr (JArr (map (\<lambda>x. case sql_text (Some x) of Inr (Some t) \<Rightarrow> JStr t | _ \<Rightarrow> JNull) xs)) else Inl ''invalid parameter'')"

definition setCategories :: "'d sqlFns \<Rightarrow> session \<Rightarrow> string \<Rightarrow> json option \<Rightarrow> ('d, json) act" where
  "setCategories F base u slugs w =
     (case nullish slugs (JArr []) of
        Some (JArr xs) \<Rightarrow> runAs base u (rpc (\<lambda>s d. case slug_array xs of Inl e \<Rightarrow> Inl e
           | Inr arr \<Rightarrow> F ''rpc_partner_set_categories'' [JStr u, arr] s d)) w
      | _ \<Rightarrow> (Inl (bad_request ''slugs must be an array''), w))"

section \<open>Social links\<close>

definition PLATFORMS :: "string list" where
  "PLATFORMS = [''YOUTUBE'', ''INSTAGRAM'', ''FACEBOOK'', ''TWITTER'']"

definition lower_char :: "char \<Rightarrow> char" where
  "lower_char c = (let n = of_char c :: nat in if 65 \<le> n \<and> n \<le> 90 then char_of (n + 32) else c)"

text \<open>\<open>/^https?:\/\//i\<close>.\<close>

definition has_scheme :: "string \<Rightarrow> bool" where
  "has_scheme url \<longleftrightarrow> map lower_char (take 7 url) = ''http://'' \<or> map lower_char (take 8 url) = ''https://''"

definition after_scheme :: "string \<Rightarrow> string" where
  "after_scheme url = (if map lower_char (take 7 url) = ''http://'' then drop 7 url else drop 8 url)"

text \<open>\<open>/^https?:\/\/[^\s.]+\.[^\s]+$/i\<close>: up to the first dot something, after it something, and no white space.\<close>

definition link_ok :: "string \<Rightarrow> bool" where
  "link_ok url \<longleftrightarrow> has_scheme url \<and>
     (let rest = after_scheme url; host = takeWhile (\<lambda>c. c \<noteq> CHR ''.'') rest; tail = drop (length host) rest
      in host \<noteq> [] \<and> 1 < length tail \<and> (\<forall>c \<in> set rest. \<not> js_space c))"

definition normalize_url :: "string \<Rightarrow> string" where
  "normalize_url raw = (let url = trim raw in if url \<noteq> [] \<and> \<not> has_scheme url then ''https://'' @ url else url)"

text \<open>
  The upsert.  The policy lets the owner write; the update of an existing row passes the column guard, which stops
  a change of the approval by anyone but an administrator.
\<close>

definition ups_link :: "string \<Rightarrow> string \<Rightarrow> string \<Rightarrow> ('a catalogDb_scheme, unit) stmt" where
  "ups_link u platform url s d =
     (if current_user_id s \<noteq> Some u \<and> \<not> is_admin s d then Inl ''new row violates row-level security policy''
      else if partner_of u d = None then Inl ''insert violates foreign key constraint''
      else case find (\<lambda>l. sl_partner l = u \<and> sl_platform l = platform) (social_links d) of
             None \<Rightarrow> Inr ((), d\<lparr>next_link := Suc (next_link d), social_links := social_links d @
                 [\<lparr>sl_id = next_link d, sl_partner = u, sl_platform = platform, sl_url = url, sl_approved = False,
                   sl_approved_by = None, sl_updated = sess_now s\<rparr>]\<rparr>)
           | Some l \<Rightarrow>
               if (sl_approved l \<or> sl_approved_by l \<noteq> None) \<and> \<not> is_admin s d
               then Inl ''42501 FORBIDDEN: column is_approved is admin-only and cannot be changed by the row owner''
               else Inr ((), d\<lparr>social_links := map (\<lambda>x. if sl_partner x = u \<and> sl_platform x = platform
                    then x\<lparr>sl_url := url, sl_approved := False, sl_approved_by := None, sl_updated := sess_now s\<rparr> else x) (social_links d)\<rparr>))"

definition setSocialLink :: "session \<Rightarrow> string \<Rightarrow> json \<Rightarrow> ('a catalogDb_scheme, json) act" where
  "setSocialLink base u b w =
     (case jget b ''platform'' of
        Some (JStr platform) \<Rightarrow>
          if platform \<notin> set PLATFORMS
          then (Inl (bad_request ''platform must be one of YOUTUBE, INSTAGRAM, FACEBOOK, TWITTER''), w)
          else (case nullish (jget b ''url'') (JStr []) of
                  Some (JStr raw) \<Rightarrow>
                    (let url = normalize_url raw in
                     if \<not> link_ok url then (Inl (bad_request ''Enter a valid link, e.g. instagram.com/yourname''), w)
                     else runAs base u (tx_bind (execute (ups_link u platform url)) (\<lambda>_. tx_return (ok_json []))) w)
                | _ \<Rightarrow> (Inl (JsError ''b?.url?.trim is not a function''), w))
      | _ \<Rightarrow> (Inl (bad_request ''platform must be one of YOUTUBE, INSTAGRAM, FACEBOOK, TWITTER''), w))"

text \<open>The order of the platforms is that of the enum.\<close>

definition mySocialLinks :: "session \<Rightarrow> string \<Rightarrow> ('a catalogDb_scheme, socialLink list) act" where
  "mySocialLinks base u = runAs base u (execute (\<lambda>s d. Inr (sort_key (\<lambda>l. length (takeWhile (\<lambda>p. p \<noteq> sl_platform l) PLATFORMS))
     (filter (\<lambda>l. sl_partner l = u) (social_links d)), d)))"

definition removeSocialLink :: "session \<Rightarrow> string \<Rightarrow> nat \<Rightarrow> ('a catalogDb_scheme, json) act" where
  "removeSocialLink base u i =
     runAs base u (tx_bind (execute (\<lambda>s d. Inr ((), d\<lparr>social_links := filter (\<lambda>l. \<not> (sl_id l = i \<and> sl_partner l = u)) (social_links d)\<rparr>)))
       (\<lambda>_. tx_return (ok_json [])))"

section \<open>What a link is\<close>

lemma has_scheme_https [simp]: "has_scheme (''https://'' @ url)"
  by (simp add: has_scheme_def lower_char_def Let_def)

lemma after_scheme_https [simp]: "after_scheme (''https://'' @ url) = url"
  by (simp add: after_scheme_def lower_char_def Let_def)

text \<open>Normalising is idempotent.\<close>

lemma normalize_idem: "normalize_url (normalize_url raw) = normalize_url raw"
proof (cases "trim raw \<noteq> [] \<and> \<not> has_scheme (trim raw)")
  case True
  then have n: "normalize_url raw = ''https://'' @ trim raw" by (simp add: normalize_url_def)
  have "\<not> js_space (last (trim raw))" using True trim_by_ends [of js_space raw] by (simp add: trim_def)
  moreover have "\<not> js_space CHR ''h''" by (simp add: js_space_def)
  ultimately have t: "trim (''https://'' @ trim raw) = ''https://'' @ trim raw"
    using True by (intro trim_id) simp_all
  show ?thesis unfolding n by (subst normalize_url_def) (simp only: t Let_def has_scheme_https simp_thms if_False)
next
  case False
  then have "normalize_url raw = trim raw" by (auto simp: normalize_url_def Let_def)
  with False show ?thesis by (auto simp: normalize_url_def Let_def trim_trim)
qed

definition links_of :: "string \<Rightarrow> string \<Rightarrow> 'a catalogDb_scheme \<Rightarrow> socialLink list" where
  "links_of u platform d = filter (\<lambda>l. sl_partner l = u \<and> sl_platform l = platform) (social_links d)"

definition links_ok :: "'a catalogDb_scheme \<Rightarrow> bool" where
  "links_ok d \<longleftrightarrow> (\<forall>u p. length (links_of u p d) \<le> 1)"

lemma filter_map_same: "(\<And>x. P (f x) \<longleftrightarrow> P x) \<Longrightarrow> filter P (map f xs) = map f (filter P xs)"
  by (induction xs) simp_all

lemma find_links: "find (\<lambda>l. sl_partner l = u \<and> sl_platform l = p) (social_links d) = (case links_of u p d of [] \<Rightarrow> None | l # _ \<Rightarrow> Some l)"
proof -
  have "find P xs = (case filter P xs of [] \<Rightarrow> None | l # _ \<Rightarrow> Some l)" for P and xs :: "socialLink list" by (induction xs) auto
  then show ?thesis by (simp add: links_of_def)
qed

lemma setSocialLink_eq:
  assumes "jget b ''platform'' = Some (JStr p)" and "p \<in> set PLATFORMS" and "jget b ''url'' = Some (JStr raw)"
    and "link_ok (normalize_url raw)" and "u \<noteq> []" and "partner_of u (w_db w) \<noteq> None"
  shows "setSocialLink base u b w = (case ups_link u p (normalize_url raw) (base\<lparr>app_user_id := Some u\<rparr>) (w_db w) of
     Inl e \<Rightarrow> (Inl (PgError e), w) | Inr (_, d) \<Rightarrow> (Inr (ok_json []), w\<lparr>w_db := d\<rparr>))"
  using assms by (auto simp: setSocialLink_def nullish_def Let_def runAs_def transaction_def tx_defs split: sum.split prod.split)

text \<open>
  Editing a social link.  A link that is accepted is absolute, has a host with a dot and no white space, and
  normalising it again changes nothing; anything else is a 400 that changes nothing.  A partner has at most one link per platform:
  saving one leaves exactly one for that platform, with the new address and without approval, and all other
  links as they were.  But a link that has been approved can never be edited by its owner: the reset of the
  approval runs into the column guard, so the request is a database error and the old address stays public.
\<close>

theorem social_link_editing:
  fixes w :: "'a catalogDb_scheme world"
  assumes body: "jget b ''platform'' = Some (JStr p)" "p \<in> set PLATFORMS" "jget b ''url'' = Some (JStr raw)"
    and who: "u \<noteq> []" "partner_of u (w_db w) \<noteq> None" "\<not> admin_row u (w_db w)"
    and links: "links_ok (w_db w)"
  shows "(\<not> link_ok (normalize_url raw) \<longrightarrow>
      setSocialLink base u b w = (Inl (bad_request ''Enter a valid link, e.g. instagram.com/yourname''), w)) \<and>
    (link_ok (normalize_url raw) \<longrightarrow>
      has_scheme (normalize_url raw) \<and> (\<forall>c \<in> set (after_scheme (normalize_url raw)). \<not> js_space c) \<and>
      CHR ''.'' \<in> set (after_scheme (normalize_url raw)) \<and> normalize_url (normalize_url raw) = normalize_url raw \<and>
      (if \<exists>l \<in> set (links_of u p (w_db w)). sl_approved l \<or> sl_approved_by l \<noteq> None
       then \<exists>e. setSocialLink base u b w = (Inl (PgError e), w)
       else \<exists>w' l. setSocialLink base u b w = (Inr (ok_json []), w') \<and> links_of u p (w_db w') = [l] \<and>
         sl_url l = normalize_url raw \<and> \<not> sl_approved l \<and> links_ok (w_db w') \<and>
         (\<forall>v q. (v, q) \<noteq> (u, p) \<longrightarrow> links_of v q (w_db w') = links_of v q (w_db w))))"
proof (intro conjI impI)
  assume "\<not> link_ok (normalize_url raw)"
  with body show "setSocialLink base u b w = (Inl (bad_request ''Enter a valid link, e.g. instagram.com/yourname''), w)"
    by (simp add: setSocialLink_def nullish_def Let_def)
next
  assume l: "link_ok (normalize_url raw)"
  show "has_scheme (normalize_url raw)" "\<forall>c \<in> set (after_scheme (normalize_url raw)). \<not> js_space c"
    using l by (simp_all add: link_ok_def Let_def)
  show "CHR ''.'' \<in> set (after_scheme (normalize_url raw))"
  proof (rule ccontr)
    assume "CHR ''.'' \<notin> set (after_scheme (normalize_url raw))"
    then have "takeWhile (\<lambda>c. c \<noteq> CHR ''.'') (after_scheme (normalize_url raw)) = after_scheme (normalize_url raw)"
      by (auto simp: takeWhile_eq_all_conv)
    with l show False by (simp add: link_ok_def Let_def)
  qed
  show "normalize_url (normalize_url raw) = normalize_url raw" by (rule normalize_idem)
  let ?s = "base\<lparr>app_user_id := Some u\<rparr>" and ?d = "w_db w"
  have adm: "\<not> is_admin ?s ?d" "current_user_id ?s = Some u" using who by (simp_all add: is_admin_def current_user_id_def)
  note run = setSocialLink_eq [OF body l who(1,2), of base]
  show "if \<exists>l \<in> set (links_of u p ?d). sl_approved l \<or> sl_approved_by l \<noteq> None
       then \<exists>e. setSocialLink base u b w = (Inl (PgError e), w)
       else \<exists>w' l. setSocialLink base u b w = (Inr (ok_json []), w') \<and> links_of u p (w_db w') = [l] \<and>
         sl_url l = normalize_url raw \<and> \<not> sl_approved l \<and> links_ok (w_db w') \<and>
         (\<forall>v q. (v, q) \<noteq> (u, p) \<longrightarrow> links_of v q (w_db w') = links_of v q ?d)"
  proof (cases "links_of u p ?d")
    case Nil
    let ?l = "\<lparr>sl_id = next_link ?d, sl_partner = u, sl_platform = p, sl_url = normalize_url raw, sl_approved = False,
      sl_approved_by = None, sl_updated = sess_now ?s\<rparr>"
    have d: "setSocialLink base u b w = (Inr (ok_json []), w\<lparr>w_db := ?d\<lparr>next_link := Suc (next_link ?d), social_links := social_links ?d @ [?l]\<rparr>\<rparr>)"
      unfolding run using adm who(2) Nil by (simp add: ups_link_def find_links)
    have o: "links_of v q (?d\<lparr>next_link := Suc (next_link ?d), social_links := social_links ?d @ [?l]\<rparr>) =
        links_of v q ?d @ (if (v, q) = (u, p) then [?l] else [])" for v q by (auto simp: links_of_def)
    have "links_ok (?d\<lparr>next_link := Suc (next_link ?d), social_links := social_links ?d @ [?l]\<rparr>)"
      using links Nil unfolding links_ok_def o by auto
    with Nil d o show ?thesis by auto
  next
    case (Cons l0 ls)
    then have ls: "links_of u p ?d = [l0]" using links [unfolded links_ok_def, THEN spec, THEN spec, of u p] by simp
    show ?thesis
    proof (cases "sl_approved l0 \<or> sl_approved_by l0 \<noteq> None")
      case True
      then show ?thesis unfolding run using adm who(2) ls by (auto simp: ups_link_def find_links)
    next
      case False
      let ?f = "\<lambda>x. if sl_partner x = u \<and> sl_platform x = p then x\<lparr>sl_url := normalize_url raw, sl_approved := False,
          sl_approved_by := None, sl_updated := sess_now ?s\<rparr> else x"
      let ?d1 = "?d\<lparr>social_links := map ?f (social_links ?d)\<rparr>"
      have d: "setSocialLink base u b w = (Inr (ok_json []), w\<lparr>w_db := ?d1\<rparr>)"
        unfolding run using adm who(2) ls False by (simp add: ups_link_def find_links)
      have o: "links_of v q ?d1 = map ?f (links_of v q ?d)" for v q
      proof -
        have "social_links ?d1 = map ?f (social_links ?d)" by simp
        then show ?thesis unfolding links_of_def by (simp only:) (rule filter_map_same, simp)
      qed
      have l0: "sl_partner l0 = u" "sl_platform l0 = p"
        using ls by (auto simp: links_of_def filter_eq_Cons_iff)
      have same: "links_of v q ?d1 = links_of v q ?d" if "(v, q) \<noteq> (u, p)" for v q
        unfolding o using that by (intro map_idI) (auto simp: links_of_def)
      have "links_ok ?d1" using links unfolding links_ok_def o by simp
      moreover have "links_of u p ?d1 = [?f l0]" unfolding o ls by simp
      ultimately show ?thesis using False ls l0 d same by auto
    qed
  qed
qed

definition demo_catalog_db :: "bool \<Rightarrow> catalogDb" where
  "demo_catalog_db approved = \<lparr>people = [], partners = [\<lparr>pr_id = ''star'', pr_display_name = ''Star'', pr_bio = None, pr_image = None,
       pr_status = P_ACTIVE, pr_vacation = False, pr_complete = True, pr_languages = None\<rparr>],
     applications = [], del_requests = [], wallet_owners = [], next_app = 1,
     creators = [\<lparr>cr_id = ''star'', cr_active = True, cr_premium = False, cr_featured = False, cr_handle = Some ''Star''\<rparr>],
     services_of = [], social_links = [\<lparr>sl_id = 1, sl_partner = ''star'', sl_platform = ''YOUTUBE'', sl_url = ''https://a.b'',
       sl_approved = approved, sl_approved_by = None, sl_updated = 0\<rparr>],
     categories_tbl = [], partner_cats = [], favourites_tbl = [], waitlist_tbl = [], next_link = 2\<rparr>"

theorem social_link_editing_witness:
  "\<exists>e. setSocialLink demo_session ''star'' (JObj [(''platform'', JStr ''YOUTUBE''), (''url'', JStr '' c.d '')]) \<lparr>w_db = demo_catalog_db True, w_log = []\<rparr> =
     (Inl (PgError e), \<lparr>w_db = demo_catalog_db True, w_log = []\<rparr>)"
proof -
  let ?b = "JObj [(''platform'', JStr ''YOUTUBE''), (''url'', JStr '' c.d '')]"
  have l: "link_ok (normalize_url '' c.d '')" by code_simp
  have u: "links_of v q (demo_catalog_db True) = (if v = ''star'' \<and> q = ''YOUTUBE'' then social_links (demo_catalog_db True) else [])" for v q
    by (auto simp: links_of_def demo_catalog_db_def)
  have o: "links_ok (demo_catalog_db True)" unfolding links_ok_def u by (simp add: demo_catalog_db_def)
  have w: "partner_of ''star'' (demo_catalog_db True) \<noteq> None" "\<not> admin_row ''star'' (demo_catalog_db True)"
    by (simp_all add: partner_of_def admin_row_def demo_catalog_db_def)
  show ?thesis
    using social_link_editing [of ?b "''YOUTUBE''" "'' c.d ''" "''star''" "\<lparr>w_db = demo_catalog_db True, w_log = []\<rparr>" demo_session] l o w u
    by (simp add: PLATFORMS_def demo_catalog_db_def)
qed

end
