(* ===== verification/Discovery.thy ===== *)
theory Discovery
  imports Catalog "HOL-Library.Product_Lexorder"
begin

text \<open>
  \<open>src/discovery/discovery.module.ts\<close>: the feed of partners with search, the public page behind a handle, favourites and the waitlist,
  over the view and function of migration 0046, the policies of 0011 and the functions of 0023 and 0060.
  \<open>lc\<close> is the database's \<open>lower\<close>, \<open>coll\<close> the sort key of its collation, \<open>uuid_in\<close> its reading of a \<open>uuid\<close>.
\<close>

section \<open>Tables\<close>

record conversation =
  cv_id :: nat
  cv_fan :: string
  cv_partner :: string
  cv_activity :: int

datatype messageSender = FAN_SENT | PARTNER_SENT

record message =
  ms_window :: nat
  ms_sender :: messageSender
  ms_body :: string
  ms_created :: int

record discoveryDb = catalogDb +
  dv_calls :: "call list"
  dv_shoutouts :: "shoutout list"
  dv_conversations :: "conversation list"
  dv_windows :: "dmWindow list"
  dv_messages :: "message list"
  dv_bookings :: "booking list"

definition assert_caller :: "string \<Rightarrow> session \<Rightarrow> 'a identityDb_scheme \<Rightarrow> bool" where
  "assert_caller a s d \<longleftrightarrow> current_user_id s = Some a \<or> is_admin s d \<or> app_is_service_role s"

definition FORBIDDEN_CALLER :: string where
  "FORBIDDEN_CALLER = ''42501 FORBIDDEN: caller is not an authorized party''"

definition creator_of :: "string \<Rightarrow> 'a catalogDb_scheme \<Rightarrow> creatorRow option" where
  "creator_of u d = find (\<lambda>c. cr_id c = u) (creators d)"

section \<open>The services a partner offers\<close>

definition SERVICE_TYPES :: "string list" where
  "SERVICE_TYPES = [''VIDEO_CALL'', ''QUICK_QUESTION'', ''SHOUT_OUT'']"

definition DURATIONS :: "string list" where
  "DURATIONS = [''1'', ''2'', ''3'', ''5'', ''7'', ''9'', ''12'', ''15'']"

text \<open>\<open>rpc_partner_set_service\<close>; the key of the table is the partner, the type and the duration, a missing one included.\<close>

definition same_service :: "string \<Rightarrow> string \<Rightarrow> string option \<Rightarrow> serviceRow \<Rightarrow> bool" where
  "same_service u ty dur r \<longleftrightarrow> sv_partner r = u \<and> sv_type r = ty \<and> sv_duration r = dur"

definition rpc_partner_set_service :: "string \<Rightarrow> string \<Rightarrow> string option \<Rightarrow> int \<Rightarrow> bool \<Rightarrow> ('a catalogDb_scheme, json) stmt" where
  "rpc_partner_set_service u ty dur price active s d =
     (if \<not> assert_caller u s d then Inl FORBIDDEN_CALLER
      else if map_option pr_status (partner_of u d) \<noteq> Some P_ACTIVE then Inr (err_json ''PARTNER_NOT_ACTIVE'', d)
      else if ty = ''VIDEO_CALL'' \<and> dur = None then Inr (err_json ''DURATION_REQUIRED'', d)
      else if ty \<noteq> ''VIDEO_CALL'' \<and> dur \<noteq> None then Inr (err_json ''DURATION_NOT_ALLOWED'', d)
      else if active \<and> (price < 1000 \<or> price > 100000000) then Inr (err_json ''PRICE_OUT_OF_RANGE'', d)
      else if price \<le> 0 then Inl ''violates check constraint partner_services_price_positive''
      else Inr (ok_json [], d\<lparr>services_of :=
        (if \<exists>r \<in> set (services_of d). same_service u ty dur r
         then map (\<lambda>r. if same_service u ty dur r then r\<lparr>sv_price := price, sv_active := active\<rparr> else r) (services_of d)
         else services_of d @ [\<lparr>sv_partner = u, sv_type = ty, sv_duration = dur, sv_price = price, sv_active = active\<rparr>])\<rparr>))"

text \<open>As \<open>setService\<close> calls it: the type and the duration are cast to their enums.\<close>

fun set_service_fn :: "json list \<Rightarrow> ('a catalogDb_scheme, json) stmt" where
  "set_service_fn [JStr u, JStr ty, dur, JNum price, JBool active] s d =
     (if ty \<notin> set SERVICE_TYPES then Inl ''22P02 invalid input value for enum service_type_enum''
      else case dur of
             JNull \<Rightarrow> rpc_partner_set_service u ty None price active s d
           | JStr t \<Rightarrow> if t \<in> set DURATIONS then rpc_partner_set_service u ty (Some t) price active s d
                       else Inl ''22P02 invalid input value for enum call_duration_options_enum''
           | _ \<Rightarrow> Inl ''22P02 invalid input value for enum call_duration_options_enum'')"
| "set_service_fn _ s d = Inl ''22P02 invalid parameter''"

section \<open>The view of discoverable partners\<close>

record discoverRow =
  dp_id :: string
  dp_name :: string
  dp_bio :: "string option"
  dp_image :: "string option"
  dp_premium :: bool
  dp_featured :: bool
  dp_call_price :: "int option"
  dp_question_price :: "int option"
  dp_shoutout_price :: "int option"
  dp_categories :: "string list option"
  dp_rank :: nat
  dp_handle :: "string option"

text \<open>A scalar subquery raises if it has more than one row; \<open>min\<close> and \<open>array_agg\<close> are null on no row.\<close>

definition scalar :: "'x list \<Rightarrow> string + 'x option" where
  "scalar xs = (case xs of [] \<Rightarrow> Inr None | [x] \<Rightarrow> Inr (Some x)
     | _ \<Rightarrow> Inl ''21000 more than one row returned by a subquery used as an expression'')"

definition prices_of :: "string \<Rightarrow> string \<Rightarrow> 'a catalogDb_scheme \<Rightarrow> int list" where
  "prices_of u ty d = map sv_price (filter (\<lambda>r. sv_partner r = u \<and> sv_type r = ty \<and> sv_active r) (services_of d))"

definition sql_min :: "int list \<Rightarrow> int option" where
  "sql_min xs = (case sort xs of [] \<Rightarrow> None | x # _ \<Rightarrow> Some x)"

definition category_slugs :: "string \<Rightarrow> 'a catalogDb_scheme \<Rightarrow> string list option" where
  "category_slugs u d = (let xs = map snd (filter (\<lambda>pc. fst pc = u) (partner_cats d)) in if xs = [] then None else Some xs)"

text \<open>Where the view finds the partner.\<close>

definition listed :: "'a catalogDb_scheme \<Rightarrow> partnerRow \<Rightarrow> bool" where
  "listed d r \<longleftrightarrow> pr_status r = P_ACTIVE \<and> (\<exists>c. creator_of (pr_id r) d = Some c \<and> cr_active c) \<and> \<not> pr_vacation r"

definition discover_row :: "'a catalogDb_scheme \<Rightarrow> partnerRow \<Rightarrow> string + discoverRow" where
  "discover_row d r =
     (let u = pr_id r; c = the (creator_of u d) in
      case scalar (prices_of u ''QUICK_QUESTION'' d) of Inl e \<Rightarrow> Inl e
      | Inr qq \<Rightarrow> (case scalar (prices_of u ''SHOUT_OUT'' d) of Inl e \<Rightarrow> Inl e
        | Inr so \<Rightarrow> Inr \<lparr>dp_id = u, dp_name = pr_display_name r, dp_bio = pr_bio r, dp_image = pr_image r,
            dp_premium = cr_premium c, dp_featured = cr_featured c, dp_call_price = sql_min (prices_of u ''VIDEO_CALL'' d),
            dp_question_price = qq, dp_shoutout_price = so, dp_categories = category_slugs u d,
            dp_rank = (if cr_featured c then 0 else if cr_premium c then 1 else 2), dp_handle = cr_handle c\<rparr>))"

fun sequence :: "(string + 'x) list \<Rightarrow> string + 'x list" where
  "sequence [] = Inr []"
| "sequence (Inl e # xs) = Inl e"
| "sequence (Inr x # xs) = (case sequence xs of Inl e \<Rightarrow> Inl e | Inr ys \<Rightarrow> Inr (x # ys))"

definition vw_discover_partners :: "'a catalogDb_scheme \<Rightarrow> string + discoverRow list" where
  "vw_discover_partners d = sequence (map (discover_row d) (filter (listed d) (partners d)))"

section \<open>The feed\<close>

definition ilike :: "(string \<Rightarrow> string) \<Rightarrow> string \<Rightarrow> string \<Rightarrow> bool" where
  "ilike lc s p \<longleftrightarrow> like (lc s) (lc p)"

definition in_category :: "string option \<Rightarrow> discoverRow \<Rightarrow> bool" where
  "in_category category r \<longleftrightarrow> (truthy_str category \<longrightarrow> (\<exists>cs. dp_categories r = Some cs \<and> the category \<in> set cs))"

definition hit :: "(string \<Rightarrow> string) \<Rightarrow> string option \<Rightarrow> discoverRow \<Rightarrow> bool" where
  "hit lc pat r \<longleftrightarrow> (case pat of None \<Rightarrow> True
     | Some p \<Rightarrow> ilike lc (dp_name r) p \<or> (case dp_bio r of None \<Rightarrow> False | Some b \<Rightarrow> ilike lc b p))"

text \<open>Name matches first, then the rank, then the name.\<close>

definition feed_key :: "(string \<Rightarrow> string) \<Rightarrow> (string \<Rightarrow> string) \<Rightarrow> string option \<Rightarrow> discoverRow \<Rightarrow> nat \<times> nat \<times> string" where
  "feed_key lc coll pat r =
     (case pat of None \<Rightarrow> 0 | Some p \<Rightarrow> if ilike lc (dp_name r) p then 0 else 1, dp_rank r, coll (dp_name r))"

definition search_pattern :: "string option \<Rightarrow> string option" where
  "search_pattern q = (case q of None \<Rightarrow> None | Some s \<Rightarrow> if trim s = [] then None else Some (WILD # trim s @ [WILD]))"

definition feed_select ::
  "(string \<Rightarrow> string) \<Rightarrow> (string \<Rightarrow> string) \<Rightarrow> string option \<Rightarrow> string option \<Rightarrow> nat \<Rightarrow> nat \<Rightarrow> ('a catalogDb_scheme, discoverRow list) stmt" where
  "feed_select lc coll category pat limit offset s d =
     (case vw_discover_partners d of Inl e \<Rightarrow> Inl e
      | Inr rows \<Rightarrow> Inr (take limit (drop offset (sort_key (feed_key lc coll pat) (filter (\<lambda>r. in_category category r \<and> hit lc pat r) rows))), d))"

definition public_image :: "string option \<Rightarrow> discoverRow \<Rightarrow> discoverRow" where
  "public_image publicBase r = r\<lparr>dp_image := toPublicMediaUrl (dp_image r) publicBase\<rparr>"

definition feed ::
  "(string \<Rightarrow> string) \<Rightarrow> (string \<Rightarrow> string) \<Rightarrow> (string \<Rightarrow> string option) \<Rightarrow> session \<Rightarrow> string option \<Rightarrow> string option \<Rightarrow> nat option \<Rightarrow> nat option \<Rightarrow>
   ('a catalogDb_scheme, discoverRow list) act" where
  "feed lc coll config base category q limit offset =
     runAnon base (tx_bind (execute (feed_select lc coll category (search_pattern q)
         (case limit of None \<Rightarrow> 100 | Some n \<Rightarrow> n) (case offset of None \<Rightarrow> 0 | Some n \<Rightarrow> n)))
       (\<lambda>rows. tx_return (map (public_image (config ''R2_PUBLIC_MEDIA_URL'')) rows)))"

definition discover_categories :: "session \<Rightarrow> ('a catalogDb_scheme, category list) act" where
  "discover_categories base = runAnon base (execute (\<lambda>s d. Inr (sort_key ct_order (categories_tbl d), d)))"

section \<open>The public page of a partner\<close>

text \<open>Policies of 0011: a row of a service is seen by its parties and by an administrator.\<close>

definition sees :: "session \<Rightarrow> 'a identityDb_scheme \<Rightarrow> string option \<Rightarrow> string option \<Rightarrow> bool" where
  "sees s d fan partner_id \<longleftrightarrow> (\<exists>u. current_user_id s = Some u \<and> (fan = Some u \<or> partner_id = Some u)) \<or> is_admin s d"

definition sees_conversation :: "session \<Rightarrow> 'a identityDb_scheme \<Rightarrow> conversation \<Rightarrow> bool" where
  "sees_conversation s d c \<longleftrightarrow> sees s d (Some (cv_fan c)) (Some (cv_partner c))"

text \<open>The answered windows of a partner with their conversations, joined on what the session sees.\<close>

definition answered_windows :: "session \<Rightarrow> 'a discoveryDb_scheme \<Rightarrow> string \<Rightarrow> dmWindow list" where
  "answered_windows s d u = filter (\<lambda>x. dw_status x = ANSWERED \<and>
     (\<exists>c \<in> set (dv_conversations d). cv_id c = dw_conv x \<and> cv_partner c = u \<and> sees_conversation s d c)) (dv_windows d)"

definition moments_count :: "session \<Rightarrow> 'a discoveryDb_scheme \<Rightarrow> string \<Rightarrow> nat" where
  "moments_count s d u =
     length (filter (\<lambda>c. ca_partner c = Some u \<and> ca_status c = COMPLETED_SUCCESSFUL \<and> sees s d (ca_fan c) (ca_partner c)) (dv_calls d))
     + length (filter (\<lambda>x. so_partner x = u \<and> so_status x = VIDEO_DELIVERED_TO_FAN \<and> sees s d (Some (so_fan x)) (Some (so_partner x))) (dv_shoutouts d))
     + length (answered_windows s d u)"

text \<open>\<open>percentile_cont(0.5)\<close>: the middle of the sorted values, or the mean of the two middle ones.\<close>

definition percentile_half :: "rat list \<Rightarrow> rat option" where
  "percentile_half xs = (let ys = sort xs; n = length ys in
     if n = 0 then None else Some ((ys ! ((n - 1) div 2) + ys ! (n div 2)) / 2))"

definition first_reply :: "'a discoveryDb_scheme \<Rightarrow> dmWindow \<Rightarrow> int option" where
  "first_reply d x = (case sort (map ms_created (filter (\<lambda>m. ms_window m = dw_id x \<and> ms_sender m = PARTNER_SENT) (dv_messages d)))
     of [] \<Rightarrow> None | t # _ \<Rightarrow> Some t)"

definition reply_minutes :: "session \<Rightarrow> 'a discoveryDb_scheme \<Rightarrow> string \<Rightarrow> rat list" where
  "reply_minutes s d u = List.map_filter (\<lambda>x. map_option (\<lambda>t. of_int (t - dw_opened x) / 60000) (first_reply d x)) (answered_windows s d u)"

text \<open>\<open>round(100.0 * a / b)\<close>.\<close>

definition fulfillment_rate :: "session \<Rightarrow> 'a discoveryDb_scheme \<Rightarrow> string \<Rightarrow> int option" where
  "fulfillment_rate s d u =
     (let bs = filter (\<lambda>b. bk_partner b = u \<and> sees s d (Some (bk_fan b)) (Some (bk_partner b))) (dv_bookings d) in
      if bs = [] then None
      else Some \<lfloor>100 * of_nat (length (filter (\<lambda>b. bk_status b = BOOKING_COMPLETED) bs)) / of_nat (length bs) + (1 / 2 :: rat)\<rfloor>)"

record publicPage =
  pg_partner :: partnerRow
  pg_creator :: creatorRow
  pg_services :: "serviceRow list"
  pg_links :: "(string \<times> string) list"
  pg_moments :: nat
  pg_median :: "rat option"
  pg_rate :: "int option"

definition uuid_param :: "(string \<Rightarrow> string option) \<Rightarrow> string \<Rightarrow> (string \<Rightarrow> 'd \<Rightarrow> 'a) \<Rightarrow> ('d, 'a) stmt" where
  "uuid_param uuid_in raw f s d = (case uuid_in raw of None \<Rightarrow> Inl ''22P02 invalid input syntax for type uuid'' | Some u \<Rightarrow> Inr (f u d, d))"

definition page_row :: "(string \<Rightarrow> string option) \<Rightarrow> string \<Rightarrow> ('a discoveryDb_scheme, (partnerRow \<times> creatorRow) option) stmt" where
  "page_row uuid_in raw = uuid_param uuid_in raw (\<lambda>u d. case (partner_of u d, creator_of u d) of (Some r, Some c) \<Rightarrow> Some (r, c) | _ \<Rightarrow> None)"

definition page_services :: "(string \<Rightarrow> string option) \<Rightarrow> string \<Rightarrow> ('a discoveryDb_scheme, serviceRow list) stmt" where
  "page_services uuid_in raw = uuid_param uuid_in raw (\<lambda>u d. filter (\<lambda>r. sv_partner r = u \<and> sv_active r) (services_of d))"

text \<open>Only approved links, and only those the session may see.\<close>

definition page_links :: "(string \<Rightarrow> string option) \<Rightarrow> string \<Rightarrow> ('a discoveryDb_scheme, (string \<times> string) list) stmt" where
  "page_links uuid_in raw = uuid_param uuid_in raw (\<lambda>u d. map (\<lambda>l. (sl_platform l, sl_url l)) (filter (\<lambda>l. sl_partner l = u \<and> sl_approved l) (social_links d)))"

definition page_trust :: "(string \<Rightarrow> string option) \<Rightarrow> string \<Rightarrow> ('a discoveryDb_scheme, nat \<times> rat option \<times> int option) stmt" where
  "page_trust uuid_in raw s = uuid_param uuid_in raw (\<lambda>u d. (moments_count s d u, percentile_half (reply_minutes s d u), fulfillment_rate s d u)) s"

definition partner_page ::
  "(string \<Rightarrow> string option) \<Rightarrow> (string \<Rightarrow> string option) \<Rightarrow> session \<Rightarrow> string \<Rightarrow> ('a discoveryDb_scheme, publicPage option) act" where
  "partner_page uuid_in config base raw =
     runAnon base
       (tx_bind (execute (page_row uuid_in raw)) (\<lambda>profile.
        tx_bind (execute (page_services uuid_in raw)) (\<lambda>services.
        tx_bind (execute (page_links uuid_in raw)) (\<lambda>links.
        tx_bind (execute (page_trust uuid_in raw)) (\<lambda>trust.
        tx_return (map_option (\<lambda>(r, c). \<lparr>pg_partner = r\<lparr>pr_image := toPublicMediaUrl (pr_image r) (config ''R2_PUBLIC_MEDIA_URL'')\<rparr>,
          pg_creator = c, pg_services = services, pg_links = links,
          pg_moments = fst trust, pg_median = fst (snd trust), pg_rate = snd (snd trust)\<rparr>) profile))))))"

definition is_hex :: "char \<Rightarrow> bool" where
  "is_hex c \<longleftrightarrow> (let n = of_char (lower_char c) :: nat in 48 \<le> n \<and> n \<le> 57 \<or> 97 \<le> n \<and> n \<le> 102)"

text \<open>\<open>UUID_RE\<close>.\<close>

definition UUID_RE :: "string \<Rightarrow> bool" where
  "UUID_RE s \<longleftrightarrow> length s = 36 \<and> (\<forall>i < 36. if i \<in> {8, 13, 18, 23} then s ! i = CHR ''-'' else is_hex (s ! i))"

definition PARTNER_NOT_FOUND :: exn where
  "PARTNER_NOT_FOUND = NotFound (JStr ''PARTNER_NOT_FOUND'')"

definition handle_owner :: "(string \<Rightarrow> string) \<Rightarrow> string \<Rightarrow> 'a catalogDb_scheme \<Rightarrow> string option" where
  "handle_owner lc handle d = map_option cr_id (find (\<lambda>c. map_option lc (cr_handle c) = Some (lc handle)) (creators d))"

definition byHandle ::
  "(string \<Rightarrow> string) \<Rightarrow> (string \<Rightarrow> string option) \<Rightarrow> (string \<Rightarrow> string option) \<Rightarrow> session \<Rightarrow> string \<Rightarrow> ('a discoveryDb_scheme, publicPage) act" where
  "byHandle lc uuid_in config base handle w =
     (case runAnon base (execute (\<lambda>s d. Inr (handle_owner lc handle d, d))) w of
        (Inl e, w1) \<Rightarrow> (Inl e, w1)
      | (Inr i, w1) \<Rightarrow>
          (case (if i \<noteq> None then i else if UUID_RE handle then Some handle else None) of
             None \<Rightarrow> (Inl PARTNER_NOT_FOUND, w1)
           | Some target \<Rightarrow> if target = [] then (Inl PARTNER_NOT_FOUND, w1)
               else (case partner_page uuid_in config base target w1 of
                 (Inl e, w2) \<Rightarrow> (Inl e, w2)
               | (Inr None, w2) \<Rightarrow> (Inl PARTNER_NOT_FOUND, w2)
               | (Inr (Some p), w2) \<Rightarrow> (Inr p, w2))))"

text \<open>The route: \<open>ParseUUIDPipe\<close> lets through what looks like a UUID.\<close>

definition get_partner ::
  "(string \<Rightarrow> bool) \<Rightarrow> (string \<Rightarrow> string option) \<Rightarrow> (string \<Rightarrow> string option) \<Rightarrow> session \<Rightarrow> string \<Rightarrow> ('a discoveryDb_scheme, publicPage) act" where
  "get_partner parse_uuid uuid_in config base raw w =
     (if \<not> parse_uuid raw then (Inl (bad_request ''Validation failed (uuid is expected)''), w)
      else case partner_page uuid_in config base raw w of
        (Inl e, w1) \<Rightarrow> (Inl e, w1)
      | (Inr None, w1) \<Rightarrow> (Inl PARTNER_NOT_FOUND, w1)
      | (Inr (Some p), w1) \<Rightarrow> (Inr p, w1))"

section \<open>Favourites and the waitlist\<close>

definition rpc_toggle_favourite :: "string \<Rightarrow> ('a catalogDb_scheme, json) stmt" where
  "rpc_toggle_favourite p s d =
     (case current_user_id s of None \<Rightarrow> Inr (err_json ''NO_IDENTITY'', d)
      | Some u \<Rightarrow>
          if partner_of p d = None then Inr (err_json ''PARTNER_NOT_FOUND'', d)
          else if \<exists>f \<in> set (favourites_tbl d). fst f = u \<and> fst (snd f) = p
          then Inr (ok_json [(''favourited'', JBool False)],
            d\<lparr>favourites_tbl := filter (\<lambda>f. \<not> (fst f = u \<and> fst (snd f) = p)) (favourites_tbl d)\<rparr>)
          else if \<forall>q \<in> set (people d). pn_id q \<noteq> u then Inl ''violates foreign key constraint favourites_fan_id_fkey''
          else Inr (ok_json [(''favourited'', JBool True)], d\<lparr>favourites_tbl := favourites_tbl d @ [(u, p, sess_now s)]\<rparr>))"

definition toggleFavourite :: "session \<Rightarrow> string \<Rightarrow> string \<Rightarrow> ('a catalogDb_scheme, json) act" where
  "toggleFavourite base u p = runAs base u (rpc (rpc_toggle_favourite p))"

text \<open>The policy \<open>favourites_owner\<close> leaves the caller their own rows.\<close>

definition myFavouriteIds :: "session \<Rightarrow> string \<Rightarrow> ('a catalogDb_scheme, string list) act" where
  "myFavouriteIds base u = runAs base u (execute (\<lambda>s d. Inr (map (fst \<circ> snd)
     (filter (\<lambda>f. fst f = u \<and> (current_user_id s = Some (fst f) \<or> is_admin s d)) (favourites_tbl d)), d)))"

definition favourites_select :: "string \<Rightarrow> ('a catalogDb_scheme, (discoverRow \<times> int) list) stmt" where
  "favourites_select u s d =
     (case vw_discover_partners d of Inl e \<Rightarrow> Inl e
      | Inr rows \<Rightarrow> Inr (sort_key (\<lambda>x. - snd x) (concat (map (\<lambda>f. if fst f = u \<and> (current_user_id s = Some u \<or> is_admin s d)
          then map (\<lambda>r. (r, snd (snd f))) (filter (\<lambda>r. dp_id r = fst (snd f)) rows) else []) (favourites_tbl d))), d))"

definition favourites :: "(string \<Rightarrow> string option) \<Rightarrow> session \<Rightarrow> string \<Rightarrow> ('a catalogDb_scheme, (discoverRow \<times> int) list) act" where
  "favourites config base u = runAs base u (tx_bind (execute (favourites_select u))
     (\<lambda>rows. tx_return (map (\<lambda>x. (public_image (config ''R2_PUBLIC_MEDIA_URL'') (fst x), snd x)) rows)))"

text \<open>A row stays: its status is WAITING, and NOTIFIED once \<open>rpc_notify_waitlist\<close> (0094) has told the waiting fans.\<close>

definition rpc_join_waitlist :: "string \<Rightarrow> string \<Rightarrow> ('a catalogDb_scheme, json) stmt" where
  "rpc_join_waitlist u p s d =
     (if \<not> assert_caller u s d then Inl FORBIDDEN_CALLER
      else if (\<forall>q \<in> set (people d). pn_id q \<noteq> u) \<or> partner_of p d = None then Inl ''violates foreign key constraint on waitlist''
      else if \<exists>x \<in> set (waitlist_tbl d). fst x = u \<and> fst (snd x) = p then Inr (ok_json [], d)
      else Inr (ok_json [], d\<lparr>waitlist_tbl := waitlist_tbl d @ [(u, p, ''WAITING'')]\<rparr>))"

definition joinWaitlist :: "session \<Rightarrow> string \<Rightarrow> string \<Rightarrow> ('a catalogDb_scheme, json) act" where
  "joinWaitlist base u p = runAs base u (rpc (rpc_join_waitlist u p))"

definition waitlistStatus :: "session \<Rightarrow> string \<Rightarrow> string \<Rightarrow> ('a catalogDb_scheme, bool) act" where
  "waitlistStatus base u p = runAs base u (execute (\<lambda>s d. Inr (map_option (snd \<circ> snd)
     (find (\<lambda>x. fst x = u \<and> fst (snd x) = p \<and> (current_user_id s = Some u \<or> is_admin s d)) (waitlist_tbl d)) = Some ''WAITING'', d)))"

end
