(* ===== verification/Discovery_Props.thy ===== *)
theory Discovery_Props
  imports Discovery
begin

text \<open>
  What discovery shows: the services keep the view free of errors, the feed finds and pages exactly the
  matching partners, the public page is served without a cast error, favourites are a set, and a waitlist entry is used once.
\<close>

section \<open>The services keep the view well-defined\<close>

definition service_key :: "serviceRow \<Rightarrow> string \<times> string \<times> string option" where
  "service_key r = (sv_partner r, sv_type r, sv_duration r)"

definition services_ok :: "'a catalogDb_scheme \<Rightarrow> bool" where
  "services_ok d \<longleftrightarrow> distinct (map service_key (services_of d)) \<and>
     (\<forall>r \<in> set (services_of d). (sv_type r = ''VIDEO_CALL'' \<longleftrightarrow> sv_duration r \<noteq> None) \<and> 0 < sv_price r)"

lemma distinct_keys_filter:
  "distinct (map k xs) \<Longrightarrow> (\<And>x. x \<in> set xs \<Longrightarrow> P x \<Longrightarrow> k x = c) \<Longrightarrow> length (filter P xs) \<le> 1"
proof (induction xs)
  case (Cons x xs)
  show ?case
  proof (cases "P x")
    case True
    then have "filter P xs = []" using Cons.prems by (fastforce simp: filter_empty_conv)
    then show ?thesis by simp
  next
    case False
    then show ?thesis using Cons by simp
  qed
qed simp

lemma scalar_Inr: "length xs \<le> 1 \<Longrightarrow> \<exists>x. scalar xs = Inr x"
  by (auto simp: scalar_def split: list.split)

lemma scalar_prices:
  assumes "services_ok d" and "ty \<noteq> ''VIDEO_CALL''"
  shows "\<exists>x. scalar (prices_of u ty d) = Inr x"
proof (rule scalar_Inr)
  have "length (filter (\<lambda>r. sv_partner r = u \<and> sv_type r = ty \<and> sv_active r) (services_of d)) \<le> 1"
    by (rule distinct_keys_filter [where k = service_key and c = "(u, ty, None)"]) (use assms in \<open>auto simp: services_ok_def service_key_def\<close>)
  then show "length (prices_of u ty d) \<le> 1" by (simp add: prices_of_def)
qed

lemma discover_row_ok:
  assumes "services_ok d"
  shows "\<exists>x. discover_row d r = Inr x \<and> dp_id x = pr_id r \<and> dp_name x = pr_display_name r \<and> dp_bio x = pr_bio r \<and>
    dp_categories x = category_slugs (pr_id r) d"
proof -
  obtain a where a: "scalar (prices_of (pr_id r) ''QUICK_QUESTION'' d) = Inr a"
    using scalar_prices [OF assms, of "''QUICK_QUESTION''" "pr_id r"] by auto
  obtain b where b: "scalar (prices_of (pr_id r) ''SHOUT_OUT'' d) = Inr b"
    using scalar_prices [OF assms, of "''SHOUT_OUT''" "pr_id r"] by auto
  show ?thesis by (simp add: discover_row_def Let_def a b)
qed

lemma sequence_Inr: "(\<And>x. x \<in> set xs \<Longrightarrow> \<exists>y. f x = Inr y) \<Longrightarrow> sequence (map f xs) = Inr (map (projr \<circ> f) xs)"
proof (induction xs)
  case (Cons x xs)
  obtain y where "f x = Inr y" using Cons.prems by force
  then show ?case using Cons by simp
qed simp

definition view_rows :: "'a catalogDb_scheme \<Rightarrow> discoverRow list" where
  "view_rows d = map (projr \<circ> discover_row d) (filter (listed d) (partners d))"

lemma vw_ok: "services_ok d \<Longrightarrow> vw_discover_partners d = Inr (view_rows d)"
  unfolding vw_discover_partners_def view_rows_def by (rule sequence_Inr) (use discover_row_ok in blast)

lemma view_row_fields [simp]:
  assumes "services_ok d"
  shows "dp_id (projr (discover_row d r)) = pr_id r" "dp_name (projr (discover_row d r)) = pr_display_name r"
    "dp_bio (projr (discover_row d r)) = pr_bio r" "dp_categories (projr (discover_row d r)) = category_slugs (pr_id r) d"
  using discover_row_ok [OF assms, of r] by auto

lemma feed_eq:
  assumes "services_ok (w_db w)"
  shows "feed lc coll config base category q limit offset w =
    (Inr (map (public_image (config ''R2_PUBLIC_MEDIA_URL'')) (take (case limit of None \<Rightarrow> 100 | Some n \<Rightarrow> n) (drop (case offset of None \<Rightarrow> 0 | Some n \<Rightarrow> n)
       (sort_key (feed_key lc coll (search_pattern q)) (filter (\<lambda>r. in_category category r \<and> hit lc (search_pattern q) r) (view_rows (w_db w))))))), w)"
  using assms by (simp add: feed_def runAnon_def transaction_def tx_defs feed_select_def vw_ok)

lemma set_service_keeps:
  assumes ok: "services_ok d" and run: "rpc_partner_set_service u ty dur price active s d = Inr (a, d')"
  shows "services_ok d'"
proof (cases "services_of d' = services_of d")
  case True then show ?thesis using ok by (simp add: services_ok_def)
next
  case False
  let ?f = "\<lambda>r. if same_service u ty dur r then r\<lparr>sv_price := price, sv_active := active\<rparr> else r"
  let ?r = "\<lparr>sv_partner = u, sv_type = ty, sv_duration = dur, sv_price = price, sv_active = active\<rparr>"
  have g: "ty = ''VIDEO_CALL'' \<longleftrightarrow> dur \<noteq> None" "0 < price" and
    d: "services_of d' = (if \<exists>r \<in> set (services_of d). same_service u ty dur r then map ?f (services_of d) else services_of d @ [?r])"
    using run False by (auto simp: rpc_partner_set_service_def split: if_splits)
  show ?thesis
  proof (cases "\<exists>r \<in> set (services_of d). same_service u ty dur r")
    case True
    have k: "service_key (?f r) = service_key r" for r by (simp add: service_key_def)
    have "map service_key (services_of d') = map service_key (services_of d)" using d True by (simp add: k)
    moreover have "\<forall>r \<in> set (services_of d'). (sv_type r = ''VIDEO_CALL'' \<longleftrightarrow> sv_duration r \<noteq> None) \<and> 0 < sv_price r"
      using ok d True g by (auto simp: services_ok_def same_service_def)
    ultimately show ?thesis using ok by (simp add: services_ok_def)
  next
    case new: False
    then have "service_key ?r \<notin> service_key ` set (services_of d)" by (auto simp: service_key_def same_service_def)
    then show ?thesis using ok d new g by (auto simp: services_ok_def)
  qed
qed

lemma set_service_fn_keeps: "services_ok d \<Longrightarrow> set_service_fn args s d = Inr (a, d') \<Longrightarrow> services_ok d'"
  by (induction args s d rule: set_service_fn.induct) (auto split: if_splits json.splits intro: set_service_keeps)

lemma setService_keeps:
  assumes "F ''rpc_partner_set_service'' = set_service_fn" and "services_ok (w_db w)"
  shows "services_ok (w_db (snd (setService F base u b w)))"
proof -
  have k: "keeps services_ok (rpc (fn F ''rpc_partner_set_service'' args))" for args
    by (rule keeps_rpc) (auto simp: fn_def assms(1) split: if_splits intro: set_service_fn_keeps)
  show ?thesis unfolding setService_def by (rule as_user.run_keeps [where I = services_ok, OF k assms(2)])
qed

section \<open>Searching and paging\<close>

text \<open>\<open>lower\<close> works character by character, so it leaves the wildcards around a term and makes none.\<close>

definition lower_ok :: "(string \<Rightarrow> string) \<Rightarrow> bool" where
  "lower_ok lc \<longleftrightarrow> lc [] = [] \<and> (\<forall>t. plain t \<longrightarrow> plain (lc t) \<and> lc (WILD # t @ [WILD]) = WILD # lc t @ [WILD])"

definition contains :: "(string \<Rightarrow> string) \<Rightarrow> string \<Rightarrow> string \<Rightarrow> bool" where
  "contains lc s t \<longleftrightarrow> sublist (lc t) (lc s)"

lemma ilike_term: "lower_ok lc \<Longrightarrow> plain t \<Longrightarrow> ilike lc s (WILD # t @ [WILD]) \<longleftrightarrow> contains lc s t"
  by (simp add: ilike_def contains_def lower_ok_def like_contains)

lemma contains_Nil: "lower_ok lc \<Longrightarrow> contains lc s []"
  by (simp add: lower_ok_def contains_def)

lemma hit_term:
  assumes "lower_ok lc" and "plain (trim q)"
  shows "hit lc (search_pattern (Some q)) r \<longleftrightarrow>
    contains lc (dp_name r) (trim q) \<or> (\<exists>b. dp_bio r = Some b \<and> contains lc b (trim q))"
  using assms by (simp add: hit_def search_pattern_def ilike_term contains_Nil split: option.split)

lemma feed_key_term:
  assumes "lower_ok lc" and "plain (trim q)"
  shows "feed_key lc coll (search_pattern (Some q)) r = (if contains lc (dp_name r) (trim q) then 0 else 1, dp_rank r, coll (dp_name r))"
  using assms by (simp add: feed_key_def search_pattern_def ilike_term contains_Nil)

lemma pages_concat: "concat (map (\<lambda>k. take l (drop (k * l) xs)) [0..<n]) = take (n * l) xs"
proof (induction n)
  case (Suc n)
  have "Suc n * l = n * l + l" by simp
  then show ?case using Suc by (simp add: take_add del: mult_Suc)
qed simp

lemma public_image_fields [simp]:
  "dp_id (public_image b r) = dp_id r" "dp_name (public_image b r) = dp_name r" "dp_rank (public_image b r) = dp_rank r"
  "dp_bio (public_image b r) = dp_bio r" "dp_categories (public_image b r) = dp_categories r"
  by (simp_all add: public_image_def)

lemma in_category_iff:
  "in_category category r \<longleftrightarrow> (truthy_str category \<longrightarrow> (u, the category) \<in> set (partner_cats d))"
  if "dp_categories r = category_slugs u d"
  using that by (force simp: in_category_def category_slugs_def Let_def filter_empty_conv)

lemma distinct_map_sort: "distinct (map f xs) \<Longrightarrow> distinct (map f (sort_key k xs))"
  by (simp add: distinct_map)

lemma distinct_view: "services_ok d \<Longrightarrow> distinct (map pr_id (partners d)) \<Longrightarrow> distinct (map dp_id (view_rows d))"
  by (simp add: view_rows_def comp_def distinct_map_filter)


text \<open>
  Editing services never breaks the feed.  Whatever partners send to the service editor, in whatever order, the key of
  the table and its shape survive, so no subquery of the view ever has a second row and every request for the feed and for the
  favourites succeeds.
\<close>

theorem service_edits_keep_feed_alive:
  fixes w :: "'a catalogDb_scheme world"
  assumes F: "F ''rpc_partner_set_service'' = set_service_fn" and ok: "services_ok (w_db w)"
  shows "let w' = fold (\<lambda>(base, u, b) w. snd (setService F base u b w)) edits w in services_ok (w_db w') \<and>
    (\<exists>rows. feed lc coll config base category q limit offset w' = (Inr rows, w')) \<and>
    (\<exists>rows. favourites config base u w' = (Inr rows, w'))"
proof -
  let ?w = "fold (\<lambda>(base, u, b) w. snd (setService F base u b w)) edits w"
  have i: "services_ok (w_db ?w)"
    using ok by (induction edits arbitrary: w) (auto simp: setService_keeps [where F = F, OF F])
  have "\<exists>rows. favourites config base u ?w = (Inr rows, ?w)"
    using vw_ok [OF i] by (simp add: favourites_def runAs_def transaction_def tx_defs favourites_select_def)
  with i show ?thesis by (simp add: Let_def feed_eq)
qed

section \<open>The public page\<close>

lemma anon_sees_nothing [simp]:
  "\<not> sees (base\<lparr>app_user_id := Some []\<rparr>) d fan partner_id" "\<not> sees_conversation (base\<lparr>app_user_id := Some []\<rparr>) d c"
  by (simp_all add: sees_def sees_conversation_def is_admin_def current_user_id_def)

lemma anon_trust [simp]:
  "moments_count (base\<lparr>app_user_id := Some []\<rparr>) d u = 0" "reply_minutes (base\<lparr>app_user_id := Some []\<rparr>) d u = []"
  "fulfillment_rate (base\<lparr>app_user_id := Some []\<rparr>) d u = None"
  by (simp_all add: moments_count_def reply_minutes_def answered_windows_def fulfillment_rate_def Let_def List.map_filter_def)

lemma percentile_Nil [simp]: "percentile_half [] = None"
  by (simp add: percentile_half_def)

definition page_of :: "(string \<Rightarrow> string option) \<Rightarrow> string \<Rightarrow> 'a catalogDb_scheme \<Rightarrow> publicPage option" where
  "page_of config u d = (case (partner_of u d, creator_of u d) of
     (Some r, Some c) \<Rightarrow> Some \<lparr>pg_partner = r\<lparr>pr_image := toPublicMediaUrl (pr_image r) (config ''R2_PUBLIC_MEDIA_URL'')\<rparr>, pg_creator = c,
        pg_services = filter (\<lambda>r. sv_partner r = u \<and> sv_active r) (services_of d),
        pg_links = map (\<lambda>l. (sl_platform l, sl_url l)) (filter (\<lambda>l. sl_partner l = u \<and> sl_approved l) (social_links d)),
        pg_moments = 0, pg_median = None, pg_rate = None\<rparr>
   | _ \<Rightarrow> None)"

lemma partner_page_eq:
  "partner_page uuid_in config base raw w =
     (case uuid_in raw of None \<Rightarrow> (Inl (PgError ''22P02 invalid input syntax for type uuid''), w)
      | Some u \<Rightarrow> (Inr (page_of config u (w_db w)), w))"
  by (auto simp: partner_page_def runAnon_def transaction_def tx_defs page_row_def page_services_def page_links_def page_trust_def
    uuid_param_def page_of_def split: option.split)

text \<open>The identity behind a handle, or behind a UUID that is nobody's handle.\<close>

definition handle_target :: "(string \<Rightarrow> string) \<Rightarrow> (string \<Rightarrow> string option) \<Rightarrow> string \<Rightarrow> 'a catalogDb_scheme \<Rightarrow> string option" where
  "handle_target lc uuid_in handle d =
     (case handle_owner lc handle d of Some u \<Rightarrow> Some u
      | None \<Rightarrow> if UUID_RE handle then uuid_in handle else None)"

definition uuid_ok :: "(string \<Rightarrow> string option) \<Rightarrow> bool" where
  "uuid_ok uuid_in \<longleftrightarrow> (\<forall>s. UUID_RE s \<longrightarrow> uuid_in s \<noteq> None) \<and> uuid_in [] = None"

lemma handle_owner_in: "handle_owner lc handle d = Some u \<Longrightarrow> \<exists>c \<in> set (creators d). cr_id c = u"
  unfolding handle_owner_def by (metis (no_types, lifting) find_Some_iff map_option_eq_Some nth_mem)


section \<open>Favourites are a set\<close>

definition fav_set :: "'a catalogDb_scheme \<Rightarrow> (string \<times> string) set" where
  "fav_set d = (\<lambda>f. (fst f, fst (snd f))) ` set (favourites_tbl d)"

definition favs_ok :: "'a catalogDb_scheme \<Rightarrow> bool" where
  "favs_ok d \<longleftrightarrow> distinct (map (\<lambda>f. (fst f, fst (snd f))) (favourites_tbl d))"

definition flip :: "'x \<Rightarrow> 'x set \<Rightarrow> 'x set" where
  "flip x A = (if x \<in> A then A - {x} else insert x A)"

lemma flip_flip: "flip x (flip x A) = A"
  by (auto simp: flip_def)

lemma in_fav_set: "(u, p) \<in> fav_set d \<longleftrightarrow> (\<exists>f \<in> set (favourites_tbl d). fst f = u \<and> fst (snd f) = p)"
  by (force simp: fav_set_def)

definition known :: "string \<Rightarrow> string \<Rightarrow> 'a catalogDb_scheme \<Rightarrow> bool" where
  "known u p d \<longleftrightarrow> u \<noteq> [] \<and> (\<exists>q \<in> set (people d). pn_id q = u) \<and> partner_of p d \<noteq> None"

lemma toggle_step:
  fixes w :: "'a catalogDb_scheme world"
  assumes "known u p (w_db w)" and "favs_ok (w_db w)"
  shows "\<exists>w'. toggleFavourite base u p w = (Inr (ok_json [(''favourited'', JBool ((u, p) \<notin> fav_set (w_db w)))]), w') \<and>
    fav_set (w_db w') = flip (u, p) (fav_set (w_db w)) \<and> favs_ok (w_db w') \<and> known u p (w_db w') = known u p (w_db w)"
proof (cases "(u, p) \<in> fav_set (w_db w)")
  case True
  let ?d = "w_db w\<lparr>favourites_tbl := filter (\<lambda>f. \<not> (fst f = u \<and> fst (snd f) = p)) (favourites_tbl (w_db w))\<rparr>"
  have "toggleFavourite base u p w = (Inr (ok_json [(''favourited'', JBool False)]), w\<lparr>w_db := ?d\<rparr>)"
    using True assms(1) unfolding in_fav_set known_def
    by (auto simp: toggleFavourite_def runAs_def transaction_def rpc_def tx_defs rpc_toggle_favourite_def current_user_id_def ok_json_def)
  moreover have "fav_set ?d = flip (u, p) (fav_set (w_db w))" using True by (force simp: fav_set_def flip_def)
  moreover have "favs_ok ?d" using assms(2) by (simp add: favs_ok_def distinct_map_filter)
  moreover have "known u p ?d = known u p (w_db w)" by (simp add: known_def partner_of_def)
  ultimately show ?thesis using True by simp
next
  case False
  let ?d = "w_db w\<lparr>favourites_tbl := favourites_tbl (w_db w) @ [(u, p, sess_now base)]\<rparr>"
  have "toggleFavourite base u p w = (Inr (ok_json [(''favourited'', JBool True)]), w\<lparr>w_db := ?d\<rparr>)"
    using False assms(1) unfolding in_fav_set known_def
    by (auto simp: toggleFavourite_def runAs_def transaction_def rpc_def tx_defs rpc_toggle_favourite_def current_user_id_def ok_json_def)
  moreover have "fav_set ?d = flip (u, p) (fav_set (w_db w))" using False by (auto simp: fav_set_def flip_def)
  moreover have "favs_ok ?d" using assms(2) False by (simp add: favs_ok_def fav_set_def)
  moreover have "known u p ?d = known u p (w_db w)" by (simp add: known_def partner_of_def)
  ultimately show ?thesis using False by simp
qed

lemma myFavouriteIds_eq:
  assumes "v \<noteq> []"
  shows "myFavouriteIds base v w = (Inr (map (fst \<circ> snd) (filter (\<lambda>f. fst f = v) (favourites_tbl (w_db w)))), w)"
  using assms by (simp add: myFavouriteIds_def runAs_def transaction_def tx_defs current_user_id_def cong: filter_cong conj_cong)

text \<open>
  Favourites refine a set of pairs: a toggle of a known pair flips its membership and reports the new one, keeps the
  primary key, and touches no other pair; toggling twice gives the set back; and what anybody is shown as their favourites is,
  without repetition, exactly their part of the set.
\<close>

theorem favourites_refine_a_set:
  fixes w :: "'a catalogDb_scheme world"
  assumes "known u p (w_db w)" and "favs_ok (w_db w)"
  shows "\<exists>w' w''. toggleFavourite base u p w = (Inr (ok_json [(''favourited'', JBool ((u, p) \<notin> fav_set (w_db w)))]), w') \<and>
    fav_set (w_db w') = flip (u, p) (fav_set (w_db w)) \<and> favs_ok (w_db w') \<and>
    toggleFavourite base u p w' = (Inr (ok_json [(''favourited'', JBool ((u, p) \<in> fav_set (w_db w)))]), w'') \<and>
    fav_set (w_db w'') = fav_set (w_db w) \<and>
    (\<forall>v. v \<noteq> [] \<longrightarrow> (\<exists>ids. myFavouriteIds base v w' = (Inr ids, w') \<and> distinct ids \<and> set ids = {q. (v, q) \<in> flip (u, p) (fav_set (w_db w))}))"
proof -
  obtain w' where w': "toggleFavourite base u p w = (Inr (ok_json [(''favourited'', JBool ((u, p) \<notin> fav_set (w_db w)))]), w')"
    "fav_set (w_db w') = flip (u, p) (fav_set (w_db w))" "favs_ok (w_db w')" "known u p (w_db w') = known u p (w_db w)"
    using toggle_step [OF assms, of base] by auto
  have k': "known u p (w_db w')" using w'(4) assms(1) by simp
  obtain w'' where w'': "toggleFavourite base u p w' = (Inr (ok_json [(''favourited'', JBool ((u, p) \<notin> fav_set (w_db w')))]), w'')"
    "fav_set (w_db w'') = flip (u, p) (fav_set (w_db w'))"
    using toggle_step [OF k' w'(3), of base] by auto
  have n: "(u, p) \<notin> fav_set (w_db w') \<longleftrightarrow> (u, p) \<in> fav_set (w_db w)" unfolding w'(2) by (auto simp: flip_def)
  have ids: "\<exists>ids. myFavouriteIds base v w' = (Inr ids, w') \<and> distinct ids \<and> set ids = {q. (v, q) \<in> flip (u, p) (fav_set (w_db w))}" if "v \<noteq> []" for v
  proof -
    let ?xs = "filter (\<lambda>f. fst f = v) (favourites_tbl (w_db w'))"
    have "distinct (map (\<lambda>f. (fst f, fst (snd f))) ?xs)" using w'(3) by (simp add: favs_ok_def distinct_map_filter)
    then have "distinct (map (fst \<circ> snd) ?xs)" by (auto simp: distinct_map inj_on_def)
    moreover have "set (map (fst \<circ> snd) ?xs) = {q. (v, q) \<in> fav_set (w_db w')}" by (force simp: fav_set_def)
    ultimately show ?thesis using myFavouriteIds_eq [OF that, of base w'] w'(2) by simp
  qed
  show ?thesis
    by (intro exI [of _ w'] exI [of _ w''] conjI allI impI w'(1-3) ids) (use w'' n w'(2) in \<open>simp_all add: flip_flip\<close>)
qed

section \<open>The waitlist\<close>

definition waitlist_status :: "string \<Rightarrow> string \<Rightarrow> 'a catalogDb_scheme \<Rightarrow> string option" where
  "waitlist_status u p d = map_option (snd \<circ> snd) (find (\<lambda>x. fst x = u \<and> fst (snd x) = p) (waitlist_tbl d))"

lemma waitlistStatus_eq:
  assumes "u \<noteq> []"
  shows "waitlistStatus base u p w = (Inr (waitlist_status u p (w_db w) = Some ''WAITING''), w)"
proof -
  have "current_user_id (base\<lparr>app_user_id := Some u\<rparr>) = Some u" using assms by (simp add: current_user_id_def)
  then show ?thesis by (simp add: waitlistStatus_def runAs_def transaction_def tx_defs waitlist_status_def)
qed

lemma waitlist_status_None: "waitlist_status u p d = None \<longleftrightarrow> \<not> (\<exists>x \<in> set (waitlist_tbl d). fst x = u \<and> fst (snd x) = p)"
  by (auto simp: waitlist_status_def find_None_iff)

text \<open>
  Joining the waitlist.  The first time a row is written and the caller is waiting; joining again while waiting changes
  nothing.  But once the row has been used up by a notification, joining still reports success and changes nothing: the caller
  is not waiting and is never told again.
\<close>

theorem waitlist_join_once:
  fixes w :: "'a catalogDb_scheme world"
  assumes "known u p (w_db w)"
  shows "\<exists>w'. joinWaitlist base u p w = (Inr (ok_json []), w') \<and>
    (case waitlist_status u p (w_db w) of
       None \<Rightarrow> waitlist_tbl (w_db w') = waitlist_tbl (w_db w) @ [(u, p, ''WAITING'')]
     | Some st \<Rightarrow> w' = w) \<and>
    waitlistStatus base u p w' = (Inr (waitlist_status u p (w_db w) \<in> {None, Some ''WAITING''}), w')"
proof (cases "waitlist_status u p (w_db w)")
  case None
  let ?w = "w\<lparr>w_db := w_db w\<lparr>waitlist_tbl := waitlist_tbl (w_db w) @ [(u, p, ''WAITING'')]\<rparr>\<rparr>"
  have j: "joinWaitlist base u p w = (Inr (ok_json []), ?w)"
    using assms None unfolding waitlist_status_None known_def
    by (auto simp: joinWaitlist_def runAs_def transaction_def rpc_def tx_defs rpc_join_waitlist_def assert_caller_def current_user_id_def ok_json_def)
  have "find (\<lambda>x. fst x = u \<and> fst (snd x) = p) (xs @ [(u, p, ''WAITING'')]) = Some (u, p, ''WAITING'')"
    if "\<not> (\<exists>x \<in> set xs. fst x = u \<and> fst (snd x) = p)" for xs :: "(string \<times> string \<times> string) list"
    using that by (induction xs) auto
  then have "waitlist_status u p (w_db ?w) = Some ''WAITING''" using None unfolding waitlist_status_None by (simp add: waitlist_status_def)
  then show ?thesis using j None assms waitlistStatus_eq [of u base p ?w] by (simp add: known_def)
next
  case (Some st)
  then have "\<exists>x \<in> set (waitlist_tbl (w_db w)). fst x = u \<and> fst (snd x) = p" using waitlist_status_None [of u p "w_db w"] by auto
  then have "joinWaitlist base u p w = (Inr (ok_json []), w)"
    using assms unfolding known_def
    by (auto simp: joinWaitlist_def runAs_def transaction_def rpc_def tx_defs rpc_join_waitlist_def assert_caller_def current_user_id_def ok_json_def)
  then show ?thesis using Some assms waitlistStatus_eq [of u base p w] by (simp add: known_def)
qed

section \<open>Witnesses\<close>

definition demo_discovery :: discoveryDb where
  "demo_discovery = catalogDb.extend ((demo_catalog_db True)\<lparr>
       people := [\<lparr>pn_id = ''fan'', pn_role = userRole.FAN, pn_email = ''f'', pn_full_name = None, pn_mobile = None, pn_age = None,
         pn_gender = None, pn_prefs = JNull, pn_status = U_ACTIVE\<rparr>],
       services_of := [\<lparr>sv_partner = ''star'', sv_type = ''SHOUT_OUT'', sv_duration = None, sv_price = 5000, sv_active = True\<rparr>],
       waitlist_tbl := [(''fan'', ''star'', ''NOTIFIED'')]\<rparr>)
     \<lparr>dv_calls = [\<lparr>ca_id = 1, ca_booking = 1, ca_fan = Some ''fan'', ca_partner = Some ''star'', ca_status = COMPLETED_SUCCESSFUL, ca_meeting = None,
         ca_initiated_at = None, ca_started_at = None, ca_deadline_at = None, ca_fan_heartbeat = None, ca_partner_heartbeat = None, ca_ended_at = None,
     ca_joined_at = None, ca_media = None, ca_ended_role = None\<rparr>],
       dv_shoutouts = [], dv_conversations = [], dv_windows = [], dv_messages = [], dv_bookings = []\<rparr>"

lemma demo_discovery_simps [simp]:
  "services_of demo_discovery = [\<lparr>sv_partner = ''star'', sv_type = ''SHOUT_OUT'', sv_duration = None, sv_price = 5000, sv_active = True\<rparr>]"
  "partners demo_discovery = partners (demo_catalog_db True)" "creators demo_discovery = creators (demo_catalog_db True)"
  "waitlist_tbl demo_discovery = [(''fan'', ''star'', ''NOTIFIED'')]" "favourites_tbl demo_discovery = []"
  "known ''fan'' ''star'' demo_discovery"
  by (simp_all add: demo_discovery_def catalogDb.defs demo_catalog_db_def known_def partner_of_def)

lemma demo_shop_ok: "services_ok demo_discovery"
  by (simp add: services_ok_def)

lemma lower_ascii_ok: "lower_ok (map lower_char)"
proof -
  have c: "lower_char c = x \<longleftrightarrow> c = x" if "x \<in> {WILD, ONE, ESC}" for c x
  proof -
    have "(of_char (char_of (n + 32 :: nat) :: char) :: nat) = n + 32" if "n \<le> 90" for n using that by simp
    then show ?thesis using that by (auto simp: lower_char_def Let_def WILD_def ONE_def ESC_def dest: arg_cong [where f = "of_char :: char \<Rightarrow> nat"])
  qed
  have "x \<in> lower_char ` set t \<longleftrightarrow> x \<in> set t" if "x \<in> {WILD, ONE, ESC}" for x t
    unfolding image_iff using c [OF that] by metis
  then have "plain (map lower_char t) \<longleftrightarrow> plain t" for t by (simp add: plain_def)
  moreover have "lower_char WILD = WILD" using c by simp
  ultimately show ?thesis by (simp add: lower_ok_def)
qed


theorem service_edits_keep_feed_alive_witness:
  "\<exists>rows. feed (\<lambda>s. s) (\<lambda>s. s) (\<lambda>_. None) demo_session None None None None
     (snd (setService (\<lambda>_. set_service_fn) demo_session ''star'' (JObj [(''type'', JStr ''QUICK_QUESTION''), (''pricePaise'', JNum 900)])
       \<lparr>w_db = demo_discovery, w_log = []\<rparr>)) =
     (Inr rows, snd (setService (\<lambda>_. set_service_fn) demo_session ''star'' (JObj [(''type'', JStr ''QUICK_QUESTION''), (''pricePaise'', JNum 900)])
       \<lparr>w_db = demo_discovery, w_log = []\<rparr>))"
  using service_edits_keep_feed_alive [of "\<lambda>_. set_service_fn" "\<lparr>w_db = demo_discovery, w_log = []\<rparr>"
      "[(demo_session, ''star'', JObj [(''type'', JStr ''QUICK_QUESTION''), (''pricePaise'', JNum 900)])]"
      "\<lambda>s. s" "\<lambda>s. s" "\<lambda>_. None" demo_session None None None None "[]"] demo_shop_ok
  by (simp add: Let_def)


theorem favourites_refine_a_set_witness:
  "\<exists>w'. toggleFavourite demo_session ''fan'' ''star'' \<lparr>w_db = demo_discovery, w_log = []\<rparr> = (Inr (ok_json [(''favourited'', JBool True)]), w') \<and>
     fav_set (w_db w') = {(''fan'', ''star'')}"
proof -
  have "favs_ok demo_discovery" "fav_set demo_discovery = {}" by (simp_all add: favs_ok_def fav_set_def)
  then show ?thesis
    using favourites_refine_a_set [of "''fan''" "''star''" "\<lparr>w_db = demo_discovery, w_log = []\<rparr>" demo_session]
    by (auto simp: flip_def)
qed

theorem waitlist_join_once_witness:
  "joinWaitlist demo_session ''fan'' ''star'' \<lparr>w_db = demo_discovery, w_log = []\<rparr> = (Inr (ok_json []), \<lparr>w_db = demo_discovery, w_log = []\<rparr>) \<and>
   waitlistStatus demo_session ''fan'' ''star'' \<lparr>w_db = demo_discovery, w_log = []\<rparr> = (Inr False, \<lparr>w_db = demo_discovery, w_log = []\<rparr>)"
proof -
  have "waitlist_status ''fan'' ''star'' demo_discovery = Some ''NOTIFIED''" by (simp add: waitlist_status_def)
  then show ?thesis using waitlist_join_once [of "''fan''" "''star''" "\<lparr>w_db = demo_discovery, w_log = []\<rparr>" demo_session] by auto
qed

end
