(* ===== verification/Messaging.thy ===== *)
theory Messaging
  imports Discovery Jobs
begin

text \<open>
  \<open>src/messaging/messaging.module.ts\<close> over the functions of migrations 0086 and 0034, the settlement
  function of 0066 and the policies of 0011 and 0026: questions in windows, the first one free, later ones paid into escrow.
\<close>

section \<open>Tables\<close>

record account =
  ac_id :: string
  ac_name :: "string option"
  ac_fan_role :: bool
  ac_active :: bool
  ac_verified :: bool

record messagingDb = services +
  mq_convs :: "conversation list"
  mq_msgs :: "message list"
  mq_accounts :: "account list"
  mq_premium :: "string list"
  mq_offers :: "serviceRow list"
  mq_blocks :: "(string \<times> string \<times> string) list"
  mq_sla_hours :: int
  mq_settle_days :: int

text \<open>The default of \<open>message_cap\<close>, which no statement changes.\<close>

definition MESSAGE_CAP :: nat where "MESSAGE_CAP = 5"

definition admin_session :: "session \<Rightarrow> 'a bank_scheme \<Rightarrow> bool" where
  "admin_session s d \<longleftrightarrow> (\<exists>u. current_user_id s = Some u \<and> u \<in> set (admins d))"

definition caller_allowed :: "string \<Rightarrow> session \<Rightarrow> 'a bank_scheme \<Rightarrow> bool" where
  "caller_allowed a s d \<longleftrightarrow> current_user_id s = Some a \<or> admin_session s d \<or> app_is_service_role s"

definition account_of :: "string \<Rightarrow> 'a messagingDb_scheme \<Rightarrow> account option" where
  "account_of u d = find (\<lambda>a. ac_id a = u) (mq_accounts d)"

definition assert_active :: "string \<Rightarrow> 'a messagingDb_scheme \<Rightarrow> bool" where
  "assert_active u d \<longleftrightarrow> map_option ac_active (account_of u d) = Some True"

definition is_blocked :: "string \<Rightarrow> string \<Rightarrow> string \<Rightarrow> 'a messagingDb_scheme \<Rightarrow> bool" where
  "is_blocked a b scope d \<longleftrightarrow> (\<exists>(x, y, sc) \<in> set (mq_blocks d). ((x, y) = (a, b) \<or> (x, y) = (b, a)) \<and> (sc = ''ALL'' \<or> sc = scope))"

definition conv_of :: "string \<Rightarrow> string \<Rightarrow> 'a messagingDb_scheme \<Rightarrow> conversation option" where
  "conv_of fan p d = find (\<lambda>c. cv_fan c = fan \<and> cv_partner c = p) (mq_convs d)"

text \<open>\<open>order by opened_at desc limit 1\<close>.\<close>

definition latest_window :: "nat \<Rightarrow> windowStatus set \<Rightarrow> 'a services_scheme \<Rightarrow> dmWindow option" where
  "latest_window c sts d = (case sort_key (\<lambda>x. - dw_opened x) (filter (\<lambda>x. dw_conv x = c \<and> dw_status x \<in> sts) (dm_windows d)) of
     [] \<Rightarrow> None | x # _ \<Rightarrow> Some x)"

definition question_price :: "string \<Rightarrow> 'a messagingDb_scheme \<Rightarrow> int option" where
  "question_price p d = map_option sv_price
     (find (\<lambda>r. sv_partner r = p \<and> sv_type r = ''QUICK_QUESTION'' \<and> sv_duration r = None \<and> sv_active r) (mq_offers d))"

text \<open>Generated identifiers are new in every table.\<close>

definition fresh :: "nat list \<Rightarrow> nat" where
  "fresh xs = Suc (fold max xs 0)"

definition new_window_id :: "'a services_scheme \<Rightarrow> nat" where
  "new_window_id d = fresh (map dw_id (dm_windows d) @ earnings d @ map (snd \<circ> tn_key) (txns d))"

definition new_conv_id :: "'a messagingDb_scheme \<Rightarrow> nat" where
  "new_conv_id d = fresh (map cv_id (mq_convs d) @ map dw_conv (dm_windows d))"

section \<open>Asking\<close>

text \<open>The notification inserts, \<open>on conflict do nothing\<close>.\<close>

definition question_notice :: "string \<Rightarrow> nat \<Rightarrow> 'a bank_scheme \<Rightarrow> 'a bank_scheme" where
  "question_notice p i = notify (p, ''QUESTION_NEW_REQUEST_PARTNER'', ''question'', i)"

definition answer_notice :: "string \<Rightarrow> string \<Rightarrow> nat \<Rightarrow> 'a services_scheme \<Rightarrow> 'a services_scheme" where
  "answer_notice p fan i d = (if p \<in> fst ` set (partner_profiles d) then notify (fan, ''QUESTION_ANSWERED_BY_PARTNER_FAN'', ''question'', i) d else d)"

definition add_message :: "nat \<Rightarrow> messageSender \<Rightarrow> string \<Rightarrow> nat \<Rightarrow> int \<Rightarrow> 'a messagingDb_scheme \<Rightarrow> 'a messagingDb_scheme" where
  "add_message i sender text c now d =
     d\<lparr>mq_msgs := mq_msgs d @ [\<lparr>ms_window = i, ms_sender = sender, ms_body = text, ms_created = now\<rparr>],
       mq_convs := map (\<lambda>x. if cv_id x = c then x\<lparr>cv_activity := now\<rparr> else x) (mq_convs d)\<rparr>"

definition question_key :: "nat \<Rightarrow> idem_key" where
  "question_key i = (''qq:'', i)"

definition question_legs :: "nat option \<Rightarrow> int \<Rightarrow> leg list" where
  "question_legs v price =
     [\<lparr>leg_wallet = v, leg_account = ''wallet'', leg_delta = - price, leg_bonus = 0\<rparr>,
      \<lparr>leg_wallet = None, leg_account = ''booking_escrow'', leg_delta = price, leg_bonus = 0\<rparr>]"

definition HOUR_MS :: int where "HOUR_MS = 60 * 60 * 1000"

definition open_window :: "dmWindow \<Rightarrow> 'a services_scheme \<Rightarrow> 'a services_scheme" where
  "open_window x d = d\<lparr>dm_windows := dm_windows d @ [x]\<rparr>"

text \<open>The part of \<open>rpc_ask_question\<close> that opens a window: \<open>paid\<close> says whether the conversation has had one.\<close>

definition ask_new ::
  "string \<Rightarrow> string \<Rightarrow> string \<Rightarrow> nat \<Rightarrow> ('a messagingDb_scheme, json) stmt" where
  "ask_new fan p text c s d =
     (let i = new_window_id d; now = sess_now s; paid = (\<exists>x \<in> set (dm_windows d). dw_conv x = c);
          x = \<lparr>dw_id = i, dw_fan = fan, dw_conv = c, dw_opened = now, dw_kind = FREE, dw_charge = 0, dw_status = OPEN,
               dw_deadline = None, dw_settle_at = None\<rparr>;
          reply = ok_json [(''window_id'', jid i), (''kind'', JStr (if paid then ''PAID'' else ''FREE'')), (''charged'', JBool paid)]
      in if \<not> paid then Inr (reply, question_notice p i (add_message i FAN_SENT text c now (open_window x d)))
         else case question_price p d of
           None \<Rightarrow> Inr (err_json ''SERVICE_NOT_OFFERED'', d)
         | Some price \<Rightarrow>
             (case post_transaction ''QUESTION_DEBIT'' price (question_key i)
                     (question_legs (map_option wl_id (wallet_of fan d)) price) (Some (nat_text i)) d of
                Inl e \<Rightarrow> Inl e
              | Inr (_, d1) \<Rightarrow> Inr (reply, question_notice p i (add_message i FAN_SENT text c now (open_window
                  (x\<lparr>dw_kind := PAID, dw_charge := price, dw_deadline := Some (now + mq_sla_hours d * HOUR_MS),
                     dw_settle_at := Some (now + mq_settle_days d * 24 * HOUR_MS)\<rparr>) d1)))))"

definition messages_by :: "nat \<Rightarrow> messageSender \<Rightarrow> 'a messagingDb_scheme \<Rightarrow> message list" where
  "messages_by i who d = filter (\<lambda>m. ms_window m = i \<and> ms_sender m = who) (mq_msgs d)"

definition rpc_ask_question :: "string \<Rightarrow> string \<Rightarrow> string \<Rightarrow> ('a messagingDb_scheme, json) stmt" where
  "rpc_ask_question fan p text s d =
     (if \<not> caller_allowed fan s d then Inl FORBIDDEN_CALLER
      else if \<not> assert_active fan d then Inl ''P0001 ACCOUNT_NOT_ACTIVE''
      else if is_blocked fan p ''DM'' d then Inr (err_json ''BLOCKED'', d)
      else if p \<in> set (mq_premium d) \<and> map_option ac_verified (account_of fan d) \<noteq> Some True then Inr (err_json ''KYC_REQUIRED'', d)
      else if conv_of fan p d = None \<and> p \<notin> fst ` set (partner_profiles d) then Inl ''violates foreign key constraint conversations_partner_id_fkey''
      else let (c, d0) = (case conv_of fan p d of Some cv \<Rightarrow> (cv_id cv, d)
             | None \<Rightarrow> (new_conv_id d, d\<lparr>mq_convs := mq_convs d @ [\<lparr>cv_id = new_conv_id d, cv_fan = fan, cv_partner = p, cv_activity = sess_now s\<rparr>]\<rparr>))
           in case latest_window c {OPEN} d0 of
                Some x \<Rightarrow>
                  if MESSAGE_CAP \<le> length (messages_by (dw_id x) FAN_SENT d0) then Inr (err_json ''WINDOW_LIMIT'', d0)
                  else Inr (ok_json [(''window_id'', jid (dw_id x)), (''kind'', JStr (if dw_kind x = PAID then ''PAID'' else ''FREE'')), (''charged'', JBool False)],
                            add_message (dw_id x) FAN_SENT text c (sess_now s) d0)
              | None \<Rightarrow> ask_new fan p text c s d0)"

definition ask :: "session \<Rightarrow> string \<Rightarrow> string \<Rightarrow> string \<Rightarrow> ('a messagingDb_scheme, json) act" where
  "ask base u p text = runAs base u (rpc (rpc_ask_question u p text))"

section \<open>Answering\<close>

definition answer_window :: "nat \<Rightarrow> int \<Rightarrow> 'a messagingDb_scheme \<Rightarrow> 'a messagingDb_scheme" where
  "answer_window i now d = d\<lparr>dm_windows := map (\<lambda>x. if dw_id x = i
     then x\<lparr>dw_status := ANSWERED, dw_settle_at := Some (now + mq_settle_days d * 24 * HOUR_MS)\<rparr> else x) (dm_windows d)\<rparr>"

definition rpc_partner_answer :: "string \<Rightarrow> nat \<Rightarrow> string \<Rightarrow> ('a messagingDb_scheme, json) stmt" where
  "rpc_partner_answer p c text s d =
     (case find (\<lambda>x. cv_id x = c) (mq_convs d) of None \<Rightarrow> Inr (err_json ''NOT_FOUND'', d)
      | Some cv \<Rightarrow>
          if \<not> caller_allowed (cv_partner cv) s d then Inl FORBIDDEN_CALLER
          else if p \<noteq> cv_partner cv then Inr (err_json ''PARTNER_MISMATCH'', d)
          else case latest_window c {OPEN, ANSWERED} d of None \<Rightarrow> Inr (err_json ''NO_WINDOW'', d)
            | Some x \<Rightarrow> Inr (ok_json [(''window_id'', jid (dw_id x))],
                (let d1 = add_message (dw_id x) PARTNER_SENT text c (sess_now s) d
                 in if dw_status x = OPEN then answer_notice p (cv_fan cv) (dw_id x) (answer_window (dw_id x) (sess_now s) d1) else d1)))"

definition answer :: "session \<Rightarrow> string \<Rightarrow> nat \<Rightarrow> string \<Rightarrow> ('a messagingDb_scheme, json) act" where
  "answer base u c text = runAs base u (rpc (rpc_partner_answer u c text))"

text \<open>A free follow-up goes into the open window, whatever its kind, or opens a free one.\<close>

definition rpc_partner_send_followup :: "string \<Rightarrow> string \<Rightarrow> ('a messagingDb_scheme, json) stmt" where
  "rpc_partner_send_followup fan text s d =
     (case current_user_id s of None \<Rightarrow> Inr (err_json ''NO_IDENTITY'', d)
      | Some p \<Rightarrow>
          if \<not> assert_active p d then Inl ''P0001 ACCOUNT_NOT_ACTIVE''
          else if is_blocked p fan ''DM'' d then Inr (err_json ''BLOCKED'', d)
          else case conv_of fan p d of None \<Rightarrow> Inr (err_json ''NO_CONVERSATION'', d)
            | Some cv \<Rightarrow>
                (let now = sess_now s; (i, d1) = (case latest_window (cv_id cv) {OPEN} d of Some x \<Rightarrow> (dw_id x, d)
                   | None \<Rightarrow> (new_window_id d, open_window \<lparr>dw_id = new_window_id d, dw_fan = fan, dw_conv = cv_id cv, dw_opened = now, dw_kind = FREE,
                       dw_charge = 0, dw_status = OPEN, dw_deadline = None, dw_settle_at = None\<rparr> d))
                 in Inr (ok_json [(''window_id'', jid i)], add_message i PARTNER_SENT text (cv_id cv) now d1)))"

definition followup :: "session \<Rightarrow> string \<Rightarrow> string \<Rightarrow> string \<Rightarrow> ('a messagingDb_scheme, json) act" where
  "followup base u fan text = runAs base u (rpc (rpc_partner_send_followup fan text))"

section \<open>Settling\<close>

definition settle_key :: "nat \<Rightarrow> idem_key" where
  "settle_key i = (''settlewin:'', i)"

definition settle_legs :: "int \<Rightarrow> leg list" where
  "settle_legs charge =
     [\<lparr>leg_wallet = None, leg_account = ''booking_escrow'', leg_delta = - charge, leg_bonus = 0\<rparr>,
      \<lparr>leg_wallet = None, leg_account = ''partner_payable'', leg_delta = charge, leg_bonus = 0\<rparr>]"

definition rpc_settle_window :: "nat \<Rightarrow> ('a messagingDb_scheme, json) stmt" where
  "rpc_settle_window i s d =
     (if \<not> is_system s d then Inl ''FORBIDDEN: system or admin only''
      else case find (\<lambda>x. dw_id x = i) (dm_windows d) of None \<Rightarrow> Inr (err_json ''NOT_SETTLEABLE'', d)
      | Some x \<Rightarrow>
          if dw_kind x \<noteq> PAID \<or> dw_charge x = 0 \<or> dw_status x \<noteq> ANSWERED then Inr (err_json ''NOT_SETTLEABLE'', d)
          else if under_report R_DM i d then Inr (err_json ''REPORT_PENDING'', d)
          else if i \<in> set (earnings d) then Inr (ok_json [(''already_settled'', JBool True)], d)
          else case post_transaction ''PARTNER_EARNING'' (dw_charge x) (settle_key i) (settle_legs (dw_charge x)) (Some (nat_text i)) d of
                 Inl e \<Rightarrow> Inl e
               | Inr ((tid, _), d1) \<Rightarrow> Inr (ok_json [(''transaction_id'', JNum (int tid))], d1\<lparr>earnings := earnings d1 @ [i]\<rparr>))"

section \<open>Reading\<close>

definition party :: "session \<Rightarrow> 'a bank_scheme \<Rightarrow> conversation \<Rightarrow> bool" where
  "party s d c \<longleftrightarrow> current_user_id s \<in> {Some (cv_fan c), Some (cv_partner c)} \<or> admin_session s d"

text \<open>\<open>profiles_self_read\<close> and \<open>profiles_counterparty_read\<close>: a counterparty is seen only while its role is FAN.\<close>

definition profile_visible :: "session \<Rightarrow> 'a messagingDb_scheme \<Rightarrow> account \<Rightarrow> bool" where
  "profile_visible s d a \<longleftrightarrow> current_user_id s = Some (ac_id a) \<or> admin_session s d \<or>
     (ac_fan_role a \<and> (\<exists>me. current_user_id s = Some me \<and>
        ((\<exists>b \<in> set (bookings d). bk_fan b = ac_id a \<and> bk_partner b = me) \<or>
         (\<exists>c \<in> set (mq_convs d). cv_fan c = ac_id a \<and> cv_partner c = me) \<or>
         (\<exists>x \<in> set (shoutouts d). so_fan x = ac_id a \<and> so_partner x = me))))"

definition visible_account :: "session \<Rightarrow> 'a messagingDb_scheme \<Rightarrow> string \<Rightarrow> account option" where
  "visible_account s d u = find (\<lambda>a. ac_id a = u \<and> profile_visible s d a) (mq_accounts d)"

definition windows_of :: "'a services_scheme \<Rightarrow> nat \<Rightarrow> nat list" where
  "windows_of d c = map dw_id (filter (\<lambda>x. dw_conv x = c) (dm_windows d))"

text \<open>\<open>order by created_at desc limit 1\<close>.\<close>

definition last_message :: "message list \<Rightarrow> message option" where
  "last_message ms = (case sort_key (\<lambda>m. - ms_created m) ms of [] \<Rightarrow> None | m # _ \<Rightarrow> Some m)"

record conversationRow =
  cr_conv :: conversation
  cr_fan_name :: "string option"
  cr_partner_name :: "string option"
  cr_last :: "(string \<times> messageSender) option"
  cr_awaiting :: bool

definition conversation_row :: "session \<Rightarrow> 'a messagingDb_scheme \<Rightarrow> conversation \<Rightarrow> conversationRow" where
  "conversation_row s d c =
     \<lparr>cr_conv = c, cr_fan_name = Option.bind (visible_account s d (cv_fan c)) ac_name,
      cr_partner_name = Option.bind (map_of (partner_profiles d) (cv_partner c)) id,
      cr_last = map_option (\<lambda>m. (ms_body m, ms_sender m)) (last_message (filter (\<lambda>m. ms_window m \<in> set (windows_of d (cv_id c))) (mq_msgs d))),
      cr_awaiting = (\<exists>x \<in> set (dm_windows d). dw_conv x = cv_id c \<and> dw_status x = OPEN)\<rparr>"

definition conversations :: "session \<Rightarrow> string \<Rightarrow> ('a messagingDb_scheme, conversationRow list) act" where
  "conversations base u = runAs base u (execute (\<lambda>s d. Inr (map (conversation_row s d)
     (sort_key (\<lambda>c. - cv_activity c) (filter (\<lambda>c. (cv_fan c = u \<or> cv_partner c = u) \<and> party s d c) (mq_convs d))), d)))"

text \<open>The inner joins of the two lists of a partner: the conversation, and the profile of the fan as far as it is visible.\<close>

definition joined_windows :: "windowStatus set \<Rightarrow> string \<Rightarrow> session \<Rightarrow> 'a messagingDb_scheme \<Rightarrow> (dmWindow \<times> conversation \<times> account) list" where
  "joined_windows sts u s d = concat (map (\<lambda>x. concat (map (\<lambda>c. concat (map (\<lambda>a.
       if dw_conv x = cv_id c \<and> cv_partner c = u \<and> party s d c \<and> dw_status x \<in> sts \<and> ac_id a = cv_fan c \<and> profile_visible s d a then [(x, c, a)] else [])
     (mq_accounts d))) (mq_convs d))) (dm_windows d))"

definition question_row :: "'a messagingDb_scheme \<Rightarrow> dmWindow \<times> conversation \<times> account \<Rightarrow> nat \<times> string \<times> string option \<times> int \<times> windowStatus \<times> string option" where
  "question_row d r = (case r of (x, c, a) \<Rightarrow> (cv_id c, cv_fan c, ac_name a, dw_opened x, dw_status x,
     map_option ms_body (last_message (filter (\<lambda>m. ms_window m = dw_id x) (mq_msgs d)))))"

definition pendingQuestions :: "session \<Rightarrow> string \<Rightarrow> ('a messagingDb_scheme, (nat \<times> string \<times> string option \<times> int \<times> windowStatus \<times> string option) list) act" where
  "pendingQuestions base u = runAs base u (execute (\<lambda>s d. Inr (map (question_row d)
     (sort_key (\<lambda>r. dw_opened (fst r)) (joined_windows {OPEN} u s d)), d)))"

definition expiredQuestions :: "session \<Rightarrow> string \<Rightarrow> ('a messagingDb_scheme, (nat \<times> string \<times> string option \<times> int \<times> windowStatus \<times> string option) list) act" where
  "expiredQuestions base u = runAs base u (execute (\<lambda>s d. Inr (map (question_row d)
     (take 50 (sort_key (\<lambda>r. - dw_opened (fst r)) (joined_windows {EXPIRED, REFUNDED} u s d))), d)))"

definition byPartner :: "session \<Rightarrow> string \<Rightarrow> string \<Rightarrow> ('a messagingDb_scheme, nat option) act" where
  "byPartner base u p = runAs base u (execute (\<lambda>s d. Inr (map_option cv_id
     (find (\<lambda>c. ((cv_fan c = u \<and> cv_partner c = p) \<or> (cv_partner c = u \<and> cv_fan c = p)) \<and> party s d c) (mq_convs d)), d)))"

definition messages :: "session \<Rightarrow> string \<Rightarrow> nat \<Rightarrow> ('a messagingDb_scheme, (message \<times> dmWindow) list) act" where
  "messages base u c = runAs base u (execute (\<lambda>s d. Inr (sort_key (\<lambda>r. ms_created (fst r))
     (concat (map (\<lambda>m. map (\<lambda>x. (m, x)) (filter (\<lambda>x. dw_id x = ms_window m \<and> dw_conv x = c \<and>
        (\<exists>cv \<in> set (mq_convs d). cv_id cv = c \<and> party s d cv)) (dm_windows d))) (mq_msgs d))), d)))"

end
