(* ===== verification/Messaging_Money.thy ===== *)
theory Messaging_Money
  imports Messaging Jobs_Props
begin

text \<open>
  The money of questions: whatever fans, partners and the sweeps do, and in whatever order, the escrow holds exactly the
  charges of the paid questions that are neither settled nor refunded.
\<close>

section \<open>Postings leave the other tables alone\<close>

lemma apply_leg_more: "apply_leg tid l d = Inr d' \<Longrightarrow> money.more d' = money.more d"
  by (cases d; cases d') (auto simp: apply_leg_def Let_def split: option.splits if_splits)

lemma apply_legs_more: "apply_legs tid ls d = Inr d' \<Longrightarrow> money.more d' = money.more d"
  by (induction ls arbitrary: d) (auto split: sum.splits dest: apply_leg_more)

lemma post_more:
  assumes "post_transaction ty amount key legs ref d = Inr (r, d')"
  shows "money.more d' = money.more d"
proof (cases "find_txn key d")
  case None
  then have "apply_legs (next_id d) legs (d\<lparr>txns := txns d @ [\<lparr>tn_id = next_id d, tn_type = ty, tn_amount = amount, tn_key = key, tn_ref = ref\<rparr>],
      next_id := Suc (next_id d)\<rparr>) = Inr d'"
    using assms by (auto simp: post_transaction_def Let_def split: if_splits sum.splits)
  from apply_legs_more [OF this] show ?thesis by (cases d) simp
next
  case (Some t)
  then show ?thesis using assms by (auto simp: post_transaction_def split: if_splits)
qed

lemma more_fields:
  fixes d d' :: "'a messagingDb_scheme"
  assumes "money.more d' = money.more d"
  shows "dm_windows d' = dm_windows d" "earnings d' = earnings d" "profiles d' = profiles d" "mq_convs d' = mq_convs d" "mq_msgs d' = mq_msgs d"
    "mq_accounts d' = mq_accounts d" "mq_settle_days d' = mq_settle_days d"
  using assms by (cases d; cases d'; simp)+

lemma post_windows:
  fixes d d' :: "'a messagingDb_scheme"
  shows "post_transaction ty amount key legs ref d = Inr (r, d') \<Longrightarrow> dm_windows d' = dm_windows d"
  by (rule more_fields(1) [OF post_more])

section \<open>What is owed\<close>

definition keys :: "'a money_scheme \<Rightarrow> idem_key set" where
  "keys d = tn_key ` set (txns d)"

definition owed :: "nat set \<Rightarrow> dmWindow \<Rightarrow> int" where
  "owed paid x = (if dw_kind x = PAID \<and> dw_status x \<in> {OPEN, ANSWERED} \<and> dw_id x \<notin> paid then dw_charge x else 0)"

definition owed_sum :: "'a services_scheme \<Rightarrow> int" where
  "owed_sum d = sum_list (map (owed (set (earnings d))) (dm_windows d))"

definition window_ok :: "idem_key set \<Rightarrow> nat set \<Rightarrow> dmWindow \<Rightarrow> bool" where
  "window_ok ks paid x \<longleftrightarrow>
     (dw_kind x = FREE \<longrightarrow> dw_charge x = 0) \<and> (dw_kind x = PAID \<longrightarrow> 0 < dw_charge x \<and> question_key (dw_id x) \<in> ks) \<and>
     (settle_key (dw_id x) \<in> ks \<longleftrightarrow> dw_id x \<in> paid) \<and> (refund_key (dw_id x) \<in> ks \<longleftrightarrow> dw_kind x = PAID \<and> dw_status x = EXPIRED) \<and>
     (dw_id x \<in> paid \<longrightarrow> dw_kind x = PAID \<and> dw_status x = ANSWERED) \<and> dw_status x \<noteq> REFUNDED"

text \<open>\<open>c\<close> is what the escrow holds for the other services.\<close>

definition questions_ok :: "int \<Rightarrow> 'a messagingDb_scheme \<Rightarrow> bool" where
  "questions_ok c d \<longleftrightarrow> money_ok d \<and> distinct (map dw_id (dm_windows d)) \<and>
     (\<forall>x \<in> set (dm_windows d). window_ok (keys d) (set (earnings d)) x) \<and>
     account_sum ''booking_escrow'' (entries d) = c + owed_sum d"

lemma key_distinct [simp]:
  "question_key i \<noteq> settle_key j" "settle_key i \<noteq> question_key j" "question_key i \<noteq> refund_key j" "refund_key i \<noteq> question_key j"
  "settle_key i \<noteq> refund_key j" "refund_key i \<noteq> settle_key j" "question_key i = question_key j \<longleftrightarrow> i = j" "settle_key i = settle_key j \<longleftrightarrow> i = j"
  "refund_key i = refund_key j \<longleftrightarrow> i = j"
  by (simp_all add: question_key_def settle_key_def refund_key_def)

lemma fresh_max: "x \<in> set xs \<Longrightarrow> x < fresh xs"
proof -
  have "\<forall>a. (x \<in> set xs \<longrightarrow> x \<le> fold max xs a) \<and> a \<le> fold max xs a"
    by (induction xs) (auto intro: order_trans [rotated])
  moreover assume "x \<in> set xs"
  ultimately show ?thesis by (simp add: fresh_def less_Suc_eq_le)
qed

lemma below_new: "i \<in> set (map dw_id (dm_windows d) @ earnings d @ map (snd \<circ> tn_key) (txns d)) \<Longrightarrow> i < new_window_id d"
  unfolding new_window_id_def by (rule fresh_max)

lemma new_window_fresh:
  "x \<in> set (dm_windows d) \<Longrightarrow> dw_id x \<noteq> new_window_id d" "new_window_id d \<notin> set (earnings d)" "(p, new_window_id d) \<notin> keys d"
proof -
  show "x \<in> set (dm_windows d) \<Longrightarrow> dw_id x \<noteq> new_window_id d" using below_new [of "dw_id x" d] by auto
  show "new_window_id d \<notin> set (earnings d)" using below_new [of "new_window_id d" d] by auto
  show "(p, new_window_id d) \<notin> keys d"
  proof
    assume "(p, new_window_id d) \<in> keys d"
    then obtain t where "t \<in> set (txns d)" "tn_key t = (p, new_window_id d)" by (auto simp: keys_def)
    then have "new_window_id d \<in> set (map (snd \<circ> tn_key) (txns d))" by (force simp: image_iff)
    then show False using below_new [of "new_window_id d" d] by simp
  qed
qed

text \<open>Changing one window changes the sum by its difference.\<close>

lemma sum_list_one:
  fixes f g :: "'x \<Rightarrow> int"
  assumes "distinct (map k xs)" and "x \<in> set xs" and "\<And>y. y \<in> set xs \<Longrightarrow> k y \<noteq> k x \<Longrightarrow> g y = f y"
  shows "sum_list (map g xs) = sum_list (map f xs) + g x - f x"
  using assms
proof (induction xs)
  case (Cons a xs)
  show ?case
  proof (cases "a = x")
    case True
    have "k y \<noteq> k x" if "y \<in> set xs" for y using Cons.prems(1) True that by (metis distinct.simps(2) image_eqI list.set_map list.simps(9))
    then have "sum_list (map g xs) = sum_list (map f xs)" using Cons.prems(3) by (intro arg_cong [where f = sum_list] map_cong refl) simp
    then show ?thesis using True by simp
  next
    case False
    then have "k a \<noteq> k x" using Cons.prems(1,2) by auto
    then show ?thesis using False Cons by simp
  qed
qed simp

lemma owed_cong: "(dw_id x \<in> a \<longleftrightarrow> dw_id x \<in> b) \<Longrightarrow> owed a x = owed b x"
  by (simp add: owed_def)

section \<open>Each operation\<close>

lemma post_once:
  fixes d d1 :: "'a money_scheme"
  assumes ok: "money_ok d" and p: "post_transaction ty a key legs ref d = Inr (r, d1)" and k: "key \<notin> keys d"
  shows "money_ok d1" "keys d1 = insert key (keys d)" "0 < a"
    "account_sum acc (entries d1) = account_sum acc (entries d) + sum_list (map leg_delta (filter (\<lambda>l. leg_account l = acc) legs))"
    "money.more d1 = money.more d"
proof -
  obtain tid rep where r: "r = (tid, rep)" by (cases r)
  have none: "find_txn key d = None" using k by (simp add: find_txn_None keys_def)
  note n = post_new [OF p [unfolded r] none]
  show "money_ok d1" by (rule money_ok_post [OF ok p [unfolded r]])
  show "keys d1 = insert key (keys d)" by (simp add: keys_def n(4))
  show "0 < a" using p by (auto simp: post_transaction_def split: if_splits)
  have "account_sum acc (map (entry_of tid) ls) = sum_list (map leg_delta (filter (\<lambda>l. leg_account l = acc) ls))" for ls
    by (induction ls) (auto simp: sums_Cons entry_of_def)
  then show "account_sum acc (entries d1) = account_sum acc (entries d) + sum_list (map leg_delta (filter (\<lambda>l. leg_account l = acc) legs))"
    by (simp add: n(5))
  show "money.more d1 = money.more d" by (rule post_more [OF p])
qed

lemma post_fresh:
  fixes d d1 :: "'a messagingDb_scheme"
  assumes ok: "money_ok d" and p: "post_transaction ty a key legs ref d = Inr (r, d1)" and k: "key \<notin> keys d"
  shows "money_ok d1" "keys d1 = insert key (keys d)" "0 < a"
    "account_sum acc (entries d1) = account_sum acc (entries d) + sum_list (map leg_delta (filter (\<lambda>l. leg_account l = acc) legs))"
    "dm_windows d1 = dm_windows d" "earnings d1 = earnings d"
  using post_once [OF ok p k] more_fields(1,2) [of d1 d] by simp_all

lemma add_message_ok [simp]: "questions_ok c (add_message i sender text cv now d) \<longleftrightarrow> questions_ok c d"
  by (simp add: questions_ok_def owed_sum_def keys_def money_ok_def add_message_def)

lemma convs_ok [simp]: "questions_ok c (d\<lparr>mq_convs := cs\<rparr>) \<longleftrightarrow> questions_ok c d"
  by (simp add: questions_ok_def owed_sum_def keys_def money_ok_def)

lemma notify_ok [simp]: "questions_ok c (notify k d) \<longleftrightarrow> questions_ok c d"
  by (simp add: questions_ok_def owed_sum_def keys_def money_ok_def notify_def)

lemma notice_ok [simp]:
  "questions_ok c (question_notice p i d) \<longleftrightarrow> questions_ok c d" "questions_ok c (answer_notice p fan i d) \<longleftrightarrow> questions_ok c d"
  by (simp_all add: question_notice_def answer_notice_def)

lemma open_window_ok:
  assumes ok: "money_ok d1" "distinct (map dw_id (dm_windows d))" "\<forall>y \<in> set (dm_windows d). window_ok (keys d) (set (earnings d)) y"
    and d1: "dm_windows d1 = dm_windows d" "earnings d1 = earnings d" "keys d1 = keys d \<or> keys d1 = insert (question_key (dw_id x)) (keys d)"
    and x: "dw_id x = new_window_id d" "dw_status x = OPEN" "dw_kind x = FREE \<and> dw_charge x = 0 \<or>
        dw_kind x = PAID \<and> 0 < dw_charge x \<and> question_key (dw_id x) \<in> keys d1"
    and e: "account_sum ''booking_escrow'' (entries d1) = c + owed_sum d + dw_charge x"
  shows "questions_ok c (open_window x d1)"
proof -
  have n: "dw_id x \<notin> set (earnings d)" "settle_key (dw_id x) \<notin> keys d" "refund_key (dw_id x) \<notin> keys d"
    "\<forall>y \<in> set (dm_windows d). dw_id y \<noteq> dw_id x"
    using new_window_fresh(1) [of _ d] new_window_fresh(2,3) [where d = d] by (auto simp: x(1) settle_key_def refund_key_def)
  have "window_ok (keys d1) (set (earnings d)) y" if "y \<in> set (dm_windows d)" for y
    using ok(3) that d1(3) by (auto simp: window_ok_def)
  moreover have "window_ok (keys d1) (set (earnings d)) x"
    using n x(2,3) d1(3) by (auto simp: window_ok_def)
  moreover have "distinct (map dw_id (dm_windows d @ [x]))" using ok(2) n(4) by force
  moreover have "owed (set (earnings d)) x = dw_charge x" using x n by (auto simp: owed_def)
  ultimately show ?thesis
    using ok(1) e by (simp add: questions_ok_def open_window_def d1(1,2) owed_sum_def keys_def money_ok_def)
qed

lemma ask_new_ok:
  assumes ok: "questions_ok c d" and run: "ask_new fan p text cv s d = Inr (r, d')"
  shows "questions_ok c d'"
proof -
  have q: "money_ok d" "distinct (map dw_id (dm_windows d))" "\<forall>y \<in> set (dm_windows d). window_ok (keys d) (set (earnings d)) y"
    "account_sum ''booking_escrow'' (entries d) = c + owed_sum d" using ok by (simp_all add: questions_ok_def)
  show ?thesis
  proof (cases "\<exists>x \<in> set (dm_windows d). dw_conv x = cv")
    case False
    then show ?thesis using run q
      by (auto simp: ask_new_def Let_def intro!: open_window_ok)
  next
    case True
    show ?thesis
    proof (cases "question_price p d")
      case None
      then show ?thesis using run ok True by (auto simp: ask_new_def Let_def)
    next
      case (Some price)
      let ?i = "new_window_id d" and ?legs = "question_legs (map_option wl_id (wallet_of fan d)) price"
      have k: "question_key ?i \<notin> keys d" using new_window_fresh(3) by (simp add: question_key_def)
      from run True Some obtain t d1 where p: "post_transaction ''QUESTION_DEBIT'' price (question_key ?i) ?legs (Some (nat_text ?i)) d = Inr (t, d1)"
        and d': "d' = question_notice p ?i (add_message ?i FAN_SENT text cv (sess_now s) (open_window \<lparr>dw_id = ?i, dw_fan = fan, dw_conv = cv, dw_opened = sess_now s,
          dw_kind = PAID, dw_charge = price, dw_status = OPEN, dw_deadline = Some (sess_now s + mq_sla_hours d * HOUR_MS),
          dw_settle_at = Some (sess_now s + mq_settle_days d * 24 * HOUR_MS)\<rparr> d1))"
        by (auto simp: ask_new_def Let_def split: sum.splits)
      note f = post_fresh [OF q(1) p k]
      have "account_sum ''booking_escrow'' (entries d1) = c + owed_sum d + price"
        unfolding f(4) q(4) by (simp add: question_legs_def)
      then show ?thesis unfolding d' notice_ok add_message_ok using f(3)
        by (intro open_window_ok [where d = d] f(1,5,6) q(2,3)) (simp_all add: f(2))
    qed
  qed
qed

lemma change_window_ok:
  assumes ok: "questions_ok c d" and x: "x \<in> set (dm_windows d)"
    and d1: "money_ok d1" "dm_windows d1 = map (\<lambda>y. if dw_id y = dw_id x then g y else y) (dm_windows d)"
    and g: "\<And>y. dw_id (g y) = dw_id y"
    and others: "\<And>y. y \<in> set (dm_windows d) \<Longrightarrow> dw_id y \<noteq> dw_id x \<Longrightarrow> window_ok (keys d1) (set (earnings d1)) y \<and> (dw_id y \<in> set (earnings d1) \<longleftrightarrow> dw_id y \<in> set (earnings d))"
    and this_one: "window_ok (keys d1) (set (earnings d1)) (g x)"
    and e: "account_sum ''booking_escrow'' (entries d1) = account_sum ''booking_escrow'' (entries d) + owed (set (earnings d1)) (g x) - owed (set (earnings d)) x"
  shows "questions_ok c d1"
proof -
  have dist: "distinct (map dw_id (dm_windows d))" using ok by (simp add: questions_ok_def)
  have same: "y = x" if "y \<in> set (dm_windows d)" "dw_id y = dw_id x" for y using dist x that by (auto simp: distinct_map inj_on_def)
  let ?u = "\<lambda>y. if dw_id y = dw_id x then g y else y"
  have ids: "map dw_id (dm_windows d1) = map dw_id (dm_windows d)" unfolding d1(2) by (auto simp: g)
  have "owed_sum d1 = sum_list (map (\<lambda>y. owed (set (earnings d1)) (?u y)) (dm_windows d))"
    by (simp add: owed_sum_def d1(2) comp_def)
  also have "\<dots> = sum_list (map (owed (set (earnings d))) (dm_windows d)) + owed (set (earnings d1)) (?u x) - owed (set (earnings d)) x"
  proof (rule sum_list_one [OF dist x])
    fix y assume y: "y \<in> set (dm_windows d)" "dw_id y \<noteq> dw_id x"
    show "owed (set (earnings d1)) (?u y) = owed (set (earnings d)) y"
      using y(2) owed_cong [OF others [OF y, THEN conjunct2]] by simp
  qed
  finally have "account_sum ''booking_escrow'' (entries d1) = c + owed_sum d1"
    using e ok by (simp add: owed_sum_def questions_ok_def)
  moreover have "window_ok (keys d1) (set (earnings d1)) y" if "y \<in> set (dm_windows d1)" for y
    using that others this_one same unfolding d1(2) by (auto split: if_splits)
  ultimately show ?thesis using d1(1) dist ids by (simp add: questions_ok_def)
qed

text \<open>\<open>kept\<close>: every window is still there with its kind and its charge.\<close>

definition kept :: "dmWindow list \<Rightarrow> 'a services_scheme \<Rightarrow> bool" where
  "kept ws d \<longleftrightarrow> (\<forall>p \<in> set ws. \<exists>x \<in> set (dm_windows d). dw_id x = dw_id p \<and> dw_kind x = dw_kind p \<and> dw_charge x = dw_charge p)"

definition questions_inv :: "int \<Rightarrow> dmWindow list \<Rightarrow> 'a messagingDb_scheme \<Rightarrow> bool" where
  "questions_inv c ws d \<longleftrightarrow> questions_ok c d \<and> kept ws d"

lemma kept_append: "kept ws d \<Longrightarrow> dm_windows d' = dm_windows d @ xs \<Longrightarrow> kept ws d'"
  by (fastforce simp: kept_def)

lemma kept_map:
  assumes "kept ws d" and "dm_windows d' = map f (dm_windows d)"
    and "\<And>x. dw_id (f x) = dw_id x \<and> dw_kind (f x) = dw_kind x \<and> dw_charge (f x) = dw_charge x"
  shows "kept ws d'"
  using assms unfolding kept_def by (metis (no_types, lifting) image_eqI list.set_map)

lemma kept_same: "kept ws d \<Longrightarrow> dm_windows d' = dm_windows d \<Longrightarrow> kept ws d'"
  by (simp add: kept_def)

lemma kept_simps [simp]:
  "kept ws (add_message i who t cv now d) = kept ws d" "kept ws (d\<lparr>mq_convs := cs\<rparr>) = kept ws d" "kept ws (d\<lparr>earnings := es\<rparr>) = kept ws d"
  "kept ws (notify k d) = kept ws d" "kept ws (question_notice p i d) = kept ws d" "kept ws (answer_notice p fan i d) = kept ws d"
  by (simp_all add: kept_def add_message_def notify_def question_notice_def answer_notice_def)

lemma ask_new_kept:
  assumes "kept ws d" and run: "ask_new fan p text cv s d = Inr (r, d')"
  shows "kept ws d'"
proof -
  have "dm_windows d' = dm_windows d \<or> (\<exists>x. dm_windows d' = dm_windows d @ [x])"
    using run by (auto simp: ask_new_def Let_def open_window_def add_message_def question_notice_def notify_def split: if_splits option.splits sum.splits dest: post_windows)
  then show ?thesis using assms(1) kept_append kept_same by metis
qed

lemma latest_window_in: "latest_window cv sts d = Some x \<Longrightarrow> x \<in> set (dm_windows d) \<and> dw_conv x = cv \<and> dw_status x \<in> sts"
proof -
  assume l: "latest_window cv sts d = Some x"
  let ?xs = "filter (\<lambda>x. dw_conv x = cv \<and> dw_status x \<in> sts) (dm_windows d)"
  obtain ys where e: "sort_key (\<lambda>x. - dw_opened x) ?xs = x # ys" using l by (auto simp: latest_window_def split: list.splits)
  have "x \<in> set (sort_key (\<lambda>x. - dw_opened x) ?xs)" unfolding e by simp
  then show ?thesis unfolding set_sort by auto
qed

lemma ask_inv:
  assumes i: "questions_inv c ws d" and run: "rpc_ask_question fan p text s d = Inr (r, d')"
  shows "questions_inv c ws d'"
proof -
  have base: "ask_new fan p text cv s d0 = Inr (r, d') \<Longrightarrow> questions_inv c ws d0 \<Longrightarrow> questions_inv c ws d'" for cv d0
    unfolding questions_inv_def using ask_new_ok ask_new_kept by blast
  have convs: "questions_inv c ws (d\<lparr>mq_convs := cs\<rparr>)" for cs using i by (simp add: questions_inv_def)
  have msg: "questions_inv c ws d0 \<Longrightarrow> questions_inv c ws (add_message j who t cv now d0)" for j who t cv now d0
    by (simp add: questions_inv_def)
  show ?thesis
    using run i convs
    by (auto simp: rpc_ask_question_def Let_def split: if_splits option.splits intro: base msg)
qed

lemma answer_window_ok:
  assumes ok: "questions_ok c d" and x: "x \<in> set (dm_windows d)" "dw_status x = OPEN"
  shows "questions_ok c (answer_window (dw_id x) now d)"
proof -
  let ?g = "\<lambda>y. y\<lparr>dw_status := ANSWERED, dw_settle_at := Some (now + mq_settle_days d * 24 * HOUR_MS)\<rparr>"
  have w: "window_ok (keys d) (set (earnings d)) y" if "y \<in> set (dm_windows d)" for y using ok that by (simp add: questions_ok_def)
  have f: "keys (answer_window (dw_id x) now d) = keys d" "earnings (answer_window (dw_id x) now d) = earnings d"
    "entries (answer_window (dw_id x) now d) = entries d" "money_ok (answer_window (dw_id x) now d) = money_ok d"
    by (simp_all add: answer_window_def keys_def money_ok_def)
  show ?thesis
  proof (rule change_window_ok [where d = d and x = x and g = ?g, OF ok x(1)])
    show "money_ok (answer_window (dw_id x) now d)" using ok unfolding f(4) by (simp add: questions_ok_def)
    show "dm_windows (answer_window (dw_id x) now d) = map (\<lambda>y. if dw_id y = dw_id x then ?g y else y) (dm_windows d)" by (simp add: answer_window_def)
    show "window_ok (keys (answer_window (dw_id x) now d)) (set (earnings (answer_window (dw_id x) now d))) (?g x)"
      unfolding f using w [OF x(1)] x(2) by (auto simp: window_ok_def)
    show "account_sum ''booking_escrow'' (entries (answer_window (dw_id x) now d)) = account_sum ''booking_escrow'' (entries d)
        + owed (set (earnings (answer_window (dw_id x) now d))) (?g x) - owed (set (earnings d)) x"
      unfolding f using x(2) by (simp add: owed_def)
  qed (use w f in simp_all)
qed

lemma answer_inv:
  assumes i: "questions_inv c ws d" and run: "rpc_partner_answer p cv text s d = Inr (r, d')"
  shows "questions_inv c ws d'"
proof -
  have k: "kept ws (answer_window j now d0) = kept ws d0" for j now and d0 :: "'a messagingDb_scheme"
  proof -
    let ?f = "\<lambda>x. if dw_id x = j then x\<lparr>dw_status := ANSWERED, dw_settle_at := Some (now + mq_settle_days d0 * 24 * HOUR_MS)\<rparr> else x"
    have "(\<exists>x \<in> set (map ?f (dm_windows d0)). dw_id x = a \<and> dw_kind x = b \<and> dw_charge x = e) \<longleftrightarrow>
        (\<exists>x \<in> set (dm_windows d0). dw_id x = a \<and> dw_kind x = b \<and> dw_charge x = e)" for a b e
      unfolding set_map bex_simps by (intro bex_cong refl) simp
    then show ?thesis by (simp add: kept_def answer_window_def)
  qed
  have m: "dm_windows (add_message j who t cv2 now d) = dm_windows d" for j who t cv2 now by (simp add: add_message_def)
  have lw: "latest_window cv {OPEN, ANSWERED} d = Some x \<Longrightarrow> x \<in> set (dm_windows d)" for x using latest_window_in by blast
  show ?thesis
    using run i
    by (auto simp: rpc_partner_answer_def Let_def questions_inv_def k m split: if_splits option.splits
      intro!: answer_window_ok) (metis lw)+
qed

lemma followup_inv:
  assumes i: "questions_inv c ws d" and run: "rpc_partner_send_followup fan text s d = Inr (r, d')"
  shows "questions_inv c ws d'"
proof -
  have "questions_inv c ws (open_window \<lparr>dw_id = new_window_id d, dw_fan = fan, dw_conv = cv, dw_opened = now, dw_kind = FREE,
      dw_charge = 0, dw_status = OPEN, dw_deadline = None, dw_settle_at = None\<rparr> d)" for cv now
    unfolding questions_inv_def
  proof
    show "questions_ok c (open_window \<lparr>dw_id = new_window_id d, dw_fan = fan, dw_conv = cv, dw_opened = now, dw_kind = FREE,
        dw_charge = 0, dw_status = OPEN, dw_deadline = None, dw_settle_at = None\<rparr> d)"
      by (rule open_window_ok [where d = d]) (use i in \<open>auto simp: questions_inv_def questions_ok_def\<close>)
    show "kept ws (open_window \<lparr>dw_id = new_window_id d, dw_fan = fan, dw_conv = cv, dw_opened = now, dw_kind = FREE,
        dw_charge = 0, dw_status = OPEN, dw_deadline = None, dw_settle_at = None\<rparr> d)"
      by (rule kept_append [where d = d]) (use i in \<open>simp_all add: questions_inv_def open_window_def\<close>)
  qed
  then show ?thesis
    using run i by (auto simp: rpc_partner_send_followup_def Let_def questions_inv_def split: if_splits option.splits)
qed

lemma settle_inv:
  assumes i: "questions_inv c ws d" and run: "rpc_settle_window j s d = Inr (r, d')"
  shows "questions_inv c ws d'"
proof (cases "d' = d")
  case False
  from run False obtain x t d1 where f: "find (\<lambda>x. dw_id x = j) (dm_windows d) = Some x" and x: "dw_kind x = PAID" "dw_status x = ANSWERED" "j \<notin> set (earnings d)"
    and p: "post_transaction ''PARTNER_EARNING'' (dw_charge x) (settle_key j) (settle_legs (dw_charge x)) (Some (nat_text j)) d = Inr (t, d1)"
    and d': "d' = d1\<lparr>earnings := earnings d1 @ [j]\<rparr>"
    by (auto simp: rpc_settle_window_def split: if_splits option.splits sum.splits)
  have ok: "questions_ok c d" using i by (simp add: questions_inv_def)
  have x_in: "x \<in> set (dm_windows d)" "dw_id x = j" using f by (auto simp: find_Some_iff)
  have w: "window_ok (keys d) (set (earnings d)) y" if "y \<in> set (dm_windows d)" for y using ok that by (simp add: questions_ok_def)
  have k: "settle_key j \<notin> keys d" using w [OF x_in(1)] x_in(2) x(3) by (simp add: window_ok_def)
  have m: "money_ok d" using ok by (simp add: questions_ok_def)
  note q = post_fresh [OF m p k]
  have g: "money_ok d'" "dm_windows d' = dm_windows d" "keys d' = insert (settle_key j) (keys d)" "set (earnings d') = insert j (set (earnings d))"
    "account_sum ''booking_escrow'' (entries d') = account_sum ''booking_escrow'' (entries d) - dw_charge x"
    using q(1,2,5,6) q(4) [of "''booking_escrow''"] by (simp_all add: d' keys_def money_ok_def settle_legs_def)
  have "questions_ok c d'"
  proof (rule change_window_ok [where d = d and x = x and g = "\<lambda>y. y", OF ok x_in(1) g(1)])
    show "window_ok (keys d') (set (earnings d')) x" using w [OF x_in(1)] x x_in(2) unfolding g by (auto simp: window_ok_def)
    show "account_sum ''booking_escrow'' (entries d') = account_sum ''booking_escrow'' (entries d) + owed (set (earnings d')) x - owed (set (earnings d)) x"
      unfolding g using x x_in(2) by (simp add: owed_def)
    fix y assume y: "y \<in> set (dm_windows d)" "dw_id y \<noteq> dw_id x"
    show "window_ok (keys d') (set (earnings d')) y \<and> (dw_id y \<in> set (earnings d') \<longleftrightarrow> dw_id y \<in> set (earnings d))"
      unfolding g using w [OF y(1)] y(2) x_in(2) by (auto simp: window_ok_def)
  qed (simp_all add: g)
  moreover have "kept ws d'" using i kept_same [OF _ g(2)] by (simp add: questions_inv_def)
  ultimately show ?thesis by (simp add: questions_inv_def)
qed (use i in simp)

section \<open>The expiry of a question\<close>

lemma notify_inv [simp]: "questions_inv c ws (notify k d) \<longleftrightarrow> questions_inv c ws d"
  by (simp add: questions_inv_def)

lemma create_notification_inv:
  "questions_inv c ws d \<Longrightarrow> create_notification_fn (expired_notice win) s d = Inr (r, d') \<Longrightarrow> questions_inv c ws d'"
  by (auto simp: expired_notice_def jid_def rpc_create_notification_def Let_def split: if_splits)

text \<open>The refund with the status, for a window that is not settled, whatever became of it since it was read.\<close>

lemma refund_inv:
  assumes i: "questions_inv c ws d" and win: "win \<in> set ws" "dw_kind win = PAID" and unpaid: "dw_id win \<notin> set (earnings d)"
    and run: "refund_window win s d = Inr (u, d1)"
    and d2: "d2 = d1\<lparr>dm_windows := map (\<lambda>x. if dw_id x = dw_id win then x\<lparr>dw_status := EXPIRED\<rparr> else x) (dm_windows d1)\<rparr>"
  shows "questions_inv c ws d2"
proof -
  have ok: "questions_ok c d" and k: "kept ws d" using i by (simp_all add: questions_inv_def)
  obtain x where x: "x \<in> set (dm_windows d)" "dw_id x = dw_id win" "dw_kind x = PAID" "dw_charge x = dw_charge win"
    using k win by (fastforce simp: kept_def)
  have w: "window_ok (keys d) (set (earnings d)) y" if "y \<in> set (dm_windows d)" for y using ok that by (simp add: questions_ok_def)
  have m: "money_ok d" using ok by (simp add: questions_ok_def)
  obtain t where p: "post_transaction ''REFUND'' (dw_charge win) (refund_key (dw_id win)) (refund_legs win d) None d = Inr (t, d1)"
    using run by (auto simp: refund_window_def split: sum.splits)
  show ?thesis
  proof (cases "refund_key (dw_id win) \<in> keys d")
    case True
    then obtain tn where "find_txn (refund_key (dw_id win)) d = Some tn" using find_txn_None [of "refund_key (dw_id win)" d] by (auto simp: keys_def)
    then have d1: "d1 = d" using p post_replay(3) by (metis surj_pair)
    have e: "dw_status x = EXPIRED" using w [OF x(1)] True by (simp add: window_ok_def x(2))
    have same: "y = x" if "y \<in> set (dm_windows d)" "dw_id y = dw_id win" for y
      using ok that x(1,2) by (auto simp: questions_ok_def distinct_map inj_on_def)
    have "map (\<lambda>x. if dw_id x = dw_id win then x\<lparr>dw_status := EXPIRED\<rparr> else x) (dm_windows d) = dm_windows d"
      by (rule map_idI) (use same e in auto)
    then show ?thesis using i by (simp add: d2 d1 questions_inv_def)
  next
    case False
    note q = post_fresh [OF m p False]
    have g: "money_ok d2" "dm_windows d2 = map (\<lambda>y. if dw_id y = dw_id x then y\<lparr>dw_status := EXPIRED\<rparr> else y) (dm_windows d)"
      "keys d2 = insert (refund_key (dw_id x)) (keys d)" "earnings d2 = earnings d"
      "account_sum ''booking_escrow'' (entries d2) = account_sum ''booking_escrow'' (entries d) - dw_charge x"
      using q(1,2,5,6) q(4) [of "''booking_escrow''"] by (simp_all add: d2 x(2,4) keys_def money_ok_def refund_legs_def)
    have st: "dw_status x \<in> {OPEN, ANSWERED}" using w [OF x(1)] False x(2,3) by (cases "dw_status x") (auto simp: window_ok_def)
    have "questions_ok c d2"
    proof (rule change_window_ok [where d = d and x = x and g = "\<lambda>y. y\<lparr>dw_status := EXPIRED\<rparr>", OF ok x(1) g(1,2)])
      show "window_ok (keys d2) (set (earnings d2)) (x\<lparr>dw_status := EXPIRED\<rparr>)"
        unfolding g using w [OF x(1)] x(2,3) unpaid by (auto simp: window_ok_def)
      show "account_sum ''booking_escrow'' (entries d2) = account_sum ''booking_escrow'' (entries d)
          + owed (set (earnings d2)) (x\<lparr>dw_status := EXPIRED\<rparr>) - owed (set (earnings d)) x"
        unfolding g using st x(2,3) unpaid by (simp add: owed_def)
      fix y assume y: "y \<in> set (dm_windows d)" "dw_id y \<noteq> dw_id x"
      show "window_ok (keys d2) (set (earnings d2)) y \<and> (dw_id y \<in> set (earnings d2) \<longleftrightarrow> dw_id y \<in> set (earnings d))"
        unfolding g using w [OF y(1)] y(2) by (auto simp: window_ok_def)
    qed simp
    moreover have "kept ws d2" by (rule kept_map [OF k g(2)]) simp
    ultimately show ?thesis by (simp add: questions_inv_def)
  qed
qed

lemma expire_inv:
  assumes F: "F ''rpc_create_notification'' = create_notification_fn" and i: "questions_inv c ws (w_db w)"
    and win: "win \<in> set ws" "dw_kind win = PAID" and unpaid: "dw_id win \<notin> set (earnings (w_db w))"
  shows "questions_inv c ws (w_db (snd (runAsService base (expire_window F win) w)))"
  using i refund_inv [OF i win unpaid _ refl]
  by (auto simp: expire_window_run [OF refl refl] F split: sum.split intro: create_notification_inv)

section \<open>Every interleaving\<close>

text \<open>
  The steps: the three requests, the settlement of one window, a sweep that reads its batch, and the expiry of one window of
  some batch.  A batch is worked off before an answered window is due for settlement, days later: the
  window that is expired is not settled.
\<close>

inductive question_step ::
  "'a messagingDb_scheme sqlFns \<Rightarrow> dmWindow list \<times> 'a messagingDb_scheme world \<Rightarrow> dmWindow list \<times> 'a messagingDb_scheme world \<Rightarrow> bool"
  for F where
  asked: "question_step F (ws, w) (ws, snd (ask base u p text w))"
| answered: "question_step F (ws, w) (ws, snd (answer base u cv text w))"
| followed_up: "question_step F (ws, w) (ws, snd (followup base u fan text w))"
| settled: "question_step F (ws, w) (ws, snd (runAsService base (rpc (rpc_settle_window i)) w))"
| read_batch: "question_step F (ws, w) (ws @ q_expired s (w_db w), w)"
| expired: "win \<in> set ws \<Longrightarrow> dw_id win \<notin> set (earnings (w_db w)) \<Longrightarrow>
    question_step F (ws, w) (ws, snd (runAsService base (expire_window F win) w))"

inductive_cases question_stepE: "question_step F (ws, w) (ws', w')"

definition state_inv :: "int \<Rightarrow> dmWindow list \<times> 'a messagingDb_scheme world \<Rightarrow> bool" where
  "state_inv c st \<longleftrightarrow> questions_inv c (fst st) (w_db (snd st)) \<and> (\<forall>x \<in> set (fst st). dw_kind x = PAID)"

lemma step_inv:
  assumes F: "F ''rpc_create_notification'' = create_notification_fn"
  shows "question_step F st st' \<Longrightarrow> state_inv c st \<Longrightarrow> state_inv c st'"
proof (induction rule: question_step.induct)
  case (asked ws w base u p body)
  then show ?case
    unfolding state_inv_def ask_def
    by (auto intro!: as_user.run_keeps [where I = "questions_inv c ws"] keeps_rpc intro: ask_inv)
next
  case (answered ws w base u cv body)
  then show ?case
    unfolding state_inv_def answer_def
    by (auto intro!: as_user.run_keeps [where I = "questions_inv c ws"] keeps_rpc intro: answer_inv)
next
  case (followed_up ws w base u fan body)
  then show ?case
    unfolding state_inv_def followup_def
    by (auto intro!: as_user.run_keeps [where I = "questions_inv c ws"] keeps_rpc intro: followup_inv)
next
  case (settled ws w base i)
  then show ?case
    unfolding state_inv_def
    by (auto intro!: as_service.run_keeps [where I = "questions_inv c ws"] keeps_rpc intro: settle_inv)
next
  case (read_batch ws w s)
  have "kept (q_expired s (w_db w)) (w_db w)"
    by (fastforce simp: kept_def q_expired_def)
  moreover have "kept (as @ bs) d \<longleftrightarrow> kept as d \<and> kept bs d" for as bs and d :: "'a messagingDb_scheme" by (auto simp: kept_def)
  ultimately show ?case using read_batch by (auto simp: state_inv_def questions_inv_def q_expired_def)
next
  case (expired win ws w base)
  then show ?case
    using expire_inv [where F = F and c = c and ws = ws and w = w and win = win and base = base, OF F] by (simp add: state_inv_def)
qed

lemma steps_inv:
  assumes F: "F ''rpc_create_notification'' = create_notification_fn" and steps: "(question_step F)\<^sup>*\<^sup>* st st'" and i: "state_inv c st"
  shows "state_inv c st'"
  using steps by induction (auto intro: i step_inv [where F = F, OF F])


section \<open>A database for the witnesses\<close>

text \<open>Eve is no fan: her account has another role.\<close>

definition demo_questions :: messagingDb where
  "demo_questions = services.extend (demo_services\<lparr>dm_windows := [\<lparr>dw_id = 7, dw_fan = ''eve'', dw_conv = 2, dw_opened = 0, dw_kind = FREE,
       dw_charge = 0, dw_status = OPEN, dw_deadline = None, dw_settle_at = None\<rparr>, \<lparr>dw_id = 6, dw_fan = ''fan'', dw_conv = 1, dw_opened = 0,
       dw_kind = FREE, dw_charge = 0, dw_status = ANSWERED, dw_deadline = None, dw_settle_at = None\<rparr>],
     wallets := [\<lparr>wl_id = 1, wl_profile = ''fan'', wl_balance = 900, wl_bonus = 0\<rparr>],
     txns := [\<lparr>tn_id = 1, tn_type = ''TOPUP'', tn_amount = 900, tn_key = (''topup:'', 1), tn_ref = None\<rparr>],
     entries := [\<lparr>le_txn = 1, le_wallet = Some 1, le_account = ''wallet'', le_delta = 900\<rparr>,
       \<lparr>le_txn = 1, le_wallet = None, le_account = ''gateway_clearing'', le_delta = - 900\<rparr>]\<rparr>)
     \<lparr>mq_convs = [\<lparr>cv_id = 1, cv_fan = ''fan'', cv_partner = ''star'', cv_activity = 0\<rparr>, \<lparr>cv_id = 2, cv_fan = ''eve'', cv_partner = ''star'', cv_activity = 0\<rparr>],
      mq_msgs = [\<lparr>ms_window = 7, ms_sender = FAN_SENT, ms_body = ''hello'', ms_created = 0\<rparr>],
      mq_accounts = [\<lparr>ac_id = ''fan'', ac_name = None, ac_fan_role = True, ac_active = True, ac_verified = False\<rparr>,
        \<lparr>ac_id = ''eve'', ac_name = None, ac_fan_role = False, ac_active = True, ac_verified = False\<rparr>],
      mq_premium = [], mq_offers = [\<lparr>sv_partner = ''star'', sv_type = ''QUICK_QUESTION'', sv_duration = None, sv_price = 500, sv_active = True\<rparr>],
      mq_blocks = [], mq_sla_hours = 48, mq_settle_days = 3\<rparr>"

lemma demo_questions_simps [simp]:
  "wallets demo_questions = [\<lparr>wl_id = 1, wl_profile = ''fan'', wl_balance = 900, wl_bonus = 0\<rparr>]"
  "txns demo_questions = [\<lparr>tn_id = 1, tn_type = ''TOPUP'', tn_amount = 900, tn_key = (''topup:'', 1), tn_ref = None\<rparr>]"
  "entries demo_questions = [\<lparr>le_txn = 1, le_wallet = Some 1, le_account = ''wallet'', le_delta = 900\<rparr>,
     \<lparr>le_txn = 1, le_wallet = None, le_account = ''gateway_clearing'', le_delta = - 900\<rparr>]"
  "next_id demo_questions = 10" "admins demo_questions = []" "earnings demo_questions = []"
  "dm_windows demo_questions = [\<lparr>dw_id = 7, dw_fan = ''eve'', dw_conv = 2, dw_opened = 0, dw_kind = FREE,
       dw_charge = 0, dw_status = OPEN, dw_deadline = None, dw_settle_at = None\<rparr>, \<lparr>dw_id = 6, dw_fan = ''fan'', dw_conv = 1, dw_opened = 0,
       dw_kind = FREE, dw_charge = 0, dw_status = ANSWERED, dw_deadline = None, dw_settle_at = None\<rparr>]"
  "mq_convs demo_questions = [\<lparr>cv_id = 1, cv_fan = ''fan'', cv_partner = ''star'', cv_activity = 0\<rparr>, \<lparr>cv_id = 2, cv_fan = ''eve'', cv_partner = ''star'', cv_activity = 0\<rparr>]"
  "mq_msgs demo_questions = [\<lparr>ms_window = 7, ms_sender = FAN_SENT, ms_body = ''hello'', ms_created = 0\<rparr>]"
  "mq_accounts demo_questions = [\<lparr>ac_id = ''fan'', ac_name = None, ac_fan_role = True, ac_active = True, ac_verified = False\<rparr>,
        \<lparr>ac_id = ''eve'', ac_name = None, ac_fan_role = False, ac_active = True, ac_verified = False\<rparr>]"
  "mq_premium demo_questions = []" "mq_blocks demo_questions = []" "mq_sla_hours demo_questions = 48"
  "mq_offers demo_questions = [\<lparr>sv_partner = ''star'', sv_type = ''QUICK_QUESTION'', sv_duration = None, sv_price = 500, sv_active = True\<rparr>]"
  by (simp_all add: demo_questions_def services.defs demo_services_def)

lemma demo_questions_ok: "questions_ok 0 demo_questions"
  by (simp add: questions_ok_def money_ok_def wallet_ok_def window_ok_def owed_sum_def owed_def keys_def
    txn_sum_def wallet_sum_def account_sum_def question_key_def settle_key_def refund_key_def)


end
