(* ===== verification/Messaging_Props.thy ===== *)
theory Messaging_Props
  imports Messaging_Money
begin

text \<open>
  What one request of the messaging service does: a question is charged exactly when the price says so, messages are shown
  to the parties only, and the list of pending questions of a partner.
\<close>

section \<open>The debit\<close>

definition debited :: "wallet \<Rightarrow> int \<Rightarrow> wallet \<Rightarrow> wallet" where
  "debited v price y = (if wl_id y = wl_id v
     then y\<lparr>wl_balance := wl_balance y - price, wl_bonus := max 0 (min (wl_bonus y) (wl_balance y - price))\<rparr> else y)"

lemma apply_wallet_leg:
  assumes "leg_wallet l = Some k" and "ws = map (\<lambda>y. if wl_id y = k then move_wallet l y else y) (wallets d)"
  shows "apply_leg tid l d = (if \<forall>y \<in> set ws. wallet_ok y then Inr (d\<lparr>entries := entries d @ [entry_of tid l], wallets := ws\<rparr>)
    else Inl ''new row for relation wallets violates check constraint'')"
  unfolding assms(2) by (simp add: apply_leg_def Let_def entry_of_def assms(1))

lemma debit_posts:
  fixes d :: "'a messagingDb_scheme"
  assumes ok: "money_ok d" and price: "0 < price" and v: "v \<in> set (wallets d)" and k: "key \<notin> keys d"
  shows "if price \<le> wl_balance v
    then \<exists>d1. post_transaction ty price key (question_legs (Some (wl_id v)) price) ref d = Inr ((next_id d, False), d1) \<and>
      wallets d1 = map (debited v price) (wallets d) \<and> money.more d1 = money.more d \<and>
      account_sum ''booking_escrow'' (entries d1) = account_sum ''booking_escrow'' (entries d) + price
    else post_transaction ty price key (question_legs (Some (wl_id v)) price) ref d = Inl ''new row for relation wallets violates check constraint''"
proof -
  let ?legs = "question_legs (Some (wl_id v)) price"
  let ?l = "\<lparr>leg_wallet = Some (wl_id v), leg_account = ''wallet'', leg_delta = - price, leg_bonus = 0\<rparr>"
  let ?tn = "\<lparr>tn_id = next_id d, tn_type = ty, tn_amount = price, tn_key = key, tn_ref = ref\<rparr>"
  let ?d1 = "d\<lparr>txns := txns d @ [?tn], next_id := Suc (next_id d)\<rparr>"
  let ?ws = "map (debited v price) (wallets d)"
  have wok: "\<forall>y \<in> set (wallets d). wallet_ok y" and ids: "distinct (map wl_id (wallets d))" using ok by (simp_all add: money_ok_def)
  have mv: "map (\<lambda>y. if wl_id y = wl_id v then move_wallet ?l y else y) (wallets d) = ?ws"
    by (simp add: debited_def move_wallet_def Let_def)
  have same: "y = v" if "y \<in> set (wallets d)" "wl_id y = wl_id v" for y using ids v that by (auto simp: distinct_map inj_on_def)
  have good: "(\<forall>y \<in> set ?ws. wallet_ok y) \<longleftrightarrow> price \<le> wl_balance v"
  proof
    assume "\<forall>y \<in> set ?ws. wallet_ok y"
    then have "wallet_ok (debited v price v)" using v by auto
    then show "price \<le> wl_balance v" by (simp add: wallet_ok_def debited_def)
  next
    assume le: "price \<le> wl_balance v"
    show "\<forall>y \<in> set ?ws. wallet_ok y"
    proof
      fix y assume "y \<in> set ?ws"
      then obtain z where z: "z \<in> set (wallets d)" "y = debited v price z" by auto
      show "wallet_ok y"
      proof (cases "wl_id z = wl_id v")
        case True
        then show ?thesis using same [OF z(1)] wok v le price by (auto simp: z(2) debited_def wallet_ok_def)
      next
        case False
        then show ?thesis using wok z(1) by (simp add: z(2) debited_def)
      qed
    qed
  qed
  have none: "find_txn key d = None" using k by (simp add: find_txn_None keys_def)
  have run: "post_transaction ty price key ?legs ref d = (case apply_legs (next_id d) ?legs ?d1 of Inl e \<Rightarrow> Inl e | Inr d' \<Rightarrow> Inr ((next_id d, False), d'))"
    using none price v by (auto simp: post_transaction_def question_legs_def Let_def)
  let ?d2 = "?d1\<lparr>entries := entries ?d1 @ [entry_of (next_id d) ?l], wallets := ?ws\<rparr>"
  have wd: "wallets ?d1 = wallets d" by simp
  have leg: "apply_leg (next_id d) ?l ?d1 = (if price \<le> wl_balance v then Inr ?d2
     else Inl ''new row for relation wallets violates check constraint'')"
    unfolding good [symmetric] by (rule apply_wallet_leg) (simp, unfold wd mv, rule refl)
  have cons: "?legs = ?l # [\<lparr>leg_wallet = None, leg_account = ''booking_escrow'', leg_delta = price, leg_bonus = 0\<rparr>]"
    by (simp add: question_legs_def)
  have legs: "apply_legs (next_id d) ?legs ?d1 =
    (if price \<le> wl_balance v then Inr (?d1\<lparr>entries := entries d @ map (entry_of (next_id d)) ?legs, wallets := ?ws\<rparr>)
     else Inl ''new row for relation wallets violates check constraint'')"
    unfolding cons apply_legs.simps leg by (simp add: apply_leg_def entry_of_def)
  show ?thesis
  proof (cases "price \<le> wl_balance v")
    case True
    have "account_sum ''booking_escrow'' (map (entry_of (next_id d)) ?legs) = price"
      by (simp add: question_legs_def sums_Cons entry_of_def)
    then show ?thesis using True by (simp add: run legs)
  qed (simp add: run legs)
qed

section \<open>Asking\<close>

lemma ask_eq:
  "ask base u p body w = (case rpc_ask_question u p body (base\<lparr>app_user_id := Some u\<rparr>) (w_db w) of
     Inl e \<Rightarrow> (Inl (PgError e), w)
   | Inr (r, d) \<Rightarrow> if jget r ''success'' = Some (JBool False) then (Inl (BadRequest (rpc_error r)), w) else (Inr r, w\<lparr>w_db := d\<rparr>))"
  by (auto simp: ask_def runAs_def transaction_def rpc_def tx_defs split: sum.split prod.split)

definition may_ask :: "string \<Rightarrow> string \<Rightarrow> 'a messagingDb_scheme \<Rightarrow> bool" where
  "may_ask u p d \<longleftrightarrow> u \<noteq> [] \<and> assert_active u d \<and> \<not> is_blocked u p ''DM'' d \<and>
     (p \<in> set (mq_premium d) \<longrightarrow> map_option ac_verified (account_of u d) = Some True)"

lemma rpc_ask_known:
  assumes "may_ask u p d" and "conv_of u p d = Some cv" and "s = base\<lparr>app_user_id := Some u\<rparr>"
  shows "rpc_ask_question u p body s d = (case latest_window (cv_id cv) {OPEN} d of
      Some x \<Rightarrow>
        if MESSAGE_CAP \<le> length (messages_by (dw_id x) FAN_SENT d) then Inr (err_json ''WINDOW_LIMIT'', d)
        else Inr (ok_json [(''window_id'', jid (dw_id x)), (''kind'', JStr (if dw_kind x = PAID then ''PAID'' else ''FREE'')), (''charged'', JBool False)],
                  add_message (dw_id x) FAN_SENT body (cv_id cv) (sess_now s) d)
    | None \<Rightarrow> ask_new u p body (cv_id cv) s d)"
  using assms by (auto simp: rpc_ask_question_def may_ask_def caller_allowed_def current_user_id_def Let_def)

text \<open>
  C25. Asking in a known conversation.  While a window is open the message goes into it and costs nothing; after the cap it is
  refused, and if that window is free nothing but an answer ever opens the way again, for the sweep expires paid windows only.
  With no window open, the first one of the conversation is free; later ones need a price and are refused without one, and cost
  exactly the price, taken from the asker's wallet into the escrow if the balance covers it, and refused by the database if not.
  A refusal changes nothing.
\<close>

theorem asking_charges_exactly:
  fixes w :: "'a messagingDb_scheme world"
  assumes may: "may_ask u p (w_db w)" and cv: "conv_of u p (w_db w) = Some cv" and v: "wallet_of u (w_db w) = Some v"
    and ok: "money_ok (w_db w)" and price: "\<forall>n. question_price p (w_db w) = Some n \<longrightarrow> 0 < n"
  shows "case latest_window (cv_id cv) {OPEN} (w_db w) of
     Some x \<Rightarrow>
       if length (messages_by (dw_id x) FAN_SENT (w_db w)) < 5
       then \<exists>r w'. ask base u p body w = (Inr r, w') \<and> jget r ''charged'' = Some (JBool False) \<and> wallets (w_db w') = wallets (w_db w) \<and>
         dm_windows (w_db w') = dm_windows (w_db w) \<and>
         mq_msgs (w_db w') = mq_msgs (w_db w) @ [\<lparr>ms_window = dw_id x, ms_sender = FAN_SENT, ms_body = body, ms_created = sess_now base\<rparr>]
       else ask base u p body w = (Inl (BadRequest (rpc_error (err_json ''WINDOW_LIMIT''))), w) \<and>
         (dw_kind x = FREE \<longrightarrow> (\<forall>s. x \<notin> set (q_expired s (w_db w))))
   | None \<Rightarrow>
       if \<forall>x \<in> set (dm_windows (w_db w)). dw_conv x \<noteq> cv_id cv
       then \<exists>r w' x. ask base u p body w = (Inr r, w') \<and> jget r ''charged'' = Some (JBool False) \<and> wallets (w_db w') = wallets (w_db w) \<and>
         dm_windows (w_db w') = dm_windows (w_db w) @ [x] \<and> dw_kind x = FREE \<and> dw_deadline x = None \<and>
         (p, ''QUESTION_NEW_REQUEST_PARTNER'', ''question'', dw_id x) \<in> set (notifs (w_db w'))
       else case question_price p (w_db w) of
         None \<Rightarrow> ask base u p body w = (Inl (BadRequest (rpc_error (err_json ''SERVICE_NOT_OFFERED''))), w)
       | Some n \<Rightarrow>
           if n \<le> wl_balance v
           then \<exists>r w' x. ask base u p body w = (Inr r, w') \<and> jget r ''charged'' = Some (JBool True) \<and>
             wallets (w_db w') = map (debited v n) (wallets (w_db w)) \<and>
             account_sum ''booking_escrow'' (entries (w_db w')) = account_sum ''booking_escrow'' (entries (w_db w)) + n \<and>
             dm_windows (w_db w') = dm_windows (w_db w) @ [x] \<and> dw_kind x = PAID \<and> dw_charge x = n \<and> dw_fan x = u \<and>
             dw_deadline x = Some (sess_now base + mq_sla_hours (w_db w) * HOUR_MS) \<and>
             (p, ''QUESTION_NEW_REQUEST_PARTNER'', ''question'', dw_id x) \<in> set (notifs (w_db w'))
           else \<exists>e. ask base u p body w = (Inl (PgError e), w)"
proof -
  let ?d = "w_db w" and ?s = "base\<lparr>app_user_id := Some u\<rparr>"
  note run = ask_eq [of base u p body w] rpc_ask_known [OF may cv refl, of body base]
  show ?thesis
  proof (cases "latest_window (cv_id cv) {OPEN} ?d")
    case (Some x)
    then show ?thesis
      unfolding run by (simp add: MESSAGE_CAP_def err_json_def ok_json_def add_message_def q_expired_def)
  next
    case None
    show ?thesis
    proof (cases "\<forall>x \<in> set (dm_windows ?d). dw_conv x \<noteq> cv_id cv")
      case True
      then show ?thesis using None unfolding run by (simp add: ask_new_def Let_def ok_json_def open_window_def add_message_def question_notice_def notify_def)
    next
      case False
      show ?thesis
      proof (cases "question_price p ?d")
        case no_price: None
        then show ?thesis using None False unfolding run by (auto simp: ask_new_def Let_def err_json_def)
      next
        case (Some n)
        let ?i = "new_window_id ?d"
        have k: "question_key ?i \<notin> keys ?d" using new_window_fresh(3) by (simp add: question_key_def)
        have n: "0 < n" using price Some by simp
        have v_in: "v \<in> set (wallets ?d)" using v by (auto simp: wallet_of_def find_Some_iff)
        note post = debit_posts [OF ok n v_in k, of "''QUESTION_DEBIT''" "Some (nat_text ?i)"]
        have f: "(\<exists>x \<in> set (dm_windows ?d). dw_conv x = cv_id cv) = True" using False by blast
        show ?thesis
        proof (cases "n \<le> wl_balance v")
          case True
          with post obtain d1 where d1: "post_transaction ''QUESTION_DEBIT'' n (question_key ?i) (question_legs (Some (wl_id v)) n) (Some (nat_text ?i)) ?d = Inr ((next_id ?d, False), d1)"
            "wallets d1 = map (debited v n) (wallets ?d)" "money.more d1 = money.more ?d"
            "account_sum ''booking_escrow'' (entries d1) = account_sum ''booking_escrow'' (entries ?d) + n" by auto
          show ?thesis
            using None False Some True d1(2,4) more_fields(1) [OF d1(3)]
            unfolding run ask_new_def Let_def f by (simp add: v d1(1) ok_json_def open_window_def add_message_def question_notice_def notify_def)
        next
          case less: False
          with post obtain e where "post_transaction ''QUESTION_DEBIT'' n (question_key ?i) (question_legs (Some (wl_id v)) n) (Some (nat_text ?i)) ?d = Inl e" by auto
          then show ?thesis using None False Some less unfolding run ask_new_def Let_def f by (simp add: v)
        qed
      qed
    qed
  qed
qed

section \<open>Reading\<close>

text \<open>
  Messages are for the parties.  Whoever asks for the messages of a conversation without being its fan, its partner or an
  administrator gets none, whatever identifier they try; a party gets every message of the conversation's windows and
  nothing else, in the order of time.
\<close>

theorem messages_for_parties_only:
  fixes w :: "'a messagingDb_scheme world"
  assumes u: "u \<noteq> []"
  shows "\<exists>rows. messages base u c w = (Inr rows, w) \<and>
    ((\<forall>cv \<in> set (mq_convs (w_db w)). cv_id cv = c \<longrightarrow> cv_fan cv \<noteq> u \<and> cv_partner cv \<noteq> u) \<and> u \<notin> set (admins (w_db w)) \<longrightarrow> rows = []) \<and>
    ((\<exists>cv \<in> set (mq_convs (w_db w)). cv_id cv = c \<and> (cv_fan cv = u \<or> cv_partner cv = u)) \<longrightarrow>
       sorted (map (\<lambda>r. ms_created (fst r)) rows) \<and>
       set rows = {(m, x). m \<in> set (mq_msgs (w_db w)) \<and> x \<in> set (dm_windows (w_db w)) \<and> dw_id x = ms_window m \<and> dw_conv x = c})"
proof -
  let ?d = "w_db w" and ?s = "base\<lparr>app_user_id := Some u\<rparr>"
  let ?pick = "\<lambda>m. map (\<lambda>x. (m, x)) (filter (\<lambda>x. dw_id x = ms_window m \<and> dw_conv x = c \<and> (\<exists>cv \<in> set (mq_convs ?d). cv_id cv = c \<and> party ?s ?d cv)) (dm_windows ?d))"
  have run: "messages base u c w = (Inr (sort_key (\<lambda>r. ms_created (fst r)) (concat (map ?pick (mq_msgs ?d)))), w)"
    by (simp add: messages_def runAs_def transaction_def tx_defs)
  have p: "party ?s ?d cv \<longleftrightarrow> cv_fan cv = u \<or> cv_partner cv = u \<or> u \<in> set (admins ?d)" for cv
    using u by (auto simp: party_def current_user_id_def admin_session_def)
  have nil: "concat (map (\<lambda>m. []) ms) = []" for ms :: "message list" by (induction ms) simp_all
  show ?thesis
    by (intro exI conjI impI, rule run) (auto simp: p nil)
qed

text \<open>
  The pending questions of a partner: each open window of one of their conversations whose asker's profile they may read,
  oldest first.  Only the profile of a FAN is readable to a counterparty, and the join is an inner one: the
  question of an asker with another role is paid and open, and on no list.
\<close>

theorem pending_questions_exact:
  fixes w :: "'a messagingDb_scheme world"
  assumes u: "u \<noteq> []" "u \<notin> set (admins (w_db w))"
  shows "\<exists>xs. pendingQuestions base u w = (Inr (map (question_row (w_db w)) xs), w) \<and> sorted (map (\<lambda>r. dw_opened (fst r)) xs) \<and>
    (\<forall>x. x \<in> fst ` set xs \<longleftrightarrow> x \<in> set (dm_windows (w_db w)) \<and> dw_status x = OPEN \<and>
       (\<exists>cv \<in> set (mq_convs (w_db w)). cv_id cv = dw_conv x \<and> cv_partner cv = u \<and>
          (\<exists>a \<in> set (mq_accounts (w_db w)). ac_id a = cv_fan cv \<and> (ac_fan_role a \<or> ac_id a = u))))"
proof -
  let ?d = "w_db w" and ?s = "base\<lparr>app_user_id := Some u\<rparr>"
  let ?xs = "sort_key (\<lambda>r. dw_opened (fst r)) (joined_windows {OPEN} u ?s ?d)"
  have run: "pendingQuestions base u w = (Inr (map (question_row ?d) ?xs), w)"
    by (simp add: pendingQuestions_def runAs_def transaction_def tx_defs)
  have p: "party ?s ?d cv" if "cv_partner cv = u" for cv using u that by (simp add: party_def current_user_id_def)
  have vis: "profile_visible ?s ?d a \<longleftrightarrow> ac_fan_role a \<or> ac_id a = u" if "cv \<in> set (mq_convs ?d)" "cv_partner cv = u" "ac_id a = cv_fan cv" for a cv
    using u that by (auto simp: profile_visible_def current_user_id_def admin_session_def)
  have mem: "(x, cv, a) \<in> set ?xs \<longleftrightarrow> x \<in> set (dm_windows ?d) \<and> cv \<in> set (mq_convs ?d) \<and> a \<in> set (mq_accounts ?d) \<and>
      dw_conv x = cv_id cv \<and> cv_partner cv = u \<and> party ?s ?d cv \<and> dw_status x = OPEN \<and> ac_id a = cv_fan cv \<and> profile_visible ?s ?d a" for x cv a
    by (auto simp: joined_windows_def)
  have one: "(x, cv, a) \<in> set ?xs \<longleftrightarrow> x \<in> set (dm_windows ?d) \<and> dw_status x = OPEN \<and> cv \<in> set (mq_convs ?d) \<and> cv_id cv = dw_conv x \<and>
      cv_partner cv = u \<and> a \<in> set (mq_accounts ?d) \<and> ac_id a = cv_fan cv \<and> (ac_fan_role a \<or> ac_id a = u)" for x cv a
    unfolding mem using p [of cv] vis [of cv a] by metis
  have "x \<in> fst ` set ?xs \<longleftrightarrow> (\<exists>cv a. (x, cv, a) \<in> set ?xs)" for x by force
  with run show ?thesis unfolding one by (intro exI [of _ ?xs] conjI allI) auto
qed

section \<open>Witnesses\<close>

theorem asking_charges_exactly_witness:
  "\<exists>r w'. ask demo_session ''fan'' ''star'' ''why?'' \<lparr>w_db = demo_questions, w_log = []\<rparr> = (Inr r, w') \<and>
     map wl_balance (wallets (w_db w')) = [400]"
proof -
  let ?w = "\<lparr>w_db = demo_questions, w_log = []\<rparr>" and ?cv = "\<lparr>cv_id = 1, cv_fan = ''fan'', cv_partner = ''star'', cv_activity = 0\<rparr>"
  have may: "may_ask ''fan'' ''star'' (w_db ?w)" by (simp add: may_ask_def assert_active_def account_of_def is_blocked_def)
  have cv: "conv_of ''fan'' ''star'' (w_db ?w) = Some ?cv" by (simp add: conv_of_def)
  have v: "wallet_of ''fan'' (w_db ?w) = Some \<lparr>wl_id = 1, wl_profile = ''fan'', wl_balance = 900, wl_bonus = 0\<rparr>" by (simp add: wallet_of_def)
  have ok: "money_ok (w_db ?w)" using demo_questions_ok by (simp add: questions_ok_def)
  have price: "question_price ''star'' (w_db ?w) = Some 500" by (simp add: question_price_def)
  have "latest_window 1 {OPEN} (w_db ?w) = None" by (simp add: latest_window_def)
  with asking_charges_exactly [OF may cv v ok, of demo_session "''why?''"] price
  show ?thesis by (auto simp: debited_def)
qed

theorem messages_for_parties_only_witness:
  "messages demo_session ''fan'' 2 \<lparr>w_db = demo_questions, w_log = []\<rparr> = (Inr [], \<lparr>w_db = demo_questions, w_log = []\<rparr>) \<and>
   mq_msgs demo_questions \<noteq> []"
  using messages_for_parties_only [of "''fan''" demo_session 2 "\<lparr>w_db = demo_questions, w_log = []\<rparr>"] by auto

lemma none_such: "\<exists>xs. A xs \<and> B xs \<and> (\<forall>x. x \<in> S xs \<longleftrightarrow> P x) \<Longrightarrow> (\<And>x. \<not> P x) \<Longrightarrow> \<exists>xs. A xs \<and> S xs = {}"
  by blast

theorem pending_questions_exact_witness:
  "pendingQuestions demo_session ''star'' \<lparr>w_db = demo_questions, w_log = []\<rparr> = (Inr [], \<lparr>w_db = demo_questions, w_log = []\<rparr>) \<and>
   map dw_status (dm_windows demo_questions) = [OPEN, ANSWERED]"
proof -
  let ?w = "\<lparr>w_db = demo_questions, w_log = []\<rparr>"
  have u: "''star'' \<noteq> []" "''star'' \<notin> set (admins (w_db ?w))" by simp_all
  have "\<exists>xs. pendingQuestions demo_session ''star'' ?w = (Inr (map (question_row (w_db ?w)) xs), ?w) \<and> fst ` set xs = {}"
    by (rule none_such [OF pending_questions_exact [of "''star''" ?w demo_session, OF u]]) auto
  then show ?thesis by simp
qed

end
