(* ===== verification/Shoutouts.thy ===== *)
theory Shoutouts
  imports Messaging_Money Sql_Text
begin

text \<open>
  \<open>src/shoutouts/shoutouts.module.ts\<close> over the functions of migrations 0040, 0061, 0066c, 0094 and 0097: a video request is paid
  into escrow, delivered, corrected for free once and for a fee afterwards, disputed, confirmed by the fan, an administrator or a
  sweep, and then settled, cancelled or expired.
\<close>

section \<open>Tables\<close>

record correction =
  sc_id :: nat
  sc_shoutout :: nat
  sc_paid :: bool
  sc_fee :: int
  sc_note :: "string option"
  sc_video :: "string option"
  sc_resubmitted :: "int option"
  sc_created :: int

text \<open>\<open>mod_admins\<close> are the administrators with the role MODERATOR, SUPPORT or SUPER_ADMIN.\<close>

record shoutoutDb = messagingDb +
  corrections :: "correction list"
  so_fee :: int
  so_review_days :: int
  mod_admins :: "string list"

definition so_of :: "nat \<Rightarrow> 'a services_scheme \<Rightarrow> shoutout option" where
  "so_of i d = find (\<lambda>x. so_id x = i) (shoutouts d)"

definition set_shoutout :: "nat \<Rightarrow> (shoutout \<Rightarrow> shoutout) \<Rightarrow> 'a services_scheme \<Rightarrow> 'a services_scheme" where
  "set_shoutout i f d = d\<lparr>shoutouts := map (\<lambda>x. if so_id x = i then f x else x) (shoutouts d)\<rparr>"

definition paid_fees :: "nat \<Rightarrow> 'a shoutoutDb_scheme \<Rightarrow> int" where
  "paid_fees i d = sum_list (map sc_fee (filter (\<lambda>c. sc_shoutout c = i \<and> sc_paid c) (corrections d)))"

definition new_so_id :: "'a shoutoutDb_scheme \<Rightarrow> nat" where
  "new_so_id d = fresh (map so_id (shoutouts d) @ map dw_id (dm_windows d) @ map bk_id (bookings d) @ earnings d @
     map (snd \<circ> tn_key) (txns d) @ map sc_id (corrections d) @ map sc_shoutout (corrections d))"

definition so_key :: "string \<Rightarrow> nat \<Rightarrow> idem_key" where
  "so_key kind i = (kind, i)"

definition so_refund_legs :: "nat option \<Rightarrow> int \<Rightarrow> leg list" where
  "so_refund_legs v amt =
     [\<lparr>leg_wallet = None, leg_account = ''booking_escrow'', leg_delta = - amt, leg_bonus = 0\<rparr>,
      \<lparr>leg_wallet = v, leg_account = ''wallet'', leg_delta = amt, leg_bonus = 0\<rparr>]"

definition days_ms :: "int \<Rightarrow> int" where
  "days_ms n = n * 24 * HOUR_MS"

definition so_audit :: "string \<Rightarrow> string \<Rightarrow> nat \<Rightarrow> json \<Rightarrow> 'a services_scheme \<Rightarrow> 'a services_scheme" where
  "so_audit action ty i v d = d\<lparr>audits := audits d @ [\<lparr>au_role = ''ADMIN'', au_action = action, au_target_type = ty, au_target = i, au_new_value = v\<rparr>]\<rparr>"

definition close_reports :: "nat \<Rightarrow> 'a services_scheme \<Rightarrow> 'a services_scheme" where
  "close_reports i d = d\<lparr>reports := map (\<lambda>r. if rp_target_type r = R_SHOUTOUT \<and> rp_target_id r = i \<and> rp_status r \<in> {R_PENDING, R_REVIEWING}
     then r\<lparr>rp_status := R_RESOLVED\<rparr> else r) (reports d)\<rparr>"

section \<open>The fan and the partner\<close>

definition shoutout_price :: "string \<Rightarrow> 'a messagingDb_scheme \<Rightarrow> int option" where
  "shoutout_price p d = map_option sv_price
     (find (\<lambda>r. sv_partner r = p \<and> sv_type r = ''SHOUT_OUT'' \<and> sv_duration r = None \<and> sv_active r) (mq_offers d))"

definition rpc_request_shoutout :: "string \<Rightarrow> string \<Rightarrow> string \<Rightarrow> string \<Rightarrow> ('a shoutoutDb_scheme, json) stmt" where
  "rpc_request_shoutout fan p recipient message s d =
     (if \<not> caller_allowed fan s d then Inl FORBIDDEN_CALLER
      else if \<not> assert_active fan d then Inl ''P0001 ACCOUNT_NOT_ACTIVE''
      else if is_blocked fan p ''ALL'' d then Inr (err_json ''BLOCKED'', d)
      else if p \<in> set (mq_premium d) \<and> map_option ac_verified (account_of fan d) \<noteq> Some True then Inr (err_json ''KYC_REQUIRED'', d)
      else case shoutout_price p d of None \<Rightarrow> Inr (err_json ''SERVICE_NOT_OFFERED'', d)
      | Some price \<Rightarrow>
          (let i = new_so_id d in
           case post_transaction ''SHOUTOUT_DEBIT'' price (so_key ''so:'' i) (question_legs (map_option wl_id (wallet_of fan d)) price) (Some (nat_text i)) d of
             Inl e \<Rightarrow> Inl e
           | Inr (_, d1) \<Rightarrow> Inr (ok_json [(''shoutout_id'', jid i), (''price_paise'', JNum price)],
               d1\<lparr>shoutouts := shoutouts d1 @ [\<lparr>so_id = i, so_fan = fan, so_partner = p, so_status = AWAITING_PARTNER_VIDEO, so_fan_confirmed_at = None,
                 so_review_deadline = None, so_settle_at = sess_now s + days_ms (mq_settle_days d), so_recipient = recipient, so_message = message,
                 so_price = price, so_created = sess_now s, so_delivered = None, so_video = None, so_free_used = None, so_disputed = None\<rparr>]\<rparr>)))"

text \<open>\<open>btrim\<close> removes spaces only.\<close>

definition blank_link :: "string option \<Rightarrow> bool" where
  "blank_link p = (case p of None \<Rightarrow> True | Some t \<Rightarrow> \<forall>ch \<in> set t. ch = CHR '' '')"

definition deliver_video :: "nat \<Rightarrow> string option \<Rightarrow> int \<Rightarrow> 'a shoutoutDb_scheme \<Rightarrow> 'a shoutoutDb_scheme" where
  "deliver_video i video now d =
     set_shoutout i (\<lambda>x. x\<lparr>so_video := video, so_delivered := Some now, so_status := VIDEO_DELIVERED_TO_FAN, so_fan_confirmed_at := None,
       so_review_deadline := Some (now + days_ms (so_review_days d)), so_settle_at := now + days_ms (mq_settle_days d)\<rparr>)
     (d\<lparr>corrections := map (\<lambda>c. if sc_shoutout c = i \<and> sc_resubmitted c = None then c\<lparr>sc_resubmitted := Some now, sc_video := video\<rparr> else c) (corrections d)\<rparr>)"

definition rpc_upload_shoutout :: "nat \<Rightarrow> string option \<Rightarrow> ('a shoutoutDb_scheme, json) stmt" where
  "rpc_upload_shoutout i video s d =
     (case so_of i d of None \<Rightarrow> Inr (err_json ''NOT_FOUND'', d)
      | Some r \<Rightarrow>
          if \<not> caller_allowed (so_partner r) s d then Inl FORBIDDEN_CALLER
          else if blank_link video then Inr (err_json ''LINK_REQUIRED'', d)
          else if so_status r \<noteq> AWAITING_PARTNER_VIDEO then Inr (err_json ''INVALID_STATE'', d)
          else Inr (ok_json [(''status'', JStr ''VIDEO_DELIVERED_TO_FAN'')],
            notify (so_fan r, ''SHOUTOUT_STATUS_UPDATE_FAN'', ''shoutout'', i) (deliver_video i video (sess_now s) d)))"

definition confirm_at :: "int \<Rightarrow> shoutout \<Rightarrow> shoutout" where
  "confirm_at now x = x\<lparr>so_fan_confirmed_at := Some now, so_settle_at := now\<rparr>"

definition rpc_confirm_shoutout :: "string \<Rightarrow> nat \<Rightarrow> ('a shoutoutDb_scheme, json) stmt" where
  "rpc_confirm_shoutout fan i s d =
     (case so_of i d of None \<Rightarrow> Inr (err_json ''NOT_FOUND'', d)
      | Some r \<Rightarrow>
          if \<not> caller_allowed fan s d then Inl FORBIDDEN_CALLER
          else if fan \<noteq> so_fan r then Inr (err_json ''FAN_MISMATCH'', d)
          else if so_status r \<noteq> VIDEO_DELIVERED_TO_FAN then Inr (err_json ''INVALID_STATE'', d)
          else if so_fan_confirmed_at r \<noteq> None then Inr (ok_json [(''already_confirmed'', JBool True)], d)
          else Inr (ok_json [(''confirmed'', JBool True)], set_shoutout i (confirm_at (sess_now s)) d))"

definition rpc_report_shoutout :: "nat \<Rightarrow> string \<Rightarrow> ('a shoutoutDb_scheme, json) stmt" where
  "rpc_report_shoutout i reason s d =
     (case so_of i d of None \<Rightarrow> Inr (err_json ''NOT_REPORTABLE'', d)
      | Some r \<Rightarrow>
          if so_status r \<noteq> VIDEO_DELIVERED_TO_FAN \<or> so_fan_confirmed_at r \<noteq> None then Inr (err_json ''NOT_REPORTABLE'', d)
          else if \<not> caller_allowed (so_fan r) s d then Inl FORBIDDEN_CALLER
          else Inr (ok_json [],
            fold (\<lambda>a. notify (a, ''PLATFORM_ANNOUNCEMENT'', ''system'', length (reports d))) (filter (\<lambda>a. a \<in> set (admins d)) (mod_admins d))
             (set_shoutout i (\<lambda>x. x\<lparr>so_status := ISSUE_REPORTED_BY_FAN, so_disputed := Some (sess_now s)\<rparr>)
              (d\<lparr>reports := reports d @ [\<lparr>rp_target_type = R_SHOUTOUT, rp_target_id = i, rp_status = R_PENDING, rp_reporter = so_fan r,
                rp_reason = reason, rp_details = None\<rparr>]\<rparr>))))"

text \<open>Which errors the exception block of a paid round catches.\<close>

definition check_violation :: "string \<Rightarrow> bool" where
  "check_violation e \<longleftrightarrow> e = ''new row for relation wallets violates check constraint''"

definition add_correction :: "nat \<Rightarrow> nat \<Rightarrow> bool \<Rightarrow> int \<Rightarrow> string option \<Rightarrow> int \<Rightarrow> 'a shoutoutDb_scheme \<Rightarrow> 'a shoutoutDb_scheme" where
  "add_correction c i paid fee note now d = d\<lparr>corrections := corrections d @ [\<lparr>sc_id = c, sc_shoutout = i, sc_paid = paid, sc_fee = fee,
     sc_note = note, sc_video = None, sc_resubmitted = None, sc_created = now\<rparr>]\<rparr>"

definition video_needed :: "shoutout \<Rightarrow> 'a bank_scheme \<Rightarrow> 'a bank_scheme" where
  "video_needed r = notify (so_partner r, ''SHOUTOUT_VIDEO_NEEDED_PARTNER'', ''shoutout'', so_id r)"

definition rpc_request_correction :: "string \<Rightarrow> nat \<Rightarrow> string option \<Rightarrow> ('a shoutoutDb_scheme, json) stmt" where
  "rpc_request_correction fan i note s d =
     (case so_of i d of None \<Rightarrow> Inr (err_json ''NOT_FOUND'', d)
      | Some r \<Rightarrow>
          if \<not> caller_allowed fan s d then Inl FORBIDDEN_CALLER
          else if fan \<noteq> so_fan r then Inr (err_json ''FAN_MISMATCH'', d)
          else if so_status r \<noteq> VIDEO_DELIVERED_TO_FAN \<or> so_fan_confirmed_at r \<noteq> None \<or> so_disputed r \<noteq> None then Inr (err_json ''INVALID_STATE'', d)
          else (let c = new_so_id d; now = sess_now s; fee = so_fee d in
            if so_free_used r = None then Inr (ok_json [(''kind'', JStr ''FREE'')],
              video_needed r (add_correction c i False 0 note now (set_shoutout i (\<lambda>x. x\<lparr>so_free_used := Some now, so_status := AWAITING_PARTNER_VIDEO\<rparr>) d)))
            else if fee < 0 then Inr (err_json ''INSUFFICIENT_BALANCE'', d)
            else case post_transaction ''SHOUTOUT_DEBIT'' fee (so_key ''so-corr:'' c) (question_legs (map_option wl_id (wallet_of (so_fan r) d)) fee)
                   (Some (nat_text c)) (add_correction c i True fee note now d) of
              Inl e \<Rightarrow> if check_violation e then Inr (err_json ''INSUFFICIENT_BALANCE'', d) else Inl e
            | Inr (_, d1) \<Rightarrow> Inr (ok_json [(''kind'', JStr ''PAID'')], video_needed r (set_shoutout i (\<lambda>x. x\<lparr>so_status := AWAITING_PARTNER_VIDEO\<rparr>) d1))))"

section \<open>The administrator\<close>

definition admin_actor :: "string \<Rightarrow> session \<Rightarrow> 'a bank_scheme \<Rightarrow> bool" where
  "admin_actor a s d \<longleftrightarrow> current_user_id s = Some a \<and> a \<in> set (admins d)"

definition FORBIDDEN_ADMIN :: string where "FORBIDDEN_ADMIN = ''42501 FORBIDDEN: admin only''"

text \<open>\<open>assert_admin_role\<close> for a list of the administrators that have one of the roles.\<close>

definition has_role :: "string list \<Rightarrow> session \<Rightarrow> 'a bank_scheme \<Rightarrow> bool" where
  "has_role holders s d \<longleftrightarrow> (\<exists>u. current_user_id s = Some u \<and> u \<in> set (admins d) \<and> u \<in> set holders)"

definition cancellable :: "shoutoutStatus set" where
  "cancellable = {AWAITING_PARTNER_VIDEO, VIDEO_DELIVERED_TO_FAN, ISSUE_REPORTED_BY_FAN, VIDEO_RECEIVED_BY_ADMIN}"

definition rpc_admin_cancel_shoutout :: "string \<Rightarrow> nat \<Rightarrow> string option \<Rightarrow> ('a shoutoutDb_scheme, json) stmt" where
  "rpc_admin_cancel_shoutout a i notes s d =
     (if \<not> admin_actor a s d then Inl FORBIDDEN_ADMIN
      else if \<not> has_role (finance_admins d) s d then Inl FORBIDDEN_ADMIN
      else case so_of i d of None \<Rightarrow> Inr (err_json ''NOT_FOUND'', d)
      | Some r \<Rightarrow>
          if so_status r \<notin> cancellable then Inr (err_json ''INVALID_STATE'', d)
          else if i \<in> set (earnings d) then Inr (err_json ''ALREADY_SETTLED'', d)
          else (let amt = so_price r + paid_fees i d in
            case post_transaction ''REFUND'' amt (so_key ''so-cancel:'' i) (so_refund_legs (map_option wl_id (wallet_of (so_fan r) d)) amt) (Some (nat_text i)) d of
              Inl e \<Rightarrow> Inl e
            | Inr (_, d1) \<Rightarrow> Inr (ok_json [(''refunded_paise'', JNum amt)],
                so_audit ''CANCEL_SHOUTOUT'' ''shout_out_request'' i (JObj [(''price_paise'', JNum (so_price r)), (''paid_correction_fees_paise'', JNum (paid_fees i d)),
                    (''total_refund_paise'', JNum amt), (''notes'', jstr_or_null notes)])
                 (notify (so_fan r, ''REFUND_PROCESSED_FAN'', ''shoutout'', i)
                 (close_reports i (set_shoutout i (\<lambda>x. x\<lparr>so_status := REFUNDED_BY_ADMIN\<rparr>) d1))))))"

datatype resolution = REFUND_IT | REWORK | DISMISS | OTHER_ACTION

definition so_resolved :: "string \<Rightarrow> nat \<Rightarrow> 'a services_scheme \<Rightarrow> 'a services_scheme" where
  "so_resolved act i = so_audit ''RESOLVE_SHOUTOUT_REPORT'' ''shout_out_request'' i (JObj [(''action'', JStr act)])"

definition rpc_admin_resolve_shoutout_report :: "string \<Rightarrow> nat \<Rightarrow> resolution \<Rightarrow> string option \<Rightarrow> ('a shoutoutDb_scheme, json) stmt" where
  "rpc_admin_resolve_shoutout_report a i action notes s d =
     (if \<not> admin_actor a s d then Inl FORBIDDEN_ADMIN
      else if action = REFUND_IT \<and> \<not> has_role (finance_admins d) s d then Inl FORBIDDEN_ADMIN
      else case so_of i d of None \<Rightarrow> Inr (err_json ''NOT_FLAGGED'', d)
      | Some r \<Rightarrow>
          if so_status r \<noteq> ISSUE_REPORTED_BY_FAN then Inr (err_json ''NOT_FLAGGED'', d)
          else (case action of
            REFUND_IT \<Rightarrow> (case rpc_admin_cancel_shoutout a i notes s d of Inl e \<Rightarrow> Inl e
              | Inr (res, d1) \<Rightarrow> if jget res ''success'' \<noteq> Some (JBool True) then Inr (res, d1)
                  else Inr (ok_json [(''refunded'', JBool True)], so_resolved ''REFUND'' i d1))
          | REWORK \<Rightarrow> Inr (ok_json [(''reworked'', JBool True)], so_resolved ''REWORK'' i (video_needed r (close_reports i
              (set_shoutout i (\<lambda>x. x\<lparr>so_status := AWAITING_PARTNER_VIDEO\<rparr>) d))))
          | DISMISS \<Rightarrow> Inr (ok_json [(''dismissed'', JBool True)], so_resolved ''DISMISS'' i (close_reports i
              (set_shoutout i (\<lambda>x. x\<lparr>so_status := VIDEO_DELIVERED_TO_FAN, so_review_deadline := Some (sess_now s + days_ms (so_review_days d)),
                 so_settle_at := sess_now s + days_ms (mq_settle_days d)\<rparr>) d)))
          | OTHER_ACTION \<Rightarrow> Inr (err_json ''INVALID_ACTION'', d)))"

definition rpc_admin_deliver_shoutout :: "string \<Rightarrow> nat \<Rightarrow> bool \<Rightarrow> string option \<Rightarrow> ('a shoutoutDb_scheme, json) stmt" where
  "rpc_admin_deliver_shoutout a i approve note s d =
     (if \<not> admin_actor a s d then Inl FORBIDDEN_ADMIN
      else if \<not> has_role (mod_admins d) s d then Inl FORBIDDEN_ADMIN
      else case so_of i d of None \<Rightarrow> Inr (err_json ''NOT_FOUND'', d)
      | Some r \<Rightarrow>
          if so_status r \<notin> {VIDEO_DELIVERED_TO_FAN, ISSUE_REPORTED_BY_FAN} \<or> so_fan_confirmed_at r \<noteq> None then Inr (err_json ''INVALID_STATE'', d)
          else (let d1 = (if approve
              then notify (so_fan r, ''SHOUTOUT_STATUS_UPDATE_FAN'', ''shoutout'', i) (close_reports i
                (set_shoutout i (\<lambda>x. x\<lparr>so_fan_confirmed_at := Some (sess_now s), so_status := VIDEO_DELIVERED_TO_FAN\<rparr>) d))
              else video_needed r (set_shoutout i (\<lambda>x. x\<lparr>so_status := AWAITING_PARTNER_VIDEO\<rparr>) d))
            in Inr (ok_json [(''delivered'', JBool approve)],
                 so_audit ''DELIVER_SHOUTOUT'' ''shoutout'' i (JObj [(''approved'', JBool approve), (''note'', jstr_or_null note)]) d1)))"

section \<open>The sweeps\<close>

definition FORBIDDEN_SYSTEM :: string where "FORBIDDEN_SYSTEM = ''42501 FORBIDDEN: system or admin only''"

definition rpc_auto_confirm_shoutout :: "nat \<Rightarrow> ('a shoutoutDb_scheme, json) stmt" where
  "rpc_auto_confirm_shoutout i s d =
     (if \<not> is_system s d then Inl FORBIDDEN_SYSTEM
      else case so_of i d of None \<Rightarrow> Inr (err_json ''NOT_FOUND'', d)
      | Some r \<Rightarrow>
          if so_status r \<noteq> VIDEO_DELIVERED_TO_FAN \<or> so_fan_confirmed_at r \<noteq> None \<or> (\<forall>t. so_review_deadline r = Some t \<longrightarrow> sess_now s < t)
          then Inr (err_json ''NOT_CONFIRMABLE'', d)
          else Inr (ok_json [], set_shoutout i (confirm_at (sess_now s)) d))"

definition rpc_expire_shoutout :: "nat \<Rightarrow> ('a shoutoutDb_scheme, json) stmt" where
  "rpc_expire_shoutout i s d =
     (if \<not> is_system s d then Inl FORBIDDEN_SYSTEM
      else case so_of i d of None \<Rightarrow> Inr (err_json ''NOT_FOUND'', d)
      | Some r \<Rightarrow>
          if so_status r \<noteq> AWAITING_PARTNER_VIDEO \<or> sess_now s < so_settle_at r then Inr (err_json ''NOT_EXPIRABLE'', d)
          else if find_txn (so_key ''so-expire:'' i) d \<noteq> None then Inr (ok_json [(''already_refunded'', JBool True)], d)
          else case wallet_of (so_fan r) d of None \<Rightarrow> Inl ''Wallet not found for fan''
          | Some v \<Rightarrow>
              (case post_transaction ''REFUND'' (so_price r) (so_key ''so-expire:'' i) (so_refund_legs (Some (wl_id v)) (so_price r)) (Some (nat_text i)) d of
                 Inl e \<Rightarrow> Inl e
               | Inr ((tid, _), d1) \<Rightarrow> Inr (ok_json [(''refunded_paise'', JNum (so_price r)), (''transaction_id'', jid tid)],
                   notify (so_fan r, ''REFUND_PROCESSED_FAN'', ''shoutout'', i) (set_shoutout i (\<lambda>x. x\<lparr>so_status := EXPIRED_PARTNER_NO_DELIVERY\<rparr>) d1))))"

definition rpc_settle_shoutout :: "nat \<Rightarrow> ('a shoutoutDb_scheme, json) stmt" where
  "rpc_settle_shoutout i s d =
     (if \<not> is_system s d then Inl FORBIDDEN_SYSTEM
      else case so_of i d of None \<Rightarrow> Inr (err_json ''NOT_FOUND'', d)
      | Some r \<Rightarrow>
          if so_status r \<noteq> VIDEO_DELIVERED_TO_FAN \<or> so_fan_confirmed_at r = None then Inr (err_json ''NOT_SETTLEABLE'', d)
          else if i \<in> set (earnings d) then Inr (ok_json [(''already_settled'', JBool True)], d)
          else (let amt = so_price r + paid_fees i d in
            case post_transaction ''PARTNER_EARNING'' amt (so_key ''settle-so:'' i) (settle_legs amt) (Some (nat_text i)) d of
              Inl e \<Rightarrow> Inl e
            | Inr ((tid, _), d1) \<Rightarrow> Inr (ok_json [(''transaction_id'', jid tid)], d1\<lparr>earnings := earnings d1 @ [i]\<rparr>)))"

section \<open>The service\<close>

definition so_request :: "session \<Rightarrow> string \<Rightarrow> string \<Rightarrow> string \<Rightarrow> string \<Rightarrow> ('a shoutoutDb_scheme, json) act" where
  "so_request base u p recipient message = runAs base u (rpc (rpc_request_shoutout u p recipient message))"

definition so_upload :: "session \<Rightarrow> string \<Rightarrow> nat \<Rightarrow> string option \<Rightarrow> ('a shoutoutDb_scheme, json) act" where
  "so_upload base u i video = runAs base u (rpc (rpc_upload_shoutout i video))"

text \<open>\<open>!reason || !reason.trim()\<close>, where the body is not validated: a truthy value that is no text has no \<open>trim\<close>.\<close>

definition so_report :: "session \<Rightarrow> string \<Rightarrow> nat \<Rightarrow> json option \<Rightarrow> ('a shoutoutDb_scheme, json) act" where
  "so_report base u i reason w =
     (if \<not> truthy reason then (Inl (bad_request ''reason is required''), w)
      else case reason of
        Some (JStr t) \<Rightarrow> if trim t = [] then (Inl (bad_request ''reason is required''), w) else runAs base u (rpc (rpc_report_shoutout i t)) w
      | _ \<Rightarrow> (Inl (JsError ''reason.trim is not a function''), w))"

definition so_confirm :: "session \<Rightarrow> string \<Rightarrow> nat \<Rightarrow> ('a shoutoutDb_scheme, json) act" where
  "so_confirm base u i = runAs base u (rpc (rpc_confirm_shoutout u i))"

definition so_correction :: "session \<Rightarrow> string \<Rightarrow> nat \<Rightarrow> string option \<Rightarrow> ('a shoutoutDb_scheme, json) act" where
  "so_correction base u i note = runAs base u (rpc (rpc_request_correction u i note))"

text \<open>The policies of the two tables.\<close>

definition so_visible :: "session \<Rightarrow> 'a bank_scheme \<Rightarrow> shoutout \<Rightarrow> bool" where
  "so_visible s d x \<longleftrightarrow> current_user_id s \<in> {Some (so_fan x), Some (so_partner x)} \<or> admin_session s d"

definition corrections_of :: "session \<Rightarrow> 'a shoutoutDb_scheme \<Rightarrow> nat \<Rightarrow> correction list" where
  "corrections_of s d i = filter (\<lambda>c. sc_shoutout c = i \<and>
     ((\<exists>x \<in> set (shoutouts d). so_id x = i \<and> current_user_id s \<in> {Some (so_fan x), Some (so_partner x)}) \<or> admin_session s d)) (corrections d)"

record mineRow =
  mr_shoutout :: shoutout
  mr_partner_name :: "string option"
  mr_count :: nat
  mr_fees :: int
  mr_fee :: int

definition so_mine :: "session \<Rightarrow> string \<Rightarrow> ('a shoutoutDb_scheme, mineRow list) act" where
  "so_mine base u = runAs base u (execute (\<lambda>s d. Inr (map (\<lambda>x.
       \<lparr>mr_shoutout = x, mr_partner_name = Option.bind (map_of (partner_profiles d) (so_partner x)) id, mr_count = length (corrections_of s d (so_id x)),
        mr_fees = sum_list (map sc_fee (filter sc_paid (corrections_of s d (so_id x)))), mr_fee = so_fee d\<rparr>)
     (sort_key (\<lambda>x. - so_created x) (filter (\<lambda>x. so_fan x = u \<and> so_visible s d x \<and> so_partner x \<in> fst ` set (partner_profiles d)) (shoutouts d))), d)))"

definition open_note :: "session \<Rightarrow> 'a shoutoutDb_scheme \<Rightarrow> nat \<Rightarrow> string option" where
  "open_note s d i = (case sort_key (\<lambda>c. - sc_created c) (filter (\<lambda>c. sc_resubmitted c = None) (corrections_of s d i)) of
     [] \<Rightarrow> None | c # _ \<Rightarrow> sc_note c)"

definition so_incoming :: "session \<Rightarrow> string \<Rightarrow> ('a shoutoutDb_scheme, (shoutout \<times> string option) list) act" where
  "so_incoming base u = runAs base u (execute (\<lambda>s d. Inr (map (\<lambda>x. (x, open_note s d (so_id x)))
     (sort_key (\<lambda>x. - so_created x) (filter (\<lambda>x. so_partner x = u \<and> so_visible s d x) (shoutouts d))), d)))"

end
