(* ===== verification/Shoutout_Money.thy ===== *)
theory Shoutout_Money
  imports Shoutouts
begin

text \<open>
  The money of video requests under every interleaving of the fan, the partner, administrators and the sweeps: what the escrow
  holds, and what expiry leaves there.
\<close>

section \<open>What is owed\<close>

definition so_owed :: "'a shoutoutDb_scheme \<Rightarrow> shoutout \<Rightarrow> int" where
  "so_owed d x = (if so_status x = REFUNDED_BY_ADMIN \<or> so_id x \<in> set (earnings d) then 0
     else (if so_status x = EXPIRED_PARTNER_NO_DELIVERY then 0 else so_price x) + paid_fees (so_id x) d)"

definition so_row_ok :: "idem_key set \<Rightarrow> nat set \<Rightarrow> shoutout \<Rightarrow> bool" where
  "so_row_ok ks paid x \<longleftrightarrow>
     0 < so_price x \<and> so_key ''so:'' (so_id x) \<in> ks \<and>
     (so_key ''settle-so:'' (so_id x) \<in> ks \<longleftrightarrow> so_id x \<in> paid) \<and>
     (so_key ''so-cancel:'' (so_id x) \<in> ks \<longleftrightarrow> so_status x = REFUNDED_BY_ADMIN) \<and>
     (so_key ''so-expire:'' (so_id x) \<in> ks \<longleftrightarrow> so_status x = EXPIRED_PARTNER_NO_DELIVERY) \<and>
     (so_id x \<in> paid \<longrightarrow> so_status x = VIDEO_DELIVERED_TO_FAN \<and> so_fan_confirmed_at x \<noteq> None)"

text \<open>\<open>c\<close> is what the escrow holds for the other services.\<close>

definition so_ok :: "int \<Rightarrow> 'a shoutoutDb_scheme \<Rightarrow> bool" where
  "so_ok c d \<longleftrightarrow> money_ok d \<and> distinct (map so_id (shoutouts d)) \<and>
     (\<forall>x \<in> set (shoutouts d). so_row_ok (keys d) (set (earnings d)) x) \<and>
     account_sum ''booking_escrow'' (entries d) = c + sum_list (map (so_owed d) (shoutouts d))"

lemma so_key_eq [simp]: "so_key a i = so_key b j \<longleftrightarrow> a = b \<and> i = j"
  by (simp add: so_key_def)

lemma so_okD:
  assumes "so_ok c d"
  shows "money_ok d" "distinct (map so_id (shoutouts d))" "x \<in> set (shoutouts d) \<Longrightarrow> so_row_ok (keys d) (set (earnings d)) x"
    "account_sum ''booking_escrow'' (entries d) = c + sum_list (map (so_owed d) (shoutouts d))"
  using assms by (simp_all add: so_ok_def)

lemma so_ofD: "so_of i d = Some r \<Longrightarrow> r \<in> set (shoutouts d) \<and> so_id r = i"
  by (auto simp: so_of_def find_Some_iff)

lemma below_new_so:
  "i \<in> set (map so_id (shoutouts d) @ map dw_id (dm_windows d) @ map bk_id (bookings d) @ earnings d @ map (snd \<circ> tn_key) (txns d) @
     map sc_id (corrections d) @ map sc_shoutout (corrections d)) \<Longrightarrow> i < new_so_id d"
  unfolding new_so_id_def by (rule fresh_max)

lemma new_so_fresh:
  "x \<in> set (shoutouts d) \<Longrightarrow> so_id x \<noteq> new_so_id d" "new_so_id d \<notin> set (earnings d)" "so_key p (new_so_id d) \<notin> keys d" "paid_fees (new_so_id d) d = 0"
proof -
  show "x \<in> set (shoutouts d) \<Longrightarrow> so_id x \<noteq> new_so_id d" using below_new_so [of "so_id x" d] by auto
  show "new_so_id d \<notin> set (earnings d)" using below_new_so [of "new_so_id d" d] by auto
  show "so_key p (new_so_id d) \<notin> keys d"
  proof
    assume "so_key p (new_so_id d) \<in> keys d"
    then obtain t where "t \<in> set (txns d)" "tn_key t = (p, new_so_id d)" by (auto simp: keys_def so_key_def)
    then have "new_so_id d \<in> set (map (snd \<circ> tn_key) (txns d))" by (force simp: image_iff)
    then show False using below_new_so [of "new_so_id d" d] by simp
  qed
  have "sc_shoutout y \<noteq> new_so_id d" if "y \<in> set (corrections d)" for y using below_new_so [of "sc_shoutout y" d] that by auto
  then have "filter (\<lambda>y. sc_shoutout y = new_so_id d \<and> sc_paid y) (corrections d) = []" by (auto simp: filter_empty_conv)
  then show "paid_fees (new_so_id d) d = 0" by (simp add: paid_fees_def)
qed

section \<open>Changing one request\<close>

lemma change_so_ok:
  assumes ok: "so_ok c d" and x: "x \<in> set (shoutouts d)"
    and d1: "money_ok d1" "shoutouts d1 = map (\<lambda>y. if so_id y = so_id x then g y else y) (shoutouts d)"
    and g: "\<And>y. so_id (g y) = so_id y"
    and others: "\<And>y. y \<in> set (shoutouts d) \<Longrightarrow> so_id y \<noteq> so_id x \<Longrightarrow> so_row_ok (keys d1) (set (earnings d1)) y \<and> so_owed d1 y = so_owed d y"
    and this_one: "so_row_ok (keys d1) (set (earnings d1)) (g x)"
    and e: "account_sum ''booking_escrow'' (entries d1) = account_sum ''booking_escrow'' (entries d) + so_owed d1 (g x) - so_owed d x"
  shows "so_ok c d1"
proof -
  have dist: "distinct (map so_id (shoutouts d))" by (rule so_okD(2) [OF ok])
  have same: "y = x" if "y \<in> set (shoutouts d)" "so_id y = so_id x" for y using dist x that by (auto simp: distinct_map inj_on_def)
  let ?u = "\<lambda>y. if so_id y = so_id x then g y else y"
  have ids: "map so_id (shoutouts d1) = map so_id (shoutouts d)" unfolding d1(2) by (auto simp: g)
  have "sum_list (map (so_owed d1) (shoutouts d1)) = sum_list (map (\<lambda>y. so_owed d1 (?u y)) (shoutouts d))"
    by (simp add: d1(2) comp_def)
  also have "\<dots> = sum_list (map (so_owed d) (shoutouts d)) + so_owed d1 (?u x) - so_owed d x"
    by (rule sum_list_one [OF dist x]) (simp add: others)
  finally have "account_sum ''booking_escrow'' (entries d1) = c + sum_list (map (so_owed d1) (shoutouts d1))"
    using e so_okD(4) [OF ok] by simp
  moreover have "so_row_ok (keys d1) (set (earnings d1)) y" if "y \<in> set (shoutouts d1)" for y
    using that others this_one same unfolding d1(2) by (auto split: if_splits)
  ultimately show ?thesis using d1(1) dist ids by (simp add: so_ok_def)
qed

text \<open>A change of a live request that moves no money.\<close>

definition live :: "shoutout \<Rightarrow> bool" where
  "live x \<longleftrightarrow> so_status x \<notin> {REFUNDED_BY_ADMIN, EXPIRED_PARTNER_NO_DELIVERY}"

lemma quiet_so_ok:
  assumes ok: "so_ok c d" and x: "x \<in> set (shoutouts d)" "live x" "so_id x \<notin> set (earnings d)"
    and m: "wallets d1 = wallets d" "txns d1 = txns d" "entries d1 = entries d" "next_id d1 = next_id d" "earnings d1 = earnings d"
    and fees: "\<And>i. paid_fees i d1 = paid_fees i d"
    and s: "shoutouts d1 = map (\<lambda>y. if so_id y = so_id x then g y else y) (shoutouts d)"
    and g: "\<And>y. so_id (g y) = so_id y" "\<And>y. so_price (g y) = so_price y" "live (g x)"
  shows "so_ok c d1"
proof -
  have k: "keys d1 = keys d" by (simp add: keys_def m)
  have r: "so_row_ok (keys d) (set (earnings d)) y" if "y \<in> set (shoutouts d)" for y using so_okD(3) [OF ok that] .
  have o: "so_owed d1 y = so_owed d y" for y by (simp add: so_owed_def m fees)
  show ?thesis
  proof (rule change_so_ok [where d = d and x = x and g = g, OF ok x(1) _ s g(1)])
    show "money_ok d1" using so_okD(1) [OF ok] by (simp add: money_ok_def m)
    show "so_row_ok (keys d1) (set (earnings d1)) (g x)" using r [OF x(1)] x(2,3) g(3) by (auto simp: so_row_ok_def k m g live_def)
    show "account_sum ''booking_escrow'' (entries d1) = account_sum ''booking_escrow'' (entries d) + so_owed d1 (g x) - so_owed d x"
      using x(2,3) g(3) by (simp add: so_owed_def m fees g live_def)
  qed (use r o in \<open>simp_all add: k m\<close>)
qed

section \<open>The bystanders of every operation\<close>

lemma so_notify_fields [simp]:
  fixes d :: "'a shoutoutDb_scheme"
  shows "shoutouts (notify k d) = shoutouts d" "earnings (notify k d) = earnings d" "wallets (notify k d) = wallets d" "txns (notify k d) = txns d"
    "entries (notify k d) = entries d" "next_id (notify k d) = next_id d" "paid_fees i (notify k d) = paid_fees i d"
  by (simp_all add: notify_def paid_fees_def)

lemma so_fold_notify [simp]:
  fixes d :: "'a shoutoutDb_scheme"
  shows "shoutouts (fold (\<lambda>a. notify (f a)) as d) = shoutouts d" "earnings (fold (\<lambda>a. notify (f a)) as d) = earnings d"
    "wallets (fold (\<lambda>a. notify (f a)) as d) = wallets d" "txns (fold (\<lambda>a. notify (f a)) as d) = txns d"
    "entries (fold (\<lambda>a. notify (f a)) as d) = entries d" "next_id (fold (\<lambda>a. notify (f a)) as d) = next_id d"
    "paid_fees i (fold (\<lambda>a. notify (f a)) as d) = paid_fees i d"
  by (induction as arbitrary: d) simp_all

lemma so_frame_fields [simp]:
  fixes d :: "'a shoutoutDb_scheme"
  shows "shoutouts (so_audit a ty i v d) = shoutouts d" "earnings (so_audit a ty i v d) = earnings d" "wallets (so_audit a ty i v d) = wallets d"
    "txns (so_audit a ty i v d) = txns d" "entries (so_audit a ty i v d) = entries d" "next_id (so_audit a ty i v d) = next_id d"
    "paid_fees j (so_audit a ty i v d) = paid_fees j d"
    "shoutouts (close_reports i d) = shoutouts d" "earnings (close_reports i d) = earnings d" "wallets (close_reports i d) = wallets d"
    "txns (close_reports i d) = txns d" "entries (close_reports i d) = entries d" "next_id (close_reports i d) = next_id d"
    "paid_fees j (close_reports i d) = paid_fees j d"
  by (simp_all add: so_audit_def close_reports_def paid_fees_def)

lemma set_shoutout_fields [simp]:
  fixes d :: "'a shoutoutDb_scheme"
  shows "shoutouts (set_shoutout i f d) = map (\<lambda>x. if so_id x = i then f x else x) (shoutouts d)" "earnings (set_shoutout i f d) = earnings d"
    "wallets (set_shoutout i f d) = wallets d" "txns (set_shoutout i f d) = txns d" "entries (set_shoutout i f d) = entries d"
    "next_id (set_shoutout i f d) = next_id d" "paid_fees j (set_shoutout i f d) = paid_fees j d"
  by (simp_all add: set_shoutout_def paid_fees_def)

lemma so_record_fields [simp]:
  fixes d :: "'a shoutoutDb_scheme"
  shows "paid_fees j (d\<lparr>reports := rs\<rparr>) = paid_fees j d" "paid_fees j (d\<lparr>earnings := es\<rparr>) = paid_fees j d"
    "paid_fees j (d\<lparr>shoutouts := xs\<rparr>) = paid_fees j d"
  by (simp_all add: paid_fees_def)

lemma add_correction_fields [simp]:
  fixes d :: "'a shoutoutDb_scheme"
  shows "shoutouts (add_correction c i p fee note now d) = shoutouts d" "earnings (add_correction c i p fee note now d) = earnings d"
    "wallets (add_correction c i p fee note now d) = wallets d" "txns (add_correction c i p fee note now d) = txns d"
    "entries (add_correction c i p fee note now d) = entries d" "next_id (add_correction c i p fee note now d) = next_id d"
    "paid_fees j (add_correction c i p fee note now d) = paid_fees j d + (if p \<and> i = j then fee else 0)"
  by (simp_all add: add_correction_def paid_fees_def)

lemma deliver_fees [simp]: "paid_fees j (deliver_video i video now d) = paid_fees j d"
proof -
  have "sum_list (map sc_fee (filter (\<lambda>c. sc_shoutout c = j \<and> sc_paid c)
      (map (\<lambda>c. if P c then c\<lparr>sc_resubmitted := r, sc_video := v\<rparr> else c) cs))) =
    sum_list (map sc_fee (filter (\<lambda>c. sc_shoutout c = j \<and> sc_paid c) cs))" for P r v cs
    by (induction cs) auto
  then show ?thesis by (simp add: deliver_video_def set_shoutout_def paid_fees_def)
qed

lemma deliver_fields [simp]:
  "earnings (deliver_video i video now d) = earnings d" "wallets (deliver_video i video now d) = wallets d"
  "txns (deliver_video i video now d) = txns d" "entries (deliver_video i video now d) = entries d" "next_id (deliver_video i video now d) = next_id d"
  by (simp_all add: deliver_video_def set_shoutout_def)

section \<open>Operations that move no money\<close>

lemma row_fresh:
  assumes "so_ok c d" and "x \<in> set (shoutouts d)" and "so_status x \<noteq> VIDEO_DELIVERED_TO_FAN \<or> so_fan_confirmed_at x = None"
  shows "so_id x \<notin> set (earnings d)"
  using so_okD(3) [OF assms(1,2)] assms(3) by (auto simp: so_row_ok_def)

lemma step_quiet:
  assumes ok: "so_ok c d" and x: "so_of i d = Some x" "live x" "so_status x \<noteq> VIDEO_DELIVERED_TO_FAN \<or> so_fan_confirmed_at x = None"
    and m: "wallets d1 = wallets d" "txns d1 = txns d" "entries d1 = entries d" "next_id d1 = next_id d" "earnings d1 = earnings d"
    and fees: "\<And>i. paid_fees i d1 = paid_fees i d"
    and s: "shoutouts d1 = map (\<lambda>y. if so_id y = i then g y else y) (shoutouts d)"
    and g: "\<And>y. so_id (g y) = so_id y" "\<And>y. so_price (g y) = so_price y" "live (g x)"
  shows "so_ok c d1"
  by (rule quiet_so_ok [where d = d and x = x and g = g, OF ok _ x(2)])
    (use so_ofD [OF x(1)] row_fresh [OF ok _ x(3)] m fees s g in \<open>simp_all\<close>)

lemma deliver_shoutouts [simp]:
  "shoutouts (deliver_video i video now d) = map (\<lambda>x. if so_id x = i then x\<lparr>so_video := video, so_delivered := Some now, so_status := VIDEO_DELIVERED_TO_FAN,
     so_fan_confirmed_at := None, so_review_deadline := Some (now + days_ms (so_review_days d)), so_settle_at := now + days_ms (mq_settle_days d)\<rparr> else x) (shoutouts d)"
  by (simp add: deliver_video_def set_shoutout_def)

lemma upload_ok:
  assumes ok: "so_ok c d" and run: "rpc_upload_shoutout i video s d = Inr (r, d')"
  shows "so_ok c d'"
proof (cases "d' = d")
  case False
  then obtain x where x: "so_of i d = Some x" "so_status x = AWAITING_PARTNER_VIDEO"
    and d': "d' = notify (so_fan x, ''SHOUTOUT_STATUS_UPDATE_FAN'', ''shoutout'', i) (deliver_video i video (sess_now s) d)"
    using run by (auto simp: rpc_upload_shoutout_def split: option.splits if_splits)
  show ?thesis by (rule step_quiet [where g = "\<lambda>x. x\<lparr>so_video := video, so_delivered := Some (sess_now s), so_status := VIDEO_DELIVERED_TO_FAN, so_fan_confirmed_at := None,
      so_review_deadline := Some (sess_now s + days_ms (so_review_days d)), so_settle_at := sess_now s + days_ms (mq_settle_days d)\<rparr>", OF ok x(1)]) (simp_all add: d' live_def x(2))
qed (use ok in simp)

lemma confirm_ok:
  assumes ok: "so_ok c d" and x: "so_of i d = Some x" "so_status x = VIDEO_DELIVERED_TO_FAN" "so_fan_confirmed_at x = None"
  shows "so_ok c (set_shoutout i (confirm_at now) d)"
  by (rule step_quiet [where g = "confirm_at now", OF ok x(1)]) (simp_all add: live_def confirm_at_def x)

lemma fan_confirm_ok:
  assumes ok: "so_ok c d" and run: "rpc_confirm_shoutout fan i s d = Inr (r, d')"
  shows "so_ok c d'"
  using run ok by (auto simp: rpc_confirm_shoutout_def split: option.splits if_splits intro: confirm_ok)

lemma auto_confirm_ok:
  assumes ok: "so_ok c d" and run: "rpc_auto_confirm_shoutout i s d = Inr (r, d')"
  shows "so_ok c d'"
  using run ok by (auto simp: rpc_auto_confirm_shoutout_def split: option.splits if_splits intro: confirm_ok)

lemma report_ok:
  assumes ok: "so_ok c d" and run: "rpc_report_shoutout i reason s d = Inr (r, d')"
  shows "so_ok c d'"
proof (cases "d' = d")
  case False
  then obtain x where x: "so_of i d = Some x" "so_status x = VIDEO_DELIVERED_TO_FAN" "so_fan_confirmed_at x = None"
    and d': "d' = fold (\<lambda>a. notify (a, ''PLATFORM_ANNOUNCEMENT'', ''system'', length (reports d))) (filter (\<lambda>a. a \<in> set (admins d)) (mod_admins d))
             (set_shoutout i (\<lambda>x. x\<lparr>so_status := ISSUE_REPORTED_BY_FAN, so_disputed := Some (sess_now s)\<rparr>)
              (d\<lparr>reports := reports d @ [\<lparr>rp_target_type = R_SHOUTOUT, rp_target_id = i, rp_status = R_PENDING, rp_reporter = so_fan x,
                rp_reason = reason, rp_details = None\<rparr>]\<rparr>))"
    using run by (auto simp: rpc_report_shoutout_def split: option.splits if_splits)
  show ?thesis by (rule step_quiet [where g = "\<lambda>x. x\<lparr>so_status := ISSUE_REPORTED_BY_FAN, so_disputed := Some (sess_now s)\<rparr>", OF ok x(1)]) (simp_all add: d' live_def x)
qed (use ok in simp)

lemma deliver_ok:
  assumes ok: "so_ok c d" and run: "rpc_admin_deliver_shoutout a i approve note s d = Inr (r, d')"
  shows "so_ok c d'"
proof (cases "d' = d")
  case False
  then obtain x where x: "so_of i d = Some x" "so_status x \<in> {VIDEO_DELIVERED_TO_FAN, ISSUE_REPORTED_BY_FAN}" "so_fan_confirmed_at x = None"
    and d': "d' = so_audit ''DELIVER_SHOUTOUT'' ''shoutout'' i (JObj [(''approved'', JBool approve), (''note'', jstr_or_null note)]) (if approve
              then notify (so_fan x, ''SHOUTOUT_STATUS_UPDATE_FAN'', ''shoutout'', i) (close_reports i
                (set_shoutout i (\<lambda>x. x\<lparr>so_fan_confirmed_at := Some (sess_now s), so_status := VIDEO_DELIVERED_TO_FAN\<rparr>) d))
              else video_needed x (set_shoutout i (\<lambda>x. x\<lparr>so_status := AWAITING_PARTNER_VIDEO\<rparr>) d))"
    using run by (auto simp: rpc_admin_deliver_shoutout_def Let_def split: option.splits if_split_asm)
  show ?thesis
  proof (cases approve)
    case True
    show ?thesis by (rule step_quiet [where g = "\<lambda>x. x\<lparr>so_fan_confirmed_at := Some (sess_now s), so_status := VIDEO_DELIVERED_TO_FAN\<rparr>", OF ok x(1)]) (use x in \<open>auto simp: d' True live_def\<close>)
  next
    case False
    show ?thesis by (rule step_quiet [where g = "\<lambda>x. x\<lparr>so_status := AWAITING_PARTNER_VIDEO\<rparr>", OF ok x(1)]) (use x in \<open>auto simp: d' False live_def video_needed_def\<close>)
  qed
qed (use ok in simp)

section \<open>Operations that move money\<close>

lemma so_more_fields:
  fixes d d' :: "'a shoutoutDb_scheme"
  assumes "money.more d' = money.more d"
  shows "shoutouts d' = shoutouts d" "earnings d' = earnings d" "paid_fees i d' = paid_fees i d"
  using assms by (cases d; cases d'; simp add: paid_fees_def)+

lemmas so_post_fields = so_more_fields [OF post_more]

lemma request_ok:
  assumes ok: "so_ok c d" and run: "rpc_request_shoutout fan p rcp msg s d = Inr (r, d')"
  shows "so_ok c d'"
proof (cases "d' = d")
  case False
  let ?i = "new_so_id d"
  obtain price t d1 where p: "post_transaction ''SHOUTOUT_DEBIT'' price (so_key ''so:'' ?i) (question_legs (map_option wl_id (wallet_of fan d)) price) (Some (nat_text ?i)) d = Inr (t, d1)"
    and d': "d' = d1\<lparr>shoutouts := shoutouts d1 @ [\<lparr>so_id = ?i, so_fan = fan, so_partner = p, so_status = AWAITING_PARTNER_VIDEO, so_fan_confirmed_at = None,
                 so_review_deadline = None, so_settle_at = sess_now s + days_ms (mq_settle_days d), so_recipient = rcp, so_message = msg,
                 so_price = price, so_created = sess_now s, so_delivered = None, so_video = None, so_free_used = None, so_disputed = None\<rparr>]\<rparr>"
    using run False by (auto simp: rpc_request_shoutout_def Let_def split: option.splits if_splits sum.splits)
  note f = post_fresh [OF so_okD(1) [OF ok] p new_so_fresh(3)] and g = so_post_fields [OF p] and n = new_so_fresh
  have key: "keys d' = insert (so_key ''so:'' ?i) (keys d)" using f(2) by (simp add: keys_def d')
  have es: "earnings d' = earnings d" by (simp add: d' g)
  have owed: "so_owed d' y = so_owed d y" for y by (simp add: so_owed_def d' g)
  have rows: "so_row_ok (keys d') (set (earnings d')) y" if "y \<in> set (shoutouts d)" for y
    using so_okD(3) [OF ok that] n(1) [OF that] by (auto simp: so_row_ok_def key es)
  have new: "so_row_ok (keys d') (set (earnings d')) x" if "so_id x = ?i" "so_price x = price" "so_status x = AWAITING_PARTNER_VIDEO" for x
    using n(2) n(3) [where d = d] f(3) that by (simp add: so_row_ok_def key es)
  have new_owed: "so_owed d x = price" if "so_id x = ?i" "so_price x = price" "so_status x = AWAITING_PARTNER_VIDEO" for x
    using n(2) [of d] n(4) [of d] that by (simp add: so_owed_def)
  have "account_sum ''booking_escrow'' (entries d') = account_sum ''booking_escrow'' (entries d) + price"
    using f(4) [of "''booking_escrow''"] by (simp add: d' question_legs_def)
  moreover have "sum_list (map (so_owed d') (shoutouts d')) = sum_list (map (so_owed d) (shoutouts d)) + price"
    unfolding owed by (simp add: d' g new_owed)
  moreover have "money_ok d'" using f(1) by (simp add: d' money_ok_def)
  moreover have "distinct (map so_id (shoutouts d'))" using so_okD(2) [OF ok] n(1) by (force simp: d' g)
  ultimately show ?thesis using so_okD(4) [OF ok] rows new by (auto simp: so_ok_def d' g)
qed (use ok in simp)

text \<open>A posting about a live request: \<open>gain\<close> is what the escrow gains.\<close>

lemma post_so_ok:
  fixes d d0 d1 d2 :: "'a shoutoutDb_scheme"
  assumes ok: "so_ok c d" and x: "x \<in> set (shoutouts d)"
    and d0: "money_ok d0" "keys d0 = keys d" "entries d0 = entries d" "earnings d0 = earnings d" "shoutouts d0 = shoutouts d"
    and p: "post_transaction ty a key legs ref d0 = Inr (t, d1)" and k: "key \<notin> keys d"
    and key: "\<And>y kind. y \<in> set (shoutouts d) \<Longrightarrow> so_id y \<noteq> so_id x \<Longrightarrow> key \<noteq> so_key kind (so_id y)"
    and d2: "wallets d2 = wallets d1" "txns d2 = txns d1" "entries d2 = entries d1" "next_id d2 = next_id d1"
      "shoutouts d2 = map (\<lambda>y. if so_id y = so_id x then g y else y) (shoutouts d)"
      "\<And>y. y \<noteq> so_id x \<Longrightarrow> y \<in> set (earnings d2) \<longleftrightarrow> y \<in> set (earnings d)" "\<And>i. i \<noteq> so_id x \<Longrightarrow> paid_fees i d2 = paid_fees i d"
    and g: "\<And>y. so_id (g y) = so_id y"
    and this_one: "so_row_ok (insert key (keys d)) (set (earnings d2)) (g x)"
    and gain: "sum_list (map leg_delta (filter (\<lambda>l. leg_account l = ''booking_escrow'') legs)) = so_owed d2 (g x) - so_owed d x"
  shows "so_ok c d2"
proof -
  have k0: "key \<notin> keys d0" using k d0(2) by simp
  note f = post_fresh [OF d0(1) p k0]
  have ks: "keys d2 = insert key (keys d)" using f(2) by (simp add: keys_def d2(2) d0(2) [unfolded keys_def])
  show ?thesis
  proof (rule change_so_ok [where d = d and x = x and g = g, OF ok x _ d2(5) g])
    show "money_ok d2" using f(1) by (simp add: money_ok_def d2)
    show "so_row_ok (keys d2) (set (earnings d2)) (g x)" unfolding ks by (rule this_one)
    show "account_sum ''booking_escrow'' (entries d2) = account_sum ''booking_escrow'' (entries d) + so_owed d2 (g x) - so_owed d x"
      using f(4) [of "''booking_escrow''"] gain by (simp add: d2(3) d0(3))
    fix y assume y: "y \<in> set (shoutouts d)" "so_id y \<noteq> so_id x"
    show "so_row_ok (keys d2) (set (earnings d2)) y \<and> so_owed d2 y = so_owed d y"
      unfolding ks using so_okD(3) [OF ok y(1)] key [OF y] d2(6,7) y(2) by (simp add: so_row_ok_def so_owed_def, metis)
  qed
qed

lemma correction_ok:
  assumes ok: "so_ok c d" and run: "rpc_request_correction fan i note s d = Inr (r, d')"
  shows "so_ok c d'"
proof (cases "d' = d")
  case False
  let ?c = "new_so_id d" and ?fee = "so_fee d" and ?now = "sess_now s"
  obtain x where x: "so_of i d = Some x" "so_status x = VIDEO_DELIVERED_TO_FAN" "so_fan_confirmed_at x = None" and
    d': "d' = video_needed x (add_correction ?c i False 0 note ?now (set_shoutout i (\<lambda>x. x\<lparr>so_free_used := Some ?now, so_status := AWAITING_PARTNER_VIDEO\<rparr>) d)) \<or>
      (\<exists>t d1. post_transaction ''SHOUTOUT_DEBIT'' ?fee (so_key ''so-corr:'' ?c) (question_legs (map_option wl_id (wallet_of (so_fan x) d)) ?fee)
         (Some (nat_text ?c)) (add_correction ?c i True ?fee note ?now d) = Inr (t, d1) \<and>
         d' = video_needed x (set_shoutout i (\<lambda>x. x\<lparr>so_status := AWAITING_PARTNER_VIDEO\<rparr>) d1))"
    using run False by (auto simp: rpc_request_correction_def Let_def split: option.splits if_splits sum.splits)
  note m = so_ofD [OF x(1)]
  have unpaid: "so_id x \<notin> set (earnings d)" using row_fresh [OF ok] m x(3) by blast
  from d' show ?thesis
  proof (elim disjE exE conjE)
    assume d': "d' = video_needed x (add_correction ?c i False 0 note ?now (set_shoutout i (\<lambda>x. x\<lparr>so_free_used := Some ?now, so_status := AWAITING_PARTNER_VIDEO\<rparr>) d))"
    show ?thesis
      by (rule step_quiet [where g = "\<lambda>x. x\<lparr>so_free_used := Some ?now, so_status := AWAITING_PARTNER_VIDEO\<rparr>", OF ok x(1)])
        (simp_all add: d' live_def x video_needed_def)
  next
    fix t d1
    assume p: "post_transaction ''SHOUTOUT_DEBIT'' ?fee (so_key ''so-corr:'' ?c) (question_legs (map_option wl_id (wallet_of (so_fan x) d)) ?fee)
         (Some (nat_text ?c)) (add_correction ?c i True ?fee note ?now d) = Inr (t, d1)"
      and d': "d' = video_needed x (set_shoutout i (\<lambda>x. x\<lparr>so_status := AWAITING_PARTNER_VIDEO\<rparr>) d1)"
    note q = so_post_fields [OF p]
    show ?thesis
    proof (rule post_so_ok [where g = "\<lambda>x. x\<lparr>so_status := AWAITING_PARTNER_VIDEO\<rparr>", OF ok _ _ _ _ _ _ p new_so_fresh(3)])
      show "money_ok (add_correction ?c i True ?fee note ?now d)" using so_okD(1) [OF ok] by (simp add: money_ok_def)
      show "so_row_ok (insert (so_key ''so-corr:'' ?c) (keys d)) (set (earnings d')) (x\<lparr>so_status := AWAITING_PARTNER_VIDEO\<rparr>)"
        using so_okD(3) [OF ok, of x] m x(2) unpaid by (simp add: so_row_ok_def d' video_needed_def q)
      show "sum_list (map leg_delta (filter (\<lambda>l. leg_account l = ''booking_escrow'') (question_legs (map_option wl_id (wallet_of (so_fan x) d)) ?fee))) =
          so_owed d' (x\<lparr>so_status := AWAITING_PARTNER_VIDEO\<rparr>) - so_owed d x"
        using m x(2) unpaid by (simp add: question_legs_def so_owed_def d' video_needed_def q)
      show "so_key ''so-corr:'' ?c \<noteq> so_key kind (so_id y)" if "y \<in> set (shoutouts d)" for y kind using new_so_fresh(1) [OF that] by simp
    qed (use m in \<open>simp_all add: d' video_needed_def q keys_def\<close>)
  qed
qed (use ok in simp)

lemma cancel_ok:
  assumes ok: "so_ok c d" and run: "rpc_admin_cancel_shoutout a i notes s d = Inr (r, d')"
  shows "so_ok c d'"
proof (cases "d' = d")
  case False
  obtain x t d1 v where x: "so_of i d = Some x" "so_status x \<in> cancellable" "i \<notin> set (earnings d)"
    and p: "post_transaction ''REFUND'' (so_price x + paid_fees i d) (so_key ''so-cancel:'' i)
      (so_refund_legs (map_option wl_id (wallet_of (so_fan x) d)) (so_price x + paid_fees i d)) (Some (nat_text i)) d = Inr (t, d1)"
    and d': "d' = so_audit ''CANCEL_SHOUTOUT'' ''shout_out_request'' i v
      (notify (so_fan x, ''REFUND_PROCESSED_FAN'', ''shoutout'', i) (close_reports i (set_shoutout i (\<lambda>x. x\<lparr>so_status := REFUNDED_BY_ADMIN\<rparr>) d1)))"
    using run False by (auto simp: rpc_admin_cancel_shoutout_def Let_def split: option.splits if_splits sum.splits)
  note m = so_ofD [OF x(1)] and q = so_post_fields [OF p]
  have r: "so_row_ok (keys d) (set (earnings d)) x" using so_okD(3) [OF ok] m by blast
  show ?thesis
  proof (rule post_so_ok [where g = "\<lambda>x. x\<lparr>so_status := REFUNDED_BY_ADMIN\<rparr>", OF ok _ _ _ _ _ _ p])
    show "money_ok d" by (rule so_okD(1) [OF ok])
    show "so_key ''so-cancel:'' i \<notin> keys d" using r x(2) m by (auto simp: so_row_ok_def cancellable_def)
    show "so_row_ok (insert (so_key ''so-cancel:'' i) (keys d)) (set (earnings d')) (x\<lparr>so_status := REFUNDED_BY_ADMIN\<rparr>)"
      using r m x(2,3) by (auto simp: so_row_ok_def d' q cancellable_def)
    show "sum_list (map leg_delta (filter (\<lambda>l. leg_account l = ''booking_escrow'') (so_refund_legs (map_option wl_id (wallet_of (so_fan x) d)) (so_price x + paid_fees i d)))) =
        so_owed d' (x\<lparr>so_status := REFUNDED_BY_ADMIN\<rparr>) - so_owed d x"
      using m x(2,3) by (auto simp: so_refund_legs_def so_owed_def d' q cancellable_def)
  qed (use m in \<open>simp_all add: d' q\<close>)
qed (use ok in simp)

lemma expire_so_ok:
  assumes ok: "so_ok c d" and run: "rpc_expire_shoutout i s d = Inr (r, d')"
  shows "so_ok c d'"
proof (cases "d' = d")
  case False
  obtain x v t d1 where x: "so_of i d = Some x" "so_status x = AWAITING_PARTNER_VIDEO"
    and p: "post_transaction ''REFUND'' (so_price x) (so_key ''so-expire:'' i) (so_refund_legs v (so_price x)) (Some (nat_text i)) d = Inr (t, d1)"
    and d': "d' = notify (so_fan x, ''REFUND_PROCESSED_FAN'', ''shoutout'', i) (set_shoutout i (\<lambda>x. x\<lparr>so_status := EXPIRED_PARTNER_NO_DELIVERY\<rparr>) d1)"
    using run False by (auto simp: rpc_expire_shoutout_def split: option.splits if_splits sum.splits)
  note m = so_ofD [OF x(1)] and q = so_post_fields [OF p]
  have r: "so_row_ok (keys d) (set (earnings d)) x" using so_okD(3) [OF ok] m by blast
  show ?thesis
  proof (rule post_so_ok [where g = "\<lambda>x. x\<lparr>so_status := EXPIRED_PARTNER_NO_DELIVERY\<rparr>", OF ok _ _ _ _ _ _ p])
    show "money_ok d" by (rule so_okD(1) [OF ok])
    show "so_key ''so-expire:'' i \<notin> keys d" using r x(2) m by (auto simp: so_row_ok_def)
    show "so_row_ok (insert (so_key ''so-expire:'' i) (keys d)) (set (earnings d')) (x\<lparr>so_status := EXPIRED_PARTNER_NO_DELIVERY\<rparr>)"
      using r m x(2) by (auto simp: so_row_ok_def d' q)
    show "sum_list (map leg_delta (filter (\<lambda>l. leg_account l = ''booking_escrow'') (so_refund_legs v (so_price x)))) =
        so_owed d' (x\<lparr>so_status := EXPIRED_PARTNER_NO_DELIVERY\<rparr>) - so_owed d x"
      using m x(2) r by (auto simp: so_refund_legs_def so_owed_def d' q so_row_ok_def)
  qed (use m in \<open>simp_all add: d' q\<close>)
qed (use ok in simp)

lemma settle_so_ok:
  assumes ok: "so_ok c d" and run: "rpc_settle_shoutout i s d = Inr (r, d')"
  shows "so_ok c d'"
proof (cases "d' = d")
  case False
  obtain x t d1 where x: "so_of i d = Some x" "so_status x = VIDEO_DELIVERED_TO_FAN" "so_fan_confirmed_at x \<noteq> None" "i \<notin> set (earnings d)"
    and p: "post_transaction ''PARTNER_EARNING'' (so_price x + paid_fees i d) (so_key ''settle-so:'' i) (settle_legs (so_price x + paid_fees i d)) (Some (nat_text i)) d = Inr (t, d1)"
    and d': "d' = d1\<lparr>earnings := earnings d1 @ [i]\<rparr>"
    using run False by (auto simp: rpc_settle_shoutout_def Let_def split: option.splits if_splits sum.splits)
  note m = so_ofD [OF x(1)] and q = so_post_fields [OF p]
  have r: "so_row_ok (keys d) (set (earnings d)) x" using so_okD(3) [OF ok] m by blast
  show ?thesis
  proof (rule post_so_ok [where g = "\<lambda>x. x", OF ok _ _ _ _ _ _ p])
    show "money_ok d" by (rule so_okD(1) [OF ok])
    show "so_key ''settle-so:'' i \<notin> keys d" using r x(4) m by (auto simp: so_row_ok_def)
    show "so_row_ok (insert (so_key ''settle-so:'' i) (keys d)) (set (earnings d')) x"
      using r m x by (auto simp: so_row_ok_def d' q)
    show "sum_list (map leg_delta (filter (\<lambda>l. leg_account l = ''booking_escrow'') (settle_legs (so_price x + paid_fees i d)))) = so_owed d' x - so_owed d x"
      using m x by (simp add: settle_legs_def so_owed_def d' q)
  qed (use m in \<open>simp_all add: d' q\<close>)
qed (use ok in simp)

lemma resolve_ok:
  assumes ok: "so_ok c d" and run: "rpc_admin_resolve_shoutout_report a i action notes s d = Inr (r, d')"
  shows "so_ok c d'"
proof (cases "d' = d")
  case False
  obtain x where x: "so_of i d = Some x" "so_status x = ISSUE_REPORTED_BY_FAN"
    using run False by (auto simp: rpc_admin_resolve_shoutout_report_def split: option.splits if_splits)
  have audit: "so_ok c (so_audit k ty j v d0) \<longleftrightarrow> so_ok c d0" for k ty j v and d0 :: "'a shoutoutDb_scheme"
  proof -
    have "so_owed (so_audit k ty j v d0) = so_owed d0" by (intro ext) (simp add: so_owed_def)
    then show ?thesis by (simp add: so_ok_def keys_def money_ok_def)
  qed
  show ?thesis
  proof (cases action)
    case REFUND_IT
    then obtain res d1 where d1: "rpc_admin_cancel_shoutout a i notes s d = Inr (res, d1)" "d' = d1 \<or> d' = so_resolved ''REFUND'' i d1"
      using run x by (auto simp: rpc_admin_resolve_shoutout_report_def split: if_splits sum.splits)
    from cancel_ok [OF ok d1(1)] d1(2) show ?thesis by (auto simp: so_resolved_def audit)
  next
    case REWORK
    then have d': "d' = so_resolved ''REWORK'' i (video_needed x (close_reports i (set_shoutout i (\<lambda>x. x\<lparr>so_status := AWAITING_PARTNER_VIDEO\<rparr>) d)))"
      using run x by (auto simp: rpc_admin_resolve_shoutout_report_def split: if_splits)
    show ?thesis by (rule step_quiet [where g = "\<lambda>x. x\<lparr>so_status := AWAITING_PARTNER_VIDEO\<rparr>", OF ok x(1)])
      (simp_all add: d' so_resolved_def video_needed_def live_def x)
  next
    case DISMISS
    then have d': "d' = so_resolved ''DISMISS'' i (close_reports i (set_shoutout i (\<lambda>x. x\<lparr>so_status := VIDEO_DELIVERED_TO_FAN,
        so_review_deadline := Some (sess_now s + days_ms (so_review_days d)), so_settle_at := sess_now s + days_ms (mq_settle_days d)\<rparr>) d))"
      using run x by (auto simp: rpc_admin_resolve_shoutout_report_def split: if_splits)
    show ?thesis by (rule step_quiet [where g = "\<lambda>x. x\<lparr>so_status := VIDEO_DELIVERED_TO_FAN,
        so_review_deadline := Some (sess_now s + days_ms (so_review_days d)), so_settle_at := sess_now s + days_ms (mq_settle_days d)\<rparr>", OF ok x(1)])
      (simp_all add: d' so_resolved_def live_def x)
  next
    case OTHER_ACTION
    then show ?thesis using run x ok by (auto simp: rpc_admin_resolve_shoutout_report_def split: if_splits)
  qed
qed (use ok in simp)

section \<open>Every interleaving\<close>

text \<open>The steps: the requests of the fan and the partner, the three decisions of administrators, the three sweeps, each on any request.\<close>

inductive so_step :: "'a shoutoutDb_scheme world \<Rightarrow> 'a shoutoutDb_scheme world \<Rightarrow> bool" where
  requested: "so_step w (snd (so_request base u p rcp msg w))"
| uploaded: "so_step w (snd (so_upload base u i video w))"
| reported: "so_step w (snd (so_report base u i reason w))"
| fan_confirmed: "so_step w (snd (so_confirm base u i w))"
| corrected: "so_step w (snd (so_correction base u i note w))"
| cancelled: "so_step w (snd (runAs base a (rpc (rpc_admin_cancel_shoutout a i notes)) w))"
| resolved: "so_step w (snd (runAs base a (rpc (rpc_admin_resolve_shoutout_report a i action notes)) w))"
| decided: "so_step w (snd (runAs base a (rpc (rpc_admin_deliver_shoutout a i approve notes)) w))"
| auto_confirmed: "so_step w (snd (runAsService base (rpc (rpc_auto_confirm_shoutout i)) w))"
| expired: "so_step w (snd (runAsService base (rpc (rpc_expire_shoutout i)) w))"
| settled: "so_step w (snd (runAsService base (rpc (rpc_settle_shoutout i)) w))"

text \<open>What every statement keeps, every step keeps.\<close>

inductive so_statement :: "(session \<Rightarrow> 'a shoutoutDb_scheme \<Rightarrow> string + (json \<times> 'a shoutoutDb_scheme)) \<Rightarrow> bool" where
  "so_statement (rpc_request_shoutout u p rcp msg)"
| "so_statement (rpc_upload_shoutout i video)"
| "so_statement (rpc_report_shoutout i reason)"
| "so_statement (rpc_confirm_shoutout u i)"
| "so_statement (rpc_request_correction u i note)"
| "so_statement (rpc_admin_cancel_shoutout a i notes)"
| "so_statement (rpc_admin_resolve_shoutout_report a i action notes)"
| "so_statement (rpc_admin_deliver_shoutout a i approve notes)"
| "so_statement (rpc_auto_confirm_shoutout i)"
| "so_statement (rpc_expire_shoutout i)"
| "so_statement (rpc_settle_shoutout i)"

lemma so_step_keeps:
  assumes keep: "\<And>st s d r d'. so_statement st \<Longrightarrow> I d \<Longrightarrow> st s d = Inr (r, d') \<Longrightarrow> I d'"
    and step: "so_step w w'" and i: "I (w_db w)"
  shows "I (w_db w')"
proof -
  have user: "I (w_db (snd (runAs base u (rpc st) w)))" if "so_statement st" for base u st
    by (rule as_user.run_keeps [where I = I]) (use keep [OF that] i in \<open>auto intro: keeps_rpc\<close>)
  have service: "I (w_db (snd (runAsService base (rpc st) w)))" if "so_statement st" for base st
    by (rule as_service.run_keeps [where I = I]) (use keep [OF that] i in \<open>auto intro: keeps_rpc\<close>)
  show ?thesis
    using step
  proof cases
    case (reported base u i reason)
    have "I (w_db (snd (runAs base u (rpc (rpc_report_shoutout i t)) w)))" for t by (rule user) (rule so_statement.intros)
    then show ?thesis using i by (auto simp: reported so_report_def split: option.splits json.splits)
  qed (auto simp: so_request_def so_upload_def so_confirm_def so_correction_def intro!: user service so_statement.intros)
qed

lemma so_statement_ok:
  assumes "so_statement st" and "so_ok c d" and "st s d = Inr (r, d')"
  shows "so_ok c d'"
  using assms(1)
  by cases (use assms(2,3) in \<open>auto intro: request_ok upload_ok report_ok fan_confirm_ok correction_ok cancel_ok resolve_ok deliver_ok
    auto_confirm_ok expire_so_ok settle_so_ok\<close>)

lemma so_steps_ok: "so_step\<^sup>*\<^sup>* w w' \<Longrightarrow> so_ok c (w_db w) \<Longrightarrow> so_ok c (w_db w')"
  by (induction rule: rtranclp_induct) (auto intro: so_step_keeps [where I = "so_ok c"] so_statement_ok)

text \<open>
  C32. The money of video requests.  Start from a database whose escrow is right, and let fans request, confirm, dispute and ask for
  corrections, partners deliver, administrators cancel, resolve and decide, and the sweeps confirm, expire and settle, in any
  order.  Then the ledger still balances; the escrow holds the price and the paid correction fees of every request that is neither
  settled nor cancelled, except that of an expired one the fees stay behind; every request was debited; a request is paid out,
  cancelled or expired at most once and never two of them, and paid out only after a confirmation.
\<close>

theorem shoutout_escrow_exact:
  fixes w w' :: "'a shoutoutDb_scheme world"
  assumes start: "so_ok c (w_db w)" and steps: "so_step\<^sup>*\<^sup>* w w'"
  shows "let d = w_db w' in money_ok d \<and>
    account_sum ''booking_escrow'' (entries d) = c +
      sum_list (map (\<lambda>x. so_price x + paid_fees (so_id x) d) (filter (\<lambda>x. so_status x \<notin> {REFUNDED_BY_ADMIN, EXPIRED_PARTNER_NO_DELIVERY} \<and> so_id x \<notin> set (earnings d)) (shoutouts d))) +
      sum_list (map (\<lambda>x. paid_fees (so_id x) d) (filter (\<lambda>x. so_status x = EXPIRED_PARTNER_NO_DELIVERY) (shoutouts d))) \<and>
    (\<forall>x \<in> set (shoutouts d). so_key ''so:'' (so_id x) \<in> tn_key ` set (txns d) \<and>
       (so_key ''so-cancel:'' (so_id x) \<in> tn_key ` set (txns d) \<longleftrightarrow> so_status x = REFUNDED_BY_ADMIN) \<and>
       (so_key ''so-expire:'' (so_id x) \<in> tn_key ` set (txns d) \<longleftrightarrow> so_status x = EXPIRED_PARTNER_NO_DELIVERY) \<and>
       (so_key ''settle-so:'' (so_id x) \<in> tn_key ` set (txns d) \<longrightarrow> so_status x = VIDEO_DELIVERED_TO_FAN \<and> so_fan_confirmed_at x \<noteq> None))"
proof -
  have ok: "so_ok c (w_db w')" by (rule so_steps_ok [OF steps start])
  have "sum_list (map (so_owed d) xs) =
      sum_list (map (\<lambda>x. so_price x + paid_fees (so_id x) d) (filter (\<lambda>x. so_status x \<notin> {REFUNDED_BY_ADMIN, EXPIRED_PARTNER_NO_DELIVERY} \<and> so_id x \<notin> set (earnings d)) xs)) +
      sum_list (map (\<lambda>x. paid_fees (so_id x) d) (filter (\<lambda>x. so_status x = EXPIRED_PARTNER_NO_DELIVERY) xs))"
    if "\<forall>x \<in> set xs. so_row_ok (keys d) (set (earnings d)) x" for xs and d :: "'a shoutoutDb_scheme"
    using that by (induction xs) (auto simp: so_owed_def so_row_ok_def)
  from this [of "shoutouts (w_db w')" "w_db w'"] show ?thesis
    using ok by (auto simp: Let_def so_ok_def so_row_ok_def keys_def [symmetric])
qed

section \<open>A database for the witnesses\<close>

text \<open>One request of a fan, with a paid correction, in a given state.\<close>

definition demo_shoutout :: "shoutoutStatus \<Rightarrow> shoutout" where
  "demo_shoutout st = \<lparr>so_id = 1, so_fan = ''fan'', so_partner = ''star'', so_status = st, so_fan_confirmed_at = None, so_review_deadline = Some 0,
     so_settle_at = 0, so_recipient = ''Mum'', so_message = ''hello'', so_price = 300, so_created = 0, so_delivered = Some 0, so_video = Some ''v'',
     so_free_used = Some 0, so_disputed = None\<rparr>"

definition demo_requests :: "shoutoutStatus \<Rightarrow> shoutoutDb" where
  "demo_requests st = messagingDb.extend (messagingDb.truncate (demo_questions\<lparr>shoutouts := [demo_shoutout st],
      wallets := [\<lparr>wl_id = 1, wl_profile = ''fan'', wl_balance = 500, wl_bonus = 0\<rparr>],
      txns := [\<lparr>tn_id = 1, tn_type = ''TOPUP'', tn_amount = 900, tn_key = (''topup:'', 1), tn_ref = None\<rparr>,
        \<lparr>tn_id = 2, tn_type = ''SHOUTOUT_DEBIT'', tn_amount = 300, tn_key = so_key ''so:'' 1, tn_ref = None\<rparr>,
        \<lparr>tn_id = 3, tn_type = ''SHOUTOUT_DEBIT'', tn_amount = 100, tn_key = so_key ''so-corr:'' 2, tn_ref = None\<rparr>],
      entries := [\<lparr>le_txn = 1, le_wallet = Some 1, le_account = ''wallet'', le_delta = 900\<rparr>,
        \<lparr>le_txn = 1, le_wallet = None, le_account = ''gateway_clearing'', le_delta = - 900\<rparr>,
        \<lparr>le_txn = 2, le_wallet = Some 1, le_account = ''wallet'', le_delta = - 300\<rparr>,
        \<lparr>le_txn = 2, le_wallet = None, le_account = ''booking_escrow'', le_delta = 300\<rparr>,
        \<lparr>le_txn = 3, le_wallet = Some 1, le_account = ''wallet'', le_delta = - 100\<rparr>,
        \<lparr>le_txn = 3, le_wallet = None, le_account = ''booking_escrow'', le_delta = 100\<rparr>]\<rparr>))
    \<lparr>corrections = [\<lparr>sc_id = 2, sc_shoutout = 1, sc_paid = True, sc_fee = 100, sc_note = None, sc_video = None, sc_resubmitted = None, sc_created = 0\<rparr>],
     so_fee = 100, so_review_days = 3, mod_admins = []\<rparr>"

lemma demo_requests_simps [simp]:
  "shoutouts (demo_requests st) = [demo_shoutout st]" "earnings (demo_requests st) = []" "so_fee (demo_requests st) = 100"
  "wallets (demo_requests st) = [\<lparr>wl_id = 1, wl_profile = ''fan'', wl_balance = 500, wl_bonus = 0\<rparr>]"
  "paid_fees i (demo_requests st) = (if i = 1 then 100 else 0)"
  by (simp_all add: demo_requests_def messagingDb.defs demo_questions_def services.defs demo_services_def paid_fees_def)

lemma demo_requests_ok: "st \<in> {AWAITING_PARTNER_VIDEO, VIDEO_DELIVERED_TO_FAN} \<Longrightarrow> so_ok 0 (demo_requests st)"
proof -
  assume st: "st \<in> {AWAITING_PARTNER_VIDEO, VIDEO_DELIVERED_TO_FAN}"
  have k: "keys (demo_requests st) = {(''topup:'', 1), so_key ''so:'' 1, so_key ''so-corr:'' 2}"
    by (simp add: keys_def demo_requests_def messagingDb.defs)
  have m: "money_ok (demo_requests st)"
    by (simp add: money_ok_def demo_requests_def messagingDb.defs wallet_ok_def txn_sum_def wallet_sum_def so_key_def)
  have e: "account_sum ''booking_escrow'' (entries (demo_requests st)) = 400"
    by (simp add: demo_requests_def messagingDb.defs account_sum_def)
  have owed: "so_owed (demo_requests st) (demo_shoutout st) = 400" using st by (auto simp: so_owed_def demo_shoutout_def)
  have row: "so_row_ok (keys (demo_requests st)) {} (demo_shoutout st)"
    using st unfolding k by (auto simp: so_row_ok_def demo_shoutout_def so_key_def)
  show ?thesis using m e owed row by (simp add: so_ok_def)
qed

theorem shoutout_escrow_exact_witness:
  "money_ok (w_db (snd (runAsService demo_session (rpc (rpc_expire_shoutout 1)) \<lparr>w_db = demo_requests AWAITING_PARTNER_VIDEO, w_log = []\<rparr>)))"
proof -
  let ?w = "\<lparr>w_db = demo_requests AWAITING_PARTNER_VIDEO, w_log = []\<rparr>"
  have "so_step\<^sup>*\<^sup>* ?w (snd (runAsService demo_session (rpc (rpc_expire_shoutout 1)) ?w))"
    by (rule r_into_rtranclp) (rule so_step.expired)
  moreover have "so_ok 0 (w_db ?w)" using demo_requests_ok by simp
  ultimately show ?thesis using shoutout_escrow_exact [of 0 ?w] by (simp add: Let_def)
qed

end
