(* ===== verification/Shoutout_Props.thy ===== *)
theory Shoutout_Props
  imports Shoutout_Money Messaging_Props
begin

text \<open>
  Single operations on video requests: what a correction costs, what happens to the fees of a request that expires in a
  correction round, and the two lists.
\<close>

section \<open>One call\<close>

lemma runAs_rpc:
  "runAs base u (rpc st) w = (case st (base\<lparr>app_user_id := Some u\<rparr>) (w_db w) of
     Inl e \<Rightarrow> (Inl (PgError e), w)
   | Inr (r, d) \<Rightarrow> if jget r ''success'' = Some (JBool False) then (Inl (BadRequest (rpc_error r)), w) else (Inr r, w\<lparr>w_db := d\<rparr>))"
  by (auto simp: runAs_def transaction_def rpc_def tx_defs split: sum.split prod.split)

text \<open>A refund to an existing wallet always goes through.\<close>

definition credited :: "wallet \<Rightarrow> int \<Rightarrow> wallet \<Rightarrow> wallet" where
  "credited v price y = (if wl_id y = wl_id v then y\<lparr>wl_balance := wl_balance y + price\<rparr> else y)"

lemma credit_posts:
  fixes d :: "'a shoutoutDb_scheme"
  assumes ok: "money_ok d" and price: "0 < price" and v: "v \<in> set (wallets d)" and k: "key \<notin> keys d"
  shows "\<exists>d1. post_transaction ty price key (so_refund_legs (Some (wl_id v)) price) ref d = Inr ((next_id d, False), d1) \<and>
      wallets d1 = map (credited v price) (wallets d) \<and> money.more d1 = money.more d"
proof -
  let ?m = "\<lparr>leg_wallet = None, leg_account = ''booking_escrow'', leg_delta = - price, leg_bonus = 0\<rparr>"
  let ?l = "\<lparr>leg_wallet = Some (wl_id v), leg_account = ''wallet'', leg_delta = price, leg_bonus = 0\<rparr>"
  let ?d1 = "d\<lparr>txns := txns d @ [\<lparr>tn_id = next_id d, tn_type = ty, tn_amount = price, tn_key = key, tn_ref = ref\<rparr>], next_id := Suc (next_id d)\<rparr>"
  let ?d2 = "?d1\<lparr>entries := entries d @ [entry_of (next_id d) ?m]\<rparr>" and ?ws = "map (credited v price) (wallets d)"
  have wok: "\<forall>y \<in> set (wallets d). wallet_ok y" using ok by (simp add: money_ok_def)
  have mv: "map (\<lambda>y. if wl_id y = wl_id v then move_wallet ?l y else y) (wallets d) = ?ws"
  proof (rule map_cong [OF refl])
    fix y assume "y \<in> set (wallets d)"
    then have "wallet_ok y" using wok by blast
    then show "(if wl_id y = wl_id v then move_wallet ?l y else y) = credited v price y"
      using price by (simp add: credited_def move_wallet_def Let_def wallet_ok_def)
  qed
  have wd: "wallets ?d2 = wallets d" by simp
  have leg: "apply_leg (next_id d) ?l ?d2 = (if \<forall>y \<in> set ?ws. wallet_ok y then Inr (?d2\<lparr>entries := entries ?d2 @ [entry_of (next_id d) ?l], wallets := ?ws\<rparr>)
     else Inl ''new row for relation wallets violates check constraint'')"
    by (rule apply_wallet_leg) (simp, unfold wd mv, rule refl)
  have okws: "\<forall>y \<in> set ?ws. wallet_ok y" using wok price by (auto simp: credited_def wallet_ok_def)
  have "apply_legs (next_id d) [?m, ?l] ?d1 = Inr (?d2\<lparr>entries := entries ?d2 @ [entry_of (next_id d) ?l], wallets := ?ws\<rparr>)"
  proof -
    have first: "apply_leg (next_id d) ?m ?d1 = Inr ?d2" by (simp add: apply_leg_def entry_of_def)
    show ?thesis unfolding apply_legs.simps first sum.case leg if_P [OF okws] by simp
  qed
  moreover have "find_txn key d = None" using k by (simp add: find_txn_None keys_def)
  ultimately have "post_transaction ty price key (so_refund_legs (Some (wl_id v)) price) ref d =
      Inr ((next_id d, False), ?d2\<lparr>entries := entries ?d2 @ [entry_of (next_id d) ?l], wallets := ?ws\<rparr>)"
    using price v by (auto simp: post_transaction_def so_refund_legs_def Let_def)
  then show ?thesis by simp
qed

section \<open>Corrections\<close>

text \<open>
  C33. What a correction costs.  For a delivered request that is neither confirmed nor disputed the first correction is free; each
  later one costs exactly the fee, taken from the fan's wallet, and is refused with nothing changed if the balance is short;
  with the fee set to zero, which the settings allow, it always fails with a database error.  The date on which an
  undelivered request expires does not move with a correction.
\<close>

theorem correction_rounds:
  fixes w :: "'a shoutoutDb_scheme world"
  assumes x: "so_of i (w_db w) = Some x" "so_fan x = u" "so_status x = VIDEO_DELIVERED_TO_FAN" "so_fan_confirmed_at x = None" "so_disputed x = None"
    and u: "u \<noteq> []" and v: "wallet_of u (w_db w) = Some v" and ok: "money_ok (w_db w)" and fee: "0 \<le> so_fee (w_db w)"
  shows "let fee = so_fee (w_db w)
    in if so_free_used x = None
       then \<exists>r w'. so_correction base u i note w = (Inr r, w') \<and> jget r ''kind'' = Some (JStr ''FREE'') \<and> wallets (w_db w') = wallets (w_db w) \<and>
         shoutouts (w_db w') = map (\<lambda>y. if so_id y = i then y\<lparr>so_free_used := Some (sess_now base), so_status := AWAITING_PARTNER_VIDEO\<rparr> else y) (shoutouts (w_db w))
       else if fee = 0 then \<exists>e. so_correction base u i note w = (Inl (PgError e), w)
       else if fee \<le> wl_balance v
       then \<exists>r w'. so_correction base u i note w = (Inr r, w') \<and> jget r ''kind'' = Some (JStr ''PAID'') \<and> wallets (w_db w') = map (debited v fee) (wallets (w_db w)) \<and>
         paid_fees i (w_db w') = paid_fees i (w_db w) + fee \<and>
         shoutouts (w_db w') = map (\<lambda>y. if so_id y = i then y\<lparr>so_status := AWAITING_PARTNER_VIDEO\<rparr> else y) (shoutouts (w_db w))
       else so_correction base u i note w = (Inl (BadRequest (rpc_error (err_json ''INSUFFICIENT_BALANCE''))), w)"
proof -
  let ?d = "w_db w" and ?s = "base\<lparr>app_user_id := Some u\<rparr>" and ?c = "new_so_id (w_db w)" and ?fee = "so_fee (w_db w)"
  let ?dc = "add_correction ?c i True ?fee note (sess_now base) ?d"
  have allowed: "caller_allowed u ?s ?d" using u by (simp add: caller_allowed_def current_user_id_def)
  have run: "so_correction base u i note w = (case rpc_request_correction u i note ?s ?d of
     Inl e \<Rightarrow> (Inl (PgError e), w)
   | Inr (r, d) \<Rightarrow> if jget r ''success'' = Some (JBool False) then (Inl (BadRequest (rpc_error r)), w) else (Inr r, w\<lparr>w_db := d\<rparr>))"
    unfolding so_correction_def by (rule runAs_rpc)
  have st: "rpc_request_correction u i note ?s ?d =
     (if so_free_used x = None then Inr (ok_json [(''kind'', JStr ''FREE'')], video_needed x (add_correction ?c i False 0 note (sess_now base)
        (set_shoutout i (\<lambda>x. x\<lparr>so_free_used := Some (sess_now base), so_status := AWAITING_PARTNER_VIDEO\<rparr>) ?d)))
      else case post_transaction ''SHOUTOUT_DEBIT'' ?fee (so_key ''so-corr:'' ?c) (question_legs (Some (wl_id v)) ?fee) (Some (nat_text ?c)) ?dc of
          Inl e \<Rightarrow> if check_violation e then Inr (err_json ''INSUFFICIENT_BALANCE'', ?d) else Inl e
        | Inr (_, d1) \<Rightarrow> Inr (ok_json [(''kind'', JStr ''PAID'')], video_needed x (set_shoutout i (\<lambda>x. x\<lparr>so_status := AWAITING_PARTNER_VIDEO\<rparr>) d1)))"
    using x allowed fee v by (simp add: rpc_request_correction_def Let_def)
  show ?thesis
  proof (cases "so_free_used x = None")
    case True
    then show ?thesis by (simp add: run st ok_json_def Let_def video_needed_def)
  next
    case False
    then obtain f where f: "so_free_used x = Some f" by auto
    show ?thesis
    proof (cases "?fee = 0")
      case True
      then show ?thesis using f by (simp add: run st post_transaction_def question_legs_def check_violation_def Let_def)
    next
      case pos: False
      have v_in: "v \<in> set (wallets ?dc)" using v by (auto simp: wallet_of_def find_Some_iff)
      have k: "so_key ''so-corr:'' ?c \<notin> keys ?dc" using new_so_fresh(3) by (simp add: keys_def)
      have m: "money_ok ?dc" using ok by (simp add: money_ok_def)
      note post = debit_posts [OF m _ v_in k, of ?fee "''SHOUTOUT_DEBIT''" "Some (nat_text ?c)"]
      show ?thesis
      proof (cases "?fee \<le> wl_balance v")
        case True
        then obtain d1 where p: "post_transaction ''SHOUTOUT_DEBIT'' ?fee (so_key ''so-corr:'' ?c) (question_legs (Some (wl_id v)) ?fee) (Some (nat_text ?c)) ?dc = Inr ((next_id ?dc, False), d1)"
          "wallets d1 = map (debited v ?fee) (wallets ?dc)" using post pos fee by auto
        show ?thesis using f pos True so_post_fields [OF p(1)] p(2)
          by (simp add: run st p(1) ok_json_def Let_def video_needed_def filter_map comp_def)
      next
        case less: False
        then have "post_transaction ''SHOUTOUT_DEBIT'' ?fee (so_key ''so-corr:'' ?c) (question_legs (Some (wl_id v)) ?fee) (Some (nat_text ?c)) ?dc = Inl ''new row for relation wallets violates check constraint''"
          using post pos fee by auto
        then show ?thesis using f pos less by (simp add: run st check_violation_def err_json_def Let_def)
      qed
    qed
  qed
qed

section \<open>Expiry\<close>

text \<open>Keys are never removed and neither are requests.\<close>

definition grows :: "'a shoutoutDb_scheme \<Rightarrow> 'a shoutoutDb_scheme \<Rightarrow> bool" where
  "grows d d' \<longleftrightarrow> keys d \<subseteq> keys d' \<and> so_id ` set (shoutouts d) \<subseteq> so_id ` set (shoutouts d')"

lemma grows_refl [simp]: "grows d d"
  by (simp add: grows_def)

lemma grows_trans: "grows d d1 \<Longrightarrow> grows d1 d2 \<Longrightarrow> grows d d2"
  unfolding grows_def using subset_trans by metis

lemma grows_same: "txns d' = txns d \<Longrightarrow> shoutouts d' = shoutouts d \<Longrightarrow> grows d d'"
  by (simp add: grows_def keys_def)

lemma grows_set:
  assumes "grows d d'" and "\<And>y. so_id (f y) = so_id y"
  shows "grows d (set_shoutout i f d')"
proof -
  have "map so_id (shoutouts (set_shoutout i f d')) = map so_id (shoutouts d')" by (auto simp: assms(2))
  then have "so_id ` set (shoutouts (set_shoutout i f d')) = so_id ` set (shoutouts d')" unfolding set_map [symmetric] by (rule arg_cong)
  moreover have "keys (set_shoutout i f d') = keys d'" by (simp add: keys_def)
  ultimately show ?thesis using assms(1) by (simp only: grows_def)
qed

lemma grows_frame [simp]:
  "grows d (notify k d') \<longleftrightarrow> grows d d'" "grows d (so_audit a ty i v d') \<longleftrightarrow> grows d d'" "grows d (close_reports i d') \<longleftrightarrow> grows d d'"
  "grows d (add_correction c i p fee note now d') \<longleftrightarrow> grows d d'" "grows d (video_needed x d') \<longleftrightarrow> grows d d'"
  "grows d (fold (\<lambda>a. notify (f a)) as d') \<longleftrightarrow> grows d d'" "grows d (d'\<lparr>earnings := es\<rparr>) \<longleftrightarrow> grows d d'" "grows d (d'\<lparr>reports := rs\<rparr>) \<longleftrightarrow> grows d d'"
  "grows d (so_resolved act i d') \<longleftrightarrow> grows d d'"
  by (simp_all add: grows_def keys_def video_needed_def so_resolved_def)

lemma grows_add: "grows d d' \<Longrightarrow> grows d (d'\<lparr>shoutouts := shoutouts d' @ [x]\<rparr>)"
  by (auto simp: grows_def keys_def)

lemma grows_deliver: "grows d (deliver_video i video now d)"
  unfolding deliver_video_def by (rule grows_set) (simp_all add: grows_def keys_def)

lemma grows_post:
  fixes d d1 :: "'a shoutoutDb_scheme"
  assumes "post_transaction ty a key legs ref d = Inr (t, d1)"
  shows "grows d d1"
proof -
  obtain tid rep where t: "t = (tid, rep)" by (cases t)
  have "keys d \<subseteq> keys d1"
  proof (cases "find_txn key d")
    case None
    from post_new(4) [OF assms [unfolded t] this] show ?thesis by (auto simp: keys_def)
  next
    case (Some tn)
    from post_replay(3) [OF assms [unfolded t] Some] show ?thesis by simp
  qed
  then show ?thesis using so_post_fields(1) [OF assms] by (simp add: grows_def)
qed

lemma grows_correction:
  "post_transaction ty a key legs ref (add_correction c j b fee n now d) = Inr (t, d1) \<Longrightarrow> grows d d1"
  using grows_trans [OF _ grows_post] grows_frame(4) [of d c j b fee n now d] by (metis grows_refl)

lemma cancel_grows: "rpc_admin_cancel_shoutout a i notes s d = Inr (r, d') \<Longrightarrow> grows d d'"
  by (auto simp: rpc_admin_cancel_shoutout_def Let_def split: if_splits option.splits sum.splits intro!: grows_set dest: grows_post)

lemma statement_grows:
  assumes "so_statement st" and run: "st s d = Inr (r, d')"
  shows "grows d d'"
  using assms(1)
proof cases
  case (1 u p rcp msg)
  then show ?thesis using run
    by (auto simp: rpc_request_shoutout_def Let_def split: if_splits option.splits sum.splits intro!: grows_add dest: grows_post)
next
  case (2 i video)
  then show ?thesis using run
    by (auto simp: rpc_upload_shoutout_def split: if_splits option.splits intro: grows_deliver)
next
  case (3 i reason)
  then show ?thesis using run
    by (auto simp: rpc_report_shoutout_def split: if_splits option.splits intro!: grows_set)
next
  case (4 u i)
  then show ?thesis using run
    by (auto simp: rpc_confirm_shoutout_def confirm_at_def split: if_splits option.splits intro!: grows_set)
next
  case (5 u i n)
  then show ?thesis using run
    by (auto simp: rpc_request_correction_def Let_def split: if_splits option.splits sum.splits intro!: grows_set dest: grows_correction)
next
  case (6 a i ns)
  then show ?thesis using run cancel_grows by blast
next
  case (7 a i action ns)
  then show ?thesis using run
    by (auto simp: rpc_admin_resolve_shoutout_report_def split: if_splits option.splits sum.splits resolution.splits intro!: grows_set) (erule cancel_grows)+
next
  case (8 a i approve ns)
  then show ?thesis using run
    by (auto simp: rpc_admin_deliver_shoutout_def Let_def split: if_splits option.splits intro!: grows_set)
next
  case (9 i)
  then show ?thesis using run
    by (auto simp: rpc_auto_confirm_shoutout_def confirm_at_def split: if_splits option.splits intro!: grows_set)
next
  case (10 i)
  then show ?thesis using run
    by (auto simp: rpc_expire_shoutout_def split: if_splits option.splits sum.splits intro!: grows_set dest: grows_post)
next
  case (11 i)
  then show ?thesis using run
    by (auto simp: rpc_settle_shoutout_def Let_def split: if_splits option.splits sum.splits dest: grows_post)
qed

lemma steps_grow: "so_step\<^sup>*\<^sup>* w w' \<Longrightarrow> grows (w_db w) (w_db w')"
  by (induction rule: rtranclp_induct) (auto intro: so_step_keeps [where I = "grows (w_db w)"] grows_trans statement_grows)

text \<open>
  An expired request forfeits its correction fees.  The sweep expires a request that waits for the partner past its date, also
  when the partner had delivered and the fan then asked for a correction.  It returns the price, and only the price: the fees the
  fan has paid for corrections stay in the escrow, and whatever happens afterwards the request stays expired and is neither
  cancelled, with a full refund, nor settled.
\<close>

theorem expiry_forfeits_fees:
  fixes w :: "'a shoutoutDb_scheme world"
  assumes ok: "so_ok c (w_db w)" and x: "so_of i (w_db w) = Some x" "so_status x = AWAITING_PARTNER_VIDEO" "so_settle_at x \<le> sess_now base"
    and v: "wallet_of (so_fan x) (w_db w) = Some v"
  shows "\<exists>r w'. runAsService base (rpc (rpc_expire_shoutout i)) w = (Inr r, w') \<and> jget r ''refunded_paise'' = Some (JNum (so_price x)) \<and>
    wallets (w_db w') = map (credited v (so_price x)) (wallets (w_db w)) \<and> paid_fees i (w_db w') = paid_fees i (w_db w) \<and>
    (\<forall>w''. so_step\<^sup>*\<^sup>* w' w'' \<longrightarrow>
       (\<exists>y \<in> set (shoutouts (w_db w'')). so_id y = i \<and> so_status y = EXPIRED_PARTNER_NO_DELIVERY) \<and>
       so_key ''so-cancel:'' i \<notin> tn_key ` set (txns (w_db w'')) \<and> so_key ''settle-so:'' i \<notin> tn_key ` set (txns (w_db w'')))"
proof -
  let ?d = "w_db w" and ?s = "base\<lparr>app_is_service_role := True\<rparr>"
  note m = so_ofD [OF x(1)]
  have row: "so_row_ok (keys ?d) (set (earnings ?d)) x" using so_okD(3) [OF ok] m by blast
  have k: "so_key ''so-expire:'' i \<notin> keys ?d" using row x(2) m by (auto simp: so_row_ok_def)
  have price: "0 < so_price x" using row by (simp add: so_row_ok_def)
  have v_in: "v \<in> set (wallets ?d)" using v by (auto simp: wallet_of_def find_Some_iff)
  obtain d1 where p: "post_transaction ''REFUND'' (so_price x) (so_key ''so-expire:'' i) (so_refund_legs (Some (wl_id v)) (so_price x)) (Some (nat_text i)) ?d = Inr ((next_id ?d, False), d1)"
    and d1: "wallets d1 = map (credited v (so_price x)) (wallets ?d)" "money.more d1 = money.more ?d"
    using credit_posts [OF so_okD(1) [OF ok] price v_in k] by blast
  let ?w' = "w\<lparr>w_db := notify (so_fan x, ''REFUND_PROCESSED_FAN'', ''shoutout'', i) (set_shoutout i (\<lambda>x. x\<lparr>so_status := EXPIRED_PARTNER_NO_DELIVERY\<rparr>) d1)\<rparr>"
  have st: "rpc_expire_shoutout i ?s ?d = Inr (ok_json [(''refunded_paise'', JNum (so_price x)), (''transaction_id'', jid (next_id ?d))], w_db ?w')"
    using x v k by (simp add: rpc_expire_shoutout_def is_system_def p find_txn_None keys_def)
  have run: "runAsService base (rpc (rpc_expire_shoutout i)) w = (Inr (ok_json [(''refunded_paise'', JNum (so_price x)), (''transaction_id'', jid (next_id ?d))]), ?w')"
    using st by (simp add: runAsService_def transaction_def rpc_def tx_defs ok_json_def)
  have ok': "so_ok c (w_db ?w')" by (rule expire_so_ok [OF ok st])
  have key': "so_key ''so-expire:'' i \<in> keys (w_db ?w')"
  proof -
    have "keys d1 = insert (so_key ''so-expire:'' i) (keys ?d)" by (rule post_fresh(2) [OF so_okD(1) [OF ok] p k])
    then show ?thesis by (simp add: keys_def)
  qed
  have after: "(\<exists>y \<in> set (shoutouts (w_db w'')). so_id y = i \<and> so_status y = EXPIRED_PARTNER_NO_DELIVERY) \<and>
       so_key ''so-cancel:'' i \<notin> keys (w_db w'') \<and> so_key ''settle-so:'' i \<notin> keys (w_db w'')" if steps: "so_step\<^sup>*\<^sup>* ?w' w''" for w''
  proof -
    have ok'': "so_ok c (w_db w'')" by (rule so_steps_ok [OF steps ok'])
    have "so_statement (rpc_expire_shoutout i :: session \<Rightarrow> 'a shoutoutDb_scheme \<Rightarrow> _)" by (rule so_statement.intros)
    from statement_grows [OF this st] have g1: "grows ?d (w_db ?w')" .
    have g: "grows (w_db ?w') (w_db w'')" by (rule steps_grow [OF steps])
    have "i \<in> so_id ` set (shoutouts ?d)" using m by (auto intro: rev_image_eqI)
    then have "i \<in> so_id ` set (shoutouts (w_db w''))" using grows_trans [OF g1 g] unfolding grows_def by (elim conjE) (rule subsetD)
    then obtain y where y: "y \<in> set (shoutouts (w_db w''))" "so_id y = i" by (elim imageE) simp
    have "so_key ''so-expire:'' i \<in> keys (w_db w'')" using g key' unfolding grows_def by (elim conjE) (rule subsetD)
    then show ?thesis using so_okD(3) [OF ok'' y(1)] y by (auto simp: so_row_ok_def)
  qed
  show ?thesis
  proof (intro exI conjI allI impI)
    show "runAsService base (rpc (rpc_expire_shoutout i)) w = (Inr (ok_json [(''refunded_paise'', JNum (so_price x)), (''transaction_id'', jid (next_id ?d))]), ?w')" by (rule run)
  qed (use after d1 so_post_fields(3) [OF p] in \<open>auto simp: ok_json_def keys_def\<close>)
qed

section \<open>Witnesses\<close>

theorem correction_rounds_witness:
  "\<exists>r w'. so_correction demo_session ''fan'' 1 None \<lparr>w_db = demo_requests VIDEO_DELIVERED_TO_FAN, w_log = []\<rparr> = (Inr r, w') \<and>
     map wl_balance (wallets (w_db w')) = [400] \<and> map so_status (shoutouts (w_db w')) = [AWAITING_PARTNER_VIDEO]"
proof -
  let ?w = "\<lparr>w_db = demo_requests VIDEO_DELIVERED_TO_FAN, w_log = []\<rparr>" and ?v = "\<lparr>wl_id = 1, wl_profile = ''fan'', wl_balance = 500, wl_bonus = 0\<rparr>"
  have x: "so_of 1 (w_db ?w) = Some (demo_shoutout VIDEO_DELIVERED_TO_FAN)" by (simp add: so_of_def demo_shoutout_def)
  have v: "wallet_of ''fan'' (w_db ?w) = Some ?v" by (simp add: wallet_of_def)
  have ok: "money_ok (w_db ?w)" using so_okD(1) [OF demo_requests_ok [of VIDEO_DELIVERED_TO_FAN]] by simp
  show ?thesis
    using correction_rounds [OF x _ _ _ _ _ v ok, of demo_session None] by (auto simp: demo_shoutout_def debited_def Let_def)
qed

theorem expiry_forfeits_fees_witness:
  "\<exists>r w'. runAsService demo_session (rpc (rpc_expire_shoutout 1)) \<lparr>w_db = demo_requests AWAITING_PARTNER_VIDEO, w_log = []\<rparr> = (Inr r, w') \<and>
     map wl_balance (wallets (w_db w')) = [800] \<and> paid_fees 1 (w_db w') = 100"
proof -
  let ?w = "\<lparr>w_db = demo_requests AWAITING_PARTNER_VIDEO, w_log = []\<rparr>" and ?v = "\<lparr>wl_id = 1, wl_profile = ''fan'', wl_balance = 500, wl_bonus = 0\<rparr>"
  have x: "so_of 1 (w_db ?w) = Some (demo_shoutout AWAITING_PARTNER_VIDEO)" by (simp add: so_of_def demo_shoutout_def)
  have v: "wallet_of (so_fan (demo_shoutout AWAITING_PARTNER_VIDEO)) (w_db ?w) = Some ?v" by (simp add: wallet_of_def demo_shoutout_def)
  have ok: "so_ok 0 (w_db ?w)" using demo_requests_ok [of AWAITING_PARTNER_VIDEO] by simp
  have late: "so_settle_at (demo_shoutout AWAITING_PARTNER_VIDEO) \<le> sess_now demo_session" by (simp add: demo_shoutout_def demo_session_def)
  show ?thesis
    using expiry_forfeits_fees [OF ok x _ late v] by (auto simp: demo_shoutout_def credited_def)
qed

end
