(* ===== verification/Earnings.thy ===== *)
theory Earnings
  imports Shoutouts
begin

text \<open>
  \<open>src/earnings/earnings.module.ts\<close> over the tables of migration 0004, the withdrawal of 0048 and the payout of 0047: what partners
  have earned, how it is bundled into payouts, and how those are paid or rejected.
\<close>

section \<open>Tables\<close>

datatype earningStatus = PENDING_PAYOUT | INCLUDED_IN_PAYOUT | EARNING_PAID | REVERSED
datatype payoutStatus = PO_REQUESTED | PO_APPROVED | PO_PROCESSING | PO_PAID | PO_REJECTED

record earning =
  er_id :: nat
  er_partner :: string
  er_service_type :: string
  er_service :: nat
  er_amount :: int
  er_status :: earningStatus
  er_payout :: "nat option"
  er_settled :: int

record payoutMethod =
  pm_id :: nat
  pm_partner :: string
  pm_type :: string
  pm_holder :: "string option"
  pm_account :: "string option"
  pm_ifsc :: "string option"
  pm_bank :: "string option"
  pm_upi :: "string option"
  pm_primary :: bool
  pm_verified :: bool

record payoutRow =
  po_id :: nat
  po_partner :: string
  po_amount :: int
  po_status :: payoutStatus
  po_method :: nat
  po_utr :: "string option"
  po_requested :: int
  po_processed :: "int option"

record earningsDb = bank +
  er_rows :: "earning list"
  pm_rows :: "payoutMethod list"
  po_rows :: "payoutRow list"
  min_withdrawal :: "int option"
  partner_ids :: "string list"

text \<open>The policies of the three tables.\<close>

definition owner_sees :: "session \<Rightarrow> 'a bank_scheme \<Rightarrow> string \<Rightarrow> bool" where
  "owner_sees s d p \<longleftrightarrow> current_user_id s = Some p \<or> admin_session s d"

section \<open>What the partner reads\<close>

record earningsSummary =
  es_lifetime :: int
  es_pending :: int
  es_paid :: int

definition amount_of :: "(earning \<Rightarrow> bool) \<Rightarrow> earning list \<Rightarrow> int" where
  "amount_of P es = sum_list (map er_amount (filter P es))"

definition earnings_summary :: "session \<Rightarrow> string \<Rightarrow> ('a earningsDb_scheme, earningsSummary) act" where
  "earnings_summary base u = runAs base u (execute (\<lambda>s d.
     (let es = filter (\<lambda>e. er_partner e = u \<and> owner_sees s d (er_partner e)) (er_rows d)
      in Inr (\<lparr>es_lifetime = amount_of (\<lambda>e. er_status e \<noteq> REVERSED) es, es_pending = amount_of (\<lambda>e. er_status e = PENDING_PAYOUT) es,
               es_paid = amount_of (\<lambda>e. er_status e = EARNING_PAID) es\<rparr>, d))))"

definition earnings_list :: "session \<Rightarrow> string \<Rightarrow> ('a earningsDb_scheme, earning list) act" where
  "earnings_list base u = runAs base u (execute (\<lambda>s d.
     Inr (take 200 (sort_key (\<lambda>e. - er_settled e) (filter (\<lambda>e. er_partner e = u \<and> owner_sees s d (er_partner e)) (er_rows d))), d)))"

definition payoutHistory :: "session \<Rightarrow> string \<Rightarrow> ('a earningsDb_scheme, payoutRow list) act" where
  "payoutHistory base u = runAs base u (execute (\<lambda>s d.
     Inr (sort_key (\<lambda>p. - po_requested p) (filter (\<lambda>p. po_partner p = u \<and> owner_sees s d (po_partner p)) (po_rows d)), d)))"

definition payoutMethods :: "session \<Rightarrow> string \<Rightarrow> ('a earningsDb_scheme, payoutMethod list) act" where
  "payoutMethods base u = runAs base u (execute (\<lambda>s d.
     Inr (filter (\<lambda>p. pm_partner p = u \<and> owner_sees s d (pm_partner p)) (pm_rows d), d)))"

section \<open>A payout method\<close>

definition METHOD_TYPES :: "string list" where
  "METHOD_TYPES = [''BANK_ACCOUNT'', ''UPI'']"

text \<open>The body is not validated; the columns check what the statement gets.\<close>

definition ins_payout_method :: "string \<Rightarrow> json \<Rightarrow> ('a earningsDb_scheme, json) stmt" where
  "ins_payout_method u b s d =
     with_text (jget b ''methodType'') (\<lambda>ty. with_text (coalesce (jget b ''accountHolderName'') (Some JNull)) (\<lambda>holder.
     with_text (coalesce (jget b ''accountNumber'') (Some JNull)) (\<lambda>account. with_text (coalesce (jget b ''ifscCode'') (Some JNull)) (\<lambda>ifsc.
     with_text (coalesce (jget b ''bankName'') (Some JNull)) (\<lambda>bname. with_text (coalesce (jget b ''upiId'') (Some JNull)) (\<lambda>upi s d.
       case ty of None \<Rightarrow> Inl ''null value in column method_type violates not-null constraint''
       | Some t \<Rightarrow>
           if t \<notin> set METHOD_TYPES then Inl ''invalid input value for enum payout_method_type''
           else if \<not> owner_sees s d u then Inl ''42501 new row violates row-level security policy for table payout_methods''
           else if u \<notin> set (partner_ids d) then Inl ''violates foreign key constraint payout_methods_partner_id_fkey''
           else Inr (JObj [(''success'', JBool True)],
             d\<lparr>pm_rows := pm_rows d @ [\<lparr>pm_id = fresh (map pm_id (pm_rows d)), pm_partner = u, pm_type = t, pm_holder = holder, pm_account = account,
                 pm_ifsc = ifsc, pm_bank = bname, pm_upi = upi, pm_primary = False, pm_verified = False\<rparr>]\<rparr>))))))) s d"

definition addPayoutMethod :: "session \<Rightarrow> string \<Rightarrow> json \<Rightarrow> ('a earningsDb_scheme, json) act" where
  "addPayoutMethod base u b = runAs base u (execute (ins_payout_method u b))"

section \<open>Withdrawing\<close>

definition pending_sum :: "string \<Rightarrow> 'a earningsDb_scheme \<Rightarrow> int" where
  "pending_sum u d = amount_of (\<lambda>e. er_partner e = u \<and> er_status e = PENDING_PAYOUT) (er_rows d)"

text \<open>
  The function in its two halves: the statements that read, ending with a refusal or the sum, and the two that write.  Nothing
  is locked in between, so that another session may commit there.
\<close>

definition withdrawal_read :: "string \<Rightarrow> nat \<Rightarrow> session \<Rightarrow> 'a earningsDb_scheme \<Rightarrow> string + (json + int)" where
  "withdrawal_read u m s d =
     (if \<not> caller_allowed u s d then Inl FORBIDDEN_CALLER
      else if \<forall>p \<in> set (pm_rows d). \<not> (pm_id p = m \<and> pm_partner p = u \<and> pm_verified p) then Inr (Inl (err_json ''UNVERIFIED_METHOD''))
      else if pending_sum u d = 0 then Inr (Inl (err_json ''NOTHING_TO_PAY''))
      else case min_withdrawal d of
        Some n \<Rightarrow> if pending_sum u d < n
          then Inr (Inl (JObj [(''success'', JBool False), (''error'', JStr ''BELOW_MIN_WITHDRAWAL''), (''min_paise'', JNum n), (''available_paise'', JNum (pending_sum u d))]))
          else Inr (Inr (pending_sum u d))
      | None \<Rightarrow> Inr (Inr (pending_sum u d)))"

definition new_payout_id :: "'a earningsDb_scheme \<Rightarrow> nat" where
  "new_payout_id d = fresh (map po_id (po_rows d) @ map (snd \<circ> tn_key) (txns d) @ List.map_filter er_payout (er_rows d))"

definition include_in :: "string \<Rightarrow> nat \<Rightarrow> earning \<Rightarrow> earning" where
  "include_in u i e = (if er_partner e = u \<and> er_status e = PENDING_PAYOUT then e\<lparr>er_status := INCLUDED_IN_PAYOUT, er_payout := Some i\<rparr> else e)"

definition withdrawal_write :: "string \<Rightarrow> nat \<Rightarrow> int \<Rightarrow> session \<Rightarrow> 'a earningsDb_scheme \<Rightarrow> json \<times> 'a earningsDb_scheme" where
  "withdrawal_write u m amt s d =
     (let i = new_payout_id d in
      (ok_json [(''payout_id'', jid i), (''amount_paise'', JNum amt)],
       d\<lparr>po_rows := po_rows d @ [\<lparr>po_id = i, po_partner = u, po_amount = amt, po_status = PO_REQUESTED, po_method = m, po_utr = None,
           po_requested = sess_now s, po_processed = None\<rparr>],
         er_rows := map (include_in u i) (er_rows d)\<rparr>))"

definition rpc_create_payout_batch :: "string \<Rightarrow> nat \<Rightarrow> ('a earningsDb_scheme, json) stmt" where
  "rpc_create_payout_batch u m s d = (case withdrawal_read u m s d of
     Inl e \<Rightarrow> Inl e | Inr (Inl r) \<Rightarrow> Inr (r, d) | Inr (Inr amt) \<Rightarrow> Inr (withdrawal_write u m amt s d))"

definition requestWithdrawal :: "session \<Rightarrow> string \<Rightarrow> nat \<Rightarrow> ('a earningsDb_scheme, json) act" where
  "requestWithdrawal base u m = runAs base u (rpc (rpc_create_payout_batch u m))"

section \<open>Paying\<close>

text \<open>\<open>^[A-Z0-9]{6,30}$\<close>.\<close>

definition utr_char :: "char \<Rightarrow> bool" where
  "utr_char c \<longleftrightarrow> (let n = of_char c :: nat in 65 \<le> n \<and> n \<le> 90 \<or> 48 \<le> n \<and> n \<le> 57)"

definition utr_ok :: "string \<Rightarrow> bool" where
  "utr_ok t \<longleftrightarrow> 6 \<le> length t \<and> length t \<le> 30 \<and> list_all utr_char t"

text \<open>\<open>upper(btrim(coalesce(p_reference, '')))\<close>; \<open>up\<close> is the collation's \<open>upper\<close>.\<close>

definition norm_utr :: "(string \<Rightarrow> string) \<Rightarrow> string option \<Rightarrow> string" where
  "norm_utr up r = up (trim_by (\<lambda>c. c = CHR '' '') (case r of None \<Rightarrow> [] | Some t \<Rightarrow> t))"

definition payout_key :: "nat \<Rightarrow> idem_key" where
  "payout_key i = (''payout:'', i)"

definition payout_legs :: "int \<Rightarrow> leg list" where
  "payout_legs amt =
     [\<lparr>leg_wallet = None, leg_account = ''partner_payable'', leg_delta = - amt, leg_bonus = 0\<rparr>,
      \<lparr>leg_wallet = None, leg_account = ''razorpay_clearing'', leg_delta = amt, leg_bonus = 0\<rparr>]"

definition close_payout :: "nat \<Rightarrow> payoutStatus \<Rightarrow> string option \<Rightarrow> int \<Rightarrow> payoutRow \<Rightarrow> payoutRow" where
  "close_payout i st utr now p = (if po_id p = i then p\<lparr>po_status := st, po_utr := utr, po_processed := Some now\<rparr> else p)"

definition pay_earning :: "nat \<Rightarrow> earning \<Rightarrow> earning" where
  "pay_earning i e = (if er_payout e = Some i then e\<lparr>er_status := EARNING_PAID\<rparr> else e)"

definition release_earning :: "nat \<Rightarrow> earning \<Rightarrow> earning" where
  "release_earning i e = (if er_payout e = Some i then e\<lparr>er_status := PENDING_PAYOUT, er_payout := None\<rparr> else e)"

definition rpc_process_payout :: "(string \<Rightarrow> string) \<Rightarrow> nat \<Rightarrow> bool \<Rightarrow> string option \<Rightarrow> ('a earningsDb_scheme, json) stmt" where
  "rpc_process_payout up i approve reference s d =
     (if \<not> has_role (finance_admins d) s d then Inl FORBIDDEN_ADMIN
      else case find (\<lambda>p. po_id p = i) (po_rows d) of None \<Rightarrow> Inr (err_json ''INVALID_STATE'', d)
      | Some po \<Rightarrow>
          if po_status po \<notin> {PO_REQUESTED, PO_APPROVED} then Inr (err_json ''INVALID_STATE'', d)
          else if approve then
            (let utr = norm_utr up reference in
             if utr = [] then Inr (err_json ''UTR_REQUIRED'', d)
             else if \<not> utr_ok utr then Inr (err_json ''UTR_INVALID_FORMAT'', d)
             else if \<exists>p \<in> set (po_rows d). map_option up (po_utr p) = Some utr \<and> po_id p \<noteq> i then Inr (err_json ''UTR_ALREADY_USED'', d)
             else case post_transaction ''PAYOUT_DEBIT'' (po_amount po) (payout_key i) (payout_legs (po_amount po)) (Some (nat_text i)) d of
                Inl e \<Rightarrow> Inl e
              | Inr (_, d1) \<Rightarrow> Inr (ok_json [(''status'', JStr ''PAID''), (''utr'', JStr utr)],
                  notify (po_partner po, ''PAYOUT_PROCESSED_PARTNER'', ''payout'', i)
                    (d1\<lparr>po_rows := map (close_payout i PO_PAID (Some utr) (sess_now s)) (po_rows d1), er_rows := map (pay_earning i) (er_rows d1)\<rparr>)))
          else Inr (ok_json [(''status'', JStr ''REJECTED''), (''earnings_released'', JBool True)],
            notify (po_partner po, ''PAYOUT_FAILED_PARTNER'', ''payout'', i)
              (d\<lparr>po_rows := map (close_payout i PO_REJECTED (po_utr po) (sess_now s)) (po_rows d), er_rows := map (release_earning i) (er_rows d)\<rparr>)))"

section \<open>Earning\<close>

text \<open>
  The part of the three settlement functions that credits the partner: at most one earning for a service, posted under a key of
  the service.
\<close>

definition SETTLE_KINDS :: "string list" where
  "SETTLE_KINDS = [''settle:'', ''settlewin:'', ''settle-so:'']"

definition credit_partner :: "string \<Rightarrow> string \<Rightarrow> string \<Rightarrow> nat \<Rightarrow> int \<Rightarrow> ('a earningsDb_scheme, json) stmt" where
  "credit_partner kind ty p i amt s d =
     (if \<exists>e \<in> set (er_rows d). er_service e = i then Inr (ok_json [(''already_settled'', JBool True)], d)
      else case post_transaction ''PARTNER_EARNING'' amt (kind, i) (settle_legs amt) (Some (nat_text i)) d of
        Inl e \<Rightarrow> Inl e
      | Inr ((tid, _), d1) \<Rightarrow> Inr (ok_json [(''transaction_id'', jid tid)],
          d1\<lparr>er_rows := er_rows d1 @ [\<lparr>er_id = fresh (map er_id (er_rows d1)), er_partner = p, er_service_type = ty, er_service = i, er_amount = amt,
              er_status = PENDING_PAYOUT, er_payout = None, er_settled = sess_now s\<rparr>]\<rparr>))"

end
