(* ===== verification/Earnings_Props.thy ===== *)
theory Earnings_Props
  imports Earnings
begin

text \<open>
  What partners are owed is what the ledger says, every payout is the sum of its earnings, and what happens when two withdrawals
  overlap.
\<close>

section \<open>The invariant\<close>

definition attached :: "nat \<Rightarrow> 'a earningsDb_scheme \<Rightarrow> int" where
  "attached i d = amount_of (\<lambda>e. er_payout e = Some i) (er_rows d)"

definition unpaid :: "earning \<Rightarrow> bool" where
  "unpaid e \<longleftrightarrow> er_status e \<in> {PENDING_PAYOUT, INCLUDED_IN_PAYOUT}"

definition open_payout :: "payoutStatus set" where
  "open_payout = {PO_REQUESTED, PO_APPROVED, PO_PROCESSING}"

definition earning_ok :: "payoutRow list \<Rightarrow> earning \<Rightarrow> bool" where
  "earning_ok ps e \<longleftrightarrow> (er_payout e = None \<longleftrightarrow> er_status e \<in> {PENDING_PAYOUT, REVERSED}) \<and>
     (\<forall>i. er_payout e = Some i \<longrightarrow> (\<exists>p \<in> set ps. po_id p = i \<and> po_partner p = er_partner e \<and>
        (er_status e = INCLUDED_IN_PAYOUT \<and> po_status p \<in> open_payout \<or> er_status e = EARNING_PAID \<and> po_status p = PO_PAID)))"

text \<open>\<open>c\<close> is what \<open>partner_payable\<close> holds besides.\<close>

definition earnings_ok :: "int \<Rightarrow> 'a earningsDb_scheme \<Rightarrow> bool" where
  "earnings_ok c d \<longleftrightarrow> money_ok d \<and> distinct (map po_id (po_rows d)) \<and> (\<forall>e \<in> set (er_rows d). earning_ok (po_rows d) e) \<and>
     (\<forall>p \<in> set (po_rows d). (po_status p \<noteq> PO_REJECTED \<longrightarrow> po_amount p = attached (po_id p) d) \<and> (payout_key (po_id p) \<in> keys d \<longleftrightarrow> po_status p = PO_PAID)) \<and>
     (\<forall>kind \<in> set SETTLE_KINDS. \<forall>i. (kind, i) \<in> keys d \<longrightarrow> (\<exists>e \<in> set (er_rows d). er_service e = i)) \<and>
     account_sum ''partner_payable'' (entries d) = c + amount_of unpaid (er_rows d)"

lemma amount_of_simps [simp]:
  "amount_of P [] = 0" "amount_of P (e # es) = (if P e then er_amount e else 0) + amount_of P es"
  "amount_of P (es @ fs) = amount_of P es + amount_of P fs"
  by (simp_all add: amount_of_def)

lemma amount_of_cong: "(\<And>e. e \<in> set es \<Longrightarrow> P e \<longleftrightarrow> Q e) \<Longrightarrow> amount_of P es = amount_of Q es"
  by (induction es) auto

lemma amount_of_map:
  assumes "\<And>e. e \<in> set es \<Longrightarrow> er_amount (f e) = er_amount e" and "\<And>e. e \<in> set es \<Longrightarrow> P (f e) \<longleftrightarrow> Q e"
  shows "amount_of P (map f es) = amount_of Q es"
  using assms by (induction es) auto

lemma amount_of_diff:
  assumes "\<And>e. e \<in> set es \<Longrightarrow> Q e \<Longrightarrow> P e"
  shows "amount_of (\<lambda>e. P e \<and> \<not> Q e) es = amount_of P es - amount_of Q es"
  using assms by (induction es) auto

lemma services_map: "(\<And>e. er_service (f e) = er_service e) \<Longrightarrow> (\<exists>e \<in> set (map f es). er_service e = j) \<longleftrightarrow> (\<exists>e \<in> set es. er_service e = j)"
  by (induction es) auto

lemma earnings_okD:
  assumes "earnings_ok c d"
  shows "money_ok d" "distinct (map po_id (po_rows d))" "e \<in> set (er_rows d) \<Longrightarrow> earning_ok (po_rows d) e"
    "p \<in> set (po_rows d) \<Longrightarrow> po_status p \<noteq> PO_REJECTED \<Longrightarrow> po_amount p = attached (po_id p) d"
    "p \<in> set (po_rows d) \<Longrightarrow> payout_key (po_id p) \<in> keys d \<longleftrightarrow> po_status p = PO_PAID"
    "kind \<in> set SETTLE_KINDS \<Longrightarrow> (kind, i) \<in> keys d \<Longrightarrow> \<exists>e \<in> set (er_rows d). er_service e = i"
    "account_sum ''partner_payable'' (entries d) = c + amount_of unpaid (er_rows d)"
  using assms unfolding earnings_ok_def by blast+

lemma below_new_payout: "i \<in> set (map po_id (po_rows d) @ map (snd \<circ> tn_key) (txns d) @ List.map_filter er_payout (er_rows d)) \<Longrightarrow> i < new_payout_id d"
  unfolding new_payout_id_def by (rule fresh_max)

lemma new_payout_fresh:
  "p \<in> set (po_rows d) \<Longrightarrow> po_id p \<noteq> new_payout_id d" "payout_key (new_payout_id d) \<notin> keys d" "e \<in> set (er_rows d) \<Longrightarrow> er_payout e \<noteq> Some (new_payout_id d)"
proof -
  show "p \<in> set (po_rows d) \<Longrightarrow> po_id p \<noteq> new_payout_id d" using below_new_payout [of "po_id p" d] by auto
  show "payout_key (new_payout_id d) \<notin> keys d"
  proof
    assume "payout_key (new_payout_id d) \<in> keys d"
    then obtain t where "t \<in> set (txns d)" "tn_key t = (''payout:'', new_payout_id d)" by (auto simp: keys_def payout_key_def)
    then have "new_payout_id d \<in> set (map (snd \<circ> tn_key) (txns d))" by (force simp: image_iff)
    then show False using below_new_payout [of "new_payout_id d" d] by simp
  qed
  show "e \<in> set (er_rows d) \<Longrightarrow> er_payout e \<noteq> Some (new_payout_id d)"
  proof
    assume e: "e \<in> set (er_rows d)" "er_payout e = Some (new_payout_id d)"
    then have "new_payout_id d \<in> set (List.map_filter er_payout (er_rows d))"
      by (auto simp: List.map_filter_def intro!: rev_image_eqI [of e])
    then show False using below_new_payout [of "new_payout_id d" d] by simp
  qed
qed

section \<open>Each operation\<close>

lemma earnings_frame [simp]:
  fixes d :: "'a earningsDb_scheme"
  shows "earnings_ok c (notify k d) \<longleftrightarrow> earnings_ok c d" "earnings_ok c (d\<lparr>pm_rows := ms\<rparr>) \<longleftrightarrow> earnings_ok c d"
  by (simp_all add: earnings_ok_def notify_def money_ok_def keys_def attached_def)

lemma withdrawal_read_sum: "withdrawal_read u m s d = Inr (Inr amt) \<Longrightarrow> amt = pending_sum u d"
  by (auto simp: withdrawal_read_def split: if_splits option.splits)

lemma withdrawal_attached:
  assumes "earnings_ok c d"
  shows "attached (new_payout_id d) (d\<lparr>er_rows := map (include_in u (new_payout_id d)) (er_rows d)\<rparr>) = pending_sum u d"
    "i \<noteq> new_payout_id d \<Longrightarrow> attached i (d\<lparr>er_rows := map (include_in u (new_payout_id d)) (er_rows d)\<rparr>) = attached i d"
proof -
  have e: "er_payout e = None" if "e \<in> set (er_rows d)" "er_status e = PENDING_PAYOUT" for e
    using earnings_okD(3) [OF assms that(1)] that(2) by (simp add: earning_ok_def)
  show "attached (new_payout_id d) (d\<lparr>er_rows := map (include_in u (new_payout_id d)) (er_rows d)\<rparr>) = pending_sum u d"
    unfolding attached_def pending_sum_def using new_payout_fresh(3) [of _ d] by (auto simp: include_in_def split: if_splits intro!: amount_of_map)
  show "attached i (d\<lparr>er_rows := map (include_in u (new_payout_id d)) (er_rows d)\<rparr>) = attached i d" if "i \<noteq> new_payout_id d"
    unfolding attached_def using that e by (auto simp: include_in_def split: if_splits intro!: amount_of_map)
qed

lemma withdrawal_ok:
  assumes ok: "earnings_ok c d" and run: "rpc_create_payout_batch u m s d = Inr (r, d')"
  shows "earnings_ok c d'"
proof (cases "d' = d")
  case False
  let ?i = "new_payout_id d"
  from run False have w: "(r, d') = withdrawal_write u m (pending_sum u d) s d"
    by (auto simp: rpc_create_payout_batch_def split: sum.splits dest: withdrawal_read_sum)
  let ?p = "\<lparr>po_id = ?i, po_partner = u, po_amount = pending_sum u d, po_status = PO_REQUESTED, po_method = m, po_utr = None, po_requested = sess_now s, po_processed = None\<rparr>"
  have d': "d' = d\<lparr>po_rows := po_rows d @ [?p], er_rows := map (include_in u ?i) (er_rows d)\<rparr>" using w by (simp add: withdrawal_write_def Let_def)
  have att: "attached i d' = (if i = ?i then pending_sum u d else attached i d)" for i
    using withdrawal_attached [OF ok, where u = u] by (auto simp: d' attached_def)
  have rows: "earning_ok (po_rows d') (include_in u ?i e)" if "e \<in> set (er_rows d)" for e
    using earnings_okD(3) [OF ok that] by (auto simp: earning_ok_def include_in_def d' open_payout_def)
  have "amount_of unpaid (er_rows d') = amount_of unpaid (er_rows d)"
    by (auto simp: d' include_in_def unpaid_def split: if_splits intro!: amount_of_map)
  moreover have "distinct (map po_id (po_rows d'))" using earnings_okD(2) [OF ok] new_payout_fresh(1) by (force simp: d')
  moreover have "money_ok d'" "keys d' = keys d" "entries d' = entries d" using earnings_okD(1) [OF ok] by (simp_all add: d' money_ok_def keys_def)
  moreover have "(\<exists>e \<in> set (er_rows d'). er_service e = j) \<longleftrightarrow> (\<exists>e \<in> set (er_rows d). er_service e = j)" for j
  proof -
    have "er_rows d' = map (include_in u ?i) (er_rows d)" by (simp add: d')
    then show ?thesis by (simp only:) (rule services_map, simp add: include_in_def)
  qed
  moreover have "\<forall>p \<in> set (po_rows d'). (po_status p \<noteq> PO_REJECTED \<longrightarrow> po_amount p = attached (po_id p) d') \<and> (payout_key (po_id p) \<in> keys d \<longleftrightarrow> po_status p = PO_PAID)"
    using earnings_okD(4,5) [OF ok] new_payout_fresh(1) [of _ d] new_payout_fresh(2) [of d] by (auto simp: att) (auto simp: d')
  moreover have "\<forall>e \<in> set (er_rows d'). earning_ok (po_rows d') e" using rows by (auto simp: d')
  ultimately show ?thesis using earnings_okD(6,7) [OF ok] by (simp add: earnings_ok_def)
qed (use ok in simp)

lemma find_payout: "find (\<lambda>p. po_id p = i) ps = Some po \<Longrightarrow> po \<in> set ps \<and> po_id po = i"
  by (auto simp: find_Some_iff)

text \<open>Closing an open payout: its earnings become \<open>f\<close> of themselves, and no other row changes.\<close>

lemma close_ok:
  assumes ok: "earnings_ok c d" and po: "po \<in> set (po_rows d)" "po_id po = i" "po_status po \<in> open_payout"
    and f: "f = pay_earning i \<and> st = PO_PAID \<or> f = release_earning i \<and> st = PO_REJECTED"
    and d': "po_rows d' = map (close_payout i st utr now) (po_rows d)" "er_rows d' = map f (er_rows d)"
    and m: "money_ok d'" "keys d' = (if st = PO_PAID then insert (payout_key i) (keys d) else keys d)"
      "account_sum ''partner_payable'' (entries d') = account_sum ''partner_payable'' (entries d) - (if st = PO_PAID then po_amount po else 0)"
  shows "earnings_ok c d'"
proof -
  have same: "p = po" if "p \<in> set (po_rows d)" "po_id p = i" for p
    using earnings_okD(2) [OF ok] po that by (auto simp: distinct_map inj_on_def)
  have e_ok: "earning_ok (po_rows d) e" if "e \<in> set (er_rows d)" for e using earnings_okD(3) [OF ok that] .
  have incl: "er_status e = INCLUDED_IN_PAYOUT \<and> er_partner e = po_partner po" if "e \<in> set (er_rows d)" "er_payout e = Some i" for e
    using e_ok [OF that(1)] that(2) po(3) same by (auto simp: earning_ok_def open_payout_def)
  have amt: "po_amount po = attached i d" using earnings_okD(4) [OF ok po(1)] po by (auto simp: open_payout_def)
  have att: "attached j d' = attached j d" if "j \<noteq> i" for j
    unfolding attached_def d'(2) using f that by (auto simp: pay_earning_def release_earning_def split: if_splits intro!: amount_of_map)
  have att_i: "st = PO_PAID \<Longrightarrow> attached i d' = attached i d"
    unfolding attached_def d'(2) using f by (auto simp: pay_earning_def split: if_splits intro!: amount_of_map)
  have owed: "amount_of unpaid (er_rows d') = amount_of unpaid (er_rows d) - (if st = PO_PAID then attached i d else 0)"
  proof (cases "st = PO_PAID")
    case True
    then have "amount_of unpaid (er_rows d') = amount_of (\<lambda>e. unpaid e \<and> \<not> er_payout e = Some i) (er_rows d)"
      unfolding d'(2) using f by (auto simp: pay_earning_def unpaid_def split: if_splits intro!: amount_of_map)
    also have "\<dots> = amount_of unpaid (er_rows d) - amount_of (\<lambda>e. er_payout e = Some i) (er_rows d)"
      by (rule amount_of_diff) (use incl in \<open>auto simp: unpaid_def\<close>)
    finally show ?thesis using True by (simp add: attached_def)
  next
    case False
    then show ?thesis unfolding d'(2) using f incl by (auto simp: release_earning_def unpaid_def split: if_splits intro!: amount_of_map)
  qed
  have rows: "earning_ok (po_rows d') (f e)" if e: "e \<in> set (er_rows d)" for e
  proof (cases "er_payout e = Some i")
    case True
    have "close_payout i st utr now po \<in> set (po_rows d')" using po(1) by (simp add: d')
    then show ?thesis using f incl [OF e True] True po(2)
      by (auto simp: pay_earning_def release_earning_def earning_ok_def close_payout_def intro!: bexI [of _ "close_payout i st utr now po"])
  next
    case False
    have "f e = e" using f False by (auto simp: pay_earning_def release_earning_def)
    moreover have "\<exists>q \<in> set (po_rows d'). po_id q = j \<and> po_partner q = u \<and> po_status q = t"
      if "p \<in> set (po_rows d)" "po_id p = j" "po_partner p = u" "po_status p = t" "j \<noteq> i" for p j u t
      using that by (auto simp: d' close_payout_def intro!: bexI [of _ p])
    ultimately show ?thesis using e_ok [OF e] False unfolding earning_ok_def by metis
  qed
  have pays: "(po_status q \<noteq> PO_REJECTED \<longrightarrow> po_amount q = attached (po_id q) d') \<and> (payout_key (po_id q) \<in> keys d' \<longleftrightarrow> po_status q = PO_PAID)"
    if q: "q \<in> set (po_rows d')" for q
  proof -
    obtain p where p: "p \<in> set (po_rows d)" "q = close_payout i st utr now p" using q by (auto simp: d')
    show ?thesis
    proof (cases "po_id p = i")
      case True
      then show ?thesis using same [OF p(1) True] f amt att_i earnings_okD(5) [OF ok po(1)] po
        by (auto simp: p(2) close_payout_def m(2) open_payout_def)
    next
      case False
      then show ?thesis using earnings_okD(4,5) [OF ok p(1)] att [OF False] by (auto simp: p(2) close_payout_def m(2) payout_key_def)
    qed
  qed
  have serv: "(\<exists>e \<in> set (er_rows d'). er_service e = j) \<longleftrightarrow> (\<exists>e \<in> set (er_rows d). er_service e = j)" for j
    unfolding d'(2) by (rule services_map) (use f in \<open>auto simp: pay_earning_def release_earning_def\<close>)
  have kinds: "\<exists>e \<in> set (er_rows d'). er_service e = j" if "kind \<in> set SETTLE_KINDS" "(kind, j) \<in> keys d'" for kind j
    using earnings_okD(6) [OF ok that(1)] that unfolding serv by (auto simp: m(2) payout_key_def SETTLE_KINDS_def split: if_splits)
  have "distinct (map po_id (po_rows d'))" using earnings_okD(2) [OF ok]
    by (simp add: d' comp_def close_payout_def if_distrib cong: if_cong)
  then show ?thesis unfolding earnings_ok_def using m(1,3) owed amt earnings_okD(7) [OF ok] rows pays kinds by (auto simp: d'(2))
qed

lemma process_ok:
  assumes ok: "earnings_ok c d" and run: "rpc_process_payout up i approve reference s d = Inr (r, d')"
  shows "earnings_ok c d'"
proof (cases "d' = d")
  case False
  obtain po where po: "find (\<lambda>p. po_id p = i) (po_rows d) = Some po" "po_status po \<in> {PO_REQUESTED, PO_APPROVED}"
    using run False by (auto simp: rpc_process_payout_def split: if_splits option.splits)
  note q = find_payout [OF po(1)]
  have st: "po_status po \<in> open_payout" using po(2) by (auto simp: open_payout_def)
  show ?thesis
  proof (cases approve)
    case True
    then obtain t d1 where p: "post_transaction ''PAYOUT_DEBIT'' (po_amount po) (payout_key i) (payout_legs (po_amount po)) (Some (nat_text i)) d = Inr (t, d1)"
      and d': "d' = notify (po_partner po, ''PAYOUT_PROCESSED_PARTNER'', ''payout'', i)
        (d1\<lparr>po_rows := map (close_payout i PO_PAID (Some (norm_utr up reference)) (sess_now s)) (po_rows d1), er_rows := map (pay_earning i) (er_rows d1)\<rparr>)"
      using run False po by (auto simp: rpc_process_payout_def Let_def split: if_splits sum.splits)
    have k: "payout_key i \<notin> keys d" using earnings_okD(5) [OF ok] q st by (auto simp: open_payout_def)
    note f = post_once [OF earnings_okD(1) [OF ok] p k]
    have more: "po_rows d1 = po_rows d" "er_rows d1 = er_rows d" using f(5) by (cases d; cases d1; simp)+
    show ?thesis
      by (rule close_ok [where f = "pay_earning i" and st = PO_PAID and d = d and po = po and i = i and utr = "Some (norm_utr up reference)" and now = "sess_now s", OF ok])
        (use q st f(1,2) f(4) [of "''partner_payable''"] in \<open>simp_all add: d' more notify_def money_ok_def keys_def payout_legs_def\<close>)
  next
    case reject: False
    then have d': "d' = notify (po_partner po, ''PAYOUT_FAILED_PARTNER'', ''payout'', i)
        (d\<lparr>po_rows := map (close_payout i PO_REJECTED (po_utr po) (sess_now s)) (po_rows d), er_rows := map (release_earning i) (er_rows d)\<rparr>)"
      using run po by (auto simp: rpc_process_payout_def split: if_splits)
    show ?thesis
      by (rule close_ok [where f = "release_earning i" and st = PO_REJECTED and d = d and po = po and i = i and utr = "po_utr po" and now = "sess_now s", OF ok])
        (use q st earnings_okD(1) [OF ok] in \<open>simp_all add: d' notify_def money_ok_def keys_def\<close>)
  qed
qed (use ok in simp)

lemma credit_ok:
  assumes ok: "earnings_ok c d" and kind: "kind \<in> set SETTLE_KINDS" and run: "credit_partner kind ty p i amt s d = Inr (r, d')"
  shows "earnings_ok c d'"
proof (cases "d' = d")
  case False
  then obtain t d1 where p: "post_transaction ''PARTNER_EARNING'' amt (kind, i) (settle_legs amt) (Some (nat_text i)) d = Inr (t, d1)"
    and none: "\<forall>e \<in> set (er_rows d). er_service e \<noteq> i"
    and d': "d' = d1\<lparr>er_rows := er_rows d1 @ [\<lparr>er_id = fresh (map er_id (er_rows d1)), er_partner = p, er_service_type = ty, er_service = i, er_amount = amt,
              er_status = PENDING_PAYOUT, er_payout = None, er_settled = sess_now s\<rparr>]\<rparr>"
    using run by (auto simp: credit_partner_def split: if_splits sum.splits)
  have k: "(kind, i) \<notin> keys d" using earnings_okD(6) [OF ok kind, of i] none by blast
  note f = post_once [OF earnings_okD(1) [OF ok] p k]
  have more: "po_rows d1 = po_rows d" "er_rows d1 = er_rows d" using f(5) by (cases d; cases d1; simp)+
  have ks: "keys d' = insert (kind, i) (keys d)" using f(2) by (simp add: d' keys_def)
  have att: "attached j d' = attached j d" for j by (simp add: attached_def d' more)
  have pk: "payout_key j \<noteq> (kind, i)" for j using kind by (auto simp: payout_key_def SETTLE_KINDS_def)
  have "\<forall>e \<in> set (er_rows d'). earning_ok (po_rows d') e" using earnings_okD(3) [OF ok] by (auto simp: d' more earning_ok_def)
  moreover have "\<forall>q \<in> set (po_rows d'). (po_status q \<noteq> PO_REJECTED \<longrightarrow> po_amount q = attached (po_id q) d') \<and> (payout_key (po_id q) \<in> keys d' \<longleftrightarrow> po_status q = PO_PAID)"
    unfolding att ks using earnings_okD(4,5) [OF ok] pk by (simp add: d' more)
  moreover have "account_sum ''partner_payable'' (entries d') = c + amount_of unpaid (er_rows d')"
    using f(4) [of "''partner_payable''"] earnings_okD(7) [OF ok] by (simp add: d' more settle_legs_def unpaid_def)
  moreover have "\<exists>e \<in> set (er_rows d'). er_service e = j" if "kd \<in> set SETTLE_KINDS" "(kd, j) \<in> keys d'" for kd j
    using that earnings_okD(6) [OF ok that(1), of j] unfolding ks by (auto simp: d' more)
  moreover have "money_ok d'" using f(1) by (simp add: d' money_ok_def)
  moreover have "distinct (map po_id (po_rows d'))" using earnings_okD(2) [OF ok] by (simp add: d' more)
  ultimately show ?thesis by (simp add: earnings_ok_def)
qed (use ok in simp)

lemma method_ok:
  assumes "earnings_ok c d" and "ins_payout_method u b s d = Inr (r, d')"
  shows "earnings_ok c d'"
  using assms by (auto simp: ins_payout_method_def with_text_def split: sum.splits option.splits if_splits)

section \<open>Every sequence\<close>

text \<open>The steps: a settlement credits a partner, methods are added or changed, a partner withdraws, an administrator processes.\<close>

inductive payout_step :: "(string \<Rightarrow> string) \<Rightarrow> 'a earningsDb_scheme world \<Rightarrow> 'a earningsDb_scheme world \<Rightarrow> bool" for up where
  credit: "kind \<in> set SETTLE_KINDS \<Longrightarrow> payout_step up w (snd (runAsService base (rpc (credit_partner kind ty p i amt)) w))"
| add_method: "payout_step up w (snd (addPayoutMethod base u b w))"
| change_methods: "payout_step up w (w\<lparr>w_db := (w_db w)\<lparr>pm_rows := ms\<rparr>\<rparr>)"
| withdraw: "payout_step up w (snd (requestWithdrawal base u m w))"
| process: "payout_step up w (snd (runAs base a (rpc (rpc_process_payout up i approve reference)) w))"

lemma payout_step_ok: "payout_step up w w' \<Longrightarrow> earnings_ok c (w_db w) \<Longrightarrow> earnings_ok c (w_db w')"
proof (induction rule: payout_step.induct)
  case (credit kind w base ty p i amt)
  then show ?case by (auto intro!: as_service.run_keeps [where I = "earnings_ok c"] keeps_rpc intro: credit_ok)
next
  case (add_method w base u b)
  then show ?case unfolding addPayoutMethod_def by (auto intro!: as_user.run_keeps [where I = "earnings_ok c"] keeps_execute intro: method_ok)
next
  case (withdraw w base u m)
  then show ?case unfolding requestWithdrawal_def by (auto intro!: as_user.run_keeps [where I = "earnings_ok c"] keeps_rpc intro: withdrawal_ok)
next
  case (process w base a i approve reference)
  then show ?case by (auto intro!: as_user.run_keeps [where I = "earnings_ok c"] keeps_rpc intro: process_ok)
qed simp

lemma payout_steps_ok: "(payout_step up)\<^sup>*\<^sup>* w w' \<Longrightarrow> earnings_ok c (w_db w) \<Longrightarrow> earnings_ok c (w_db w')"
  by (induction rule: rtranclp_induct) (auto intro: payout_step_ok)

text \<open>
  C34. Partners are owed what the ledger says.  After any sequence of settlements, withdrawals, approvals and rejections, each
  alone on the tables, the ledger balances; the account of the partners holds exactly the earnings that are not paid yet; every payout that is not rejected is the
  sum of its earnings, which are its partner's, and has been debited if and only if it is paid; and an earning is paid exactly when it
  belongs to a paid payout.
\<close>

theorem payouts_conserve_earnings:
  fixes w w' :: "'a earningsDb_scheme world"
  assumes start: "earnings_ok c (w_db w)" and steps: "(payout_step up)\<^sup>*\<^sup>* w w'"
  shows "let d = w_db w' in money_ok d \<and>
    account_sum ''partner_payable'' (entries d) = c + sum_list (map er_amount (filter (\<lambda>e. er_status e \<in> {PENDING_PAYOUT, INCLUDED_IN_PAYOUT}) (er_rows d))) \<and>
    (\<forall>p \<in> set (po_rows d). (po_status p \<noteq> PO_REJECTED \<longrightarrow> po_amount p = sum_list (map er_amount (filter (\<lambda>e. er_payout e = Some (po_id p)) (er_rows d)))) \<and>
       (payout_key (po_id p) \<in> tn_key ` set (txns d) \<longleftrightarrow> po_status p = PO_PAID)) \<and>
    (\<forall>e \<in> set (er_rows d). (er_status e = EARNING_PAID \<longleftrightarrow> (\<exists>p \<in> set (po_rows d). er_payout e = Some (po_id p) \<and> po_status p = PO_PAID)) \<and>
       (\<forall>i. er_payout e = Some i \<longrightarrow> (\<exists>p \<in> set (po_rows d). po_id p = i \<and> po_partner p = er_partner e)))"
proof -
  have ok: "earnings_ok c (w_db w')" by (rule payout_steps_ok [OF steps start])
  have paid: "er_status e = EARNING_PAID \<longleftrightarrow> (\<exists>p \<in> set (po_rows (w_db w')). er_payout e = Some (po_id p) \<and> po_status p = PO_PAID)"
    if e: "e \<in> set (er_rows (w_db w'))" for e
  proof (cases "er_payout e")
    case None
    then show ?thesis using earnings_okD(3) [OF ok e] by (auto simp: earning_ok_def)
  next
    case (Some i)
    then obtain p where p: "p \<in> set (po_rows (w_db w'))" "po_id p = i"
      "er_status e = INCLUDED_IN_PAYOUT \<and> po_status p \<in> open_payout \<or> er_status e = EARNING_PAID \<and> po_status p = PO_PAID"
      using earnings_okD(3) [OF ok e] by (auto simp: earning_ok_def)
    have inj: "inj_on po_id (set (po_rows (w_db w')))" using earnings_okD(2) [OF ok] by (simp add: distinct_map)
    have "(\<exists>q \<in> set (po_rows (w_db w')). er_payout e = Some (po_id q) \<and> po_status q = PO_PAID) \<longleftrightarrow> po_status p = PO_PAID"
    proof
      assume "\<exists>q \<in> set (po_rows (w_db w')). er_payout e = Some (po_id q) \<and> po_status q = PO_PAID"
      then obtain q where q: "q \<in> set (po_rows (w_db w'))" "po_id q = i" "po_status q = PO_PAID" using Some by auto
      then show "po_status p = PO_PAID" using inj_onD [OF inj, of q p] p(1,2) by simp
    next
      assume "po_status p = PO_PAID"
      then show "\<exists>q \<in> set (po_rows (w_db w')). er_payout e = Some (po_id q) \<and> po_status q = PO_PAID"
        using p(1,2) Some by (intro bexI [of _ p]) simp_all
    qed
    then show ?thesis using p(3) by (elim disjE) (auto simp: open_payout_def)
  qed
  have owner: "\<exists>p \<in> set (po_rows (w_db w')). po_id p = i \<and> po_partner p = er_partner e" if "e \<in> set (er_rows (w_db w'))" "er_payout e = Some i" for e i
    using earnings_okD(3) [OF ok that(1)] that(2) by (auto simp: earning_ok_def)
  show ?thesis
    unfolding Let_def using earnings_okD(1,4,5,7) [OF ok] paid owner
    by (simp add: attached_def amount_of_def keys_def unpaid_def [abs_def])
qed

section \<open>One withdrawal\<close>

lemma withdrawal_eq:
  "requestWithdrawal base u m w = (case withdrawal_read u m (base\<lparr>app_user_id := Some u\<rparr>) (w_db w) of
     Inl e \<Rightarrow> (Inl (PgError e), w)
   | Inr (Inl r) \<Rightarrow> if jget r ''success'' = Some (JBool False) then (Inl (BadRequest (rpc_error r)), w) else (Inr r, w)
   | Inr (Inr amt) \<Rightarrow> (Inr (ok_json [(''payout_id'', jid (new_payout_id (w_db w))), (''amount_paise'', JNum amt)]),
       w\<lparr>w_db := snd (withdrawal_write u m amt (base\<lparr>app_user_id := Some u\<rparr>) (w_db w))\<rparr>))"
  by (auto simp: requestWithdrawal_def runAs_def transaction_def rpc_def tx_defs rpc_create_payout_batch_def withdrawal_write_def Let_def ok_json_def
    split: sum.splits)

definition can_pay :: "string \<Rightarrow> nat \<Rightarrow> 'a earningsDb_scheme \<Rightarrow> bool" where
  "can_pay u m d \<longleftrightarrow> (\<exists>p \<in> set (pm_rows d). pm_id p = m \<and> pm_partner p = u \<and> pm_verified p)"

lemma included_sums:
  "amount_of (\<lambda>e. er_partner e = u \<and> er_status e = PENDING_PAYOUT) (map (include_in u i) es) = 0"
  "amount_of (\<lambda>e. er_partner e = u \<and> er_status e = EARNING_PAID) (map (include_in u i) es) = amount_of (\<lambda>e. er_partner e = u \<and> er_status e = EARNING_PAID) es"
  "amount_of (\<lambda>e. er_partner e = u \<and> er_status e \<noteq> REVERSED) (map (include_in u i) es) = amount_of (\<lambda>e. er_partner e = u \<and> er_status e \<noteq> REVERSED) es"
  by (induction es) (auto simp: include_in_def)

lemma amount_of_filter: "amount_of P (filter Q es) = amount_of (\<lambda>e. Q e \<and> P e) es"
  by (induction es) auto

lemma summary_eq:
  assumes "u \<noteq> []"
  shows "earnings_summary base u w = (Inr \<lparr>es_lifetime = amount_of (\<lambda>e. er_partner e = u \<and> er_status e \<noteq> REVERSED) (er_rows (w_db w)),
    es_pending = pending_sum u (w_db w), es_paid = amount_of (\<lambda>e. er_partner e = u \<and> er_status e = EARNING_PAID) (er_rows (w_db w))\<rparr>, w)"
proof -
  have owner: "er_partner e = u \<and> owner_sees (base\<lparr>app_user_id := Some u\<rparr>) (w_db w) (er_partner e) \<longleftrightarrow> er_partner e = u" for e
    using assms by (auto simp: owner_sees_def current_user_id_def)
  have owned: "amount_of P (filter (\<lambda>e. er_partner e = u \<and> owner_sees (base\<lparr>app_user_id := Some u\<rparr>) (w_db w) (er_partner e)) es) =
      amount_of (\<lambda>e. er_partner e = u \<and> P e) es" for P es
    unfolding owner by (rule amount_of_filter)
  show ?thesis by (simp add: earnings_summary_def runAs_def transaction_def execute_def Let_def owned pending_sum_def)
qed

text \<open>
  A withdrawal.  It is refused without a verified method of the caller, with nothing earned, and below the minimum, and then
  changes nothing; otherwise it requests exactly the pending earnings, after which the summary shows none pending and the same
  lifetime total, and a second request is refused: until the payout is processed its amount is part of neither the pending nor
  the paid sum.
\<close>

theorem withdrawal_outcome:
  fixes w :: "'a earningsDb_scheme world"
  assumes u: "u \<noteq> []" and n: "min_withdrawal (w_db w) = Some n"
  shows "if \<not> can_pay u m (w_db w) then requestWithdrawal base u m w = (Inl (BadRequest (rpc_error (err_json ''UNVERIFIED_METHOD''))), w)
    else if pending_sum u (w_db w) = 0 then requestWithdrawal base u m w = (Inl (BadRequest (rpc_error (err_json ''NOTHING_TO_PAY''))), w)
    else if pending_sum u (w_db w) < n then \<exists>r. requestWithdrawal base u m w = (Inl (BadRequest r), w)
    else \<exists>r w'. requestWithdrawal base u m w = (Inr r, w') \<and> jget r ''amount_paise'' = Some (JNum (pending_sum u (w_db w))) \<and>
      map po_amount (po_rows (w_db w')) = map po_amount (po_rows (w_db w)) @ [pending_sum u (w_db w)] \<and>
      (\<exists>a b. earnings_summary base u w = (Inr a, w) \<and> earnings_summary base u w' = (Inr b, w') \<and>
         es_pending b = 0 \<and> es_lifetime b = es_lifetime a \<and> es_paid b = es_paid a) \<and>
      requestWithdrawal base u m w' = (Inl (BadRequest (rpc_error (err_json ''NOTHING_TO_PAY''))), w')"
proof -
  let ?s = "base\<lparr>app_user_id := Some u\<rparr>" and ?d = "w_db w"
  have allowed: "caller_allowed u ?s d" for d :: "'a earningsDb_scheme" using u by (simp add: caller_allowed_def current_user_id_def)
  have read: "withdrawal_read u m ?s d = (if \<not> can_pay u m d then Inr (Inl (err_json ''UNVERIFIED_METHOD''))
      else if pending_sum u d = 0 then Inr (Inl (err_json ''NOTHING_TO_PAY''))
      else if pending_sum u d < n then Inr (Inl (JObj [(''success'', JBool False), (''error'', JStr ''BELOW_MIN_WITHDRAWAL''), (''min_paise'', JNum n), (''available_paise'', JNum (pending_sum u d))]))
      else Inr (Inr (pending_sum u d)))" if "min_withdrawal d = Some n" for d :: "'a earningsDb_scheme"
    using that allowed [of d] unfolding withdrawal_read_def can_pay_def by auto
  let ?w' = "w\<lparr>w_db := snd (withdrawal_write u m (pending_sum u ?d) ?s ?d)\<rparr>"
  have after: "pending_sum u (w_db ?w') = 0" "can_pay u m (w_db ?w') = can_pay u m ?d" "min_withdrawal (w_db ?w') = Some n"
    "map po_amount (po_rows (w_db ?w')) = map po_amount (po_rows ?d) @ [pending_sum u ?d]"
    by (simp_all add: withdrawal_write_def Let_def pending_sum_def can_pay_def n included_sums)
  show ?thesis
  proof (cases "can_pay u m ?d \<and> pending_sum u ?d \<noteq> 0 \<and> \<not> pending_sum u ?d < n")
    case True
    have r1: "requestWithdrawal base u m w = (Inr (ok_json [(''payout_id'', jid (new_payout_id ?d)), (''amount_paise'', JNum (pending_sum u ?d))]), ?w')"
      using True unfolding withdrawal_eq read [OF n] by simp
    have r2: "requestWithdrawal base u m ?w' = (Inl (BadRequest (rpc_error (err_json ''NOTHING_TO_PAY''))), ?w')"
      using True unfolding withdrawal_eq read [OF after(3)] after(1,2) by (simp add: err_json_def)
    have life: "amount_of (\<lambda>e. er_partner e = u \<and> er_status e \<noteq> REVERSED) (er_rows (w_db ?w')) = amount_of (\<lambda>e. er_partner e = u \<and> er_status e \<noteq> REVERSED) (er_rows ?d)"
      "amount_of (\<lambda>e. er_partner e = u \<and> er_status e = EARNING_PAID) (er_rows (w_db ?w')) = amount_of (\<lambda>e. er_partner e = u \<and> er_status e = EARNING_PAID) (er_rows ?d)"
      by (simp_all add: withdrawal_write_def Let_def included_sums)
    have sums: "\<exists>a b. earnings_summary base u w = (Inr a, w) \<and> earnings_summary base u ?w' = (Inr b, ?w') \<and>
         es_pending b = 0 \<and> es_lifetime b = es_lifetime a \<and> es_paid b = es_paid a"
      unfolding summary_eq [OF u] after(1) life by simp
    show ?thesis using True r1 r2 sums after(4) by (simp add: ok_json_def)
  next
    case False
    then show ?thesis unfolding withdrawal_eq read [OF n] by (auto simp: err_json_def)
  qed
qed

section \<open>Two withdrawals at once\<close>

text \<open>
  C35. Two withdrawals at once pay twice.  Nothing is locked between the sum and the two writes.  If two requests of one partner
  have both read the sum before the first one writes, the second one, whose update finds no pending earning any more,
  still records a payout of the whole sum: two payouts are open, each over the full amount, and the second one has no earning.
\<close>

theorem overlapping_withdrawals_pay_twice:
  fixes d :: "'a earningsDb_scheme"
  assumes ok: "earnings_ok c d" and first: "withdrawal_read u m s d = Inr (Inr a)" and second: "withdrawal_read u m' s' d = Inr (Inr b)"
  shows "let d1 = snd (withdrawal_write u m a s d); d2 = snd (withdrawal_write u m' b s' d1); i = new_payout_id d; j = new_payout_id d1 in
    earnings_ok c d1 \<and> i \<noteq> j \<and>
    map (\<lambda>p. (po_id p, po_partner p, po_amount p, po_status p)) (po_rows d2) =
      map (\<lambda>p. (po_id p, po_partner p, po_amount p, po_status p)) (po_rows d) @ [(i, u, pending_sum u d, PO_REQUESTED), (j, u, pending_sum u d, PO_REQUESTED)] \<and>
    sum_list (map er_amount (filter (\<lambda>e. er_payout e = Some i) (er_rows d2))) = pending_sum u d \<and>
    filter (\<lambda>e. er_payout e = Some j) (er_rows d2) = []"
proof -
  let ?d1 = "snd (withdrawal_write u m a s d)"
  let ?d2 = "snd (withdrawal_write u m' b s' ?d1)"
  let ?i = "new_payout_id d" and ?j = "new_payout_id ?d1"
  have ab: "a = pending_sum u d" "b = pending_sum u d" using withdrawal_read_sum first second by blast+
  have "rpc_create_payout_batch u m s d = Inr (fst (withdrawal_write u m a s d), ?d1)" by (simp add: rpc_create_payout_batch_def first)
  from withdrawal_ok [OF ok this] have ok1: "earnings_ok c ?d1" .
  have new: "\<exists>p \<in> set (po_rows ?d1). po_id p = ?i" by (simp add: withdrawal_write_def Let_def)
  then obtain p where "p \<in> set (po_rows ?d1)" "po_id p = ?i" by blast
  then have ij: "?i \<noteq> ?j" using new_payout_fresh(1) [of p ?d1] by simp
  have none: "er_partner e = u \<longrightarrow> er_status e \<noteq> PENDING_PAYOUT" if "e \<in> set (er_rows ?d1)" for e
  proof -
    obtain e' where "e = include_in u ?i e'" using \<open>e \<in> set (er_rows ?d1)\<close> by (auto simp: withdrawal_write_def Let_def)
    then show ?thesis by (simp add: include_in_def)
  qed
  have same: "er_rows ?d2 = er_rows ?d1"
  proof -
    have "map (include_in u ?j) (er_rows ?d1) = er_rows ?d1" by (rule map_idI) (use none in \<open>auto simp: include_in_def\<close>)
    then show ?thesis by (simp add: withdrawal_write_def Let_def)
  qed
  have "attached ?i ?d1 = pending_sum u d"
    using withdrawal_attached(1) [OF ok, of u] by (simp add: attached_def withdrawal_write_def Let_def)
  then have att: "sum_list (map er_amount (filter (\<lambda>e. er_payout e = Some ?i) (er_rows ?d2))) = pending_sum u d"
    unfolding same by (simp add: attached_def amount_of_def)
  have "filter (\<lambda>e. er_payout e = Some ?j) (er_rows ?d2) = []"
    unfolding same using new_payout_fresh(3) [of _ ?d1] by (auto simp: filter_empty_conv)
  moreover have "map (\<lambda>p. (po_id p, po_partner p, po_amount p, po_status p)) (po_rows ?d2) =
      map (\<lambda>p. (po_id p, po_partner p, po_amount p, po_status p)) (po_rows d) @ [(?i, u, pending_sum u d, PO_REQUESTED), (?j, u, pending_sum u d, PO_REQUESTED)]"
    by (simp add: withdrawal_write_def Let_def ab)
  ultimately show ?thesis unfolding Let_def using ok1 ij att by blast
qed

section \<open>Concrete runs\<close>

definition demo_earned :: earningsDb where
  "demo_earned =
     \<lparr>wallets = [], txns = [\<lparr>tn_id = 1, tn_type = ''PARTNER_EARNING'', tn_amount = 500, tn_key = (''settlewin:'', 7), tn_ref = None\<rparr>],
      entries = [\<lparr>le_txn = 1, le_wallet = None, le_account = ''booking_escrow'', le_delta = - 500\<rparr>, \<lparr>le_txn = 1, le_wallet = None, le_account = ''partner_payable'', le_delta = 500\<rparr>],
      next_id = 2, topups = [], webhooks = [], disputes = [], notifs = [], settings = None, admins = [], finance_admins = [],
      er_rows = [\<lparr>er_id = 1, er_partner = ''star'', er_service_type = ''QUESTION'', er_service = 7, er_amount = 500, er_status = PENDING_PAYOUT, er_payout = None, er_settled = 0\<rparr>],
      pm_rows = [\<lparr>pm_id = 1, pm_partner = ''star'', pm_type = ''UPI'', pm_holder = None, pm_account = None, pm_ifsc = None, pm_bank = None, pm_upi = Some ''star'',
        pm_primary = True, pm_verified = True\<rparr>],
      po_rows = [], min_withdrawal = Some 100, partner_ids = [''star'']\<rparr>"

abbreviation demo_payday :: "earningsDb world" where
  "demo_payday \<equiv> \<lparr>w_db = demo_earned, w_log = []\<rparr>"

lemma demo_earned_ok: "earnings_ok 0 demo_earned"
proof -
  have m: "money_ok demo_earned" by (simp add: money_ok_def demo_earned_def wallet_ok_def txn_sum_def wallet_sum_def)
  have k: "keys demo_earned = {(''settlewin:'', 7)}" by (simp add: keys_def demo_earned_def)
  show ?thesis unfolding earnings_ok_def k using m by (simp add: demo_earned_def earning_ok_def account_sum_def unpaid_def)
qed

lemma demo_pending: "can_pay ''star'' 1 demo_earned" "pending_sum ''star'' demo_earned = 500" "min_withdrawal demo_earned = Some 100"
  by (simp_all add: can_pay_def pending_sum_def demo_earned_def)

theorem payouts_conserve_earnings_witness:
  "money_ok (w_db (snd (requestWithdrawal demo_session ''star'' 1 demo_payday)))"
proof -
  have "(payout_step id)\<^sup>*\<^sup>* demo_payday (snd (requestWithdrawal demo_session ''star'' 1 demo_payday))" by (intro r_into_rtranclp payout_step.intros)
  from payouts_conserve_earnings [OF _ this, of 0] show ?thesis using demo_earned_ok by (simp add: Let_def)
qed

theorem withdrawal_outcome_witness:
  "\<exists>r w'. requestWithdrawal demo_session ''star'' 1 demo_payday = (Inr r, w') \<and> jget r ''amount_paise'' = Some (JNum 500) \<and>
     map po_amount (po_rows (w_db w')) = [500]"
proof -
  have "po_rows demo_earned = []" by (simp add: demo_earned_def)
  then show ?thesis using withdrawal_outcome [of "''star''" demo_payday 100 1 demo_session] demo_pending by auto
qed

theorem overlapping_withdrawals_pay_twice_witness:
  "let s = demo_session\<lparr>app_user_id := Some ''star''\<rparr>; d1 = snd (withdrawal_write ''star'' 1 500 s demo_earned) in
     map po_amount (po_rows (snd (withdrawal_write ''star'' 1 500 s d1))) = [500, 500]"
proof -
  have r: "withdrawal_read ''star'' 1 (demo_session\<lparr>app_user_id := Some ''star''\<rparr>) demo_earned = Inr (Inr 500)"
    using demo_pending by (auto simp: withdrawal_read_def can_pay_def caller_allowed_def current_user_id_def)
  have e: "po_rows demo_earned = []" by (simp add: demo_earned_def)
  show ?thesis using overlapping_withdrawals_pay_twice [OF demo_earned_ok r r] e demo_pending(2) by (auto simp: Let_def)
qed

end
