(* ===== verification/Trust.thy ===== *)
theory Trust
  imports Shoutouts Catalog Calls
begin

text \<open>
  \<open>src/trust/trust.module.ts\<close> and \<open>src/notifications/notifications.module.ts\<close> over the tables of migrations 0007 and 0009:
  blocks, reports and the inbox.  \<open>uuid_row\<close> is the database's reading of a row id, \<open>ts_in\<close> its reading of a timestamp.
\<close>

section \<open>The rows of the inbox\<close>

record notice =
  nt_id :: nat
  nt_recipient :: string
  nt_actor :: "string option"
  nt_event :: string
  nt_title :: "string option"
  nt_message :: string
  nt_entity :: "(string \<times> nat) option"
  nt_metadata :: json
  nt_read :: bool
  nt_read_at :: "int option"
  nt_created :: int

text \<open>The table of which the other components see the keys in \<open>notifs\<close>.\<close>

record trustDb = shoutoutDb +
  nt_rows :: "notice list"

definition nt_key :: "notice \<Rightarrow> notifKey option" where
  "nt_key n = map_option (\<lambda>(ty, i). (nt_recipient n, nt_event n, ty, i)) (nt_entity n)"

text \<open>\<open>rpc_create_notification\<close> on whole rows; two keys with a null are never equal.\<close>

definition refresh_notice :: "notifKey \<Rightarrow> int \<Rightarrow> notice \<Rightarrow> notice" where
  "refresh_notice k now n = (if nt_key n = Some k then n\<lparr>nt_read := False, nt_created := now\<rparr> else n)"

definition add_notice ::
  "string \<Rightarrow> string option \<Rightarrow> string \<Rightarrow> string \<Rightarrow> string \<Rightarrow> (string \<times> nat) option \<Rightarrow> json \<Rightarrow> int \<Rightarrow> 'a trustDb_scheme \<Rightarrow> 'a trustDb_scheme" where
  "add_notice to actor ev title msg ent meta now d =
     d\<lparr>nt_rows := nt_rows d @ [\<lparr>nt_id = fresh (map nt_id (nt_rows d)), nt_recipient = to, nt_actor = actor, nt_event = ev, nt_title = Some title,
        nt_message = msg, nt_entity = ent, nt_metadata = meta, nt_read = False, nt_read_at = None, nt_created = now\<rparr>]\<rparr>"

definition create_notice ::
  "string \<Rightarrow> string option \<Rightarrow> string \<Rightarrow> string \<Rightarrow> string \<Rightarrow> (string \<times> nat) option \<Rightarrow> json \<Rightarrow> ('a trustDb_scheme, json) stmt" where
  "create_notice to actor ev title msg ent meta s d =
     (if to \<notin> fst ` set (profiles d) then Inl ''violates foreign key constraint notifications_recipient_id_fkey''
      else if \<exists>u. actor = Some u \<and> u \<notin> fst ` set (profiles d) then Inl ''violates foreign key constraint notifications_actor_id_fkey''
      else case ent of
        Some (ty, i) \<Rightarrow>
          (let k = (to, ev, ty, i) in
           if \<exists>n \<in> set (nt_rows d). nt_key n = Some k
           then Inr (ok_json [(''created'', JBool False)], d\<lparr>nt_rows := map (refresh_notice k (sess_now s)) (nt_rows d)\<rparr>)
           else Inr (ok_json [(''created'', JBool True)], notify k (add_notice to actor ev title msg ent meta (sess_now s) d)))
      | None \<Rightarrow> Inr (ok_json [(''created'', JBool True)], add_notice to actor ev title msg ent meta (sess_now s) d))"

section \<open>Blocks\<close>

definition BLOCK_SCOPES :: "string list" where
  "BLOCK_SCOPES = [''ALL'', ''DM'', ''BOOKING'']"

text \<open>\<open>scope = 'ALL'\<close>: a default is for \<open>undefined\<close> only.\<close>

definition scope_or_all :: "json option \<Rightarrow> json option" where
  "scope_or_all v = (case v of None \<Rightarrow> Some (JStr ''ALL'') | Some j \<Rightarrow> Some j)"

definition block_scope :: "string option \<Rightarrow> bool" where
  "block_scope t \<longleftrightarrow> (case t of None \<Rightarrow> True | Some x \<Rightarrow> x \<in> set BLOCK_SCOPES)"

definition rpc_block_user :: "string \<Rightarrow> json option \<Rightarrow> json option \<Rightarrow> ('a messagingDb_scheme, json) stmt" where
  "rpc_block_user blocker blocked scope =
     with_text blocked (\<lambda>b. with_text scope (\<lambda>sc s d.
       if \<not> block_scope sc then Inl ''22P02 invalid input value for enum block_scope''
       else if \<not> caller_allowed blocker s d then Inl FORBIDDEN_CALLER
       else case (b, sc) of
         (Some x, Some c) \<Rightarrow>
           if (blocker, x, c) \<in> set (mq_blocks d) then Inr (ok_json [], d)
           else if blocker \<notin> fst ` set (profiles d) \<or> x \<notin> fst ` set (profiles d) then Inl ''violates foreign key constraint on table user_blocks''
           else Inr (ok_json [], d\<lparr>mq_blocks := mq_blocks d @ [(blocker, x, c)]\<rparr>)
       | _ \<Rightarrow> Inl ''null value in a column of relation user_blocks violates not-null constraint''))"

definition rpc_unblock_user :: "string \<Rightarrow> json option \<Rightarrow> json option \<Rightarrow> ('a messagingDb_scheme, json) stmt" where
  "rpc_unblock_user blocker blocked scope =
     with_text blocked (\<lambda>b. with_text scope (\<lambda>sc s d.
       if \<not> block_scope sc then Inl ''22P02 invalid input value for enum block_scope''
       else if \<not> caller_allowed blocker s d then Inl FORBIDDEN_CALLER
       else Inr (ok_json [], d\<lparr>mq_blocks := filter (\<lambda>(x, y, c). \<not> (x = blocker \<and> Some y = b \<and> Some c = sc)) (mq_blocks d)\<rparr>)))"

definition trust_block :: "session \<Rightarrow> string \<Rightarrow> json option \<Rightarrow> json option \<Rightarrow> ('a messagingDb_scheme, json) act" where
  "trust_block base u blocked scope = runAs base u (rpc (rpc_block_user u blocked (scope_or_all scope)))"

definition trust_unblock :: "session \<Rightarrow> string \<Rightarrow> json option \<Rightarrow> json option \<Rightarrow> ('a messagingDb_scheme, json) act" where
  "trust_unblock base u blocked scope = runAs base u (rpc (rpc_unblock_user u blocked (scope_or_all scope)))"

section \<open>Reports\<close>

definition TARGET_TYPES :: "(string \<times> reportTarget) list" where
  "TARGET_TYPES = [(''PROFILE'', R_PROFILE), (''CALL'', R_CALL), (''DM'', R_DM), (''MESSAGE'', R_MESSAGE), (''SHOUTOUT'', R_SHOUTOUT)]"

definition ins_report ::
  "(string \<Rightarrow> nat option) \<Rightarrow> string \<Rightarrow> reportTarget \<Rightarrow> json option \<Rightarrow> string \<Rightarrow> json option \<Rightarrow> ('a trustDb_scheme, unit) stmt" where
  "ins_report uuid_row u ty target reason details =
     with_text target (\<lambda>t. with_text details (\<lambda>det s d.
       case Option.bind t uuid_row of None \<Rightarrow> Inl ''22P02 invalid input syntax for type uuid''
       | Some i \<Rightarrow>
           if current_user_id s \<noteq> Some u then Inl ''42501 new row violates row-level security policy for table reports''
           else if u \<notin> fst ` set (profiles d) then Inl ''violates foreign key constraint reports_reporter_id_fkey''
           else Inr ((), d\<lparr>reports := reports d @ [\<lparr>rp_target_type = ty, rp_target_id = i, rp_status = R_PENDING, rp_reporter = u,
                   rp_reason = reason, rp_details = det\<rparr>]\<rparr>)))"

text \<open>\<open>profiles\<close> with the role ADMIN under the policies of 0011 and 0026: the row of oneself, or every row for an administrator.\<close>

definition admins_seen :: "session \<Rightarrow> 'a bank_scheme \<Rightarrow> string list" where
  "admins_seen s d = filter (\<lambda>a. current_user_id s = Some a \<or> admin_session s d) (admins d)"

definition report_message :: "string \<Rightarrow> string \<Rightarrow> string" where
  "report_message ty reason = ''A '' @ map lower_char ty @ '' was reported: '' @ reason"

text \<open>One administrator: the rejection of the function is caught, and ignored.\<close>

definition fan_out :: "string \<Rightarrow> string \<Rightarrow> json \<Rightarrow> string \<Rightarrow> ('a trustDb_scheme, unit) txm" where
  "fan_out u msg meta a = tx_catch
     (tx_then (rpc (create_notice a (Some u) ''PLATFORM_ANNOUNCEMENT'' ''New report filed'' msg None meta)) (tx_return ())) (\<lambda>_. tx_return ())"

definition report_body :: "(string \<Rightarrow> nat option) \<Rightarrow> string \<Rightarrow> string \<Rightarrow> reportTarget \<Rightarrow> string \<Rightarrow> json \<Rightarrow> ('a trustDb_scheme, json) txm" where
  "report_body uuid_row u tyname ty reason b =
     tx_bind (execute (ins_report uuid_row u ty (jget b ''targetId'') reason (coalesce (jget b ''details'') (Some JNull)))) (\<lambda>_.
     tx_bind (execute (\<lambda>s d. Inr (admins_seen s d, d))) (\<lambda>to.
     tx_then (tx_each (fan_out u (report_message tyname reason)
         (JObj [(''targetType'', JStr tyname), (''targetId'', the (jget b ''targetId''))])) to)
       (tx_return (JObj [(''success'', JBool True)]))))"

definition trust_report :: "(string \<Rightarrow> nat option) \<Rightarrow> session \<Rightarrow> string \<Rightarrow> json option \<Rightarrow> ('a trustDb_scheme, json) act" where
  "trust_report uuid_row base u b w =
     (case find (\<lambda>(n, ty). jopt b ''targetType'' = Some (JStr n)) TARGET_TYPES of
        None \<Rightarrow> (Inl (bad_request ''targetType must be one of PROFILE, CALL, DM, MESSAGE, SHOUTOUT''), w)
      | Some (n, ty) \<Rightarrow>
          if \<not> truthy (jopt b ''targetId'') then (Inl (bad_request ''targetId and reason are required''), w)
          else case coalesce (jopt b ''reason'') None of
            None \<Rightarrow> (Inl (bad_request ''targetId and reason are required''), w)
          | Some (JStr r) \<Rightarrow> if trim r = [] then (Inl (bad_request ''targetId and reason are required''), w)
                          else runAs base u (report_body uuid_row u n ty r (the b)) w
          | Some _ \<Rightarrow> (Inl (JsError ''b?.reason?.trim is not a function''), w))"

section \<open>The inbox\<close>

definition own_notices :: "session \<Rightarrow> string \<Rightarrow> 'a trustDb_scheme \<Rightarrow> notice list" where
  "own_notices s u d = filter (\<lambda>n. nt_recipient n = u \<and> (current_user_id s = Some (nt_recipient n) \<or> admin_session s d)) (nt_rows d)"

definition newest_first :: "notice list \<Rightarrow> notice list" where
  "newest_first ns = sort_key (\<lambda>n. - nt_created n) ns"

definition inbox_page :: "(string \<Rightarrow> int option) \<Rightarrow> string \<Rightarrow> string option \<Rightarrow> nat \<Rightarrow> ('a trustDb_scheme, notice list) stmt" where
  "inbox_page ts_in u before page s d =
     (if truthy_str before
      then case ts_in (the before) of None \<Rightarrow> Inl ''22007 invalid input syntax for type timestamp with time zone''
           | Some t \<Rightarrow> Inr (take page (newest_first (filter (\<lambda>n. nt_created n < t) (own_notices s u d))), d)
      else Inr (take page (newest_first (own_notices s u d)), d))"

definition inbox_list :: "(string \<Rightarrow> int option) \<Rightarrow> session \<Rightarrow> string \<Rightarrow> string option \<Rightarrow> nat option \<Rightarrow> ('a trustDb_scheme, notice list) act" where
  "inbox_list ts_in base u before page =
     runAs base u (execute (inbox_page ts_in u before (case page of None \<Rightarrow> 100 | Some n \<Rightarrow> n)))"

definition mark_notices :: "(notice \<Rightarrow> bool) \<Rightarrow> string \<Rightarrow> ('a trustDb_scheme, json) stmt" where
  "mark_notices P u s d = Inr (JObj [(''success'', JBool True)],
     d\<lparr>nt_rows := map (\<lambda>n. if n \<in> set (own_notices s u d) \<and> P n then n\<lparr>nt_read := True, nt_read_at := Some (sess_now s)\<rparr> else n) (nt_rows d)\<rparr>)"

definition markRead :: "(string \<Rightarrow> nat option) \<Rightarrow> session \<Rightarrow> string \<Rightarrow> string \<Rightarrow> ('a trustDb_scheme, json) act" where
  "markRead uuid_row base u i = runAs base u (execute (case uuid_row i of None \<Rightarrow> (\<lambda>s d. Inl ''22P02 invalid input syntax for type uuid'')
     | Some k \<Rightarrow> mark_notices (\<lambda>n. nt_id n = k) u))"

definition markAll :: "session \<Rightarrow> string \<Rightarrow> ('a trustDb_scheme, json) act" where
  "markAll base u = runAs base u (execute (mark_notices (\<lambda>n. \<not> nt_read n) u))"

end
