(* ===== verification/Trust_Props.thy ===== *)
theory Trust_Props
  imports Trust Shoutout_Money
begin

text \<open>
  What blocking, reporting and reading the inbox do, and what a report does to the money of its target.
\<close>

section \<open>Notices\<close>

text \<open>The rows refine the keys that the other components keep.\<close>

definition notices_ok :: "'a trustDb_scheme \<Rightarrow> bool" where
  "notices_ok d \<longleftrightarrow> List.map_filter nt_key (nt_rows d) = notifs d \<and> distinct (notifs d)"

lemma map_filter_append: "List.map_filter f (xs @ ys) = List.map_filter f xs @ List.map_filter f ys"
  by (simp add: List.map_filter_def)

lemma map_filter_map: "(\<And>x. f (g x) = f x) \<Longrightarrow> List.map_filter f (map g xs) = List.map_filter f xs"
  by (induction xs) (simp_all add: map_filter_simps split: option.split)

lemma refresh_key [simp]: "nt_key (refresh_notice k now n) = nt_key n"
  by (simp add: refresh_notice_def nt_key_def)

lemma key_in_map_filter: "k \<in> set (List.map_filter nt_key ns) \<longleftrightarrow> (\<exists>n \<in> set ns. nt_key n = Some k)"
  by (induction ns) (auto simp: map_filter_simps split: option.split)

text \<open>With an entity the function is the one of \<open>Services\<close> on the keys.\<close>

lemma create_notice_refines:
  fixes d :: "'a trustDb_scheme"
  assumes ok: "notices_ok d"
  shows "(case create_notice to actor ev title msg (Some (ty, i)) meta s d of
      Inl e \<Rightarrow> rpc_create_notification to actor ev ty i s d = Inl e
    | Inr (r, d') \<Rightarrow> notices_ok d' \<and> (\<exists>d1. rpc_create_notification to actor ev ty i s d = Inr (r, d1) \<and> notifs d1 = notifs d'))"
proof -
  let ?k = "(to, ev, ty, i)"
  have keys: "(\<exists>n \<in> set (nt_rows d). nt_key n = Some ?k) \<longleftrightarrow> ?k \<in> set (notifs d)"
    using ok key_in_map_filter [of ?k "nt_rows d"] by (simp add: notices_ok_def)
  have old: "notices_ok (d\<lparr>nt_rows := map (refresh_notice ?k (sess_now s)) (nt_rows d)\<rparr>)"
    using ok by (simp add: notices_ok_def map_filter_map)
  have new: "notices_ok (notify ?k (add_notice to actor ev title msg (Some (ty, i)) meta (sess_now s) d))" if "?k \<notin> set (notifs d)"
    using ok that by (simp add: notices_ok_def add_notice_def notify_def map_filter_append map_filter_simps nt_key_def set_add_def)
  show ?thesis
  proof (cases "?k \<in> set (notifs d)")
    case True
    then show ?thesis using old keys by (auto simp: create_notice_def rpc_create_notification_def Let_def notify_def set_add_def)
  next
    case False
    then show ?thesis using new keys
      by (auto simp: create_notice_def rpc_create_notification_def Let_def notify_def set_add_def add_notice_def)
  qed
qed

section \<open>Blocking\<close>

lemma block_run:
  fixes w :: "'a messagingDb_scheme world"
  assumes "u \<noteq> []" and "u \<in> fst ` set (profiles (w_db w))" and "v \<in> fst ` set (profiles (w_db w))" and "sc \<in> set BLOCK_SCOPES"
  shows "trust_block base u (Some (JStr v)) (Some (JStr sc)) w =
    (Inr (ok_json []), w\<lparr>w_db := (w_db w)\<lparr>mq_blocks := if (u, v, sc) \<in> set (mq_blocks (w_db w)) then mq_blocks (w_db w) else mq_blocks (w_db w) @ [(u, v, sc)]\<rparr>\<rparr>)"
  using assms
  by (auto simp: trust_block_def runAs_def transaction_def rpc_def tx_defs rpc_block_user_def with_text_def scope_or_all_def block_scope_def
    caller_allowed_def current_user_id_def ok_json_def image_iff)

lemma unblock_run:
  fixes w :: "'a messagingDb_scheme world"
  assumes "u \<noteq> []" and "sc \<in> set BLOCK_SCOPES"
  shows "trust_unblock base u (Some (JStr v)) (Some (JStr sc)) w =
    (Inr (ok_json []), w\<lparr>w_db := (w_db w)\<lparr>mq_blocks := filter (\<lambda>b. b \<noteq> (u, v, sc)) (mq_blocks (w_db w))\<rparr>\<rparr>)"
proof -
  have "(\<lambda>(x, y, c). \<not> (x = u \<and> y = v \<and> c = sc)) = (\<lambda>b. b \<noteq> (u, v, sc))" by auto
  then show ?thesis using assms
    by (simp add: trust_unblock_def runAs_def transaction_def rpc_def tx_defs rpc_unblock_user_def with_text_def scope_or_all_def block_scope_def
      caller_allowed_def current_user_id_def ok_json_def)
qed

lemma blocked_ask:
  fixes w :: "'a messagingDb_scheme world"
  assumes "u \<noteq> []" and "assert_active u (w_db w)" and "is_blocked u p ''DM'' (w_db w)"
  shows "ask base u p t w = (Inl (BadRequest (rpc_error (err_json ''BLOCKED''))), w)"
  using assms by (simp add: ask_def runAs_def transaction_def rpc_def tx_defs rpc_ask_question_def caller_allowed_def current_user_id_def err_json_def)

lemma blocked_request:
  fixes w :: "'a shoutoutDb_scheme world"
  assumes "u \<noteq> []" and "assert_active u (w_db w)" and "is_blocked u p ''ALL'' (w_db w)"
  shows "so_request base u p recipient t w = (Inl (BadRequest (rpc_error (err_json ''BLOCKED''))), w)"
  using assms by (simp add: so_request_def runAs_def transaction_def rpc_def tx_defs rpc_request_shoutout_def caller_allowed_def current_user_id_def err_json_def)

text \<open>
  C36. Blocks are a set, and they stop contact.  Blocking adds exactly one entry, whatever was there, and nothing else
  changes; unblocking removes exactly that entry.  While a block of everything or of messages stands, in either direction, no
  question can be asked; while a block of everything stands no shout-out can be requested; the refused calls change nothing.
  One party cannot lift the block of the other.
\<close>

theorem blocks_stop_contact:
  fixes w :: "'a shoutoutDb_scheme world"
  assumes u: "u \<noteq> []" "u \<in> fst ` set (profiles (w_db w))" and v: "v \<noteq> []" "v \<in> fst ` set (profiles (w_db w))" and sc: "sc \<in> set BLOCK_SCOPES"
    and active: "assert_active u (w_db w)" "assert_active v (w_db w)" and uv: "u \<noteq> v"
  shows "\<exists>w1. trust_block base u (Some (JStr v)) (Some (JStr sc)) w = (Inr (ok_json []), w1) \<and>
    set (mq_blocks (w_db w1)) = insert (u, v, sc) (set (mq_blocks (w_db w))) \<and> w1 = w\<lparr>w_db := (w_db w)\<lparr>mq_blocks := mq_blocks (w_db w1)\<rparr>\<rparr> \<and>
    (\<exists>w2. trust_unblock base u (Some (JStr v)) (Some (JStr sc)) w1 = (Inr (ok_json []), w2) \<and>
       set (mq_blocks (w_db w2)) = set (mq_blocks (w_db w)) - {(u, v, sc)}) \<and>
    (\<exists>w3. trust_unblock base v (Some (JStr u)) (Some (JStr sc)) w1 = (Inr (ok_json []), w3) \<and> (u, v, sc) \<in> set (mq_blocks (w_db w3))) \<and>
    (sc \<in> {''ALL'', ''DM''} \<longrightarrow> ask base v u t w1 = (Inl (BadRequest (rpc_error (err_json ''BLOCKED''))), w1) \<and>
       ask base u v t w1 = (Inl (BadRequest (rpc_error (err_json ''BLOCKED''))), w1)) \<and>
    (sc = ''ALL'' \<longrightarrow> so_request base v u recipient t w1 = (Inl (BadRequest (rpc_error (err_json ''BLOCKED''))), w1) \<and>
       so_request base u v recipient t w1 = (Inl (BadRequest (rpc_error (err_json ''BLOCKED''))), w1))"
proof -
  define w1 where "w1 = w\<lparr>w_db := (w_db w)\<lparr>mq_blocks := if (u, v, sc) \<in> set (mq_blocks (w_db w)) then mq_blocks (w_db w) else mq_blocks (w_db w) @ [(u, v, sc)]\<rparr>\<rparr>"
  have run: "trust_block base u (Some (JStr v)) (Some (JStr sc)) w = (Inr (ok_json []), w1)"
    unfolding w1_def by (rule block_run [OF u v(2) sc])
  have blocks: "set (mq_blocks (w_db w1)) = insert (u, v, sc) (set (mq_blocks (w_db w)))" by (auto simp: w1_def)
  have frame: "w1 = w\<lparr>w_db := (w_db w)\<lparr>mq_blocks := mq_blocks (w_db w1)\<rparr>\<rparr>" by (simp add: w1_def)
  have act: "assert_active u (w_db w1)" "assert_active v (w_db w1)" using active by (simp_all add: w1_def assert_active_def account_of_def)
  have there: "(u, v, sc) \<in> set (mq_blocks (w_db w1))" using blocks by simp
  have blocked: "is_blocked a b k (w_db w1)" if "sc = ''ALL'' \<or> sc = k" "(a, b) = (u, v) \<or> (a, b) = (v, u)" for a b k
    unfolding is_blocked_def using there that by (intro bexI [of _ "(u, v, sc)"]) auto
  have "ask base v u t w1 = (Inl (BadRequest (rpc_error (err_json ''BLOCKED''))), w1) \<and>
       ask base u v t w1 = (Inl (BadRequest (rpc_error (err_json ''BLOCKED''))), w1)" if "sc \<in> {''ALL'', ''DM''}"
    using blocked_ask [OF v(1) act(2) blocked] blocked_ask [OF u(1) act(1) blocked] that by auto
  moreover have "so_request base v u recipient t w1 = (Inl (BadRequest (rpc_error (err_json ''BLOCKED''))), w1) \<and>
       so_request base u v recipient t w1 = (Inl (BadRequest (rpc_error (err_json ''BLOCKED''))), w1)" if "sc = ''ALL''"
    using blocked_request [OF v(1) act(2) blocked] blocked_request [OF u(1) act(1) blocked] that by auto
  moreover have "\<exists>w2. trust_unblock base u (Some (JStr v)) (Some (JStr sc)) w1 = (Inr (ok_json []), w2) \<and>
       set (mq_blocks (w_db w2)) = set (mq_blocks (w_db w)) - {(u, v, sc)}"
    unfolding unblock_run [OF u(1) sc] using blocks by auto
  moreover have "\<exists>w3. trust_unblock base v (Some (JStr u)) (Some (JStr sc)) w1 = (Inr (ok_json []), w3) \<and> (u, v, sc) \<in> set (mq_blocks (w_db w3))"
    unfolding unblock_run [OF v(1) sc] using there uv by auto
  ultimately show ?thesis using run blocks frame by blast
qed

section \<open>Reporting\<close>

lemma fan_out_all:
  fixes t :: "'a trustDb_scheme txs"
  assumes "tx_err t = None" and "u \<in> fst ` set (profiles (tx_db t))" and "set to \<subseteq> fst ` set (profiles (tx_db t))"
  shows "\<exists>ns. tx_each (fan_out u msg meta) to s t = (Inr (), t\<lparr>tx_db := (tx_db t)\<lparr>nt_rows := nt_rows (tx_db t) @ ns\<rparr>\<rparr>) \<and>
    map (\<lambda>n. (nt_recipient n, nt_message n, nt_read n)) ns = map (\<lambda>a. (a, msg, False)) to"
  using assms
proof (induction to arbitrary: t)
  case Nil
  then show ?case by (intro exI [of _ "[]"]) (simp add: tx_return_def)
next
  case (Cons a to)
  let ?t = "t\<lparr>tx_db := add_notice a (Some u) ''PLATFORM_ANNOUNCEMENT'' ''New report filed'' msg None meta (sess_now s) (tx_db t)\<rparr>"
  have "create_notice a (Some u) ''PLATFORM_ANNOUNCEMENT'' ''New report filed'' msg None meta s (tx_db t) = Inr (ok_json [(''created'', JBool True)], tx_db ?t)"
    using Cons.prems(2,3) by (simp add: create_notice_def)
  then have one: "fan_out u msg meta a s t = (Inr (), ?t)"
    using Cons.prems(1) by (simp add: fan_out_def tx_then_def tx_defs rpc_def ok_json_def)
  have "tx_err ?t = None" "u \<in> fst ` set (profiles (tx_db ?t))" "set to \<subseteq> fst ` set (profiles (tx_db ?t))"
    using Cons.prems by (simp_all add: add_notice_def)
  from Cons.IH [OF this] obtain ns where ns: "tx_each (fan_out u msg meta) to s ?t = (Inr (), ?t\<lparr>tx_db := (tx_db ?t)\<lparr>nt_rows := nt_rows (tx_db ?t) @ ns\<rparr>\<rparr>)"
    "map (\<lambda>n. (nt_recipient n, nt_message n, nt_read n)) ns = map (\<lambda>a. (a, msg, False)) to" by blast
  obtain m where m: "tx_db ?t = (tx_db t)\<lparr>nt_rows := nt_rows (tx_db t) @ [m]\<rparr>" "nt_recipient m = a" "nt_message m = msg" "\<not> nt_read m"
    by (simp add: add_notice_def)
  show ?case
  proof (intro exI conjI)
    show "tx_each (fan_out u msg meta) (a # to) s t = (Inr (), t\<lparr>tx_db := (tx_db t)\<lparr>nt_rows := nt_rows (tx_db t) @ m # ns\<rparr>\<rparr>)"
      using ns(1) m(1) by (simp add: tx_then_def tx_bind_def one)
    show "map (\<lambda>n. (nt_recipient n, nt_message n, nt_read n)) (m # ns) = map (\<lambda>a. (a, msg, False)) (a # to)" using ns(2) m by simp
  qed
qed

lemma target_found: "(n, ty) \<in> set TARGET_TYPES \<Longrightarrow> find (\<lambda>(k, ty). Some (JStr n) = Some (JStr k)) TARGET_TYPES = Some (n, ty)"
  by (auto simp: TARGET_TYPES_def)

text \<open>
  A report is stored and reaches no administrator.  A complete report is stored once, pending, in the name of its reporter.  The
  loop that is to tell every administrator runs over the administrators that the reporter may read: for a reporter who is none
  himself that is nobody, so that no notification is written at all.  And whoever the reporter is, party or not, a report of a
  question keeps it from being settled.
\<close>

theorem report_outcome:
  fixes w :: "'a trustDb_scheme world"
  assumes u: "u \<noteq> []" "u \<in> fst ` set (profiles (w_db w))" and admins: "set (admins (w_db w)) \<subseteq> fst ` set (profiles (w_db w))"
    and b: "jget b ''targetType'' = Some (JStr n)" "(n, ty) \<in> set TARGET_TYPES" "jget b ''targetId'' = Some (JStr t)" "t \<noteq> []" "uuid_row t = Some i"
    and reason: "jget b ''reason'' = Some (JStr r)" "trim r \<noteq> []" and details: "sql_text (coalesce (jget b ''details'') (Some JNull)) = Inr det"
  shows "\<exists>w' ns. trust_report uuid_row base u (Some b) w = (Inr (JObj [(''success'', JBool True)]), w') \<and>
    w' = w\<lparr>w_db := (w_db w)\<lparr>nt_rows := nt_rows (w_db w) @ ns, reports := reports (w_db w) @
       [\<lparr>rp_target_type = ty, rp_target_id = i, rp_status = R_PENDING, rp_reporter = u, rp_reason = r, rp_details = det\<rparr>]\<rparr>\<rparr> \<and>
    map nt_recipient ns = (if u \<in> set (admins (w_db w)) then admins (w_db w) else []) \<and>
    (ty = R_DM \<longrightarrow> (\<forall>x base'. find (\<lambda>x. dw_id x = i) (dm_windows (w_db w)) = Some x \<and> dw_kind x = PAID \<and> dw_charge x \<noteq> 0 \<and> dw_status x = ANSWERED \<longrightarrow>
       runAsService base' (rpc (rpc_settle_window i)) w' = (Inl (BadRequest (rpc_error (err_json ''REPORT_PENDING''))), w')))"
proof -
  let ?s = "base\<lparr>app_user_id := Some u\<rparr>" and ?meta = "JObj [(''targetType'', JStr n), (''targetId'', JStr t)]"
  let ?row = "\<lparr>rp_target_type = ty, rp_target_id = i, rp_status = R_PENDING, rp_reporter = u, rp_reason = r, rp_details = det\<rparr>"
  let ?d1 = "(w_db w)\<lparr>reports := reports (w_db w) @ [?row]\<rparr>"
  let ?t1 = "\<lparr>tx_db = ?d1, tx_err = None, tx_log = w_log w\<rparr>"
  have user: "current_user_id ?s = Some u" using u(1) by (simp add: current_user_id_def)
  have to: "admins_seen ?s ?d1 = (if u \<in> set (admins (w_db w)) then admins (w_db w) else [])"
    using user by (auto simp: admins_seen_def admin_session_def filter_id_conv filter_empty_conv)
  have "set (admins_seen ?s ?d1) \<subseteq> fst ` set (profiles (tx_db ?t1))" using admins unfolding to by auto
  then obtain ns where ns: "tx_each (fan_out u (report_message n r) ?meta) (admins_seen ?s ?d1) ?s ?t1 = (Inr (), ?t1\<lparr>tx_db := (tx_db ?t1)\<lparr>nt_rows := nt_rows (tx_db ?t1) @ ns\<rparr>\<rparr>)"
    "map (\<lambda>n. (nt_recipient n, nt_message n, nt_read n)) ns = map (\<lambda>a. (a, report_message n r, False)) (admins_seen ?s ?d1)"
    using fan_out_all [of ?t1 u "admins_seen ?s ?d1" "report_message n r" ?meta ?s] u(2) by auto
  have ins: "execute (ins_report uuid_row u ty (jget b ''targetId'') r (coalesce (jget b ''details'') (Some JNull))) ?s \<lparr>tx_db = w_db w, tx_err = None, tx_log = w_log w\<rparr> = (Inr (), ?t1)"
    using b(3-5) details user u(2) by (simp add: execute_def ins_report_def with_text_def)
  let ?w' = "w\<lparr>w_db := (w_db w)\<lparr>nt_rows := nt_rows (w_db w) @ ns, reports := reports (w_db w) @ [?row]\<rparr>\<rparr>"
  have body: "runAs base u (report_body uuid_row u n ty r b) w = (Inr (JObj [(''success'', JBool True)]), ?w')"
    unfolding runAs_def transaction_def report_body_def tx_bind_def ins tx_then_def
    using ns(1) b(3) by (simp add: execute_def tx_return_def)
  have run: "trust_report uuid_row base u (Some b) w = (Inr (JObj [(''success'', JBool True)]), ?w')"
    using target_found [OF b(2)] b reason body by (simp add: trust_report_def jopt_def coalesce_def)
  have told: "map nt_recipient ns = admins_seen ?s ?d1"
    using arg_cong [OF ns(2), of "map fst"] by (simp add: comp_def)
  have frozen: "runAsService base' (rpc (rpc_settle_window i)) ?w' = (Inl (BadRequest (rpc_error (err_json ''REPORT_PENDING''))), ?w')"
    if "ty = R_DM" "find (\<lambda>x. dw_id x = i) (dm_windows (w_db w)) = Some x" "dw_kind x = PAID" "dw_charge x \<noteq> 0" "dw_status x = ANSWERED" for x base'
    using that by (simp add: runAsService_def transaction_def rpc_def tx_defs rpc_settle_window_def is_system_def under_report_def err_json_def)
  show ?thesis using run told frozen unfolding to by blast
qed

section \<open>The inbox\<close>

lemma sorted_below_cut:
  fixes c :: "'x \<Rightarrow> int"
  assumes "sorted (map (\<lambda>x. - c x) xs)"
  shows "filter (\<lambda>x. c x < t) xs = dropWhile (\<lambda>x. t \<le> c x) xs"
  using assms
proof (induction xs)
  case (Cons x xs)
  show ?case
  proof (cases "t \<le> c x")
    case False
    then have "filter (\<lambda>x. c x < t) xs = xs" using Cons.prems by (auto simp: filter_id_conv)
    then show ?thesis using False by simp
  qed (use Cons in simp)
qed simp

lemma page_cut:
  fixes c :: "'x \<Rightarrow> int"
  assumes s: "sorted (map (\<lambda>x. - c x) xs)" and n: "0 < n" "n < length xs"
  shows "filter (\<lambda>x. c x < c (xs ! (n - 1))) xs = dropWhile (\<lambda>x. c x = c (xs ! (n - 1))) (drop n xs)"
proof -
  let ?t = "c (xs ! (n - 1))"
  have order: "c (xs ! j) \<le> c (xs ! i)" if "i \<le> j" "j < length xs" for i j
    using sorted_nth_mono [OF s, of i j] that by simp
  have first: "?t \<le> c x" if x: "x \<in> set (take n xs)" for x
  proof -
    from x obtain i where "i < n" "x = xs ! i" using n by (auto simp: in_set_conv_nth)
    then show ?thesis using order [of i "n - 1"] n by simp
  qed
  have rest: "c x \<le> ?t" if x: "x \<in> set (drop n xs)" for x
  proof -
    from x obtain i where "i < length (drop n xs)" "x = drop n xs ! i" unfolding in_set_conv_nth by blast
    then show ?thesis using order [of "n - 1" "n + i"] n by simp
  qed
  have "dropWhile (\<lambda>x. ?t \<le> c x) (take n xs @ drop n xs) = dropWhile (\<lambda>x. ?t \<le> c x) (drop n xs)"
    by (rule dropWhile_append2) (rule first)
  also have "\<dots> = dropWhile (\<lambda>x. c x = ?t) (drop n xs)" by (rule dropWhile_cong [OF refl]) (use rest in force)
  finally show ?thesis using sorted_below_cut [OF s, of ?t] by simp
qed

lemma newest_first_sorted: "sorted (map (\<lambda>n. - nt_created n) (newest_first ns))"
  by (simp add: newest_first_def)

lemma newest_first_filter: "filter P (newest_first ns) = newest_first (filter P ns)"
  by (simp add: newest_first_def filter_sort)

lemma own_notices_user: "u \<noteq> [] \<Longrightarrow> own_notices (base\<lparr>app_user_id := Some u\<rparr>) u d = filter (\<lambda>n. nt_recipient n = u) (nt_rows d)"
  by (auto simp: own_notices_def current_user_id_def intro!: filter_cong)

text \<open>
  Paging through the inbox.  The first page is the newest \<open>n\<close> rows.  The next page, asked for with the time of the last row,
  is what follows that row, whatever newer rows have been written in between; except that rows with exactly the time of that row
  that did not fit on the first page are on neither.  With distinct times nothing is skipped.
\<close>

theorem inbox_pages:
  fixes w w2 :: "'a trustDb_scheme world"
  assumes u: "u \<noteq> []" and S: "S = newest_first (filter (\<lambda>x. nt_recipient x = u) (nt_rows (w_db w)))" and n: "0 < n" "n < length S"
    and cursor: "c \<noteq> []" "ts_in c = Some (nt_created (S ! (n - 1)))"
    and later: "nt_rows (w_db w2) = nt_rows (w_db w) @ newer" "\<forall>x \<in> set newer. nt_created (S ! (n - 1)) \<le> nt_created x"
  shows "inbox_list ts_in base u None (Some n) w = (Inr (take n S), w) \<and>
    inbox_list ts_in base u (Some c) (Some n) w2 = (Inr (take n (dropWhile (\<lambda>x. nt_created x = nt_created (S ! (n - 1))) (drop n S))), w2) \<and>
    (distinct (map nt_created S) \<longrightarrow> inbox_list ts_in base u (Some c) (Some n) w2 = (Inr (take n (drop n S)), w2))"
proof -
  let ?t = "nt_created (S ! (n - 1))"
  have one: "inbox_list ts_in base u None (Some n) w = (Inr (take n S), w)"
    using u S by (simp add: inbox_list_def runAs_def transaction_def execute_def inbox_page_def own_notices_user)
  have "filter (\<lambda>x. nt_created x < ?t) newer = []" using later(2) by (auto simp: filter_empty_conv)
  then have "filter (\<lambda>x. nt_created x < ?t) (filter (\<lambda>x. nt_recipient x = u) (nt_rows (w_db w2))) =
      filter (\<lambda>x. nt_created x < ?t) (filter (\<lambda>x. nt_recipient x = u) (nt_rows (w_db w)))"
    using later(1) by (auto simp: filter_empty_conv)
  then have "newest_first (filter (\<lambda>x. nt_created x < ?t) (filter (\<lambda>x. nt_recipient x = u) (nt_rows (w_db w2)))) = filter (\<lambda>x. nt_created x < ?t) S"
    unfolding S newest_first_filter by simp
  also have "\<dots> = dropWhile (\<lambda>x. nt_created x = ?t) (drop n S)" using page_cut [of nt_created S n] n newest_first_sorted unfolding S by blast
  finally have two: "inbox_list ts_in base u (Some c) (Some n) w2 = (Inr (take n (dropWhile (\<lambda>x. nt_created x = ?t) (drop n S))), w2)"
    using u cursor by (simp add: inbox_list_def runAs_def transaction_def execute_def inbox_page_def own_notices_user)
  have "dropWhile (\<lambda>x. nt_created x = ?t) (drop n S) = drop n S" if "distinct (map nt_created S)"
  proof (cases "drop n S")
    case (Cons y ys)
    then have "y = S ! n" using n by (metis hd_drop_conv_nth list.sel(1))
    then have "nt_created y \<noteq> ?t" using that n nth_eq_iff_index_eq [of "map nt_created S" n "n - 1"] by simp
    then show ?thesis using Cons by simp
  qed simp
  then show ?thesis using one two by simp
qed

text \<open>Marking touches the rows of the caller only.\<close>

lemma mark_all_run:
  fixes w :: "'a trustDb_scheme world"
  assumes "u \<noteq> []"
  shows "markAll base u w = (Inr (JObj [(''success'', JBool True)]), w\<lparr>w_db := (w_db w)\<lparr>nt_rows :=
    map (\<lambda>n. if nt_recipient n = u \<and> \<not> nt_read n then n\<lparr>nt_read := True, nt_read_at := Some (sess_now base)\<rparr> else n) (nt_rows (w_db w))\<rparr>\<rparr>)"
  using assms by (auto simp: markAll_def runAs_def transaction_def execute_def mark_notices_def own_notices_user)

section \<open>Concrete runs\<close>

definition demo_notice :: "nat \<Rightarrow> int \<Rightarrow> notice" where
  "demo_notice i t = \<lparr>nt_id = i, nt_recipient = ''fan'', nt_actor = None, nt_event = ''PLATFORM_ANNOUNCEMENT'', nt_title = None, nt_message = [], nt_entity = None,
     nt_metadata = JNull, nt_read = False, nt_read_at = None, nt_created = t\<rparr>"

definition demo_trust :: trustDb where
  "demo_trust = shoutoutDb.extend ((demo_requests AWAITING_PARTNER_VIDEO)\<lparr>
      mq_accounts := [\<lparr>ac_id = ''fan'', ac_name = None, ac_fan_role = True, ac_active = True, ac_verified = False\<rparr>,
        \<lparr>ac_id = ''star'', ac_name = None, ac_fan_role = False, ac_active = True, ac_verified = False\<rparr>]\<rparr>)
    \<lparr>nt_rows = [demo_notice 1 5, demo_notice 2 4, demo_notice 3 4]\<rparr>"

abbreviation demo_inbox :: "trustDb world" where
  "demo_inbox \<equiv> \<lparr>w_db = demo_trust, w_log = []\<rparr>"

lemma demo_trust_simps [simp]:
  "mq_accounts demo_trust = [\<lparr>ac_id = ''fan'', ac_name = None, ac_fan_role = True, ac_active = True, ac_verified = False\<rparr>,
     \<lparr>ac_id = ''star'', ac_name = None, ac_fan_role = False, ac_active = True, ac_verified = False\<rparr>]"
  "profiles demo_trust = [(''fan'', Some ''Ann''), (''star'', None)]" "admins demo_trust = []" "mq_blocks demo_trust = []" "reports demo_trust = []"
  "nt_rows demo_trust = [demo_notice 1 5, demo_notice 2 4, demo_notice 3 4]"
  by (simp_all add: demo_trust_def shoutoutDb.defs demo_requests_def messagingDb.defs demo_questions_def services.defs demo_services_def)

theorem blocks_stop_contact_witness:
  "\<exists>w1 :: trustDb world. trust_block demo_session ''star'' (Some (JStr ''fan'')) (Some (JStr ''ALL'')) demo_inbox = (Inr (ok_json []), w1) \<and>
     ask demo_session ''fan'' ''star'' ''hi'' w1 = (Inl (BadRequest (rpc_error (err_json ''BLOCKED''))), w1) \<and>
     so_request demo_session ''fan'' ''star'' ''Mum'' ''hi'' w1 = (Inl (BadRequest (rpc_error (err_json ''BLOCKED''))), w1)"
proof -
  have "\<exists>w1. trust_block demo_session ''star'' (Some (JStr ''fan'')) (Some (JStr ''ALL'')) demo_inbox = (Inr (ok_json []), w1) \<and>
     ask demo_session ''fan'' ''star'' ''hi'' w1 = (Inl (BadRequest (rpc_error (err_json ''BLOCKED''))), w1)"
    using blocks_stop_contact [of "''star''" demo_inbox "''fan''" "''ALL''" demo_session "''hi''" "''Mum''"]
    by (force simp: BLOCK_SCOPES_def assert_active_def account_of_def)
  then show ?thesis
    using blocks_stop_contact [of "''star''" demo_inbox "''fan''" "''ALL''" demo_session "''hi''" "''Mum''"]
    by (force simp: BLOCK_SCOPES_def assert_active_def account_of_def)
qed

theorem report_outcome_witness:
  "\<exists>w'. trust_report (\<lambda>_. Some 7) demo_session ''fan'' (Some (JObj [(''targetType'', JStr ''DM''), (''targetId'', JStr ''7''), (''reason'', JStr ''rude'')])) demo_inbox =
     (Inr (JObj [(''success'', JBool True)]), w') \<and> map rp_target_id (reports (w_db w')) = [7] \<and> nt_rows (w_db w') = nt_rows demo_trust"
proof -
  let ?b = "JObj [(''targetType'', JStr ''DM''), (''targetId'', JStr ''7''), (''reason'', JStr ''rude'')]"
  have t: "trim ''rude'' \<noteq> []" by code_simp
  have m: "(''DM'', R_DM) \<in> set TARGET_TYPES" by (simp add: TARGET_TYPES_def)
  show ?thesis
    using report_outcome [of "''fan''" demo_inbox ?b "''DM''" R_DM "''7''" "\<lambda>_. Some 7" 7 "''rude''" None demo_session] t m by (auto simp: coalesce_def)
qed

theorem inbox_pages_witness:
  "inbox_list (\<lambda>_. Some 4) demo_session ''fan'' None (Some 2) demo_inbox = (Inr [demo_notice 1 5, demo_notice 2 4], demo_inbox) \<and>
   inbox_list (\<lambda>_. Some 4) demo_session ''fan'' (Some ''4'') (Some 2) demo_inbox = (Inr [], demo_inbox)"
proof -
  have S: "newest_first (filter (\<lambda>x. nt_recipient x = ''fan'') (nt_rows demo_trust)) = [demo_notice 1 5, demo_notice 2 4, demo_notice 3 4]"
    by (simp add: newest_first_def demo_notice_def)
  show ?thesis
    using inbox_pages [of "''fan''" "[demo_notice 1 5, demo_notice 2 4, demo_notice 3 4]" demo_inbox 2 "''4''" "\<lambda>_. Some 4" demo_inbox "[]" demo_session] S
    by (simp add: demo_notice_def)
qed

end
