(* ===== verification/Routes.thy ===== *)
theory Routes
  imports Throttle Jwt_Guard Validation Identity Catalog Wallet
begin

text \<open>
  The surface of the API: the controllers of all modules as data, in the order in which \<open>src/app.module.ts\<close> imports the
  modules and every class declares its methods; and what happens to a request: the rate limit, the guards of the route, the
  pipes of its arguments, the handler (\<open>src/main.ts\<close>).  What a handler does is an argument; the theories of the components define it.
\<close>

section \<open>A route\<close>

datatype seg = is_Lit: Lit string | Par string
datatype guardKind = JwtG | AdminG
datatype input = NoInput | BodyOf dto | QueryOf dto

text \<open>\<open>rt_uuids\<close> are the parameters with \<open>ParseUUIDPipe\<close>; \<open>rt_input\<close> is an argument whose type is a validated class.\<close>

record routeDef =
  rt_method :: string
  rt_path :: "seg list"
  rt_guards :: "guardKind list"
  rt_limit :: "rateLimit option"
  rt_uuids :: "string list"
  rt_input :: input
  rt_handler :: string

section \<open>The controllers\<close>

definition health_routes :: "routeDef list" where
  "health_routes = [
     \<lparr>rt_method = ''GET'', rt_path = [], rt_guards = [], rt_limit = None, rt_uuids = [], rt_input = NoInput, rt_handler = ''HealthController.health''\<rparr>]"

definition push_routes :: "routeDef list" where
  "push_routes = [
     \<lparr>rt_method = ''POST'', rt_path = [Lit ''push'', Lit ''register''], rt_guards = [JwtG], rt_limit = None, rt_uuids = [], rt_input = NoInput, rt_handler = ''PushController.register''\<rparr>]"

definition storage_routes :: "routeDef list" where
  "storage_routes = [
     \<lparr>rt_method = ''POST'', rt_path = [Lit ''storage'', Lit ''upload-url''], rt_guards = [JwtG], rt_limit = None, rt_uuids = [], rt_input = NoInput, rt_handler = ''StorageController.uploadUrl''\<rparr>]"

definition identity_routes :: "routeDef list" where
  "identity_routes = [
     \<lparr>rt_method = ''GET'', rt_path = [Lit ''me''], rt_guards = [JwtG], rt_limit = None, rt_uuids = [], rt_input = NoInput, rt_handler = ''IdentityController.me''\<rparr>,
     \<lparr>rt_method = ''POST'', rt_path = [Lit ''me''], rt_guards = [JwtG], rt_limit = None, rt_uuids = [], rt_input = BodyOf CreateProfileDto, rt_handler = ''IdentityController.create''\<rparr>,
     \<lparr>rt_method = ''PUT'', rt_path = [Lit ''me''], rt_guards = [JwtG], rt_limit = None, rt_uuids = [], rt_input = BodyOf UpdateProfileDto, rt_handler = ''IdentityController.update''\<rparr>,
     \<lparr>rt_method = ''PUT'', rt_path = [Lit ''me'', Lit ''partner''], rt_guards = [JwtG], rt_limit = None, rt_uuids = [], rt_input = BodyOf UpdatePartnerProfileDto, rt_handler = ''IdentityController.updatePartner''\<rparr>,
     \<lparr>rt_method = ''POST'', rt_path = [Lit ''me'', Lit ''kyc''], rt_guards = [JwtG], rt_limit = None, rt_uuids = [], rt_input = BodyOf SubmitKycDto, rt_handler = ''IdentityController.kyc''\<rparr>,
     \<lparr>rt_method = ''POST'', rt_path = [Lit ''me'', Lit ''deletion''], rt_guards = [JwtG], rt_limit = None, rt_uuids = [], rt_input = NoInput, rt_handler = ''IdentityController.del''\<rparr>,
     \<lparr>rt_method = ''POST'', rt_path = [Lit ''me'', Lit ''deletion'', Lit ''cancel''], rt_guards = [JwtG], rt_limit = None, rt_uuids = [], rt_input = NoInput, rt_handler = ''IdentityController.cancelDel''\<rparr>,
     \<lparr>rt_method = ''POST'', rt_path = [Lit ''me'', Lit ''partner'', Lit ''application''], rt_guards = [JwtG], rt_limit = None, rt_uuids = [], rt_input = BodyOf SubmitApplicationDto, rt_handler = ''IdentityController.apply''\<rparr>,
     \<lparr>rt_method = ''GET'', rt_path = [Lit ''me'', Lit ''partner'', Lit ''application''], rt_guards = [JwtG], rt_limit = None, rt_uuids = [], rt_input = NoInput, rt_handler = ''IdentityController.myApp''\<rparr>,
     \<lparr>rt_method = ''POST'', rt_path = [Lit ''me'', Lit ''partner'', Lit ''submit-for-review''], rt_guards = [JwtG], rt_limit = None, rt_uuids = [], rt_input = NoInput, rt_handler = ''IdentityController.submit''\<rparr>]"

definition referrals_routes :: "routeDef list" where
  "referrals_routes = [
     \<lparr>rt_method = ''GET'', rt_path = [Lit ''referrals'', Lit ''me''], rt_guards = [JwtG], rt_limit = None, rt_uuids = [], rt_input = NoInput, rt_handler = ''ReferralsController.mine''\<rparr>]"

definition discovery_routes :: "routeDef list" where
  "discovery_routes = [
     \<lparr>rt_method = ''GET'', rt_path = [Lit ''discover''], rt_guards = [], rt_limit = None, rt_uuids = [], rt_input = QueryOf FeedQueryDto, rt_handler = ''DiscoveryController.feed''\<rparr>,
     \<lparr>rt_method = ''GET'', rt_path = [Lit ''discover'', Lit ''categories''], rt_guards = [], rt_limit = None, rt_uuids = [], rt_input = NoInput, rt_handler = ''DiscoveryController.categories''\<rparr>,
     \<lparr>rt_method = ''GET'', rt_path = [Lit ''discover'', Lit ''favourites''], rt_guards = [JwtG], rt_limit = None, rt_uuids = [], rt_input = NoInput, rt_handler = ''DiscoveryController.favourites''\<rparr>,
     \<lparr>rt_method = ''GET'', rt_path = [Lit ''discover'', Lit ''favourites'', Lit ''ids''], rt_guards = [JwtG], rt_limit = None, rt_uuids = [], rt_input = NoInput, rt_handler = ''DiscoveryController.favIds''\<rparr>,
     \<lparr>rt_method = ''POST'', rt_path = [Lit ''discover'', Lit ''favourites'', Par ''partnerId''], rt_guards = [JwtG], rt_limit = None, rt_uuids = [''partnerId''], rt_input = NoInput, rt_handler = ''DiscoveryController.toggleFav''\<rparr>,
     \<lparr>rt_method = ''POST'', rt_path = [Lit ''discover'', Lit ''waitlist'', Par ''partnerId''], rt_guards = [JwtG], rt_limit = None, rt_uuids = [''partnerId''], rt_input = NoInput, rt_handler = ''DiscoveryController.joinWaitlist''\<rparr>,
     \<lparr>rt_method = ''GET'', rt_path = [Lit ''discover'', Lit ''waitlist'', Par ''partnerId''], rt_guards = [JwtG], rt_limit = None, rt_uuids = [''partnerId''], rt_input = NoInput, rt_handler = ''DiscoveryController.waitlistStatus''\<rparr>,
     \<lparr>rt_method = ''GET'', rt_path = [Lit ''discover'', Lit ''handle'', Par ''handle''], rt_guards = [], rt_limit = None, rt_uuids = [], rt_input = NoInput, rt_handler = ''DiscoveryController.byHandle''\<rparr>,
     \<lparr>rt_method = ''GET'', rt_path = [Lit ''discover'', Lit ''partner'', Par ''id''], rt_guards = [], rt_limit = None, rt_uuids = [''id''], rt_input = NoInput, rt_handler = ''DiscoveryController.partner''\<rparr>]"

definition catalog_routes :: "routeDef list" where
  "catalog_routes = [
     \<lparr>rt_method = ''GET'', rt_path = [Lit ''partner'', Lit ''catalog'', Lit ''services''], rt_guards = [JwtG], rt_limit = None, rt_uuids = [], rt_input = NoInput, rt_handler = ''CatalogController.list''\<rparr>,
     \<lparr>rt_method = ''POST'', rt_path = [Lit ''partner'', Lit ''catalog'', Lit ''services''], rt_guards = [JwtG], rt_limit = None, rt_uuids = [], rt_input = NoInput, rt_handler = ''CatalogController.set''\<rparr>,
     \<lparr>rt_method = ''GET'', rt_path = [Lit ''partner'', Lit ''catalog'', Lit ''categories''], rt_guards = [JwtG], rt_limit = None, rt_uuids = [], rt_input = NoInput, rt_handler = ''CatalogController.listCategories''\<rparr>,
     \<lparr>rt_method = ''POST'', rt_path = [Lit ''partner'', Lit ''catalog'', Lit ''categories''], rt_guards = [JwtG], rt_limit = None, rt_uuids = [], rt_input = NoInput, rt_handler = ''CatalogController.setCategories''\<rparr>,
     \<lparr>rt_method = ''GET'', rt_path = [Lit ''partner'', Lit ''catalog'', Lit ''social-links''], rt_guards = [JwtG], rt_limit = None, rt_uuids = [], rt_input = NoInput, rt_handler = ''CatalogController.listSocial''\<rparr>,
     \<lparr>rt_method = ''POST'', rt_path = [Lit ''partner'', Lit ''catalog'', Lit ''social-links''], rt_guards = [JwtG], rt_limit = None, rt_uuids = [], rt_input = NoInput, rt_handler = ''CatalogController.social''\<rparr>,
     \<lparr>rt_method = ''DELETE'', rt_path = [Lit ''partner'', Lit ''catalog'', Lit ''social-links'', Par ''id''], rt_guards = [JwtG], rt_limit = None, rt_uuids = [], rt_input = NoInput, rt_handler = ''CatalogController.delSocial''\<rparr>]"

definition availability_routes :: "routeDef list" where
  "availability_routes = [
     \<lparr>rt_method = ''POST'', rt_path = [Lit ''availability''], rt_guards = [JwtG], rt_limit = None, rt_uuids = [], rt_input = NoInput, rt_handler = ''AvailabilityController.set''\<rparr>,
     \<lparr>rt_method = ''GET'', rt_path = [Lit ''availability''], rt_guards = [], rt_limit = None, rt_uuids = [], rt_input = NoInput, rt_handler = ''AvailabilityController.forPartner''\<rparr>]"

definition wallet_routes :: "routeDef list" where
  "wallet_routes = [
     \<lparr>rt_method = ''GET'', rt_path = [Lit ''wallet'', Lit ''balance''], rt_guards = [JwtG], rt_limit = None, rt_uuids = [], rt_input = NoInput, rt_handler = ''WalletController.balance''\<rparr>,
     \<lparr>rt_method = ''GET'', rt_path = [Lit ''wallet'', Lit ''history''], rt_guards = [JwtG], rt_limit = None, rt_uuids = [], rt_input = QueryOf HistoryQueryDto, rt_handler = ''WalletController.history''\<rparr>,
     \<lparr>rt_method = ''POST'', rt_path = [Lit ''wallet'', Lit ''topup''], rt_guards = [JwtG], rt_limit = Some \<lparr>rl_limit = 10, rl_windowSeconds = 60\<rparr>, rt_uuids = [], rt_input = BodyOf CreateTopupDto, rt_handler = ''WalletController.topup''\<rparr>,
     \<lparr>rt_method = ''POST'', rt_path = [Lit ''wallet'', Lit ''webhook'', Lit ''razorpay''], rt_guards = [], rt_limit = None, rt_uuids = [], rt_input = NoInput, rt_handler = ''WalletController.webhook''\<rparr>]"

definition calls_routes :: "routeDef list" where
  "calls_routes = [
     \<lparr>rt_method = ''GET'', rt_path = [Lit ''calls'', Lit ''preview''], rt_guards = [JwtG], rt_limit = None, rt_uuids = [], rt_input = QueryOf PreviewPriceDto, rt_handler = ''CallsController.preview''\<rparr>,
     \<lparr>rt_method = ''POST'', rt_path = [Lit ''calls'', Lit ''book''], rt_guards = [JwtG], rt_limit = None, rt_uuids = [], rt_input = BodyOf BookCallDto, rt_handler = ''CallsController.book''\<rparr>,
     \<lparr>rt_method = ''GET'', rt_path = [Lit ''calls'', Lit ''bookings''], rt_guards = [JwtG], rt_limit = None, rt_uuids = [], rt_input = NoInput, rt_handler = ''CallsController.bookings''\<rparr>,
     \<lparr>rt_method = ''GET'', rt_path = [Lit ''calls'', Lit ''operational-hours''], rt_guards = [JwtG], rt_limit = None, rt_uuids = [], rt_input = NoInput, rt_handler = ''CallsController.operationalHours''\<rparr>,
     \<lparr>rt_method = ''GET'', rt_path = [Lit ''calls'', Lit ''queue''], rt_guards = [JwtG], rt_limit = None, rt_uuids = [], rt_input = NoInput, rt_handler = ''CallsController.queue''\<rparr>,
     \<lparr>rt_method = ''GET'', rt_path = [Lit ''calls'', Lit ''active''], rt_guards = [JwtG], rt_limit = None, rt_uuids = [], rt_input = NoInput, rt_handler = ''CallsController.active''\<rparr>,
     \<lparr>rt_method = ''GET'', rt_path = [Lit ''calls'', Lit ''history''], rt_guards = [JwtG], rt_limit = None, rt_uuids = [], rt_input = NoInput, rt_handler = ''CallsController.history''\<rparr>,
     \<lparr>rt_method = ''GET'', rt_path = [Lit ''calls'', Lit ''upcoming''], rt_guards = [JwtG], rt_limit = None, rt_uuids = [], rt_input = NoInput, rt_handler = ''CallsController.upcoming''\<rparr>,
     \<lparr>rt_method = ''POST'', rt_path = [Lit ''calls'', Par ''bookingId'', Lit ''cancel''], rt_guards = [JwtG], rt_limit = None, rt_uuids = [''bookingId''], rt_input = NoInput, rt_handler = ''CallsController.cancel''\<rparr>,
     \<lparr>rt_method = ''POST'', rt_path = [Lit ''calls'', Par ''bookingId'', Lit ''ready''], rt_guards = [JwtG], rt_limit = None, rt_uuids = [''bookingId''], rt_input = NoInput, rt_handler = ''CallsController.ready''\<rparr>,
     \<lparr>rt_method = ''POST'', rt_path = [Lit ''calls'', Par ''bookingId'', Lit ''initiate''], rt_guards = [JwtG], rt_limit = None, rt_uuids = [''bookingId''], rt_input = NoInput, rt_handler = ''CallsController.init''\<rparr>,
     \<lparr>rt_method = ''POST'', rt_path = [Lit ''calls'', Par ''bookingId'', Lit ''join''], rt_guards = [JwtG], rt_limit = None, rt_uuids = [''bookingId''], rt_input = NoInput, rt_handler = ''CallsController.join''\<rparr>,
     \<lparr>rt_method = ''POST'', rt_path = [Lit ''calls'', Lit ''call'', Par ''callId'', Lit ''heartbeat''], rt_guards = [JwtG], rt_limit = None, rt_uuids = [''callId''], rt_input = BodyOf HeartbeatDto, rt_handler = ''CallsController.hb''\<rparr>,
     \<lparr>rt_method = ''POST'', rt_path = [Lit ''calls'', Lit ''call'', Par ''callId'', Lit ''complete''], rt_guards = [JwtG], rt_limit = None, rt_uuids = [''callId''], rt_input = NoInput, rt_handler = ''CallsController.done''\<rparr>,
     \<lparr>rt_method = ''POST'', rt_path = [Lit ''calls'', Lit ''call'', Par ''callId'', Lit ''missed''], rt_guards = [JwtG], rt_limit = None, rt_uuids = [''callId''], rt_input = BodyOf MarkMissedDto, rt_handler = ''CallsController.miss''\<rparr>,
     \<lparr>rt_method = ''POST'', rt_path = [Lit ''calls'', Lit ''call'', Par ''callId'', Lit ''metrics''], rt_guards = [JwtG], rt_limit = None, rt_uuids = [''callId''], rt_input = BodyOf RecordCallMetricsDto, rt_handler = ''CallsController.metrics''\<rparr>,
     \<lparr>rt_method = ''GET'', rt_path = [Lit ''calls'', Par ''meetingId'', Lit ''credential''], rt_guards = [JwtG], rt_limit = None, rt_uuids = [], rt_input = NoInput, rt_handler = ''CallsController.credential''\<rparr>,
     \<lparr>rt_method = ''GET'', rt_path = [Lit ''calls'', Lit ''token'', Par ''meetingId''], rt_guards = [JwtG], rt_limit = None, rt_uuids = [], rt_input = NoInput, rt_handler = ''CallsController.token''\<rparr>]"

definition messaging_routes :: "routeDef list" where
  "messaging_routes = [
     \<lparr>rt_method = ''GET'', rt_path = [Lit ''messaging'', Lit ''conversations''], rt_guards = [JwtG], rt_limit = None, rt_uuids = [], rt_input = NoInput, rt_handler = ''MessagingController.convos''\<rparr>,
     \<lparr>rt_method = ''GET'', rt_path = [Lit ''messaging'', Lit ''conversations'', Lit ''by-partner'', Par ''partnerId''], rt_guards = [JwtG], rt_limit = None, rt_uuids = [''partnerId''], rt_input = NoInput, rt_handler = ''MessagingController.byPartner''\<rparr>,
     \<lparr>rt_method = ''GET'', rt_path = [Lit ''messaging'', Lit ''pending''], rt_guards = [JwtG], rt_limit = None, rt_uuids = [], rt_input = NoInput, rt_handler = ''MessagingController.pending''\<rparr>,
     \<lparr>rt_method = ''GET'', rt_path = [Lit ''messaging'', Lit ''expired''], rt_guards = [JwtG], rt_limit = None, rt_uuids = [], rt_input = NoInput, rt_handler = ''MessagingController.expired''\<rparr>,
     \<lparr>rt_method = ''GET'', rt_path = [Lit ''messaging'', Lit ''conversations'', Par ''id'', Lit ''messages''], rt_guards = [JwtG], rt_limit = None, rt_uuids = [''id''], rt_input = NoInput, rt_handler = ''MessagingController.msgs''\<rparr>,
     \<lparr>rt_method = ''POST'', rt_path = [Lit ''messaging'', Lit ''ask''], rt_guards = [JwtG], rt_limit = None, rt_uuids = [], rt_input = BodyOf AskQuestionDto, rt_handler = ''MessagingController.ask''\<rparr>,
     \<lparr>rt_method = ''POST'', rt_path = [Lit ''messaging'', Lit ''answer''], rt_guards = [JwtG], rt_limit = None, rt_uuids = [], rt_input = BodyOf AnswerDto, rt_handler = ''MessagingController.answer''\<rparr>,
     \<lparr>rt_method = ''POST'', rt_path = [Lit ''messaging'', Lit ''followup''], rt_guards = [JwtG], rt_limit = None, rt_uuids = [], rt_input = BodyOf FollowupDto, rt_handler = ''MessagingController.follow''\<rparr>]"

definition shoutouts_routes :: "routeDef list" where
  "shoutouts_routes = [
     \<lparr>rt_method = ''GET'', rt_path = [Lit ''shoutouts'', Lit ''mine''], rt_guards = [JwtG], rt_limit = None, rt_uuids = [], rt_input = NoInput, rt_handler = ''ShoutoutsController.mine''\<rparr>,
     \<lparr>rt_method = ''GET'', rt_path = [Lit ''shoutouts'', Lit ''incoming''], rt_guards = [JwtG], rt_limit = None, rt_uuids = [], rt_input = NoInput, rt_handler = ''ShoutoutsController.incoming''\<rparr>,
     \<lparr>rt_method = ''POST'', rt_path = [Lit ''shoutouts'', Lit ''request''], rt_guards = [JwtG], rt_limit = None, rt_uuids = [], rt_input = NoInput, rt_handler = ''ShoutoutsController.req''\<rparr>,
     \<lparr>rt_method = ''POST'', rt_path = [Lit ''shoutouts'', Par ''id'', Lit ''upload''], rt_guards = [JwtG], rt_limit = None, rt_uuids = [], rt_input = NoInput, rt_handler = ''ShoutoutsController.up''\<rparr>,
     \<lparr>rt_method = ''POST'', rt_path = [Lit ''shoutouts'', Par ''id'', Lit ''report''], rt_guards = [JwtG], rt_limit = None, rt_uuids = [], rt_input = NoInput, rt_handler = ''ShoutoutsController.rep''\<rparr>,
     \<lparr>rt_method = ''POST'', rt_path = [Lit ''shoutouts'', Par ''id'', Lit ''confirm''], rt_guards = [JwtG], rt_limit = None, rt_uuids = [], rt_input = NoInput, rt_handler = ''ShoutoutsController.confirm''\<rparr>,
     \<lparr>rt_method = ''POST'', rt_path = [Lit ''shoutouts'', Par ''id'', Lit ''correction''], rt_guards = [JwtG], rt_limit = None, rt_uuids = [], rt_input = NoInput, rt_handler = ''ShoutoutsController.correction''\<rparr>]"

definition earnings_routes :: "routeDef list" where
  "earnings_routes = [
     \<lparr>rt_method = ''GET'', rt_path = [Lit ''partner'', Lit ''earnings'', Lit ''summary''], rt_guards = [JwtG], rt_limit = None, rt_uuids = [], rt_input = NoInput, rt_handler = ''EarningsController.summary''\<rparr>,
     \<lparr>rt_method = ''GET'', rt_path = [Lit ''partner'', Lit ''earnings''], rt_guards = [JwtG], rt_limit = None, rt_uuids = [], rt_input = NoInput, rt_handler = ''EarningsController.list''\<rparr>,
     \<lparr>rt_method = ''GET'', rt_path = [Lit ''partner'', Lit ''earnings'', Lit ''payouts''], rt_guards = [JwtG], rt_limit = None, rt_uuids = [], rt_input = NoInput, rt_handler = ''EarningsController.payouts''\<rparr>,
     \<lparr>rt_method = ''GET'', rt_path = [Lit ''partner'', Lit ''earnings'', Lit ''methods''], rt_guards = [JwtG], rt_limit = None, rt_uuids = [], rt_input = NoInput, rt_handler = ''EarningsController.methods''\<rparr>,
     \<lparr>rt_method = ''POST'', rt_path = [Lit ''partner'', Lit ''earnings'', Lit ''methods''], rt_guards = [JwtG], rt_limit = None, rt_uuids = [], rt_input = NoInput, rt_handler = ''EarningsController.addMethod''\<rparr>,
     \<lparr>rt_method = ''POST'', rt_path = [Lit ''partner'', Lit ''earnings'', Lit ''withdraw''], rt_guards = [JwtG], rt_limit = None, rt_uuids = [], rt_input = NoInput, rt_handler = ''EarningsController.withdraw''\<rparr>]"

definition notifications_routes :: "routeDef list" where
  "notifications_routes = [
     \<lparr>rt_method = ''GET'', rt_path = [Lit ''notifications''], rt_guards = [JwtG], rt_limit = None, rt_uuids = [], rt_input = QueryOf ListNotificationsQuery, rt_handler = ''NotificationsController.list''\<rparr>,
     \<lparr>rt_method = ''POST'', rt_path = [Lit ''notifications'', Par ''id'', Lit ''read''], rt_guards = [JwtG], rt_limit = None, rt_uuids = [], rt_input = NoInput, rt_handler = ''NotificationsController.read''\<rparr>,
     \<lparr>rt_method = ''POST'', rt_path = [Lit ''notifications'', Lit ''read-all''], rt_guards = [JwtG], rt_limit = None, rt_uuids = [], rt_input = NoInput, rt_handler = ''NotificationsController.all''\<rparr>]"

definition trust_routes :: "routeDef list" where
  "trust_routes = [
     \<lparr>rt_method = ''POST'', rt_path = [Lit ''trust'', Lit ''block''], rt_guards = [JwtG], rt_limit = None, rt_uuids = [], rt_input = NoInput, rt_handler = ''TrustController.block''\<rparr>,
     \<lparr>rt_method = ''POST'', rt_path = [Lit ''trust'', Lit ''unblock''], rt_guards = [JwtG], rt_limit = None, rt_uuids = [], rt_input = NoInput, rt_handler = ''TrustController.unblock''\<rparr>,
     \<lparr>rt_method = ''POST'', rt_path = [Lit ''trust'', Lit ''report''], rt_guards = [JwtG], rt_limit = None, rt_uuids = [], rt_input = NoInput, rt_handler = ''TrustController.report''\<rparr>]"

definition dashboard_routes :: "routeDef list" where
  "dashboard_routes = [
     \<lparr>rt_method = ''GET'', rt_path = [Lit ''admin'', Lit ''dashboard''], rt_guards = [JwtG, AdminG], rt_limit = None, rt_uuids = [], rt_input = NoInput, rt_handler = ''AdminDashboardController.stats''\<rparr>]"

definition people_routes :: "routeDef list" where
  "people_routes = [
     \<lparr>rt_method = ''GET'', rt_path = [Lit ''admin'', Lit ''fans''], rt_guards = [JwtG, AdminG], rt_limit = None, rt_uuids = [], rt_input = NoInput, rt_handler = ''AdminPeopleController.fans''\<rparr>,
     \<lparr>rt_method = ''GET'', rt_path = [Lit ''admin'', Lit ''partners''], rt_guards = [JwtG, AdminG], rt_limit = None, rt_uuids = [], rt_input = NoInput, rt_handler = ''AdminPeopleController.partners''\<rparr>,
     \<lparr>rt_method = ''POST'', rt_path = [Lit ''admin'', Lit ''users'', Par ''id'', Lit ''role''], rt_guards = [JwtG, AdminG], rt_limit = None, rt_uuids = [], rt_input = NoInput, rt_handler = ''AdminPeopleController.setRole''\<rparr>,
     \<lparr>rt_method = ''POST'', rt_path = [Lit ''admin'', Lit ''users'', Par ''id'', Lit ''status''], rt_guards = [JwtG, AdminG], rt_limit = None, rt_uuids = [], rt_input = NoInput, rt_handler = ''AdminPeopleController.setStatus''\<rparr>,
     \<lparr>rt_method = ''GET'', rt_path = [Lit ''admin'', Lit ''kyc'', Lit ''pending''], rt_guards = [JwtG, AdminG], rt_limit = None, rt_uuids = [], rt_input = NoInput, rt_handler = ''AdminPeopleController.pendingKyc''\<rparr>,
     \<lparr>rt_method = ''GET'', rt_path = [Lit ''admin'', Lit ''kyc''], rt_guards = [JwtG, AdminG], rt_limit = None, rt_uuids = [], rt_input = NoInput, rt_handler = ''AdminPeopleController.allKyc''\<rparr>,
     \<lparr>rt_method = ''GET'', rt_path = [Lit ''admin'', Lit ''kyc'', Par ''id'', Lit ''documents''], rt_guards = [JwtG, AdminG], rt_limit = None, rt_uuids = [], rt_input = NoInput, rt_handler = ''AdminPeopleController.kycDocuments''\<rparr>,
     \<lparr>rt_method = ''POST'', rt_path = [Lit ''admin'', Lit ''kyc'', Par ''id'', Lit ''decision''], rt_guards = [JwtG, AdminG], rt_limit = None, rt_uuids = [], rt_input = NoInput, rt_handler = ''AdminPeopleController.decideKyc''\<rparr>,
     \<lparr>rt_method = ''GET'', rt_path = [Lit ''admin'', Lit ''applications''], rt_guards = [JwtG, AdminG], rt_limit = None, rt_uuids = [], rt_input = NoInput, rt_handler = ''AdminPeopleController.pendingApplications''\<rparr>,
     \<lparr>rt_method = ''POST'', rt_path = [Lit ''admin'', Lit ''applications'', Par ''id'', Lit ''review''], rt_guards = [JwtG, AdminG], rt_limit = None, rt_uuids = [], rt_input = NoInput, rt_handler = ''AdminPeopleController.review''\<rparr>,
     \<lparr>rt_method = ''POST'', rt_path = [Lit ''admin'', Lit ''applications'', Par ''id'', Lit ''final-approve''], rt_guards = [JwtG, AdminG], rt_limit = None, rt_uuids = [], rt_input = NoInput, rt_handler = ''AdminPeopleController.finalApprove''\<rparr>,
     \<lparr>rt_method = ''POST'', rt_path = [Lit ''admin'', Lit ''partners'', Par ''id'', Lit ''featured''], rt_guards = [JwtG, AdminG], rt_limit = None, rt_uuids = [], rt_input = NoInput, rt_handler = ''AdminPeopleController.toggleFeatured''\<rparr>,
     \<lparr>rt_method = ''POST'', rt_path = [Lit ''admin'', Lit ''partners'', Par ''id'', Lit ''premium''], rt_guards = [JwtG, AdminG], rt_limit = None, rt_uuids = [], rt_input = NoInput, rt_handler = ''AdminPeopleController.togglePremium''\<rparr>,
     \<lparr>rt_method = ''POST'', rt_path = [Lit ''admin'', Lit ''partners'', Par ''id'', Lit ''commission''], rt_guards = [JwtG, AdminG], rt_limit = None, rt_uuids = [], rt_input = NoInput, rt_handler = ''AdminPeopleController.setCommission''\<rparr>,
     \<lparr>rt_method = ''GET'', rt_path = [Lit ''admin'', Lit ''social-links''], rt_guards = [JwtG, AdminG], rt_limit = None, rt_uuids = [], rt_input = NoInput, rt_handler = ''AdminPeopleController.socialLinks''\<rparr>,
     \<lparr>rt_method = ''POST'', rt_path = [Lit ''admin'', Lit ''social-links'', Par ''id'', Lit ''approve''], rt_guards = [JwtG, AdminG], rt_limit = None, rt_uuids = [], rt_input = NoInput, rt_handler = ''AdminPeopleController.approveSocialLink''\<rparr>,
     \<lparr>rt_method = ''GET'', rt_path = [Lit ''admin'', Lit ''audit-log''], rt_guards = [JwtG, AdminG], rt_limit = None, rt_uuids = [], rt_input = NoInput, rt_handler = ''AdminPeopleController.auditLog''\<rparr>,
     \<lparr>rt_method = ''POST'', rt_path = [Lit ''admin'', Lit ''partners'', Par ''id'', Lit ''reset-payout-methods''], rt_guards = [JwtG, AdminG], rt_limit = None, rt_uuids = [], rt_input = NoInput, rt_handler = ''AdminPeopleController.resetPayoutMethods''\<rparr>]"

definition finance_routes :: "routeDef list" where
  "finance_routes = [
     \<lparr>rt_method = ''GET'', rt_path = [Lit ''admin'', Lit ''wallet-overview''], rt_guards = [JwtG, AdminG], rt_limit = None, rt_uuids = [], rt_input = NoInput, rt_handler = ''AdminFinanceController.walletOverview''\<rparr>,
     \<lparr>rt_method = ''GET'', rt_path = [Lit ''admin'', Lit ''payments''], rt_guards = [JwtG, AdminG], rt_limit = None, rt_uuids = [], rt_input = NoInput, rt_handler = ''AdminFinanceController.payments''\<rparr>,
     \<lparr>rt_method = ''GET'', rt_path = [Lit ''admin'', Lit ''transactions''], rt_guards = [JwtG, AdminG], rt_limit = None, rt_uuids = [], rt_input = NoInput, rt_handler = ''AdminFinanceController.transactions''\<rparr>,
     \<lparr>rt_method = ''POST'', rt_path = [Lit ''admin'', Lit ''credits'', Lit ''grant''], rt_guards = [JwtG, AdminG], rt_limit = None, rt_uuids = [], rt_input = NoInput, rt_handler = ''AdminFinanceController.grantCredit''\<rparr>,
     \<lparr>rt_method = ''GET'', rt_path = [Lit ''admin'', Lit ''withdrawals'', Lit ''pending''], rt_guards = [JwtG, AdminG], rt_limit = None, rt_uuids = [], rt_input = NoInput, rt_handler = ''AdminFinanceController.pendingWithdrawals''\<rparr>,
     \<lparr>rt_method = ''GET'', rt_path = [Lit ''admin'', Lit ''payouts'', Lit ''processed''], rt_guards = [JwtG, AdminG], rt_limit = None, rt_uuids = [], rt_input = NoInput, rt_handler = ''AdminFinanceController.processedPayouts''\<rparr>,
     \<lparr>rt_method = ''POST'', rt_path = [Lit ''admin'', Lit ''payout-methods'', Par ''id'', Lit ''verify''], rt_guards = [JwtG, AdminG], rt_limit = None, rt_uuids = [], rt_input = NoInput, rt_handler = ''AdminFinanceController.verifyPayoutMethod''\<rparr>,
     \<lparr>rt_method = ''POST'', rt_path = [Lit ''admin'', Lit ''payouts'', Par ''id'', Lit ''process''], rt_guards = [JwtG, AdminG], rt_limit = None, rt_uuids = [], rt_input = NoInput, rt_handler = ''AdminFinanceController.processPayout''\<rparr>,
     \<lparr>rt_method = ''GET'', rt_path = [Lit ''admin'', Lit ''disputes''], rt_guards = [JwtG, AdminG], rt_limit = None, rt_uuids = [], rt_input = NoInput, rt_handler = ''AdminFinanceController.disputes''\<rparr>,
     \<lparr>rt_method = ''POST'', rt_path = [Lit ''admin'', Lit ''disputes'', Par ''id'', Lit ''resolve''], rt_guards = [JwtG, AdminG], rt_limit = None, rt_uuids = [], rt_input = NoInput, rt_handler = ''AdminFinanceController.resolveDispute''\<rparr>,
     \<lparr>rt_method = ''GET'', rt_path = [Lit ''admin'', Lit ''promo-codes''], rt_guards = [JwtG, AdminG], rt_limit = None, rt_uuids = [], rt_input = NoInput, rt_handler = ''AdminFinanceController.promoCodes''\<rparr>,
     \<lparr>rt_method = ''GET'', rt_path = [Lit ''admin'', Lit ''promo-beneficiaries''], rt_guards = [JwtG, AdminG], rt_limit = None, rt_uuids = [], rt_input = NoInput, rt_handler = ''AdminFinanceController.promoBeneficiaries''\<rparr>,
     \<lparr>rt_method = ''POST'', rt_path = [Lit ''admin'', Lit ''promo-codes''], rt_guards = [JwtG, AdminG], rt_limit = None, rt_uuids = [], rt_input = NoInput, rt_handler = ''AdminFinanceController.createPromo''\<rparr>,
     \<lparr>rt_method = ''POST'', rt_path = [Lit ''admin'', Lit ''promo-codes'', Par ''id'', Lit ''active''], rt_guards = [JwtG, AdminG], rt_limit = None, rt_uuids = [], rt_input = NoInput, rt_handler = ''AdminFinanceController.setPromoActive''\<rparr>,
     \<lparr>rt_method = ''GET'', rt_path = [Lit ''admin'', Lit ''referrals''], rt_guards = [JwtG, AdminG], rt_limit = None, rt_uuids = [], rt_input = NoInput, rt_handler = ''AdminFinanceController.referrals''\<rparr>]"

definition moderation_routes :: "routeDef list" where
  "moderation_routes = [
     \<lparr>rt_method = ''GET'', rt_path = [Lit ''admin'', Lit ''reports''], rt_guards = [JwtG, AdminG], rt_limit = None, rt_uuids = [], rt_input = NoInput, rt_handler = ''AdminModerationController.reports''\<rparr>,
     \<lparr>rt_method = ''POST'', rt_path = [Lit ''admin'', Lit ''reports'', Par ''id'', Lit ''resolve''], rt_guards = [JwtG, AdminG], rt_limit = None, rt_uuids = [], rt_input = NoInput, rt_handler = ''AdminModerationController.resolveReport''\<rparr>,
     \<lparr>rt_method = ''POST'', rt_path = [Lit ''admin'', Lit ''shoutouts'', Par ''id'', Lit ''resolve-report''], rt_guards = [JwtG, AdminG], rt_limit = None, rt_uuids = [], rt_input = NoInput, rt_handler = ''AdminModerationController.resolveShoutoutReport''\<rparr>,
     \<lparr>rt_method = ''POST'', rt_path = [Lit ''admin'', Lit ''shoutouts'', Par ''id'', Lit ''deliver''], rt_guards = [JwtG, AdminG], rt_limit = None, rt_uuids = [], rt_input = NoInput, rt_handler = ''AdminModerationController.deliverShoutout''\<rparr>,
     \<lparr>rt_method = ''POST'', rt_path = [Lit ''admin'', Lit ''shoutouts'', Par ''id'', Lit ''cancel''], rt_guards = [JwtG, AdminG], rt_limit = None, rt_uuids = [], rt_input = NoInput, rt_handler = ''AdminModerationController.cancelShoutout''\<rparr>,
     \<lparr>rt_method = ''POST'', rt_path = [Lit ''admin'', Lit ''bookings'', Par ''id'', Lit ''expire''], rt_guards = [JwtG, AdminG], rt_limit = None, rt_uuids = [], rt_input = NoInput, rt_handler = ''AdminModerationController.expireBooking''\<rparr>,
     \<lparr>rt_method = ''POST'', rt_path = [Lit ''admin'', Lit ''bookings'', Par ''id'', Lit ''force-settle''], rt_guards = [JwtG, AdminG], rt_limit = None, rt_uuids = [], rt_input = NoInput, rt_handler = ''AdminModerationController.forceSettleBooking''\<rparr>,
     \<lparr>rt_method = ''POST'', rt_path = [Lit ''admin'', Lit ''windows'', Par ''id'', Lit ''force-settle''], rt_guards = [JwtG, AdminG], rt_limit = None, rt_uuids = [], rt_input = NoInput, rt_handler = ''AdminModerationController.forceSettleWindow''\<rparr>,
     \<lparr>rt_method = ''POST'', rt_path = [Lit ''admin'', Lit ''shoutouts'', Par ''id'', Lit ''force-settle''], rt_guards = [JwtG, AdminG], rt_limit = None, rt_uuids = [], rt_input = NoInput, rt_handler = ''AdminModerationController.forceSettleShoutout''\<rparr>,
     \<lparr>rt_method = ''POST'', rt_path = [Lit ''admin'', Lit ''bookings'', Par ''id'', Lit ''recover-call''], rt_guards = [JwtG, AdminG], rt_limit = None, rt_uuids = [], rt_input = NoInput, rt_handler = ''AdminModerationController.recoverCall''\<rparr>,
     \<lparr>rt_method = ''GET'', rt_path = [Lit ''admin'', Lit ''bookings'', Lit ''partial-review''], rt_guards = [JwtG, AdminG], rt_limit = None, rt_uuids = [], rt_input = NoInput, rt_handler = ''AdminModerationController.partialCallQueue''\<rparr>,
     \<lparr>rt_method = ''POST'', rt_path = [Lit ''admin'', Lit ''bookings'', Par ''id'', Lit ''resolve-partial''], rt_guards = [JwtG, AdminG], rt_limit = None, rt_uuids = [], rt_input = NoInput, rt_handler = ''AdminModerationController.resolvePartialCall''\<rparr>,
     \<lparr>rt_method = ''GET'', rt_path = [Lit ''admin'', Lit ''video-calls''], rt_guards = [JwtG, AdminG], rt_limit = None, rt_uuids = [], rt_input = NoInput, rt_handler = ''AdminModerationController.videoCalls''\<rparr>,
     \<lparr>rt_method = ''GET'', rt_path = [Lit ''admin'', Lit ''shoutouts''], rt_guards = [JwtG, AdminG], rt_limit = None, rt_uuids = [], rt_input = NoInput, rt_handler = ''AdminModerationController.shoutouts''\<rparr>,
     \<lparr>rt_method = ''GET'', rt_path = [Lit ''admin'', Lit ''questions''], rt_guards = [JwtG, AdminG], rt_limit = None, rt_uuids = [], rt_input = NoInput, rt_handler = ''AdminModerationController.questions''\<rparr>,
     \<lparr>rt_method = ''POST'', rt_path = [Lit ''admin'', Lit ''services'', Par ''id'', Lit ''platform-availability''], rt_guards = [JwtG, AdminG], rt_limit = None, rt_uuids = [], rt_input = NoInput, rt_handler = ''AdminModerationController.setServiceAvailability''\<rparr>]"

definition settings_routes :: "routeDef list" where
  "settings_routes = [
     \<lparr>rt_method = ''GET'', rt_path = [Lit ''admin'', Lit ''settings'', Lit ''admins''], rt_guards = [JwtG, AdminG], rt_limit = None, rt_uuids = [], rt_input = NoInput, rt_handler = ''AdminSettingsController.admins''\<rparr>,
     \<lparr>rt_method = ''POST'', rt_path = [Lit ''admin'', Lit ''settings'', Lit ''admins''], rt_guards = [JwtG, AdminG], rt_limit = None, rt_uuids = [], rt_input = NoInput, rt_handler = ''AdminSettingsController.createAdmin''\<rparr>,
     \<lparr>rt_method = ''POST'', rt_path = [Lit ''admin'', Lit ''settings'', Lit ''admins'', Par ''id'', Lit ''revoke''], rt_guards = [JwtG, AdminG], rt_limit = None, rt_uuids = [], rt_input = NoInput, rt_handler = ''AdminSettingsController.revokeAdmin''\<rparr>,
     \<lparr>rt_method = ''GET'', rt_path = [Lit ''admin'', Lit ''settings'', Lit ''platform''], rt_guards = [JwtG, AdminG], rt_limit = None, rt_uuids = [], rt_input = NoInput, rt_handler = ''AdminSettingsController.platform''\<rparr>,
     \<lparr>rt_method = ''POST'', rt_path = [Lit ''admin'', Lit ''settings'', Lit ''platform''], rt_guards = [JwtG, AdminG], rt_limit = None, rt_uuids = [], rt_input = NoInput, rt_handler = ''AdminSettingsController.updatePlatform''\<rparr>,
     \<lparr>rt_method = ''GET'', rt_path = [Lit ''admin'', Lit ''settings'', Lit ''bullmq''], rt_guards = [JwtG, AdminG], rt_limit = None, rt_uuids = [], rt_input = NoInput, rt_handler = ''AdminSettingsController.bullmq''\<rparr>]"

definition realtime_routes :: "routeDef list" where
  "realtime_routes = [
     \<lparr>rt_method = ''GET'', rt_path = [Lit ''realtime'', Lit ''health''], rt_guards = [], rt_limit = None, rt_uuids = [], rt_input = NoInput, rt_handler = ''RealtimeController.health''\<rparr>]"

text \<open>The order of the imports of \<open>AppModule\<close>.\<close>

definition ROUTES :: "routeDef list" where
  "ROUTES = health_routes @ push_routes @ storage_routes @ identity_routes @ referrals_routes @ discovery_routes @ catalog_routes @
     availability_routes @ wallet_routes @ calls_routes @ messaging_routes @ shoutouts_routes @ earnings_routes @ notifications_routes @
     trust_routes @ dashboard_routes @ people_routes @ finance_routes @ moderation_routes @ settings_routes @ realtime_routes"

lemmas route_tables = health_routes_def push_routes_def storage_routes_def identity_routes_def referrals_routes_def discovery_routes_def
  catalog_routes_def availability_routes_def wallet_routes_def calls_routes_def messaging_routes_def shoutouts_routes_def earnings_routes_def
  notifications_routes_def trust_routes_def dashboard_routes_def people_routes_def finance_routes_def moderation_routes_def
  settings_routes_def realtime_routes_def

section \<open>Matching\<close>

text \<open>
  The router is Express's: \<open>fits method path m ss\<close> are the parameters if a route with that method and path takes a request \<open>m\<close> on
  the segments \<open>ss\<close>.  Of the routes that do, behind the global prefix, the first one answers.
\<close>

type_synonym router = "string \<Rightarrow> seg list \<Rightarrow> string \<Rightarrow> string list \<Rightarrow> (string \<times> string) list option"

definition full_path :: "routeDef \<Rightarrow> seg list" where
  "full_path r = Lit ''v1'' # rt_path r"

definition params_of :: "router \<Rightarrow> string \<Rightarrow> string list \<Rightarrow> routeDef \<Rightarrow> (string \<times> string) list option" where
  "params_of fits m ss r = fits (rt_method r) (full_path r) m ss"

definition route_of :: "router \<Rightarrow> string \<Rightarrow> string list \<Rightarrow> routeDef option" where
  "route_of fits m ss = find (\<lambda>r. params_of fits m ss r \<noteq> None) ROUTES"

definition path_text :: "routeDef \<Rightarrow> string" where
  "path_text r = concat (map (\<lambda>p. CHR ''/'' # (case p of Lit l \<Rightarrow> l | Par n \<Rightarrow> CHR '':'' # n)) (full_path r))"

section \<open>A request\<close>

record apiRequest =
  rq_method :: string
  rq_path :: "string list"
  rq_auth :: "string option"
  rq_body :: json
  rq_query :: json
  rq_raw :: string
  rq_signature :: "string option"
  rq_forwarded :: "string option"
  rq_remote :: "string option"
  rq_time :: int
  rq_redis :: "bool \<times> bool"

datatype 'r response = No_route | Too_many json | Failed exn | Answer 'r

type_synonym ('d, 'r) handler = "(string \<times> string) list \<Rightarrow> body \<Rightarrow> apiRequest \<Rightarrow> string option \<Rightarrow> ('d, 'r) act"

text \<open>The configured application; \<open>api_admin\<close> is the second guard, \<open>api_call\<close> the handlers by name.\<close>

record ('d, 'r) api =
  api_config :: "string \<Rightarrow> string option"
  api_router :: router
  api_jose :: jose
  api_uuid :: "string \<Rightarrow> bool"
  api_pipe :: pipe
  api_admin :: "string option \<Rightarrow> ('d, bool) act"
  api_call :: "string \<Rightarrow> ('d, 'r) handler"

definition answer_of :: "exn + 'r \<Rightarrow> 'r response" where
  "answer_of x = (case x of Inl e \<Rightarrow> Failed e | Inr r \<Rightarrow> Answer r)"

fun run_guards :: "('d, 'r) api \<Rightarrow> guardKind list \<Rightarrow> apiRequest \<Rightarrow> string option \<Rightarrow> ('d, string option) act" where
  "run_guards E [] req user w = (Inr user, w)"
| "run_guards E (JwtG # gs) req user w = (case canActivate (api_jose E) (rq_auth req) of
     Inl m \<Rightarrow> (Inl (Unauthorized (JStr m)), w) | Inr (u, email) \<Rightarrow> run_guards E gs req (Some u) w)"
| "run_guards E (AdminG # gs) req user w = (case api_admin E user w of
     (Inl e, w1) \<Rightarrow> (Inl e, w1) | (Inr b, w1) \<Rightarrow> if b then run_guards E gs req user w1 else (Inl (Forbidden (JStr ''Forbidden resource'')), w1))"

definition run_pipes :: "('d, 'r) api \<Rightarrow> routeDef \<Rightarrow> (string \<times> string) list \<Rightarrow> apiRequest \<Rightarrow> exn + body" where
  "run_pipes E r ps req =
     (if \<exists>n \<in> set (rt_uuids r). \<not> api_uuid E (the (map_of ps n)) then Inl (bad_request ''Validation failed (uuid is expected)'')
      else case rt_input r of NoInput \<Rightarrow> Inr [] | BodyOf dto \<Rightarrow> validate (api_pipe E) dto (rq_body req) | QueryOf dto \<Rightarrow> validate (api_pipe E) dto (rq_query req))"

definition limited_request :: "routeDef \<Rightarrow> apiRequest \<Rightarrow> httpRequest" where
  "limited_request r req = \<lparr>hr_method = rq_method req, hr_route = Some (path_text r), hr_path = [], hr_forwarded = rq_forwarded req, hr_remote = rq_remote req\<rparr>"

definition serve_http ::
  "('d, 'r) api \<Rightarrow> apiRequest \<Rightarrow> redisConn \<times> redisStore \<Rightarrow> 'd world \<Rightarrow> 'r response \<times> (redisConn \<times> redisStore) \<times> 'd world" where
  "serve_http E req g w =
     (case route_of (api_router E) (rq_method req) (rq_path req) of None \<Rightarrow> (No_route, g, w)
      | Some r \<Rightarrow>
          (case throttle_canActivate (api_config E) (rt_limit r) (limited_request r req) (rq_time req) (rq_redis req) g of
             (Inl j, g1) \<Rightarrow> (Too_many j, g1, w)
           | (Inr _, g1) \<Rightarrow>
               (case run_guards E (rt_guards r) req None w of
                  (Inl e, w1) \<Rightarrow> (Failed e, g1, w1)
                | (Inr user, w1) \<Rightarrow>
                    (let ps = the (params_of (api_router E) (rq_method req) (rq_path req) r) in
                     case run_pipes E r ps req of
                       Inl e \<Rightarrow> (Failed e, g1, w1)
                     | Inr b \<Rightarrow> (case api_call E (rt_handler r) ps b req user w1 of (x, w2) \<Rightarrow> (answer_of x, g1, w2))))))"

section \<open>The wallet's controller\<close>

text \<open>\<open>WalletController\<close> on the wallet service.  An amount that is no JSON number is refused like one that is no integer.\<close>

datatype walletReply = Balance_is "int \<times> int" | History_is "(txn \<times> int) list" | Topup_is topupResult | Webhook_is json

definition reply_with :: "('x \<Rightarrow> 'y) \<Rightarrow> ('d, 'x) act \<Rightarrow> ('d, 'y) act" where
  "reply_with f a w = (case a w of (x, w') \<Rightarrow> (map_sum id f x, w'))"

definition sent_number :: "body \<Rightarrow> string \<Rightarrow> rat" where
  "sent_number b k = (case map_of b k of Some (Val (JNum n)) \<Rightarrow> of_int n | _ \<Rightarrow> 1 / 2)"

definition sent_limit :: "body \<Rightarrow> nat option" where
  "sent_limit b = (case map_of b ''limit'' of Some (Val (JNum n)) \<Rightarrow> Some (nat n) | _ \<Rightarrow> None)"

definition wallet_handlers ::
  "(rat \<Rightarrow> rat) \<Rightarrow> paymentProvider \<Rightarrow> (string \<Rightarrow> json option) \<Rightarrow> string \<Rightarrow> session \<Rightarrow> (string \<times> ('a bank_scheme, walletReply) handler) list" where
  "wallet_handlers rnd P parse stamp base =
     [(''WalletController.balance'', \<lambda>ps b req user. reply_with Balance_is (getBalance base (the user))),
      (''WalletController.history'', \<lambda>ps b req user. reply_with History_is (getHistory base (the user) (sent_limit b))),
      (''WalletController.topup'', \<lambda>ps b req user. reply_with Topup_is (createTopup rnd P base (the user) (sent_number b ''creditPaise'') stamp)),
      (''WalletController.webhook'', \<lambda>ps b req user. reply_with Webhook_is (handleWebhook P parse base (rq_raw req) (rq_signature req)))]"

end
