(* ===== verification/Routes_Props.thy ===== *)
theory Routes_Props
  imports Routes Admin Wallet_Props
begin

text \<open>
  Every route is reached by the paths it declares, no handler runs for a caller that its guards refuse, and what a request to the
  wallet can change.
\<close>

section \<open>No route hides another\<close>

fun overlap :: "seg list \<Rightarrow> seg list \<Rightarrow> bool" where
  "overlap [] [] = True"
| "overlap (Lit a # p) (Lit b # q) = (a = b \<and> overlap p q)"
| "overlap (a # p) (b # q) = overlap p q"
| "overlap p q = False"

text \<open>What the router documents: as many segments, literal ones compared without regard to case; a \<open>GET\<close> route also takes \<open>HEAD\<close>.\<close>

fun segs_fit :: "seg list \<Rightarrow> string list \<Rightarrow> bool" where
  "segs_fit [] [] = True"
| "segs_fit (Lit l # ps) (s # ss) = (map lower_char s = l \<and> segs_fit ps ss)"
| "segs_fit (Par n # ps) (s # ss) = segs_fit ps ss"
| "segs_fit _ _ = False"

definition router_ok :: "router \<Rightarrow> bool" where
  "router_ok fits \<longleftrightarrow> (\<forall>rm p m ss. fits rm p m ss \<noteq> None \<longrightarrow> segs_fit p ss \<and> (rm = m \<or> rm = ''GET'' \<and> m = ''HEAD''))"

lemma fit_overlap: "segs_fit p ss \<Longrightarrow> segs_fit q ss \<Longrightarrow> overlap p q"
proof (induction p ss arbitrary: q rule: segs_fit.induct)
  case 1
  then show ?case by (cases q rule: list.exhaust) (auto elim: segs_fit.elims)
next
  case (2 l ps s ss)
  then show ?case by (cases q rule: list.exhaust; cases "hd q") auto
next
  case (3 n ps s ss)
  then show ?case by (cases q rule: list.exhaust; cases "hd q") auto
qed simp_all

fun clashes :: "routeDef list \<Rightarrow> (string \<times> string) list" where
  "clashes [] = []"
| "clashes (r # rs) = map (\<lambda>q. (rt_handler r, rt_handler q)) (filter (\<lambda>q. rt_method r = rt_method q \<and> overlap (rt_path r) (rt_path q)) rs) @ clashes rs"

text \<open>Two routes clash only below the same first segment, so that the table is checked in groups.\<close>

definition head_of :: "routeDef \<Rightarrow> seg list" where
  "head_of r = take 1 (rt_path r)"

lemma overlap_head: "overlap (rt_path r) (rt_path q) \<Longrightarrow> list_all is_Lit (head_of r) \<Longrightarrow> list_all is_Lit (head_of q) \<Longrightarrow> head_of r = head_of q"
  by (cases "rt_path r"; cases "rt_path q"; cases "hd (rt_path r)"; cases "hd (rt_path q)") (auto simp: head_of_def)

lemma clashes_grouped:
  assumes "c \<in> set (clashes rs)" and "list_all (\<lambda>r. list_all is_Lit (head_of r)) rs"
  shows "\<exists>h \<in> head_of ` set rs. c \<in> set (clashes (filter (\<lambda>r. head_of r = h) rs))"
  using assms
proof (induction rs)
  case (Cons r rs)
  from Cons.prems(1) consider q where "q \<in> set rs" "rt_method r = rt_method q" "overlap (rt_path r) (rt_path q)" "c = (rt_handler r, rt_handler q)"
    | "c \<in> set (clashes rs)" by auto
  then show ?case
  proof cases
    case 1
    then have "head_of r = head_of q" using overlap_head [of r q] Cons.prems(2) by (auto simp: list_all_iff)
    then show ?thesis using 1 by (intro bexI [of _ "head_of r"]) auto
  next
    case 2
    then obtain h where "h \<in> head_of ` set rs" "c \<in> set (clashes (filter (\<lambda>r. head_of r = h) rs))" using Cons.IH Cons.prems(2) by auto
    then show ?thesis by (intro bexI [of _ h]) auto
  qed
qed simp

lemma heads:
 "list_all (\<lambda>r. head_of r = []) health_routes"
  "list_all (\<lambda>r. head_of r = [Lit ''push'']) push_routes"
  "list_all (\<lambda>r. head_of r = [Lit ''storage'']) storage_routes"
  "list_all (\<lambda>r. head_of r = [Lit ''me'']) identity_routes"
  "list_all (\<lambda>r. head_of r = [Lit ''referrals'']) referrals_routes"
  "list_all (\<lambda>r. head_of r = [Lit ''discover'']) discovery_routes"
  "list_all (\<lambda>r. head_of r = [Lit ''partner'']) catalog_routes"
  "list_all (\<lambda>r. head_of r = [Lit ''availability'']) availability_routes"
  "list_all (\<lambda>r. head_of r = [Lit ''wallet'']) wallet_routes"
  "list_all (\<lambda>r. head_of r = [Lit ''calls'']) calls_routes"
  "list_all (\<lambda>r. head_of r = [Lit ''messaging'']) messaging_routes"
  "list_all (\<lambda>r. head_of r = [Lit ''shoutouts'']) shoutouts_routes"
  "list_all (\<lambda>r. head_of r = [Lit ''partner'']) earnings_routes"
  "list_all (\<lambda>r. head_of r = [Lit ''notifications'']) notifications_routes"
  "list_all (\<lambda>r. head_of r = [Lit ''trust'']) trust_routes"
  "list_all (\<lambda>r. head_of r = [Lit ''admin'']) dashboard_routes"
  "list_all (\<lambda>r. head_of r = [Lit ''admin'']) people_routes"
  "list_all (\<lambda>r. head_of r = [Lit ''admin'']) finance_routes"
  "list_all (\<lambda>r. head_of r = [Lit ''admin'']) moderation_routes"
  "list_all (\<lambda>r. head_of r = [Lit ''admin'']) settings_routes"
  "list_all (\<lambda>r. head_of r = [Lit ''realtime'']) realtime_routes"
  by (simp_all add: head_of_def route_tables)

lemma lit_heads: "list_all (\<lambda>r. list_all is_Lit (head_of r)) ROUTES"
  by (simp add: ROUTES_def head_of_def route_tables)

lemma head_cases: "list_all (\<lambda>r. head_of r \<in> {[], [Lit ''push''], [Lit ''storage''], [Lit ''me''], [Lit ''referrals''], [Lit ''discover''], [Lit ''partner''], [Lit ''availability''], [Lit ''wallet''], [Lit ''calls''], [Lit ''messaging''], [Lit ''shoutouts''], [Lit ''notifications''], [Lit ''trust''], [Lit ''admin''], [Lit ''realtime'']}) ROUTES"
  by (simp add: ROUTES_def head_of_def route_tables)

lemma filter_all_or_none:
  "list_all (\<lambda>r. f r = a) xs \<Longrightarrow> filter (\<lambda>r. f r = h) xs = (if a = h then xs else [])"
  by (induction xs) auto

lemma heads_ROUTES:
  "filter (\<lambda>r. head_of r = h) ROUTES = concat (map (\<lambda>(a, xs). if a = h then xs else [])
     [([], health_routes),
      ([Lit ''push''], push_routes),
      ([Lit ''storage''], storage_routes),
      ([Lit ''me''], identity_routes),
      ([Lit ''referrals''], referrals_routes),
      ([Lit ''discover''], discovery_routes),
      ([Lit ''partner''], catalog_routes),
      ([Lit ''availability''], availability_routes),
      ([Lit ''wallet''], wallet_routes),
      ([Lit ''calls''], calls_routes),
      ([Lit ''messaging''], messaging_routes),
      ([Lit ''shoutouts''], shoutouts_routes),
      ([Lit ''partner''], earnings_routes),
      ([Lit ''notifications''], notifications_routes),
      ([Lit ''trust''], trust_routes),
      ([Lit ''admin''], dashboard_routes),
      ([Lit ''admin''], people_routes),
      ([Lit ''admin''], finance_routes),
      ([Lit ''admin''], moderation_routes),
      ([Lit ''admin''], settings_routes),
      ([Lit ''realtime''], realtime_routes)])"
  by (simp add: ROUTES_def heads [THEN filter_all_or_none])

lemma groups_ROUTES:
  "filter (\<lambda>r. head_of r = []) ROUTES = health_routes"
  "filter (\<lambda>r. head_of r = [Lit ''push'']) ROUTES = push_routes"
  "filter (\<lambda>r. head_of r = [Lit ''storage'']) ROUTES = storage_routes"
  "filter (\<lambda>r. head_of r = [Lit ''me'']) ROUTES = identity_routes"
  "filter (\<lambda>r. head_of r = [Lit ''referrals'']) ROUTES = referrals_routes"
  "filter (\<lambda>r. head_of r = [Lit ''discover'']) ROUTES = discovery_routes"
  "filter (\<lambda>r. head_of r = [Lit ''partner'']) ROUTES = catalog_routes @ earnings_routes"
  "filter (\<lambda>r. head_of r = [Lit ''availability'']) ROUTES = availability_routes"
  "filter (\<lambda>r. head_of r = [Lit ''wallet'']) ROUTES = wallet_routes"
  "filter (\<lambda>r. head_of r = [Lit ''calls'']) ROUTES = calls_routes"
  "filter (\<lambda>r. head_of r = [Lit ''messaging'']) ROUTES = messaging_routes"
  "filter (\<lambda>r. head_of r = [Lit ''shoutouts'']) ROUTES = shoutouts_routes"
  "filter (\<lambda>r. head_of r = [Lit ''notifications'']) ROUTES = notifications_routes"
  "filter (\<lambda>r. head_of r = [Lit ''trust'']) ROUTES = trust_routes"
  "filter (\<lambda>r. head_of r = [Lit ''admin'']) ROUTES = dashboard_routes @ people_routes @ finance_routes @ moderation_routes @ settings_routes"
  "filter (\<lambda>r. head_of r = [Lit ''realtime'']) ROUTES = realtime_routes"
  by (simp_all add: heads_ROUTES)

lemma clashes_groups:
  "clashes (health_routes) = []"
  "clashes (push_routes) = []"
  "clashes (storage_routes) = []"
  "clashes (identity_routes) = []"
  "clashes (referrals_routes) = []"
  "clashes (discovery_routes) = []"
  "clashes (catalog_routes @ earnings_routes) = []"
  "clashes (availability_routes) = []"
  "clashes (wallet_routes) = []"
  "clashes (calls_routes) = [(''CallsController.credential'', ''CallsController.token'')]"
  "clashes (messaging_routes) = [(''MessagingController.byPartner'', ''MessagingController.msgs'')]"
  "clashes (shoutouts_routes) = []"
  "clashes (notifications_routes) = []"
  "clashes (trust_routes) = []"
  "clashes (dashboard_routes @ people_routes @ finance_routes @ moderation_routes @ settings_routes) = []"
  "clashes (realtime_routes) = []"
  by code_simp+

lemma methods_ROUTES: "list_all (\<lambda>r. rt_method r \<in> {''GET'', ''POST'', ''PUT'', ''DELETE''}) ROUTES"
  by code_simp

definition PUBLIC :: "string list" where
  "PUBLIC = [''HealthController.health'', ''DiscoveryController.feed'', ''DiscoveryController.categories'', ''DiscoveryController.byHandle'',
     ''DiscoveryController.partner'', ''AvailabilityController.forPartner'', ''WalletController.webhook'', ''RealtimeController.health'']"

lemma guards_ROUTES:
  "list_all (\<lambda>r. (rt_guards r = [] \<longleftrightarrow> rt_handler r \<in> set PUBLIC) \<and> rt_guards r \<in> {[], [JwtG], [JwtG, AdminG]} \<and>
     (rt_guards r = [JwtG, AdminG] \<longleftrightarrow> take 1 (rt_path r) = [Lit ''admin''])) ROUTES"
  by code_simp

lemma clashes_ROUTES:
  "set (clashes ROUTES) \<subseteq> {(''CallsController.credential'', ''CallsController.token''), (''MessagingController.byPartner'', ''MessagingController.msgs'')}"
proof
  fix c assume c: "c \<in> set (clashes ROUTES)"
  obtain h where h: "h \<in> head_of ` set ROUTES" and c': "c \<in> set (clashes (filter (\<lambda>r. head_of r = h) ROUTES))" using clashes_grouped [OF c lit_heads] by blast
  have "h \<in> {[], [Lit ''push''], [Lit ''storage''], [Lit ''me''], [Lit ''referrals''], [Lit ''discover''], [Lit ''partner''], [Lit ''availability''], [Lit ''wallet''], [Lit ''calls''], [Lit ''messaging''], [Lit ''shoutouts''], [Lit ''notifications''], [Lit ''trust''], [Lit ''admin''], [Lit ''realtime'']}"
    using head_cases h unfolding list_all_iff by blast
  then show "c \<in> {(''CallsController.credential'', ''CallsController.token''), (''MessagingController.byPartner'', ''MessagingController.msgs'')}"
    using c' by (elim insertE emptyE) (simp_all only: groups_ROUTES clashes_groups list.set empty_iff insert_iff simp_thms)
qed

lemma find_clash:
  assumes "find P rs = Some r0" and "r \<in> set rs" and "P r" and "\<And>a b. P a \<Longrightarrow> P b \<Longrightarrow> a \<in> set rs \<Longrightarrow> b \<in> set rs \<Longrightarrow> rt_method a = rt_method b \<and> overlap (rt_path a) (rt_path b)"
  shows "r0 = r \<or> (rt_handler r0, rt_handler r) \<in> set (clashes rs)"
  using assms
proof (induction rs)
  case (Cons x rs)
  show ?case
  proof (cases "P x")
    case True
    then have "r0 = x" using Cons.prems(1) by simp
    then show ?thesis using Cons.prems(2,3) Cons.prems(4) [OF True Cons.prems(3)] by auto
  next
    case False
    then have "r \<in> set rs" "find P rs = Some r0" using Cons.prems by auto
    then have "r0 = r \<or> (rt_handler r0, rt_handler r) \<in> set (clashes rs)"
      using Cons.IH [OF _ _ Cons.prems(3)] Cons.prems(4) by (meson list.set_intros(2))
    then show ?thesis by auto
  qed
qed simp

text \<open>
  Every route answers the paths it declares.  Whatever route of whatever controller a request fits, that route is chosen; but for
  two paths that two routes of one controller share, where the one declared first is.  A request that fits no route is answered by none.
\<close>

theorem dispatch_is_unambiguous:
  assumes ok: "router_ok fits"
  shows "(\<forall>r \<in> set ROUTES. params_of fits m ss r \<noteq> None \<longrightarrow> (\<exists>r0 \<in> set ROUTES. params_of fits m ss r0 \<noteq> None \<and> route_of fits m ss = Some r0 \<and>
      (r0 = r \<or> (rt_handler r0, rt_handler r) \<in> {(''CallsController.credential'', ''CallsController.token''), (''MessagingController.byPartner'', ''MessagingController.msgs'')}))) \<and>
    (route_of fits m ss = None \<longleftrightarrow> (\<forall>r \<in> set ROUTES. params_of fits m ss r = None))"
proof -
  let ?P = "\<lambda>r. params_of fits m ss r \<noteq> None"
  have meth: "rt_method a \<noteq> ''HEAD''" if "a \<in> set ROUTES" for a using methods_ROUTES that by (auto simp: list_all_iff)
  have fit: "segs_fit (full_path a) ss \<and> (rt_method a = m \<or> rt_method a = ''GET'' \<and> m = ''HEAD'')" if "?P a" for a
    using ok that unfolding router_ok_def params_of_def by blast
  have two: "rt_method a = rt_method b \<and> overlap (rt_path a) (rt_path b)" if "?P a" "?P b" "a \<in> set ROUTES" "b \<in> set ROUTES" for a b
  proof
    show "rt_method a = rt_method b"
      using conjunct2 [OF fit [OF that(1)]] conjunct2 [OF fit [OF that(2)]] meth [OF that(3)] meth [OF that(4)] by (elim disjE) simp_all
    have "overlap (full_path a) (full_path b)" by (rule fit_overlap [of _ ss]) (rule conjunct1 [OF fit [OF that(1)]] conjunct1 [OF fit [OF that(2)]])+
    then show "overlap (rt_path a) (rt_path b)" by (simp add: full_path_def)
  qed
  have "\<exists>r0 \<in> set ROUTES. ?P r0 \<and> route_of fits m ss = Some r0 \<and>
      (r0 = r \<or> (rt_handler r0, rt_handler r) \<in> {(''CallsController.credential'', ''CallsController.token''), (''MessagingController.byPartner'', ''MessagingController.msgs'')})"
    if r: "r \<in> set ROUTES" "?P r" for r
  proof -
    obtain r0 where f: "find ?P ROUTES = Some r0" using r by (cases "find ?P ROUTES") (auto simp: find_None_iff)
    then have "r0 \<in> set ROUTES" "?P r0" by (auto simp: find_Some_iff)
    moreover have "r0 = r \<or> (rt_handler r0, rt_handler r) \<in> set (clashes ROUTES)" by (rule find_clash [OF f r two])
    ultimately show ?thesis using clashes_ROUTES f unfolding route_of_def by blast
  qed
  moreover have "route_of fits m ss = None \<longleftrightarrow> (\<forall>r \<in> set ROUTES. params_of fits m ss r = None)"
    unfolding route_of_def find_None_iff by (simp only: Ball_def not_ex de_Morgan_conj not_not imp_conv_disj)
  ultimately show ?thesis by (intro conjI ballI impI)
qed

section \<open>What gets past the guards\<close>

lemma run_guards_kept:
  assumes adm: "\<And>user w x w1. api_admin E user w = (x, w1) \<Longrightarrow> w1 = w" and "run_guards E gs req user w = (x, w1)"
  shows "w1 = w"
  using assms(2)
proof (induction gs arbitrary: user w)
  case (Cons a gs)
  then show ?case by (cases a) (auto split: sum.splits prod.splits if_splits dest: adm)
qed simp

lemma run_guards_user: "run_guards E gs req user w = (x, w1) \<Longrightarrow> AdminG \<notin> set gs \<Longrightarrow> w1 = w"
proof (induction gs arbitrary: user)
  case (Cons a gs)
  then show ?case by (cases a) (auto split: sum.splits)
qed simp

lemma route_in_table: "route_of fits m p = Some r \<Longrightarrow> r \<in> set ROUTES"
  by (auto simp: route_of_def find_Some_iff)

text \<open>
  C37. The surface of the API.  A request is either turned away, with nothing changed: by no route, the rate limit, a guard, a pipe; or
  the handler of its route has run, on arguments the pipes accepted.  Then, unless the route is one of the eight public ones, the handler has run for the caller
  that the verified token names; and if the path begins with \<open>admin\<close>, that caller is an administrator.
\<close>

theorem http_surface:
  fixes E :: "('a identityDb_scheme, 'r) api"
  assumes admin: "api_admin E = adminGuard base" and run: "serve_http E req g w = (res, g', w')"
  shows "w' = w \<and> (res = No_route \<or> (\<exists>j. res = Too_many j) \<or> (\<exists>e. res = Failed e)) \<or>
    (\<exists>r ps b user x. r \<in> set ROUTES \<and> route_of (api_router E) (rq_method req) (rq_path req) = Some r \<and> run_pipes E r ps req = Inr b \<and>
       api_call E (rt_handler r) ps b req user w = (x, w') \<and> res = answer_of x \<and>
       (if rt_handler r \<in> set PUBLIC then user = None else \<exists>u e. user = Some u \<and> canActivate (api_jose E) (rq_auth req) = Inr (u, e)) \<and>
       (take 1 (rt_path r) = [Lit ''admin''] \<longrightarrow> (\<exists>u. user = Some u \<and> admin_row u (w_db w))))"
proof -
  have kept: "w1 = w" if "api_admin E user w = (x, w1)" for user w x w1
    using that unfolding admin adminGuard_eq by (auto split: if_splits)
  show ?thesis
  proof (cases "route_of (api_router E) (rq_method req) (rq_path req)")
    case None
    then show ?thesis using run by (simp add: serve_http_def)
  next
    case (Some r)
    have r: "r \<in> set ROUTES" by (rule route_in_table [OF Some])
    then have g: "rt_guards r = [] \<longleftrightarrow> rt_handler r \<in> set PUBLIC" "rt_guards r \<in> {[], [JwtG], [JwtG, AdminG]}" "rt_guards r = [JwtG, AdminG] \<longleftrightarrow> take 1 (rt_path r) = [Lit ''admin'']"
      using guards_ROUTES unfolding list_all_iff by blast+
    let ?ps = "the (params_of (api_router E) (rq_method req) (rq_path req) r)"
    obtain lim g1 where lim: "throttle_canActivate (api_config E) (rt_limit r) (limited_request r req) (rq_time req) (rq_redis req) g = (lim, g1)" by (rule that [OF surjective_pairing])
    obtain y w1 where y: "run_guards E (rt_guards r) req None w = (y, w1)" by (rule that [OF surjective_pairing])
    have w1: "w1 = w" by (rule run_guards_kept [OF kept y])
    have past: "(if rt_handler r \<in> set PUBLIC then user = None else \<exists>u e. user = Some u \<and> canActivate (api_jose E) (rq_auth req) = Inr (u, e)) \<and>
       (take 1 (rt_path r) = [Lit ''admin''] \<longrightarrow> (\<exists>u. user = Some u \<and> admin_row u (w_db w)))" if "y = Inr user" for user
      using y g that unfolding admin adminGuard_eq by (auto simp: admin adminGuard_eq split: sum.splits prod.splits if_splits)
    show ?thesis
    proof (cases lim)
      case (Inl j)
      then have "w' = w" "res = Too_many j" using run Some lim by (simp_all add: serve_http_def)
      then show ?thesis by blast
    next
      case lim2: (Inr ok)
      show ?thesis
      proof (cases y)
        case (Inl e)
        then have "w' = w" "res = Failed e" using run Some lim lim2 y w1 by (simp_all add: serve_http_def)
        then show ?thesis by blast
      next
        case (Inr user)
        show ?thesis
        proof (cases "run_pipes E r ?ps req")
          case (Inl e)
          then have "w' = w" "res = Failed e" using run Some lim lim2 y w1 Inr by (simp_all add: serve_http_def Let_def)
          then show ?thesis by blast
        next
          case b: (Inr b)
          obtain x w2 where x: "api_call E (rt_handler r) ?ps b req user w = (x, w2)" by (rule that [OF surjective_pairing])
          have "res = answer_of x" "w' = w2" using run Some lim lim2 y w1 Inr b x by (simp_all add: serve_http_def Let_def)
          then show ?thesis using r Some b x past [OF Inr] by blast
        qed
      qed
    qed
  qed
qed

section \<open>The wallet\<close>

lemma reads_only: "w_db (snd (getBalance base u w)) = w_db w" "w_db (snd (getHistory base u n w)) = w_db w"
  by (simp_all add: getBalance_def getHistory_def runAs_def transaction_def execute_def)

text \<open>
  C38. What a request to the wallet can change.  If the books differ after a request to a route of the wallet's controller, it was a top-up
  by the caller of a verified token, or a delivery to the webhook whose signature verifies over the raw body.
\<close>

theorem wallet_api_writes:
  fixes w :: "'a bank_scheme world"
  assumes calls: "\<forall>n h. map_of (wallet_handlers rnd P parse stamp base) n = Some h \<longrightarrow> api_call E n = h"
    and run: "serve_http E req g w = (res, g', w')" and route: "route_of (api_router E) (rq_method req) (rq_path req) = Some r" "r \<in> set wallet_routes"
  shows "w_db w' = w_db w \<or>
    rt_handler r = ''WalletController.topup'' \<and> (\<exists>u e. canActivate (api_jose E) (rq_auth req) = Inr (u, e)) \<or>
    rt_handler r = ''WalletController.webhook'' \<and> verifyWebhookSignature P (rq_raw req) (rq_signature req)"
proof (cases "w_db w' = w_db w")
  case changed: False
  have no: "AdminG \<notin> set (rt_guards r)" using route(2) by (auto simp: wallet_routes_def)
  obtain lim g1 where lim: "throttle_canActivate (api_config E) (rt_limit r) (limited_request r req) (rq_time req) (rq_redis req) g = (lim, g1)" by (rule that [OF surjective_pairing])
  obtain y w1 where y: "run_guards E (rt_guards r) req None w = (y, w1)" by (rule that [OF surjective_pairing])
  have w1: "w1 = w" by (rule run_guards_user [OF y no])
  from run changed obtain user b x where ran: "y = Inr user"
    "api_call E (rt_handler r) (the (params_of (api_router E) (rq_method req) (rq_path req) r)) b req user w = (x, w')"
    using route(1) lim y w1 by (auto simp: serve_http_def Let_def split: sum.splits prod.splits)
  have c: "api_call E n = h" if "map_of (wallet_handlers rnd P parse stamp base) n = Some h" for n h using calls that by blast
  from route(2) consider "rt_handler r = ''WalletController.balance''" | "rt_handler r = ''WalletController.history''"
    | "rt_handler r = ''WalletController.topup''" "rt_guards r = [JwtG]" | "rt_handler r = ''WalletController.webhook''"
    by (auto simp: wallet_routes_def)
  then show ?thesis
  proof cases
    case 1
    then have "w_db w' = w_db w" using ran(2) reads_only(1) [of base "the user" w]
      by (simp add: c [of "''WalletController.balance''"] wallet_handlers_def reply_with_def split: prod.splits)
    then show ?thesis using changed by simp
  next
    case 2
    then have "w_db w' = w_db w" using ran(2) reads_only(2) [of base "the user" "sent_limit b" w]
      by (simp add: c [of "''WalletController.history''"] wallet_handlers_def reply_with_def split: prod.splits)
    then show ?thesis using changed by simp
  next
    case 3
    then show ?thesis using y ran(1) by (auto split: sum.splits)
  next
    case 4
    have "verifyWebhookSignature P (rq_raw req) (rq_signature req)"
    proof (rule ccontr)
      assume "\<not> verifyWebhookSignature P (rq_raw req) (rq_signature req)"
      then have "w' = w" using ran(2) 4 by (simp add: c [of "''WalletController.webhook''"] wallet_handlers_def reply_with_def handleWebhook_def)
      then show False using changed by simp
    qed
    then show ?thesis using 4 by simp
  qed
qed simp

section \<open>Concrete requests\<close>

definition demo_http :: "string \<Rightarrow> string list \<Rightarrow> string option \<Rightarrow> apiRequest" where
  "demo_http m p a = \<lparr>rq_method = m, rq_path = p, rq_auth = a, rq_body = JObj [], rq_query = JObj [], rq_raw = [], rq_signature = Some ''bad'',
     rq_forwarded = None, rq_remote = None, rq_time = 0, rq_redis = (False, False)\<rparr>"

text \<open>A router as documented.\<close>

fun match_path :: "seg list \<Rightarrow> string list \<Rightarrow> (string \<times> string) list option" where
  "match_path [] [] = Some []"
| "match_path (Lit l # ps) (s # ss) = (if map lower_char s = l then match_path ps ss else None)"
| "match_path (Par n # ps) (s # ss) = (if s = [] then None else map_option (Cons (n, s)) (match_path ps ss))"
| "match_path _ _ = None"

definition demo_router :: router where
  "demo_router rm p m ss = (if rm = m \<or> rm = ''GET'' \<and> m = ''HEAD'' then match_path p ss else None)"

lemma match_fits: "match_path p ss = Some ps \<Longrightarrow> segs_fit p ss"
  by (induction p ss arbitrary: ps rule: match_path.induct) (auto split: if_splits)

lemma demo_router_ok: "router_ok demo_router"
  by (auto simp: router_ok_def demo_router_def match_fits)

definition demo_api :: "(string option \<Rightarrow> ('d, bool) act) \<Rightarrow> (string \<Rightarrow> ('d, 'r) handler) \<Rightarrow> ('d, 'r) api" where
  "demo_api ad call = \<lparr>api_config = (\<lambda>_. None), api_router = demo_router, api_jose = demo_jose, api_uuid = (\<lambda>_. True),
     api_pipe = \<lparr>accepts = (\<lambda>_ _. True), convert = (\<lambda>v. v)\<rparr>, api_admin = ad, api_call = call\<rparr>"

theorem dispatch_is_unambiguous_witness:
  "\<exists>r0. route_of demo_router ''GET'' [''V1'', ''calls'', ''token'', ''credential''] = Some r0"
proof -
  have "\<exists>r \<in> set ROUTES. params_of demo_router ''GET'' [''V1'', ''calls'', ''token'', ''credential''] r \<noteq> None"
    unfolding list_ex_iff [symmetric] by code_simp
  then show ?thesis using dispatch_is_unambiguous [OF demo_router_ok, of "''GET''" "[''V1'', ''calls'', ''token'', ''credential'']"] by blast
qed

definition no_call :: "string \<Rightarrow> ('d, unit) handler" where
  "no_call n ps b req user w = (Inr (), w)"

theorem http_surface_witness:
  "snd (snd (serve_http (demo_api (adminGuard demo_session) no_call) (demo_http ''GET'' [''v1'', ''me''] None) (Untried, \<lambda>_. None) \<lparr>w_db = demo_panel, w_log = []\<rparr>)) =
     \<lparr>w_db = demo_panel, w_log = []\<rparr>"
proof -
  let ?E = "demo_api (adminGuard demo_session) no_call" and ?r = "demo_http ''GET'' [''v1'', ''me''] None"
  have run: "serve_http ?E ?r (Untried, \<lambda>_. None) \<lparr>w_db = demo_panel, w_log = []\<rparr> =
     (fst (serve_http ?E ?r (Untried, \<lambda>_. None) \<lparr>w_db = demo_panel, w_log = []\<rparr>), fst (snd (serve_http ?E ?r (Untried, \<lambda>_. None) \<lparr>w_db = demo_panel, w_log = []\<rparr>)),
      snd (snd (serve_http ?E ?r (Untried, \<lambda>_. None) \<lparr>w_db = demo_panel, w_log = []\<rparr>)))" by simp
  have "map_option rt_handler (route_of demo_router ''GET'' [''v1'', ''me'']) = Some ''IdentityController.me''" by code_simp
  moreover have "canActivate (api_jose ?E) (rq_auth ?r) \<noteq> Inr (u, e)" for u e by (simp add: demo_http_def canActivate_def)
  moreover have "''IdentityController.me'' \<notin> set PUBLIC" by (simp add: PUBLIC_def)
  ultimately show ?thesis using http_surface [OF _ run] by (auto simp: demo_api_def demo_http_def)
qed

theorem wallet_api_writes_witness:
  "w_db (snd (snd (serve_http (demo_api (\<lambda>_ w. (Inr False, w)) (\<lambda>n. the (map_of (wallet_handlers (\<lambda>x. x) demo_provider (\<lambda>_. None) ''1'' demo_session) n)))
     (demo_http ''POST'' [''v1'', ''wallet'', ''webhook'', ''razorpay''] None) (Untried, \<lambda>_. None) demo_world))) = demo_bank"
proof -
  let ?H = "wallet_handlers (\<lambda>x. x) demo_provider (\<lambda>_. None) ''1'' demo_session"
  let ?E = "demo_api (\<lambda>_ w. (Inr False, w)) (\<lambda>n. the (map_of ?H n))" and ?r = "demo_http ''POST'' [''v1'', ''wallet'', ''webhook'', ''razorpay''] None"
  have calls: "\<forall>n h. map_of ?H n = Some h \<longrightarrow> api_call ?E n = h" by (simp add: demo_api_def)
  obtain res g' w' where run: "serve_http ?E ?r (Untried, \<lambda>_. None) demo_world = (res, g', w')" by (rule prod_cases3)
  let ?w = "\<lparr>rt_method = ''POST'', rt_path = [Lit ''wallet'', Lit ''webhook'', Lit ''razorpay''], rt_guards = [], rt_limit = None, rt_uuids = [], rt_input = NoInput,
    rt_handler = ''WalletController.webhook''\<rparr>"
  have route: "route_of (api_router ?E) (rq_method ?r) (rq_path ?r) = Some ?w" unfolding demo_http_def demo_api_def api.select_convs by code_simp
  have "?w \<in> set wallet_routes" by (simp add: wallet_routes_def)
  from wallet_api_writes [OF calls run route this] have "w_db w' = w_db demo_world" by (auto simp: demo_provider_def demo_http_def)
  then show ?thesis using run by (simp add: demo_world_def)
qed

end
