(* ===== verification/Availability.thy ===== *)
theory Availability
  imports Shoutouts Calls
begin

text \<open>
  \<open>src/availability/availability.module.ts\<close> over the table of migration 0003 and the function of 0072: the minutes a partner opens
  on a date.  The tables of bookings and promo codes (0006) are declared with it.
\<close>

section \<open>Tables\<close>

record availRow =
  av_partner :: string
  av_date :: int
  av_open :: bool
  av_minutes :: int
  av_booked :: int

datatype discountType = PERCENTAGE | FIXED_AMOUNT

record promo =
  pc_id :: nat
  pc_code :: string
  pc_type :: discountType
  pc_value :: rat
  pc_applies :: string
  pc_max_total :: "int option"
  pc_max_user :: "int option"
  pc_uses :: int
  pc_start :: "int option"
  pc_expiry :: "int option"
  pc_active :: bool

record promoUse =
  pu_promo :: nat
  pu_fan :: string
  pu_txn :: nat
  pu_discount :: int

text \<open>\<open>bd_live\<close> and \<open>bd_premium\<close> are the active and the premium partners; \<open>bd_support\<close> the administrators with the role SUPPORT or SUPER_ADMIN.\<close>

record bookingDb = callsDb +
  bd_accounts :: "account list"
  bd_live :: "string list"
  bd_premium :: "string list"
  bd_offers :: "serviceRow list"
  bd_settle_days :: "int option"
  avail :: "availRow list"
  promos :: "promo list"
  promo_uses :: "promoUse list"
  bd_support :: "string list"

section \<open>Input functions\<close>

text \<open>What Postgres reads dates and integers from, \<open>upper\<close> of its collation, and the length of a JSON value's text.\<close>

record pgText =
  in_date :: "string \<Rightarrow> int option"
  in_int :: "string \<Rightarrow> int option"
  to_upper :: "string \<Rightarrow> string"
  json_length :: "json \<Rightarrow> int"

definition date_arg :: "pgText \<Rightarrow> json \<Rightarrow> string + int option" where
  "date_arg pg j = (case sql_text (Some j) of Inl e \<Rightarrow> Inl e | Inr None \<Rightarrow> Inr None
     | Inr (Some t) \<Rightarrow> (case in_date pg t of None \<Rightarrow> Inl ''invalid input syntax for type date'' | Some x \<Rightarrow> Inr (Some x)))"

definition int_arg :: "pgText \<Rightarrow> json \<Rightarrow> string + int option" where
  "int_arg pg j = (case sql_text (Some j) of Inl e \<Rightarrow> Inl e | Inr None \<Rightarrow> Inr None
     | Inr (Some t) \<Rightarrow> (case in_int pg t of None \<Rightarrow> Inl ''invalid input syntax for type integer'' | Some x \<Rightarrow>
         if - (2 ^ 31) \<le> x \<and> x < 2 ^ 31 then Inr (Some x) else Inl ''value is out of range for type integer''))"

section \<open>Opening a date\<close>

definition av_of :: "string \<Rightarrow> int \<Rightarrow> 'a bookingDb_scheme \<Rightarrow> availRow option" where
  "av_of p day d = find (\<lambda>a. av_partner a = p \<and> av_date a = day) (avail d)"

definition set_avail :: "string \<Rightarrow> int \<Rightarrow> (availRow \<Rightarrow> availRow) \<Rightarrow> 'a bookingDb_scheme \<Rightarrow> 'a bookingDb_scheme" where
  "set_avail p day f d = d\<lparr>avail := map (\<lambda>a. if av_partner a = p \<and> av_date a = day then f a else a) (avail d)\<rparr>"

definition MINUTES_CAP :: int where "MINUTES_CAP = 600"

definition rpc_partner_set_availability :: "string \<Rightarrow> int option \<Rightarrow> int option \<Rightarrow> ('a bookingDb_scheme, json) stmt" where
  "rpc_partner_set_availability p date minutes s d =
     (if \<not> caller_allowed p s d then Inl FORBIDDEN_CALLER
      else if \<exists>m. minutes = Some m \<and> m < 0 then Inr (err_json ''INVALID_MINUTES'', d)
      else if \<exists>m. minutes = Some m \<and> m > MINUTES_CAP
        then Inr (JObj [(''success'', JBool False), (''error'', JStr ''MINUTES_EXCEEDS_CAP''), (''cap'', JNum MINUTES_CAP)], d)
      else case (date, minutes) of
        (Some day, Some m) \<Rightarrow>
          if av_of p day d \<noteq> None
          then Inr (ok_json [(''date'', JNum day), (''minutes'', JNum m), (''available'', JBool (0 < m))], set_avail p day (\<lambda>a. a\<lparr>av_open := 0 < m, av_minutes := m\<rparr>) d)
          else if p \<notin> fst ` set (partner_profiles d) then Inl ''violates foreign key constraint availability_partner_id_fkey''
          else Inr (ok_json [(''date'', JNum day), (''minutes'', JNum m), (''available'', JBool (0 < m))],
            d\<lparr>avail := avail d @ [\<lparr>av_partner = p, av_date = day, av_open = (0 < m), av_minutes = m, av_booked = 0\<rparr>]\<rparr>)
      | _ \<Rightarrow> Inl ''null value in column violates not-null constraint'')"

fun set_availability_fn :: "pgText \<Rightarrow> json list \<Rightarrow> ('a bookingDb_scheme, json) stmt" where
  "set_availability_fn pg [JStr p, date, minutes] s d =
     (case date_arg pg date of Inl e \<Rightarrow> Inl e | Inr day \<Rightarrow> case int_arg pg minutes of Inl e \<Rightarrow> Inl e | Inr m \<Rightarrow> rpc_partner_set_availability p day m s d)"
| "set_availability_fn pg _ s d = Inl ''function rpc_partner_set_availability does not exist''"

text \<open>The body of the request is not validated: \<open>date\<close> and \<open>minutes\<close> are any values.\<close>

definition availability_set :: "'d sqlFns \<Rightarrow> json option \<Rightarrow> json option \<Rightarrow> 'd op" where
  "availability_set F date minutes base u = runAs base u (rpc (fn F ''rpc_partner_set_availability'' [jstr u, date, minutes]))"

text \<open>The rows a fan may book; everybody may read the table.\<close>

definition forPartner :: "session \<Rightarrow> string \<Rightarrow> ('a bookingDb_scheme, availRow list) act" where
  "forPartner base p = runAnon base (execute (reads (\<lambda>s d.
     sort_key av_date (filter (\<lambda>a. av_partner a = p \<and> av_open a \<and> current_date s \<le> av_date a) (avail d)))))"

end
