(* ===== verification/Bookings.thy ===== *)
theory Bookings
  imports Availability
begin

text \<open>
  The SQL functions behind \<open>src/calls/calls.module.ts\<close> that price, book and cancel a call: the price (migrations 0021, 0039),
  booking and cancelling (0085).  The rows of \<open>Services\<close> are used, with the tables of \<open>Availability\<close>.  Instants are milliseconds.
\<close>

section \<open>Rows\<close>

text \<open>\<open>(selected_duration::text)::int\<close>.\<close>

definition minutes_of :: "string \<Rightarrow> int" where
  "minutes_of dur = int (digits_value dur)"

fun booking_status_text :: "bookingStatus \<Rightarrow> string" where
  "booking_status_text PAYMENT_PENDING = ''PAYMENT_PENDING''"
| "booking_status_text BOOKED = ''BOOKED''"
| "booking_status_text BOOKING_COMPLETED = ''COMPLETED_SUCCESSFUL''"
| "booking_status_text EXPIRED_PARTNER_NO_SHOW = ''EXPIRED_PARTNER_NO_SHOW''"
| "booking_status_text EXPIRED_FAN_NO_JOIN = ''EXPIRED_FAN_NO_JOIN''"
| "booking_status_text EXPIRED_FAN_DECLINED = ''EXPIRED_FAN_DECLINED''"
| "booking_status_text EXPIRED_TECHNICAL_ISSUE = ''EXPIRED_TECHNICAL_ISSUE''"
| "booking_status_text CANCELLED_BY_FAN = ''CANCELLED_BY_FAN''"
| "booking_status_text CANCELLED_BY_ADMIN = ''CANCELLED_BY_ADMIN''"
| "booking_status_text REQUIRES_ADMIN_REVIEW = ''REQUIRES_ADMIN_REVIEW''"

fun call_status_text :: "callStatus \<Rightarrow> string" where
  "call_status_text SCHEDULED = ''SCHEDULED''"
| "call_status_text PARTNER_INITIATED = ''PARTNER_INITIATED''"
| "call_status_text IN_PROGRESS = ''IN_PROGRESS''"
| "call_status_text COMPLETED_SUCCESSFUL = ''COMPLETED_SUCCESSFUL''"
| "call_status_text MISSED_FAN_NO_JOIN = ''MISSED_FAN_NO_JOIN''"
| "call_status_text MISSED_FAN_DECLINED = ''MISSED_FAN_DECLINED''"
| "call_status_text DROPPED_TECHNICAL_ISSUE = ''DROPPED_TECHNICAL_ISSUE''"

definition bk_of :: "nat \<Rightarrow> 'a services_scheme \<Rightarrow> booking option" where
  "bk_of i d = find (\<lambda>b. bk_id b = i) (bookings d)"

definition set_booking :: "nat \<Rightarrow> (booking \<Rightarrow> booking) \<Rightarrow> 'a services_scheme \<Rightarrow> 'a services_scheme" where
  "set_booking i f d = d\<lparr>bookings := map (\<lambda>b. if bk_id b = i then f b else b) (bookings d)\<rparr>"

definition bk_status_set :: "bookingStatus \<Rightarrow> booking \<Rightarrow> booking" where
  "bk_status_set st b = b\<lparr>bk_status := st\<rparr>"

text \<open>\<open>COALESCE(b.original_price_paise, b.price_paise)\<close>, what the escrow got.\<close>

definition bk_gross :: "booking \<Rightarrow> int" where
  "bk_gross b = (case bk_original b of None \<Rightarrow> bk_price b | Some g \<Rightarrow> g)"

text \<open>A new identifier is new in every table.\<close>

definition new_booking_id :: "'a bookingDb_scheme \<Rightarrow> nat" where
  "new_booking_id d = fresh (map bk_id (bookings d) @ map ca_booking (calls d) @ earnings d @ map (snd \<circ> tn_key) (txns d))"

definition bk_key :: "string \<Rightarrow> nat \<Rightarrow> idem_key" where
  "bk_key kind i = (kind, i)"

section \<open>The price\<close>

text \<open>\<open>round\<close> and the cast of a numeric to an integer round half away from zero.\<close>

definition sql_round :: "rat \<Rightarrow> int" where
  "sql_round x = (if 0 \<le> x then \<lfloor>x + 1 / 2\<rfloor> else - \<lfloor>1 / 2 - x\<rfloor>)"

definition call_price :: "string \<Rightarrow> string \<Rightarrow> 'a bookingDb_scheme \<Rightarrow> int option" where
  "call_price p dur d = map_option sv_price
     (find (\<lambda>r. sv_partner r = p \<and> sv_type r = ''VIDEO_CALL'' \<and> sv_duration r = Some dur \<and> sv_active r) (bd_offers d))"

definition promo_usable :: "string \<Rightarrow> int \<Rightarrow> promo \<Rightarrow> bool" where
  "promo_usable code now c \<longleftrightarrow> pc_code c = code \<and> pc_active c \<and> (\<forall>t. pc_expiry c = Some t \<longrightarrow> t > now) \<and> (\<forall>t. pc_start c = Some t \<longrightarrow> t \<le> now) \<and>
     pc_applies c \<in> {''ALL'', ''VIDEO_CALL''} \<and> (\<forall>m. pc_max_total c = Some m \<longrightarrow> pc_uses c < m)"

definition uses_by :: "nat \<Rightarrow> string \<Rightarrow> 'a bookingDb_scheme \<Rightarrow> int" where
  "uses_by i fan d = int (length (filter (\<lambda>x. pu_promo x = i \<and> pu_fan x = fan) (promo_uses d)))"

definition discount_of :: "promo \<Rightarrow> int \<Rightarrow> int" where
  "discount_of c base = (case pc_type c of PERCENTAGE \<Rightarrow> sql_round (of_int base * pc_value c / 100) | FIXED_AMOUNT \<Rightarrow> min (sql_round (pc_value c)) base)"

text \<open>\<open>resolve_price\<close>: an error, or the list price, the discount and the promo code's row.\<close>

definition resolve_price ::
  "pgText \<Rightarrow> string \<Rightarrow> string \<Rightarrow> string option \<Rightarrow> string option \<Rightarrow> session \<Rightarrow> 'a bookingDb_scheme \<Rightarrow> string + (int \<times> int \<times> nat option)" where
  "resolve_price pg p dur code fan s d =
     (case call_price p dur d of None \<Rightarrow> Inl ''SERVICE_NOT_OFFERED''
      | Some base \<Rightarrow> (case code of None \<Rightarrow> Inr (base, 0, None)
        | Some t \<Rightarrow> (case find (promo_usable (to_upper pg t) (sess_now s)) (promos d) of None \<Rightarrow> Inl ''INVALID_PROMO''
          | Some c \<Rightarrow>
              if \<exists>m f. pc_max_user c = Some m \<and> fan = Some f \<and> uses_by (pc_id c) f d \<ge> m \<or> pc_max_user c = Some m \<and> fan = None \<and> 0 \<ge> m
              then Inl ''PROMO_LIMIT_REACHED'' else Inr (base, discount_of c base, Some (pc_id c)))))"

definition price_json :: "int \<times> int \<times> nat option \<Rightarrow> json" where
  "price_json v = (case v of (base, disc, i) \<Rightarrow> JObj [(''base_paise'', JNum base), (''discount_paise'', JNum disc), (''final_paise'', JNum (base - disc)),
     (''promo_id'', case i of None \<Rightarrow> JNull | Some k \<Rightarrow> jid k)])"

definition rpc_preview_price :: "pgText \<Rightarrow> string \<Rightarrow> string \<Rightarrow> string option \<Rightarrow> ('a bookingDb_scheme, json) stmt" where
  "rpc_preview_price pg p dur code s d = (case resolve_price pg p dur code (current_user_id s) s d of
     Inl e \<Rightarrow> Inr (JObj [(''error'', JStr e)], d) | Inr v \<Rightarrow> Inr (price_json v, d))"

section \<open>Booking\<close>

definition bd_account :: "string \<Rightarrow> 'a bookingDb_scheme \<Rightarrow> account option" where
  "bd_account u d = find (\<lambda>a. ac_id a = u) (bd_accounts d)"

text \<open>The legs of a booking for \<open>final\<close> out of \<open>base\<close>; no promo leg without a discount.  A refund has the opposite ones.\<close>

definition promo_leg :: "int \<Rightarrow> leg list" where
  "promo_leg x = [\<lparr>leg_wallet = None, leg_account = ''promo_incentive'', leg_delta = x, leg_bonus = 0\<rparr>]"

definition book_legs :: "nat option \<Rightarrow> int \<Rightarrow> int \<Rightarrow> leg list" where
  "book_legs v base disc =
     [\<lparr>leg_wallet = v, leg_account = ''wallet'', leg_delta = - (base - disc), leg_bonus = 0\<rparr>,
      \<lparr>leg_wallet = None, leg_account = ''booking_escrow'', leg_delta = base, leg_bonus = 0\<rparr>] @ (if disc > 0 then promo_leg (- disc) else [])"

definition return_legs :: "nat option \<Rightarrow> booking \<Rightarrow> leg list" where
  "return_legs v b =
     [\<lparr>leg_wallet = None, leg_account = ''booking_escrow'', leg_delta = - bk_gross b, leg_bonus = 0\<rparr>,
      \<lparr>leg_wallet = v, leg_account = ''wallet'', leg_delta = bk_price b, leg_bonus = 0\<rparr>] @ (if bk_discount b > 0 then promo_leg (bk_discount b) else [])"

definition use_promo :: "string option \<Rightarrow> nat option \<Rightarrow> string \<Rightarrow> nat \<Rightarrow> int \<Rightarrow> 'a bookingDb_scheme \<Rightarrow> 'a bookingDb_scheme" where
  "use_promo code i fan tid disc d =
     (case (code, i) of (Some _, Some k) \<Rightarrow>
        d\<lparr>promo_uses := promo_uses d @ [\<lparr>pu_promo = k, pu_fan = fan, pu_txn = tid, pu_discount = disc\<rparr>],
          promos := map (\<lambda>c. if pc_id c = k then c\<lparr>pc_uses := pc_uses c + 1\<rparr> else c) (promos d)\<rparr>
      | _ \<Rightarrow> d)"

definition notify_if :: "bool \<Rightarrow> notifKey \<Rightarrow> 'a bank_scheme \<Rightarrow> 'a bank_scheme" where
  "notify_if b k d = (if b then notify k d else d)"

definition new_booking :: "nat \<Rightarrow> string \<Rightarrow> string \<Rightarrow> int \<Rightarrow> string \<Rightarrow> int \<Rightarrow> int \<Rightarrow> int \<Rightarrow> int \<Rightarrow> booking" where
  "new_booking i fan p day dur base disc settle_at now =
     \<lparr>bk_id = i, bk_fan = fan, bk_partner = p, bk_duration = dur, bk_status = BOOKED, bk_settle_at = settle_at, bk_date = day, bk_price = base - disc,
      bk_ready_at = None, bk_meeting = None, bk_created = now, bk_original = Some base, bk_discount = disc\<rparr>"

definition book_minutes :: "string \<Rightarrow> int \<Rightarrow> int \<Rightarrow> 'a bookingDb_scheme \<Rightarrow> 'a bookingDb_scheme" where
  "book_minutes p day m = set_avail p day (\<lambda>a. a\<lparr>av_booked := av_booked a + m\<rparr>)"

definition release_minutes :: "booking \<Rightarrow> 'a bookingDb_scheme \<Rightarrow> 'a bookingDb_scheme" where
  "release_minutes b = set_avail (bk_partner b) (bk_date b) (\<lambda>a. a\<lparr>av_booked := max 0 (av_booked a - minutes_of (bk_duration b))\<rparr>)"

text \<open>The insert of the booking and what follows it; the CHECK constraints of the row are those on its price.\<close>

definition booked_db :: "string option \<Rightarrow> nat option \<Rightarrow> nat \<Rightarrow> booking \<Rightarrow> 'a bookingDb_scheme \<Rightarrow> 'a bookingDb_scheme" where
  "booked_db code promo_id tid b d =
     notify_if (bk_fan b \<in> fst ` set (profiles d)) (bk_partner b, ''VIDEO_CALL_BOOKING_NEW_PARTNER'', ''booking'', bk_id b)
     (notify_if (bk_partner b \<in> fst ` set (partner_profiles d)) (bk_fan b, ''VIDEO_CALL_BOOKING_CONFIRMED_FAN'', ''booking'', bk_id b)
     (use_promo code promo_id (bk_fan b) tid (bk_discount b)
     (book_minutes (bk_partner b) (bk_date b) (minutes_of (bk_duration b)) (d\<lparr>bookings := bookings d @ [b]\<rparr>))))"

definition rpc_book_video_call :: "pgText \<Rightarrow> string \<Rightarrow> string \<Rightarrow> int option \<Rightarrow> string \<Rightarrow> string option \<Rightarrow> ('a bookingDb_scheme, json) stmt" where
  "rpc_book_video_call pg fan p day dur code s d =
     (if \<not> caller_allowed fan s d then Inl FORBIDDEN_CALLER
      else if map_option ac_active (bd_account fan d) \<noteq> Some True then Inl ''P0001 ACCOUNT_NOT_ACTIVE''
      else if p \<notin> set (bd_live d) then Inr (err_json ''PARTNER_NOT_ACTIVE'', d)
      else if p \<in> set (bd_premium d) \<and> map_option ac_verified (bd_account fan d) \<noteq> Some True then Inr (err_json ''KYC_REQUIRED'', d)
      else case resolve_price pg p dur code (Some fan) s d of Inl e \<Rightarrow> Inr (err_json e, d)
      | Inr (base, disc, promo_id) \<Rightarrow> case Option.bind day (\<lambda>x. av_of p x d) of None \<Rightarrow> Inr (err_json ''NOT_AVAILABLE'', d)
        | Some a \<Rightarrow>
            if \<not> av_open a then Inr (err_json ''NOT_AVAILABLE'', d)
            else if av_booked a + minutes_of dur > av_minutes a then Inr (err_json ''NO_CAPACITY'', d)
            else let i = new_booking_id d in
              case post_transaction ''BOOKING_DEBIT'' base (bk_key ''book:'' i) (book_legs (map_option wl_id (wallet_of fan d)) base disc) (Some (nat_text i)) d of
                Inl e \<Rightarrow> Inl e
              | Inr ((tid, _), d1) \<Rightarrow>
                  (case bd_settle_days d1 of None \<Rightarrow> Inl ''null value in column settle_at violates not-null constraint''
                   | Some n \<Rightarrow>
                      if base - disc \<le> 0 \<or> disc < 0 then Inl ''23514 new row for relation bookings violates check constraint''
                      else Inr (ok_json [(''booking_id'', jid i), (''price_paise'', JNum (base - disc))],
                        booked_db code promo_id tid (new_booking i fan p (av_date a) dur base disc (sess_now s + days_ms n) (sess_now s)) d1)))"

section \<open>Cancelling\<close>

definition rpc_refund_booking :: "nat \<Rightarrow> ('a bookingDb_scheme, json) stmt" where
  "rpc_refund_booking i s d =
     (case bk_of i d of None \<Rightarrow> Inr (err_json ''NOT_FOUND'', d)
      | Some b \<Rightarrow>
          if \<not> caller_allowed (bk_fan b) s d then Inl FORBIDDEN_CALLER
          else if bk_status b \<noteq> BOOKED then Inr (JObj [(''success'', JBool False), (''error'', JStr ''NOT_REFUNDABLE''), (''status'', JStr (booking_status_text (bk_status b)))], d)
          else if sess_now s > bk_settle_at b then Inr (err_json ''PAST_REFUND_WINDOW'', d)
          else case post_transaction ''REFUND'' (bk_gross b) (bk_key ''refund:'' i) (return_legs (map_option wl_id (wallet_of (bk_fan b) d)) b) (Some (nat_text i)) d of
            Inl e \<Rightarrow> Inl e
          | Inr ((tid, _), d1) \<Rightarrow> Inr (ok_json [(''transaction_id'', jid tid)],
              notify_if (bk_fan b \<in> fst ` set (profiles d1)) (bk_partner b, ''VIDEO_CALL_CANCELLED_PARTNER'', ''booking'', i)
                (release_minutes b (set_booking i (bk_status_set CANCELLED_BY_FAN) d1))))"

end
