(* ===== verification/Call_Attempts.thy ===== *)
theory Call_Attempts
  imports Bookings
begin

text \<open>
  The attempts of a booking: the SQL functions that ready, ring, join, beat, complete and miss a call (migrations 0023, 0078, 0096,
  0098, 0101), the sweep of unanswered rings (0089), and the triggers of the table of calls that reach bookings (0013).
\<close>

section \<open>Times\<close>

text \<open>\<open>GREATEST(0, EXTRACT(epoch FROM t)::int)\<close> of a time in milliseconds.\<close>

definition whole_secs :: "int \<Rightarrow> int" where
  "whole_secs ms = max 0 ((ms + 500) div 1000)"

definition lasted :: "call \<Rightarrow> int option" where
  "lasted c = (case (ca_started_at c, ca_ended_at c) of (Some a, Some b) \<Rightarrow> Some (b - a) | _ \<Rightarrow> None)"

definition DELIVERED :: "callStatus set" where
  "DELIVERED = {COMPLETED_SUCCESSFUL, DROPPED_TECHNICAL_ISSUE}"

text \<open>\<open>booking_consumed_seconds\<close>.\<close>

definition time_of :: "call \<Rightarrow> int" where
  "time_of c = (case lasted c of None \<Rightarrow> 0 | Some ms \<Rightarrow> max 0 ms)"

definition booking_consumed_seconds :: "nat \<Rightarrow> nat \<Rightarrow> 'a services_scheme \<Rightarrow> int" where
  "booking_consumed_seconds i k d =
     (sum_list (map time_of (filter (\<lambda>c. ca_booking c = i \<and> ca_id c \<noteq> k \<and> ca_status c \<in> DELIVERED) (calls d))) + 500) div 1000"

text \<open>\<open>COALESCE(NULLIF(minutes * 60, 0), 60)\<close>; the booking of a call exists.\<close>

definition booked_seconds :: "nat \<Rightarrow> 'a services_scheme \<Rightarrow> int" where
  "booked_seconds i d = (case bk_of i d of None \<Rightarrow> 60 | Some b \<Rightarrow> if minutes_of (bk_duration b) * 60 = 0 then 60 else minutes_of (bk_duration b) * 60)"

section \<open>Rows\<close>

definition ca_of :: "nat \<Rightarrow> 'a services_scheme \<Rightarrow> call option" where
  "ca_of k d = find (\<lambda>c. ca_id c = k) (calls d)"

definition set_call :: "nat \<Rightarrow> (call \<Rightarrow> call) \<Rightarrow> 'a services_scheme \<Rightarrow> 'a services_scheme" where
  "set_call k f d = d\<lparr>calls := map (\<lambda>c. if ca_id c = k then f c else c) (calls d)\<rparr>"

text \<open>\<open>sync_call_to_booking\<close> and \<open>reset_fan_ready_on_miss\<close>, after an update that gave the call of booking \<open>i\<close> the status \<open>new\<close>.\<close>

definition MISSED :: "callStatus set" where
  "MISSED = {MISSED_FAN_NO_JOIN, MISSED_FAN_DECLINED, DROPPED_TECHNICAL_ISSUE}"

definition call_triggers :: "callStatus \<Rightarrow> callStatus \<Rightarrow> nat \<Rightarrow> 'a services_scheme \<Rightarrow> 'a services_scheme" where
  "call_triggers old new i d =
     (if new = COMPLETED_SUCCESSFUL \<and> old \<noteq> new then set_booking i (\<lambda>b. if bk_status b = BOOKED then b\<lparr>bk_status := BOOKING_COMPLETED\<rparr> else b) d
      else if new \<in> MISSED then set_booking i (\<lambda>b. b\<lparr>bk_ready_at := None\<rparr>) d else d)"

text \<open>\<open>assert_caller_any\<close>; a null party is nobody.\<close>

definition call_party :: "call \<Rightarrow> session \<Rightarrow> 'a bank_scheme \<Rightarrow> bool" where
  "call_party c s d \<longleftrightarrow> current_user_id s \<noteq> None \<and> (current_user_id s = ca_fan c \<or> current_user_id s = ca_partner c) \<or>
     admin_session s d \<or> app_is_service_role s"

definition NULL_RECIPIENT :: string where
  "NULL_RECIPIENT = ''null value in column recipient_id violates not-null constraint''"

text \<open>\<open>on conflict do nothing\<close> for the rows of one insert.\<close>

fun notify_all :: "(string option \<times> string \<times> nat) list \<Rightarrow> 'a bank_scheme \<Rightarrow> string + 'a bank_scheme" where
  "notify_all [] d = Inr d"
| "notify_all ((None, _, _) # _) d = Inl NULL_RECIPIENT"
| "notify_all ((Some u, ev, i) # ns) d = notify_all ns (notify (u, ev, ''call'', i) d)"

section \<open>Ready, ring, join\<close>

definition rpc_fan_signal_ready :: "nat \<Rightarrow> ('a services_scheme, json) stmt" where
  "rpc_fan_signal_ready i s d =
     (case bk_of i d of None \<Rightarrow> Inr (err_json ''NOT_FOUND'', d)
      | Some b \<Rightarrow>
          if \<not> caller_allowed (bk_fan b) s d then Inl FORBIDDEN_CALLER
          else if bk_status b \<noteq> BOOKED then Inr (err_json ''NOT_BOOKABLE'', d)
          else Inr (ok_json [], set_booking i (\<lambda>b. b\<lparr>bk_ready_at := Some (sess_now s)\<rparr>) d))"

definition RING_MS :: int where "RING_MS = 60 * 1000"

definition new_call_id :: "'a services_scheme \<Rightarrow> nat" where
  "new_call_id d = fresh (map ca_id (calls d) @ map rp_target_id (reports d))"

definition new_call :: "nat \<Rightarrow> booking \<Rightarrow> string \<Rightarrow> int \<Rightarrow> call" where
  "new_call k b meeting now =
     \<lparr>ca_id = k, ca_booking = bk_id b, ca_fan = Some (bk_fan b), ca_partner = Some (bk_partner b), ca_status = PARTNER_INITIATED, ca_meeting = Some meeting,
      ca_initiated_at = Some now, ca_started_at = None, ca_deadline_at = None, ca_fan_heartbeat = None, ca_partner_heartbeat = None, ca_ended_at = None,
      ca_joined_at = None, ca_media = None, ca_ended_role = None\<rparr>"

text \<open>The random part of a meeting's name is the number of the call.\<close>

definition meeting_of :: "nat \<Rightarrow> booking \<Rightarrow> string" where
  "meeting_of k b = (case bk_meeting b of Some m \<Rightarrow> m | None \<Rightarrow> ''zudue-'' @ nat_text k)"

definition rpc_partner_initiate_call :: "nat \<Rightarrow> ('a services_scheme, json) stmt" where
  "rpc_partner_initiate_call i s d =
     (case bk_of i d of None \<Rightarrow> Inr (err_json ''NOT_BOOKABLE'', d)
      | Some b \<Rightarrow>
          if bk_status b \<noteq> BOOKED then Inr (err_json ''NOT_BOOKABLE'', d)
          else if \<not> caller_allowed (bk_partner b) s d then Inl FORBIDDEN_CALLER
          else if \<exists>c \<in> set (calls d). ca_booking c = i \<and> ca_status c = PARTNER_INITIATED \<and> (\<exists>t. ca_initiated_at c = Some t \<and> t > sess_now s - RING_MS)
            then Inr (err_json ''ALREADY_INITIATED'', d)
          else let k = new_call_id d; m = meeting_of k b in
            Inr (ok_json [(''call_id'', jid k), (''meeting_id'', JStr m)],
              set_booking i (\<lambda>b. b\<lparr>bk_meeting := Some m\<rparr>) (d\<lparr>calls := calls d @ [new_call k b m (sess_now s)]\<rparr>)))"

text \<open>\<open>order by partner_initiated_at desc limit 1\<close>: a null comes first.\<close>

definition joinable :: "nat \<Rightarrow> 'a services_scheme \<Rightarrow> call option" where
  "joinable i d =
     (let cs = filter (\<lambda>c. ca_booking c = i \<and> ca_status c \<in> set LIVE) (calls d)
      in first (filter (\<lambda>c. ca_initiated_at c = None) cs @ sort_key (\<lambda>c. - the (ca_initiated_at c)) (filter (\<lambda>c. ca_initiated_at c \<noteq> None) cs)))"

definition join_at :: "int \<Rightarrow> int \<Rightarrow> call \<Rightarrow> call" where
  "join_at now secs c = c\<lparr>ca_status := IN_PROGRESS, ca_joined_at := Some now, ca_started_at := Some now, ca_deadline_at := Some (now + secs * 1000),
     ca_fan_heartbeat := Some now\<rparr>"

definition join_reply :: "call \<Rightarrow> json" where
  "join_reply c = ok_json [(''call_id'', jid (ca_id c)), (''meeting_id'', jstr_or_null (ca_meeting c)),
     (''deadline_at'', case ca_deadline_at c of None \<Rightarrow> JNull | Some t \<Rightarrow> JNum t)]"

definition remaining_seconds :: "call \<Rightarrow> 'a services_scheme \<Rightarrow> int" where
  "remaining_seconds c d = max 0 (booked_seconds (ca_booking c) d - booking_consumed_seconds (ca_booking c) (ca_id c) d)"

definition rpc_fan_join_call :: "nat \<Rightarrow> ('a services_scheme, json) stmt" where
  "rpc_fan_join_call i s d =
     (case joinable i d of None \<Rightarrow> Inr (err_json ''NO_ACTIVE_CALL'', d)
      | Some c \<Rightarrow>
          if \<not> (case ca_fan c of Some f \<Rightarrow> caller_allowed f s d | None \<Rightarrow> admin_session s d \<or> app_is_service_role s) then Inl FORBIDDEN_CALLER
          else if ca_status c = PARTNER_INITIATED
          then (let f = join_at (sess_now s) (remaining_seconds c d) in Inr (join_reply (f c), set_call (ca_id c) f d))
          else Inr (join_reply c, d))"

definition seen :: "bool option \<Rightarrow> call \<Rightarrow> bool option" where
  "seen present c = (case present of None \<Rightarrow> ca_media c | Some p \<Rightarrow> Some (ca_media c = Some True \<or> p))"

definition beat :: "string \<Rightarrow> bool option \<Rightarrow> int \<Rightarrow> call \<Rightarrow> call" where
  "beat actor present now c = (if actor = ''FAN'' then c\<lparr>ca_fan_heartbeat := Some now, ca_media := seen present c\<rparr> else c\<lparr>ca_partner_heartbeat := Some now\<rparr>)"

definition rpc_call_heartbeat :: "nat \<Rightarrow> string \<Rightarrow> bool option \<Rightarrow> ('a services_scheme, json) stmt" where
  "rpc_call_heartbeat k actor present s d =
     (case ca_of k d of None \<Rightarrow> Inr (err_json ''NOT_FOUND'', d)
      | Some c \<Rightarrow>
          if \<not> (case (if actor = ''FAN'' then ca_fan c else ca_partner c) of Some u \<Rightarrow> caller_allowed u s d | None \<Rightarrow> admin_session s d \<or> app_is_service_role s)
          then Inl FORBIDDEN_CALLER
          else Inr (ok_json [(''attempt_status'', JStr (call_status_text (ca_status c))),
              (''remaining_seconds'', case ca_deadline_at c of None \<Rightarrow> JNum 0 | Some t \<Rightarrow> JNum (whole_secs (t - sess_now s))),
              (''ended_by_role'', jstr_or_null (ca_ended_role c))],
            set_call k (beat actor present (sess_now s)) d))"

section \<open>Ending\<close>

text \<open>Who ended it.\<close>

definition role_in :: "call \<Rightarrow> session \<Rightarrow> string option" where
  "role_in c s = (case current_user_id s of None \<Rightarrow> None | Some u \<Rightarrow>
     if ca_fan c = Some u then Some ''FAN'' else if ca_partner c = Some u then Some ''PARTNER'' else None)"

definition started :: "call \<Rightarrow> int option" where
  "started c = (case ca_started_at c of Some t \<Rightarrow> Some t | None \<Rightarrow> (case ca_joined_at c of Some t \<Rightarrow> Some t | None \<Rightarrow> ca_initiated_at c))"

definition GRACE_MS :: int where "GRACE_MS = 5 * 1000"

definition due_now :: "bool \<Rightarrow> call \<Rightarrow> int \<Rightarrow> bool" where
  "due_now auto c now \<longleftrightarrow> auto \<or> (case ca_deadline_at c of None \<Rightarrow> False | Some t \<Rightarrow> now \<ge> t - GRACE_MS)"

definition end_reason :: "bool \<Rightarrow> call \<Rightarrow> int \<Rightarrow> string" where
  "end_reason auto c now = (if ca_media c = Some False then ''creator_presence_unconfirmed'' else if due_now auto c now then ''duration_delivered''
     else ''ended_early_by_participant'')"

definition end_call :: "bool \<Rightarrow> int \<Rightarrow> string option \<Rightarrow> call \<Rightarrow> call" where
  "end_call auto now role c =
     (let r = end_reason auto c now in
      c\<lparr>ca_status := (if r = ''duration_delivered'' then COMPLETED_SUCCESSFUL else DROPPED_TECHNICAL_ISSUE),
        ca_ended_at := (if r = ''creator_presence_unconfirmed'' then ca_started_at c else Some now),
        ca_ended_role := (if r = ''ended_early_by_participant'' then role else ca_ended_role c)\<rparr>)"

definition this_seconds :: "call \<Rightarrow> int \<Rightarrow> int" where
  "this_seconds c now = (case started c of None \<Rightarrow> 0 | Some t \<Rightarrow> whole_secs (now - t))"

definition end_notices :: "string \<Rightarrow> string option \<Rightarrow> call \<Rightarrow> (string option \<times> string \<times> nat) list" where
  "end_notices r role c =
     (if r = ''duration_delivered'' then [(ca_fan c, ''VIDEO_CALL_COMPLETED_FAN'', ca_id c), (ca_partner c, ''VIDEO_CALL_COMPLETED_PARTNER'', ca_id c)]
      else if r = ''ended_early_by_participant'' \<and> role \<noteq> None
      then [(ca_fan c, ''VIDEO_CALL_MISSED_ATTEMPT_FAN'', ca_id c), (ca_partner c, ''VIDEO_CALL_COMPLETED_PARTNER'', ca_id c)]
      else [(ca_fan c, ''VIDEO_CALL_MISSED_ATTEMPT_FAN'', ca_id c)])"

definition complete_reply :: "string \<Rightarrow> int \<Rightarrow> int \<Rightarrow> string option \<Rightarrow> json" where
  "complete_reply r this prior role =
     (let unseen = (r = ''creator_presence_unconfirmed'') in
      ok_json [(''completed'', JBool (r = ''duration_delivered'')), (''duration_seconds'', JNum (if unseen then 0 else this)),
        (''booking_total_seconds'', JNum (if unseen then prior else this + prior)), (''reason'', JStr r), (''ended_by_role'', jstr_or_null role)])"

definition rpc_complete_call :: "nat \<Rightarrow> bool \<Rightarrow> ('a services_scheme, json) stmt" where
  "rpc_complete_call k auto s d =
     (case ca_of k d of None \<Rightarrow> Inr (err_json ''NOT_IN_PROGRESS'', d)
      | Some c \<Rightarrow>
          if ca_status c \<noteq> IN_PROGRESS then Inr (err_json ''NOT_IN_PROGRESS'', d)
          else if (if auto then \<not> is_system s d else \<not> call_party c s d) then Inl FORBIDDEN_CALLER
          else let now = sess_now s; r = end_reason auto c now; role = (if auto then None else role_in c s); c' = end_call auto now role c in
            case notify_all (end_notices r role c) (call_triggers IN_PROGRESS (ca_status c') (ca_booking c) (set_call k (\<lambda>_. c') d)) of
              Inl e \<Rightarrow> Inl e
            | Inr d' \<Rightarrow> Inr (complete_reply r (this_seconds c now) (booking_consumed_seconds (ca_booking c) k d) role, d'))"

definition missed_status :: "string \<Rightarrow> callStatus option" where
  "missed_status t = (if t = ''MISSED_FAN_NO_JOIN'' then Some MISSED_FAN_NO_JOIN else if t = ''MISSED_FAN_DECLINED'' then Some MISSED_FAN_DECLINED
     else if t = ''DROPPED_TECHNICAL_ISSUE'' then Some DROPPED_TECHNICAL_ISSUE else None)"

definition call_miss :: "callStatus \<Rightarrow> int \<Rightarrow> string option \<Rightarrow> call \<Rightarrow> call" where
  "call_miss st now role c = c\<lparr>ca_status := st, ca_ended_at := Some now, ca_ended_role := (if role = None then ca_ended_role c else role)\<rparr>"

definition dropped_by :: "callStatus \<Rightarrow> call \<Rightarrow> session \<Rightarrow> string option" where
  "dropped_by st c s = (if st = DROPPED_TECHNICAL_ISSUE \<and> ca_status c = IN_PROGRESS then (case role_in c s of Some r \<Rightarrow> Some r | None \<Rightarrow> Some ''ADMIN'') else None)"

text \<open>The argument is a member of \<open>call_status\<close>; another text fails its cast.\<close>

definition rpc_mark_call_missed :: "nat \<Rightarrow> string \<Rightarrow> ('a services_scheme, json) stmt" where
  "rpc_mark_call_missed k status s d =
     (case missed_status status of
        None \<Rightarrow> if status \<in> call_status_text ` {SCHEDULED, PARTNER_INITIATED, IN_PROGRESS, COMPLETED_SUCCESSFUL} then Inr (err_json ''INVALID_STATUS'', d)
          else Inl ''invalid input value for enum call_status''
      | Some st \<Rightarrow> case ca_of k d of None \<Rightarrow> Inr (err_json ''NOT_ACTIVE'', d)
        | Some c \<Rightarrow>
            if ca_status c \<notin> set LIVE then Inr (err_json ''NOT_ACTIVE'', d)
            else if \<not> call_party c s d then Inl FORBIDDEN_CALLER
            else if st \<noteq> DROPPED_TECHNICAL_ISSUE \<and> ca_status c = IN_PROGRESS then Inr (err_json ''ALREADY_JOINED'', d)
            else let role = dropped_by st c s in
              Inr (ok_json [(''ended_by_role'', jstr_or_null role)],
                call_triggers (ca_status c) st (ca_booking c) (set_call k (call_miss st (sess_now s) role) d)))"

text \<open>What a client measured goes to a column that nothing reads.\<close>

definition rpc_record_call_metrics :: "pgText \<Rightarrow> nat \<Rightarrow> json \<Rightarrow> ('a services_scheme, json) stmt" where
  "rpc_record_call_metrics pg k v s d =
     (case ca_of k d of None \<Rightarrow> Inr (err_json ''NOT_FOUND'', d)
      | Some c \<Rightarrow>
          if \<not> call_party c s d then Inl FORBIDDEN_CALLER
          else if \<not> (case v of JObj _ \<Rightarrow> True | _ \<Rightarrow> False) then Inr (err_json ''INVALID_METRICS'', d)
          else if json_length pg v > 4000 then Inr (err_json ''METRICS_TOO_LARGE'', d)
          else if to_upper pg (name_or [] (text_member v ''role'')) \<notin> {''FAN'', ''PARTNER''} then Inr (err_json ''INVALID_ROLE'', d)
          else Inr (ok_json [], d))"

text \<open>\<open>cleanup_stalled_calls\<close>: one update of every ring that nobody answered, with its triggers.\<close>

definition stalled :: "int \<Rightarrow> call \<Rightarrow> bool" where
  "stalled now c \<longleftrightarrow> ca_status c = PARTNER_INITIATED \<and> (\<exists>t. ca_initiated_at c = Some t \<and> t < now - RING_MS) \<and> ca_joined_at c = None"

definition cleanup_stalled_calls :: "('a services_scheme, json) stmt" where
  "cleanup_stalled_calls s d =
     (if \<not> is_system s d then Inl ''FORBIDDEN: system or admin only''
      else let old = filter (stalled (sess_now s)) (calls d) in
        Inr (ok_json [(''missed_fan_no_join'', JNum (int (length old))), (''failed'', JNum 0)],
          fold (\<lambda>c. call_triggers PARTNER_INITIATED MISSED_FAN_NO_JOIN (ca_booking c)) old
            (d\<lparr>calls := map (\<lambda>c. if stalled (sess_now s) c then c\<lparr>ca_status := MISSED_FAN_NO_JOIN, ca_ended_at := Some (sess_now s)\<rparr> else c) (calls d)\<rparr>)))"

end
