(* ===== verification/Booking_Close.thy ===== *)
theory Booking_Close
  imports Call_Attempts
begin

text \<open>
  How a booking ends: the sweep at the end of its days (migration 0077), settlement (0066), and what administrators may do to it
  (0063, 0086); and all functions of bookings by name.
\<close>

section \<open>The end of the day\<close>

text \<open>The attempts that count, \<open>MAX\<close> of their lengths, and the outcome.\<close>

definition ENDED :: "callStatus set" where
  "ENDED = {COMPLETED_SUCCESSFUL, MISSED_FAN_NO_JOIN, MISSED_FAN_DECLINED, DROPPED_TECHNICAL_ISSUE}"

definition ended_calls :: "nat \<Rightarrow> 'a services_scheme \<Rightarrow> call list" where
  "ended_calls i d = filter (\<lambda>c. ca_booking c = i \<and> ca_status c \<in> ENDED) (calls d)"

definition longest_ms :: "call list \<Rightarrow> int" where
  "longest_ms cs = (case List.map_filter lasted cs of [] \<Rightarrow> 0 | t # ts \<Rightarrow> fold max ts t)"

definition eod_status :: "booking \<Rightarrow> call list \<Rightarrow> bookingStatus" where
  "eod_status b cs =
     (if longest_ms cs \<ge> minutes_of (bk_duration b) * 60 * 1000 then BOOKING_COMPLETED
      else if longest_ms cs \<ge> 180 * 1000 then REQUIRES_ADMIN_REVIEW
      else if cs = [] then EXPIRED_PARTNER_NO_SHOW
      else if \<exists>c \<in> set cs. ca_status c = MISSED_FAN_DECLINED then EXPIRED_FAN_DECLINED
      else if \<exists>c \<in> set cs. ca_status c = MISSED_FAN_NO_JOIN then EXPIRED_FAN_NO_JOIN
      else EXPIRED_TECHNICAL_ISSUE)"

definition expiry_due :: "session \<Rightarrow> booking \<Rightarrow> bool" where
  "expiry_due s b \<longleftrightarrow> bk_status b = BOOKED \<and> bk_settle_at b \<le> sess_now s"

text \<open>One booking of the sweep: its columns are those of the query, its status and wallet those of now.\<close>

definition expire_one :: "booking \<Rightarrow> bookingStatus \<Rightarrow> session \<Rightarrow> 'a bookingDb_scheme \<Rightarrow> string + 'a bookingDb_scheme" where
  "expire_one b st s d =
     (if st = BOOKING_COMPLETED
      then (case bd_settle_days d of None \<Rightarrow> Inl ''null value in column settle_at violates not-null constraint''
        | Some n \<Rightarrow> Inr (set_booking (bk_id b) (\<lambda>x. x\<lparr>bk_status := st, bk_settle_at := sess_now s + days_ms n\<rparr>) d))
      else if st = REQUIRES_ADMIN_REVIEW then Inr (set_booking (bk_id b) (bk_status_set st) d)
      else case wallet_of (bk_fan b) d of None \<Rightarrow> Inl ''Wallet not found for fan''
        | Some v \<Rightarrow> (case post_transaction ''REFUND'' (bk_gross b) (bk_key ''expire:'' (bk_id b)) (return_legs (Some (wl_id v)) b) (Some (nat_text (bk_id b))) d of
            Inl e \<Rightarrow> Inl e
          | Inr (_, d1) \<Rightarrow> Inr (set_booking (bk_id b) (bk_status_set st) (release_minutes b d1))))"

text \<open>A failure undoes that booking only; it has been counted with its status.\<close>

fun expire_all :: "(booking \<times> bookingStatus) list \<Rightarrow> session \<Rightarrow> 'a bookingDb_scheme \<Rightarrow> nat \<times> 'a bookingDb_scheme" where
  "expire_all [] s d = (0, d)"
| "expire_all ((b, st) # bs) s d =
     (case expire_one b st s d of
        Inl _ \<Rightarrow> (let (n, d') = expire_all bs s d in (Suc n, d'))
      | Inr d1 \<Rightarrow> expire_all bs s d1)"

definition eod_work :: "session \<Rightarrow> 'a services_scheme \<Rightarrow> (booking \<times> bookingStatus) list" where
  "eod_work s d = map (\<lambda>b. (b, eod_status b (ended_calls (bk_id b) d))) (take 200 (filter (expiry_due s) (bookings d)))"

definition count_of :: "bookingStatus \<Rightarrow> (booking \<times> bookingStatus) list \<Rightarrow> json" where
  "count_of st bs = JNum (int (length (filter (\<lambda>x. snd x = st) bs)))"

definition process_end_of_day_expired_bookings :: "('a bookingDb_scheme, json) stmt" where
  "process_end_of_day_expired_bookings s d =
     (if \<not> is_system s d then Inl ''FORBIDDEN: system or admin only''
      else let bs = eod_work s d; (failed, d') = expire_all bs s d in
        Inr (ok_json [(''completed'', count_of BOOKING_COMPLETED bs), (''admin_review'', count_of REQUIRES_ADMIN_REVIEW bs),
          (''expired_partner_no_show'', count_of EXPIRED_PARTNER_NO_SHOW bs), (''expired_fan_no_join'', count_of EXPIRED_FAN_NO_JOIN bs),
          (''expired_fan_declined'', count_of EXPIRED_FAN_DECLINED bs), (''expired_technical'', count_of EXPIRED_TECHNICAL_ISSUE bs),
          (''failed'', JNum (int failed))], d'))"

section \<open>Settling\<close>

definition status_error :: "string \<Rightarrow> bookingStatus \<Rightarrow> json" where
  "status_error e st = JObj [(''success'', JBool False), (''error'', JStr e), (''status'', JStr (booking_status_text st))]"

definition call_reported :: "nat \<Rightarrow> 'a services_scheme \<Rightarrow> bool" where
  "call_reported i d \<longleftrightarrow> (\<exists>c \<in> set (calls d). ca_booking c = i \<and> under_report R_CALL (ca_id c) d)"

definition rpc_settle_booking :: "nat \<Rightarrow> ('a bookingDb_scheme, json) stmt" where
  "rpc_settle_booking i s d =
     (if \<not> is_system s d then Inl ''FORBIDDEN: system or admin only''
      else case bk_of i d of None \<Rightarrow> Inr (err_json ''NOT_FOUND'', d)
      | Some b \<Rightarrow>
          if bk_status b \<noteq> BOOKING_COMPLETED then Inr (status_error ''NOT_SETTLEABLE'' (bk_status b), d)
          else if call_reported i d then Inr (err_json ''REPORT_PENDING'', d)
          else if i \<in> set (earnings d) then Inr (ok_json [(''already_settled'', JBool True)], d)
          else case post_transaction ''PARTNER_EARNING'' (bk_gross b) (bk_key ''settle:'' i) (settle_legs (bk_gross b)) (Some (nat_text i)) d of
            Inl e \<Rightarrow> Inl e
          | Inr ((tid, _), d1) \<Rightarrow> Inr (ok_json [(''transaction_id'', jid tid)], d1\<lparr>earnings := earnings d1 @ [i]\<rparr>))"

definition rpc_admin_force_settle_booking :: "nat \<Rightarrow> ('a bookingDb_scheme, json) stmt" where
  "rpc_admin_force_settle_booking i s d =
     (if \<not> has_role (finance_admins d) s d then Inl FORBIDDEN_ADMIN
      else case bk_of i d of None \<Rightarrow> Inr (err_json ''NOT_FOUND'', d)
      | Some b \<Rightarrow>
          if bk_status b \<notin> {BOOKING_COMPLETED, EXPIRED_FAN_NO_JOIN} then Inr (status_error ''NOT_SETTLEABLE'' (bk_status b), d)
          else case rpc_settle_booking i s d of Inl e \<Rightarrow> Inl e
            | Inr (r, d1) \<Rightarrow> if \<not> success r then Inr (r, d1)
                else Inr (r, so_audit ''FORCE_SETTLE'' ''BOOKING'' i (JObj [(''transaction_id'', or_null (jget r ''transaction_id''))]) d1))"

section \<open>The hatches\<close>

definition EXPIRY_TARGETS :: "bookingStatus set" where
  "EXPIRY_TARGETS = {BOOKING_COMPLETED, EXPIRED_PARTNER_NO_SHOW, EXPIRED_FAN_NO_JOIN, EXPIRED_FAN_DECLINED, EXPIRED_TECHNICAL_ISSUE}"

definition expire_audit :: "nat \<Rightarrow> bookingStatus \<Rightarrow> 'a services_scheme \<Rightarrow> 'a services_scheme" where
  "expire_audit i st = so_audit ''EXPIRE_BOOKING'' ''BOOKING'' i (JObj [(''status'', JStr (booking_status_text st))])"

definition rpc_admin_expire_booking :: "nat \<Rightarrow> bookingStatus \<Rightarrow> ('a bookingDb_scheme, json) stmt" where
  "rpc_admin_expire_booking i st s d =
     (if \<not> has_role (finance_admins d) s d then Inl FORBIDDEN_ADMIN
      else if st \<notin> EXPIRY_TARGETS then Inr (err_json ''INVALID_STATUS'', d)
      else case bk_of i d of None \<Rightarrow> Inr (err_json ''NOT_FOUND'', d)
      | Some b \<Rightarrow>
          let done_with = ok_json [(''status'', JStr (booking_status_text st))] in
          if st = BOOKING_COMPLETED then Inr (done_with, expire_audit i st (set_booking i (bk_status_set st) d))
          else case wallet_of (bk_fan b) d of None \<Rightarrow> Inr (err_json ''WALLET_NOT_FOUND'', d)
            | Some v \<Rightarrow> (case post_transaction ''REFUND'' (bk_gross b) (bk_key ''admin-expire:'' i) (return_legs (Some (wl_id v)) b) (Some (nat_text i)) d of
                Inl e \<Rightarrow> Inl e
              | Inr (_, d1) \<Rightarrow> Inr (done_with, expire_audit i st (set_booking i (bk_status_set st)
                  (notify (bk_fan b, ''REFUND_PROCESSED_FAN'', ''booking'', i) (release_minutes b d1))))))"

definition RECOVERABLE :: "bookingStatus set" where
  "RECOVERABLE = {BOOKED, EXPIRED_TECHNICAL_ISSUE, EXPIRED_PARTNER_NO_SHOW}"

text \<open>\<open>order by created_at desc limit 1\<close>: calls are kept in the order of their creation.\<close>

definition live_call :: "nat \<Rightarrow> 'a services_scheme \<Rightarrow> call option" where
  "live_call i d = find (\<lambda>c. ca_booking c = i \<and> ca_status c \<in> set LIVE) (rev (calls d))"

definition drop_live :: "nat \<Rightarrow> int \<Rightarrow> 'a services_scheme \<Rightarrow> 'a services_scheme" where
  "drop_live i now d = (case live_call i d of None \<Rightarrow> d
     | Some c \<Rightarrow> call_triggers (ca_status c) DROPPED_TECHNICAL_ISSUE i
         (set_call (ca_id c) (\<lambda>c. c\<lparr>ca_status := DROPPED_TECHNICAL_ISSUE, ca_ended_at := Some now\<rparr>) d))"

definition rpc_admin_recover_call :: "nat \<Rightarrow> string \<Rightarrow> ('a bookingDb_scheme, json) stmt" where
  "rpc_admin_recover_call i reason s d =
     (if \<not> has_role (bd_support d) s d then Inl FORBIDDEN_ADMIN
      else case bk_of i d of None \<Rightarrow> Inr (err_json ''BOOKING_NOT_FOUND'', d)
      | Some b \<Rightarrow>
          if bk_status b \<notin> RECOVERABLE then Inr (JObj [(''success'', JBool False), (''error'', JStr ''NOT_RECOVERABLE''),
            (''booking_status'', JStr (booking_status_text (bk_status b)))], d)
          else let k = live_call i d in
            Inr (ok_json [(''booking_id'', jid i), (''call_id'', case k of None \<Rightarrow> JNull | Some c \<Rightarrow> jid (ca_id c)), (''call_dropped'', JBool (k \<noteq> None)),
                (''booking_status'', JStr ''EXPIRED_TECHNICAL_ISSUE'')],
              notify (bk_partner b, ''PLATFORM_ANNOUNCEMENT'', ''booking'', i) (notify (bk_fan b, ''PLATFORM_ANNOUNCEMENT'', ''booking'', i)
                (so_audit ''ADMIN_CALL_RECOVERY'' ''BOOKING'' i (JObj [(''booking_status'', JStr ''EXPIRED_TECHNICAL_ISSUE''),
                    (''call_status'', JStr (if k = None then ''NO_CALL'' else ''DROPPED_TECHNICAL_ISSUE'')), (''reason'', JStr reason)])
                  (set_booking i (bk_status_set EXPIRED_TECHNICAL_ISSUE) (drop_live i (sess_now s) d))))))"

text \<open>The two halves of a partial call.  Whether a share is positive is tested; that the other is not negative is not.\<close>

definition partner_part :: "booking \<Rightarrow> int \<Rightarrow> 'a bookingDb_scheme \<Rightarrow> string + (nat option \<times> 'a bookingDb_scheme)" where
  "partner_part b x d =
     (if x > 0
      then (case post_transaction ''PARTNER_EARNING'' x (bk_key ''partial-settle:'' (bk_id b)) (settle_legs x) (Some (nat_text (bk_id b))) d of
        Inl e \<Rightarrow> Inl e
      | Inr ((tid, _), d1) \<Rightarrow> Inr (Some tid, notify (bk_partner b, ''PLATFORM_ANNOUNCEMENT'', ''booking'', bk_id b) (d1\<lparr>earnings := earnings d1 @ [bk_id b]\<rparr>)))
      else Inr (None, d))"

definition fan_part :: "booking \<Rightarrow> int \<Rightarrow> 'a bookingDb_scheme \<Rightarrow> string + (nat option \<times> 'a bookingDb_scheme)" where
  "fan_part b x d =
     (if x > 0
      then (case wallet_of (bk_fan b) d of None \<Rightarrow> Inl ''Wallet not found for fan''
        | Some v \<Rightarrow> (case post_transaction ''REFUND'' x (bk_key ''partial-refund:'' (bk_id b)) (so_refund_legs (Some (wl_id v)) x) (Some (nat_text (bk_id b))) d of
            Inl e \<Rightarrow> Inl e
          | Inr ((tid, _), d1) \<Rightarrow> Inr (Some tid, notify (bk_fan b, ''REFUND_PROCESSED_FAN'', ''booking'', bk_id b) d1)))
      else Inr (None, d))"

definition txn_member :: "nat option \<Rightarrow> json" where
  "txn_member t = (case t of None \<Rightarrow> JNull | Some i \<Rightarrow> jid i)"

definition rpc_admin_resolve_partial_call :: "string \<Rightarrow> nat \<Rightarrow> int \<Rightarrow> int \<Rightarrow> string option \<Rightarrow> ('a bookingDb_scheme, json) stmt" where
  "rpc_admin_resolve_partial_call a i partner fan notes s d =
     (if \<not> admin_actor a s d then Inl FORBIDDEN_ADMIN
      else if \<not> has_role (finance_admins d) s d then Inl FORBIDDEN_ADMIN
      else case bk_of i d of None \<Rightarrow> Inr (err_json ''NOT_FOUND'', d)
      | Some b \<Rightarrow>
          if bk_status b \<noteq> REQUIRES_ADMIN_REVIEW then Inr (status_error ''INVALID_STATUS'' (bk_status b), d)
          else if partner + fan \<noteq> bk_gross b then Inr (JObj [(''success'', JBool False), (''error'', JStr ''SPLIT_MISMATCH''),
            (''required_total'', JNum (bk_gross b)), (''provided_total'', JNum (partner + fan))], d)
          else if i \<in> set (earnings d) then Inr (ok_json [(''already_resolved'', JBool True)], d)
          else case partner_part b partner d of Inl e \<Rightarrow> Inl e
          | Inr (t1, d1) \<Rightarrow> (case fan_part b fan d1 of Inl e \<Rightarrow> Inl e
            | Inr (t2, d2) \<Rightarrow> Inr (ok_json [(''partner_paise'', JNum partner), (''fan_refund_paise'', JNum fan), (''partner_txn_id'', txn_member t1),
                (''refund_txn_id'', txn_member t2)],
                so_audit ''RESOLVE_PARTIAL_CALL'' ''booking'' i (JObj [(''partner_paise'', JNum partner), (''fan_refund_paise'', JNum fan), (''notes'', jstr_or_null notes)])
                  (set_booking i (bk_status_set BOOKING_COMPLETED) d2))))"

section \<open>By name\<close>

definition id_of :: "json \<Rightarrow> nat option" where
  "id_of j = (case j of JNum n \<Rightarrow> if 0 \<le> n then Some (nat n) else None | _ \<Rightarrow> None)"

definition opt_text :: "json \<Rightarrow> string option" where
  "opt_text j = (case j of JStr t \<Rightarrow> Some t | _ \<Rightarrow> None)"

definition opt_bool :: "json \<Rightarrow> bool option" where
  "opt_bool j = (case j of JBool b \<Rightarrow> Some b | _ \<Rightarrow> None)"

definition NO_FUNCTION :: string where "NO_FUNCTION = ''function does not exist''"

definition with_id :: "json \<Rightarrow> (nat \<Rightarrow> ('d, json) stmt) \<Rightarrow> ('d, json) stmt" where
  "with_id j f s d = (case id_of j of None \<Rightarrow> Inl ''invalid input syntax for type uuid'' | Some i \<Rightarrow> f i s d)"

fun book_fn :: "pgText \<Rightarrow> json list \<Rightarrow> ('a bookingDb_scheme, json) stmt" where
  "book_fn pg [JStr fan, JStr p, date, JStr dur, note, code] s d =
     (case date_arg pg date of Inl e \<Rightarrow> Inl e
      | Inr day \<Rightarrow> if dur \<notin> set DURATIONS then Inl ''invalid input value for enum call_duration_options_enum''
          else rpc_book_video_call pg fan p day dur (opt_text code) s d)"
| "book_fn pg _ s d = Inl NO_FUNCTION"

fun preview_fn :: "pgText \<Rightarrow> json list \<Rightarrow> ('a bookingDb_scheme, json) stmt" where
  "preview_fn pg [JStr p, ty, JStr dur, code] s d =
     (if dur \<notin> set DURATIONS then Inl ''invalid input value for enum call_duration_options_enum'' else rpc_preview_price pg p dur (opt_text code) s d)"
| "preview_fn pg _ s d = Inl NO_FUNCTION"

definition REFUND_REASONS :: "string list" where
  "REFUND_REASONS = [''FAN_CANCEL'', ''PARTNER_NO_SHOW'', ''TECHNICAL'', ''SLA_MISS'', ''ADMIN_GOODWILL'', ''DISPUTE'', ''ACCOUNT_CLOSURE'']"

fun refund_fn :: "json list \<Rightarrow> ('a bookingDb_scheme, json) stmt" where
  "refund_fn [i, JStr reason] s d = (if reason \<notin> set REFUND_REASONS then Inl ''invalid input value for enum refund_reason'' else with_id i rpc_refund_booking s d)"
| "refund_fn _ s d = Inl NO_FUNCTION"

fun id_fn :: "(nat \<Rightarrow> ('d, json) stmt) \<Rightarrow> json list \<Rightarrow> ('d, json) stmt" where
  "id_fn f [i] s d = with_id i f s d"
| "id_fn f _ s d = Inl NO_FUNCTION"

fun heartbeat_fn :: "json list \<Rightarrow> ('a bookingDb_scheme, json) stmt" where
  "heartbeat_fn [k, JStr actor, present] s d = with_id k (\<lambda>i. rpc_call_heartbeat i actor (opt_bool present)) s d"
| "heartbeat_fn _ s d = Inl NO_FUNCTION"

fun complete_fn :: "json list \<Rightarrow> ('a bookingDb_scheme, json) stmt" where
  "complete_fn [k, JBool auto] s d = with_id k (\<lambda>i. rpc_complete_call i auto) s d"
| "complete_fn _ s d = Inl NO_FUNCTION"

fun missed_fn :: "json list \<Rightarrow> ('a bookingDb_scheme, json) stmt" where
  "missed_fn [k, JStr st] s d = with_id k (\<lambda>i. rpc_mark_call_missed i st) s d"
| "missed_fn _ s d = Inl NO_FUNCTION"

fun metrics_fn :: "pgText \<Rightarrow> json list \<Rightarrow> ('a bookingDb_scheme, json) stmt" where
  "metrics_fn pg [k, v] s d = with_id k (\<lambda>i. rpc_record_call_metrics pg i v) s d"
| "metrics_fn pg _ s d = Inl NO_FUNCTION"

fun nullary_fn :: "('d, json) stmt \<Rightarrow> json list \<Rightarrow> ('d, json) stmt" where
  "nullary_fn f [] s d = f s d"
| "nullary_fn f _ s d = Inl NO_FUNCTION"

text \<open>The functions that the calls service, the availability service and the sweeps of bookings call.\<close>

definition booking_table :: "pgText \<Rightarrow> (string \<times> (json list \<Rightarrow> ('a bookingDb_scheme, json) stmt)) list" where
  "booking_table pg =
     [(''rpc_book_video_call'', book_fn pg), (''rpc_preview_price'', preview_fn pg), (''rpc_refund_booking'', refund_fn),
      (''rpc_fan_signal_ready'', id_fn rpc_fan_signal_ready), (''rpc_partner_initiate_call'', id_fn rpc_partner_initiate_call),
      (''rpc_fan_join_call'', id_fn rpc_fan_join_call), (''rpc_call_heartbeat'', heartbeat_fn), (''rpc_complete_call'', complete_fn),
      (''rpc_mark_call_missed'', missed_fn), (''rpc_record_call_metrics'', metrics_fn pg), (''rpc_create_notification'', create_notification_fn),
      (''rpc_partner_set_availability'', set_availability_fn pg), (''rpc_settle_booking'', id_fn rpc_settle_booking),
      (''process_end_of_day_expired_bookings'', nullary_fn process_end_of_day_expired_bookings), (''cleanup_stalled_calls'', nullary_fn cleanup_stalled_calls)]"

definition booking_fns :: "pgText \<Rightarrow> 'a bookingDb_scheme sqlFns" where
  "booking_fns pg name args = (case map_of (booking_table pg) name of None \<Rightarrow> (\<lambda>s d. Inl NO_FUNCTION) | Some f \<Rightarrow> f args)"

end
