(* ===== verification/Booking_Money.thy ===== *)
theory Booking_Money
  imports Booking_Close Earnings_Props
begin

text \<open>
  The money of bookings: what the escrow and the promotion budget hold for every booking, whatever fans, partners, sweeps and
  administrators do in whatever order.
\<close>

section \<open>What is held\<close>

definition returned :: "idem_key set \<Rightarrow> nat \<Rightarrow> bool" where
  "returned ks i \<longleftrightarrow> bk_key ''refund:'' i \<in> ks \<or> bk_key ''expire:'' i \<in> ks \<or> bk_key ''admin-expire:'' i \<in> ks"

definition bk_held :: "idem_key set \<Rightarrow> nat set \<Rightarrow> booking \<Rightarrow> int" where
  "bk_held ks paid b = (if returned ks (bk_id b) \<or> bk_id b \<in> paid then 0 else bk_gross b)"

definition bk_subsidy :: "idem_key set \<Rightarrow> booking \<Rightarrow> int" where
  "bk_subsidy ks b = (if returned ks (bk_id b) then 0 else bk_discount b)"

definition EXPIRED_STATES :: "bookingStatus set" where
  "EXPIRED_STATES = {EXPIRED_PARTNER_NO_SHOW, EXPIRED_FAN_NO_JOIN, EXPIRED_FAN_DECLINED, EXPIRED_TECHNICAL_ISSUE}"

definition bk_row_ok :: "idem_key set \<Rightarrow> nat set \<Rightarrow> booking \<Rightarrow> bool" where
  "bk_row_ok ks paid b \<longleftrightarrow>
     bk_gross b = bk_price b + bk_discount b \<and> 0 < bk_price b \<and> 0 \<le> bk_discount b \<and> bk_key ''book:'' (bk_id b) \<in> ks \<and>
     (bk_id b \<in> paid \<longleftrightarrow> bk_key ''settle:'' (bk_id b) \<in> ks \<or> bk_key ''partial-settle:'' (bk_id b) \<in> ks) \<and>
     (bk_key ''settle:'' (bk_id b) \<in> ks \<longrightarrow> bk_key ''partial-settle:'' (bk_id b) \<notin> ks) \<and>
     (bk_key ''partial-refund:'' (bk_id b) \<in> ks \<longrightarrow> bk_key ''partial-settle:'' (bk_id b) \<in> ks) \<and>
     (bk_key ''refund:'' (bk_id b) \<in> ks \<longleftrightarrow> bk_status b = CANCELLED_BY_FAN) \<and>
     (bk_key ''expire:'' (bk_id b) \<in> ks \<or> bk_key ''admin-expire:'' (bk_id b) \<in> ks \<longrightarrow> bk_status b \<in> EXPIRED_STATES) \<and>
     (bk_key ''expire:'' (bk_id b) \<in> ks \<longrightarrow> bk_key ''admin-expire:'' (bk_id b) \<notin> ks) \<and>
     (bk_id b \<in> paid \<longrightarrow> bk_status b = BOOKING_COMPLETED) \<and>
     bk_status b \<notin> {PAYMENT_PENDING, CANCELLED_BY_ADMIN}"

text \<open>\<open>c\<close> is what the escrow holds for the other services, \<open>p\<close> what the promotion budget got from elsewhere.\<close>

definition bk_ok :: "int \<Rightarrow> int \<Rightarrow> 'a services_scheme \<Rightarrow> bool" where
  "bk_ok c p d \<longleftrightarrow> money_ok d \<and> distinct (map bk_id (bookings d)) \<and>
     (\<forall>b \<in> set (bookings d). bk_row_ok (keys d) (set (earnings d)) b) \<and>
     account_sum ''booking_escrow'' (entries d) = c + sum_list (map (bk_held (keys d) (set (earnings d))) (bookings d)) \<and>
     account_sum ''promo_incentive'' (entries d) = p - sum_list (map (bk_subsidy (keys d)) (bookings d))"

lemma bk_key_eq [simp]: "bk_key a i = bk_key b j \<longleftrightarrow> a = b \<and> i = j"
  by (simp add: bk_key_def)

lemma bk_okD:
  assumes "bk_ok c p d"
  shows "money_ok d" "distinct (map bk_id (bookings d))" "b \<in> set (bookings d) \<Longrightarrow> bk_row_ok (keys d) (set (earnings d)) b"
    "account_sum ''booking_escrow'' (entries d) = c + sum_list (map (bk_held (keys d) (set (earnings d))) (bookings d))"
    "account_sum ''promo_incentive'' (entries d) = p - sum_list (map (bk_subsidy (keys d)) (bookings d))"
  using assms by (simp_all add: bk_ok_def)

lemma bk_ofD: "bk_of i d = Some b \<Longrightarrow> b \<in> set (bookings d) \<and> bk_id b = i"
  by (auto simp: bk_of_def find_Some_iff)

section \<open>Steps that move no money\<close>

text \<open>What the invariant looks at besides the bookings.\<close>

definition money_view :: "'a services_scheme \<Rightarrow> wallet list \<times> txn list \<times> ledgerEntry list \<times> nat \<times> nat list" where
  "money_view d = (wallets d, txns d, entries d, next_id d, earnings d)"

lemma money_viewD:
  assumes "money_view d' = money_view d"
  shows "money_ok d' \<longleftrightarrow> money_ok d" "keys d' = keys d" "entries d' = entries d" "earnings d' = earnings d"
  using assms by (auto simp: money_view_def money_ok_def keys_def)

lemma notify_view [simp]:
  fixes d :: "'a services_scheme"
  shows "money_view (notify k d) = money_view d" "bookings (notify k d) = bookings d"
    "money_view (notify_if b k d) = money_view d" "bookings (notify_if b k d) = bookings d" "calls (notify k d) = calls d" "calls (notify_if b k d) = calls d"
  by (simp_all add: money_view_def notify_def notify_if_def)

lemma call_view [simp]:
  "money_view (set_call k f d) = money_view d" "bookings (set_call k f d) = bookings d" "money_view (d\<lparr>calls := cs\<rparr>) = money_view d"
  "bookings (d\<lparr>calls := cs\<rparr>) = bookings d" "money_view (so_audit a ty i v d) = money_view d" "bookings (so_audit a ty i v d) = bookings d"
  "calls (so_audit a ty i v d) = calls d"
  by (simp_all add: money_view_def set_call_def so_audit_def)

lemma booking_view [simp]:
  "money_view (set_booking i f d) = money_view d" "bookings (set_booking i f d) = map (\<lambda>b. if bk_id b = i then f b else b) (bookings d)"
  "calls (set_booking i f d) = calls d"
  by (simp_all add: money_view_def set_booking_def)

lemma avail_view [simp]:
  fixes d :: "'a bookingDb_scheme"
  shows "money_view (set_avail q day f d) = money_view d" "bookings (set_avail q day f d) = bookings d" "calls (set_avail q day f d) = calls d"
    "money_view (release_minutes b d) = money_view d" "bookings (release_minutes b d) = bookings d" "calls (release_minutes b d) = calls d"
    "money_view (book_minutes q day m d) = money_view d" "bookings (book_minutes q day m d) = bookings d"
    "money_view (use_promo code i fan tid disc d) = money_view d" "bookings (use_promo code i fan tid disc d) = bookings d"
    "money_view (d\<lparr>avail := as\<rparr>) = money_view d" "bookings (d\<lparr>avail := as\<rparr>) = bookings d"
  by (simp_all add: money_view_def set_avail_def release_minutes_def book_minutes_def use_promo_def split: option.split)

text \<open>A change of rows that keeps their prices.\<close>

definition same_price :: "(booking \<Rightarrow> booking) \<Rightarrow> bool" where
  "same_price f \<longleftrightarrow> (\<forall>b. bk_id (f b) = bk_id b \<and> bk_price (f b) = bk_price b \<and> bk_original (f b) = bk_original b \<and> bk_discount (f b) = bk_discount b)"

lemma same_priceI [simp]:
  "same_price (\<lambda>b. b)" "same_price (bk_status_set st)" "same_price (\<lambda>b. b\<lparr>bk_ready_at := t\<rparr>)" "same_price (\<lambda>b. b\<lparr>bk_meeting := m\<rparr>)"
  "same_price (\<lambda>b. if bk_status b = BOOKED then b\<lparr>bk_status := BOOKING_COMPLETED\<rparr> else b)" "same_price (\<lambda>b. b\<lparr>bk_status := st, bk_settle_at := u\<rparr>)"
  by (auto simp: same_price_def bk_status_set_def)

lemma same_priceD:
  assumes "same_price f"
  shows "bk_id (f b) = bk_id b" "bk_price (f b) = bk_price b" "bk_discount (f b) = bk_discount b" "bk_gross (f b) = bk_gross b"
  using assms by (simp_all add: same_price_def bk_gross_def split: option.split)

lemma quiet_bk:
  assumes ok: "bk_ok c p d" and m: "money_view d' = money_view d"
    and b: "bookings d' = map (\<lambda>b. if bk_id b = i then f b else b) (bookings d)" and f: "same_price f"
    and row: "\<And>b. b \<in> set (bookings d) \<Longrightarrow> bk_id b = i \<Longrightarrow> bk_row_ok (keys d) (set (earnings d)) (f b)"
  shows "bk_ok c p d'"
proof -
  note v = money_viewD [OF m] and g = same_priceD [OF f]
  have held: "bk_held ks paid (if bk_id b = i then f b else b) = bk_held ks paid b" for ks paid b by (simp add: bk_held_def g)
  have sub: "bk_subsidy ks (if bk_id b = i then f b else b) = bk_subsidy ks b" for ks b by (simp add: bk_subsidy_def g)
  have ids: "map bk_id (bookings d') = map bk_id (bookings d)" by (simp add: b g)
  have sums: "map (bk_held ks paid) (bookings d') = map (bk_held ks paid) (bookings d)" "map (bk_subsidy ks) (bookings d') = map (bk_subsidy ks) (bookings d)" for ks paid
    by (simp_all add: b held sub)
  have "\<forall>x \<in> set (bookings d'). bk_row_ok (keys d) (set (earnings d)) x" using bk_okD(3) [OF ok] row by (auto simp: b)
  then show ?thesis using bk_okD [OF ok] by (simp add: bk_ok_def v ids sums)
qed

lemma frame_bk:
  assumes "bk_ok c p d" and "money_view d' = money_view d" and "bookings d' = bookings d"
  shows "bk_ok c p d'"
  by (rule quiet_bk [where i = 0 and f = "\<lambda>b. b", OF assms(1,2)]) (use bk_okD(3) [OF assms(1)] assms(3) in auto)

text \<open>An open booking has no key of a way out; an expired one is not paid.\<close>

lemma row_open:
  assumes "bk_row_ok ks paid b" and "bk_status b \<in> {BOOKED, REQUIRES_ADMIN_REVIEW}"
  shows "\<not> returned ks (bk_id b)" "bk_id b \<notin> paid" "bk_key ''settle:'' (bk_id b) \<notin> ks" "bk_key ''partial-settle:'' (bk_id b) \<notin> ks"
    "bk_key ''partial-refund:'' (bk_id b) \<notin> ks" "bk_key ''refund:'' (bk_id b) \<notin> ks" "bk_key ''expire:'' (bk_id b) \<notin> ks" "bk_key ''admin-expire:'' (bk_id b) \<notin> ks"
proof -
  have s: "bk_status b \<noteq> CANCELLED_BY_FAN" "bk_status b \<notin> EXPIRED_STATES" "bk_status b \<noteq> BOOKING_COMPLETED" using assms(2) by (auto simp: EXPIRED_STATES_def)
  show "bk_id b \<notin> paid" using assms(1) s(3) by (simp add: bk_row_ok_def) blast
  then show "bk_key ''settle:'' (bk_id b) \<notin> ks" "bk_key ''partial-settle:'' (bk_id b) \<notin> ks" using assms(1) by (simp_all add: bk_row_ok_def)
  then show "bk_key ''partial-refund:'' (bk_id b) \<notin> ks" using assms(1) by (auto simp: bk_row_ok_def)
  show "bk_key ''refund:'' (bk_id b) \<notin> ks" "bk_key ''expire:'' (bk_id b) \<notin> ks" "bk_key ''admin-expire:'' (bk_id b) \<notin> ks"
    using assms(1) s(1,2) by (simp_all add: bk_row_ok_def)
  then show "\<not> returned ks (bk_id b)" by (simp add: returned_def)
qed

lemma row_expired:
  assumes "bk_row_ok ks paid b" and "bk_status b \<in> EXPIRED_STATES"
  shows "bk_id b \<notin> paid" "bk_key ''settle:'' (bk_id b) \<notin> ks" "bk_key ''partial-settle:'' (bk_id b) \<notin> ks" "bk_key ''partial-refund:'' (bk_id b) \<notin> ks"
    "bk_key ''refund:'' (bk_id b) \<notin> ks"
proof -
  have s: "bk_status b \<noteq> CANCELLED_BY_FAN" "bk_status b \<noteq> BOOKING_COMPLETED" using assms(2) by (auto simp: EXPIRED_STATES_def)
  show "bk_id b \<notin> paid" using assms(1) s(2) by (simp add: bk_row_ok_def) blast
  then show "bk_key ''settle:'' (bk_id b) \<notin> ks" "bk_key ''partial-settle:'' (bk_id b) \<notin> ks" using assms(1) by (simp_all add: bk_row_ok_def)
  then show "bk_key ''partial-refund:'' (bk_id b) \<notin> ks" using assms(1) by (auto simp: bk_row_ok_def)
  show "bk_key ''refund:'' (bk_id b) \<notin> ks" using assms(1) s(1) by (simp add: bk_row_ok_def)
qed

text \<open>The status may change to one that the keys allow.\<close>

lemma row_status:
  assumes row: "bk_row_ok ks paid b" and f: "same_price f" and st: "bk_status b \<in> {BOOKED, REQUIRES_ADMIN_REVIEW} \<or> bk_status b \<in> EXPIRED_STATES \<and> bk_status (f b) \<in> EXPIRED_STATES"
    and new: "bk_status (f b) \<notin> {PAYMENT_PENDING, CANCELLED_BY_ADMIN, CANCELLED_BY_FAN}"
  shows "bk_row_ok ks paid (f b)"
  using st
proof
  assume "bk_status b \<in> {BOOKED, REQUIRES_ADMIN_REVIEW}"
  note o = row_open [OF row this]
  show ?thesis using row o new by (simp add: bk_row_ok_def same_priceD [OF f])
next
  assume s: "bk_status b \<in> EXPIRED_STATES \<and> bk_status (f b) \<in> EXPIRED_STATES"
  note o = row_expired [OF row conjunct1 [OF s]]
  show ?thesis using row o new s by (simp add: bk_row_ok_def same_priceD [OF f])
qed

lemma row_same:
  assumes "bk_row_ok ks paid b" and "same_price f" and "bk_status (f b) = bk_status b"
  shows "bk_row_ok ks paid (f b)"
  using assms(1) by (simp add: bk_row_ok_def same_priceD [OF assms(2)] assms(3))

section \<open>Postings\<close>

lemma bk_more_fields:
  fixes d d' :: "'a bookingDb_scheme"
  assumes "money.more d' = money.more d"
  shows "bookings d' = bookings d" "earnings d' = earnings d" "calls d' = calls d" "avail d' = avail d" "promos d' = promos d" "bd_settle_days d' = bd_settle_days d"
    "profiles d' = profiles d" "promo_uses d' = promo_uses d"
  using assms by (cases d; cases d'; simp)+

lemmas bk_post_fields = bk_more_fields [OF post_more]

lemma post_bk:
  fixes d d1 d2 :: "'a bookingDb_scheme"
  assumes ok: "bk_ok c p d" and x: "b \<in> set (bookings d)" "bk_id b = i"
    and po: "post_transaction ty a (bk_key kind i) legs ref d = Inr (t, d1)" and k: "bk_key kind i \<notin> keys d"
    and d2: "wallets d2 = wallets d1" "txns d2 = txns d1" "entries d2 = entries d1" "next_id d2 = next_id d1"
      "bookings d2 = map (\<lambda>y. if bk_id y = i then f y else y) (bookings d)" "\<And>j. j \<noteq> i \<Longrightarrow> j \<in> set (earnings d2) \<longleftrightarrow> j \<in> set (earnings d)"
    and f: "same_price f" and row: "bk_row_ok (insert (bk_key kind i) (keys d)) (set (earnings d2)) (f b)"
    and escrow: "sum_list (map leg_delta (filter (\<lambda>l. leg_account l = ''booking_escrow'') legs)) =
      bk_held (insert (bk_key kind i) (keys d)) (set (earnings d2)) b - bk_held (keys d) (set (earnings d)) b"
    and budget: "sum_list (map leg_delta (filter (\<lambda>l. leg_account l = ''promo_incentive'') legs)) =
      bk_subsidy (keys d) b - bk_subsidy (insert (bk_key kind i) (keys d)) b"
  shows "bk_ok c p d2"
proof -
  note o = post_once [OF bk_okD(1) [OF ok] po k] and g = same_priceD [OF f]
  let ?K = "insert (bk_key kind i) (keys d)"
  have ks: "keys d2 = ?K" using o(2) by (simp add: keys_def d2(2))
  have m: "money_ok d2" using o(1) by (simp add: money_ok_def d2)
  have dist: "distinct (map bk_id (bookings d))" by (rule bk_okD(2) [OF ok])
  have same: "y = b" if "y \<in> set (bookings d)" "bk_id y = i" for y using dist x that by (auto simp: distinct_map inj_on_def)
  have ids: "map bk_id (bookings d2) = map bk_id (bookings d)" by (simp add: d2(5) g)
  have other: "bk_held ?K (set (earnings d2)) y = bk_held (keys d) (set (earnings d)) y" "bk_subsidy ?K y = bk_subsidy (keys d) y"
    "bk_row_ok ?K (set (earnings d2)) y \<longleftrightarrow> bk_row_ok (keys d) (set (earnings d)) y" if "bk_id y \<noteq> i" for y
    using that d2(6) [OF that] by (simp_all add: bk_held_def bk_subsidy_def returned_def bk_row_ok_def)
  have sums: "map (bk_held ks paid) (bookings d2) = map (bk_held ks paid) (bookings d)" "map (bk_subsidy ks) (bookings d2) = map (bk_subsidy ks) (bookings d)" for ks paid
    by (simp_all add: d2(5) bk_held_def bk_subsidy_def g)
  have "sum_list (map (bk_held ?K (set (earnings d2))) (bookings d)) = sum_list (map (bk_held (keys d) (set (earnings d))) (bookings d)) +
      bk_held ?K (set (earnings d2)) b - bk_held (keys d) (set (earnings d)) b"
    by (rule sum_list_one [OF dist x(1)]) (use other(1) x(2) in auto)
  moreover have "sum_list (map (bk_subsidy ?K) (bookings d)) = sum_list (map (bk_subsidy (keys d)) (bookings d)) + bk_subsidy ?K b - bk_subsidy (keys d) b"
    by (rule sum_list_one [OF dist x(1)]) (use other(2) x(2) in auto)
  moreover have "account_sum acc (entries d2) = account_sum acc (entries d) + sum_list (map leg_delta (filter (\<lambda>l. leg_account l = acc) legs))" for acc
    using o(4) [of acc] by (simp add: d2(3))
  moreover have "\<forall>y \<in> set (bookings d2). bk_row_ok ?K (set (earnings d2)) y"
    using bk_okD(3) [OF ok] other(3) same row by (auto simp: d2(5))
  ultimately show ?thesis using bk_okD(4,5) [OF ok] m dist escrow budget by (simp add: bk_ok_def ks ids sums)
qed

section \<open>Each operation\<close>

lemma trigger_view [simp]: "money_view (call_triggers old new i d) = money_view d"
  by (simp add: call_triggers_def)

lemma trigger_ok: "bk_ok c p d \<Longrightarrow> bk_ok c p (call_triggers old new i d)"
proof -
  assume ok: "bk_ok c p d"
  let ?sync = "\<lambda>b. if bk_status b = BOOKED then b\<lparr>bk_status := BOOKING_COMPLETED\<rparr> else b"
  have "bk_ok c p (set_booking i ?sync d)"
  proof (rule quiet_bk [where f = ?sync and i = i, OF ok])
    fix b assume b: "b \<in> set (bookings d)" "bk_id b = i"
    show "bk_row_ok (keys d) (set (earnings d)) (?sync b)"
    proof (cases "bk_status b = BOOKED")
      case True
      then show ?thesis using row_status [of "keys d" "set (earnings d)" b ?sync] bk_okD(3) [OF ok b(1)] by simp
    qed (use bk_okD(3) [OF ok b(1)] in simp)
  qed simp_all
  moreover have "bk_ok c p (set_booking i (\<lambda>b. b\<lparr>bk_ready_at := None\<rparr>) d)"
    by (rule quiet_bk [where f = "\<lambda>b. b\<lparr>bk_ready_at := None\<rparr>" and i = i, OF ok]) (use bk_okD(3) [OF ok] in \<open>auto intro: row_same\<close>)
  ultimately show ?thesis using ok by (simp add: call_triggers_def)
qed

lemma notify_all_view:
  fixes d d' :: "'a services_scheme"
  shows "notify_all ns d = Inr d' \<Longrightarrow> money_view d' = money_view d \<and> bookings d' = bookings d \<and> calls d' = calls d"
  by (induction ns d arbitrary: d' rule: notify_all.induct) auto

lemma ready_ok: "bk_ok c p d \<Longrightarrow> rpc_fan_signal_ready i s d = Inr (r, d') \<Longrightarrow> bk_ok c p d'"
proof -
  assume ok: "bk_ok c p d" and run: "rpc_fan_signal_ready i s d = Inr (r, d')"
  have "bk_ok c p (set_booking i (\<lambda>b. b\<lparr>bk_ready_at := Some (sess_now s)\<rparr>) d)"
    by (rule quiet_bk [where f = "\<lambda>b. b\<lparr>bk_ready_at := Some (sess_now s)\<rparr>" and i = i, OF ok]) (use bk_okD(3) [OF ok] in \<open>auto intro: row_same\<close>)
  with ok run show ?thesis by (auto simp: rpc_fan_signal_ready_def split: option.splits if_splits)
qed

lemma initiate_ok: "bk_ok c p d \<Longrightarrow> rpc_partner_initiate_call i s d = Inr (r, d') \<Longrightarrow> bk_ok c p d'"
proof -
  assume ok: "bk_ok c p d" and run: "rpc_partner_initiate_call i s d = Inr (r, d')"
  have "bk_ok c p (set_booking i (\<lambda>b. b\<lparr>bk_meeting := Some m\<rparr>) (d\<lparr>calls := cs\<rparr>))" for m cs
    by (rule quiet_bk [where f = "\<lambda>b. b\<lparr>bk_meeting := Some m\<rparr>" and i = i, OF ok]) (use bk_okD(3) [OF ok] in \<open>auto intro: row_same\<close>)
  with ok run show ?thesis by (auto simp: rpc_partner_initiate_call_def Let_def split: option.splits if_splits)
qed

lemma set_call_ok: "bk_ok c p d \<Longrightarrow> bk_ok c p (set_call k f d)"
  by (erule frame_bk) simp_all

lemma join_ok: "bk_ok c p d \<Longrightarrow> rpc_fan_join_call i s d = Inr (r, d') \<Longrightarrow> bk_ok c p d'"
  by (auto simp: rpc_fan_join_call_def Let_def split: option.splits if_splits intro: set_call_ok)

lemma heartbeat_ok: "bk_ok c p d \<Longrightarrow> rpc_call_heartbeat k actor present s d = Inr (r, d') \<Longrightarrow> bk_ok c p d'"
  by (auto simp: rpc_call_heartbeat_def split: option.splits if_split_asm intro: set_call_ok)

lemma complete_ok:
  assumes ok: "bk_ok c p d" and run: "rpc_complete_call k auto s d = Inr (r, d')"
  shows "bk_ok c p d'"
proof (cases "d' = d")
  case False
  then obtain cl ns st i where n: "notify_all ns (call_triggers IN_PROGRESS st i (set_call k (\<lambda>_. cl) d)) = Inr d'"
    using run by (auto simp: rpc_complete_call_def Let_def split: option.splits if_split_asm sum.splits)
  show ?thesis using notify_all_view [OF n] by (auto intro!: frame_bk [OF trigger_ok [OF set_call_ok [OF ok]]])
qed (use ok in simp)

lemma missed_ok: "bk_ok c p d \<Longrightarrow> rpc_mark_call_missed k st s d = Inr (r, d') \<Longrightarrow> bk_ok c p d'"
  by (auto simp: rpc_mark_call_missed_def Let_def split: option.splits if_split_asm intro: trigger_ok set_call_ok)

lemma metrics_ok: "bk_ok c p d \<Longrightarrow> rpc_record_call_metrics pg k v s d = Inr (r, d') \<Longrightarrow> bk_ok c p d'"
  by (auto simp: rpc_record_call_metrics_def split: option.splits if_split_asm)

lemma cleanup_ok: "bk_ok c p d \<Longrightarrow> cleanup_stalled_calls s d = Inr (r, d') \<Longrightarrow> bk_ok c p d'"
proof -
  have f: "bk_ok c p d \<Longrightarrow> bk_ok c p (fold (\<lambda>x. call_triggers PARTNER_INITIATED MISSED_FAN_NO_JOIN (ca_booking x)) cs d)" for cs d
    by (induction cs arbitrary: d) (auto intro: trigger_ok)
  have g: "bk_ok c p d \<Longrightarrow> bk_ok c p (d\<lparr>calls := cs\<rparr>)" for cs by (erule frame_bk) simp_all
  show "bk_ok c p d \<Longrightarrow> cleanup_stalled_calls s d = Inr (r, d') \<Longrightarrow> bk_ok c p d'"
    by (auto simp: cleanup_stalled_calls_def Let_def split: if_split_asm intro!: f g)
qed

lemma notification_ok: "bk_ok c p d \<Longrightarrow> create_notification_fn args s d = Inr (r, d') \<Longrightarrow> bk_ok c p d'"
  by (induction args s d rule: create_notification_fn.induct) (auto simp: rpc_create_notification_def Let_def split: if_split_asm intro: frame_bk)

lemma availability_ok:
  assumes ok: "bk_ok c p d" and run: "rpc_partner_set_availability q day m s d = Inr (r, d')"
  shows "bk_ok c p d'"
  by (rule frame_bk [OF ok]) (use run in \<open>auto simp: rpc_partner_set_availability_def split: if_split_asm option.splits\<close>)

section \<open>Booking\<close>

lemma below_new_bk: "i \<in> set (map bk_id (bookings d) @ map ca_booking (calls d) @ earnings d @ map (snd \<circ> tn_key) (txns d)) \<Longrightarrow> i < new_booking_id d"
  unfolding new_booking_id_def by (rule fresh_max)

lemma new_bk_fresh:
  "b \<in> set (bookings d) \<Longrightarrow> bk_id b \<noteq> new_booking_id d" "new_booking_id d \<notin> set (earnings d)" "bk_key kind (new_booking_id d) \<notin> keys d"
  "cl \<in> set (calls d) \<Longrightarrow> ca_booking cl \<noteq> new_booking_id d"
proof -
  show "b \<in> set (bookings d) \<Longrightarrow> bk_id b \<noteq> new_booking_id d" using below_new_bk [of "bk_id b" d] by auto
  show "new_booking_id d \<notin> set (earnings d)" using below_new_bk [of "new_booking_id d" d] by auto
  show "cl \<in> set (calls d) \<Longrightarrow> ca_booking cl \<noteq> new_booking_id d" using below_new_bk [of "ca_booking cl" d] by auto
  show "bk_key kind (new_booking_id d) \<notin> keys d"
  proof
    assume "bk_key kind (new_booking_id d) \<in> keys d"
    then obtain t where "t \<in> set (txns d)" "tn_key t = (kind, new_booking_id d)" by (auto simp: keys_def bk_key_def)
    then have "new_booking_id d \<in> set (map (snd \<circ> tn_key) (txns d))" by (force simp: image_iff)
    then show False using below_new_bk [of "new_booking_id d" d] by simp
  qed
qed

text \<open>What a successful booking did.\<close>

lemma bookedE:
  assumes run: "rpc_book_video_call pg fan q day dur code s d = Inr (r, d')" and ch: "d' \<noteq> d"
  obtains base disc promo_id a tid rep n d1 where "resolve_price pg q dur code (Some fan) s d = Inr (base, disc, promo_id)" "Option.bind day (\<lambda>x. av_of q x d) = Some a"
    "av_open a" "av_booked a + minutes_of dur \<le> av_minutes a"
    "post_transaction ''BOOKING_DEBIT'' base (bk_key ''book:'' (new_booking_id d)) (book_legs (map_option wl_id (wallet_of fan d)) base disc) (Some (nat_text (new_booking_id d))) d
      = Inr ((tid, rep), d1)" "bd_settle_days d1 = Some n" "0 < base - disc" "0 \<le> disc"
    "r = ok_json [(''booking_id'', jid (new_booking_id d)), (''price_paise'', JNum (base - disc))]"
    "d' = booked_db code promo_id tid (new_booking (new_booking_id d) fan q (av_date a) dur base disc (sess_now s + days_ms n) (sess_now s)) d1"
  using run ch by (auto simp: rpc_book_video_call_def Let_def split: if_split_asm sum.splits option.splits)

lemma legs_of_book:
  "sum_list (map leg_delta (filter (\<lambda>l. leg_account l = ''booking_escrow'') (book_legs v base disc))) = base"
  "0 \<le> disc \<Longrightarrow> sum_list (map leg_delta (filter (\<lambda>l. leg_account l = ''promo_incentive'') (book_legs v base disc))) = - disc"
  "sum_list (map leg_delta (filter (\<lambda>l. leg_account l = ''booking_escrow'') (return_legs v b))) = - bk_gross b"
  "0 \<le> bk_discount b \<Longrightarrow> sum_list (map leg_delta (filter (\<lambda>l. leg_account l = ''promo_incentive'') (return_legs v b))) = bk_discount b"
  "sum_list (map leg_delta (filter (\<lambda>l. leg_account l = ''booking_escrow'') (settle_legs x))) = - x"
  "sum_list (map leg_delta (filter (\<lambda>l. leg_account l = ''promo_incentive'') (settle_legs x))) = 0"
  "sum_list (map leg_delta (filter (\<lambda>l. leg_account l = ''booking_escrow'') (so_refund_legs v x))) = - x"
  "sum_list (map leg_delta (filter (\<lambda>l. leg_account l = ''promo_incentive'') (so_refund_legs v x))) = 0"
  by (simp_all add: book_legs_def return_legs_def settle_legs_def so_refund_legs_def promo_leg_def)

lemma booked_db_view [simp]:
  fixes d :: "'a bookingDb_scheme"
  shows "money_view (booked_db code pid tid b d) = money_view d" "bookings (booked_db code pid tid b d) = bookings d @ [b]"
proof -
  have "money_view (d\<lparr>bookings := bs\<rparr>) = money_view d" for bs by (simp add: money_view_def)
  then show "money_view (booked_db code pid tid b d) = money_view d" "bookings (booked_db code pid tid b d) = bookings d @ [b]"
    by (simp_all add: booked_db_def)
qed

lemma book_ok:
  assumes ok: "bk_ok c p d" and run: "rpc_book_video_call pg fan q day dur code s d = Inr (r, d')"
  shows "bk_ok c p d'"
proof (cases "d' = d")
  case False
  let ?i = "new_booking_id d"
  obtain base disc promo_id and a :: availRow and tid rep n d1 where po: "post_transaction ''BOOKING_DEBIT'' base (bk_key ''book:'' ?i) (book_legs (map_option wl_id (wallet_of fan d)) base disc)
      (Some (nat_text ?i)) d = Inr ((tid, rep), d1)" and pr: "0 < base - disc" "0 \<le> disc"
    and d': "d' = booked_db code promo_id tid (new_booking ?i fan q (av_date a) dur base disc (sess_now s + days_ms n) (sess_now s)) d1"
    by (rule bookedE [OF run False], rule that, assumption+)
  let ?b = "new_booking ?i fan q (av_date a) dur base disc (sess_now s + days_ms n) (sess_now s)"
  note o = post_once [OF bk_okD(1) [OF ok] po new_bk_fresh(3)] and f = bk_post_fields [OF po] and fr = new_bk_fresh [where d = d]
  have v: "money_view d' = money_view d1" "bookings d' = bookings d @ [?b]" by (simp_all add: d' f)
  have ks: "keys d' = insert (bk_key ''book:'' ?i) (keys d)" "earnings d' = earnings d" "entries d' = entries d1" "money_ok d'"
    using money_viewD [OF v(1)] o(1,2) f(2) by simp_all
  have old: "bk_row_ok (insert (bk_key ''book:'' ?i) (keys d)) (set (earnings d)) y" "bk_held (insert (bk_key ''book:'' ?i) (keys d)) (set (earnings d)) y = bk_held (keys d) (set (earnings d)) y"
    "bk_subsidy (insert (bk_key ''book:'' ?i) (keys d)) y = bk_subsidy (keys d) y" if "y \<in> set (bookings d)" for y
    using bk_okD(3) [OF ok that] fr(1) [OF that] by (simp_all add: bk_row_ok_def bk_held_def bk_subsidy_def returned_def)
  have new: "bk_row_ok (insert (bk_key ''book:'' ?i) (keys d)) (set (earnings d)) ?b" "bk_held (insert (bk_key ''book:'' ?i) (keys d)) (set (earnings d)) ?b = base"
    "bk_subsidy (insert (bk_key ''book:'' ?i) (keys d)) ?b = disc"
    using fr(2,3) pr by (simp_all add: bk_row_ok_def bk_held_def bk_subsidy_def returned_def new_booking_def bk_gross_def)
  have held: "map (bk_held (insert (bk_key ''book:'' ?i) (keys d)) (set (earnings d))) (bookings d) = map (bk_held (keys d) (set (earnings d))) (bookings d)"
    and sub: "map (bk_subsidy (insert (bk_key ''book:'' ?i) (keys d))) (bookings d) = map (bk_subsidy (keys d)) (bookings d)"
    using old(2,3) by simp_all
  have "distinct (map bk_id (bookings d @ [?b]))" using bk_okD(2) [OF ok] fr(1) by (force simp: new_booking_def)
  then show ?thesis using bk_okD(4,5) [OF ok] o(4) [of "''booking_escrow''"] o(4) [of "''promo_incentive''"] old(1) new pr(2) ks(4)
    by (simp add: bk_ok_def ks v(2) held sub legs_of_book)
qed (use ok in simp)

section \<open>Returning and settling\<close>

lemma return_bk:
  fixes d d1 d2 :: "'a bookingDb_scheme"
  assumes ok: "bk_ok c p d" and b: "b \<in> set (bookings d)" "bk_id b = i" and k: "kind \<in> {''refund:'', ''expire:'', ''admin-expire:''}" "\<not> returned (keys d) i" "i \<notin> set (earnings d)"
    and po: "post_transaction ty (bk_gross b) (bk_key kind i) (return_legs v b) ref d = Inr (t, d1)"
    and d2: "money_view d2 = money_view d1" "bookings d2 = map (\<lambda>y. if bk_id y = i then f y else y) (bookings d)"
    and f: "same_price f" and st: "kind = ''refund:'' \<Longrightarrow> bk_status (f b) = CANCELLED_BY_FAN" "kind \<noteq> ''refund:'' \<Longrightarrow> bk_status (f b) \<in> EXPIRED_STATES"
  shows "bk_ok c p d2"
proof -
  have new: "bk_key kind i \<notin> keys d" using k by (auto simp: returned_def)
  note row = bk_okD(3) [OF ok b(1)] and w = d2(1) [unfolded money_view_def]
  have e: "earnings d2 = earnings d" using w bk_post_fields(2) [OF po] by simp
  have ret: "returned (insert (bk_key kind i) (keys d)) i" using k(1) by (auto simp: returned_def)
  have un: "bk_key ''refund:'' i \<notin> keys d" "bk_key ''expire:'' i \<notin> keys d" "bk_key ''admin-expire:'' i \<notin> keys d" using k(2) by (simp_all add: returned_def)
  have part: "bk_key ''settle:'' i \<notin> keys d" "bk_key ''partial-settle:'' i \<notin> keys d" "bk_key ''partial-refund:'' i \<notin> keys d"
    using row k(3) b(2) by (auto simp: bk_row_ok_def)
  have s: "bk_status (f b) \<in> EXPIRED_STATES \<Longrightarrow> bk_status (f b) \<notin> {PAYMENT_PENDING, CANCELLED_BY_ADMIN, CANCELLED_BY_FAN}"
    by (auto simp: EXPIRED_STATES_def)
  have r: "bk_row_ok (insert (bk_key kind i) (keys d)) (set (earnings d2)) (f b)"
  proof (cases "kind = ''refund:''")
    case True
    then show ?thesis using row k(3) un part st(1) b(2) unfolding e by (simp add: bk_row_ok_def same_priceD [OF f])
  next
    case False
    note x = st(2) [OF False] s [OF st(2) [OF False]]
    from False k(1) consider "kind = ''expire:''" | "kind = ''admin-expire:''" by blast
    then show ?thesis by cases (use row k(3) un part x b(2) in \<open>simp_all add: e bk_row_ok_def same_priceD [OF f]\<close>)
  qed
  show ?thesis
    by (rule post_bk [OF ok b po new, where f = f])
      (use w d2(2) e f r ret k(2,3) b(2) row in \<open>simp_all add: legs_of_book bk_held_def bk_subsidy_def bk_row_ok_def\<close>)
qed

lemma refund_bk_ok:
  assumes ok: "bk_ok c p d" and run: "rpc_refund_booking i s d = Inr (r, d')"
  shows "bk_ok c p d'"
proof (cases "d' = d")
  case False
  then obtain b tid rep d1 where b: "bk_of i d = Some b" "bk_status b = BOOKED"
    and po: "post_transaction ''REFUND'' (bk_gross b) (bk_key ''refund:'' i) (return_legs (map_option wl_id (wallet_of (bk_fan b) d)) b) (Some (nat_text i)) d = Inr ((tid, rep), d1)"
    and d': "d' = notify_if (bk_fan b \<in> fst ` set (profiles d1)) (bk_partner b, ''VIDEO_CALL_CANCELLED_PARTNER'', ''booking'', i)
      (release_minutes b (set_booking i (bk_status_set CANCELLED_BY_FAN) d1))"
    using run by (auto simp: rpc_refund_booking_def split: option.splits if_split_asm sum.splits)
  note x = bk_ofD [OF b(1)] and o = row_open [OF bk_okD(3) [OF ok conjunct1 [OF bk_ofD [OF b(1)]]]]
  show ?thesis
    by (rule return_bk [where kind = "''refund:''" and f = "bk_status_set CANCELLED_BY_FAN", OF ok _ _ _ _ _ po])
      (use x o b(2) in \<open>simp_all add: d' bk_post_fields [OF po] bk_status_set_def\<close>)
qed (use ok in simp)

lemma expire_one_ok:
  assumes ok: "bk_ok c p d" and run: "expire_one b st s d = Inr d'" and b: "b \<in> set (bookings d)" "bk_status b = BOOKED"
    and st: "st \<in> insert BOOKING_COMPLETED (insert REQUIRES_ADMIN_REVIEW EXPIRED_STATES)"
  shows "bk_ok c p d'"
proof -
  note o = row_open [OF bk_okD(3) [OF ok b(1)]]
  have dist: "distinct (map bk_id (bookings d))" by (rule bk_okD(2) [OF ok])
  have same: "y = b" if "y \<in> set (bookings d)" "bk_id y = bk_id b" for y using dist b(1) that by (auto simp: distinct_map inj_on_def)
  have quiet: "bk_ok c p (set_booking (bk_id b) f d)" if f: "same_price f" "bk_status (f b) \<in> {BOOKING_COMPLETED, REQUIRES_ADMIN_REVIEW}" for f
  proof (rule quiet_bk [where f = f and i = "bk_id b", OF ok])
    fix y assume "y \<in> set (bookings d)" "bk_id y = bk_id b"
    then have "y = b" by (rule same)
    then show "bk_row_ok (keys d) (set (earnings d)) (f y)" using row_status [OF bk_okD(3) [OF ok b(1)] f(1)] f(2) b(2) by auto
  qed (use f in simp_all)
  consider "st = BOOKING_COMPLETED" | "st = REQUIRES_ADMIN_REVIEW" | "st \<in> EXPIRED_STATES" "st \<noteq> BOOKING_COMPLETED" "st \<noteq> REQUIRES_ADMIN_REVIEW"
    using st by (auto simp: EXPIRED_STATES_def)
  then show ?thesis
  proof cases
    case 1
    then show ?thesis using run by (auto simp: expire_one_def split: option.splits intro!: quiet)
  next
    case 2
    then show ?thesis using run by (auto simp: expire_one_def bk_status_set_def [of REQUIRES_ADMIN_REVIEW b] intro!: quiet)
  next
    case 3
    then obtain v :: wallet and t d1 where po: "post_transaction ''REFUND'' (bk_gross b) (bk_key ''expire:'' (bk_id b)) (return_legs (Some (wl_id v)) b) (Some (nat_text (bk_id b))) d = Inr (t, d1)"
      and d': "d' = set_booking (bk_id b) (bk_status_set st) (release_minutes b d1)"
      using run by (auto simp: expire_one_def split: option.splits sum.splits)
    show ?thesis
      by (rule return_bk [where kind = "''expire:''" and f = "bk_status_set st", OF ok b(1) refl _ _ _ po])
        (use o b(2) 3 in \<open>simp_all add: d' bk_post_fields [OF po] bk_status_set_def\<close>)
  qed
qed

lemma eod_status_range: "eod_status b cs \<in> insert BOOKING_COMPLETED (insert REQUIRES_ADMIN_REVIEW EXPIRED_STATES)"
  by (simp add: eod_status_def EXPIRED_STATES_def)

text \<open>The sweep's list are bookings of the table, each once; handling one leaves the rows of the others as they were.\<close>

lemma expire_one_others:
  assumes "expire_one b st s d = Inr d'" and "y \<in> set (bookings d)" and "bk_id y \<noteq> bk_id b"
  shows "y \<in> set (bookings d')"
  using assms by (auto simp: expire_one_def bk_post_fields split: if_split_asm option.splits sum.splits)

lemma expire_all_ok:
  assumes "bk_ok c p d" and "distinct (map (bk_id \<circ> fst) bs)"
    and "\<And>b st. (b, st) \<in> set bs \<Longrightarrow> b \<in> set (bookings d) \<and> bk_status b = BOOKED \<and> st \<in> insert BOOKING_COMPLETED (insert REQUIRES_ADMIN_REVIEW EXPIRED_STATES)"
    and "expire_all bs s d = (n, d')"
  shows "bk_ok c p d'"
  using assms
proof (induction bs s d arbitrary: n rule: expire_all.induct)
  case (2 b st bs s d)
  show ?case
  proof (cases "expire_one b st s d")
    case (Inl e)
    then show ?thesis using 2(1) [OF Inl 2(3)] 2(4-6) by (auto split: prod.splits)
  next
    case (Inr d1)
    have "b \<in> set (bookings d)" "bk_status b = BOOKED" "st \<in> insert BOOKING_COMPLETED (insert REQUIRES_ADMIN_REVIEW EXPIRED_STATES)"
      using 2(5) [of b st] by simp_all
    then have ok: "bk_ok c p d1" by (rule expire_one_ok [OF 2(3) Inr])
    have "y \<in> set (bookings d1) \<and> bk_status y = BOOKED \<and> sy \<in> insert BOOKING_COMPLETED (insert REQUIRES_ADMIN_REVIEW EXPIRED_STATES)" if "(y, sy) \<in> set bs" for y sy
      using 2(4) 2(5) [of y sy] that by (auto intro!: expire_one_others [OF Inr] simp: image_iff)
    moreover have "expire_all bs s d1 = (n, d')" using 2(6) Inr by simp
    ultimately show ?thesis using 2(2) [OF Inr ok] 2(4) by simp
  qed
qed simp

lemma eod_ok:
  assumes ok: "bk_ok c p d" and run: "process_end_of_day_expired_bookings s d = Inr (r, d')"
  shows "bk_ok c p d'"
proof -
  obtain n where "expire_all (eod_work s d) s d = (n, d')"
    using run by (auto simp: process_end_of_day_expired_bookings_def Let_def split: if_split_asm prod.splits)
  moreover have "distinct (map (bk_id \<circ> fst) (eod_work s d))"
  proof -
    have "map (bk_id \<circ> fst) (eod_work s d) = map bk_id (take 200 (filter (expiry_due s) (bookings d)))" by (simp add: eod_work_def comp_def)
    then show ?thesis using bk_okD(2) [OF ok] by (simp add: take_map [symmetric] distinct_map_filter)
  qed
  moreover have "b \<in> set (bookings d) \<and> bk_status b = BOOKED \<and> st \<in> insert BOOKING_COMPLETED (insert REQUIRES_ADMIN_REVIEW EXPIRED_STATES)"
    if "(b, st) \<in> set (eod_work s d)" for b st
    using that eod_status_range by (auto simp: eod_work_def expiry_due_def dest!: in_set_takeD)
  ultimately show ?thesis by (rule expire_all_ok [OF ok, rotated 2])
qed

lemma settle_bk_ok:
  assumes ok: "bk_ok c p d" and run: "rpc_settle_booking i s d = Inr (r, d')"
  shows "bk_ok c p d'"
proof (cases "d' = d")
  case False
  then obtain b tid rep d1 where b: "bk_of i d = Some b" "bk_status b = BOOKING_COMPLETED" "i \<notin> set (earnings d)"
    and po: "post_transaction ''PARTNER_EARNING'' (bk_gross b) (bk_key ''settle:'' i) (settle_legs (bk_gross b)) (Some (nat_text i)) d = Inr ((tid, rep), d1)"
    and d': "d' = d1\<lparr>earnings := earnings d1 @ [i]\<rparr>"
    using run by (auto simp: rpc_settle_booking_def split: option.splits if_split_asm sum.splits)
  note x = bk_ofD [OF b(1)] and row = bk_okD(3) [OF ok conjunct1 [OF bk_ofD [OF b(1)]]]
  have k: "bk_key ''settle:'' i \<notin> keys d" "bk_key ''partial-settle:'' i \<notin> keys d" using row x b(3) by (auto simp: bk_row_ok_def)
  have un: "\<not> returned (keys d) i" using row x b(2) by (auto simp: bk_row_ok_def returned_def EXPIRED_STATES_def)
  have r: "bk_row_ok (insert (bk_key ''settle:'' i) (keys d)) (insert i (set (earnings d))) b"
    using row x b k by (simp add: bk_row_ok_def)
  have h: "bk_held ks (insert i paid) b = 0" "bk_held (keys d) (set (earnings d)) b = bk_gross b" "bk_subsidy (insert (bk_key ''settle:'' i) (keys d)) b = bk_subsidy (keys d) b" for ks paid
    using un b(3) by (simp_all add: bk_held_def bk_subsidy_def returned_def x [THEN conjunct2])
  show ?thesis
    by (rule post_bk [where f = "\<lambda>b. b", OF ok conjunct1 [OF x] conjunct2 [OF x] po k(1)]) (use r h in \<open>simp_all add: d' bk_post_fields [OF po] legs_of_book\<close>)
qed (use ok in simp)

lemma audit_bk_ok: "bk_ok c p d \<Longrightarrow> bk_ok c p (so_audit a ty i v d)"
  by (erule frame_bk) simp_all

lemma force_settle_ok:
  assumes ok: "bk_ok c p d" and run: "rpc_admin_force_settle_booking i s d = Inr (r, d')"
  shows "bk_ok c p d'"
proof (cases "rpc_settle_booking i s d")
  case (Inl e)
  then show ?thesis using run ok by (auto simp: rpc_admin_force_settle_booking_def split: option.splits if_split_asm)
next
  case (Inr x)
  obtain r1 d1 where x: "x = (r1, d1)" by (cases x)
  have o: "bk_ok c p d1" using Inr unfolding x by (rule settle_bk_ok [OF ok])
  show ?thesis using run ok o audit_bk_ok [OF o] by (auto simp: rpc_admin_force_settle_booking_def Inr x split: option.splits if_split_asm)
qed

section \<open>The hatches, where they are safe\<close>

lemma row_reopened:
  assumes row: "bk_row_ok ks paid b" and out: "\<not> returned ks (bk_id b)" "bk_id b \<notin> paid"
  shows "bk_row_ok ks paid (bk_status_set BOOKING_COMPLETED b)"
proof -
  have f: "same_price (bk_status_set BOOKING_COMPLETED)" by simp
  have n: "bk_key ''settle:'' (bk_id b) \<notin> ks" "bk_key ''partial-settle:'' (bk_id b) \<notin> ks" using row out(2) by (simp_all add: bk_row_ok_def)
  then have "bk_key ''partial-refund:'' (bk_id b) \<notin> ks" using row by (auto simp: bk_row_ok_def)
  then show ?thesis using row out n by (simp add: bk_row_ok_def same_priceD [OF f] returned_def) (simp add: bk_status_set_def)
qed

lemma admin_expire_ok:
  assumes ok: "bk_ok c p d" and run: "rpc_admin_expire_booking i st s d = Inr (r, d')" and held: "\<not> returned (keys d) i" "i \<notin> set (earnings d)"
  shows "bk_ok c p d'"
proof (cases "d' = d")
  case False
  then obtain b where b: "bk_of i d = Some b" "st \<in> EXPIRY_TARGETS" using run by (auto simp: rpc_admin_expire_booking_def split: if_split_asm option.splits)
  note x = bk_ofD [OF b(1)] and row = bk_okD(3) [OF ok conjunct1 [OF bk_ofD [OF b(1)]]]
  have same: "y = b" if "y \<in> set (bookings d)" "bk_id y = i" for y using bk_okD(2) [OF ok] x that by (auto simp: distinct_map inj_on_def)
  show ?thesis
  proof (cases "st = BOOKING_COMPLETED")
    case True
    then have d': "d' = expire_audit i st (set_booking i (bk_status_set st) d)" using run b by (auto simp: rpc_admin_expire_booking_def Let_def split: if_split_asm)
    have "bk_ok c p (set_booking i (bk_status_set st) d)"
    proof (rule quiet_bk [where f = "bk_status_set st" and i = i, OF ok])
      fix y assume "y \<in> set (bookings d)" "bk_id y = i"
      then have "y = b" by (rule same)
      then show "bk_row_ok (keys d) (set (earnings d)) (bk_status_set st y)"
        using row_reopened [OF row] x held True by simp
    qed simp_all
    then show ?thesis unfolding d' expire_audit_def by (rule audit_bk_ok)
  next
    case new: False
    then have e: "st \<in> EXPIRED_STATES" using b(2) by (auto simp: EXPIRY_TARGETS_def EXPIRED_STATES_def)
    obtain v :: wallet and t d1 where po: "post_transaction ''REFUND'' (bk_gross b) (bk_key ''admin-expire:'' i) (return_legs (Some (wl_id v)) b) (Some (nat_text i)) d = Inr (t, d1)"
      and d': "d' = expire_audit i st (set_booking i (bk_status_set st) (notify (bk_fan b, ''REFUND_PROCESSED_FAN'', ''booking'', i) (release_minutes b d1)))"
      using run b new False by (auto simp: rpc_admin_expire_booking_def Let_def split: if_split_asm option.splits sum.splits)
    show ?thesis
      by (rule return_bk [where kind = "''admin-expire:''" and f = "bk_status_set st", OF ok _ _ _ held po])
        (use x e in \<open>simp_all add: d' expire_audit_def bk_post_fields [OF po] bk_status_set_def\<close>)
  qed
qed (use ok in simp)

lemma drop_live_ok: "bk_ok c p d \<Longrightarrow> bk_ok c p (drop_live i now d)"
  by (auto simp: drop_live_def split: option.split intro: trigger_ok set_call_ok)

lemma drop_live_status: "y \<in> set (bookings (drop_live i now d)) \<Longrightarrow> \<exists>z \<in> set (bookings d). bk_id z = bk_id y \<and> bk_status y = bk_status z"
  by (auto simp: drop_live_def call_triggers_def MISSED_def split: option.splits if_split_asm)

lemma recover_ok:
  assumes ok: "bk_ok c p d" and run: "rpc_admin_recover_call i reason s d = Inr (r, d')"
  shows "bk_ok c p d'"
proof (cases "d' = d")
  case False
  then obtain b ty v where b: "bk_of i d = Some b" "bk_status b \<in> RECOVERABLE"
    and d': "d' = notify (bk_partner b, ''PLATFORM_ANNOUNCEMENT'', ''booking'', i) (notify (bk_fan b, ''PLATFORM_ANNOUNCEMENT'', ''booking'', i)
      (so_audit ty ''BOOKING'' i v (set_booking i (bk_status_set EXPIRED_TECHNICAL_ISSUE) (drop_live i (sess_now s) d))))"
    using run by (auto simp: rpc_admin_recover_call_def Let_def split: option.splits if_split_asm)
  have dl: "bk_ok c p (drop_live i (sess_now s) d)" by (rule drop_live_ok [OF ok])
  have rec: "bk_status y \<in> RECOVERABLE" if y: "y \<in> set (bookings (drop_live i (sess_now s) d))" "bk_id y = i" for y
  proof -
    obtain z where z: "z \<in> set (bookings d)" "bk_id z = bk_id y" "bk_status y = bk_status z" using drop_live_status [OF y(1)] by blast
    have "z = b" using bk_okD(2) [OF ok] bk_ofD [OF b(1)] z(1,2) y(2) by (auto simp: distinct_map inj_on_def)
    then show ?thesis using z(3) b(2) by simp
  qed
  have step: "bk_row_ok ks paid (bk_status_set EXPIRED_TECHNICAL_ISSUE y)" if "bk_row_ok ks paid y" "bk_status y \<in> RECOVERABLE" for ks paid y
    by (rule row_status [OF that(1)]) (use that(2) in \<open>auto simp: RECOVERABLE_def EXPIRED_STATES_def bk_status_set_def [of _ y]\<close>)
  have "bk_ok c p (set_booking i (bk_status_set EXPIRED_TECHNICAL_ISSUE) (drop_live i (sess_now s) d))"
    by (rule quiet_bk [where f = "bk_status_set EXPIRED_TECHNICAL_ISSUE" and i = i, OF dl])
      (use rec bk_okD(3) [OF dl] step in \<open>auto\<close>)
  then show ?thesis unfolding d' by (rule frame_bk) (simp_all)
qed (use ok in simp)

lemma partial_fields:
  fixes d d' :: "'a bookingDb_scheme"
  shows "partner_part b x d = Inr (t, d') \<Longrightarrow> bookings d' = bookings d \<and> calls d' = calls d"
    "fan_part b x d = Inr (t, d') \<Longrightarrow> bookings d' = bookings d \<and> calls d' = calls d \<and> earnings d' = earnings d"
proof -
  show "partner_part b x d = Inr (t, d') \<Longrightarrow> bookings d' = bookings d \<and> calls d' = calls d"
    by (auto simp: partner_part_def bk_post_fields split: if_split_asm sum.splits)
  have "earnings (notify k d) = earnings d" for k and d :: "'a bookingDb_scheme" by (simp add: notify_def)
  then show "fan_part b x d = Inr (t, d') \<Longrightarrow> bookings d' = bookings d \<and> calls d' = calls d \<and> earnings d' = earnings d"
    by (auto simp: fan_part_def bk_post_fields split: if_split_asm option.splits sum.splits)
qed

text \<open>A split with a partner's share and no negative refund.\<close>

lemma resolve_partial_ok:
  assumes ok: "bk_ok c p d" and run: "rpc_admin_resolve_partial_call a i partner fan notes s d = Inr (r, d')" and pos: "0 < partner" "0 \<le> fan"
  shows "bk_ok c p d'"
proof (cases "d' = d")
  case False
  then obtain b t1 d1 t2 d2 v where b: "bk_of i d = Some b" "bk_status b = REQUIRES_ADMIN_REVIEW" "partner + fan = bk_gross b" "i \<notin> set (earnings d)"
    and parts: "partner_part b partner d = Inr (t1, d1)" "fan_part b fan d1 = Inr (t2, d2)"
    and d': "d' = so_audit ''RESOLVE_PARTIAL_CALL'' ''booking'' i v (set_booking i (bk_status_set BOOKING_COMPLETED) d2)"
    using run by (auto simp: rpc_admin_resolve_partial_call_def split: option.splits if_split_asm sum.splits)
  note x = bk_ofD [OF b(1)] and row = bk_okD(3) [OF ok conjunct1 [OF bk_ofD [OF b(1)]]]
  have id: "bk_id b = i" and mem: "b \<in> set (bookings d)" using x by simp_all
  have "bk_status b \<in> {BOOKED, REQUIRES_ADMIN_REVIEW}" using b(2) by simp
  note o = row_open [OF row this, unfolded id]
  let ?K1 = "insert (bk_key ''partial-settle:'' i) (keys d)"
  obtain tid rep e1 where p1: "post_transaction ''PARTNER_EARNING'' partner (bk_key ''partial-settle:'' i) (settle_legs partner) (Some (nat_text i)) d = Inr ((tid, rep), e1)"
    and d1: "d1 = notify (bk_partner b, ''PLATFORM_ANNOUNCEMENT'', ''booking'', i) (e1\<lparr>earnings := earnings e1 @ [i]\<rparr>)"
    using parts(1) pos(1) id by (auto simp: partner_part_def split: sum.splits)
  note q1 = post_once [OF bk_okD(1) [OF ok] p1 o(4)] and f1 = bk_post_fields [OF p1]
  have k1: "keys d1 = ?K1" "entries d1 = entries e1" "earnings d1 = earnings d @ [i]" "money_ok d1" "bookings d1 = bookings d"
    using q1(1,2) f1 by (simp_all add: d1 keys_def notify_def money_ok_def)
  have k2: "money_ok d2 \<and> keys d2 \<subseteq> insert (bk_key ''partial-refund:'' i) ?K1 \<and> ?K1 \<subseteq> keys d2 \<and> earnings d2 = earnings d1 \<and> bookings d2 = bookings d1 \<and>
      account_sum ''booking_escrow'' (entries d2) = account_sum ''booking_escrow'' (entries d1) - fan \<and>
      account_sum ''promo_incentive'' (entries d2) = account_sum ''promo_incentive'' (entries d1)"
  proof (cases "fan = 0")
    case True
    then show ?thesis using parts(2) k1 by (auto simp: fan_part_def)
  next
    case False
    then obtain w :: wallet and t e2 where p2: "post_transaction ''REFUND'' fan (bk_key ''partial-refund:'' i) (so_refund_legs (Some (wl_id w)) fan) (Some (nat_text i)) d1 = Inr (t, e2)"
      and d2: "d2 = notify (bk_fan b, ''REFUND_PROCESSED_FAN'', ''booking'', i) e2"
      using parts(2) pos(2) id by (auto simp: fan_part_def split: option.splits sum.splits)
    have new: "bk_key ''partial-refund:'' i \<notin> keys d1" using o(5) k1(1) by simp
    note q2 = post_once [OF k1(4) p2 new] and f2 = bk_post_fields [OF p2]
    have "keys d2 = keys e2" "entries d2 = entries e2" "earnings d2 = earnings d1" "bookings d2 = bookings d1" "money_ok d2 \<longleftrightarrow> money_ok e2"
      using f2 by (simp_all add: d2 keys_def notify_def money_ok_def)
    then show ?thesis using q2(1,2) q2(4) [of "''booking_escrow''"] q2(4) [of "''promo_incentive''"] k1(1) by (auto simp: legs_of_book)
  qed
  let ?K = "keys d2"
  have same: "y = b" if "y \<in> set (bookings d)" "bk_id y = i" for y using bk_okD(2) [OF ok] mem id that by (auto simp: distinct_map inj_on_def)
  have new: "bk_row_ok ?K (insert i (set (earnings d))) (bk_status_set BOOKING_COMPLETED b)"
  proof -
    have "bk_key z i \<in> ?K \<longleftrightarrow> bk_key z i \<in> keys d" if "z \<noteq> ''partial-settle:''" "z \<noteq> ''partial-refund:''" for z using k2 that by auto
    moreover have "bk_key ''partial-settle:'' i \<in> ?K" using k2 by blast
    moreover have f: "same_price (bk_status_set BOOKING_COMPLETED)" by simp
    ultimately show ?thesis using row o id by (simp add: bk_row_ok_def same_priceD [OF f]) (simp add: bk_status_set_def)
  qed
  have others: "bk_row_ok ?K (insert i (set (earnings d))) y \<longleftrightarrow> bk_row_ok (keys d) (set (earnings d)) y"
    "bk_held ?K (insert i (set (earnings d))) y = bk_held (keys d) (set (earnings d)) y" "bk_subsidy ?K y = bk_subsidy (keys d) y" if "bk_id y \<noteq> i" for y
  proof -
    have "bk_key z (bk_id y) \<in> ?K \<longleftrightarrow> bk_key z (bk_id y) \<in> keys d" for z using k2 that by auto
    then show "bk_row_ok ?K (insert i (set (earnings d))) y \<longleftrightarrow> bk_row_ok (keys d) (set (earnings d)) y"
      "bk_held ?K (insert i (set (earnings d))) y = bk_held (keys d) (set (earnings d)) y" "bk_subsidy ?K y = bk_subsidy (keys d) y"
      using that by (simp_all add: bk_row_ok_def bk_held_def bk_subsidy_def returned_def)
  qed
  have kept: "returned ?K i \<longleftrightarrow> returned (keys d) i" using k2 by (auto simp: returned_def)
  then have mine: "bk_held ?K (insert i (set (earnings d))) b = 0" "bk_held (keys d) (set (earnings d)) b = bk_gross b" "bk_subsidy ?K b = bk_subsidy (keys d) b"
    using o(1) b(4) id by (simp_all add: bk_held_def bk_subsidy_def)
  have sums: "map (bk_held ks paid) (bookings d') = map (bk_held ks paid) (bookings d)" "map (bk_subsidy ks) (bookings d') = map (bk_subsidy ks) (bookings d)"
    "map bk_id (bookings d') = map bk_id (bookings d)" for ks paid
    using k2 k1(5) by (simp_all add: d' bk_held_def bk_subsidy_def same_priceD [of "bk_status_set BOOKING_COMPLETED"])
  have "sum_list (map (bk_held ?K (insert i (set (earnings d)))) (bookings d)) = sum_list (map (bk_held (keys d) (set (earnings d))) (bookings d)) + 0 - bk_gross b"
    unfolding mine(1,2) [symmetric] by (rule sum_list_one [OF bk_okD(2) [OF ok] mem]) (use others(2) id in auto)
  moreover have "sum_list (map (bk_subsidy ?K) (bookings d)) = sum_list (map (bk_subsidy (keys d)) (bookings d))"
    by (intro arg_cong [where f = sum_list] map_cong refl) (use others(3) mine(3) same in blast)
  moreover have "\<forall>y \<in> set (bookings d'). bk_row_ok ?K (insert i (set (earnings d))) y"
    using bk_okD(3) [OF ok] others(1) same new k2 k1(5) by (auto simp: d')
  moreover have v: "money_view d' = money_view d2" by (simp add: d')
  moreover have "account_sum ''booking_escrow'' (entries d1) = account_sum ''booking_escrow'' (entries d) - partner"
    "account_sum ''promo_incentive'' (entries d1) = account_sum ''promo_incentive'' (entries d)"
    using q1(4) [of "''booking_escrow''"] q1(4) [of "''promo_incentive''"] by (simp_all add: k1(2) legs_of_book)
  ultimately show ?thesis using bk_okD(2,4,5) [OF ok] k2 k1(3) b(3) by (simp add: bk_ok_def money_viewD [OF v] sums)
qed (use ok in simp)

end
