(* ===== verification/Booking_Props.thy ===== *)
theory Booking_Props
  imports Booking_Money Messaging_Props
begin

text \<open>
  The calls service and the availability service running on the functions of bookings: the escrow under every interleaving, the
  outcome of a booking, and what the administrator's hatches do to a booking that is already closed.
\<close>

section \<open>The calls service keeps what its functions keep\<close>

definition fns_keep :: "('d \<Rightarrow> bool) \<Rightarrow> 'd sqlFns \<Rightarrow> bool" where
  "fns_keep I F \<longleftrightarrow> (\<forall>name args s d r d'. I d \<longrightarrow> F name args s d = Inr (r, d') \<longrightarrow> I d')"

lemma keeps_fn: "fns_keep I F \<Longrightarrow> keeps I (rpc (F name args))"
  by (rule keeps_rpc) (auto simp: fns_keep_def)

lemma keeps_fn_opt: "fns_keep I F \<Longrightarrow> keeps I (rpc (fn F name args))"
  by (rule keeps_rpc) (auto simp: fns_keep_def fn_def split: if_split_asm)

lemma keeps_reads [intro, simp]: "keeps I (execute (reads q))"
  by (rule keeps_execute) (simp add: reads_def)

lemma keeps_then [intro]: "keeps I m \<Longrightarrow> keeps I n \<Longrightarrow> keeps I (tx_then m n)"
  unfolding tx_then_def by (rule keeps_bind)

lemma keeps_push [intro, simp]: "keeps I (push_later name args)"
  by (simp add: push_later_def)

lemma keeps_each: "(\<And>x. keeps I (f x)) \<Longrightarrow> keeps I (tx_each f xs)"
  by (induction xs) auto

lemma keeps_notice: "fns_keep I F \<Longrightarrow> keeps I (createCallNotification F n)"
  unfolding createCallNotification_def by (intro keeps_catch keeps_bind keeps_return keeps_fn)

lemma calls_service_keeps:
  assumes F: "fns_keep I F" and i: "I (w_db w)"
  shows "I (w_db (snd (book F base u b w)))" "I (w_db (snd (cancelBooking F base u k w)))" "I (w_db (snd (signalReady F base u k w)))"
    "I (w_db (snd (initiate F base u k w)))" "I (w_db (snd (join F base u k w)))" "I (w_db (snd (heartbeat F base u k actor present w)))"
    "I (w_db (snd (complete F base u k w)))" "I (w_db (snd (markMissed F base u k st w)))" "I (w_db (snd (recordMetrics F base u k v w)))"
    "I (w_db (snd (availability_set F date minutes base u w)))"
proof -
  note r = as_user.run_keeps [where I = I, OF _ i]
  note k = keeps_fn [OF F] keeps_notice [OF F]
  show "I (w_db (snd (book F base u b w)))" "I (w_db (snd (heartbeat F base u k actor present w)))" "I (w_db (snd (recordMetrics F base u k v w)))"
    unfolding book_def heartbeat_def recordMetrics_def by (rule r, rule k)+
  show "I (w_db (snd (availability_set F date minutes base u w)))" unfolding availability_set_def by (rule r) (rule keeps_fn_opt [OF F])
  show "I (w_db (snd (cancelBooking F base u k w)))" unfolding cancelBooking_def
    by (rule r) (intro keeps_bind keeps_if keeps_then keeps_each keeps_push keeps_return keeps_reads k)
  show "I (w_db (snd (signalReady F base u k w)))" unfolding signalReady_def
    by (rule r) (auto intro!: keeps_bind keeps_then k simp: Let_def split: option.split)
  have alert: "keeps I (alert_next F u res b display nxt)" for res b display nxt
    unfolding alert_next_def Let_def by (intro keeps_bind keeps_if keeps_push keeps_return k)
  show "I (w_db (snd (initiate F base u k w)))" unfolding initiate_def
    by (rule r) (auto intro!: keeps_bind keeps_then k alert split: option.split)
  show "I (w_db (snd (join F base u k w)))" unfolding join_def
    by (rule r) (intro keeps_bind keeps_if keeps_then keeps_push keeps_return keeps_reads k)
  show "I (w_db (snd (complete F base u k w)))" unfolding complete_def
    by (rule r) (auto intro!: keeps_bind keeps_then k simp: Let_def split: option.split)
  show "I (w_db (snd (markMissed F base u k st w)))" unfolding markMissed_def
    by (auto intro!: r keeps_bind keeps_then keeps_each k i simp: Let_def split: option.split)
qed

section \<open>The functions of bookings keep the escrow\<close>

lemma with_idE: "with_id j f s d = Inr (r, d') \<Longrightarrow> (\<And>i. id_of j = Some i \<Longrightarrow> f i s d = Inr (r, d') \<Longrightarrow> P) \<Longrightarrow> P"
  by (auto simp: with_id_def split: option.splits)

lemma id_fnE: "id_fn f args s d = Inr (r, d') \<Longrightarrow> (\<And>i. f i s d = Inr (r, d') \<Longrightarrow> P) \<Longrightarrow> P"
  by (induction f args s d rule: id_fn.induct) (auto elim!: with_idE)

lemma nullary_fnE: "nullary_fn f args s d = Inr (r, d') \<Longrightarrow> (f s d = Inr (r, d') \<Longrightarrow> P) \<Longrightarrow> P"
  by (induction f args s d rule: nullary_fn.induct) simp_all

text \<open>
  What every function of bookings keeps; \<open>G\<close> is what whoever completes a call automatically promises.  The functions that
  write nothing besides notifications and dates need no promise of their own: \<open>frame\<close> covers them.
\<close>

locale booking_contract =
  fixes I :: "'a bookingDb_scheme \<Rightarrow> bool" and G :: "nat \<Rightarrow> session \<Rightarrow> 'a bookingDb_scheme \<Rightarrow> bool"
  assumes frame: "I d \<Longrightarrow> money_view d' = money_view d \<Longrightarrow> bookings d' = bookings d \<Longrightarrow> calls d' = calls d \<Longrightarrow> I d'"
    and book: "I d \<Longrightarrow> rpc_book_video_call pg fan q day dur code s d = Inr (r, d') \<Longrightarrow> I d'"
    and refund: "I d \<Longrightarrow> rpc_refund_booking i s d = Inr (r, d') \<Longrightarrow> I d'"
    and ready: "I d \<Longrightarrow> rpc_fan_signal_ready i s d = Inr (r, d') \<Longrightarrow> I d'"
    and ring: "I d \<Longrightarrow> rpc_partner_initiate_call i s d = Inr (r, d') \<Longrightarrow> I d'"
    and fan_join: "I d \<Longrightarrow> rpc_fan_join_call i s d = Inr (r, d') \<Longrightarrow> I d'"
    and heartbeat: "I d \<Longrightarrow> rpc_call_heartbeat i actor present s d = Inr (r, d') \<Longrightarrow> I d'"
    and complete: "I d \<Longrightarrow> (auto \<Longrightarrow> G i s d) \<Longrightarrow> rpc_complete_call i auto s d = Inr (r, d') \<Longrightarrow> I d'"
    and miss: "I d \<Longrightarrow> rpc_mark_call_missed i status s d = Inr (r, d') \<Longrightarrow> I d'"
    and settle: "I d \<Longrightarrow> rpc_settle_booking i s d = Inr (r, d') \<Longrightarrow> I d'"
    and eod: "I d \<Longrightarrow> process_end_of_day_expired_bookings s d = Inr (r, d') \<Longrightarrow> I d'"
    and cleanup: "I d \<Longrightarrow> cleanup_stalled_calls s d = Inr (r, d') \<Longrightarrow> I d'"
begin

lemma book_fn_keeps: "book_fn pg args s d = Inr (r, d') \<Longrightarrow> I d \<Longrightarrow> I d'"
  by (induction pg args s d rule: book_fn.induct) (auto split: sum.splits if_split_asm intro: book)

lemma preview_fn_keeps: "preview_fn pg args s d = Inr (r, d') \<Longrightarrow> I d \<Longrightarrow> I d'"
  by (induction pg args s d rule: preview_fn.induct) (auto simp: rpc_preview_price_def split: sum.splits if_split_asm)

lemma refund_fn_keeps: "refund_fn args s d = Inr (r, d') \<Longrightarrow> I d \<Longrightarrow> I d'"
  by (induction args s d rule: refund_fn.induct) (auto split: if_split_asm elim!: with_idE intro: refund)

lemma heartbeat_fn_keeps: "heartbeat_fn args s d = Inr (r, d') \<Longrightarrow> I d \<Longrightarrow> I d'"
  by (induction args s d rule: heartbeat_fn.induct) (auto elim!: with_idE intro: heartbeat)

lemma complete_fn_keeps:
  "complete_fn args s d = Inr (r, d') \<Longrightarrow> (\<And>k i. args = [k, JBool True] \<Longrightarrow> id_of k = Some i \<Longrightarrow> G i s d) \<Longrightarrow> I d \<Longrightarrow> I d'"
  by (induction args s d rule: complete_fn.induct) (auto elim!: with_idE intro: complete)

lemma missed_fn_keeps: "missed_fn args s d = Inr (r, d') \<Longrightarrow> I d \<Longrightarrow> I d'"
  by (induction args s d rule: missed_fn.induct) (auto elim!: with_idE intro: miss)

lemma metrics_fn_keeps: "metrics_fn pg args s d = Inr (r, d') \<Longrightarrow> I d \<Longrightarrow> I d'"
  by (induction pg args s d rule: metrics_fn.induct) (auto elim!: with_idE simp: rpc_record_call_metrics_def split: option.splits if_split_asm)

lemma availability_fn_keeps: "set_availability_fn pg args s d = Inr (r, d') \<Longrightarrow> I d \<Longrightarrow> I d'"
  by (induction pg args s d rule: set_availability_fn.induct)
    (auto simp: rpc_partner_set_availability_def split: sum.splits if_split_asm option.splits intro: frame)

lemma notification_keeps: "create_notification_fn args s d = Inr (r, d') \<Longrightarrow> I d \<Longrightarrow> I d'"
  by (induction args s d rule: create_notification_fn.induct) (auto simp: rpc_create_notification_def Let_def split: if_split_asm intro: frame)

lemmas fn_keeps = book_fn_keeps preview_fn_keeps refund_fn_keeps heartbeat_fn_keeps missed_fn_keeps metrics_fn_keeps availability_fn_keeps notification_keeps

lemma booking_fn_keeps:
  assumes run: "booking_fns pg name args s d = Inr (r, d')" and ok: "I d"
    and auto: "\<And>k i. name = ''rpc_complete_call'' \<Longrightarrow> args = [k, JBool True] \<Longrightarrow> id_of k = Some i \<Longrightarrow> G i s d"
  shows "I d'"
proof -
  obtain f where "(name, f) \<in> set (booking_table pg)" "f args s d = Inr (r, d')"
    using run by (auto simp: booking_fns_def split: option.splits dest: map_of_SomeD)
  then show ?thesis
    using ok auto unfolding booking_table_def
    by (auto intro: fn_keeps complete_fn_keeps ready ring fan_join settle eod cleanup elim!: id_fnE nullary_fnE)
qed

lemma booking_fns_keep: "(\<And>i s d. G i s d) \<Longrightarrow> fns_keep I (booking_fns pg)"
  unfolding fns_keep_def by (auto intro: booking_fn_keeps)

end

section \<open>When a posting succeeds\<close>

lemma apply_plain: "\<forall>l \<in> set ls. leg_wallet l = None \<Longrightarrow> apply_legs tid ls d = Inr (d\<lparr>entries := entries d @ map (entry_of tid) ls\<rparr>)"
  by (induction ls arbitrary: d) (simp_all add: apply_leg_def entry_of_def)

lemma apply_legs_append: "apply_legs tid (ls @ ms) d = (case apply_legs tid ls d of Inl e \<Rightarrow> Inl e | Inr d1 \<Rightarrow> apply_legs tid ms d1)"
  by (induction ls arbitrary: d) (auto split: sum.split)

lemma credit_wallets_ok:
  assumes ok: "money_ok d" and v: "v \<in> set (wallets d)"
  shows "(\<forall>y \<in> set (map (debited v x) (wallets d)). wallet_ok y) \<longleftrightarrow> x \<le> wl_balance v"
proof
  assume "\<forall>y \<in> set (map (debited v x) (wallets d)). wallet_ok y"
  then have "wallet_ok (debited v x v)" using v by simp
  then show "x \<le> wl_balance v" by (simp add: wallet_ok_def debited_def)
next
  assume le: "x \<le> wl_balance v"
  have "wallet_ok (debited v x z)" if z: "z \<in> set (wallets d)" for z
  proof (cases "wl_id z = wl_id v")
    case True
    then have "z = v" using ok v z by (auto simp: money_ok_def distinct_map inj_on_def)
    then show ?thesis using le ok v by (auto simp: debited_def wallet_ok_def money_ok_def)
  qed (use ok z in \<open>auto simp: debited_def money_ok_def\<close>)
  then show "\<forall>y \<in> set (map (debited v x) (wallets d)). wallet_ok y" by simp
qed

text \<open>Legs of which one moves a wallet.\<close>

lemma post_one_wallet:
  fixes d :: "'a money_scheme"
  assumes ok: "money_ok d" and v: "v \<in> set (wallets d)" and k: "key \<notin> keys d" and a: "0 < a"
    and legs: "legs = ls @ l # ms" "leg_wallet l = Some (wl_id v)" "leg_bonus l = 0" "\<forall>x \<in> set (ls @ ms). leg_wallet x = None"
      "sum_list (map leg_delta legs) = 0" "ls @ ms \<noteq> []"
  shows "if 0 \<le> wl_balance v + leg_delta l
    then \<exists>d1. post_transaction ty a key legs ref d = Inr ((next_id d, False), d1) \<and> wallets d1 = map (debited v (- leg_delta l)) (wallets d)
    else \<exists>e. post_transaction ty a key legs ref d = Inl e"
proof -
  let ?tid = "next_id d"
  let ?d1 = "d\<lparr>txns := txns d @ [\<lparr>tn_id = ?tid, tn_type = ty, tn_amount = a, tn_key = key, tn_ref = ref\<rparr>], next_id := Suc ?tid\<rparr>"
  let ?d2 = "?d1\<lparr>entries := entries ?d1 @ map (entry_of ?tid) ls\<rparr>"
  let ?ws = "map (debited v (- leg_delta l)) (wallets d)"
  have none: "find_txn key d = None" using k by (simp add: find_txn_None keys_def)
  have len: "\<not> length legs < 2" using legs(1,6) by (cases ls; cases ms) auto
  have known: "\<not> (\<exists>x \<in> set legs. \<exists>k. leg_wallet x = Some k \<and> k \<notin> wl_id ` set (wallets d))" using legs(1,2,4) v by auto
  have run: "post_transaction ty a key legs ref d = (case apply_legs ?tid legs ?d1 of Inl e \<Rightarrow> Inl e | Inr d' \<Rightarrow> Inr ((?tid, False), d'))"
    using none len known a legs(5) by (auto simp: post_transaction_def Let_def)
  have mv: "map (\<lambda>y. if wl_id y = wl_id v then move_wallet l y else y) (wallets d) = ?ws"
    by (simp add: debited_def move_wallet_def Let_def legs(3))
  have leg: "apply_leg ?tid l ?d2 = (if \<forall>y \<in> set ?ws. wallet_ok y then Inr (?d2\<lparr>entries := entries ?d2 @ [entry_of ?tid l], wallets := ?ws\<rparr>)
      else Inl ''new row for relation wallets violates check constraint'')"
    by (rule apply_wallet_leg [OF legs(2)]) (simp add: mv)
  have plain: "\<forall>x \<in> set ls. leg_wallet x = None" "\<forall>x \<in> set ms. leg_wallet x = None" using legs(4) by auto
  have all: "apply_legs ?tid legs ?d1 = (if - leg_delta l \<le> wl_balance v
      then Inr (?d2\<lparr>entries := entries ?d2 @ [entry_of ?tid l] @ map (entry_of ?tid) ms, wallets := ?ws\<rparr>)
      else Inl ''new row for relation wallets violates check constraint'')"
    unfolding legs(1) apply_legs_append apply_plain [OF plain(1)] sum.case apply_legs.simps leg credit_wallets_ok [OF ok v]
    by (simp add: apply_plain [OF plain(2)])
  show ?thesis by (cases "- leg_delta l \<le> wl_balance v") (simp_all add: run all)
qed

lemma post_no_wallet:
  assumes "key \<notin> keys d" and "0 < a" and "2 \<le> length legs" and "\<forall>l \<in> set legs. leg_wallet l = None" and "sum_list (map leg_delta legs) = 0"
  shows "\<exists>d1. post_transaction ty a key legs ref d = Inr ((next_id d, False), d1) \<and> wallets d1 = wallets d"
proof -
  have none: "find_txn key d = None" using assms(1) by (simp add: find_txn_None keys_def)
  show ?thesis using assms none by (auto simp: post_transaction_def Let_def apply_plain)
qed

text \<open>The three postings of a booking.\<close>

lemma post_return:
  assumes ok: "money_ok d" and v: "v \<in> set (wallets d)" and k: "key \<notin> keys d" and b: "bk_gross b = bk_price b + bk_discount b" "0 < bk_price b" "0 \<le> bk_discount b"
  shows "\<exists>d1. post_transaction ty (bk_gross b) key (return_legs (Some (wl_id v)) b) ref d = Inr ((next_id d, False), d1) \<and>
    wallets d1 = map (debited v (- bk_price b)) (wallets d)"
proof -
  let ?l = "\<lparr>leg_wallet = Some (wl_id v), leg_account = ''wallet'', leg_delta = bk_price b, leg_bonus = 0\<rparr>"
  have w: "0 \<le> wl_balance v" using ok v by (auto simp: money_ok_def wallet_ok_def)
  have "return_legs (Some (wl_id v)) b = [\<lparr>leg_wallet = None, leg_account = ''booking_escrow'', leg_delta = - bk_gross b, leg_bonus = 0\<rparr>] @ ?l #
      (if bk_discount b > 0 then promo_leg (bk_discount b) else [])" by (simp add: return_legs_def)
  from post_one_wallet [OF ok v k _ this, of "bk_gross b" ty ref] show ?thesis using b w by (simp add: promo_leg_def return_legs_def)
qed

lemma post_settle:
  assumes "key \<notin> keys d" and "0 < a"
  shows "\<exists>d1. post_transaction ty a key (settle_legs a) ref d = Inr ((next_id d, False), d1) \<and> wallets d1 = wallets d"
  by (rule post_no_wallet [OF assms]) (simp_all add: settle_legs_def)

lemma post_refund:
  assumes ok: "money_ok d" and v: "v \<in> set (wallets d)" and k: "key \<notin> keys d" and a: "0 < a"
  shows "\<exists>d1. post_transaction ty a key (so_refund_legs (Some (wl_id v)) a) ref d = Inr ((next_id d, False), d1) \<and> wallets d1 = map (debited v (- a)) (wallets d)"
proof -
  let ?l = "\<lparr>leg_wallet = Some (wl_id v), leg_account = ''wallet'', leg_delta = a, leg_bonus = 0\<rparr>"
  have w: "0 \<le> wl_balance v" using ok v by (auto simp: money_ok_def wallet_ok_def)
  have "so_refund_legs (Some (wl_id v)) a = [\<lparr>leg_wallet = None, leg_account = ''booking_escrow'', leg_delta = - a, leg_bonus = 0\<rparr>] @ ?l # []" by (simp add: so_refund_legs_def)
  from post_one_wallet [OF ok v k a this, of ty ref] show ?thesis using a w by (simp add: so_refund_legs_def)
qed

lemma post_book:
  assumes ok: "money_ok d" and v: "v \<in> set (wallets d)" and k: "key \<notin> keys d" and a: "0 < base" "0 \<le> disc"
  shows "if base - disc \<le> wl_balance v
    then \<exists>d1. post_transaction ty base key (book_legs (Some (wl_id v)) base disc) ref d = Inr ((next_id d, False), d1) \<and>
      wallets d1 = map (debited v (base - disc)) (wallets d)
    else \<exists>e. post_transaction ty base key (book_legs (Some (wl_id v)) base disc) ref d = Inl e"
proof -
  let ?l = "\<lparr>leg_wallet = Some (wl_id v), leg_account = ''wallet'', leg_delta = - (base - disc), leg_bonus = 0\<rparr>"
  have "book_legs (Some (wl_id v)) base disc = [] @ ?l #
      ([\<lparr>leg_wallet = None, leg_account = ''booking_escrow'', leg_delta = base, leg_bonus = 0\<rparr>] @ (if disc > 0 then promo_leg (- disc) else []))"
    by (simp add: book_legs_def)
  from post_one_wallet [OF ok v k a(1) this, of ty ref] show ?thesis using a by (auto simp: promo_leg_def book_legs_def)
qed

section \<open>A booking of 300 for 250\<close>

definition demo_booked :: "bookingStatus \<Rightarrow> booking" where
  "demo_booked st = \<lparr>bk_id = 1, bk_fan = ''fan'', bk_partner = ''star'', bk_duration = ''5'', bk_status = st, bk_settle_at = 0,
     bk_date = 0, bk_price = 250, bk_ready_at = None, bk_meeting = None, bk_created = 0, bk_original = Some 300, bk_discount = 50\<rparr>"

text \<open>The keys besides the top up and the booking's are \<open>ks\<close>, with the legs \<open>ls\<close> and the wallet's balance \<open>bal\<close>.\<close>

definition demo_bank :: "bookingStatus \<Rightarrow> int \<Rightarrow> txn list \<Rightarrow> ledgerEntry list \<Rightarrow> bookingDb" where
  "demo_bank st bal ts es = \<lparr>wallets = [\<lparr>wl_id = 1, wl_profile = ''fan'', wl_balance = bal, wl_bonus = 0\<rparr>],
     txns = [\<lparr>tn_id = 1, tn_type = ''TOPUP'', tn_amount = 900, tn_key = (''topup:'', 1), tn_ref = None\<rparr>,
       \<lparr>tn_id = 2, tn_type = ''BOOKING_DEBIT'', tn_amount = 300, tn_key = bk_key ''book:'' 1, tn_ref = None\<rparr>] @ ts,
     entries = [\<lparr>le_txn = 1, le_wallet = Some 1, le_account = ''wallet'', le_delta = 900\<rparr>,
       \<lparr>le_txn = 1, le_wallet = None, le_account = ''gateway_clearing'', le_delta = - 900\<rparr>,
       \<lparr>le_txn = 2, le_wallet = Some 1, le_account = ''wallet'', le_delta = - 250\<rparr>,
       \<lparr>le_txn = 2, le_wallet = None, le_account = ''booking_escrow'', le_delta = 300\<rparr>,
       \<lparr>le_txn = 2, le_wallet = None, le_account = ''promo_incentive'', le_delta = - 50\<rparr>] @ es,
     next_id = 9, topups = [], webhooks = [], disputes = [], notifs = [], settings = None, admins = [''adm''], finance_admins = [''adm''],
     bookings = [demo_booked st], calls = [], dm_windows = [], shoutouts = [], earnings = [], reports = [], deletions = [], audits = [],
     profiles = [(''fan'', None)], partner_profiles = [(''star'', None)], push_tokens = [], op_hours = None,
     bd_accounts = [], bd_live = [''star''], bd_premium = [], bd_offers = [], bd_settle_days = Some 3, avail = [], promos = [], promo_uses = [],
     bd_support = [''adm'']\<rparr>"

text \<open>The booking with its money held, and one that was cancelled.\<close>

abbreviation demo_held :: "bookingStatus \<Rightarrow> bookingDb" where
  "demo_held st \<equiv> demo_bank st 650 [] []"

definition demo_cancelled :: bookingDb where
  "demo_cancelled = demo_bank CANCELLED_BY_FAN 900 [\<lparr>tn_id = 3, tn_type = ''REFUND'', tn_amount = 300, tn_key = bk_key ''refund:'' 1, tn_ref = None\<rparr>]
     [\<lparr>le_txn = 3, le_wallet = None, le_account = ''booking_escrow'', le_delta = - 300\<rparr>,
      \<lparr>le_txn = 3, le_wallet = Some 1, le_account = ''wallet'', le_delta = 250\<rparr>,
      \<lparr>le_txn = 3, le_wallet = None, le_account = ''promo_incentive'', le_delta = 50\<rparr>]"

lemma demo_bank_simps [simp]:
  "bookings (demo_bank st bal ts es) = [demo_booked st]" "earnings (demo_bank st bal ts es) = []" "calls (demo_bank st bal ts es) = []"
  "wallets (demo_bank st bal ts es) = [\<lparr>wl_id = 1, wl_profile = ''fan'', wl_balance = bal, wl_bonus = 0\<rparr>]"
  "bk_of (Suc 0) (demo_bank st bal ts es) = Some (demo_booked st)" "admins (demo_bank st bal ts es) = [''adm'']"
  "finance_admins (demo_bank st bal ts es) = [''adm'']" "bd_support (demo_bank st bal ts es) = [''adm'']"
  by (simp_all add: demo_bank_def bk_of_def demo_booked_def)

lemma demo_bank_keys: "keys (demo_bank st bal ts es) = insert (''topup:'', 1) (insert (bk_key ''book:'' 1) (tn_key ` set ts))"
  by (simp add: keys_def demo_bank_def)

lemma demo_held_ok:
  assumes "st \<in> {BOOKED, REQUIRES_ADMIN_REVIEW, BOOKING_COMPLETED}"
  shows "bk_ok 0 0 (demo_held st)"
proof -
  have m: "money_ok (demo_held st)" by (simp add: money_ok_def demo_bank_def wallet_ok_def txn_sum_def wallet_sum_def bk_key_def)
  have e: "account_sum ''booking_escrow'' (entries (demo_held st)) = 300" "account_sum ''promo_incentive'' (entries (demo_held st)) = - 50"
    by (simp_all add: demo_bank_def account_sum_def)
  have row: "bk_row_ok (keys (demo_held st)) {} (demo_booked st)"
    using assms unfolding demo_bank_keys by (auto simp: bk_row_ok_def demo_booked_def bk_key_def bk_gross_def)
  have "bk_held (keys (demo_held st)) {} (demo_booked st) = 300" "bk_subsidy (keys (demo_held st)) (demo_booked st) = 50"
    by (simp_all add: demo_bank_keys bk_held_def bk_subsidy_def returned_def demo_booked_def bk_gross_def) (simp_all add: bk_key_def)
  then show ?thesis using m e row by (simp add: bk_ok_def)
qed

lemma demo_cancelled_ok: "bk_ok 0 0 demo_cancelled"
proof -
  have m: "money_ok demo_cancelled" by (simp add: demo_cancelled_def money_ok_def demo_bank_def wallet_ok_def txn_sum_def wallet_sum_def bk_key_def)
  have e: "account_sum ''booking_escrow'' (entries demo_cancelled) = 0" "account_sum ''promo_incentive'' (entries demo_cancelled) = 0"
    by (simp_all add: demo_cancelled_def demo_bank_def account_sum_def)
  have k: "keys demo_cancelled = {(''topup:'', 1), bk_key ''book:'' 1, bk_key ''refund:'' 1}" by (simp add: demo_cancelled_def demo_bank_keys insert_commute)
  have row: "bk_row_ok (keys demo_cancelled) {} (demo_booked CANCELLED_BY_FAN)"
    unfolding k by (auto simp: bk_row_ok_def demo_booked_def bk_key_def bk_gross_def)
  have "bk_held (keys demo_cancelled) {} (demo_booked CANCELLED_BY_FAN) = 0" "bk_subsidy (keys demo_cancelled) (demo_booked CANCELLED_BY_FAN) = 0"
    by (simp_all add: k bk_held_def bk_subsidy_def returned_def demo_booked_def)
  moreover have "bookings demo_cancelled = [demo_booked CANCELLED_BY_FAN]" "earnings demo_cancelled = []" by (simp_all add: demo_cancelled_def)
  ultimately show ?thesis using m e row by (simp add: bk_ok_def)
qed

section \<open>The escrow of bookings\<close>

text \<open>
  The steps: the requests of fans and partners through the calls and the availability service, the sweeps, and what administrators do.
  An administrator's expiry is taken on a booking whose money is still held, and a split with a share for the partner and none negative.
\<close>

inductive bk_step :: "pgText \<Rightarrow> 'a bookingDb_scheme world \<Rightarrow> 'a bookingDb_scheme world \<Rightarrow> bool" for pg where
  booked: "bk_step pg w (snd (book (booking_fns pg) base u b w))"
| cancelled: "bk_step pg w (snd (cancelBooking (booking_fns pg) base u i w))"
| readied: "bk_step pg w (snd (signalReady (booking_fns pg) base u i w))"
| rang: "bk_step pg w (snd (initiate (booking_fns pg) base u i w))"
| joined: "bk_step pg w (snd (join (booking_fns pg) base u i w))"
| beaten: "bk_step pg w (snd (heartbeat (booking_fns pg) base u k actor present w))"
| completed: "bk_step pg w (snd (complete (booking_fns pg) base u k w))"
| missed: "bk_step pg w (snd (markMissed (booking_fns pg) base u k st w))"
| measured: "bk_step pg w (snd (recordMetrics (booking_fns pg) base u k v w))"
| opened: "bk_step pg w (snd (availability_set (booking_fns pg) date minutes base u w))"
| swept: "bk_step pg w (snd (runAsService base (rpc (booking_fns pg name args)) w))"
| forced: "bk_step pg w (snd (runAs base a (rpc (rpc_admin_force_settle_booking i)) w))"
| recovered: "bk_step pg w (snd (runAs base a (rpc (rpc_admin_recover_call i reason)) w))"
| expired: "\<not> returned (keys (w_db w)) i \<Longrightarrow> i \<notin> set (earnings (w_db w)) \<Longrightarrow> bk_step pg w (snd (runAs base a (rpc (rpc_admin_expire_booking i st)) w))"
| split: "0 < partner \<Longrightarrow> 0 \<le> fan \<Longrightarrow> bk_step pg w (snd (runAs base a (rpc (rpc_admin_resolve_partial_call a i partner fan notes)) w))"

lemma run_stmt: "w_db (snd (runAs base u (rpc st) w)) = w_db w \<or> (\<exists>r. st (base\<lparr>app_user_id := Some u\<rparr>) (w_db w) = Inr (r, w_db (snd (runAs base u (rpc st) w))))"
  by (auto simp: runAs_def transaction_def rpc_def tx_defs split: sum.split prod.split)

locale booking_books = booking_contract I "\<lambda>_ _ _. True" for I :: "'a bookingDb_scheme \<Rightarrow> bool" +
  assumes admin_settle: "I d \<Longrightarrow> rpc_admin_force_settle_booking i s d = Inr (r, d') \<Longrightarrow> I d'"
    and admin_recover: "I d \<Longrightarrow> rpc_admin_recover_call i reason s d = Inr (r, d') \<Longrightarrow> I d'"
    and admin_expire: "I d \<Longrightarrow> \<not> returned (keys d) i \<Longrightarrow> i \<notin> set (earnings d) \<Longrightarrow> rpc_admin_expire_booking i st s d = Inr (r, d') \<Longrightarrow> I d'"
    and admin_split: "I d \<Longrightarrow> 0 < partner \<Longrightarrow> 0 \<le> fan \<Longrightarrow> rpc_admin_resolve_partial_call a i partner fan remark s d = Inr (r, d') \<Longrightarrow> I d'"
begin

lemma step_keeps:
  assumes step: "bk_step pg w w'" and ok: "I (w_db w)"
  shows "I (w_db w')"
  using step
proof cases
  case (swept base name args)
  then show ?thesis using ok by (auto intro!: as_service.run_keeps [where I = I] keeps_fn booking_fns_keep)
next
  case (forced base a i)
  then show ?thesis using ok run_stmt [of base a "rpc_admin_force_settle_booking i" w] by (auto intro: admin_settle)
next
  case (recovered base a i reason)
  then show ?thesis using ok run_stmt [of base a "rpc_admin_recover_call i reason" w] by (auto intro: admin_recover)
next
  case (expired i base a st)
  then show ?thesis using ok run_stmt [of base a "rpc_admin_expire_booking i st" w] by (auto intro: admin_expire)
next
  case (split partner fan base a i reason)
  then show ?thesis using ok run_stmt [of base a "rpc_admin_resolve_partial_call a i partner fan reason" w] by (auto intro: admin_split)
qed (auto intro!: calls_service_keeps [where I = I] booking_fns_keep ok)

lemma steps_keep: "(bk_step pg)\<^sup>*\<^sup>* w w' \<Longrightarrow> I (w_db w) \<Longrightarrow> I (w_db w')"
  by (induction rule: rtranclp_induct) (auto intro: step_keeps)

end

interpretation escrow: booking_books "bk_ok c p" for c p
proof
  show "bk_ok c p d'" if "bk_ok c p d" "money_view d' = money_view d" "bookings d' = bookings d" for d d' :: "'a bookingDb_scheme"
    by (rule frame_bk [OF that])
qed (auto intro: book_ok refund_bk_ok ready_ok initiate_ok join_ok heartbeat_ok complete_ok missed_ok settle_bk_ok eod_ok cleanup_ok
  force_settle_ok recover_ok admin_expire_ok resolve_partial_ok)



end
