(* ===== verification/Call_Time.thy ===== *)
theory Call_Time
  imports Booking_Props
begin

text \<open>
  The time of calls: a call counts as completed only when the attempts of its booking have run for the time that was booked,
  whatever fans, partners, sweeps and administrators do in whatever order.
\<close>

section \<open>Delivered time\<close>

definition spent :: "nat \<Rightarrow> call \<Rightarrow> int" where
  "spent i c = (if ca_booking c = i \<and> ca_status c \<in> DELIVERED then time_of c else 0)"

definition total_ms :: "nat \<Rightarrow> 'a services_scheme \<Rightarrow> int" where
  "total_ms i d = sum_list (map (spent i) (calls d))"

definition durs :: "'a services_scheme \<Rightarrow> (nat \<times> string) list" where
  "durs d = map (\<lambda>b. (bk_id b, bk_duration b)) (bookings d)"

text \<open>A running attempt has a deadline that leaves what is not delivered yet, up to the rounding of a second.\<close>

definition run_ok :: "'a services_scheme \<Rightarrow> call \<Rightarrow> bool" where
  "run_ok d c \<longleftrightarrow>
     (ca_status c = IN_PROGRESS \<longrightarrow> (\<exists>t e. ca_started_at c = Some t \<and> ca_deadline_at c = Some e \<and>
        1000 * booked_seconds (ca_booking c) d \<le> e - t + total_ms (ca_booking c) d + 500)) \<and>
     (ca_status c = COMPLETED_SUCCESSFUL \<longrightarrow> 1000 * booked_seconds (ca_booking c) d \<le> total_ms (ca_booking c) d + 5500)"

definition timed :: "'a services_scheme \<Rightarrow> bool" where
  "timed d \<longleftrightarrow> distinct (map ca_id (calls d)) \<and> (\<forall>c \<in> set (calls d). run_ok d c)"

lemma spent_nonneg [simp]: "0 \<le> spent i c"
  by (simp add: spent_def time_of_def split: option.split)

lemma spent_live [simp]: "ca_status c \<notin> DELIVERED \<Longrightarrow> spent i c = 0"
  by (simp add: spent_def)

lemma consumed_total:
  assumes "\<And>c. c \<in> set (calls d) \<Longrightarrow> ca_id c = k \<Longrightarrow> spent i c = 0"
  shows "booking_consumed_seconds i k d = (total_ms i d + 500) div 1000"
proof -
  have "sum_list (map time_of (filter (\<lambda>c. ca_booking c = i \<and> ca_id c \<noteq> k \<and> ca_status c \<in> DELIVERED) cs)) = sum_list (map (spent i) cs)"
    if "\<And>c. c \<in> set cs \<Longrightarrow> ca_id c = k \<Longrightarrow> spent i c = 0" for cs
    using that
  proof (induction cs)
    case (Cons c cs)
    have "spent i c = (if ca_booking c = i \<and> ca_id c \<noteq> k \<and> ca_status c \<in> DELIVERED then time_of c else 0)"
      using Cons.prems [of c] by (auto simp: spent_def)
    moreover have "sum_list (map time_of (filter (\<lambda>c. ca_booking c = i \<and> ca_id c \<noteq> k \<and> ca_status c \<in> DELIVERED) cs)) = sum_list (map (spent i) cs)"
      using Cons by simp
    ultimately show ?case by simp
  qed simp
  then show ?thesis using assms by (simp add: booking_consumed_seconds_def total_ms_def)
qed

lemma booked_durs: "booked_seconds i d = (case map_of (durs d) i of None \<Rightarrow> 60 | Some t \<Rightarrow> if minutes_of t * 60 = 0 then 60 else minutes_of t * 60)"
proof -
  have "map_option bk_duration (find (\<lambda>b. bk_id b = i) bs) = map_of (map (\<lambda>b. (bk_id b, bk_duration b)) bs) i" for bs
    by (induction bs) auto
  from this [of "bookings d"] show ?thesis by (auto simp: booked_seconds_def bk_of_def durs_def split: option.splits)
qed

lemma durs_cong: "durs d' = durs d \<Longrightarrow> booked_seconds i d' = booked_seconds i d"
  by (simp add: booked_durs)

lemma timed_frame: "timed d \<Longrightarrow> calls d' = calls d \<Longrightarrow> durs d' = durs d \<Longrightarrow> timed d'"
proof -
  assume ok: "timed d" and c: "calls d' = calls d" and e: "durs d' = durs d"
  have "booked_seconds i d' = booked_seconds i d" "total_ms i d' = total_ms i d" for i by (rule durs_cong [OF e]) (simp add: total_ms_def c)
  then have "run_ok d' = run_ok d" by (simp add: run_ok_def fun_eq_iff)
  then show "timed d'" using ok c by (simp add: timed_def)
qed

lemma durs_set: "(\<And>b. bk_id (f b) = bk_id b \<and> bk_duration (f b) = bk_duration b) \<Longrightarrow> map (\<lambda>b. (bk_id b, bk_duration b)) (map (\<lambda>b. if bk_id b = i then f b else b) bs) = map (\<lambda>b. (bk_id b, bk_duration b)) bs"
  by simp

section \<open>A change of some calls\<close>

definition may_become :: "'a services_scheme \<Rightarrow> call \<Rightarrow> call \<Rightarrow> bool" where
  "may_become d c c' \<longleftrightarrow> ca_id c' = ca_id c \<and> ca_booking c' = ca_booking c \<and> (\<forall>i. spent i c \<le> spent i c') \<and>
     (ca_status c' = IN_PROGRESS \<longrightarrow> ca_status c = IN_PROGRESS \<and> ca_started_at c' = ca_started_at c \<and> ca_deadline_at c' = ca_deadline_at c \<or>
        (\<exists>t e. ca_started_at c' = Some t \<and> ca_deadline_at c' = Some e \<and> 1000 * booked_seconds (ca_booking c) d \<le> e - t + total_ms (ca_booking c) d + 500)) \<and>
     (ca_status c' = COMPLETED_SUCCESSFUL \<longrightarrow> ca_status c = COMPLETED_SUCCESSFUL \<or> ca_status c = IN_PROGRESS \<and>
        (\<forall>t e. ca_started_at c = Some t \<longrightarrow> ca_deadline_at c = Some e \<longrightarrow> e - t - 5000 \<le> spent (ca_booking c) c'))"

lemma may_become_refl [simp]: "may_become d c c"
  by (simp add: may_become_def)

lemma sum_list_pointwise:
  fixes f g :: "'x \<Rightarrow> int"
  assumes "\<And>x. x \<in> set xs \<Longrightarrow> f x \<le> g x" and "c \<in> set xs"
  shows "sum_list (map f xs) + (g c - f c) \<le> sum_list (map g xs)" "sum_list (map f xs) \<le> sum_list (map g xs)"
proof -
  show m: "sum_list (map f xs) \<le> sum_list (map g xs)" by (rule sum_list_mono) (rule assms(1))
  obtain ys zs where xs: "xs = ys @ c # zs" using assms(2) by (auto simp: in_set_conv_decomp)
  have "sum_list (map f ys) \<le> sum_list (map g ys)" "sum_list (map f zs) \<le> sum_list (map g zs)" by (rule sum_list_mono, use assms(1) xs in auto)+
  then show "sum_list (map f xs) + (g c - f c) \<le> sum_list (map g xs)" by (simp add: xs)
qed

lemma timed_map:
  assumes ok: "timed d" and d': "calls d' = map h (calls d)" "durs d' = durs d" and h: "\<And>c. c \<in> set (calls d) \<Longrightarrow> may_become d c (h c)"
  shows "timed d'"
proof -
  have ids: "map ca_id (calls d') = map ca_id (calls d)" using h by (simp add: d' may_become_def)
  have run: "run_ok d' (h c)" if c: "c \<in> set (calls d)" for c
  proof -
    let ?i = "ca_booking c"
    note m = h [OF c, unfolded may_become_def]
    have le: "total_ms ?i d + (spent ?i (h c) - spent ?i c) \<le> total_ms ?i d'" "total_ms ?i d \<le> total_ms ?i d'"
      using sum_list_pointwise [of "calls d" "spent ?i" "spent ?i \<circ> h" c] h c by (simp_all add: total_ms_def d' may_become_def)
    have old: "run_ok d c" using ok c by (simp add: timed_def)
    have b: "booked_seconds ?i d' = booked_seconds ?i d" "ca_booking (h c) = ?i" using durs_cong [OF d'(2)] m by simp_all
    have "\<exists>t e. ca_started_at (h c) = Some t \<and> ca_deadline_at (h c) = Some e \<and> 1000 * booked_seconds ?i d \<le> e - t + total_ms ?i d + 500" if "ca_status (h c) = IN_PROGRESS"
      using m that old unfolding run_ok_def by metis
    moreover have "1000 * booked_seconds ?i d \<le> total_ms ?i d' + 5500" if s: "ca_status (h c) = COMPLETED_SUCCESSFUL"
    proof (cases "ca_status c = COMPLETED_SUCCESSFUL")
      case True
      then show ?thesis using old le(2) by (simp add: run_ok_def)
    next
      case False
      then have p: "ca_status c = IN_PROGRESS" using m s by blast
      then obtain t e where "ca_started_at c = Some t" "ca_deadline_at c = Some e" "1000 * booked_seconds ?i d \<le> e - t + total_ms ?i d + 500"
        using old by (auto simp: run_ok_def)
      moreover from this have "e - t - 5000 \<le> spent ?i (h c)" using m s False by blast
      moreover have "spent ?i c = 0" using p by (simp add: spent_def DELIVERED_def)
      ultimately show ?thesis using le(1) by linarith
    qed
    ultimately show ?thesis using le(2) unfolding run_ok_def b by force
  qed
  have "distinct (map ca_id (calls d'))" using ok unfolding ids timed_def by blast
  moreover have "\<forall>c \<in> set (calls d'). run_ok d' c" using run by (simp add: d'(1))
  ultimately show ?thesis unfolding timed_def by blast
qed

section \<open>Every function keeps it\<close>

lemma ca_ofD: "ca_of k d = Some c \<Longrightarrow> c \<in> set (calls d) \<and> ca_id c = k"
  by (auto simp: ca_of_def find_Some_iff)

lemma timed_edit:
  assumes ok: "timed d" and c: "c \<in> set (calls d)" "ca_id c = k" and f: "may_become d c (f c)"
  shows "timed (set_call k f d)"
proof (rule timed_map [OF ok])
  show "calls (set_call k f d) = map (\<lambda>c. if ca_id c = k then f c else c) (calls d)" by (simp add: set_call_def)
  show "durs (set_call k f d) = durs d" by (simp add: durs_def)
  fix x assume "x \<in> set (calls d)"
  then have "ca_id x = k \<Longrightarrow> x = c" using ok c by (auto simp: timed_def distinct_map inj_on_def)
  then show "may_become d x (if ca_id x = k then f x else x)" using f by auto
qed

lemma durs_booking [simp]: "(\<And>b. bk_id (f b) = bk_id b \<and> bk_duration (f b) = bk_duration b) \<Longrightarrow> durs (set_booking i f d) = durs d"
  by (simp add: durs_def set_booking_def)

lemma trigger_durs [simp]: "durs (call_triggers old new i d) = durs d" "calls (call_triggers old new i d) = calls d"
  by (simp_all add: call_triggers_def)

lemma timed_trigger: "timed d \<Longrightarrow> timed (call_triggers old new i d)"
  by (erule timed_frame) simp_all

lemma timed_money:
  fixes d d' :: "'a services_scheme"
  shows "timed d \<Longrightarrow> bookings d' = bookings d \<Longrightarrow> calls d' = calls d \<Longrightarrow> timed d'"
  by (erule timed_frame) (simp_all add: durs_def)

lemma timed_ready: "timed d \<Longrightarrow> rpc_fan_signal_ready i s d = Inr (r, d') \<Longrightarrow> timed d'"
  by (auto simp: rpc_fan_signal_ready_def split: option.splits if_splits elim!: timed_frame)

lemma new_call_fresh: "c \<in> set (calls d) \<Longrightarrow> ca_id c \<noteq> new_call_id d"
  using fresh_max [of "ca_id c" "map ca_id (calls d) @ map rp_target_id (reports d)"] by (auto simp: new_call_id_def)

lemma timed_ring:
  assumes ok: "timed d" and run: "rpc_partner_initiate_call i s d = Inr (r, d')"
  shows "timed d'"
proof (cases "d' = d")
  case False
  then obtain b m where d': "d' = set_booking i (\<lambda>b. b\<lparr>bk_meeting := Some m\<rparr>) (d\<lparr>calls := calls d @ [new_call (new_call_id d) b m (sess_now s)]\<rparr>)"
    using run by (auto simp: rpc_partner_initiate_call_def Let_def split: option.splits if_split_asm)
  let ?c = "new_call (new_call_id d) b m (sess_now s)"
  have c: "calls d' = calls d @ [?c]" and e: "durs d' = durs d" by (simp_all add: d' durs_def set_booking_def)
  have new: "ca_status ?c = PARTNER_INITIATED" "ca_id ?c = new_call_id d" by (simp_all add: new_call_def)
  have "total_ms j d' = total_ms j d" for j using new(1) by (simp add: total_ms_def c DELIVERED_def)
  then have "run_ok d' = run_ok d" using durs_cong [OF e] by (simp add: run_ok_def fun_eq_iff)
  moreover have "run_ok d ?c" using new(1) by (simp add: run_ok_def)
  moreover have "new_call_id d \<notin> ca_id ` set (calls d)" using new_call_fresh [of _ d] by force
  ultimately show ?thesis using ok new(2) by (auto simp: timed_def c)
qed (use ok in simp)

lemma joinableD: "joinable i d = Some c \<Longrightarrow> c \<in> set (calls d) \<and> ca_booking c = i \<and> ca_status c \<in> set LIVE"
proof -
  have "first xs = Some c \<Longrightarrow> c \<in> set xs" for xs :: "call list" by (auto simp: first_def split: list.splits)
  then show "joinable i d = Some c \<Longrightarrow> c \<in> set (calls d) \<and> ca_booking c = i \<and> ca_status c \<in> set LIVE"
    unfolding joinable_def Let_def by fastforce
qed

lemma timed_join:
  assumes ok: "timed d" and run: "rpc_fan_join_call i s d = Inr (r, d')"
  shows "timed d'"
proof (cases "d' = d")
  case False
  then obtain c where c: "joinable i d = Some c" "ca_status c = PARTNER_INITIATED"
    and d': "d' = set_call (ca_id c) (join_at (sess_now s) (remaining_seconds c d)) d"
    using run by (auto simp: rpc_fan_join_call_def Let_def split: option.splits if_split_asm)
  have mem: "c \<in> set (calls d)" using joinableD [OF c(1)] by simp
  have zero: "spent j c = 0" for j using c(2) by (simp add: DELIVERED_def)
  have same: "x = c" if "x \<in> set (calls d)" "ca_id x = ca_id c" for x using ok mem that by (auto simp: timed_def distinct_map inj_on_def)
  have "booking_consumed_seconds (ca_booking c) (ca_id c) d = (total_ms (ca_booking c) d + 500) div 1000"
    by (rule consumed_total) (use same zero in blast)
  then have "1000 * booked_seconds (ca_booking c) d \<le> remaining_seconds c d * 1000 + total_ms (ca_booking c) d + 500"
    by (auto simp: remaining_seconds_def max_def)
  then have "may_become d c (join_at (sess_now s) (remaining_seconds c d) c)"
    by (simp add: may_become_def join_at_def zero)
  then show ?thesis unfolding d' by (rule timed_edit [OF ok mem refl])
qed (use ok in simp)

lemma timed_heartbeat:
  assumes ok: "timed d" and run: "rpc_call_heartbeat k actor present s d = Inr (r, d')"
  shows "timed d'"
proof (cases "d' = d")
  case False
  then obtain c where c: "ca_of k d = Some c" and d': "d' = set_call k (beat actor present (sess_now s)) d"
    using run by (auto simp: rpc_call_heartbeat_def split: option.splits if_split_asm)
  have "may_become d c (beat actor present (sess_now s) c)" by (simp add: may_become_def beat_def spent_def time_of_def lasted_def)
  then show ?thesis unfolding d' using ca_ofD [OF c] by (intro timed_edit [OF ok]) auto
qed (use ok in simp)

lemma timed_ended:
  assumes ok: "timed d" and c: "ca_of k d = Some c" "ca_status c \<in> set LIVE" and f: "ca_id (f c) = k" "ca_booking (f c) = ca_booking c" "ca_status (f c) \<in> MISSED"
  shows "timed (call_triggers old new i (set_call k f d))"
proof -
  have "spent j c = 0" for j using c(2) by (auto simp: LIVE_def DELIVERED_def)
  then have "may_become d c (f c)" using f ca_ofD [OF c(1)] by (auto simp: may_become_def MISSED_def)
  then show ?thesis using ca_ofD [OF c(1)] by (intro timed_trigger timed_edit [OF ok]) auto
qed

lemma timed_complete:
  assumes ok: "timed d" and auto: "auto \<Longrightarrow> k \<in> set (q_past s d)" and run: "rpc_complete_call k auto s d = Inr (r, d')"
  shows "timed d'"
proof (cases "d' = d")
  case False
  then obtain c role ns i st where c: "ca_of k d = Some c" "ca_status c = IN_PROGRESS"
    and n: "notify_all ns (call_triggers IN_PROGRESS st i (set_call k (\<lambda>_. end_call auto (sess_now s) role c) d)) = Inr d'"
    using run by (auto simp: rpc_complete_call_def Let_def split: option.splits if_split_asm sum.splits)
  let ?c = "end_call auto (sess_now s) role c"
  have mem: "c \<in> set (calls d)" "ca_id c = k" using ca_ofD [OF c(1)] by simp_all
  have "x = c" if "x \<in> set (calls d)" "ca_id x = k" for x using ok mem that by (auto simp: timed_def distinct_map inj_on_def)
  then have past: "auto \<Longrightarrow> due (ca_deadline_at c) (sess_now s)" using auto by (auto simp: q_past_def)
  have zero: "spent j c = 0" for j using c(2) by (simp add: DELIVERED_def)
  have status: "ca_status ?c \<in> {COMPLETED_SUCCESSFUL, DROPPED_TECHNICAL_ISSUE}" by (simp add: end_call_def Let_def)
  have ran: "e - t - 5000 \<le> spent (ca_booking c) ?c" if s: "ca_status ?c = COMPLETED_SUCCESSFUL" "ca_started_at c = Some t" "ca_deadline_at c = Some e" for t e
  proof -
    have r: "end_reason auto c (sess_now s) = ''duration_delivered''" using s(1) by (simp add: end_call_def Let_def split: if_split_asm)
    then have "due_now auto c (sess_now s)" by (simp add: end_reason_def split: if_split_asm)
    then have "e - 5000 \<le> sess_now s" using past s(3) by (auto simp: due_now_def due_def GRACE_MS_def)
    moreover have "spent (ca_booking c) ?c = max 0 (sess_now s - t)"
      using r s(2) by (simp add: spent_def end_call_def Let_def DELIVERED_def time_of_def lasted_def)
    ultimately show ?thesis by simp
  qed
  have "may_become d c ?c"
    unfolding may_become_def using zero status ran c(2) mem(2) by (auto simp: end_call_def Let_def)
  then have "timed (call_triggers IN_PROGRESS st i (set_call k (\<lambda>_. ?c) d))" by (intro timed_trigger timed_edit [OF ok mem])
  then show ?thesis by (rule timed_money) (use notify_all_view [OF n] in simp_all)
qed (use ok in simp)

lemma timed_missed:
  assumes ok: "timed d" and run: "rpc_mark_call_missed k status s d = Inr (r, d')"
  shows "timed d'"
proof (cases "d' = d")
  case False
  then obtain st c role where st: "missed_status status = Some st" and c: "ca_of k d = Some c" "ca_status c \<in> set LIVE"
    and d': "d' = call_triggers (ca_status c) st (ca_booking c) (set_call k (call_miss st (sess_now s) role) d)"
    using run by (auto simp: rpc_mark_call_missed_def Let_def split: option.splits if_split_asm)
  have "st \<in> MISSED" using st by (auto simp: missed_status_def MISSED_def split: if_split_asm)
  then show ?thesis unfolding d' using ca_ofD [OF c(1)] by (intro timed_ended [OF ok c]) (simp_all add: call_miss_def)
qed (use ok in simp)

lemma timed_cleanup:
  assumes ok: "timed d" and run: "cleanup_stalled_calls s d = Inr (r, d')"
  shows "timed d'"
proof -
  let ?h = "\<lambda>c. if stalled (sess_now s) c then c\<lparr>ca_status := MISSED_FAN_NO_JOIN, ca_ended_at := Some (sess_now s)\<rparr> else c"
  have "may_become d c (?h c)" for c by (auto simp: may_become_def stalled_def DELIVERED_def)
  then have map: "timed (d\<lparr>calls := map ?h (calls d)\<rparr>)" by (intro timed_map [OF ok, where h = ?h]) (simp_all add: durs_def)
  have "timed e \<Longrightarrow> timed (fold (\<lambda>c. call_triggers PARTNER_INITIATED MISSED_FAN_NO_JOIN (ca_booking c)) cs e)" for cs and e :: "'a services_scheme"
    by (induction cs arbitrary: e) (auto intro: timed_trigger)
  from this [OF map] show ?thesis using run by (auto simp: cleanup_stalled_calls_def Let_def split: if_split_asm)
qed

lemma findD: "find P xs = Some x \<Longrightarrow> x \<in> set xs \<and> P x"
  by (auto simp: find_Some_iff)

lemma timed_drop: "timed d \<Longrightarrow> timed (drop_live i now d)"
proof (cases "live_call i d")
  case (Some c)
  then have c: "c \<in> set (calls d)" "ca_status c \<in> set LIVE" using findD [of _ "rev (calls d)" c] by (auto simp: live_call_def)
  assume ok: "timed d"
  have "spent j c = 0" for j using c(2) by (auto simp: LIVE_def DELIVERED_def)
  then have "may_become d c (c\<lparr>ca_status := DROPPED_TECHNICAL_ISSUE, ca_ended_at := Some now\<rparr>)" by (simp add: may_become_def)
  then show ?thesis unfolding drop_live_def Some option.case by (intro timed_trigger timed_edit [OF ok c(1) refl])
qed (simp add: drop_live_def)

lemma timed_book:
  fixes d :: "'a bookingDb_scheme"
  assumes ok: "timed d" and run: "rpc_book_video_call pg fan q day dur code s d = Inr (r, d')"
  shows "timed d'"
proof (cases "d' = d")
  case False
  obtain base disc promo_id and a :: availRow and tid rep n d1 where po: "post_transaction ''BOOKING_DEBIT'' base (bk_key ''book:'' (new_booking_id d)) (book_legs (map_option wl_id (wallet_of fan d)) base disc)
      (Some (nat_text (new_booking_id d))) d = Inr ((tid, rep), d1)"
    and d': "d' = booked_db code promo_id tid (new_booking (new_booking_id d) fan q (av_date a) dur base disc (sess_now s + days_ms n) (sess_now s)) d1"
    by (rule bookedE [OF run False], rule that, assumption+)
  let ?b = "new_booking (new_booking_id d) fan q (av_date a) dur base disc (sess_now s + days_ms n) (sess_now s)"
  have c: "calls d' = calls d" using bk_post_fields(3) [OF po] by (simp add: d' booked_db_def book_minutes_def use_promo_def split: option.split)
  have "durs d' = durs d @ [(new_booking_id d, dur)]" using bk_post_fields(1) [OF po] by (simp add: d' durs_def new_booking_def)
  then have "booked_seconds (ca_booking x) d' = booked_seconds (ca_booking x) d" if "x \<in> set (calls d)" for x
    using new_bk_fresh(4) [OF that] by (simp add: booked_durs map_add_def split: option.split)
  then have "run_ok d' x \<longleftrightarrow> run_ok d x" if "x \<in> set (calls d)" for x using that by (simp add: run_ok_def total_ms_def c)
  then show ?thesis using ok by (simp add: timed_def c)
qed (use ok in simp)

lemma timed_refund:
  fixes d :: "'a bookingDb_scheme"
  assumes ok: "timed d" and run: "rpc_refund_booking i s d = Inr (r, d')"
  shows "timed d'"
  by (rule timed_frame [OF ok])
    (use run in \<open>auto simp: rpc_refund_booking_def durs_def bk_post_fields notify_if_def bk_status_set_def split: option.splits if_split_asm sum.splits\<close>)

lemma timed_settle:
  fixes d :: "'a bookingDb_scheme"
  assumes ok: "timed d" and run: "rpc_settle_booking i s d = Inr (r, d')"
  shows "timed d'"
  by (rule timed_frame [OF ok]) (use run in \<open>auto simp: rpc_settle_booking_def durs_def bk_post_fields split: option.splits if_split_asm sum.splits\<close>)

lemma timed_expire_one:
  fixes d :: "'a bookingDb_scheme"
  assumes ok: "timed d" and run: "expire_one b st s d = Inr d'"
  shows "timed d'"
  by (rule timed_frame [OF ok]) (use run in \<open>auto simp: expire_one_def durs_def bk_post_fields bk_status_set_def split: option.splits if_split_asm sum.splits\<close>)

lemma timed_expire_all: "timed d \<Longrightarrow> timed (snd (expire_all bs s d))"
  by (induction bs s d rule: expire_all.induct) (auto split: sum.split prod.split simp: Let_def dest: timed_expire_one)

lemma timed_eod: "timed d \<Longrightarrow> process_end_of_day_expired_bookings s d = Inr (r, d') \<Longrightarrow> timed d'"
  using timed_expire_all [of d "eod_work s d" s] by (auto simp: process_end_of_day_expired_bookings_def Let_def split: if_split_asm prod.splits)

interpretation timing: booking_contract timed "\<lambda>k s d. k \<in> set (q_past s d)"
proof
  show "timed d'" if "timed d" "bookings d' = bookings d" "calls d' = calls d" for d d' :: "'a bookingDb_scheme"
    by (rule timed_money [OF that])
qed (auto intro: timed_book timed_refund timed_ready timed_ring timed_join timed_heartbeat timed_complete timed_missed timed_settle timed_eod timed_cleanup)

lemma timed_hatches:
  fixes d :: "'a bookingDb_scheme"
  assumes ok: "timed d"
  shows "rpc_admin_expire_booking i st s d = Inr (r, d') \<Longrightarrow> timed d'" "rpc_admin_recover_call i reason s d = Inr (r, d') \<Longrightarrow> timed d'"
    "rpc_admin_force_settle_booking i s d = Inr (r, d') \<Longrightarrow> timed d'" "rpc_admin_resolve_partial_call a i x y remark s d = Inr (r, d') \<Longrightarrow> timed d'"
proof -
  have quiet: "timed e \<Longrightarrow> timed (so_audit ac ty i v e)" "timed e \<Longrightarrow> timed (notify k e)" "timed e \<Longrightarrow> timed (set_booking i (bk_status_set st) e)"
    for e :: "'a bookingDb_scheme" and ac ty i v k st by (erule timed_frame; simp add: durs_def bk_status_set_def)+
  show "timed d'" if run: "rpc_admin_expire_booking i st s d = Inr (r, d')"
    by (rule timed_frame [OF ok]) (use run in \<open>auto simp: rpc_admin_expire_booking_def expire_audit_def durs_def bk_post_fields bk_status_set_def Let_def
      split: option.splits if_split_asm sum.splits\<close>)
  show "timed d'" if run: "rpc_admin_recover_call i reason s d = Inr (r, d')"
    using run ok by (auto simp: rpc_admin_recover_call_def Let_def split: option.splits if_split_asm intro!: quiet timed_drop)
  show "timed d'" if run: "rpc_admin_force_settle_booking i s d = Inr (r, d')"
  proof (cases "d' = d")
    case False
    then have "\<exists>d1. rpc_settle_booking i s d = Inr (r, d1) \<and> (d' = d1 \<or> (\<exists>v. d' = so_audit ''FORCE_SETTLE'' ''BOOKING'' i v d1))"
      using run unfolding rpc_admin_force_settle_booking_def by (fastforce split: option.splits if_split_asm sum.splits)
    then obtain d1 where "rpc_settle_booking i s d = Inr (r, d1)" and d': "d' = d1 \<or> (\<exists>v. d' = so_audit ''FORCE_SETTLE'' ''BOOKING'' i v d1)" by blast
    then have "timed d1" by (blast intro: timed_settle [OF ok])
    then show ?thesis using d' by (auto intro: quiet(1))
  qed (use ok in simp)
  show "timed d'" if run: "rpc_admin_resolve_partial_call a i x y remark s d = Inr (r, d')"
  proof (cases "d' = d")
    case False
    then obtain b t1 d1 t2 d2 v where p: "partner_part b x d = Inr (t1, d1)" "fan_part b y d1 = Inr (t2, d2)"
      and d': "d' = so_audit ''RESOLVE_PARTIAL_CALL'' ''booking'' i v (set_booking i (bk_status_set BOOKING_COMPLETED) d2)"
      using run by (auto simp: rpc_admin_resolve_partial_call_def split: option.splits if_split_asm sum.splits)
    have "timed d2" by (rule timed_money [OF ok]) (use partial_fields(1) [OF p(1)] partial_fields(2) [OF p(2)] in simp_all)
    then show ?thesis unfolding d' by (intro quiet)
  qed (use ok in simp)
qed

section \<open>Completed calls ran their time\<close>

text \<open>One statement after another; the sweep that completes calls automatically takes those whose deadline has passed.\<close>

inductive call_step :: "pgText \<Rightarrow> 'a bookingDb_scheme \<Rightarrow> 'a bookingDb_scheme \<Rightarrow> bool" for pg where
  call: "booking_fns pg name args s d = Inr (r, d') \<Longrightarrow> (\<And>k i. name = ''rpc_complete_call'' \<Longrightarrow> args = [k, JBool True] \<Longrightarrow> id_of k = Some i \<Longrightarrow> i \<in> set (q_past s d))
    \<Longrightarrow> call_step pg d d'"
| expire: "rpc_admin_expire_booking i st s d = Inr (r, d') \<Longrightarrow> call_step pg d d'"
| recover: "rpc_admin_recover_call i reason s d = Inr (r, d') \<Longrightarrow> call_step pg d d'"
| force: "rpc_admin_force_settle_booking i s d = Inr (r, d') \<Longrightarrow> call_step pg d d'"
| partial: "rpc_admin_resolve_partial_call a i x y remark s d = Inr (r, d') \<Longrightarrow> call_step pg d d'"

lemma call_step_timed: "call_step pg d d' \<Longrightarrow> timed d \<Longrightarrow> timed d'"
  by (induction rule: call_step.induct) (auto intro: timing.booking_fn_keeps timed_hatches)

lemma call_steps_timed: "(call_step pg)\<^sup>*\<^sup>* d d' \<Longrightarrow> timed d \<Longrightarrow> timed d'"
  by (induction rule: rtranclp_induct) (auto intro: call_step_timed)

text \<open>
  C27. A call is completed only when the time was delivered.  Start from a database without calls and let fans, partners, sweeps and
  administrators use the functions in any order, with any clock.  Whenever a call counts as completed, the attempts of its booking
  add up to the time that was booked, less the five seconds of grace: dropping and calling again does not shorten it, and
  neither does an attempt in which the creator was never seen, nor one that was ended early.
\<close>

theorem completed_calls_ran:
  fixes d d' :: "'a bookingDb_scheme"
  assumes start: "calls d = []" and steps: "(call_step pg)\<^sup>*\<^sup>* d d'" and c: "c \<in> set (calls d')" "ca_status c = COMPLETED_SUCCESSFUL"
  shows "booked_seconds (ca_booking c) d' - 5 \<le> booking_consumed_seconds (ca_booking c) (new_call_id d') d'"
proof -
  have "timed d'" by (rule call_steps_timed [OF steps]) (simp add: timed_def start)
  then have "1000 * booked_seconds (ca_booking c) d' \<le> total_ms (ca_booking c) d' + 5500" using c by (auto simp: timed_def run_ok_def)
  moreover have "booking_consumed_seconds (ca_booking c) (new_call_id d') d' = (total_ms (ca_booking c) d' + 500) div 1000"
    by (rule consumed_total) (use new_call_fresh in blast)
  ultimately show ?thesis by linarith
qed

theorem completed_calls_ran_witness:
  "\<exists>(d' :: bookingDb) c. c \<in> set (calls d') \<and> ca_status c = COMPLETED_SUCCESSFUL \<and> booked_seconds (ca_booking c) d' - 5 \<le> booking_consumed_seconds (ca_booking c) (new_call_id d') d'"
proof -
  let ?pg = "\<lparr>in_date = \<lambda>_. None, in_int = \<lambda>_. None, to_upper = \<lambda>t. t, json_length = \<lambda>_. 0\<rparr>"
  let ?s = "\<lambda>u t. demo_session\<lparr>app_user_id := Some u, sess_now := t\<rparr>"
  let ?d0 = "demo_held BOOKED"
  let ?c1 = "new_call 1 (demo_booked BOOKED) ''zudue-1'' 0"
  let ?d1 = "set_booking 1 (\<lambda>b. b\<lparr>bk_meeting := Some ''zudue-1''\<rparr>) (?d0\<lparr>calls := [?c1]\<rparr>)"
  let ?c2 = "join_at 0 300 ?c1"
  let ?d2 = "set_call 1 (join_at 0 300) ?d1"
  let ?c3 = "end_call False 300000 (Some ''FAN'') ?c2"
  have demo: "bk_id (demo_booked BOOKED) = 1" "bk_status (demo_booked BOOKED) = BOOKED" "bk_fan (demo_booked BOOKED) = ''fan''" "bk_partner (demo_booked BOOKED) = ''star''"
    "bk_meeting (demo_booked BOOKED) = None" "bk_duration (demo_booked BOOKED) = ''5''" by (simp_all add: demo_booked_def)
  have "reports ?d0 = []" by (simp add: demo_bank_def)
  then have id: "new_call_id ?d0 = 1" by (simp add: new_call_id_def fresh_def)
  have "nat_text 1 = ''1''" by code_simp
  then have "meeting_of 1 (demo_booked BOOKED) = ''zudue-1''" by (simp add: meeting_of_def demo)
  then have "rpc_partner_initiate_call 1 (?s ''star'' 0) ?d0 = Inr (ok_json [(''call_id'', jid 1), (''meeting_id'', JStr ''zudue-1'')], ?d1)"
    using id demo by (simp add: rpc_partner_initiate_call_def Let_def caller_allowed_def current_user_id_def)
  then have "booking_fns ?pg ''rpc_partner_initiate_call'' [jid 1] (?s ''star'' 0) ?d0 = Inr (ok_json [(''call_id'', jid 1), (''meeting_id'', JStr ''zudue-1'')], ?d1)"
    by (simp add: booking_fns_def booking_table_def with_id_def id_of_def jid_def)
  then have s1: "call_step ?pg ?d0 ?d1" by (rule call_step.call) simp
  have c1: "ca_id ?c1 = 1" "ca_booking ?c1 = 1" "ca_status ?c1 = PARTNER_INITIATED" "ca_fan ?c1 = Some ''fan''" "ca_partner ?c1 = Some ''star''" "ca_initiated_at ?c1 = Some 0" "ca_media ?c1 = None"
    by (simp_all add: new_call_def demo)
  have calls1: "calls ?d1 = [?c1]" by (simp add: set_booking_def)
  have "minutes_of ''5'' = 5" by code_simp
  then have booked: "booked_seconds 1 ?d1 = 300" using demo by (simp add: booked_durs durs_def)
  have join1: "joinable 1 ?d1 = Some ?c1" using c1 calls1 by (simp add: joinable_def first_def LIVE_def)
  have "booking_consumed_seconds 1 1 ?d1 = 0" using calls1 c1 by (simp add: booking_consumed_seconds_def DELIVERED_def)
  then have "remaining_seconds ?c1 ?d1 = 300" using booked c1 by (simp add: remaining_seconds_def)
  then have "rpc_fan_join_call 1 (?s ''fan'' 0) ?d1 = Inr (join_reply ?c2, ?d2)"
    using join1 c1 by (simp add: rpc_fan_join_call_def Let_def caller_allowed_def current_user_id_def)
  then have "booking_fns ?pg ''rpc_fan_join_call'' [jid 1] (?s ''fan'' 0) ?d1 = Inr (join_reply ?c2, ?d2)"
    by (simp add: booking_fns_def booking_table_def with_id_def id_of_def jid_def)
  then have s2: "call_step ?pg ?d1 ?d2" by (rule call_step.call) simp
  have c2: "ca_id ?c2 = 1" "ca_booking ?c2 = 1" "ca_status ?c2 = IN_PROGRESS" "ca_fan ?c2 = Some ''fan''" "ca_partner ?c2 = Some ''star''" "ca_started_at ?c2 = Some 0"
    "ca_deadline_at ?c2 = Some 300000" "ca_media ?c2 = None" using c1 by (simp_all add: join_at_def)
  have calls2: "calls ?d2 = [?c2]" using calls1 c1 by (simp add: set_call_def)
  have of2: "ca_of 1 ?d2 = Some ?c2" using calls2 c2 by (simp add: ca_of_def)
  have r: "end_reason False ?c2 300000 = ''duration_delivered''" using c2 by (simp add: end_reason_def due_now_def GRACE_MS_def)
  have role: "role_in ?c2 (?s ''fan'' 300000) = Some ''FAN''" using c2 by (simp add: role_in_def current_user_id_def)
  have party: "call_party ?c2 (?s ''fan'' 300000) ?d2" using c2 by (simp add: call_party_def current_user_id_def)
  obtain v d3 where done3: "rpc_complete_call 1 False (?s ''fan'' 300000) ?d2 = Inr (v, d3)" and calls3: "calls d3 = [?c3]"
    using of2 c2 r role party calls2 by (simp add: rpc_complete_call_def Let_def end_notices_def set_call_def)
  then have "booking_fns ?pg ''rpc_complete_call'' [jid 1, JBool False] (?s ''fan'' 300000) ?d2 = Inr (v, d3)"
    by (simp add: booking_fns_def booking_table_def with_id_def id_of_def jid_def)
  then have s3: "call_step ?pg ?d2 d3" by (rule call_step.call) simp
  have "(call_step ?pg)\<^sup>*\<^sup>* ?d0 d3" using s1 s2 s3 by (meson rtranclp.rtrancl_refl rtranclp.rtrancl_into_rtrancl)
  moreover have "?c3 \<in> set (calls d3)" "ca_status ?c3 = COMPLETED_SUCCESSFUL" using calls3 r by (simp_all add: end_call_def Let_def)
  ultimately show ?thesis using completed_calls_ran [of ?d0 ?pg d3 ?c3] by (intro exI [of _ d3] exI [of _ ?c3]) simp
qed

end
