(* ===== verification/Booking_Hatches.thy ===== *)
theory Booking_Hatches
  imports Booking_Props
begin

text \<open>
  What the administrator's endpoints do to a booking outside the cases of \<open>booking_escrow_exact\<close>: nothing in the functions keeps
  them from taking the escrow's money twice, or from leaving it there.
\<close>

section \<open>What a hatch does to the escrow\<close>

lemma view_money: "money_view d' = money_view d1 \<Longrightarrow> wallets d' = wallets d1 \<and> entries d' = entries d1 \<and> keys d' = keys d1 \<and> earnings d' = earnings d1"
  by (simp add: money_view_def keys_def)

lemma bk_of_set: "bk_of i (set_booking j f d) = map_option (\<lambda>b. if bk_id b = j then f b else b) (bk_of i d)" if "same_price f"
proof -
  have "find (\<lambda>b. bk_id b = i) (map (\<lambda>b. if bk_id b = j then f b else b) bs) = map_option (\<lambda>b. if bk_id b = j then f b else b) (find (\<lambda>b. bk_id b = i) bs)" for bs
    using same_priceD(1) [OF that] by (induction bs) auto
  then show ?thesis by (simp add: bk_of_def)
qed

lemma bk_of_cong: "bookings d' = bookings d \<Longrightarrow> bk_of i d' = bk_of i d"
  by (simp add: bk_of_def)

lemma wallet_in: "wallet_of u d = Some v \<Longrightarrow> v \<in> set (wallets d) \<and> wl_profile v = u"
  by (auto simp: wallet_of_def find_Some_iff)

lemma wallet_of_moved: "wallets d' = map (debited v x) (wallets d) \<Longrightarrow> wallet_of u d' = map_option (debited v x) (wallet_of u d)"
proof -
  have "find (\<lambda>y. wl_profile y = u) (map (debited v x) ws) = map_option (debited v x) (find (\<lambda>y. wl_profile y = u) ws)" for ws
    by (induction ws) (auto simp: debited_def)
  moreover assume "wallets d' = map (debited v x) (wallets d)"
  ultimately show ?thesis by (simp add: wallet_of_def)
qed

lemma admin_expire_runs:
  fixes d :: "'a bookingDb_scheme"
  assumes m: "money_ok d" and b: "bk_of i d = Some b" "bk_gross b = bk_price b + bk_discount b" "0 < bk_price b" "0 \<le> bk_discount b"
    and v: "wallet_of (bk_fan b) d = Some v" and st: "st \<in> EXPIRED_STATES" and role: "has_role (finance_admins d) s d" and k: "bk_key ''admin-expire:'' i \<notin> keys d"
  obtains r d' where "rpc_admin_expire_booking i st s d = Inr (r, d')" "success r" "wallet_of (bk_fan b) d' = Some (debited v (- bk_price b) v)"
    "account_sum ''booking_escrow'' (entries d') = account_sum ''booking_escrow'' (entries d) - bk_gross b" "earnings d' = earnings d"
    "bookings d' = map (\<lambda>y. if bk_id y = i then bk_status_set st y else y) (bookings d)" "keys d' = insert (bk_key ''admin-expire:'' i) (keys d)" "money_ok d'"
proof -
  have id: "bk_id b = i" using bk_ofD [OF b(1)] by simp
  obtain d1 where po: "post_transaction ''REFUND'' (bk_gross b) (bk_key ''admin-expire:'' i) (return_legs (Some (wl_id v)) b) (Some (nat_text i)) d = Inr ((next_id d, False), d1)"
    and w: "wallets d1 = map (debited v (- bk_price b)) (wallets d)"
    using post_return [OF m _ k b(2-4)] wallet_in [OF v] by blast
  note o = post_once [OF m po k]
  let ?d' = "expire_audit i st (set_booking i (bk_status_set st) (notify (bk_fan b, ''REFUND_PROCESSED_FAN'', ''booking'', i) (release_minutes b d1)))"
  have ne: "st \<noteq> BOOKING_COMPLETED" "st \<in> EXPIRY_TARGETS" using st by (auto simp: EXPIRED_STATES_def EXPIRY_TARGETS_def)
  have run: "rpc_admin_expire_booking i st s d = Inr (ok_json [(''status'', JStr (booking_status_text st))], ?d')"
    using ne role b(1) v po by (simp add: rpc_admin_expire_booking_def Let_def)
  have mv: "money_view ?d' = money_view d1" by (simp add: expire_audit_def)
  note x = view_money [OF mv]
  show thesis
  proof (rule that [OF run])
    show "success (ok_json [(''status'', JStr (booking_status_text st))])" by (simp add: success_def ok_json_def)
    show "wallet_of (bk_fan b) ?d' = Some (debited v (- bk_price b) v)" using wallet_of_moved [of ?d' v "- bk_price b" d] w x v by simp
    show "account_sum ''booking_escrow'' (entries ?d') = account_sum ''booking_escrow'' (entries d) - bk_gross b"
      using o(4) [of "''booking_escrow''"] x by (simp add: legs_of_book)
    show "earnings ?d' = earnings d" using x bk_post_fields(2) [OF po] by simp
    show "bookings ?d' = map (\<lambda>y. if bk_id y = i then bk_status_set st y else y) (bookings d)" using bk_post_fields(1) [OF po] by (simp add: expire_audit_def)
    show "keys ?d' = insert (bk_key ''admin-expire:'' i) (keys d)" using o(2) x by simp
    show "money_ok ?d'" using money_viewD(1) [OF mv] o(1) by simp
  qed
qed


lemma settle_runs:
  fixes d :: "'a bookingDb_scheme"
  assumes m: "money_ok d" and b: "bk_of i d = Some b" "bk_status b = BOOKING_COMPLETED" "0 < bk_gross b"
    and out: "i \<notin> set (earnings d)" "bk_key ''settle:'' i \<notin> keys d" "\<not> call_reported i d" and sys: "is_system s d"
  obtains r d' where "rpc_settle_booking i s d = Inr (r, d')" "success r" "account_sum ''booking_escrow'' (entries d') = account_sum ''booking_escrow'' (entries d) - bk_gross b"
    "account_sum ''partner_payable'' (entries d') = account_sum ''partner_payable'' (entries d) + bk_gross b"
proof -
  obtain d1 where po: "post_transaction ''PARTNER_EARNING'' (bk_gross b) (bk_key ''settle:'' i) (settle_legs (bk_gross b)) (Some (nat_text i)) d = Inr ((next_id d, False), d1)"
    using post_settle [OF out(2) b(3)] by blast
  note o = post_once [OF m po out(2)]
  show thesis
  proof (rule that [of "ok_json [(''transaction_id'', jid (next_id d))]" "d1\<lparr>earnings := earnings d1 @ [i]\<rparr>"])
    show "rpc_settle_booking i s d = Inr (ok_json [(''transaction_id'', jid (next_id d))], d1\<lparr>earnings := earnings d1 @ [i]\<rparr>)"
      using b out sys po by (simp add: rpc_settle_booking_def)
    show "success (ok_json [(''transaction_id'', jid (next_id d))])" by (simp add: success_def ok_json_def)
  qed (use o(4) [of "''booking_escrow''"] o(4) [of "''partner_payable''"] in \<open>simp_all add: settle_legs_def\<close>)
qed

text \<open>A split that gives the partner nothing positive: only the fan's half is posted, and no earning is recorded.\<close>

lemma fan_only_split:
  fixes d :: "'a bookingDb_scheme"
  assumes ok: "bk_ok c p d" and b: "bk_of i d = Some b" "bk_status b = REQUIRES_ADMIN_REVIEW" and v: "wallet_of (bk_fan b) d = Some v"
    and role: "admin_actor a s d" "has_role (finance_admins d) s d" and k: "0 \<le> k"
  obtains r d' where "rpc_admin_resolve_partial_call a i (- k) (bk_gross b + k) remark s d = Inr (r, d')" "success r"
    "wallet_of (bk_fan b) d' = Some (debited v (- (bk_gross b + k)) v)" "money_ok d'"
    "account_sum ''booking_escrow'' (entries d') = account_sum ''booking_escrow'' (entries d) - (bk_gross b + k)"
    "account_sum ''partner_payable'' (entries d') = account_sum ''partner_payable'' (entries d)"
    "bk_of i d' = Some (bk_status_set BOOKING_COMPLETED b)" "earnings d' = earnings d" "bk_key ''settle:'' i \<notin> keys d'" "i \<notin> set (earnings d')" "calls d' = calls d" "reports d' = reports d"
proof -
  have id: "bk_id b = i" and mem: "b \<in> set (bookings d)" using bk_ofD [OF b(1)] by simp_all
  have "bk_status b \<in> {BOOKED, REQUIRES_ADMIN_REVIEW}" using b(2) by simp
  note row = bk_okD(3) [OF ok mem] and o = row_open [OF bk_okD(3) [OF ok mem] this, unfolded id]
  have pos: "0 < bk_gross b + k" using row k by (simp add: bk_row_ok_def)
  obtain d1 where po: "post_transaction ''REFUND'' (bk_gross b + k) (bk_key ''partial-refund:'' i) (so_refund_legs (Some (wl_id v)) (bk_gross b + k)) (Some (nat_text i)) d = Inr ((next_id d, False), d1)"
    and w: "wallets d1 = map (debited v (- (bk_gross b + k))) (wallets d)"
    using post_refund [OF bk_okD(1) [OF ok] _ o(5) pos] wallet_in [OF v] by blast
  note q = post_once [OF bk_okD(1) [OF ok] po o(5)] and f = bk_post_fields [OF po]
  have rep: "reports d1 = reports d" using post_more [OF po] by (cases d; cases d1) simp
  let ?v = "JObj [(''partner_paise'', JNum (- k)), (''fan_refund_paise'', JNum (bk_gross b + k)), (''notes'', jstr_or_null remark)]"
  let ?d2 = "notify (bk_fan b, ''REFUND_PROCESSED_FAN'', ''booking'', i) d1"
  let ?d' = "so_audit ''RESOLVE_PARTIAL_CALL'' ''booking'' i ?v (set_booking i (bk_status_set BOOKING_COMPLETED) ?d2)"
  let ?r = "ok_json [(''partner_paise'', JNum (- k)), (''fan_refund_paise'', JNum (bk_gross b + k)), (''partner_txn_id'', JNull), (''refund_txn_id'', jid (next_id d))]"
  have parts: "partner_part b (- k) d = Inr (None, d)" "fan_part b (bk_gross b + k) d = Inr (Some (next_id d), ?d2)"
    using k pos v po by (simp_all add: partner_part_def fan_part_def id)
  have run: "rpc_admin_resolve_partial_call a i (- k) (bk_gross b + k) remark s d = Inr (?r, ?d')"
    using role b o(2) by (simp add: rpc_admin_resolve_partial_call_def parts txn_member_def)
  have mv: "money_view ?d' = money_view d1" by simp
  note x = view_money [OF mv]
  show thesis
  proof (rule that [OF run])
    show "success ?r" by (simp add: success_def ok_json_def)
    show "wallet_of (bk_fan b) ?d' = Some (debited v (- (bk_gross b + k)) v)" using wallet_of_moved [of ?d' v "- (bk_gross b + k)" d] w x v by simp
    show "money_ok ?d'" using money_viewD(1) [OF mv] q(1) by simp
    show "account_sum ''booking_escrow'' (entries ?d') = account_sum ''booking_escrow'' (entries d) - (bk_gross b + k)"
      using q(4) [of "''booking_escrow''"] x by (simp add: legs_of_book)
    show "account_sum ''partner_payable'' (entries ?d') = account_sum ''partner_payable'' (entries d)"
      using q(4) [of "''partner_payable''"] x by (simp add: so_refund_legs_def)
    have "bk_of i (so_audit a ty i v e) = bk_of i e" for a ty v and e :: "'a bookingDb_scheme" by (rule bk_of_cong) simp
    moreover have "bk_of i ?d2 = Some b" using b(1) f(1) by (simp add: bk_of_def)
    ultimately show "bk_of i ?d' = Some (bk_status_set BOOKING_COMPLETED b)" using id by (simp add: bk_of_set)
    show "earnings ?d' = earnings d" "i \<notin> set (earnings ?d')" using x f(2) o(2) by simp_all
    show "bk_key ''settle:'' i \<notin> keys ?d'" using x q(2) o(3) by simp
    show "calls ?d' = calls d" using f(3) by simp
    show "reports ?d' = reports d" using rep by (simp add: so_audit_def set_booking_def notify_def)
  qed
qed

text \<open>
  C30. A split can take more than the booking's money.  \<open>rpc_admin_resolve_partial_call\<close> checks that the two shares add up to the
  list price but not their signs.  A negative share \<open>- k\<close> for the partner is skipped while the fan is credited the list price and
  \<open>k\<close>.  And a split that gives the fan everything leaves a completed booking without an earning, which the settlement sweep lists
  and pays out to the partner in full: the escrow has lost the list price twice.
\<close>

theorem partial_split_overpays:
  fixes d :: "'a bookingDb_scheme"
  assumes ok: "bk_ok c p d" and b: "bk_of i d = Some b" "bk_status b = REQUIRES_ADMIN_REVIEW" and v: "wallet_of (bk_fan b) d = Some v"
    and role: "admin_actor a s d" "has_role (finance_admins d) s d"
  shows "(\<forall>k \<ge> 0. \<exists>r d'. rpc_admin_resolve_partial_call a i (- k) (bk_gross b + k) remark s d = Inr (r, d') \<and> success r \<and>
      account_sum ''booking_escrow'' (entries d') = account_sum ''booking_escrow'' (entries d) - (bk_gross b + k) \<and>
      (\<exists>v'. wallet_of (bk_fan b) d' = Some v' \<and> wl_balance v' = wl_balance v + bk_gross b + k)) \<and>
    (\<forall>s1 :: session. sess_now s1 \<ge> bk_settle_at b \<and> app_is_service_role s1 \<and> \<not> call_reported i d \<longrightarrow>
      (\<exists>r d' r1 d1. rpc_admin_resolve_partial_call a i 0 (bk_gross b) remark s d = Inr (r, d') \<and> success r \<and> i \<in> set (q_bookings s1 d') \<and>
        rpc_settle_booking i s1 d' = Inr (r1, d1) \<and> success r1 \<and>
        account_sum ''booking_escrow'' (entries d1) = account_sum ''booking_escrow'' (entries d) - 2 * bk_gross b \<and>
        account_sum ''partner_payable'' (entries d1) = account_sum ''partner_payable'' (entries d) + bk_gross b))"
proof -
  have id: "bk_id b = i" and mem: "b \<in> set (bookings d)" using bk_ofD [OF b(1)] by simp_all
  have w: "0 \<le> wl_balance v" using bk_okD(1) [OF ok] wallet_in [OF v] by (auto simp: money_ok_def wallet_ok_def)
  have g: "0 < bk_gross b" using bk_okD(3) [OF ok mem] by (simp add: bk_row_ok_def)
  have "\<forall>k \<ge> 0. \<exists>r d'. rpc_admin_resolve_partial_call a i (- k) (bk_gross b + k) remark s d = Inr (r, d') \<and> success r \<and>
      account_sum ''booking_escrow'' (entries d') = account_sum ''booking_escrow'' (entries d) - (bk_gross b + k) \<and>
      (\<exists>v'. wallet_of (bk_fan b) d' = Some v' \<and> wl_balance v' = wl_balance v + bk_gross b + k)"
  proof (intro allI impI)
    fix k :: int assume k: "0 \<le> k"
    obtain r d' where x: "rpc_admin_resolve_partial_call a i (- k) (bk_gross b + k) remark s d = Inr (r, d')" "success r"
      "wallet_of (bk_fan b) d' = Some (debited v (- (bk_gross b + k)) v)"
      "account_sum ''booking_escrow'' (entries d') = account_sum ''booking_escrow'' (entries d) - (bk_gross b + k)"
      by (rule fan_only_split [OF ok b v role k, of remark]) (rule that)
    have "wl_balance (debited v (- (bk_gross b + k)) v) = wl_balance v + bk_gross b + k" by (simp add: debited_def)
    then show "\<exists>r d'. rpc_admin_resolve_partial_call a i (- k) (bk_gross b + k) remark s d = Inr (r, d') \<and> success r \<and>
      account_sum ''booking_escrow'' (entries d') = account_sum ''booking_escrow'' (entries d) - (bk_gross b + k) \<and>
      (\<exists>v'. wallet_of (bk_fan b) d' = Some v' \<and> wl_balance v' = wl_balance v + bk_gross b + k)" using x by blast
  qed
  moreover have "\<forall>s1 :: session. sess_now s1 \<ge> bk_settle_at b \<and> app_is_service_role s1 \<and> \<not> call_reported i d \<longrightarrow>
      (\<exists>r d' r1 d1. rpc_admin_resolve_partial_call a i 0 (bk_gross b) remark s d = Inr (r, d') \<and> success r \<and> i \<in> set (q_bookings s1 d') \<and>
        rpc_settle_booking i s1 d' = Inr (r1, d1) \<and> success r1 \<and>
        account_sum ''booking_escrow'' (entries d1) = account_sum ''booking_escrow'' (entries d) - 2 * bk_gross b \<and>
        account_sum ''partner_payable'' (entries d1) = account_sum ''partner_payable'' (entries d) + bk_gross b)"
  proof (intro allI impI, elim conjE)
    fix s1 :: session assume s1: "sess_now s1 \<ge> bk_settle_at b" "app_is_service_role s1" "\<not> call_reported i d"
    obtain r d' where x: "rpc_admin_resolve_partial_call a i 0 (bk_gross b) remark s d = Inr (r, d')" "success r" "money_ok d'"
      "account_sum ''booking_escrow'' (entries d') = account_sum ''booking_escrow'' (entries d) - bk_gross b"
      "account_sum ''partner_payable'' (entries d') = account_sum ''partner_payable'' (entries d)"
      "bk_of i d' = Some (bk_status_set BOOKING_COMPLETED b)" "bk_key ''settle:'' i \<notin> keys d'" "i \<notin> set (earnings d')" "calls d' = calls d" "reports d' = reports d"
      by (rule fan_only_split [OF ok b v role order_refl, of remark], simp)
    let ?b = "bk_status_set BOOKING_COMPLETED b"
    have rep: "\<not> call_reported i d'" using s1(3) x(9,10) by (simp add: call_reported_def under_report_def)
    have g': "bk_gross ?b = bk_gross b" using same_priceD(4) [of "bk_status_set BOOKING_COMPLETED" b] by simp
    have sys: "is_system s1 d'" using s1(2) by (simp add: is_system_def)
    have st: "bk_status ?b = BOOKING_COMPLETED" by (simp add: bk_status_set_def)
    have gp: "0 < bk_gross ?b" using g g' by simp
    obtain r1 d1 where y: "rpc_settle_booking i s1 d' = Inr (r1, d1)" "success r1" "account_sum ''booking_escrow'' (entries d1) = account_sum ''booking_escrow'' (entries d') - bk_gross ?b"
      "account_sum ''partner_payable'' (entries d1) = account_sum ''partner_payable'' (entries d') + bk_gross ?b"
      by (rule settle_runs [OF x(3,6) st gp x(8,7) rep sys]) (rule that)
    have "?b \<in> set (bookings d')" using bk_ofD [OF x(6)] by simp
    moreover have "bk_id ?b = i" "bk_settle_at ?b = bk_settle_at b" using id by (simp_all add: bk_status_set_def)
    ultimately have "i \<in> set (q_bookings s1 d')"
      using st s1(1) x(8) rep by (force simp: q_bookings_def call_reported_def image_iff intro!: bexI [of _ ?b])
    then show "\<exists>r d' r1 d1. rpc_admin_resolve_partial_call a i 0 (bk_gross b) remark s d = Inr (r, d') \<and> success r \<and> i \<in> set (q_bookings s1 d') \<and>
        rpc_settle_booking i s1 d' = Inr (r1, d1) \<and> success r1 \<and>
        account_sum ''booking_escrow'' (entries d1) = account_sum ''booking_escrow'' (entries d) - 2 * bk_gross b \<and>
        account_sum ''partner_payable'' (entries d1) = account_sum ''partner_payable'' (entries d) + bk_gross b"
      using x(1,2,4,5) y g' by (intro exI [of _ r] exI [of _ d'] exI [of _ r1] exI [of _ d1]) simp
  qed
  ultimately show ?thesis by (rule conjI)
qed

lemma status_set_in:
  assumes "y \<in> (\<lambda>b. if bk_id b = i then bk_status_set st b else b) ` B" and "bk_id y = i"
  shows "bk_status y = st"
proof -
  obtain b where "y = (if bk_id b = i then bk_status_set st b else b)" using assms(1) by blast
  then show ?thesis using assms(2) by (cases "bk_id b = i") (simp_all add: bk_status_set_def)
qed

text \<open>A booking expired for a technical issue is at rest: no sweep lists it, and it is neither cancelled nor settled.\<close>

lemma expired_rests:
  assumes st: "\<And>y. y \<in> set (bookings e) \<Longrightarrow> bk_id y = i \<Longrightarrow> bk_status y = EXPIRED_TECHNICAL_ISSUE"
  shows "i \<notin> (bk_id \<circ> fst) ` set (eod_work s1 e)" "i \<notin> set (q_bookings s1 e)"
    "rpc_refund_booking i s1 e = Inr (r1, e1) \<or> rpc_admin_force_settle_booking i s1 e = Inr (r1, e1) \<Longrightarrow> \<not> success r1 \<and> e1 = e"
proof -
  show "i \<notin> (bk_id \<circ> fst) ` set (eod_work s1 e)"
    using st by (auto simp: eod_work_def expiry_due_def dest!: in_set_takeD)
  show "i \<notin> set (q_bookings s1 e)" using st by (auto simp: q_bookings_def)
next
  assume run: "rpc_refund_booking i s1 e = Inr (r1, e1) \<or> rpc_admin_force_settle_booking i s1 e = Inr (r1, e1)"
  show "\<not> success r1 \<and> e1 = e"
  proof (cases "bk_of i e")
    case None
    then show ?thesis using run by (auto simp: rpc_refund_booking_def rpc_admin_force_settle_booking_def success_def err_json_def split: if_split_asm)
  next
    case (Some y)
    then have "bk_status y = EXPIRED_TECHNICAL_ISSUE" using st bk_ofD by blast
    then show ?thesis using run Some
      by (auto simp: rpc_refund_booking_def rpc_admin_force_settle_booking_def status_error_def success_def err_json_def split: if_split_asm)
  qed
qed

text \<open>
  C31. Recovering a stuck call keeps the fan's money.  \<open>rpc_admin_recover_call\<close> tells the fan that the call was refunded.  On a booking
  that is still booked it succeeds and posts nothing: the booking's list price stays in the escrow.  The booking is then expired without
  a refund, which no sweep ever looks at, which the fan cannot cancel and which an administrator cannot settle.
\<close>

theorem recovery_strands_the_escrow:
  fixes d :: "'a bookingDb_scheme"
  assumes ok: "bk_ok c p d" and b: "bk_of i d = Some b" "bk_status b = BOOKED" and role: "has_role (bd_support d) s d"
  shows "\<exists>r d'. rpc_admin_recover_call i reason s d = Inr (r, d') \<and> success r \<and> (bk_fan b, ''PLATFORM_ANNOUNCEMENT'', ''booking'', i) \<in> set (notifs d') \<and>
    wallets d' = wallets d \<and> entries d' = entries d \<and> 0 < bk_gross b \<and> \<not> returned (keys d') i \<and> i \<notin> set (earnings d') \<and>
    (\<forall>s1. i \<notin> (bk_id \<circ> fst) ` set (eod_work s1 d') \<and> i \<notin> set (q_bookings s1 d') \<and>
      (\<forall>r1 d1. rpc_refund_booking i s1 d' = Inr (r1, d1) \<or> rpc_admin_force_settle_booking i s1 d' = Inr (r1, d1) \<longrightarrow> \<not> success r1 \<and> d1 = d'))"
proof -
  have id: "bk_id b = i" and mem: "b \<in> set (bookings d)" using bk_ofD [OF b(1)] by simp_all
  have "bk_status b \<in> {BOOKED, REQUIRES_ADMIN_REVIEW}" using b(2) by simp
  note row = bk_okD(3) [OF ok mem] and o = row_open [OF bk_okD(3) [OF ok mem] this, unfolded id]
  let ?v = "JObj [(''booking_status'', JStr ''EXPIRED_TECHNICAL_ISSUE''), (''call_status'', JStr (if live_call i d = None then ''NO_CALL'' else ''DROPPED_TECHNICAL_ISSUE'')), (''reason'', JStr reason)]"
  let ?r = "ok_json [(''booking_id'', jid i), (''call_id'', case live_call i d of None \<Rightarrow> JNull | Some c \<Rightarrow> jid (ca_id c)), (''call_dropped'', JBool (live_call i d \<noteq> None)),
    (''booking_status'', JStr ''EXPIRED_TECHNICAL_ISSUE'')]"
  let ?d' = "notify (bk_partner b, ''PLATFORM_ANNOUNCEMENT'', ''booking'', i) (notify (bk_fan b, ''PLATFORM_ANNOUNCEMENT'', ''booking'', i)
    (so_audit ''ADMIN_CALL_RECOVERY'' ''BOOKING'' i ?v (set_booking i (bk_status_set EXPIRED_TECHNICAL_ISSUE) (drop_live i (sess_now s) d))))"
  have run: "rpc_admin_recover_call i reason s d = Inr (?r, ?d')" using role b by (simp add: rpc_admin_recover_call_def RECOVERABLE_def Let_def)
  have mv: "money_view ?d' = money_view d" by (simp add: drop_live_def split: option.split)
  note x = view_money [OF mv]
  have st: "bk_status y = EXPIRED_TECHNICAL_ISSUE" if "y \<in> set (bookings ?d')" "bk_id y = i" for y
    using status_set_in that by simp
  note rests = expired_rests [of ?d' i, OF st]
  have r1: "success ?r" by (simp add: success_def ok_json_def)
  have r2: "(bk_fan b, ''PLATFORM_ANNOUNCEMENT'', ''booking'', i) \<in> set (notifs ?d')" by (simp add: notify_def)
  have r3: "wallets ?d' = wallets d" "entries ?d' = entries d" using x by blast+
  have r4: "0 < bk_gross b" using row by (simp add: bk_row_ok_def)
  have r5: "\<not> returned (keys ?d') i" "i \<notin> set (earnings ?d')" using x o(1,2,4) by argo+
  show ?thesis
    by (intro exI [of _ ?r] exI [of _ ?d'] conjI allI impI run r1 r2 r3 r4 r5 rests(1,2)) (use rests(3) in blast)+
qed

section \<open>Witnesses\<close>


theorem partial_split_overpays_witness:
  "\<exists>r d'. rpc_admin_resolve_partial_call ''adm'' 1 (- 700) 1000 None (demo_session\<lparr>app_user_id := Some ''adm''\<rparr>) (demo_held REQUIRES_ADMIN_REVIEW) = Inr (r, d') \<and>
    success r \<and> map_option wl_balance (wallet_of ''fan'' d') = Some 1650"
proof -
  let ?s = "demo_session\<lparr>app_user_id := Some ''adm''\<rparr>" and ?v = "\<lparr>wl_id = 1, wl_profile = ''fan'', wl_balance = 650, wl_bonus = 0\<rparr> :: wallet"
    and ?d = "demo_held REQUIRES_ADMIN_REVIEW" and ?b = "demo_booked REQUIRES_ADMIN_REVIEW"
  have ok: "bk_ok 0 0 ?d" using demo_held_ok by simp
  have "bk_of 1 ?d = Some ?b" by simp
  moreover have "bk_status ?b = REQUIRES_ADMIN_REVIEW" "bk_gross ?b = 300" "bk_fan ?b = ''fan''" by (simp_all add: demo_booked_def bk_gross_def)
  ultimately have b: "bk_of 1 ?d = Some ?b" "bk_status ?b = REQUIRES_ADMIN_REVIEW" "bk_gross ?b = 300" "bk_fan ?b = ''fan''" by blast+
  have v: "wallet_of (bk_fan ?b) ?d = Some ?v" by (simp add: wallet_of_def demo_booked_def)
  have role: "admin_actor ''adm'' ?s ?d" "has_role (finance_admins ?d) ?s ?d" by (simp_all add: admin_actor_def has_role_def current_user_id_def)
  obtain r d' v' where "rpc_admin_resolve_partial_call ''adm'' 1 (- 700) (bk_gross ?b + 700) None ?s ?d = Inr (r, d')" "success r"
    "wallet_of (bk_fan ?b) d' = Some v'" "wl_balance v' = wl_balance ?v + bk_gross ?b + 700"
    using partial_split_overpays [OF ok b(1,2) v role, of None, THEN conjunct1, rule_format, of 700] by auto
  then show ?thesis using b(3,4) by auto
qed

theorem recovery_strands_the_escrow_witness:
  "\<exists>r d'. rpc_admin_recover_call 1 ''stuck'' (demo_session\<lparr>app_user_id := Some ''adm''\<rparr>) (demo_held BOOKED) = Inr (r, d') \<and> success r \<and>
    map wl_balance (wallets d') = [650] \<and> 1 \<notin> (bk_id \<circ> fst) ` set (eod_work demo_session d')"
proof -
  let ?s = "demo_session\<lparr>app_user_id := Some ''adm''\<rparr>" and ?d = "demo_held BOOKED"
  have b: "bk_of 1 ?d = Some (demo_booked BOOKED)" by simp
  have st: "bk_status (demo_booked BOOKED) = BOOKED" by (simp add: demo_booked_def)
  have ok: "bk_ok 0 0 ?d" using demo_held_ok by simp
  have role: "has_role (bd_support ?d) ?s ?d" by (simp add: has_role_def current_user_id_def)
  obtain r d' where x: "rpc_admin_recover_call 1 ''stuck'' ?s ?d = Inr (r, d')" "success r" "wallets d' = wallets ?d" "1 \<notin> (bk_id \<circ> fst) ` set (eod_work demo_session d')"
    using recovery_strands_the_escrow [OF ok b st role, of "''stuck''"] by (elim exE conjE) blast
  then show ?thesis by (auto simp: demo_bank_def)
qed

end
