(* ===== verification/Booking_Undo.thy ===== *)
theory Booking_Undo
  imports Booking_Hatches
begin

text \<open>Booking and cancelling: what a cancellation gives back, and what it does not.\<close>

lemma err_not_success [simp]: "\<not> success (err_json e)"
  by (simp add: success_def err_json_def)

lemma booked_changes:
  assumes run: "rpc_book_video_call pg fan q day dur code s d = Inr (r, d')" and ok: "success r"
  shows "d' \<noteq> d"
proof
  assume eq: "d' = d"
  have no: "err_json e \<noteq> r" for e using ok by auto
  obtain base disc k where res: "resolve_price pg q dur code (Some fan) s d = Inr (base, disc, k)"
    using run no by (cases "resolve_price pg q dur code (Some fan) s d") (auto simp: rpc_book_video_call_def Let_def split: if_split_asm)
  obtain a where a: "Option.bind day (\<lambda>x. av_of q x d) = Some a"
    using run no by (cases "Option.bind day (\<lambda>x. av_of q x d)") (simp_all add: rpc_book_video_call_def Let_def res split: if_split_asm)
  let ?po = "post_transaction ''BOOKING_DEBIT'' base (bk_key ''book:'' (new_booking_id d)) (book_legs (map_option wl_id (wallet_of fan d)) base disc) (Some (nat_text (new_booking_id d))) d"
  obtain tid rep d1 where po: "?po = Inr ((tid, rep), d1)"
    using run no by (cases ?po) (auto simp: rpc_book_video_call_def Let_def res a split: if_split_asm)
  obtain b where "d = booked_db code k tid b d1"
    using run no by (simp add: eq rpc_book_video_call_def Let_def res a po split: if_split_asm option.split_asm) metis
  then have "bookings d = bookings d1 @ [b]" by (metis booked_db_view(2))
  then show False using bk_post_fields(1) [OF po] by simp
qed

lemma av_ofD: "av_of q day d = Some a \<Longrightarrow> a \<in> set (avail d) \<and> av_partner a = q \<and> av_date a = day"
  by (auto simp: av_of_def find_Some_iff)

lemma release_booked:
  assumes "\<forall>a \<in> set as. 0 \<le> av_booked a" and "0 \<le> m"
  shows "map (\<lambda>a. if av_partner a = q \<and> av_date a = day then a\<lparr>av_booked := max 0 (av_booked a - m)\<rparr> else a)
    (map (\<lambda>a. if av_partner a = q \<and> av_date a = day then a\<lparr>av_booked := av_booked a + m\<rparr> else a) as) = as"
  using assms by (induction as) auto

lemma debit_and_credit:
  assumes "wl_id v' = wl_id v"
  shows "map wl_balance (map (debited v' (- x)) (map (debited v x) ws)) = map wl_balance ws"
  using assms by (induction ws) (auto simp: debited_def)

lemma post_more_fields:
  fixes d d1 :: "'a bookingDb_scheme"
  assumes "post_transaction ty a key legs ref d = Inr (t, d1)"
  shows "bd_offers d1 = bd_offers d" "admins d1 = admins d"
  using post_more [OF assms] by (cases d; cases d1; simp)+

lemma resolve_promo: "resolve_price pg q dur (Some t) fan s d = Inr (base, disc, promo_id) \<Longrightarrow> \<exists>k. promo_id = Some k"
  by (auto simp: resolve_price_def split: option.splits if_split_asm)

lemma booked_tables:
  fixes d :: "'a bookingDb_scheme"
  shows "avail (booked_db code k tid b d) = map (\<lambda>a. if av_partner a = bk_partner b \<and> av_date a = bk_date b then a\<lparr>av_booked := av_booked a + minutes_of (bk_duration b)\<rparr> else a) (avail d)"
    "promo_uses (booked_db (Some t) (Some i) tid b d) = promo_uses d @ [\<lparr>pu_promo = i, pu_fan = bk_fan b, pu_txn = tid, pu_discount = bk_discount b\<rparr>]"
    "promos (booked_db (Some t) (Some i) tid b d) = map (\<lambda>c. if pc_id c = i then c\<lparr>pc_uses := pc_uses c + 1\<rparr> else c) (promos d)"
    "bd_offers (booked_db code k tid b d) = bd_offers d"
  by (simp_all add: booked_db_def book_minutes_def set_avail_def use_promo_def notify_if_def notify_def split: option.split)

lemma cancelled_tables:
  fixes d :: "'a bookingDb_scheme"
  shows "avail (notify_if x n (release_minutes b (set_booking i f d))) =
      map (\<lambda>a. if av_partner a = bk_partner b \<and> av_date a = bk_date b then a\<lparr>av_booked := max 0 (av_booked a - minutes_of (bk_duration b))\<rparr> else a) (avail d)"
    "promo_uses (notify_if x n (release_minutes b (set_booking i f d))) = promo_uses d" "promos (notify_if x n (release_minutes b (set_booking i f d))) = promos d"
    "bd_offers (notify_if x n (release_minutes b (set_booking i f d))) = bd_offers d"
  by (simp_all add: release_minutes_def set_avail_def set_booking_def notify_if_def notify_def)

lemma find_new: "\<forall>y \<in> set bs. bk_id y \<noteq> i \<Longrightarrow> bk_id b = i \<Longrightarrow> find (\<lambda>y. bk_id y = i) (bs @ [b]) = Some b"
  by (induction bs) auto

lemma made_fields:
  assumes "b = new_booking i fan q day dur base disc te now" and "0 < base - disc" and "0 \<le> disc"
  shows "bk_gross b = base" "bk_price b = base - disc" "bk_discount b = disc" "bk_id b = i" "bk_status b = BOOKED" "bk_fan b = fan" "bk_partner b = q" "bk_date b = day"
    "bk_duration b = dur" "bk_settle_at b = te"
  using assms by (simp_all add: new_booking_def bk_gross_def)

text \<open>A booking that was made: the debit, the new row and what the ledger holds afterwards.\<close>

lemma booked_effect:
  fixes d d1 :: "'a bookingDb_scheme"
  assumes ok: "bk_ok c p d" and v: "wallet_of fan d = Some v"
    and book: "rpc_book_video_call pg fan q (Some day) dur code s d = Inr (r1, d1)" "success r1"
  obtains base disc promo_id tid rep n e b where "resolve_price pg q dur code (Some fan) s d = Inr (base, disc, promo_id)" and "bd_settle_days d = Some n"
    and "0 < base - disc" "0 \<le> disc" and "b = new_booking (new_booking_id d) fan q day dur base disc (sess_now s + days_ms n) (sess_now s)"
    and "post_transaction ''BOOKING_DEBIT'' base (bk_key ''book:'' (new_booking_id d)) (book_legs (Some (wl_id v)) base disc) (Some (nat_text (new_booking_id d))) d = Inr ((tid, rep), e)"
    and "d1 = booked_db code promo_id tid b e" and "wallets e = map (debited v (base - disc)) (wallets d)"
proof -
  let ?i = "new_booking_id d"
  obtain base disc promo_id and a :: availRow and tid rep n e where res: "resolve_price pg q dur code (Some fan) s d = Inr (base, disc, promo_id)"
    and a: "Option.bind (Some day) (\<lambda>x. av_of q x d) = Some a"
    and po: "post_transaction ''BOOKING_DEBIT'' base (bk_key ''book:'' ?i) (book_legs (map_option wl_id (wallet_of fan d)) base disc) (Some (nat_text ?i)) d = Inr ((tid, rep), e)"
    and n: "bd_settle_days e = Some n" and pr: "0 < base - disc" "0 \<le> disc"
    and d1: "d1 = booked_db code promo_id tid (new_booking ?i fan q (av_date a) dur base disc (sess_now s + days_ms n) (sess_now s)) e"
    by (rule bookedE [OF book(1) booked_changes [OF book]]) (rule that)
  have day: "av_date a = day" using av_ofD [of q day d a] a by simp
  have mem: "v \<in> set (wallets d)" using wallet_in [OF v] by simp
  have "0 < base" using pr by simp
  note post_book [OF bk_okD(1) [OF ok] mem new_bk_fresh(3) [of "''book:''" d] this pr(2), where ty = "''BOOKING_DEBIT''" and ref = "Some (nat_text ?i)"]
  then have w: "wallets e = map (debited v (base - disc)) (wallets d)" using po unfolding v option.map by (auto split: if_split_asm)
  show ?thesis
    by (rule that [OF res n [unfolded bk_post_fields(6) [OF po]] pr refl po [unfolded v option.map] d1 [unfolded day] w])
qed

text \<open>A held booking that its fan cancels in time.\<close>

lemma cancel_effect:
  assumes ok: "money_ok d1" and b: "bk_of i d1 = Some b" "bk_status b = BOOKED" and who: "current_user_id s = Some (bk_fan b)" and time: "sess_now s \<le> bk_settle_at b"
    and v: "wallet_of (bk_fan b) d1 = Some v" and pr: "0 < bk_price b" "0 \<le> bk_discount b" "bk_gross b = bk_price b + bk_discount b" and key: "bk_key ''refund:'' i \<notin> keys d1"
  obtains e where
    "post_transaction ''REFUND'' (bk_gross b) (bk_key ''refund:'' i) (return_legs (Some (wl_id v)) b) (Some (nat_text i)) d1 = Inr ((next_id d1, False), e)"
    and "wallets e = map (debited v (- bk_price b)) (wallets d1)"
    and "rpc_refund_booking i s d1 = Inr (ok_json [(''transaction_id'', jid (next_id d1))],
      notify_if (bk_fan b \<in> fst ` set (profiles e)) (bk_partner b, ''VIDEO_CALL_CANCELLED_PARTNER'', ''booking'', i) (release_minutes b (set_booking i (bk_status_set CANCELLED_BY_FAN) e)))"
proof -
  have mem: "v \<in> set (wallets d1)" using wallet_in [OF v] by simp
  obtain e where po: "post_transaction ''REFUND'' (bk_gross b) (bk_key ''refund:'' i) (return_legs (Some (wl_id v)) b) (Some (nat_text i)) d1 = Inr ((next_id d1, False), e)"
    and w: "wallets e = map (debited v (- bk_price b)) (wallets d1)"
    using post_return [OF ok mem key, of b, where ty = "''REFUND''" and ref = "Some (nat_text i)"] pr by auto
  show ?thesis
    by (rule that [OF po w]) (use b who time po v in \<open>simp add: rpc_refund_booking_def caller_allowed_def\<close>)
qed

text \<open>The promotion after both: the code counts one use more, and a fan who had one left is refused.\<close>

lemma code_used_up:
  assumes res: "resolve_price pg q dur (Some t) (Some fan) s d = Inr (base, disc, Some k)"
    and uses: "promo_uses d2 = promo_uses d @ [\<lparr>pu_promo = k, pu_fan = fan, pu_txn = tid, pu_discount = x\<rparr>]" and offers: "bd_offers d2 = bd_offers d"
  shows "uses_by k fan d2 = uses_by k fan d + 1 \<and>
    (\<forall>s3 y m. find (promo_usable (to_upper pg t) (sess_now s3)) (promos d2) = Some y \<and> pc_id y = k \<and> pc_max_user y = Some m \<and> m \<le> uses_by k fan d + 1 \<longrightarrow>
      resolve_price pg q dur (Some t) (Some fan) s3 d2 = Inl ''PROMO_LIMIT_REACHED'')"
proof -
  have u: "uses_by k fan d2 = uses_by k fan d + 1" by (simp add: uses_by_def uses)
  have "call_price q dur d2 = Some base" using res by (auto simp: resolve_price_def call_price_def offers split: option.splits if_split_asm)
  with u show ?thesis by (simp add: resolve_price_def)
qed

lemma marked_rows: "\<forall>y \<in> set bs. bk_id y \<noteq> i \<Longrightarrow> map (\<lambda>y. if bk_id y = i then f y else y) bs = bs"
  by (induction bs) auto

text \<open>
  C28. Cancelling undoes a booking, but for its promo code.  A fan who books and cancels in time gets back exactly the debit, the escrow
  and the promotion budget are what they were, and so are the partner's dates; the booking stays as cancelled.  But
  the use of the promo code is not given back: it counts against the limit of the fan and of the code although nobody got a
  discount, so that a fan with one use left cannot book with the code again, and whoever books and cancels uses up a limited code.
\<close>

theorem cancelling_undoes_booking:
  fixes d d1 :: "'a bookingDb_scheme"
  assumes ok: "bk_ok c p d" and dates: "\<forall>a \<in> set (avail d). 0 \<le> av_booked a" and v: "wallet_of fan d = Some v"
    and book: "rpc_book_video_call pg fan q (Some day) dur code s d = Inr (r1, d1)" "success r1"
    and who: "current_user_id s2 = Some fan" and time: "bd_settle_days d = Some n" "sess_now s2 \<le> sess_now s + days_ms n"
  shows "\<exists>r2 d2. rpc_refund_booking (new_booking_id d) s2 d1 = Inr (r2, d2) \<and> success r2 \<and> map wl_balance (wallets d2) = map wl_balance (wallets d) \<and>
    (\<forall>acc \<in> {''booking_escrow'', ''promo_incentive''}. account_sum acc (entries d2) = account_sum acc (entries d)) \<and> avail d2 = avail d \<and>
    (\<exists>b. bookings d2 = bookings d @ [b] \<and> bk_id b = new_booking_id d \<and> bk_status b = CANCELLED_BY_FAN) \<and>
    (\<forall>t. code = Some t \<longrightarrow> (\<exists>base disc k. resolve_price pg q dur code (Some fan) s d = Inr (base, disc, Some k) \<and> uses_by k fan d2 = uses_by k fan d + 1 \<and> promos d2 = map (\<lambda>x. if pc_id x = k then x\<lparr>pc_uses := pc_uses x + 1\<rparr> else x) (promos d) \<and>
      (\<forall>s3 x m. find (promo_usable (to_upper pg t) (sess_now s3)) (promos d2) = Some x \<and> pc_id x = k \<and> pc_max_user x = Some m \<and> m \<le> uses_by k fan d + 1 \<longrightarrow>
        resolve_price pg q dur code (Some fan) s3 d2 = Inl ''PROMO_LIMIT_REACHED'')))"
proof -
  let ?i = "new_booking_id d"
  obtain base disc promo_id tid rep n' e b where res: "resolve_price pg q dur code (Some fan) s d = Inr (base, disc, promo_id)" and n': "bd_settle_days d = Some n'"
    and pr: "0 < base - disc" "0 \<le> disc" and b: "b = new_booking ?i fan q day dur base disc (sess_now s + days_ms n') (sess_now s)"
    and po: "post_transaction ''BOOKING_DEBIT'' base (bk_key ''book:'' ?i) (book_legs (Some (wl_id v)) base disc) (Some (nat_text ?i)) d = Inr ((tid, rep), e)"
    and d1: "d1 = booked_db code promo_id tid b e" and w: "wallets e = map (debited v (base - disc)) (wallets d)"
    by (rule booked_effect [OF ok v book])
  note bf = made_fields [OF b pr] and f = bk_post_fields [OF po] and new = new_bk_fresh [where d = d]
  note o = post_once [OF bk_okD(1) [OF ok] po new(3)]
  have view: "money_view d1 = money_view e" "bookings d1 = bookings d @ [b]" by (simp_all add: d1 f)
  note x = view_money [OF view(1)] and m1 = money_viewD [OF view(1)]
  have v1: "wallet_of fan d1 = Some (debited v (base - disc) v)" using wallet_of_moved [of d1 v "base - disc" d fan] v w x by simp
  have one: "bk_of ?i d1 = Some b" using find_new [of "bookings d" ?i b] new(1) bf(4) by (simp add: bk_of_def view(2))
  have key: "bk_key ''refund:'' ?i \<notin> keys d1" using m1(2) o(2) new(3) by simp
  have ok1: "money_ok d1" using m1(1) o(1) by simp
  have "current_user_id s2 = Some (bk_fan b)" "sess_now s2 \<le> bk_settle_at b" "wallet_of (bk_fan b) d1 = Some (debited v (base - disc) v)" "0 < bk_price b" "0 \<le> bk_discount b"
    "bk_gross b = bk_price b + bk_discount b" using who time n' v1 pr by (simp_all add: bf)
  from cancel_effect [OF ok1 one bf(5) this key]
  obtain e2 where po2: "post_transaction ''REFUND'' (bk_gross b) (bk_key ''refund:'' ?i) (return_legs (Some (wl_id (debited v (base - disc) v))) b) (Some (nat_text ?i)) d1 = Inr ((next_id d1, False), e2)"
    and w2: "wallets e2 = map (debited (debited v (base - disc) v) (- bk_price b)) (wallets d1)"
    and cancel: "rpc_refund_booking ?i s2 d1 = Inr (ok_json [(''transaction_id'', jid (next_id d1))],
      notify_if (bk_fan b \<in> fst ` set (profiles e2)) (bk_partner b, ''VIDEO_CALL_CANCELLED_PARTNER'', ''booking'', ?i) (release_minutes b (set_booking ?i (bk_status_set CANCELLED_BY_FAN) e2)))"
    by metis
  let ?d2 = "notify_if (bk_fan b \<in> fst ` set (profiles e2)) (bk_partner b, ''VIDEO_CALL_CANCELLED_PARTNER'', ''booking'', ?i) (release_minutes b (set_booking ?i (bk_status_set CANCELLED_BY_FAN) e2))"
  note o2 = post_once [OF ok1 po2 key] and f2 = bk_post_fields [OF po2]
  have x2: "wallets ?d2 = wallets e2" "entries ?d2 = entries e2" using view_money [of ?d2 e2] by simp_all
  have money: "map wl_balance (wallets ?d2) = map wl_balance (wallets d)"
    unfolding x2 w2 x [THEN conjunct1] w bf(2) by (rule debit_and_credit) (simp add: debited_def)
  have sums: "account_sum acc (entries ?d2) = account_sum acc (entries d)" if "acc \<in> {''booking_escrow'', ''promo_incentive''}" for acc
    using that o(4) [of acc] o2(4) [of acc] pr(2) bf(1,3) by (auto simp: x2 x legs_of_book)
  have dates2: "avail ?d2 = avail d"
    unfolding cancelled_tables f2(4) d1 booked_tables(1) bf f(4) by (rule release_booked [OF dates]) (simp add: minutes_of_def)
  have rows: "bookings ?d2 = bookings d @ [bk_status_set CANCELLED_BY_FAN b]"
    using new(1) by (simp add: f2 view(2) bf marked_rows)
  have offers: "bd_offers ?d2 = bd_offers d" by (simp add: cancelled_tables post_more_fields [OF po2] d1 booked_tables post_more_fields [OF po])
  have burnt: "\<exists>base disc k. resolve_price pg q dur code (Some fan) s d = Inr (base, disc, Some k) \<and> uses_by k fan ?d2 = uses_by k fan d + 1 \<and> promos ?d2 = map (\<lambda>x. if pc_id x = k then x\<lparr>pc_uses := pc_uses x + 1\<rparr> else x) (promos d) \<and>
      (\<forall>s3 x m. find (promo_usable (to_upper pg t) (sess_now s3)) (promos ?d2) = Some x \<and> pc_id x = k \<and> pc_max_user x = Some m \<and> m \<le> uses_by k fan d + 1 \<longrightarrow>
        resolve_price pg q dur code (Some fan) s3 ?d2 = Inl ''PROMO_LIMIT_REACHED'')" if t: "code = Some t" for t
  proof -
    obtain k where k: "promo_id = Some k" using resolve_promo [OF res [unfolded t]] by blast
    have "promo_uses ?d2 = promo_uses d @ [\<lparr>pu_promo = k, pu_fan = fan, pu_txn = tid, pu_discount = bk_discount b\<rparr>]"
      and "promos ?d2 = map (\<lambda>x. if pc_id x = k then x\<lparr>pc_uses := pc_uses x + 1\<rparr> else x) (promos d)"
      by (simp_all add: cancelled_tables f2 d1 t k booked_tables f bf)
    then show ?thesis using res code_used_up [OF res [unfolded t k] _ offers] unfolding t k by blast
  qed
  have "\<exists>b. bookings ?d2 = bookings d @ [b] \<and> bk_id b = ?i \<and> bk_status b = CANCELLED_BY_FAN"
    using rows bf(4) by (intro exI [of _ "bk_status_set CANCELLED_BY_FAN b"]) (simp add: bk_status_set_def)
  moreover have "success (ok_json [(''transaction_id'', jid (next_id d1))])" by (simp add: success_def ok_json_def)
  ultimately show ?thesis
    using cancel money sums dates2 burnt by (intro exI [of _ "ok_json [(''transaction_id'', jid (next_id d1))]"] exI [of _ ?d2]) blast
qed

section \<open>A code with one use left\<close>

definition demo_code :: promo where
  "demo_code = \<lparr>pc_id = 4, pc_code = ''HALF'', pc_type = FIXED_AMOUNT, pc_value = 50, pc_applies = ''ALL'', pc_max_total = None, pc_max_user = Some 1, pc_uses = 0,
     pc_start = None, pc_expiry = None, pc_active = True\<rparr>"

definition demo_offer :: bookingDb where
  "demo_offer = (demo_held BOOKED)\<lparr>avail := [\<lparr>av_partner = ''star'', av_date = 7, av_open = True, av_minutes = 60, av_booked = 5\<rparr>],
     bd_accounts := [\<lparr>ac_id = ''fan'', ac_name = None, ac_fan_role = True, ac_active = True, ac_verified = False\<rparr>],
     bd_offers := [\<lparr>sv_partner = ''star'', sv_type = ''VIDEO_CALL'', sv_duration = Some ''5'', sv_price = 300, sv_active = True\<rparr>], promos := [demo_code]\<rparr>"

lemma demo_offer_ok: "bk_ok 0 0 demo_offer"
  by (rule frame_bk [OF demo_held_ok [of BOOKED]]) (simp_all add: demo_offer_def money_view_def)

theorem cancelling_undoes_booking_witness:
  "\<exists>r1 d1 r2 d2. rpc_book_video_call \<lparr>in_date = \<lambda>_. None, in_int = \<lambda>_. None, to_upper = \<lambda>t. t, json_length = \<lambda>_. 0\<rparr> ''fan'' ''star'' (Some 7) ''5'' (Some ''HALF'')
      (demo_session\<lparr>app_user_id := Some ''fan''\<rparr>) demo_offer = Inr (r1, d1) \<and> success r1 \<and>
    rpc_refund_booking 2 (demo_session\<lparr>app_user_id := Some ''fan''\<rparr>) d1 = Inr (r2, d2) \<and> success r2 \<and> map wl_balance (wallets d2) = [650] \<and>
    resolve_price \<lparr>in_date = \<lambda>_. None, in_int = \<lambda>_. None, to_upper = \<lambda>t. t, json_length = \<lambda>_. 0\<rparr> ''star'' ''5'' (Some ''HALF'') (Some ''fan'') demo_session d2
      = Inl ''PROMO_LIMIT_REACHED''"
proof -
  let ?pg = "\<lparr>in_date = \<lambda>_. None, in_int = \<lambda>_. None, to_upper = \<lambda>t. t, json_length = \<lambda>_. 0\<rparr>" and ?s = "demo_session\<lparr>app_user_id := Some ''fan''\<rparr>"
  let ?v = "\<lparr>wl_id = 1, wl_profile = ''fan'', wl_balance = 650, wl_bonus = 0\<rparr> :: wallet"
  have v: "wallet_of ''fan'' demo_offer = Some ?v" by (simp add: demo_offer_def wallet_of_def)
  let ?a = "\<lparr>av_partner = ''star'', av_date = 7, av_open = True, av_minutes = 60, av_booked = 5\<rparr> :: availRow"
  have tables: "bd_live demo_offer = [''star'']" "bd_premium demo_offer = []" "map_option ac_active (bd_account ''fan'' demo_offer) = Some True" "promo_uses demo_offer = []"
    "bd_settle_days demo_offer = Some 3" "av_of ''star'' 7 demo_offer = Some ?a" "call_price ''star'' ''5'' demo_offer = Some 300" "promos demo_offer = [demo_code]"
    "bookings demo_offer = [demo_booked BOOKED]" "earnings demo_offer = []" "calls demo_offer = []" "map (snd \<circ> tn_key) (txns demo_offer) = [1, 1]"
    by (simp_all add: demo_offer_def demo_bank_def bd_account_def av_of_def call_price_def bk_key_def)
  have id: "new_booking_id demo_offer = 2" using tables by (simp add: new_booking_id_def fresh_def demo_booked_def)
  have "sql_round 50 = 50" by code_simp
  then have disc: "discount_of demo_code 300 = 50" by (simp add: discount_of_def demo_code_def)
  have "promo_usable ''HALF'' 0 demo_code" by (simp add: promo_usable_def demo_code_def)
  moreover have "pc_max_user demo_code = Some 1" "pc_id demo_code = 4" by (simp_all add: demo_code_def)
  ultimately have res: "resolve_price ?pg ''star'' ''5'' (Some ''HALF'') (Some ''fan'') ?s demo_offer = Inr (300, 50, Some 4)"
    using tables disc by (simp add: resolve_price_def uses_by_def demo_session_def)
  have "?v \<in> set (wallets demo_offer)" using wallet_in [OF v] by simp
  from post_book [OF bk_okD(1) [OF demo_offer_ok] this new_bk_fresh(3) [where d = demo_offer and kind = "''book:''"], of 300 50]
  obtain e where po: "post_transaction ''BOOKING_DEBIT'' 300 (bk_key ''book:'' 2) (book_legs (Some 1) 300 50) (Some (nat_text 2)) demo_offer = Inr ((next_id demo_offer, False), e)"
    unfolding id by auto
  have "minutes_of ''5'' = 5" by code_simp
  moreover have "bd_settle_days e = Some 3" using bk_post_fields(6) [OF po] tables(5) by simp
  ultimately obtain r1 d1 where book: "rpc_book_video_call ?pg ''fan'' ''star'' (Some 7) ''5'' (Some ''HALF'') ?s demo_offer = Inr (r1, d1)" and r1: "success r1"
    using tables res po v id by (simp add: rpc_book_video_call_def caller_allowed_def current_user_id_def Let_def success_def ok_json_def)
  have dates: "\<forall>a \<in> set (avail demo_offer). 0 \<le> av_booked a" by (simp add: demo_offer_def)
  have who: "current_user_id ?s = Some ''fan''" by (simp add: current_user_id_def)
  have time: "sess_now ?s \<le> sess_now ?s + days_ms 3" by (simp add: days_ms_def HOUR_MS_def)
  obtain r2 d2 base disc k where x: "rpc_refund_booking 2 ?s d1 = Inr (r2, d2)" "success r2" "map wl_balance (wallets d2) = map wl_balance (wallets demo_offer)"
    and k: "resolve_price ?pg ''star'' ''5'' (Some ''HALF'') (Some ''fan'') ?s demo_offer = Inr (base, disc, Some k)" and p: "promos d2 = map (\<lambda>x. if pc_id x = k then x\<lparr>pc_uses := pc_uses x + 1\<rparr> else x) (promos demo_offer)" "uses_by k ''fan'' d2 = uses_by k ''fan'' demo_offer + 1"
      "\<forall>s3 x m. find (promo_usable ''HALF'' (sess_now s3)) (promos d2) = Some x \<and> pc_id x = k \<and> pc_max_user x = Some m \<and> m \<le> uses_by k ''fan'' demo_offer + 1 \<longrightarrow>
        resolve_price ?pg ''star'' ''5'' (Some ''HALF'') (Some ''fan'') s3 d2 = Inl ''PROMO_LIMIT_REACHED''"
    using cancelling_undoes_booking [OF demo_offer_ok dates v book r1 who tables(5) time] unfolding id by auto
  have k4: "k = 4" using k res by simp
  let ?c = "demo_code\<lparr>pc_uses := 1\<rparr>"
  have "promos d2 = [?c]" using p(1) tables(8) by (simp add: k4 demo_code_def)
  moreover have "promo_usable ''HALF'' 0 ?c" "pc_id ?c = 4" "pc_max_user ?c = Some 1" by (simp_all add: promo_usable_def demo_code_def)
  ultimately have "resolve_price ?pg ''star'' ''5'' (Some ''HALF'') (Some ''fan'') demo_session d2 = Inl ''PROMO_LIMIT_REACHED''"
    using p(3) [rule_format, of demo_session ?c 1] tables(4) k4 by (simp add: demo_session_def uses_by_def)
  moreover have "map wl_balance (wallets demo_offer) = [650]" by (simp add: demo_offer_def)
  ultimately show ?thesis using book r1 x by (intro exI [of _ r1] exI [of _ d1] exI [of _ r2] exI [of _ d2]) simp
qed

end
