(* ===== verification/Panel.thy ===== *)
theory Panel
  imports Booking_Undo Identity Earnings
begin

text \<open>
  What administrators and fans look at: \<open>src/admin/admin-dashboard.module.ts\<close>, the money screens of \<open>admin-finance.module.ts\<close> with
  their views (migrations 0029, 0037, 0042, 0047), the queues of \<open>admin-people.module.ts\<close> and \<open>src/referrals/referrals.module.ts\<close>.
  Rows are kept in the order of their creation.
\<close>

section \<open>Tables\<close>

datatype kycStatus = KYC_NOT_SUBMITTED | PENDING_VERIFICATION | KYC_VERIFIED | KYC_REJECTED

record panelPerson = person +
  pa_kyc :: kycStatus
  pa_code :: "string option"
  pa_submitted :: "int option"
  pa_created :: int

datatype referralStatus = PENDING_REFEREE_SIGNUP | PENDING_REFEREE_FIRST_ACTION | COMPLETED_REWARDED | REFERRAL_EXPIRED

record referral =
  rf_id :: nat
  rf_referrer :: string
  rf_referee :: string
  rf_code :: string
  rf_status :: referralStatus
  rf_reward :: "int option"
  rf_referee_reward :: "int option"
  rf_credited :: "int option"
  rf_referee_credited :: "int option"
  rf_created :: int

text \<open>\<open>pl_program\<close>: the rewards of referrer and referee and whether the programme runs, of \<open>platform_settings\<close>.\<close>

record panelDb = bookingDb +
  pl_people :: "panelPerson list"
  pl_partners :: "partnerRow list"
  pl_applications :: "application list"
  pl_earnings :: "earning list"
  pl_methods :: "payoutMethod list"
  pl_payouts :: "payoutRow list"
  pl_referrals :: "referral list"
  pl_program :: "(int \<times> int \<times> bool) option"

text \<open>
  A read of an administrator.  Nobody else gets to these operations; what row level security would leave to a session that is no
  administrator's is the argument \<open>low\<close>.
\<close>

definition panel_read :: "(session \<Rightarrow> 'a bank_scheme \<Rightarrow> 'r) \<Rightarrow> (session \<Rightarrow> 'a bank_scheme \<Rightarrow> 'r) \<Rightarrow> session \<Rightarrow> string \<Rightarrow> ('a bank_scheme, 'r) act" where
  "panel_read low q base u = runAs base u (execute (reads (\<lambda>s d. if admin_session s d then q s d else low s d)))"

definition count_where :: "('x \<Rightarrow> bool) \<Rightarrow> 'x list \<Rightarrow> int" where
  "count_where P xs = int (length (filter P xs))"

section \<open>The dashboard\<close>

record dashboard =
  ds_fans :: int
  ds_partners :: int
  ds_suspended :: int
  ds_pending_kyc :: int
  ds_pending_applications :: int
  ds_pending_withdrawals :: int
  ds_withdrawal_paise :: int
  ds_open_reports :: int
  ds_open_disputes :: int
  ds_awaiting_video :: int
  ds_active_bookings :: int
  ds_gross_topups :: int
  ds_wallet_liability :: int
  ds_unpaid_earnings :: int

definition CLOSED_APPLICATIONS :: "applicationStatus set" where
  "CLOSED_APPLICATIONS = {A_ACTIVE, REJECTED_INITIAL, REJECTED_KYC, REJECTED_FINAL}"

definition OPEN_PAYOUTS :: "payoutStatus set" where
  "OPEN_PAYOUTS = {PO_REQUESTED, PO_APPROVED, PO_PROCESSING}"

text \<open>Every posted transaction is successful.\<close>

definition dashboard_row :: "session \<Rightarrow> 'a panelDb_scheme \<Rightarrow> dashboard" where
  "dashboard_row s d =
     \<lparr>ds_fans = count_where (\<lambda>p. pn_role p = userRole.FAN) (pl_people d),
      ds_partners = count_where (\<lambda>p. pr_status p = P_ACTIVE) (pl_partners d),
      ds_suspended = count_where (\<lambda>p. pn_status p \<noteq> U_ACTIVE) (pl_people d),
      ds_pending_kyc = count_where (\<lambda>p. pa_kyc p = PENDING_VERIFICATION) (pl_people d),
      ds_pending_applications = count_where (\<lambda>a. ap_status a \<notin> CLOSED_APPLICATIONS) (pl_applications d),
      ds_pending_withdrawals = count_where (\<lambda>p. po_status p \<in> OPEN_PAYOUTS) (pl_payouts d),
      ds_withdrawal_paise = sum_list (map po_amount (filter (\<lambda>p. po_status p \<in> OPEN_PAYOUTS) (pl_payouts d))),
      ds_open_reports = count_where (\<lambda>r. rp_status r \<in> {R_PENDING, R_REVIEWING}) (reports d),
      ds_open_disputes = count_where (\<lambda>x. di_status x \<in> {DS_OPEN, UNDER_REVIEW}) (disputes d),
      ds_awaiting_video = count_where (\<lambda>x. so_status x = AWAITING_PARTNER_VIDEO) (shoutouts d),
      ds_active_bookings = count_where (\<lambda>b. bk_status b = BOOKED) (bookings d),
      ds_gross_topups = sum_list (map tn_amount (filter (\<lambda>t. tn_type t = ''TOPUP'') (txns d))),
      ds_wallet_liability = sum_list (map wl_balance (wallets d)),
      ds_unpaid_earnings = amount_of (\<lambda>e. er_status e = PENDING_PAYOUT) (pl_earnings d)\<rparr>"

definition dashboard_stats :: "(session \<Rightarrow> 'a panelDb_scheme \<Rightarrow> dashboard) \<Rightarrow> session \<Rightarrow> string \<Rightarrow> ('a panelDb_scheme, dashboard) act" where
  "dashboard_stats low = panel_read low dashboard_row"

section \<open>Wallets, payments, transactions\<close>

record walletOverview =
  wo_wallets :: int
  wo_balance :: int
  wo_bonus :: int
  wo_positive :: int

text \<open>The view has no row for a session that is no administrator's; its aggregates are then zero.\<close>

definition vw_admin_wallet_overview :: "session \<Rightarrow> 'a bank_scheme \<Rightarrow> walletOverview" where
  "vw_admin_wallet_overview s d =
     (let ws = (if admin_session s d then wallets d else [])
      in \<lparr>wo_wallets = int (length ws), wo_balance = sum_list (map wl_balance ws), wo_bonus = sum_list (map wl_bonus ws),
          wo_positive = sum_list (map wl_balance (filter (\<lambda>x. wl_balance x > 0) ws))\<rparr>)"

definition wallet_overview :: "session \<Rightarrow> string \<Rightarrow> ('a bank_scheme, walletOverview) act" where
  "wallet_overview base u = runAs base u (execute (reads vw_admin_wallet_overview))"

definition person_of :: "string \<Rightarrow> 'a panelDb_scheme \<Rightarrow> panelPerson option" where
  "person_of u d = find (\<lambda>p. pn_id p = u) (pl_people d)"

text \<open>An order with the name and the address of its fan: the inner join drops orders without one.\<close>

definition payment_rows :: "session \<Rightarrow> 'a panelDb_scheme \<Rightarrow> (topupOrder \<times> string option \<times> string) list" where
  "payment_rows s d = take 500 (sort_key (\<lambda>x. - to_created (fst x))
     (List.map_filter (\<lambda>x. map_option (\<lambda>p. (x, pn_full_name p, pn_email p)) (person_of (to_profile x) d)) (topups d)))"

definition payments_list :: "(session \<Rightarrow> 'a panelDb_scheme \<Rightarrow> (topupOrder \<times> string option \<times> string) list) \<Rightarrow> session \<Rightarrow> string \<Rightarrow> ('a panelDb_scheme, (topupOrder \<times> string option \<times> string) list) act" where
  "payments_list low = panel_read low payment_rows"

text \<open>The owner of the first wallet that a transaction touches, and its legs by account.\<close>

definition txn_owner :: "nat \<Rightarrow> 'a money_scheme \<Rightarrow> string option" where
  "txn_owner i d = first (List.map_filter (\<lambda>e. if le_txn e = i
     then map_option wl_profile (Option.bind (le_wallet e) (\<lambda>w. find (\<lambda>x. wl_id x = w) (wallets d))) else None) (entries d))"

definition leg_text :: "ledgerEntry \<Rightarrow> string" where
  "leg_text e = le_account e @ '':'' @ int_text (le_delta e)"

definition txn_legs :: "nat \<Rightarrow> 'a money_scheme \<Rightarrow> string option" where
  "txn_legs i d = (case sort_key le_account (filter (\<lambda>e. le_txn e = i) (entries d)) of [] \<Rightarrow> None
     | e # es \<Rightarrow> Some (concat (leg_text e # map (\<lambda>x. '', '' @ leg_text x) es)))"

definition transaction_rows :: "session \<Rightarrow> 'a bank_scheme \<Rightarrow> (txn \<times> string option \<times> string option) list" where
  "transaction_rows s d = take 500 (map (\<lambda>t. (t, txn_owner (tn_id t) d, txn_legs (tn_id t) d)) (rev (txns d)))"

definition transactions_list :: "(session \<Rightarrow> 'a bank_scheme \<Rightarrow> (txn \<times> string option \<times> string option) list) \<Rightarrow> session \<Rightarrow> string \<Rightarrow> ('a bank_scheme, (txn \<times> string option \<times> string option) list) act" where
  "transactions_list low = panel_read low transaction_rows"

section \<open>Payouts and disputes\<close>

text \<open>A payout joined with its partner and its method.\<close>

definition payout_join :: "payoutStatus set \<Rightarrow> 'a panelDb_scheme \<Rightarrow> (payoutRow \<times> string \<times> payoutMethod) list" where
  "payout_join sts d = List.map_filter (\<lambda>p. if po_status p \<notin> sts then None
     else case (find (\<lambda>x. pr_id x = po_partner p) (pl_partners d), find (\<lambda>x. pm_id x = po_method p) (pl_methods d)) of
       (Some q, Some mt) \<Rightarrow> Some (p, pr_display_name q, mt) | _ \<Rightarrow> None) (pl_payouts d)"

definition withdrawal_rows :: "session \<Rightarrow> 'a panelDb_scheme \<Rightarrow> (payoutRow \<times> string \<times> payoutMethod) list" where
  "withdrawal_rows s d = (if admin_session s d then sort_key (po_requested \<circ> fst) (payout_join OPEN_PAYOUTS d) else [])"

definition pendingWithdrawals :: "session \<Rightarrow> string \<Rightarrow> ('a panelDb_scheme, (payoutRow \<times> string \<times> payoutMethod) list) act" where
  "pendingWithdrawals base u = runAs base u (execute (reads withdrawal_rows))"

text \<open>\<open>order by processed_at desc\<close>: nulls first.\<close>

definition processed_rows :: "session \<Rightarrow> 'a panelDb_scheme \<Rightarrow> (payoutRow \<times> string \<times> payoutMethod) list" where
  "processed_rows s d = (if admin_session s d
     then (let xs = payout_join {PO_PAID, PO_REJECTED} d
           in take 500 (filter (\<lambda>x. po_processed (fst x) = None) xs @
                sort_key (\<lambda>x. - the (po_processed (fst x))) (filter (\<lambda>x. po_processed (fst x) \<noteq> None) xs)))
     else [])"

definition processedPayouts :: "session \<Rightarrow> string \<Rightarrow> ('a panelDb_scheme, (payoutRow \<times> string \<times> payoutMethod) list) act" where
  "processedPayouts base u = runAs base u (execute (reads processed_rows))"

definition dispute_rows :: "session \<Rightarrow> 'a bank_scheme \<Rightarrow> (dispute \<times> string option) list" where
  "dispute_rows s d = take 500 (map (\<lambda>x. (x, Option.bind (di_txn x) (\<lambda>i. txn_owner i d))) (rev (disputes d)))"

definition disputes_list :: "(session \<Rightarrow> 'a bank_scheme \<Rightarrow> (dispute \<times> string option) list) \<Rightarrow> session \<Rightarrow> string \<Rightarrow> ('a bank_scheme, (dispute \<times> string option) list) act" where
  "disputes_list low = panel_read low dispute_rows"

section \<open>Promotions\<close>

datatype promoStatus = PROMO_INACTIVE | PROMO_EXPIRED | PROMO_EXHAUSTED | PROMO_ACTIVE

definition effective_status :: "int \<Rightarrow> promo \<Rightarrow> promoStatus" where
  "effective_status now c =
     (if \<not> pc_active c then PROMO_INACTIVE
      else if \<exists>t. pc_expiry c = Some t \<and> t < now then PROMO_EXPIRED
      else if \<exists>m. pc_max_total c = Some m \<and> pc_uses c \<ge> m then PROMO_EXHAUSTED
      else PROMO_ACTIVE)"

record promoRow =
  pw_code :: promo
  pw_users :: int
  pw_given :: int
  pw_status :: promoStatus

definition uses_of :: "nat \<Rightarrow> 'a bookingDb_scheme \<Rightarrow> promoUse list" where
  "uses_of i d = filter (\<lambda>x. pu_promo x = i) (promo_uses d)"

definition promo_rows :: "session \<Rightarrow> 'a bookingDb_scheme \<Rightarrow> promoRow list" where
  "promo_rows s d = map (\<lambda>c. \<lparr>pw_code = c, pw_users = int (card (pu_fan ` set (uses_of (pc_id c) d))), pw_given = sum_list (map pu_discount (uses_of (pc_id c) d)),
     pw_status = effective_status (sess_now s) c\<rparr>) (rev (promos d))"

definition promoCodes :: "(session \<Rightarrow> 'a bookingDb_scheme \<Rightarrow> promoRow list) \<Rightarrow> session \<Rightarrow> string \<Rightarrow> ('a bookingDb_scheme, promoRow list) act" where
  "promoCodes low = panel_read low promo_rows"

text \<open>A booking's \<open>escrow_txn_id\<close> is the transaction with the booking's key.\<close>

definition escrow_booking :: "nat \<Rightarrow> 'a services_scheme \<Rightarrow> booking option" where
  "escrow_booking tid d = find (\<lambda>b. \<exists>t \<in> set (txns d). tn_id t = tid \<and> tn_key t = bk_key ''book:'' (bk_id b)) (bookings d)"

record beneficiary =
  bf_use :: promoUse
  bf_code :: promo
  bf_fan :: panelPerson
  bf_booking :: "booking option"

definition vw_admin_promo_beneficiaries :: "session \<Rightarrow> 'a panelDb_scheme \<Rightarrow> beneficiary list" where
  "vw_admin_promo_beneficiaries s d =
     (if admin_session s d
      then List.map_filter (\<lambda>x. case (find (\<lambda>c. pc_id c = pu_promo x) (promos d), person_of (pu_fan x) d) of
        (Some c, Some p) \<Rightarrow> Some \<lparr>bf_use = x, bf_code = c, bf_fan = p, bf_booking = escrow_booking (pu_txn x) d\<rparr> | _ \<Rightarrow> None) (promo_uses d)
      else [])"

definition promoBeneficiaries :: "session \<Rightarrow> string \<Rightarrow> string option \<Rightarrow> ('a panelDb_scheme, beneficiary list) act" where
  "promoBeneficiaries base u code = runAs base u (execute (reads (\<lambda>s d.
     take 500 (rev (filter (\<lambda>x. truthy_str code \<longrightarrow> code = Some (pc_code (bf_code x))) (vw_admin_promo_beneficiaries s d))))))"

section \<open>Referrals\<close>

definition referral_rows :: "session \<Rightarrow> 'a panelDb_scheme \<Rightarrow> (referral \<times> panelPerson \<times> panelPerson option) list" where
  "referral_rows s d = take 500 (sort_key (\<lambda>x. - rf_created (fst x))
     (List.map_filter (\<lambda>r. map_option (\<lambda>p. (r, p, person_of (rf_referee r) d)) (person_of (rf_referrer r) d)) (pl_referrals d)))"

definition referrals_list :: "(session \<Rightarrow> 'a panelDb_scheme \<Rightarrow> (referral \<times> panelPerson \<times> panelPerson option) list) \<Rightarrow> session \<Rightarrow> string \<Rightarrow>
    ('a panelDb_scheme, (referral \<times> panelPerson \<times> panelPerson option) list) act" where
  "referrals_list low = panel_read low referral_rows"

record referralData =
  rd_code :: "string option"
  rd_count :: int
  rd_rewarded :: int
  rd_earned :: int
  rd_referrer_reward :: int
  rd_referee_reward :: int
  rd_active :: bool

text \<open>\<open>rewarded\<close> counts by status and \<open>earned\<close> sums by the time of the credit.  A session sees its own profile and its own referrals.\<close>

definition my_referral_data :: "session \<Rightarrow> string \<Rightarrow> 'a panelDb_scheme \<Rightarrow> referralData" where
  "my_referral_data s u d =
     (let seen = (current_user_id s = Some u \<or> admin_session s d);
          rs = filter (\<lambda>r. seen \<and> rf_referrer r = u) (pl_referrals d)
      in \<lparr>rd_code = (if seen then Option.bind (person_of u d) pa_code else None), rd_count = int (length rs),
          rd_rewarded = count_where (\<lambda>r. rf_status r = COMPLETED_REWARDED) rs,
          rd_earned = sum_list (map (\<lambda>r. case rf_reward r of None \<Rightarrow> 0 | Some x \<Rightarrow> x) (filter (\<lambda>r. rf_credited r \<noteq> None) rs)),
          rd_referrer_reward = (case pl_program d of None \<Rightarrow> 0 | Some (x, _, _) \<Rightarrow> x), rd_referee_reward = (case pl_program d of None \<Rightarrow> 0 | Some (_, y, _) \<Rightarrow> y),
          rd_active = (case pl_program d of None \<Rightarrow> False | Some (_, _, z) \<Rightarrow> z)\<rparr>)"

definition myReferralData :: "session \<Rightarrow> string \<Rightarrow> ('a panelDb_scheme, referralData) act" where
  "myReferralData base u = runAs base u (execute (reads (\<lambda>s. my_referral_data s u)))"

section \<open>Queues\<close>

definition application_rows :: "session \<Rightarrow> 'a panelDb_scheme \<Rightarrow> application list" where
  "application_rows s d = (if admin_session s d then sort_key ap_submitted (filter (\<lambda>a. ap_status a \<notin> CLOSED_APPLICATIONS) (pl_applications d)) else [])"

definition pendingApplications :: "session \<Rightarrow> string \<Rightarrow> ('a panelDb_scheme, application list) act" where
  "pendingApplications base u = runAs base u (execute (reads application_rows))"

definition report_queue :: "session \<Rightarrow> 'a panelDb_scheme \<Rightarrow> (report \<times> string option) list" where
  "report_queue s d = take 500 (rev (List.map_filter (\<lambda>r. map_option (\<lambda>p. (r, pn_full_name p)) (person_of (rp_reporter r) d)) (reports d)))"

definition reportsQueue :: "(session \<Rightarrow> 'a panelDb_scheme \<Rightarrow> (report \<times> string option) list) \<Rightarrow> session \<Rightarrow> string \<Rightarrow> ('a panelDb_scheme, (report \<times> string option) list) act" where
  "reportsQueue low = panel_read low report_queue"

text \<open>The last call of a booking: \<open>order by partner_initiated_at desc limit 1\<close>, nulls first.\<close>

definition last_call :: "nat \<Rightarrow> 'a services_scheme \<Rightarrow> call option" where
  "last_call i d = (let cs = filter (\<lambda>c. ca_booking c = i) (calls d)
     in first (filter (\<lambda>c. ca_initiated_at c = None) cs @ sort_key (\<lambda>c. - the (ca_initiated_at c)) (filter (\<lambda>c. ca_initiated_at c \<noteq> None) cs)))"

definition video_call_rows :: "session \<Rightarrow> 'a panelDb_scheme \<Rightarrow> (booking \<times> string option \<times> string \<times> call option) list" where
  "video_call_rows s d = (if admin_session s d
     then take 500 (sort_key (\<lambda>x. - bk_date (fst x)) (List.map_filter (\<lambda>b. case (person_of (bk_fan b) d, find (\<lambda>x. pr_id x = bk_partner b) (pl_partners d)) of
         (Some f, Some q) \<Rightarrow> Some (b, pn_full_name f, pr_display_name q, last_call (bk_id b) d) | _ \<Rightarrow> None) (bookings d)))
     else [])"

definition videoCalls :: "session \<Rightarrow> string \<Rightarrow> ('a panelDb_scheme, (booking \<times> string option \<times> string \<times> call option) list) act" where
  "videoCalls base u = runAs base u (execute (reads video_call_rows))"

text \<open>The state of the scheduler; the members of its health come last.\<close>

definition bullmqStatus :: "(string \<Rightarrow> string option) \<Rightarrow> ('d, json) stmt \<Rightarrow> session \<Rightarrow> jobsService \<Rightarrow> 'd world \<Rightarrow> json \<times> 'd world" where
  "bullmqStatus config cron base j w =
     (let (health, w1) = lifecycleHealth config cron base j w; up = isJobRunning config j
      in (JObj ([(''redis_url_set'', JBool (truthy_str (config ''REDIS_URL''))), (''redis_connected'', JBool up), (''queue_connected'', JBool up)] @
            (case health of JObj ms \<Rightarrow> ms | _ \<Rightarrow> [])), w1))"

end
