(* ===== verification/Panel_Lists.thy ===== *)
theory Panel_Lists
  imports Panel Media Admin Shoutouts
begin

text \<open>
  The lists of the administrators' panel: people, KYC, links and the audit log of \<open>src/admin/admin-people.module.ts\<close>, the oversight
  lists of \<open>admin-moderation.module.ts\<close> and the screens of \<open>admin-settings.module.ts\<close>, with their views.  A report's target is a
  number in this development, so the lists of fans and partners go without the count of the reports against them.
\<close>

section \<open>Tables\<close>

record kycDocument =
  kd_profile :: string
  kd_type :: string
  kd_path :: string
  kd_file :: "string option"
  kd_uploaded :: int

record adminProfile =
  af_profile :: string
  af_role :: string
  af_permissions :: json
  af_created :: int

record auditEntry =
  ae_id :: nat
  ae_created :: int
  ae_actor :: "string option"
  ae_action :: string
  ae_target_type :: "string option"
  ae_target :: "string option"
  ae_old :: "json option"
  ae_new :: "json option"

record partnerControls = creatorRow +
  co_commission :: rat
  co_approved :: "int option"

text \<open>The columns of \<open>platform_settings\<close> that the panel shows and the wallet does not read.\<close>

record platformKnobs =
  kn_commission :: rat
  kn_min_withdrawal :: int
  kn_window_days :: int
  kn_sla_hours :: int
  kn_referral_budget :: "int option"
  kn_min_prices :: json
  kn_updated :: int
  kn_updated_by :: "string option"

record screenDb = panelDb +
  sc_documents :: "kycDocument list"
  sc_admins :: "adminProfile list"
  sc_audit :: "auditEntry list"
  sc_links :: "socialLink list"
  sc_services :: "serviceRow list"
  sc_slugs :: "(string \<times> string) list"
  sc_controls :: "partnerControls list"
  sc_knobs :: "platformKnobs option"
  sc_corrections :: "correction list"
  sc_convs :: "conversation list"
  sc_msgs :: "message list"

text \<open>A list that its view gives to administrators only.\<close>

definition gated :: "(session \<Rightarrow> 'a bank_scheme \<Rightarrow> 'x list) \<Rightarrow> session \<Rightarrow> 'a bank_scheme \<Rightarrow> 'x list" where
  "gated q s d = (if admin_session s d then q s d else [])"

definition panel_list :: "(session \<Rightarrow> 'a bank_scheme \<Rightarrow> 'x list) \<Rightarrow> session \<Rightarrow> string \<Rightarrow> ('a bank_scheme, 'x list) act" where
  "panel_list q base u = runAs base u (execute (reads (gated q)))"

text \<open>\<open>order by ... desc nulls last\<close> and \<open>order by ... asc\<close>, nulls last.\<close>

definition nulls_last :: "('x \<Rightarrow> int option) \<Rightarrow> (int \<Rightarrow> int) \<Rightarrow> 'x list \<Rightarrow> 'x list" where
  "nulls_last k f xs = sort_key (\<lambda>x. f (the (k x))) (filter (\<lambda>x. k x \<noteq> None) xs) @ filter (\<lambda>x. k x = None) xs"

section \<open>People\<close>

record fanRow =
  fr_person :: panelPerson
  fr_wallet :: "wallet option"
  fr_bookings :: int

definition fan_rows :: "session \<Rightarrow> 'a panelDb_scheme \<Rightarrow> fanRow list" where
  "fan_rows s d = take 500 (sort_key (\<lambda>r. - pa_created (fr_person r))
     (map (\<lambda>p. \<lparr>fr_person = p, fr_wallet = find (\<lambda>w. wl_profile w = pn_id p) (wallets d),
        fr_bookings = count_where (\<lambda>b. bk_fan b = pn_id p) (bookings d)\<rparr>) (filter (\<lambda>p. pn_role p = userRole.FAN) (pl_people d))))"

definition fans_list :: "session \<Rightarrow> string \<Rightarrow> ('a panelDb_scheme, fanRow list) act" where
  "fans_list = panel_list fan_rows"

record managedPartner =
  mp_row :: partnerRow
  mp_person :: panelPerson
  mp_controls :: "partnerControls option"
  mp_slugs :: "string list"
  mp_services :: int
  mp_completed :: int
  mp_lifetime :: int
  mp_paid_out :: int
  mp_pending :: int
  mp_verified_method :: bool

definition managed_partner :: "'a screenDb_scheme \<Rightarrow> partnerRow \<Rightarrow> panelPerson \<Rightarrow> managedPartner" where
  "managed_partner d q p =
     (let i = pr_id q; es = filter (\<lambda>e. er_partner e = i) (pl_earnings d)
      in \<lparr>mp_row = q, mp_person = p, mp_controls = find (\<lambda>x. cr_id x = i) (sc_controls d),
          mp_slugs = map snd (filter (\<lambda>x. fst x = i) (sc_slugs d)),
          mp_services = count_where (\<lambda>x. sv_partner x = i \<and> sv_active x) (sc_services d),
          mp_completed = count_where (\<lambda>b. bk_partner b = i \<and> bk_status b = BOOKING_COMPLETED) (bookings d),
          mp_lifetime = amount_of (\<lambda>e. er_status e \<noteq> REVERSED) es,
          mp_paid_out = amount_of (\<lambda>e. er_status e = EARNING_PAID) es,
          mp_pending = amount_of (\<lambda>e. er_status e = PENDING_PAYOUT) es,
          mp_verified_method = (\<exists>x \<in> set (pl_methods d). pm_partner x = i \<and> pm_verified x)\<rparr>)"

definition partner_rows :: "session \<Rightarrow> 'a screenDb_scheme \<Rightarrow> managedPartner list" where
  "partner_rows s d = take 500 (sort_key (\<lambda>r. - pa_created (mp_person r))
     (List.map_filter (\<lambda>q. map_option (managed_partner d q) (person_of (pr_id q) d)) (pl_partners d)))"

definition partners_list :: "session \<Rightarrow> string \<Rightarrow> ('a screenDb_scheme, managedPartner list) act" where
  "partners_list = panel_list partner_rows"

section \<open>KYC\<close>

definition documents_of :: "string \<Rightarrow> 'a screenDb_scheme \<Rightarrow> kycDocument list" where
  "documents_of u d = filter (\<lambda>x. kd_profile x = u) (sc_documents d)"

definition pending_kyc_rows :: "session \<Rightarrow> 'a screenDb_scheme \<Rightarrow> (panelPerson \<times> kycDocument list) list" where
  "pending_kyc_rows s d = nulls_last (\<lambda>x. pa_submitted (fst x)) (\<lambda>t. t)
     (map (\<lambda>p. (p, documents_of (pn_id p) d)) (filter (\<lambda>p. pa_kyc p = PENDING_VERIFICATION) (pl_people d)))"

definition pendingKyc :: "session \<Rightarrow> string \<Rightarrow> ('a screenDb_scheme, (panelPerson \<times> kycDocument list) list) act" where
  "pendingKyc = panel_list pending_kyc_rows"

definition kyc_rows :: "session \<Rightarrow> 'a screenDb_scheme \<Rightarrow> (panelPerson \<times> int) list" where
  "kyc_rows s d = take 500 (nulls_last (\<lambda>x. pa_submitted (fst x)) uminus
     (map (\<lambda>p. (p, int (length (documents_of (pn_id p) d)))) (filter (\<lambda>p. pa_kyc p \<noteq> KYC_NOT_SUBMITTED) (pl_people d))))"

definition allKyc :: "(session \<Rightarrow> 'a screenDb_scheme \<Rightarrow> (panelPerson \<times> int) list) \<Rightarrow> session \<Rightarrow> string \<Rightarrow> ('a screenDb_scheme, (panelPerson \<times> int) list) act" where
  "allKyc low = panel_read low kyc_rows"

record kycLink =
  kl_type :: string
  kl_file :: "string option"
  kl_uploaded :: int
  kl_url :: string

text \<open>\<open>Promise.all\<close>: every URL is signed, or the first failure is thrown.  The policy \<open>kyc_owner\<close> shows documents to their owner and to administrators.\<close>

fun sign_all :: "signer \<Rightarrow> r2Provider \<Rightarrow> kycDocument list \<Rightarrow> exn + kycLink list" where
  "sign_all sign p [] = Inr []"
| "sign_all sign p (x # xs) =
     (case getDownloadUrl sign p (Bucket Kyc) (kd_path x) of
        Inl e \<Rightarrow> Inl e
      | Inr url \<Rightarrow> (case sign_all sign p xs of Inl e \<Rightarrow> Inl e
          | Inr ls \<Rightarrow> Inr (\<lparr>kl_type = kd_type x, kl_file = kd_file x, kl_uploaded = kd_uploaded x, kl_url = url\<rparr> # ls)))"

definition kycDocuments :: "signer \<Rightarrow> r2Provider \<Rightarrow> string \<Rightarrow> session \<Rightarrow> string \<Rightarrow> ('a screenDb_scheme, kycLink list) act" where
  "kycDocuments sign p target base u w =
     (case runAs base u (execute (reads (\<lambda>s d. if owner_sees s d target then sort_key kd_uploaded (documents_of target d) else []))) w of
        (Inl e, w1) \<Rightarrow> (Inl e, w1)
      | (Inr docs, w1) \<Rightarrow> (sign_all sign p docs, w1))"

section \<open>Links and the audit log\<close>

text \<open>False sorts before true.\<close>

definition link_rows :: "bool \<Rightarrow> session \<Rightarrow> 'a screenDb_scheme \<Rightarrow> (socialLink \<times> string) list" where
  "link_rows pendingOnly s d = take 500 (sort_key (\<lambda>x. sl_approved (fst x))
     (List.map_filter (\<lambda>l. if pendingOnly \<and> sl_approved l then None
        else map_option (\<lambda>q. (l, pr_display_name q)) (find (\<lambda>q. pr_id q = sl_partner l) (pl_partners d))) (sc_links d)))"

definition links_list :: "(session \<Rightarrow> 'a screenDb_scheme \<Rightarrow> (socialLink \<times> string) list) \<Rightarrow> string option \<Rightarrow> session \<Rightarrow> string \<Rightarrow> ('a screenDb_scheme, (socialLink \<times> string) list) act" where
  "links_list low all_param = panel_read low (link_rows (all_param \<noteq> Some ''true''))"

definition actor_name :: "auditEntry \<Rightarrow> 'a panelDb_scheme \<Rightarrow> string" where
  "actor_name a d = (case Option.bind (Option.bind (ae_actor a) (\<lambda>u. person_of u d)) pn_full_name of None \<Rightarrow> ''(deleted user)'' | Some n \<Rightarrow> n)"

definition audit_rows :: "string option \<Rightarrow> string option \<Rightarrow> string option \<Rightarrow> session \<Rightarrow> 'a screenDb_scheme \<Rightarrow> (auditEntry \<times> string) list" where
  "audit_rows action target_type limit s d = take (nat (audit_limit limit)) (map (\<lambda>a. (a, actor_name a d)) (rev (filter (\<lambda>a.
     (truthy_str action \<longrightarrow> action = Some (ae_action a)) \<and> (truthy_str target_type \<longrightarrow> target_type = ae_target_type a)) (sc_audit d))))"

definition auditLog :: "string option \<Rightarrow> string option \<Rightarrow> string option \<Rightarrow> session \<Rightarrow> string \<Rightarrow> ('a screenDb_scheme, (auditEntry \<times> string) list) act" where
  "auditLog action target_type limit = panel_list (audit_rows action target_type limit)"

section \<open>Oversight\<close>

text \<open>When a booking was last updated is the argument \<open>updated\<close>.\<close>

record partialCall =
  pq_booking :: booking
  pq_fan :: "string option"
  pq_partner :: "string option"
  pq_longest :: "int option"

text \<open>The longest attempt in whole seconds, rounded as the cast does, halves away from zero; a call without both times has no length.\<close>

definition attempt_seconds :: "call \<Rightarrow> int option" where
  "attempt_seconds c = (case (ca_started_at c, ca_ended_at c) of
     (Some a, Some b) \<Rightarrow> Some (if b \<ge> a then (b - a + 500) div 1000 else - ((a - b + 500) div 1000)) | _ \<Rightarrow> None)"

definition longest_seconds :: "nat \<Rightarrow> 'a services_scheme \<Rightarrow> int option" where
  "longest_seconds i d = (case List.map_filter attempt_seconds (filter (\<lambda>c. ca_booking c = i) (calls d)) of [] \<Rightarrow> None | x # xs \<Rightarrow> Some (fold max xs x))"

definition partial_rows :: "(booking \<Rightarrow> int) \<Rightarrow> session \<Rightarrow> 'a panelDb_scheme \<Rightarrow> partialCall list" where
  "partial_rows updated s d = take 200 (sort_key (\<lambda>x. updated (pq_booking x)) (List.map_filter (\<lambda>b.
     if bk_status b \<noteq> REQUIRES_ADMIN_REVIEW then None
     else map_option (\<lambda>f. \<lparr>pq_booking = b, pq_fan = pn_full_name f, pq_partner = map_option pr_display_name (find (\<lambda>q. pr_id q = bk_partner b) (pl_partners d)),
       pq_longest = longest_seconds (bk_id b) d\<rparr>) (person_of (bk_fan b) d)) (bookings d)))"

definition partialCallQueue :: "(session \<Rightarrow> 'a panelDb_scheme \<Rightarrow> partialCall list) \<Rightarrow> (booking \<Rightarrow> int) \<Rightarrow> session \<Rightarrow> string \<Rightarrow> ('a panelDb_scheme, partialCall list) act" where
  "partialCallQueue low updated = panel_read low (partial_rows updated)"

record shoutoutRow =
  sw_request :: shoutout
  sw_fan :: "string option"
  sw_partner :: string
  sw_reported :: bool
  sw_fees :: int

definition parties_of :: "string \<Rightarrow> string \<Rightarrow> 'a panelDb_scheme \<Rightarrow> (string option \<times> string) option" where
  "parties_of f p d = (case (person_of f d, find (\<lambda>q. pr_id q = p) (pl_partners d)) of (Some x, Some q) \<Rightarrow> Some (pn_full_name x, pr_display_name q) | _ \<Rightarrow> None)"

definition shoutout_rows :: "session \<Rightarrow> 'a screenDb_scheme \<Rightarrow> shoutoutRow list" where
  "shoutout_rows s d = take 500 (sort_key (\<lambda>r. - so_created (sw_request r)) (List.map_filter (\<lambda>x.
     map_option (\<lambda>(f, q). \<lparr>sw_request = x, sw_fan = f, sw_partner = q,
       sw_reported = (\<exists>r \<in> set (reports d). rp_target_type r = R_SHOUTOUT \<and> rp_target_id r = so_id x), sw_fees = sum_list (map sc_fee (filter (\<lambda>c. sc_shoutout c = so_id x \<and> sc_paid c) (sc_corrections d)))\<rparr>)
     (parties_of (so_fan x) (so_partner x) d)) (shoutouts d)))"

definition shoutouts_list :: "session \<Rightarrow> string \<Rightarrow> ('a screenDb_scheme, shoutoutRow list) act" where
  "shoutouts_list = panel_list shoutout_rows"

record questionRow =
  qw_window :: dmWindow
  qw_fan :: "string option"
  qw_partner :: string
  qw_messages :: int

definition question_rows :: "session \<Rightarrow> 'a screenDb_scheme \<Rightarrow> questionRow list" where
  "question_rows s d = take 500 (sort_key (\<lambda>r. - dw_opened (qw_window r)) (List.map_filter (\<lambda>w.
     case find (\<lambda>c. cv_id c = dw_conv w) (sc_convs d) of None \<Rightarrow> None
     | Some c \<Rightarrow> map_option (\<lambda>(f, q). \<lparr>qw_window = w, qw_fan = f, qw_partner = q, qw_messages = count_where (\<lambda>m. ms_window m = dw_id w) (sc_msgs d)\<rparr>)
         (parties_of (cv_fan c) (cv_partner c) d)) (dm_windows d)))"

definition questions_list :: "session \<Rightarrow> string \<Rightarrow> ('a screenDb_scheme, questionRow list) act" where
  "questions_list = panel_list question_rows"

section \<open>Settings\<close>

definition admin_rows :: "session \<Rightarrow> 'a screenDb_scheme \<Rightarrow> (adminProfile \<times> panelPerson) list" where
  "admin_rows s d = sort_key (\<lambda>x. - af_created (fst x))
     (List.map_filter (\<lambda>a. map_option (\<lambda>p. (a, p)) (person_of (af_profile a) d)) (sc_admins d))"

definition admins_list :: "(session \<Rightarrow> 'a screenDb_scheme \<Rightarrow> (adminProfile \<times> panelPerson) list) \<Rightarrow> session \<Rightarrow> string \<Rightarrow> ('a screenDb_scheme, (adminProfile \<times> panelPerson) list) act" where
  "admins_list low = panel_read low admin_rows"

text \<open>One row, kept as the wallet's part, the rest and the referral programme.\<close>

definition settings_row :: "'a screenDb_scheme \<Rightarrow> (Wallet.platformSettings \<times> platformKnobs \<times> (int \<times> int \<times> bool) option) option" where
  "settings_row d = (case (settings d, sc_knobs d) of (Some p, Some k) \<Rightarrow> Some (p, k, pl_program d) | _ \<Rightarrow> None)"

definition platform_screen :: "session \<Rightarrow> string \<Rightarrow> ('a screenDb_scheme, (Wallet.platformSettings \<times> platformKnobs \<times> (int \<times> int \<times> bool) option) option) act" where
  "platform_screen base u = runAs base u (execute (reads (\<lambda>s. settings_row)))"

end
