(* ===== verification/Panel_Props.thy ===== *)
theory Panel_Props
  imports Panel_Lists Identity_Props "HOL-Library.Multiset"
begin

text \<open>The tiles of the dashboard against the screens behind them and against the ledger.\<close>

section \<open>Reads\<close>

lemma admin_base: "u \<in> set (admins d) \<Longrightarrow> u \<noteq> [] \<Longrightarrow> admin_session (base\<lparr>app_user_id := Some u\<rparr>) d"
  by (simp add: admin_session_def current_user_id_def truthy_str_iff)

lemma run_read: "runAs base u (execute (reads q)) w = (Inr (q (base\<lparr>app_user_id := Some u\<rparr>) (w_db w)), w)"
  by (simp add: runAs_execute reads_def)

lemma run_panel:
  assumes "u \<in> set (admins (w_db w))" and "u \<noteq> []"
  shows "panel_read low q base u w = (Inr (q (base\<lparr>app_user_id := Some u\<rparr>) (w_db w)), w)"
    "panel_list rows base u w = (Inr (rows (base\<lparr>app_user_id := Some u\<rparr>) (w_db w)), w)"
  by (simp_all add: panel_read_def panel_list_def gated_def run_read admin_base [OF assms])

section \<open>Lists with every row\<close>

lemma map_filter_found:
  assumes "\<forall>x \<in> set xs. P x \<longrightarrow> f x \<noteq> None" and "\<forall>x \<in> set xs. \<not> P x \<longrightarrow> f x = None" and "\<forall>x y. f x = Some y \<longrightarrow> g y = x"
  shows "map g (List.map_filter f xs) = filter P xs"
  using assms by (induction xs) (auto simp: List.map_filter_def)

lemma sorted_sum: "sum_list (map f (sort_key k xs)) = sum_list (map (f :: 'x \<Rightarrow> int) xs)"
proof -
  have "mset (map f (sort_key k xs)) = mset (map f xs)" by simp
  then show ?thesis by (metis sum_mset_sum_list)
qed

lemma nulls_last_length [simp]: "length (nulls_last k f xs) = length xs"
  using sum_length_filter_compl [of "\<lambda>x. k x \<noteq> None" xs] by (simp add: nulls_last_def)

lemma find_known: "x \<in> f ` set xs \<Longrightarrow> find (\<lambda>y. f y = x) xs \<noteq> None"
  by (auto simp: find_None_iff)

lemma open_payouts:
  assumes "\<forall>p \<in> set (pl_payouts d). po_partner p \<in> pr_id ` set (pl_partners d) \<and> po_method p \<in> pm_id ` set (pl_methods d)"
  shows "map fst (payout_join sts d) = filter (\<lambda>p. po_status p \<in> sts) (pl_payouts d)"
  unfolding payout_join_def using assms
  by (intro map_filter_found) (auto dest!: find_known split: option.splits if_split_asm)

section \<open>The ledger\<close>

lemma total_by:
  fixes f :: "'e \<Rightarrow> int"
  assumes "distinct ks"
  shows "sum_list (map (\<lambda>k. sum_list (map f (filter (\<lambda>e. key e = k) es))) ks) = sum_list (map f (filter (\<lambda>e. key e \<in> set ks) es))"
proof (induction es)
  case (Cons e es)
  have "sum_list (map (\<lambda>k. sum_list (map f (filter (\<lambda>e. key e = k) (e # es)))) js) =
      (if key e \<in> set js then f e else 0) + sum_list (map (\<lambda>k. sum_list (map f (filter (\<lambda>e. key e = k) es))) js)" if "distinct js" for js
    using that by (induction js) auto
  with Cons assms show ?case by simp
qed simp

lemma sum_by_txn: "money_ok d \<Longrightarrow> sum_list (map le_delta (entries d)) = 0"
proof -
  assume ok: "money_ok d"
  then have "filter (\<lambda>e. le_txn e \<in> set (map tn_id (txns d))) (entries d) = entries d" by (auto simp: money_ok_def filter_id_conv)
  then have "sum_list (map le_delta (entries d)) = sum_list (map (\<lambda>i. txn_sum i (entries d)) (map tn_id (txns d)))"
    using total_by [of "map tn_id (txns d)" le_delta le_txn "entries d"] ok by (simp add: money_ok_def txn_sum_def)
  moreover have "map (\<lambda>i. txn_sum i (entries d)) (map tn_id (txns d)) = map (\<lambda>_. 0) (txns d)" using ok by (simp add: money_ok_def)
  moreover have "sum_list (map (\<lambda>_. 0) (txns d)) = (0 :: int)" by simp
  ultimately show ?thesis by presburger
qed

lemma split_sum: "sum_list (map f (filter P xs)) + sum_list (map f (filter (\<lambda>x. \<not> P x) xs)) = (sum_list (map f xs) :: int)"
  by (induction xs) auto

lemma balances_are_owed:
  assumes ok: "money_ok d" and known: "\<forall>e \<in> set (entries d). \<forall>i. le_wallet e = Some i \<longrightarrow> i \<in> wl_id ` set (wallets d)"
  shows "sum_list (map wl_balance (wallets d)) = - sum_list (map le_delta (filter (\<lambda>e. le_wallet e = None) (entries d)))"
proof -
  let ?ids = "map (\<lambda>x. Some (wl_id x)) (wallets d)"
  have "distinct (map wl_id (wallets d))" using ok by (simp only: money_ok_def)
  then have "distinct (map Some (map wl_id (wallets d)))" by (subst distinct_map) (simp only: inj_on_def option.inject, blast)
  then have ids: "distinct ?ids" by (simp add: comp_def)
  have "map wl_balance (wallets d) = map (\<lambda>x. wallet_sum (wl_id x) (entries d)) (wallets d)" using ok by (simp add: money_ok_def)
  also have "\<dots> = map (\<lambda>k. sum_list (map le_delta (filter (\<lambda>e. le_wallet e = k) (entries d)))) ?ids"
    by (simp add: wallet_sum_def)
  finally have "sum_list (map wl_balance (wallets d)) = sum_list (map le_delta (filter (\<lambda>e. le_wallet e \<in> set ?ids) (entries d)))"
    using total_by [OF ids, of le_delta le_wallet "entries d"] by argo
  moreover have "filter (\<lambda>e. le_wallet e \<in> set ?ids) (entries d) = filter (\<lambda>e. \<not> le_wallet e = None) (entries d)"
    using known by (intro filter_cong refl) fastforce
  ultimately have "sum_list (map wl_balance (wallets d)) = sum_list (map le_delta (filter (\<lambda>e. \<not> le_wallet e = None) (entries d)))" by (simp only:)
  then show ?thesis using split_sum [of le_delta "\<lambda>e. le_wallet e = None" "entries d"] sum_by_txn [OF ok] by linarith
qed

section \<open>Earnings by partner\<close>

lemma earnings_by_partner:
  assumes "distinct (map pr_id (pl_partners d))" and "\<forall>e \<in> set (pl_earnings d). er_partner e \<in> pr_id ` set (pl_partners d)"
    and "\<forall>q \<in> set (pl_partners d). pr_id q \<in> pn_id ` set (pl_people d)" and "length (pl_partners d) \<le> 500"
  shows "sum_list (map mp_pending (partner_rows s d)) = amount_of (\<lambda>e. er_status e = PENDING_PAYOUT) (pl_earnings d)"
proof -
  let ?rows = "List.map_filter (\<lambda>q. map_option (managed_partner d q) (person_of (pr_id q) d)) (pl_partners d)"
  let ?es = "filter (\<lambda>e. er_status e = PENDING_PAYOUT) (pl_earnings d)"
  have rows: "map f (List.map_filter (\<lambda>q. map_option (g q) (h q)) qs) = map k qs"
    if "\<forall>q \<in> set qs. h q \<noteq> None \<and> (\<forall>p. f (g q p) = k q)" for f :: "managedPartner \<Rightarrow> int" and g and h :: "partnerRow \<Rightarrow> panelPerson option" and k qs
    using that by (induction qs) (auto simp: List.map_filter_def)
  have found: "\<forall>q \<in> set (pl_partners d). person_of (pr_id q) d \<noteq> None" using assms(3) by (simp add: person_of_def find_known)
  have pend: "mp_pending (managed_partner d q p) = sum_list (map er_amount (filter (\<lambda>e. er_partner e = pr_id q) ?es))" for q p
    by (simp add: managed_partner_def Let_def amount_of_def conj_commute)
  have "map mp_pending ?rows = map (\<lambda>q. sum_list (map er_amount (filter (\<lambda>e. er_partner e = pr_id q) ?es))) (pl_partners d)"
    using found pend by (intro rows) blast
  then have "sum_list (map mp_pending ?rows) = sum_list (map er_amount (filter (\<lambda>e. er_partner e \<in> set (map pr_id (pl_partners d))) ?es))"
    using total_by [OF assms(1), of er_amount er_partner ?es] by (simp add: o_def)
  moreover have "filter (\<lambda>e. er_partner e \<in> set (map pr_id (pl_partners d))) ?es = ?es" using assms(2) by (intro filter_True) auto
  moreover have "length ?rows \<le> 500" using assms(4) by (auto simp: List.map_filter_def intro: le_trans [OF length_filter_le])
  ultimately show ?thesis by (simp add: partner_rows_def sorted_sum amount_of_def)
qed

section \<open>The dashboard\<close>


section \<open>A panel with one of everything\<close>

definition demo_screen :: screenDb where
  "demo_screen = \<lparr>wallets = [\<lparr>wl_id = 1, wl_profile = ''fan'', wl_balance = 600, wl_bonus = 0\<rparr>],
     txns = [\<lparr>tn_id = 1, tn_type = ''TOPUP'', tn_amount = 900, tn_key = (''topup:'', 1), tn_ref = None\<rparr>,
       \<lparr>tn_id = 2, tn_type = ''BOOKING_DEBIT'', tn_amount = 300, tn_key = (''book:'', 1), tn_ref = None\<rparr>],
     entries = [\<lparr>le_txn = 1, le_wallet = Some 1, le_account = ''wallet'', le_delta = 900\<rparr>,
       \<lparr>le_txn = 1, le_wallet = None, le_account = ''gateway_clearing'', le_delta = - 900\<rparr>,
       \<lparr>le_txn = 2, le_wallet = Some 1, le_account = ''wallet'', le_delta = - 300\<rparr>,
       \<lparr>le_txn = 2, le_wallet = None, le_account = ''booking_escrow'', le_delta = 300\<rparr>],
     next_id = 9, topups = [], webhooks = [], disputes = [], notifs = [], settings = None, admins = [''adm''], finance_admins = [''adm''],
     bookings = [], calls = [], dm_windows = [], shoutouts = [], earnings = [], reports = [], deletions = [], audits = [],
     profiles = [], partner_profiles = [], push_tokens = [], op_hours = None,
     bd_accounts = [], bd_live = [], bd_premium = [], bd_offers = [], bd_settle_days = None, avail = [], promos = [], promo_uses = [], bd_support = [],
     pl_people = [\<lparr>pn_id = ''star'', pn_role = userRole.PARTNER, pn_email = ''s@x'', pn_full_name = None, pn_mobile = None, pn_age = None, pn_gender = None,
       pn_prefs = JNull, pn_status = U_ACTIVE, pa_kyc = PENDING_VERIFICATION, pa_code = None, pa_submitted = Some 5, pa_created = 0\<rparr>],
     pl_partners = [\<lparr>pr_id = ''star'', pr_display_name = ''Star'', pr_bio = None, pr_image = None, pr_status = P_ACTIVE, pr_vacation = False, pr_complete = True, pr_languages = None\<rparr>],
     pl_applications = [],
     pl_earnings = [\<lparr>er_id = 1, er_partner = ''star'', er_service_type = ''VIDEO_CALL'', er_service = 7, er_amount = 250, er_status = PENDING_PAYOUT, er_payout = None, er_settled = 0\<rparr>],
     pl_methods = [\<lparr>pm_id = 1, pm_partner = ''star'', pm_type = ''UPI'', pm_holder = None, pm_account = None, pm_ifsc = None, pm_bank = None, pm_upi = Some ''s@upi'', pm_primary = True, pm_verified = True\<rparr>],
     pl_payouts = [\<lparr>po_id = 1, po_partner = ''star'', po_amount = 400, po_status = PO_REQUESTED, po_method = 1, po_utr = None, po_requested = 3, po_processed = None\<rparr>],
     pl_referrals = [], pl_program = None,
     sc_documents = [], sc_admins = [], sc_audit = [], sc_links = [], sc_services = [], sc_slugs = [], sc_controls = [], sc_knobs = None, sc_corrections = [], sc_convs = [], sc_msgs = []\<rparr>"

lemma demo_screen_simps:
  "wallets demo_screen = [\<lparr>wl_id = 1, wl_profile = ''fan'', wl_balance = 600, wl_bonus = 0\<rparr>]" "map le_wallet (entries demo_screen) = [Some 1, None, Some 1, None]"
  "map er_partner (pl_earnings demo_screen) = [''star'']" "map pr_id (pl_partners demo_screen) = [''star'']" "map pn_id (pl_people demo_screen) = [''star'']"
  "map po_partner (pl_payouts demo_screen) = [''star'']" "map po_method (pl_payouts demo_screen) = [1]" "map pm_id (pl_methods demo_screen) = [1]" "admins demo_screen = [''adm'']"
  "sum_list (map le_delta (filter (\<lambda>e. le_wallet e = None) (entries demo_screen))) = - 600" "length (pl_partners demo_screen) = 1"
  by (simp_all add: demo_screen_def)

lemma demo_screen_ok: "money_ok demo_screen"
  by (simp add: money_ok_def demo_screen_def wallet_ok_def txn_sum_def wallet_sum_def)

lemma all_mapped: "map f xs = ys \<Longrightarrow> \<forall>y \<in> set ys. P y \<Longrightarrow> \<forall>x \<in> set xs. P (f x)"
  by auto


end
