(* ===== verification/Schema.thy ===== *)
theory Schema
  imports Prelude
begin

text \<open>
  The table declarations of \<open>src/db/schema.ts\<close> against the tables that the migrations leave behind.  The migrations appear as the
  \<open>CREATE TABLE\<close> and \<open>ALTER TABLE\<close> statements that touch columns of the declared tables, in their order; a column is its
  name, its type and whether it refuses nulls.  Constraints and defaults are left out.
\<close>

section \<open>Declarations\<close>

datatype colKind = Uuid | Text_col | Boolean_col | Integer_col | Paise | Timestamp_tz | Date_col | Jsonb_col | Numeric_col

record columnDecl =
  cd_key :: string
  cd_name :: string
  cd_kind :: colKind
  cd_primary :: bool
  cd_not_null :: bool

record tableDecl =
  td_const :: string
  td_name :: string
  td_columns :: "columnDecl list"

definition schema_profiles :: tableDecl where
  "schema_profiles = \<lparr>td_const = ''profiles'', td_name = ''profiles'', td_columns = [
     \<lparr>cd_key = ''id'', cd_name = ''id'', cd_kind = Uuid, cd_primary = True, cd_not_null = False\<rparr>,
     \<lparr>cd_key = ''role'', cd_name = ''role'', cd_kind = Text_col, cd_primary = False, cd_not_null = True\<rparr>,
     \<lparr>cd_key = ''email'', cd_name = ''email'', cd_kind = Text_col, cd_primary = False, cd_not_null = False\<rparr>,
     \<lparr>cd_key = ''fullName'', cd_name = ''full_name'', cd_kind = Text_col, cd_primary = False, cd_not_null = False\<rparr>,
     \<lparr>cd_key = ''mobileNumber'', cd_name = ''mobile_number'', cd_kind = Text_col, cd_primary = False, cd_not_null = False\<rparr>,
     \<lparr>cd_key = ''age'', cd_name = ''age'', cd_kind = Integer_col, cd_primary = False, cd_not_null = False\<rparr>,
     \<lparr>cd_key = ''gender'', cd_name = ''gender'', cd_kind = Text_col, cd_primary = False, cd_not_null = False\<rparr>,
     \<lparr>cd_key = ''verificationStatus'', cd_name = ''verification_status'', cd_kind = Text_col, cd_primary = False, cd_not_null = True\<rparr>,
     \<lparr>cd_key = ''kycSubmittedAt'', cd_name = ''kyc_submitted_at'', cd_kind = Timestamp_tz, cd_primary = False, cd_not_null = False\<rparr>,
     \<lparr>cd_key = ''referralCode'', cd_name = ''referral_code'', cd_kind = Text_col, cd_primary = False, cd_not_null = False\<rparr>,
     \<lparr>cd_key = ''notificationPrefs'', cd_name = ''notification_prefs'', cd_kind = Jsonb_col, cd_primary = False, cd_not_null = False\<rparr>,
     \<lparr>cd_key = ''accountStatus'', cd_name = ''account_status'', cd_kind = Text_col, cd_primary = False, cd_not_null = True\<rparr>,
     \<lparr>cd_key = ''createdAt'', cd_name = ''created_at'', cd_kind = Timestamp_tz, cd_primary = False, cd_not_null = True\<rparr>]\<rparr>"

definition schema_partner_profiles :: tableDecl where
  "schema_partner_profiles = \<lparr>td_const = ''partnerProfiles'', td_name = ''partner_profiles'', td_columns = [
     \<lparr>cd_key = ''profileId'', cd_name = ''profile_id'', cd_kind = Uuid, cd_primary = True, cd_not_null = False\<rparr>,
     \<lparr>cd_key = ''displayName'', cd_name = ''display_name'', cd_kind = Text_col, cd_primary = False, cd_not_null = False\<rparr>,
     \<lparr>cd_key = ''bio'', cd_name = ''bio'', cd_kind = Text_col, cd_primary = False, cd_not_null = False\<rparr>,
     \<lparr>cd_key = ''profileImagePath'', cd_name = ''profile_image_path'', cd_kind = Text_col, cd_primary = False, cd_not_null = False\<rparr>,
     \<lparr>cd_key = ''status'', cd_name = ''status'', cd_kind = Text_col, cd_primary = False, cd_not_null = True\<rparr>,
     \<lparr>cd_key = ''isActive'', cd_name = ''is_active'', cd_kind = Boolean_col, cd_primary = False, cd_not_null = True\<rparr>,
     \<lparr>cd_key = ''vacationMode'', cd_name = ''vacation_mode'', cd_kind = Boolean_col, cd_primary = False, cd_not_null = True\<rparr>,
     \<lparr>cd_key = ''isPremium'', cd_name = ''is_premium'', cd_kind = Boolean_col, cd_primary = False, cd_not_null = True\<rparr>,
     \<lparr>cd_key = ''isFeatured'', cd_name = ''is_featured'', cd_kind = Boolean_col, cd_primary = False, cd_not_null = True\<rparr>,
     \<lparr>cd_key = ''profileComplete'', cd_name = ''profile_complete'', cd_kind = Boolean_col, cd_primary = False, cd_not_null = True\<rparr>,
     \<lparr>cd_key = ''commissionRate'', cd_name = ''commission_rate'', cd_kind = Numeric_col, cd_primary = False, cd_not_null = False\<rparr>]\<rparr>"

definition schema_wallets :: tableDecl where
  "schema_wallets = \<lparr>td_const = ''wallets'', td_name = ''wallets'', td_columns = [
     \<lparr>cd_key = ''id'', cd_name = ''id'', cd_kind = Uuid, cd_primary = True, cd_not_null = False\<rparr>,
     \<lparr>cd_key = ''profileId'', cd_name = ''profile_id'', cd_kind = Uuid, cd_primary = False, cd_not_null = True\<rparr>,
     \<lparr>cd_key = ''balancePaise'', cd_name = ''balance_paise'', cd_kind = Paise, cd_primary = False, cd_not_null = True\<rparr>,
     \<lparr>cd_key = ''bonusBalancePaise'', cd_name = ''bonus_balance_paise'', cd_kind = Paise, cd_primary = False, cd_not_null = True\<rparr>]\<rparr>"

definition schema_transactions :: tableDecl where
  "schema_transactions = \<lparr>td_const = ''transactions'', td_name = ''transactions'', td_columns = [
     \<lparr>cd_key = ''id'', cd_name = ''id'', cd_kind = Uuid, cd_primary = True, cd_not_null = False\<rparr>,
     \<lparr>cd_key = ''type'', cd_name = ''type'', cd_kind = Text_col, cd_primary = False, cd_not_null = True\<rparr>,
     \<lparr>cd_key = ''status'', cd_name = ''status'', cd_kind = Text_col, cd_primary = False, cd_not_null = True\<rparr>,
     \<lparr>cd_key = ''amountPaise'', cd_name = ''amount_paise'', cd_kind = Paise, cd_primary = False, cd_not_null = True\<rparr>,
     \<lparr>cd_key = ''idempotencyKey'', cd_name = ''idempotency_key'', cd_kind = Text_col, cd_primary = False, cd_not_null = False\<rparr>,
     \<lparr>cd_key = ''externalRef'', cd_name = ''external_ref'', cd_kind = Text_col, cd_primary = False, cd_not_null = False\<rparr>,
     \<lparr>cd_key = ''refundReason'', cd_name = ''refund_reason'', cd_kind = Text_col, cd_primary = False, cd_not_null = False\<rparr>,
     \<lparr>cd_key = ''createdAt'', cd_name = ''created_at'', cd_kind = Timestamp_tz, cd_primary = False, cd_not_null = True\<rparr>]\<rparr>"

definition schema_ledger_entries :: tableDecl where
  "schema_ledger_entries = \<lparr>td_const = ''ledgerEntries'', td_name = ''ledger_entries'', td_columns = [
     \<lparr>cd_key = ''id'', cd_name = ''id'', cd_kind = Uuid, cd_primary = True, cd_not_null = False\<rparr>,
     \<lparr>cd_key = ''transactionId'', cd_name = ''transaction_id'', cd_kind = Uuid, cd_primary = False, cd_not_null = True\<rparr>,
     \<lparr>cd_key = ''walletId'', cd_name = ''wallet_id'', cd_kind = Uuid, cd_primary = False, cd_not_null = False\<rparr>,
     \<lparr>cd_key = ''account'', cd_name = ''account'', cd_kind = Text_col, cd_primary = False, cd_not_null = True\<rparr>,
     \<lparr>cd_key = ''deltaPaise'', cd_name = ''delta_paise'', cd_kind = Paise, cd_primary = False, cd_not_null = True\<rparr>,
     \<lparr>cd_key = ''createdAt'', cd_name = ''created_at'', cd_kind = Timestamp_tz, cd_primary = False, cd_not_null = True\<rparr>]\<rparr>"

definition schema_topup_orders :: tableDecl where
  "schema_topup_orders = \<lparr>td_const = ''topupOrders'', td_name = ''topup_orders'', td_columns = [
     \<lparr>cd_key = ''id'', cd_name = ''id'', cd_kind = Uuid, cd_primary = True, cd_not_null = False\<rparr>,
     \<lparr>cd_key = ''profileId'', cd_name = ''profile_id'', cd_kind = Uuid, cd_primary = False, cd_not_null = True\<rparr>,
     \<lparr>cd_key = ''creditPaise'', cd_name = ''credit_paise'', cd_kind = Paise, cd_primary = False, cd_not_null = True\<rparr>,
     \<lparr>cd_key = ''gstPaise'', cd_name = ''gst_paise'', cd_kind = Paise, cd_primary = False, cd_not_null = True\<rparr>,
     \<lparr>cd_key = ''amountPaise'', cd_name = ''amount_paise'', cd_kind = Paise, cd_primary = False, cd_not_null = True\<rparr>,
     \<lparr>cd_key = ''razorpayOrderId'', cd_name = ''razorpay_order_id'', cd_kind = Text_col, cd_primary = False, cd_not_null = False\<rparr>,
     \<lparr>cd_key = ''razorpayPaymentId'', cd_name = ''razorpay_payment_id'', cd_kind = Text_col, cd_primary = False, cd_not_null = False\<rparr>,
     \<lparr>cd_key = ''status'', cd_name = ''status'', cd_kind = Text_col, cd_primary = False, cd_not_null = True\<rparr>,
     \<lparr>cd_key = ''createdAt'', cd_name = ''created_at'', cd_kind = Timestamp_tz, cd_primary = False, cd_not_null = True\<rparr>]\<rparr>"

definition schema_partner_services :: tableDecl where
  "schema_partner_services = \<lparr>td_const = ''partnerServices'', td_name = ''partner_services'', td_columns = [
     \<lparr>cd_key = ''id'', cd_name = ''id'', cd_kind = Uuid, cd_primary = True, cd_not_null = False\<rparr>,
     \<lparr>cd_key = ''partnerId'', cd_name = ''partner_id'', cd_kind = Uuid, cd_primary = False, cd_not_null = True\<rparr>,
     \<lparr>cd_key = ''serviceType'', cd_name = ''service_type'', cd_kind = Text_col, cd_primary = False, cd_not_null = True\<rparr>,
     \<lparr>cd_key = ''duration'', cd_name = ''duration'', cd_kind = Text_col, cd_primary = False, cd_not_null = False\<rparr>,
     \<lparr>cd_key = ''pricePaise'', cd_name = ''price_paise'', cd_kind = Paise, cd_primary = False, cd_not_null = True\<rparr>,
     \<lparr>cd_key = ''isActive'', cd_name = ''is_active'', cd_kind = Boolean_col, cd_primary = False, cd_not_null = True\<rparr>]\<rparr>"

definition schema_availability :: tableDecl where
  "schema_availability = \<lparr>td_const = ''availability'', td_name = ''availability'', td_columns = [
     \<lparr>cd_key = ''id'', cd_name = ''id'', cd_kind = Uuid, cd_primary = True, cd_not_null = False\<rparr>,
     \<lparr>cd_key = ''partnerId'', cd_name = ''partner_id'', cd_kind = Uuid, cd_primary = False, cd_not_null = True\<rparr>,
     \<lparr>cd_key = ''date'', cd_name = ''date'', cd_kind = Date_col, cd_primary = False, cd_not_null = True\<rparr>,
     \<lparr>cd_key = ''isAvailable'', cd_name = ''is_available'', cd_kind = Boolean_col, cd_primary = False, cd_not_null = True\<rparr>,
     \<lparr>cd_key = ''thresholdMinutes'', cd_name = ''threshold_minutes'', cd_kind = Integer_col, cd_primary = False, cd_not_null = True\<rparr>,
     \<lparr>cd_key = ''bookedMinutes'', cd_name = ''booked_minutes'', cd_kind = Integer_col, cd_primary = False, cd_not_null = True\<rparr>]\<rparr>"

definition schema_bookings :: tableDecl where
  "schema_bookings = \<lparr>td_const = ''bookings'', td_name = ''bookings'', td_columns = [
     \<lparr>cd_key = ''id'', cd_name = ''id'', cd_kind = Uuid, cd_primary = True, cd_not_null = False\<rparr>,
     \<lparr>cd_key = ''fanId'', cd_name = ''fan_id'', cd_kind = Uuid, cd_primary = False, cd_not_null = True\<rparr>,
     \<lparr>cd_key = ''partnerId'', cd_name = ''partner_id'', cd_kind = Uuid, cd_primary = False, cd_not_null = True\<rparr>,
     \<lparr>cd_key = ''scheduledDate'', cd_name = ''scheduled_date'', cd_kind = Date_col, cd_primary = False, cd_not_null = True\<rparr>,
     \<lparr>cd_key = ''selectedDuration'', cd_name = ''selected_duration'', cd_kind = Text_col, cd_primary = False, cd_not_null = True\<rparr>,
     \<lparr>cd_key = ''pricePaise'', cd_name = ''price_paise'', cd_kind = Paise, cd_primary = False, cd_not_null = True\<rparr>,
     \<lparr>cd_key = ''status'', cd_name = ''status'', cd_kind = Text_col, cd_primary = False, cd_not_null = True\<rparr>,
     \<lparr>cd_key = ''fanReadyAt'', cd_name = ''fan_ready_at'', cd_kind = Timestamp_tz, cd_primary = False, cd_not_null = False\<rparr>,
     \<lparr>cd_key = ''meetingId'', cd_name = ''meeting_id'', cd_kind = Text_col, cd_primary = False, cd_not_null = False\<rparr>,
     \<lparr>cd_key = ''settleAt'', cd_name = ''settle_at'', cd_kind = Timestamp_tz, cd_primary = False, cd_not_null = False\<rparr>,
     \<lparr>cd_key = ''createdAt'', cd_name = ''created_at'', cd_kind = Timestamp_tz, cd_primary = False, cd_not_null = True\<rparr>]\<rparr>"

definition schema_calls :: tableDecl where
  "schema_calls = \<lparr>td_const = ''calls'', td_name = ''calls'', td_columns = [
     \<lparr>cd_key = ''id'', cd_name = ''id'', cd_kind = Uuid, cd_primary = True, cd_not_null = False\<rparr>,
     \<lparr>cd_key = ''bookingId'', cd_name = ''booking_id'', cd_kind = Uuid, cd_primary = False, cd_not_null = True\<rparr>,
     \<lparr>cd_key = ''fanId'', cd_name = ''fan_id'', cd_kind = Uuid, cd_primary = False, cd_not_null = True\<rparr>,
     \<lparr>cd_key = ''partnerId'', cd_name = ''partner_id'', cd_kind = Uuid, cd_primary = False, cd_not_null = True\<rparr>,
     \<lparr>cd_key = ''attemptStatus'', cd_name = ''attempt_status'', cd_kind = Text_col, cd_primary = False, cd_not_null = True\<rparr>,
     \<lparr>cd_key = ''meetingId'', cd_name = ''meeting_id'', cd_kind = Text_col, cd_primary = False, cd_not_null = False\<rparr>,
     \<lparr>cd_key = ''startedAt'', cd_name = ''started_at'', cd_kind = Timestamp_tz, cd_primary = False, cd_not_null = False\<rparr>,
     \<lparr>cd_key = ''deadlineAt'', cd_name = ''deadline_at'', cd_kind = Timestamp_tz, cd_primary = False, cd_not_null = False\<rparr>,
     \<lparr>cd_key = ''endedAt'', cd_name = ''ended_at'', cd_kind = Timestamp_tz, cd_primary = False, cd_not_null = False\<rparr>]\<rparr>"

definition schema_conversations :: tableDecl where
  "schema_conversations = \<lparr>td_const = ''conversations'', td_name = ''conversations'', td_columns = [
     \<lparr>cd_key = ''id'', cd_name = ''id'', cd_kind = Uuid, cd_primary = True, cd_not_null = False\<rparr>,
     \<lparr>cd_key = ''fanId'', cd_name = ''fan_id'', cd_kind = Uuid, cd_primary = False, cd_not_null = True\<rparr>,
     \<lparr>cd_key = ''partnerId'', cd_name = ''partner_id'', cd_kind = Uuid, cd_primary = False, cd_not_null = True\<rparr>,
     \<lparr>cd_key = ''lastActivityAt'', cd_name = ''last_activity_at'', cd_kind = Timestamp_tz, cd_primary = False, cd_not_null = False\<rparr>]\<rparr>"

definition schema_conversation_windows :: tableDecl where
  "schema_conversation_windows = \<lparr>td_const = ''conversationWindows'', td_name = ''conversation_windows'', td_columns = [
     \<lparr>cd_key = ''id'', cd_name = ''id'', cd_kind = Uuid, cd_primary = True, cd_not_null = False\<rparr>,
     \<lparr>cd_key = ''conversationId'', cd_name = ''conversation_id'', cd_kind = Uuid, cd_primary = False, cd_not_null = True\<rparr>,
     \<lparr>cd_key = ''kind'', cd_name = ''kind'', cd_kind = Text_col, cd_primary = False, cd_not_null = True\<rparr>,
     \<lparr>cd_key = ''chargePaise'', cd_name = ''charge_paise'', cd_kind = Paise, cd_primary = False, cd_not_null = True\<rparr>,
     \<lparr>cd_key = ''status'', cd_name = ''status'', cd_kind = Text_col, cd_primary = False, cd_not_null = True\<rparr>,
     \<lparr>cd_key = ''responseDeadline'', cd_name = ''response_deadline'', cd_kind = Timestamp_tz, cd_primary = False, cd_not_null = False\<rparr>,
     \<lparr>cd_key = ''settleAt'', cd_name = ''settle_at'', cd_kind = Timestamp_tz, cd_primary = False, cd_not_null = False\<rparr>,
     \<lparr>cd_key = ''openedAt'', cd_name = ''opened_at'', cd_kind = Timestamp_tz, cd_primary = False, cd_not_null = True\<rparr>]\<rparr>"

definition schema_messages :: tableDecl where
  "schema_messages = \<lparr>td_const = ''messages'', td_name = ''messages'', td_columns = [
     \<lparr>cd_key = ''id'', cd_name = ''id'', cd_kind = Uuid, cd_primary = True, cd_not_null = False\<rparr>,
     \<lparr>cd_key = ''windowId'', cd_name = ''window_id'', cd_kind = Uuid, cd_primary = False, cd_not_null = True\<rparr>,
     \<lparr>cd_key = ''sender'', cd_name = ''sender'', cd_kind = Text_col, cd_primary = False, cd_not_null = True\<rparr>,
     \<lparr>cd_key = ''body'', cd_name = ''body'', cd_kind = Text_col, cd_primary = False, cd_not_null = True\<rparr>,
     \<lparr>cd_key = ''createdAt'', cd_name = ''created_at'', cd_kind = Timestamp_tz, cd_primary = False, cd_not_null = True\<rparr>]\<rparr>"

definition schema_shout_out_requests :: tableDecl where
  "schema_shout_out_requests = \<lparr>td_const = ''shoutOutRequests'', td_name = ''shout_out_requests'', td_columns = [
     \<lparr>cd_key = ''id'', cd_name = ''id'', cd_kind = Uuid, cd_primary = True, cd_not_null = False\<rparr>,
     \<lparr>cd_key = ''fanId'', cd_name = ''fan_id'', cd_kind = Uuid, cd_primary = False, cd_not_null = True\<rparr>,
     \<lparr>cd_key = ''partnerId'', cd_name = ''partner_id'', cd_kind = Uuid, cd_primary = False, cd_not_null = True\<rparr>,
     \<lparr>cd_key = ''recipientName'', cd_name = ''recipient_name'', cd_kind = Text_col, cd_primary = False, cd_not_null = False\<rparr>,
     \<lparr>cd_key = ''pricePaise'', cd_name = ''price_paise'', cd_kind = Paise, cd_primary = False, cd_not_null = True\<rparr>,
     \<lparr>cd_key = ''status'', cd_name = ''status'', cd_kind = Text_col, cd_primary = False, cd_not_null = True\<rparr>,
     \<lparr>cd_key = ''deliveredVideoLink'', cd_name = ''delivered_video_link'', cd_kind = Text_col, cd_primary = False, cd_not_null = False\<rparr>,
     \<lparr>cd_key = ''settleAt'', cd_name = ''settle_at'', cd_kind = Timestamp_tz, cd_primary = False, cd_not_null = False\<rparr>,
     \<lparr>cd_key = ''createdAt'', cd_name = ''created_at'', cd_kind = Timestamp_tz, cd_primary = False, cd_not_null = True\<rparr>]\<rparr>"

definition schema_partner_earnings :: tableDecl where
  "schema_partner_earnings = \<lparr>td_const = ''partnerEarnings'', td_name = ''partner_earnings'', td_columns = [
     \<lparr>cd_key = ''id'', cd_name = ''id'', cd_kind = Uuid, cd_primary = True, cd_not_null = False\<rparr>,
     \<lparr>cd_key = ''partnerId'', cd_name = ''partner_id'', cd_kind = Uuid, cd_primary = False, cd_not_null = True\<rparr>,
     \<lparr>cd_key = ''serviceType'', cd_name = ''service_type'', cd_kind = Text_col, cd_primary = False, cd_not_null = True\<rparr>,
     \<lparr>cd_key = ''amountPaise'', cd_name = ''amount_paise'', cd_kind = Paise, cd_primary = False, cd_not_null = True\<rparr>,
     \<lparr>cd_key = ''status'', cd_name = ''status'', cd_kind = Text_col, cd_primary = False, cd_not_null = True\<rparr>,
     \<lparr>cd_key = ''payoutId'', cd_name = ''payout_id'', cd_kind = Uuid, cd_primary = False, cd_not_null = False\<rparr>]\<rparr>"

definition schema_payout_methods :: tableDecl where
  "schema_payout_methods = \<lparr>td_const = ''payoutMethods'', td_name = ''payout_methods'', td_columns = [
     \<lparr>cd_key = ''id'', cd_name = ''id'', cd_kind = Uuid, cd_primary = True, cd_not_null = False\<rparr>,
     \<lparr>cd_key = ''partnerId'', cd_name = ''partner_id'', cd_kind = Uuid, cd_primary = False, cd_not_null = True\<rparr>,
     \<lparr>cd_key = ''methodType'', cd_name = ''method_type'', cd_kind = Text_col, cd_primary = False, cd_not_null = True\<rparr>,
     \<lparr>cd_key = ''isVerified'', cd_name = ''is_verified'', cd_kind = Boolean_col, cd_primary = False, cd_not_null = True\<rparr>,
     \<lparr>cd_key = ''isPrimary'', cd_name = ''is_primary'', cd_kind = Boolean_col, cd_primary = False, cd_not_null = True\<rparr>]\<rparr>"

definition schema_partner_payouts :: tableDecl where
  "schema_partner_payouts = \<lparr>td_const = ''partnerPayouts'', td_name = ''partner_payouts'', td_columns = [
     \<lparr>cd_key = ''id'', cd_name = ''id'', cd_kind = Uuid, cd_primary = True, cd_not_null = False\<rparr>,
     \<lparr>cd_key = ''partnerId'', cd_name = ''partner_id'', cd_kind = Uuid, cd_primary = False, cd_not_null = True\<rparr>,
     \<lparr>cd_key = ''amountPaise'', cd_name = ''amount_paise'', cd_kind = Paise, cd_primary = False, cd_not_null = True\<rparr>,
     \<lparr>cd_key = ''status'', cd_name = ''status'', cd_kind = Text_col, cd_primary = False, cd_not_null = True\<rparr>,
     \<lparr>cd_key = ''utr'', cd_name = ''utr'', cd_kind = Text_col, cd_primary = False, cd_not_null = False\<rparr>]\<rparr>"

definition schema_categories :: tableDecl where
  "schema_categories = \<lparr>td_const = ''categories'', td_name = ''categories'', td_columns = [
     \<lparr>cd_key = ''id'', cd_name = ''id'', cd_kind = Uuid, cd_primary = True, cd_not_null = False\<rparr>,
     \<lparr>cd_key = ''slug'', cd_name = ''slug'', cd_kind = Text_col, cd_primary = False, cd_not_null = True\<rparr>,
     \<lparr>cd_key = ''name'', cd_name = ''name'', cd_kind = Text_col, cd_primary = False, cd_not_null = True\<rparr>,
     \<lparr>cd_key = ''sortOrder'', cd_name = ''sort_order'', cd_kind = Integer_col, cd_primary = False, cd_not_null = False\<rparr>]\<rparr>"

definition schema_notifications :: tableDecl where
  "schema_notifications = \<lparr>td_const = ''notifications'', td_name = ''notifications'', td_columns = [
     \<lparr>cd_key = ''id'', cd_name = ''id'', cd_kind = Uuid, cd_primary = True, cd_not_null = False\<rparr>,
     \<lparr>cd_key = ''recipientId'', cd_name = ''recipient_id'', cd_kind = Uuid, cd_primary = False, cd_not_null = True\<rparr>,
     \<lparr>cd_key = ''eventType'', cd_name = ''event_type'', cd_kind = Text_col, cd_primary = False, cd_not_null = True\<rparr>,
     \<lparr>cd_key = ''title'', cd_name = ''title'', cd_kind = Text_col, cd_primary = False, cd_not_null = False\<rparr>,
     \<lparr>cd_key = ''message'', cd_name = ''message'', cd_kind = Text_col, cd_primary = False, cd_not_null = False\<rparr>,
     \<lparr>cd_key = ''isRead'', cd_name = ''is_read'', cd_kind = Boolean_col, cd_primary = False, cd_not_null = True\<rparr>,
     \<lparr>cd_key = ''createdAt'', cd_name = ''created_at'', cd_kind = Timestamp_tz, cd_primary = False, cd_not_null = True\<rparr>]\<rparr>"

definition SCHEMA :: "tableDecl list" where
  "SCHEMA = [schema_profiles,
     schema_partner_profiles, schema_wallets, schema_transactions, schema_ledger_entries, schema_topup_orders,
     schema_partner_services, schema_availability, schema_bookings, schema_calls, schema_conversations, schema_conversation_windows, schema_messages, schema_shout_out_requests,
     schema_partner_earnings,
     schema_payout_methods,
     schema_partner_payouts, schema_categories, schema_notifications]"

section \<open>Migrations\<close>

type_synonym dbColumns = "(string \<times> string \<times> bool) list"
type_synonym dbCatalog = "(string \<times> dbColumns) list"

text \<open>The flag of \<open>AddColumn\<close> is \<open>IF NOT EXISTS\<close>, that of \<open>DropColumn\<close> \<open>IF EXISTS\<close>.\<close>

datatype ddl = CreateTable string dbColumns | AddColumn bool string string string bool | DropColumn bool string string | RenameColumn string string string

definition create_profiles :: ddl where
  "create_profiles = CreateTable ''profiles'' [
     (''id'', ''uuid'', True),
     (''role'', ''user_role'', True),
     (''email'', ''text'', True),
     (''full_name'', ''text'', False),
     (''mobile_number'', ''text'', False),
     (''mobile_verified_at'', ''timestamptz'', False),
     (''age'', ''integer'', False),
     (''gender'', ''gender_enum'', False),
     (''is_minor'', ''boolean'', True),
     (''guardian_full_name'', ''text'', False),
     (''guardian_relationship'', ''text'', False),
     (''guardian_contact_details'', ''text'', False),
     (''verification_status'', ''verification_status'', True),
     (''kyc_submitted_at'', ''timestamptz'', False),
     (''kyc_verified_at'', ''timestamptz'', False),
     (''kyc_verified_by_admin_id'', ''uuid'', False),
     (''kyc_rejection_reason'', ''text'', False),
     (''referral_code'', ''text'', False),
     (''created_at'', ''timestamptz'', True),
     (''updated_at'', ''timestamptz'', True)]"

definition create_partner_profiles :: ddl where
  "create_partner_profiles = CreateTable ''partner_profiles'' [
     (''profile_id'', ''uuid'', True),
     (''display_name'', ''text'', True),
     (''bio'', ''text'', False),
     (''profile_image_path'', ''text'', False),
     (''status'', ''account_status'', True),
     (''approved_by_admin_id'', ''uuid'', False),
     (''approved_at'', ''timestamptz'', False),
     (''rejection_reason'', ''text'', False),
     (''is_active'', ''boolean'', True),
     (''vacation_mode'', ''boolean'', True),
     (''deactivation_reason'', ''text'', False),
     (''daily_call_minute_threshold_override'', ''integer'', False),
     (''is_premium'', ''boolean'', True),
     (''is_featured'', ''boolean'', True),
     (''profile_complete'', ''boolean'', True),
     (''updated_at'', ''timestamptz'', True)]"

definition create_partner_services :: ddl where
  "create_partner_services = CreateTable ''partner_services'' [
     (''id'', ''uuid'', True),
     (''partner_id'', ''uuid'', True),
     (''service_type'', ''service_type_enum'', True),
     (''duration'', ''call_duration_options_enum'', False),
     (''price_paise'', ''bigint'', True),
     (''is_active'', ''boolean'', True),
     (''is_available_for_platform'', ''boolean'', True),
     (''created_at'', ''timestamptz'', True),
     (''updated_at'', ''timestamptz'', True)]"

definition create_availability :: ddl where
  "create_availability = CreateTable ''availability'' [
     (''id'', ''uuid'', True),
     (''partner_id'', ''uuid'', True),
     (''date'', ''date'', True),
     (''is_available'', ''boolean'', True),
     (''threshold_minutes'', ''integer'', True),
     (''booked_minutes'', ''integer'', True),
     (''created_at'', ''timestamptz'', True),
     (''updated_at'', ''timestamptz'', True)]"

definition alter_0003 :: "ddl list" where
  "alter_0003 = [
     AddColumn False ''partner_profiles'' ''featured_at'' ''timestamptz'' False,
     AddColumn False ''partner_profiles'' ''featured_by_admin_id'' ''uuid'' False,
     AddColumn False ''partner_profiles'' ''featured_reason'' ''text'' False]"

definition create_wallets :: ddl where
  "create_wallets = CreateTable ''wallets'' [
     (''id'', ''uuid'', True),
     (''profile_id'', ''uuid'', True),
     (''balance_paise'', ''bigint'', True),
     (''bonus_balance_paise'', ''bigint'', True),
     (''created_at'', ''timestamptz'', True),
     (''updated_at'', ''timestamptz'', True)]"

definition create_transactions :: ddl where
  "create_transactions = CreateTable ''transactions'' [
     (''id'', ''uuid'', True),
     (''type'', ''txn_type'', True),
     (''status'', ''txn_status'', True),
     (''amount_paise'', ''bigint'', True),
     (''idempotency_key'', ''text'', True),
     (''external_ref'', ''text'', False),
     (''meta'', ''jsonb'', True),
     (''created_at'', ''timestamptz'', True)]"

definition create_ledger_entries :: ddl where
  "create_ledger_entries = CreateTable ''ledger_entries'' [
     (''id'', ''uuid'', True),
     (''transaction_id'', ''uuid'', True),
     (''wallet_id'', ''uuid'', False),
     (''account'', ''text'', True),
     (''delta_paise'', ''bigint'', True),
     (''created_at'', ''timestamptz'', True)]"

definition create_topup_orders :: ddl where
  "create_topup_orders = CreateTable ''topup_orders'' [
     (''id'', ''uuid'', True),
     (''profile_id'', ''uuid'', True),
     (''credit_paise'', ''bigint'', True),
     (''gst_paise'', ''bigint'', True),
     (''amount_paise'', ''bigint'', True),
     (''razorpay_order_id'', ''text'', True),
     (''razorpay_payment_id'', ''text'', False),
     (''status'', ''txn_status'', True),
     (''transaction_id'', ''uuid'', False),
     (''error_message'', ''text'', False),
     (''created_at'', ''timestamptz'', True),
     (''updated_at'', ''timestamptz'', True)]"

definition create_partner_earnings :: ddl where
  "create_partner_earnings = CreateTable ''partner_earnings'' [
     (''id'', ''uuid'', True),
     (''partner_id'', ''uuid'', True),
     (''transaction_id'', ''uuid'', True),
     (''service_type'', ''service_type_enum'', True),
     (''service_id'', ''uuid'', True),
     (''amount_paise'', ''bigint'', True),
     (''status'', ''earning_status'', True),
     (''payout_id'', ''uuid'', False),
     (''settled_at'', ''timestamptz'', True)]"

definition create_payout_methods :: ddl where
  "create_payout_methods = CreateTable ''payout_methods'' [
     (''id'', ''uuid'', True),
     (''partner_id'', ''uuid'', True),
     (''method_type'', ''payout_method_type'', True),
     (''account_holder_name'', ''text'', False),
     (''account_number'', ''text'', False),
     (''ifsc_code'', ''text'', False),
     (''bank_name'', ''text'', False),
     (''upi_id'', ''text'', False),
     (''is_primary'', ''boolean'', True),
     (''is_verified'', ''boolean'', True),
     (''verified_by_admin_id'', ''uuid'', False),
     (''verified_at'', ''timestamptz'', False),
     (''created_at'', ''timestamptz'', True),
     (''updated_at'', ''timestamptz'', True)]"

definition create_partner_payouts :: ddl where
  "create_partner_payouts = CreateTable ''partner_payouts'' [
     (''id'', ''uuid'', True),
     (''partner_id'', ''uuid'', True),
     (''amount_paise'', ''bigint'', True),
     (''status'', ''payout_status'', True),
     (''payout_method_id'', ''uuid'', False),
     (''transaction_id'', ''uuid'', False),
     (''reference'', ''text'', False),
     (''requested_at'', ''timestamptz'', True),
     (''processed_at'', ''timestamptz'', False)]"

definition create_bookings :: ddl where
  "create_bookings = CreateTable ''bookings'' [
     (''id'', ''uuid'', True),
     (''fan_id'', ''uuid'', True),
     (''partner_id'', ''uuid'', True),
     (''scheduled_date'', ''date'', True),
     (''selected_duration'', ''call_duration_options_enum'', True),
     (''price_paise'', ''bigint'', True),
     (''original_price_paise'', ''bigint'', False),
     (''discount_paise'', ''bigint'', True),
     (''promo_code_id'', ''uuid'', False),
     (''status'', ''booking_status'', True),
     (''fan_ready_at'', ''timestamptz'', False),
     (''attempts'', ''integer'', True),
     (''meeting_id'', ''text'', False),
     (''fan_note'', ''text'', False),
     (''cancellation_reason'', ''text'', False),
     (''escrow_txn_id'', ''uuid'', False),
     (''settle_at'', ''timestamptz'', True),
     (''created_at'', ''timestamptz'', True),
     (''updated_at'', ''timestamptz'', True)]"

definition create_calls :: ddl where
  "create_calls = CreateTable ''calls'' [
     (''id'', ''uuid'', True),
     (''booking_id'', ''uuid'', True),
     (''fan_id'', ''uuid'', False),
     (''partner_id'', ''uuid'', False),
     (''attempt_status'', ''call_status'', True),
     (''meeting_id'', ''text'', False),
     (''partner_initiated_at'', ''timestamptz'', False),
     (''fan_joined_at'', ''timestamptz'', False),
     (''started_at'', ''timestamptz'', False),
     (''deadline_at'', ''timestamptz'', False),
     (''ended_at'', ''timestamptz'', False),
     (''actual_duration_seconds'', ''integer'', False),
     (''fan_last_heartbeat_at'', ''timestamptz'', False),
     (''partner_last_heartbeat_at'', ''timestamptz'', False),
     (''heartbeat_count'', ''integer'', True),
     (''termination_reason'', ''text'', False),
     (''created_at'', ''timestamptz'', True),
     (''updated_at'', ''timestamptz'', True)]"

definition create_conversations :: ddl where
  "create_conversations = CreateTable ''conversations'' [
     (''id'', ''uuid'', True),
     (''fan_id'', ''uuid'', True),
     (''partner_id'', ''uuid'', True),
     (''last_activity_at'', ''timestamptz'', True),
     (''blocked_at'', ''timestamptz'', False),
     (''blocked_by'', ''uuid'', False),
     (''created_at'', ''timestamptz'', True)]"

definition create_conversation_windows :: ddl where
  "create_conversation_windows = CreateTable ''conversation_windows'' [
     (''id'', ''uuid'', True),
     (''conversation_id'', ''uuid'', True),
     (''kind'', ''dm_window_kind'', True),
     (''charge_paise'', ''bigint'', True),
     (''message_cap'', ''integer'', True),
     (''status'', ''dm_window_status'', True),
     (''response_deadline'', ''timestamptz'', False),
     (''escrow_txn_id'', ''uuid'', False),
     (''settle_at'', ''timestamptz'', False),
     (''opened_at'', ''timestamptz'', True),
     (''closed_at'', ''timestamptz'', False)]"

definition create_messages :: ddl where
  "create_messages = CreateTable ''messages'' [
     (''id'', ''uuid'', True),
     (''window_id'', ''uuid'', True),
     (''sender'', ''message_sender'', True),
     (''body'', ''text'', True),
     (''created_at'', ''timestamptz'', True)]"

definition create_shout_out_requests :: ddl where
  "create_shout_out_requests = CreateTable ''shout_out_requests'' [
     (''id'', ''uuid'', True),
     (''fan_id'', ''uuid'', True),
     (''partner_id'', ''uuid'', True),
     (''recipient_name'', ''text'', True),
     (''gifter_name'', ''text'', False),
     (''occasion'', ''text'', False),
     (''pronunciation_guide'', ''text'', False),
     (''message_for_partner'', ''text'', True),
     (''price_paise'', ''bigint'', True),
     (''status'', ''shout_out_status_enum'', True),
     (''escrow_txn_id'', ''uuid'', False),
     (''settle_at'', ''timestamptz'', True),
     (''admin_handler_id'', ''uuid'', False),
     (''partner_video_storage_path'', ''text'', False),
     (''partner_video_submitted_at'', ''timestamptz'', False),
     (''admin_review_notes'', ''text'', False),
     (''delivered_video_link'', ''text'', False),
     (''delivered_at'', ''timestamptz'', False),
     (''created_at'', ''timestamptz'', True),
     (''updated_at'', ''timestamptz'', True)]"

definition create_notifications :: ddl where
  "create_notifications = CreateTable ''notifications'' [
     (''id'', ''uuid'', True),
     (''recipient_id'', ''uuid'', True),
     (''actor_id'', ''uuid'', False),
     (''event_type'', ''notification_event_type_enum'', True),
     (''title'', ''text'', False),
     (''message'', ''text'', True),
     (''related_entity_type'', ''notification_related_entity_type_enum'', False),
     (''related_entity_id'', ''uuid'', False),
     (''channels_sent'', ''notification_channel_enum[]'', False),
     (''delivery_status'', ''notification_delivery_status'', True),
     (''is_read'', ''boolean'', True),
     (''read_at'', ''timestamptz'', False),
     (''metadata'', ''jsonb'', False),
     (''created_at'', ''timestamptz'', True)]"

definition create_categories :: ddl where
  "create_categories = CreateTable ''categories'' [
     (''id'', ''uuid'', True),
     (''slug'', ''text'', True),
     (''name'', ''text'', True),
     (''sort_order'', ''integer'', True),
     (''is_active'', ''boolean'', True)]"

definition alter_0008 :: "ddl list" where
  "alter_0008 = [
     AddColumn False ''profiles'' ''notification_prefs'' ''jsonb'' True,
     AddColumn False ''partner_profiles'' ''commission_rate'' ''numeric(5,4)'' False]"

definition alter_0012 :: "ddl list" where
  "alter_0012 = [
     AddColumn False ''profiles'' ''account_status'' ''user_account_status'' True,
     AddColumn False ''profiles'' ''status_reason'' ''text'' False,
     AddColumn False ''profiles'' ''status_changed_at'' ''timestamptz'' False,
     AddColumn False ''profiles'' ''status_changed_by'' ''uuid'' False,
     DropColumn False ''conversations'' ''blocked_at'',
     DropColumn False ''conversations'' ''blocked_by'',
     AddColumn False ''transactions'' ''refund_reason'' ''refund_reason'' False]"

definition alter_0024 :: "ddl list" where
  "alter_0024 = [
     AddColumn True ''partner_profiles'' ''premium_at'' ''timestamptz'' False,
     AddColumn True ''partner_profiles'' ''premium_by_admin_id'' ''uuid'' False,
     AddColumn True ''partner_profiles'' ''premium_reason'' ''text'' False]"

definition alter_0046 :: "ddl list" where
  "alter_0046 = [
     AddColumn True ''partner_profiles'' ''handle'' ''text'' False]"

definition alter_0047 :: "ddl list" where
  "alter_0047 = [
     RenameColumn ''partner_payouts'' ''reference'' ''utr'']"

definition alter_0050 :: "ddl list" where
  "alter_0050 = [
     DropColumn True ''notifications'' ''channels_sent'',
     DropColumn True ''notifications'' ''delivery_status'',
     DropColumn True ''partner_profiles'' ''daily_call_minute_threshold_override'',
     DropColumn True ''profiles'' ''guardian_contact_details'',
     DropColumn True ''profiles'' ''guardian_full_name'',
     DropColumn True ''profiles'' ''guardian_relationship'',
     DropColumn True ''profiles'' ''mobile_verified_at'',
     DropColumn True ''shout_out_requests'' ''pronunciation_guide'']"

definition alter_0061 :: "ddl list" where
  "alter_0061 = [
     AddColumn False ''shout_out_requests'' ''fan_confirmed_at'' ''timestamptz'' False,
     AddColumn False ''shout_out_requests'' ''fan_confirmed_source'' ''text'' False,
     AddColumn False ''shout_out_requests'' ''admin_confirmed_by'' ''uuid'' False,
     AddColumn False ''shout_out_requests'' ''free_correction_used_at'' ''timestamptz'' False,
     AddColumn False ''shout_out_requests'' ''disputed_at'' ''timestamptz'' False,
     AddColumn False ''shout_out_requests'' ''review_deadline_at'' ''timestamptz'' False]"

definition alter_0068 :: "ddl list" where
  "alter_0068 = [
     AddColumn False ''shout_out_requests'' ''pronunciation_guide'' ''text'' False,
     AddColumn False ''partner_payouts'' ''admin_approver_id'' ''uuid'' False]"

definition alter_0071 :: "ddl list" where
  "alter_0071 = [
     AddColumn True ''calls'' ''metadata'' ''jsonb'' False,
     AddColumn True ''calls'' ''remaining_duration_seconds'' ''integer'' False]"

definition alter_0092 :: "ddl list" where
  "alter_0092 = [
     AddColumn True ''calls'' ''partner_media_confirmed'' ''boolean'' False,
     DropColumn True ''calls'' ''remaining_duration_seconds'']"

definition alter_0101 :: "ddl list" where
  "alter_0101 = [
     AddColumn True ''calls'' ''ended_by'' ''uuid'' False,
     AddColumn True ''calls'' ''ended_by_role'' ''user_role'' False]"

definition MIGRATED :: "ddl list" where
  "MIGRATED = [create_profiles, create_partner_profiles, create_partner_services, create_availability] @
     alter_0003 @
     [create_wallets, create_transactions, create_ledger_entries, create_topup_orders, create_partner_earnings, create_payout_methods, create_partner_payouts, create_bookings, create_calls, create_conversations, create_conversation_windows, create_messages, create_shout_out_requests, create_notifications] @
     alter_0008 @
     [create_categories] @
     alter_0012 @
     alter_0024 @
     alter_0046 @
     alter_0047 @
     alter_0050 @
     alter_0061 @
     alter_0068 @
     alter_0071 @
     alter_0092 @
     alter_0101"

text \<open>One statement; as in Postgres it fails on a table or a column that is there already, or not there.\<close>

definition with_table :: "string \<Rightarrow> (dbColumns \<Rightarrow> string + dbColumns) \<Rightarrow> dbCatalog \<Rightarrow> string + dbCatalog" where
  "with_table t f c = (case map_of c t of None \<Rightarrow> Inl (''relation does not exist: '' @ t)
     | Some cols \<Rightarrow> (case f cols of Inl e \<Rightarrow> Inl e | Inr cols' \<Rightarrow> Inr (AList.update t cols' c)))"

fun ddl_step :: "ddl \<Rightarrow> dbCatalog \<Rightarrow> string + dbCatalog" where
  "ddl_step (CreateTable t cols) c = (if map_of c t \<noteq> None then Inl (''relation already exists: '' @ t) else Inr (c @ [(t, cols)]))"
| "ddl_step (AddColumn lax t x ty nn) c = with_table t (\<lambda>cols. if map_of cols x = None then Inr (cols @ [(x, ty, nn)])
     else if lax then Inr cols else Inl (''column already exists: '' @ x)) c"
| "ddl_step (DropColumn lax t x) c = with_table t (\<lambda>cols. if map_of cols x \<noteq> None \<or> lax then Inr (AList.delete x cols) else Inl (''column does not exist: '' @ x)) c"
| "ddl_step (RenameColumn t x y) c = with_table t (\<lambda>cols. if map_of cols x = None then Inl (''column does not exist: '' @ x)
     else if map_of cols y \<noteq> None then Inl (''column already exists: '' @ y) else Inr (map (\<lambda>(n, v). (if n = x then y else n, v)) cols)) c"

fun migrate :: "ddl list \<Rightarrow> dbCatalog \<Rightarrow> string + dbCatalog" where
  "migrate [] c = Inr c"
| "migrate (s # ss) c = (case ddl_step s c of Inl e \<Rightarrow> Inl e | Inr c' \<Rightarrow> migrate ss c')"

section \<open>The declarations against the catalog\<close>

definition ENUM_TYPES :: "string list" where
  "ENUM_TYPES = [''user_role'', ''gender_enum'', ''verification_status'', ''account_status'', ''user_account_status'', ''service_type_enum'', ''call_duration_options_enum'',
     ''booking_status'', ''call_status'', ''shout_out_status_enum'', ''txn_type'', ''txn_status'', ''earning_status'', ''payout_status'', ''payout_method_type'',
     ''dm_window_kind'', ''dm_window_status'', ''message_sender'', ''notification_event_type_enum'', ''refund_reason'']"

text \<open>Which types of the database a declared column reads: the driver gives an enum as text.\<close>

fun reads_type :: "colKind \<Rightarrow> string \<Rightarrow> bool" where
  "reads_type Uuid ty = (ty = ''uuid'')"
| "reads_type Text_col ty = (ty = ''text'' \<or> ty \<in> set ENUM_TYPES)"
| "reads_type Boolean_col ty = (ty = ''boolean'')"
| "reads_type Integer_col ty = (ty = ''integer'')"
| "reads_type Paise ty = (ty = ''bigint'')"
| "reads_type Timestamp_tz ty = (ty = ''timestamptz'')"
| "reads_type Date_col ty = (ty = ''date'')"
| "reads_type Jsonb_col ty = (ty = ''jsonb'')"
| "reads_type Numeric_col ty = starts_with ''numeric'' ty"

definition column_of :: "dbCatalog \<Rightarrow> string \<Rightarrow> string \<Rightarrow> (string \<times> bool) option" where
  "column_of c t x = Option.bind (map_of c t) (\<lambda>cols. map_of cols x)"

definition unreadable :: "tableDecl list \<Rightarrow> dbCatalog \<Rightarrow> (string \<times> string) list" where
  "unreadable ts c = [(td_name t, cd_name x). t \<leftarrow> ts, x \<leftarrow> td_columns t,
     case column_of c (td_name t) (cd_name x) of None \<Rightarrow> True | Some (ty, nn) \<Rightarrow> \<not> reads_type (cd_kind x) ty]"

text \<open>Columns that the declaration says are never null and the database lets be null.\<close>

definition nullable_after_all :: "tableDecl list \<Rightarrow> dbCatalog \<Rightarrow> (string \<times> string) list" where
  "nullable_after_all ts c = [(td_name t, cd_name x). t \<leftarrow> ts, x \<leftarrow> td_columns t,
     (cd_not_null x \<or> cd_primary x) \<and> (case column_of c (td_name t) (cd_name x) of Some (ty, nn) \<Rightarrow> \<not> nn | None \<Rightarrow> False)]"


end
