(* ===== verification/Spec2Isabelle.thy ===== *)
theory Spec2Isabelle
  imports Realtime_System Wallet_Settle Wallet_Limits Wallet_Disputes Jobs_Props Push_Props Calls_Props
    Identity_Props Admin Throttle Doctor Scripts Env Media Catalog Discovery_Props Messaging_Props Shoutout_Props Earnings_Props Trust_Props Routes_Props
    Call_Time Panel_Props Schema
begin

text \<open>
  A model of the Zudue API server (TypeScript on NestJS, Postgres behind it) and proofs about it.  The
  server is a set of services.  Every one of them works in units of work of the database layer, which
  set the caller's identity and call SQL functions; a guard turns a bearer token into that identity;
  money moves only through one posting primitive of the database; a scheduler runs sweeps; calls ring
  devices through two push providers; and a socket server pushes call changes that Postgres announces.

  Theories and what they model.

  \<^item> \<open>Prelude\<close>: JSON values, maps and sets in insertion order, numbers, folds; the named collections.
  \<^item> \<open>Db\<close>: \<open>src/db/database.service.ts\<close>, \<open>database.module.ts\<close>.  A transaction body is a function of the session
    settings and the transaction state; a failed statement aborts the transaction, as Postgres does, whatever
    the body does with the rejection.  The locale \<open>tx_runner\<close> is the contract of \<open>runAs\<close>, \<open>runAnon\<close> and
    \<open>runAsService\<close>, with an interpretation for each.  Also the bounded wait for the database at boot.
  \<^item> \<open>Jwt_Guard\<close>: \<open>src/auth/jwt.guard.ts\<close>; locale \<open>token_verifier\<close> (in \<open>Realtime_Types\<close>), which the gateway uses.
  \<^item> \<open>Realtime_Types\<close>, \<open>Realtime_Gateway\<close>, \<open>Realtime_Steps\<close>, \<open>Realtime_Invariant\<close>, \<open>Realtime_Delivery\<close>, \<open>Realtime_History\<close>,
    \<open>Realtime_Props\<close>: \<open>src/realtime/realtime.types.ts\<close> and \<open>realtime.gateway.ts\<close>, the socket server as a state machine
    (\<open>gw_step\<close>, reachable states \<open>gw_reach\<close>), its registry invariant, exact deliveries, histories.
  \<^item> \<open>Pg_Notify\<close>, \<open>Pg_Invariant\<close>, \<open>Pg_Props\<close>: \<open>pg-notify.source.ts\<close> with the trigger of migration 0102; the locale
    \<open>event_sink\<close> is the contract of the consumer.
  \<^item> \<open>Realtime_System\<close>: \<open>realtime.module.ts\<close>; the gateway as the \<open>event_sink\<close> of the source.
  \<^item> \<open>Payments\<close>: \<open>src/payments/\<close>; locale \<open>payment_provider\<close>, interpreted by the Razorpay provider.
  \<^item> \<open>Ledger\<close>: the money tables and \<open>post_transaction\<close> (migrations 0004, 0058).
  \<^item> \<open>Wallet\<close>, \<open>Wallet_Invariant\<close>, \<open>Wallet_Props\<close>, \<open>Wallet_Settle\<close>, \<open>Wallet_Limits\<close>, \<open>Wallet_Disputes\<close>: \<open>src/wallet/wallet.service.ts\<close>
    with the SQL functions it calls.
  \<^item> \<open>Services\<close>: the tables of the fan services and \<open>rpc_create_notification\<close>.
  \<^item> \<open>Jobs\<close>, \<open>Jobs_Props\<close>: \<open>src/jobs/jobs.module.ts\<close> and \<open>src/identity/supabase-admin.provider.ts\<close>.
  \<^item> \<open>Push\<close>, \<open>Push_Props\<close>: \<open>src/push/\<close>.
  \<^item> \<open>Calls\<close>, \<open>Calls_Props\<close>: \<open>src/calls/calls.module.ts\<close>, \<open>call-credential.provider.ts\<close>.
  \<^item> \<open>Validation\<close>: the request classes of all \<open>*.dto.ts\<close> files as data, and the global validation pipe.
  \<^item> \<open>Identity\<close>, \<open>Identity_Props\<close>: \<open>src/identity/identity.module.ts\<close> and the admin guard.
  \<^item> \<open>Admin\<close>: the operations of the admin panel, with its routes.
  \<^item> \<open>Throttle\<close>: \<open>src/throttle/throttle.guard.ts\<close>.
  \<^item> \<open>Sql_Text\<close>, \<open>Doctor\<close>, \<open>Scripts\<close>: \<open>scripts/db-doctor.mjs\<close> with the checks it runs, \<open>migrate.mjs\<close>, \<open>make-admin.mjs\<close>.
  \<^item> \<open>Env\<close>: \<open>src/config/env.ts\<close>.  \<open>Media\<close>: \<open>src/storage/\<close>, with the locale \<open>storage_provider\<close>.
  \<^item> \<open>Catalog\<close>, \<open>Discovery\<close>, \<open>Discovery_Props\<close>: \<open>src/catalog/\<close> and \<open>src/discovery/\<close>.
  \<^item> \<open>Messaging\<close>, \<open>Messaging_Money\<close>, \<open>Messaging_Props\<close>: \<open>src/messaging/\<close> with the functions that open, answer, expire and settle questions.
  \<^item> \<open>Shoutouts\<close>, \<open>Shoutout_Money\<close>, \<open>Shoutout_Props\<close>: \<open>src/shoutouts/\<close> and the life cycle of migration 0061.
  \<^item> \<open>Earnings\<close>, \<open>Earnings_Props\<close>: \<open>src/earnings/\<close>, payout batches and their closing.
  \<^item> \<open>Trust\<close>, \<open>Trust_Props\<close>: \<open>src/trust/\<close> and \<open>src/notifications/\<close>.
  \<^item> \<open>Routes\<close>, \<open>Routes_Props\<close>: the route table of all controllers, \<open>app.module.ts\<close>, the pipeline of \<open>main.ts\<close> and the wallet's
    controller.  The router of Express is a parameter of which \<open>router_ok\<close> says what it documents.
  \<^item> \<open>Availability\<close>, \<open>Bookings\<close>, \<open>Call_Attempts\<close>, \<open>Booking_Close\<close>: \<open>src/availability/\<close> and the functions behind the calls module: price,
    book, cancel (\<open>Bookings\<close>); ready, ring, join, beat, complete, miss (\<open>Call_Attempts\<close>); the end of the day, settlement and
    the administrators' hatches (\<open>Booking_Close\<close>).
  \<^item> \<open>Booking_Money\<close>, \<open>Booking_Props\<close>, \<open>Booking_Hatches\<close>, \<open>Call_Time\<close>, \<open>Booking_Undo\<close>: what holds of them.  The locale \<open>booking_contract\<close> is the contract
    of the functions that fans, partners and sweeps call, \<open>booking_books\<close> extends it by the administrators'; the first is
    interpreted by the time a call ran, the second by the escrow.
  \<^item> \<open>Panel\<close>, \<open>Panel_Lists\<close>, \<open>Panel_Props\<close>: \<open>src/admin/admin-dashboard.module.ts\<close>, the reads of the other panel modules with their
    SQL views, and \<open>src/referrals/\<close>.
  \<^item> \<open>Schema\<close>: \<open>src/db/schema.ts\<close> as data, beside the statements of the migrations that create and alter the same tables.

  What is shown.  Units of work are atomic, and an error that is caught still loses the transaction.  The
  ledger balances after any sequence of wallet operations and every order is credited exactly once; a captured
  payment credits exactly its fan; forged and replayed deliveries change nothing; the prepaid ceiling holds at
  every recorded order.  The gateway keeps its registry bounded and consistent in every reachable state, gives
  connections only verified identities, and an event reaches exactly the open sockets of its two parties; the
  event source is healthy only after a probe came back and never stops making progress.  Sweeps treat items
  independently and agree with a reference definition; questions are refunded once.  A credential is minted for the
  parties of a meeting only; accepted bodies keep the tables well
  typed; the admin panel acts only for administrators; the rate limiter admits exactly the limit.

  Money that is held.  For questions, video requests and bookings the escrow holds exactly what was neither returned nor paid,
  under every interleaving of the operations, and an item is returned or paid at most once; asking charges exactly the price of the
  path taken; a video request has one free correction; payouts conserve earnings.  A call is completed only when its
  attempts add up to the booked time; cancelling a booking undoes it.  The doctor of the database reports no violation after any sequence of
  wallet operations, and names every violation there is.
  Some theorems show where the code fails: two overlapping withdrawals pay the same earnings twice; an administrator's
  expiry pays a closed booking again, a partial split with a negative share pays too much, and recovering a call strands its money;
  a cancelled booking uses up its promo code.

  People and the surface.  A block stops questions both ways and, if it is of everything, video requests; the feed finds exactly what a search
  matches and its pages cut one list; a public page is found or refused with a defined error; a request reaches exactly the handler of its
  route after every guard, or changes nothing.  The dashboard agrees with the screens behind it and with the ledger; the
  table declarations mirror the migrations, but for two columns.

  Conventions.  Third-party code is a parameter: \<open>jose\<close>, the \<open>ws\<close> and \<open>postgres\<close> clients, HMAC, the Razorpay client, FCM and
  OneSignal, the Agora token builder, the AWS client, Express, the decorators of class-validator.  In the theories that do not define them SQL functions
  are one parameter \<open>F\<close>, from a name and arguments to a statement, so the theorems
  hold whatever they do.  What other sessions commit between two units of work of a loop is a
  parameter \<open>others\<close>.  Effects outside the database are entries of a log that no rollback undoes.  Row identifiers are numbers handed out
  in order; times are milliseconds unless said otherwise; JSON numbers are integers; text is its UTF-8 bytes.
  Double arithmetic is exact arithmetic followed by a rounding \<open>rnd\<close> of which \<open>double_ok\<close> states what IEEE 754 gives.  There is
  no fuel: every loop is structural or has a measure.  A database is a record that extends the one of the components it builds on, so
  that an operation of one component runs on the tables of another.

  Not modelled.  Locks and isolation inside a unit of work: one unit of work is one step, but for the withdrawals, which are split into
  their read and their write.  Log lines.  Row level security, where a read is not restricted by its own condition: what it leaves to a
  session that is no administrator's is a parameter of the panel's reads.  The counts of reports against a person.  Options of the database
  client (pool size, how it parses \<open>int8\<close>) and the reading of \<open>.env\<close> files by the scripts.  Migrations whose functions no modelled
  operation reaches.
\<close>

end
